(* ===== verification/Js_Base.thy ===== *)
theory Js_Base
  imports Main "HOL-Library.Sublist" "HOL-Library.Char_ord" "HOL-Library.List_Lexorder"
    "HOL-Library.Multiset"
begin

text \<open>
  The part of the JavaScript string and array library that the modelled code calls, with the
  lemmas the components share.

  A JavaScript string is a sequence of UTF-16 code units. Here it is a \<^typ>\<open>string\<close>, whose
  characters are the code units below 256 (Latin-1): the theorems are about text over those.
  An exception is a value \<open>Inl message\<close> of type \<open>'a result\<close>, with the message the code
  gives to \<open>new Error\<close>.
\<close>

type_synonym 'a result = "string + 'a"

named_theorems js_simps
named_theorems js_defs

subsection \<open>Characters\<close>

abbreviation LF :: char where "LF \<equiv> CHR 0x0A"
abbreviation CR :: char where "CR \<equiv> CHR 0x0D"
abbreviation SP :: char where "SP \<equiv> CHR 0x20"
abbreviation DQ :: char where "DQ \<equiv> CHR 0x22"
abbreviation SQ :: char where "SQ \<equiv> CHR 0x27"

definition nl :: string where "nl = [LF]"

text \<open>The white space of \<open>String.prototype.trim\<close> and of \<open>\s\<close> below 256.\<close>

definition is_ws :: "char \<Rightarrow> bool" where
  "is_ws c \<longleftrightarrow> c = SP \<or> c = LF \<or> c = CR \<or> c = CHR 0x09 \<or> c = CHR 0x0B \<or> c = CHR 0x0C
     \<or> c = CHR 0xA0"

text \<open>The characters that a regular expression's \<open>.\<close> does not match.\<close>

definition is_term :: "char \<Rightarrow> bool" where
  "is_term c \<longleftrightarrow> c = LF \<or> c = CR"

definition is_digit :: "char \<Rightarrow> bool" where
  "is_digit c \<longleftrightarrow> (48::nat) \<le> of_char c \<and> of_char c \<le> (57::nat)"

definition is_upper :: "char \<Rightarrow> bool" where
  "is_upper c \<longleftrightarrow> (65::nat) \<le> of_char c \<and> of_char c \<le> (90::nat)"

definition is_lower :: "char \<Rightarrow> bool" where
  "is_lower c \<longleftrightarrow> (97::nat) \<le> of_char c \<and> of_char c \<le> (122::nat)"

definition is_alpha :: "char \<Rightarrow> bool" where
  "is_alpha c \<longleftrightarrow> is_upper c \<or> is_lower c"

text \<open>\<open>toLowerCase\<close> on one code unit: ASCII letters and the Latin-1 capitals.\<close>

definition lower_char :: "char \<Rightarrow> char" where
  "lower_char c =
     (let n = of_char c :: nat
      in if (65 \<le> n \<and> n \<le> 90) \<or> (192 \<le> n \<and> n \<le> 222 \<and> n \<noteq> 215) then char_of (n + 32) else c)"

definition toLowerCase :: "string \<Rightarrow> string" where
  "toLowerCase s = map lower_char s"

lemma is_ws_simps [simp]:
  "is_ws SP" "is_ws LF" "is_ws CR" "is_ws (CHR 0x09)"
  by (simp_all add: is_ws_def)

lemma is_term_ws: "is_term c \<Longrightarrow> is_ws c"
  by (auto simp: is_term_def is_ws_def)

lemma digit_not_ws: "is_digit c \<Longrightarrow> \<not> is_ws c"
  by (auto simp: is_digit_def is_ws_def)

lemma alpha_not_ws: "is_alpha c \<Longrightarrow> \<not> is_ws c"
  by (auto simp: is_alpha_def is_upper_def is_lower_def is_ws_def)

subsection \<open>Trimming\<close>

definition trimStart :: "string \<Rightarrow> string" where
  "trimStart s = dropWhile is_ws s"

definition trimEnd :: "string \<Rightarrow> string" where
  "trimEnd s = rev (dropWhile is_ws (rev s))"

definition trim :: "string \<Rightarrow> string" where
  "trim s = trimEnd (trimStart s)"

lemma trimEnd_Nil [simp]: "trimEnd [] = []" and trim_Nil [simp]: "trim [] = []"
  and trimStart_Nil [simp]: "trimStart [] = []"
  by (simp_all add: trimEnd_def trim_def trimStart_def)

lemma trimEnd_snoc [simp]: "trimEnd (s @ [c]) = (if is_ws c then trimEnd s else s @ [c])"
  by (simp add: trimEnd_def)

lemma trimEnd_single [simp]: "trimEnd [c] = (if is_ws c then [] else [c])"
  by (simp add: trimEnd_def)

lemma trimEnd_append_nonws: "\<not> is_ws c \<Longrightarrow> trimEnd (s @ c # t) = s @ trimEnd (c # t)"
  by (induction t rule: rev_induct) (auto simp flip: append_Cons append_assoc)

lemma trimEnd_idem [simp]: "trimEnd (trimEnd s) = trimEnd s"
  by (simp add: trimEnd_def)

lemma trimEnd_all_ws: "(\<forall>c \<in> set s. is_ws c) \<Longrightarrow> trimEnd s = []"
  by (simp add: trimEnd_def)

lemma trimEnd_append_all_ws: "(\<forall>c \<in> set w. is_ws c) \<Longrightarrow> trimEnd (s @ w) = trimEnd s"
  by (induction w rule: rev_induct) (auto simp flip: append_assoc)

lemma trimEnd_eq_Nil_iff: "trimEnd s = [] \<longleftrightarrow> (\<forall>c \<in> set s. is_ws c)"
  by (simp add: trimEnd_def)

lemma trimEnd_decomp: "\<exists>w. s = trimEnd s @ w \<and> (\<forall>c \<in> set w. is_ws c)"
proof (induction s rule: rev_induct)
  case Nil
  then show ?case by simp
next
  case (snoc c s)
  then show ?case by (auto intro!: exI [of _ "_ @ [c]"])
qed

lemma trimEnd_Cons: "\<not> is_ws c \<Longrightarrow> trimEnd (c # s) = c # trimEnd s"
  by (induction s rule: rev_induct) (auto simp flip: append_Cons)

lemma trimEnd_ident: "s = [] \<or> \<not> is_ws (last s) \<Longrightarrow> trimEnd s = s"
  by (cases s rule: rev_cases) auto

lemma last_trimEnd: "trimEnd s \<noteq> [] \<Longrightarrow> \<not> is_ws (last (trimEnd s))"
  by (induction s rule: rev_induct) (auto split: if_splits)

lemma trim_ident:
  "s = [] \<or> (\<not> is_ws (hd s) \<and> \<not> is_ws (last s)) \<Longrightarrow> trim s = s"
  by (cases s) (auto simp: trim_def trimStart_def intro: trimEnd_ident)

lemma trim_eq_Nil_iff: "trim s = [] \<longleftrightarrow> (\<forall>c \<in> set s. is_ws c)"
  unfolding trim_def trimStart_def trimEnd_eq_Nil_iff
  by (metis dropWhile_eq_Nil_conv hd_dropWhile hd_in_set set_dropWhileD)

lemma trim_ws_prefix: "(\<forall>c \<in> set w. is_ws c) \<Longrightarrow> trim (w @ s) = trim s"
  by (simp add: trim_def trimStart_def dropWhile_append2)

lemma hd_trimStart: "trimStart s \<noteq> [] \<Longrightarrow> \<not> is_ws (hd (trimStart s))"
  unfolding trimStart_def by (rule hd_dropWhile)

lemma hd_trimEnd: "trimEnd s \<noteq> [] \<Longrightarrow> hd (trimEnd s) = hd s"
  by (metis trimEnd_decomp hd_append2)

lemma trim_hd_last:
  "trim s \<noteq> [] \<Longrightarrow> \<not> is_ws (hd (trim s)) \<and> \<not> is_ws (last (trim s))"
  by (metis hd_trimEnd hd_trimStart last_trimEnd trim_def trimEnd_Nil)

lemma trim_idem [simp]: "trim (trim s) = trim s"
  by (rule trim_ident) (use trim_hd_last in blast)

lemma set_trimEnd: "set (trimEnd s) \<subseteq> set s"
  by (metis set_append trimEnd_decomp sup_ge1)

lemma set_trim: "set (trim s) \<subseteq> set s"
  unfolding trim_def trimStart_def
  by (meson set_dropWhileD set_trimEnd subset_iff)

subsection \<open>Lines: \<open>split(/\r?\n/)\<close> and \<open>join("\n")\<close>\<close>

fun split_lines :: "string \<Rightarrow> string list" where
  "split_lines [] = [[]]"
| "split_lines (c # cs) =
     (if c = LF then [] # split_lines cs
      else if c = CR \<and> cs \<noteq> [] \<and> hd cs = LF then [] # split_lines (tl cs)
      else (case split_lines cs of [] \<Rightarrow> [[c]] | l # ls \<Rightarrow> (c # l) # ls))"

fun join :: "string \<Rightarrow> string list \<Rightarrow> string" where
  "join sep [] = []"
| "join sep [x] = x"
| "join sep (x # y # ys) = x @ sep @ join sep (y # ys)"

abbreviation join_lines :: "string list \<Rightarrow> string" where
  "join_lines \<equiv> join nl"

text \<open>A line that survives being written with \<open>join("\n")\<close> and read back.\<close>

definition clean_line :: "string \<Rightarrow> bool" where
  "clean_line l \<longleftrightarrow> LF \<notin> set l \<and> CR \<notin> set l"

definition clean_lines :: "string list \<Rightarrow> bool" where
  "clean_lines ls \<longleftrightarrow> (\<forall>l \<in> set ls. clean_line l)"

lemma split_lines_not_Nil [simp]: "split_lines s \<noteq> []"
  by (induction s rule: split_lines.induct) (auto split: list.splits)

lemma split_lines_clean_line [simp]: "clean_line l \<Longrightarrow> split_lines l = [l]"
  by (induction l) (auto simp: clean_line_def)

lemma split_lines_append: "clean_line l \<Longrightarrow> split_lines (l @ LF # s) = l # split_lines s"
proof (induction l)
  case Nil
  then show ?case by simp
next
  case (Cons c l)
  then have "c \<noteq> LF" "c \<noteq> CR" "clean_line l" by (auto simp: clean_line_def)
  with Cons.IH show ?case by simp
qed

lemma split_join_lines:
  "ls \<noteq> [] \<Longrightarrow> clean_lines ls \<Longrightarrow> split_lines (join_lines ls) = ls"
  by (induction nl ls rule: join.induct) (auto simp: clean_lines_def nl_def split_lines_append)

lemma split_lines_no_LF: "l \<in> set (split_lines s) \<Longrightarrow> LF \<notin> set l"
proof (induction s arbitrary: l rule: split_lines.induct)
  case 1
  then show ?case by simp
next
  case (2 c cs)
  then show ?case by (auto split: if_splits list.splits)
qed

lemma split_lines_char: "l \<in> set (split_lines s) \<Longrightarrow> x \<in> set l \<Longrightarrow> x \<in> set s"
proof (induction s arbitrary: l rule: split_lines.induct)
  case 1
  then show ?case by simp
next
  case (2 c cs)
  then show ?case
    by (cases "split_lines cs") (fastforce split: if_splits dest: list.set_sel(2))+
qed

lemma split_lines_set: "l \<in> set (split_lines s) \<Longrightarrow> set l \<subseteq> set s"
  using split_lines_char by blast

lemma split_lines_clean: "CR \<notin> set s \<Longrightarrow> clean_lines (split_lines s)"
  using split_lines_no_LF split_lines_set by (fastforce simp: clean_lines_def clean_line_def)

lemma join_split_lines: "CR \<notin> set s \<Longrightarrow> join_lines (split_lines s) = s"
proof (induction s)
  case Nil
  then show ?case by simp
next
  case (Cons c s)
  obtain l ls where ls: "split_lines s = l # ls"
    by (cases "split_lines s") auto
  from Cons have IH: "join_lines (l # ls) = s" by (simp add: ls)
  show ?case
  proof (cases "c = LF")
    case True
    then show ?thesis using IH by (simp add: ls) (simp add: nl_def)
  next
    case False
    then show ?thesis using IH Cons.prems by (cases ls) (auto simp: ls)
  qed
qed

lemma join_Cons: "xs \<noteq> [] \<Longrightarrow> join sep (x # xs) = x @ sep @ join sep xs"
  by (cases xs) auto

lemma join_append:
  "xs \<noteq> [] \<Longrightarrow> ys \<noteq> [] \<Longrightarrow> join sep (xs @ ys) = join sep xs @ sep @ join sep ys"
  by (induction sep xs rule: join.induct) (auto simp: join_Cons)

lemma clean_lines_simps [simp]:
  "clean_lines []"
  "clean_lines (l # ls) \<longleftrightarrow> clean_line l \<and> clean_lines ls"
  "clean_lines (ls @ ms) \<longleftrightarrow> clean_lines ls \<and> clean_lines ms"
  by (auto simp: clean_lines_def)

lemma clean_line_simps [simp]:
  "clean_line []"
  "clean_line (c # l) \<longleftrightarrow> c \<noteq> LF \<and> c \<noteq> CR \<and> clean_line l"
  "clean_line (l @ m) \<longleftrightarrow> clean_line l \<and> clean_line m"
  by (auto simp: clean_line_def)

lemma clean_lines_take [simp]: "clean_lines ls \<Longrightarrow> clean_lines (take n ls)"
  and clean_lines_drop [simp]: "clean_lines ls \<Longrightarrow> clean_lines (drop n ls)"
  by (auto simp: clean_lines_def dest: in_set_takeD in_set_dropD)

subsection \<open>Substrings\<close>

abbreviation startsWith :: "string \<Rightarrow> string \<Rightarrow> bool" where
  "startsWith s p \<equiv> prefix p s"

abbreviation endsWith :: "string \<Rightarrow> string \<Rightarrow> bool" where
  "endsWith s p \<equiv> suffix p s"

abbreviation has_sub :: "string \<Rightarrow> string \<Rightarrow> bool" where
  "has_sub s p \<equiv> sublist p s"

text \<open>\<open>s.split(c)\<close> for a separator of one character.\<close>

fun split_on :: "char \<Rightarrow> string \<Rightarrow> string list" where
  "split_on d [] = [[]]"
| "split_on d (c # cs) =
     (if c = d then [] # split_on d cs
      else (case split_on d cs of [] \<Rightarrow> [[c]] | l # ls \<Rightarrow> (c # l) # ls))"

lemma split_on_not_Nil [simp]: "split_on d s \<noteq> []"
  by (induction s) (auto split: list.splits)

lemma split_on_none: "d \<notin> set s \<Longrightarrow> split_on d s = [s]"
  by (induction s) auto

lemma split_on_append: "d \<notin> set s \<Longrightarrow> split_on d (s @ d # t) = s # split_on d t"
  by (induction s) auto

lemma split_on_notin: "x \<in> set (split_on d s) \<Longrightarrow> d \<notin> set x"
  by (induction s arbitrary: x) (auto split: if_splits list.splits)

lemma join_split_on: "join [d] (split_on d s) = s"
proof (induction s)
  case Nil
  then show ?case by simp
next
  case (Cons c s)
  obtain l ls where ls: "split_on d s = l # ls"
    by (cases "split_on d s") auto
  with Cons show ?case by (cases ls) auto
qed

text \<open>\<open>s.split(/[...]+/)\<close> for a separator that is a run of the characters of a class.\<close>

fun split_runs :: "(char \<Rightarrow> bool) \<Rightarrow> string \<Rightarrow> string list" where
  "split_runs p [] = [[]]"
| "split_runs p (c # cs) =
     (if p c then [] # (case cs of [] \<Rightarrow> [[]]
                        | d # _ \<Rightarrow> if p d then tl (split_runs p cs) else split_runs p cs)
      else (case split_runs p cs of [] \<Rightarrow> [[c]] | l # ls \<Rightarrow> (c # l) # ls))"

text \<open>\<open>s.replaceAll(a, b)\<close> for single characters, and \<open>arr.splice(i, k, ...xs)\<close>.\<close>

definition replace_char :: "char \<Rightarrow> char \<Rightarrow> string \<Rightarrow> string" where
  "replace_char a b s = map (\<lambda>c. if c = a then b else c) s"

definition splice_at :: "'a list \<Rightarrow> nat \<Rightarrow> nat \<Rightarrow> 'a list \<Rightarrow> 'a list" where
  "splice_at ls i k xs = take i ls @ xs @ drop (i + k) ls"

lemma clean_lines_splice [simp]:
  "clean_lines ls \<Longrightarrow> clean_lines xs \<Longrightarrow> clean_lines (splice_at ls i k xs)"
  by (simp add: splice_at_def)

definition quoted :: "string \<Rightarrow> string" where
  "quoted s = DQ # s @ [DQ]"

text \<open>\<open>arr.findIndex(p)\<close>, with \<open>None\<close> for \<open>-1\<close>.\<close>

fun find_index :: "('a \<Rightarrow> bool) \<Rightarrow> 'a list \<Rightarrow> nat option" where
  "find_index p [] = None"
| "find_index p (x # xs) = (if p x then Some 0 else map_option Suc (find_index p xs))"

lemma find_index_Some:
  "find_index p xs = Some i \<Longrightarrow> i < length xs \<and> p (xs ! i) \<and> (\<forall>j<i. \<not> p (xs ! j))"
proof (induction xs arbitrary: i)
  case Nil
  then show ?case by simp
next
  case (Cons x xs)
  show ?case
  proof (cases "p x")
    case True
    with Cons.prems show ?thesis by auto
  next
    case False
    with Cons.prems obtain k where "find_index p xs = Some k" "i = Suc k" by auto
    with Cons.IH [of k] False show ?thesis
      by (auto simp: less_Suc_eq_0_disj)
  qed
qed

lemma find_index_None: "find_index p xs = None \<longleftrightarrow> (\<forall>x \<in> set xs. \<not> p x)"
  by (induction xs) auto

text \<open>\<open>[...new Set(xs)]\<close>: the distinct elements, in the order they first occur.\<close>

definition uniq :: "'a list \<Rightarrow> 'a list" where
  "uniq xs = rev (remdups (rev xs))"

lemma set_uniq [simp]: "set (uniq xs) = set xs" and distinct_uniq [simp]: "distinct (uniq xs)"
  by (simp_all add: uniq_def)

lemma uniq_ident: "distinct xs \<Longrightarrow> uniq xs = xs"
  by (simp add: uniq_def distinct_remdups_id)

lemma uniq_Nil_iff [simp]: "uniq xs = [] \<longleftrightarrow> xs = []"
  by (simp add: uniq_def)

text \<open>Decimal digits of a natural number: \<open>String(n)\<close>.\<close>

fun nat_str :: "nat \<Rightarrow> string" where
  "nat_str n = (if n < 10 then [char_of (48 + n)] else nat_str (n div 10) @ [char_of (48 + n mod 10)])"

declare nat_str.simps [simp del]

definition int_str :: "int \<Rightarrow> string" where
  "int_str i = (if i < 0 then CHR ''-'' # nat_str (nat (- i)) else nat_str (nat i))"

definition digit_val :: "char \<Rightarrow> nat" where
  "digit_val c = of_char c - 48"

definition digits_val :: "string \<Rightarrow> nat" where
  "digits_val s = foldl (\<lambda>n c. 10 * n + digit_val c) 0 s"

lemma digit_char: "d < 10 \<Longrightarrow> is_digit (char_of (48 + d)) \<and> digit_val (char_of (48 + d :: nat)) = d"
  by (simp add: is_digit_def digit_val_def of_char_of)

lemma nat_str_digits: "nat_str n \<noteq> [] \<and> (\<forall>c \<in> set (nat_str n). is_digit c)"
proof (induction n rule: nat_str.induct)
  case (1 n)
  then show ?case
    using digit_char [of n] digit_char [of "n mod 10"] by (subst (1 2) nat_str.simps) auto
qed

lemma digits_val_nat_str [simp]: "digits_val (nat_str n) = n"
proof (induction n rule: nat_str.induct)
  case (1 n)
  then show ?case
    using digit_char [of n] digit_char [of "n mod 10"]
    by (subst nat_str.simps) (auto simp: digits_val_def)
qed

lemma nat_str_inj: "nat_str m = nat_str n \<Longrightarrow> m = n"
  by (metis digits_val_nat_str)

end
