(* ===== verification/Js_Sort.thy ===== *)
theory Js_Sort
  imports Js_Base
begin

text \<open>
  \<open>Array.prototype.sort\<close> with a comparison function. The language requires the sort to be
  stable; with a consistent comparison function the result is then determined, and an insertion
  sort computes it. \<open>localeCompare\<close> is the host's collation: a parameter \<open>lc\<close> of the
  definitions that use it, about which only consistency is ever assumed (the locale
  \<open>comparator\<close>). The instance used by the witnesses is the order by code units,
  \<open>unit_compare\<close>, which is also what \<open>sort()\<close> without an argument uses.
\<close>

fun sort_insert :: "('a \<Rightarrow> 'a \<Rightarrow> int) \<Rightarrow> 'a \<Rightarrow> 'a list \<Rightarrow> 'a list" where
  "sort_insert cmp x [] = [x]"
| "sort_insert cmp x (y # ys) = (if cmp x y \<le> 0 then x # y # ys else y # sort_insert cmp x ys)"

definition js_sort :: "('a \<Rightarrow> 'a \<Rightarrow> int) \<Rightarrow> 'a list \<Rightarrow> 'a list" where
  "js_sort cmp xs = foldr (sort_insert cmp) xs []"

lemma js_sort_simps [simp]:
  "js_sort cmp [] = []"
  "js_sort cmp (x # xs) = sort_insert cmp x (js_sort cmp xs)"
  by (simp_all add: js_sort_def)

lemma mset_sort_insert [simp]: "mset (sort_insert cmp x ys) = add_mset x (mset ys)"
  by (induction ys) auto

lemma mset_js_sort [simp]: "mset (js_sort cmp xs) = mset xs"
  by (induction xs) auto

lemma set_js_sort [simp]: "set (js_sort cmp xs) = set xs"
  by (metis mset_js_sort set_mset_mset)

lemma length_js_sort [simp]: "length (js_sort cmp xs) = length xs"
  by (metis mset_js_sort size_mset)

lemma distinct_js_sort [simp]: "distinct (js_sort cmp xs) = distinct xs"
  by (metis distinct_count_atmost_1 mset_js_sort set_js_sort)

lemma distinct_map_js_sort: "distinct (map f xs) \<Longrightarrow> distinct (map f (js_sort cmp xs))"
  by (metis mset_js_sort mset_map mset_eq_imp_distinct_iff)

locale comparator =
  fixes cmp :: "'a \<Rightarrow> 'a \<Rightarrow> int"
  assumes cmp_refl: "cmp x x = 0"
    and cmp_swap: "cmp x y < 0 \<longleftrightarrow> 0 < cmp y x"
    and cmp_trans: "cmp x y \<le> 0 \<Longrightarrow> cmp y z \<le> 0 \<Longrightarrow> cmp x z \<le> 0"
begin

lemma cmp_total: "\<not> cmp x y \<le> 0 \<Longrightarrow> cmp y x < 0"
  using cmp_swap by auto

lemma sorted_sort_insert:
  "sorted_wrt (\<lambda>a b. cmp a b \<le> 0) ys \<Longrightarrow> sorted_wrt (\<lambda>a b. cmp a b \<le> 0) (sort_insert cmp x ys)"
proof (induction ys)
  case Nil
  then show ?case by simp
next
  case (Cons y ys)
  have "set (sort_insert cmp x ys) = insert x (set ys)"
    by (metis mset_sort_insert set_mset_add_mset_insert set_mset_mset)
  with Cons cmp_total [of x y] show ?case by (auto intro: cmp_trans)
qed

lemma sorted_js_sort: "sorted_wrt (\<lambda>a b. cmp a b \<le> 0) (js_sort cmp xs)"
  by (induction xs) (auto intro: sorted_sort_insert)

lemma sort_insert_stable:
  "filter (\<lambda>y. cmp y k = 0) (sort_insert cmp x ys) =
   (if cmp x k = 0 then x # filter (\<lambda>y. cmp y k = 0) ys else filter (\<lambda>y. cmp y k = 0) ys)"
  if "sorted_wrt (\<lambda>a b. cmp a b \<le> 0) ys"
  using that
proof (induction ys)
  case Nil
  then show ?case by simp
next
  case (Cons y ys)
  have "\<not> cmp x y \<le> 0 \<Longrightarrow> cmp x k = 0 \<Longrightarrow> cmp y k \<noteq> 0"
    by (metis cmp_swap cmp_trans linorder_not_less order_refl)
  with Cons show ?case by auto
qed

lemma js_sort_stable:
  "filter (\<lambda>y. cmp y k = 0) (js_sort cmp xs) = filter (\<lambda>y. cmp y k = 0) xs"
  by (induction xs) (auto simp: sort_insert_stable sorted_js_sort)

lemma js_sort_ident: "sorted_wrt (\<lambda>a b. cmp a b \<le> 0) xs \<Longrightarrow> js_sort cmp xs = xs"
proof (induction xs)
  case Nil
  then show ?case by simp
next
  case (Cons x xs)
  then show ?case by (cases xs) auto
qed

lemma comparator_on: "comparator (\<lambda>x y. cmp (f x) (f y))"
  by unfold_locales (auto simp: cmp_refl cmp_swap intro: cmp_trans)

end

subsection \<open>Comparison functions built from others\<close>

definition int_compare :: "int \<Rightarrow> int \<Rightarrow> int" where
  "int_compare a b = a - b"

interpretation int_cmp: comparator int_compare
  by unfold_locales (auto simp: int_compare_def)

definition unit_compare :: "string \<Rightarrow> string \<Rightarrow> int" where
  "unit_compare a b = (if a < b then -1 else if a = b then 0 else 1)"

interpretation unit_cmp: comparator unit_compare
  by unfold_locales (auto simp: unit_compare_def split: if_splits)

text \<open>\<open>c1(x, y) || c2(x, y)\<close>: the second comparison decides where the first gives 0.\<close>

definition compare_then :: "('a \<Rightarrow> 'a \<Rightarrow> int) \<Rightarrow> ('a \<Rightarrow> 'a \<Rightarrow> int) \<Rightarrow> 'a \<Rightarrow> 'a \<Rightarrow> int" where
  "compare_then c1 c2 x y = (if c1 x y \<noteq> 0 then c1 x y else c2 x y)"

lemma comparator_then:
  assumes c1: "comparator c1" and c2: "comparator c2"
  shows "comparator (compare_then c1 c2)"
proof
  note c1' = comparator.cmp_refl [OF c1] comparator.cmp_swap [OF c1]
    comparator.cmp_trans [OF c1]
  note c2' = comparator.cmp_refl [OF c2] comparator.cmp_swap [OF c2] comparator.cmp_trans [OF c2]
  fix x y z :: 'a
  show "compare_then c1 c2 x x = 0"
    by (simp add: compare_then_def c1' c2')
  have sw: "c1 a b = 0 \<longleftrightarrow> c1 b a = 0" for a b
    by (metis c1'(2) linorder_neqE_linordered_idom less_irrefl)
  show "compare_then c1 c2 x y < 0 \<longleftrightarrow> 0 < compare_then c1 c2 y x"
    using sw [of x y] c1'(2) [of x y] c2'(2) [of x y] by (auto simp: compare_then_def)
  assume xy: "compare_then c1 c2 x y \<le> 0" and yz: "compare_then c1 c2 y z \<le> 0"
  have le: "c1 x y \<le> 0" "c1 y z \<le> 0"
    using xy yz by (auto simp: compare_then_def split: if_splits)
  then have xz: "c1 x z \<le> 0" by (rule c1'(3))
  show "compare_then c1 c2 x z \<le> 0"
  proof (cases "c1 x z = 0")
    case False
    with xz show ?thesis by (simp add: compare_then_def)
  next
    case True
    then have "c1 z x \<le> 0" using sw [of x z] by simp
    then have "c1 y x \<le> 0" "c1 z y \<le> 0" using le c1'(3) by blast+
    then have "c1 x y = 0" "c1 y z = 0"
      using le c1'(2) by (metis linorder_not_less order_antisym_conv not_less_iff_gr_or_eq)+
    with xy yz True c2'(3) show ?thesis by (auto simp: compare_then_def)
  qed
qed

end
