(* ===== verification/Yaml_Edit.thy ===== *)
theory Yaml_Edit
  imports Js_Base
begin

text \<open>
  The line-based YAML editor of \<open>dashboard/packages/api/src/routers/dashboard.ts\<close>: it finds,
  appends, replaces and deletes the block of one route inside the \<open>services\<close> or
  \<open>topics\<close> section of a module's \<open>config.yaml\<close> (two levels deep, under
  \<open>communication:\<close>) or of a service's \<open>public/interfaces.yaml\<close> (top level).
  Line numbers are list positions; \<open>null\<close> is \<^const>\<open>None\<close>.
\<close>

datatype communicationSection = Services | Topics

fun section_word :: "communicationSection \<Rightarrow> string" where
  "section_word Services = ''services''"
| "section_word Topics = ''topics''"

subsection \<open>Lines\<close>

record line_info =
  indent :: nat
  trimmed :: string

definition countLeadingSpaces :: "string \<Rightarrow> nat" where
  "countLeadingSpaces value = length (takeWhile (\<lambda>c. c = SP) value)"

text \<open>
  The inline comment is the first match of \<open>\s+#.*$\<close>: white space, then \<open>#\<close>, then
  no line terminator up to the end.
\<close>

definition comment_tail :: "string \<Rightarrow> bool" where
  "comment_tail s \<longleftrightarrow>
     (case s of [] \<Rightarrow> False | c # r \<Rightarrow> c = CHR ''#'' \<and> (\<forall>x \<in> set r. \<not> is_term x))"

fun stripInlineComment :: "string \<Rightarrow> string" where
  "stripInlineComment [] = []"
| "stripInlineComment (c # cs) =
     (if is_ws c \<and> comment_tail (dropWhile is_ws cs) then [] else c # stripInlineComment cs)"

definition lineInfo :: "string \<Rightarrow> line_info" where
  "lineInfo line =
     (let withoutComment = stripInlineComment line
      in \<lparr>indent = countLeadingSpaces withoutComment, trimmed = trim withoutComment\<rparr>)"

definition scalarValue :: "string \<Rightarrow> string" where
  "scalarValue value =
     (let t = trim value
      in if (startsWith t [DQ] \<and> endsWith t [DQ]) \<or> (startsWith t [SQ] \<and> endsWith t [SQ])
         then tl (butlast t) else t)"

definition replaceLineRange :: "string list \<Rightarrow> nat \<Rightarrow> nat \<Rightarrow> string option \<Rightarrow> string" where
  "replaceLineRange lines start end replacement =
     (let replacementLines =
            (case replacement of
               None \<Rightarrow> []
             | Some r \<Rightarrow> if r = [] then [] else split_lines (trimEnd r))
      in trimEnd (join_lines (splice_at lines start (end - start) replacementLines)) @ nl)"

subsection \<open>Finding a block\<close>

text \<open>A line that ends a block whose parent is at indentation \<open>i\<close>.\<close>

definition stops :: "nat \<Rightarrow> string \<Rightarrow> bool" where
  "stops i l \<longleftrightarrow> trimmed (lineInfo l) \<noteq> [] \<and> indent (lineInfo l) \<le> i"

definition is_child :: "nat \<Rightarrow> string \<Rightarrow> string \<Rightarrow> bool" where
  "is_child i name l \<longleftrightarrow> indent (lineInfo l) = i \<and> trimmed (lineInfo l) = name @ '':''"

text \<open>The inner loop of \<open>yamlChildBlockRange\<close>: how many lines follow the key line.\<close>

fun body_length :: "nat \<Rightarrow> string list \<Rightarrow> nat" where
  "body_length i [] = 0"
| "body_length i (l # ls) = (if stops i l then 0 else Suc (body_length i ls))"

fun find_child :: "nat \<Rightarrow> string \<Rightarrow> nat \<Rightarrow> string list \<Rightarrow> (nat \<times> nat) option" where
  "find_child parentIndent name index [] = None"
| "find_child parentIndent name index (l # ls) =
     (if stops parentIndent l then None
      else if is_child (parentIndent + 2) name l
      then Some (index, index + 1 + body_length (parentIndent + 2) ls)
      else find_child parentIndent name (index + 1) ls)"

definition yamlChildBlockRange ::
  "string list \<Rightarrow> nat \<Rightarrow> nat \<Rightarrow> string \<Rightarrow> (nat \<times> nat) option" where
  "yamlChildBlockRange lines start parentIndent name =
     find_child parentIndent name (start + 1) (drop (start + 1) lines)"

fun section_scan ::
  "communicationSection \<Rightarrow> bool \<Rightarrow> nat \<Rightarrow> string list \<Rightarrow> nat option" where
  "section_scan sec inCommunication index [] = None"
| "section_scan sec inCommunication index (l # ls) =
     (let current = lineInfo l in
      if indent current = 0 \<and> trimmed current = ''communication:''
      then section_scan sec True (index + 1) ls
      else if inCommunication \<and> indent current = 0 \<and> trimmed current \<noteq> [] then None
      else if inCommunication \<and> indent current = 2
              \<and> (trimmed current = section_word sec @ '':''
                 \<or> trimmed current = section_word sec @ '': {}'')
      then Some index
      else section_scan sec inCommunication (index + 1) ls)"

definition communicationSectionStart ::
  "string list \<Rightarrow> communicationSection \<Rightarrow> nat option" where
  "communicationSectionStart lines sec = section_scan sec False 0 lines"

definition unable_to_locate :: "communicationSection \<Rightarrow> string \<Rightarrow> string" where
  "unable_to_locate sec name =
     ''Unable to locate '' @ butlast (section_word sec) @ '' '' @ quoted name @ ''.''"

definition already_exists :: "communicationSection \<Rightarrow> string \<Rightarrow> string" where
  "already_exists sec name =
     butlast (section_word sec) @ '' '' @ quoted name @ '' already exists.''"

definition replaceYamlRouteBlock ::
  "string \<Rightarrow> communicationSection \<Rightarrow> string \<Rightarrow> string option \<Rightarrow> string result" where
  "replaceYamlRouteBlock text sec name replacement =
     (let lines = split_lines text;
          range = (case communicationSectionStart lines sec of
                     None \<Rightarrow> None
                   | Some sectionStart \<Rightarrow> yamlChildBlockRange lines sectionStart 2 name)
      in case range of
           None \<Rightarrow> Inl (unable_to_locate sec name)
         | Some (a, b) \<Rightarrow> Inr (replaceLineRange lines a b replacement))"

definition routeBlockExists :: "string list \<Rightarrow> nat \<Rightarrow> nat \<Rightarrow> string \<Rightarrow> bool" where
  "routeBlockExists lines sectionStart parentIndent name \<longleftrightarrow>
     yamlChildBlockRange lines sectionStart parentIndent name \<noteq> None"

subsection \<open>Inserting a block\<close>

definition ensureBlockSection ::
  "string list \<Rightarrow> nat \<Rightarrow> communicationSection \<Rightarrow> string list" where
  "ensureBlockSection lines sectionStart sec =
     (let current = lineInfo (if sectionStart < length lines then lines ! sectionStart else [])
      in if trimmed current = section_word sec @ '': {}''
         then lines[sectionStart := replicate (indent current) SP @ section_word sec @ '':'']
         else lines)"

definition ensureCommunicationSection ::
  "string list \<Rightarrow> nat \<Rightarrow> communicationSection \<Rightarrow> string list \<times> nat" where
  "ensureCommunicationSection lines communicationStart sec =
     (case communicationSectionStart lines sec of
        Some existing \<Rightarrow> (ensureBlockSection lines existing sec, existing)
      | None \<Rightarrow>
          let sectionStart = communicationStart + 1
                + body_length 0 (drop (communicationStart + 1) lines)
          in (splice_at lines sectionStart 0 [''  '' @ section_word sec @ '':''], sectionStart))"

text \<open>The first loop deletes the blank lines below the section's key.\<close>

definition routeInsertIndex :: "string list \<Rightarrow> nat \<Rightarrow> string list \<times> nat" where
  "routeInsertIndex lines sectionStart =
     (let rest = dropWhile (\<lambda>l. trimmed (lineInfo l) = []) (drop (sectionStart + 1) lines)
      in (take (sectionStart + 1) lines @ rest, sectionStart + 1 + body_length 2 rest))"

definition is_top_key :: "string \<Rightarrow> string \<Rightarrow> bool" where
  "is_top_key key l \<longleftrightarrow> indent (lineInfo l) = 0 \<and> trimmed (lineInfo l) = key @ '':''"

text \<open>The shared opening of the two append functions: find a top-level key or add it.\<close>

definition ensure_top_key :: "string list \<Rightarrow> string \<Rightarrow> string list \<times> nat" where
  "ensure_top_key lines key =
     (case find_index (is_top_key key) lines of
        Some i \<Rightarrow> (lines, i)
      | None \<Rightarrow>
          let lines' = (if lines \<noteq> [] \<and> trim (last lines) \<noteq> [] then lines @ [[]] else lines)
          in (lines' @ [key @ '':''], length lines'))"

definition text_lines :: "string \<Rightarrow> string list" where
  "text_lines text =
     (let trimmedText = trimEnd text
      in if trimmedText = [] then [] else split_lines trimmedText)"

definition appendYamlRouteBlock ::
  "string \<Rightarrow> communicationSection \<Rightarrow> string \<Rightarrow> string \<Rightarrow> string result" where
  "appendYamlRouteBlock text sec name replacement =
     (let (lines0, communicationStart) = ensure_top_key (text_lines text) ''communication'';
          (lines1, sectionStart) = ensureCommunicationSection lines0 communicationStart sec
      in if routeBlockExists lines1 sectionStart 2 name then Inl (already_exists sec name)
         else let (lines2, insertAt) = routeInsertIndex lines1 sectionStart
              in Inr (trimEnd (join_lines
                        (splice_at lines2 insertAt 0 (split_lines (trimEnd replacement)))) @ nl))"

definition appendTopLevelYamlRouteBlock ::
  "string \<Rightarrow> communicationSection \<Rightarrow> string \<Rightarrow> string \<Rightarrow> string result" where
  "appendTopLevelYamlRouteBlock text sec name replacement =
     (let (lines, sectionStart) = ensure_top_key (text_lines text) (section_word sec)
      in if routeBlockExists lines sectionStart 0 name then Inl (already_exists sec name)
         else let insertAt = sectionStart + 1 + body_length 0 (drop (sectionStart + 1) lines)
              in Inr (trimEnd (join_lines
                        (splice_at lines insertAt 0 (split_lines (trimEnd replacement)))) @ nl))"

definition replaceTopLevelYamlBlock ::
  "string \<Rightarrow> communicationSection \<Rightarrow> string \<Rightarrow> string option \<Rightarrow> string result" where
  "replaceTopLevelYamlBlock text sec name replacement =
     (let lines = split_lines text;
          range = (case find_index (is_top_key (section_word sec)) lines of
                     None \<Rightarrow> None
                   | Some sectionStart \<Rightarrow> yamlChildBlockRange lines sectionStart 0 name)
      in case range of
           None \<Rightarrow> Inl (unable_to_locate sec name)
         | Some (a, b) \<Rightarrow> Inr (replaceLineRange lines a b replacement))"

end
