(* ===== verification/Names.thy ===== *)
theory Names
  imports Yaml_Edit Complex_Main
begin

text \<open>
  The readers of untyped JSON values and the validators of names
  (\<open>asStringArray\<close> ... \<open>validateDataFieldName\<close>, \<open>validateRouteName\<close> in
  \<open>dashboard/packages/api/src/routers/dashboard.ts\<close>).

  A value of type \<open>unknown\<close> is a \<open>json\<close>: \<open>JUndefined\<close> is the missing property, a number
  is a rational or \<^const>\<open>None\<close> when it is not finite, an object is its list of entries.
\<close>

datatype json = JUndefined | JNull | JBool bool | JNumber "rat option" | JString string
  | JArray "json list" | JObject "(string \<times> json) list"

definition json_get :: "(string \<times> json) list \<Rightarrow> string \<Rightarrow> json" where
  "json_get r k = (case map_of r k of None \<Rightarrow> JUndefined | Some v \<Rightarrow> v)"

fun asStringArray :: "json \<Rightarrow> string list" where
  "asStringArray (JArray xs) =
     List.map_filter (\<lambda>x. case x of JString s \<Rightarrow> Some s | _ \<Rightarrow> None) xs"
| "asStringArray v = []"

fun asUnknownArray :: "json \<Rightarrow> json list" where
  "asUnknownArray (JArray xs) = xs"
| "asUnknownArray v = []"

fun asRecord :: "json \<Rightarrow> (string \<times> json) list" where
  "asRecord (JObject r) = r"
| "asRecord v = []"

fun asString :: "json \<Rightarrow> string" where
  "asString (JString s) = s"
| "asString v = []"

fun asBoolean :: "json \<Rightarrow> bool \<Rightarrow> bool" where
  "asBoolean (JBool b) fallback = b"
| "asBoolean v fallback = fallback"

fun asFiniteNumber :: "json \<Rightarrow> rat option" where
  "asFiniteNumber (JNumber n) = n"
| "asFiniteNumber v = None"

subsection \<open>Names\<close>

text \<open>\<open>path.sep\<close> is the slash of POSIX.\<close>

definition normalizePath :: "string \<Rightarrow> string" where
  "normalizePath value = join ''/'' (split_on (CHR ''/'') value)"

definition toPackageName :: "string \<Rightarrow> string" where
  "toPackageName value = replace_char (CHR ''-'') (CHR ''_'') value"

definition toServiceName :: "string \<Rightarrow> string" where
  "toServiceName value =
     (let packageName = toPackageName value
      in if endsWith packageName ''_service'' then packageName else packageName @ ''_service'')"

definition is_kebab_char :: "char \<Rightarrow> bool" where
  "is_kebab_char c \<longleftrightarrow> is_lower c \<or> is_digit c"

text \<open>\<open>MODULE_NAME_REGEX\<close>: words of lower-case letters and digits joined by single dashes, the
  first of them starting with a letter.\<close>

definition module_name_match :: "string \<Rightarrow> bool" where
  "module_name_match s \<longleftrightarrow>
     s \<noteq> [] \<and> is_lower (hd s)
     \<and> (\<forall>w \<in> set (split_on (CHR ''-'') s). w \<noteq> [] \<and> (\<forall>c \<in> set w. is_kebab_char c))"

definition pure_numeric_match :: "string \<Rightarrow> bool" where
  "pure_numeric_match s \<longleftrightarrow>
     (\<forall>w \<in> set (split_on (CHR ''-'') s). w \<noteq> [] \<and> (\<forall>c \<in> set w. is_digit c))"

definition validateModuleName :: "string \<Rightarrow> string result" where
  "validateModuleName value =
     (let raw = trim value in
      if raw = []
      then Inl ''Invalid module name. Use lowercase kebab-case, for example: action-planner.''
      else if list_ex is_upper raw
      then Inl (''Invalid module name '' @ quoted value @ ''. Uppercase letters are not allowed.'')
      else if \<not> module_name_match raw \<or> pure_numeric_match raw
      then Inl (''Invalid module name '' @ quoted value @ ''. Use lowercase kebab-case, start with a letter, and avoid underscores, spaces, duplicate separators, or pure numbers.'')
      else Inr raw)"

definition is_word_char :: "char \<Rightarrow> bool" where
  "is_word_char c \<longleftrightarrow> is_alpha c \<or> is_digit c \<or> c = CHR ''_''"

text \<open>\<open>[A-Za-z_][A-Za-z0-9_]*\<close>, the expression of format and field names.\<close>

definition identifier_match :: "string \<Rightarrow> bool" where
  "identifier_match s \<longleftrightarrow> s \<noteq> [] \<and> \<not> is_digit (hd s) \<and> (\<forall>c \<in> set s. is_word_char c)"

definition validateDataFormatName :: "string \<Rightarrow> string result" where
  "validateDataFormatName value =
     (let raw = trim value in
      if \<not> identifier_match raw
      then Inl (''Invalid data format name '' @ quoted value @ ''. Use letters, numbers, and underscores, and start with a letter or underscore.'')
      else Inr raw)"

definition validateDataFieldName :: "string \<Rightarrow> string result" where
  "validateDataFieldName value =
     (let raw = trim value in
      if \<not> identifier_match raw
      then Inl (''Invalid field name '' @ quoted value @ ''. Use letters, numbers, and underscores, and start with a letter or underscore.'')
      else Inr raw)"

definition is_route_name_char :: "char \<Rightarrow> bool" where
  "is_route_name_char c \<longleftrightarrow> is_word_char c \<or> c = CHR ''.'' \<or> c = CHR ''/'' \<or> c = CHR ''-''"

definition route_name_match :: "string \<Rightarrow> bool" where
  "route_name_match s \<longleftrightarrow>
     (case s of [] \<Rightarrow> False
      | c # r \<Rightarrow> (c = CHR ''/'' \<and> r \<noteq> [] \<or> is_alpha c \<or> c = CHR ''_'') \<and> (\<forall>x \<in> set r. is_route_name_char x))"

definition validateRouteName :: "string \<Rightarrow> string result" where
  "validateRouteName value =
     (let name = trim value in
      if \<not> route_name_match name
      then Inl (''Invalid route name '' @ quoted value @ ''. Use letters, numbers, underscores, slashes, dots, or dashes. Names must start with a slash, letter, or underscore.'')
      else Inr name)"

definition routeReference :: "string \<Rightarrow> string \<Rightarrow> string" where
  "routeReference serviceName routeName =
     (if startsWith routeName ''/'' then routeName else serviceName @ ''.'' @ routeName)"

definition ros2RouteAddress :: "string \<Rightarrow> string \<Rightarrow> string" where
  "ros2RouteAddress serviceName routeName =
     (if startsWith routeName ''/'' then routeName else ''/'' @ serviceName @ ''/'' @ routeName)"

end
