(* ===== verification/Route_Parse.thy ===== *)
theory Route_Parse
  imports Yaml_Edit
begin

text \<open>
  The parser that turns a module's \<open>config.yaml\<close> into the route summaries of the dashboard
  (\<open>parseCommunicationRoutes\<close> in \<open>dashboard/packages/api/src/routers/dashboard.ts\<close>). The
  code keeps one mutable state and offers every line to a chain of handlers; a handler that does not
  apply returns \<open>false\<close> and leaves the state alone. Here a handler is a function to
  \<^typ>\<open>'s option\<close>: \<^const>\<open>None\<close> for \<open>false\<close>, \<^const>\<open>Some\<close> of the new state for
  \<open>true\<close>. A field of a \<open>Partial\<close> binding is \<^const>\<open>None\<close> while it is undefined.
\<close>

datatype RouteKind = Service | Topic
datatype RouteStatus = Configured | Single_Binding | Observer_Pending
datatype list_key = Middlewares

record BindingSummary =
  b_address :: string
  b_direction :: string
  b_middleware :: string
  b_queueGroup :: string
  b_queueSize :: string
  b_transport :: string

record PartialBinding =
  p_address :: "string option"
  p_direction :: "string option"
  p_middleware :: "string option"
  p_queueGroup :: "string option"
  p_queueSize :: "string option"
  p_transport :: "string option"

record CommunicationRoute =
  r_bindings :: "BindingSummary list"
  r_configPath :: string
  r_direction :: string
  r_id :: string
  r_kind :: RouteKind
  r_messageType :: string
  r_module :: string
  r_name :: string
  r_status :: RouteStatus

record ParsedLine =
  l_indent :: nat
  l_lineNumber :: nat
  l_raw :: string
  l_trimmed :: string

record CommunicationParseState =
  s_currentBinding :: "PartialBinding option"
  s_currentList :: "list_key option"
  s_inAddresses :: bool
  s_currentRoute :: "CommunicationRoute option"
  s_inCommunication :: bool
  s_routes :: "CommunicationRoute list"
  s_section :: "communicationSection option"

definition empty_binding :: "PartialBinding" where
  "empty_binding = \<lparr>p_address = None, p_direction = None, p_middleware = None, p_queueGroup = None,
     p_queueSize = None, p_transport = None\<rparr>"

text \<open>\<open>a || b\<close> on strings, \<open>a ?? b\<close> on a possibly undefined one, and a chain of the two.\<close>

definition or_else :: "string \<Rightarrow> string \<Rightarrow> string" where
  "or_else a b = (if a = [] then b else a)"

definition nullish :: "'a option \<Rightarrow> 'a \<Rightarrow> 'a" where
  "nullish a b = (case a of None \<Rightarrow> b | Some x \<Rightarrow> x)"

subsection \<open>Lines\<close>

definition is_key_char :: "char \<Rightarrow> bool" where
  "is_key_char c \<longleftrightarrow> is_alpha c \<or> is_digit c \<or> c = CHR ''_'' \<or> c = CHR ''.'' \<or> c = CHR ''-''"

definition is_route_char :: "char \<Rightarrow> bool" where
  "is_route_char c \<longleftrightarrow> is_key_char c \<or> c = CHR ''/''"

definition parseKeyValue :: "string \<Rightarrow> (string \<times> string) option" where
  "parseKeyValue trimmedLine =
     (let key = takeWhile is_key_char trimmedLine
      in case dropWhile is_key_char trimmedLine of
           [] \<Rightarrow> None
         | c # r \<Rightarrow>
             (let v = dropWhile is_ws r
              in if key \<noteq> [] \<and> c = CHR '':'' \<and> (\<forall>x \<in> set v. \<not> is_term x)
                 then Some (key, scalarValue v) else None))"

definition route_key :: "string \<Rightarrow> string option" where
  "route_key l =
     (if l \<noteq> [] \<and> last l = CHR '':'' \<and> butlast l \<noteq> [] \<and> (\<forall>c \<in> set (butlast l). is_route_char c)
      then Some (butlast l) else None)"

definition parsedCommunicationLine :: "string \<Rightarrow> nat \<Rightarrow> ParsedLine option" where
  "parsedCommunicationLine rawLine lineNumber =
     (let line = stripInlineComment rawLine;
          t = trim line
      in if t = [] then None
         else Some \<lparr>l_indent = countLeadingSpaces line, l_lineNumber = lineNumber, l_raw = line,
                l_trimmed = t\<rparr>)"

subsection \<open>Bindings\<close>

definition addressFromBinding :: "'x PartialBinding_scheme \<Rightarrow> string" where
  "addressFromBinding binding = nullish (p_address binding) []"

definition transportFromBinding :: "'x PartialBinding_scheme \<Rightarrow> string" where
  "transportFromBinding binding = nullish (p_transport binding) (nullish (p_middleware binding) [])"

definition routeStatusFromBindings :: "nat \<Rightarrow> RouteStatus" where
  "routeStatusFromBindings bindingCount =
     (if bindingCount > 1 then Observer_Pending
      else if bindingCount = 1 then Single_Binding else Configured)"

text \<open>Update the first binding of a transport, as \<open>bindings.find\<close> and the assignments do.\<close>

fun update_first :: "('a \<Rightarrow> bool) \<Rightarrow> ('a \<Rightarrow> 'a) \<Rightarrow> 'a list \<Rightarrow> 'a list" where
  "update_first p f [] = []"
| "update_first p f (x # xs) = (if p x then f x # xs else x # update_first p f xs)"

definition fill_binding :: "PartialBinding \<Rightarrow> string \<Rightarrow> BindingSummary \<Rightarrow> BindingSummary" where
  "fill_binding binding transport existing = existing\<lparr>
     b_middleware := or_else (b_middleware existing)
       (or_else (nullish (p_middleware binding) []) transport),
     b_address := or_else (b_address existing) (addressFromBinding binding),
     b_direction := or_else (b_direction existing) (nullish (p_direction binding) []),
     b_queueGroup := or_else (b_queueGroup existing) (nullish (p_queueGroup binding) []),
     b_queueSize := or_else (b_queueSize existing) (nullish (p_queueSize binding) [])\<rparr>"

definition new_binding :: "PartialBinding \<Rightarrow> string \<Rightarrow> BindingSummary" where
  "new_binding binding transport = \<lparr>
     b_address = addressFromBinding binding,
     b_direction = nullish (p_direction binding) [],
     b_middleware = nullish (p_middleware binding) transport,
     b_queueGroup = nullish (p_queueGroup binding) [],
     b_queueSize = nullish (p_queueSize binding) [],
     b_transport = transport\<rparr>"

definition appendBinding :: "CommunicationRoute \<Rightarrow> PartialBinding option \<Rightarrow> CommunicationRoute" where
  "appendBinding route binding =
     (case binding of
        None \<Rightarrow> route
      | Some b \<Rightarrow>
          (let transport = transportFromBinding b
           in if transport = [] then route
              else if list_ex (\<lambda>item. b_transport item = transport) (r_bindings route)
              then route\<lparr>r_bindings := update_first (\<lambda>item. b_transport item = transport)
                     (fill_binding b transport) (r_bindings route)\<rparr>
              else route\<lparr>r_bindings := r_bindings route @ [new_binding b transport]\<rparr>))"

subsection \<open>The handlers\<close>

definition section_kind :: "communicationSection \<Rightarrow> RouteKind" where
  "section_kind sec = (if sec = Services then Service else Topic)"

definition createRoute ::
  "string \<Rightarrow> string \<Rightarrow> communicationSection \<Rightarrow> string \<Rightarrow> CommunicationRoute" where
  "createRoute configPath moduleName sec routeName = \<lparr>
     r_bindings = [], r_configPath = configPath, r_direction = [],
     r_id = configPath @ '':'' @ section_word sec @ '':'' @ routeName,
     r_kind = section_kind sec, r_messageType = [],
     r_module = moduleName, r_name = routeName, r_status = Configured\<rparr>"

definition finished_route :: "CommunicationParseState \<Rightarrow> CommunicationRoute \<Rightarrow> CommunicationRoute" where
  "finished_route st r =
     (let r' = appendBinding r (s_currentBinding st)
      in r'\<lparr>r_status := routeStatusFromBindings (length (r_bindings r'))\<rparr>)"

definition completeRoute :: "CommunicationParseState \<Rightarrow> CommunicationParseState" where
  "completeRoute st = st\<lparr>
     s_routes := s_routes st @
       (case s_currentRoute st of None \<Rightarrow> [] | Some r \<Rightarrow> [finished_route st r]),
     s_currentRoute := None, s_currentBinding := None, s_currentList := None,
     s_inAddresses := False\<rparr>"

definition updateCommunicationScope ::
  "CommunicationParseState \<Rightarrow> ParsedLine \<Rightarrow> CommunicationParseState option" where
  "updateCommunicationScope st line =
     (if l_indent line \<noteq> 0 then None
      else let st' = (if s_inCommunication st then completeRoute st else st)
           in Some (st'\<lparr>s_inCommunication := (l_trimmed line = ''communication:''), s_section := None\<rparr>))"

definition updateCommunicationSection ::
  "CommunicationParseState \<Rightarrow> ParsedLine \<Rightarrow> CommunicationParseState option" where
  "updateCommunicationSection st line =
     (if l_indent line \<noteq> 2 \<or> \<not> (l_trimmed line = ''services:'' \<or> l_trimmed line = ''topics:'')
      then None
      else Some ((completeRoute st)\<lparr>s_section :=
             Some (if l_trimmed line = ''services:'' then Services else Topics)\<rparr>))"

definition startRoute ::
  "CommunicationParseState \<Rightarrow> ParsedLine \<Rightarrow> string \<Rightarrow> string \<Rightarrow> CommunicationParseState option" where
  "startRoute st line configPath moduleName =
     (case (route_key (l_trimmed line), s_section st) of
        (Some name, Some sec) \<Rightarrow>
          if l_indent line = 4
          then Some ((completeRoute st)\<lparr>s_currentRoute :=
                 Some (createRoute configPath moduleName sec name)\<rparr>)
          else None
      | _ \<Rightarrow> None)"

definition key_is :: "(string \<times> string) option \<Rightarrow> string \<Rightarrow> bool" where
  "key_is pair k \<longleftrightarrow> (case pair of None \<Rightarrow> False | Some (key, v) \<Rightarrow> key = k)"

definition pair_value :: "(string \<times> string) option \<Rightarrow> string" where
  "pair_value pair = (case pair of None \<Rightarrow> [] | Some (key, v) \<Rightarrow> v)"

text \<open>The binding object that a handler builds for one transport.\<close>

definition transport_binding :: "string option \<Rightarrow> string \<Rightarrow> string \<Rightarrow> PartialBinding" where
  "transport_binding address direction transport = empty_binding\<lparr>p_address := address,
     p_direction := Some direction, p_middleware := Some transport, p_transport := Some transport\<rparr>"

text \<open>What one \<open>key: value\<close> line of a route does to it.\<close>

definition metadata_route :: "(string \<times> string) option \<Rightarrow> CommunicationRoute \<Rightarrow> CommunicationRoute" where
  "metadata_route pair route =
     (let v = pair_value pair;
          route1 = (if key_is pair ''service_type'' \<or> key_is pair ''message_type''
                      \<or> key_is pair ''service_ref'' \<or> key_is pair ''topic_ref''
                    then route\<lparr>r_messageType := v\<rparr> else route);
          route2 = (if key_is pair ''direction'' then route1\<lparr>r_direction := v\<rparr> else route1)
      in if key_is pair ''middleware''
         then appendBinding route2 (Some (transport_binding None (r_direction route2) v))
         else route2)"

definition updateRouteMetadata ::
  "CommunicationParseState \<Rightarrow> ParsedLine \<Rightarrow> CommunicationParseState option" where
  "updateRouteMetadata st line =
     (case s_currentRoute st of
        None \<Rightarrow> None
      | Some route \<Rightarrow>
          if l_indent line \<noteq> 6 then None
          else
            let pair = parseKeyValue (l_trimmed line);
                binding = (if key_is pair ''direction''
                           then map_option (\<lambda>b. b\<lparr>p_direction := Some (pair_value pair)\<rparr>)
                             (s_currentBinding st)
                           else s_currentBinding st)
            in Some (st\<lparr>s_currentRoute := Some (metadata_route pair route), s_currentBinding := binding,
                 s_currentList := (if l_trimmed line = ''middlewares:'' then Some Middlewares else None),
                 s_inAddresses := (l_trimmed line = ''addresses:'')\<rparr>))"

definition is_item :: "ParsedLine \<Rightarrow> bool" where
  "is_item line \<longleftrightarrow> startsWith (l_trimmed line) ''- ''"

definition updateRouteListValue ::
  "CommunicationParseState \<Rightarrow> ParsedLine \<Rightarrow> CommunicationParseState option" where
  "updateRouteListValue st line =
     (case s_currentRoute st of
        None \<Rightarrow> None
      | Some route \<Rightarrow>
          if s_currentList st = Some Middlewares \<and> l_indent line = 8 \<and> is_item line
          then Some (st\<lparr>s_currentRoute := Some (appendBinding route (Some
                 (transport_binding None (r_direction route) (scalarValue (drop 2 (l_trimmed line))))))\<rparr>)
          else None)"

definition address_route :: "string \<Rightarrow> string \<Rightarrow> CommunicationRoute \<Rightarrow> CommunicationRoute" where
  "address_route k v route =
     (let route' = (if r_messageType route = [] then route\<lparr>r_messageType := v\<rparr> else route)
      in appendBinding route' (Some (transport_binding (Some v) (r_direction route') k)))"

definition updateAddressValue ::
  "CommunicationParseState \<Rightarrow> ParsedLine \<Rightarrow> CommunicationParseState option" where
  "updateAddressValue st line =
     (case (s_currentRoute st, parseKeyValue (l_trimmed line)) of
        (Some route, Some (k, v)) \<Rightarrow>
          if s_inAddresses st \<and> l_indent line = 8
          then Some (st\<lparr>s_currentRoute := Some (address_route k v route)\<rparr>)
          else None
      | _ \<Rightarrow> None)"

definition startBinding ::
  "CommunicationParseState \<Rightarrow> ParsedLine \<Rightarrow> CommunicationParseState option" where
  "startBinding st line =
     (case s_currentRoute st of
        None \<Rightarrow> None
      | Some route \<Rightarrow>
          if l_indent line = 8 \<and> is_item line
          then let pair = parseKeyValue (trim (drop 2 (l_trimmed line)))
               in Some (st\<lparr>s_currentRoute := Some (appendBinding route (s_currentBinding st)),
                    s_currentBinding := Some (empty_binding\<lparr>
                      p_transport := (if key_is pair ''transport'' then Some (pair_value pair) else None),
                      p_direction := Some (r_direction route)\<rparr>)\<rparr>)
          else None)"

definition applyBindingValue :: "PartialBinding \<Rightarrow> string \<Rightarrow> string \<Rightarrow> PartialBinding" where
  "applyBindingValue binding key value =
     (if key = ''transport'' then binding\<lparr>p_transport := Some value\<rparr>
      else if key = ''middleware''
      then binding\<lparr>p_middleware := Some value,
             p_transport := Some (nullish (p_transport binding) value)\<rparr>
      else if key = ''subject'' \<or> key = ''service'' \<or> key = ''topic''
      then binding\<lparr>p_address := Some value\<rparr>
      else if key = ''direction'' then binding\<lparr>p_direction := Some value\<rparr>
      else if key = ''queue_group'' then binding\<lparr>p_queueGroup := Some value\<rparr>
      else if key = ''queue_size'' then binding\<lparr>p_queueSize := Some value\<rparr>
      else binding)"

definition updateBinding ::
  "CommunicationParseState \<Rightarrow> ParsedLine \<Rightarrow> CommunicationParseState option" where
  "updateBinding st line =
     (case s_currentBinding st of
        None \<Rightarrow> None
      | Some binding \<Rightarrow>
          if l_indent line \<ge> 10
          then Some (case parseKeyValue (l_trimmed line) of
                 None \<Rightarrow> st
               | Some (k, v) \<Rightarrow> st\<lparr>s_currentBinding := Some (applyBindingValue binding k v)\<rparr>)
          else None)"

text \<open>The first handler that applies gives the new state.\<close>

fun first_handler :: "('s \<Rightarrow> 's option) list \<Rightarrow> 's \<Rightarrow> 's" where
  "first_handler [] st = st"
| "first_handler (h # hs) st = (case h st of None \<Rightarrow> first_handler hs st | Some st' \<Rightarrow> st')"

text \<open>A guard of the chain that returns with the state as it is.\<close>

definition stop_if :: "('s \<Rightarrow> bool) \<Rightarrow> 's \<Rightarrow> 's option" where
  "stop_if p st = (if p st then Some st else None)"

definition parseCommunicationLine ::
  "CommunicationParseState \<Rightarrow> ParsedLine \<Rightarrow> string \<Rightarrow> string \<Rightarrow> CommunicationParseState" where
  "parseCommunicationLine st line configPath moduleName =
     first_handler
       [\<lambda>st. updateCommunicationScope st line,
        stop_if (\<lambda>st. \<not> s_inCommunication st),
        \<lambda>st. updateCommunicationSection st line,
        stop_if (\<lambda>st. s_section st = None),
        \<lambda>st. startRoute st line configPath moduleName,
        \<lambda>st. updateRouteMetadata st line,
        \<lambda>st. updateRouteListValue st line,
        \<lambda>st. updateAddressValue st line,
        \<lambda>st. startBinding st line,
        \<lambda>st. updateBinding st line] st"

definition initial_parse_state :: "CommunicationParseState" where
  "initial_parse_state = \<lparr>s_currentBinding = None, s_currentList = None, s_inAddresses = False,
     s_currentRoute = None, s_inCommunication = False, s_routes = [], s_section = None\<rparr>"

text \<open>The loop over \<open>text.split(...).entries()\<close>.\<close>

fun each_line :: "('s \<Rightarrow> ParsedLine \<Rightarrow> 's) \<Rightarrow> nat \<Rightarrow> string list \<Rightarrow> 's \<Rightarrow> 's" where
  "each_line f i [] st = st"
| "each_line f i (l # ls) st =
     each_line f (Suc i) ls
       (case parsedCommunicationLine l i of None \<Rightarrow> st | Some line \<Rightarrow> f st line)"

definition parseCommunicationRoutes :: "string \<Rightarrow> string \<Rightarrow> string \<Rightarrow> CommunicationRoute list" where
  "parseCommunicationRoutes text configPath moduleName =
     s_routes (completeRoute (each_line (\<lambda>st line. parseCommunicationLine st line configPath moduleName)
       0 (split_lines text) initial_parse_state))"

end
