(* ===== verification/Repo_Files.thy ===== *)
theory Repo_Files
  imports Names Route_Parse Js_Sort
begin

text \<open>
  Paths and the file system as \<open>dashboard/packages/api/src/routers/dashboard.ts\<close> uses them.

  An absolute path is the list of its segments from the root. The file system is a tree whose
  directories keep their entries in the order \<open>readdir\<close> reports them; an entry that is neither a
  file nor a directory (a symbolic link, a socket) is \<open>Other\<close>. The error of a failed system call
  is reduced to its code.
\<close>

type_synonym path = "string list"

datatype node = File string | Dir "(string \<times> node) list" | Other

subsection \<open>Paths\<close>

definition push_segment :: "path \<Rightarrow> string \<Rightarrow> path" where
  "push_segment p s =
     (if s = [] \<or> s = ''.'' then p else if s = ''..'' then butlast p else p @ [s])"

text \<open>\<open>path.join(base, rel)\<close> for an absolute base, and \<open>path.resolve(base, rel)\<close> for a
  relative second argument.\<close>

definition path_join :: "path \<Rightarrow> string \<Rightarrow> path" where
  "path_join base rel = foldl push_segment base (split_on (CHR ''/'') rel)"

definition push_relative :: "path \<Rightarrow> string \<Rightarrow> path" where
  "push_relative p s =
     (if s = [] \<or> s = ''.'' then p
      else if s = ''..'' then (if p = [] \<or> last p = ''..'' then p @ [s] else butlast p)
      else p @ [s])"

definition path_string :: "path \<Rightarrow> string" where
  "path_string p = join ''/'' p"

text \<open>\<open>path.join\<close> of relative paths, which \<open>.\<close> stands for when empty.\<close>

definition join_relative :: "string list \<Rightarrow> string" where
  "join_relative parts =
     (let p = foldl push_relative [] (concat (map (split_on (CHR ''/'')) parts))
      in if p = [] then ''.'' else path_string p)"

fun strip_common :: "path \<Rightarrow> path \<Rightarrow> path \<times> path" where
  "strip_common (x # xs) (y # ys) = (if x = y then strip_common xs ys else (x # xs, y # ys))"
| "strip_common xs ys = (xs, ys)"

definition path_relative :: "path \<Rightarrow> path \<Rightarrow> string" where
  "path_relative source target =
     (let (up, down) = strip_common source target
      in path_string (replicate (length up) ''..'' @ down))"

definition isAbsolute :: "string \<Rightarrow> bool" where
  "isAbsolute p = startsWith p ''/''"

text \<open>\<open>path.basename\<close> of a path string, and of a file with an extension to drop.\<close>

definition basename :: "string \<Rightarrow> string" where
  "basename p =
     (let segs = filter (\<lambda>s. s \<noteq> []) (split_on (CHR ''/'') p) in if segs = [] then [] else last segs)"

definition drop_ext :: "string \<Rightarrow> string \<Rightarrow> string" where
  "drop_ext ext name =
     (if endsWith name ext \<and> name \<noteq> ext then take (length name - length ext) name else name)"

definition MODULE_SERVICE_ROOT :: "string" where "MODULE_SERVICE_ROOT = ''module/service''"
definition IDL_ROOT :: "string" where "IDL_ROOT = ''pkg/idl''"

text \<open>\<open>absoluteRepoPath\<close>: which files the dashboard may edit.\<close>

definition absoluteRepoPath :: "path \<Rightarrow> string \<Rightarrow> string list \<Rightarrow> path result" where
  "absoluteRepoPath repoRoot relativePath allowedRoots =
     (let normalized = normalizePath relativePath in
      if startsWith normalized ''../'' \<or> isAbsolute normalized
      then Inl (''Invalid path outside repository: '' @ relativePath)
      else if \<not> list_ex (\<lambda>root. startsWith normalized (root @ ''/'')) allowedRoots
      then Inl (''Path is not editable from dashboard: '' @ relativePath)
      else
        let absolutePath = path_join repoRoot normalized;
            relative = path_relative repoRoot absolutePath
        in if startsWith relative ''..'' \<or> isAbsolute relative
           then Inl (''Invalid path outside repository: '' @ relativePath)
           else Inr absolutePath)"

subsection \<open>The file system\<close>

fun node_at :: "node \<Rightarrow> path \<Rightarrow> node option" where
  "node_at t [] = Some t"
| "node_at (Dir es) (n # p) = (case map_of es n of None \<Rightarrow> None | Some t \<Rightarrow> node_at t p)"
| "node_at t (n # p) = None"

definition existsSync :: "node \<Rightarrow> path \<Rightarrow> bool" where
  "existsSync fs p \<longleftrightarrow> node_at fs p \<noteq> None"

definition readFile :: "node \<Rightarrow> path \<Rightarrow> string result" where
  "readFile fs p =
     (case node_at fs p of
        None \<Rightarrow> Inl ''ENOENT''
      | Some (File t) \<Rightarrow> Inr t
      | Some (Dir es) \<Rightarrow> Inl ''EISDIR''
      | Some Other \<Rightarrow> Inl ''EIO'')"

definition readdir :: "node \<Rightarrow> path \<Rightarrow> (string \<times> node) list result" where
  "readdir fs p =
     (case node_at fs p of
        None \<Rightarrow> Inl ''ENOENT''
      | Some (Dir es) \<Rightarrow> Inr es
      | Some t \<Rightarrow> Inl ''ENOTDIR'')"

fun put_entry :: "(string \<times> node) list \<Rightarrow> string \<Rightarrow> node \<Rightarrow> (string \<times> node) list" where
  "put_entry [] n t = [(n, t)]"
| "put_entry (e # es) n t = (if fst e = n then (n, t) # es else e # put_entry es n t)"

definition del_entry :: "(string \<times> node) list \<Rightarrow> string \<Rightarrow> (string \<times> node) list" where
  "del_entry es n = filter (\<lambda>e. fst e \<noteq> n) es"

text \<open>\<open>writeFile\<close>: the directory must exist, and the target may not be a directory.\<close>

fun writeFile :: "node \<Rightarrow> path \<Rightarrow> string \<Rightarrow> node result" where
  "writeFile (Dir es) [] text = Inl ''EISDIR''"
| "writeFile t [] text = Inr (File text)"
| "writeFile (Dir es) (n # p) text =
     (case map_of es n of
        None \<Rightarrow> if p = [] then Inr (Dir (put_entry es n (File text))) else Inl ''ENOENT''
      | Some t \<Rightarrow> (case writeFile t p text of Inl e \<Rightarrow> Inl e | Inr t' \<Rightarrow> Inr (Dir (put_entry es n t'))))"
| "writeFile t (n # p) text = Inl ''ENOTDIR''"

text \<open>\<open>mkdir(p, \<lbrace>recursive: true\<rbrace>)\<close>.\<close>

fun mkdir_rec :: "node \<Rightarrow> path \<Rightarrow> node result" where
  "mkdir_rec (Dir es) [] = Inr (Dir es)"
| "mkdir_rec t [] = Inl ''EEXIST''"
| "mkdir_rec (Dir es) (n # p) =
     (case mkdir_rec (case map_of es n of None \<Rightarrow> Dir [] | Some t \<Rightarrow> t) p of
        Inl e \<Rightarrow> Inl e | Inr t' \<Rightarrow> Inr (Dir (put_entry es n t')))"
| "mkdir_rec t (n # p) = Inl ''ENOTDIR''"

text \<open>\<open>rm(p)\<close> and \<open>rm(p, \<lbrace>force: true\<rbrace>)\<close>.\<close>

fun rm_file :: "bool \<Rightarrow> node \<Rightarrow> path \<Rightarrow> node result" where
  "rm_file force t [] = Inl ''EISDIR''"
| "rm_file force (Dir es) [n] =
     (case map_of es n of
        None \<Rightarrow> if force then Inr (Dir es) else Inl ''ENOENT''
      | Some (Dir fs) \<Rightarrow> Inl ''ERR_FS_EISDIR''
      | Some t \<Rightarrow> Inr (Dir (del_entry es n)))"
| "rm_file force (Dir es) (n # m # p) =
     (case map_of es n of
        None \<Rightarrow> if force then Inr (Dir es) else Inl ''ENOENT''
      | Some t \<Rightarrow> (case rm_file force t (m # p) of Inl e \<Rightarrow> Inl e | Inr t' \<Rightarrow> Inr (Dir (put_entry es n t'))))"
| "rm_file force t (n # p) = Inl ''ENOTDIR''"

subsection \<open>Walking\<close>

definition SKIPPED_DIRS :: "string list" where
  "SKIPPED_DIRS = [''.git'', ''node_modules'', ''out'', ''build'', ''install'', ''log'']"

text \<open>
  The two recursive walks differ in the test of a file's name. The depth counts down; a walk of a
  missing directory is empty, one of a file is the error of \<open>readdir\<close>.
\<close>

fun walk_entries :: "(string \<Rightarrow> bool) \<Rightarrow> nat \<Rightarrow> path \<Rightarrow> (string \<times> node) list \<Rightarrow> path list" where
  "walk_entries test depth dir [] = []"
| "walk_entries test depth dir ((n, t) # es) =
     (if n \<in> set SKIPPED_DIRS then []
      else (case t of
              File text \<Rightarrow> if test n then [dir @ [n]] else []
            | Dir sub \<Rightarrow> (case depth of 0 \<Rightarrow> [] | Suc d \<Rightarrow> walk_entries test d (dir @ [n]) sub)
            | Other \<Rightarrow> []))
     @ walk_entries test depth dir es"

definition walk :: "(string \<Rightarrow> bool) \<Rightarrow> node \<Rightarrow> path \<Rightarrow> nat \<Rightarrow> path list result" where
  "walk test fs dir maxDepth =
     (case node_at fs dir of
        None \<Rightarrow> Inr []
      | Some (Dir es) \<Rightarrow> Inr (walk_entries test maxDepth dir es)
      | Some t \<Rightarrow> Inl ''ENOTDIR'')"

definition walkForExtensions :: "node \<Rightarrow> path \<Rightarrow> string list \<Rightarrow> nat \<Rightarrow> path list result" where
  "walkForExtensions fs dir extensions maxDepth =
     walk (\<lambda>n. list_ex (\<lambda>item. endsWith n item) extensions) fs dir maxDepth"

definition walkForFiles :: "node \<Rightarrow> path \<Rightarrow> string \<Rightarrow> nat \<Rightarrow> path list result" where
  "walkForFiles fs dir fileName maxDepth = walk (\<lambda>n. n = fileName) fs dir maxDepth"

definition listFilesWithExtension ::
  "(string \<Rightarrow> string \<Rightarrow> int) \<Rightarrow> node \<Rightarrow> path \<Rightarrow> string \<Rightarrow> string list" where
  "listFilesWithExtension lc fs dir extension =
     (case readdir fs dir of
        Inl e \<Rightarrow> []
      | Inr es \<Rightarrow> js_sort lc (List.map_filter (\<lambda>(n, t). case t of
            File text \<Rightarrow> if endsWith n extension then Some n else None | _ \<Rightarrow> None) es))"

definition findModuleConfigPath :: "node \<Rightarrow> path \<Rightarrow> string \<Rightarrow> path option" where
  "findModuleConfigPath fs repoRoot moduleRoot =
     find (existsSync fs)
       [path_join (path_join repoRoot moduleRoot) ''src/config/config.yaml'',
        path_join (path_join repoRoot moduleRoot) ''config/config.yaml'',
        path_join (path_join repoRoot moduleRoot) ''config.yaml'']"

definition is_repo_root :: "node \<Rightarrow> path \<Rightarrow> bool" where
  "is_repo_root fs candidate \<longleftrightarrow>
     existsSync fs (candidate @ [''module'']) \<and> existsSync fs (candidate @ [''infra''])
     \<and> existsSync fs (candidate @ [''pkg''])"

text \<open>The variable \<open>PACIFIC_RIM_REPO_ROOT\<close> is taken to hold an absolute path.\<close>

definition findRepoRoot :: "string option \<Rightarrow> path \<Rightarrow> node \<Rightarrow> path" where
  "findRepoRoot rootVar cwd fs =
     (if nullish rootVar [] \<noteq> [] then path_join [] (nullish rootVar [])
      else nullish (find (is_repo_root fs) [path_join cwd ''../../..'', path_join cwd ''..'', cwd])
             (path_join cwd ''../../..''))"

end
