(* ===== verification/Keyed_Merge.thy ===== *)
theory Keyed_Merge
  imports Route_Parse
begin

text \<open>
  A \<open>Map\<close> that is filled in a loop: an entry is created for a new key and extended for a known
  one, and \<open>map.values()\<close> lists the entries in the order in which their keys were first seen.
  The monitor builds endpoints, process lists and process groups this way. The locale states what
  creating and extending have to keep, and proves once that the loop is a grouping by key.
\<close>

definition upsert ::
  "('x \<Rightarrow> 'k) \<Rightarrow> ('e \<Rightarrow> 'k) \<Rightarrow> ('x \<Rightarrow> 'e) \<Rightarrow> ('x \<Rightarrow> 'e \<Rightarrow> 'e) \<Rightarrow> 'x \<Rightarrow> 'e list \<Rightarrow> 'e list" where
  "upsert key entry_key create grow x es =
     (if list_ex (\<lambda>e. entry_key e = key x) es
      then update_first (\<lambda>e. entry_key e = key x) (grow x) es
      else es @ [create x])"

text \<open>The entry of the inputs of one key.\<close>

fun combined :: "('x \<Rightarrow> 'e) \<Rightarrow> ('x \<Rightarrow> 'e \<Rightarrow> 'e) \<Rightarrow> 'x list \<Rightarrow> 'e option" where
  "combined create grow [] = None"
| "combined create grow (x # xs) = Some (fold grow xs (create x))"

lemma combined_snoc:
  "combined create grow (xs @ [x]) =
    Some (case combined create grow xs of None \<Rightarrow> create x | Some e \<Rightarrow> grow x e)"
  by (cases xs) auto

lemma combined_None [simp]: "combined create grow xs = None \<longleftrightarrow> xs = []"
  by (cases xs) auto

lemma uniq_snoc: "uniq (xs @ [x]) = (if x \<in> set xs then uniq xs else uniq xs @ [x])"
  by (simp add: uniq_def)

lemma update_first_map:
  "distinct ks \<Longrightarrow> (\<And>k. k \<in> set ks \<Longrightarrow> key (g k) = k) \<Longrightarrow>
    update_first (\<lambda>e. key e = k0) f (map g ks) = map (\<lambda>k. if k = k0 then f (g k) else g k) ks"
  by (induction ks) auto

locale keyed_merge =
  fixes key :: "'x \<Rightarrow> 'k" and entry_key :: "'e \<Rightarrow> 'k" and create :: "'x \<Rightarrow> 'e"
    and grow :: "'x \<Rightarrow> 'e \<Rightarrow> 'e"
  assumes key_create: "entry_key (create x) = key x"
    and key_grow: "entry_key e = key x \<Longrightarrow> entry_key (grow x e) = entry_key e"
begin

definition entry_of :: "'x list \<Rightarrow> 'k \<Rightarrow> 'e" where
  "entry_of xs k = the (combined create grow (filter (\<lambda>x. key x = k) xs))"

lemma key_fold: "(\<forall>x \<in> set xs. key x = entry_key e) \<Longrightarrow> entry_key (fold grow xs e) = entry_key e"
  by (induction xs arbitrary: e) (simp_all add: key_grow)

lemma key_entry_of:
  assumes "k \<in> key ` set xs"
  shows "entry_key (entry_of xs k) = k"
proof -
  obtain x r where xr: "filter (\<lambda>x. key x = k) xs = x # r"
    using assms by (cases "filter (\<lambda>x. key x = k) xs") (auto simp: filter_empty_conv)
  have "\<forall>y \<in> set (x # r). key y = k" unfolding xr [symmetric] by simp
  then show ?thesis using xr by (simp add: entry_of_def key_fold key_create)
qed

lemma entry_of_snoc:
  "entry_of (xs @ [x]) k =
    (if key x \<noteq> k then entry_of xs k
     else if k \<in> key ` set xs then grow x (entry_of xs k) else create x)"
proof (cases "key x = k")
  case True
  have "combined create grow (filter (\<lambda>x. key x = k) xs) = None \<longleftrightarrow> k \<notin> key ` set xs"
    by (auto simp: filter_empty_conv)
  then show ?thesis using True by (auto simp: entry_of_def combined_snoc split: option.splits)
qed (simp add: entry_of_def)

theorem merged: "fold (upsert key entry_key create grow) xs [] = map (entry_of xs) (uniq (map key xs))"
proof (induction xs rule: rev_induct)
  case Nil
  then show ?case by simp
next
  case (snoc x xs)
  have keys: "entry_key (entry_of xs k) = k" if "k \<in> set (uniq (map key xs))" for k
    using that by (intro key_entry_of) simp
  have known: "list_ex (\<lambda>e. entry_key e = key x) (map (entry_of xs) (uniq (map key xs)))
      \<longleftrightarrow> key x \<in> key ` set xs"
    using keys by (auto simp: list_ex_iff)
  have loop: "fold (upsert key entry_key create grow) (xs @ [x]) [] =
      upsert key entry_key create grow x (map (entry_of xs) (uniq (map key xs)))"
    by (simp add: snoc)
  show ?case
  proof (cases "key x \<in> key ` set xs")
    case True
    have "upsert key entry_key create grow x (map (entry_of xs) (uniq (map key xs))) =
        update_first (\<lambda>e. entry_key e = key x) (grow x) (map (entry_of xs) (uniq (map key xs)))"
      using known True by (simp add: upsert_def)
    also have "\<dots> = map (\<lambda>k. if k = key x then grow x (entry_of xs k) else entry_of xs k) (uniq (map key xs))"
      by (rule update_first_map [OF distinct_uniq]) (rule keys)
    finally have "upsert key entry_key create grow x (map (entry_of xs) (uniq (map key xs))) =
        map (\<lambda>k. if k = key x then grow x (entry_of xs k) else entry_of xs k) (uniq (map key xs))" .
    moreover have "uniq (map key (xs @ [x])) = uniq (map key xs)" using True by (simp add: uniq_snoc)
    ultimately show ?thesis unfolding loop using True by (simp add: entry_of_snoc)
  next
    case False
    then have "entry_of (xs @ [x]) k = entry_of xs k" if "k \<in> set (uniq (map key xs))" for k
      using that by (auto simp: entry_of_snoc)
    with False known show ?thesis unfolding loop by (simp add: upsert_def uniq_snoc entry_of_snoc)
  qed
qed

lemma keys_merged: "map entry_key (fold (upsert key entry_key create grow) xs []) = uniq (map key xs)"
proof -
  have "map (\<lambda>k. entry_key (entry_of xs k)) (uniq (map key xs)) = map id (uniq (map key xs))"
    by (rule map_cong) (auto simp: key_entry_of)
  then show ?thesis by (simp add: merged comp_def)
qed

lemma distinct_merged: "distinct (map entry_key (fold (upsert key entry_key create grow) xs []))"
  by (simp add: keys_merged)

text \<open>What creating establishes and extending keeps holds of every entry.\<close>

lemma merged_all:
  assumes "e \<in> set (fold (upsert key entry_key create grow) xs [])"
    "\<And>x. x \<in> set xs \<Longrightarrow> P (create x)" "\<And>x e. x \<in> set xs \<Longrightarrow> P e \<Longrightarrow> P (grow x e)"
  shows "P e"
proof -
  obtain k where e: "e = entry_of xs k" "k \<in> key ` set xs" using assms(1) by (auto simp: merged)
  have fold: "set ys \<subseteq> set xs \<Longrightarrow> P e' \<Longrightarrow> P (fold grow ys e')" for ys e'
    using assms(3) by (induction ys arbitrary: e') auto
  obtain y r where yr: "filter (\<lambda>x. key x = k) xs = y # r"
    using e(2) by (cases "filter (\<lambda>x. key x = k) xs") (auto simp: filter_empty_conv)
  then have sub: "set (y # r) \<subseteq> set xs" by (metis filter_is_subset)
  then have "P (fold grow r (create y))" by (intro fold) (auto intro: assms(2))
  then show ?thesis by (simp add: e(1) entry_of_def yr)
qed

end

end
