(* ===== verification/Monitor_Types.thy ===== *)
theory Monitor_Types
  imports Js_Sort Complex_Main "HOL-Library.Word"
begin

text \<open>
  The types that the parts of the monitor share (\<open>monitor/pr-monitor/src/types.ts\<close>). The type of
  an endpoint is a set of bits; JavaScript's bit operations work on 32 bits.
\<close>

unbundle bit_operations_syntax

type_synonym EndpointType = "32 word"

definition publisher_bit :: EndpointType where "publisher_bit = push_bit 0 1"
definition subscriber_bit :: EndpointType where "subscriber_bit = push_bit 1 1"
definition server_bit :: EndpointType where "server_bit = push_bit 2 1"
definition client_bit :: EndpointType where "client_bit = push_bit 3 1"
definition setter_bit :: EndpointType where "setter_bit = push_bit 4 1"
definition getter_bit :: EndpointType where "getter_bit = push_bit 5 1"

lemmas type_bits = publisher_bit_def subscriber_bit_def server_bit_def client_bit_def
  setter_bit_def getter_bit_def

text \<open>\<open>type & bits\<close> as a condition.\<close>

definition has_bits :: "EndpointType \<Rightarrow> EndpointType \<Rightarrow> bool" where
  "has_bits t bits \<longleftrightarrow> t AND bits \<noteq> 0"

lemma has_bits_or: "has_bits (t OR u) b \<longleftrightarrow> has_bits t b \<or> has_bits u b"
  by (auto simp: has_bits_def bit_eq_iff bit_simps)

datatype SchemaType = Schema_Proto | Flatbuffers | Blob

record ProcessInfo =
  pi_type :: EndpointType
  pi_host :: string
  pi_ip :: string
  pi_name :: string
  pi_pid :: nat
  pi_profiler :: "rat option"

record EndpointInfo =
  ep_type :: EndpointType
  ep_url :: string
  ep_runtimeUrl :: "string option"
  ep_serType :: string
  ep_schemaType :: SchemaType
  ep_processList :: "ProcessInfo list"
  ep_sources :: "string list"
  ep_routeNames :: "string list"

text \<open>The options of a run (\<open>MonitorOptions\<close> in \<open>model.ts\<close>). Widths and counts are whole numbers:
  \<open>parseInt\<close> reads them. The sample time is \<^const>\<open>None\<close> when that gave \<open>NaN\<close>.\<close>

record MonitorOptions =
  op_urls :: "string list"
  op_filter :: string
  op_blackMode :: bool
  op_nativeMode :: bool
  op_countMode :: bool
  op_detailMode :: bool
  op_observeAllMode :: bool
  op_profilerMode :: bool
  op_serMode :: bool
  op_activeMode :: bool
  op_pubsubMode :: bool
  op_processMode :: bool
  op_chartMode :: bool
  op_presetMode :: bool
  op_plainMode :: bool
  op_dotMode :: bool
  op_blobMode :: bool
  op_rows :: int
  op_columns :: int
  op_chartWidth :: int
  op_processWidth :: int
  op_protoArgs :: string
  op_protoDir :: string
  op_fbsDir :: string
  op_locMode :: bool
  op_projectRoot :: string
  op_prometheusUrl :: string
  op_ros2SampleSeconds :: "int option"
  op_listRoutes :: bool
  op_listProcesses :: bool

text \<open>\<open>url.replace(/^[a-z0-9+.-]+:\/\//, "")\<close>, with the letters of both cases when the expression
  ignores case.\<close>

definition is_scheme_char :: "bool \<Rightarrow> char \<Rightarrow> bool" where
  "is_scheme_char ignoreCase c \<longleftrightarrow> is_lower c \<or> (ignoreCase \<and> is_upper c) \<or> is_digit c
     \<or> c = CHR ''+'' \<or> c = CHR ''.'' \<or> c = CHR ''-''"

definition strip_scheme :: "bool \<Rightarrow> string \<Rightarrow> string" where
  "strip_scheme ignoreCase url =
     (let scheme = takeWhile (is_scheme_char ignoreCase) url; r = drop (length scheme) url
      in if scheme \<noteq> [] \<and> prefix ''://'' r then drop 3 r else url)"

text \<open>\<open>value.replace(/^\/+/, "")\<close>.\<close>

definition strip_slashes_front :: "string \<Rightarrow> string" where
  "strip_slashes_front s = dropWhile (\<lambda>c. c = CHR ''/'') s"

text \<open>\<open>url.split("://")[0]\<close>.\<close>

fun before_scheme_mark :: "string \<Rightarrow> string" where
  "before_scheme_mark [] = []"
| "before_scheme_mark (c # r) = (if prefix ''://'' (c # r) then [] else c # before_scheme_mark r)"

end
