(* ===== verification/Monitor_Yaml.thy ===== *)
theory Monitor_Yaml
  imports Js_Base "HOL-Library.AList"
begin

text \<open>
  The YAML reader of the monitor (\<open>monitor/pr-monitor/src/yaml.ts\<close>): a parser by indentation
  that reads the subset of YAML in which the route files are written.

  The parser keeps a stack of references into the value it builds and extends the container that
  the top of the stack refers to. Here a reference is a path from the root, and a change through
  it is the change of the root at that path.
\<close>

subsection \<open>Values\<close>

text \<open>
  An object is its list of properties in the order of insertion. A number is a mantissa and the
  number of its decimal places: the literals of a route file have at most 15 significant digits,
  so the double that JavaScript holds prints as the same decimal.
\<close>

datatype YamlValue = YString string | YNumber int nat | YBool bool | YNull
  | YObject "(string \<times> YamlValue) list" | YArray "YamlValue list"

type_synonym YamlObject = "(string \<times> YamlValue) list"

definition strip_zeros :: "string \<Rightarrow> string" where
  "strip_zeros s = rev (dropWhile (\<lambda>c. c = CHR ''0'') (rev s))"

text \<open>\<open>String(n)\<close>, by the rules of \<open>Number::toString\<close>.\<close>

definition number_string :: "int \<Rightarrow> nat \<Rightarrow> string" where
  "number_string m d =
     (if m = 0 then ''0''
      else
        let ds = nat_str (nat \<bar>m\<bar>); s = strip_zeros ds; k = int (length s);
            n = int (length ds) - int d; sign = (if m < 0 then ''-'' else [])
        in sign @
          (if k \<le> n \<and> n \<le> 21 then s @ replicate (nat (n - k)) (CHR ''0'')
           else if 0 < n \<and> n \<le> 21 then take (nat n) s @ ''.'' @ drop (nat n) s
           else if - 6 < n \<and> n \<le> 0 then ''0.'' @ replicate (nat (- n)) (CHR ''0'') @ s
           else take 1 s @ (if k = 1 then [] else ''.'' @ drop 1 s) @ ''e''
             @ (if n - 1 < 0 then ''-'' else ''+'') @ nat_str (nat \<bar>n - 1\<bar>)))"

fun asObject :: "YamlValue option \<Rightarrow> YamlObject option" where
  "asObject (Some (YObject o')) = Some o'"
| "asObject _ = None"

fun asArray :: "YamlValue option \<Rightarrow> YamlValue list" where
  "asArray (Some (YArray xs)) = xs"
| "asArray _ = []"

fun yamlString :: "YamlValue option \<Rightarrow> string" where
  "yamlString (Some (YString s)) = s"
| "yamlString (Some (YNumber m d)) = number_string m d"
| "yamlString (Some (YBool b)) = (if b then ''true'' else ''false'')"
| "yamlString _ = []"

fun isContainer :: "YamlValue \<Rightarrow> bool" where
  "isContainer (YObject _) = True"
| "isContainer (YArray _) = True"
| "isContainer _ = False"

subsection \<open>Lines\<close>

text \<open>\<open>stripComment\<close> cuts at the first \<open>#\<close> outside quotes.\<close>

fun strip_comment_from :: "bool \<Rightarrow> bool \<Rightarrow> string \<Rightarrow> string" where
  "strip_comment_from inSingle inDouble [] = []"
| "strip_comment_from inSingle inDouble (c # r) =
     (if c = SQ \<and> \<not> inDouble then c # strip_comment_from (\<not> inSingle) inDouble r
      else if c = DQ \<and> \<not> inSingle then c # strip_comment_from inSingle (\<not> inDouble) r
      else if c = CHR ''#'' \<and> \<not> inSingle \<and> \<not> inDouble then []
      else c # strip_comment_from inSingle inDouble r)"

definition stripComment :: "string \<Rightarrow> string" where
  "stripComment line = strip_comment_from False False line"

definition yaml_indent :: "string \<Rightarrow> int" where
  "yaml_indent raw = int (length raw - length (trimStart raw))"

text \<open>The line without its comment and trailing white space, and whether it is skipped.\<close>

definition yaml_text :: "string \<Rightarrow> string" where
  "yaml_text raw = trim (trimEnd (stripComment raw))"

definition yamlKeyValue :: "string \<Rightarrow> (string \<times> string) result" where
  "yamlKeyValue t =
     (if CHR '':'' \<notin> set t then Inl (''YAML subset parser expected key/value: '' @ t)
      else Inr (trim (takeWhile (\<lambda>c. c \<noteq> CHR '':'') t), trim (tl (dropWhile (\<lambda>c. c \<noteq> CHR '':'') t))))"

definition is_quote :: "char \<Rightarrow> bool" where
  "is_quote c \<longleftrightarrow> c = DQ \<or> c = SQ"

definition unquote :: "string \<Rightarrow> string" where
  "unquote v =
     (let s = (if v \<noteq> [] \<and> is_quote (hd v) then tl v else v)
      in if s \<noteq> [] \<and> is_quote (last s) then butlast s else s)"

text \<open>The two expressions for numbers: an optional sign, digits, and digits after a dot.\<close>

definition all_digits :: "string \<Rightarrow> bool" where
  "all_digits s \<longleftrightarrow> s \<noteq> [] \<and> list_all is_digit s"

definition number_literal :: "string \<Rightarrow> YamlValue option" where
  "number_literal s =
     (let negative = startsWith s ''-''; body = (if negative then tl s else s);
          signed = (\<lambda>n. if negative then - int n else int n)
      in case split_on (CHR ''.'') body of
           [a] \<Rightarrow> if all_digits a then Some (YNumber (signed (digits_val a)) 0) else None
         | [a, b] \<Rightarrow> if all_digits a \<and> all_digits b
             then Some (YNumber (signed (digits_val (a @ b))) (length b)) else None
         | _ \<Rightarrow> None)"

definition parseScalar :: "string \<Rightarrow> YamlValue" where
  "parseScalar v =
     (let unquoted = unquote v in
      if unquoted = ''{}'' then YObject []
      else if unquoted = ''[]'' then YArray []
      else if unquoted = ''null'' \<or> unquoted = ''~'' then YNull
      else if unquoted = ''true'' then YBool True
      else if unquoted = ''false'' then YBool False
      else case number_literal unquoted of Some n \<Rightarrow> n | None \<Rightarrow> YString unquoted)"

definition parseListItem :: "string \<Rightarrow> YamlValue" where
  "parseListItem t =
     (if t = [] then YObject []
      else case yamlKeyValue t of
        Inl _ \<Rightarrow> parseScalar t
      | Inr (key, v) \<Rightarrow> YObject [(key, parseScalar v)])"

fun nextChildIsList :: "string list \<Rightarrow> int \<Rightarrow> bool" where
  "nextChildIsList [] parentIndent = False"
| "nextChildIsList (raw # rest) parentIndent =
     (if yaml_text raw = [] then nextChildIsList rest parentIndent
      else if yaml_indent raw \<le> parentIndent then False
      else startsWith (yaml_text raw) ''- '')"

subsection \<open>References into the value\<close>

datatype step = Key string | Item nat

fun value_at :: "step list \<Rightarrow> YamlValue \<Rightarrow> YamlValue option" where
  "value_at [] v = Some v"
| "value_at (Key k # p) (YObject es) = (case map_of es k of None \<Rightarrow> None | Some v \<Rightarrow> value_at p v)"
| "value_at (Item n # p) (YArray xs) = (if n < length xs then value_at p (xs ! n) else None)"
| "value_at _ _ = None"

fun change_at :: "step list \<Rightarrow> (YamlValue \<Rightarrow> YamlValue) \<Rightarrow> YamlValue \<Rightarrow> YamlValue" where
  "change_at [] f v = f v"
| "change_at (Key k # p) f (YObject es) =
     (case map_of es k of None \<Rightarrow> YObject es | Some v \<Rightarrow> YObject (AList.update k (change_at p f v) es))"
| "change_at (Item n # p) f (YArray xs) =
     (if n < length xs then YArray (xs[n := change_at p f (xs ! n)]) else YArray xs)"
| "change_at _ f v = v"

text \<open>\<open>parent[key] = value\<close> and \<open>parent.push(value)\<close>.\<close>

fun assigned :: "string \<Rightarrow> YamlValue \<Rightarrow> YamlValue \<Rightarrow> YamlValue" where
  "assigned k v (YObject es) = YObject (AList.update k v es)"
| "assigned k v p = p"

fun pushed :: "YamlValue \<Rightarrow> YamlValue \<Rightarrow> YamlValue" where
  "pushed v (YArray xs) = YArray (xs @ [v])"
| "pushed v p = p"

subsection \<open>The parser\<close>

record yaml_state =
  ys_root :: YamlValue
  ys_stack :: "(int \<times> step list) list"

definition initial_yaml :: yaml_state where
  "initial_yaml = \<lparr>ys_root = YObject [], ys_stack = [(-1, [])]\<rparr>"

definition popped :: "int \<Rightarrow> (int \<times> step list) list \<Rightarrow> (int \<times> step list) list" where
  "popped indent stack = dropWhile (\<lambda>(i, p). indent \<le> i) stack"

text \<open>A line \<open>- item\<close>, below the container at the path \<open>p\<close>.\<close>

definition list_line :: "int \<Rightarrow> string \<Rightarrow> step list \<Rightarrow> yaml_state \<Rightarrow> yaml_state result" where
  "list_line indent stripped p st =
     (case value_at p (ys_root st) of
        Some (YArray xs) \<Rightarrow>
          let child = parseListItem (trim (drop 2 stripped))
          in Inr \<lparr>ys_root = change_at p (pushed child) (ys_root st),
                 ys_stack = (if isContainer child then [(indent, p @ [Item (length xs)])] else [])
                   @ ys_stack st\<rparr>
      | _ \<Rightarrow> Inl ''YAML subset parser found a list item outside a list'')"

text \<open>A line \<open>key: value\<close>.\<close>

definition key_line :: "string list \<Rightarrow> int \<Rightarrow> string \<Rightarrow> step list \<Rightarrow> yaml_state \<Rightarrow> yaml_state result" where
  "key_line rest indent stripped p st =
     (case yamlKeyValue stripped of
        Inl e \<Rightarrow> Inl e
      | Inr (key, v) \<Rightarrow>
          (case value_at p (ys_root st) of
             Some (YObject es) \<Rightarrow>
               if v = [] then
                 Inr \<lparr>ys_root = change_at p (assigned key
                        (if nextChildIsList rest indent then YArray [] else YObject [])) (ys_root st),
                      ys_stack = (indent, p @ [Key key]) # ys_stack st\<rparr>
               else Inr (st\<lparr>ys_root := change_at p (assigned key (parseScalar v)) (ys_root st)\<rparr>)
           | _ \<Rightarrow> Inl ''YAML subset parser can only assign keys inside mappings''))"

text \<open>One turn of the loop; \<open>rest\<close> are the lines after the current one.\<close>

definition yaml_line :: "string list \<Rightarrow> string \<Rightarrow> yaml_state \<Rightarrow> yaml_state result" where
  "yaml_line rest raw st =
     (let stripped = yaml_text raw; indent = yaml_indent raw in
      if stripped = [] then Inr st
      else
        let st' = st\<lparr>ys_stack := popped indent (ys_stack st)\<rparr>;
            p = (case ys_stack st' of [] \<Rightarrow> [] | (i, q) # _ \<Rightarrow> q)
        in if startsWith stripped ''- '' then list_line indent stripped p st'
           else key_line rest indent stripped p st')"

fun yaml_lines :: "string list \<Rightarrow> yaml_state \<Rightarrow> yaml_state result" where
  "yaml_lines [] st = Inr st"
| "yaml_lines (raw # rest) st =
     (case yaml_line rest raw st of Inl e \<Rightarrow> Inl e | Inr st' \<Rightarrow> yaml_lines rest st')"

definition parseYamlSubset :: "string \<Rightarrow> YamlObject result" where
  "parseYamlSubset t =
     (case yaml_lines (split_lines t) initial_yaml of
        Inl e \<Rightarrow> Inl e
      | Inr st \<Rightarrow> Inr (case ys_root st of YObject es \<Rightarrow> es | _ \<Rightarrow> []))"

subsection \<open>Properties of an object\<close>

definition yaml_get :: "YamlObject \<Rightarrow> string \<Rightarrow> YamlValue option" where
  "yaml_get es k = map_of es k"

text \<open>\<open>Object.entries\<close> lists the properties that are array indices first, in their order.\<close>

definition index_key :: "string \<Rightarrow> bool" where
  "index_key k \<longleftrightarrow> all_digits k \<and> nat_str (digits_val k) = k \<and> digits_val k < 4294967295"

definition object_entries :: "YamlObject \<Rightarrow> (string \<times> YamlValue) list" where
  "object_entries es =
     sort_key (\<lambda>(k, v). digits_val k) (filter (\<lambda>(k, v). index_key k) es)
     @ filter (\<lambda>(k, v). \<not> index_key k) es"

end
