(* ===== verification/Discovery.thy ===== *)
theory Discovery
  imports Repo_Files Keyed_Merge Monitor_Types Monitor_Yaml
begin

text \<open>
  How the monitor finds the routes of the project
  (\<open>monitor/pr-monitor/src/discovery.ts\<close>): it walks the interface and module directories, reads
  every route file with the YAML subset, collects a draft for each address and merges the drafts
  of one URL to an endpoint.
\<close>

record DiscoveryResult =
  dc_endpoints :: "EndpointInfo list"
  dc_sources :: "string list"
  dc_errors :: "string list"

record EndpointDraft =
  dr_type :: EndpointType
  dr_url :: string
  dr_runtimeUrl :: "string option"
  dr_serType :: string
  dr_schemaType :: SchemaType
  dr_source :: string
  dr_routeName :: string

record ContractAddress =
  ca_schemaType :: SchemaType
  ca_serType :: string
  ca_url :: string
  ca_runtimeUrl :: "string option"

datatype sectionName = Services_Section | Topics_Section

subsection \<open>Small readers\<close>

text \<open>\<open>value?.k\<close> on a possibly missing object.\<close>

definition prop_of :: "YamlObject option \<Rightarrow> string \<Rightarrow> YamlValue option" where
  "prop_of o' k = Option.bind o' (\<lambda>es. yaml_get es k)"

definition endpointTypeFor :: "sectionName \<Rightarrow> string \<Rightarrow> string \<Rightarrow> EndpointType" where
  "endpointTypeFor sec role direction =
     (let normalized = toLowerCase (role @ '' '' @ direction) in
      if has_sub normalized ''client'' then client_bit
      else if has_sub normalized ''server'' then server_bit
      else if has_sub normalized ''publish'' then publisher_bit
      else if has_sub normalized ''subscribe'' then subscriber_bit
      else if sec = Services_Section then server_bit else publisher_bit)"

definition schemaTypeForFormat :: "string \<Rightarrow> SchemaType" where
  "schemaTypeForFormat format =
     (let normalized = toLowerCase format in
      if has_sub normalized ''flat'' then Flatbuffers
      else if has_sub normalized ''blob'' then Blob else Schema_Proto)"

definition routeUrl :: "string \<Rightarrow> string \<Rightarrow> string" where
  "routeUrl scheme v =
     (let normalized = trim v
      in if normalized = [] then [] else scheme @ ''://'' @ strip_slashes_front normalized)"

definition urlFromBinding :: "YamlObject \<Rightarrow> string" where
  "urlFromBinding binding =
     (let field = (\<lambda>k. yamlString (yaml_get binding k)); transport = field ''transport'' in
      if transport = ''ros2_service'' then routeUrl ''ros2'' (field ''service'')
      else if transport = ''ros2_topic''
      then routeUrl ''ros2'' (or_else (field ''topic'') (field ''ros_topic''))
      else if transport = ''nats_rpc'' then routeUrl ''nats'' (field ''subject'')
      else if transport = ''nats_topic'' then routeUrl ''nats'' (field ''subject'')
      else if transport = ''grpc'' then routeUrl ''grpc'' (field ''service'')
      else if transport = ''cyclonedds'' \<or> transport = ''dds_topic''
      then routeUrl ''cyclonedds'' (field ''topic'')
      else [])"

definition isCycloneDdsRmwMiddleware :: "string \<Rightarrow> bool" where
  "isCycloneDdsRmwMiddleware v \<longleftrightarrow>
     replace_char (CHR ''-'') (CHR ''_'') (toLowerCase (trim v))
       \<in> set [''cyclonedds'', ''cyclone_dds'', ''rmw_cyclonedds'', ''rmw_cyclonedds_cpp'',
           ''cyclonedds_rmw'', ''cyclonedds_rmw_cyclonedds'']"

definition normalizeMiddleware :: "string \<Rightarrow> string" where
  "normalizeMiddleware v =
     (let normalized = replace_char (CHR ''-'') (CHR ''_'') (toLowerCase (trim v)) in
      if normalized \<in> set [''ros2_topic'', ''ros2_service'', ''rmw_ros2''] then ''ros2''
      else if normalized \<in> set [''nats_topic'', ''nats_rpc''] then ''nats''
      else if normalized \<in> set [''dds'', ''dds_topic'', ''cyclonedds_topic'', ''cyclonedds_native'']
      then ''cyclonedds''
      else if isCycloneDdsRmwMiddleware normalized then ''cyclonedds''
      else normalized)"

definition replaceUrlScheme :: "string \<Rightarrow> string \<Rightarrow> string" where
  "replaceUrlScheme url scheme = scheme @ ''://'' @ strip_scheme True url"

abbreviation url_transport :: "string \<Rightarrow> string" where
  "url_transport url \<equiv> before_scheme_mark url"

definition addressForMiddleware :: "ContractAddress list \<Rightarrow> string \<Rightarrow> ContractAddress option" where
  "addressForMiddleware addresses middleware =
     (let direct = find (\<lambda>a. url_transport (ca_url a) = normalizeMiddleware middleware) addresses
      in if isCycloneDdsRmwMiddleware middleware
         then (case find (\<lambda>a. url_transport (ca_url a) = ''ros2'') addresses of
                 Some a \<Rightarrow> Some (a\<lparr>ca_url := replaceUrlScheme (ca_url a) ''cyclonedds'',
                                  ca_runtimeUrl := Some (ca_url a)\<rparr>)
               | None \<Rightarrow> direct)
         else direct)"

text \<open>\<open>/^pkg\/idl\/([^/]+)\/public\/interfaces\.yaml$/\<close>.\<close>

definition idlServiceNameFromSource :: "string \<Rightarrow> string" where
  "idlServiceNameFromSource source =
     (case split_on (CHR ''/'') source of
        [a, b, service, c, d] \<Rightarrow>
          if a = ''pkg'' \<and> b = ''idl'' \<and> c = ''public'' \<and> d = ''interfaces.yaml'' then service else []
      | _ \<Rightarrow> [])"

definition isPublicInterfaceSource :: "string \<Rightarrow> bool" where
  "isPublicInterfaceSource source \<longleftrightarrow> idlServiceNameFromSource source \<noteq> []"

subsection \<open>Interfaces\<close>

type_synonym contract_index = "string \<rightharpoonup> ContractAddress list"

definition draft :: "EndpointType \<Rightarrow> string \<Rightarrow> string \<Rightarrow> SchemaType \<Rightarrow> string \<Rightarrow> string \<Rightarrow> EndpointDraft" where
  "draft type url serType schemaType source name =
     \<lparr>dr_type = type, dr_url = url, dr_runtimeUrl = None, dr_serType = serType,
      dr_schemaType = schemaType, dr_source = source, dr_routeName = name\<rparr>"

text \<open>The drafts of the bindings of a route: \<open>type_of\<close> gives the type for a binding's direction.\<close>

definition binding_drafts ::
  "(string \<Rightarrow> EndpointType) \<Rightarrow> string \<Rightarrow> SchemaType \<Rightarrow> string \<Rightarrow> string \<Rightarrow> YamlObject \<Rightarrow> EndpointDraft list" where
  "binding_drafts type_of serType schemaType source name route =
     List.map_filter (\<lambda>rawBinding.
       case asObject (Some rawBinding) of
         None \<Rightarrow> None
       | Some binding \<Rightarrow>
           let url = urlFromBinding binding
           in if url = [] then None
              else Some (draft (type_of (yamlString (yaml_get binding ''direction'')))
                     url serType schemaType source name))
       (asArray (yaml_get route ''bindings''))"

definition interface_route ::
  "sectionName \<Rightarrow> string \<Rightarrow> string \<Rightarrow> YamlObject \<Rightarrow> contract_index \<Rightarrow> EndpointDraft list \<times> contract_index" where
  "interface_route sec source name route contractIndex =
     (let contract = (case asObject (yaml_get route ''contract'') of
                        Some c \<Rightarrow> Some c | None \<Rightarrow> asObject (yaml_get route ''payload''));
          serType = or_else (or_else (yamlString (prop_of contract ''type'')) (yamlString (yaml_get route ''type'')))
            ''unknown'';
          schemaType = schemaTypeForFormat (or_else (yamlString (prop_of contract ''format''))
            (yamlString (yaml_get route ''data'')));
          role = yamlString (yaml_get route ''role'');
          direction = yamlString (yaml_get route ''direction'');
          defaultType = endpointTypeFor sec role direction;
          urls = (case asObject (yaml_get route ''addresses'') of
                    None \<Rightarrow> []
                  | Some addresses \<Rightarrow> filter (\<lambda>url. url \<noteq> [])
                      (map (\<lambda>(transport, rawAddress). routeUrl transport (yamlString (Some rawAddress)))
                        (object_entries addresses)));
          contractAddresses = map (\<lambda>url. \<lparr>ca_schemaType = schemaType, ca_serType = serType,
            ca_url = url, ca_runtimeUrl = None\<rparr>) urls;
          serviceName = idlServiceNameFromSource source;
          type_of = (\<lambda>d. let t = endpointTypeFor sec role (or_else d direction)
                         in if t = 0 then defaultType else t)
      in (map (\<lambda>url. draft defaultType url serType schemaType source name) urls
            @ binding_drafts type_of serType schemaType source name route,
          if serviceName \<noteq> [] \<and> contractAddresses \<noteq> []
          then contractIndex(serviceName @ ''.'' @ name \<mapsto> contractAddresses) else contractIndex))"

fun interface_routes ::
  "sectionName \<Rightarrow> string \<Rightarrow> (string \<times> YamlValue) list \<Rightarrow> contract_index \<Rightarrow> EndpointDraft list \<times> contract_index" where
  "interface_routes sec source [] contractIndex = ([], contractIndex)"
| "interface_routes sec source ((name, rawRoute) # es) contractIndex =
     (case asObject (Some rawRoute) of
        None \<Rightarrow> interface_routes sec source es contractIndex
      | Some route \<Rightarrow>
          let (drafts, index1) = interface_route sec source name route contractIndex;
              (more, index2) = interface_routes sec source es index1
          in (drafts @ more, index2))"

definition section_key :: "sectionName \<Rightarrow> string" where
  "section_key sec = (case sec of Services_Section \<Rightarrow> ''services'' | Topics_Section \<Rightarrow> ''topics'')"

definition collectInterfaceSection ::
  "YamlObject \<Rightarrow> sectionName \<Rightarrow> string \<Rightarrow> contract_index \<Rightarrow> EndpointDraft list \<times> contract_index" where
  "collectInterfaceSection parsed sec source contractIndex =
     (case asObject (yaml_get parsed (section_key sec)) of
        None \<Rightarrow> ([], contractIndex)
      | Some section' \<Rightarrow> interface_routes sec source (object_entries section') contractIndex)"

definition collectInterfaceYaml ::
  "YamlObject \<Rightarrow> string \<Rightarrow> contract_index \<Rightarrow> EndpointDraft list \<times> contract_index" where
  "collectInterfaceYaml parsed source contractIndex =
     (let (services, index1) = collectInterfaceSection parsed Services_Section source contractIndex;
          (topics, index2) = collectInterfaceSection parsed Topics_Section source index1
      in (services @ topics, index2))"

subsection \<open>Communication of modules and bridges\<close>

definition selected_addresses :: "YamlObject \<Rightarrow> ContractAddress list \<Rightarrow> ContractAddress list" where
  "selected_addresses route contractAddresses =
     (let middlewares = filter (\<lambda>m. m \<noteq> []) (map (\<lambda>v. yamlString (Some v)) (asArray (yaml_get route ''middlewares'')))
      in if middlewares \<noteq> []
         then List.map_filter (addressForMiddleware contractAddresses) middlewares
         else contractAddresses)"

text \<open>The drafts of one configured route; \<open>None\<close> is the missing contract index of a bridge.\<close>

definition communication_route ::
  "sectionName \<Rightarrow> string \<Rightarrow> contract_index option \<Rightarrow> string \<Rightarrow> YamlObject \<Rightarrow> EndpointDraft list" where
  "communication_route sec source contractIndex name route =
     (let field = (\<lambda>k. yamlString (yaml_get route k)); payload = asObject (yaml_get route ''payload'');
          routeType = or_else (or_else (or_else (field ''service_type'') (field ''message_type''))
            (yamlString (prop_of payload ''type''))) ''unknown'';
          schemaType = schemaTypeForFormat (yamlString (prop_of payload ''format''));
          directTransport = field ''transport''; directUrl = urlFromBinding route;
          type = endpointTypeFor sec [] (field ''direction'');
          bridgedRosUrl = (if directTransport = ''nats_topic''
            then routeUrl ''ros2'' (field ''ros_topic'') else []);
          ref = field (if sec = Services_Section then ''service_ref'' else ''topic_ref'');
          referred = (case contractIndex of
              None \<Rightarrow> []
            | Some m \<Rightarrow> if ref = [] then []
                else map (\<lambda>address. \<lparr>dr_type = type, dr_url = ca_url address,
                    dr_runtimeUrl = ca_runtimeUrl address,
                    dr_serType = (if routeType = ''unknown'' then ca_serType address else routeType),
                    dr_schemaType = (if schemaType = Schema_Proto then ca_schemaType address else schemaType),
                    dr_source = source, dr_routeName = name\<rparr>)
                  (selected_addresses route (nullish (m ref) [])))
      in (if directTransport \<noteq> [] \<and> directUrl \<noteq> []
          then [draft type directUrl routeType schemaType source name] else [])
         @ (if directTransport \<noteq> [] \<and> bridgedRosUrl \<noteq> []
            then [draft type bridgedRosUrl routeType schemaType source name] else [])
         @ referred
         @ binding_drafts (\<lambda>d. endpointTypeFor sec [] (or_else d (field ''direction'')))
             routeType schemaType source name route)"

definition collectCommunicationRoutes ::
  "YamlObject option \<Rightarrow> sectionName \<Rightarrow> string \<Rightarrow> contract_index option \<Rightarrow> EndpointDraft list" where
  "collectCommunicationRoutes section' sec source contractIndex =
     (case section' of
        None \<Rightarrow> []
      | Some es \<Rightarrow> concat (map (\<lambda>(name, rawRoute).
          case asObject (Some rawRoute) of
            None \<Rightarrow> []
          | Some route \<Rightarrow> communication_route sec source contractIndex name route) (object_entries es)))"

definition communication_sections ::
  "YamlObject option \<Rightarrow> string \<Rightarrow> contract_index option \<Rightarrow> EndpointDraft list" where
  "communication_sections communication source contractIndex =
     (case communication of
        None \<Rightarrow> []
      | Some c \<Rightarrow>
          collectCommunicationRoutes (asObject (yaml_get c ''services'')) Services_Section source contractIndex
          @ collectCommunicationRoutes (asObject (yaml_get c ''topics'')) Topics_Section source contractIndex)"

definition collectCommunicationConfig ::
  "YamlObject \<Rightarrow> string \<Rightarrow> contract_index \<Rightarrow> EndpointDraft list" where
  "collectCommunicationConfig parsed source contractIndex =
     communication_sections (asObject (yaml_get parsed ''communication'')) source (Some contractIndex)"

definition collectBridgeConfig :: "YamlObject \<Rightarrow> string \<Rightarrow> EndpointDraft list" where
  "collectBridgeConfig parsed source =
     communication_sections (asObject (prop_of (asObject (yaml_get parsed ''adapter'')) ''communication''))
       source None"

subsection \<open>Files\<close>

text \<open>The walk; a directory that cannot be read is skipped.\<close>

fun discovery_walk :: "path \<Rightarrow> (string \<times> node) list \<Rightarrow> path list" where
  "discovery_walk dir [] = []"
| "discovery_walk dir ((n, t) # es) =
     (if n = ''node_modules'' \<or> n = ''dist'' \<or> startsWith n ''.'' then []
      else case t of
        Dir sub \<Rightarrow> discovery_walk (dir @ [n]) sub
      | File c \<Rightarrow> [dir @ [n]]
      | Other \<Rightarrow> [])
     @ discovery_walk dir es"

definition discoveryGlobs :: "path list" where
  "discoveryGlobs = [[''pkg'', ''idl''], [''module'', ''service'']]"

definition is_route_file :: "path \<Rightarrow> bool" where
  "is_route_file file \<longleftrightarrow>
     (let name = last file
      in endsWith name ''.yaml''
         \<and> (name \<in> set [''interfaces.yaml'', ''config.yaml'', ''params.yaml''] \<or> has_sub name ''bridge''))"

definition discoverYamlFiles :: "node \<Rightarrow> path \<Rightarrow> path list" where
  "discoverYamlFiles fs rootDir =
     filter is_route_file (concat (map (\<lambda>parts.
       case readdir fs (rootDir @ parts) of
         Inl e \<Rightarrow> [] | Inr es \<Rightarrow> discovery_walk (rootDir @ parts) es) discoveryGlobs))"

text \<open>What the loop over the files gathers.\<close>

record gathered =
  ga_drafts :: "EndpointDraft list"
  ga_index :: contract_index
  ga_sources :: "string list"
  ga_errors :: "string list"

definition file_drafts :: "YamlObject \<Rightarrow> string \<Rightarrow> contract_index \<Rightarrow> EndpointDraft list \<times> contract_index" where
  "file_drafts parsed source contractIndex =
     (let (drafts, index1) = collectInterfaceYaml parsed source contractIndex
      in (drafts @ collectCommunicationConfig parsed source index1 @ collectBridgeConfig parsed source, index1))"

definition gather_file :: "node \<Rightarrow> path \<Rightarrow> path \<Rightarrow> gathered \<Rightarrow> gathered" where
  "gather_file fs rootDir file g =
     (let relative = path_relative rootDir file in
      case (case readFile fs file of Inl e \<Rightarrow> Inl e | Inr content \<Rightarrow> parseYamlSubset content) of
        Inl message \<Rightarrow> g\<lparr>ga_errors := ga_errors g @ [relative @ '': '' @ message]\<rparr>
      | Inr parsed \<Rightarrow>
          let (drafts, index1) = file_drafts parsed relative (ga_index g)
          in g\<lparr>ga_drafts := ga_drafts g @ drafts, ga_index := index1,
               ga_sources := ga_sources g @ (if drafts \<noteq> [] then [relative] else [])\<rparr>)"

definition gather_files :: "node \<Rightarrow> path \<Rightarrow> path list \<Rightarrow> gathered" where
  "gather_files fs rootDir files =
     fold (gather_file fs rootDir) files
       \<lparr>ga_drafts = [], ga_index = Map.empty, ga_sources = [], ga_errors = []\<rparr>"

subsection \<open>Merging\<close>

definition endpointFromDraft :: "EndpointDraft \<Rightarrow> EndpointInfo" where
  "endpointFromDraft d =
     \<lparr>ep_type = dr_type d, ep_url = dr_url d, ep_runtimeUrl = dr_runtimeUrl d,
      ep_serType = dr_serType d, ep_schemaType = dr_schemaType d, ep_processList = [],
      ep_sources = [dr_source d], ep_routeNames = [dr_routeName d]\<rparr>"

definition include_once :: "'a \<Rightarrow> 'a list \<Rightarrow> 'a list" where
  "include_once x xs = (if x \<in> set xs then xs else xs @ [x])"

text \<open>A URL that is missing or empty is falsy.\<close>

definition truthy_url :: "string option \<Rightarrow> bool" where
  "truthy_url u \<longleftrightarrow> nullish u [] \<noteq> []"

definition extend_endpoint :: "EndpointDraft \<Rightarrow> EndpointInfo \<Rightarrow> EndpointInfo" where
  "extend_endpoint d existing = existing\<lparr>
     ep_type := ep_type existing OR dr_type d,
     ep_runtimeUrl := (if \<not> truthy_url (ep_runtimeUrl existing) \<and> truthy_url (dr_runtimeUrl d)
       then dr_runtimeUrl d else ep_runtimeUrl existing),
     ep_serType := (if ep_serType existing = ''unknown'' \<and> dr_serType d \<noteq> ''unknown''
       then dr_serType d else ep_serType existing),
     ep_sources := include_once (dr_source d) (ep_sources existing),
     ep_routeNames := include_once (dr_routeName d) (ep_routeNames existing)\<rparr>"

text \<open>The map by URL keeps the order of insertion.\<close>

definition merge_draft :: "EndpointDraft \<Rightarrow> EndpointInfo list \<Rightarrow> EndpointInfo list" where
  "merge_draft = upsert dr_url ep_url endpointFromDraft extend_endpoint"

definition hidden_runtime_urls :: "EndpointDraft list \<Rightarrow> string set" where
  "hidden_runtime_urls drafts =
     set (map (\<lambda>d. nullish (dr_runtimeUrl d) [])
       (filter (\<lambda>d. truthy_url (dr_runtimeUrl d) \<and> dr_runtimeUrl d \<noteq> Some (dr_url d)) drafts))"

definition shown_drafts :: "EndpointDraft list \<Rightarrow> EndpointDraft list" where
  "shown_drafts drafts =
     filter (\<lambda>d. \<not> (\<not> truthy_url (dr_runtimeUrl d) \<and> dr_url d \<in> hidden_runtime_urls drafts
       \<and> isPublicInterfaceSource (dr_source d))) drafts"

definition merge_drafts :: "EndpointDraft list \<Rightarrow> EndpointInfo list" where
  "merge_drafts drafts = fold merge_draft (shown_drafts drafts) []"

definition compareEndpoints ::
  "(string \<Rightarrow> string \<Rightarrow> int) \<Rightarrow> EndpointInfo \<Rightarrow> EndpointInfo \<Rightarrow> int" where
  "compareEndpoints lc left right =
     (let leftScheme = url_transport (ep_url left); rightScheme = url_transport (ep_url right)
      in if leftScheme \<noteq> rightScheme then lc leftScheme rightScheme else lc (ep_url left) (ep_url right))"

definition discoverProjectEndpoints ::
  "(string \<Rightarrow> string \<Rightarrow> int) \<Rightarrow> node \<Rightarrow> path \<Rightarrow> DiscoveryResult" where
  "discoverProjectEndpoints lc fs rootDir =
     (let g = gather_files fs rootDir (discoverYamlFiles fs rootDir)
      in \<lparr>dc_endpoints = js_sort (compareEndpoints lc) (merge_drafts (ga_drafts g)),
          dc_sources = ga_sources g, dc_errors = ga_errors g\<rparr>)"

end
