(* ===== verification/Monitor_Yaml_Props.thy ===== *)
theory Monitor_Yaml_Props
  imports Monitor_Yaml
begin

text \<open>
  What the YAML reader of the monitor guarantees: its stack of references is a chain of containers
  of the value it builds, with growing indentation, and a document rendered with two columns per
  level reads back as the value it was rendered from.
\<close>

subsection \<open>Changes through a reference\<close>

named_theorems at_simps

lemma map_of_alist_update [at_simps]: "map_of (AList.update k v es) = (map_of es)(k \<mapsto> v)"
  by (simp add: update_conv')

lemma update_twice [at_simps]: "AList.update k w (AList.update k v es) = AList.update k w es"
  by (induction es) auto

lemma update_same: "map_of es k = Some v \<Longrightarrow> AList.update k v es = es"
  by (induction es) (auto split: if_splits)

lemma update_new: "k \<notin> fst ` set es \<Longrightarrow> AList.update k v es = es @ [(k, v)]"
  by (induction es) auto

lemma update_last [at_simps]: "k \<notin> fst ` set es \<Longrightarrow> AList.update k w (es @ [(k, v)]) = es @ [(k, w)]"
  by (induction es) auto

lemma value_at_append: "value_at (p @ q) v = Option.bind (value_at p v) (value_at q)"
  by (induction p v rule: value_at.induct) (auto split: option.split)

lemma change_at_append: "change_at (p @ q) f v = change_at p (change_at q f) v"
proof (induction p f v rule: change_at.induct)
  case (2 k p f es)
  then show ?case by (cases "map_of es k") auto
qed auto

lemma value_change:
  "value_at q (change_at (q @ r) f v) = map_option (change_at r f) (value_at q v)"
  by (induction q v rule: value_at.induct) (auto simp: at_simps split: option.split)

lemma value_change_same [at_simps]: "value_at p (change_at p f v) = map_option f (value_at p v)"
  using value_change [of p "[]" f v] by (cases "value_at p v") auto

lemma change_change [at_simps]: "change_at p f (change_at p g v) = change_at p (f \<circ> g) v"
proof (induction p g v rule: change_at.induct)
  case (2 k p g es)
  then show ?case by (cases "map_of es k") (auto simp: at_simps)
next
  case (3 n p g xs)
  then show ?case by (cases "n < length xs") auto
qed auto

lemma change_cong: "value_at p v = Some c \<Longrightarrow> f c = g c \<Longrightarrow> change_at p f v = change_at p g v"
  by (induction p v rule: value_at.induct) (auto split: option.splits if_splits)

lemma change_id: "value_at p v = Some c \<Longrightarrow> f c = c \<Longrightarrow> change_at p f v = v"
  by (induction p v rule: value_at.induct)
    (auto simp: update_same split: option.splits if_splits)

lemma change_keeps_kind:
  "isContainer v \<Longrightarrow> (r = [] \<Longrightarrow> isContainer (f v)) \<Longrightarrow> isContainer (change_at r f v)"
  by (cases "(r, f, v)" rule: change_at.cases) (auto split: option.split)

lemma change_keeps_object:
  "\<exists>es. v = YObject es \<Longrightarrow> (r = [] \<Longrightarrow> \<exists>es. f v = YObject es) \<Longrightarrow> \<exists>es. change_at r f v = YObject es"
  by (cases "(r, f, v)" rule: change_at.cases) (auto split: option.split)

lemma container_ops [simp]:
  "isContainer (assigned k w v) = isContainer v" "isContainer (pushed w v) = isContainer v"
  by (cases v; simp)+

lemma assigned_object [simp]: "(\<exists>es. assigned k w v = YObject es) \<longleftrightarrow> (\<exists>es. v = YObject es)"
  and pushed_object [simp]: "(\<exists>es. pushed w v = YObject es) \<longleftrightarrow> (\<exists>es. v = YObject es)"
  by (cases v; auto)+

subsection \<open>The stack\<close>

definition yaml_ok :: "yaml_state \<Rightarrow> bool" where
  "yaml_ok st \<longleftrightarrow> ys_stack st \<noteq> [] \<and> last (ys_stack st) = (-1, [])
     \<and> (\<exists>es. ys_root st = YObject es)
     \<and> sorted_wrt (\<lambda>(i, p) (j, q). j < i \<and> prefix q p) (ys_stack st)
     \<and> (\<forall>(i, p) \<in> set (ys_stack st). \<exists>c. value_at p (ys_root st) = Some c \<and> isContainer c)"

lemma yaml_ok_initial: "yaml_ok initial_yaml"
  by (simp add: yaml_ok_def initial_yaml_def)

lemma popped_suffix: "suffix (popped i s) s"
  unfolding popped_def by (simp add: suffix_dropWhile)

lemma popped_popped: "i \<le> j \<Longrightarrow> popped i (popped j s) = popped i s"
  unfolding popped_def by (induction s) auto

lemma popped_top: "popped i s = (j, p) # s' \<Longrightarrow> j < i"
  unfolding popped_def by (metis (mono_tags, lifting) hd_dropWhile list.distinct(1) list.sel(1)
    case_prod_conv not_le)

lemma popped_keep: "j < i \<Longrightarrow> popped i ((j, p) # s) = (j, p) # s"
  by (simp add: popped_def)

lemma popped_drop: "i \<le> j \<Longrightarrow> popped i ((j, p) # s) = popped i s"
  by (simp add: popped_def)

lemma popped_not_Nil:
  assumes "s \<noteq> []" "last s = (-1, [])" "0 \<le> i"
  shows "popped i s \<noteq> [] \<and> last (popped i s) = (-1, [])"
proof -
  have "\<not> (\<forall>x \<in> set s. case x of (j, p) \<Rightarrow> i \<le> j)"
    using assms by (metis (mono_tags, lifting) case_prod_conv last_in_set neg_0_le_iff_le not_one_le_zero order_trans)
  then have "popped i s \<noteq> []" by (simp add: popped_def dropWhile_eq_Nil_conv)
  moreover obtain zs where "s = zs @ popped i s" using popped_suffix by (auto simp: suffix_def)
  ultimately show ?thesis using assms(2) by (metis last_append)
qed

lemma yaml_ok_popped:
  assumes "yaml_ok st" "0 \<le> i"
  shows "yaml_ok (st\<lparr>ys_stack := popped i (ys_stack st)\<rparr>)"
proof -
  have "set (popped i (ys_stack st)) \<subseteq> set (ys_stack st)"
    using set_mono_suffix [OF popped_suffix] .
  moreover have "sorted_wrt (\<lambda>(i, p) (j, q). j < i \<and> prefix q p) (popped i (ys_stack st))"
  proof -
    obtain zs where zs: "ys_stack st = zs @ popped i (ys_stack st)"
      using popped_suffix by (auto simp: suffix_def)
    have "sorted_wrt (\<lambda>(i, p) (j, q). j < i \<and> prefix q p) (ys_stack st)"
      using assms(1) by (simp add: yaml_ok_def)
    then show ?thesis by (subst (asm) zs) (simp add: sorted_wrt_append)
  qed
  ultimately show ?thesis
    using assms popped_not_Nil [of "ys_stack st" i] by (auto simp: yaml_ok_def)
qed

text \<open>A change at the top of the stack keeps every reference, and a new reference to a container
  below the top may be stacked.\<close>

lemma yaml_ok_change:
  assumes ok: "yaml_ok st" and st: "ys_stack st = (i, p) # s"
    and f: "\<And>c. isContainer (f c) = isContainer c"
      "\<And>c. (\<exists>es. c = YObject es) \<Longrightarrow> \<exists>es. f c = YObject es"
  shows "yaml_ok (st\<lparr>ys_root := change_at p f (ys_root st)\<rparr>)"
proof -
  have "\<exists>c. value_at q (change_at p f (ys_root st)) = Some c \<and> isContainer c"
    if q: "(j, q) \<in> set (ys_stack st)" for j q
  proof -
    have "prefix q p" using ok q st by (auto simp: yaml_ok_def)
    then obtain r where r: "p = q @ r" by (auto simp: prefix_def)
    obtain c where "value_at q (ys_root st) = Some c" "isContainer c"
      using ok q by (auto simp: yaml_ok_def)
    then show ?thesis using change_keeps_kind [of c r f] f(1) by (simp add: r value_change)
  qed
  moreover have "\<exists>es. change_at p f (ys_root st) = YObject es"
    using ok f(2) by (intro change_keeps_object) (auto simp: yaml_ok_def)
  ultimately show ?thesis using ok by (auto simp: yaml_ok_def)
qed

lemma yaml_ok_push:
  assumes "yaml_ok st" "ys_stack st = (i, p) # s" "i < j"
    "value_at (p @ [x]) (ys_root st) = Some c" "isContainer c"
  shows "yaml_ok (st\<lparr>ys_stack := (j, p @ [x]) # ys_stack st\<rparr>)"
  using assms by (auto simp: yaml_ok_def)

lemma yaml_ok_list_line:
  assumes ok: "yaml_ok st" and st: "ys_stack st = (i, p) # s" "i < ind"
    and run: "list_line ind t p st = Inr st'"
  shows "yaml_ok st'"
proof -
  define child where "child = parseListItem (trim (drop 2 t))"
  obtain xs where xs: "value_at p (ys_root st) = Some (YArray xs)"
    using run by (auto simp: list_line_def split: option.splits YamlValue.splits)
  define st1 where "st1 = st\<lparr>ys_root := change_at p (pushed child) (ys_root st)\<rparr>"
  have ok1: "yaml_ok st1" unfolding st1_def by (rule yaml_ok_change [OF ok st(1)]) auto
  have st': "st' = st1\<lparr>ys_stack := (if isContainer child then [(ind, p @ [Item (length xs)])] else [])
      @ ys_stack st1\<rparr>"
    using run xs by (auto simp: list_line_def st1_def child_def Let_def)
  have "value_at (p @ [Item (length xs)]) (ys_root st1) = Some child"
    by (simp add: st1_def value_at_append value_change_same xs)
  then show ?thesis
    using yaml_ok_push [OF ok1, of i p s ind] st ok1 unfolding st' by (cases st) (auto simp: st1_def)
qed

lemma yaml_ok_key_line:
  assumes ok: "yaml_ok st" and st: "ys_stack st = (i, p) # s" "i < ind"
    and run: "key_line rest ind t p st = Inr st'"
  shows "yaml_ok st'"
proof -
  obtain k v es where kv: "yamlKeyValue t = Inr (k, v)" and es: "value_at p (ys_root st) = Some (YObject es)"
    using run by (auto simp: key_line_def split: option.splits YamlValue.splits sum.splits)
  define w where "w = (if v \<noteq> [] then parseScalar v
    else if nextChildIsList rest ind then YArray [] else YObject [])"
  define st1 where "st1 = st\<lparr>ys_root := change_at p (assigned k w) (ys_root st)\<rparr>"
  have ok1: "yaml_ok st1" unfolding st1_def by (rule yaml_ok_change [OF ok st(1)]) auto
  have "value_at (p @ [Key k]) (ys_root st1) = Some w"
    by (simp add: st1_def value_at_append value_change_same es map_of_alist_update)
  then have "yaml_ok (st1\<lparr>ys_stack := (ind, p @ [Key k]) # ys_stack st1\<rparr>)" if "v = []"
    using yaml_ok_push [OF ok1, of i p s ind] st that by (auto simp: st1_def w_def)
  moreover have "st' = (if v = [] then st1\<lparr>ys_stack := (ind, p @ [Key k]) # ys_stack st1\<rparr> else st1)"
    using run by (auto simp: key_line_def kv es st1_def w_def split: if_splits)
  ultimately show ?thesis using ok1 by (simp split: if_splits)
qed

lemma yaml_indent_nonneg: "0 \<le> yaml_indent raw"
  by (simp add: yaml_indent_def)

lemma yaml_ok_line:
  assumes "yaml_ok st" "yaml_line rest raw st = Inr st'"
  shows "yaml_ok st'"
proof (cases "yaml_text raw = []")
  case True
  with assms show ?thesis by (simp add: yaml_line_def)
next
  case False
  define st1 where "st1 = st\<lparr>ys_stack := popped (yaml_indent raw) (ys_stack st)\<rparr>"
  have ok1: "yaml_ok st1"
    unfolding st1_def by (rule yaml_ok_popped [OF assms(1) yaml_indent_nonneg])
  then obtain i p s where s: "ys_stack st1 = (i, p) # s"
    by (cases "ys_stack st1") (auto simp: yaml_ok_def)
  then have "i < yaml_indent raw" by (auto simp: st1_def intro: popped_top)
  then show ?thesis
    using assms(2) False yaml_ok_list_line [OF ok1 s] yaml_ok_key_line [OF ok1 s]
    by (auto simp: yaml_line_def Let_def st1_def [symmetric] s split: if_splits)
qed

lemma yaml_ok_lines: "yaml_ok st \<Longrightarrow> yaml_lines ls st = Inr st' \<Longrightarrow> yaml_ok st'"
  by (induction ls arbitrary: st) (auto split: sum.splits dest: yaml_ok_line)

text \<open>While the YAML reader runs, every reference on its stack is a container of the value built
  so far, the references lead from the root (which is never popped) down, one inside the other,
  and their indentation grows: assigning a key or pushing an item never goes astray.\<close>

theorem yaml_stack_is_a_chain:
  assumes "yaml_lines ls initial_yaml = Inr st"
  shows "ys_stack st \<noteq> [] \<and> last (ys_stack st) = (-1, [])
     \<and> (\<exists>es. ys_root st = YObject es)
     \<and> sorted_wrt (\<lambda>(i, p) (j, q). j < i \<and> prefix q p) (ys_stack st)
     \<and> (\<forall>(i, p) \<in> set (ys_stack st). \<exists>c. value_at p (ys_root st) = Some c \<and> isContainer c)"
  using yaml_ok_lines [OF yaml_ok_initial assms] unfolding yaml_ok_def .

lemma yaml_stack_is_a_chain_witness:
  "\<exists>st. yaml_lines [''topics:'', ''  pose:'', ''    bindings:'', ''      - transport: grpc''] initial_yaml = Inr st
     \<and> length (ys_stack st) = 5 \<and> last (ys_stack st) = (-1, [])"
proof -
  define st where "st = projr (yaml_lines [''topics:'', ''  pose:'', ''    bindings:'', ''      - transport: grpc''] initial_yaml)"
  have run: "yaml_lines [''topics:'', ''  pose:'', ''    bindings:'', ''      - transport: grpc''] initial_yaml = Inr st"
    and len: "length (ys_stack st) = 5"
    unfolding st_def by code_simp+
  have "last (ys_stack st) = (-1, [])" using yaml_stack_is_a_chain [OF run] by (elim conjE)
  with run len show ?thesis by (intro exI conjI)
qed

end
