(* ===== verification/Monitor_Yaml_Render.thy ===== *)
theory Monitor_Yaml_Render
  imports Monitor_Yaml_Props
begin

text \<open>
  Documents of the subset that the reader of the monitor accepts, as trees, their rendering with
  two columns per level, and the proof that the reader gives back their value. The trees are the
  specification: mappings of scalars, mappings and lists, and lists of scalars and of mappings.
\<close>

subsection \<open>Documents\<close>

datatype ytree = Leaf string | Map "(string \<times> ytree) list" | Seq "yitem list"
  and yitem = Scalar string | Record string string "(string \<times> ytree) list"

fun tree_value :: "ytree \<Rightarrow> YamlValue" and item_value :: "yitem \<Rightarrow> YamlValue" where
  "tree_value (Leaf t) = parseScalar t"
| "tree_value (Map es) = YObject (map (\<lambda>(k, v). (k, tree_value v)) es)"
| "tree_value (Seq is) = YArray (map item_value is)"
| "item_value (Scalar t) = parseScalar t"
| "item_value (Record k t es) = YObject ((k, parseScalar t) # map (\<lambda>(k, v). (k, tree_value v)) es)"

abbreviation entry_values :: "(string \<times> ytree) list \<Rightarrow> YamlObject" where
  "entry_values es \<equiv> map (\<lambda>(k, v). (k, tree_value v)) es"

definition pad :: "nat \<Rightarrow> string \<Rightarrow> string" where
  "pad n s = replicate n SP @ s"

definition sep :: string where "sep = '': ''"
definition dash :: string where "dash = ''- ''"

fun render_entries :: "nat \<Rightarrow> (string \<times> ytree) list \<Rightarrow> string list"
  and render_items :: "nat \<Rightarrow> yitem list \<Rightarrow> string list" where
  "render_entries n [] = []"
| "render_entries n ((k, Leaf t) # es) = pad n (k @ sep @ t) # render_entries n es"
| "render_entries n ((k, Map []) # es) = pad n (k @ sep @ ''{}'') # render_entries n es"
| "render_entries n ((k, Map (e # cs)) # es) =
     pad n (k @ '':'') # render_entries (n + 2) (e # cs) @ render_entries n es"
| "render_entries n ((k, Seq []) # es) = pad n (k @ sep @ ''[]'') # render_entries n es"
| "render_entries n ((k, Seq (i # is)) # es) =
     pad n (k @ '':'') # render_items (n + 2) (i # is) @ render_entries n es"
| "render_items n [] = []"
| "render_items n (Scalar t # is) = pad n (dash @ t) # render_items n is"
| "render_items n (Record k t es # is) =
     pad n (dash @ k @ sep @ t) # render_entries (n + 2) es @ render_items n is"

text \<open>Keys and scalars that need no quotes.\<close>

definition plain :: "string \<Rightarrow> bool" where
  "plain s \<longleftrightarrow> trim s = s \<and> CHR ''#'' \<notin> set s \<and> LF \<notin> set s \<and> CR \<notin> set s"

definition plain_key :: "string \<Rightarrow> bool" where
  "plain_key k \<longleftrightarrow> plain k \<and> CHR '':'' \<notin> set k \<and> \<not> prefix dash k"

definition plain_scalar :: "string \<Rightarrow> bool" where
  "plain_scalar t \<longleftrightarrow> plain t \<and> t \<noteq> []"

fun tree_ok :: "ytree \<Rightarrow> bool" and item_ok :: "yitem \<Rightarrow> bool" where
  "tree_ok (Leaf t) \<longleftrightarrow> plain_scalar t"
| "tree_ok (Map es) \<longleftrightarrow> distinct (map fst es) \<and> (\<forall>(k, v) \<in> set es. plain_key k \<and> tree_ok v)"
| "tree_ok (Seq is) \<longleftrightarrow> (\<forall>i \<in> set is. item_ok i)"
| "item_ok (Scalar t) \<longleftrightarrow> plain_scalar t \<and> CHR '':'' \<notin> set t"
| "item_ok (Record k t es) \<longleftrightarrow> plain_key k \<and> plain_scalar t \<and> k \<notin> fst ` set es
     \<and> distinct (map fst es) \<and> (\<forall>(k, v) \<in> set es. plain_key k \<and> tree_ok v)"

abbreviation entries_ok :: "(string \<times> ytree) list \<Rightarrow> bool" where
  "entries_ok es \<equiv> distinct (map fst es) \<and> (\<forall>(k, v) \<in> set es. plain_key k \<and> tree_ok v)"

subsection \<open>Reading a rendered line\<close>

lemma strip_comment_none: "CHR ''#'' \<notin> set s \<Longrightarrow> strip_comment_from a b s = s"
  by (induction s arbitrary: a b) auto

lemma punctuation_not_ws [simp]:
  "\<not> is_ws (CHR '':'')" "\<not> is_ws (CHR ''-'')" "\<not> is_ws (CHR ''{'')" "\<not> is_ws (CHR ''}'')"
  "\<not> is_ws (CHR ''['')" "\<not> is_ws (CHR '']'')"
  by (simp_all add: is_ws_def)

lemma trim_eq_iff: "trim s = s \<longleftrightarrow> s = [] \<or> \<not> is_ws (hd s) \<and> \<not> is_ws (last s)"
  by (metis trim_hd_last trim_ident)

lemma yaml_text_pad:
  assumes "plain s"
  shows "yaml_text (pad n s) = s"
proof -
  have "stripComment (pad n s) = pad n s"
    unfolding stripComment_def using assms by (intro strip_comment_none) (auto simp: plain_def pad_def)
  moreover have "trimEnd (pad n s) = (if s = [] then [] else pad n s)"
    using assms by (auto simp: plain_def trim_eq_iff pad_def intro: trimEnd_all_ws trimEnd_ident)
  moreover have "trim (pad n s) = s"
    unfolding pad_def using assms by (subst trim_ws_prefix) (auto simp: plain_def)
  ultimately show ?thesis by (auto simp: yaml_text_def)
qed

lemma yaml_indent_pad: "s \<noteq> [] \<Longrightarrow> \<not> is_ws (hd s) \<Longrightarrow> yaml_indent (pad n s) = int n"
proof -
  assume s: "s \<noteq> []" "\<not> is_ws (hd s)"
  have "dropWhile is_ws (replicate n SP @ s) = s"
    using s by (induction n) (auto simp: neq_Nil_conv)
  then show ?thesis by (simp add: yaml_indent_def pad_def trimStart_def)
qed

lemma plain_append:
  "plain s \<Longrightarrow> plain t \<Longrightarrow> t \<noteq> [] \<Longrightarrow> CHR ''#'' \<notin> set m \<Longrightarrow> LF \<notin> set m \<Longrightarrow> CR \<notin> set m \<Longrightarrow> m \<noteq> []
    \<Longrightarrow> (s = [] \<Longrightarrow> \<not> is_ws (hd m)) \<Longrightarrow> plain (s @ m @ t)"
  unfolding plain_def trim_eq_iff by (cases "s = []") (auto simp: hd_append)

lemma plain_entry: "plain_key k \<Longrightarrow> plain_scalar t \<Longrightarrow> plain (k @ sep @ t)"
  unfolding plain_key_def plain_scalar_def by (intro plain_append) (auto simp: sep_def)

lemma plain_open: "plain_key k \<Longrightarrow> plain (k @ '':'')"
  unfolding plain_key_def plain_def trim_eq_iff by (cases "k = []") auto

lemma plain_item: "plain_scalar t \<Longrightarrow> plain (dash @ t)"
  unfolding plain_scalar_def using plain_append [of "[]" t dash] by (auto simp: dash_def plain_def)

lemma entry_scalar: "plain_key k \<Longrightarrow> plain_scalar t \<Longrightarrow> plain_scalar (k @ sep @ t)"
  using plain_entry [of k t] by (simp add: plain_scalar_def sep_def)

lemma plain_item_entry: "plain_key k \<Longrightarrow> plain_scalar t \<Longrightarrow> plain (dash @ k @ sep @ t)"
  by (intro plain_item entry_scalar)

lemma plain_hd: "plain s \<Longrightarrow> s \<noteq> [] \<Longrightarrow> \<not> is_ws (hd s)"
  by (simp add: plain_def trim_eq_iff)

lemma plain_braces [simp]: "plain_scalar ''{}''" "plain_scalar ''[]''"
  by (simp_all add: plain_scalar_def plain_def trim_eq_iff)

lemma key_no_dash: "plain_key k \<Longrightarrow> \<not> prefix dash (k @ CHR '':'' # r)"
  unfolding plain_key_def dash_def by (cases k; cases "tl k") auto

lemma key_value_text:
  assumes "plain_key k"
  shows "yamlKeyValue (k @ CHR '':'' # r) = Inr (k, trim r)"
proof -
  have c: "\<And>c. c \<in> set k \<Longrightarrow> c \<noteq> CHR '':''" using assms by (auto simp: plain_key_def)
  have "takeWhile (\<lambda>c. c \<noteq> CHR '':'') (k @ CHR '':'' # r) = k"
    using c by (subst takeWhile_append2) auto
  moreover have "dropWhile (\<lambda>c. c \<noteq> CHR '':'') (k @ CHR '':'' # r) = CHR '':'' # r"
    using c by (subst dropWhile_append2) auto
  ultimately show ?thesis using assms by (simp add: yamlKeyValue_def plain_key_def plain_def)
qed

lemma trim_sep: "plain t \<Longrightarrow> trim (SP # t) = t"
  using trim_ws_prefix [of "[SP]" t] by (simp add: plain_def)

text \<open>The three kinds of lines, from the container that the line belongs to.\<close>

lemma run_line:
  assumes "plain s" "s \<noteq> []" "popped (int n) (ys_stack st) = (j, p) # S"
  shows "yaml_line rest (pad n s) st =
    (let st' = st\<lparr>ys_stack := (j, p) # S\<rparr>
     in if prefix dash s then list_line (int n) s p st' else key_line rest (int n) s p st')"
  using assms by (simp add: yaml_line_def Let_def yaml_text_pad yaml_indent_pad plain_hd dash_def)

lemma run_entry:
  assumes "plain_key k" "plain_scalar t" "popped (int n) (ys_stack st) = (j, p) # S"
    "value_at p (ys_root st) = Some (YObject es)"
  shows "yaml_line rest (pad n (k @ sep @ t)) st =
    Inr \<lparr>ys_root = change_at p (assigned k (parseScalar t)) (ys_root st), ys_stack = (j, p) # S\<rparr>"
proof -
  have "yamlKeyValue (k @ sep @ t) = Inr (k, t)"
    using assms(2) key_value_text [OF assms(1), of "SP # t"] trim_sep [of t] by (simp add: sep_def plain_scalar_def)
  moreover have "\<not> prefix dash (k @ sep @ t)"
    using key_no_dash [OF assms(1)] by (simp add: sep_def)
  moreover have "k @ sep @ t \<noteq> []" by (simp add: sep_def)
  ultimately show ?thesis
    using run_line [OF plain_entry [OF assms(1,2)] _ assms(3)] assms(2,4)
    by (simp add: key_line_def plain_scalar_def)
qed

lemma run_open:
  assumes "plain_key k" "popped (int n) (ys_stack st) = (j, p) # S"
    "value_at p (ys_root st) = Some (YObject es)"
  shows "yaml_line rest (pad n (k @ '':'')) st =
    Inr \<lparr>ys_root = change_at p (assigned k (if nextChildIsList rest (int n) then YArray [] else YObject []))
            (ys_root st), ys_stack = (int n, p @ [Key k]) # (j, p) # S\<rparr>"
proof -
  have "yamlKeyValue (k @ '':'') = Inr (k, [])" using key_value_text [OF assms(1), of "[]"] by simp
  moreover have "\<not> prefix dash (k @ '':'')" using key_no_dash [OF assms(1), of "[]"] by simp
  ultimately show ?thesis
    using run_line [OF plain_open [OF assms(1)] _ assms(2)] assms(3) by (simp add: key_line_def)
qed

lemma run_item:
  assumes "plain_scalar t" "popped (int n) (ys_stack st) = (j, p) # S"
    "value_at p (ys_root st) = Some (YArray xs)"
  shows "yaml_line rest (pad n (dash @ t)) st =
    Inr \<lparr>ys_root = change_at p (pushed (parseListItem t)) (ys_root st),
        ys_stack = (if isContainer (parseListItem t) then [(int n, p @ [Item (length xs)])] else [])
          @ (j, p) # S\<rparr>"
proof -
  have "trim (drop 2 (dash @ t)) = t" using assms(1) by (simp add: dash_def plain_scalar_def plain_def)
  moreover have "dash @ t \<noteq> []" "prefix dash (dash @ t)" by (simp_all add: dash_def)
  ultimately show ?thesis
    using run_line [OF plain_item [OF assms(1)] _ assms(2)] assms(3) by (simp add: list_line_def Let_def)
qed

lemma item_scalar: "plain_scalar t \<Longrightarrow> CHR '':'' \<notin> set t \<Longrightarrow> parseListItem t = parseScalar t"
  by (simp add: parseListItem_def yamlKeyValue_def plain_scalar_def)

lemma item_entry:
  assumes "plain_key k" "plain_scalar t"
  shows "parseListItem (k @ sep @ t) = YObject [(k, parseScalar t)]"
  using key_value_text [OF assms(1), of "SP # t"] trim_sep [of t] assms(2)
  by (simp add: parseListItem_def sep_def plain_scalar_def)

lemma child_is_list:
  assumes "plain s" "s \<noteq> []"
  shows "nextChildIsList (pad (n + 2) s # rest) (int n) \<longleftrightarrow> prefix dash s"
  using assms by (simp add: yaml_text_pad yaml_indent_pad plain_hd dash_def)

subsection \<open>Reading a rendered document\<close>

text \<open>Reading the lines \<open>ls\<close> puts the value \<open>v\<close> at the path \<open>p\<close> and leaves the stack \<open>s\<close> once the
  references that are indented by \<open>n\<close> or more are popped.\<close>

definition reads :: "string list \<Rightarrow> nat \<Rightarrow> yaml_state \<Rightarrow> (int \<times> step list) list \<Rightarrow> step list \<Rightarrow>
    YamlValue \<Rightarrow> bool" where
  "reads ls n st s p v \<longleftrightarrow> (\<forall>rest. \<exists>st'. yaml_lines (ls @ rest) st = yaml_lines rest st'
     \<and> popped (int n) (ys_stack st') = s \<and> ys_root st' = change_at p (\<lambda>_. v) (ys_root st))"

lemma reads_Nil:
  assumes "popped (int n) (ys_stack st) = s" "value_at p (ys_root st) = Some v"
  shows "reads [] n st s p v"
  using assms change_id [of p "ys_root st" v "\<lambda>_. v"] by (auto simp: reads_def)

lemma reads_append:
  assumes "reads ls n st s p v" "value_at p (ys_root st) = Some c"
    "\<And>st'. popped (int n) (ys_stack st') = s \<Longrightarrow> value_at p (ys_root st') = Some v \<Longrightarrow> reads ms n st' s p w"
  shows "reads (ls @ ms) n st s p w"
  unfolding reads_def
proof
  fix rest
  obtain st1 where 1: "yaml_lines (ls @ ms @ rest) st = yaml_lines (ms @ rest) st1"
    "popped (int n) (ys_stack st1) = s" "ys_root st1 = change_at p (\<lambda>_. v) (ys_root st)"
    using assms(1) unfolding reads_def by blast
  have "value_at p (ys_root st1) = Some v" by (simp add: 1(3) value_change_same assms(2))
  with assms(3) 1(2) have "reads ms n st1 s p w" by blast
  then obtain st2 where 2: "yaml_lines (ms @ rest) st1 = yaml_lines rest st2"
    "popped (int n) (ys_stack st2) = s" "ys_root st2 = change_at p (\<lambda>_. w) (ys_root st1)"
    unfolding reads_def by blast
  have "ys_root st2 = change_at p (\<lambda>_. w) (ys_root st)" by (simp add: 2(3) 1(3) change_change comp_def)
  with 1 2 show "\<exists>st'. yaml_lines ((ls @ ms) @ rest) st = yaml_lines rest st'
     \<and> popped (int n) (ys_stack st') = s \<and> ys_root st' = change_at p (\<lambda>_. w) (ys_root st)" by auto
qed

lemma reads_single:
  assumes "\<And>rest. yaml_line rest raw st = Inr \<lparr>ys_root = change_at p f (ys_root st), ys_stack = s'\<rparr>"
    "popped (int n) s' = s" "value_at p (ys_root st) = Some c" "f c = v"
  shows "reads [raw] n st s p v"
  using assms change_cong [OF assms(3), of f "\<lambda>_. v"] by (auto simp: reads_def)

text \<open>A line that opens a container, and the deeper lines that fill it.\<close>

lemma reads_nested:
  assumes line: "\<And>rest. yaml_line (ch @ rest) raw st = Inr \<lparr>ys_root = change_at p f (ys_root st),
        ys_stack = (int n, p @ [x]) # (j, p) # S\<rparr>"
    and c: "value_at p (ys_root st) = Some c" and j: "j < int n"
    and e: "value_at [x] (f c) = Some e" and w: "change_at [x] (\<lambda>_. cv) (f c) = w"
    and ch: "\<And>st'. popped (int (n + 2)) (ys_stack st') = (int n, p @ [x]) # (j, p) # S \<Longrightarrow>
        value_at (p @ [x]) (ys_root st') = Some e \<Longrightarrow>
        reads ch (n + 2) st' ((int n, p @ [x]) # (j, p) # S) (p @ [x]) cv"
  shows "reads (raw # ch) n st ((j, p) # S) p w"
  unfolding reads_def
proof
  fix rest
  define st1 where "st1 = \<lparr>ys_root = change_at p f (ys_root st), ys_stack = (int n, p @ [x]) # (j, p) # S\<rparr>"
  have "value_at (p @ [x]) (ys_root st1) = Some e"
    using e by (simp add: st1_def value_at_append value_change_same c)
  moreover have "popped (int (n + 2)) (ys_stack st1) = (int n, p @ [x]) # (j, p) # S"
    by (simp add: st1_def popped_keep)
  ultimately have "reads ch (n + 2) st1 ((int n, p @ [x]) # (j, p) # S) (p @ [x]) cv" by (rule ch [rotated])
  then obtain st2 where 2: "yaml_lines (ch @ rest) st1 = yaml_lines rest st2"
    "popped (int (n + 2)) (ys_stack st2) = (int n, p @ [x]) # (j, p) # S"
    "ys_root st2 = change_at (p @ [x]) (\<lambda>_. cv) (ys_root st1)"
    unfolding reads_def by blast
  have "ys_root st2 = change_at p (change_at [x] (\<lambda>_. cv) \<circ> f) (ys_root st)"
    by (simp add: 2(3) st1_def change_at_append change_change)
  also have "\<dots> = change_at p (\<lambda>_. w) (ys_root st)" using w by (intro change_cong [OF c]) simp
  finally have root: "ys_root st2 = change_at p (\<lambda>_. w) (ys_root st)" .
  have "popped (int n) (ys_stack st2) = popped (int n) (popped (int (n + 2)) (ys_stack st2))"
    by (simp add: popped_popped)
  then have "popped (int n) (ys_stack st2) = (j, p) # S"
    using j unfolding 2(2) by (simp add: popped_drop popped_keep)
  then show "\<exists>st'. yaml_lines ((raw # ch) @ rest) st = yaml_lines rest st'
     \<and> popped (int n) (ys_stack st') = (j, p) # S \<and> ys_root st' = change_at p (\<lambda>_. w) (ys_root st)"
    using 2(1) root line [of rest] by (auto simp: st1_def)
qed

lemma open_list:
  assumes "\<forall>i \<in> set is. item_ok i" "is \<noteq> []"
  shows "nextChildIsList (render_items (n + 2) is @ rest) (int n)"
proof -
  obtain i r where "is = i # r" using assms(2) by (cases "is") auto
  moreover have "nextChildIsList (pad (n + 2) (dash @ s) # ls) (int n)" if "plain (dash @ s)" for s ls
    using child_is_list [OF that, of n] by (simp add: dash_def del: nextChildIsList.simps)
  ultimately show ?thesis
    using assms(1) plain_item plain_item_entry
    by (cases i) (simp_all del: nextChildIsList.simps)
qed

lemma open_mapping:
  assumes "entries_ok es" "es \<noteq> []"
  shows "\<not> nextChildIsList (render_entries (n + 2) es @ rest) (int n)"
proof -
  obtain k v r where es: "es = (k, v) # r" using assms(2) by (cases es) auto
  with assms(1) have k: "plain_key k" and v: "tree_ok v" by auto
  have 1: "\<not> nextChildIsList (pad (n + 2) (k @ sep @ t) # ls) (int n)" if "plain_scalar t" for t ls
    using child_is_list [OF plain_entry [OF k that], of n] key_no_dash [OF k] by (simp add: sep_def)
  have 2: "\<not> nextChildIsList (pad (n + 2) (k @ '':'') # ls) (int n)" for ls
    using child_is_list [OF plain_open [OF k], of n] key_no_dash [OF k, of "[]"] by simp
  show ?thesis
  proof (cases v)
    case (Leaf t)
    with v show ?thesis using 1 by (simp add: es del: nextChildIsList.simps)
  next
    case (Map cs)
    show ?thesis using 1 [of "''{}''"] 2 by (cases cs) (simp_all add: es Map del: nextChildIsList.simps)
  next
    case (Seq cs)
    show ?thesis using 1 [of "''[]''"] 2 by (cases cs) (simp_all add: es Seq del: nextChildIsList.simps)
  qed
qed


lemma scalar_braces [simp]: "parseScalar ''{}'' = YObject []" "parseScalar ''[]'' = YArray []"
  by (simp_all add: parseScalar_def unquote_def is_quote_def)

lemma reads_entry:
  assumes "plain_key k" "plain_scalar t" "popped (int n) (ys_stack st) = (j, p) # S"
    "value_at p (ys_root st) = Some (YObject es)" "k \<notin> fst ` set es"
  shows "reads [pad n (k @ sep @ t)] n st ((j, p) # S) p (YObject (es @ [(k, parseScalar t)]))"
  by (rule reads_single [OF run_entry [OF assms(1-4)] _ assms(4)])
    (simp_all add: popped_keep popped_top [OF assms(3)] update_new assms(5))

lemma reads_mapping:
  assumes k: "plain_key k" "k \<notin> fst ` set es" and st: "popped (int n) (ys_stack st) = (j, p) # S"
    "value_at p (ys_root st) = Some (YObject es)" and ok: "entries_ok cs" "cs \<noteq> []"
    and ch: "\<And>st' j p S. popped (int (n + 2)) (ys_stack st') = (j, p) # S \<Longrightarrow>
      value_at p (ys_root st') = Some (YObject []) \<Longrightarrow>
      reads (render_entries (n + 2) cs) (n + 2) st' ((j, p) # S) p (YObject (entry_values cs))"
  shows "reads (pad n (k @ '':'') # render_entries (n + 2) cs) n st ((j, p) # S) p
    (YObject (es @ [(k, YObject (entry_values cs))]))"
proof (rule reads_nested [OF _ st(2) popped_top [OF st(1)]])
  show "yaml_line (render_entries (n + 2) cs @ rest) (pad n (k @ '':'')) st =
      Inr \<lparr>ys_root = change_at p (assigned k (YObject [])) (ys_root st),
        ys_stack = (int n, p @ [Key k]) # (j, p) # S\<rparr>" for rest
    using run_open [OF k(1) st] open_mapping [OF ok] by simp
  show "value_at [Key k] (assigned k (YObject []) (YObject es)) = Some (YObject [])"
    by (simp add: map_of_alist_update)
  show "change_at [Key k] (\<lambda>_. YObject (entry_values cs)) (assigned k (YObject []) (YObject es)) =
      YObject (es @ [(k, YObject (entry_values cs))])"
    by (simp add: map_of_alist_update update_twice) (rule update_new [OF k(2)])
qed (rule ch)

lemma reads_list:
  assumes k: "plain_key k" "k \<notin> fst ` set es" and st: "popped (int n) (ys_stack st) = (j, p) # S"
    "value_at p (ys_root st) = Some (YObject es)" and ok: "\<forall>i \<in> set cs. item_ok i" "cs \<noteq> []"
    and ch: "\<And>st' j p S. popped (int (n + 2)) (ys_stack st') = (j, p) # S \<Longrightarrow>
      value_at p (ys_root st') = Some (YArray []) \<Longrightarrow>
      reads (render_items (n + 2) cs) (n + 2) st' ((j, p) # S) p (YArray (map item_value cs))"
  shows "reads (pad n (k @ '':'') # render_items (n + 2) cs) n st ((j, p) # S) p
    (YObject (es @ [(k, YArray (map item_value cs))]))"
proof (rule reads_nested [OF _ st(2) popped_top [OF st(1)]])
  show "yaml_line (render_items (n + 2) cs @ rest) (pad n (k @ '':'')) st =
      Inr \<lparr>ys_root = change_at p (assigned k (YArray [])) (ys_root st),
        ys_stack = (int n, p @ [Key k]) # (j, p) # S\<rparr>" for rest
    using run_open [OF k(1) st] open_list [OF ok] by simp
  show "value_at [Key k] (assigned k (YArray []) (YObject es)) = Some (YArray [])"
    by (simp add: map_of_alist_update)
  show "change_at [Key k] (\<lambda>_. YArray (map item_value cs)) (assigned k (YArray []) (YObject es)) =
      YObject (es @ [(k, YArray (map item_value cs))])"
    by (simp add: map_of_alist_update update_twice) (rule update_new [OF k(2)])
qed (rule ch)

lemma reads_scalar_item:
  assumes "plain_scalar t" "CHR '':'' \<notin> set t" "popped (int n) (ys_stack st) = (j, p) # S"
    "value_at p (ys_root st) = Some (YArray xs)"
  shows "reads [pad n (dash @ t)] n st ((j, p) # S) p (YArray (xs @ [parseScalar t]))"
  by (rule reads_single [OF run_item [OF assms(1,3,4)] _ assms(4)])
    (simp_all add: popped_keep popped_drop popped_top [OF assms(3)] item_scalar assms(1,2))

lemma reads_record:
  assumes k: "plain_key k" "plain_scalar t" and st: "popped (int n) (ys_stack st) = (j, p) # S"
    "value_at p (ys_root st) = Some (YArray xs)"
    and ch: "\<And>st' j p S. popped (int (n + 2)) (ys_stack st') = (j, p) # S \<Longrightarrow>
      value_at p (ys_root st') = Some (YObject [(k, parseScalar t)]) \<Longrightarrow>
      reads (render_entries (n + 2) cs) (n + 2) st' ((j, p) # S) p
        (YObject ((k, parseScalar t) # entry_values cs))"
  shows "reads (pad n (dash @ k @ sep @ t) # render_entries (n + 2) cs) n st ((j, p) # S) p
    (YArray (xs @ [YObject ((k, parseScalar t) # entry_values cs)]))"
proof (rule reads_nested [OF _ st(2) popped_top [OF st(1)]])
  show "yaml_line (render_entries (n + 2) cs @ rest) (pad n (dash @ k @ sep @ t)) st =
      Inr \<lparr>ys_root = change_at p (pushed (YObject [(k, parseScalar t)])) (ys_root st),
        ys_stack = (int n, p @ [Item (length xs)]) # (j, p) # S\<rparr>" for rest
    using run_item [OF entry_scalar [OF k] st] by (simp add: item_entry [OF k])
  show "value_at [Item (length xs)] (pushed (YObject [(k, parseScalar t)]) (YArray xs)) =
      Some (YObject [(k, parseScalar t)])" by simp
  show "change_at [Item (length xs)] (\<lambda>_. YObject ((k, parseScalar t) # entry_values cs))
      (pushed (YObject [(k, parseScalar t)]) (YArray xs)) =
      YArray (xs @ [YObject ((k, parseScalar t) # entry_values cs)])" by simp
qed (rule ch)

lemma run_render:
  "entries_ok es \<Longrightarrow> popped (int n) (ys_stack st) = (j, p) # S \<Longrightarrow>
    value_at p (ys_root st) = Some (YObject es0) \<Longrightarrow> fst ` set es \<inter> fst ` set es0 = {} \<Longrightarrow>
    reads (render_entries n es) n st ((j, p) # S) p (YObject (es0 @ entry_values es))"
  "\<forall>i \<in> set is. item_ok i \<Longrightarrow> popped (int n) (ys_stack st) = (j, p) # S \<Longrightarrow>
    value_at p (ys_root st) = Some (YArray xs) \<Longrightarrow>
    reads (render_items n is) n st ((j, p) # S) p (YArray (xs @ map item_value is))"
proof (induction n es and n "is" arbitrary: st j p S es0 and st j p S xs rule: render_entries_render_items.induct)
  case (1 n)
  then show ?case by (simp add: reads_Nil)
next
  case (2 n k t es)
  from "2.prems" have "reads [pad n (k @ sep @ t)] n st ((j, p) # S) p (YObject (es0 @ [(k, parseScalar t)]))"
    by (intro reads_entry) auto
  then have "reads ([pad n (k @ sep @ t)] @ render_entries n es) n st ((j, p) # S) p
      (YObject ((es0 @ [(k, parseScalar t)]) @ entry_values es))"
    using "2.prems" by (intro reads_append [OF _ "2.prems"(3)] "2.IH") auto
  then show ?case by simp
next
  case (3 n k es)
  from "3.prems" have "reads [pad n (k @ sep @ ''{}'')] n st ((j, p) # S) p (YObject (es0 @ [(k, YObject [])]))"
    using reads_entry [of k "''{}''" n st j p S es0] by simp
  then have "reads ([pad n (k @ sep @ ''{}'')] @ render_entries n es) n st ((j, p) # S) p
      (YObject ((es0 @ [(k, YObject [])]) @ entry_values es))"
    using "3.prems" by (intro reads_append [OF _ "3.prems"(3)] "3.IH") auto
  then show ?case by simp
next
  case (4 n k e cs es)
  have "reads (pad n (k @ '':'') # render_entries (n + 2) (e # cs)) n st ((j, p) # S) p
      (YObject (es0 @ [(k, YObject (entry_values (e # cs)))]))"
    using "4.prems" "4.IH"(1) [where ?es0.0 = "[]"]
    by (intro reads_mapping) (auto simp del: render_entries.simps list.simps(9))
  then have "reads ((pad n (k @ '':'') # render_entries (n + 2) (e # cs)) @ render_entries n es) n st ((j, p) # S) p
      (YObject ((es0 @ [(k, YObject (entry_values (e # cs)))]) @ entry_values es))"
    using "4.prems" by (intro reads_append [OF _ "4.prems"(3)] "4.IH"(2)) auto
  then show ?case by simp
next
  case (5 n k es)
  from "5.prems" have "reads [pad n (k @ sep @ ''[]'')] n st ((j, p) # S) p (YObject (es0 @ [(k, YArray [])]))"
    using reads_entry [of k "''[]''" n st j p S es0] by simp
  then have "reads ([pad n (k @ sep @ ''[]'')] @ render_entries n es) n st ((j, p) # S) p
      (YObject ((es0 @ [(k, YArray [])]) @ entry_values es))"
    using "5.prems" by (intro reads_append [OF _ "5.prems"(3)] "5.IH") auto
  then show ?case by simp
next
  case (6 n k i "is" es)
  have "reads (pad n (k @ '':'') # render_items (n + 2) (i # is)) n st ((j, p) # S) p
      (YObject (es0 @ [(k, YArray (map item_value (i # is)))]))"
    using "6.prems" "6.IH"(1) [where ?xs = "[]"]
    by (intro reads_list) (auto simp del: render_items.simps list.simps(9))
  then have "reads ((pad n (k @ '':'') # render_items (n + 2) (i # is)) @ render_entries n es) n st ((j, p) # S) p
      (YObject ((es0 @ [(k, YArray (map item_value (i # is)))]) @ entry_values es))"
    using "6.prems" by (intro reads_append [OF _ "6.prems"(3)] "6.IH"(2)) auto
  then show ?case by simp
next
  case (7 n)
  then show ?case by (simp add: reads_Nil)
next
  case (8 n t "is")
  from "8.prems" have "reads [pad n (dash @ t)] n st ((j, p) # S) p (YArray (xs @ [parseScalar t]))"
    by (intro reads_scalar_item) auto
  then have "reads ([pad n (dash @ t)] @ render_items n is) n st ((j, p) # S) p
      (YArray ((xs @ [parseScalar t]) @ map item_value is))"
    using "8.prems" by (intro reads_append [OF _ "8.prems"(3)] "8.IH") auto
  then show ?case by simp
next
  case (9 n k t es "is")
  have "reads (pad n (dash @ k @ sep @ t) # render_entries (n + 2) es) n st ((j, p) # S) p
      (YArray (xs @ [YObject ((k, parseScalar t) # entry_values es)]))"
    using "9.prems" "9.IH"(1) [where ?es0.0 = "[(k, parseScalar t)]"] by (intro reads_record) auto
  then have "reads ((pad n (dash @ k @ sep @ t) # render_entries (n + 2) es) @ render_items n is) n st ((j, p) # S) p
      (YArray ((xs @ [YObject ((k, parseScalar t) # entry_values es)]) @ map item_value is))"
    using "9.prems" by (intro reads_append [OF _ "9.prems"(3)] "9.IH"(2)) auto
  then show ?case by simp
qed

subsection \<open>Whole documents\<close>

lemma clean_pad: "plain s \<Longrightarrow> clean_line (pad n s)"
  by (auto simp: plain_def clean_line_def pad_def)

lemma clean_render:
  "entries_ok es \<Longrightarrow> clean_lines (render_entries n es)"
  "\<forall>i \<in> set is. item_ok i \<Longrightarrow> clean_lines (render_items n is)"
  by (induction n es and n "is" rule: render_entries_render_items.induct)
    (auto intro!: clean_pad plain_entry plain_open plain_item entry_scalar)

lemma render_not_Nil: "es \<noteq> [] \<Longrightarrow> render_entries n es \<noteq> []"
  by (cases "(n, es)" rule: render_entries.cases) auto

text \<open>C19. A document of mappings, lists of scalars and lists of mappings, with plain keys and
  scalars and no key twice in a mapping, rendered with two columns per level, is read back by the
  monitor as exactly the value it was rendered from: keys in their order, every scalar converted,
  every list item in its list.\<close>

theorem rendered_document_parsed:
  assumes "entries_ok es"
  shows "parseYamlSubset (join_lines (render_entries 0 es)) = Inr (entry_values es)"
proof -
  have "reads (render_entries 0 es) 0 initial_yaml [(-1, [])] [] (YObject ([] @ entry_values es))"
    using assms by (intro run_render(1)) (auto simp: initial_yaml_def popped_def)
  then obtain st where st: "yaml_lines (render_entries 0 es @ []) initial_yaml = yaml_lines [] st"
    "ys_root st = YObject (entry_values es)"
    unfolding reads_def by (metis append_Nil change_at.simps(1))
  have "yaml_lines (split_lines (join_lines (render_entries 0 es))) initial_yaml = Inr st"
  proof (cases "es = []")
    case True
    with st(1) show ?thesis by (simp add: nl_def yaml_line_def yaml_text_def stripComment_def)
  next
    case False
    then show ?thesis
      using st(1) clean_render(1) [OF assms] by (simp add: split_join_lines render_not_Nil)
  qed
  then show ?thesis by (simp add: parseYamlSubset_def st(2))
qed

definition sample_document :: "(string \<times> ytree) list" where
  "sample_document = [(''topics'', Map [(''pose'', Map
     [(''type'', Leaf ''geometry/Pose''), (''addresses'', Map [(''ros2'', Leaf ''/pose'')]),
      (''tags'', Seq [Scalar ''a'', Scalar ''7'']),
      (''bindings'', Seq [Record ''transport'' ''ros2_topic'' [(''topic'', Leaf ''/pose'')]])])]),
     (''services'', Map [])]"

lemma rendered_document_parsed_witness:
  "parseYamlSubset (join_lines (render_entries 0 sample_document)) = Inr (entry_values sample_document)
   \<and> length (render_entries 0 sample_document) = 12"
proof -
  have ok: "entries_ok sample_document" by code_simp
  have "length (render_entries 0 sample_document) = 12" by code_simp
  with rendered_document_parsed [OF ok] show ?thesis by (rule conjI)
qed

text \<open>A list whose items stand in the same column as their key, which YAML allows, is not of the
  subset: the reader has already decided on an empty mapping and refuses the first item.\<close>

theorem list_in_key_column_rejected:
  assumes "plain_key k" "plain_scalar t"
  shows "parseYamlSubset (join_lines [k @ '':'', dash @ t]) =
    Inl ''YAML subset parser found a list item outside a list''"
proof -
  define e where "e = ''YAML subset parser found a list item outside a list''"
  have lines: "pad 0 s = s" for s by (simp add: pad_def)
  have item: "yaml_text (dash @ t) = dash @ t" "yaml_indent (dash @ t) = 0"
    using yaml_text_pad [OF plain_item [OF assms(2)], of 0] yaml_indent_pad [of "dash @ t" 0]
    by (simp_all add: lines dash_def)
  have "yaml_line [dash @ t] (k @ '':'') initial_yaml =
      Inr \<lparr>ys_root = YObject [(k, YObject [])], ys_stack = [(0, [Key k]), (-1, [])]\<rparr>"
    using run_open [OF assms(1), of 0 initial_yaml "-1" "[]" "[]" "[]" "[dash @ t]"] item
    by (simp add: lines initial_yaml_def popped_def dash_def)
  moreover have "yaml_line [] (dash @ t) \<lparr>ys_root = YObject [(k, YObject [])],
      ys_stack = [(0, [Key k]), (-1, [])]\<rparr> = Inl e"
    using run_line [OF plain_item [OF assms(2)], of 0 "\<lparr>ys_root = YObject [(k, YObject [])],
      ys_stack = [(0, [Key k]), (-1, [])]\<rparr>" "-1" "[]" "[]" "[]"]
    by (simp add: lines popped_def list_line_def dash_def e_def [symmetric])
  moreover have "clean_lines [k @ '':'', dash @ t]"
    using clean_pad [OF plain_open [OF assms(1)], of 0] clean_pad [OF plain_item [OF assms(2)], of 0]
    by (simp add: lines)
  ultimately show ?thesis
    by (simp add: parseYamlSubset_def split_join_lines e_def [symmetric] del: join.simps)
qed

lemma list_in_key_column_rejected_witness:
  "parseYamlSubset (join_lines [''bindings'' @ '':'', dash @ ''grpc'']) =
    Inl ''YAML subset parser found a list item outside a list''"
  by (rule list_in_key_column_rejected) code_simp+

lemma strip_comment_append:
  assumes "set s \<inter> {DQ, SQ, CHR ''#''} = {}"
  shows "strip_comment_from False False (s @ CHR ''#'' # r) = s"
  using assms by (induction s) auto

text \<open>A hash sign inside a plain scalar, which only starts a comment in YAML after white space,
  cuts the scalar: the route is listed with a truncated address.\<close>

theorem hash_cuts_scalar:
  assumes "plain_key k" "plain_scalar t" "set (k @ t) \<inter> {DQ, SQ} = {}" "clean_line r"
  shows "parseYamlSubset (k @ sep @ t @ ''#'' @ r) = Inr [(k, parseScalar t)]"
proof -
  have strip: "stripComment (k @ sep @ t @ ''#'' @ r) = k @ sep @ t"
    using strip_comment_append [of "k @ sep @ t" r] assms(1-3)
    by (auto simp: stripComment_def sep_def plain_key_def plain_scalar_def plain_def)
  have pl: "plain (k @ sep @ t)" by (rule plain_entry [OF assms(1,2)])
  have same: "yaml_text (k @ sep @ t @ ''#'' @ r) = yaml_text (k @ sep @ t)"
    using strip strip_comment_none [of "k @ sep @ t" False False] pl
    by (simp add: yaml_text_def stripComment_def plain_def)
  have ind: "yaml_indent (k @ sep @ t @ ''#'' @ r) = 0" "yaml_indent (k @ sep @ t) = 0"
    using yaml_indent_pad [of "k @ sep @ t" 0] yaml_indent_pad [of "k @ sep @ t @ ''#'' @ r" 0]
      plain_hd [OF pl] by (simp_all add: pad_def sep_def hd_append split: if_splits)
  have "yaml_line [] (k @ sep @ t @ ''#'' @ r) initial_yaml = yaml_line [] (k @ sep @ t) initial_yaml"
    by (simp only: yaml_line_def same ind)
  also have "\<dots> = Inr \<lparr>ys_root = YObject [(k, parseScalar t)], ys_stack = [(-1, [])]\<rparr>"
    using run_entry [OF assms(1,2), of 0 initial_yaml "-1" "[]" "[]" "[]" "[]"]
    by (simp add: pad_def initial_yaml_def popped_def)
  finally have run: "yaml_line [] (k @ sep @ t @ ''#'' @ r) initial_yaml =
      Inr \<lparr>ys_root = YObject [(k, parseScalar t)], ys_stack = [(-1, [])]\<rparr>" .
  have "LF \<notin> set (k @ sep @ t)" "CR \<notin> set (k @ sep @ t)" using pl by (simp_all add: plain_def)
  with assms(4) have "clean_line (k @ sep @ t @ ''#'' @ r)" by (auto simp: clean_line_def)
  then show ?thesis by (simp add: parseYamlSubset_def run [simplified append_Cons append_Nil])
qed

lemma hash_cuts_scalar_witness:
  "parseYamlSubset (''topic'' @ sep @ ''/pose'' @ ''#'' @ ''1'') = Inr [(''topic'', YString ''/pose'')]"
proof -
  have "parseScalar ''/pose'' = YString ''/pose''" by code_simp
  moreover have "parseYamlSubset (''topic'' @ sep @ ''/pose'' @ ''#'' @ ''1'') = Inr [(''topic'', parseScalar ''/pose'')]"
    by (rule hash_cuts_scalar) code_simp+
  ultimately show ?thesis by (rule subst)
qed

end
