(* ===== verification/Discovery_Props.thy ===== *)
theory Discovery_Props
  imports Discovery Monitor_Yaml_Render
begin

text \<open>
  What the discovery of routes guarantees: the endpoints are the drafts grouped by URL, every
  draft that is not hidden is listed with its type, file and route name, and a file that cannot be
  read only adds an error.
\<close>

subsection \<open>Merging is grouping by URL\<close>

interpretation drafts: keyed_merge dr_url ep_url endpointFromDraft extend_endpoint
  by unfold_locales (simp_all add: endpointFromDraft_def extend_endpoint_def)

lemma merge_drafts_fold:
  "merge_drafts ds = fold (upsert dr_url ep_url endpointFromDraft extend_endpoint) (shown_drafts ds) []"
  by (simp add: merge_drafts_def merge_draft_def)

lemma set_include_once [simp]: "set (include_once x xs) = insert x (set xs)"
  by (auto simp: include_once_def)

lemma distinct_include_once [simp]: "distinct (include_once x xs) = distinct xs"
  by (simp add: include_once_def)

text \<open>The bits, files and names that the drafts of one URL add up to.\<close>

lemma extended_endpoint:
  "has_bits (ep_type (fold extend_endpoint ds e)) b \<longleftrightarrow> has_bits (ep_type e) b \<or> (\<exists>d \<in> set ds. has_bits (dr_type d) b)"
  "set (ep_sources (fold extend_endpoint ds e)) = set (ep_sources e) \<union> dr_source ` set ds"
  "set (ep_routeNames (fold extend_endpoint ds e)) = set (ep_routeNames e) \<union> dr_routeName ` set ds"
  by (induction ds arbitrary: e) (auto simp: extend_endpoint_def has_bits_or)

lemma entry_of_drafts:
  assumes "u \<in> dr_url ` set ds" and e: "e = drafts.entry_of ds u"
  shows "has_bits (ep_type e) b \<longleftrightarrow> (\<exists>d \<in> set ds. dr_url d = u \<and> has_bits (dr_type d) b)"
    and "set (ep_sources e) = dr_source ` {d \<in> set ds. dr_url d = u}"
    and "set (ep_routeNames e) = dr_routeName ` {d \<in> set ds. dr_url d = u}"
proof -
  obtain d r where dr: "filter (\<lambda>d. dr_url d = u) ds = d # r"
    using assms(1) by (cases "filter (\<lambda>d. dr_url d = u) ds") (auto simp: filter_empty_conv)
  then have e': "e = fold extend_endpoint r (endpointFromDraft d)"
    by (simp add: e drafts.entry_of_def)
  have s: "{d \<in> set ds. dr_url d = u} = insert d (set r)"
    using arg_cong [OF dr, of set] by simp
  have "(\<exists>d \<in> set ds. dr_url d = u \<and> has_bits (dr_type d) b) \<longleftrightarrow> (\<exists>d \<in> {d \<in> set ds. dr_url d = u}. has_bits (dr_type d) b)"
    by blast
  then show "has_bits (ep_type e) b \<longleftrightarrow> (\<exists>d \<in> set ds. dr_url d = u \<and> has_bits (dr_type d) b)"
    unfolding s by (simp add: e' extended_endpoint endpointFromDraft_def)
  show "set (ep_sources e) = dr_source ` {d \<in> set ds. dr_url d = u}"
    and "set (ep_routeNames e) = dr_routeName ` {d \<in> set ds. dr_url d = u}"
    unfolding s by (simp_all add: e' extended_endpoint endpointFromDraft_def)
qed

text \<open>The loop that merges the drafts of the route files computes a grouping by URL: one endpoint
  per URL of the drafts that are shown, in the order in which the URLs first occur, each built
  from exactly the drafts of its URL, in their order.\<close>

theorem merge_drafts_groups:
  "merge_drafts ds = map (\<lambda>u. the (combined endpointFromDraft extend_endpoint
      (filter (\<lambda>d. dr_url d = u) (shown_drafts ds)))) (uniq (map dr_url (shown_drafts ds)))"
  unfolding merge_drafts_fold drafts.merged drafts.entry_of_def ..

subsection \<open>The order of the endpoints\<close>

lemma comparator_endpoints:
  assumes "comparator lc" "\<And>x y. lc x y = 0 \<Longrightarrow> x = y"
  shows "comparator (compareEndpoints lc)"
proof -
  have "lc x x = 0" for x using comparator.cmp_refl [OF assms(1)] .
  then have eq: "lc x y = 0 \<longleftrightarrow> x = y" for x y using assms(2) by auto
  have "compareEndpoints lc = compare_then
      (\<lambda>a b. lc (url_transport (ep_url a)) (url_transport (ep_url b))) (\<lambda>a b. lc (ep_url a) (ep_url b))"
    by (intro ext) (simp add: compareEndpoints_def compare_then_def Let_def eq)
  then show ?thesis using comparator_then [OF comparator.comparator_on [OF assms(1)] comparator.comparator_on [OF assms(1)]]
    by metis
qed

text \<open>The drafts of all files, as the loop over them leaves them.\<close>

definition all_drafts :: "node \<Rightarrow> path \<Rightarrow> EndpointDraft list" where
  "all_drafts fs rootDir = ga_drafts (gather_files fs rootDir (discoverYamlFiles fs rootDir))"

lemma endpoints_drafts:
  "dc_endpoints (discoverProjectEndpoints lc fs rootDir) =
    js_sort (compareEndpoints lc) (merge_drafts (all_drafts fs rootDir))"
  by (simp add: discoverProjectEndpoints_def all_drafts_def Let_def)

lemma set_merged:
  "e \<in> set (merge_drafts ds) \<longleftrightarrow> (\<exists>u \<in> dr_url ` set (shown_drafts ds). e = drafts.entry_of (shown_drafts ds) u)"
  unfolding merge_drafts_fold drafts.merged by auto

lemma merged_endpoint:
  assumes "e \<in> set (merge_drafts ds)"
  shows "ep_url e \<in> dr_url ` set (shown_drafts ds)"
    and "has_bits (ep_type e) b \<longleftrightarrow> (\<exists>d \<in> set (shown_drafts ds). dr_url d = ep_url e \<and> has_bits (dr_type d) b)"
    and "set (ep_sources e) = dr_source ` {d \<in> set (shown_drafts ds). dr_url d = ep_url e}"
    and "set (ep_routeNames e) = dr_routeName ` {d \<in> set (shown_drafts ds). dr_url d = ep_url e}"
proof -
  obtain u where u: "u \<in> dr_url ` set (shown_drafts ds)" "e = drafts.entry_of (shown_drafts ds) u"
    using assms by (auto simp: set_merged)
  then have "ep_url e = u" by (simp add: drafts.key_entry_of)
  with u entry_of_drafts [OF u] show "ep_url e \<in> dr_url ` set (shown_drafts ds)"
    and "has_bits (ep_type e) b \<longleftrightarrow> (\<exists>d \<in> set (shown_drafts ds). dr_url d = ep_url e \<and> has_bits (dr_type d) b)"
    and "set (ep_sources e) = dr_source ` {d \<in> set (shown_drafts ds). dr_url d = ep_url e}"
    and "set (ep_routeNames e) = dr_routeName ` {d \<in> set (shown_drafts ds). dr_url d = ep_url e}"
    by simp_all
qed

text \<open>C17. The endpoints that the discovery reports have pairwise different URLs, which are the URLs of
  the drafts that are shown; they are sorted by transport and URL; and an endpoint is a publisher,
  subscriber, server, client, setter or getter exactly if one of the drafts of its URL is, its
  files and route names being those of these drafts. The collation is assumed to be an order in
  which different strings compare as different.\<close>

theorem discovered_endpoints:
  assumes "comparator lc" "\<And>x y. lc x y = 0 \<Longrightarrow> x = y"
  shows "distinct (map ep_url (dc_endpoints (discoverProjectEndpoints lc fs rootDir)))
    \<and> ep_url ` set (dc_endpoints (discoverProjectEndpoints lc fs rootDir)) =
        dr_url ` set (shown_drafts (all_drafts fs rootDir))
    \<and> sorted_wrt (\<lambda>a b. compareEndpoints lc a b \<le> 0) (dc_endpoints (discoverProjectEndpoints lc fs rootDir))
    \<and> (\<forall>e \<in> set (dc_endpoints (discoverProjectEndpoints lc fs rootDir)).
        let ds = filter (\<lambda>d. dr_url d = ep_url e) (shown_drafts (all_drafts fs rootDir))
        in (\<forall>b. has_bits (ep_type e) b \<longleftrightarrow> (\<exists>d \<in> set ds. has_bits (dr_type d) b))
          \<and> set (ep_sources e) = dr_source ` set ds \<and> set (ep_routeNames e) = dr_routeName ` set ds)"
proof -
  define m where "m = merge_drafts (all_drafts fs rootDir)"
  have keys: "map ep_url m = uniq (map dr_url (shown_drafts (all_drafts fs rootDir)))"
    unfolding m_def merge_drafts_fold by (rule drafts.keys_merged)
  have "distinct (map ep_url m)" unfolding keys by simp
  moreover have "ep_url ` set m = dr_url ` set (shown_drafts (all_drafts fs rootDir))"
    using arg_cong [OF keys, of set] by simp
  ultimately show ?thesis
    unfolding endpoints_drafts m_def [symmetric]
    using comparator.sorted_js_sort [OF comparator_endpoints [OF assms]] merged_endpoint [of _ "all_drafts fs rootDir", folded m_def]
    by (auto simp: Let_def distinct_map_js_sort)
qed

subsection \<open>The files\<close>

definition file_result :: "node \<Rightarrow> path \<Rightarrow> YamlObject result" where
  "file_result fs file = (case readFile fs file of Inl e \<Rightarrow> Inl e | Inr content \<Rightarrow> parseYamlSubset content)"

lemma gather_file_result:
  "gather_file fs rootDir file g =
    (case file_result fs file of
       Inl message \<Rightarrow> g\<lparr>ga_errors := ga_errors g @ [path_relative rootDir file @ '': '' @ message]\<rparr>
     | Inr parsed \<Rightarrow> g\<lparr>ga_drafts := ga_drafts g @ fst (file_drafts parsed (path_relative rootDir file) (ga_index g)),
         ga_index := snd (file_drafts parsed (path_relative rootDir file) (ga_index g)),
         ga_sources := ga_sources g @ (if fst (file_drafts parsed (path_relative rootDir file) (ga_index g)) \<noteq> []
           then [path_relative rootDir file] else [])\<rparr>)"
  by (simp add: gather_file_def file_result_def Let_def case_prod_beta split: sum.split)

lemma gathered_errors:
  "ga_errors (fold (gather_file fs rootDir) files g) =
    ga_errors g @ List.map_filter (\<lambda>file. case file_result fs file of
      Inl message \<Rightarrow> Some (path_relative rootDir file @ '': '' @ message) | Inr parsed \<Rightarrow> None) files"
  by (induction files arbitrary: g) (auto simp: gather_file_result List.map_filter_def split: sum.splits)

lemma gathered_sources:
  "\<exists>shown. set shown \<subseteq> {file \<in> set files. \<exists>parsed. file_result fs file = Inr parsed}
    \<and> length shown + length (filter (\<lambda>file. isl (file_result fs file)) files) \<le> length files
    \<and> ga_sources (fold (gather_file fs rootDir) files g) = ga_sources g @ map (path_relative rootDir) shown"
proof (induction files arbitrary: g)
  case Nil
  then show ?case by simp
next
  case (Cons f files)
  obtain shown where s: "set shown \<subseteq> {file \<in> set files. \<exists>parsed. file_result fs file = Inr parsed}"
    "length shown + length (filter (\<lambda>file. isl (file_result fs file)) files) \<le> length files"
    "ga_sources (fold (gather_file fs rootDir) files (gather_file fs rootDir f g)) =
      ga_sources (gather_file fs rootDir f g) @ map (path_relative rootDir) shown"
    using Cons by blast
  show ?case
  proof (cases "ga_sources (gather_file fs rootDir f g) = ga_sources g")
    case True
    with s show ?thesis by (intro exI [of _ shown]) auto
  next
    case False
    then have "\<exists>parsed. file_result fs f = Inr parsed"
      "ga_sources (gather_file fs rootDir f g) = ga_sources g @ [path_relative rootDir f]"
      by (auto simp: gather_file_result split: sum.splits if_splits)
    with s show ?thesis by (intro exI [of _ "f # shown"]) auto
  qed
qed

text \<open>C20. A route file that cannot be read or is not of the YAML subset adds exactly one error with its
  path and reason, in the order of the files, and is never a source; no file is both.\<close>

theorem discovery_errors:
  "dc_errors (discoverProjectEndpoints lc fs rootDir) =
      List.map_filter (\<lambda>file. case file_result fs file of
        Inl message \<Rightarrow> Some (path_relative rootDir file @ '': '' @ message) | Inr parsed \<Rightarrow> None)
        (discoverYamlFiles fs rootDir)
    \<and> (\<exists>shown. set shown \<subseteq> {file \<in> set (discoverYamlFiles fs rootDir). \<exists>parsed. file_result fs file = Inr parsed}
        \<and> dc_sources (discoverProjectEndpoints lc fs rootDir) = map (path_relative rootDir) shown)"
  using gathered_errors [of fs rootDir "discoverYamlFiles fs rootDir"
      "\<lparr>ga_drafts = [], ga_index = Map.empty, ga_sources = [], ga_errors = []\<rparr>"]
    gathered_sources [of "discoverYamlFiles fs rootDir" fs rootDir
      "\<lparr>ga_drafts = [], ga_index = Map.empty, ga_sources = [], ga_errors = []\<rparr>"]
  by (auto simp: discoverProjectEndpoints_def gather_files_def Let_def)


subsection \<open>From a file to the list\<close>

lemma set_object_entries [simp]: "set (object_entries es) = set es"
  by (auto simp: object_entries_def)

lemma route_address_drafted:
  assumes "asObject (yaml_get route ''addresses'') = Some addresses" "(transport, a) \<in> set addresses"
    "routeUrl transport (yamlString (Some a)) \<noteq> []"
  shows "draft (endpointTypeFor sec (yamlString (yaml_get route ''role'')) (yamlString (yaml_get route ''direction'')))
      (routeUrl transport (yamlString (Some a)))
      (or_else (or_else (yamlString (prop_of (case asObject (yaml_get route ''contract'') of
          Some c \<Rightarrow> Some c | None \<Rightarrow> asObject (yaml_get route ''payload'')) ''type''))
        (yamlString (yaml_get route ''type''))) ''unknown'')
      (schemaTypeForFormat (or_else (yamlString (prop_of (case asObject (yaml_get route ''contract'') of
          Some c \<Rightarrow> Some c | None \<Rightarrow> asObject (yaml_get route ''payload'')) ''format''))
        (yamlString (yaml_get route ''data'')))) source name
    \<in> set (fst (interface_route sec source name route contractIndex))"
  using assms unfolding interface_route_def Let_def
  by (auto simp: image_iff intro!: bexI [of _ "(transport, a)"] simp del: asObject.simps)

lemma interface_route_drafts:
  assumes "(name, r) \<in> set es" "asObject (Some r) = Some route"
  shows "\<exists>m. set (fst (interface_route sec source name route m)) \<subseteq> set (fst (interface_routes sec source es m0))"
  using assms(1)
proof (induction es arbitrary: m0)
  case Nil
  then show ?case by simp
next
  case (Cons x es)
  obtain n' r' where x: "x = (n', r')" by (cases x)
  show ?case
  proof (cases "x = (name, r)")
    case True
    then show ?thesis using assms(2) by (auto simp: case_prod_beta Let_def)
  next
    case False
    with Cons.prems have "(name, r) \<in> set es" by auto
    then show ?thesis using Cons.IH unfolding x
      by (cases "asObject (Some r')") (auto simp: case_prod_beta Let_def, meson subset_trans sup_ge2)
  qed
qed

lemma interface_drafts_of_file:
  assumes "asObject (yaml_get parsed (section_key sec)) = Some es" "(name, r) \<in> set es"
    "asObject (Some r) = Some route"
  shows "\<exists>m. set (fst (interface_route sec source name route m)) \<subseteq> set (fst (file_drafts parsed source m0))"
proof -
  have sec: "set (fst (collectInterfaceSection parsed sec source m1)) \<subseteq> set (fst (file_drafts parsed source m0))"
    if "m1 = (case sec of Services_Section \<Rightarrow> m0 | Topics_Section \<Rightarrow> snd (collectInterfaceSection parsed Services_Section source m0))"
    for m1
    using that by (cases sec) (auto simp: file_drafts_def collectInterfaceYaml_def case_prod_beta Let_def)
  define m1 where "m1 = (case sec of Services_Section \<Rightarrow> m0
    | Topics_Section \<Rightarrow> snd (collectInterfaceSection parsed Services_Section source m0))"
  have "fst (collectInterfaceSection parsed sec source m1) = fst (interface_routes sec source (object_entries es) m1)"
    by (simp add: collectInterfaceSection_def assms(1))
  moreover obtain m where "set (fst (interface_route sec source name route m))
      \<subseteq> set (fst (interface_routes sec source (object_entries es) m1))"
    using interface_route_drafts [of name r "object_entries es" route sec source m1] assms(2,3) by auto
  ultimately show ?thesis using sec [OF m1_def] by auto
qed

lemma file_drafts_gathered:
  assumes "f \<in> set files" "file_result fs f = Inr parsed"
  shows "\<exists>m. set (fst (file_drafts parsed (path_relative rootDir f) m))
    \<subseteq> set (ga_drafts (fold (gather_file fs rootDir) files g))"
  using assms(1)
proof (induction files arbitrary: g)
  case Nil
  then show ?case by simp
next
  case (Cons f' files)
  have grow: "set (ga_drafts g') \<subseteq> set (ga_drafts (fold (gather_file fs rootDir) fl g'))" for fl g'
    by (induction fl arbitrary: g') (auto simp: gather_file_result split: sum.splits, force+)
  show ?case
  proof (cases "f' = f")
    case True
    have "set (fst (file_drafts parsed (path_relative rootDir f) (ga_index g))) \<subseteq> set (ga_drafts (gather_file fs rootDir f g))"
      by (simp add: gather_file_result assms(2))
    with grow [of "gather_file fs rootDir f g" files] show ?thesis by (auto simp: True)
  next
    case False
    with Cons show ?thesis by auto
  qed
qed

text \<open>C18. An address of a route in the services or topics of a readable interface file is listed: an
  endpoint has its URL, the bit of the route's role and direction, the file among its files and
  the route among its names. The only exception is an address of which another draft is the
  alias under which it is shown instead.\<close>

theorem interface_address_listed:
  assumes "f \<in> set (discoverYamlFiles fs rootDir)" "file_result fs f = Inr parsed"
    "asObject (yaml_get parsed (section_key sec)) = Some es" "(name, YObject route) \<in> set es"
    "asObject (yaml_get route ''addresses'') = Some addresses" "(transport, a) \<in> set addresses"
    "url = routeUrl transport (yamlString (Some a))" "url \<noteq> []"
  shows "(\<exists>e \<in> set (dc_endpoints (discoverProjectEndpoints lc fs rootDir)). ep_url e = url
      \<and> has_bits (ep_type e) (endpointTypeFor sec (yamlString (yaml_get route ''role'')) (yamlString (yaml_get route ''direction'')))
      \<and> path_relative rootDir f \<in> set (ep_sources e) \<and> name \<in> set (ep_routeNames e))
    \<or> (\<exists>d \<in> set (all_drafts fs rootDir). dr_runtimeUrl d = Some url \<and> dr_url d \<noteq> url)"
proof -
  define ds where "ds = all_drafts fs rootDir"
  define t where "t = endpointTypeFor sec (yamlString (yaml_get route ''role'')) (yamlString (yaml_get route ''direction''))"
  obtain m where m: "set (fst (file_drafts parsed (path_relative rootDir f) m)) \<subseteq> set ds"
    unfolding ds_def all_drafts_def gather_files_def using file_drafts_gathered [OF assms(1,2)] by blast
  obtain m' where m': "set (fst (interface_route sec (path_relative rootDir f) name route m'))
      \<subseteq> set (fst (file_drafts parsed (path_relative rootDir f) m))"
    using interface_drafts_of_file [OF assms(3,4)] by fastforce
  define d where "d = draft t url
      (or_else (or_else (yamlString (prop_of (case asObject (yaml_get route ''contract'') of
          Some c \<Rightarrow> Some c | None \<Rightarrow> asObject (yaml_get route ''payload'')) ''type''))
        (yamlString (yaml_get route ''type''))) ''unknown'')
      (schemaTypeForFormat (or_else (yamlString (prop_of (case asObject (yaml_get route ''contract'') of
          Some c \<Rightarrow> Some c | None \<Rightarrow> asObject (yaml_get route ''payload'')) ''format''))
        (yamlString (yaml_get route ''data'')))) (path_relative rootDir f) name"
  have "d \<in> set ds"
    using route_address_drafted [OF assms(5,6), of sec "path_relative rootDir f" name m'] m m' assms(7,8)
    unfolding d_def t_def by blast
  have d: "dr_url d = url" "dr_type d = t" "dr_source d = path_relative rootDir f" "dr_routeName d = name"
    "dr_runtimeUrl d = None"
    by (simp_all add: d_def draft_def)
  have "t \<noteq> 0" unfolding t_def endpointTypeFor_def by (auto simp: Let_def type_bits)
  then have bits: "has_bits t t" by (simp add: has_bits_def)
  show ?thesis
  proof (cases "d \<in> set (shown_drafts ds)")
    case True
    define e where "e = drafts.entry_of (shown_drafts ds) url"
    have e: "e \<in> set (merge_drafts ds)" using True d(1) by (auto simp: e_def set_merged)
    have url: "ep_url e = url" unfolding e_def using True d(1) by (intro drafts.key_entry_of) auto
    have "d \<in> {d \<in> set (shown_drafts ds). dr_url d = ep_url e}" using True d(1) url by simp
    then have "has_bits (ep_type e) t" "path_relative rootDir f \<in> set (ep_sources e)"
      "name \<in> set (ep_routeNames e)"
      using merged_endpoint(2-4) [OF e] d(2-4) bits by force+
    with url e show ?thesis
      unfolding endpoints_drafts ds_def [symmetric] t_def [symmetric] by (intro disjI1 bexI [of _ e]) auto
  next
    case False
    then have "url \<in> hidden_runtime_urls ds" using \<open>d \<in> set ds\<close> d(1) by (auto simp: shown_drafts_def)
    then show ?thesis unfolding ds_def [symmetric]
      by (auto simp: hidden_runtime_urls_def truthy_url_def nullish_def split: option.splits)
  qed
qed


subsection \<open>A repository\<close>

definition demo_interfaces :: string where
  "demo_interfaces = join_lines (render_entries 0 sample_document)"

definition demo_config :: string where
  "demo_config = join_lines [''communication:'', ''  topics:'', ''    pose:'', ''      topic_ref: loc.pose'',
     ''      direction: subscribe'', ''      middlewares:'', ''        - ros2'']"

definition demo_fs :: node where
  "demo_fs = Dir [(''pkg'', Dir [(''idl'', Dir [(''loc'', Dir [(''public'', Dir [(''interfaces.yaml'', File demo_interfaces)])])])]),
     (''module'', Dir [(''service'', Dir [(''nav'', Dir [(''config.yaml'', File demo_config), (''bad_bridge.yaml'', File ''x'')])])])]"

lemma discovered_endpoints_witness:
  "map ep_url (dc_endpoints (discoverProjectEndpoints unit_compare demo_fs [])) = [''ros2://pose'']
   \<and> distinct (map ep_url (dc_endpoints (discoverProjectEndpoints unit_compare demo_fs [])))"
proof -
  have "unit_compare x y = 0 \<Longrightarrow> x = y" for x y by (simp add: unit_compare_def split: if_splits)
  from discovered_endpoints [OF unit_cmp.comparator_axioms this, of demo_fs "[]"]
  have "distinct (map ep_url (dc_endpoints (discoverProjectEndpoints unit_compare demo_fs [])))" by blast
  moreover have "map ep_url (dc_endpoints (discoverProjectEndpoints unit_compare demo_fs [])) = [''ros2://pose'']"
    by code_simp
  ultimately show ?thesis by (rule conjI [rotated])
qed

lemma interface_address_listed_witness:
  "(\<exists>e \<in> set (dc_endpoints (discoverProjectEndpoints unit_compare demo_fs [])). ep_url e = ''ros2://pose''
      \<and> has_bits (ep_type e) publisher_bit
      \<and> ''pkg/idl/loc/public/interfaces.yaml'' \<in> set (ep_sources e) \<and> ''pose'' \<in> set (ep_routeNames e))"
proof -
  define f where "f = [''pkg'', ''idl'', ''loc'', ''public'', ''interfaces.yaml'']"
  define parsed where "parsed = projr (file_result demo_fs f)"
  define es where "es = the (asObject (yaml_get parsed (section_key Topics_Section)))"
  define route where "route = the (asObject (yaml_get es ''pose''))"
  define addresses where "addresses = the (asObject (yaml_get route ''addresses''))"
  have facts: "f \<in> set (discoverYamlFiles demo_fs [])" "file_result demo_fs f = Inr parsed"
    "asObject (yaml_get parsed (section_key Topics_Section)) = Some es" "(''pose'', YObject route) \<in> set es"
    "asObject (yaml_get route ''addresses'') = Some addresses" "(''ros2'', YString ''/pose'') \<in> set addresses"
    "''ros2://pose'' = routeUrl ''ros2'' (yamlString (Some (YString ''/pose'')))" "''ros2://pose'' \<noteq> []"
    unfolding f_def parsed_def es_def route_def addresses_def by code_simp+
  have not_hidden: "list_all (\<lambda>d. dr_runtimeUrl d \<noteq> Some ''ros2://pose'' \<or> dr_url d = ''ros2://pose'') (all_drafts demo_fs [])"
    by code_simp
  have ty: "endpointTypeFor Topics_Section (yamlString (yaml_get route ''role'')) (yamlString (yaml_get route ''direction'')) = publisher_bit"
    and rel: "path_relative [] f = ''pkg/idl/loc/public/interfaces.yaml''"
    unfolding f_def parsed_def es_def route_def by code_simp+
  from interface_address_listed [OF facts, of unit_compare] not_hidden show ?thesis
    unfolding ty rel list_all_iff by blast
qed

end
