(* ===== verification/Yaml_Blocks.thy ===== *)
theory Yaml_Blocks
  imports Yaml_Edit
begin

text \<open>
  The lemma library of the YAML editor: what the line scans find in a list of lines, how the
  abstract content of a section (the blocks of its routes) changes when lines are inserted or
  replaced, and that white space at the ends of lines and of the text is never seen.
\<close>

subsection \<open>Blank lines, stops and children\<close>

abbreviation blank :: "string \<Rightarrow> bool" where
  "blank l \<equiv> trimmed (lineInfo l) = []"

definition drop_blank_tail :: "string list \<Rightarrow> string list" where
  "drop_blank_tail ls = rev (dropWhile blank (rev ls))"

fun child_block :: "nat \<Rightarrow> string \<Rightarrow> string list \<Rightarrow> string list option" where
  "child_block i name [] = None"
| "child_block i name (l # ls) =
     (if stops i l then None
      else if is_child (i + 2) name l
      then Some (map trimEnd (l # drop_blank_tail (take (body_length (i + 2) ls) ls)))
      else child_block i name ls)"

lemma stops_mono: "\<not> stops j l \<Longrightarrow> i \<le> j \<Longrightarrow> \<not> stops i l"
  by (auto simp: stops_def)

lemma child_not_blank: "is_child i name l \<Longrightarrow> \<not> blank l"
  by (simp add: is_child_def)

lemma child_not_stop: "is_child (i + 2) name l \<Longrightarrow> \<not> stops i l"
  by (simp add: is_child_def stops_def)

lemma child_stop: "is_child i name l \<Longrightarrow> stops i l"
  by (simp add: is_child_def stops_def)

lemma child_unique: "is_child i m l \<Longrightarrow> is_child i n l \<longleftrightarrow> n = m"
  by (auto simp: is_child_def)

lemma nonstop_not_child: "\<not> stops i l \<Longrightarrow> \<not> is_child i n l"
  using child_stop by blast

lemma blank_not_stop: "blank l \<Longrightarrow> \<not> stops i l"
  by (simp add: stops_def)

lemma lineInfo_Nil [simp]: "lineInfo [] = \<lparr>indent = 0, trimmed = []\<rparr>"
  by (simp add: lineInfo_def countLeadingSpaces_def)

lemma body_length_append_stop [simp]:
  "stops i x \<Longrightarrow> body_length i (xs @ x # ys) = body_length i xs"
  by (induction xs) auto

lemma body_length_le: "body_length i ls \<le> length ls"
  by (induction ls) auto

lemma body_length_all:
  "(\<forall>l \<in> set xs. \<not> stops i l) \<Longrightarrow> body_length i (xs @ ys) = length xs + body_length i ys"
  by (induction xs) auto

lemma take_body_nonstop: "l \<in> set (take (body_length i ls) ls) \<Longrightarrow> \<not> stops i l"
  by (induction ls) (auto split: if_splits)

lemma drop_body_stop:
  "drop (body_length i ls) ls = [] \<or> stops i (hd (drop (body_length i ls) ls))"
  by (induction ls) auto

lemma drop_blank_tail_append [simp]:
  "(\<forall>l \<in> set w. blank l) \<Longrightarrow> drop_blank_tail (ls @ w) = drop_blank_tail ls"
  using dropWhile_append2 [of "rev w" blank "rev ls"] by (simp add: drop_blank_tail_def)

lemma drop_blank_tail_ident: "ls = [] \<or> \<not> blank (last ls) \<Longrightarrow> drop_blank_tail ls = ls"
  by (cases ls rule: rev_cases) (auto simp: drop_blank_tail_def)

lemma find_child_None_iff: "find_child i name k ls = None \<longleftrightarrow> child_block i name ls = None"
  by (induction ls arbitrary: k) auto

lemma child_block_append_stop:
  "stops i x \<Longrightarrow> child_block i n (xs @ x # ys) = child_block i n xs"
proof (induction xs)
  case Nil
  then show ?case by simp
next
  case (Cons l xs)
  have "stops (i + 2) x" using Cons.prems stops_mono by (metis le_add1)
  with Cons show ?case by (simp add: body_length_le)
qed

lemma child_block_append_blanks:
  "(\<forall>l \<in> set w. blank l) \<Longrightarrow> child_block i n (xs @ w) = child_block i n xs"
proof (induction xs)
  case Nil
  then show ?case by (induction w) (auto simp: stops_def is_child_def)
next
  case (Cons l xs)
  have "drop_blank_tail (take (body_length (i + 2) (xs @ w)) (xs @ w))
      = drop_blank_tail (take (body_length (i + 2) xs) xs)"
  proof (cases "\<exists>x \<in> set xs. stops (i + 2) x")
    case True
    then obtain ys x zs where xs: "xs = ys @ x # zs" and x: "stops (i + 2) x"
      by (meson split_list)
    have "body_length (i + 2) (xs @ w) = body_length (i + 2) ys"
      and "body_length (i + 2) xs = body_length (i + 2) ys"
      using x by (simp_all add: xs)
    then show ?thesis by (simp add: xs body_length_le)
  next
    case False
    then have "body_length (i + 2) (xs @ w) = length xs + length w"
      and "body_length (i + 2) xs = length xs"
      using body_length_all [of xs "i + 2" w] body_length_all [of xs "i + 2" "[]"]
        body_length_all [of w "i + 2" "[]"] Cons.prems
      by (auto simp: blank_not_stop)
    then show ?thesis using Cons.prems by simp
  qed
  with Cons show ?case by simp
qed

lemma child_block_drop_blanks: "child_block i n (dropWhile blank ls) = child_block i n ls"
  by (induction ls) (auto simp: blank_not_stop is_child_def)

lemma child_block_nonstops:
  assumes "\<forall>l \<in> set xs. \<not> stops (i + 2) l"
  shows "child_block i n (xs @ ys) = child_block i n ys"
  using assms
proof (induction xs)
  case Nil
  then show ?case by simp
next
  case (Cons l xs)
  then have "\<not> stops (i + 2) l" by simp
  then have "\<not> stops i l" "\<not> is_child (i + 2) n l"
    by (rule stops_mono, simp) (rule nonstop_not_child, fact)
  with Cons show ?case by simp
qed

subsection \<open>Inserting a block at the end of a section\<close>

text \<open>
  A block is well formed when its first line is the route's key at the given indentation, every
  other line is blank or deeper, and the last is not blank. The lines of the blocks the dashboard
  generates are of this form.
\<close>

definition wf_block_lines :: "nat \<Rightarrow> string \<Rightarrow> string list \<Rightarrow> bool" where
  "wf_block_lines i name bs \<longleftrightarrow>
     bs \<noteq> [] \<and> is_child i name (hd bs) \<and> (\<forall>l \<in> set (tl bs). \<not> stops i l) \<and> \<not> blank (last bs)
     \<and> clean_lines bs"

definition wf_block :: "nat \<Rightarrow> string \<Rightarrow> string \<Rightarrow> bool" where
  "wf_block i name block \<longleftrightarrow> wf_block_lines i name (split_lines (trimEnd block))"

lemma wf_block_cases:
  assumes "wf_block_lines i name bs"
  obtains h body where "bs = h # body" "is_child i name h" "\<forall>l \<in> set body. \<not> stops i l"
    "drop_blank_tail body = body" "\<not> blank (last (h # body))"
proof -
  obtain h body where bs: "bs = h # body"
    using assms by (cases bs) (auto simp: wf_block_lines_def)
  have "body = [] \<or> \<not> blank (last body)"
    using assms bs by (auto simp: wf_block_lines_def)
  then have "drop_blank_tail body = body" by (rule drop_blank_tail_ident)
  with that [OF bs] assms bs show ?thesis by (auto simp: wf_block_lines_def)
qed

text \<open>What follows a block, or a section, is nothing or a line that ends it.\<close>

definition ends_at :: "nat \<Rightarrow> string list \<Rightarrow> bool" where
  "ends_at i post \<longleftrightarrow> post = [] \<or> stops i (hd post)"

lemma ends_at_mono: "ends_at i post \<Longrightarrow> i \<le> j \<Longrightarrow> ends_at j post"
  by (auto simp: ends_at_def stops_def)

lemma ends_at_drop_body: "ends_at i (drop (body_length i ls) ls)"
  using drop_body_stop by (simp add: ends_at_def)

lemma child_block_ends: "ends_at i post \<Longrightarrow> child_block i n (xs @ post) = child_block i n xs"
  by (cases post) (auto simp: ends_at_def child_block_append_stop)

lemma body_length_ends:
  "(\<forall>l \<in> set body. \<not> stops j l) \<Longrightarrow> ends_at j post \<Longrightarrow> body_length j (body @ post) = length body"
  using body_length_all [of body j post] by (cases post) (auto simp: ends_at_def)

lemma child_block_pre:
  assumes "\<forall>l \<in> set pre. \<not> stops i l" and q: "ends_at (i + 2) q"
  shows "child_block i n (pre @ q)
    = (case child_block i n pre of None \<Rightarrow> child_block i n q | Some b \<Rightarrow> Some b)"
  using assms(1)
proof (induction pre)
  case Nil
  then show ?case by simp
next
  case (Cons l pre)
  have "take (body_length (i + 2) (pre @ q)) (pre @ q) = take (body_length (i + 2) pre) pre"
    using q body_length_all [of pre "i + 2" "[]"]
    by (cases q) (auto simp: ends_at_def body_length_le)
  with Cons show ?case by (simp del: take_append)
qed

lemma child_block_at:
  assumes "is_child (i + 2) name h" "\<forall>l \<in> set body. \<not> stops (i + 2) l" "ends_at (i + 2) post"
  shows "child_block i n (h # body @ post)
    = (if n = name then Some (map trimEnd (h # drop_blank_tail body)) else child_block i n post)"
proof -
  have "take (body_length (i + 2) (body @ post)) (body @ post) = body"
    using body_length_ends [OF assms(2,3)] by simp
  then show ?thesis
    using child_not_stop [OF assms(1)] child_unique [OF assms(1), of n] assms(2)
    by (simp add: child_block_nonstops del: take_append)
qed

lemma find_child_decomp:
  "find_child i name k ls = Some (a, b) \<Longrightarrow>
   \<exists>pre h body post. ls = pre @ h # body @ post \<and> a = k + length pre \<and> b = a + 1 + length body
     \<and> (\<forall>l \<in> set pre. \<not> stops i l) \<and> child_block i name pre = None
     \<and> is_child (i + 2) name h \<and> (\<forall>l \<in> set body. \<not> stops (i + 2) l) \<and> ends_at (i + 2) post"
proof (induction ls arbitrary: k)
  case Nil
  then show ?case by simp
next
  case (Cons l ls)
  show ?case
  proof (cases "is_child (i + 2) name l")
    case True
    let ?m = "body_length (i + 2) ls"
    have "ls = take ?m ls @ drop ?m ls" by simp
    with True Cons.prems child_not_stop [OF True] show ?thesis
      using take_body_nonstop [of _ "i + 2" ls] ends_at_drop_body [of "i + 2" ls]
      by (intro exI [of _ "[]"] exI [of _ l] exI [of _ "take ?m ls"] exI [of _ "drop ?m ls"])
        (auto simp: body_length_le min_absorb2)
  next
    case False
    with Cons.prems have ns: "\<not> stops i l" and "find_child i name (k + 1) ls = Some (a, b)"
      by (auto split: if_splits)
    from Cons.IH [OF this(2)] obtain pre h body post where
      "ls = pre @ h # body @ post" "a = k + 1 + length pre" "b = a + 1 + length body"
      "\<forall>l \<in> set pre. \<not> stops i l" "child_block i name pre = None" "is_child (i + 2) name h"
      "\<forall>l \<in> set body. \<not> stops (i + 2) l" "ends_at (i + 2) post"
      by blast
    with False ns show ?thesis
      by (intro exI [of _ "l # pre"] exI [of _ h] exI [of _ body] exI [of _ post]) auto
  qed
qed

text \<open>Replacing the lines of one child by a well-formed block, or by nothing.\<close>

lemma child_block_replaced:
  assumes ls: "ls = pre @ h # body @ post" and pre: "\<forall>l \<in> set pre. \<not> stops i l"
    and none: "child_block i name pre = None" and h: "is_child (i + 2) name h"
    and body: "\<forall>l \<in> set body. \<not> stops (i + 2) l" and post: "ends_at (i + 2) post"
  shows "n \<noteq> name \<Longrightarrow> child_block i n (pre @ post) = child_block i n ls"
    and "wf_block_lines (i + 2) name bs \<Longrightarrow>
      child_block i n (pre @ bs @ post) = (if n = name then Some (map trimEnd bs) else child_block i n ls)"
proof -
  have at: "ends_at (i + 2) (h' # rest)" if "is_child (i + 2) name h'" for h' rest
    using child_stop [OF that] by (simp add: ends_at_def)
  have old: "child_block i n ls
      = (case child_block i n pre of None \<Rightarrow> child_block i n post | Some b \<Rightarrow> Some b)" if "n \<noteq> name"
    using child_block_pre [OF pre at [OF h], of n "body @ post"] child_block_at [OF h body post, of n] that
    by (simp add: ls del: child_block.simps split: option.split)
  show "n \<noteq> name \<Longrightarrow> child_block i n (pre @ post) = child_block i n ls"
    using child_block_pre [OF pre post, of n] old by simp
  assume "wf_block_lines (i + 2) name bs"
  then obtain h' body' where bs: "bs = h' # body'" and h': "is_child (i + 2) name h'"
    and body': "\<forall>l \<in> set body'. \<not> stops (i + 2) l" and tail: "drop_blank_tail body' = body'"
    by (rule wf_block_cases)
  have "child_block i n (pre @ h' # body' @ post) = (case child_block i n pre of
      None \<Rightarrow> (if n = name then Some (map trimEnd bs) else child_block i n post) | Some b \<Rightarrow> Some b)"
    unfolding child_block_pre [OF pre at [OF h'], of n "body' @ post"] child_block_at [OF h' body' post, of n]
      bs tail ..
  then show "child_block i n (pre @ bs @ post)
      = (if n = name then Some (map trimEnd bs) else child_block i n ls)"
    using old none by (auto simp: bs)
qed

lemma child_block_inserted:
  assumes wf: "wf_block_lines (i + 2) name bs" and none: "child_block i name rest = None"
  shows "child_block i n (take (body_length i rest) rest @ bs @ drop (body_length i rest) rest)
    = (if n = name then Some (map trimEnd bs) else child_block i n rest)"
proof -
  let ?pre = "take (body_length i rest) rest" and ?post = "drop (body_length i rest) rest"
  have pre: "\<forall>l \<in> set ?pre. \<not> stops i l" using take_body_nonstop by blast
  have post: "ends_at (i + 2) ?post" using ends_at_drop_body by (rule ends_at_mono) simp
  have old: "child_block i m rest = child_block i m ?pre" for m
    using child_block_ends [OF ends_at_drop_body, of i m ?pre rest] by simp
  have np: "child_block i m ?post = None" for m
    using ends_at_drop_body [of i rest] by (cases ?post) (auto simp: ends_at_def)
  obtain h body where bs: "bs = h # body" and h: "is_child (i + 2) name h"
    and body: "\<forall>l \<in> set body. \<not> stops (i + 2) l" and tail: "drop_blank_tail body = body"
    using wf by (rule wf_block_cases)
  have "ends_at (i + 2) (h # body @ ?post)" using child_stop [OF h] by (simp add: ends_at_def)
  from child_block_pre [OF pre this, of n] child_block_at [OF h body post, of n]
  show ?thesis using none old np
    by (auto simp: bs tail simp del: child_block.simps split: option.splits)
qed

subsection \<open>The lines of a text, up to white space at its end\<close>

definition solid_line :: "string \<Rightarrow> bool" where
  "solid_line l \<longleftrightarrow> l \<noteq> [] \<and> \<not> is_ws (last l)"

lemma last_join: "ls \<noteq> [] \<Longrightarrow> solid_line (last ls) \<Longrightarrow>
    join_lines ls \<noteq> [] \<and> last (join_lines ls) = last (last ls)"
  by (induction nl ls rule: join.induct) (auto simp: solid_line_def nl_def)

lemma trimEnd_join_solid: "ls \<noteq> [] \<Longrightarrow> solid_line (last ls) \<Longrightarrow> trimEnd (join_lines ls) = join_lines ls"
  using last_join by (intro trimEnd_ident) (auto simp: solid_line_def)

lemma CR_join: "clean_lines ls \<Longrightarrow> CR \<notin> set (join_lines ls)"
  by (induction nl ls rule: join.induct) (auto simp: nl_def clean_line_def)

lemma text_lines_clean: "CR \<notin> set text \<Longrightarrow> clean_lines (text_lines text)"
  using set_trimEnd [of "text"] split_lines_clean [of "trimEnd text"]
  by (auto simp: text_lines_def Let_def)

text \<open>Two lines the editor cannot tell apart, except by white space at their ends.\<close>

definition same_line :: "string \<Rightarrow> string \<Rightarrow> bool" where
  "same_line x y \<longleftrightarrow> trimmed (lineInfo x) = trimmed (lineInfo y) \<and> trimEnd x = trimEnd y
     \<and> (\<not> blank x \<longrightarrow> indent (lineInfo x) = indent (lineInfo y))"

lemma same_line_refl [simp]: "same_line x x"
  by (simp add: same_line_def)

lemma comment_tail_simps [simp]:
  "\<not> comment_tail []"
  "comment_tail (c # r) \<longleftrightarrow> c = CHR ''#'' \<and> (\<forall>x \<in> set r. \<not> is_term x)"
  by (simp_all add: comment_tail_def)

lemma no_hash_no_comment: "CHR ''#'' \<notin> set s \<Longrightarrow> stripInlineComment s = s"
proof (induction s)
  case Nil
  then show ?case by simp
next
  case (Cons c s)
  have "CHR ''#'' \<notin> set (dropWhile is_ws s)" using Cons.prems set_dropWhileD by fastforce
  then have "\<not> comment_tail (dropWhile is_ws s)"
    by (cases "dropWhile is_ws s") (auto simp del: dropWhile_eq_Nil_conv)
  with Cons show ?case by simp
qed

lemma ws_not_hash: "(\<forall>c \<in> set w. is_ws c) \<Longrightarrow> CHR ''#'' \<notin> set w"
  using is_ws_def by fastforce

lemma comment_tail_append:
  assumes w: "\<forall>c \<in> set w. is_ws c" "clean_line w"
  shows "comment_tail (dropWhile is_ws (s @ w)) = comment_tail (dropWhile is_ws s)"
proof (cases "dropWhile is_ws s = []")
  case True
  then have "\<forall>x \<in> set (s @ w). is_ws x" using w by auto
  then have "dropWhile is_ws (s @ w) = []" by (simp only: dropWhile_eq_Nil_conv)
  then show ?thesis by (simp only: True)
next
  case False
  then have "dropWhile is_ws (s @ w) = dropWhile is_ws s @ w"
    by (metis dropWhile_append1 dropWhile_eq_Nil_conv)
  with False w show ?thesis
    by (cases "dropWhile is_ws s") (auto simp: clean_line_def is_term_def)
qed

lemma strip_append_ws:
  assumes w: "\<forall>c \<in> set w. is_ws c" "clean_line w"
  shows "\<exists>v. stripInlineComment (s @ w) = stripInlineComment s @ v \<and> (v = [] \<or> v = w \<and> stripInlineComment s = s)"
proof (induction s)
  case Nil
  have "stripInlineComment w = w" by (rule no_hash_no_comment) (rule ws_not_hash [OF w(1)])
  then show ?case by simp
next
  case (Cons c s)
  show ?case
  proof (cases "is_ws c \<and> comment_tail (dropWhile is_ws s)")
    case True
    then show ?thesis using comment_tail_append [OF w, of s] by simp
  next
    case False
    then show ?thesis using comment_tail_append [OF w, of s] Cons by auto
  qed
qed

lemma countLeadingSpaces_append:
  "\<exists>c \<in> set s. c \<noteq> SP \<Longrightarrow> countLeadingSpaces (s @ w) = countLeadingSpaces s"
  by (auto simp: countLeadingSpaces_def takeWhile_append1)

lemma same_line_trimEnd:
  assumes "clean_line l"
  shows "same_line l (trimEnd l)"
proof -
  obtain w where l: "l = trimEnd l @ w" and w: "\<forall>c \<in> set w. is_ws c"
    using trimEnd_decomp by blast
  have cw: "clean_line w" using assms by (subst (asm) l) simp
  let ?s = "stripInlineComment (trimEnd l)"
  obtain v where v: "stripInlineComment l = ?s @ v" and alt: "v = [] \<or> v = w"
    using strip_append_ws [OF w cw, of "trimEnd l"] l by (metis (no_types))
  have ws: "\<forall>c \<in> set v. is_ws c" using alt w by auto
  have tr: "trim (?s @ v) = trim ?s"
  proof (cases "\<forall>c \<in> set ?s. is_ws c")
    case True
    then have "trim ?s = []" "trim (?s @ v) = []" using ws by (auto simp: trim_eq_Nil_iff)
    then show ?thesis by simp
  next
    case False
    then have "dropWhile is_ws (?s @ v) = dropWhile is_ws ?s @ v"
      by (meson dropWhile_append1)
    then show ?thesis using trimEnd_append_all_ws [OF ws] by (simp add: trim_def trimStart_def)
  qed
  have "indent (lineInfo l) = indent (lineInfo (trimEnd l))" if "\<not> blank l"
  proof -
    have "trim ?s \<noteq> []" using that tr by (simp add: lineInfo_def Let_def v)
    then obtain c where "c \<in> set ?s" "\<not> is_ws c" using trim_eq_Nil_iff by blast
    then have "\<exists>c \<in> set ?s. c \<noteq> SP" by (metis is_ws_simps(1))
    then show ?thesis by (simp add: lineInfo_def Let_def v countLeadingSpaces_append)
  qed
  then show ?thesis using tr v by (simp add: same_line_def lineInfo_def Let_def)
qed

lemma same_line_ws: "\<forall>c \<in> set l. is_ws c \<Longrightarrow> same_line l []"
  using no_hash_no_comment [OF ws_not_hash, of l]
  by (simp add: same_line_def lineInfo_def Let_def trim_eq_Nil_iff trimEnd_all_ws)

lemma trimEnd_join_lines:
  assumes "clean_lines ls"
  shows "\<exists>w. list_all2 same_line ls (text_lines (join_lines ls) @ w) \<and> (\<forall>l \<in> set w. blank l)"
  using assms
proof (induction ls rule: rev_induct)
  case Nil
  then show ?case by (auto simp: text_lines_def intro!: exI [of _ "[]"])
next
  case (snoc l ls)
  have jn: "ls \<noteq> [] \<Longrightarrow> join_lines (ls @ [l]) = join_lines ls @ nl @ l"
    by (simp add: join_append)
  show ?case
  proof (cases "\<forall>c \<in> set l. is_ws c")
    case True
    obtain w where w: "list_all2 same_line ls (text_lines (join_lines ls) @ w)" "\<forall>l \<in> set w. blank l"
      using snoc by auto
    have "trimEnd (join_lines (ls @ [l])) = trimEnd (join_lines ls)"
    proof (cases "ls = []")
      case False
      have "\<forall>c \<in> set (nl @ l). is_ws c" using True by (simp add: nl_def)
      then show ?thesis using jn [OF False] trimEnd_append_all_ws [of "nl @ l"] by simp
    qed (use True in \<open>simp add: trimEnd_all_ws\<close>)
    then have "text_lines (join_lines (ls @ [l])) = text_lines (join_lines ls)"
      by (simp add: text_lines_def)
    moreover have "list_all2 same_line (ls @ [l]) ((text_lines (join_lines ls) @ w) @ [[]])"
      using w(1) same_line_ws [OF True] by (intro list_all2_appendI) simp_all
    ultimately show ?thesis using w(2) by (auto intro!: exI [of _ "w @ [[]]"])
  next
    case False
    then have ne: "trimEnd l \<noteq> []" by (simp add: trimEnd_eq_Nil_iff)
    obtain v where l: "l = trimEnd l @ v" and v: "\<forall>c \<in> set v. is_ws c"
      using trimEnd_decomp by blast
    have cl: "clean_line (trimEnd l)" using snoc.prems by (subst (asm) l) simp
    have join: "join_lines (ls @ [l]) = join_lines (ls @ [trimEnd l]) @ v"
      by (cases "ls = []") (simp_all add: join_append flip: l)
    have "solid_line (trimEnd l)" using ne last_trimEnd by (simp add: solid_line_def)
    then have tj: "trimEnd (join_lines (ls @ [l])) = join_lines (ls @ [trimEnd l])"
      using trimEnd_join_solid [of "ls @ [trimEnd l]"] trimEnd_append_all_ws [OF v] by (simp add: join)
    have "join_lines (ls @ [trimEnd l]) \<noteq> []"
      using last_join [of "ls @ [trimEnd l]"] \<open>solid_line (trimEnd l)\<close> by simp
    then have "text_lines (join_lines (ls @ [l])) = ls @ [trimEnd l]"
      using snoc.prems cl by (simp add: text_lines_def Let_def tj split_join_lines)
    moreover have "list_all2 same_line (ls @ [l]) (ls @ [trimEnd l])"
      using snoc.prems same_line_trimEnd by (simp add: list_all2_appendI list.rel_refl)
    ultimately show ?thesis by (auto intro!: exI [of _ "[]"])
  qed
qed

subsection \<open>Lookups do not see white space at the ends of lines\<close>

lemma same_line_stops: "same_line x y \<Longrightarrow> stops i x = stops i y"
  and same_line_child: "same_line x y \<Longrightarrow> is_child i n x = is_child i n y"
  and same_line_top_key: "same_line x y \<Longrightarrow> is_top_key key x = is_top_key key y"
  and same_line_blank: "same_line x y \<Longrightarrow> blank x = blank y"
  by (auto simp: same_line_def stops_def is_child_def is_top_key_def)

lemma same_body_length: "list_all2 same_line xs ys \<Longrightarrow> body_length i xs = body_length i ys"
  by (induction rule: list_all2_induct) (auto simp: same_line_stops)

lemma same_dropWhile: "list_all2 same_line xs ys \<Longrightarrow>
    list_all2 same_line (dropWhile blank xs) (dropWhile blank ys)"
  by (induction rule: list_all2_induct) (auto simp: same_line_def)

lemma same_drop_blank_tail: "list_all2 same_line xs ys \<Longrightarrow>
    list_all2 same_line (drop_blank_tail xs) (drop_blank_tail ys)"
  using same_dropWhile [of "rev xs" "rev ys"] by (simp add: drop_blank_tail_def)

lemma same_map_trimEnd: "list_all2 same_line xs ys \<Longrightarrow> map trimEnd xs = map trimEnd ys"
  by (induction rule: list_all2_induct) (auto simp: same_line_def)

lemma same_child_block: "list_all2 same_line xs ys \<Longrightarrow> child_block i n xs = child_block i n ys"
proof (induction rule: list_all2_induct)
  case Nil
  then show ?case by simp
next
  case (Cons x xs y ys)
  have "map trimEnd (drop_blank_tail (take k xs)) = map trimEnd (drop_blank_tail (take k ys))" for k
    using Cons.hyps by (intro same_map_trimEnd same_drop_blank_tail list_all2_takeI)
  moreover have "trimEnd x = trimEnd y" using Cons.hyps by (simp add: same_line_def)
  ultimately show ?case
    using Cons same_line_stops [of x y i] same_line_child [of x y "i + 2" n]
      same_body_length [of xs ys "i + 2"] by simp
qed

lemma same_find_index: "list_all2 same_line xs ys \<Longrightarrow>
    find_index (is_top_key key) xs = find_index (is_top_key key) ys"
  by (induction rule: list_all2_induct) (auto simp: same_line_top_key)

text \<open>The text the editor writes for a list of lines.\<close>

definition written :: "string list \<Rightarrow> string" where
  "written ls = trimEnd (join_lines ls) @ nl"

lemma CR_written: "clean_lines ls \<Longrightarrow> CR \<notin> set (written ls)"
  using CR_join [of ls] set_trimEnd [of "join_lines ls"] by (auto simp: written_def nl_def)

lemma text_lines_written: "text_lines (written ls) = text_lines (join_lines ls)"
  using trimEnd_append_all_ws [of nl "trimEnd (join_lines ls)"]
  by (simp add: text_lines_def written_def) (simp add: nl_def)

lemma text_lines_related:
  assumes "CR \<notin> set text"
  shows "\<exists>w. list_all2 same_line (split_lines text) (text_lines text @ w) \<and> (\<forall>l \<in> set w. blank l)"
  using trimEnd_join_lines [OF split_lines_clean [OF assms]] join_split_lines [OF assms] by simp

lemma wf_block_map_trimEnd:
  "wf_block i name block \<Longrightarrow> clean_lines (split_lines (trimEnd block))"
  by (simp add: wf_block_def wf_block_lines_def)

lemma clean_lines_dropWhile: "clean_lines ls \<Longrightarrow> clean_lines (dropWhile p ls)"
  by (auto simp: clean_lines_def dest: set_dropWhileD)

subsection \<open>How often a route name occurs in a section\<close>

fun child_count :: "nat \<Rightarrow> string \<Rightarrow> string list \<Rightarrow> nat" where
  "child_count i name [] = 0"
| "child_count i name (l # ls) =
     (if stops i l then 0
      else (if is_child (i + 2) name l then 1 else 0) + child_count i name ls)"

lemma child_count_0: "child_count i n ls = 0 \<longleftrightarrow> child_block i n ls = None"
  by (induction ls) auto

lemma same_child_count: "list_all2 same_line xs ys \<Longrightarrow> child_count i n xs = child_count i n ys"
  by (induction rule: list_all2_induct) (auto simp: same_line_stops same_line_child)

lemma child_count_append:
  "(\<forall>l \<in> set xs. \<not> stops i l) \<Longrightarrow> child_count i n (xs @ ys) = child_count i n xs + child_count i n ys"
  by (induction xs) auto

lemma child_count_nonstops: "(\<forall>l \<in> set xs. \<not> stops (i + 2) l) \<Longrightarrow> child_count i n xs = 0"
  using child_block_nonstops [of xs i n "[]"] by (simp add: child_count_0)

lemma child_count_stop: "ends_at i post \<Longrightarrow> child_count i n (xs @ post) = child_count i n xs"
proof (induction xs)
  case Nil
  then show ?case by (cases post) (auto simp: ends_at_def)
qed auto

lemma child_count_blanks: "(\<forall>l \<in> set w. blank l) \<Longrightarrow> child_count i n (xs @ w) = child_count i n xs"
proof (induction xs)
  case Nil
  have "child_block i n w = None" using child_block_append_blanks [OF Nil, of i n "[]"] by simp
  then show ?case by (simp add: child_count_0)
qed auto

lemma child_count_removed:
  assumes ls: "ls = pre @ h # body @ post" and pre: "\<forall>l \<in> set pre. \<not> stops i l"
    and h: "is_child (i + 2) name h" and body: "\<forall>l \<in> set body. \<not> stops (i + 2) l"
  shows "child_count i name (pre @ post) = child_count i name ls - 1"
proof -
  have b: "\<forall>l \<in> set body. \<not> stops i l" using body stops_mono le_add1 by blast
  show ?thesis
    using child_count_append [OF pre, of name post] child_count_append [OF pre, of name "h # body @ post"]
      child_count_append [OF b, of name post] child_count_nonstops [OF body, of name] h child_not_stop [OF h]
    by (simp add: ls)
qed

lemma child_count_inserted:
  assumes wf: "wf_block_lines (i + 2) name bs" and none: "child_block i name rest = None"
  shows "child_count i name (take (body_length i rest) rest @ bs @ drop (body_length i rest) rest) = 1"
proof -
  let ?pre = "take (body_length i rest) rest" and ?post = "drop (body_length i rest) rest"
  have pre: "\<forall>l \<in> set ?pre. \<not> stops i l" using take_body_nonstop by blast
  obtain h body where bs: "bs = h # body" and h: "is_child (i + 2) name h"
    and body: "\<forall>l \<in> set body. \<not> stops (i + 2) l"
    using wf by (rule wf_block_cases)
  have "child_count i name ?pre = 0"
    using none child_count_append [OF pre, of name ?post] by (simp flip: child_count_0)
  moreover have "child_count i name (body @ ?post) = 0"
    using child_count_stop [OF ends_at_drop_body, of i name body rest] child_count_nonstops [OF body] by simp
  ultimately show ?thesis
    using child_count_append [OF pre, of name "bs @ ?post"] h child_not_stop [OF h] by (simp add: bs)
qed

subsection \<open>The two views, for a way to find the section's first line\<close>

text \<open>
  Both files are edited below a start line; \<open>start\<close> finds it and \<open>i\<close> is its indentation.
\<close>

definition section_block ::
  "(string list \<Rightarrow> nat option) \<Rightarrow> nat \<Rightarrow> string list \<Rightarrow> string \<Rightarrow> string list option" where
  "section_block start i ls name =
     (case start ls of None \<Rightarrow> None | Some s \<Rightarrow> child_block i name (drop (Suc s) ls))"

definition section_count ::
  "(string list \<Rightarrow> nat option) \<Rightarrow> nat \<Rightarrow> string list \<Rightarrow> string \<Rightarrow> nat" where
  "section_count start i ls name =
     (case start ls of None \<Rightarrow> 0 | Some s \<Rightarrow> child_count i name (drop (Suc s) ls))"

definition line_search :: "(string list \<Rightarrow> nat option) \<Rightarrow> bool" where
  "line_search start \<longleftrightarrow>
     (\<forall>ls s. start ls = Some s \<longrightarrow> s < length ls) \<and>
     (\<forall>xs ys. list_all2 same_line xs ys \<longrightarrow> start xs = start ys) \<and>
     (\<forall>ls w. (\<forall>l \<in> set w. blank l) \<longrightarrow> start (ls @ w) = start ls) \<and>
     (\<forall>ls s ms. start ls = Some s \<longrightarrow> take (Suc s) ms = take (Suc s) ls \<longrightarrow> start ms = Some s)"

lemma line_searchD:
  assumes "line_search start"
  shows "start ls = Some s \<Longrightarrow> Suc s \<le> length ls"
    and "list_all2 same_line xs ys \<Longrightarrow> start xs = start ys"
    and "\<forall>l \<in> set w. blank l \<Longrightarrow> start (ls @ w) = start ls"
    and "start ls = Some s \<Longrightarrow> take (Suc s) ms = take (Suc s) ls \<Longrightarrow> start ms = Some s"
  using assms unfolding line_search_def by (blast intro: Suc_leI)+

lemma section_views_same:
  assumes "line_search start" "list_all2 same_line xs ys"
  shows "section_block start i xs n = section_block start i ys n"
    and "section_count start i xs n = section_count start i ys n"
proof -
  have "start xs = start ys" using assms by (rule line_searchD(2))
  moreover have "list_all2 same_line (drop k xs) (drop k ys)" for k
    using assms(2) by (rule list_all2_dropI)
  ultimately show "section_block start i xs n = section_block start i ys n"
    "section_count start i xs n = section_count start i ys n"
    using same_child_block same_child_count
    by (auto simp: section_block_def section_count_def split: option.splits)
qed

lemma section_views_blank_end:
  assumes "line_search start" "\<forall>l \<in> set w. blank l"
  shows "section_block start i (ls @ w) n = section_block start i ls n"
    and "section_count start i (ls @ w) n = section_count start i ls n"
proof -
  have st: "start (ls @ w) = start ls" using assms by (rule line_searchD(3))
  have len: "\<And>s. start ls = Some s \<Longrightarrow> Suc s \<le> length ls" using assms(1) by (rule line_searchD(1))
  show "section_block start i (ls @ w) n = section_block start i ls n"
    "section_count start i (ls @ w) n = section_count start i ls n"
    using len child_block_append_blanks [OF assms(2)] child_count_blanks [OF assms(2)]
    by (auto simp: section_block_def section_count_def st split: option.splits)
qed

lemma section_views_lines:
  assumes start: "line_search start" and cr: "CR \<notin> set text"
  shows "section_block start i (split_lines text) n = section_block start i (text_lines text) n"
    and "section_count start i (split_lines text) n = section_count start i (text_lines text) n"
  using text_lines_related [OF cr] section_views_same [OF start] section_views_blank_end [OF start]
  by metis+

lemma section_views_written:
  assumes start: "line_search start" and cl: "clean_lines ls"
  shows "section_block start i (split_lines (written ls)) n = section_block start i ls n"
    and "section_count start i (split_lines (written ls)) n = section_count start i ls n"
  using trimEnd_join_lines [OF cl] section_views_same [OF start] section_views_blank_end [OF start]
    section_views_lines [OF start CR_written [OF cl]] text_lines_written by metis+

text \<open>Replacing the range that \<open>yamlChildBlockRange\<close> finds.\<close>

definition block_edit :: "nat \<Rightarrow> string \<Rightarrow> string option \<Rightarrow> bool" where
  "block_edit i name r \<longleftrightarrow> (case r of None \<Rightarrow> True | Some b \<Rightarrow> wf_block i name b)"

lemma section_replace:
  assumes start: "line_search start" and cr: "CR \<notin> set text"
    and s: "start (split_lines text) = Some s"
    and found: "yamlChildBlockRange (split_lines text) s i name = Some (a, b)"
    and r: "block_edit (i + 2) name r"
  shows "\<exists>ls. replaceLineRange (split_lines text) a b r = written ls \<and> clean_lines ls
    \<and> (\<forall>n. n \<noteq> name \<longrightarrow> section_block start i ls n = section_block start i (split_lines text) n)
    \<and> (\<forall>blk. r = Some blk \<longrightarrow>
         section_block start i ls name = Some (map trimEnd (split_lines (trimEnd blk))))
    \<and> (r = None \<longrightarrow>
         section_count start i ls name = section_count start i (split_lines text) name - 1)"
proof -
  define L where "L = split_lines text"
  have cl: "clean_lines L" using split_lines_clean [OF cr] by (simp add: L_def)
  have s': "start L = Some s" using s by (simp add: L_def)
  have slen: "Suc s \<le> length L" using start s' by (rule line_searchD(1))
  from found obtain pre h body post where dr: "drop (Suc s) L = pre @ h # body @ post"
    and a: "a = Suc s + length pre" and b: "b = a + 1 + length body"
    and pre: "\<forall>l \<in> set pre. \<not> stops i l" and none: "child_block i name pre = None"
    and h: "is_child (i + 2) name h" and body: "\<forall>l \<in> set body. \<not> stops (i + 2) l"
    and post: "ends_at (i + 2) post"
  proof -
    have "find_child i name (Suc s) (drop (Suc s) L) = Some (a, b)"
      using found by (simp add: yamlChildBlockRange_def L_def)
    from find_child_decomp [OF this] show thesis using that by blast
  qed
  define bs where "bs = (case r of None \<Rightarrow> [] | Some blk \<Rightarrow> split_lines (trimEnd blk))"
  define ls where "ls = take (Suc s) L @ pre @ bs @ post"
  have blk: "blk \<noteq> []" if "r = Some blk" for blk
    using r that by (auto simp: block_edit_def wf_block_def wf_block_lines_def)
  have tk: "take a L = take (Suc s) L @ pre"
    unfolding a take_add dr by simp
  have "drop (length pre + 1 + length body) (drop (Suc s) L) = post"
    unfolding dr by simp
  then have dp: "drop b L = post" by (simp add: a b add.commute add.left_commute)
  have "splice_at L a (b - a) bs = ls"
    using dp tk by (simp add: splice_at_def ls_def a b)
  then have eq: "replaceLineRange L a b r = written ls"
    using blk by (cases r) (simp_all add: replaceLineRange_def written_def Let_def bs_def)
  have clean: "clean_lines ls"
  proof -
    have "clean_lines (pre @ h # body @ post)" using cl by (simp flip: dr)
    then have "clean_lines pre" "clean_lines post" by simp_all
    moreover have "clean_lines bs"
      using r by (cases r) (simp_all add: bs_def block_edit_def wf_block_map_trimEnd)
    ultimately show ?thesis using cl by (simp add: ls_def)
  qed
  have "take (Suc s) ls = take (Suc s) L" using slen by (simp add: ls_def min_absorb2)
  with s' have st: "start ls = Some s" by (rule line_searchD(4) [OF start])
  have dl: "drop (Suc s) ls = pre @ bs @ post" using slen by (simp add: ls_def min_absorb2)
  note rep = child_block_replaced [OF dr pre none h body post]
  have wf: "wf_block_lines (i + 2) name bs" if "r = Some blk" for blk
    using r that by (simp add: bs_def block_edit_def wf_block_def)
  have "section_block start i ls n = section_block start i L n" if "n \<noteq> name" for n
    using that rep(1) [of n] rep(2) [OF wf, of _ n] st s' dl
    by (cases r) (simp_all add: section_block_def bs_def)
  moreover have "section_block start i ls name = Some (map trimEnd (split_lines (trimEnd blk)))"
    if "r = Some blk" for blk
    using rep(2) [OF wf [OF that], of name] that st dl by (simp add: section_block_def bs_def)
  moreover have "section_count start i ls name = section_count start i L name - 1" if "r = None"
    using child_count_removed [OF dr pre h body] that st s' dl by (simp add: section_count_def bs_def)
  ultimately show ?thesis using eq clean unfolding L_def by blast
qed

end
