(* ===== verification/Yaml_Store.thy ===== *)
theory Yaml_Store
  imports Yaml_Blocks
begin

text \<open>
  What the YAML editor promises, stated against an abstract view: a section of a text is a map
  from route names to the lines of their blocks. The locale \<open>route_store\<close> is the contract a
  route file offers to the dashboard's handlers; it is interpreted for the two files the handlers
  edit, \<open>config.yaml\<close> (nested sections) and \<open>public/interfaces.yaml\<close> (top-level sections).
\<close>

subsection \<open>Locating the section\<close>

lemma section_scan_bounds:
  "section_scan sec c i ls = Some s \<Longrightarrow> i \<le> s \<and> s < i + length ls"
  by (induction ls arbitrary: c i) (fastforce simp: Let_def split: if_splits)+

lemma section_scan_append: "section_scan sec c i ls = Some s \<Longrightarrow> section_scan sec c i (ls @ ms) = Some s"
  by (induction ls arbitrary: c i) (auto simp: Let_def split: if_splits)

lemma section_scan_take:
  "section_scan sec c i ls = Some s \<Longrightarrow> section_scan sec c i (take (Suc (s - i)) ls) = Some s"
proof (induction ls arbitrary: c i)
  case Nil
  then show ?case by simp
next
  case (Cons l ls)
  have "section_scan sec b (i + 1) (take (s - i) ls) = Some s"
    if "section_scan sec b (i + 1) ls = Some s" for b
  proof -
    have "Suc (s - (i + 1)) = s - i" using section_scan_bounds [OF that] by arith
    then show ?thesis using Cons.IH [OF that] by simp
  qed
  with Cons.prems show ?case by (auto simp: Let_def split: if_splits)
qed

lemma section_scan_prefix:
  assumes "section_scan sec c 0 ls = Some s" and "take (Suc s) ms = take (Suc s) ls"
  shows "section_scan sec c 0 ms = Some s"
proof -
  have "section_scan sec c 0 (take (Suc s) ms) = Some s"
    using section_scan_take [OF assms(1)] assms(2) by simp
  from section_scan_append [OF this, of "drop (Suc s) ms"] show ?thesis by simp
qed

lemma section_scan_update:
  assumes "section_scan sec c i ls = Some s"
    and "indent (lineInfo l) = 2" "trimmed (lineInfo l) = section_word sec @ '':''"
  shows "section_scan sec c i (ls[s - i := l]) = Some s"
  using assms(1)
proof (induction ls arbitrary: c i)
  case Nil
  then show ?case by simp
next
  case (Cons l' ls)
  show ?case
  proof (cases "s = i")
    case True
    then show ?thesis using Cons.prems assms(2,3) section_scan_bounds [of sec _ "i + 1" ls s]
      by (auto simp: Let_def split: if_splits)
  next
    case False
    then have "i < s" using section_scan_bounds [OF Cons.prems] by simp
    then have "s - i = Suc (s - (i + 1))" by arith
    then show ?thesis using Cons False by (auto simp: Let_def split: if_splits)
  qed
qed

lemma section_scan_line:
  "section_scan sec c i ls = Some s \<Longrightarrow> indent (lineInfo (ls ! (s - i))) = 2"
proof (induction ls arbitrary: c i)
  case Nil
  then show ?case by simp
next
  case (Cons l ls)
  have "indent (lineInfo ((l # ls) ! (s - i))) = 2" if *: "section_scan sec b (i + 1) ls = Some s" for b
  proof -
    have "s - i = Suc (s - (i + 1))" using section_scan_bounds [OF *] by arith
    then show ?thesis using Cons.IH [OF *] by simp
  qed
  then show ?case using Cons.prems by (auto simp: Let_def split: if_splits)
qed

lemma section_scan_blanks: "(\<forall>l \<in> set w. blank l) \<Longrightarrow> section_scan sec c i w = None"
  by (induction w arbitrary: c i) (auto simp: Let_def)

lemma section_scan_blank_end:
  "(\<forall>l \<in> set w. blank l) \<Longrightarrow> section_scan sec c i (ls @ w) = section_scan sec c i ls"
proof (induction ls arbitrary: c i)
  case Nil
  then show ?case by (simp add: section_scan_blanks)
next
  case (Cons l ls)
  then show ?case by (auto simp: Let_def)
qed

lemma same_section_scan: "list_all2 same_line xs ys \<Longrightarrow> section_scan sec c i xs = section_scan sec c i ys"
proof (induction arbitrary: c i rule: list_all2_induct)
  case Nil
  then show ?case by simp
next
  case (Cons x xs y ys)
  then show ?case by (auto simp: Let_def same_line_def)
qed

lemma section_scan_no_key:
  "(\<forall>l \<in> set ls. \<not> is_top_key ''communication'' l) \<Longrightarrow>
   section_scan sec False i (ls @ ms) = section_scan sec False (i + length ls) ms"
  by (induction ls arbitrary: i) (auto simp: Let_def is_top_key_def)

lemma section_scan_at_key:
  "is_top_key ''communication'' l \<Longrightarrow>
   section_scan sec c i (l # ls) = section_scan sec True (i + 1) ls"
  by (auto simp: Let_def is_top_key_def)

lemma section_scan_insert:
  assumes "section_scan sec True i ls = None"
    and l: "indent (lineInfo l) = 2" "trimmed (lineInfo l) = section_word sec @ '':''"
  shows "section_scan sec True i
      (take (body_length 0 ls) ls @ [l] @ drop (body_length 0 ls) ls) = Some (i + body_length 0 ls)"
  using assms(1)
proof (induction ls arbitrary: i)
  case Nil
  then show ?case using l by (simp add: Let_def)
next
  case (Cons l' ls)
  show ?case
  proof (cases "stops 0 l'")
    case True
    then show ?thesis using l by (simp add: Let_def)
  next
    case False
    with Cons show ?thesis by (auto simp: Let_def stops_def split: if_splits)
  qed
qed

lemma lineInfo_key:
  "lineInfo ''communication:'' = \<lparr>indent = 0, trimmed = ''communication:''\<rparr>"
  "lineInfo (section_word sec @ '':'') = \<lparr>indent = 0, trimmed = section_word sec @ '':''\<rparr>"
  "lineInfo (''  '' @ section_word sec @ '':'') = \<lparr>indent = 2, trimmed = section_word sec @ '':''\<rparr>"
  by (code_simp, (cases sec; simp only: section_word.simps; code_simp)+)

lemma lineInfo_section_line:
  "lineInfo (replicate 2 SP @ section_word sec @ '':'') = \<lparr>indent = 2, trimmed = section_word sec @ '':''\<rparr>"
  by (cases sec; simp only: section_word.simps; code_simp)

lemma section_key_clean:
  "clean_line (section_word sec)"
  "clean_line (replicate 2 SP @ section_word sec @ '':'')"
  "clean_line (''  '' @ section_word sec @ '':'')"
  by (cases sec; simp add: numeral_2_eq_2)+

lemma find_index_append_key:
  "(\<forall>x \<in> set xs. \<not> p x) \<Longrightarrow> p y \<Longrightarrow> find_index p (xs @ [y]) = Some (length xs)"
  "(\<forall>x \<in> set xs. \<not> p x) \<Longrightarrow> \<not> p z \<Longrightarrow> p y \<Longrightarrow>
   find_index p (xs @ [z, y]) = Some (Suc (length xs))"
  by (induction xs) auto

lemma find_index_append:
  "find_index p xs = Some i \<Longrightarrow> find_index p (xs @ ys) = Some i"
  by (induction xs arbitrary: i) auto

lemma not_top_key_Nil [simp]: "\<not> is_top_key key []"
  by (simp add: is_top_key_def)

lemma ensure_top_key_find:
  assumes "ensure_top_key ls key = (ls', i)" and "is_top_key key (key @ '':'')"
  shows "find_index (is_top_key key) ls' = Some i"
  using assms find_index_None [of "is_top_key key" ls]
  by (auto simp: ensure_top_key_def Let_def find_index_append_key split: option.splits if_splits)

lemma ensure_top_key_clean:
  assumes "ensure_top_key ls key = (ls', i)" and "clean_lines ls" and "clean_line key"
  shows "clean_lines ls'"
  using assms by (auto simp: ensure_top_key_def Let_def split: option.splits if_splits)

subsection \<open>The abstract view of \<open>config.yaml\<close>\<close>

definition config_start :: "communicationSection \<Rightarrow> string list \<Rightarrow> nat option" where
  "config_start sec ls = communicationSectionStart ls sec"

abbreviation lines_lookup :: "communicationSection \<Rightarrow> string list \<Rightarrow> string \<Rightarrow> string list option" where
  "lines_lookup sec \<equiv> section_block (config_start sec) 2"

abbreviation lines_copies :: "communicationSection \<Rightarrow> string list \<Rightarrow> string \<Rightarrow> nat" where
  "lines_copies sec \<equiv> section_count (config_start sec) 2"

definition config_lookup :: "string \<Rightarrow> communicationSection \<Rightarrow> string \<Rightarrow> string list option" where
  "config_lookup text sec name = lines_lookup sec (split_lines text) name"

definition config_copies :: "string \<Rightarrow> communicationSection \<Rightarrow> string \<Rightarrow> nat" where
  "config_copies text sec name = lines_copies sec (split_lines text) name"

lemma line_search_config: "line_search (config_start sec)"
  unfolding line_search_def config_start_def communicationSectionStart_def
proof (intro conjI allI impI)
  fix ls s assume "section_scan sec False 0 ls = Some s"
  from section_scan_bounds [OF this] show "s < length ls" by simp
qed (blast intro: same_section_scan section_scan_blank_end section_scan_prefix)+

lemma lines_lookup_ensure_top_key:
  assumes "ensure_top_key ls ''communication'' = (ls', i)"
  shows "lines_lookup sec ls' n = lines_lookup sec ls n"
proof (cases "find_index (is_top_key ''communication'') ls")
  case (Some j)
  with assms show ?thesis by (simp add: ensure_top_key_def)
next
  case None
  have key: "is_top_key ''communication'' ''communication:''"
    by (simp add: is_top_key_def lineInfo_key)
  obtain w where ls': "ls' = ls @ w @ [''communication:'']" and w: "w = [] \<or> w = [[]]"
    using None assms by (auto simp: ensure_top_key_def Let_def split: if_splits)
  have no: "\<forall>l \<in> set ls. \<not> is_top_key ''communication'' l"
    using None by (simp add: find_index_None)
  then have no': "\<forall>l \<in> set (ls @ w). \<not> is_top_key ''communication'' l"
    using w by auto
  have "section_scan sec False 0 ls = None"
    using section_scan_no_key [OF no, of sec 0 "[]"] by simp
  moreover have "section_scan sec False 0 ls' = None"
    using section_scan_no_key [OF no', of sec 0 "[''communication:'']"]
      section_scan_at_key [OF key] by (simp add: ls')
  ultimately show ?thesis by (simp add: section_block_def config_start_def communicationSectionStart_def)
qed

lemma stops_0_2: "stops 0 l \<Longrightarrow> stops 2 l"
  by (simp add: stops_def)

lemma child_block_stop_hd: "ls = [] \<or> stops i (hd ls) \<Longrightarrow> child_block i n ls = None"
  by (cases ls) auto

lemma ensureCommunicationSection_spec:
  assumes find: "find_index (is_top_key ''communication'') ls = Some i"
    and ens: "ensureCommunicationSection ls i sec = (ls', s)"
  shows "communicationSectionStart ls' sec = Some s"
    and "child_block 2 n (drop (Suc s) ls') = lines_lookup sec ls n"
    and "clean_lines ls \<Longrightarrow> clean_lines ls'"
proof (atomize (full), cases "communicationSectionStart ls sec")
  case (Some s')
  then have scan: "section_scan sec False 0 ls = Some s'"
    by (simp add: communicationSectionStart_def)
  have s: "s = s'" and ls': "ls' = ensureBlockSection ls s' sec"
    using Some ens by (auto simp: ensureCommunicationSection_def)
  have len: "s' < length ls" and ind: "indent (lineInfo (ls ! s')) = 2"
    using section_scan_bounds [OF scan] section_scan_line [OF scan] by simp_all
  define l where "l = replicate 2 SP @ section_word sec @ '':''"
  have upd: "section_scan sec False 0 (ls[s' := l]) = Some s'"
    using section_scan_update [OF scan, of l] lineInfo_section_line by (simp add: l_def)
  have solid: "clean_line l"
    using section_key_clean by (simp add: l_def)
  have alt: "ls' = ls \<or> ls' = ls[s' := l]"
    using ls' len ind by (simp add: ensureBlockSection_def Let_def l_def)
  have "communicationSectionStart ls' sec = Some s"
    using alt scan upd s by (auto simp: communicationSectionStart_def)
  moreover have "child_block 2 n (drop (Suc s) ls') = lines_lookup sec ls n"
    using alt s Some by (auto simp: section_block_def config_start_def)
  moreover have "clean_lines ls'" if "clean_lines ls"
    using alt
  proof
    assume "ls' = ls[s' := l]"
    then show ?thesis
      using that solid set_update_subset_insert [of ls s' l]
      by (auto simp: clean_lines_def)
  qed (use that in simp)
  ultimately show "communicationSectionStart ls' sec = Some s \<and>
    child_block 2 n (drop (Suc s) ls') = lines_lookup sec ls n \<and>
    (clean_lines ls \<longrightarrow> clean_lines ls')"
    by blast
next
  case None
  then have scan: "section_scan sec False 0 ls = None"
    by (simp add: communicationSectionStart_def)
  obtain pre key post where ls: "ls = pre @ key # post" and pre: "length pre = i"
    and no: "\<forall>l \<in> set pre. \<not> is_top_key ''communication'' l" and key: "is_top_key ''communication'' key"
  proof -
    note i = find_index_Some [OF find]
    show thesis
    proof (rule that [of "take i ls" "ls ! i" "drop (Suc i) ls"])
      show "ls = take i ls @ ls ! i # drop (Suc i) ls" using i by (simp add: id_take_nth_drop)
      show "\<forall>l \<in> set (take i ls). \<not> is_top_key ''communication'' l"
        using i by (auto simp: in_set_conv_nth)
    qed (use i in auto)
  qed
  let ?k = "body_length 0 post" and ?l = "''  '' @ section_word sec @ '':''"
  have ls': "ls' = pre @ key # take ?k post @ [?l] @ drop ?k post" and s: "s = i + 1 + ?k"
    using ens None pre by (auto simp: ensureCommunicationSection_def Let_def splice_at_def ls)
  have "section_scan sec True (i + 1) post = None"
    using scan section_scan_no_key [OF no] section_scan_at_key [OF key] pre by (simp add: ls)
  then have "section_scan sec True (i + 1) (take ?k post @ [?l] @ drop ?k post) = Some s"
    using section_scan_insert [of sec "i + 1" post ?l] lineInfo_key(3) s by simp
  then have "section_scan sec False 0 ls' = Some s"
    using section_scan_no_key [OF no, of sec 0] section_scan_at_key [OF key] pre by (simp add: ls')
  moreover have "drop (Suc s) ls' = drop ?k post"
    using pre s body_length_le [of 0 post] by (simp add: ls')
  moreover have "child_block 2 n (drop ?k post) = None"
    using drop_body_stop [of 0 post] stops_0_2 by (blast intro: child_block_stop_hd)
  moreover have "clean_line ?l"
    by (rule section_key_clean)
  ultimately show "communicationSectionStart ls' sec = Some s \<and>
    child_block 2 n (drop (Suc s) ls') = lines_lookup sec ls n \<and>
    (clean_lines ls \<longrightarrow> clean_lines ls')"
    using None by (auto simp: communicationSectionStart_def section_block_def config_start_def ls ls')
qed

subsection \<open>Editing \<open>config.yaml\<close>\<close>

lemma config_prepared:
  assumes cr: "CR \<notin> set text"
    and top: "ensure_top_key (text_lines text) ''communication'' = (ls0, c)"
    and ens: "ensureCommunicationSection ls0 c sec = (ls1, s)"
  shows "child_block 2 n (drop (Suc s) ls1) = config_lookup text sec n"
proof -
  have find: "find_index (is_top_key ''communication'') ls0 = Some c"
    using top by (rule ensure_top_key_find) (simp add: is_top_key_def lineInfo_key)
  show ?thesis
    using ensureCommunicationSection_spec(2) [OF find ens] lines_lookup_ensure_top_key [OF top]
      section_views_lines(1) [OF line_search_config cr] by (simp add: config_lookup_def)
qed

lemma append_config_dup:
  assumes cr: "CR \<notin> set text" and ex: "config_lookup text sec name \<noteq> None"
  shows "appendYamlRouteBlock text sec name block = Inl (already_exists sec name)"
proof -
  obtain ls0 c where top: "ensure_top_key (text_lines text) ''communication'' = (ls0, c)"
    by fastforce
  obtain ls1 s where ens: "ensureCommunicationSection ls0 c sec = (ls1, s)" by fastforce
  have "routeBlockExists ls1 s 2 name"
    using config_prepared [OF cr top ens, of name] ex
    by (simp add: routeBlockExists_def yamlChildBlockRange_def find_child_None_iff)
  then show ?thesis by (simp add: appendYamlRouteBlock_def top ens)
qed

lemma append_config_lines:
  assumes "CR \<notin> set text" and wf: "wf_block 4 name block"
    and none: "config_lookup text sec name = None"
  shows "\<exists>ls. appendYamlRouteBlock text sec name block = Inr (written ls) \<and> clean_lines ls
    \<and> (\<forall>n. lines_lookup sec ls n = ((config_lookup text sec)
              (name \<mapsto> map trimEnd (split_lines (trimEnd block)))) n)
    \<and> lines_copies sec ls name = 1"
proof -
  obtain ls0 c where top: "ensure_top_key (text_lines text) ''communication'' = (ls0, c)"
    by fastforce
  obtain ls1 s where ens: "ensureCommunicationSection ls0 c sec = (ls1, s)" by fastforce
  have find: "find_index (is_top_key ''communication'') ls0 = Some c"
    using top by (rule ensure_top_key_find) (simp add: is_top_key_def lineInfo_key)
  have ls0: "clean_lines ls0"
    using top text_lines_clean [OF assms(1)] by (rule ensure_top_key_clean) simp
  note spec = ensureCommunicationSection_spec [OF find ens]
  have cl1: "clean_lines ls1" using spec(3) ls0 by simp
  have look: "child_block 2 n (drop (Suc s) ls1) = config_lookup text sec n" for n
    using assms(1) top ens by (rule config_prepared)
  define rest where "rest = dropWhile blank (drop (Suc s) ls1)"
  define bs where "bs = split_lines (trimEnd block)"
  define k where "k = body_length 2 rest"
  define ls where "ls = take (Suc s) ls1 @ take k rest @ bs @ drop k rest"
  have slen: "Suc s \<le> length ls1"
    using spec(1) section_scan_bounds by (fastforce simp: communicationSectionStart_def)
  have rest: "child_block 2 n rest = config_lookup text sec n" for n
    using child_block_drop_blanks look by (simp add: rest_def)
  have "\<not> routeBlockExists ls1 s 2 name"
    using look [of name] none by (simp add: routeBlockExists_def yamlChildBlockRange_def find_child_None_iff)
  moreover have "routeInsertIndex ls1 s = (take (Suc s) ls1 @ rest, Suc s + k)"
    by (simp add: routeInsertIndex_def Let_def rest_def k_def)
  ultimately have app: "appendYamlRouteBlock text sec name block = Inr (written ls)"
    using slen by (simp add: appendYamlRouteBlock_def top ens Let_def splice_at_def written_def
        min_absorb2 ls_def bs_def)
  have "clean_lines rest" "clean_lines bs"
    using cl1 wf_block_map_trimEnd [OF wf] by (simp_all add: rest_def bs_def clean_lines_dropWhile)
  then have clean: "clean_lines ls" using cl1 by (simp add: ls_def)
  have "section_scan sec False 0 ls1 = Some s"
    using spec(1) by (simp add: communicationSectionStart_def)
  moreover have "take (Suc s) ls = take (Suc s) ls1"
    using slen by (simp add: ls_def min_absorb2)
  ultimately have sc: "section_scan sec False 0 ls = Some s" by (rule section_scan_prefix)
  have dr: "drop (Suc s) ls = take k rest @ bs @ drop k rest"
    using slen by (simp add: ls_def min_absorb2)
  have wf': "wf_block_lines (2 + 2) name bs" using wf by (simp add: wf_block_def bs_def)
  have none': "child_block 2 name rest = None" using none rest by simp
  have "lines_lookup sec ls n = child_block 2 n (take k rest @ bs @ drop k rest)" for n
    using sc dr
    by (simp add: section_block_def config_start_def communicationSectionStart_def)
  then have "lines_lookup sec ls n = ((config_lookup text sec)(name \<mapsto> map trimEnd bs)) n" for n
    using child_block_inserted [OF wf' none', of n] rest by (simp add: k_def)
  moreover have "lines_copies sec ls name = 1"
    using sc dr child_count_inserted [OF wf' none']
    by (simp add: section_count_def config_start_def communicationSectionStart_def k_def)
  ultimately show ?thesis using app clean unfolding bs_def by blast
qed

subsection \<open>Editing \<open>public/interfaces.yaml\<close>\<close>

definition public_start :: "communicationSection \<Rightarrow> string list \<Rightarrow> nat option" where
  "public_start sec = find_index (is_top_key (section_word sec))"

definition public_lookup :: "string \<Rightarrow> communicationSection \<Rightarrow> string \<Rightarrow> string list option" where
  "public_lookup text sec name = section_block (public_start sec) 0 (split_lines text) name"

definition public_copies :: "string \<Rightarrow> communicationSection \<Rightarrow> string \<Rightarrow> nat" where
  "public_copies text sec name = section_count (public_start sec) 0 (split_lines text) name"

lemma find_index_blanks:
  "(\<forall>l \<in> set w. blank l) \<Longrightarrow> find_index (is_top_key key) (ls @ w) = find_index (is_top_key key) ls"
proof (induction ls)
  case Nil
  then have "\<forall>x \<in> set w. \<not> is_top_key key x" by (auto simp: is_top_key_def)
  then show ?case by (simp add: find_index_None)
qed simp

lemma find_index_prefix:
  "find_index p ls = Some s \<Longrightarrow> take (Suc s) ms = take (Suc s) ls \<Longrightarrow> find_index p ms = Some s"
proof (induction ls arbitrary: s ms)
  case Nil
  then show ?case by simp
next
  case (Cons l ls)
  obtain m ms' where ms: "ms = m # ms'" using Cons.prems(2) by (cases ms) auto
  show ?case
  proof (cases "p l")
    case True
    with Cons.prems show ?thesis by (simp add: ms)
  next
    case False
    with Cons.prems(1) obtain j where "find_index p ls = Some j" "s = Suc j" by auto
    with Cons.IH [of j ms'] Cons.prems(2) False show ?thesis by (simp add: ms)
  qed
qed

lemma line_search_public: "line_search (public_start sec)"
  unfolding line_search_def public_start_def
proof (intro conjI allI impI)
  fix ls s assume "find_index (is_top_key (section_word sec)) ls = Some s"
  from find_index_Some [OF this] show "s < length ls" by simp
qed (blast intro: same_find_index find_index_blanks find_index_prefix)+

lemma public_lookup_ensure_top_key:
  assumes "ensure_top_key ls (section_word sec) = (ls', i)"
  shows "section_block (public_start sec) 0 ls' n = section_block (public_start sec) 0 ls n"
proof (cases "find_index (is_top_key (section_word sec)) ls")
  case (Some j)
  with assms show ?thesis by (simp add: ensure_top_key_def)
next
  case None
  have key: "is_top_key (section_word sec) (section_word sec @ '':'')"
    by (simp add: is_top_key_def lineInfo_key)
  from ensure_top_key_find [OF assms key] have "find_index (is_top_key (section_word sec)) ls' = Some i" .
  moreover have "drop (Suc i) ls' = []"
    using None assms by (auto simp: ensure_top_key_def Let_def split: if_splits)
  ultimately show ?thesis using None by (simp add: section_block_def public_start_def)
qed

lemma public_prepared:
  assumes cr: "CR \<notin> set text" and top: "ensure_top_key (text_lines text) (section_word sec) = (ls0, s)"
  shows "child_block 0 n (drop (Suc s) ls0) = public_lookup text sec n"
proof -
  have "find_index (is_top_key (section_word sec)) ls0 = Some s"
    using top by (rule ensure_top_key_find) (simp add: is_top_key_def lineInfo_key)
  then show ?thesis
    using public_lookup_ensure_top_key [OF top] section_views_lines(1) [OF line_search_public cr]
    by (simp add: public_lookup_def section_block_def public_start_def)
qed

lemma append_public_dup:
  assumes cr: "CR \<notin> set text" and ex: "public_lookup text sec name \<noteq> None"
  shows "appendTopLevelYamlRouteBlock text sec name block = Inl (already_exists sec name)"
proof -
  obtain ls0 s where top: "ensure_top_key (text_lines text) (section_word sec) = (ls0, s)"
    by fastforce
  have "routeBlockExists ls0 s 0 name"
    using public_prepared [OF cr top, of name] ex
    by (simp add: routeBlockExists_def yamlChildBlockRange_def find_child_None_iff)
  then show ?thesis by (simp add: appendTopLevelYamlRouteBlock_def top)
qed

lemma append_public_lines:
  assumes cr: "CR \<notin> set text" and wf: "wf_block 2 name block"
    and none: "public_lookup text sec name = None"
  shows "\<exists>ls. appendTopLevelYamlRouteBlock text sec name block = Inr (written ls) \<and> clean_lines ls
    \<and> (\<forall>n. section_block (public_start sec) 0 ls n
          = ((public_lookup text sec)(name \<mapsto> map trimEnd (split_lines (trimEnd block)))) n)
    \<and> section_count (public_start sec) 0 ls name = 1"
proof -
  obtain ls0 s where top: "ensure_top_key (text_lines text) (section_word sec) = (ls0, s)"
    by fastforce
  have find: "find_index (is_top_key (section_word sec)) ls0 = Some s"
    using top by (rule ensure_top_key_find) (simp add: is_top_key_def lineInfo_key)
  have cl0: "clean_lines ls0"
    using top text_lines_clean [OF cr] by (rule ensure_top_key_clean) (rule section_key_clean)
  have slen: "Suc s \<le> length ls0" using find_index_Some [OF find] by simp
  define rest where "rest = drop (Suc s) ls0"
  define bs where "bs = split_lines (trimEnd block)"
  define k where "k = body_length 0 rest"
  define ls where "ls = take (Suc s) ls0 @ take k rest @ bs @ drop k rest"
  have look: "child_block 0 n rest = public_lookup text sec n" for n
    unfolding rest_def using cr top by (rule public_prepared)
  have "\<not> routeBlockExists ls0 s 0 name"
    using look [of name] none
    by (simp add: routeBlockExists_def yamlChildBlockRange_def find_child_None_iff rest_def)
  moreover have "take (Suc s + k) ls0 = take (Suc s) ls0 @ take k rest"
    by (simp only: take_add rest_def)
  moreover have "drop (Suc s + k) ls0 = drop k rest"
    by (simp add: rest_def add.commute)
  ultimately have app: "appendTopLevelYamlRouteBlock text sec name block = Inr (written ls)"
    by (simp add: appendTopLevelYamlRouteBlock_def top Let_def splice_at_def written_def ls_def
        bs_def k_def rest_def)
  have "clean_lines rest" "clean_lines bs"
    using cl0 wf_block_map_trimEnd [OF wf] by (simp_all add: rest_def bs_def)
  then have clean: "clean_lines ls" using cl0 by (simp add: ls_def)
  have "take (Suc s) ls = take (Suc s) ls0" using slen by (simp add: ls_def min_absorb2)
  with find have st: "public_start sec ls = Some s"
    unfolding public_start_def by (rule find_index_prefix)
  have dr: "drop (Suc s) ls = take k rest @ bs @ drop k rest"
    using slen by (simp add: ls_def min_absorb2)
  have wf': "wf_block_lines (0 + 2) name bs" using wf unfolding wf_block_def bs_def add_0 .
  have none': "child_block 0 name rest = None" using none look by simp
  have "section_block (public_start sec) 0 ls n
      = ((public_lookup text sec)(name \<mapsto> map trimEnd bs)) n" for n
    using child_block_inserted [OF wf' none', of n] st dr look by (simp add: section_block_def k_def)
  moreover have "section_count (public_start sec) 0 ls name = 1"
    using st dr child_count_inserted [OF wf' none'] by (simp add: section_count_def k_def)
  ultimately show ?thesis using app clean unfolding bs_def by blast
qed

subsection \<open>The contract of a route file\<close>

locale route_store =
  fixes look :: "string \<Rightarrow> communicationSection \<Rightarrow> string \<Rightarrow> string list option"
    and copies :: "string \<Rightarrow> communicationSection \<Rightarrow> string \<Rightarrow> nat"
    and app :: "string \<Rightarrow> communicationSection \<Rightarrow> string \<Rightarrow> string \<Rightarrow> string result"
    and rep :: "string \<Rightarrow> communicationSection \<Rightarrow> string \<Rightarrow> string option \<Rightarrow> string result"
    and lvl :: nat
  assumes copies_0: "copies t sec n = 0 \<longleftrightarrow> look t sec n = None"
    and app_new: "CR \<notin> set t \<Longrightarrow> wf_block lvl n b \<Longrightarrow> look t sec n = None \<Longrightarrow>
      \<exists>t'. app t sec n b = Inr t' \<and> CR \<notin> set t' \<and> copies t' sec n = 1
        \<and> look t' sec = (look t sec)(n \<mapsto> map trimEnd (split_lines (trimEnd b)))"
    and app_dup: "CR \<notin> set t \<Longrightarrow> look t sec n \<noteq> None \<Longrightarrow> app t sec n b = Inl (already_exists sec n)"
    and rep_missing: "look t sec n = None \<Longrightarrow> rep t sec n r = Inl (unable_to_locate sec n)"
    and rep_found: "CR \<notin> set t \<Longrightarrow> block_edit lvl n r \<Longrightarrow> look t sec n \<noteq> None \<Longrightarrow>
      \<exists>t'. rep t sec n r = Inr t' \<and> CR \<notin> set t'
        \<and> (\<forall>m. m \<noteq> n \<longrightarrow> look t' sec m = look t sec m)
        \<and> (\<forall>b. r = Some b \<longrightarrow> look t' sec n = Some (map trimEnd (split_lines (trimEnd b))))
        \<and> (r = None \<longrightarrow> copies t' sec n = copies t sec n - 1)"
begin

text \<open>An append succeeds exactly when the name is free.\<close>

lemma app_iff:
  assumes "CR \<notin> set t" "wf_block lvl n b"
  shows "(\<exists>t'. app t sec n b = Inr t') \<longleftrightarrow> look t sec n = None"
proof (cases "look t sec n = None")
  case True
  with app_new [OF assms True] show ?thesis by blast
next
  case False
  with app_dup [OF assms(1) False, of b] show ?thesis by simp
qed

lemma app_look:
  assumes "CR \<notin> set t" "wf_block lvl n b" "app t sec n b = Inr t'"
  shows "CR \<notin> set t' \<and> copies t' sec n = 1
    \<and> look t' sec = (look t sec)(n \<mapsto> map trimEnd (split_lines (trimEnd b)))"
proof -
  have "look t sec n = None" using app_iff [OF assms(1,2)] assms(3) by blast
  from app_new [OF assms(1,2) this] assms(3) show ?thesis by simp
qed

lemma app_twice:
  assumes "CR \<notin> set t" "wf_block lvl n b" "app t sec n b = Inr t'"
  shows "app t' sec n b' = Inl (already_exists sec n)"
  using app_look [OF assms] by (intro app_dup) simp_all

lemma app_delete:
  assumes "CR \<notin> set t" "wf_block lvl n b" "app t sec n b = Inr t'"
  shows "\<exists>t''. rep t' sec n None = Inr t'' \<and> CR \<notin> set t'' \<and> look t'' sec = look t sec"
proof -
  have free: "look t sec n = None" using app_iff [OF assms(1,2)] assms(3) by blast
  note a = app_look [OF assms]
  have cr: "CR \<notin> set t'" and one: "copies t' sec n = 1"
    and lk: "look t' sec = (look t sec)(n \<mapsto> map trimEnd (split_lines (trimEnd b)))"
    using a by simp_all
  have "look t' sec n \<noteq> None" by (simp add: lk)
  then obtain t'' where t'': "rep t' sec n None = Inr t''" "CR \<notin> set t''"
    "\<forall>m. m \<noteq> n \<longrightarrow> look t'' sec m = look t' sec m" "copies t'' sec n = copies t' sec n - 1"
    using rep_found [OF cr, of n None] by (auto simp: block_edit_def)
  have "look t'' sec n = None" using t''(4) one by (simp flip: copies_0)
  then have "look t'' sec m = look t sec m" for m
    using t''(3) free by (cases "m = n") (simp_all add: lk)
  with t''(1,2) show ?thesis by blast
qed

lemma delete_unique:
  assumes "CR \<notin> set t" "copies t sec n = 1"
  shows "\<exists>t'. rep t sec n None = Inr t' \<and> CR \<notin> set t' \<and> look t' sec = (look t sec)(n := None)"
proof -
  have "look t sec n \<noteq> None" using assms(2) copies_0 [of t sec n] by simp
  then obtain t' where t': "rep t sec n None = Inr t'" "CR \<notin> set t'"
    "\<forall>m. m \<noteq> n \<longrightarrow> look t' sec m = look t sec m" "copies t' sec n = copies t sec n - 1"
    using rep_found [OF assms(1), of n None] by (auto simp: block_edit_def)
  then have "look t' sec n = None" using assms(2) by (simp flip: copies_0)
  then have "look t' sec m = ((look t sec)(n := None)) m" for m
    using t'(3) by (cases "m = n") simp_all
  with t'(1,2) show ?thesis by blast
qed

lemma edit_look:
  assumes "CR \<notin> set t" "wf_block lvl n b" "look t sec n \<noteq> None"
  shows "\<exists>t'. rep t sec n (Some b) = Inr t' \<and> CR \<notin> set t'
    \<and> look t' sec = (look t sec)(n \<mapsto> map trimEnd (split_lines (trimEnd b)))"
proof -
  have "block_edit lvl n (Some b)" using assms(2) by (simp add: block_edit_def)
  from rep_found [OF assms(1) this assms(3)] obtain t' where t': "rep t sec n (Some b) = Inr t'"
    "CR \<notin> set t'" "\<forall>m. m \<noteq> n \<longrightarrow> look t' sec m = look t sec m"
    "look t' sec n = Some (map trimEnd (split_lines (trimEnd b)))" by blast
  then have "look t' sec m = ((look t sec)(n \<mapsto> map trimEnd (split_lines (trimEnd b)))) m" for m
    by (cases "m = n") simp_all
  with t'(1,2) show ?thesis by blast
qed

end

lemma section_count_0: "section_count start i ls n = 0 \<longleftrightarrow> section_block start i ls n = None"
  by (auto simp: section_count_def section_block_def child_count_0 split: option.splits)

lemma replaceYaml_range:
  "replaceYamlRouteBlock text sec n r =
     (case config_start sec (split_lines text) of
        None \<Rightarrow> Inl (unable_to_locate sec n)
      | Some s \<Rightarrow> (case yamlChildBlockRange (split_lines text) s 2 n of
          None \<Rightarrow> Inl (unable_to_locate sec n)
        | Some (a, b) \<Rightarrow> Inr (replaceLineRange (split_lines text) a b r)))"
  by (simp add: replaceYamlRouteBlock_def config_start_def Let_def split: option.split)

lemma replaceTopLevel_range:
  "replaceTopLevelYamlBlock text sec n r =
     (case public_start sec (split_lines text) of
        None \<Rightarrow> Inl (unable_to_locate sec n)
      | Some s \<Rightarrow> (case yamlChildBlockRange (split_lines text) s 0 n of
          None \<Rightarrow> Inl (unable_to_locate sec n)
        | Some (a, b) \<Rightarrow> Inr (replaceLineRange (split_lines text) a b r)))"
  by (simp add: replaceTopLevelYamlBlock_def public_start_def Let_def split: option.split)

text \<open>Both editors replace below a start line, so one lemma gives both their laws.\<close>

lemma replace_laws:
  assumes start: "line_search start"
    and rep: "\<And>text n r. rep text n r =
     (case start (split_lines text) of
        None \<Rightarrow> Inl (msg n)
      | Some s \<Rightarrow> (case yamlChildBlockRange (split_lines text) s i n of
          None \<Rightarrow> Inl (msg n)
        | Some (a, b) \<Rightarrow> Inr (replaceLineRange (split_lines text) a b r)))"
  shows "section_block start i (split_lines t) n = None \<Longrightarrow> rep t n r = Inl (msg n)"
    and "CR \<notin> set t \<Longrightarrow> block_edit (i + 2) n r \<Longrightarrow>
      section_block start i (split_lines t) n \<noteq> None \<Longrightarrow>
      \<exists>ls. rep t n r = Inr (written ls) \<and> clean_lines ls
        \<and> (\<forall>m. m \<noteq> n \<longrightarrow> section_block start i ls m = section_block start i (split_lines t) m)
        \<and> (\<forall>b. r = Some b \<longrightarrow>
            section_block start i ls n = Some (map trimEnd (split_lines (trimEnd b))))
        \<and> (r = None \<longrightarrow> section_count start i ls n = section_count start i (split_lines t) n - 1)"
proof -
  show "rep t n r = Inl (msg n)" if none: "section_block start i (split_lines t) n = None"
  proof (cases "start (split_lines t)")
    case None
    then show ?thesis by (simp add: rep)
  next
    case (Some s)
    then have "find_child i n (Suc s) (drop (Suc s) (split_lines t)) = None"
      using none by (simp add: section_block_def find_child_None_iff)
    with Some show ?thesis by (simp add: rep yamlChildBlockRange_def)
  qed
  assume cr: "CR \<notin> set t" and r: "block_edit (i + 2) n r"
    and ex: "section_block start i (split_lines t) n \<noteq> None"
  from ex obtain s where s: "start (split_lines t) = Some s"
    and "child_block i n (drop (Suc s) (split_lines t)) \<noteq> None"
    by (auto simp: section_block_def split: option.splits)
  then obtain a b where ab: "yamlChildBlockRange (split_lines t) s i n = Some (a, b)"
    by (cases "yamlChildBlockRange (split_lines t) s i n")
      (auto simp: yamlChildBlockRange_def find_child_None_iff)
  have "rep t n r = Inr (replaceLineRange (split_lines t) a b r)" by (simp add: rep s ab)
  with section_replace [OF start cr s ab r]
  show "\<exists>ls. rep t n r = Inr (written ls) \<and> clean_lines ls
        \<and> (\<forall>m. m \<noteq> n \<longrightarrow> section_block start i ls m = section_block start i (split_lines t) m)
        \<and> (\<forall>b. r = Some b \<longrightarrow>
            section_block start i ls n = Some (map trimEnd (split_lines (trimEnd b))))
        \<and> (r = None \<longrightarrow> section_count start i ls n = section_count start i (split_lines t) n - 1)"
    by auto
qed

lemma config_rep_found:
  assumes "CR \<notin> set t" "block_edit 4 n r" "config_lookup t sec n \<noteq> None"
  shows "\<exists>t'. replaceYamlRouteBlock t sec n r = Inr t' \<and> CR \<notin> set t'
    \<and> (\<forall>m. m \<noteq> n \<longrightarrow> config_lookup t' sec m = config_lookup t sec m)
    \<and> (\<forall>b. r = Some b \<longrightarrow> config_lookup t' sec n = Some (map trimEnd (split_lines (trimEnd b))))
    \<and> (r = None \<longrightarrow> config_copies t' sec n = config_copies t sec n - 1)"
proof -
  have r: "block_edit (2 + 2) n r" using assms(2) by simp
  from replace_laws(2) [OF line_search_config replaceYaml_range assms(1) r
      assms(3) [unfolded config_lookup_def]]
  obtain ls where ls: "replaceYamlRouteBlock t sec n r = Inr (written ls)" "clean_lines ls"
    "\<forall>m. m \<noteq> n \<longrightarrow> section_block (config_start sec) 2 ls m = config_lookup t sec m"
    "\<forall>b. r = Some b \<longrightarrow>
       section_block (config_start sec) 2 ls n = Some (map trimEnd (split_lines (trimEnd b)))"
    "r = None \<longrightarrow> section_count (config_start sec) 2 ls n = config_copies t sec n - 1"
    unfolding config_lookup_def config_copies_def by blast
  note v = section_views_written [OF line_search_config ls(2)]
  have "config_lookup (written ls) sec m = section_block (config_start sec) 2 ls m"
    and "config_copies (written ls) sec m = section_count (config_start sec) 2 ls m" for m
    by (simp_all only: config_lookup_def config_copies_def v)
  with ls show ?thesis using CR_written [OF ls(2)] by auto
qed

lemma public_rep_found:
  assumes "CR \<notin> set t" "block_edit 2 n r" "public_lookup t sec n \<noteq> None"
  shows "\<exists>t'. replaceTopLevelYamlBlock t sec n r = Inr t' \<and> CR \<notin> set t'
    \<and> (\<forall>m. m \<noteq> n \<longrightarrow> public_lookup t' sec m = public_lookup t sec m)
    \<and> (\<forall>b. r = Some b \<longrightarrow> public_lookup t' sec n = Some (map trimEnd (split_lines (trimEnd b))))
    \<and> (r = None \<longrightarrow> public_copies t' sec n = public_copies t sec n - 1)"
proof -
  have r: "block_edit (0 + 2) n r" using assms(2) by (simp add: numeral_2_eq_2)
  from replace_laws(2) [OF line_search_public replaceTopLevel_range assms(1) r
      assms(3) [unfolded public_lookup_def]]
  obtain ls where ls: "replaceTopLevelYamlBlock t sec n r = Inr (written ls)" "clean_lines ls"
    "\<forall>m. m \<noteq> n \<longrightarrow> section_block (public_start sec) 0 ls m = public_lookup t sec m"
    "\<forall>b. r = Some b \<longrightarrow>
       section_block (public_start sec) 0 ls n = Some (map trimEnd (split_lines (trimEnd b)))"
    "r = None \<longrightarrow> section_count (public_start sec) 0 ls n = public_copies t sec n - 1"
    unfolding public_lookup_def public_copies_def by blast
  note v = section_views_written [OF line_search_public ls(2)]
  have "public_lookup (written ls) sec m = section_block (public_start sec) 0 ls m"
    and "public_copies (written ls) sec m = section_count (public_start sec) 0 ls m" for m
    by (simp_all only: public_lookup_def public_copies_def v)
  with ls show ?thesis using CR_written [OF ls(2)] by auto
qed

lemma config_app_new:
  assumes "CR \<notin> set t" "wf_block 4 n b" "config_lookup t sec n = None"
  shows "\<exists>t'. appendYamlRouteBlock t sec n b = Inr t' \<and> CR \<notin> set t' \<and> config_copies t' sec n = 1
    \<and> config_lookup t' sec = (config_lookup t sec)(n \<mapsto> map trimEnd (split_lines (trimEnd b)))"
proof -
  from append_config_lines [OF assms] obtain ls where ls:
    "appendYamlRouteBlock t sec n b = Inr (written ls)" "clean_lines ls"
    "\<forall>m. lines_lookup sec ls m = ((config_lookup t sec)(n \<mapsto> map trimEnd (split_lines (trimEnd b)))) m"
    "lines_copies sec ls n = 1" by blast
  then show ?thesis
    using section_views_written [OF line_search_config ls(2)] CR_written [OF ls(2)]
    by (intro exI [of _ "written ls"]) (simp add: config_lookup_def [abs_def] config_copies_def fun_eq_iff)
qed

lemma public_app_new:
  assumes "CR \<notin> set t" "wf_block 2 n b" "public_lookup t sec n = None"
  shows "\<exists>t'. appendTopLevelYamlRouteBlock t sec n b = Inr t' \<and> CR \<notin> set t' \<and> public_copies t' sec n = 1
    \<and> public_lookup t' sec = (public_lookup t sec)(n \<mapsto> map trimEnd (split_lines (trimEnd b)))"
proof -
  from append_public_lines [OF assms] obtain ls where ls:
    "appendTopLevelYamlRouteBlock t sec n b = Inr (written ls)" "clean_lines ls"
    "\<forall>m. section_block (public_start sec) 0 ls m
       = ((public_lookup t sec)(n \<mapsto> map trimEnd (split_lines (trimEnd b)))) m"
    "section_count (public_start sec) 0 ls n = 1" by blast
  then show ?thesis
    using section_views_written [OF line_search_public ls(2)] CR_written [OF ls(2)]
    by (intro exI [of _ "written ls"]) (simp add: public_lookup_def [abs_def] public_copies_def fun_eq_iff)
qed

interpretation config: route_store config_lookup config_copies appendYamlRouteBlock
  replaceYamlRouteBlock 4
proof
  show "replaceYamlRouteBlock t sec n r = Inl (unable_to_locate sec n)"
    if "config_lookup t sec n = None" for t sec n r
    using replace_laws(1) [OF line_search_config replaceYaml_range] that by (simp add: config_lookup_def)
  show "config_copies t sec n = 0 \<longleftrightarrow> config_lookup t sec n = None" for t sec n
    by (simp only: config_copies_def config_lookup_def section_count_0)
qed (fact append_config_dup config_app_new config_rep_found)+

interpretation public: route_store public_lookup public_copies appendTopLevelYamlRouteBlock
  replaceTopLevelYamlBlock 2
proof
  show "replaceTopLevelYamlBlock t sec n r = Inl (unable_to_locate sec n)"
    if "public_lookup t sec n = None" for t sec n r
    using replace_laws(1) [OF line_search_public replaceTopLevel_range] that by (simp add: public_lookup_def)
  show "public_copies t sec n = 0 \<longleftrightarrow> public_lookup t sec n = None" for t sec n
    by (simp only: public_copies_def public_lookup_def section_count_0)
qed (fact append_public_dup public_app_new public_rep_found)+

end
