(* ===== verification/Yaml_Props.thy ===== *)
theory Yaml_Props
  imports Yaml_Store
begin

text \<open>
  The properties of the YAML editor, read off the interpretations of \<^const>\<open>route_store\<close> in
  \<open>Yaml_Store\<close>: a configuration text is a finite map from route names to blocks, and the
  editor's functions insert into it, update it and delete from it, or fail with their message.
\<close>

subsection \<open>The configuration of a module\<close>

text \<open>C3. Adding a route to a module's \<open>config.yaml\<close>, with a text that is one block of that name and a file without
  carriage returns, fails exactly when the section already has a route of that name; otherwise the written text has the new block under its name and every other
  route of the section is the same block as before.\<close>

theorem append_config_route:
  assumes "CR \<notin> set t" "wf_block 4 n b"
  shows "case appendYamlRouteBlock t sec n b of
      Inl e \<Rightarrow> config_lookup t sec n \<noteq> None \<and> e = already_exists sec n
    | Inr t' \<Rightarrow> config_lookup t sec n = None \<and> CR \<notin> set t' \<and> config_lookup t' sec =
        (config_lookup t sec)(n \<mapsto> map trimEnd (split_lines (trimEnd b)))"
proof (cases "config_lookup t sec n")
  case None
  with config.app_new [OF assms None] show ?thesis by auto
next
  case (Some x)
  then show ?thesis by (simp add: config.app_dup [OF assms(1)])
qed

definition sample_config :: "string" where
  "sample_config = ''name: demo'' @ nl @ ''communication:'' @ nl @ ''  services: {}'' @ nl
     @ ''  topics:'' @ nl @ ''    pose:'' @ nl @ ''      message: a/msg/Pose'' @ nl"

definition sample_block :: "string" where
  "sample_block = ''    odom:'' @ nl @ ''      message: a/msg/Odom'' @ nl"

lemma append_config_route_witness:
  "case appendYamlRouteBlock sample_config Topics ''odom'' sample_block of
      Inl e \<Rightarrow> False
    | Inr t' \<Rightarrow> config_lookup t' Topics ''pose''
        = Some [''    pose:'', ''      message: a/msg/Pose'']
      \<and> config_lookup t' Topics ''odom'' = Some [''    odom:'', ''      message: a/msg/Odom'']"
proof -
  have cr: "CR \<notin> set sample_config" and wf: "wf_block 4 ''odom'' sample_block" by code_simp+
  have free: "config_lookup sample_config Topics ''odom'' = None"
    and pose: "config_lookup sample_config Topics ''pose''
      = Some [''    pose:'', ''      message: a/msg/Pose'']"
    and b: "map trimEnd (split_lines (trimEnd sample_block))
      = [''    odom:'', ''      message: a/msg/Odom'']" by code_simp+
  show ?thesis using append_config_route [OF cr wf, of Topics]
    by (auto simp: free pose b split: sum.splits)
qed

text \<open>C4. Editing or deleting a route of a module's \<open>config.yaml\<close> without carriage returns fails when the section has no
  route of that name. Otherwise a delete removes one block of that name and every other route keeps its block; and an edit
  with a text that is one block of that name (the key in the column of the routes, then no line that ends the block, and
  no blank line at the end) leaves that block under the name and every other route as it was. The editor does not check
  that the text is such a block: see \<open>unchecked_text_hits_other_routes\<close>.\<close>

theorem replace_config_route:
  assumes "CR \<notin> set t"
  shows "(config_lookup t sec n = None \<longrightarrow> (\<forall>r. replaceYamlRouteBlock t sec n r = Inl (unable_to_locate sec n)))
    \<and> (config_lookup t sec n \<noteq> None \<longrightarrow>
        (\<exists>t'. replaceYamlRouteBlock t sec n None = Inr t'
          \<and> (config_lookup t' sec)(n := None) = (config_lookup t sec)(n := None)
          \<and> config_copies t' sec n = config_copies t sec n - 1)
      \<and> (\<forall>b. wf_block 4 n b \<longrightarrow> (\<exists>t'. replaceYamlRouteBlock t sec n (Some b) = Inr t'
          \<and> config_lookup t' sec = (config_lookup t sec)(n \<mapsto> map trimEnd (split_lines (trimEnd b))))))"
proof (intro conjI impI allI)
  fix r assume "config_lookup t sec n = None"
  then show "replaceYamlRouteBlock t sec n r = Inl (unable_to_locate sec n)" by (simp add: config.rep_missing)
next
  assume found: "config_lookup t sec n \<noteq> None"
  show "\<exists>t'. replaceYamlRouteBlock t sec n None = Inr t'
      \<and> (config_lookup t' sec)(n := None) = (config_lookup t sec)(n := None)
      \<and> config_copies t' sec n = config_copies t sec n - 1"
    using config.rep_found [OF assms _ found, of None] by (auto simp: fun_eq_iff block_edit_def)
next
  fix b assume found: "config_lookup t sec n \<noteq> None" and "wf_block 4 n b"
  then show "\<exists>t'. replaceYamlRouteBlock t sec n (Some b) = Inr t'
      \<and> config_lookup t' sec = (config_lookup t sec)(n \<mapsto> map trimEnd (split_lines (trimEnd b)))"
    using config.rep_found [OF assms _ found, of "Some b"] by (auto simp: fun_eq_iff block_edit_def)
qed

lemma replace_config_route_witness:
  "case replaceYamlRouteBlock sample_config Topics ''pose'' None of
      Inl e \<Rightarrow> False | Inr t' \<Rightarrow> config_copies t' Topics ''pose'' = 0"
proof -
  have cr: "CR \<notin> set sample_config" by code_simp
  have one: "config_copies sample_config Topics ''pose'' = 1"
    and found: "config_lookup sample_config Topics ''pose'' \<noteq> None" by code_simp+
  show ?thesis using replace_config_route [OF cr, of Topics "''pose''"] found by (auto simp: one)
qed

text \<open>The editor takes any text for the new block. One whose second line is a route of its own stands in front of the
  route of that name that the section has already.\<close>

theorem unchecked_text_hits_other_routes:
  "case appendYamlRouteBlock sample_config Topics ''odom'' sample_block of
     Inl e \<Rightarrow> False
   | Inr t \<Rightarrow> (case replaceYamlRouteBlock t Topics ''pose'' (Some (''    pose:'' @ nl @ ''    odom:'' @ nl @ ''      message: b/msg/Other'')) of
        Inl e \<Rightarrow> False
      | Inr t' \<Rightarrow> config_lookup t Topics ''odom'' = Some [''    odom:'', ''      message: a/msg/Odom'']
          \<and> config_lookup t' Topics ''odom'' = Some [''    odom:'', ''      message: b/msg/Other''])"
  by code_simp

text \<open>C6. Deleting a route that was just added (as one block of its name, to a file without carriage returns) gives back
  the routes the section had before: delete is the inverse of append on the section's map.\<close>

theorem delete_undoes_append_config:
  assumes "CR \<notin> set t" "wf_block 4 n b" "appendYamlRouteBlock t sec n b = Inr t'"
  shows "\<exists>t''. replaceYamlRouteBlock t' sec n None = Inr t''
    \<and> config_lookup t'' sec = config_lookup t sec"
  using config.app_delete [OF assms] by blast

lemma delete_undoes_append_config_witness:
  "\<exists>t' t''. appendYamlRouteBlock sample_config Topics ''odom'' sample_block = Inr t'
    \<and> replaceYamlRouteBlock t' Topics ''odom'' None = Inr t''
    \<and> config_lookup t'' Topics = config_lookup sample_config Topics"
proof -
  have cr: "CR \<notin> set sample_config" and wf: "wf_block 4 ''odom'' sample_block" by code_simp+
  have free: "config_lookup sample_config Topics ''odom'' = None" by code_simp
  from config.app_iff [OF cr wf] free obtain t' where
    t': "appendYamlRouteBlock sample_config Topics ''odom'' sample_block = Inr t'" by blast
  with delete_undoes_append_config [OF cr wf t'] show ?thesis by blast
qed

lemma lineInfo_hash:
  "indent (lineInfo (CHR ''#'' # c)) = 0"
  "trimmed (lineInfo (CHR ''#'' # c)) = CHR ''#'' # trimEnd (stripInlineComment c)"
proof -
  have "trim (CHR ''#'' # x) = CHR ''#'' # trimEnd x" for x
    by (simp add: trim_def trimStart_def is_ws_def trimEnd_Cons)
  then show "indent (lineInfo (CHR ''#'' # c)) = 0"
    "trimmed (lineInfo (CHR ''#'' # c)) = CHR ''#'' # trimEnd (stripInlineComment c)"
    by (simp_all add: lineInfo_def Let_def is_ws_def countLeadingSpaces_def)
qed

text \<open>A line that starts with \<open>#\<close> in column 0 is not seen as a comment (the comment pattern
  needs white space before the \<open>#\<close>): below \<open>communication:\<close> it ends the section, so no route
  after it is found and every edit or delete of one fails.\<close>

theorem comment_line_ends_communication:
  assumes "clean_line c"
  shows "config_lookup (''communication:'' @ nl @ ''#'' @ c @ nl @ rest) sec n = None
    \<and> replaceYamlRouteBlock (''communication:'' @ nl @ ''#'' @ c @ nl @ rest) sec n r
        = Inl (unable_to_locate sec n)"
proof -
  define t where "t = ''communication:'' @ nl @ ''#'' @ c @ nl @ rest"
  have "t = ''communication:'' @ LF # ((''#'' @ c) @ LF # rest)" by (simp add: t_def nl_def)
  then have ls: "split_lines t = ''communication:'' # (''#'' @ c) # split_lines rest"
    using assms split_lines_append [of "''communication:''"] split_lines_append [of "''#'' @ c" rest]
    by simp
  have key: "indent (lineInfo ''communication:'') = 0" "trimmed (lineInfo ''communication:'') = ''communication:''"
    by code_simp+
  have "indent (lineInfo (''#'' @ c)) = 0" "hd (trimmed (lineInfo (''#'' @ c))) = CHR ''#''"
    "trimmed (lineInfo (''#'' @ c)) \<noteq> []"
    by (simp_all add: lineInfo_hash)
  then have "communicationSectionStart (split_lines t) sec = None"
    by (auto simp: ls communicationSectionStart_def key Let_def)
  then have "config_lookup t sec n = None" 
    by (simp add: config_lookup_def section_block_def config_start_def)
  then show ?thesis using config.rep_missing unfolding t_def by blast
qed

lemma comment_line_ends_communication_witness:
  "config_lookup (''communication:'' @ nl @ ''#'' @ '' routes'' @ nl
     @ (''  topics:'' @ nl @ ''    pose:'' @ nl @ ''      message: a/msg/Pose'' @ nl))
     Topics ''pose'' = None"
  using comment_line_ends_communication [of "'' routes''"] by simp

subsection \<open>The public interfaces of a service\<close>

text \<open>C5. Publishing a route in a service's \<open>public/interfaces.yaml\<close>, with a text that is one block of that name and a
  file without carriage returns, fails exactly when the
  section already has an interface of that name; otherwise the written text has the new block and
  keeps every other interface of the section.\<close>

theorem append_public_interface:
  assumes "CR \<notin> set t" "wf_block 2 n b"
  shows "case appendTopLevelYamlRouteBlock t sec n b of
      Inl e \<Rightarrow> public_lookup t sec n \<noteq> None \<and> e = already_exists sec n
    | Inr t' \<Rightarrow> public_lookup t sec n = None \<and> CR \<notin> set t' \<and> public_lookup t' sec =
        (public_lookup t sec)(n \<mapsto> map trimEnd (split_lines (trimEnd b)))"
proof (cases "public_lookup t sec n")
  case None
  with public.app_new [OF assms None] show ?thesis by auto
next
  case (Some x)
  then show ?thesis by (simp add: public.app_dup [OF assms(1)])
qed

definition sample_public :: "string" where
  "sample_public = ''topics:'' @ nl @ ''  pose:'' @ nl @ ''    type: a/msg/Pose'' @ nl"

definition sample_public_block :: "string" where
  "sample_public_block = ''  pose:'' @ nl @ ''    type: a/msg/Odom'' @ nl"

lemma append_public_interface_witness:
  "appendTopLevelYamlRouteBlock sample_public Topics ''pose'' sample_public_block
     = Inl (already_exists Topics ''pose'')"
proof -
  have cr: "CR \<notin> set sample_public" and wf: "wf_block 2 ''pose'' sample_public_block" by code_simp+
  have found: "public_lookup sample_public Topics ''pose'' \<noteq> None" by code_simp
  show ?thesis using append_public_interface [OF cr wf, of Topics] found
    by (auto split: sum.splits)
qed

text \<open>Editing or unpublishing an interface fails exactly when the section has none of that
  name; otherwise every other interface keeps its block, an edit leaves the new block under the name,
  and unpublishing removes one block of that name.\<close>

theorem replace_public_interface:
  assumes "CR \<notin> set t" "block_edit 2 n r"
  shows "case replaceTopLevelYamlBlock t sec n r of
      Inl e \<Rightarrow> public_lookup t sec n = None \<and> e = unable_to_locate sec n
    | Inr t' \<Rightarrow> public_lookup t sec n \<noteq> None
        \<and> (public_lookup t' sec)(n := None) = (public_lookup t sec)(n := None)
        \<and> (case r of
            Some b \<Rightarrow> public_lookup t' sec n = Some (map trimEnd (split_lines (trimEnd b)))
          | None \<Rightarrow> public_copies t' sec n = public_copies t sec n - 1)"
proof (cases "public_lookup t sec n = None")
  case True
  then show ?thesis by (simp add: public.rep_missing)
next
  case False
  with public.rep_found [OF assms False] show ?thesis by (auto simp: fun_eq_iff split: option.split)
qed

lemma replace_public_interface_witness:
  "case replaceTopLevelYamlBlock sample_public Topics ''pose'' (Some sample_public_block) of
      Inl e \<Rightarrow> False
    | Inr t' \<Rightarrow> public_lookup t' Topics ''pose'' = Some [''  pose:'', ''    type: a/msg/Odom'']"
proof -
  have cr: "CR \<notin> set sample_public" by code_simp
  have ed: "block_edit 2 ''pose'' (Some sample_public_block)"
    unfolding block_edit_def option.case by code_simp
  have b: "map trimEnd (split_lines (trimEnd sample_public_block))
      = [''  pose:'', ''    type: a/msg/Odom'']"
    and found: "public_lookup sample_public Topics ''pose'' \<noteq> None" by code_simp+
  show ?thesis using replace_public_interface [OF cr ed, of Topics]
    by (auto simp: b found split: sum.splits)
qed

text \<open>Unpublishing an interface that was just published gives back the interfaces the
  section had before.\<close>

theorem delete_undoes_append_public:
  assumes "CR \<notin> set t" "wf_block 2 n b" "appendTopLevelYamlRouteBlock t sec n b = Inr t'"
  shows "\<exists>t''. replaceTopLevelYamlBlock t' sec n None = Inr t''
    \<and> public_lookup t'' sec = public_lookup t sec"
  using public.app_delete [OF assms] by blast

lemma delete_undoes_append_public_witness:
  "\<exists>t' t''. appendTopLevelYamlRouteBlock [] Topics ''pose'' sample_public_block = Inr t'
    \<and> replaceTopLevelYamlBlock t' Topics ''pose'' None = Inr t''
    \<and> public_lookup t'' Topics = public_lookup [] Topics"
proof -
  have cr: "CR \<notin> set []" by simp
  have wf: "wf_block 2 ''pose'' sample_public_block" by code_simp
  have free: "public_lookup [] Topics ''pose'' = None" by code_simp
  from public.app_iff [OF cr wf] free obtain t' where
    t': "appendTopLevelYamlRouteBlock [] Topics ''pose'' sample_public_block = Inr t'" by blast
  with delete_undoes_append_public [OF cr wf t'] show ?thesis by blast
qed

text \<open>The top-level editor does not know the empty section \<open>services: {}\<close> that the nested one
  rewrites: it adds a second key \<open>services:\<close> to the file.\<close>

theorem empty_public_section_duplicated:
  "appendTopLevelYamlRouteBlock (''services: {}'' @ nl) Services ''ping''
     (''  ping:'' @ nl @ ''    type: a/srv/Ping'' @ nl)
   = Inr (''services: {}'' @ nl @ nl @ ''services:'' @ nl @ ''  ping:'' @ nl
       @ ''    type: a/srv/Ping'' @ nl)"
  by code_simp

end
