(* ===== verification/Route_Parse_Props.thy ===== *)
theory Route_Parse_Props
  imports Route_Parse Yaml_Store
begin

text \<open>
  What the route parser guarantees of its result on every text, and how it agrees with the editor
  of \<open>Yaml_Edit\<close>. Both parsers of the dashboard run a state over the lines of a text, so the
  rule that an invariant of the state survives the run is proved once, in \<open>line_machine\<close>.
\<close>

subsection \<open>Running a state over lines\<close>

lemma first_handler_inv:
  assumes "J st" and "\<And>h st st'. h \<in> set hs \<Longrightarrow> J st \<Longrightarrow> h st = Some st' \<Longrightarrow> J st'"
  shows "J (first_handler hs st)"
  using assms by (induction hs arbitrary: st) (auto split: option.splits)

lemma each_line_append:
  "each_line f i (xs @ ys) st = each_line f (i + length xs) ys (each_line f i xs st)"
  by (induction xs arbitrary: i st) simp_all

locale line_machine =
  fixes step :: "'s \<Rightarrow> ParsedLine \<Rightarrow> 's" and J :: "'s \<Rightarrow> bool"
  assumes step_inv: "J st \<Longrightarrow> J (step st line)"
begin

lemma run_inv: "J st \<Longrightarrow> J (each_line step i ls st)"
  by (induction ls arbitrary: i st) (auto simp: step_inv split: option.split)

lemma run_drop: "J (each_line step i (take k ls) st) \<Longrightarrow> J (each_line step i ls st)"
  using run_inv [of "each_line step i (take k ls) st" _ "drop k ls"]
    each_line_append [of step i "take k ls" "drop k ls" st] by simp

end

subsection \<open>Bindings\<close>

definition bindings_ok :: "string list \<Rightarrow> bool" where
  "bindings_ok ts \<longleftrightarrow> distinct ts \<and> [] \<notin> set ts"

lemma map_update_first:
  assumes "\<And>x. g (f x) = g x"
  shows "map g (update_first p f xs) = map g xs"
  by (induction xs) (simp_all add: assms)

lemma b_transport_fill [simp]: "b_transport (fill_binding b t x) = b_transport x"
  and b_transport_new [simp]: "b_transport (new_binding b t) = t"
  by (simp_all add: fill_binding_def new_binding_def)

lemma appendBinding_cases:
  obtains "r_bindings (appendBinding r b) = r_bindings r"
  | t f where "\<And>x. b_transport (f x) = b_transport x"
      "r_bindings (appendBinding r b) = update_first (\<lambda>x. b_transport x = t) f (r_bindings r)"
  | n where "b_transport n \<noteq> []" "b_transport n \<notin> set (map b_transport (r_bindings r))"
      "r_bindings (appendBinding r b) = r_bindings r @ [n]"
proof (cases b)
  case None
  then show ?thesis by (intro that(1)) (simp add: appendBinding_def)
next
  case (Some x)
  define t where "t = transportFromBinding x"
  consider "t = []" | "t \<noteq> []" "list_ex (\<lambda>item. b_transport item = t) (r_bindings r)"
    | "t \<noteq> []" "\<not> list_ex (\<lambda>item. b_transport item = t) (r_bindings r)" by blast
  then show ?thesis
  proof cases
    case 1
    then show ?thesis by (intro that(1)) (simp add: appendBinding_def Some t_def)
  next
    case 2
    then show ?thesis
      by (intro that(2) [of "fill_binding x t" t]) (simp_all add: appendBinding_def Some t_def Let_def)
  next
    case 3
    then show ?thesis
      by (intro that(3) [of "new_binding x t"]) (auto simp: appendBinding_def Some t_def list_ex_iff)
  qed
qed

lemma appendBinding_transports:
  assumes "bindings_ok (map b_transport (r_bindings r))"
  shows "bindings_ok (map b_transport (r_bindings (appendBinding r b)))"
proof (cases rule: appendBinding_cases [of r b])
  case (2 t f)
  then show ?thesis using assms by (simp only: map_update_first)
next
  case (3 n)
  then show ?thesis using assms by (auto simp: bindings_ok_def)
qed (use assms in simp)

lemma appendBinding_frame [simp]:
  "r_name (appendBinding r b) = r_name r" "r_kind (appendBinding r b) = r_kind r"
  "r_id (appendBinding r b) = r_id r" "r_module (appendBinding r b) = r_module r"
  "r_configPath (appendBinding r b) = r_configPath r"
  "r_direction (appendBinding r b) = r_direction r"
  "r_messageType (appendBinding r b) = r_messageType r"
  by (simp_all add: appendBinding_def Let_def split: option.split)

subsection \<open>The handlers keep an invariant of routes\<close>

text \<open>
  An invariant \<open>P\<close> of a route that the handlers' updates keep, whatever they write, and that
  every new route has, holds of every route of the state.
\<close>

locale route_property =
  fixes configPath moduleName :: string and P :: "CommunicationRoute \<Rightarrow> bool"
  assumes fresh: "route_key l = Some n \<Longrightarrow> P (createRoute configPath moduleName sec n)"
    and add_binding: "P r \<Longrightarrow> P (appendBinding r b)"
    and set_type: "P r \<Longrightarrow> P (r\<lparr>r_messageType := v\<rparr>)"
    and set_direction: "P r \<Longrightarrow> P (r\<lparr>r_direction := v\<rparr>)"
    and set_status: "P r \<Longrightarrow> P (r\<lparr>r_status := st\<rparr>)"
begin

definition holds :: "CommunicationParseState \<Rightarrow> bool" where
  "holds st \<longleftrightarrow> (\<forall>r \<in> set (s_routes st).
       P r \<and> r_status r = routeStatusFromBindings (length (r_bindings r)))
     \<and> (\<forall>r. s_currentRoute st = Some r \<longrightarrow> P r)"

lemma holds_complete: "holds st \<Longrightarrow> holds (completeRoute st)"
  by (auto simp: holds_def completeRoute_def finished_route_def Let_def add_binding set_status
      split: option.splits)

lemma holds_currentD: "holds st \<Longrightarrow> s_currentRoute st = Some r \<Longrightarrow> P r"
  by (simp add: holds_def)

lemma metadata_keeps: "P r \<Longrightarrow> P (metadata_route pair r)"
  unfolding metadata_route_def Let_def by (simp add: add_binding set_type set_direction)

lemma address_keeps: "P r \<Longrightarrow> P (address_route k v r)"
  unfolding address_route_def Let_def by (simp add: add_binding set_type)

lemma holds_state [simp]:
  "holds (st\<lparr>s_inCommunication := c\<rparr>) = holds st" "holds (st\<lparr>s_section := sec\<rparr>) = holds st"
  "holds (st\<lparr>s_currentBinding := b\<rparr>) = holds st" "holds (st\<lparr>s_currentList := l\<rparr>) = holds st"
  "holds (st\<lparr>s_inAddresses := a\<rparr>) = holds st"
  by (simp_all add: holds_def)

lemma holds_set: "holds st \<Longrightarrow> P r \<Longrightarrow> holds (st\<lparr>s_currentRoute := Some r\<rparr>)"
  by (simp add: holds_def)

lemma holds_scope: "holds st \<Longrightarrow> updateCommunicationScope st line = Some st' \<Longrightarrow> holds st'"
  by (auto simp: updateCommunicationScope_def holds_complete Let_def split: if_splits)

lemma holds_section: "holds st \<Longrightarrow> updateCommunicationSection st line = Some st' \<Longrightarrow> holds st'"
  by (auto simp: updateCommunicationSection_def holds_complete split: if_splits)

lemma holds_start: "holds st \<Longrightarrow> startRoute st line configPath moduleName = Some st' \<Longrightarrow> holds st'"
  by (auto simp: startRoute_def split: if_splits option.splits intro!: holds_set holds_complete fresh)

lemma holds_metadata:
  assumes "holds st" "updateRouteMetadata st line = Some st'"
  shows "holds st'"
proof -
  obtain route where r: "s_currentRoute st = Some route"
    using assms(2) by (cases "s_currentRoute st") (simp_all add: updateRouteMetadata_def)
  define pair where "pair = parseKeyValue (l_trimmed line)"
  have "holds (st\<lparr>s_currentRoute := Some (metadata_route pair route)\<rparr>)"
    by (intro holds_set metadata_keeps holds_currentD [OF assms(1) r] assms(1))
  moreover have "l_indent line = 6" using assms(2) by (simp add: updateRouteMetadata_def r split: if_splits)
  moreover note assms(2)
  ultimately show ?thesis
    unfolding updateRouteMetadata_def r option.case Let_def pair_def [symmetric]
    by (simp only: if_False if_True simp_thms not_True_eq_False option.inject) (drule sym, simp)
qed

lemma holds_list: "holds st \<Longrightarrow> updateRouteListValue st line = Some st' \<Longrightarrow> holds st'"
  by (auto simp: updateRouteListValue_def intro!: holds_set add_binding holds_currentD
      split: if_splits option.splits)

lemma holds_address: "holds st \<Longrightarrow> updateAddressValue st line = Some st' \<Longrightarrow> holds st'"
  by (auto simp: updateAddressValue_def intro!: holds_set address_keeps holds_currentD
      split: if_splits option.splits)

lemma holds_binding: "holds st \<Longrightarrow> startBinding st line = Some st' \<Longrightarrow> holds st'"
  by (auto simp: startBinding_def Let_def intro!: holds_set add_binding holds_currentD
      split: if_splits option.splits)

lemma holds_value: "holds st \<Longrightarrow> updateBinding st line = Some st' \<Longrightarrow> holds st'"
  by (auto simp: updateBinding_def split: if_splits option.splits)

lemma holds_stop: "holds st \<Longrightarrow> stop_if p st = Some st' \<Longrightarrow> holds st'"
  by (simp add: stop_if_def split: if_splits)

lemmas holds_handlers = holds_scope holds_section holds_start holds_metadata holds_list holds_address
  holds_binding holds_value holds_stop

lemma holds_line:
  assumes "holds st"
  shows "holds (parseCommunicationLine st line configPath moduleName)"
  unfolding parseCommunicationLine_def
  by (rule first_handler_inv [where J = holds], rule assms) (auto dest: holds_handlers)

lemma holds_initial: "holds initial_parse_state"
  by (simp add: holds_def initial_parse_state_def)

lemma routes_hold:
  assumes "r \<in> set (parseCommunicationRoutes text configPath moduleName)"
  shows "P r" and "r_status r = routeStatusFromBindings (length (r_bindings r))"
proof -
  define st where "st = completeRoute (each_line
    (\<lambda>st line. parseCommunicationLine st line configPath moduleName) 0 (split_lines text)
    initial_parse_state)"
  have lm: "line_machine (\<lambda>st line. parseCommunicationLine st line configPath moduleName) holds"
    by unfold_locales (rule holds_line)
  have "holds st" unfolding st_def
    by (rule holds_complete [OF line_machine.run_inv [OF lm holds_initial]])
  with assms show "P r" "r_status r = routeStatusFromBindings (length (r_bindings r))"
    by (simp_all add: holds_def parseCommunicationRoutes_def st_def)
qed

end

definition route_ok :: "string \<Rightarrow> string \<Rightarrow> CommunicationRoute \<Rightarrow> bool" where
  "route_ok configPath moduleName r \<longleftrightarrow>
     bindings_ok (map b_transport (r_bindings r)) \<and> r_configPath r = configPath \<and> r_module r = moduleName
     \<and> r_name r \<noteq> [] \<and> (\<forall>c \<in> set (r_name r). is_route_char c)
     \<and> (\<exists>sec. r_kind r = section_kind sec \<and> r_id r = configPath @ '':'' @ section_word sec @ '':'' @ r_name r)"

interpretation parsed_routes: route_property configPath moduleName "route_ok configPath moduleName"
  for configPath moduleName
proof
  show "route_ok configPath moduleName r \<Longrightarrow> route_ok configPath moduleName (appendBinding r b)" for r b
    unfolding route_ok_def by (simp add: appendBinding_transports)
qed (auto simp: route_ok_def createRoute_def bindings_ok_def route_key_def split: if_splits)

subsection \<open>The parser sees every route that the editor can edit\<close>

definition has_route :: "string \<Rightarrow> RouteKind \<Rightarrow> CommunicationParseState \<Rightarrow> bool" where
  "has_route n k st \<longleftrightarrow>
     (\<exists>r. (r \<in> set (s_routes st) \<or> s_currentRoute st = Some r) \<and> r_name r = n \<and> r_kind r = k)"

lemma metadata_frame [simp]:
  "r_name (metadata_route p r) = r_name r" "r_kind (metadata_route p r) = r_kind r"
  "r_name (address_route a b r) = r_name r" "r_kind (address_route a b r) = r_kind r"
  by (simp_all add: metadata_route_def address_route_def Let_def)

lemma has_complete: "has_route n k st \<Longrightarrow> \<exists>r \<in> set (s_routes (completeRoute st)). r_name r = n \<and> r_kind r = k"
  by (auto simp: has_route_def completeRoute_def finished_route_def Let_def)

lemma has_routes: "\<exists>r \<in> set (s_routes st). r_name r = n \<and> r_kind r = k \<Longrightarrow> has_route n k st"
  by (auto simp: has_route_def)

lemma has_scope: "has_route n k st \<Longrightarrow> updateCommunicationScope st line = Some st' \<Longrightarrow> has_route n k st'"
  by (auto simp: updateCommunicationScope_def Let_def has_route_def completeRoute_def
      finished_route_def split: if_splits)

lemma has_section: "has_route n k st \<Longrightarrow> updateCommunicationSection st line = Some st' \<Longrightarrow> has_route n k st'"
  by (auto simp: updateCommunicationSection_def dest!: has_complete intro!: has_routes split: if_splits)

lemma has_start: "has_route n k st \<Longrightarrow> startRoute st line p m = Some st' \<Longrightarrow> has_route n k st'"
  by (auto simp: startRoute_def dest!: has_complete intro!: has_routes split: if_splits option.splits)

lemma has_current:
  assumes "has_route n k st" "s_routes st' = s_routes st"
    and "\<And>r. s_currentRoute st = Some r \<Longrightarrow>
      \<exists>r'. s_currentRoute st' = Some r' \<and> r_name r' = r_name r \<and> r_kind r' = r_kind r"
  shows "has_route n k st'"
proof -
  from assms(1) obtain r where r: "r \<in> set (s_routes st) \<or> s_currentRoute st = Some r"
    "r_name r = n" "r_kind r = k" by (auto simp: has_route_def)
  then show ?thesis using assms(2) assms(3) [of r] unfolding has_route_def by auto
qed

lemma has_metadata: "has_route n k st \<Longrightarrow> updateRouteMetadata st line = Some st' \<Longrightarrow> has_route n k st'"
  by (erule has_current) (auto simp: updateRouteMetadata_def Let_def split: if_splits option.splits)

lemma has_list: "has_route n k st \<Longrightarrow> updateRouteListValue st line = Some st' \<Longrightarrow> has_route n k st'"
  by (erule has_current) (auto simp: updateRouteListValue_def split: if_splits option.splits)

lemma has_address: "has_route n k st \<Longrightarrow> updateAddressValue st line = Some st' \<Longrightarrow> has_route n k st'"
  by (erule has_current) (auto simp: updateAddressValue_def split: if_splits option.splits)

lemma has_binding: "has_route n k st \<Longrightarrow> startBinding st line = Some st' \<Longrightarrow> has_route n k st'"
  by (erule has_current) (auto simp: startBinding_def Let_def split: if_splits option.splits)

lemma has_value: "has_route n k st \<Longrightarrow> updateBinding st line = Some st' \<Longrightarrow> has_route n k st'"
  by (erule has_current) (auto simp: updateBinding_def split: if_splits option.splits)

lemma has_stop: "has_route n k st \<Longrightarrow> stop_if p st = Some st' \<Longrightarrow> has_route n k st'"
  by (simp add: stop_if_def split: if_splits)

lemma has_line: "has_route n k st \<Longrightarrow> has_route n k (parseCommunicationLine st line p m)"
  unfolding parseCommunicationLine_def
  by (rule first_handler_inv [where J = "has_route n k"], assumption)
    (auto dest: has_scope has_section has_start has_metadata has_list has_address has_binding
      has_value has_stop)

interpretation kept_route: line_machine
  "\<lambda>st line. parseCommunicationLine st line p m" "has_route n k" for p m n k
  by unfold_locales (rule has_line)

lemma parsed_line_info:
  "parsedCommunicationLine l i =
     (if trimmed (lineInfo l) = [] then None
      else Some \<lparr>l_indent = indent (lineInfo l), l_lineNumber = i, l_raw = stripInlineComment l,
             l_trimmed = trimmed (lineInfo l)\<rparr>)"
  by (simp add: parsedCommunicationLine_def lineInfo_def Let_def)

text \<open>What one line does to the place the parser is in.\<close>

lemma line_scope:
  "l_indent line = 0 \<Longrightarrow>
     s_inCommunication (parseCommunicationLine st line p m) = (l_trimmed line = ''communication:'')"
  by (simp add: parseCommunicationLine_def updateCommunicationScope_def Let_def)

lemma handler_place:
  "updateCommunicationSection st line = Some st' \<Longrightarrow> s_inCommunication st' = s_inCommunication st"
  "startRoute st line p m = Some st' \<Longrightarrow>
     s_inCommunication st' = s_inCommunication st \<and> s_section st' = s_section st"
  "updateRouteMetadata st line = Some st' \<Longrightarrow>
     s_inCommunication st' = s_inCommunication st \<and> s_section st' = s_section st"
  "updateRouteListValue st line = Some st' \<Longrightarrow>
     s_inCommunication st' = s_inCommunication st \<and> s_section st' = s_section st"
  "updateAddressValue st line = Some st' \<Longrightarrow>
     s_inCommunication st' = s_inCommunication st \<and> s_section st' = s_section st"
  "startBinding st line = Some st' \<Longrightarrow>
     s_inCommunication st' = s_inCommunication st \<and> s_section st' = s_section st"
  "updateBinding st line = Some st' \<Longrightarrow>
     s_inCommunication st' = s_inCommunication st \<and> s_section st' = s_section st"
  "stop_if q st = Some st' \<Longrightarrow> st' = st"
  by (auto simp: updateCommunicationSection_def completeRoute_def startRoute_def
      updateRouteMetadata_def updateRouteListValue_def updateAddressValue_def startBinding_def
      updateBinding_def stop_if_def Let_def split: if_splits option.splits)

lemma line_keeps_scope:
  assumes "l_indent line \<noteq> 0"
  shows "s_inCommunication (parseCommunicationLine st line p m) = s_inCommunication st"
  unfolding parseCommunicationLine_def
  by (rule first_handler_inv [where J = "\<lambda>x. s_inCommunication x = s_inCommunication st"])
    (use assms in \<open>auto simp: updateCommunicationScope_def dest: handler_place\<close>)

lemma line_section:
  assumes "s_inCommunication st" "l_indent line = 2" "l_trimmed line = section_word sec @ '':''"
  shows "s_section (parseCommunicationLine st line p m) = Some sec"
  using assms by (cases sec)
    (simp_all add: parseCommunicationLine_def updateCommunicationScope_def stop_if_def
      updateCommunicationSection_def)

lemma line_keeps_section:
  assumes "l_indent line > 2"
  shows "s_section (parseCommunicationLine st line p m) = s_section st"
  unfolding parseCommunicationLine_def
  by (rule first_handler_inv [where J = "\<lambda>x. s_section x = s_section st"])
    (use assms in \<open>auto simp: updateCommunicationScope_def updateCommunicationSection_def
      dest: handler_place\<close>)

lemma line_starts_route:
  assumes "s_inCommunication st" "s_section st = Some sec" "l_indent line = 4"
    and "l_trimmed line = n @ '':''" "n \<noteq> []" "\<forall>c \<in> set n. is_route_char c"
  shows "has_route n (section_kind sec) (parseCommunicationLine st line p m)"
proof -
  have "s_currentRoute (parseCommunicationLine st line p m) = Some (createRoute p m sec n)"
    using assms by (simp add: parseCommunicationLine_def updateCommunicationScope_def stop_if_def
        updateCommunicationSection_def startRoute_def route_key_def)
  then show ?thesis by (auto simp: has_route_def createRoute_def)
qed

abbreviation run_lines :: "string \<Rightarrow> string \<Rightarrow> nat \<Rightarrow> string list \<Rightarrow> CommunicationParseState \<Rightarrow>
    CommunicationParseState" where
  "run_lines p m \<equiv> each_line (\<lambda>st line. parseCommunicationLine st line p m)"

lemma scan_reaches_section:
  assumes "section_scan sec (s_inCommunication st) i ls = Some s"
    and "\<forall>l \<in> set ls. trimmed (lineInfo l) \<noteq> section_word sec @ '': {}''"
  shows "\<exists>st'. run_lines p m k ls st = run_lines p m (k + Suc (s - i)) (drop (Suc (s - i)) ls) st'
    \<and> s_inCommunication st' \<and> s_section st' = Some sec"
  using assms
proof (induction ls arbitrary: i k st)
  case Nil
  then show ?case by simp
next
  case (Cons l ls)
  define st1 where "st1 = (case parsedCommunicationLine l k of None \<Rightarrow> st
    | Some line \<Rightarrow> parseCommunicationLine st line p m)"
  have run: "run_lines p m k (l # ls) st = run_lines p m (Suc k) ls st1" by (simp add: st1_def)
  show ?case
  proof (cases "section_scan sec (s_inCommunication st1) (i + 1) ls = Some s")
    case True
    then have "i + 1 \<le> s" using section_scan_bounds by fastforce
    then have "Suc (s - i) = Suc (Suc (s - (i + 1)))" by simp
    then show ?thesis using Cons.IH [OF True, of "Suc k"] Cons.prems(2) run by simp
  next
    case False
    have inc: "s_inCommunication st1 = (if trimmed (lineInfo l) = [] then s_inCommunication st
        else if indent (lineInfo l) = 0 then trimmed (lineInfo l) = ''communication:''
        else s_inCommunication st)"
      by (simp add: st1_def parsed_line_info line_scope line_keeps_scope)
    have no: "trimmed (lineInfo l) \<noteq> section_word sec @ '': {}''" using Cons.prems(2) by simp
    have "indent (lineInfo l) = 2 \<and> trimmed (lineInfo l) = section_word sec @ '':'' \<and> s = i
        \<and> s_inCommunication st"
      using Cons.prems(1) False no unfolding section_scan.simps Let_def inc
      by (cases "trimmed (lineInfo l) = []"; cases "indent (lineInfo l) = 0";
          cases "s_inCommunication st") (simp_all split: if_splits)
    then have at: "indent (lineInfo l) = 2" "trimmed (lineInfo l) = section_word sec @ '':''"
      "s = i" "s_inCommunication st" by simp_all
    have "s_section st1 = Some sec" "s_inCommunication st1"
      using at line_section [of st _ sec] line_keeps_scope
      by (simp_all add: st1_def parsed_line_info)
    then show ?thesis using run at(3) by auto
  qed
qed

lemma child_reaches_route:
  assumes "s_inCommunication st" "s_section st = Some sec"
    and "child_block 2 n ls \<noteq> None" "n \<noteq> []" "\<forall>c \<in> set n. is_route_char c"
  shows "has_route n (section_kind sec) (run_lines p m k ls st)"
  using assms(1-3)
proof (induction ls arbitrary: k st)
  case Nil
  then show ?case by simp
next
  case (Cons l ls)
  define st1 where "st1 = (case parsedCommunicationLine l k of None \<Rightarrow> st
    | Some line \<Rightarrow> parseCommunicationLine st line p m)"
  have run: "run_lines p m k (l # ls) st = run_lines p m (Suc k) ls st1" by (simp add: st1_def)
  have deep: "trimmed (lineInfo l) = [] \<or> indent (lineInfo l) > 2"
    using Cons.prems(3) by (auto simp: stops_def split: if_splits)
  show ?case
  proof (cases "is_child 4 n l")
    case True
    then have "has_route n (section_kind sec) st1"
      using line_starts_route [OF Cons.prems(1,2) _ _ assms(4,5)]
      by (simp add: st1_def parsed_line_info is_child_def)
    then show ?thesis unfolding run by (rule kept_route.run_inv)
  next
    case False
    then have "child_block 2 n ls \<noteq> None" using Cons.prems(3) by (simp split: if_splits)
    moreover have "s_inCommunication st1" "s_section st1 = Some sec"
      using Cons.prems(1,2) deep line_keeps_scope line_keeps_section
      by (auto simp: st1_def parsed_line_info)
    ultimately show ?thesis unfolding run using Cons.IH by blast
  qed
qed

subsection \<open>Properties\<close>

text \<open>C7. Every route that the parser returns has at most one binding per transport and none
  without a transport, its status is the one of its number of bindings, its name is a non-empty route
  key, and its id is made of the file, the section of its kind and the name.\<close>

theorem parsed_routes_well_formed:
  assumes "r \<in> set (parseCommunicationRoutes text configPath moduleName)"
  shows "route_ok configPath moduleName r
    \<and> r_status r = routeStatusFromBindings (length (r_bindings r))"
  using parsed_routes.routes_hold [OF assms] by simp

definition sample_routes :: "string" where
  "sample_routes = ''communication:'' @ nl @ ''  topics:'' @ nl @ ''    pose:'' @ nl
     @ ''      topic_ref: loc.pose'' @ nl @ ''      direction: publish'' @ nl
     @ ''      addresses:'' @ nl @ ''        nats: a.b'' @ nl @ ''        ros2: /a/b'' @ nl"

lemma parsed_routes_well_formed_witness:
  "\<exists>r. r \<in> set (parseCommunicationRoutes sample_routes ''c.yaml'' ''m'')
    \<and> r_name r = ''pose'' \<and> r_messageType r = ''loc.pose''
    \<and> map b_transport (r_bindings r) = [''nats'', ''ros2''] \<and> r_status r = Observer_Pending
    \<and> route_ok ''c.yaml'' ''m'' r"
proof -
  define r where "r = hd (parseCommunicationRoutes sample_routes ''c.yaml'' ''m'')"
  have ne: "parseCommunicationRoutes sample_routes ''c.yaml'' ''m'' \<noteq> []" by code_simp
  have "r_name r = ''pose''" "r_messageType r = ''loc.pose''"
    "map b_transport (r_bindings r) = [''nats'', ''ros2'']" "r_status r = Observer_Pending"
    unfolding r_def by code_simp+
  moreover have "r \<in> set (parseCommunicationRoutes sample_routes ''c.yaml'' ''m'')"
    unfolding r_def using ne by (rule hd_in_set)
  ultimately show ?thesis using parsed_routes_well_formed [of r sample_routes "''c.yaml''" "''m''"]
    by (intro exI [of _ r] conjI) simp_all
qed

text \<open>C8. Every route that the editor finds in a configuration, the parser lists: if the section
  has a block of that (legal) name and is not written as an empty map, the parsed routes hold one of
  that name and of the section's kind.\<close>

theorem editable_routes_are_listed:
  assumes "config_lookup text sec n \<noteq> None"
    and "n \<noteq> []" "\<forall>c \<in> set n. is_route_char c"
    and "\<forall>l \<in> set (split_lines text). trimmed (lineInfo l) \<noteq> section_word sec @ '': {}''"
  shows "\<exists>r \<in> set (parseCommunicationRoutes text configPath moduleName).
    r_name r = n \<and> r_kind r = section_kind sec"
proof -
  define ls where "ls = split_lines text"
  obtain s where s: "section_scan sec False 0 ls = Some s"
    and child: "child_block 2 n (drop (Suc s) ls) \<noteq> None"
    using assms(1) by (auto simp: config_lookup_def section_block_def config_start_def
        communicationSectionStart_def ls_def split: option.splits)
  have "section_scan sec (s_inCommunication initial_parse_state) 0 ls = Some s"
    using s by (simp add: initial_parse_state_def)
  from scan_reaches_section [OF this, where k = 0 and p = configPath and m = moduleName] assms(4)
  obtain st where st: "run_lines configPath moduleName 0 ls initial_parse_state
      = run_lines configPath moduleName (Suc s) (drop (Suc s) ls) st"
    "s_inCommunication st" "s_section st = Some sec" unfolding ls_def by auto
  from child_reaches_route [OF st(2,3) child assms(2,3)]
  have "has_route n (section_kind sec) (run_lines configPath moduleName 0 ls initial_parse_state)"
    by (simp add: st(1))
  from has_complete [OF this] show ?thesis by (simp add: parseCommunicationRoutes_def ls_def)
qed

lemma editable_routes_are_listed_witness:
  "\<exists>r \<in> set (parseCommunicationRoutes sample_routes ''c.yaml'' ''m'').
    r_name r = ''pose'' \<and> r_kind r = Topic"
proof -
  have l: "config_lookup sample_routes Topics ''pose'' \<noteq> None" by code_simp
  have n: "''pose'' \<noteq> []" "\<forall>c \<in> set ''pose''. is_route_char c" by (simp, code_simp)
  have e: "\<forall>l \<in> set (split_lines sample_routes). trimmed (lineInfo l) \<noteq> section_word Topics @ '': {}''"
    by code_simp
  show ?thesis using editable_routes_are_listed [OF l n e] by (simp add: section_kind_def)
qed

text \<open>A key of \<open>communication:\<close> other than \<open>services:\<close> and \<open>topics:\<close> does not end the section
  before it, so the parser lists the keys below it as routes of that section.\<close>

theorem unknown_section_keeps_section:
  "map r_name (parseCommunicationRoutes (''communication:'' @ nl @ ''  topics:'' @ nl
      @ ''    pose:'' @ nl @ ''  defaults:'' @ nl @ ''    qos:'' @ nl) p m) = [''pose'', ''qos'']"
  by (simp add: parseCommunicationRoutes_def nl_def) code_simp

end
