(* ===== verification/Formats.thy ===== *)
theory Formats
  imports Repo_Files
begin

text \<open>
  Data formats (\<open>dashboard/packages/api/src/routers/dashboard.ts\<close>): rendering a definition from
  the fields of a form, editing a \<open>.proto\<close> file message by message, and reading back the fields
  of \<open>.proto\<close>, \<open>.msg\<close>, \<open>.srv\<close> and \<open>.idl\<close> files.
\<close>

datatype DataFormatKind = Proto | Msg | Srv | Dds_Idl

record DataFieldSummary =
  f_name :: string
  f_number :: string
  f_type :: string

record ModuleDataFormatItem =
  m_definition :: string
  m_fields :: "DataFieldSummary list"
  m_id :: string
  m_kind :: DataFormatKind
  m_name :: string
  m_path :: string
  m_source :: string

record dataFormatFieldInput =
  n_name :: string
  n_type :: string

fun format_word :: "DataFormatKind \<Rightarrow> string" where
  "format_word Proto = ''proto''"
| "format_word Msg = ''msg''"
| "format_word Srv = ''srv''"
| "format_word Dds_Idl = ''dds_idl''"

text \<open>\<open>result\<close> in sequence: the first error of a list of computations, or all their values.\<close>

definition rbind :: "'a result \<Rightarrow> ('a \<Rightarrow> 'b result) \<Rightarrow> 'b result" where
  "rbind r f = (case r of Inl e \<Rightarrow> Inl e | Inr x \<Rightarrow> f x)"

fun rmap :: "('a \<Rightarrow> 'b result) \<Rightarrow> 'a list \<Rightarrow> 'b list result" where
  "rmap f [] = Inr []"
| "rmap f (x # xs) = rbind (f x) (\<lambda>y. rbind (rmap f xs) (\<lambda>ys. Inr (y # ys)))"

lemma rbind_simps [simp]: "rbind (Inl e) f = Inl e" "rbind (Inr x) f = f x"
  by (simp_all add: rbind_def)

subsection \<open>Editing a proto file\<close>

definition braces :: "string \<Rightarrow> int" where
  "braces l = int (count_list l (CHR ''{'')) - int (count_list l (CHR ''}''))"

text \<open>How many lines the message that starts at the first line takes.\<close>

fun message_length :: "bool \<Rightarrow> int \<Rightarrow> string list \<Rightarrow> nat" where
  "message_length first depth [] = 0"
| "message_length first depth (l # ls) =
     (let d = depth + braces l
      in if d \<le> 0 \<and> \<not> first then 1 else Suc (message_length False d ls))"

definition replaceProtoMessageBlock :: "string \<Rightarrow> string \<Rightarrow> string option \<Rightarrow> string result" where
  "replaceProtoMessageBlock text name replacement =
     (let lines = split_lines text
      in case find_index (\<lambda>l. startsWith (trim l) (''message '' @ name)) lines of
           None \<Rightarrow> Inl (''Unable to locate proto message '' @ quoted name @ ''.'')
         | Some index \<Rightarrow> Inr (replaceLineRange lines index
             (index + message_length True 0 (drop index lines)) replacement))"

definition appendProtoMessageBlock :: "string \<Rightarrow> string \<Rightarrow> string \<Rightarrow> string result" where
  "appendProtoMessageBlock text name replacement =
     (if has_sub text (''message '' @ name)
      then Inl (''Proto message '' @ quoted name @ '' already exists.'')
      else Inr (trimEnd text @ nl @ nl @ trimEnd replacement @ nl))"

subsection \<open>Expressions\<close>

definition is_proto_package_char :: "char \<Rightarrow> bool" where
  "is_proto_package_char c \<longleftrightarrow> is_word_char c \<or> c = CHR ''.''"

definition is_proto_type_char :: "char \<Rightarrow> bool" where
  "is_proto_type_char c \<longleftrightarrow> is_word_char c \<or> c = CHR ''.'' \<or> c = CHR ''<'' \<or> c = CHR ''>''"

text \<open>A keyword and the white space after it, an identifier over a class of characters, and the
  digits of a number: the pieces of the regular expressions. Every piece takes all it can, and no
  piece could start with what the one before it would give back.\<close>

definition eat_word :: "string \<Rightarrow> string \<Rightarrow> string option" where
  "eat_word w s =
     (if startsWith s w \<and> (case drop (length w) s of [] \<Rightarrow> False | c # r \<Rightarrow> is_ws c)
      then Some (dropWhile is_ws (drop (length w) s)) else None)"

definition eat_ident :: "(char \<Rightarrow> bool) \<Rightarrow> string \<Rightarrow> (string \<times> string) option" where
  "eat_ident p s =
     (case s of [] \<Rightarrow> None
      | c # r \<Rightarrow> if (is_alpha c \<or> c = CHR ''_'') then Some (takeWhile p s, dropWhile p s) else None)"

definition eat_char :: "char \<Rightarrow> string \<Rightarrow> string option" where
  "eat_char d s = (case dropWhile is_ws s of [] \<Rightarrow> None | c # r \<Rightarrow> if c = d then Some r else None)"

definition proto_message_match :: "string \<Rightarrow> string option" where
  "proto_message_match line =
     Option.bind (eat_word ''message'' line) (\<lambda>s.
     Option.bind (eat_ident is_word_char s) (\<lambda>(name, s).
     Option.bind (eat_char (CHR ''{'') s) (\<lambda>s. Some name)))"

definition proto_field_core :: "string \<Rightarrow> (string \<times> string \<times> string) option" where
  "proto_field_core s =
     Option.bind (eat_ident is_proto_type_char s) (\<lambda>(type, s).
     Option.bind (eat_word [] s) (\<lambda>s.
     Option.bind (eat_ident is_word_char s) (\<lambda>(name, s).
     Option.bind (eat_char (CHR ''='') s) (\<lambda>s.
       let digits = takeWhile is_digit (dropWhile is_ws s)
       in if digits = [] then None else Some (type, name, digits)))))"

definition proto_field_match :: "string \<Rightarrow> (string \<times> string \<times> string) option" where
  "proto_field_match line =
     (case Option.bind (eat_word ''repeated'' line) proto_field_core of
        Some m \<Rightarrow> Some m
      | None \<Rightarrow> proto_field_core line)"

definition package_at :: "string \<Rightarrow> string option" where
  "package_at s =
     Option.bind (eat_word ''package'' s) (\<lambda>s.
     Option.bind (eat_ident is_proto_package_char s) (\<lambda>(name, s).
     Option.bind (eat_char (CHR '';'') s) (\<lambda>s. Some name)))"

text \<open>The multi-line search for the package: at the start and after every line terminator.\<close>

fun find_package :: "bool \<Rightarrow> string \<Rightarrow> string option" where
  "find_package line_start [] = None"
| "find_package line_start (c # cs) =
     (case (if line_start then package_at (c # cs) else None) of
        Some name \<Rightarrow> Some name
      | None \<Rightarrow> find_package (is_term c) cs)"

definition protoPackageFromDefinition :: "string \<Rightarrow> string \<Rightarrow> string" where
  "protoPackageFromDefinition dfn serviceName =
     nullish (find_package True dfn) (''pacific_rim.'' @ serviceName @ ''.protocols.pb'')"

definition publicTypeFromDataFormat :: "ModuleDataFormatItem \<Rightarrow> string \<Rightarrow> string" where
  "publicTypeFromDataFormat format serviceName =
     (case m_kind format of
        Proto \<Rightarrow> protoPackageFromDefinition (m_definition format) serviceName @ ''.'' @ m_name format
      | Dds_Idl \<Rightarrow> serviceName @ ''::'' @ m_name format
      | Srv \<Rightarrow> serviceName @ ''/srv/'' @ m_name format
      | Msg \<Rightarrow> serviceName @ ''/msg/'' @ m_name format)"

subsection \<open>Rendering\<close>

definition enumerate_from :: "nat \<Rightarrow> 'a list \<Rightarrow> (nat \<times> 'a) list" where
  "enumerate_from k xs = zip [k..<k + length xs] xs"

definition renderProtoMessage :: "string \<Rightarrow> dataFormatFieldInput list \<Rightarrow> string result" where
  "renderProtoMessage name flds =
     rbind (rmap (\<lambda>(index, field). rbind (validateDataFieldName (n_name field)) (\<lambda>n.
              Inr (''  '' @ trim (n_type field) @ '' '' @ n @ '' = '' @ nat_str (index + 1) @ '';'')))
            (enumerate_from 0 flds))
       (\<lambda>ls. Inr (join_lines ((''message '' @ name @ '' {'') # ls @ [''}''])))"

text \<open>\<open>/(^|\/)srv\//\<close>: \<open>srv/\<close> at the start or after a slash.\<close>

definition isRos2ServiceTypeReference :: "string \<Rightarrow> bool" where
  "isRos2ServiceTypeReference type =
     (let normalized = trim type
      in startsWith normalized ''srv/'' \<or> has_sub normalized ''/srv/''
         \<or> startsWith normalized ''std_srvs/'')"

definition renderRosFields :: "dataFormatFieldInput list \<Rightarrow> string result" where
  "renderRosFields flds =
     rbind (rmap (\<lambda>field.
              let type = trim (n_type field)
              in if isRos2ServiceTypeReference type
                 then Inl (''ROS2 fields cannot use srv type '' @ quoted type @ ''.'')
                 else rbind (validateDataFieldName (n_name field)) (\<lambda>n. Inr (type @ '' '' @ n)))
            flds)
       (\<lambda>ls. Inr (join_lines ls))"

definition renderDdsIdlStruct :: "string \<Rightarrow> dataFormatFieldInput list \<Rightarrow> string result" where
  "renderDdsIdlStruct name flds =
     rbind (rmap (\<lambda>field. rbind (validateDataFieldName (n_name field)) (\<lambda>n.
              Inr (''  '' @ trim (n_type field) @ '' '' @ n @ '';''))) flds)
       (\<lambda>ls. Inr (join_lines ((''struct '' @ name @ '' {'') # ls @ [''};''])))"

record createDataFormatInput =
  c_moduleName :: string
  c_fields :: "dataFormatFieldInput list"
  c_kind :: DataFormatKind
  c_name :: string
  c_responseFields :: "dataFormatFieldInput list option"

definition renderDataFormatDefinition :: "createDataFormatInput \<Rightarrow> string result" where
  "renderDataFormatDefinition input =
     rbind (validateDataFormatName (c_name input)) (\<lambda>name.
       case c_kind input of
         Proto \<Rightarrow> renderProtoMessage name (c_fields input)
       | Srv \<Rightarrow>
           rbind (renderRosFields (c_fields input)) (\<lambda>request.
           rbind (renderRosFields (nullish (c_responseFields input) [])) (\<lambda>response.
             Inr (request @ (if request \<noteq> [] then nl else []) @ ''---''
                  @ (if response \<noteq> [] then nl @ response else []))))
       | Dds_Idl \<Rightarrow> renderDdsIdlStruct name (c_fields input)
       | Msg \<Rightarrow> renderRosFields (c_fields input))"

subsection \<open>Reading proto messages\<close>

record proto_state =
  g_items :: "ModuleDataFormatItem list"
  g_current :: "ModuleDataFormatItem option"
  g_braceDepth :: int
  g_lines :: "string list"

definition startProtoFormat :: "string \<Rightarrow> string \<Rightarrow> int \<times> ModuleDataFormatItem option" where
  "startProtoFormat line pathValue =
     (case proto_message_match line of
        Some name \<Rightarrow> (1, Some \<lparr>m_definition = line, m_fields = [],
          m_id = pathValue @ '':proto:'' @ name, m_kind = Proto, m_name = name, m_path = pathValue,
          m_source = ''message''\<rparr>)
      | None \<Rightarrow> (0, None))"

definition updateProtoMessage ::
  "string \<Rightarrow> ModuleDataFormatItem \<Rightarrow> int \<Rightarrow> ModuleDataFormatItem \<times> int" where
  "updateProtoMessage line current braceDepth =
     ((case proto_field_match line of
         Some (type, name, number) \<Rightarrow> current\<lparr>m_fields := m_fields current
           @ [\<lparr>f_name = name, f_number = number, f_type = type\<rparr>]\<rparr>
       | None \<Rightarrow> current), braceDepth + braces line)"

definition with_definition :: "string list \<Rightarrow> ModuleDataFormatItem \<Rightarrow> ModuleDataFormatItem" where
  "with_definition ls current = current\<lparr>m_definition := trimEnd (join_lines ls)\<rparr>"

definition proto_line :: "string \<Rightarrow> proto_state \<Rightarrow> string \<Rightarrow> proto_state" where
  "proto_line pathValue st rawLine =
     (let t = trim rawLine in
      if t = [] \<or> startsWith t ''//''
      then (if g_current st \<noteq> None then st\<lparr>g_lines := g_lines st @ [rawLine]\<rparr> else st)
      else case g_current st of
        None \<Rightarrow>
          (let (depth, current) = startProtoFormat t pathValue
           in st\<lparr>g_current := current, g_braceDepth := depth,
                g_lines := (if current = None then [] else [rawLine])\<rparr>)
      | Some c \<Rightarrow>
          (let ls = g_lines st @ [rawLine];
               (c', depth) = updateProtoMessage t c (g_braceDepth st)
           in if depth \<le> 0
              then st\<lparr>g_items := g_items st @ [with_definition ls c'], g_current := None,
                     g_braceDepth := depth, g_lines := []\<rparr>
              else st\<lparr>g_current := Some c', g_braceDepth := depth, g_lines := ls\<rparr>))"

definition proto_start :: "proto_state" where
  "proto_start = \<lparr>g_items = [], g_current = None, g_braceDepth = 0, g_lines = []\<rparr>"

definition proto_end :: "proto_state \<Rightarrow> ModuleDataFormatItem list" where
  "proto_end st = g_items st
     @ (case g_current st of None \<Rightarrow> [] | Some c \<Rightarrow> [with_definition (g_lines st) c])"

definition parseProtoFormats :: "string \<Rightarrow> string \<Rightarrow> ModuleDataFormatItem list" where
  "parseProtoFormats text pathValue =
     proto_end (foldl (proto_line pathValue) proto_start (split_lines text))"

subsection \<open>Reading DDS and ROS definitions\<close>

text \<open>\<open>line.replace(/#.*/, '')\<close> and \<open>line.replace(/\/\/.*/, '')\<close>: up to the next line
  terminator.\<close>

definition strip_hash :: "string \<Rightarrow> string" where
  "strip_hash l =
     takeWhile (\<lambda>c. c \<noteq> CHR ''#'') l
     @ dropWhile (\<lambda>c. \<not> is_term c) (dropWhile (\<lambda>c. c \<noteq> CHR ''#'') l)"

fun strip_slashes :: "string \<Rightarrow> string" where
  "strip_slashes [] = []"
| "strip_slashes (c # cs) =
     (if prefix ''//'' (c # cs) then dropWhile (\<lambda>c. \<not> is_term c) cs else c # strip_slashes cs)"

definition number_from_one :: "(string \<Rightarrow> string \<Rightarrow> 'b) \<Rightarrow> string list \<Rightarrow> 'b list" where
  "number_from_one g ls = map (\<lambda>(i, l). g l (nat_str (i + 1))) (enumerate_from 0 ls)"

definition dds_field :: "string \<Rightarrow> string \<Rightarrow> DataFieldSummary" where
  "dds_field line number =
     (let parts = split_runs is_ws line
      in \<lparr>f_name = last parts, f_number = number, f_type = join '' '' (butlast parts)\<rparr>)"

definition parseDdsIdlFields :: "string \<Rightarrow> DataFieldSummary list" where
  "parseDdsIdlFields text =
     (let ls = map (\<lambda>line. trim (strip_slashes line)) (split_lines text);
          ls = filter (\<lambda>line. line \<noteq> []) ls;
          ls = filter (\<lambda>line. \<not> startsWith line ''struct '') ls;
          ls = filter (\<lambda>line. \<not> startsWith line ''interface '') ls;
          ls = filter (\<lambda>line. \<not> startsWith line ''module '') ls;
          ls = filter (\<lambda>line. line \<notin> {''{'', ''};'', ''}''}) ls;
          ls = map (\<lambda>line. if endsWith line '';'' then butlast line else line) ls
      in filter (\<lambda>field. f_type field \<noteq> [] \<and> f_name field \<noteq> [])
           (number_from_one dds_field ls))"

definition ros_field :: "string \<Rightarrow> string \<Rightarrow> DataFieldSummary" where
  "ros_field line number =
     (let parts = split_runs is_ws line;
          name = (if 1 < length parts then parts ! 1 else [])
      in \<lparr>f_name = or_else name line, f_number = number, f_type = hd parts\<rparr>)"

definition parseRosFields :: "string \<Rightarrow> DataFieldSummary list" where
  "parseRosFields text =
     (let ls = map (\<lambda>line. trim (strip_hash line)) (split_lines text);
          ls = filter (\<lambda>line. line \<noteq> []) ls;
          ls = filter (\<lambda>line. \<not> startsWith line ''---'') ls
      in number_from_one ros_field ls)"

definition format_item ::
  "DataFormatKind \<Rightarrow> string \<Rightarrow> string \<Rightarrow> string \<Rightarrow> string \<Rightarrow> DataFieldSummary list \<Rightarrow> ModuleDataFormatItem" where
  "format_item kind name source relativePath text flds = \<lparr>
     m_definition = trimEnd text, m_fields = flds,
     m_id = relativePath @ '':'' @ format_word kind, m_kind = kind, m_name = name,
     m_path = relativePath, m_source = source\<rparr>"

text \<open>\<open>parseDataFormatFile\<close>, after the file is read.\<close>

definition parse_format_text :: "string \<Rightarrow> string \<Rightarrow> ModuleDataFormatItem list" where
  "parse_format_text relativePath text =
     (let base = basename relativePath in
      if endsWith base ''.proto'' then parseProtoFormats text relativePath
      else if endsWith base ''.idl''
      then [format_item Dds_Idl (drop_ext ''.idl'' base) ''OMG DDS IDL'' relativePath text
              (parseDdsIdlFields text)]
      else let kind = (if endsWith base ''.srv'' then Srv else Msg)
           in [format_item kind (drop_ext (CHR ''.'' # format_word kind) base)
                 (if kind = Srv then ''ros2 service'' else ''ros2 message'') relativePath text
                 (parseRosFields text)])"

definition parseDataFormatFile :: "node \<Rightarrow> path \<Rightarrow> path \<Rightarrow> ModuleDataFormatItem list result" where
  "parseDataFormatFile fs file repoRoot =
     rbind (readFile fs file) (\<lambda>text.
       Inr (parse_format_text (normalizePath (path_relative repoRoot file)) text))"

subsection \<open>Dependencies of ROS 2 definitions\<close>

text \<open>\<open>type.replace(/<=\d+/g, '')\<close> and \<open>type.replace(/\[[^\]]*\]/g, '')\<close>.\<close>

function strip_bounds :: "string \<Rightarrow> string" where
  "strip_bounds [] = []"
| "strip_bounds (c # cs) =
     (if c = CHR ''<'' \<and> startsWith cs ''='' \<and> takeWhile is_digit (tl cs) \<noteq> []
      then strip_bounds (dropWhile is_digit (tl cs)) else c # strip_bounds cs)"
  by pat_completeness auto
termination
proof (relation "measure length", simp, goal_cases)
  case (1 c cs)
  have "length (dropWhile is_digit (tl cs)) \<le> length cs"
    using length_dropWhile_le [of is_digit "tl cs"] by (cases cs) auto
  then show ?case by (simp add: less_Suc_eq_le)
next
  case (2 c cs)
  then show ?case by simp
qed

function strip_brackets :: "string \<Rightarrow> string" where
  "strip_brackets [] = []"
| "strip_brackets (c # cs) =
     (if c = CHR ''['' \<and> CHR '']'' \<in> set cs
      then strip_brackets (tl (dropWhile (\<lambda>x. x \<noteq> CHR '']'') cs)) else c # strip_brackets cs)"
  by pat_completeness auto
termination
proof (relation "measure length", simp, goal_cases)
  case (1 c cs)
  have "length (dropWhile (\<lambda>x. x \<noteq> CHR '']'') cs) \<le> length cs" by (rule length_dropWhile_le)
  then show ?case by simp
next
  case (2 c cs)
  then show ?case by simp
qed

definition line_dependency :: "string \<Rightarrow> string \<Rightarrow> string option" where
  "line_dependency serviceName rawLine =
     (let line = trim (strip_hash rawLine) in
      if line = [] \<or> line = ''---'' then None
      else
        let type = strip_brackets (strip_bounds (hd (split_runs is_ws line)));
            pkg = hd (split_on (CHR ''/'') type)
        in if CHR ''/'' \<notin> set type \<or> pkg = [] \<or> pkg = serviceName then None else Some pkg)"

definition ros2DefinitionDependencies ::
  "(string \<Rightarrow> string \<Rightarrow> int) \<Rightarrow> string \<Rightarrow> string \<Rightarrow> string list" where
  "ros2DefinitionDependencies lc content serviceName =
     js_sort lc (uniq (List.map_filter (line_dependency serviceName) (split_lines content)))"

definition ros2InterfaceDependencies ::
  "(string \<Rightarrow> string \<Rightarrow> int) \<Rightarrow> node \<Rightarrow> path \<Rightarrow> string list \<Rightarrow> string \<Rightarrow> string list result" where
  "ros2InterfaceDependencies lc fs packageDir interfaceFiles serviceName =
     rbind (rmap (\<lambda>file. readFile fs (path_join packageDir file)) interfaceFiles) (\<lambda>texts.
       Inr (js_sort lc (uniq (concat
         (map (\<lambda>text. ros2DefinitionDependencies lc text serviceName) texts)))))"

text \<open>The list of lines of \<open>CMakeLists.txt\<close> without its repeated blank ones.\<close>

fun squeeze_blank :: "string option \<Rightarrow> string list \<Rightarrow> string list" where
  "squeeze_blank before [] = []"
| "squeeze_blank before (l # ls) =
     (if l \<noteq> [] \<or> before \<noteq> Some [] then [l] else []) @ squeeze_blank (Some l) ls"

definition renderRos2PackageCMake :: "string \<Rightarrow> string list \<Rightarrow> string list \<Rightarrow> string" where
  "renderRos2PackageCMake serviceName interfaceFiles dependencies =
     join_lines (squeeze_blank None (
       [''cmake_minimum_required(VERSION 3.8)'', ''project('' @ serviceName @ '')'', [],
        ''find_package(ament_cmake REQUIRED)'',
        ''find_package(rosidl_default_generators REQUIRED)'']
       @ map (\<lambda>d. ''find_package('' @ d @ '' REQUIRED)'') dependencies
       @ [[], ''rosidl_generate_interfaces(${PROJECT_NAME}'']
       @ map (\<lambda>f. ''  '' @ quoted f) interfaceFiles
       @ [(if dependencies \<noteq> [] then ''  DEPENDENCIES '' @ join '' '' dependencies else []),
          '')'', [], ''ament_export_dependencies(rosidl_default_runtime)'',
          ''ament_package()'', []]))"

definition renderRos2PackageXml :: "string \<Rightarrow> string list \<Rightarrow> string" where
  "renderRos2PackageXml serviceName dependencies =
     join_lines (
       [''<?xml version='' @ quoted ''1.0'' @ ''?>'', ''<package format='' @ quoted ''3'' @ ''>'',
        ''  <name>'' @ serviceName @ ''</name>'', ''  <version>0.1.0</version>'',
        ''  <description>ROS2 interfaces for the '' @ serviceName @ '' public contract.</description>'',
        ''  <maintainer email='' @ quoted ''dev@example.com'' @ ''>Pacific-Rim Developers</maintainer>'',
        ''  <license>TODO</license>'', [],
        ''  <buildtool_depend>ament_cmake</buildtool_depend>'',
        ''  <build_depend>rosidl_default_generators</build_depend>'']
       @ map (\<lambda>d. ''  <depend>'' @ d @ ''</depend>'') dependencies
       @ [[], ''  <exec_depend>rosidl_default_runtime</exec_depend>'', [],
          ''  <member_of_group>rosidl_interface_packages</member_of_group>'', [],
          ''  <export>'', ''    <build_type>ament_cmake</build_type>'', ''  </export>'',
          ''</package>'', []])"

end
