(* ===== verification/Repo_Files_Props.thy ===== *)
theory Repo_Files_Props
  imports Repo_Files
begin

text \<open>
  What the path check, the name validators and the file operations guarantee. The contract of the
  tree's write operation is the locale \<open>file_write\<close>: what reading finds after it.
\<close>

subsection \<open>Paths\<close>

lemma strip_common_split:
  "strip_common xs ys = (us, vs) \<Longrightarrow> \<exists>p. xs = p @ us \<and> ys = p @ vs"
proof (induction xs ys rule: strip_common.induct)
  case (1 x xs y ys)
  show ?case
  proof (cases "x = y")
    case True
    with 1 obtain p where "xs = p @ us" "ys = p @ vs" by auto
    with True show ?thesis by (intro exI [of _ "y # p"]) simp
  next
    case False
    with "1.prems" show ?thesis by simp
  qed
qed auto

lemma relative_inside:
  assumes "\<not> startsWith (path_relative source target) ''..''"
  shows "\<exists>rest. target = source @ rest"
proof -
  obtain up down where ud: "strip_common source target = (up, down)"
    by (cases "strip_common source target")
  have "up = []"
  proof (rule ccontr)
    assume "up \<noteq> []"
    then obtain n where "length up = Suc n" by (cases up) auto
    then have "path_relative source target = path_string (''..'' # replicate n ''..'' @ down)"
      by (simp add: path_relative_def ud)
    moreover have "startsWith (path_string (''..'' # ps)) ''..''" for ps
      by (cases ps) (simp_all add: path_string_def)
    ultimately show False using assms by simp
  qed
  with strip_common_split [OF ud] show ?thesis by auto
qed

lemma foldl_push_plain:
  "''..'' \<notin> set segs \<Longrightarrow> foldl push_segment base segs = base @ filter (\<lambda>s. s \<noteq> [] \<and> s \<noteq> ''.'') segs"
  by (induction segs arbitrary: base) (auto simp: push_segment_def)

lemma normalizePath_id [simp]: "normalizePath p = p"
  by (simp add: normalizePath_def join_split_on)

lemma split_on_join_slash: "split_on d (a @ d # b) = split_on d a @ split_on d b"
proof (induction a)
  case Nil
  then show ?case by simp
next
  case (Cons c a)
  then show ?case by (cases "split_on d a") auto
qed

subsection \<open>Names\<close>

lemma set_join: "set (join sep xs) \<subseteq> set sep \<union> \<Union>(set ` set xs)"
  by (induction sep xs rule: join.induct) auto

lemma kebab_service_chars:
  assumes "module_name_match s"
  shows "\<forall>c \<in> set (toServiceName s). is_kebab_char c \<or> c = CHR ''_''"
proof -
  have chars: "is_kebab_char c \<or> c = CHR ''-''" if "c \<in> set s" for c
  proof -
    have "c \<in> set (join ''-'' (split_on (CHR ''-'') s))" using that by (simp add: join_split_on)
    then have "c = CHR ''-'' \<or> (\<exists>w \<in> set (split_on (CHR ''-'') s). c \<in> set w)"
      using set_join [of "''-''" "split_on (CHR ''-'') s"] by auto
    then show ?thesis using assms by (auto simp: module_name_match_def)
  qed
  then have "is_kebab_char c \<or> c = CHR ''_''" if "c \<in> set (toPackageName s)" for c
    using that by (auto simp: toPackageName_def replace_char_def split: if_splits)
  moreover have "is_kebab_char c \<or> c = CHR ''_''" if "c \<in> set ''_service''" for c
    using that by (auto simp: is_kebab_char_def is_lower_def is_digit_def)
  ultimately show ?thesis by (auto simp: toServiceName_def Let_def)
qed

lemma toServiceName_idem: "toServiceName (toServiceName s) = toServiceName s"
proof -
  have pk: "toPackageName (toPackageName s) = toPackageName s"
    by (simp add: toPackageName_def replace_char_def)
  have "toPackageName (a @ b) = toPackageName a @ toPackageName b" for a b
    by (simp add: toPackageName_def replace_char_def)
  moreover have "toPackageName ''_service'' = ''_service''" by code_simp
  ultimately have "toPackageName (toServiceName s) = toServiceName s"
    using pk by (simp add: toServiceName_def Let_def)
  moreover have "endsWith (toServiceName s) ''_service''"
    unfolding toServiceName_def Let_def by (cases "endsWith (toPackageName s) ''_service''") (simp_all add: suffixI)
  ultimately show ?thesis by (simp only: toServiceName_def [of "toServiceName s"] Let_def if_True)
qed

subsection \<open>Writing files\<close>

lemma map_of_put [simp]: "map_of (put_entry es n t) m = (if m = n then Some t else map_of es m)"
  by (induction es) auto

lemma map_of_del: "map_of (del_entry es n) m = (if m = n then None else map_of es m)"
  by (induction es) (auto simp: del_entry_def)

lemma node_at_leaf: "q \<noteq> [] \<Longrightarrow> node_at (File w) q = None" "q \<noteq> [] \<Longrightarrow> node_at Other q = None"
  by (cases q, simp_all)+

lemma writeFile_result:
  "writeFile t p w = Inr t' \<Longrightarrow>
   node_at t' p = Some (File w) \<and> (\<forall>q. \<not> prefix q p \<longrightarrow> node_at t' q = node_at t q)"
proof (induction t p w arbitrary: t' rule: writeFile.induct)
  case (3 es n p w)
  show ?case
  proof (cases "map_of es n")
    case None
    with 3(2) have "p = []" "t' = Dir (put_entry es n (File w))" by (simp_all split: if_splits)
    moreover have "node_at t' q = node_at (Dir es) q" if "\<not> prefix q [n]" for q
    proof (cases q)
      case Nil
      with that show ?thesis by simp
    next
      case (Cons m r)
      with that None \<open>t' = _\<close> show ?thesis by (cases r) auto
    qed
    ultimately show ?thesis by simp
  next
    case (Some u)
    with 3(2) obtain u' where u': "writeFile u p w = Inr u'" "t' = Dir (put_entry es n u')"
      by (auto split: sum.splits)
    note IH = "3.IH" [OF Some u'(1)]
    have "node_at t' q = node_at (Dir es) q" if "\<not> prefix q (n # p)" for q
      using that IH Some by (cases q) (auto simp: u'(2))
    with IH u'(2) show ?thesis by simp
  qed
qed (auto simp: node_at_leaf)

lemma node_at_append: "node_at t (p @ q) = (case node_at t p of None \<Rightarrow> None | Some u \<Rightarrow> node_at u q)"
proof (induction t p rule: node_at.induct)
  case (2 es n p)
  then show ?case by (auto split: option.split)
qed auto

lemma writeFile_parents:
  assumes "writeFile t p w = Inr t'" "strict_prefix q p"
  shows "(\<exists>es. node_at t q = Some (Dir es)) \<and> (\<exists>es. node_at t' q = Some (Dir es))"
  using assms
proof (induction t p w arbitrary: t' q rule: writeFile.induct)
  case (3 es n p w)
  then show ?case
    by (cases q) (auto split: option.splits if_splits sum.splits simp: strict_prefix_def)
qed (auto simp: strict_prefix_def)

text \<open>The contract that the handlers rely on: what is read after a write.\<close>

locale file_store =
  fixes load :: "'fs \<Rightarrow> path \<Rightarrow> string result" and store :: "'fs \<Rightarrow> path \<Rightarrow> string \<Rightarrow> 'fs result"
  assumes read_write: "store fs p w = Inr fs' \<Longrightarrow> load fs' p = Inr w"
    and read_other: "store fs p w = Inr fs' \<Longrightarrow> q \<noteq> p \<Longrightarrow> load fs' q = load fs q"
begin

lemma read_after: "store fs p w = Inr fs' \<Longrightarrow> load fs' q = (if q = p then Inr w else load fs q)"
  by (simp add: read_write read_other)

lemma rewrite_same:
  assumes "store fs p w = Inr fs'" "load fs p = Inr w"
  shows "load fs' = load fs"
  using read_after [OF assms(1)] assms(2) by (auto simp: fun_eq_iff)

end

interpretation tree: file_store readFile writeFile
proof
  fix fs p w fs' q
  assume wr: "writeFile fs p w = Inr fs'"
  note r = writeFile_result [OF wr]
  show "readFile fs' p = Inr w" using r by (simp add: readFile_def)
  show "readFile fs' q = readFile fs q" if "q \<noteq> p"
  proof (cases "prefix q p")
    case True
    with that have "strict_prefix q p" by (simp add: strict_prefix_def)
    from writeFile_parents [OF wr this] show ?thesis by (auto simp: readFile_def)
  next
    case False
    with r show ?thesis by (simp add: readFile_def)
  qed
qed

subsection \<open>Properties\<close>

text \<open>C9. Whatever path a client sends, the path check only ever gives a path at or below the
  repository root: it rejects the others.\<close>

theorem repo_path_contained:
  assumes "absoluteRepoPath repoRoot p roots = Inr q"
  shows "prefix repoRoot q"
proof -
  have "q = path_join repoRoot (normalizePath p)" "\<not> startsWith (path_relative repoRoot q) ''..''"
    using assms unfolding absoluteRepoPath_def Let_def by (simp_all split: if_splits)
  with relative_inside [of repoRoot q] show ?thesis by auto
qed

lemma repo_path_contained_witness:
  "prefix [''repo''] [''repo'', ''pkg'', ''idl'', ''a'', ''public'', ''interfaces.yaml'']"
  using repo_path_contained [of "[''repo'']" "''pkg/idl/a/./public/interfaces.yaml''" "[IDL_ROOT]"
      "[''repo'', ''pkg'', ''idl'', ''a'', ''public'', ''interfaces.yaml'']"] by code_simp

text \<open>A path without parent segments stays in the folder it was allowed for: the file is one of
  the allowed roots followed by further segments.\<close>

theorem plain_paths_stay_in_allowed_root:
  assumes "absoluteRepoPath repoRoot p roots = Inr q" "''..'' \<notin> set (split_on (CHR ''/'') p)"
  shows "\<exists>r \<in> set roots. prefix (path_join repoRoot r) q"
proof -
  have q: "q = path_join repoRoot p" and "list_ex (\<lambda>r. startsWith p (r @ ''/'')) roots"
    using assms(1) unfolding absoluteRepoPath_def Let_def by (simp_all split: if_splits)
  then obtain r s where r: "r \<in> set roots" and p: "p = r @ CHR ''/'' # s"
    by (auto simp: list_ex_iff prefix_def)
  have segs: "split_on (CHR ''/'') p = split_on (CHR ''/'') r @ split_on (CHR ''/'') s"
    by (simp add: p split_on_join_slash)
  with assms(2) have "''..'' \<notin> set (split_on (CHR ''/'') r)" by simp
  then have "prefix (path_join repoRoot r) q"
    using assms(2) by (simp add: q path_join_def segs foldl_push_plain)
  with r show ?thesis by blast
qed

lemma plain_paths_stay_in_allowed_root_witness:
  "\<exists>r \<in> {IDL_ROOT}. prefix (path_join [''repo''] r) [''repo'', ''pkg'', ''idl'', ''a.idl'']"
proof -
  have a: "absoluteRepoPath [''repo''] ''pkg/idl/a.idl'' [IDL_ROOT] = Inr [''repo'', ''pkg'', ''idl'', ''a.idl'']"
    by code_simp
  have b: "''..'' \<notin> set (split_on (CHR ''/'') ''pkg/idl/a.idl'')" by code_simp
  show ?thesis using plain_paths_stay_in_allowed_root [OF a b] by simp
qed

text \<open>The allowed roots are compared with the path before its parent segments are resolved, so a
  path that starts in an allowed root and climbs out of it is accepted: it reaches any file of the
  repository.\<close>

theorem parent_segments_escape_allowed_root:
  "absoluteRepoPath repoRoot ''pkg/idl/../../deploy/secrets.env'' [IDL_ROOT]
     = Inr (repoRoot @ [''deploy'', ''secrets.env''])"
proof -
  have split: "split_on (CHR ''/'') ''pkg/idl/../../deploy/secrets.env''
      = [''pkg'', ''idl'', ''..'', ''..'', ''deploy'', ''secrets.env'']" by code_simp
  have join: "path_join repoRoot ''pkg/idl/../../deploy/secrets.env''
      = repoRoot @ [''deploy'', ''secrets.env'']"
    unfolding path_join_def split by (simp add: push_segment_def butlast_append)
  have "strip_common xs (xs @ ys) = ([], ys)" for xs ys :: path
    by (induction xs) (cases ys, simp_all)
  then have rel: "path_relative repoRoot (repoRoot @ [''deploy'', ''secrets.env'']) = ''deploy/secrets.env''"
    by (simp add: path_relative_def path_string_def)
  show ?thesis
    unfolding absoluteRepoPath_def normalizePath_id Let_def join rel
    by (simp add: isAbsolute_def IDL_ROOT_def)
qed

text \<open>A name that the module form accepts is in lower-case kebab form, and the service package
  made from it is a legal identifier: lower-case letters, digits and underscores, starting with a
  letter and ending in \<open>_service\<close>, and the same again when the package name is given as the
  module name.\<close>

theorem accepted_module_names:
  assumes "validateModuleName v = Inr n"
  shows "module_name_match n \<and> n = trim v
    \<and> (\<forall>c \<in> set (toServiceName n). is_kebab_char c \<or> c = CHR ''_'')
    \<and> is_lower (hd (toServiceName n)) \<and> endsWith (toServiceName n) ''_service''
    \<and> toServiceName (toServiceName n) = toServiceName n"
proof -
  have n: "module_name_match n" "n = trim v"
    using assms by (auto simp: validateModuleName_def Let_def split: if_splits)
  obtain c r where cr: "n = c # r" "is_lower c" using n(1) by (cases n) (auto simp: module_name_match_def)
  then have "hd (toServiceName n) = c"
    by (auto simp: toServiceName_def toPackageName_def replace_char_def Let_def is_lower_def)
  moreover have "endsWith (toServiceName n) ''_service''"
    unfolding toServiceName_def Let_def by (cases "endsWith (toPackageName n) ''_service''") (simp_all add: suffixI)
  ultimately show ?thesis
    using n cr(2) kebab_service_chars [OF n(1)] by (simp add: toServiceName_idem)
qed

lemma accepted_module_names_witness:
  "toServiceName ''action-planner'' = ''action_planner_service''
    \<and> endsWith (toServiceName ''action-planner'') ''_service''"
proof -
  have "validateModuleName '' action-planner '' = Inr ''action-planner''" by code_simp
  from accepted_module_names [OF this] show ?thesis by code_simp
qed

end
