(* ===== verification/Formats_Props.thy ===== *)
theory Formats_Props
  imports Formats Repo_Files_Props
begin

text \<open>
  Rendering a data format and reading it back gives the fields of the form; editing a proto file
  finds messages by a prefix of their name, with the consequences stated as properties.
\<close>

subsection \<open>Pieces of lines\<close>

lemma word_not_ws: "is_word_char c \<Longrightarrow> \<not> is_ws c"
  using alpha_not_ws digit_not_ws by (auto simp: is_word_char_def is_ws_def)

lemma proto_type_not_ws: "is_proto_type_char c \<Longrightarrow> \<not> is_ws c"
  using word_not_ws by (auto simp: is_proto_type_char_def is_ws_def)

lemma ws_not_proto_type: "is_ws c \<Longrightarrow> \<not> is_proto_type_char c"
  using proto_type_not_ws by blast

lemma identifier_facts:
  assumes "identifier_match n"
  shows "n \<noteq> []" "is_alpha (hd n) \<or> hd n = CHR ''_''" "\<forall>c \<in> set n. is_word_char c"
    "\<forall>c \<in> set n. \<not> is_ws c" "clean_line n"
proof -
  show n: "n \<noteq> []" and w: "\<forall>c \<in> set n. is_word_char c" using assms by (auto simp: identifier_match_def)
  show "is_alpha (hd n) \<or> hd n = CHR ''_''"
    using assms hd_in_set [OF n] by (auto simp: identifier_match_def is_word_char_def)
  show ws: "\<forall>c \<in> set n. \<not> is_ws c" using w word_not_ws by blast
  then show "clean_line n" by (auto simp: clean_line_def)
qed

lemma validated_name:
  "validateDataFieldName v = Inr n \<Longrightarrow> identifier_match n \<and> n = trim v"
  "validateDataFormatName v = Inr n \<Longrightarrow> identifier_match n \<and> n = trim v"
  by (auto simp: validateDataFieldName_def validateDataFormatName_def Let_def split: if_splits)

lemma takeWhile_stop: "\<forall>x \<in> set xs. p x \<Longrightarrow> \<not> p y \<Longrightarrow> takeWhile p (xs @ y # ys) = xs"
  and dropWhile_stop: "\<forall>x \<in> set xs. p x \<Longrightarrow> \<not> p y \<Longrightarrow> dropWhile p (xs @ y # ys) = y # ys"
  by (induction xs) simp_all

lemma eat_ident_append:
  assumes "xs \<noteq> []" "is_alpha (hd xs) \<or> hd xs = CHR ''_''" "\<forall>x \<in> set xs. p x" "\<not> p y"
  shows "eat_ident p (xs @ y # ys) = Some (xs, y # ys)"
  using assms by (cases xs) (simp_all add: eat_ident_def takeWhile_stop dropWhile_stop)

lemma dropWhile_ws_word: "xs \<noteq> [] \<Longrightarrow> \<not> is_ws (hd xs) \<Longrightarrow> dropWhile is_ws (xs @ ys) = xs @ ys"
  by (cases xs) simp_all

lemma nat_str_digits_append: "\<not> is_digit c \<Longrightarrow> takeWhile is_digit (nat_str n @ c # r) = nat_str n"
  using nat_str_digits [of n] by (intro takeWhile_stop) auto

lemma nat_str_word: "\<not> is_ws (hd (nat_str n @ r))"
  using nat_str_digits [of n] digit_not_ws by (cases "nat_str n") auto

definition proto_type :: "string \<Rightarrow> bool" where
  "proto_type ty \<longleftrightarrow> ty \<noteq> [] \<and> (is_alpha (hd ty) \<or> hd ty = CHR ''_'') \<and> (\<forall>c \<in> set ty. is_proto_type_char c)"

lemma eat_gap: "n \<noteq> [] \<Longrightarrow> \<not> is_ws (hd n) \<Longrightarrow> eat_word [] (SP # n @ r) = Some (n @ r)"
  by (cases n) (simp_all add: eat_word_def)

lemma proto_field_core_line:
  assumes ty: "proto_type ty" and n: "identifier_match n"
  shows "proto_field_core (ty @ SP # n @ '' = '' @ nat_str k @ '';'') = Some (ty, n, nat_str k)"
proof -
  note f = identifier_facts [OF n]
  have t: "ty \<noteq> []" "is_alpha (hd ty) \<or> hd ty = CHR ''_''" "\<forall>c \<in> set ty. is_proto_type_char c"
    using ty by (simp_all add: proto_type_def)
  have "\<not> is_proto_type_char SP" by (rule ws_not_proto_type) simp
  then have 1: "eat_ident is_proto_type_char (ty @ SP # n @ '' = '' @ nat_str k @ '';'')
      = Some (ty, SP # n @ '' = '' @ nat_str k @ '';'')" by (intro eat_ident_append t)
  have 2: "eat_word [] (SP # n @ '' = '' @ nat_str k @ '';'') = Some (n @ '' = '' @ nat_str k @ '';'')"
    using f(1,4) by (intro eat_gap) auto
  have "\<not> is_word_char SP" using word_not_ws [of SP] by auto
  then have 3: "eat_ident is_word_char (n @ '' = '' @ nat_str k @ '';'') = Some (n, '' = '' @ nat_str k @ '';'')"
    using eat_ident_append [OF f(1,2), of is_word_char SP] f(3) by simp
  have 4: "eat_char (CHR ''='') ('' = '' @ nat_str k @ '';'') = Some (SP # nat_str k @ '';'')"
    by (simp add: eat_char_def is_ws_def)
  have 5: "takeWhile is_digit (dropWhile is_ws (SP # nat_str k @ '';'')) = nat_str k"
    using nat_str_digits [of k] nat_str_word [of k "[]"]
    by (simp add: dropWhile_ws_word nat_str_digits_append is_digit_def)
  show ?thesis unfolding proto_field_core_def 1 Option.bind.simps prod.case 2 3 4 5 Let_def
    using nat_str_digits [of k] by simp
qed

lemma proto_field_line:
  assumes ty: "proto_type ty" and n: "identifier_match n"
  shows "proto_field_match (ty @ SP # n @ '' = '' @ nat_str k @ '';'') = Some (ty, n, nat_str k)"
proof (cases "eat_word ''repeated'' (ty @ SP # n @ '' = '' @ nat_str k @ '';'')")
  case None
  then show ?thesis by (simp only: proto_field_match_def Option.bind.simps option.case proto_field_core_line [OF assms])
next
  case (Some s)
  define line where "line = ty @ SP # n @ '' = '' @ nat_str k @ '';''"
  note f = identifier_facts [OF n]
  from Some obtain c r where line: "line = ''repeated'' @ c # r" "is_ws c" and s: "s = dropWhile is_ws (c # r)"
    unfolding eat_word_def line_def [symmetric] by (auto simp: prefix_def split: if_splits list.splits)
  have "takeWhile (\<lambda>x. \<not> is_ws x) line = ty"
    unfolding line_def by (rule takeWhile_stop) (use ty proto_type_not_ws in \<open>auto simp: proto_type_def\<close>)
  moreover have "takeWhile (\<lambda>x. \<not> is_ws x) line = ''repeated''"
    unfolding line(1) by (rule takeWhile_stop) (use line(2) in \<open>auto simp: is_ws_def\<close>)
  ultimately have "ty = ''repeated''" by simp
  then have cr: "c # r = SP # n @ '' = '' @ nat_str k @ '';''" using line(1) by (auto simp: line_def)
  have "s = n @ '' = '' @ nat_str k @ '';''"
    using f(1,4) dropWhile_ws_word [of n] unfolding s cr by simp
  moreover have "proto_field_core (n @ '' = '' @ nat_str k @ '';'') = None"
  proof -
    have "\<not> is_proto_type_char SP" by (rule ws_not_proto_type) simp
    then have 1: "eat_ident is_proto_type_char (n @ '' = '' @ nat_str k @ '';'')
        = Some (n, '' = '' @ nat_str k @ '';'')"
      using eat_ident_append [OF f(1,2), of is_proto_type_char SP] f(3) by (simp add: is_proto_type_char_def)
    have 2: "eat_word [] ('' = '' @ nat_str k @ '';'') = Some (''= '' @ nat_str k @ '';'')"
      by (simp add: eat_word_def is_ws_def)
    have 3: "eat_ident is_word_char (''= '' @ nat_str k @ '';'') = None"
      by (simp add: eat_ident_def is_alpha_def is_upper_def is_lower_def)
    show ?thesis unfolding proto_field_core_def 1 Option.bind.simps prod.case 2 3 by simp
  qed
  ultimately show ?thesis unfolding proto_field_match_def Some Option.bind.simps
    by (simp only: option.case proto_field_core_line [OF assms])
qed

definition input_ok :: "(string \<Rightarrow> bool) \<Rightarrow> dataFormatFieldInput \<Rightarrow> bool" where
  "input_ok p f \<longleftrightarrow> p (trim (n_type f)) \<and> identifier_match (trim (n_name f))"

definition expected_fields :: "dataFormatFieldInput list \<Rightarrow> DataFieldSummary list" where
  "expected_fields flds = map (\<lambda>(i, f). \<lparr>f_name = trim (n_name f), f_number = nat_str (i + 1),
     f_type = trim (n_type f)\<rparr>) (enumerate_from 0 flds)"

definition proto_field_text :: "nat \<Rightarrow> dataFormatFieldInput \<Rightarrow> string" where
  "proto_field_text i f = trim (n_type f) @ SP # trim (n_name f) @ '' = '' @ nat_str (i + 1) @ '';''"

definition proto_line_text :: "nat \<Rightarrow> dataFormatFieldInput \<Rightarrow> string" where
  "proto_line_text i f = ''  '' @ proto_field_text i f"

definition message_head :: "string \<Rightarrow> string" where
  "message_head name = ''message '' @ name @ '' {''"

lemma rmap_Inr: "(\<And>x. x \<in> set xs \<Longrightarrow> f x = Inr (g x)) \<Longrightarrow> rmap f xs = Inr (map g xs)"
  by (induction xs) auto

lemma rmap_InrD: "rmap f xs = Inr ys \<Longrightarrow> \<forall>x \<in> set xs. \<exists>y. f x = Inr y"
  by (induction xs arbitrary: ys) (auto simp: rbind_def split: sum.splits)

lemma valid_name_iff: "identifier_match (trim v) \<Longrightarrow> validateDataFieldName v = Inr (trim v)"
  by (simp add: validateDataFieldName_def)

lemma enumerate_from_Nil [simp]: "enumerate_from k [] = []"
  and enumerate_from_Cons [simp]: "enumerate_from k (x # xs) = (k, x) # enumerate_from (Suc k) xs"
  by (simp_all add: enumerate_from_def upt_conv_Cons del: upt_Suc)

lemma set_enumerate_from: "(i, x) \<in> set (enumerate_from k xs) \<Longrightarrow> x \<in> set xs"
  by (auto simp: enumerate_from_def dest: set_zip_rightD)

lemma map_snd_enumerate [simp]: "map (\<lambda>(i, x). f x) (enumerate_from k xs) = map f xs"
  by (induction xs arbitrary: k) simp_all

lemma renderProtoMessage_text:
  assumes "\<forall>f \<in> set flds. input_ok proto_type f"
  shows "renderProtoMessage name flds = Inr (join_lines ((message_head name)
    # map (\<lambda>(i, f). proto_line_text i f) (enumerate_from 0 flds) @ [''}'']))"
proof -
  have "rmap (\<lambda>(index, field). rbind (validateDataFieldName (n_name field)) (\<lambda>n.
              Inr (''  '' @ trim (n_type field) @ '' '' @ n @ '' = '' @ nat_str (index + 1) @ '';'')))
            (enumerate_from 0 flds)
      = Inr (map (\<lambda>(i, f). proto_line_text i f) (enumerate_from 0 flds))"
  proof (rule rmap_Inr)
    fix x assume "x \<in> set (enumerate_from 0 flds)"
    moreover obtain i f where x: "x = (i, f)" by (cases x)
    ultimately have f: "f \<in> set flds" using set_enumerate_from [of i f 0 flds] by simp
    have "validateDataFieldName (n_name f) = Inr (trim (n_name f))"
      using assms f by (simp add: input_ok_def valid_name_iff)
    then show "(case x of (index, field) \<Rightarrow> rbind (validateDataFieldName (n_name field)) (\<lambda>n.
              Inr (''  '' @ trim (n_type field) @ '' '' @ n @ '' = '' @ nat_str (index + 1) @ '';'')))
      = Inr (case x of (i, f) \<Rightarrow> proto_line_text i f)"
      by (simp add: x proto_line_text_def proto_field_text_def)
  qed
  then show ?thesis unfolding renderProtoMessage_def message_head_def by (simp only: rbind_simps)
qed

lemma no_braces: "CHR ''{'' \<notin> set l \<Longrightarrow> CHR ''}'' \<notin> set l \<Longrightarrow> braces l = 0"
  by (simp add: braces_def count_notin)

lemma proto_chars_no_brace: "is_proto_type_char c \<Longrightarrow> c \<noteq> CHR ''{'' \<and> c \<noteq> CHR ''}''"
  by (auto simp: is_proto_type_char_def is_word_char_def is_alpha_def is_upper_def is_lower_def is_digit_def)

lemma digit_proto_char: "is_digit c \<Longrightarrow> is_proto_type_char c"
  and word_proto_char: "is_word_char c \<Longrightarrow> is_proto_type_char c"
  by (simp_all add: is_proto_type_char_def is_word_char_def)

lemma proto_field_text_facts:
  assumes "input_ok proto_type f"
  shows "trim (proto_line_text i f) = proto_field_text i f"
    "proto_field_text i f \<noteq> []" "\<not> startsWith (proto_field_text i f) ''//''"
    "braces (proto_field_text i f) = 0" "clean_line (proto_line_text i f)"
proof -
  define ty n where "ty = trim (n_type f)" and "n = trim (n_name f)"
  have ty: "proto_type ty" and n: "identifier_match n" using assms by (simp_all add: input_ok_def ty_def n_def)
  have t: "proto_field_text i f = ty @ SP # n @ '' = '' @ nat_str (i + 1) @ '';''"
    by (simp add: proto_field_text_def ty_def n_def)
  obtain c r where cr: "ty = c # r" "is_alpha c \<or> c = CHR ''_''" using ty by (cases ty) (auto simp: proto_type_def)
  have c: "\<not> is_ws c" "c \<noteq> CHR ''/''" using cr(2) alpha_not_ws
    by (auto simp: is_alpha_def is_upper_def is_lower_def is_ws_def)
  show "proto_field_text i f \<noteq> []" "\<not> startsWith (proto_field_text i f) ''//''"
    using c by (simp_all add: t cr(1))
  have "trimStart (proto_line_text i f) = proto_field_text i f"
    using c by (simp add: trimStart_def t cr(1) proto_line_text_def)
  moreover have "trimEnd (proto_field_text i f) = proto_field_text i f"
    unfolding t by (rule trimEnd_ident) (simp add: is_ws_def)
  ultimately show "trim (proto_line_text i f) = proto_field_text i f" by (simp add: trim_def)
  have set: "x \<in> set ty \<or> x \<in> set n \<or> x \<in> set (nat_str (i + 1)) \<Longrightarrow> is_proto_type_char x" for x
    using ty identifier_facts(3) [OF n] nat_str_digits [of "i + 1"]
    by (auto simp: proto_type_def intro: digit_proto_char word_proto_char)
  have "x \<noteq> CHR ''{'' \<and> x \<noteq> CHR ''}''" if "x \<in> set (proto_field_text i f)" for x
    using that set [of x] proto_chars_no_brace [of x] by (auto simp: t)
  then show "braces (proto_field_text i f) = 0" by (intro no_braces) blast+
  have "\<not> is_ws x \<or> x = SP" if "x \<in> set (proto_field_text i f)" for x
    using that set [of x] proto_type_not_ws [of x] by (auto simp: t is_ws_def)
  then have "LF \<notin> set (proto_field_text i f)" "CR \<notin> set (proto_field_text i f)" by fastforce+
  then show "clean_line (proto_line_text i f)" by (simp add: clean_line_def proto_line_text_def)
qed

lemma proto_line_field:
  assumes "input_ok proto_type f" "g_current st = Some c" "g_braceDepth st = 1"
  shows "proto_line p st (proto_line_text i f) = st\<lparr>
    g_current := Some (c\<lparr>m_fields := m_fields c @ [\<lparr>f_name = trim (n_name f),
      f_number = nat_str (i + 1), f_type = trim (n_type f)\<rparr>]\<rparr>),
    g_braceDepth := 1, g_lines := g_lines st @ [proto_line_text i f]\<rparr>"
proof -
  note t = proto_field_text_facts [OF assms(1), of i]
  have "proto_field_match (proto_field_text i f) = Some (trim (n_type f), trim (n_name f), nat_str (i + 1))"
    using assms(1) unfolding proto_field_text_def input_ok_def by (intro proto_field_line) simp_all
  then show ?thesis
    unfolding proto_line_def t(1) Let_def assms(2) updateProtoMessage_def
    using t(2,3,4) assms(3) by simp
qed

lemma proto_lines_fields:
  assumes "\<forall>f \<in> set flds. input_ok proto_type f" "g_current st = Some c" "g_braceDepth st = 1"
  shows "foldl (proto_line p) st (map (\<lambda>(i, f). proto_line_text i f) (enumerate_from k flds))
    = st\<lparr>g_current := Some (c\<lparr>m_fields := m_fields c @ map (\<lambda>(i, f). \<lparr>f_name = trim (n_name f),
            f_number = nat_str (i + 1), f_type = trim (n_type f)\<rparr>) (enumerate_from k flds)\<rparr>),
         g_braceDepth := 1,
         g_lines := g_lines st @ map (\<lambda>(i, f). proto_line_text i f) (enumerate_from k flds)\<rparr>"
  using assms
proof (induction flds arbitrary: k st c)
  case Nil
  then show ?case by simp
next
  case (Cons f flds)
  then show ?case by (simp add: proto_line_field)
qed

lemma message_line:
  assumes "identifier_match name"
  shows "proto_message_match (message_head name) = Some name"
proof -
  note f = identifier_facts [OF assms]
  have 1: "eat_word ''message'' (message_head name) = Some (name @ '' {'')"
    using f(1,4) dropWhile_ws_word [of name "'' {''"] by (auto simp: eat_word_def message_head_def)
  have "\<not> is_word_char SP" using word_not_ws [of SP] by auto
  then have 2: "eat_ident is_word_char (name @ '' {'') = Some (name, '' {'')"
    using eat_ident_append [OF f(1,2), of is_word_char SP] f(3) by simp
  have 3: "eat_char (CHR ''{'') '' {'' = Some []" by (simp add: eat_char_def is_ws_def)
  show ?thesis unfolding proto_message_match_def 1 Option.bind.simps prod.case 2 3 by simp
qed

lemma message_head_facts:
  assumes "identifier_match name"
  shows "trim (message_head name) = message_head name" "clean_line (message_head name)"
    "message_head name \<noteq> []" "\<not> startsWith (message_head name) ''//''"
proof -
  have "trimEnd (message_head name) = message_head name"
    unfolding message_head_def by (rule trimEnd_ident) (simp add: is_ws_def)
  moreover have "trimStart (message_head name) = message_head name"
    by (simp add: trimStart_def message_head_def is_ws_def)
  ultimately show "trim (message_head name) = message_head name" by (simp add: trim_def)
  show "clean_line (message_head name)"
    using identifier_facts(5) [OF assms] by (simp add: message_head_def)
  show "message_head name \<noteq> []" "\<not> startsWith (message_head name) ''//''"
    by (simp_all add: message_head_def)
qed

text \<open>A proto message that the form renders, with types of one word without a label, is read back as exactly one message of
  that name, with the form's fields in order, numbered from one, and with the rendered text as its definition. A label is
  lost: see \<open>repeated_label_lost\<close>.\<close>

theorem proto_message_roundtrip:
  assumes name: "identifier_match name" and flds: "\<forall>f \<in> set flds. input_ok proto_type f"
    and d: "renderProtoMessage name flds = Inr d"
  shows "parseProtoFormats (d @ nl) p = [\<lparr>m_definition = d, m_fields = expected_fields flds,
    m_id = p @ '':proto:'' @ name, m_kind = Proto, m_name = name, m_path = p, m_source = ''message''\<rparr>]"
proof -
  define fs where "fs = map (\<lambda>(i, f). proto_line_text i f) (enumerate_from 0 flds)"
  define h where "h = message_head name"
  note hf = message_head_facts [OF name, folded h_def]
  have dt: "d = join_lines (h # fs @ [''}''])"
    using d renderProtoMessage_text [OF flds, of name] by (simp add: fs_def h_def)
  have cl: "clean_lines (h # fs @ [''}''])"
    using proto_field_text_facts(5) flds hf(2)
    by (auto simp: fs_def clean_lines_def dest!: set_enumerate_from)
  have "split_lines (d @ nl) = (h # fs @ [''}'']) @ [[]]"
  proof -
    have "d @ nl = join_lines ((h # fs @ [''}'']) @ [[]])"
      by (subst join_append) (simp_all add: dt)
    then show ?thesis using split_join_lines [of "(h # fs @ [''}'']) @ [[]]"] cl by simp
  qed
  moreover
  define c where "c = \<lparr>m_definition = h, m_fields = [], m_id = p @ '':proto:'' @ name, m_kind = Proto,
    m_name = name, m_path = p, m_source = ''message''\<rparr>"
  have "proto_line p proto_start h = \<lparr>g_items = [], g_current = Some c, g_braceDepth = 1, g_lines = [h]\<rparr>"
    using message_line [OF name, folded h_def] hf
    by (simp add: proto_line_def startProtoFormat_def proto_start_def c_def)
  moreover have "proto_line p st ''}'' = st\<lparr>g_items := g_items st @ [with_definition (g_lines st @ [''}'']) x],
      g_current := None, g_braceDepth := 0, g_lines := []\<rparr>"
    if "g_current st = Some x" "g_braceDepth st = 1" for st x
  proof -
    have 1: "trim ''}'' = ''}''" "proto_field_match ''}'' = None" "braces ''}'' = -1" by code_simp+
    show ?thesis unfolding proto_line_def 1 Let_def that updateProtoMessage_def by simp
  qed
  moreover have "proto_line p st [] = st" if "g_current st = None" for st
    using that by (simp add: proto_line_def)
  moreover have "trimEnd d = d"
  proof (rule trimEnd_ident)
    have "d = join_lines (h # fs) @ nl @ ''}''" using join_append [of "h # fs" "[''}'']" nl] by (simp add: dt)
    then show "d = [] \<or> \<not> is_ws (last d)" by (simp add: is_ws_def nl_def)
  qed
  moreover have "foldl (proto_line p) \<lparr>g_items = [], g_current = Some c, g_braceDepth = 1, g_lines = [h]\<rparr> fs
      = \<lparr>g_items = [], g_current = Some (c\<lparr>m_fields := expected_fields flds\<rparr>), g_braceDepth = 1,
         g_lines = h # fs\<rparr>"
  proof -
    have "m_fields c = []" by (simp add: c_def)
    then show ?thesis unfolding fs_def
      by (subst proto_lines_fields [OF flds, of _ c]) (simp_all add: expected_fields_def)
  qed
  ultimately show ?thesis
    by (simp add: parseProtoFormats_def proto_end_def with_definition_def dt)
      (simp add: c_def)
qed

definition sample_fields :: "dataFormatFieldInput list" where
  "sample_fields = [\<lparr>n_name = ''x '', n_type = ''double''\<rparr>, \<lparr>n_name = ''stamp'', n_type = ''common.Time''\<rparr>]"

lemma proto_message_roundtrip_witness:
  "parseProtoFormats (''message Pose {'' @ nl @ ''  double x = 1;'' @ nl @ ''  common.Time stamp = 2;''
      @ nl @ ''}'' @ nl) ''a.proto''
    = [\<lparr>m_definition = ''message Pose {'' @ nl @ ''  double x = 1;'' @ nl
          @ ''  common.Time stamp = 2;'' @ nl @ ''}'',
        m_fields = [\<lparr>f_name = ''x'', f_number = ''1'', f_type = ''double''\<rparr>,
          \<lparr>f_name = ''stamp'', f_number = ''2'', f_type = ''common.Time''\<rparr>],
        m_id = ''a.proto:proto:Pose'', m_kind = Proto, m_name = ''Pose'', m_path = ''a.proto'',
        m_source = ''message''\<rparr>]"
proof -
  define d where "d = ''message Pose {'' @ nl @ ''  double x = 1;'' @ nl @ ''  common.Time stamp = 2;''
    @ nl @ ''}''"
  have n: "identifier_match ''Pose''" and f: "\<forall>f \<in> set sample_fields. input_ok proto_type f"
    by code_simp+
  have r: "renderProtoMessage ''Pose'' sample_fields = Inr d" unfolding d_def by code_simp
  have e: "expected_fields sample_fields = [\<lparr>f_name = ''x'', f_number = ''1'', f_type = ''double''\<rparr>,
          \<lparr>f_name = ''stamp'', f_number = ''2'', f_type = ''common.Time''\<rparr>]" by code_simp
  show ?thesis using proto_message_roundtrip [OF n f r, of "''a.proto''"] unfolding e d_def by simp
qed

subsection \<open>ROS fields\<close>

definition plain_token :: "string \<Rightarrow> bool" where
  "plain_token ty \<longleftrightarrow> ty \<noteq> [] \<and> (\<forall>c \<in> set ty. \<not> is_ws c)"

definition ros_type :: "string \<Rightarrow> bool" where
  "ros_type ty \<longleftrightarrow> plain_token ty \<and> CHR ''#'' \<notin> set ty \<and> \<not> startsWith ty ''---''
     \<and> \<not> isRos2ServiceTypeReference ty"

definition dds_type :: "string \<Rightarrow> bool" where
  "dds_type ty \<longleftrightarrow> plain_token ty \<and> CHR ''/'' \<notin> set ty
     \<and> ty \<notin> {''struct'', ''interface'', ''module''}"

definition spaced :: "dataFormatFieldInput \<Rightarrow> string" where
  "spaced f = trim (n_type f) @ SP # trim (n_name f)"

lemma split_runs_word: "\<forall>c \<in> set w. \<not> p c \<Longrightarrow> split_runs p w = [w]"
  by (induction w) auto

lemma split_runs_two:
  assumes "\<forall>c \<in> set a. \<not> p c" "p d" "b \<noteq> []" "\<forall>c \<in> set b. \<not> p c"
  shows "split_runs p (a @ d # b) = [a, b]"
  using assms(1)
proof (induction a)
  case Nil
  obtain x r where "b = x # r" "\<not> p x" using assms(3,4) by (cases b) auto
  then show ?case using assms(2) split_runs_word [OF assms(4)] by simp
qed auto

lemma spaced_facts:
  assumes "plain_token (trim (n_type f))" "identifier_match (trim (n_name f))"
  shows "trim (spaced f) = spaced f" "spaced f \<noteq> []" "clean_line (spaced f)"
    "split_runs is_ws (spaced f) = [trim (n_type f), trim (n_name f)]"
proof -
  define ty n where "ty = trim (n_type f)" and "n = trim (n_name f)"
  have s: "spaced f = ty @ SP # n" by (simp add: spaced_def ty_def n_def)
  have ty: "ty \<noteq> []" "\<forall>c \<in> set ty. \<not> is_ws c" using assms(1) by (simp_all add: plain_token_def ty_def)
  have n: "n \<noteq> []" "\<forall>c \<in> set n. \<not> is_ws c" using identifier_facts(1,4) [OF assms(2)] by (simp_all add: n_def)
  show "spaced f \<noteq> []" by (simp add: s)
  have "trimStart (spaced f) = spaced f" using ty by (cases ty) (simp_all add: s trimStart_def)
  moreover have "trimEnd (spaced f) = spaced f" using n by (intro trimEnd_ident) (simp add: s)
  ultimately show "trim (spaced f) = spaced f" by (simp add: trim_def)
  have "LF \<notin> set (spaced f)" "CR \<notin> set (spaced f)" using ty n by (auto simp: s)
  then show "clean_line (spaced f)" by (simp add: clean_line_def)
  show "split_runs is_ws (spaced f) = [trim (n_type f), trim (n_name f)]"
    unfolding s ty_def [symmetric] n_def [symmetric] using split_runs_two [OF ty(2) _ n] by simp
qed

lemma strip_hash_ident: "CHR ''#'' \<notin> set l \<Longrightarrow> strip_hash l = l"
  unfolding strip_hash_def by (induction l) auto

lemma strip_slashes_ident: "CHR ''/'' \<notin> set l \<Longrightarrow> strip_slashes l = l"
  by (induction l) auto

lemma renderRosFields_text:
  assumes "\<forall>f \<in> set flds. input_ok ros_type f"
  shows "renderRosFields flds = Inr (join_lines (map spaced flds))"
proof -
  have "rmap (\<lambda>field.
              let type = trim (n_type field)
              in if isRos2ServiceTypeReference type
                 then Inl (''ROS2 fields cannot use srv type '' @ quoted type @ ''.'')
                 else rbind (validateDataFieldName (n_name field)) (\<lambda>n. Inr (type @ '' '' @ n)))
            flds = Inr (map spaced flds)"
    using assms by (intro rmap_Inr) (simp add: input_ok_def ros_type_def valid_name_iff spaced_def)
  then show ?thesis unfolding renderRosFields_def by (simp only: rbind_simps)
qed

lemma enumerate_map: "enumerate_from k (map g xs) = map (\<lambda>(i, x). (i, g x)) (enumerate_from k xs)"
  by (induction xs arbitrary: k) simp_all

text \<open>The pattern that reads a field skips the label \<open>repeated\<close>, which the form offers: a list comes back as a single value.\<close>

theorem repeated_label_lost:
  "case renderProtoMessage ''M'' [\<lparr>n_name = ''xs'', n_type = ''repeated double''\<rparr>] of
     Inl e \<Rightarrow> False
   | Inr d \<Rightarrow> (case parseProtoFormats (d @ nl) [] of [m] \<Rightarrow> map f_type (m_fields m) = [''double''] | _ \<Rightarrow> False)"
  by code_simp

text \<open>The file text of a message definition, as the create handler writes it: its lines are the
  rendered ones and a last empty one, whatever the trimming.\<close>

lemma file_lines:
  assumes "clean_lines ls" "ls \<noteq> []" "last ls \<noteq> []" "\<not> is_ws (last (last ls))"
  shows "split_lines (trimEnd (join_lines ls) @ nl) = ls @ [[]]"
proof -
  obtain as l where ls: "ls = as @ [l]" using assms(2) by (cases ls rule: rev_cases) auto
  have "join_lines ls \<noteq> [] \<and> last (join_lines ls) = last l"
    using assms(3) ls by (cases "as = []") (simp_all add: join_append)
  then have "trimEnd (join_lines ls) = join_lines ls" using assms(4) ls by (intro trimEnd_ident) simp
  then have "trimEnd (join_lines ls) @ nl = join_lines (ls @ [[]])"
    using assms(2) by (simp add: join_append)
  then show ?thesis using split_join_lines [of "ls @ [[]]"] assms(1) by simp
qed

text \<open>C25. A ROS 2 message that the form renders and the handler stores is read back with the form's
  fields in order, numbered from one.\<close>

theorem ros_fields_roundtrip:
  assumes flds: "\<forall>f \<in> set flds. input_ok ros_type f" and d: "renderRosFields flds = Inr d"
  shows "parseRosFields (trimEnd d @ nl) = expected_fields flds"
proof (cases "flds = []")
  case True
  then have "d = []" using d by (simp add: renderRosFields_def)
  with True show ?thesis by (simp add: parseRosFields_def expected_fields_def number_from_one_def
        strip_hash_def nl_def Let_def)
next
  case False
  have ok: "plain_token (trim (n_type f))" "identifier_match (trim (n_name f))" if "f \<in> set flds" for f
    using flds that by (simp_all add: input_ok_def ros_type_def)
  have last: "last (map spaced flds) \<noteq> []" "\<not> is_ws (last (last (map spaced flds)))"
  proof -
    have "last flds \<in> set flds" using False by simp
    note f = identifier_facts [OF ok(2) [OF this]]
    show "last (map spaced flds) \<noteq> []" "\<not> is_ws (last (last (map spaced flds)))"
      using False f(1,4) by (simp_all add: last_map spaced_def)
  qed
  have "clean_lines (map spaced flds)" using spaced_facts(3) ok by (auto simp: clean_lines_def)
  then have lines: "split_lines (trimEnd d @ nl) = map spaced flds @ [[]]"
    using file_lines [OF _ _ last] False d renderRosFields_text [OF flds] by simp
  have strip: "trim (strip_hash (spaced f)) = spaced f" if "f \<in> set flds" for f
  proof -
    have "CHR ''#'' \<notin> set (trim (n_name f))"
      using identifier_facts(3) [OF ok(2) [OF that]]
      by (auto simp: is_word_char_def is_alpha_def is_upper_def is_lower_def is_digit_def)
    then have "CHR ''#'' \<notin> set (spaced f)" using flds that by (auto simp: spaced_def input_ok_def ros_type_def)
    then show ?thesis using spaced_facts(1) [OF ok [OF that]] by (simp add: strip_hash_ident)
  qed
  have dash: "\<not> startsWith (spaced f) ''---''" if "f \<in> set flds" for f
  proof
    assume a: "startsWith (spaced f) ''---''"
    then have "startsWith (trim (n_type f)) ''---''"
      unfolding spaced_def by (cases "trim (n_type f)" rule: list.exhaust; cases "tl (trim (n_type f))";
        cases "tl (tl (trim (n_type f)))") (auto simp: prefix_def)
    then show False using flds that by (auto simp: input_ok_def ros_type_def)
  qed
  have "map (\<lambda>line. trim (strip_hash line)) (map spaced flds) = map spaced flds" by (simp add: strip)
  then have "parseRosFields (trimEnd d @ nl) = number_from_one ros_field (map spaced flds)"
    using dash spaced_facts(2) [OF ok] unfolding parseRosFields_def lines Let_def
    by (simp add: strip_hash_def filter_id_conv del: map_map)
  also have "\<dots> = expected_fields flds"
    unfolding number_from_one_def expected_fields_def enumerate_map
    using spaced_facts(4) [OF ok] identifier_facts(1) [OF ok(2)]
    by (auto simp: ros_field_def or_else_def Let_def dest!: set_enumerate_from)
  finally show ?thesis .
qed

lemma ros_fields_roundtrip_witness:
  "parseRosFields (''float64 x'' @ nl @ ''std_msgs/Header head'' @ nl)
    = [\<lparr>f_name = ''x'', f_number = ''1'', f_type = ''float64''\<rparr>,
       \<lparr>f_name = ''head'', f_number = ''2'', f_type = ''std_msgs/Header''\<rparr>]"
proof -
  define flds where "flds = [\<lparr>n_name = ''x'', n_type = ''float64''\<rparr>,
    \<lparr>n_name = ''head'', n_type = '' std_msgs/Header''\<rparr>]"
  have f: "\<forall>f \<in> set flds. input_ok ros_type f"
    and r: "renderRosFields flds = Inr (''float64 x'' @ nl @ ''std_msgs/Header head'')"
    and e: "expected_fields flds = [\<lparr>f_name = ''x'', f_number = ''1'', f_type = ''float64''\<rparr>,
       \<lparr>f_name = ''head'', f_number = ''2'', f_type = ''std_msgs/Header''\<rparr>]"
    and t: "trimEnd (''float64 x'' @ nl @ ''std_msgs/Header head'') = ''float64 x'' @ nl @ ''std_msgs/Header head''"
    unfolding flds_def by code_simp+
  show ?thesis using ros_fields_roundtrip [OF f r] unfolding e t by simp
qed

subsection \<open>DDS fields\<close>

definition dds_line :: "dataFormatFieldInput \<Rightarrow> string" where
  "dds_line f = spaced f @ '';''"

definition struct_head :: "string \<Rightarrow> string" where
  "struct_head name = ''struct '' @ name @ '' {''"

lemma renderDdsIdlStruct_text:
  assumes "\<forall>f \<in> set flds. input_ok dds_type f"
  shows "renderDdsIdlStruct name flds
    = Inr (join_lines (struct_head name # map (\<lambda>f. ''  '' @ dds_line f) flds @ [''};'']))"
proof -
  have "rmap (\<lambda>field. rbind (validateDataFieldName (n_name field)) (\<lambda>n.
              Inr (''  '' @ trim (n_type field) @ '' '' @ n @ '';''))) flds
      = Inr (map (\<lambda>f. ''  '' @ dds_line f) flds)"
    using assms by (intro rmap_Inr) (simp add: input_ok_def valid_name_iff dds_line_def spaced_def)
  then show ?thesis unfolding renderDdsIdlStruct_def struct_head_def by (simp only: rbind_simps)
qed

lemma dds_line_facts:
  assumes "input_ok dds_type f"
  shows "trim (strip_slashes (''  '' @ dds_line f)) = dds_line f" "dds_line f \<noteq> []"
    "\<not> startsWith (dds_line f) ''struct ''" "\<not> startsWith (dds_line f) ''interface ''"
    "\<not> startsWith (dds_line f) ''module ''" "dds_line f \<notin> {''{'', ''};'', ''}''}"
    "endsWith (dds_line f) '';''" "butlast (dds_line f) = spaced f" "clean_line (''  '' @ dds_line f)"
proof -
  have ty: "dds_type (trim (n_type f))" and n: "identifier_match (trim (n_name f))"
    using assms by (simp_all add: input_ok_def)
  have pl: "plain_token (trim (n_type f))" using ty by (simp add: dds_type_def)
  note sp = spaced_facts [OF pl n]
  have word: "takeWhile (\<lambda>c. \<not> is_ws c) (dds_line f) = trim (n_type f)"
    using pl unfolding dds_line_def spaced_def append.assoc append_Cons
    by (intro takeWhile_stop) (simp_all add: plain_token_def)
  have first: "w = trim (n_type f)" if "startsWith (dds_line f) (w @ [SP])" "\<forall>c \<in> set w. \<not> is_ws c" for w
  proof -
    from that(1) obtain r where "dds_line f = w @ SP # r" by (auto simp: prefix_def)
    then show ?thesis using word takeWhile_stop [OF that(2), of SP r] by simp
  qed
  show "\<not> startsWith (dds_line f) ''struct ''" "\<not> startsWith (dds_line f) ''interface ''"
    "\<not> startsWith (dds_line f) ''module ''"
    using first [of "''struct''"] first [of "''interface''"] first [of "''module''"] ty
    by (auto simp: dds_type_def is_ws_def)
  show "dds_line f \<noteq> []" "butlast (dds_line f) = spaced f" by (simp_all add: dds_line_def butlast_append)
  show "endsWith (dds_line f) '';''" by (simp add: dds_line_def suffixI)
  have "SP \<in> set (dds_line f)" by (simp add: dds_line_def spaced_def)
  then show "dds_line f \<notin> {''{'', ''};'', ''}''}" by auto
  show "clean_line (''  '' @ dds_line f)" using sp(3) by (simp add: dds_line_def)
  have slash: "CHR ''/'' \<notin> set (dds_line f)"
    using ty identifier_facts(3) [OF n]
    by (auto simp: dds_line_def spaced_def dds_type_def is_word_char_def is_alpha_def is_upper_def
        is_lower_def is_digit_def)
  have "\<not> is_ws (hd (dds_line f))"
    using pl by (cases "trim (n_type f)") (simp_all add: dds_line_def spaced_def plain_token_def)
  then have "trimStart (''  '' @ dds_line f) = dds_line f"
    by (cases "dds_line f") (simp_all add: trimStart_def dds_line_def)
  moreover have "trimEnd (dds_line f) = dds_line f"
    by (rule trimEnd_ident) (simp add: dds_line_def is_ws_def)
  ultimately show "trim (strip_slashes (''  '' @ dds_line f)) = dds_line f"
    using slash by (simp add: strip_slashes_ident trim_def)
qed

definition dds_kept :: "string \<Rightarrow> bool" where
  "dds_kept l \<longleftrightarrow> l \<noteq> [] \<and> \<not> startsWith l ''struct '' \<and> \<not> startsWith l ''interface ''
     \<and> \<not> startsWith l ''module '' \<and> l \<notin> {''{'', ''};'', ''}''}"

lemma parse_dds_kept:
  "parseDdsIdlFields t = filter (\<lambda>field. f_type field \<noteq> [] \<and> f_name field \<noteq> [])
     (number_from_one dds_field (map (\<lambda>line. if endsWith line '';'' then butlast line else line)
       (filter dds_kept (map (\<lambda>line. trim (strip_slashes line)) (split_lines t)))))"
  unfolding parseDdsIdlFields_def Let_def filter_filter dds_kept_def
  by (intro arg_cong [where f = "filter (\<lambda>field. f_type field \<noteq> [] \<and> f_name field \<noteq> [])"]
      arg_cong [where f = "number_from_one dds_field"] arg_cong2 [where f = map] refl filter_cong)

text \<open>A DDS struct that the form renders, with types of one word, and the handler stores is read back with the form's
  fields in order, numbered from one.\<close>

theorem dds_fields_roundtrip:
  assumes name: "identifier_match name" and flds: "\<forall>f \<in> set flds. input_ok dds_type f"
    and d: "renderDdsIdlStruct name flds = Inr d"
  shows "parseDdsIdlFields (trimEnd d @ nl) = expected_fields flds"
proof -
  define raw where "raw = map (\<lambda>f. ''  '' @ dds_line f) flds"
  define h where "h = struct_head name"
  have dt: "d = join_lines (h # raw @ [''};''])"
    using d renderDdsIdlStruct_text [OF flds, of name] by (simp add: raw_def h_def)
  have hc: "clean_line h" using identifier_facts(5) [OF name] by (simp add: h_def struct_head_def)
  have "clean_lines raw" using dds_line_facts(9) flds by (auto simp: raw_def clean_lines_def)
  then have lines: "split_lines (trimEnd d @ nl) = h # raw @ [''};'', []]"
    using file_lines [of "h # raw @ [''};'']"] hc by (simp add: dt is_ws_def)
  have th_struct: "startsWith (trim (strip_slashes h)) ''struct ''"
  proof -
    have "CHR ''/'' \<notin> set h" using identifier_facts(3) [OF name]
      by (auto simp: h_def struct_head_def is_word_char_def is_alpha_def is_upper_def is_lower_def is_digit_def)
    moreover have "trim h = h"
      by (simp add: trim_def trimStart_def h_def struct_head_def is_ws_def trimEnd_ident)
    ultimately show ?thesis by (simp add: strip_slashes_ident h_def struct_head_def)
  qed
  have close: "trim (strip_slashes ''};'') = ''};''" "trim (strip_slashes []) = []" by code_simp+
  define th where "th = trim (strip_slashes h)"
  have cleaned: "map (\<lambda>line. trim (strip_slashes line)) (h # raw @ [''};'', []])
      = th # map dds_line flds @ [''};'', []]"
    using dds_line_facts(1) flds by (simp add: raw_def close th_def del: strip_slashes.simps)
  have kept: "filter dds_kept (th # map dds_line flds @ [''};'', []]) = map dds_line flds"
  proof -
    have "\<not> dds_kept th" "\<not> dds_kept ''};''" "\<not> dds_kept []"
      using th_struct by (simp_all add: dds_kept_def th_def)
    moreover have "dds_kept (dds_line f)" if "f \<in> set flds" for f
      using dds_line_facts(2-6) flds that unfolding dds_kept_def by blast
    ultimately show ?thesis by (simp add: filter_id_conv)
  qed
  have chop: "map (\<lambda>line. if endsWith line '';'' then butlast line else line) (map dds_line flds)
      = map spaced flds"
    using dds_line_facts(7,8) flds by simp
  have "parseDdsIdlFields (trimEnd d @ nl)
      = filter (\<lambda>field. f_type field \<noteq> [] \<and> f_name field \<noteq> []) (number_from_one dds_field (map spaced flds))"
    unfolding parse_dds_kept lines cleaned kept chop ..
  also have "\<dots> = expected_fields flds"
  proof -
    have ok: "plain_token (trim (n_type f))" "identifier_match (trim (n_name f))" if "f \<in> set flds" for f
      using flds that by (simp_all add: input_ok_def dds_type_def)
    have "number_from_one dds_field (map spaced flds) = expected_fields flds"
      unfolding number_from_one_def expected_fields_def enumerate_map
      using spaced_facts(4) [OF ok] by (auto simp: dds_field_def Let_def dest!: set_enumerate_from)
    moreover have "f_type x \<noteq> [] \<and> f_name x \<noteq> []" if "x \<in> set (expected_fields flds)" for x
      using that ok identifier_facts(1) by (auto simp: expected_fields_def plain_token_def dest!: set_enumerate_from)
    ultimately show ?thesis by (simp add: filter_id_conv)
  qed
  finally show ?thesis .
qed

lemma dds_fields_roundtrip_witness:
  "parseDdsIdlFields (''struct Pose {'' @ nl @ ''  double x;'' @ nl @ ''};'' @ nl)
    = [\<lparr>f_name = ''x'', f_number = ''1'', f_type = ''double''\<rparr>]"
proof -
  define flds where "flds = [\<lparr>n_name = ''x'', n_type = ''double''\<rparr>]"
  have n: "identifier_match ''Pose''" and f: "\<forall>f \<in> set flds. input_ok dds_type f"
    and r: "renderDdsIdlStruct ''Pose'' flds = Inr (''struct Pose {'' @ nl @ ''  double x;'' @ nl @ ''};'')"
    and e: "expected_fields flds = [\<lparr>f_name = ''x'', f_number = ''1'', f_type = ''double''\<rparr>]"
    and t: "trimEnd (''struct Pose {'' @ nl @ ''  double x;'' @ nl @ ''};'')
      = ''struct Pose {'' @ nl @ ''  double x;'' @ nl @ ''};''"
    unfolding flds_def by code_simp+
  show ?thesis using dds_fields_roundtrip [OF n f r] unfolding e t by simp
qed

subsection \<open>Editing proto files\<close>

text \<open>Messages are located by a prefix of their line: deleting \<open>Pose\<close> deletes \<open>PoseArray\<close>
  when that comes first.\<close>

theorem proto_delete_hits_prefix:
  "replaceProtoMessageBlock (''message PoseArray {'' @ nl @ ''  Pose poses = 1;'' @ nl @ ''}'' @ nl
      @ ''message Pose {'' @ nl @ ''  double x = 1;'' @ nl @ ''}'' @ nl) ''Pose'' None
    = Inr (''message Pose {'' @ nl @ ''  double x = 1;'' @ nl @ ''}'' @ nl)"
  by code_simp

text \<open>The end of a message is never looked for on its first line: deleting an empty message
  that is written on one line deletes the message after it as well.\<close>

theorem proto_delete_takes_next_message:
  "replaceProtoMessageBlock (''message Empty {}'' @ nl @ ''message Pose {'' @ nl @ ''  double x = 1;''
      @ nl @ ''}'' @ nl @ ''message Last {'' @ nl @ ''}'' @ nl) ''Empty'' None
    = Inr (''message Last {'' @ nl @ ''}'' @ nl)"
  by code_simp

text \<open>Adding a message fails when its name is a prefix of one the file already has.\<close>

theorem proto_append_refuses_prefix:
  assumes "has_sub text (''message '' @ name @ rest)"
  shows "appendProtoMessageBlock text name d = Inl (''Proto message '' @ quoted name @ '' already exists.'')"
proof -
  have "has_sub (''message '' @ name @ rest) (''message '' @ name)"
    using sublist_appendI [of "''message '' @ name" "[]" rest] by simp
  then have "has_sub text (''message '' @ name)" using assms sublist_order.order.trans by blast
  then show ?thesis unfolding appendProtoMessageBlock_def by (simp only: if_True)
qed

lemma proto_append_refuses_prefix_witness:
  "appendProtoMessageBlock (''message PoseArray {'' @ nl @ ''}'') ''Pose'' ''message Pose {}''
    = Inl (''Proto message '' @ quoted ''Pose'' @ '' already exists.'')"
proof -
  have "has_sub (''message PoseArray {'' @ nl @ ''}'') (''message '' @ ''Pose'' @ ''Array'')"
    by code_simp
  from proto_append_refuses_prefix [OF this] show ?thesis .
qed

end
