(* ===== verification/Detail_Parse.thy ===== *)
theory Detail_Parse
  imports Route_Parse
begin

text \<open>
  The parser behind a module's detail page (\<open>parseDetailCommunicationItems\<close> in
  \<open>dashboard/packages/api/src/routers/dashboard.ts\<close>): one state machine that reads both a
  module's \<open>config.yaml\<close> and a service's \<open>public/interfaces.yaml\<close>, by a layout of
  indentations. A handler is a function to \<^typ>\<open>'s option\<close> as in \<open>Route_Parse\<close>.
\<close>

datatype CommunicationSource = Config | Idl
datatype TransportFamily = Cyclonedds | Fastdds | Nats | Ros2
datatype nested_key = Addresses | Contract | Payload

record DetailBindingSummary = BindingSummary +
  b_standard :: string

record PartialDetailBinding = PartialBinding +
  p_standard :: "string option"

record ModuleCommunicationItem =
  i_bindings :: "DetailBindingSummary list"
  i_definition :: string
  i_direction :: string
  i_format :: string
  i_id :: string
  i_kind :: RouteKind
  i_messageType :: string
  i_name :: string
  i_path :: string
  i_role :: string
  i_source :: CommunicationSource
  i_transportFamilies :: "TransportFamily list"
  i_transports :: "string list"

record DetailRouteDraft =
  d_bindings :: "DetailBindingSummary list"
  d_definition :: string
  d_direction :: string
  d_format :: string
  d_kind :: RouteKind
  d_messageType :: string
  d_name :: string
  d_path :: string
  d_role :: string
  d_routeBinding :: PartialDetailBinding
  d_source :: CommunicationSource

record DetailCommunicationParseState =
  t_currentBinding :: "PartialDetailBinding option"
  t_currentList :: "list_key option"
  t_currentNested :: "nested_key option"
  t_currentRoute :: "DetailRouteDraft option"
  t_inCommunication :: bool
  t_items :: "ModuleCommunicationItem list"
  t_section :: "communicationSection option"

record DetailParseLayout =
  y_bindingIndent :: nat
  y_nestedValueIndent :: nat
  y_routeIndent :: nat
  y_sectionIndent :: nat
  y_source :: CommunicationSource
  y_startsInCommunication :: bool
  y_topLevelCommunication :: bool
  y_valueIndent :: nat

fun source_word :: "CommunicationSource \<Rightarrow> string" where
  "source_word Config = ''config''"
| "source_word Idl = ''idl''"

fun kind_word :: "RouteKind \<Rightarrow> string" where
  "kind_word Service = ''service''"
| "kind_word Topic = ''topic''"

definition empty_detail_binding :: "PartialDetailBinding" where
  "empty_detail_binding = PartialBinding.extend empty_binding \<lparr>p_standard = None\<rparr>"

subsection \<open>Transports\<close>

definition transportFamily :: "string \<Rightarrow> TransportFamily option" where
  "transportFamily transport =
     (let lower = toLowerCase transport in
      if has_sub lower ''nats'' then Some Nats
      else if has_sub lower ''fastdds'' \<or> has_sub lower ''fastrtps'' then Some Fastdds
      else if has_sub lower ''cyclonedds'' \<or> has_sub lower ''dds'' then Some Cyclonedds
      else if has_sub lower ''ros2'' then Some Ros2
      else None)"

definition transportFamiliesFromTransports :: "string list \<Rightarrow> TransportFamily list" where
  "transportFamiliesFromTransports transports = uniq (List.map_filter transportFamily transports)"

definition createDetailBinding :: "string \<Rightarrow> DetailRouteDraft \<Rightarrow> PartialDetailBinding" where
  "createDetailBinding transport route = empty_detail_binding\<lparr>
     p_transport := Some transport, p_middleware := Some transport,
     p_direction := Some (d_direction route),
     p_queueGroup := Some (nullish (p_queueGroup (d_routeBinding route)) []),
     p_queueSize := Some (nullish (p_queueSize (d_routeBinding route)) [])\<rparr>"

definition applyDetailBindingValue ::
  "PartialDetailBinding \<Rightarrow> string \<Rightarrow> string \<Rightarrow> PartialDetailBinding" where
  "applyDetailBindingValue binding key value =
     (if key = ''transport'' then binding\<lparr>p_transport := Some value\<rparr>
      else if key = ''middleware''
      then binding\<lparr>p_middleware := Some value,
             p_transport := Some (nullish (p_transport binding) value)\<rparr>
      else if key = ''subject'' \<or> key = ''service'' \<or> key = ''topic''
      then binding\<lparr>p_address := Some value\<rparr>
      else if key = ''request'' \<or> key = ''response''
      then binding\<lparr>p_address := Some
             (let a = nullish (p_address binding) [] in if a \<noteq> [] then a @ '' / '' @ value else value)\<rparr>
      else if key = ''direction'' then binding\<lparr>p_direction := Some value\<rparr>
      else if key = ''queue_group'' then binding\<lparr>p_queueGroup := Some value\<rparr>
      else if key = ''queue_size'' then binding\<lparr>p_queueSize := Some value\<rparr>
      else if key = ''standard'' then binding\<lparr>p_standard := Some value\<rparr>
      else binding)"

definition fill_detail_binding ::
  "DetailRouteDraft \<Rightarrow> PartialDetailBinding \<Rightarrow> string \<Rightarrow> DetailBindingSummary \<Rightarrow> DetailBindingSummary" where
  "fill_detail_binding route binding transport existing = existing\<lparr>
     b_middleware := or_else (b_middleware existing)
       (or_else (nullish (p_middleware binding) []) transport),
     b_address := or_else (b_address existing) (addressFromBinding binding),
     b_direction := or_else (b_direction existing)
       (or_else (nullish (p_direction binding) []) (d_direction route)),
     b_queueGroup := or_else (b_queueGroup existing)
       (or_else (nullish (p_queueGroup binding) []) (nullish (p_queueGroup (d_routeBinding route)) [])),
     b_queueSize := or_else (b_queueSize existing)
       (or_else (nullish (p_queueSize binding) []) (nullish (p_queueSize (d_routeBinding route)) [])),
     b_standard := or_else (b_standard existing) (nullish (p_standard binding) [])\<rparr>"

definition new_detail_binding ::
  "DetailRouteDraft \<Rightarrow> PartialDetailBinding \<Rightarrow> string \<Rightarrow> DetailBindingSummary" where
  "new_detail_binding route binding transport = \<lparr>
     b_address = addressFromBinding binding,
     b_direction = nullish (p_direction binding) (d_direction route),
     b_middleware = nullish (p_middleware binding) transport,
     b_queueGroup = nullish (p_queueGroup binding) (nullish (p_queueGroup (d_routeBinding route)) []),
     b_queueSize = nullish (p_queueSize binding) (nullish (p_queueSize (d_routeBinding route)) []),
     b_transport = transport,
     b_standard = nullish (p_standard binding) []\<rparr>"

definition appendDetailBinding ::
  "DetailRouteDraft \<Rightarrow> PartialDetailBinding option \<Rightarrow> DetailRouteDraft" where
  "appendDetailBinding route binding =
     (case binding of
        None \<Rightarrow> route
      | Some b \<Rightarrow>
          (let transport = transportFromBinding b
           in if transport = [] then route
              else if list_ex (\<lambda>item. b_transport item = transport) (d_bindings route)
              then route\<lparr>d_bindings := update_first (\<lambda>item. b_transport item = transport)
                     (fill_detail_binding route b transport) (d_bindings route)\<rparr>
              else route\<lparr>d_bindings := d_bindings route @ [new_detail_binding route b transport]\<rparr>))"

definition appendDetailTransport ::
  "DetailRouteDraft \<Rightarrow> string \<Rightarrow> string \<Rightarrow> DetailRouteDraft" where
  "appendDetailTransport route transport address =
     (if transport = [] then route
      else appendDetailBinding route
             (Some ((createDetailBinding transport route)\<lparr>p_address := Some address\<rparr>)))"

subsection \<open>Routes\<close>

text \<open>A draft with its last binding, and with the route's own binding if it has no other.\<close>

definition closed_draft :: "DetailCommunicationParseState \<Rightarrow> DetailRouteDraft \<Rightarrow> DetailRouteDraft" where
  "closed_draft st route =
     (let r = appendDetailBinding route (t_currentBinding st)
      in if d_bindings r = [] then appendDetailBinding r (Some (d_routeBinding r)) else r)"

definition item_id :: "CommunicationSource \<Rightarrow> string \<Rightarrow> RouteKind \<Rightarrow> string \<Rightarrow> string" where
  "item_id source path kind name =
     source_word source @ '':'' @ path @ '':'' @ kind_word kind @ '':'' @ name"

definition draft_item :: "DetailRouteDraft \<Rightarrow> ModuleCommunicationItem" where
  "draft_item r =
     (let transports = uniq (map b_transport (d_bindings r)) in \<lparr>
        i_bindings = d_bindings r, i_definition = d_definition r, i_direction = d_direction r,
        i_format = d_format r, i_id = item_id (d_source r) (d_path r) (d_kind r) (d_name r),
        i_kind = d_kind r, i_messageType = d_messageType r, i_name = d_name r, i_path = d_path r,
        i_role = d_role r, i_source = d_source r,
        i_transportFamilies = transportFamiliesFromTransports transports,
        i_transports = transports\<rparr>)"

definition completeDetailRoute ::
  "DetailCommunicationParseState \<Rightarrow> DetailCommunicationParseState" where
  "completeDetailRoute st =
     (case t_currentRoute st of
        None \<Rightarrow> st\<lparr>t_currentBinding := None, t_currentNested := None\<rparr>
      | Some r \<Rightarrow> st\<lparr>t_items := t_items st @ [draft_item (closed_draft st r)],
          t_currentRoute := None, t_currentBinding := None, t_currentNested := None,
          t_currentList := None\<rparr>)"

definition createDetailRoute ::
  "string \<Rightarrow> CommunicationSource \<Rightarrow> string \<Rightarrow> communicationSection \<Rightarrow> string \<Rightarrow> DetailRouteDraft" where
  "createDetailRoute dfn source pathValue sec name = \<lparr>
     d_bindings = [], d_definition = dfn, d_direction = [], d_format = [],
     d_kind = section_kind sec, d_messageType = [], d_name = name, d_path = pathValue,
     d_role = [], d_routeBinding = empty_detail_binding, d_source = source\<rparr>"

definition applyDetailRouteValue ::
  "DetailRouteDraft \<Rightarrow> string \<Rightarrow> string \<Rightarrow> DetailRouteDraft" where
  "applyDetailRouteValue route key value =
     (if key = ''service_ref'' \<or> key = ''topic_ref''
      then route\<lparr>d_messageType := value, d_format := or_else (d_format route) ''ref''\<rparr>
      else if key = ''data'' \<or> key = ''data_format'' then route\<lparr>d_format := value\<rparr>
      else if key = ''service_type'' \<or> key = ''message_type'' \<or> key = ''type''
      then route\<lparr>d_messageType := value\<rparr>
      else if key = ''format'' then route\<lparr>d_format := value\<rparr>
      else if key = ''role'' then route\<lparr>d_role := value\<rparr>
      else if key = ''direction''
      then route\<lparr>d_direction := value,
             d_routeBinding := (d_routeBinding route)\<lparr>p_direction := Some value\<rparr>\<rparr>
      else route\<lparr>d_routeBinding := applyDetailBindingValue (d_routeBinding route) key value\<rparr>)"

definition createDetailParseState :: "bool \<Rightarrow> DetailCommunicationParseState" where
  "createDetailParseState startsInCommunication = \<lparr>
     t_currentBinding = None, t_currentList = None, t_currentNested = None, t_currentRoute = None,
     t_inCommunication = startsInCommunication, t_items = [], t_section = None\<rparr>"

text \<open>\<open>yamlBlockFromLine\<close>: the raw lines of the block that starts at a line.\<close>

definition deeper :: "nat \<Rightarrow> string \<Rightarrow> bool" where
  "deeper i l \<longleftrightarrow> trim l = [] \<or> countLeadingSpaces l > i"

definition yamlBlockFromLine :: "string \<Rightarrow> nat \<Rightarrow> string" where
  "yamlBlockFromLine text startLine =
     (let lines = split_lines text;
          start = (if startLine < length lines then lines ! startLine else [])
      in trimEnd (join_lines (start #
           takeWhile (deeper (countLeadingSpaces start)) (drop (startLine + 1) lines))))"

subsection \<open>The handlers\<close>

definition handleDetailTopLevel ::
  "DetailCommunicationParseState \<Rightarrow> ParsedLine \<Rightarrow> DetailParseLayout \<Rightarrow>
   DetailCommunicationParseState option" where
  "handleDetailTopLevel st line layout =
     (if \<not> y_topLevelCommunication layout \<or> l_indent line \<noteq> 0 then None
      else let st' = (if t_inCommunication st then completeDetailRoute st else st)
           in Some (st'\<lparr>t_inCommunication := (l_trimmed line = ''communication:''), t_section := None\<rparr>))"

definition handleDetailSection ::
  "DetailCommunicationParseState \<Rightarrow> ParsedLine \<Rightarrow> DetailParseLayout \<Rightarrow>
   DetailCommunicationParseState option" where
  "handleDetailSection st line layout =
     (if l_indent line \<noteq> y_sectionIndent layout
         \<or> \<not> (l_trimmed line = ''services:'' \<or> l_trimmed line = ''topics:'')
      then None
      else Some ((completeDetailRoute st)\<lparr>t_section :=
             Some (if l_trimmed line = ''services:'' then Services else Topics)\<rparr>))"

definition handleDetailRouteStart ::
  "DetailCommunicationParseState \<Rightarrow> ParsedLine \<Rightarrow> string \<Rightarrow> string \<Rightarrow> DetailParseLayout \<Rightarrow>
   DetailCommunicationParseState option" where
  "handleDetailRouteStart st line text pathValue layout =
     (case (t_section st, route_key (l_trimmed line)) of
        (Some sec, Some name) \<Rightarrow>
          if l_indent line = y_routeIndent layout
          then Some ((completeDetailRoute st)\<lparr>t_currentRoute :=
                 Some (createDetailRoute (yamlBlockFromLine text (l_lineNumber line))
                   (y_source layout) pathValue sec name)\<rparr>)
          else None
      | _ \<Rightarrow> None)"

fun nested_of :: "string \<Rightarrow> nested_key option" where
  "nested_of l = (if l = ''payload:'' then Some Payload
                  else if l = ''contract:'' then Some Contract
                  else if l = ''addresses:'' then Some Addresses else None)"

definition handleDetailRouteValue ::
  "DetailCommunicationParseState \<Rightarrow> ParsedLine \<Rightarrow> DetailParseLayout \<Rightarrow>
   DetailCommunicationParseState option" where
  "handleDetailRouteValue st line layout =
     (case t_currentRoute st of
        None \<Rightarrow> None
      | Some route \<Rightarrow>
          if l_indent line \<noteq> y_valueIndent layout then None
          else
            let st' = st\<lparr>t_currentNested := None, t_currentList := None\<rparr>
            in if nested_of (l_trimmed line) \<noteq> None
               then Some (st'\<lparr>t_currentNested := nested_of (l_trimmed line)\<rparr>)
               else if l_trimmed line = ''bindings:'' then Some st'
               else if l_trimmed line = ''middlewares:''
               then Some (st'\<lparr>t_currentList := Some Middlewares\<rparr>)
               else Some (case parseKeyValue (l_trimmed line) of
                   None \<Rightarrow> st'
                 | Some (k, v) \<Rightarrow> st'\<lparr>t_currentRoute := Some (applyDetailRouteValue route k v)\<rparr>))"

definition handleDetailNestedValue ::
  "DetailCommunicationParseState \<Rightarrow> ParsedLine \<Rightarrow> DetailParseLayout \<Rightarrow>
   DetailCommunicationParseState option" where
  "handleDetailNestedValue st line layout =
     (case (t_currentRoute st, parseKeyValue (l_trimmed line)) of
        (Some route, Some (k, v)) \<Rightarrow>
          if t_currentNested st \<noteq> None \<and> l_indent line = y_nestedValueIndent layout
          then Some (st\<lparr>t_currentRoute := Some (applyDetailRouteValue route k v)\<rparr>)
          else None
      | _ \<Rightarrow> None)"

definition handleDetailListValue ::
  "DetailCommunicationParseState \<Rightarrow> ParsedLine \<Rightarrow> DetailParseLayout \<Rightarrow>
   DetailCommunicationParseState option" where
  "handleDetailListValue st line layout =
     (case t_currentRoute st of
        None \<Rightarrow> None
      | Some route \<Rightarrow>
          if t_currentList st = Some Middlewares \<and> l_indent line = y_nestedValueIndent layout
             \<and> is_item line
          then Some (st\<lparr>t_currentRoute := Some
                 (appendDetailTransport route (scalarValue (drop 2 (l_trimmed line))) [])\<rparr>)
          else None)"

definition handleDetailAddressValue ::
  "DetailCommunicationParseState \<Rightarrow> ParsedLine \<Rightarrow> DetailParseLayout \<Rightarrow>
   DetailCommunicationParseState option" where
  "handleDetailAddressValue st line layout =
     (case (t_currentRoute st, parseKeyValue (l_trimmed line)) of
        (Some route, Some (k, v)) \<Rightarrow>
          if t_currentNested st = Some Addresses \<and> l_indent line = y_nestedValueIndent layout
          then Some (st\<lparr>t_currentRoute := Some (appendDetailTransport route k v)\<rparr>)
          else None
      | _ \<Rightarrow> None)"

definition handleDetailBindingStart ::
  "DetailCommunicationParseState \<Rightarrow> ParsedLine \<Rightarrow> DetailParseLayout \<Rightarrow>
   DetailCommunicationParseState option" where
  "handleDetailBindingStart st line layout =
     (case t_currentRoute st of
        None \<Rightarrow> None
      | Some route \<Rightarrow>
          if l_indent line = y_bindingIndent layout \<and> is_item line
          then Some (st\<lparr>t_currentRoute := Some (appendDetailBinding route (t_currentBinding st)),
                 t_currentBinding := Some
                   (case parseKeyValue (trim (drop 2 (l_trimmed line))) of
                      None \<Rightarrow> empty_detail_binding
                    | Some (k, v) \<Rightarrow> applyDetailBindingValue empty_detail_binding k v)\<rparr>)
          else None)"

definition handleDetailBindingValue ::
  "DetailCommunicationParseState \<Rightarrow> ParsedLine \<Rightarrow> DetailParseLayout \<Rightarrow>
   DetailCommunicationParseState option" where
  "handleDetailBindingValue st line layout =
     (case (t_currentBinding st, parseKeyValue (l_trimmed line)) of
        (Some binding, Some (k, v)) \<Rightarrow>
          if l_indent line \<ge> y_bindingIndent layout + 2
          then Some (st\<lparr>t_currentBinding := Some (applyDetailBindingValue binding k v)\<rparr>)
          else None
      | _ \<Rightarrow> None)"

definition parseDetailCommunicationLine ::
  "DetailCommunicationParseState \<Rightarrow> ParsedLine \<Rightarrow> string \<Rightarrow> string \<Rightarrow> DetailParseLayout \<Rightarrow>
   DetailCommunicationParseState" where
  "parseDetailCommunicationLine st line text pathValue layout =
     first_handler
       [\<lambda>st. handleDetailTopLevel st line layout,
        stop_if (\<lambda>st. \<not> t_inCommunication st),
        \<lambda>st. handleDetailSection st line layout,
        stop_if (\<lambda>st. t_section st = None),
        \<lambda>st. handleDetailRouteStart st line text pathValue layout,
        stop_if (\<lambda>st. t_currentRoute st = None),
        \<lambda>st. handleDetailRouteValue st line layout,
        \<lambda>st. handleDetailListValue st line layout,
        \<lambda>st. handleDetailAddressValue st line layout,
        \<lambda>st. handleDetailNestedValue st line layout,
        \<lambda>st. handleDetailBindingStart st line layout,
        \<lambda>st. handleDetailBindingValue st line layout] st"

definition parseDetailCommunicationItems ::
  "string \<Rightarrow> string \<Rightarrow> DetailParseLayout \<Rightarrow> ModuleCommunicationItem list" where
  "parseDetailCommunicationItems text pathValue layout =
     t_items (completeDetailRoute
       (each_line (\<lambda>st line. parseDetailCommunicationLine st line text pathValue layout) 0
         (split_lines text) (createDetailParseState (y_startsInCommunication layout))))"

definition config_layout :: "DetailParseLayout" where
  "config_layout = \<lparr>y_bindingIndent = 8, y_nestedValueIndent = 8, y_routeIndent = 4,
     y_sectionIndent = 2, y_source = Config, y_startsInCommunication = False,
     y_topLevelCommunication = True, y_valueIndent = 6\<rparr>"

definition public_layout :: "DetailParseLayout" where
  "public_layout = \<lparr>y_bindingIndent = 6, y_nestedValueIndent = 6, y_routeIndent = 2,
     y_sectionIndent = 0, y_source = Idl, y_startsInCommunication = True,
     y_topLevelCommunication = False, y_valueIndent = 4\<rparr>"

definition parseConfigCommunicationItems :: "string \<Rightarrow> string \<Rightarrow> ModuleCommunicationItem list" where
  "parseConfigCommunicationItems text pathValue =
     parseDetailCommunicationItems text pathValue config_layout"

definition parsePublicInterfaceItems :: "string \<Rightarrow> string \<Rightarrow> ModuleCommunicationItem list" where
  "parsePublicInterfaceItems text pathValue =
     parseDetailCommunicationItems text pathValue public_layout"

subsection \<open>Merging the two sources\<close>

definition moduleNameFromConfigPath :: "string \<Rightarrow> string" where
  "moduleNameFromConfigPath configPath =
     (let parts = split_on (CHR ''/'') configPath;
          part = (\<lambda>k. if k < length parts then parts ! k else [])
      in if part 0 = ''module'' \<and> part 1 = ''service'' \<and> part 2 \<noteq> [] then ''module-'' @ part 2
         else if part 0 = ''module'' \<and> part 1 \<noteq> [] then ''module-'' @ part 1
         else if part 0 = ''infra'' \<and> part 1 \<noteq> [] then ''infra-'' @ part 1
         else join ''-'' (take 2 parts))"

definition isProviderCommunicationItem :: "ModuleCommunicationItem \<Rightarrow> bool" where
  "isProviderCommunicationItem item =
     (let direction = toLowerCase (or_else (i_direction item) (i_role item))
      in if direction = [] then True
         else if i_kind item = Service
         then direction \<noteq> ''client'' \<and> direction \<noteq> ''consumer''
         else direction \<noteq> ''subscribe'' \<and> direction \<noteq> ''subscriber'' \<and> direction \<noteq> ''in''
              \<and> direction \<noteq> ''consumer'')"

text \<open>\<open>s.replace(p, '')\<close>: drop the first occurrence of a string.\<close>

fun remove_first :: "string \<Rightarrow> string \<Rightarrow> string" where
  "remove_first p [] = []"
| "remove_first p (c # cs) =
     (if prefix p (c # cs) then drop (length p) (c # cs) else c # remove_first p cs)"

definition provider_key :: "RouteKind \<Rightarrow> string \<Rightarrow> string" where
  "provider_key kind name = kind_word kind @ '':'' @ name"

definition configItemDuplicatesPublicProvider ::
  "ModuleCommunicationItem \<Rightarrow> string \<Rightarrow> string set \<Rightarrow> bool" where
  "configItemDuplicatesPublicProvider item serviceName publicProviderKeys \<longleftrightarrow>
     i_source item = Config \<and> isProviderCommunicationItem item
     \<and> (provider_key (i_kind item) (i_name item) \<in> publicProviderKeys
        \<or> provider_key (i_kind item) (remove_first (serviceName @ ''.'') (i_messageType item))
            \<in> publicProviderKeys)"

definition mergeModuleCommunicationItems ::
  "string \<Rightarrow> ModuleCommunicationItem list \<Rightarrow> ModuleCommunicationItem list \<Rightarrow>
   ModuleCommunicationItem list" where
  "mergeModuleCommunicationItems serviceName configItems idlItems =
     (let publicProviderKeys = set (map (\<lambda>item. provider_key (i_kind item) (i_name item))
            (filter isProviderCommunicationItem idlItems))
      in filter (\<lambda>item. \<not> configItemDuplicatesPublicProvider item serviceName publicProviderKeys)
           configItems @ idlItems)"

end
