(* ===== verification/Repo_Read.thy ===== *)
theory Repo_Read
  imports Formats Detail_Parse
begin

text \<open>
  What the dashboard reads from the repository
  (\<open>dashboard/packages/api/src/routers/dashboard.ts\<close>): the projects, their routes, the data
  formats and public interfaces of every service, and the detail page of a module. A reader is a
  function of the file system, with an error as its result where the code throws. The host's
  \<open>localeCompare\<close> and \<open>JSON.parse\<close> are parameters of type \<open>host\<close>. Of concurrent reads
  the first failure in program order is the one reported.
\<close>

record host =
  h_localeCompare :: "string \<Rightarrow> string \<Rightarrow> int"
  h_jsonParse :: "string \<Rightarrow> json result"

record ModuleSummary =
  u_critical :: bool
  u_dependencyCount :: nat
  u_frameworks :: "string list"
  u_languages :: "string list"
  u_name :: string
  u_projectType :: string
  u_root :: string
  u_runtime :: bool
  u_scope :: string
  u_tags :: "string list"
  u_targetNames :: "string list"

definition CORE_PROJECTS :: "string list" where
  "CORE_PROJECTS = [''module-smoke_001_service'', ''module-middleware_pub_test_service'',
     ''module-middleware_sub_test_service'', ''module-middleware_rpc_client_test_service'',
     ''module-middleware_rpc_server_test_service'']"

subsection \<open>Projects\<close>

text \<open>A property of a parsed value: \<open>null\<close> throws, a value that is no object has none.\<close>

fun json_property :: "json \<Rightarrow> string \<Rightarrow> json result" where
  "json_property JNull k = Inl ''TypeError: Cannot read properties of null''"
| "json_property (JObject r) k = Inr (json_get r k)"
| "json_property v k = Inr JUndefined"

definition string_or :: "json \<Rightarrow> string \<Rightarrow> string" where
  "string_or v d = (case v of JString s \<Rightarrow> s | _ \<Rightarrow> d)"

definition project_scope :: "string list \<Rightarrow> string \<Rightarrow> string" where
  "project_scope tags dir =
     (case find (\<lambda>tag. startsWith tag ''scope:'') tags of
        Some tag \<Rightarrow> remove_first ''scope:'' tag
      | None \<Rightarrow> hd (split_on (CHR ''/'') dir))"

definition project_summary :: "path \<Rightarrow> path \<Rightarrow> json \<Rightarrow> ModuleSummary result" where
  "project_summary repoRoot projectFile parsed =
     rbind (json_property parsed ''tags'') (\<lambda>tags_value.
       let field = (\<lambda>k. json_get (asRecord parsed) k);
           tags = asStringArray tags_value;
           name = string_or (field ''name'') (last (butlast projectFile));
           dir = string_or (field ''root'') (path_relative repoRoot (butlast projectFile));
           projectType = string_or (field ''projectType'') ''unknown''
       in Inr \<lparr>u_critical = (name \<in> set CORE_PROJECTS),
            u_dependencyCount = length (asStringArray (field ''implicitDependencies'')),
            u_frameworks = map (remove_first ''framework:'')
              (filter (\<lambda>tag. startsWith tag ''framework:'' \<or> startsWith tag ''ros2:'') tags),
            u_languages = map (remove_first ''language:'')
              (filter (\<lambda>tag. startsWith tag ''language:'') tags),
            u_name = name, u_projectType = projectType, u_root = dir,
            u_runtime = (projectType = ''application'' \<or> ''platform:runtime'' \<in> set tags),
            u_scope = project_scope tags dir, u_tags = tags,
            u_targetNames = js_sort unit_compare (uniq (map fst (asRecord (field ''targets''))))\<rparr>)"

definition readProjectSummaries :: "host \<Rightarrow> path \<Rightarrow> node \<Rightarrow> ModuleSummary list result" where
  "readProjectSummaries h repoRoot fs =
     rbind (walkForFiles fs (path_join repoRoot MODULE_SERVICE_ROOT) ''project.json'' 1) (\<lambda>projectFiles.
     rbind (rmap (\<lambda>file. rbind (readFile fs file) (\<lambda>raw.
              rbind (h_jsonParse h raw) (project_summary repoRoot file))) projectFiles)
       (\<lambda>projects. Inr (js_sort (\<lambda>l r. h_localeCompare h (u_root l) (u_root r)) projects)))"

definition find_project :: "ModuleSummary list \<Rightarrow> string \<Rightarrow> ModuleSummary option" where
  "find_project projects moduleName =
     (case find (\<lambda>project. u_name project = moduleName) projects of
        Some project \<Rightarrow> Some project
      | None \<Rightarrow> find (\<lambda>project. basename (u_root project) = moduleName) projects)"

definition readModuleProject :: "host \<Rightarrow> path \<Rightarrow> string \<Rightarrow> node \<Rightarrow> ModuleSummary result" where
  "readModuleProject h repoRoot moduleName fs =
     rbind (readProjectSummaries h repoRoot fs) (\<lambda>projects.
       case find_project projects moduleName of
         None \<Rightarrow> Inl (''Unknown module '' @ quoted moduleName @ ''.'')
       | Some project \<Rightarrow> Inr project)"

subsection \<open>Routes\<close>

definition has_communication :: "string \<Rightarrow> bool" where
  "has_communication raw \<longleftrightarrow>
     has_sub raw (nl @ ''communication:'') \<or> startsWith raw ''communication:''"

definition readCommunicationRoutes :: "host \<Rightarrow> path \<Rightarrow> node \<Rightarrow> CommunicationRoute list result" where
  "readCommunicationRoutes h repoRoot fs =
     rbind (walkForFiles fs (path_join repoRoot ''module'') ''config.yaml'' 5) (\<lambda>configFiles.
     rbind (rmap (\<lambda>file. rbind (readFile fs file) (\<lambda>raw.
              let relativePath = path_relative repoRoot file
              in Inr (if has_communication raw
                   then parseCommunicationRoutes raw relativePath (moduleNameFromConfigPath relativePath)
                   else []))) configFiles)
       (\<lambda>routes. Inr (js_sort (\<lambda>l r. h_localeCompare h (r_module l @ '':'' @ r_name l)
            (r_module r @ '':'' @ r_name r)) (concat routes))))"

subsection \<open>Services\<close>

definition public_path :: "path \<Rightarrow> string \<Rightarrow> path" where
  "public_path repoRoot serviceName =
     path_join repoRoot (join ''/'' [IDL_ROOT, serviceName, ''public'', ''interfaces.yaml''])"

definition readIdlCommunicationItems ::
  "path \<Rightarrow> string \<Rightarrow> node \<Rightarrow> ModuleCommunicationItem list result" where
  "readIdlCommunicationItems repoRoot serviceName fs =
     (let publicPath = public_path repoRoot serviceName in
      if \<not> existsSync fs publicPath then Inr []
      else rbind (readFile fs publicPath) (\<lambda>text.
        Inr (parsePublicInterfaceItems text (normalizePath (path_relative repoRoot publicPath)))))"

definition readModuleDataFormats ::
  "host \<Rightarrow> path \<Rightarrow> string \<Rightarrow> node \<Rightarrow> ModuleDataFormatItem list result" where
  "readModuleDataFormats h repoRoot serviceName fs =
     rbind (walkForExtensions fs (path_join (path_join repoRoot IDL_ROOT) serviceName)
       [''.proto'', ''.msg'', ''.srv'', ''.idl''] 5) (\<lambda>files.
     rbind (rmap (\<lambda>file. parseDataFormatFile fs file repoRoot)
       (js_sort (\<lambda>l r. h_localeCompare h (''/'' @ path_string l) (''/'' @ path_string r)) files))
       (\<lambda>items. Inr (concat items)))"

text \<open>The shared shape of the two catalogs: every directory of the IDL root, by name, that has
  something to list.\<close>

definition read_catalog ::
  "host \<Rightarrow> path \<Rightarrow> (string \<Rightarrow> 'a list result) \<Rightarrow> node \<Rightarrow> (string \<times> 'a list) list result" where
  "read_catalog h repoRoot read fs =
     (let idlRoot = path_join repoRoot IDL_ROOT in
      if \<not> existsSync fs idlRoot then Inr []
      else rbind (readdir fs idlRoot) (\<lambda>entries.
        let services = js_sort (h_localeCompare h)
              (map fst (filter (\<lambda>(n, t). case t of Dir es \<Rightarrow> True | _ \<Rightarrow> False) entries))
        in rbind (rmap (\<lambda>service. rbind (read service) (\<lambda>xs. Inr (service, xs))) services)
             (\<lambda>catalog. Inr (filter (\<lambda>(s, xs). length xs > 0) catalog))))"

definition readDataFormatCatalog ::
  "host \<Rightarrow> path \<Rightarrow> node \<Rightarrow> (string \<times> ModuleDataFormatItem list) list result" where
  "readDataFormatCatalog h repoRoot fs =
     read_catalog h repoRoot (\<lambda>service. readModuleDataFormats h repoRoot service fs) fs"

definition readPublicInterfaceCatalog ::
  "host \<Rightarrow> path \<Rightarrow> node \<Rightarrow> (string \<times> ModuleCommunicationItem list) list result" where
  "readPublicInterfaceCatalog h repoRoot fs =
     read_catalog h repoRoot (\<lambda>service. readIdlCommunicationItems repoRoot service fs) fs"

subsection \<open>The detail page\<close>

record ModuleDetail =
  v_communication :: "ModuleCommunicationItem list"
  v_configPath :: "string option"
  v_dataFormatCatalog :: "(string \<times> ModuleDataFormatItem list) list"
  v_dataFormats :: "ModuleDataFormatItem list"
  v_idlRoot :: string
  v_module :: ModuleSummary
  v_publicInterfaceCatalog :: "(string \<times> ModuleCommunicationItem list) list"

definition config_items :: "path \<Rightarrow> path option \<Rightarrow> node \<Rightarrow> ModuleCommunicationItem list result" where
  "config_items repoRoot configPath fs =
     (case configPath of
        None \<Rightarrow> Inr []
      | Some p \<Rightarrow> rbind (readFile fs p) (\<lambda>text.
          Inr (parseConfigCommunicationItems text (normalizePath (path_relative repoRoot p)))))"

definition readModuleDetail :: "host \<Rightarrow> path \<Rightarrow> string \<Rightarrow> node \<Rightarrow> ModuleDetail result" where
  "readModuleDetail h repoRoot moduleName fs =
     rbind (readModuleProject h repoRoot moduleName fs) (\<lambda>project.
       let serviceName = basename (u_root project);
           configPath = findModuleConfigPath fs repoRoot (u_root project)
       in rbind (config_items repoRoot configPath fs) (\<lambda>configItems.
          rbind (readIdlCommunicationItems repoRoot serviceName fs) (\<lambda>idlItems.
          rbind (readModuleDataFormats h repoRoot serviceName fs) (\<lambda>dataFormats.
          rbind (readDataFormatCatalog h repoRoot fs) (\<lambda>dataFormatCatalog.
          rbind (readPublicInterfaceCatalog h repoRoot fs) (\<lambda>publicInterfaceCatalog.
            Inr \<lparr>v_communication = mergeModuleCommunicationItems serviceName configItems idlItems,
               v_configPath = map_option (\<lambda>p. normalizePath (path_relative repoRoot p)) configPath,
               v_dataFormatCatalog = dataFormatCatalog, v_dataFormats = dataFormats,
               v_idlRoot = normalizePath (join_relative [IDL_ROOT, serviceName]),
               v_module = project, v_publicInterfaceCatalog = publicInterfaceCatalog\<rparr>))))))"

end
