(* ===== verification/Snapshot.thy ===== *)
theory Snapshot
  imports Repo_Read
begin

text \<open>
  The overview page: the routes counted by transport, the state of the observability endpoints,
  and the snapshot with its cache of one second (\<open>summarizeTransports\<close>,
  \<open>createSnapshotData\<close>, \<open>createSnapshot\<close> in
  \<open>dashboard/packages/api/src/routers/dashboard.ts\<close>). The network is a parameter that gives
  the HTTP status of a URL, or \<^const>\<open>None\<close> for a failed or aborted request; the clock is an
  argument.
\<close>

record ObservabilityEndpoint =
  o_href :: string
  o_id :: string
  o_label :: string
  o_url :: string

datatype endpoint_state = Online | Degraded | Offline

record EndpointStatus = ObservabilityEndpoint +
  o_status :: endpoint_state
  o_statusCode :: "int option"

definition endpoint :: "string \<Rightarrow> string \<Rightarrow> string \<Rightarrow> string \<Rightarrow> ObservabilityEndpoint" where
  "endpoint ident label url href = \<lparr>o_href = href, o_id = ident, o_label = label, o_url = url\<rparr>"

definition OBSERVABILITY_ENDPOINTS :: "ObservabilityEndpoint list" where
  "OBSERVABILITY_ENDPOINTS =
     [endpoint ''grafana'' ''Grafana'' ''http://localhost:16000/api/health'' ''http://localhost:16000'',
      endpoint ''prometheus'' ''Prometheus'' ''http://localhost:18180/-/ready'' ''http://localhost:18180'',
      endpoint ''loki'' ''Loki'' ''http://localhost:6200/ready'' ''http://localhost:6200'',
      endpoint ''tempo'' ''Tempo'' ''http://localhost:6400/ready'' ''http://localhost:6400'',
      endpoint ''otel'' ''OTel Collector'' ''http://localhost:26266'' ''http://localhost:26266'']"

definition checkEndpoint :: "(string \<Rightarrow> int option) \<Rightarrow> ObservabilityEndpoint \<Rightarrow> EndpointStatus" where
  "checkEndpoint fetch e = ObservabilityEndpoint.extend e
     (case fetch (o_url e) of
        Some code \<Rightarrow> \<lparr>o_status = (if 200 \<le> code \<and> code \<le> 299 then Online else Degraded),
          o_statusCode = Some code\<rparr>
      | None \<Rightarrow> \<lparr>o_status = Offline, o_statusCode = None\<rparr>)"

subsection \<open>Transports\<close>

record TransportCounter =
  k_bindings :: nat
  k_routeIds :: "string list"

record TransportSummary =
  w_bindings :: nat
  w_name :: string
  w_routes :: nat

fun family_word :: "TransportFamily \<Rightarrow> string" where
  "family_word Cyclonedds = ''cyclonedds''"
| "family_word Fastdds = ''fastdds''"
| "family_word Nats = ''nats''"
| "family_word Ros2 = ''ros2''"

definition SUPPORTED_TRANSPORT_FAMILIES :: "string list" where
  "SUPPORTED_TRANSPORT_FAMILIES = [''ros2'', ''cyclonedds'', ''fastdds'', ''nats'']"

definition transport_name :: "string \<Rightarrow> string" where
  "transport_name transport =
     (case transportFamily transport of Some f \<Rightarrow> family_word f | None \<Rightarrow> transport)"

definition empty_counter :: "TransportCounter" where
  "empty_counter = \<lparr>k_bindings = 0, k_routeIds = []\<rparr>"

definition count_binding :: "string \<Rightarrow> TransportCounter \<Rightarrow> TransportCounter" where
  "count_binding routeId c = \<lparr>k_bindings = k_bindings c + 1,
     k_routeIds = (if routeId \<in> set (k_routeIds c) then k_routeIds c else k_routeIds c @ [routeId])\<rparr>"

text \<open>A \<open>Map\<close> keeps the order of first insertion: an association list that is updated in place.\<close>

fun map_update :: "'k \<Rightarrow> ('v \<Rightarrow> 'v) \<Rightarrow> 'v \<Rightarrow> ('k \<times> 'v) list \<Rightarrow> ('k \<times> 'v) list" where
  "map_update k f d [] = [(k, f d)]"
| "map_update k f d ((k', v) # m) = (if k = k' then (k', f v) # m else (k', v) # map_update k f d m)"

definition count_all :: "(string \<times> string) list \<Rightarrow> (string \<times> TransportCounter) list \<Rightarrow>
    (string \<times> TransportCounter) list" where
  "count_all pairs m =
     foldl (\<lambda>m (routeId, transport).
       map_update (transport_name transport) (count_binding routeId) empty_counter m) m pairs"

text \<open>The two nested loops visit these pairs of a route id and a transport.\<close>

definition route_bindings :: "CommunicationRoute list \<Rightarrow> (string \<times> string) list" where
  "route_bindings routes =
     concat (map (\<lambda>route. map (\<lambda>b. (r_id route, b_transport b)) (r_bindings route)) routes)"

definition transportSortIndex :: "string \<Rightarrow> int" where
  "transportSortIndex name =
     (case find_index (\<lambda>n. n = name) SUPPORTED_TRANSPORT_FAMILIES of
        Some i \<Rightarrow> int i
      | None \<Rightarrow> int (length SUPPORTED_TRANSPORT_FAMILIES))"

definition transport_compare :: "TransportSummary \<Rightarrow> TransportSummary \<Rightarrow> int" where
  "transport_compare l r =
     (if w_bindings r \<noteq> w_bindings l then int (w_bindings r) - int (w_bindings l)
      else transportSortIndex (w_name l) - transportSortIndex (w_name r))"

definition summarizeTransports :: "CommunicationRoute list \<Rightarrow> TransportSummary list" where
  "summarizeTransports routes =
     (let transportMap = count_all (route_bindings routes)
            (map (\<lambda>family. (family, empty_counter)) SUPPORTED_TRANSPORT_FAMILIES)
      in js_sort transport_compare
           (map (\<lambda>(name, value). \<lparr>w_bindings = k_bindings value, w_name = name,
              w_routes = length (k_routeIds value)\<rparr>) transportMap))"

subsection \<open>The snapshot\<close>

record snapshot_issue =
  q_severity :: string
  q_title :: string
  q_detail :: string
  q_source :: string

record snapshot_overview =
  x_projectCount :: nat
  x_runtimeModuleCount :: nat
  x_criticalModuleCount :: nat
  x_routeCount :: nat
  x_serviceRouteCount :: nat
  x_topicRouteCount :: nat
  x_bindingCount :: nat
  x_onlineObservabilityCount :: nat
  x_issueCount :: nat
  x_issues :: "snapshot_issue list"
  x_quickLinks :: "(string \<times> string \<times> string) list"

record DashboardSnapshot =
  z_generatedAt :: string
  z_repoRoot :: path
  z_overview :: snapshot_overview
  z_observability :: "EndpointStatus list"
  z_modules :: "ModuleSummary list"
  z_routes :: "CommunicationRoute list"
  z_transports :: "TransportSummary list"
  z_metricsState :: string

fun state_word :: "endpoint_state \<Rightarrow> string" where
  "state_word Online = ''online''"
| "state_word Degraded = ''degraded''"
| "state_word Offline = ''offline''"

definition endpoint_issue :: "EndpointStatus \<Rightarrow> snapshot_issue" where
  "endpoint_issue e = \<lparr>
     q_severity = (if o_status e = Offline then ''warning'' else ''info''),
     q_title = o_label e @ '' is '' @ state_word (o_status e),
     q_detail = (case o_statusCode e of
         Some c \<Rightarrow> if c \<noteq> 0 then ''HTTP '' @ int_str c else ''No local readiness response''
       | None \<Rightarrow> ''No local readiness response''),
     q_source = o_href e\<rparr>"

definition count_if :: "('a \<Rightarrow> bool) \<Rightarrow> 'a list \<Rightarrow> nat" where
  "count_if p xs = length (filter p xs)"

definition make_overview ::
  "ModuleSummary list \<Rightarrow> CommunicationRoute list \<Rightarrow> EndpointStatus list \<Rightarrow> snapshot_overview" where
  "make_overview projects routes endpointStatuses =
     (let offlineEndpoints = filter (\<lambda>e. o_status e \<noteq> Online) endpointStatuses in \<lparr>
        x_projectCount = length projects,
        x_runtimeModuleCount = count_if u_runtime projects,
        x_criticalModuleCount = count_if u_critical projects,
        x_routeCount = length routes,
        x_serviceRouteCount = count_if (\<lambda>r. r_kind r = Service) routes,
        x_topicRouteCount = count_if (\<lambda>r. r_kind r = Topic) routes,
        x_bindingCount = foldl (\<lambda>total r. total + length (r_bindings r)) 0 routes,
        x_onlineObservabilityCount = count_if (\<lambda>e. o_status e = Online) endpointStatuses,
        x_issueCount = length offlineEndpoints,
        x_issues = map endpoint_issue offlineEndpoints,
        x_quickLinks = map (\<lambda>e. (o_id e, o_label e, o_href e)) OBSERVABILITY_ENDPOINTS\<rparr>)"

definition createSnapshotData ::
  "host \<Rightarrow> path \<Rightarrow> (string \<Rightarrow> int option) \<Rightarrow> string \<Rightarrow> node \<Rightarrow> DashboardSnapshot result" where
  "createSnapshotData h repoRoot fetch generatedAt fs =
     rbind (readProjectSummaries h repoRoot fs) (\<lambda>projects.
     rbind (readCommunicationRoutes h repoRoot fs) (\<lambda>routes.
       let endpointStatuses = map (checkEndpoint fetch) OBSERVABILITY_ENDPOINTS
       in Inr \<lparr>z_generatedAt = generatedAt, z_repoRoot = repoRoot,
            z_overview = make_overview projects routes endpointStatuses,
            z_observability = endpointStatuses, z_modules = projects, z_routes = routes,
            z_transports = summarizeTransports routes,
            z_metricsState =
              (case find (\<lambda>e. o_id e = ''prometheus'') endpointStatuses of
                 Some e \<Rightarrow> if o_status e = Online then ''prometheus-online'' else ''static-snapshot''
               | None \<Rightarrow> ''static-snapshot'')\<rparr>))"

definition SNAPSHOT_CACHE_TTL_MS :: "int" where "SNAPSHOT_CACHE_TTL_MS = 1000"

text \<open>
  \<open>createSnapshot\<close> is two atomic steps with the reading of the repository between them: the
  request (the cached value, or the time at which a new one is started) and the store of the finished
  value, whatever happened to the cache in between.
\<close>

definition snapshot_request :: "int \<Rightarrow> (int \<times> 'v) option \<Rightarrow> 'v option" where
  "snapshot_request now cached =
     (case cached of
        Some (createdAt, v) \<Rightarrow> if now - createdAt < SNAPSHOT_CACHE_TTL_MS then Some v else None
      | None \<Rightarrow> None)"

definition snapshot_store :: "int \<Rightarrow> 'v \<Rightarrow> (int \<times> 'v) option" where
  "snapshot_store now v = Some (now, v)"

definition createSnapshot ::
  "int \<Rightarrow> 'v result \<Rightarrow> (int \<times> 'v) option \<Rightarrow> 'v result \<times> (int \<times> 'v) option" where
  "createSnapshot now fresh cached =
     (case snapshot_request now cached of
        Some v \<Rightarrow> (Inr v, cached)
      | None \<Rightarrow> (case fresh of Inl e \<Rightarrow> (Inl e, cached) | Inr v \<Rightarrow> (Inr v, snapshot_store now v)))"

end
