(* ===== verification/Robot_Profiles.thy ===== *)
theory Robot_Profiles
  imports Repo_Read
begin

text \<open>
  The catalog of robot capabilities and profiles, read from JSON files of any shape
  (\<open>robotCapabilitySignalFromValue\<close> ... \<open>readRobotProfiles\<close> in
  \<open>dashboard/packages/api/src/routers/dashboard.ts\<close>).
\<close>

record RobotCapabilitySignal =
  sg_name :: string
  sg_unit :: string

record RobotCapabilityContract =
  ct_path :: string
  ct_route :: string
  ct_service :: string
  ct_status :: string

record RobotCapability =
  cp_contractStatus :: string
  cp_contracts :: "RobotCapabilityContract list"
  cp_family :: string
  cp_id :: string
  cp_recommendedIdlService :: string
  cp_signals :: "RobotCapabilitySignal list"
  cp_summary :: string

record RobotProfileService =
  ps_capabilities :: "string list"
  ps_notes :: string
  ps_package :: string
  ps_required :: bool
  ps_role :: string
  ps_service :: string

record RobotProfileDeploy =
  pd_defaultDomainId :: "rat option"
  pd_rosDistro :: string
  pd_targets :: "string list"
  pd_transportFamilies :: "string list"
  pd_verification :: "string list"

record RobotProfileAiNative =
  pa_agentEntry :: string
  pa_modulePolicy :: string
  pa_skill :: string

record RobotProfile =
  rp_aiNative :: RobotProfileAiNative
  rp_capabilities :: "string list"
  rp_deploy :: RobotProfileDeploy
  rp_displayName :: string
  rp_id :: string
  rp_plannedServices :: "RobotProfileService list"
  rp_robotClass :: string
  rp_services :: "RobotProfileService list"
  rp_status :: string
  rp_summary :: string

record RobotProfileCatalog =
  rc_activeProfiles :: nat
  rc_capabilities :: "RobotCapability list"
  rc_capabilityPath :: string
  rc_generatedAt :: string
  rc_profileRoot :: string
  rc_profiles :: "RobotProfile list"
  rc_templateProfiles :: nat

definition record_string :: "(string \<times> json) list \<Rightarrow> string \<Rightarrow> string" where
  "record_string r k = asString (json_get r k)"

definition record_strings :: "(string \<times> json) list \<Rightarrow> string \<Rightarrow> string list" where
  "record_strings r k = asStringArray (json_get r k)"

definition robotCapabilitySignalFromValue :: "json \<Rightarrow> RobotCapabilitySignal" where
  "robotCapabilitySignalFromValue value =
     (let r = asRecord value
      in \<lparr>sg_name = record_string r ''name'', sg_unit = record_string r ''unit''\<rparr>)"

definition robotCapabilityContractFromValue :: "json \<Rightarrow> RobotCapabilityContract" where
  "robotCapabilityContractFromValue value =
     (let r = asRecord value
      in \<lparr>ct_path = record_string r ''path'', ct_route = record_string r ''route'',
          ct_service = record_string r ''service'', ct_status = record_string r ''status''\<rparr>)"

definition robotCapabilityFromValue :: "json \<Rightarrow> RobotCapability" where
  "robotCapabilityFromValue value =
     (let r = asRecord value in \<lparr>
        cp_contractStatus = record_string r ''contractStatus'',
        cp_contracts = filter (\<lambda>c. ct_path c \<noteq> [] \<or> ct_service c \<noteq> [])
          (map robotCapabilityContractFromValue (asUnknownArray (json_get r ''contracts''))),
        cp_family = record_string r ''family'', cp_id = record_string r ''id'',
        cp_recommendedIdlService = record_string r ''recommendedIdlService'',
        cp_signals = filter (\<lambda>s. sg_name s \<noteq> [])
          (map robotCapabilitySignalFromValue (asUnknownArray (json_get r ''signals''))),
        cp_summary = record_string r ''summary''\<rparr>)"

definition robotProfileServiceFromValue :: "json \<Rightarrow> bool \<Rightarrow> RobotProfileService" where
  "robotProfileServiceFromValue value defaultRequired =
     (let r = asRecord value in \<lparr>
        ps_capabilities = record_strings r ''capabilities'', ps_notes = record_string r ''notes'',
        ps_package = record_string r ''package'',
        ps_required = asBoolean (json_get r ''required'') defaultRequired,
        ps_role = record_string r ''role'', ps_service = record_string r ''service''\<rparr>)"

definition robotProfileDeployFromValue :: "json \<Rightarrow> RobotProfileDeploy" where
  "robotProfileDeployFromValue value =
     (let r = asRecord value in \<lparr>
        pd_defaultDomainId = asFiniteNumber (json_get r ''defaultDomainId''),
        pd_rosDistro = record_string r ''rosDistro'', pd_targets = record_strings r ''targets'',
        pd_transportFamilies = record_strings r ''transportFamilies'',
        pd_verification = record_strings r ''verification''\<rparr>)"

definition robotProfileAiNativeFromValue :: "json \<Rightarrow> RobotProfileAiNative" where
  "robotProfileAiNativeFromValue value =
     (let r = asRecord value in \<lparr>
        pa_agentEntry = record_string r ''agentEntry'',
        pa_modulePolicy = record_string r ''modulePolicy'', pa_skill = record_string r ''skill''\<rparr>)"

definition profile_services :: "json \<Rightarrow> bool \<Rightarrow> RobotProfileService list" where
  "profile_services value defaultRequired =
     filter (\<lambda>s. ps_service s \<noteq> [])
       (map (\<lambda>v. robotProfileServiceFromValue v defaultRequired) (asUnknownArray value))"

definition robotProfileFromValue :: "json \<Rightarrow> RobotProfile" where
  "robotProfileFromValue value =
     (let r = asRecord value in \<lparr>
        rp_aiNative = robotProfileAiNativeFromValue (json_get r ''aiNative''),
        rp_capabilities = record_strings r ''capabilities'',
        rp_deploy = robotProfileDeployFromValue (json_get r ''deploy''),
        rp_displayName = record_string r ''displayName'', rp_id = record_string r ''id'',
        rp_plannedServices = profile_services (json_get r ''plannedServices'') False,
        rp_robotClass = record_string r ''robotClass'',
        rp_services = profile_services (json_get r ''services'') True,
        rp_status = record_string r ''status'', rp_summary = record_string r ''summary''\<rparr>)"

definition readJsonRecord :: "host \<Rightarrow> node \<Rightarrow> path \<Rightarrow> (string \<times> json) list result" where
  "readJsonRecord h fs file =
     rbind (readFile fs file) (\<lambda>text. rbind (h_jsonParse h text) (\<lambda>v. Inr (asRecord v)))"

definition is_profile_entry :: "string \<times> node \<Rightarrow> bool" where
  "is_profile_entry e \<longleftrightarrow>
     (case snd e of File t \<Rightarrow> True | _ \<Rightarrow> False) \<and> endsWith (fst e) ''.json'' \<and> fst e \<noteq> ''project.json''"

definition readRobotProfiles :: "host \<Rightarrow> path \<Rightarrow> string \<Rightarrow> node \<Rightarrow> RobotProfileCatalog result" where
  "readRobotProfiles h repoRoot generatedAt fs =
     (let capabilityFile = path_join repoRoot ''pkg/robot/capabilities.json'';
          profileRoot = path_join repoRoot ''deploy/robot-profiles''
      in rbind (readJsonRecord h fs capabilityFile) (\<lambda>capabilityRecord.
         rbind (if existsSync fs profileRoot then readdir fs profileRoot else Inr []) (\<lambda>entries.
         rbind (rmap (\<lambda>e. rbind (readJsonRecord h fs (profileRoot @ [fst e]))
                  (\<lambda>r. Inr (robotProfileFromValue (JObject r)))) (filter is_profile_entry entries)) (\<lambda>all.
           let capabilities = js_sort (\<lambda>l r. h_localeCompare h (cp_id l) (cp_id r))
                 (filter (\<lambda>c. cp_id c \<noteq> []) (map robotCapabilityFromValue
                   (asUnknownArray (json_get capabilityRecord ''capabilities''))));
               profiles = js_sort (\<lambda>l r. h_localeCompare h (rp_id l) (rp_id r))
                 (filter (\<lambda>p. rp_id p \<noteq> []) all)
           in Inr \<lparr>
             rc_activeProfiles = length (filter (\<lambda>p. rp_status p = ''active'') profiles),
             rc_capabilities = capabilities,
             rc_capabilityPath = normalizePath (path_relative repoRoot capabilityFile),
             rc_generatedAt = generatedAt,
             rc_profileRoot = normalizePath (path_relative repoRoot profileRoot),
             rc_profiles = profiles,
             rc_templateProfiles = length (filter (\<lambda>p. rp_status p = ''template'') profiles)\<rparr>))))"

end
