(* ===== verification/Snapshot_Props.thy ===== *)
theory Snapshot_Props
  imports Snapshot Robot_Profiles
begin

text \<open>
  The transport summary is complete and sorted, the robot catalog is well formed and sorted, and a
  snapshot served from the cache is out of date for less than the cache's lifetime, which is stated
  over the interleavings of requests and mutations.
\<close>

subsection \<open>Counting bindings\<close>

lemma map_of_update [simp]:
  "map_of (map_update k f d m) n = (if n = k then Some (f (nullish (map_of m k) d)) else map_of m n)"
  by (induction m) (auto simp: nullish_def)

lemma fst_map_update:
  "map fst (map_update k f d m) = (if k \<in> fst ` set m then map fst m else map fst m @ [k])"
  by (induction m) force+

lemma distinct_map_update: "distinct (map fst m) \<Longrightarrow> distinct (map fst (map_update k f d m))"
  by (auto simp: fst_map_update)

definition pairs_of :: "string \<Rightarrow> (string \<times> string) list \<Rightarrow> (string \<times> string) list" where
  "pairs_of n ps = filter (\<lambda>(i, t). transport_name t = n) ps"

definition counts :: "TransportCounter \<Rightarrow> (string \<times> string) list \<Rightarrow> bool" where
  "counts c ps \<longleftrightarrow> k_bindings c = length ps \<and> distinct (k_routeIds c) \<and> set (k_routeIds c) = fst ` set ps"

lemma count_all_step:
  "count_all (ps @ [(i, t)]) m = map_update (transport_name t) (count_binding i) empty_counter (count_all ps m)"
  by (simp add: count_all_def)

lemma counts_step: "counts c ps \<Longrightarrow> counts (count_binding i c) (ps @ [(i, t)])"
  by (auto simp: counts_def count_binding_def)

lemma counts_empty: "counts empty_counter []"
  by (simp add: counts_def empty_counter_def)

lemma count_all_counts:
  assumes "\<And>n v. map_of m n = Some v \<Longrightarrow> v = empty_counter"
  shows "(case map_of (count_all ps m) n of Some v \<Rightarrow> counts v (pairs_of n ps)
    | None \<Rightarrow> pairs_of n ps = [] \<and> map_of m n = None)
    \<and> (map_of m n \<noteq> None \<longrightarrow> map_of (count_all ps m) n \<noteq> None)"
proof (induction ps arbitrary: n rule: rev_induct)
  case Nil
  then show ?case using assms counts_empty
    by (auto simp: count_all_def pairs_of_def split: option.split)
next
  case (snoc p ps)
  obtain i t where p: "p = (i, t)" by (cases p)
  show ?case
  proof (cases "transport_name t = n")
    case True
    have "counts (nullish (map_of (count_all ps m) n) empty_counter) (pairs_of n ps)"
      using snoc.IH [of n] counts_empty by (auto simp: nullish_def split: option.splits)
    from counts_step [OF this, of i t] True show ?thesis
      by (simp add: p count_all_step pairs_of_def)
  next
    case False
    then have eqs: "pairs_of n (ps @ [p]) = pairs_of n ps"
      "map_of (count_all (ps @ [p]) m) n = map_of (count_all ps m) n"
      by (simp_all add: p pairs_of_def count_all_step)
    show ?thesis unfolding eqs by (rule snoc.IH)
  qed
qed

lemma distinct_count_all: "distinct (map fst m) \<Longrightarrow> distinct (map fst (count_all ps m))"
  by (induction ps rule: rev_induct) (auto simp: count_all_def distinct_map_update split: prod.split)

interpretation transport_cmp: comparator transport_compare
  by unfold_locales (auto simp: transport_compare_def split: if_splits)

text \<open>The order that a reader of the summary sees: more bindings come first, and among equals a supported family comes
  before the other transports and after the families that stand before it in the list of them.\<close>

definition listed_before :: "TransportSummary \<Rightarrow> TransportSummary \<Rightarrow> bool" where
  "listed_before a b \<longleftrightarrow> w_bindings b < w_bindings a
     \<or> w_bindings a = w_bindings b \<and> (w_name b \<in> set SUPPORTED_TRANSPORT_FAMILIES \<longrightarrow>
         (\<exists>i j. i \<le> j \<and> j < length SUPPORTED_TRANSPORT_FAMILIES
            \<and> w_name a = SUPPORTED_TRANSPORT_FAMILIES ! i \<and> w_name b = SUPPORTED_TRANSPORT_FAMILIES ! j))"

lemma compare_listed_before:
  assumes "transport_compare a b \<le> 0"
  shows "listed_before a b"
proof (cases "w_bindings a = w_bindings b \<and> w_name b \<in> set SUPPORTED_TRANSPORT_FAMILIES")
  case True
  obtain j where j: "find_index (\<lambda>n. n = w_name b) SUPPORTED_TRANSPORT_FAMILIES = Some j"
    using True by (auto simp: SUPPORTED_TRANSPORT_FAMILIES_def)
  have le: "transportSortIndex (w_name a) \<le> int j"
    using assms True by (simp add: transport_compare_def transportSortIndex_def j)
  from find_index_Some [OF j] have b: "j < length SUPPORTED_TRANSPORT_FAMILIES" "w_name b = SUPPORTED_TRANSPORT_FAMILIES ! j" by auto
  obtain i where i: "find_index (\<lambda>n. n = w_name a) SUPPORTED_TRANSPORT_FAMILIES = Some i"
    using le b(1) by (cases "find_index (\<lambda>n. n = w_name a) SUPPORTED_TRANSPORT_FAMILIES") (auto simp: transportSortIndex_def)
  with le find_index_Some [OF i] have "i \<le> j" "w_name a = SUPPORTED_TRANSPORT_FAMILIES ! i" by (auto simp: transportSortIndex_def)
  with b show ?thesis unfolding listed_before_def using True by blast
next
  case False
  have "w_bindings b \<le> w_bindings a" using assms by (auto simp: transport_compare_def split: if_splits)
  with False show ?thesis by (auto simp: listed_before_def)
qed

text \<open>C11. The transport summary names every supported family, lists every transport once, counts for
  each exactly the bindings of the routes that belong to it and the distinct routes they are of, and is
  sorted: transports with more bindings come first, and among equals the supported families come first, in the
  order of their list.\<close>

theorem transport_summary_complete:
  fixes routes defines "ts \<equiv> summarizeTransports routes"
  shows "distinct (map w_name ts) \<and> set SUPPORTED_TRANSPORT_FAMILIES \<subseteq> set (map w_name ts)
    \<and> (\<forall>t \<in> set ts. w_bindings t = length (pairs_of (w_name t) (route_bindings routes))
        \<and> w_routes t = card (fst ` set (pairs_of (w_name t) (route_bindings routes))))
    \<and> (\<forall>(i, b) \<in> set (route_bindings routes). transport_name b \<in> set (map w_name ts))
    \<and> sorted_wrt listed_before ts"
proof -
  define m0 where "m0 = map (\<lambda>family. (family, empty_counter)) SUPPORTED_TRANSPORT_FAMILIES"
  define m where "m = count_all (route_bindings routes) m0"
  define summary where "summary = (\<lambda>(name, value :: TransportCounter). \<lparr>w_bindings = k_bindings value, w_name = name,
    w_routes = length (k_routeIds value)\<rparr>)"
  have ts: "ts = js_sort transport_compare (map summary m)"
    by (simp add: ts_def summarizeTransports_def m_def m0_def summary_def)
  have name: "w_name (summary p) = fst p" for p by (cases p) (simp add: summary_def)
  have names: "w_name ` set ts = fst ` set m" by (simp add: ts image_image name)
  have m0: "v = empty_counter" if "map_of m0 n = Some v" for n v
    using map_of_SomeD [OF that] by (auto simp: m0_def)
  have d0: "distinct (map fst m0)" by (simp add: m0_def SUPPORTED_TRANSPORT_FAMILIES_def)
  have dm: "distinct (map fst m)" unfolding m_def by (rule distinct_count_all [OF d0])
  have c: "(case map_of m n of Some v \<Rightarrow> counts v (pairs_of n (route_bindings routes))
      | None \<Rightarrow> pairs_of n (route_bindings routes) = [] \<and> map_of m0 n = None)
    \<and> (map_of m0 n \<noteq> None \<longrightarrow> map_of m n \<noteq> None)" for n
    unfolding m_def by (rule count_all_counts) (rule m0)
  have "distinct (map w_name (map summary m))" using dm by (simp add: name comp_def)
  then have 1: "distinct (map w_name ts)" unfolding ts by (rule distinct_map_js_sort)
  have 2: "set SUPPORTED_TRANSPORT_FAMILIES \<subseteq> fst ` set m"
  proof
    fix n assume "n \<in> set SUPPORTED_TRANSPORT_FAMILIES"
    then have "map_of m0 n \<noteq> None" by (auto simp: m0_def SUPPORTED_TRANSPORT_FAMILIES_def)
    then have "map_of m n \<noteq> None" using c by blast
    then show "n \<in> fst ` set m" by (simp add: map_of_eq_None_iff)
  qed
  have 3: "w_bindings t = length (pairs_of (w_name t) (route_bindings routes))
      \<and> w_routes t = card (fst ` set (pairs_of (w_name t) (route_bindings routes)))" if "t \<in> set ts" for t
  proof -
    obtain q where q: "q \<in> set m" "t = summary q" using \<open>t \<in> set ts\<close> by (auto simp: ts)
    obtain n v where "q = (n, v)" by (cases q)
    with q have nv: "(n, v) \<in> set m" "t = summary (n, v)" by simp_all
    then have "map_of m n = Some v" using dm by simp
    then have "counts v (pairs_of n (route_bindings routes))" using c [of n] by simp
    then show ?thesis using nv(2) by (auto simp: counts_def summary_def distinct_card [symmetric])
  qed
  have 4: "transport_name b \<in> fst ` set m" if "(i, b) \<in> set (route_bindings routes)" for i b
  proof (rule ccontr)
    assume "transport_name b \<notin> fst ` set m"
    then have "map_of m (transport_name b) = None" by (simp add: map_of_eq_None_iff)
    then have "pairs_of (transport_name b) (route_bindings routes) = []" using c [of "transport_name b"] by simp
    with that show False by (auto simp: pairs_of_def filter_empty_conv)
  qed
  have "sorted_wrt (\<lambda>a b. transport_compare a b \<le> 0) ts" unfolding ts by (rule transport_cmp.sorted_js_sort)
  then have 5: "sorted_wrt listed_before ts" by (rule sorted_wrt_mono_rel [rotated]) (rule compare_listed_before)
  show ?thesis using 1 2 3 4 5 names by auto
qed

definition sample_route :: "string \<Rightarrow> string list \<Rightarrow> CommunicationRoute" where
  "sample_route ident transports = \<lparr>r_bindings = map (\<lambda>t. new_binding empty_binding t) transports,
     r_configPath = [], r_direction = [], r_id = ident, r_kind = Topic, r_messageType = [], r_module = [],
     r_name = [], r_status = Configured\<rparr>"

lemma transport_summary_complete_witness:
  "transport_name ''rmw_cyclonedds_cpp'' \<in> set (map w_name (summarizeTransports
     [sample_route ''a'' [''rmw_cyclonedds_cpp'', ''mqtt''], sample_route ''b'' [''dds'']]))"
proof -
  define routes where "routes = [sample_route ''a'' [''rmw_cyclonedds_cpp'', ''mqtt''], sample_route ''b'' [''dds'']]"
  have "(''a'', ''rmw_cyclonedds_cpp'') \<in> set (route_bindings routes)"
    by (simp add: routes_def route_bindings_def sample_route_def new_binding_def)
  then have "transport_name ''rmw_cyclonedds_cpp'' \<in> set (map w_name (summarizeTransports routes))"
    using transport_summary_complete [of routes] by blast
  then show ?thesis by (simp only: routes_def)
qed

subsection \<open>The cache under interleaving\<close>

text \<open>
  The dashboard as a step relation over one cache: the clock advances; a snapshot request that the
  cache does not answer starts reading the repository as it is; a request that has read it stores its
  value; a mutation changes the repository and drops the cached value. \<open>sn_version\<close> counts the
  mutations and stands for the contents; \<open>sn_lastWrite\<close> is the time of the last of them.
\<close>

record snapshot_state =
  sn_now :: int
  sn_version :: nat
  sn_lastWrite :: int
  sn_cached :: "(int \<times> nat) option"
  sn_running :: "(int \<times> nat) list"

inductive snapshot_step :: "snapshot_state \<Rightarrow> snapshot_state \<Rightarrow> bool" where
  tick: "0 \<le> d \<Longrightarrow> snapshot_step s (s\<lparr>sn_now := sn_now s + d\<rparr>)"
| request: "snapshot_request (sn_now s) (sn_cached s) = None \<Longrightarrow>
    snapshot_step s (s\<lparr>sn_running := (sn_now s, sn_version s) # sn_running s\<rparr>)"
| store: "(started, v) \<in> set (sn_running s) \<Longrightarrow>
    snapshot_step s (s\<lparr>sn_cached := snapshot_store started v,
      sn_running := remove1 (started, v) (sn_running s)\<rparr>)"
| mutate: "snapshot_step s (s\<lparr>sn_version := Suc (sn_version s), sn_lastWrite := sn_now s,
      sn_cached := None\<rparr>)"

inductive_cases snapshot_stepE: "snapshot_step s s'"

inductive snapshot_reachable :: "snapshot_state \<Rightarrow> bool" where
  initial: "snapshot_reachable \<lparr>sn_now = t, sn_version = 0, sn_lastWrite = t, sn_cached = None,
    sn_running = []\<rparr>"
| step: "snapshot_reachable s \<Longrightarrow> snapshot_step s s' \<Longrightarrow> snapshot_reachable s'"

definition recent :: "snapshot_state \<Rightarrow> int \<times> nat \<Rightarrow> bool" where
  "recent s x \<longleftrightarrow> fst x \<le> sn_now s \<and> (snd x = sn_version s \<or> fst x \<le> sn_lastWrite s)"

definition snapshot_inv :: "snapshot_state \<Rightarrow> bool" where
  "snapshot_inv s \<longleftrightarrow> sn_lastWrite s \<le> sn_now s
     \<and> (\<forall>x \<in> set (sn_running s). recent s x) \<and> (\<forall>x. sn_cached s = Some x \<longrightarrow> recent s x)"

lemma snapshot_inv_step: "snapshot_step s s' \<Longrightarrow> snapshot_inv s \<Longrightarrow> snapshot_inv s'"
proof (erule snapshot_stepE, goal_cases)
  case (1 d)
  then show ?case by (auto simp: snapshot_inv_def recent_def)
next
  case 2
  then show ?case by (auto simp: snapshot_inv_def recent_def)
next
  case (3 started v)
  then have "recent s (started, v)" by (auto simp: snapshot_inv_def)
  moreover have "recent s x" if "x \<in> set (remove1 (started, v) (sn_running s))" for x
    using 3 that notin_set_remove1 by (fastforce simp: snapshot_inv_def)
  ultimately show ?case using 3 by (auto simp: snapshot_inv_def snapshot_store_def recent_def)
next
  case 4
  then show ?case by (auto simp: snapshot_inv_def recent_def)
qed

lemma snapshot_reachable_inv: "snapshot_reachable s \<Longrightarrow> snapshot_inv s"
  by (induction rule: snapshot_reachable.induct)
    (auto simp: snapshot_inv_def [of "\<lparr>sn_now = _, sn_version = _, sn_lastWrite = _, sn_cached = _, sn_running = _\<rparr>"]
      intro: snapshot_inv_step)

text \<open>C10. In every reachable state, however requests and mutations interleave, a snapshot that the
  cache serves is the repository's current one, or less than the cache's lifetime (one second) has
  passed since the last mutation.\<close>

theorem stale_snapshot_bounded:
  assumes "snapshot_reachable s" "snapshot_request (sn_now s) (sn_cached s) = Some v"
  shows "v = sn_version s \<or> sn_now s - sn_lastWrite s < SNAPSHOT_CACHE_TTL_MS"
proof -
  obtain created where c: "sn_cached s = Some (created, v)"
    "sn_now s - created < SNAPSHOT_CACHE_TTL_MS"
    using assms(2) by (auto simp: snapshot_request_def split: option.splits if_splits)
  from snapshot_reachable_inv [OF assms(1)] c(1) have "recent s (created, v)"
    by (simp add: snapshot_inv_def)
  with c(2) show ?thesis by (auto simp: recent_def)
qed

text \<open>One request reads, a mutation happens, the request stores what it read.\<close>

definition racy_state :: "snapshot_state" where
  "racy_state = \<lparr>sn_now = 0, sn_version = 1, sn_lastWrite = 0, sn_cached = Some (0, 0), sn_running = []\<rparr>"

lemma racy_reachable: "snapshot_reachable racy_state"
proof -
  define s0 :: snapshot_state where "s0 = \<lparr>sn_now = 0, sn_version = 0, sn_lastWrite = 0, sn_cached = None,
    sn_running = []\<rparr>"
  define s1 where "s1 = s0\<lparr>sn_running := (sn_now s0, sn_version s0) # sn_running s0\<rparr>"
  define s2 where "s2 = s1\<lparr>sn_version := Suc (sn_version s1), sn_lastWrite := sn_now s1, sn_cached := None\<rparr>"
  have "snapshot_reachable s0" unfolding s0_def by (rule snapshot_reachable.initial)
  moreover have "snapshot_step s0 s1" unfolding s1_def
    by (rule snapshot_step.request) (simp add: s0_def snapshot_request_def)
  moreover have "snapshot_step s1 s2" unfolding s2_def by (rule snapshot_step.mutate)
  moreover have "snapshot_step s2 (s2\<lparr>sn_cached := snapshot_store 0 0,
      sn_running := remove1 (0, 0) (sn_running s2)\<rparr>)"
    by (rule snapshot_step.store) (simp add: s2_def s1_def s0_def)
  moreover have "s2\<lparr>sn_cached := snapshot_store 0 0, sn_running := remove1 (0, 0) (sn_running s2)\<rparr> = racy_state"
    by (simp add: s2_def s1_def s0_def snapshot_store_def racy_state_def)
  ultimately show ?thesis by (metis snapshot_reachable.step)
qed

lemma stale_snapshot_bounded_witness:
  "snapshot_request (sn_now racy_state) (sn_cached racy_state) = Some 0
    \<and> (0 = sn_version racy_state \<or> sn_now racy_state - sn_lastWrite racy_state < SNAPSHOT_CACHE_TTL_MS)"
proof -
  have r: "snapshot_request (sn_now racy_state) (sn_cached racy_state) = Some 0"
    by (simp add: racy_state_def snapshot_request_def SNAPSHOT_CACHE_TTL_MS_def)
  from stale_snapshot_bounded [OF racy_reachable r] r show ?thesis by simp
qed

text \<open>The bound is needed: there is a reachable state in which the cache serves a snapshot that
  was read before the last mutation, because a mutation drops the cached value but not the request
  that is still reading.\<close>

theorem stale_snapshot_reachable:
  "\<exists>s v. snapshot_reachable s \<and> snapshot_request (sn_now s) (sn_cached s) = Some v \<and> v < sn_version s"
  by (intro exI [of _ racy_state] exI [of _ 0] conjI racy_reachable)
    (simp_all add: racy_state_def snapshot_request_def SNAPSHOT_CACHE_TTL_MS_def)

subsection \<open>The robot catalog\<close>

lemma disjoint_filters:
  "(\<And>x. P x \<Longrightarrow> \<not> Q x) \<Longrightarrow> length (filter P xs) + length (filter Q xs) \<le> length xs"
proof (induction xs)
  case (Cons x xs)
  then show ?case by (cases "P x") auto
qed simp

lemma rmap_Inr_elem: "rmap f xs = Inr ys \<Longrightarrow> y \<in> set ys \<Longrightarrow> \<exists>x \<in> set xs. f x = Inr y"
  by (induction xs arbitrary: ys) (auto simp: rbind_def split: sum.splits)

lemma capability_facts:
  "s \<in> set (cp_signals (robotCapabilityFromValue v)) \<Longrightarrow> sg_name s \<noteq> []"
  "y \<in> set (cp_contracts (robotCapabilityFromValue v)) \<Longrightarrow> ct_path y \<noteq> [] \<or> ct_service y \<noteq> []"
  by (auto simp: robotCapabilityFromValue_def Let_def)

lemma profile_facts:
  "s \<in> set (rp_services (robotProfileFromValue v)) \<union> set (rp_plannedServices (robotProfileFromValue v)) \<Longrightarrow>
   ps_service s \<noteq> []"
  by (auto simp: robotProfileFromValue_def profile_services_def Let_def)

lemma robot_catalog_parts:
  assumes "readRobotProfiles h repoRoot now fs = Inr c"
  obtains rec all where
    "rc_capabilities c = js_sort (\<lambda>l r. h_localeCompare h (cp_id l) (cp_id r))
        (filter (\<lambda>c. cp_id c \<noteq> []) (map robotCapabilityFromValue
          (asUnknownArray (json_get rec ''capabilities''))))"
    "rc_profiles c = js_sort (\<lambda>l r. h_localeCompare h (rp_id l) (rp_id r)) (filter (\<lambda>p. rp_id p \<noteq> []) all)"
    "\<forall>p \<in> set all. \<exists>v. p = robotProfileFromValue v"
    "rc_activeProfiles c = length (filter (\<lambda>p. rp_status p = ''active'') (rc_profiles c))"
    "rc_templateProfiles c = length (filter (\<lambda>p. rp_status p = ''template'') (rc_profiles c))"
proof -
  define f where "f = (\<lambda>e :: string \<times> node. rbind (readJsonRecord h fs (path_join repoRoot ''deploy/robot-profiles'' @ [fst e]))
                  (\<lambda>r. Inr (robotProfileFromValue (JObject r))))"
  from assms obtain rec entries all where
    all: "rmap f (filter is_profile_entry entries) = Inr all" and
    c: "rc_capabilities c = js_sort (\<lambda>l r. h_localeCompare h (cp_id l) (cp_id r))
        (filter (\<lambda>c. cp_id c \<noteq> []) (map robotCapabilityFromValue
          (asUnknownArray (json_get rec ''capabilities''))))"
    "rc_profiles c = js_sort (\<lambda>l r. h_localeCompare h (rp_id l) (rp_id r)) (filter (\<lambda>p. rp_id p \<noteq> []) all)"
    "rc_activeProfiles c = length (filter (\<lambda>p. rp_status p = ''active'') (rc_profiles c))"
    "rc_templateProfiles c = length (filter (\<lambda>p. rp_status p = ''template'') (rc_profiles c))"
    unfolding readRobotProfiles_def Let_def f_def rbind_def by (auto split: sum.splits)
  have "\<exists>v. p = robotProfileFromValue v" if "p \<in> set all" for p
  proof -
    obtain e where "f e = Inr p" using rmap_Inr_elem [OF all \<open>p \<in> set all\<close>] by blast
    then show ?thesis by (cases "readJsonRecord h fs (path_join repoRoot ''deploy/robot-profiles'' @ [fst e])")
      (auto simp: f_def)
  qed
  with c that show thesis by blast
qed

text \<open>C26. If the robot files can be read, whatever JSON they hold, every capability and profile of
  the catalog has an id, every signal a name, every contract a path or service, every listed service a
  name, both lists are sorted by id, and active and template profiles are at most all of them.\<close>

theorem robot_catalog_well_formed:
  assumes cmp: "comparator (h_localeCompare h)" and r: "readRobotProfiles h repoRoot now fs = Inr c"
  shows "(\<forall>x \<in> set (rc_capabilities c). cp_id x \<noteq> [] \<and> (\<forall>s \<in> set (cp_signals x). sg_name s \<noteq> [])
        \<and> (\<forall>y \<in> set (cp_contracts x). ct_path y \<noteq> [] \<or> ct_service y \<noteq> []))
    \<and> (\<forall>p \<in> set (rc_profiles c). rp_id p \<noteq> []
        \<and> (\<forall>s \<in> set (rp_services p) \<union> set (rp_plannedServices p). ps_service s \<noteq> []))
    \<and> sorted_wrt (\<lambda>a b. h_localeCompare h (cp_id a) (cp_id b) \<le> 0) (rc_capabilities c)
    \<and> sorted_wrt (\<lambda>a b. h_localeCompare h (rp_id a) (rp_id b) \<le> 0) (rc_profiles c)
    \<and> rc_activeProfiles c + rc_templateProfiles c \<le> length (rc_profiles c)"
proof -
  from r obtain rec all where caps: "rc_capabilities c = js_sort (\<lambda>l r. h_localeCompare h (cp_id l) (cp_id r))
        (filter (\<lambda>c. cp_id c \<noteq> []) (map robotCapabilityFromValue
          (asUnknownArray (json_get rec ''capabilities''))))"
    and profs: "rc_profiles c = js_sort (\<lambda>l r. h_localeCompare h (rp_id l) (rp_id r))
        (filter (\<lambda>p. rp_id p \<noteq> []) all)"
    and from_json: "\<forall>p \<in> set all. \<exists>v. p = robotProfileFromValue v"
    and act: "rc_activeProfiles c = length (filter (\<lambda>p. rp_status p = ''active'') (rc_profiles c))"
    and tmpl: "rc_templateProfiles c = length (filter (\<lambda>p. rp_status p = ''template'') (rc_profiles c))"
    by (rule robot_catalog_parts)
  note sorted = comparator.sorted_js_sort [OF comparator.comparator_on [OF cmp]]
  have "rc_activeProfiles c + rc_templateProfiles c \<le> length (rc_profiles c)"
    unfolding act tmpl by (rule disjoint_filters) auto
  moreover have "\<forall>x \<in> set (rc_capabilities c). cp_id x \<noteq> [] \<and> (\<forall>s \<in> set (cp_signals x). sg_name s \<noteq> [])
        \<and> (\<forall>y \<in> set (cp_contracts x). ct_path y \<noteq> [] \<or> ct_service y \<noteq> [])"
    unfolding caps by (auto simp: capability_facts dest: capability_facts(2))
  moreover have "\<forall>p \<in> set (rc_profiles c). rp_id p \<noteq> []
        \<and> (\<forall>s \<in> set (rp_services p) \<union> set (rp_plannedServices p). ps_service s \<noteq> [])"
    using from_json profile_facts unfolding profs by fastforce
  moreover have "sorted_wrt (\<lambda>a b. h_localeCompare h (cp_id a) (cp_id b) \<le> 0) (rc_capabilities c)"
    unfolding caps by (rule sorted)
  moreover have "sorted_wrt (\<lambda>a b. h_localeCompare h (rp_id a) (rp_id b) \<le> 0) (rc_profiles c)"
    unfolding profs by (rule sorted)
  ultimately show ?thesis by blast
qed

definition sample_host :: "host" where
  "sample_host = \<lparr>h_localeCompare = unit_compare,
     h_jsonParse = (\<lambda>t. Inr (if t = ''P'' then JObject [(''id'', JString ''g1''), (''status'', JString ''active'')]
       else JObject [(''capabilities'', JArray [JObject [(''id'', JString ''nav'')], JNull,
         JObject [(''id'', JString ''arm''), (''signals'', JArray [JBool True])]])]))\<rparr>"

definition robot_tree :: "node" where
  "robot_tree = Dir [(''pkg'', Dir [(''robot'', Dir [(''capabilities.json'', File ''C'')])]),
     (''deploy'', Dir [(''robot-profiles'', Dir [(''g1.json'', File ''P''), (''notes.txt'', File ''x'')])])]"

lemma robot_catalog_well_formed_witness:
  "\<exists>c. readRobotProfiles sample_host [] ''now'' robot_tree = Inr c
    \<and> map cp_id (rc_capabilities c) = [''arm'', ''nav''] \<and> map rp_id (rc_profiles c) = [''g1'']
    \<and> rc_activeProfiles c + rc_templateProfiles c \<le> length (rc_profiles c)"
proof -
  define c where "c = projr (readRobotProfiles sample_host [] ''now'' robot_tree)"
  have r: "readRobotProfiles sample_host [] ''now'' robot_tree = Inr c" unfolding c_def by code_simp
  have n: "map cp_id (rc_capabilities c) = [''arm'', ''nav'']" "map rp_id (rc_profiles c) = [''g1'']"
    unfolding c_def by code_simp+
  have "comparator (h_localeCompare sample_host)"
    by (simp add: sample_host_def unit_cmp.comparator_axioms)
  from robot_catalog_well_formed [OF this r]
  have "rc_activeProfiles c + rc_templateProfiles c \<le> length (rc_profiles c)" by (elim conjE)
  with r n show ?thesis by (intro exI [of _ c] conjI)
qed

end
