(* ===== verification/Handlers.thy ===== *)
theory Handlers
  imports Snapshot
begin

text \<open>
  The mutations of the dashboard's router
  (\<open>dashboard/packages/api/src/routers/dashboard.ts\<close>). A handler runs on the file system and the
  snapshot cache; every call that may throw can end it, with the writes made so far in place. The
  command runner (\<open>node bin/...\<close>) is a parameter that may change the file system.
\<close>

record dash_state =
  ds_fs :: node
  ds_cached :: "(int \<times> DashboardSnapshot) option"

record dash_env =
  e_host :: host
  e_rootVar :: "string option"
  e_cwd :: path
  e_exec :: "string list \<Rightarrow> node \<Rightarrow> (string \<times> string) result \<times> node"

type_synonym 'a io = "dash_state \<Rightarrow> 'a result \<times> dash_state"

definition io_bind :: "'a io \<Rightarrow> ('a \<Rightarrow> 'b io) \<Rightarrow> 'b io" where
  "io_bind m f st = (case m st of (Inl e, st') \<Rightarrow> (Inl e, st') | (Inr x, st') \<Rightarrow> f x st')"

definition io_lift :: "'a result \<Rightarrow> 'a io" where
  "io_lift r st = (r, st)"

definition io_read :: "(node \<Rightarrow> 'a result) \<Rightarrow> 'a io" where
  "io_read f st = (f (ds_fs st), st)"

definition io_change :: "(node \<Rightarrow> node result) \<Rightarrow> unit io" where
  "io_change f st =
     (case f (ds_fs st) of Inl e \<Rightarrow> (Inl e, st) | Inr fs \<Rightarrow> (Inr (), st\<lparr>ds_fs := fs\<rparr>))"

definition io_invalidate :: "unit io" where
  "io_invalidate st = (Inr (), st\<lparr>ds_cached := None\<rparr>)"

definition io_write :: "path \<Rightarrow> string \<Rightarrow> unit io" where
  "io_write p text = io_change (\<lambda>fs. writeFile fs p text)"

definition io_mkdir :: "path \<Rightarrow> unit io" where
  "io_mkdir p = io_change (\<lambda>fs. mkdir_rec fs p)"

definition io_exec :: "dash_env \<Rightarrow> string list \<Rightarrow> (string \<times> string) io" where
  "io_exec env args st =
     (let (r, fs) = e_exec env args (ds_fs st) in (r, st\<lparr>ds_fs := fs\<rparr>))"

definition io_root :: "dash_env \<Rightarrow> path io" where
  "io_root env = io_read (\<lambda>fs. Inr (findRepoRoot (e_rootVar env) (e_cwd env) fs))"

text \<open>The common end of the handlers: drop the cached snapshot and read the module anew.\<close>

definition finish_module :: "dash_env \<Rightarrow> string \<Rightarrow> ModuleDetail io" where
  "finish_module env moduleName =
     io_bind io_invalidate (\<lambda>_. io_bind (io_root env) (\<lambda>repoRoot.
       io_read (readModuleDetail (e_host env) repoRoot moduleName)))"

subsection \<open>Editing and deleting\<close>

record communicationItemInput =
  ci_moduleName :: string
  ci_definition :: "string option"
  ci_kind :: RouteKind
  ci_name :: string
  ci_path :: string
  ci_source :: CommunicationSource

definition kind_section :: "RouteKind \<Rightarrow> communicationSection" where
  "kind_section kind = (if kind = Service then Services else Topics)"

definition edited_text :: "communicationItemInput \<Rightarrow> string \<Rightarrow> string result" where
  "edited_text input text =
     (let sec = kind_section (ci_kind input)
      in if ci_source input = Config
         then replaceYamlRouteBlock text sec (ci_name input) (ci_definition input)
         else replaceTopLevelYamlBlock text sec (ci_name input) (ci_definition input))"

definition writeCommunicationItem :: "dash_env \<Rightarrow> communicationItemInput \<Rightarrow> ModuleDetail io" where
  "writeCommunicationItem env input =
     io_bind (io_root env) (\<lambda>repoRoot.
     io_bind (io_lift (absoluteRepoPath repoRoot (ci_path input) [MODULE_SERVICE_ROOT, IDL_ROOT])) (\<lambda>filePath.
     io_bind (io_read (\<lambda>fs. readFile fs filePath)) (\<lambda>text.
     io_bind (io_lift (edited_text input text)) (\<lambda>nextText.
     io_bind (io_write filePath nextText) (\<lambda>_.
       finish_module env (ci_moduleName input))))))"

record dataFormatItemInput =
  fi_moduleName :: string
  fi_definition :: "string option"
  fi_kind :: DataFormatKind
  fi_name :: string
  fi_path :: string

definition ros2_package_dir :: "path \<Rightarrow> string \<Rightarrow> path" where
  "ros2_package_dir repoRoot serviceName =
     path_join repoRoot (join ''/'' [IDL_ROOT, serviceName, ''ros2'', serviceName])"

definition ros2_interface_files :: "host \<Rightarrow> path \<Rightarrow> node \<Rightarrow> string list" where
  "ros2_interface_files h packageDir fs =
     js_sort (h_localeCompare h)
       (map (\<lambda>f. ''msg/'' @ f)
          (listFilesWithExtension (h_localeCompare h) fs (packageDir @ [''msg'']) ''.msg'')
        @ map (\<lambda>f. ''srv/'' @ f)
          (listFilesWithExtension (h_localeCompare h) fs (packageDir @ [''srv'']) ''.srv''))"

definition writeRos2PackageMetadata :: "dash_env \<Rightarrow> path \<Rightarrow> string \<Rightarrow> unit io" where
  "writeRos2PackageMetadata env repoRoot serviceName =
     (let h = e_host env;
          packageDir = ros2_package_dir repoRoot serviceName;
          cmakePath = packageDir @ [''CMakeLists.txt''];
          packageXmlPath = packageDir @ [''package.xml'']
      in io_bind (io_read (\<lambda>fs. Inr (ros2_interface_files h packageDir fs))) (\<lambda>interfaceFiles.
         if interfaceFiles = []
         then io_bind (io_change (\<lambda>fs. rm_file True fs cmakePath)) (\<lambda>_.
                io_change (\<lambda>fs. rm_file True fs packageXmlPath))
         else
           io_bind (io_read (\<lambda>fs. ros2InterfaceDependencies (h_localeCompare h) fs packageDir
             interfaceFiles serviceName)) (\<lambda>dependencies.
           io_bind (io_write cmakePath
             (renderRos2PackageCMake serviceName interfaceFiles dependencies)) (\<lambda>_.
             io_write packageXmlPath (renderRos2PackageXml serviceName dependencies)))))"

definition write_format_file :: "dataFormatItemInput \<Rightarrow> path \<Rightarrow> unit io" where
  "write_format_file input filePath =
     (if fi_kind input = Proto
      then io_bind (io_read (\<lambda>fs. readFile fs filePath)) (\<lambda>text.
           io_bind (io_lift (replaceProtoMessageBlock text (fi_name input) (fi_definition input)))
             (io_write filePath))
      else case fi_definition input of
        Some d \<Rightarrow> if d \<noteq> [] then io_write filePath (trimEnd d @ nl)
                  else io_change (\<lambda>fs. rm_file False fs filePath)
      | None \<Rightarrow> io_change (\<lambda>fs. rm_file False fs filePath))"

definition writeDataFormatItem :: "dash_env \<Rightarrow> dataFormatItemInput \<Rightarrow> ModuleDetail io" where
  "writeDataFormatItem env input =
     io_bind (io_root env) (\<lambda>repoRoot.
     io_bind (io_read (readModuleProject (e_host env) repoRoot (fi_moduleName input))) (\<lambda>project.
     io_bind (io_lift (absoluteRepoPath repoRoot (fi_path input) [IDL_ROOT])) (\<lambda>filePath.
     io_bind (write_format_file input filePath) (\<lambda>_.
     io_bind (if fi_kind input = Msg \<or> fi_kind input = Srv
        then writeRos2PackageMetadata env repoRoot (basename (u_root project))
        else io_lift (Inr ())) (\<lambda>_.
       finish_module env (fi_moduleName input))))))"

subsection \<open>Creating data formats\<close>

definition dataFormatFilePath :: "DataFormatKind \<Rightarrow> string \<Rightarrow> path \<Rightarrow> string \<Rightarrow> path" where
  "dataFormatFilePath kind name repoRoot serviceName =
     path_join repoRoot (join ''/''
       (case kind of
          Proto \<Rightarrow> [IDL_ROOT, serviceName, ''pb'', serviceName @ ''.proto'']
        | Dds_Idl \<Rightarrow> [IDL_ROOT, serviceName, ''dds'', serviceName, name @ ''.idl'']
        | _ \<Rightarrow> [IDL_ROOT, serviceName, ''ros2'', serviceName, format_word kind,
                name @ ''.'' @ format_word kind]))"

definition new_proto_text :: "string \<Rightarrow> string" where
  "new_proto_text serviceName = join_lines [''syntax = '' @ quoted ''proto3'' @ '';'', [],
     ''package pacific_rim.'' @ serviceName @ ''.protocols.pb;'', []]"

definition store_definition ::
  "dash_env \<Rightarrow> path \<Rightarrow> string \<Rightarrow> DataFormatKind \<Rightarrow> string \<Rightarrow> string \<Rightarrow> path \<Rightarrow> unit io" where
  "store_definition env repoRoot serviceName kind name dfn filePath =
     (if kind = Proto
      then io_bind (io_read (\<lambda>fs. if existsSync fs filePath then readFile fs filePath
             else Inr (new_proto_text serviceName))) (\<lambda>text.
           io_bind (io_lift (appendProtoMessageBlock text name dfn)) (io_write filePath))
      else io_bind (io_read (\<lambda>fs. if existsSync fs filePath
             then Inl (format_word kind @ '' '' @ quoted name @ '' already exists.'') else Inr ())) (\<lambda>_.
           io_bind (io_write filePath (trimEnd dfn @ nl)) (\<lambda>_.
             if kind = Msg \<or> kind = Srv then writeRos2PackageMetadata env repoRoot serviceName
             else io_lift (Inr ()))))"

definition createDataFormatItem :: "dash_env \<Rightarrow> createDataFormatInput \<Rightarrow> ModuleDetail io" where
  "createDataFormatItem env input =
     io_bind (io_root env) (\<lambda>repoRoot.
     io_bind (io_read (readModuleProject (e_host env) repoRoot (c_moduleName input))) (\<lambda>project.
     let serviceName = basename (u_root project); kind = c_kind input
     in io_bind (io_lift (validateDataFormatName (c_name input))) (\<lambda>name.
        io_bind (io_lift (if kind \<noteq> Srv \<and> c_fields input = []
          then Inl (format_word kind @ '' requires at least one field.'') else Inr ())) (\<lambda>_.
        io_bind (io_lift (renderDataFormatDefinition input)) (\<lambda>dfn.
        let filePath = dataFormatFilePath kind name repoRoot serviceName
        in io_bind (io_mkdir (butlast filePath)) (\<lambda>_.
           io_bind (store_definition env repoRoot serviceName kind name dfn filePath) (\<lambda>_.
             finish_module env (c_moduleName input))))))))"

subsection \<open>Creating routes\<close>

record createConsumerCommunicationInput =
  cc_moduleName :: string
  cc_kind :: RouteKind
  cc_providerService :: string
  cc_routeName :: string

text \<open>The block that a consumer's configuration gets.\<close>

definition consumer_block :: "createConsumerCommunicationInput \<Rightarrow> string list \<Rightarrow> string" where
  "consumer_block input middlewares =
     join_lines
       ([''    '' @ cc_routeName input @ '':'',
         ''      '' @ (if cc_kind input = Service then ''service_ref'' else ''topic_ref'') @ '': ''
           @ routeReference (cc_providerService input) (cc_routeName input),
         ''      direction: '' @ (if cc_kind input = Service then ''client'' else ''subscribe''),
         (if middlewares \<noteq> [] then ''      middlewares:'' else [])]
        @ map (\<lambda>m. ''        - '' @ m) middlewares)"

definition route_middlewares :: "ModuleCommunicationItem \<Rightarrow> string list" where
  "route_middlewares publicRoute =
     (if i_transportFamilies publicRoute \<noteq> []
      then map family_word (i_transportFamilies publicRoute) else i_transports publicRoute)"

definition find_public_route ::
  "(string \<times> ModuleCommunicationItem list) list \<Rightarrow> createConsumerCommunicationInput \<Rightarrow>
   ModuleCommunicationItem result" where
  "find_public_route publicCatalog input =
     (case Option.bind (find (\<lambda>(service, is). service = cc_providerService input) publicCatalog)
        (\<lambda>(service, is). find (\<lambda>i. i_kind i = cc_kind input \<and> i_name i = cc_routeName input) is) of
        Some publicRoute \<Rightarrow> Inr publicRoute
      | None \<Rightarrow> Inl (''Unknown public '' @ kind_word (cc_kind input) @ '' ''
          @ quoted (routeReference (cc_providerService input) (cc_routeName input)) @ ''.''))"

definition config_target :: "path \<Rightarrow> string \<Rightarrow> node \<Rightarrow> path" where
  "config_target repoRoot moduleRoot fs =
     nullish (findModuleConfigPath fs repoRoot moduleRoot)
       (path_join (path_join repoRoot moduleRoot) ''config/config.yaml'')"

definition read_or_empty :: "path \<Rightarrow> node \<Rightarrow> string result" where
  "read_or_empty p fs = (if existsSync fs p then readFile fs p else Inr [])"

definition createConsumerCommunicationItem ::
  "dash_env \<Rightarrow> createConsumerCommunicationInput \<Rightarrow> ModuleDetail io" where
  "createConsumerCommunicationItem env input =
     io_bind (io_root env) (\<lambda>repoRoot.
     io_bind (io_read (readModuleProject (e_host env) repoRoot (cc_moduleName input))) (\<lambda>project.
     let serviceName = basename (u_root project)
     in io_bind (io_lift (if cc_providerService input = serviceName
          then Inl ''Consumer route must reference another service.'' else Inr ())) (\<lambda>_.
        io_bind (io_read (readPublicInterfaceCatalog (e_host env) repoRoot)) (\<lambda>publicCatalog.
        io_bind (io_lift (find_public_route publicCatalog input)) (\<lambda>publicRoute.
        io_bind (io_read (\<lambda>fs. Inr (config_target repoRoot (u_root project) fs))) (\<lambda>configPath.
        io_bind (io_read (read_or_empty configPath)) (\<lambda>existingText.
        io_bind (io_mkdir (butlast configPath)) (\<lambda>_.
        io_bind (io_lift (appendYamlRouteBlock existingText (kind_section (cc_kind input))
          (cc_routeName input) (consumer_block input (route_middlewares publicRoute)))) (\<lambda>nextText.
        io_bind (io_write configPath nextText) (\<lambda>_.
          finish_module env (cc_moduleName input)))))))))))"

record createProviderCommunicationInput =
  cv_moduleName :: string
  cv_communication :: TransportFamily
  cv_dataService :: string
  cv_format :: DataFormatKind
  cv_inputName :: string
  cv_kind :: RouteKind
  cv_name :: string
  cv_outputName :: "string option"

definition validateProviderCommunicationInput ::
  "createProviderCommunicationInput \<Rightarrow> string \<Rightarrow> unit result" where
  "validateProviderCommunicationInput input serviceName =
     (if cv_dataService input = ''common''
      then Inl ''common is reserved for infra and cannot own module routes.''
      else if cv_dataService input \<noteq> serviceName
      then Inl ''Provider routes must use data formats owned by this service.''
      else if cv_kind input = Service \<and> cv_format input = Msg
      then Inl ''Service routes must use srv, proto, or dds_idl data formats.''
      else if cv_kind input = Topic \<and> cv_format input = Srv
      then Inl ''Topic routes must use msg, proto, or dds_idl data formats.''
      else if cv_format input = Dds_Idl \<and> cv_communication input \<notin> {Cyclonedds, Fastdds}
      then Inl ''DDS IDL routes must use cyclonedds or fastdds middleware.''
      else Inr ())"

definition providerRouteAddressLine ::
  "TransportFamily \<Rightarrow> RouteKind \<Rightarrow> string \<Rightarrow> string \<Rightarrow> string" where
  "providerRouteAddressLine communication kind serviceName routeName =
     (let address = routeReference serviceName routeName
      in case communication of
           Nats \<Rightarrow> ''      nats: robot.'' @ (if kind = Service then ''rpc'' else ''topic'') @ ''.'' @ address
         | Ros2 \<Rightarrow> ''      ros2: '' @ ros2RouteAddress serviceName routeName
         | Fastdds \<Rightarrow> ''      fastdds: '' @ address
         | Cyclonedds \<Rightarrow> ''      cyclonedds: '' @ address)"

definition response_type ::
  "createProviderCommunicationInput \<Rightarrow> ModuleDataFormatItem option \<Rightarrow> string" where
  "response_type input outputFormat =
     (case outputFormat of
        Some f \<Rightarrow> if cv_kind input = Service \<and> cv_format input = Proto
                  then publicTypeFromDataFormat f (cv_dataService input) else []
      | None \<Rightarrow> [])"

definition provider_block_lines ::
  "createProviderCommunicationInput \<Rightarrow> ModuleDataFormatItem \<Rightarrow> ModuleDataFormatItem option \<Rightarrow>
   string \<Rightarrow> string \<Rightarrow> string list" where
  "provider_block_lines input inputFormat outputFormat routeName serviceName =
     (let service = (cv_kind input = Service);
          responseType = response_type input outputFormat
      in [''  '' @ routeName @ '':'',
          ''    role: '' @ (if service then ''server'' else ''publisher''),
          ''    direction: '' @ (if service then ''server'' else ''publish''),
          ''    data: '' @ format_word (cv_format input),
          ''    type: '' @ publicTypeFromDataFormat inputFormat (cv_dataService input),
          (if responseType \<noteq> [] then ''    response_type: '' @ responseType else []),
          ''    addresses:'',
          providerRouteAddressLine (cv_communication input) (cv_kind input) serviceName routeName])"

definition providerPublicRouteBlock ::
  "createProviderCommunicationInput \<Rightarrow> ModuleDataFormatItem \<Rightarrow> ModuleDataFormatItem option \<Rightarrow>
   string \<Rightarrow> string \<Rightarrow> string" where
  "providerPublicRouteBlock input inputFormat outputFormat routeName serviceName =
     join_lines (filter (\<lambda>l. l \<noteq> [])
       (provider_block_lines input inputFormat outputFormat routeName serviceName))"

definition find_format ::
  "(string \<times> ModuleDataFormatItem list) list \<Rightarrow> createProviderCommunicationInput \<Rightarrow> string option \<Rightarrow>
   ModuleDataFormatItem option" where
  "find_format catalog input name =
     Option.bind (find (\<lambda>(service, fs). service = cv_dataService input) catalog)
       (\<lambda>(service, fs). find (\<lambda>f. m_kind f = cv_format input \<and> Some (m_name f) = name) fs)"

definition provider_formats ::
  "(string \<times> ModuleDataFormatItem list) list \<Rightarrow> createProviderCommunicationInput \<Rightarrow>
   (ModuleDataFormatItem \<times> ModuleDataFormatItem option) result" where
  "provider_formats catalog input =
     (let outputFormat = find_format catalog input (cv_outputName input) in
      case find_format catalog input (Some (cv_inputName input)) of
        None \<Rightarrow> Inl (''Unknown '' @ format_word (cv_format input) @ '' data format ''
          @ quoted (cv_dataService input @ ''.'' @ cv_inputName input) @ ''.'')
      | Some inputFormat \<Rightarrow>
          if cv_kind input = Service \<and> cv_format input = Proto \<and> outputFormat = None
          then Inl ''Proto service routes require both input and output types.''
          else Inr (inputFormat, outputFormat))"

definition createProviderCommunicationItem ::
  "dash_env \<Rightarrow> createProviderCommunicationInput \<Rightarrow> ModuleDetail io" where
  "createProviderCommunicationItem env input =
     io_bind (io_root env) (\<lambda>repoRoot.
     io_bind (io_read (readModuleProject (e_host env) repoRoot (cv_moduleName input))) (\<lambda>project.
     let serviceName = basename (u_root project)
     in io_bind (io_lift (validateRouteName (cv_name input))) (\<lambda>routeName.
        io_bind (io_lift (validateProviderCommunicationInput input serviceName)) (\<lambda>_.
        io_bind (io_read (readDataFormatCatalog (e_host env) repoRoot)) (\<lambda>catalog.
        io_bind (io_lift (provider_formats catalog input)) (\<lambda>(inputFormat, outputFormat).
        let publicPath = public_path repoRoot serviceName
        in io_bind (io_mkdir (butlast publicPath)) (\<lambda>_.
           io_bind (io_read (read_or_empty publicPath)) (\<lambda>publicText.
           io_bind (io_lift (appendTopLevelYamlRouteBlock publicText (kind_section (cv_kind input))
             routeName (providerPublicRouteBlock input inputFormat outputFormat routeName serviceName)))
             (\<lambda>nextPublicText.
           io_bind (io_write publicPath nextPublicText) (\<lambda>_.
             finish_module env (cv_moduleName input)))))))))))"

subsection \<open>Commands\<close>

record createModuleInput =
  cm_name :: string
  cm_ros2 :: "string option"
  cm_ros2Version :: "string option"

record command_output =
  co_command :: string
  co_moduleRoot :: "string option"
  co_stderr :: string
  co_stdout :: string

definition option_args :: "string \<Rightarrow> string option \<Rightarrow> string list" where
  "option_args flag v = (case v of None \<Rightarrow> [] | Some x \<Rightarrow> if x = [] then [] else [flag, x])"

definition createModuleFromInput :: "dash_env \<Rightarrow> createModuleInput \<Rightarrow> command_output io" where
  "createModuleFromInput env input =
     io_bind (io_lift (validateModuleName (cm_name input))) (\<lambda>name.
     let args = [''bin/create.mjs'', ''module'', name] @ option_args ''--ros2'' (cm_ros2 input)
           @ option_args ''--ros2-version'' (cm_ros2Version input)
     in io_bind (io_exec env args) (\<lambda>(out, err).
        io_bind io_invalidate (\<lambda>_.
          io_lift (Inr \<lparr>co_command = ''node '' @ join '' '' args,
            co_moduleRoot = Some (normalizePath (join_relative [MODULE_SERVICE_ROOT, toServiceName name])),
            co_stderr = err, co_stdout = out\<rparr>))))"

definition buildModule :: "dash_env \<Rightarrow> string \<Rightarrow> command_output io" where
  "buildModule env moduleName =
     io_bind (io_root env) (\<lambda>repoRoot.
     io_bind (io_read (readModuleProject (e_host env) repoRoot moduleName)) (\<lambda>project.
     let args = [''bin/generate-interface-scaffold.mjs'', u_root project]
     in io_bind (io_exec env args) (\<lambda>(out, err).
        io_bind io_invalidate (\<lambda>_.
          io_lift (Inr \<lparr>co_command = ''node '' @ join '' '' args, co_moduleRoot = None,
            co_stderr = err, co_stdout = out\<rparr>)))))"

text \<open>The query \<open>snapshot\<close>, run without interruption.\<close>

definition snapshot_query ::
  "dash_env \<Rightarrow> (string \<Rightarrow> int option) \<Rightarrow> string \<Rightarrow> int \<Rightarrow> DashboardSnapshot io" where
  "snapshot_query env fetch generatedAt now st =
     (let repoRoot = findRepoRoot (e_rootVar env) (e_cwd env) (ds_fs st);
          (r, cached) = createSnapshot now
            (createSnapshotData (e_host env) repoRoot fetch generatedAt (ds_fs st)) (ds_cached st)
      in (r, st\<lparr>ds_cached := cached\<rparr>))"

end
