(* ===== verification/Handlers_Props.thy ===== *)
theory Handlers_Props
  imports Handlers Yaml_Store Repo_Files_Props
begin

text \<open>
  The handlers against the contracts of what they call: the blocks they generate are legal blocks
  of the YAML editor, so the map laws of \<open>Yaml_Store\<close> and the file laws of
  \<open>Repo_Files_Props\<close> give the effect of a whole request on the repository.
\<close>

subsection \<open>Lines of generated blocks\<close>

lemma stripInlineComment_spaces:
  "\<not> is_ws c \<Longrightarrow> c \<noteq> CHR ''#'' \<Longrightarrow>
   stripInlineComment (replicate k SP @ c # r) = replicate k SP @ c # stripInlineComment r"
proof (induction k)
  case (Suc k)
  have "dropWhile is_ws (replicate k SP @ c # r) = c # r" using Suc.prems by (induction k) simp_all
  with Suc show ?case by (simp add: comment_tail_def)
qed simp

lemma lineInfo_indented:
  assumes "\<not> is_ws c" "c \<noteq> CHR ''#''"
  shows "indent (lineInfo (replicate k SP @ c # r)) = k"
    and "trimmed (lineInfo (replicate k SP @ c # r)) = c # trimEnd (stripInlineComment r)"
proof -
  have c: "c \<noteq> SP" using assms(1) by auto
  have "takeWhile (\<lambda>x. x = SP) (replicate k SP @ c # s) = replicate k SP" for s
    using c by (induction k) simp_all
  moreover have "trim (replicate k SP @ c # s) = c # trimEnd s" for s
  proof -
    have "trimStart (replicate k SP @ c # s) = c # s"
      unfolding trimStart_def using assms(1) by (induction k) simp_all
    then show ?thesis using assms(1) by (simp add: trim_def trimEnd_Cons)
  qed
  ultimately show "indent (lineInfo (replicate k SP @ c # r)) = k"
    and "trimmed (lineInfo (replicate k SP @ c # r)) = c # trimEnd (stripInlineComment r)"
    using stripInlineComment_spaces [OF assms, of k r]
    by (simp_all add: lineInfo_def Let_def countLeadingSpaces_def)
qed

text \<open>A line of a block: white space of a given depth, then a letter.\<close>

definition line_at :: "nat \<Rightarrow> string \<Rightarrow> bool" where
  "line_at k l \<longleftrightarrow> (\<exists>c r. l = replicate k SP @ c # r \<and> \<not> is_ws c \<and> c \<noteq> CHR ''#'')"

lemma line_at_facts:
  assumes "line_at k l" "i < k"
  shows "\<not> stops i l" "\<not> blank l"
  using assms lineInfo_indented by (auto simp: line_at_def stops_def)

lemma line_at_I: "\<not> is_ws c \<Longrightarrow> c \<noteq> CHR ''#'' \<Longrightarrow> line_at k (replicate k SP @ c # r)"
  by (auto simp: line_at_def)

lemma route_char_facts:
  assumes "is_route_char c" shows "\<not> is_ws c" "c \<noteq> CHR ''#''"
  using assms digit_not_ws alpha_not_ws
  by (auto simp: is_route_char_def is_key_char_def is_ws_def is_alpha_def is_upper_def is_lower_def is_digit_def)

lemma key_line_child:
  assumes "n \<noteq> []" "\<forall>c \<in> set n. is_route_char c"
  shows "is_child k n (replicate k SP @ n @ '':'')" "clean_line (replicate k SP @ n @ '':'')"
proof -
  obtain c r where n: "n = c # r" using assms(1) by (cases n) auto
  have c: "\<not> is_ws c" "c \<noteq> CHR ''#''" using assms(2) route_char_facts by (auto simp: n)
  have "CHR ''#'' \<notin> set (r @ '':'')" using assms(2) route_char_facts(2) by (auto simp: n)
  then have "stripInlineComment (r @ '':'') = r @ '':''" by (rule no_hash_no_comment)
  moreover have "trimEnd (r @ '':'') = r @ '':''" by (rule trimEnd_ident) (simp add: is_ws_def)
  ultimately show "is_child k n (replicate k SP @ n @ '':'')"
    using lineInfo_indented [OF c, of k "r @ '':''"] by (simp add: is_child_def n)
  have "\<not> is_ws x" if "x \<in> set n" for x using assms(2) route_char_facts(1) that by blast
  then have "LF \<notin> set n" "CR \<notin> set n" by fastforce+
  then show "clean_line (replicate k SP @ n @ '':'')" by (auto simp: clean_line_def)
qed

lemma generated_block:
  assumes n: "n \<noteq> []" "\<forall>c \<in> set n. is_route_char c"
    and body: "\<forall>l \<in> set ls. clean_line l \<and> (\<exists>j > k. line_at j l)"
    and last: "ls \<noteq> []" "\<not> is_ws (last (last ls))"
  shows "wf_block k n (join_lines ((replicate k SP @ n @ '':'') # ls))"
    "split_lines (trimEnd (join_lines ((replicate k SP @ n @ '':'') # ls))) = (replicate k SP @ n @ '':'') # ls"
proof -
  define h where "h = replicate k SP @ n @ '':''"
  have cl: "clean_lines (h # ls)"
    using key_line_child(2) [OF n] body by (auto simp: h_def clean_lines_def)
  have ne: "l \<noteq> []" if "l \<in> set ls" for l using body that by (fastforce simp: line_at_def)
  have "last (join_lines (h # ls)) = last (last ls) \<and> join_lines (h # ls) \<noteq> []"
  proof -
    obtain as l where ls: "ls = as @ [l]" using last(1) by (cases ls rule: rev_cases) auto
    have "join_lines (h # ls) = join_lines (h # as) @ nl @ l"
      using join_append [of "h # as" "[l]" nl] by (simp add: ls)
    then show ?thesis using ne [of l] by (simp add: ls)
  qed
  then have tr: "trimEnd (join_lines (h # ls)) = join_lines (h # ls)" using last(2) by (intro trimEnd_ident) simp
  show "split_lines (trimEnd (join_lines ((replicate k SP @ n @ '':'') # ls))) = (replicate k SP @ n @ '':'') # ls"
    using split_join_lines [of "h # ls"] cl by (simp only: tr [unfolded h_def] h_def) simp
  then have "split_lines (trimEnd (join_lines (h # ls))) = h # ls" by (simp only: h_def)
  moreover have "\<not> stops k l" "\<not> blank l" if "l \<in> set ls" for l
    using body that line_at_facts by blast+
  ultimately show "wf_block k n (join_lines ((replicate k SP @ n @ '':'') # ls))"
    using key_line_child(1) [OF n] cl last(1) unfolding wf_block_def wf_block_lines_def h_def
    by simp
qed

lemma route_name_chars:
  assumes "route_name_match n"
  shows "n \<noteq> []" "\<forall>c \<in> set n. is_route_char c" "\<not> is_ws (last n)" "clean_line n"
proof -
  show n: "n \<noteq> []" using assms by (auto simp: route_name_match_def)
  show c: "\<forall>c \<in> set n. is_route_char c"
    using assms by (auto simp: route_name_match_def is_route_char_def is_key_char_def
        is_route_name_char_def is_word_char_def split: list.splits)
  then show "\<not> is_ws (last n)" using n route_char_facts(1) last_in_set by blast
  have "\<not> is_ws x" if "x \<in> set n" for x using c route_char_facts(1) that by blast
  then have "LF \<notin> set n" "CR \<notin> set n" by fastforce+
  then show "clean_line n" by (simp add: clean_line_def)
qed

definition body_lines ::
  "createProviderCommunicationInput \<Rightarrow> ModuleDataFormatItem \<Rightarrow> ModuleDataFormatItem option \<Rightarrow>
   string \<Rightarrow> string \<Rightarrow> string list" where
  "body_lines input f g n s = tl (filter (\<lambda>l. l \<noteq> []) (provider_block_lines input f g n s))"

lemma provider_block_split:
  "providerPublicRouteBlock input f g n s = join_lines ((replicate 2 SP @ n @ '':'') # body_lines input f g n s)"
  by (simp add: providerPublicRouteBlock_def body_lines_def provider_block_lines_def Let_def
      numeral_2_eq_2)

lemma four_spaces: "''    '' = replicate 4 SP" and six_spaces: "''      '' = replicate 6 SP"
  by (simp_all add: eval_nat_numeral)

lemma format_word_clean [simp]: "clean_line (format_word k)"
  by (cases k) simp_all

lemma address_line:
  assumes "route_name_match n" "clean_line s"
  shows "clean_line (providerRouteAddressLine c k s n)" "line_at 6 (providerRouteAddressLine c k s n)"
    "\<not> is_ws (last (providerRouteAddressLine c k s n))"
proof -
  note r = route_name_chars [OF assms(1)]
  show "clean_line (providerRouteAddressLine c k s n)"
    using r(4) assms(2) by (cases c) (simp_all add: providerRouteAddressLine_def routeReference_def
        ros2RouteAddress_def Let_def)
  show "\<not> is_ws (last (providerRouteAddressLine c k s n))"
    using r(1,3) by (cases c) (simp_all add: providerRouteAddressLine_def routeReference_def
        ros2RouteAddress_def Let_def)
  have "\<exists>ch rest. providerRouteAddressLine c k s n = ''      '' @ ch # rest \<and> \<not> is_ws ch \<and> ch \<noteq> CHR ''#''"
    by (cases c) (simp_all add: providerRouteAddressLine_def Let_def is_ws_def)
  then show "line_at 6 (providerRouteAddressLine c k s n)" unfolding six_spaces line_at_def by blast
qed

lemma provider_body:
  assumes "route_name_match n" "clean_line s" "clean_line (publicTypeFromDataFormat f (cv_dataService input))"
    and "clean_line (response_type input g)"
  shows "\<forall>l \<in> set (body_lines input f g n s). clean_line l \<and> (\<exists>j > 2. line_at j l)"
    "body_lines input f g n s \<noteq> []" "\<not> is_ws (last (last (body_lines input f g n s)))"
proof -
  note a = address_line [OF assms(1,2), of "cv_communication input" "cv_kind input"]
  define addr where "addr = providerRouteAddressLine (cv_communication input) (cv_kind input) s n"
  have addr: "clean_line addr" "line_at 6 addr" "\<not> is_ws (last addr)" using a by (simp_all add: addr_def)
  then have ne: "addr \<noteq> []" by (auto simp: line_at_def)
  define top where "top = [''    role: '' @ (if cv_kind input = Service then ''server'' else ''publisher''),
          ''    direction: '' @ (if cv_kind input = Service then ''server'' else ''publish''),
          ''    data: '' @ format_word (cv_format input),
          ''    type: '' @ publicTypeFromDataFormat f (cv_dataService input)]"
  define resp where "resp = (if response_type input g \<noteq> [] then [''    response_type: '' @ response_type input g] else [])"
  have b: "body_lines input f g n s = top @ resp @ [''    addresses:'', addr]"
    using ne by (simp add: body_lines_def provider_block_lines_def Let_def addr_def top_def resp_def)
  have l4: "line_at 4 (SP # SP # SP # SP # c # r)" if "\<not> is_ws c" "c \<noteq> CHR ''#''" for c r
    using line_at_I [OF that, of 4 r] by (simp add: eval_nat_numeral)
  have "\<forall>l \<in> set top. clean_line l \<and> line_at 4 l"
    using assms(3) by (simp add: top_def l4 is_ws_def)
  moreover have "\<forall>l \<in> set resp. clean_line l \<and> line_at 4 l"
    using assms(4) by (simp add: resp_def l4 is_ws_def)
  moreover have "clean_line ''    addresses:'' \<and> line_at 4 ''    addresses:''"
    by (simp add: l4 is_ws_def)
  ultimately have "clean_line l \<and> line_at 4 l" if "l \<in> set (top @ resp @ [''    addresses:''])" for l
    using that by (simp only: set_append Un_iff list.set empty_iff insert_iff) blast
  then have "clean_line l \<and> (\<exists>j > 2. line_at j l)" if "l \<in> set (top @ resp @ [''    addresses:''])" for l
    using that by (meson numeral_less_iff semiring_norm(76,78))
  moreover have "\<exists>j > 2. line_at j addr" using addr(2) by (intro exI [of _ 6]) simp
  ultimately show "\<forall>l \<in> set (body_lines input f g n s). clean_line l \<and> (\<exists>j > 2. line_at j l)"
    using addr(1) by (simp add: b)
  show "body_lines input f g n s \<noteq> []" "\<not> is_ws (last (last (body_lines input f g n s)))"
    using addr(3) by (simp_all add: b)
qed

subsection \<open>Runs of a handler\<close>

lemma io_bind_Inr:
  "io_bind m f st = (Inr y, st') \<Longrightarrow> \<exists>x st1. m st = (Inr x, st1) \<and> f x st1 = (Inr y, st')"
  by (auto simp: io_bind_def split: prod.splits sum.splits)

lemma io_steps:
  "io_lift r st = (Inr x, st1) \<longleftrightarrow> r = Inr x \<and> st1 = st"
  "io_read f st = (Inr x, st1) \<longleftrightarrow> f (ds_fs st) = Inr x \<and> st1 = st"
  "io_root env st = (Inr p, st1) \<longleftrightarrow> p = findRepoRoot (e_rootVar env) (e_cwd env) (ds_fs st) \<and> st1 = st"
  "io_write p w st = (Inr u, st1) \<longleftrightarrow> (\<exists>fs. writeFile (ds_fs st) p w = Inr fs \<and> st1 = st\<lparr>ds_fs := fs\<rparr>)"
  "io_mkdir p st = (Inr u, st1) \<longleftrightarrow> (\<exists>fs. mkdir_rec (ds_fs st) p = Inr fs \<and> st1 = st\<lparr>ds_fs := fs\<rparr>)"
  by (auto simp: io_lift_def io_read_def io_root_def io_write_def io_mkdir_def io_change_def
      split: sum.splits)

lemma finish_module_state:
  "finish_module env m st = (r, st') \<Longrightarrow> st' = st\<lparr>ds_cached := None\<rparr>"
  by (auto simp: finish_module_def io_bind_def io_invalidate_def io_root_def io_read_def
      split: sum.splits prod.splits)

lemma mkdir_result:
  "mkdir_rec t p = Inr t' \<Longrightarrow> \<not> prefix q p \<Longrightarrow> node_at t' q = node_at t q"
proof (induction t p arbitrary: t' q rule: mkdir_rec.induct)
  case (3 es n p)
  define u where "u = (case map_of es n of None \<Rightarrow> Dir [] | Some t \<Rightarrow> t)"
  obtain u' where u': "mkdir_rec u p = Inr u'" "t' = Dir (put_entry es n u')"
    using 3(2) by (auto simp: u_def split: sum.splits)
  obtain m r where q: "q = m # r" using 3(3) by (cases q) auto
  show ?case
  proof (cases "m = n")
    case True
    then have "node_at u' r = node_at u r" using 3(1) [folded u_def, OF u'(1)] 3(3) q by simp
    moreover have "node_at (Dir []) r = None" if "map_of es n = None"
    proof -
      have "r \<noteq> []" using 3(3) q True by auto
      then show ?thesis by (cases r) simp_all
    qed
    ultimately show ?thesis using True q u'(2) by (auto simp: u_def split: option.splits)
  next
    case False
    then show ?thesis by (simp add: q u'(2))
  qed
qed auto

lemma read_or_empty_mkdir:
  assumes "mkdir_rec t (butlast p) = Inr t'" "p \<noteq> []"
  shows "read_or_empty p t' = read_or_empty p t"
proof -
  have "\<not> prefix p (butlast p)"
    using assms(2) prefix_length_le [of p "butlast p"] by (cases p rule: rev_cases) auto
  from mkdir_result [OF assms(1) this] show ?thesis
    by (simp add: read_or_empty_def existsSync_def readFile_def)
qed

text \<open>C2. A request to edit or delete a route that ends without an error has changed exactly one
  file: the one the path check gave, which now holds the edited text; every other file reads as
  before, and the cached snapshot is gone.\<close>

theorem communication_edit_effect:
  assumes "writeCommunicationItem env input st = (Inr detail, st')"
  shows "\<exists>p old new. absoluteRepoPath (findRepoRoot (e_rootVar env) (e_cwd env) (ds_fs st)) (ci_path input)
        [MODULE_SERVICE_ROOT, IDL_ROOT] = Inr p
    \<and> readFile (ds_fs st) p = Inr old \<and> edited_text input old = Inr new
    \<and> readFile (ds_fs st') = (readFile (ds_fs st))(p := Inr new) \<and> ds_cached st' = None"
proof -
  from assms obtain p old new fs where
    1: "absoluteRepoPath (findRepoRoot (e_rootVar env) (e_cwd env) (ds_fs st)) (ci_path input)
        [MODULE_SERVICE_ROOT, IDL_ROOT] = Inr p" "readFile (ds_fs st) p = Inr old"
    "edited_text input old = Inr new" "writeFile (ds_fs st) p new = Inr fs"
    "finish_module env (ci_moduleName input) (st\<lparr>ds_fs := fs\<rparr>) = (Inr detail, st')"
    unfolding writeCommunicationItem_def by (auto dest!: io_bind_Inr simp: io_steps)
  have "readFile fs = (readFile (ds_fs st))(p := Inr new)"
    using tree.read_after [OF 1(4)] by (auto simp: fun_eq_iff)
  moreover have "st' = st\<lparr>ds_fs := fs, ds_cached := None\<rparr>" using finish_module_state [OF 1(5)] by simp
  ultimately show ?thesis using 1(1-3) by auto
qed

lemma clean_public_type:
  assumes "clean_line (m_name f)" "clean_line s"
  shows "clean_line (publicTypeFromDataFormat f s)"
proof -
  have ident: "clean_line xs" if "eat_ident is_proto_package_char t = Some (xs, r)" for t xs r
  proof -
    have "is_proto_package_char c" if "c \<in> set xs" for c
      using \<open>eat_ident is_proto_package_char t = Some (xs, r)\<close> that set_takeWhileD
      by (fastforce simp: eat_ident_def split: list.splits if_splits)
    then show ?thesis
      by (fastforce simp: clean_line_def is_proto_package_char_def is_word_char_def is_alpha_def
          is_upper_def is_lower_def is_digit_def)
  qed
  have at: "clean_line n" if "package_at t = Some n" for t n
    using that ident unfolding package_at_def
    by (auto simp: Option.bind_eq_Some_conv split: prod.splits)
  have "clean_line n" if "find_package b t = Some n" for b t n
    using that by (induction b t rule: find_package.induct) (auto split: option.splits if_splits dest: at)
  then have "clean_line (protoPackageFromDefinition (m_definition f) s)"
    using assms(2) by (auto simp: protoPackageFromDefinition_def nullish_def split: option.split)
  then show ?thesis using assms by (simp add: publicTypeFromDataFormat_def split: DataFormatKind.split)
qed

lemma find_format_name: "find_format catalog input name = Some f \<Longrightarrow> Some (m_name f) = name"
  by (auto simp: find_format_def Option.bind_eq_Some_conv find_Some_iff)

lemma provider_formats_clean:
  assumes "provider_formats catalog input = Inr (f, g)"
    and "clean_line (cv_inputName input)" "clean_line (nullish (cv_outputName input) [])"
    and "clean_line (cv_dataService input)"
  shows "clean_line (publicTypeFromDataFormat f (cv_dataService input))" "clean_line (response_type input g)"
proof -
  have f: "find_format catalog input (Some (cv_inputName input)) = Some f"
    and g: "g = find_format catalog input (cv_outputName input)"
    using assms(1) by (auto simp: provider_formats_def Let_def split: option.splits if_splits)
  show "clean_line (publicTypeFromDataFormat f (cv_dataService input))"
    using find_format_name [OF f] assms(2,4) by (intro clean_public_type) simp_all
  show "clean_line (response_type input g)"
  proof (cases g)
    case (Some x)
    then have "Some (m_name x) = cv_outputName input" using find_format_name g by metis
    then have "clean_line (m_name x)" using assms(3) by (cases "cv_outputName input") (auto simp: nullish_def)
    then show ?thesis using assms(4) Some by (simp add: response_type_def clean_public_type)
  qed (simp add: response_type_def)
qed

lemma provider_run:
  assumes "createProviderCommunicationItem env input st = (Inr detail, st')"
  defines "p \<equiv> public_path (findRepoRoot (e_rootVar env) (e_cwd env) (ds_fs st)) (cv_dataService input)"
  obtains n catalog f g fs1 old new fs2 where
    "readDataFormatCatalog (e_host env) (findRepoRoot (e_rootVar env) (e_cwd env) (ds_fs st)) (ds_fs st) = Inr catalog"
    "validateRouteName (cv_name input) = Inr n" "provider_formats catalog input = Inr (f, g)"
    "mkdir_rec (ds_fs st) (butlast p) = Inr fs1" "read_or_empty p fs1 = Inr old"
    "appendTopLevelYamlRouteBlock old (kind_section (cv_kind input)) n
       (providerPublicRouteBlock input f g n (cv_dataService input)) = Inr new"
    "writeFile fs1 p new = Inr fs2" "st' = st\<lparr>ds_fs := fs2, ds_cached := None\<rparr>"
proof -
  have same: "s = cv_dataService input" if "validateProviderCommunicationInput input s = Inr u" for s u
    using that by (auto simp: validateProviderCommunicationInput_def split: if_splits)
  obtain n catalog f g fs1 old new fs2 where r:
    "readDataFormatCatalog (e_host env) (findRepoRoot (e_rootVar env) (e_cwd env) (ds_fs st)) (ds_fs st) = Inr catalog"
    "validateRouteName (cv_name input) = Inr n" "provider_formats catalog input = Inr (f, g)"
    "mkdir_rec (ds_fs st) (butlast p) = Inr fs1" "read_or_empty p fs1 = Inr old"
    "appendTopLevelYamlRouteBlock old (kind_section (cv_kind input)) n
       (providerPublicRouteBlock input f g n (cv_dataService input)) = Inr new"
    "writeFile fs1 p new = Inr fs2" "st' = st\<lparr>ds_fs := fs2, ds_cached := None\<rparr>"
    using assms(1) unfolding createProviderCommunicationItem_def Let_def
    by (auto dest!: io_bind_Inr same finish_module_state simp: io_steps p_def [symmetric])
  show thesis by (rule that [OF r])
qed

lemma public_path_not_Nil:
  "public_path r s \<noteq> []"
proof -
  have "last (split_on (CHR ''/'') (join ''/'' [IDL_ROOT, s, ''public'', ''interfaces.yaml''])) = ''interfaces.yaml''"
    by (simp add: split_on_join_slash)
  then obtain as where "split_on (CHR ''/'') (join ''/'' [IDL_ROOT, s, ''public'', ''interfaces.yaml''])
      = as @ [''interfaces.yaml'']"
    by (metis append_butlast_last_id split_on_not_Nil)
  then show ?thesis by (simp add: public_path_def path_join_def push_segment_def)
qed

text \<open>C1. A request to publish a route that ends without an error had a valid route name that the
  service's section did not have; afterwards the service's \<open>public/interfaces.yaml\<close> holds that
  section with exactly this one interface more, under that name and with the generated block, and the
  cached snapshot is gone. The file has no carriage returns and the names of the request no line breaks.\<close>

theorem provider_route_published:
  assumes run: "createProviderCommunicationItem env input st = (Inr detail, st')"
    and clean: "clean_line (cv_dataService input)" "clean_line (cv_inputName input)"
      "clean_line (nullish (cv_outputName input) [])"
    and cr: "\<And>old. read_or_empty (public_path (findRepoRoot (e_rootVar env) (e_cwd env) (ds_fs st))
        (cv_dataService input)) (ds_fs st) = Inr old \<Longrightarrow> CR \<notin> set old"
  shows "\<exists>p n catalog f g old new. p = public_path (findRepoRoot (e_rootVar env) (e_cwd env) (ds_fs st)) (cv_dataService input)
    \<and> readDataFormatCatalog (e_host env) (findRepoRoot (e_rootVar env) (e_cwd env) (ds_fs st)) (ds_fs st) = Inr catalog
    \<and> provider_formats catalog input = Inr (f, g) \<and> validateRouteName (cv_name input) = Inr n
    \<and> read_or_empty p (ds_fs st) = Inr old \<and> readFile (ds_fs st') p = Inr new
    \<and> public_lookup old (kind_section (cv_kind input)) n = None
    \<and> public_lookup new (kind_section (cv_kind input)) =
        (public_lookup old (kind_section (cv_kind input)))(n \<mapsto> map trimEnd
          (split_lines (trimEnd (providerPublicRouteBlock input f g n (cv_dataService input)))))
    \<and> ds_cached st' = None"
proof -
  define p where "p = public_path (findRepoRoot (e_rootVar env) (e_cwd env) (ds_fs st)) (cv_dataService input)"
  obtain n catalog f g fs1 old new fs2 where r:
    "readDataFormatCatalog (e_host env) (findRepoRoot (e_rootVar env) (e_cwd env) (ds_fs st)) (ds_fs st) = Inr catalog"
    "validateRouteName (cv_name input) = Inr n" "provider_formats catalog input = Inr (f, g)"
    "mkdir_rec (ds_fs st) (butlast p) = Inr fs1" "read_or_empty p fs1 = Inr old"
    "appendTopLevelYamlRouteBlock old (kind_section (cv_kind input)) n
       (providerPublicRouteBlock input f g n (cv_dataService input)) = Inr new"
    "writeFile fs1 p new = Inr fs2" "st' = st\<lparr>ds_fs := fs2, ds_cached := None\<rparr>"
    by (rule provider_run [OF run, folded p_def])
  have n: "route_name_match n" using r(2) by (auto simp: validateRouteName_def Let_def split: if_splits)
  have old: "read_or_empty p (ds_fs st) = Inr old"
    using r(5) read_or_empty_mkdir [OF r(4)] public_path_not_Nil by (simp add: p_def)
  note b = provider_body [OF n clean(1) provider_formats_clean [OF r(3) clean(2,3,1)]]
  have wf: "wf_block 2 n (providerPublicRouteBlock input f g n (cv_dataService input))"
    unfolding provider_block_split
    by (rule generated_block(1) [OF route_name_chars(1,2) [OF n] b])
  have "CR \<notin> set old" using cr old by (simp add: p_def)
  note a = public.app_look [OF this wf r(6)] public.app_iff [OF this wf]
  have "readFile (ds_fs st') p = Inr new" using tree.read_write [OF r(7)] r(8) by simp
  moreover have "public_lookup old (kind_section (cv_kind input)) n = None" using a(2) r(6) by blast
  moreover have "ds_cached st' = None" by (simp add: r(8))
  moreover note r(1-3) old a(1)
  ultimately show ?thesis unfolding p_def [symmetric]
    by (intro exI [of _ p] exI [of _ n] exI [of _ catalog] exI [of _ f] exI [of _ g] exI [of _ old]
        exI [of _ new] conjI) simp_all
qed

definition demo_tree :: "node" where
  "demo_tree = Dir [
     (''module'', Dir [(''service'', Dir [(''demo'', Dir [(''project.json'', File ''{}'')])])]),
     (''infra'', Dir []),
     (''pkg'', Dir [(''idl'', Dir [(''demo'', Dir [(''dds'', Dir [(''Pose.idl'', File ''double x;'')])])])])]"

definition demo_env :: "dash_env" where
  "demo_env = \<lparr>e_host = \<lparr>h_localeCompare = unit_compare,
     h_jsonParse = (\<lambda>t. Inr (JObject [(''name'', JString ''module-demo'')]))\<rparr>,
     e_rootVar = None, e_cwd = [], e_exec = (\<lambda>args fs. (Inl ''ENOENT'', fs))\<rparr>"

definition demo_state :: "dash_state" where
  "demo_state = \<lparr>ds_fs = demo_tree, ds_cached = None\<rparr>"

definition demo_input :: "createProviderCommunicationInput" where
  "demo_input = \<lparr>cv_moduleName = ''module-demo'', cv_communication = Cyclonedds, cv_dataService = ''demo'',
     cv_format = Dds_Idl, cv_inputName = ''Pose'', cv_kind = Topic, cv_name = ''pose'', cv_outputName = None\<rparr>"

lemma provider_route_published_witness:
  "\<exists>detail st' old new. createProviderCommunicationItem demo_env demo_input demo_state = (Inr detail, st')
    \<and> readFile (ds_fs st') [''pkg'', ''idl'', ''demo'', ''public'', ''interfaces.yaml''] = Inr new
    \<and> public_lookup old Topics ''pose'' = None \<and> public_lookup new Topics ''pose'' \<noteq> None"
proof -
  define r where "r = createProviderCommunicationItem demo_env demo_input demo_state"
  have "\<not> isl (fst r)" unfolding r_def by code_simp
  then obtain detail where run: "createProviderCommunicationItem demo_env demo_input demo_state = (Inr detail, snd r)"
    unfolding r_def by (metis isl_def prod.collapse sum.exhaust_disc sum.collapse(2))
  have p: "public_path (findRepoRoot (e_rootVar demo_env) (e_cwd demo_env) (ds_fs demo_state)) (cv_dataService demo_input)
      = [''pkg'', ''idl'', ''demo'', ''public'', ''interfaces.yaml'']" by code_simp
  have c: "clean_line (cv_dataService demo_input)" "clean_line (cv_inputName demo_input)"
    "clean_line (nullish (cv_outputName demo_input) [])" by code_simp+
  have "read_or_empty [''pkg'', ''idl'', ''demo'', ''public'', ''interfaces.yaml''] (ds_fs demo_state) = Inr []"
    by code_simp
  then have cr: "CR \<notin> set old" if "read_or_empty (public_path (findRepoRoot (e_rootVar demo_env) (e_cwd demo_env)
      (ds_fs demo_state)) (cv_dataService demo_input)) (ds_fs demo_state) = Inr old" for old
    using that unfolding p by simp
  have k: "kind_section (cv_kind demo_input) = Topics" "validateRouteName (cv_name demo_input) = Inr ''pose''"
    by code_simp+
  obtain n old new where e: "validateRouteName (cv_name demo_input) = Inr n"
    "readFile (ds_fs (snd r)) [''pkg'', ''idl'', ''demo'', ''public'', ''interfaces.yaml''] = Inr new"
    "public_lookup old (kind_section (cv_kind demo_input)) n = None"
    "public_lookup new (kind_section (cv_kind demo_input)) n \<noteq> None"
    using provider_route_published [OF run c cr] unfolding p by auto
  have "n = ''pose''" using e(1) k(2) by simp
  with e k(1) run show ?thesis by auto
qed

definition edit_tree :: "node" where
  "edit_tree = Dir [
     (''module'', Dir [(''service'', Dir [(''demo'', Dir [(''project.json'', File ''{}''),
        (''config.yaml'', File (''communication:'' @ nl @ ''  topics:'' @ nl @ ''    pose:'' @ nl))])])]),
     (''infra'', Dir []), (''pkg'', Dir [])]"

definition edit_input :: "communicationItemInput" where
  "edit_input = \<lparr>ci_moduleName = ''module-demo'', ci_definition = None, ci_kind = Topic, ci_name = ''pose'',
     ci_path = ''module/service/demo/config.yaml'', ci_source = Config\<rparr>"

lemma communication_edit_effect_witness:
  "\<exists>detail st'. writeCommunicationItem demo_env edit_input \<lparr>ds_fs = edit_tree, ds_cached = None\<rparr> = (Inr detail, st')
    \<and> ds_cached st' = None"
proof -
  define r where "r = writeCommunicationItem demo_env edit_input \<lparr>ds_fs = edit_tree, ds_cached = None\<rparr>"
  have "\<not> isl (fst r)" unfolding r_def by code_simp
  then obtain detail where
    run: "writeCommunicationItem demo_env edit_input \<lparr>ds_fs = edit_tree, ds_cached = None\<rparr> = (Inr detail, snd r)"
    unfolding r_def by (metis isl_def prod.collapse sum.exhaust_disc sum.collapse(2))
  from communication_edit_effect [OF run] run show ?thesis by blast
qed

end
