(* ===== verification/Monitor_Model.thy ===== *)
theory Monitor_Model
  imports Keyed_Merge Monitor_Types "HOL-Library.AList"
begin

text \<open>
  The state of the monitor (\<open>monitor/pr-monitor/src/model.ts\<close>): the endpoints, what is known of
  each, and the collection of samples, which runs in two steps with other events in between.

  A \<open>Map\<close> by URL is an association list in the order of insertion. Numbers are exact rationals;
  times are milliseconds. The clock, the collation and the text of a time of day are parameters,
  and so is what the collectors report.
\<close>

subsection \<open>Data\<close>

record EndpointStats =
  st_freq :: "rat option"
  st_rate :: "rat option"
  st_loss :: "rat option"
  st_latency :: "rat option"
  st_stable :: bool
  st_active :: bool
  st_ticks :: nat
  st_seq :: nat
  st_lastSeenAt :: "int option"
  st_source :: string
  st_status :: string

record EndpointHistory =
  hi_freq :: "rat list"
  hi_rate :: "rat list"
  hi_loss :: "rat list"
  hi_latency :: "rat list"

record DetailSample =
  ds_time :: string
  ds_seq :: nat
  ds_size :: "rat option"
  ds_latency :: "rat option"
  ds_preview :: string

record CollectorSample =
  cs_url :: string
  cs_source :: string
  cs_timestamp :: int
  cs_freq :: "rat option"
  cs_rate :: "rat option"
  cs_loss :: "rat option"
  cs_latency :: "rat option"
  cs_countDelta :: "rat option"
  cs_size :: "rat option"
  cs_active :: "bool option"
  cs_status :: "string option"
  cs_preview :: "string option"
  cs_processList :: "ProcessInfo list option"

record CollectorStatus =
  co_name :: string
  co_ok :: bool
  co_message :: string
  co_updatedAt :: int

record CollectorSnapshot =
  sp_samples :: "CollectorSample list"
  sp_status :: CollectorStatus

record MonitorModel =
  mo_options :: MonitorOptions
  mo_endpoints :: "EndpointInfo list"
  mo_stats :: "(string \<times> EndpointStats) list"
  mo_histories :: "(string \<times> EndpointHistory) list"
  mo_details :: "(string \<times> DetailSample list) list"
  mo_collectorStatuses :: "CollectorStatus list"
  mo_collectors :: "string list"
  mo_collecting :: bool
  mo_filterText :: string
  mo_paused :: bool
  mo_selectedLine :: int
  mo_currentPage :: int
  mo_filterInputMode :: bool
  mo_detailView :: "string option"
  mo_lastJumpMessage :: string
  mo_totalRate :: rat
  mo_activeCount :: nat

text \<open>The parameters: the host's collation and time format.\<close>

record monitor_host =
  mh_localeCompare :: "string \<Rightarrow> string \<Rightarrow> int"
  mh_timeOfDay :: "int \<Rightarrow> string"

definition zeroStats :: EndpointStats where
  "zeroStats = \<lparr>st_freq = None, st_rate = None, st_loss = None, st_latency = None, st_stable = False,
     st_active = False, st_ticks = 0, st_seq = 0, st_lastSeenAt = None, st_source = [],
     st_status = ''not observed''\<rparr>"

definition emptyHistory :: EndpointHistory where
  "emptyHistory = \<lparr>hi_freq = [], hi_rate = [], hi_loss = [], hi_latency = []\<rparr>"

subsection \<open>Histories\<close>

text \<open>\<open>while (values.length > max) values.shift()\<close>.\<close>

definition shifted :: "nat \<Rightarrow> 'a list \<Rightarrow> 'a list" where
  "shifted limit xs = drop (length xs - limit) xs"

definition appendHistory :: "EndpointHistory \<Rightarrow> rat \<Rightarrow> rat \<Rightarrow> rat \<Rightarrow> rat \<Rightarrow> int \<Rightarrow> EndpointHistory" where
  "appendHistory history freq rate loss latency chartWidth =
     (let m = nat (max 26 chartWidth)
      in \<lparr>hi_freq = shifted m (hi_freq history @ [freq]), hi_rate = shifted m (hi_rate history @ [rate]),
          hi_loss = shifted m (hi_loss history @ [loss]),
          hi_latency = shifted m (hi_latency history @ [latency])\<rparr>)"

definition appendHistorySample :: "EndpointHistory \<Rightarrow> EndpointStats \<Rightarrow> int \<Rightarrow> EndpointHistory" where
  "appendHistorySample history stats chartWidth =
     appendHistory history (nullish (st_freq stats) 0) (nullish (st_rate stats) 0)
       (nullish (st_loss stats) 0) (nullish (st_latency stats) 0) chartWidth"

definition appendDetail :: "monitor_host \<Rightarrow> DetailSample list \<Rightarrow> CollectorSample \<Rightarrow> EndpointStats \<Rightarrow> DetailSample list" where
  "appendDetail h detail sample stats =
     shifted 80 (detail @ [\<lparr>ds_time = mh_timeOfDay h (cs_timestamp sample), ds_seq = st_seq stats,
       ds_size = cs_size sample, ds_latency = cs_latency sample,
       ds_preview = nullish (cs_preview sample)
         (cs_source sample @ '': '' @ nullish (cs_status sample) ''observed'')\<rparr>])"

definition positive :: "rat option \<Rightarrow> bool" where
  "positive v = (case v of None \<Rightarrow> False | Some x \<Rightarrow> 0 < x)"

definition hasObservedValue :: "CollectorSample \<Rightarrow> bool" where
  "hasObservedValue sample \<longleftrightarrow> positive (cs_freq sample) \<or> positive (cs_rate sample)
     \<or> positive (cs_countDelta sample) \<or> cs_active sample = Some True"

subsection \<open>Processes\<close>

definition process_key :: "ProcessInfo \<Rightarrow> string" where
  "process_key p = pi_name p @ '':'' @ nat_str (pi_pid p) @ '':'' @ int_str (sint (pi_type p))"

definition process_compare :: "(string \<Rightarrow> string \<Rightarrow> int) \<Rightarrow> ProcessInfo \<Rightarrow> ProcessInfo \<Rightarrow> int" where
  "process_compare lc =
     compare_then (\<lambda>l r. lc (pi_name l) (pi_name r)) (\<lambda>l r. int_compare (int (pi_pid l)) (int (pi_pid r)))"

definition mergeProcesses ::
  "(string \<Rightarrow> string \<Rightarrow> int) \<Rightarrow> ProcessInfo list \<Rightarrow> ProcessInfo list \<Rightarrow> ProcessInfo list" where
  "mergeProcesses lc current incoming =
     js_sort (process_compare lc)
       (fold (upsert process_key process_key id (\<lambda>x e. x)) (current @ incoming) [])"

subsection \<open>State of an endpoint\<close>

text \<open>\<open>if (!map.has(k)) map.set(k, v)\<close>.\<close>

definition ensure :: "'k \<Rightarrow> 'v \<Rightarrow> ('k \<times> 'v) list \<Rightarrow> ('k \<times> 'v) list" where
  "ensure k v m = (if map_of m k = None then m @ [(k, v)] else m)"

definition ensureEndpointState :: "EndpointInfo \<Rightarrow> MonitorModel \<Rightarrow> MonitorModel" where
  "ensureEndpointState ep s = s\<lparr>
     mo_stats := ensure (ep_url ep) zeroStats (mo_stats s),
     mo_histories := ensure (ep_url ep) emptyHistory (mo_histories s),
     mo_details := ensure (ep_url ep) [] (mo_details s)\<rparr>"

text \<open>A change of the value that a map has for a key, if it has one.\<close>

definition change_value :: "'k \<Rightarrow> ('v \<Rightarrow> 'v) \<Rightarrow> ('k \<times> 'v) list \<Rightarrow> ('k \<times> 'v) list" where
  "change_value k f m = (case map_of m k of None \<Rightarrow> m | Some v \<Rightarrow> AList.update k (f v) m)"

definition updateCollectorStatus :: "int \<Rightarrow> string \<Rightarrow> CollectorStatus \<Rightarrow> MonitorModel \<Rightarrow> MonitorModel" where
  "updateCollectorStatus now name status s =
     (let nxt = status\<lparr>co_name := name,
            co_updatedAt := (if co_updatedAt status = 0 then now else co_updatedAt status)\<rparr>
      in s\<lparr>mo_collectorStatuses :=
          (if list_ex (\<lambda>item. co_name item = name) (mo_collectorStatuses s)
           then update_first (\<lambda>item. co_name item = name) (\<lambda>item. nxt) (mo_collectorStatuses s)
           else mo_collectorStatuses s @ [nxt])\<rparr>)"

subsection \<open>Samples\<close>

text \<open>\<open>Math.round\<close>: the nearest integer, the larger one of two.\<close>

definition js_round :: "rat \<Rightarrow> int" where
  "js_round x = \<lfloor>x + 1 / 2\<rfloor>"

definition kept :: "'a option \<Rightarrow> 'a option \<Rightarrow> 'a option" where
  "kept new old = (case new of None \<Rightarrow> old | Some x \<Rightarrow> Some x)"

definition sampled_stats :: "CollectorSample \<Rightarrow> EndpointStats \<Rightarrow> EndpointStats" where
  "sampled_stats sample stats =
     (let observedMetric = hasObservedValue sample;
          active = (if cs_active sample \<noteq> None \<or> observedMetric
                    then nullish (cs_active sample) observedMetric else st_active stats)
      in stats\<lparr>st_freq := kept (cs_freq sample) (st_freq stats),
          st_rate := kept (cs_rate sample) (st_rate stats),
          st_loss := kept (cs_loss sample) (st_loss stats),
          st_latency := kept (cs_latency sample) (st_latency stats),
          st_source := cs_source sample,
          st_status := nullish (cs_status sample) ''sampled'',
          st_lastSeenAt := Some (cs_timestamp sample),
          st_active := active,
          st_stable := st_ticks stats \<ge> 2 \<and> active,
          st_seq := st_seq stats
            + nat (max 0 (js_round (nullish (cs_countDelta sample) (nullish (cs_freq sample) 0))))\<rparr>)"

definition applySample :: "monitor_host \<Rightarrow> CollectorSample \<Rightarrow> MonitorModel \<Rightarrow> MonitorModel" where
  "applySample h sample s =
     (case find (\<lambda>item. ep_url item = cs_url sample) (mo_endpoints s) of
        None \<Rightarrow> s
      | Some ep \<Rightarrow>
          let url = ep_url ep;
              old = nullish (map_of (mo_stats s) url) zeroStats;
              stats = sampled_stats sample old
          in s\<lparr>mo_stats := change_value url (\<lambda>_. stats) (mo_stats s),
               mo_endpoints := update_first (\<lambda>item. ep_url item = url)
                 (\<lambda>e. e\<lparr>ep_processList := mergeProcesses (mh_localeCompare h) (ep_processList e)
                        (nullish (cs_processList sample) [])\<rparr>) (mo_endpoints s),
               mo_histories := (if hasObservedValue sample \<or> cs_active sample \<noteq> None
                 then change_value url (\<lambda>history. appendHistorySample history stats
                        (op_chartWidth (mo_options s))) (mo_histories s)
                 else mo_histories s),
               mo_details := (if st_seq stats \<noteq> st_seq old \<or> nullish (cs_preview sample) [] \<noteq> []
                 then change_value url (\<lambda>detail. appendDetail h detail sample stats) (mo_details s)
                 else mo_details s)\<rparr>)"

definition refreshTotals :: "MonitorModel \<Rightarrow> MonitorModel" where
  "refreshTotals s = s\<lparr>
     mo_totalRate := sum_list (map (\<lambda>(k, stats). nullish (st_rate stats) 0) (mo_stats s)),
     mo_activeCount := length (filter (\<lambda>(k, stats). st_active stats) (mo_stats s))\<rparr>"

definition is_stale :: "int \<Rightarrow> EndpointStats \<Rightarrow> bool" where
  "is_stale now stats =
     (case st_lastSeenAt stats of None \<Rightarrow> True | Some t \<Rightarrow> t = 0 \<or> now - t > 10000)"

definition append_missing :: "int \<Rightarrow> EndpointInfo \<Rightarrow> MonitorModel \<Rightarrow> MonitorModel" where
  "append_missing now ep s =
     (case (map_of (mo_stats s) (ep_url ep), map_of (mo_histories s) (ep_url ep)) of
        (Some stats, Some history) \<Rightarrow>
          if is_stale now stats
          then s\<lparr>mo_stats := AList.update (ep_url ep) (stats\<lparr>st_active := False, st_stable := False\<rparr>) (mo_stats s),
                 mo_histories := AList.update (ep_url ep)
                   (appendHistory history 0 0 0 0 (op_chartWidth (mo_options s))) (mo_histories s)\<rparr>
          else s
      | _ \<Rightarrow> s)"

definition appendMissingHistory :: "int \<Rightarrow> MonitorModel \<Rightarrow> MonitorModel" where
  "appendMissingHistory now s = fold (append_missing now) (mo_endpoints s) s"

subsection \<open>Collecting\<close>

text \<open>The part of \<open>collect\<close> before the collectors are awaited.\<close>

definition count_tick :: "EndpointInfo \<Rightarrow> MonitorModel \<Rightarrow> MonitorModel" where
  "count_tick ep s =
     (let s' = ensureEndpointState ep s
      in s'\<lparr>mo_stats := change_value (ep_url ep) (\<lambda>stats. stats\<lparr>st_ticks := st_ticks stats + 1\<rparr>) (mo_stats s')\<rparr>)"

definition collect_begin :: "MonitorModel \<Rightarrow> MonitorModel" where
  "collect_begin s =
     (if mo_paused s \<or> mo_collecting s then s
      else fold count_tick (mo_endpoints s) (s\<lparr>mo_collecting := True\<rparr>))"

text \<open>The outcome of each collector: its snapshot, or the message of its failure.\<close>

definition apply_snapshot ::
  "monitor_host \<Rightarrow> int \<Rightarrow> string \<times> CollectorSnapshot result \<Rightarrow> MonitorModel \<Rightarrow> MonitorModel" where
  "apply_snapshot h now = (\<lambda>(name, snapshot) s.
     case snapshot of
       Inr value \<Rightarrow> fold (applySample h) (sp_samples value) (updateCollectorStatus now name (sp_status value) s)
     | Inl reason \<Rightarrow> updateCollectorStatus now name
         \<lparr>co_name = name, co_ok = False, co_message = reason, co_updatedAt = now\<rparr> s)"

text \<open>The part after that. One time \<open>now\<close> stands for the readings of the clock in this part.\<close>

definition collect_end ::
  "monitor_host \<Rightarrow> int \<Rightarrow> CollectorSnapshot result list \<Rightarrow> MonitorModel \<Rightarrow> MonitorModel" where
  "collect_end h now snapshots s =
     (appendMissingHistory now (refreshTotals
       (fold (apply_snapshot h now) (zip (mo_collectors s) snapshots) s)))\<lparr>mo_collecting := False\<rparr>"

definition initialize ::
  "int \<Rightarrow> EndpointInfo list \<Rightarrow> string \<Rightarrow> string list \<Rightarrow> MonitorModel \<Rightarrow> MonitorModel" where
  "initialize now endpoints discoveryStatus names s =
     (let s' = fold ensureEndpointState endpoints (s\<lparr>mo_endpoints := endpoints\<rparr>)
      in s'\<lparr>mo_collectors := names,
           mo_collectorStatuses :=
             \<lparr>co_name = ''discovery'', co_ok = endpoints \<noteq> [], co_message = discoveryStatus, co_updatedAt = now\<rparr>
             # map (\<lambda>n. \<lparr>co_name = n, co_ok = False, co_message = ''waiting for first sample'', co_updatedAt = 0\<rparr>) names\<rparr>)"

definition discovery_message :: "nat \<Rightarrow> nat \<Rightarrow> nat \<Rightarrow> string" where
  "discovery_message endpoints sources errors =
     nat_str endpoints @ '' routes from '' @ nat_str sources @ '' project files''
     @ (if errors > 0 then '' ('' @ nat_str errors @ '' parse warnings)'' else [])"

definition new_model :: "MonitorOptions \<Rightarrow> MonitorModel" where
  "new_model opts = \<lparr>mo_options = opts, mo_endpoints = [], mo_stats = [], mo_histories = [], mo_details = [],
     mo_collectorStatuses = [], mo_collectors = [], mo_collecting = False, mo_filterText = op_filter opts,
     mo_paused = False, mo_selectedLine = -1, mo_currentPage = 0, mo_filterInputMode = False,
     mo_detailView = None, mo_lastJumpMessage = [], mo_totalRate = 0, mo_activeCount = 0\<rparr>"

subsection \<open>The visible endpoints\<close>

definition is_filter_separator :: "char \<Rightarrow> bool" where
  "is_filter_separator c \<longleftrightarrow> c = CHR '','' \<or> is_ws c"

definition splitFilter :: "string \<Rightarrow> string list" where
  "splitFilter f = filter (\<lambda>v. v \<noteq> []) (map trim (split_runs is_filter_separator f))"

definition endpoint_active :: "MonitorModel \<Rightarrow> EndpointInfo \<Rightarrow> bool" where
  "endpoint_active s ep = (case map_of (mo_stats s) (ep_url ep) of None \<Rightarrow> False | Some st \<Rightarrow> st_active st)"

definition endpoint_haystack :: "EndpointInfo \<Rightarrow> string" where
  "endpoint_haystack ep = toLowerCase (ep_url ep @ '' '' @ ep_serType ep @ '' '' @ join '' '' (ep_sources ep)
     @ '' '' @ join '' '' (ep_routeNames ep))"

definition endpoint_visible :: "MonitorModel \<Rightarrow> EndpointInfo \<Rightarrow> bool" where
  "endpoint_visible s ep \<longleftrightarrow>
     (let opts = mo_options s; terms = splitFilter (mo_filterText s);
          found = (ep_url ep \<in> set (op_urls opts));
          matched = list_ex (\<lambda>t. has_sub (endpoint_haystack ep) (toLowerCase t)) terms
      in (op_urls opts = [] \<or> found \<noteq> op_blackMode opts)
         \<and> (terms = [] \<or> matched \<noteq> op_blackMode opts)
         \<and> (op_pubsubMode opts \<longrightarrow> has_bits (ep_type ep) publisher_bit \<or> has_bits (ep_type ep) subscriber_bit)
         \<and> (op_activeMode opts \<longrightarrow> endpoint_active s ep))"

definition visible_compare ::
  "(string \<Rightarrow> string \<Rightarrow> int) \<Rightarrow> MonitorModel \<Rightarrow> EndpointInfo \<Rightarrow> EndpointInfo \<Rightarrow> int" where
  "visible_compare lc s left right =
     (let leftActive = (if endpoint_active s left then 1 else 0 :: int);
          rightActive = (if endpoint_active s right then 1 else 0)
      in if leftActive \<noteq> rightActive then rightActive - leftActive else lc (ep_url left) (ep_url right))"

definition visibleEndpoints :: "(string \<Rightarrow> string \<Rightarrow> int) \<Rightarrow> MonitorModel \<Rightarrow> EndpointInfo list" where
  "visibleEndpoints lc s = js_sort (visible_compare lc s) (filter (endpoint_visible s) (mo_endpoints s))"

end
