(* ===== verification/Monitor_Format.thy ===== *)
theory Monitor_Format
  imports Monitor_Types
begin

text \<open>
  The texts of the monitor's screen (\<open>monitor/pr-monitor/src/format.ts\<close>).

  A number is a rational, an infinity or not a number. Sums and quotients are exact here, where
  JavaScript rounds to doubles. \<open>toFixed\<close> is modelled below \<open>10^21\<close>, where it switches to
  exponents.
\<close>

datatype num = Fin rat | PosInf | NegInf | NaN

fun num_ge :: "num \<Rightarrow> rat \<Rightarrow> bool" where
  "num_ge (Fin x) y \<longleftrightarrow> y \<le> x"
| "num_ge PosInf y \<longleftrightarrow> True"
| "num_ge _ y \<longleftrightarrow> False"

text \<open>Division by a positive number.\<close>

fun num_div :: "num \<Rightarrow> rat \<Rightarrow> num" where
  "num_div (Fin x) y = Fin (x / y)"
| "num_div v y = v"

text \<open>\<open>x.toFixed(digits)\<close>: the nearest multiple, the larger one of two.\<close>

definition fixed_digits :: "rat \<Rightarrow> nat \<Rightarrow> string" where
  "fixed_digits x digits =
     (let ds = nat_str (nat \<lfloor>x * 10 ^ digits + 1 / 2\<rfloor>);
          m = replicate (digits + 1 - length ds) (CHR ''0'') @ ds
      in if digits = 0 then m else take (length m - digits) m @ ''.'' @ drop (length m - digits) m)"

definition toFixed :: "rat \<Rightarrow> nat \<Rightarrow> string" where
  "toFixed x digits = (if x < 0 then ''-'' @ fixed_digits (- x) digits else fixed_digits x digits)"

fun formatFixed :: "num \<Rightarrow> nat \<Rightarrow> string" where
  "formatFixed (Fin x) digits = toFixed x digits"
| "formatFixed _ digits = ''0''"

definition formatHz :: "num \<Rightarrow> string" where
  "formatHz v = formatFixed v 2 @ ''Hz''"

definition formatOptionalHz :: "num option \<Rightarrow> string" where
  "formatOptionalHz v = (case v of None \<Rightarrow> ''---'' | Some x \<Rightarrow> formatHz x)"

definition formatBytes :: "num \<Rightarrow> string" where
  "formatBytes v =
     (if num_ge v (1024 * 1024 * 1024)
      then formatFixed (num_div (num_div (num_div v 1024) 1024) 1024) 2 @ ''GB''
      else if num_ge v (1024 * 1024) then formatFixed (num_div (num_div v 1024) 1024) 2 @ ''MB''
      else if num_ge v 1024 then formatFixed (num_div v 1024) 2 @ ''KB''
      else formatFixed v (if num_ge v 10 then 0 else 2) @ ''B'')"

definition formatOptionalBytes :: "num option \<Rightarrow> string" where
  "formatOptionalBytes v = (case v of None \<Rightarrow> ''---'' | Some x \<Rightarrow> formatBytes x)"

definition formatOptionalFixed :: "num option \<Rightarrow> nat \<Rightarrow> string \<Rightarrow> string" where
  "formatOptionalFixed v digits unit =
     (case v of None \<Rightarrow> ''---'' | Some x \<Rightarrow> formatFixed x digits @ unit)"

definition formatNumber :: "num \<Rightarrow> rat \<Rightarrow> string" where
  "formatNumber v unitValue =
     (if num_ge v (unitValue * unitValue * unitValue)
      then formatFixed (num_div (num_div (num_div v unitValue) unitValue) unitValue) 1 @ ''G''
      else if num_ge v (unitValue * unitValue)
      then formatFixed (num_div (num_div v unitValue) unitValue) 1 @ ''M''
      else if num_ge v unitValue then formatFixed (num_div v unitValue) 1 @ ''K''
      else if num_ge v 100 then formatFixed v 0
      else if num_ge v 10 then formatFixed v 1
      else formatFixed v 2)"

subsection \<open>Types and processes\<close>

definition type_parts :: "EndpointType \<Rightarrow> string list" where
  "type_parts t = List.map_filter id
     [Some (if has_bits t publisher_bit then ''Pub'' else ''---''),
      if has_bits t subscriber_bit then Some ''Sub'' else None,
      if has_bits t server_bit then Some ''Ser'' else None,
      if has_bits t client_bit then Some ''Cli'' else None,
      if has_bits t setter_bit then Some ''Set'' else None,
      if has_bits t getter_bit then Some ''Get'' else None]"

definition part_at :: "string list \<Rightarrow> nat \<Rightarrow> string" where
  "part_at parts n = (if n < length parts then parts ! n else ''---'')"

definition typeLabel :: "EndpointType \<Rightarrow> bool \<Rightarrow> ProcessInfo list \<Rightarrow> string" where
  "typeLabel t countMode processes =
     (let parts = type_parts t;
          leftCount = length (filter (\<lambda>p. has_bits (pi_type p) (publisher_bit OR server_bit OR setter_bit)) processes);
          rightCount = length processes - leftCount
      in if \<not> countMode
         then (if length parts = 1 then part_at parts 0 @ ''|---''
               else part_at parts 0 @ ''|'' @ part_at parts 1)
         else part_at parts 0 @ nat_str leftCount @ ''|'' @ part_at parts 1 @ nat_str rightCount)"

definition processTypeLabel :: "EndpointType \<Rightarrow> string" where
  "processTypeLabel t =
     (if has_bits t publisher_bit then ''Publisher''
      else if has_bits t subscriber_bit then ''Subscriber''
      else if has_bits t server_bit then ''Server''
      else if has_bits t client_bit then ''Client''
      else if has_bits t getter_bit then ''Getter''
      else if has_bits t setter_bit then ''Setter''
      else ''Endpoint'')"

definition profiler_sum :: "EndpointType \<Rightarrow> ProcessInfo list \<Rightarrow> rat" where
  "profiler_sum bits processes =
     sum_list (map (\<lambda>p. case pi_profiler p of None \<Rightarrow> 0 | Some x \<Rightarrow> x)
       (filter (\<lambda>p. has_bits (pi_type p) bits) processes))"

definition formatProfiler :: "ProcessInfo list \<Rightarrow> string" where
  "formatProfiler processes =
     (let left = profiler_sum (publisher_bit OR server_bit OR setter_bit OR client_bit) processes;
          right = profiler_sum (subscriber_bit OR getter_bit) processes
      in if list_all (\<lambda>p. pi_profiler p = None) processes then ''---|---''
         else formatFixed (Fin left) 2 @ ''%|'' @ formatFixed (Fin right) 2 @ ''%'')"

definition buildInspectCommand :: "EndpointInfo \<Rightarrow> MonitorOptions \<Rightarrow> string" where
  "buildInspectCommand ep opts =
     (let getter = has_bits (ep_type ep) getter_bit
            \<or> (has_bits (ep_type ep) setter_bit \<and> \<not> has_bits (ep_type ep) publisher_bit);
          encoding = (if op_blobMode opts \<or> ep_schemaType ep = Blob then ''blob'' else ep_serType ep);
          transport = before_scheme_mark (ep_url ep);
          schemaDir = (if ep_schemaType ep = Flatbuffers then op_fbsDir opts else op_protoDir opts);
          dirArg = (if schemaDir \<noteq> [] then '' --schema-dir '' @ schemaDir else [])
      in ''pr inspect --transport '' @ transport @ '' --route '' @ ep_url ep @ '' --encoding '' @ encoding
         @ (if getter then '' --getter'' else []) @ dirArg
         @ (if op_protoArgs opts \<noteq> [] then '' '' @ op_protoArgs opts else []))"

subsection \<open>Columns\<close>

definition padRight :: "string \<Rightarrow> nat \<Rightarrow> string" where
  "padRight v width = (if length v \<ge> width then take width v else v @ replicate (width - length v) SP)"

definition padLeft :: "string \<Rightarrow> nat \<Rightarrow> string" where
  "padLeft v width = (if length v \<ge> width then take width v else replicate (width - length v) SP @ v)"

definition center :: "string \<Rightarrow> nat \<Rightarrow> string" where
  "center v width =
     (if length v \<ge> width then take width v
      else let left = (width - length v) div 2
           in replicate left SP @ v @ replicate (width - length v - left) SP)"

definition clamp :: "int \<Rightarrow> int \<Rightarrow> int \<Rightarrow> int" where
  "clamp v lo hi = max lo (min hi v)"

subsection \<open>What they guarantee\<close>

lemma pad_width [simp]:
  "length (padRight v w) = w" "length (padLeft v w) = w" "length (center v w) = w"
  by (auto simp: padRight_def padLeft_def center_def Let_def)

lemma clamp_bounds: "lo \<le> hi \<Longrightarrow> lo \<le> clamp x lo hi \<and> clamp x lo hi \<le> hi"
  by (auto simp: clamp_def)

lemma type_parts_Cons: "\<exists>p r. type_parts t = p # r \<and> p \<in> {''Pub'', ''---''}"
  by (simp add: type_parts_def List.map_filter_def)


lemma length_nat_str: "n < 10 ^ k \<Longrightarrow> 0 < k \<Longrightarrow> length (nat_str n) \<le> k"
proof (induction n arbitrary: k rule: nat_str.induct)
  case (1 n)
  show ?case
  proof (cases "n < 10")
    case True
    with "1.prems" show ?thesis by (subst nat_str.simps) simp
  next
    case False
    with "1.prems" obtain k' where k: "k = Suc k'" "0 < k'" by (cases k; cases "k - 1") auto
    with "1.prems" have "n div 10 < 10 ^ k'" by (simp add: less_mult_imp_div_less mult.commute)
    with "1.IH" False k show ?thesis by (subst nat_str.simps) simp
  qed
qed

lemma length_dotted: "length (take k m @ c # drop k m) = Suc (length m)"
  by (simp add: min_def)

lemma length_fixed_digits:
  assumes "x * 10 ^ d + 1 / 2 < 10 ^ k" "d < k" "0 < d"
  shows "length (fixed_digits x d) \<le> k + 1"
proof -
  have "nat \<lfloor>x * 10 ^ d + 1 / 2\<rfloor> < 10 ^ k"
    using assms(1) by (simp add: nat_less_iff floor_less_iff)
  then have len: "length (nat_str (nat \<lfloor>x * 10 ^ d + 1 / 2\<rfloor>)) \<le> k" using assms(2) by (intro length_nat_str) auto
  define m where "m = replicate (d + 1 - length (nat_str (nat \<lfloor>x * 10 ^ d + 1 / 2\<rfloor>))) (CHR ''0'')
    @ nat_str (nat \<lfloor>x * 10 ^ d + 1 / 2\<rfloor>)"
  have "length m \<le> k" using len assms(2) by (simp add: m_def)
  moreover have "fixed_digits x d = take (length m - d) m @ CHR ''.'' # drop (length m - d) m"
    using assms(3) unfolding fixed_digits_def Let_def m_def by simp
  ultimately show ?thesis by (simp add: length_dotted del: length_append length_take length_drop)
qed

text \<open>The digits of a fixed text are the number of units, which is nearest to the value.\<close>

lemma digits_val_zeros: "digits_val (replicate n (CHR ''0'') @ s) = digits_val s"
  by (induction n) (simp_all add: digits_val_def digit_val_def)

lemma fixed_digits_val:
  "digits_val (filter is_digit (fixed_digits x d)) = nat \<lfloor>x * 10 ^ d + 1 / 2\<rfloor>"
proof -
  define m where "m = replicate (d + 1 - length (nat_str (nat \<lfloor>x * 10 ^ d + 1 / 2\<rfloor>))) (CHR ''0'')
    @ nat_str (nat \<lfloor>x * 10 ^ d + 1 / 2\<rfloor>)"
  have dig: "\<forall>c \<in> set m. is_digit c" using nat_str_digits by (auto simp: m_def is_digit_def)
  have eq: "fixed_digits x d = (if d = 0 then m else take (length m - d) m @ ''.'' @ drop (length m - d) m)"
    unfolding fixed_digits_def Let_def m_def ..
  have "filter is_digit (fixed_digits x d) = m"
  proof (cases "d = 0")
    case True
    then show ?thesis unfolding eq using dig by (simp add: filter_id_conv)
  next
    case False
    have "filter is_digit (take k m @ ''.'' @ drop k m) = m" for k
    proof -
      have "filter is_digit (take k m) = take k m" "filter is_digit (drop k m) = drop k m"
        using dig by (auto simp: filter_id_conv dest: in_set_takeD in_set_dropD)
      then show ?thesis by (simp add: is_digit_def)
    qed
    with False show ?thesis by (simp add: eq)
  qed
  then show ?thesis by (simp add: m_def digits_val_zeros)
qed

text \<open>What \<open>toFixed\<close> prints for a value that is not negative is the multiple of the last shown
  place that is nearest to it: the digits of the text, read as a number of such units, are at
  most half a unit off.\<close>

theorem toFixed_nearest:
  assumes "0 \<le> x"
  shows "\<bar>of_nat (digits_val (filter is_digit (toFixed x d))) / 10 ^ d - x\<bar> \<le> 1 / (2 * 10 ^ d)"
proof -
  define y where "y = x * 10 ^ d + 1 / 2"
  have "0 \<le> y" using assms by (simp add: y_def)
  then have "of_nat (nat \<lfloor>y\<rfloor>) = (of_int \<lfloor>y\<rfloor> :: rat)" by simp
  moreover have "of_int \<lfloor>y\<rfloor> \<le> y" "y < of_int \<lfloor>y\<rfloor> + 1" by linarith+
  ultimately have "\<bar>of_nat (nat \<lfloor>y\<rfloor>) - x * 10 ^ d\<bar> \<le> 1 / 2"
    unfolding y_def abs_le_iff by linarith
  then have "\<bar>of_nat (nat \<lfloor>y\<rfloor>) - x * 10 ^ d\<bar> / 10 ^ d \<le> 1 / 2 / 10 ^ d" by (intro divide_right_mono) auto
  moreover have "of_nat (nat \<lfloor>y\<rfloor>) / 10 ^ d - x = (of_nat (nat \<lfloor>y\<rfloor>) - x * 10 ^ d) / 10 ^ d"
    by (simp add: diff_divide_distrib)
  ultimately show ?thesis
    using assms by (simp add: toFixed_def fixed_digits_val y_def [symmetric] abs_divide)
qed

lemma toFixed_nearest_witness:
  "toFixed (5 / 2) 0 = ''3'' \<and> \<bar>of_nat (digits_val (filter is_digit (toFixed (5 / 2) 0))) / 10 ^ 0 - (5 / 2 :: rat)\<bar> \<le> 1 / (2 * 10 ^ 0)"
proof -
  have "toFixed (5 / 2) 0 = ''3''" by code_simp
  moreover have "\<bar>of_nat (digits_val (filter is_digit (toFixed (5 / 2) 0))) / 10 ^ 0 - (5 / 2 :: rat)\<bar> \<le> 1 / (2 * 10 ^ 0)"
    by (rule toFixed_nearest) simp
  ultimately show ?thesis by (rule conjI)
qed

text \<open>The text of a byte rate below one tebibyte per second fits the column of twelve characters
  in which the monitor shows it, with a blank left: it is padded, never cut.\<close>

theorem rate_fits_column:
  assumes "0 \<le> x" "x < 1024 ^ 4"
  shows "\<exists>blanks > 0. padRight (formatBytes (Fin x) @ ''/s'') 12 = formatBytes (Fin x) @ ''/s'' @ replicate blanks SP"
proof -
  have two: "length (toFixed y 2) \<le> 7" if "0 \<le> y" "y < 1024" for y
    using length_fixed_digits [of y 2 6] that by (simp add: toFixed_def)
  have none: "length (toFixed y 0) \<le> 4" if "0 \<le> y" "y < 1024" for y
  proof -
    have "nat \<lfloor>y + 1 / 2\<rfloor> < 10 ^ 4" using that by (simp add: nat_less_iff floor_less_iff)
    then have "length (nat_str (nat \<lfloor>y + 1 / 2\<rfloor>)) \<le> 4" by (intro length_nat_str) auto
    then show ?thesis using that by (auto simp: toFixed_def fixed_digits_def Let_def)
  qed
  have gb: "length (toFixed (x / 1024 / 1024 / 1024) 2) \<le> 7" using assms by (intro two) simp_all
  have mb: "length (toFixed (x / 1024 / 1024) 2) \<le> 7" if "\<not> 1024 * 1024 * 1024 \<le> x" using assms that by (intro two) simp_all
  have kb: "length (toFixed (x / 1024) 2) \<le> 7" if "\<not> 1024 * 1024 \<le> x" using assms that by (intro two) simp_all
  have b: "length (toFixed x 2) \<le> 7" "length (toFixed x 0) \<le> 4" if "\<not> 1024 \<le> x"
    using assms that by (intro two none; simp)+
  have b': "length (toFixed x 2) \<le> 7" if "\<not> 10 \<le> x" using assms that by (intro two) simp_all
  have "length (formatBytes (Fin x)) \<le> 9"
    unfolding formatBytes_def num_ge.simps num_div.simps formatFixed.simps
    using gb mb kb b b' by (auto split: if_split)
  then show ?thesis
    by (intro exI [of _ "12 - length (formatBytes (Fin x) @ ''/s'')"]) (auto simp: padRight_def)
qed

lemma rate_fits_column_witness:
  "formatBytes (Fin 1536) = ''1.50KB''
   \<and> (\<exists>blanks > 0. padRight (formatBytes (Fin 1536) @ ''/s'') 12 = formatBytes (Fin 1536) @ ''/s'' @ replicate blanks SP)"
proof -
  have "toFixed (3 / 2) 2 = ''1.50''" by code_simp
  then have "formatBytes (Fin 1536) = ''1.50KB''" by (simp add: formatBytes_def)
  moreover have "\<exists>blanks > 0. padRight (formatBytes (Fin 1536) @ ''/s'') 12 = formatBytes (Fin 1536) @ ''/s'' @ replicate blanks SP"
    by (rule rate_fits_column) simp_all
  ultimately show ?thesis by (rule conjI)
qed

end
