(* ===== verification/Monitor_Keys.thy ===== *)
theory Monitor_Keys
  imports Monitor_Model Monitor_Format
begin

text \<open>
  The keyboard of the monitor and the state that drawing a frame settles
  (\<open>handleKey\<close>, \<open>moveSelection\<close> and the head of \<open>renderSelf\<close> in
  \<open>monitor/pr-monitor/src/index.ts\<close>). A key changes the model and may shut the monitor down; the
  collection that follows most keys is the caller's next step.
\<close>

record KeyEvent =
  ke_name :: string
  ke_sequence :: "string option"
  ke_ctrl :: bool
  ke_meta :: bool

definition normalizeKeyName :: "KeyEvent \<Rightarrow> string" where
  "normalizeKeyName key =
     (let name = toLowerCase (ke_name key) in
      if name = ''return'' then ''enter''
      else if name = ''esc'' then ''escape''
      else if name = '' '' then ''space''
      else if name = ''arrowup'' then ''up''
      else if name = ''arrowdown'' then ''down''
      else if name = ''arrowleft'' then ''left''
      else if name = ''arrowright'' then ''right''
      else name)"

definition moveSelection :: "(string \<Rightarrow> string \<Rightarrow> int) \<Rightarrow> int \<Rightarrow> int \<Rightarrow> MonitorModel \<Rightarrow> MonitorModel" where
  "moveSelection lc terminalHeight delta s =
     (let rows = max 3 ((if op_rows (mo_options s) > 0 then op_rows (mo_options s) else terminalHeight) - 3);
          total = int (length (visibleEndpoints lc s))
      in if total = 0 then s\<lparr>mo_selectedLine := -1\<rparr>
         else
           let line = (if mo_selectedLine s < 0
                       then (if delta > 0 then mo_currentPage s * rows
                             else min (total - 1) ((mo_currentPage s + 1) * rows - 1))
                       else clamp (mo_selectedLine s + delta) 0 (total - 1))
           in s\<lparr>mo_selectedLine := line, mo_currentPage := line div rows\<rparr>)"

text \<open>The next state, whether the monitor is shut down, and whether a collection follows.\<close>

datatype key_outcome = Outcome MonitorModel bool bool

definition filter_key :: "string \<Rightarrow> KeyEvent \<Rightarrow> MonitorModel \<Rightarrow> MonitorModel" where
  "filter_key name key s =
     (if name = ''enter'' \<or> name = ''escape'' then s\<lparr>mo_filterInputMode := False\<rparr>
      else if name = ''backspace''
      then s\<lparr>mo_filterText := butlast (mo_filterText s), mo_currentPage := 0, mo_selectedLine := -1\<rparr>
      else case ke_sequence key of
        Some q \<Rightarrow> if length q = 1 \<and> \<not> ke_ctrl key \<and> \<not> ke_meta key
          then s\<lparr>mo_filterText := mo_filterText s @ q, mo_currentPage := 0, mo_selectedLine := -1\<rparr> else s
      | None \<Rightarrow> s)"

definition set_options :: "(MonitorOptions \<Rightarrow> MonitorOptions) \<Rightarrow> MonitorModel \<Rightarrow> MonitorModel" where
  "set_options f s = s\<lparr>mo_options := f (mo_options s)\<rparr>"

definition next_page :: "(string \<Rightarrow> string \<Rightarrow> int) \<Rightarrow> int \<Rightarrow> MonitorModel \<Rightarrow> MonitorModel" where
  "next_page lc terminalHeight s =
     (let rows = max 3 (terminalHeight - 3);
          totalPages = max 1 ((int (length (visibleEndpoints lc s)) + rows - 1) div rows)
      in s\<lparr>mo_currentPage := min (totalPages - 1) (mo_currentPage s + 1), mo_selectedLine := -1\<rparr>)"

definition open_detail :: "(string \<Rightarrow> string \<Rightarrow> int) \<Rightarrow> MonitorModel \<Rightarrow> MonitorModel" where
  "open_detail lc s =
     (let es = visibleEndpoints lc s; i = mo_selectedLine s
      in if 0 \<le> i \<and> i < int (length es)
         then s\<lparr>mo_detailView := Some (ep_url (es ! nat i)),
                mo_lastJumpMessage := buildInspectCommand (es ! nat i) (mo_options s)\<rparr>
         else s)"

definition toggle_detail_mode :: "MonitorOptions \<Rightarrow> MonitorOptions" where
  "toggle_detail_mode opts =
     (if op_detailMode opts
      then opts\<lparr>op_detailMode := False, op_observeAllMode := False, op_activeMode := False\<rparr>
      else opts\<lparr>op_detailMode := True\<rparr>)"

definition command_key :: "(string \<Rightarrow> string \<Rightarrow> int) \<Rightarrow> int \<Rightarrow> string \<Rightarrow> MonitorModel \<Rightarrow> MonitorModel" where
  "command_key lc terminalHeight name s =
     (if name = ''space'' then s\<lparr>mo_paused := \<not> mo_paused s\<rparr>
      else if name = ''left'' then s\<lparr>mo_currentPage := max 0 (mo_currentPage s - 1), mo_selectedLine := -1\<rparr>
      else if name = ''right'' then next_page lc terminalHeight s
      else if name = ''up'' then moveSelection lc terminalHeight (-1) s
      else if name = ''down'' then moveSelection lc terminalHeight 1 s
      else if name = ''enter'' then open_detail lc s
      else if name = ''z'' then s\<lparr>mo_selectedLine := -1\<rparr>
      else if name = ''t'' then set_options (\<lambda>opts. opts\<lparr>op_countMode := \<not> op_countMode opts\<rparr>) s
      else if name = ''l'' then set_options toggle_detail_mode s
      else if name = ''o'' \<and> op_detailMode (mo_options s)
      then set_options (\<lambda>opts. opts\<lparr>op_observeAllMode := \<not> op_observeAllMode opts\<rparr>) s
      else if name = ''e'' then set_options (\<lambda>opts. opts\<lparr>op_profilerMode := \<not> op_profilerMode opts\<rparr>) s
      else if name = ''s'' then set_options (\<lambda>opts. opts\<lparr>op_serMode := \<not> op_serMode opts\<rparr>) s
      else if name = ''a'' \<and> op_detailMode (mo_options s)
      then set_options (\<lambda>opts. opts\<lparr>op_activeMode := \<not> op_activeMode opts\<rparr>) s
      else if name = ''y'' then set_options (\<lambda>opts. opts\<lparr>op_pubsubMode := \<not> op_pubsubMode opts\<rparr>) s
      else if name = ''p'' then set_options (\<lambda>opts. opts\<lparr>op_processMode := \<not> op_processMode opts\<rparr>) s
      else if name = ''c'' then set_options (\<lambda>opts. opts\<lparr>op_chartMode := \<not> op_chartMode opts\<rparr>) s
      else if name = ''i'' then s\<lparr>mo_filterInputMode := True\<rparr>
      else s)"

definition handleKey :: "(string \<Rightarrow> string \<Rightarrow> int) \<Rightarrow> int \<Rightarrow> KeyEvent \<Rightarrow> MonitorModel \<Rightarrow> key_outcome" where
  "handleKey lc terminalHeight key s =
     (let name = normalizeKeyName key in
      if mo_filterInputMode s then Outcome (filter_key name key s) False False
      else if mo_detailView s \<noteq> None \<and> (name = ''enter'' \<or> name = ''escape'')
      then Outcome (s\<lparr>mo_detailView := None\<rparr>) False False
      else if mo_detailView s \<noteq> None \<and> name = ''q'' then Outcome s True False
      else if name = ''q'' \<or> name = ''escape'' then Outcome s True True
      else Outcome (command_key lc terminalHeight name s) False True)"

fun outcome_state :: "key_outcome \<Rightarrow> MonitorModel" where
  "outcome_state (Outcome s quit collects) = s"

subsection \<open>Frames\<close>

definition safeDimension :: "rat option \<Rightarrow> int \<Rightarrow> int" where
  "safeDimension v fallback = (case v of Some x \<Rightarrow> if 0 < x then \<lfloor>x\<rfloor> else fallback | None \<Rightarrow> fallback)"

definition content_rows :: "int \<Rightarrow> MonitorModel \<Rightarrow> int" where
  "content_rows height s =
     (let viewHeight = (if op_rows (mo_options s) > 0 then min height (op_rows (mo_options s)) else height)
      in max 3 (viewHeight - 3))"

definition total_pages :: "(string \<Rightarrow> string \<Rightarrow> int) \<Rightarrow> int \<Rightarrow> MonitorModel \<Rightarrow> int" where
  "total_pages lc height s =
     max 1 ((int (length (visibleEndpoints lc s)) + content_rows height s - 1) div content_rows height s)"

text \<open>A frame first brings the page and the selection back into range.\<close>

definition settle_frame :: "(string \<Rightarrow> string \<Rightarrow> int) \<Rightarrow> int \<Rightarrow> MonitorModel \<Rightarrow> MonitorModel" where
  "settle_frame lc height s =
     (if mo_detailView s \<noteq> None then s
      else
        let total = int (length (visibleEndpoints lc s))
        in s\<lparr>mo_currentPage := clamp (mo_currentPage s) 0 (total_pages lc height s - 1),
             mo_selectedLine := (if mo_selectedLine s \<ge> total then total - 1 else mo_selectedLine s)\<rparr>)"

text \<open>The endpoints of the rows of the page.\<close>

definition page_rows :: "(string \<Rightarrow> string \<Rightarrow> int) \<Rightarrow> int \<Rightarrow> MonitorModel \<Rightarrow> EndpointInfo list" where
  "page_rows lc height s =
     (let rows = nat (content_rows height s)
      in take rows (drop (nat (mo_currentPage s) * rows) (visibleEndpoints lc s)))"

end
