(* ===== verification/Monitor_Model_Props.thy ===== *)
theory Monitor_Model_Props
  imports Monitor_Keys
begin

text \<open>
  What the state of the monitor guarantees: an invariant that initialising, the two halves of a
  collection, every key and every frame keep, the merge of process lists, and the order of the
  visible endpoints.
\<close>

subsection \<open>Maps by URL\<close>

definition all_values :: "('v \<Rightarrow> bool) \<Rightarrow> ('k \<times> 'v) list \<Rightarrow> bool" where
  "all_values P m \<longleftrightarrow> (\<forall>(k, v) \<in> set m. P v)"

lemma all_values_simps [simp]:
  "all_values P []" "all_values P ((k, v) # m) \<longleftrightarrow> P v \<and> all_values P m"
  "all_values P (m @ n) \<longleftrightarrow> all_values P m \<and> all_values P n"
  by (auto simp: all_values_def)

lemma all_values_lookup: "all_values P m \<Longrightarrow> map_of m k = Some v \<Longrightarrow> P v"
  by (auto simp: all_values_def dest: map_of_SomeD)

lemma all_values_update: "all_values P m \<Longrightarrow> P v \<Longrightarrow> all_values P (AList.update k v m)"
  by (induction m) auto

lemma keys_update: "map_of m k \<noteq> None \<Longrightarrow> map fst (AList.update k v m) = map fst m"
  by (induction m) (auto split: if_splits)

lemma keys_change_value [simp]: "map fst (change_value k f m) = map fst m"
  by (simp add: change_value_def keys_update split: option.split)

lemma all_values_change:
  "all_values P m \<Longrightarrow> (\<And>v. P v \<Longrightarrow> P (f v)) \<Longrightarrow> all_values P (change_value k f m)"
  by (auto simp: change_value_def intro: all_values_update dest: all_values_lookup split: option.split)

lemma keys_ensure: "map fst (ensure k v m) = (if k \<in> set (map fst m) then map fst m else map fst m @ [k])"
  by (auto simp: ensure_def map_of_eq_None_iff)

lemma all_values_ensure: "all_values P m \<Longrightarrow> P v \<Longrightarrow> all_values P (ensure k v m)"
  by (simp add: ensure_def)

lemma map_of_change_value:
  "map_of (change_value k f m) j = (if j = k then map_option f (map_of m k) else map_of m j)"
  by (auto simp: change_value_def update_conv' split: option.split)

lemma map_url_update_first [simp]:
  "(\<And>e. ep_url (f e) = ep_url e) \<Longrightarrow> map ep_url (update_first p f es) = map ep_url es"
  by (induction es) auto

lemma update_first_all: "(\<forall>x \<in> set xs. P x) \<Longrightarrow> (\<And>x. P x \<Longrightarrow> P (f x)) \<Longrightarrow> (\<forall>x \<in> set (update_first p f xs). P x)"
  by (induction xs) auto

subsection \<open>Processes\<close>

interpretation processes: keyed_merge process_key process_key id "\<lambda>x e. x"
  by unfold_locales simp_all

lemma fold_last: "fold (\<lambda>x e. x) xs x = last (x # xs)"
  by (induction xs arbitrary: x) auto

lemma processes_entry:
  "filter (\<lambda>q. process_key q = k) ps \<noteq> [] \<Longrightarrow>
    processes.entry_of ps k = last (filter (\<lambda>q. process_key q = k) ps)"
  by (cases "filter (\<lambda>q. process_key q = k) ps") (simp_all add: processes.entry_of_def fold_last)

lemma distinct_processes: "distinct (map process_key (mergeProcesses lc current incoming))"
  unfolding mergeProcesses_def by (intro distinct_map_js_sort processes.distinct_merged)

lemma comparator_process: "comparator lc \<Longrightarrow> comparator (process_compare lc)"
  unfolding process_compare_def
  by (rule comparator_then [OF comparator.comparator_on int_cmp.comparator_on])

text \<open>Merging process lists keeps for every name, pid and type exactly the last process reported,
  an incoming one replacing a current one, and sorts them by name and pid.\<close>

theorem merge_processes_last_wins:
  assumes "comparator lc"
  shows "distinct (map process_key (mergeProcesses lc current incoming))
    \<and> sorted_wrt (\<lambda>a b. process_compare lc a b \<le> 0) (mergeProcesses lc current incoming)
    \<and> set (mergeProcesses lc current incoming) =
      {last (filter (\<lambda>q. process_key q = process_key p) (current @ incoming)) | p. p \<in> set (current @ incoming)}"
proof -
  have "set (mergeProcesses lc current incoming) =
      processes.entry_of (current @ incoming) ` process_key ` set (current @ incoming)"
    unfolding mergeProcesses_def set_js_sort processes.merged set_map set_uniq by (simp add: image_image)
  also have "\<dots> = {last (filter (\<lambda>q. process_key q = process_key p) (current @ incoming)) | p. p \<in> set (current @ incoming)}"
  proof -
    have "processes.entry_of (current @ incoming) (process_key p) =
        last (filter (\<lambda>q. process_key q = process_key p) (current @ incoming))"
      if "p \<in> set (current @ incoming)" for p
      using that by (intro processes_entry) (auto simp: filter_empty_conv)
    then have "processes.entry_of (current @ incoming) ` process_key ` set (current @ incoming) =
        (\<lambda>p. last (filter (\<lambda>q. process_key q = process_key p) (current @ incoming))) ` set (current @ incoming)"
      unfolding image_image by (intro image_cong refl)
    then show ?thesis by (simp only: Setcompr_eq_image)
  qed
  finally have "set (mergeProcesses lc current incoming) =
      {last (filter (\<lambda>q. process_key q = process_key p) (current @ incoming)) | p. p \<in> set (current @ incoming)}" .
  then show ?thesis
    using distinct_processes comparator.sorted_js_sort [OF comparator_process [OF assms]]
    by (simp add: mergeProcesses_def)
qed

definition demo_process :: "string \<Rightarrow> nat \<Rightarrow> rat \<Rightarrow> ProcessInfo" where
  "demo_process name pid cpu = \<lparr>pi_type = publisher_bit, pi_host = ''h'', pi_ip = ''127.0.0.1'', pi_name = name,
     pi_pid = pid, pi_profiler = Some cpu\<rparr>"

lemma merge_processes_last_wins_witness:
  "map pi_profiler (mergeProcesses unit_compare [demo_process ''nav'' 7 1] [demo_process ''loc'' 3 2, demo_process ''nav'' 7 4])
     = [Some 2, Some 4]
   \<and> distinct (map process_key (mergeProcesses unit_compare [demo_process ''nav'' 7 1] [demo_process ''loc'' 3 2, demo_process ''nav'' 7 4]))"
proof -
  have "map pi_profiler (mergeProcesses unit_compare [demo_process ''nav'' 7 1] [demo_process ''loc'' 3 2, demo_process ''nav'' 7 4])
     = [Some 2, Some 4]" by code_simp
  with merge_processes_last_wins [OF unit_cmp.comparator_axioms, of "[demo_process ''nav'' 7 1]"
      "[demo_process ''loc'' 3 2, demo_process ''nav'' 7 4]"] show ?thesis by blast
qed

subsection \<open>The order of the visible endpoints\<close>

lemma sort_insert_before:
  "(\<forall>b \<in> set bs. cmp x b \<le> 0) \<Longrightarrow> sort_insert cmp x (as @ bs) = sort_insert cmp x as @ bs"
  by (induction as) (cases bs; simp)+

lemma sort_insert_behind:
  "(\<forall>a \<in> set as. \<not> cmp x a \<le> 0) \<Longrightarrow> sort_insert cmp x (as @ bs) = as @ sort_insert cmp x bs"
  by (induction as) simp_all

lemma sort_insert_cong:
  "(\<forall>y \<in> set ys. cmp x y = cmp' x y) \<Longrightarrow> sort_insert cmp x ys = sort_insert cmp' x ys"
  by (induction ys) auto

text \<open>The list on the screen is the visible endpoints that are active, ordered by URL, followed by
  the visible ones that are not, ordered by URL, whatever the collation.\<close>

theorem visible_active_first:
  "visibleEndpoints lc s =
    js_sort (\<lambda>a b. lc (ep_url a) (ep_url b)) (filter (\<lambda>e. endpoint_visible s e \<and> endpoint_active s e) (mo_endpoints s))
    @ js_sort (\<lambda>a b. lc (ep_url a) (ep_url b)) (filter (\<lambda>e. endpoint_visible s e \<and> \<not> endpoint_active s e) (mo_endpoints s))"
proof -
  define by_url :: "EndpointInfo \<Rightarrow> EndpointInfo \<Rightarrow> int" where "by_url = (\<lambda>a b. lc (ep_url a) (ep_url b))"
  have "js_sort (visible_compare lc s) es =
      js_sort by_url (filter (endpoint_active s) es) @ js_sort by_url (filter (\<lambda>e. \<not> endpoint_active s e) es)" for es
  proof (induction es)
    case Nil
    then show ?case by simp
  next
    case (Cons x es)
    define A where "A = js_sort by_url (filter (endpoint_active s) es)"
    define B where "B = js_sort by_url (filter (\<lambda>e. \<not> endpoint_active s e) es)"
    have act: "\<forall>a \<in> set A. endpoint_active s a" and inact: "\<forall>b \<in> set B. \<not> endpoint_active s b"
      by (simp_all add: A_def B_def)
    show ?case
    proof (cases "endpoint_active s x")
      case True
      have "sort_insert (visible_compare lc s) x (A @ B) = sort_insert (visible_compare lc s) x A @ B"
        using inact True by (intro sort_insert_before) (simp add: visible_compare_def Let_def)
      also have "sort_insert (visible_compare lc s) x A = sort_insert by_url x A"
        using act True by (intro sort_insert_cong) (simp add: visible_compare_def by_url_def Let_def)
      finally show ?thesis using Cons True by (simp add: A_def B_def)
    next
      case False
      have "sort_insert (visible_compare lc s) x (A @ B) = A @ sort_insert (visible_compare lc s) x B"
        using act False by (intro sort_insert_behind) (simp add: visible_compare_def Let_def)
      also have "sort_insert (visible_compare lc s) x B = sort_insert by_url x B"
        using inact False by (intro sort_insert_cong) (simp add: visible_compare_def by_url_def Let_def)
      finally show ?thesis using Cons False by (simp add: A_def B_def)
    qed
  qed
  then show ?thesis
    by (simp add: visibleEndpoints_def by_url_def conj_commute)
qed

end
