(* ===== verification/Monitor_Invariant.thy ===== *)
theory Monitor_Invariant
  imports Monitor_Model_Props
begin

text \<open>
  The monitor as a state machine: the events that change its state, in any order, and the
  invariant they keep. A collection is two events, with keys and frames allowed in between, as the
  awaited collectors leave room for them.
\<close>

subsection \<open>The invariant\<close>

definition history_ok :: "int \<Rightarrow> EndpointHistory \<Rightarrow> bool" where
  "history_ok chartWidth hi \<longleftrightarrow> length (hi_freq hi) \<le> nat (max 26 chartWidth)
     \<and> length (hi_rate hi) = length (hi_freq hi) \<and> length (hi_loss hi) = length (hi_freq hi)
     \<and> length (hi_latency hi) = length (hi_freq hi)"

definition stats_ok :: "EndpointStats \<Rightarrow> bool" where
  "stats_ok st \<longleftrightarrow> (st_stable st \<longrightarrow> st_active st \<and> 2 \<le> st_ticks st)"

definition modes_ok :: "MonitorOptions \<Rightarrow> bool" where
  "modes_ok opts \<longleftrightarrow> op_detailMode opts \<or> \<not> op_observeAllMode opts \<and> \<not> op_activeMode opts"

text \<open>Every endpoint has its entry in the three maps, and the entries are within bounds.\<close>

definition entries_in_step :: "MonitorModel \<Rightarrow> bool" where
  "entries_in_step s \<longleftrightarrow> distinct (map ep_url (mo_endpoints s))
     \<and> map fst (mo_stats s) = map ep_url (mo_endpoints s)
     \<and> map fst (mo_histories s) = map ep_url (mo_endpoints s)
     \<and> map fst (mo_details s) = map ep_url (mo_endpoints s)"

definition values_bounded :: "MonitorModel \<Rightarrow> bool" where
  "values_bounded s \<longleftrightarrow> all_values stats_ok (mo_stats s)
     \<and> all_values (history_ok (op_chartWidth (mo_options s))) (mo_histories s)
     \<and> all_values (\<lambda>d. length d \<le> 80) (mo_details s)
     \<and> (\<forall>e \<in> set (mo_endpoints s). distinct (map process_key (ep_processList e)))"

definition screen_ok :: "MonitorModel \<Rightarrow> bool" where
  "screen_ok s \<longleftrightarrow> modes_ok (mo_options s) \<and> 0 \<le> mo_currentPage s \<and> -1 \<le> mo_selectedLine s"

definition monitor_ok :: "MonitorModel \<Rightarrow> bool" where
  "monitor_ok s \<longleftrightarrow> entries_in_step s \<and> values_bounded s \<and> screen_ok s"

lemmas ok_defs = monitor_ok_def entries_in_step_def values_bounded_def screen_ok_def

subsection \<open>Events\<close>

inductive monitor_step :: "monitor_host \<Rightarrow> MonitorModel \<Rightarrow> MonitorModel \<Rightarrow> bool" for h where
  begin_collect: "monitor_step h s (collect_begin s)"
| end_collect: "mo_collecting s \<Longrightarrow> monitor_step h s (collect_end h now snapshots s)"
| key: "monitor_step h s (outcome_state (handleKey (mh_localeCompare h) height k s))"
| frame: "monitor_step h s (settle_frame (mh_localeCompare h) height s)"

inductive monitor_reachable :: "monitor_host \<Rightarrow> MonitorOptions \<Rightarrow> MonitorModel \<Rightarrow> bool" for h opts where
  start: "distinct (map ep_url endpoints) \<Longrightarrow> (\<forall>e \<in> set endpoints. ep_processList e = []) \<Longrightarrow>
    monitor_reachable h opts (initialize now endpoints message names (new_model opts))"
| step: "monitor_reachable h opts s \<Longrightarrow> monitor_step h s s' \<Longrightarrow> monitor_reachable h opts s'"

subsection \<open>Every event keeps it\<close>

lemma length_shifted [simp]: "length (shifted n xs) = min (length xs) n"
  by (simp add: shifted_def)

lemma history_ok_append: "history_ok w hi \<Longrightarrow> history_ok w (appendHistory hi a b c d w)"
  by (simp add: history_ok_def appendHistory_def Let_def)

lemma history_ok_sample: "history_ok w hi \<Longrightarrow> history_ok w (appendHistorySample hi st w)"
  by (simp add: appendHistorySample_def history_ok_append)

lemma stats_ok_sampled: "stats_ok (sampled_stats sample st)"
  by (auto simp: stats_ok_def sampled_stats_def Let_def)

lemma detail_bound: "length (appendDetail h d sample st) \<le> 80"
  by (simp add: appendDetail_def)

lemma ok_applySample:
  assumes "monitor_ok s"
  shows "monitor_ok (applySample h sample s)"
proof (cases "find (\<lambda>item. ep_url item = cs_url sample) (mo_endpoints s)")
  case None
  with assms show ?thesis by (simp add: applySample_def)
next
  case (Some ep)
  have stats: "all_values stats_ok (change_value u (\<lambda>_. sampled_stats sample old) (mo_stats s))" for u old
    using assms by (intro all_values_change) (auto simp: ok_defs stats_ok_sampled)
  have hist: "all_values (history_ok (op_chartWidth (mo_options s)))
      (change_value u (\<lambda>hi. appendHistorySample hi st (op_chartWidth (mo_options s))) (mo_histories s))" for u st
    using assms by (intro all_values_change) (auto simp: ok_defs history_ok_sample)
  have det: "all_values (\<lambda>d. length d \<le> 80) (change_value u (\<lambda>d. appendDetail h d sample st) (mo_details s))" for u st
    using assms by (intro all_values_change) (auto simp: ok_defs detail_bound)
  have procs: "\<forall>e \<in> set (update_first p (\<lambda>e. e\<lparr>ep_processList := mergeProcesses lc (ep_processList e) ps\<rparr>)
      (mo_endpoints s)). distinct (map process_key (ep_processList e))" for p lc ps
    using assms by (intro update_first_all) (auto simp: ok_defs distinct_processes)
  show ?thesis
    using assms stats hist det procs by (simp add: applySample_def Some Let_def ok_defs)
qed

lemma ok_status: "monitor_ok (updateCollectorStatus now name status s) \<longleftrightarrow> monitor_ok s"
  by (simp add: updateCollectorStatus_def Let_def ok_defs)

lemma ok_fold: "(\<And>x s. monitor_ok s \<Longrightarrow> monitor_ok (f x s)) \<Longrightarrow> monitor_ok s \<Longrightarrow> monitor_ok (fold f xs s)"
  by (induction xs arbitrary: s) auto

lemma ok_snapshot: "monitor_ok s \<Longrightarrow> monitor_ok (apply_snapshot h now p s)"
  by (auto simp: apply_snapshot_def ok_status intro!: ok_fold ok_applySample split: prod.split sum.split)

lemma ok_totals: "monitor_ok (refreshTotals s) \<longleftrightarrow> monitor_ok s"
  by (simp add: refreshTotals_def ok_defs)

lemma ok_append_missing: "monitor_ok s \<Longrightarrow> monitor_ok (append_missing now ep s)"
  by (auto simp: append_missing_def ok_defs keys_update stats_ok_def history_ok_append
      intro!: all_values_update dest: all_values_lookup split: option.split)

lemma ok_collect_end: "monitor_ok s \<Longrightarrow> monitor_ok (collect_end h now snapshots s)"
proof -
  assume "monitor_ok s"
  then have "monitor_ok (appendMissingHistory now (refreshTotals
      (fold (apply_snapshot h now) (zip (mo_collectors s) snapshots) s)))"
    unfolding appendMissingHistory_def
    by (intro ok_fold ok_append_missing) (auto simp: ok_totals intro!: ok_fold ok_snapshot)
  then show ?thesis by (simp add: collect_end_def ok_defs)
qed

lemma ok_count_tick: "monitor_ok s \<Longrightarrow> ep_url ep \<in> ep_url ` set (mo_endpoints s) \<Longrightarrow> monitor_ok (count_tick ep s)"
proof -
  assume ok: "monitor_ok s" and ep: "ep_url ep \<in> ep_url ` set (mo_endpoints s)"
  then have "map_of (mo_stats s) (ep_url ep) \<noteq> None" "map_of (mo_histories s) (ep_url ep) \<noteq> None"
    "map_of (mo_details s) (ep_url ep) \<noteq> None"
    unfolding map_of_eq_None_iff by (metis ok_defs(1,2) image_set)+
  then have same: "ensureEndpointState ep s = s" by (simp add: ensureEndpointState_def ensure_def)
  have "all_values stats_ok (change_value u (\<lambda>st. st\<lparr>st_ticks := st_ticks st + 1\<rparr>) (mo_stats s))" for u
    using ok by (intro all_values_change) (auto simp: ok_defs stats_ok_def)
  then show ?thesis using ok by (simp add: count_tick_def same Let_def ok_defs)
qed

lemma count_tick_endpoints [simp]: "mo_endpoints (count_tick ep s) = mo_endpoints s"
  by (simp add: count_tick_def ensureEndpointState_def Let_def)

lemma ok_collect_begin: "monitor_ok s \<Longrightarrow> monitor_ok (collect_begin s)"
proof -
  assume ok: "monitor_ok s"
  have "monitor_ok (fold count_tick es s')"
    if "monitor_ok s'" "\<forall>e \<in> set es. ep_url e \<in> ep_url ` set (mo_endpoints s')" for es s'
    using that
  proof (induction es arbitrary: s')
    case (Cons a es)
    then have "monitor_ok (count_tick a s')" by (intro ok_count_tick) simp_all
    with Cons show ?case by simp
  qed simp
  moreover have "monitor_ok (s\<lparr>mo_collecting := True\<rparr>)" using ok by (simp add: ok_defs)
  ultimately show ?thesis using ok by (simp add: collect_begin_def)
qed

lemma ok_options:
  assumes "monitor_ok s" "op_chartWidth (f (mo_options s)) = op_chartWidth (mo_options s)"
    "modes_ok (f (mo_options s))"
  shows "monitor_ok (set_options f s)"
  using assms by (simp add: set_options_def ok_defs)

lemma ok_moveSelection: "monitor_ok s \<Longrightarrow> monitor_ok (moveSelection lc height delta s)"
proof -
  assume ok: "monitor_ok s"
  define rows where "rows = max 3 ((if op_rows (mo_options s) > 0 then op_rows (mo_options s) else height) - 3)"
  define total where "total = int (length (visibleEndpoints lc s))"
  define line where "line = (if mo_selectedLine s < 0
    then (if delta > 0 then mo_currentPage s * rows else min (total - 1) ((mo_currentPage s + 1) * rows - 1))
    else clamp (mo_selectedLine s + delta) 0 (total - 1))"
  have rows: "3 \<le> rows" by (simp add: rows_def)
  have page: "0 \<le> mo_currentPage s" using ok by (simp add: ok_defs)
  then have "0 \<le> mo_currentPage s * rows" "3 \<le> (mo_currentPage s + 1) * rows"
    using rows mult_mono [of 1 "mo_currentPage s + 1" 3 rows] by simp_all
  then have "0 \<le> line" if "total \<noteq> 0" using that by (auto simp: line_def clamp_def total_def)
  then have "-1 \<le> line" if "total \<noteq> 0" using that by fastforce
  moreover from \<open>total \<noteq> 0 \<Longrightarrow> 0 \<le> line\<close> have "0 \<le> line div rows" if "total \<noteq> 0" using that rows by (simp add: pos_imp_zdiv_nonneg_iff)
  ultimately show ?thesis
    using ok unfolding moveSelection_def Let_def rows_def [symmetric] total_def [symmetric] line_def [symmetric]
    by (simp add: ok_defs)
qed

lemma ok_next_page: "monitor_ok s \<Longrightarrow> monitor_ok (next_page lc height s)"
  by (simp add: next_page_def Let_def ok_defs)

lemma ok_open_detail: "monitor_ok s \<Longrightarrow> monitor_ok (open_detail lc s)"
  by (simp add: open_detail_def Let_def ok_defs)

lemma if_either: "(c \<Longrightarrow> P a) \<Longrightarrow> P b \<Longrightarrow> P (if c then a else b)"
  by simp

lemma ok_command_key: "monitor_ok s \<Longrightarrow> monitor_ok (command_key lc height name s)"
  unfolding command_key_def
  by (intro if_either [where P = monitor_ok] ok_options ok_moveSelection ok_next_page ok_open_detail)
    (simp_all add: ok_defs modes_ok_def toggle_detail_mode_def)

lemma ok_filter_key: "monitor_ok s \<Longrightarrow> monitor_ok (filter_key name k s)"
  by (auto simp: filter_key_def ok_defs split: option.split)

lemma ok_handleKey: "monitor_ok s \<Longrightarrow> monitor_ok (outcome_state (handleKey lc height k s))"
  unfolding handleKey_def Let_def
  by (auto intro: ok_command_key ok_filter_key split: if_split) (simp_all add: ok_defs)

lemma ok_settle_frame: "monitor_ok s \<Longrightarrow> monitor_ok (settle_frame lc height s)"
  by (auto simp: settle_frame_def Let_def ok_defs clamp_def total_pages_def)


lemma map_fst_fold_ensure:
  "distinct (map ep_url es) \<Longrightarrow> set (map fst (mo_stats s)) \<inter> set (map ep_url es) = {} \<Longrightarrow>
    map fst (mo_stats s) = map fst (mo_histories s) \<Longrightarrow> map fst (mo_stats s) = map fst (mo_details s) \<Longrightarrow>
    map fst (mo_stats (fold ensureEndpointState es s)) = map fst (mo_stats s) @ map ep_url es
    \<and> map fst (mo_histories (fold ensureEndpointState es s)) = map fst (mo_stats s) @ map ep_url es
    \<and> map fst (mo_details (fold ensureEndpointState es s)) = map fst (mo_stats s) @ map ep_url es"
proof (induction es arbitrary: s)
  case (Cons e es)
  define s1 where "s1 = ensureEndpointState e s"
  have new: "ep_url e \<notin> set (map fst (mo_stats s))" "ep_url e \<notin> set (map fst (mo_histories s))"
    "ep_url e \<notin> set (map fst (mo_details s))"
    unfolding Cons.prems(3) [symmetric] Cons.prems(4) [symmetric] using Cons.prems(2) by auto
  have k: "map fst (mo_stats s1) = map fst (mo_stats s) @ [ep_url e]"
    "map fst (mo_histories s1) = map fst (mo_stats s) @ [ep_url e]"
    "map fst (mo_details s1) = map fst (mo_stats s) @ [ep_url e]"
    unfolding s1_def ensureEndpointState_def
    using new Cons.prems(3,4) by (simp_all add: keys_ensure del: set_map)
  from Cons.IH [of s1] Cons.prems(1,2) k show ?case by (auto simp: s1_def [symmetric])
qed simp

lemma ensure_keeps:
  "mo_endpoints (fold ensureEndpointState es s) = mo_endpoints s"
  "mo_options (fold ensureEndpointState es s) = mo_options s"
  "mo_currentPage (fold ensureEndpointState es s) = mo_currentPage s"
  "mo_selectedLine (fold ensureEndpointState es s) = mo_selectedLine s"
  by (induction es arbitrary: s) (simp_all add: ensureEndpointState_def)

lemma ensure_values:
  "all_values stats_ok (mo_stats s) \<Longrightarrow> all_values stats_ok (mo_stats (fold ensureEndpointState es s))"
  "all_values (history_ok w) (mo_histories s) \<Longrightarrow> all_values (history_ok w) (mo_histories (fold ensureEndpointState es s))"
  "all_values (\<lambda>d. length d \<le> 80) (mo_details s) \<Longrightarrow> all_values (\<lambda>d. length d \<le> 80) (mo_details (fold ensureEndpointState es s))"
proof -
  have "all_values stats_ok (mo_stats s) \<Longrightarrow> all_values stats_ok (mo_stats (ensureEndpointState e s))"
    and "all_values (history_ok w) (mo_histories s) \<Longrightarrow> all_values (history_ok w) (mo_histories (ensureEndpointState e s))"
    and "all_values (\<lambda>d. length d \<le> 80) (mo_details s) \<Longrightarrow> all_values (\<lambda>d. length d \<le> 80) (mo_details (ensureEndpointState e s))"
    for e s
    by (simp_all add: ensureEndpointState_def all_values_ensure)
      (simp_all add: all_values_ensure stats_ok_def zeroStats_def history_ok_def emptyHistory_def)
  then show "all_values stats_ok (mo_stats s) \<Longrightarrow> all_values stats_ok (mo_stats (fold ensureEndpointState es s))"
    and "all_values (history_ok w) (mo_histories s) \<Longrightarrow> all_values (history_ok w) (mo_histories (fold ensureEndpointState es s))"
    and "all_values (\<lambda>d. length d \<le> 80) (mo_details s) \<Longrightarrow> all_values (\<lambda>d. length d \<le> 80) (mo_details (fold ensureEndpointState es s))"
    by (induction es arbitrary: s) auto
qed

lemma ok_initialize:
  assumes "distinct (map ep_url endpoints)" "\<forall>e \<in> set endpoints. ep_processList e = []" "modes_ok opts"
  shows "monitor_ok (initialize now endpoints message names (new_model opts))"
proof -
  define s where "s = (new_model opts)\<lparr>mo_endpoints := endpoints\<rparr>"
  have empty: "mo_stats s = []" "mo_histories s = []" "mo_details s = []" "mo_endpoints s = endpoints"
    "mo_options s = opts" "mo_currentPage s = 0" "mo_selectedLine s = -1"
    by (simp_all add: s_def new_model_def)
  have "monitor_ok (fold ensureEndpointState endpoints s)"
    using map_fst_fold_ensure [of endpoints s] ensure_values(1) [of s endpoints]
      ensure_values(2) [of "op_chartWidth opts" s endpoints] ensure_values(3) [of s endpoints] assms
    by (simp add: ok_defs ensure_keeps empty)
  then show ?thesis by (simp add: initialize_def Let_def s_def [symmetric] ok_defs)
qed

lemma monitor_ok_step: "monitor_step h s s' \<Longrightarrow> monitor_ok s \<Longrightarrow> monitor_ok s'"
  by (induction rule: monitor_step.induct)
    (auto intro: ok_collect_begin ok_collect_end ok_handleKey ok_settle_frame)

lemma monitor_ok_reachable: "monitor_reachable h opts s \<Longrightarrow> modes_ok opts \<Longrightarrow> monitor_ok s"
  by (induction rule: monitor_reachable.induct) (auto intro: ok_initialize monitor_ok_step)

text \<open>C12. In every state the monitor can reach, by collections, keys and frames in any order: each
  endpoint has exactly one entry in the maps of statistics, histories and details, in the order of
  the endpoints; the four series of a history have one length, within the chart's bound; at most
  80 payloads are kept; an endpoint is stable only while active and after two ticks; no process
  is listed twice; the modes that need the detail mode are off without it; and page and selection
  are not below their least values.\<close>

theorem monitor_invariant:
  assumes "monitor_reachable h opts s" "modes_ok opts"
  shows "map fst (mo_stats s) = map ep_url (mo_endpoints s) \<and> map fst (mo_histories s) = map ep_url (mo_endpoints s)
    \<and> map fst (mo_details s) = map ep_url (mo_endpoints s) \<and> distinct (map ep_url (mo_endpoints s))
    \<and> (\<forall>(u, hi) \<in> set (mo_histories s). length (hi_freq hi) \<le> nat (max 26 (op_chartWidth (mo_options s)))
        \<and> length (hi_rate hi) = length (hi_freq hi) \<and> length (hi_loss hi) = length (hi_freq hi)
        \<and> length (hi_latency hi) = length (hi_freq hi))
    \<and> (\<forall>(u, d) \<in> set (mo_details s). length d \<le> 80)
    \<and> (\<forall>(u, st) \<in> set (mo_stats s). st_stable st \<longrightarrow> st_active st \<and> 2 \<le> st_ticks st)
    \<and> (\<forall>e \<in> set (mo_endpoints s). distinct (map process_key (ep_processList e)))
    \<and> (\<not> op_detailMode (mo_options s) \<longrightarrow> \<not> op_observeAllMode (mo_options s) \<and> \<not> op_activeMode (mo_options s))
    \<and> 0 \<le> mo_currentPage s \<and> -1 \<le> mo_selectedLine s"
  using monitor_ok_reachable [OF assms]
  unfolding ok_defs all_values_def history_ok_def stats_ok_def modes_ok_def by blast


subsection \<open>Endpoints that are not seen\<close>

definition mark_stale :: "int \<Rightarrow> EndpointStats \<Rightarrow> EndpointStats" where
  "mark_stale now st = (if is_stale now st then st\<lparr>st_active := False, st_stable := False\<rparr> else st)"

lemma is_stale_mark [simp]: "is_stale now (mark_stale now st) = is_stale now st"
  by (simp add: mark_stale_def is_stale_def)

lemma mark_stale_idem [simp]: "mark_stale now (mark_stale now st) = mark_stale now st"
  by (simp add: mark_stale_def is_stale_def split: option.split)

lemma append_missing_lookup:
  "map_of (mo_stats (append_missing now ep s)) u =
    (if u = ep_url ep \<and> map_of (mo_histories s) u \<noteq> None
     then map_option (mark_stale now) (map_of (mo_stats s) u) else map_of (mo_stats s) u)"
  "map_of (mo_histories (append_missing now ep s)) u = None \<longleftrightarrow> map_of (mo_histories s) u = None"
  by (auto simp: append_missing_def mark_stale_def update_conv' split: option.split)

lemma append_missing_fold:
  "map_of (mo_stats (fold (append_missing now) es s)) u =
    (if u \<in> ep_url ` set es \<and> map_of (mo_histories s) u \<noteq> None
     then map_option (mark_stale now) (map_of (mo_stats s) u) else map_of (mo_stats s) u)"
proof (induction es arbitrary: s)
  case (Cons e es)
  have "map_of (mo_histories (append_missing now e s)) u = None \<longleftrightarrow> map_of (mo_histories s) u = None"
    by (rule append_missing_lookup)
  then show ?case
    by (cases "map_of (mo_histories s) u") (auto simp: Cons append_missing_lookup(1) option.map_comp comp_def)
qed simp

lemma rates_update:
  "map_of m k = Some v \<Longrightarrow> st_rate w = st_rate v \<Longrightarrow> distinct (map fst m) \<Longrightarrow>
    map (\<lambda>(k, st). st_rate st) (AList.update k w m) = map (\<lambda>(k, st). st_rate st) m"
  by (induction m) (auto split: if_splits)

lemma rates_append_missing:
  "distinct (map fst (mo_stats s)) \<Longrightarrow>
    map (\<lambda>(k, st). st_rate st) (mo_stats (append_missing now ep s)) = map (\<lambda>(k, st). st_rate st) (mo_stats s)
    \<and> map fst (mo_stats (append_missing now ep s)) = map fst (mo_stats s)
    \<and> mo_totalRate (append_missing now ep s) = mo_totalRate s"
  by (auto simp: append_missing_def rates_update keys_update split: option.split)

lemma rates_appendMissingHistory:
  "distinct (map fst (mo_stats s)) \<Longrightarrow>
    map (\<lambda>(k, st). st_rate st) (mo_stats (fold (append_missing now) es s)) = map (\<lambda>(k, st). st_rate st) (mo_stats s)
    \<and> mo_totalRate (fold (append_missing now) es s) = mo_totalRate s"
  by (induction es arbitrary: s) (simp_all add: rates_append_missing)

definition before_totals :: "monitor_host \<Rightarrow> int \<Rightarrow> CollectorSnapshot result list \<Rightarrow> MonitorModel \<Rightarrow> MonitorModel" where
  "before_totals h now snapshots s = fold (apply_snapshot h now) (zip (mo_collectors s) snapshots) s"

lemma ok_before_totals: "monitor_ok s \<Longrightarrow> monitor_ok (before_totals h now snapshots s)"
  unfolding before_totals_def by (intro ok_fold ok_snapshot)

text \<open>C13. When a collection ends, every endpoint that was not seen for ten seconds is inactive and not
  stable: whatever the collectors reported or failed with, no endpoint stays active on the
  strength of an old sample.\<close>

theorem unseen_endpoints_inactive:
  assumes "monitor_reachable h opts s" "modes_ok opts" "e \<in> set (mo_endpoints (collect_end h now snapshots s))"
    "map_of (mo_stats (collect_end h now snapshots s)) (ep_url e) = Some st" "is_stale now st"
  shows "\<not> st_active st \<and> \<not> st_stable st"
proof -
  define s1 where "s1 = refreshTotals (before_totals h now snapshots s)"
  have ok: "monitor_ok s1"
    unfolding s1_def ok_totals by (intro ok_before_totals monitor_ok_reachable [OF assms(1,2)])
  have end': "collect_end h now snapshots s = (fold (append_missing now) (mo_endpoints s1) s1)\<lparr>mo_collecting := False\<rparr>"
    by (simp add: collect_end_def appendMissingHistory_def s1_def before_totals_def)
  have "mo_endpoints (append_missing now ep s') = mo_endpoints s'" for ep s'
    by (simp add: append_missing_def split: option.split)
  then have "mo_endpoints (fold (append_missing now) es s') = mo_endpoints s'" for es s'
    by (induction es arbitrary: s') simp_all
  then have e: "ep_url e \<in> ep_url ` set (mo_endpoints s1)" using assms(3) by (simp add: end')
  then have "map_of (mo_histories s1) (ep_url e) \<noteq> None"
    using ok unfolding map_of_eq_None_iff ok_defs by (metis image_set)
  with e assms(4) obtain st0 where "st = mark_stale now st0"
    by (auto simp: end' append_missing_fold split: if_splits)
  with assms(5) show ?thesis by (simp add: mark_stale_def split: if_splits)
qed

text \<open>The total rate in the status line adds the last rate of every endpoint, whether it is active or
  not: a rate is never cleared, so an endpoint that fell silent goes on counting.\<close>

theorem total_rate_counts_all:
  assumes "monitor_reachable h opts s" "modes_ok opts"
  shows "mo_totalRate (collect_end h now snapshots s) =
    sum_list (map (\<lambda>(u, st). nullish (st_rate st) 0) (mo_stats (collect_end h now snapshots s)))"
proof -
  define s1 where "s1 = refreshTotals (before_totals h now snapshots s)"
  have "monitor_ok s1"
    unfolding s1_def ok_totals by (intro ok_before_totals monitor_ok_reachable [OF assms])
  then have "distinct (map fst (mo_stats s1))" by (simp add: ok_defs)
  from rates_appendMissingHistory [OF this, of now "mo_endpoints s1"]
  have r: "map (\<lambda>(k, st). st_rate st) (mo_stats (collect_end h now snapshots s)) = map (\<lambda>(k, st). st_rate st) (mo_stats s1)"
    "mo_totalRate (collect_end h now snapshots s) = mo_totalRate s1"
    by (simp_all add: collect_end_def appendMissingHistory_def s1_def before_totals_def)
  have sums: "sum_list (map (\<lambda>(u, st). nullish (st_rate st) 0) m) =
      sum_list (map (\<lambda>r. nullish r 0) (map (\<lambda>(k, st). st_rate st) m))" for m :: "(string \<times> EndpointStats) list"
    by (induction m) auto
  have "mo_totalRate s1 = sum_list (map (\<lambda>(u, st). nullish (st_rate st) 0) (mo_stats s1))"
    by (simp add: s1_def refreshTotals_def)
  then show ?thesis unfolding r(2) sums r(1) .
qed

subsection \<open>A run\<close>

definition demo_options :: MonitorOptions where
  "demo_options = \<lparr>op_urls = [], op_filter = [], op_blackMode = False, op_nativeMode = False, op_countMode = False,
     op_detailMode = True, op_observeAllMode = False, op_profilerMode = False, op_serMode = False,
     op_activeMode = False, op_pubsubMode = False, op_processMode = False, op_chartMode = False,
     op_presetMode = False, op_plainMode = False, op_dotMode = False, op_blobMode = False, op_rows = 0,
     op_columns = 0, op_chartWidth = 30, op_processWidth = 40, op_protoArgs = [], op_protoDir = [],
     op_fbsDir = [], op_locMode = False, op_projectRoot = ''/'', op_prometheusUrl = [],
     op_ros2SampleSeconds = Some 1, op_listRoutes = False, op_listProcesses = False\<rparr>"

definition demo_host :: monitor_host where
  "demo_host = \<lparr>mh_localeCompare = unit_compare, mh_timeOfDay = int_str\<rparr>"

definition demo_endpoint :: "string \<Rightarrow> EndpointInfo" where
  "demo_endpoint url = \<lparr>ep_type = publisher_bit, ep_url = url, ep_runtimeUrl = None, ep_serType = ''Pose'',
     ep_schemaType = Schema_Proto, ep_processList = [], ep_sources = [''s.yaml''], ep_routeNames = [''pose'']\<rparr>"

definition demo_sample :: CollectorSample where
  "demo_sample = \<lparr>cs_url = ''ros2://pose'', cs_source = ''ros2'', cs_timestamp = 1000, cs_freq = Some 5,
     cs_rate = Some 100, cs_loss = None, cs_latency = None, cs_countDelta = None, cs_size = None,
     cs_active = Some True, cs_status = None, cs_preview = None, cs_processList = None\<rparr>"

definition demo_snapshot :: "CollectorSample list \<Rightarrow> CollectorSnapshot" where
  "demo_snapshot samples = \<lparr>sp_samples = samples, sp_status = \<lparr>co_name = ''ros2'', co_ok = True,
     co_message = [], co_updatedAt = 1\<rparr>\<rparr>"

definition demo_start :: MonitorModel where
  "demo_start = initialize 500 [demo_endpoint ''ros2://pose''] [] [''ros2''] (new_model demo_options)"

definition demo_seen :: MonitorModel where
  "demo_seen = collect_end demo_host 1000 [Inr (demo_snapshot [demo_sample])] (collect_begin demo_start)"

definition demo_stale :: MonitorModel where
  "demo_stale = collect_begin (collect_end demo_host 20000 [Inl ''timeout''] (collect_begin demo_seen))"

lemma demo_reachable:
  "monitor_reachable demo_host demo_options demo_seen" "monitor_reachable demo_host demo_options demo_stale"
proof -
  have 0: "monitor_reachable demo_host demo_options demo_start"
    unfolding demo_start_def by (rule monitor_reachable.start) (simp_all add: demo_endpoint_def)
  have collecting: "mo_collecting (collect_begin demo_start)" "mo_collecting (collect_begin demo_seen)" by code_simp+
  show 1: "monitor_reachable demo_host demo_options demo_seen" unfolding demo_seen_def
    by (rule monitor_reachable.step [OF monitor_reachable.step [OF 0 begin_collect] end_collect [OF collecting(1)]])
  have "monitor_reachable demo_host demo_options (collect_end demo_host 20000 [Inl ''timeout''] (collect_begin demo_seen))"
    by (rule monitor_reachable.step [OF monitor_reachable.step [OF 1 begin_collect] end_collect [OF collecting(2)]])
  then show "monitor_reachable demo_host demo_options demo_stale" unfolding demo_stale_def
    by (rule monitor_reachable.step [OF _ begin_collect])
qed

lemma demo_modes: "modes_ok demo_options"
  by code_simp

lemma monitor_invariant_witness:
  "map fst (mo_histories demo_stale) = [''ros2://pose'']
   \<and> map (\<lambda>(u, hi). (length (hi_freq hi), length (hi_loss hi))) (mo_histories demo_stale) = [(2, 2)]
   \<and> map fst (mo_histories demo_stale) = map ep_url (mo_endpoints demo_stale)"
proof -
  have "map fst (mo_histories demo_stale) = [''ros2://pose'']"
    "map (\<lambda>(u, hi). (length (hi_freq hi), length (hi_loss hi))) (mo_histories demo_stale) = [(2, 2)]"
    by code_simp+
  with monitor_invariant [OF demo_reachable(2) demo_modes] show ?thesis by blast
qed

lemma total_rate_counts_all_witness:
  "mo_totalRate (collect_end demo_host 21000 [Inl ''timeout''] demo_stale) = 100
   \<and> mo_activeCount (collect_end demo_host 21000 [Inl ''timeout''] demo_stale) = 0"
proof -
  have "sum_list (map (\<lambda>(u, st). nullish (st_rate st) 0)
      (mo_stats (collect_end demo_host 21000 [Inl ''timeout''] demo_stale))) = 100"
    and "mo_activeCount (collect_end demo_host 21000 [Inl ''timeout''] demo_stale) = 0"
    by code_simp+
  with total_rate_counts_all [OF demo_reachable(2) demo_modes, of 21000 "[Inl ''timeout'']"] show ?thesis
    by (intro conjI) (simp only:)
qed

lemma unseen_endpoints_inactive_witness:
  "\<exists>st. map_of (mo_stats (collect_end demo_host 20000 [] demo_seen)) ''ros2://pose'' = Some st \<and> \<not> st_active st"
proof -
  define e where "e = demo_endpoint ''ros2://pose''"
  define st where "st = the (map_of (mo_stats (collect_end demo_host 20000 [] demo_seen)) (ep_url e))"
  have facts: "map_of (mo_stats (collect_end demo_host 20000 [] demo_seen)) (ep_url e) = Some st" "is_stale 20000 st"
    unfolding st_def e_def by code_simp+
  have "e \<in> set (mo_endpoints (collect_end demo_host 20000 [] demo_seen))" unfolding e_def by code_simp
  from unseen_endpoints_inactive [OF demo_reachable(1) demo_modes this facts] facts(1)
  show ?thesis by (intro exI [of _ st] conjI) (simp_all add: e_def demo_endpoint_def)
qed

end
