(* ===== verification/Monitor_Keys_Props.thy ===== *)
theory Monitor_Keys_Props
  imports Monitor_Invariant
begin

text \<open>
  Paging and selecting: the selection stays on the page that is drawn, and the page key counts the
  rows of the terminal where drawing counts the rows of the view.
\<close>

lemma active_paging [simp]:
  "endpoint_active (s\<lparr>mo_selectedLine := i\<rparr>) = endpoint_active s"
  "endpoint_active (s\<lparr>mo_currentPage := k\<rparr>) = endpoint_active s"
  by (simp_all add: endpoint_active_def fun_eq_iff)

lemma visible_paging [simp]:
  "visibleEndpoints lc (s\<lparr>mo_selectedLine := i\<rparr>) = visibleEndpoints lc s"
  "visibleEndpoints lc (s\<lparr>mo_currentPage := k\<rparr>) = visibleEndpoints lc s"
proof -
  have "visible_compare lc (s\<lparr>mo_selectedLine := i\<rparr>) = visible_compare lc s"
    "visible_compare lc (s\<lparr>mo_currentPage := k\<rparr>) = visible_compare lc s"
    by (intro ext, simp add: visible_compare_def)+
  moreover have "endpoint_visible (s\<lparr>mo_selectedLine := i\<rparr>) = endpoint_visible s"
    "endpoint_visible (s\<lparr>mo_currentPage := k\<rparr>) = endpoint_visible s"
    by (intro ext, simp add: endpoint_visible_def)+
  ultimately show "visibleEndpoints lc (s\<lparr>mo_selectedLine := i\<rparr>) = visibleEndpoints lc s"
    "visibleEndpoints lc (s\<lparr>mo_currentPage := k\<rparr>) = visibleEndpoints lc s"
    by (simp_all add: visibleEndpoints_def)
qed

lemma content_rows_pos: "3 \<le> content_rows h s"
  by (simp add: content_rows_def Let_def)

lemma content_rows_paging [simp]:
  "content_rows h (s\<lparr>mo_selectedLine := i\<rparr>) = content_rows h s"
  "content_rows h (s\<lparr>mo_currentPage := k\<rparr>) = content_rows h s"
  by (simp_all add: content_rows_def)

lemma page_in_range: "0 < rows \<Longrightarrow> 0 < n \<Longrightarrow> k < max 1 ((n + rows - 1) div rows) \<Longrightarrow> k * rows < (n :: int)"
proof -
  assume a: "0 < rows" "0 < n" "k < max 1 ((n + rows - 1) div rows)"
  have "1 \<le> (n + rows - 1) div rows" using a by (simp add: pos_imp_zdiv_pos_iff int_one_le_iff_zero_less)
  with a(3) have "k + 1 \<le> (n + rows - 1) div rows" by simp
  then have "(k + 1) * rows \<le> (n + rows - 1) div rows * rows" using a(1) by (simp add: mult_right_mono)
  also have "\<dots> \<le> n + rows - 1" using a(1) by (metis div_mod_decomp_int le_add_same_cancel1 pos_mod_sign)
  finally show "k * rows < n" by (simp add: algebra_simps)
qed

text \<open>C37. Moving the selection keeps it among the visible endpoints and turns to the page that shows it: the
  row that a frame draws for it holds the selected endpoint. (The rows of the view must be no more
  than those of the terminal, and the page in range, as every frame leaves it.)\<close>

theorem selection_on_page:
  fixes s :: MonitorModel
  assumes "op_rows (mo_options s) \<le> h" "visibleEndpoints lc s \<noteq> []" "delta = 1 \<or> delta = -1"
    and "0 \<le> mo_currentPage s" "mo_currentPage s < total_pages lc h s"
  defines "s' \<equiv> moveSelection lc h delta s"
  shows "0 \<le> mo_selectedLine s' \<and> mo_selectedLine s' < int (length (visibleEndpoints lc s'))
    \<and> mo_currentPage s' * content_rows h s' \<le> mo_selectedLine s'
    \<and> mo_selectedLine s' < (mo_currentPage s' + 1) * content_rows h s'
    \<and> page_rows lc h s' ! nat (mo_selectedLine s' - mo_currentPage s' * content_rows h s')
        = visibleEndpoints lc s ! nat (mo_selectedLine s')"
proof -
  define rows where "rows = content_rows h s"
  define n where "n = int (length (visibleEndpoints lc s))"
  define line where "line = (if mo_selectedLine s < 0
                       then (if delta > 0 then mo_currentPage s * rows
                             else min (n - 1) ((mo_currentPage s + 1) * rows - 1))
                       else clamp (mo_selectedLine s + delta) 0 (n - 1))"
  have rows: "3 \<le> rows" unfolding rows_def by (rule content_rows_pos)
  have n: "0 < n" using assms(2) by (simp add: n_def)
  have "max 3 ((if op_rows (mo_options s) > 0 then op_rows (mo_options s) else h) - 3) = rows"
    using assms(1) by (auto simp: rows_def content_rows_def Let_def)
  then have s': "s' = s\<lparr>mo_selectedLine := line, mo_currentPage := line div rows\<rparr>"
    using n unfolding s'_def moveSelection_def Let_def n_def [symmetric] line_def by simp
  have "mo_currentPage s * rows < n"
    using page_in_range [OF _ n, of rows] rows assms(5) by (simp add: total_pages_def rows_def n_def)
  then have line: "0 \<le> line" "line < n"
    using n rows assms(4) by (auto simp: line_def clamp_def algebra_simps)
      (smt (verit) mult_nonneg_nonneg)+
  have page: "line div rows * rows \<le> line" "line < (line div rows + 1) * rows"
    using rows by (auto simp: algebra_simps minus_mod_eq_mult_div [symmetric])
  have "nat (line div rows) * nat rows = nat (line div rows * rows)"
    using line rows by (simp add: nat_mult_distrib pos_imp_zdiv_nonneg_iff)
  moreover have "nat (line div rows * rows) + nat (line - line div rows * rows) = nat line"
    using line rows page by (simp add: nat_add_distrib [symmetric] pos_imp_zdiv_nonneg_iff)
  moreover have "nat (line - line div rows * rows) < nat rows" using page rows by (simp add: algebra_simps)
  moreover have "nat line < length (visibleEndpoints lc s)" using line by (simp add: n_def nat_less_iff)
  ultimately have "take (nat rows) (drop (nat (line div rows) * nat rows) (visibleEndpoints lc s)) ! nat (line - line div rows * rows)
      = visibleEndpoints lc s ! nat line"
    by simp
  then show ?thesis using line page
    by (simp add: s' page_rows_def Let_def rows_def [symmetric] n_def)
qed

theorem selection_on_page_witness:
  "mo_selectedLine (moveSelection unit_compare 20 1 demo_start) = 0
    \<and> page_rows unit_compare 20 (moveSelection unit_compare 20 1 demo_start) ! 0 = visibleEndpoints unit_compare demo_start ! 0"
proof -
  have "op_rows (mo_options demo_start) \<le> 20" "visibleEndpoints unit_compare demo_start \<noteq> []"
    "0 \<le> mo_currentPage demo_start" "mo_currentPage demo_start < total_pages unit_compare 20 demo_start"
    by code_simp+
  note here = selection_on_page [OF this(1,2) disjI1 [OF refl] this(3,4)]
  have "mo_selectedLine (moveSelection unit_compare 20 1 demo_start) = 0"
    "mo_currentPage (moveSelection unit_compare 20 1 demo_start) = 0" by code_simp+
  with here show ?thesis by simp
qed

lemma pages_exceeding: "0 < rows \<Longrightarrow> rows < n \<Longrightarrow> 1 < (n + rows - 1) div rows" for rows n :: int
proof -
  assume "0 < rows" "rows < n"
  then have "2 * rows div rows \<le> (n + rows - 1) div rows" by (intro zdiv_mono1) auto
  with \<open>0 < rows\<close> show ?thesis by simp
qed

lemma div_pos_lt_two: "0 < rows \<Longrightarrow> (2 * rows - 1) div rows = 1" for rows :: int
proof -
  assume "0 < rows"
  have "(2 * rows - 1) div rows = (rows + (rows - 1)) div rows" by (simp add: algebra_simps)
  also have "\<dots> = 1 + (rows - 1) div rows" using \<open>0 < rows\<close> by (subst div_add_self1) auto
  also have "\<dots> = 1" using \<open>0 < rows\<close> by (simp add: div_pos_pos_trivial)
  finally show ?thesis .
qed

text \<open>The page key counts the rows of the terminal, where a frame counts those of the view (\<open>--rows\<close>): when
  the visible endpoints fill more than one page of the view and fit the terminal, the key stays on
  the first page, and the endpoints of the other pages cannot be paged to.\<close>

theorem right_key_ignores_rows:
  assumes "\<not> mo_filterInputMode s" "mo_detailView s = None" "normalizeKeyName key = ''right''" "mo_currentPage s = 0"
    and "content_rows h s < int (length (visibleEndpoints lc s))" "int (length (visibleEndpoints lc s)) \<le> max 3 (h - 3)"
  shows "1 < total_pages lc h s \<and> mo_currentPage (outcome_state (handleKey lc h key s)) = 0"
proof
  show "1 < total_pages lc h s"
    using pages_exceeding [of "content_rows h s"] content_rows_pos [of h s] assms(5) by (simp add: total_pages_def)
  define rows where "rows = max 3 (h - 3)"
  define n where "n = int (length (visibleEndpoints lc s))"
  have "(n + rows - 1) div rows \<le> (2 * rows - 1) div rows"
    using assms(6) by (intro zdiv_mono1) (auto simp: rows_def n_def)
  also have "\<dots> = 1" by (rule div_pos_lt_two) (simp add: rows_def)
  finally have "max 1 ((n + rows - 1) div rows) = 1" by simp
  then show "mo_currentPage (outcome_state (handleKey lc h key s)) = 0"
    using assms(1-4) by (simp add: handleKey_def command_key_def next_page_def Let_def rows_def [symmetric] n_def [symmetric])
qed

end
