(* ===== verification/Deploy.thy ===== *)
theory Deploy
  imports Repo_Files Formats
begin

text \<open>
  Deploying ROS packages to a robot (\<open>dashboard/packages/api/src/routers/deploy.ts\<close>): reading the
  deployable packages, checking the target, building the command lines, and running them one after
  the other. A command is run by the operating system: its outcome is a parameter. Ports, domain
  ids and tail lengths are whole numbers, as the input schema requires.
\<close>

subsection \<open>Data\<close>

record DeployPackageSummary =
  dp_description :: string
  dp_moduleRoot :: string
  dp_name :: string
  dp_serviceName :: string

record DeployTarget =
  dt_host :: string
  dt_port :: int
  dt_user :: string

record DeployImageInput =
  di_host :: string
  di_port :: "int option"
  di_user :: "string option"
  di_domainId :: "int option"
  di_dryRun :: bool
  di_logsTail :: "int option"
  di_noCache :: bool
  di_noLogs :: bool
  di_password :: "string option"
  di_platform :: "string option"
  di_pull :: bool
  di_packageName :: "string option"
  di_packageNames :: "string list option"

record DeployImageCommand =
  dc_args :: "string list"
  dc_packageName :: string

record command_streams =
  out_stderr :: string
  out_stdout :: string

record DeployPackageCommandResult =
  dr_command :: string
  dr_packageName :: string
  dr_stderr :: string
  dr_stdout :: string

record DeployCommandResult =
  dx_command :: string
  dx_stderr :: string
  dx_stdout :: string
  dx_deployments :: "DeployPackageCommandResult list"
  dx_gitPull :: command_streams

definition DEFAULT_DEPLOY_USER :: string where "DEFAULT_DEPLOY_USER = ''jetson''"
definition DEFAULT_DEPLOY_PORT :: int where "DEFAULT_DEPLOY_PORT = 22"
definition DEFAULT_ROS_DOMAIN_ID :: int where "DEFAULT_ROS_DOMAIN_ID = 42"
definition DEFAULT_LOGS_TAIL :: int where "DEFAULT_LOGS_TAIL = 120"
definition PR_COMMAND :: string where "PR_COMMAND = ''./pr''"

subsection \<open>Patterns\<close>

definition host_match :: "string \<Rightarrow> bool" where
  "host_match s \<longleftrightarrow> (case s of [] \<Rightarrow> False
     | c # r \<Rightarrow> (is_alpha c \<or> is_digit c)
         \<and> list_all (\<lambda>x. is_alpha x \<or> is_digit x \<or> x = CHR ''.'' \<or> x = CHR ''-'') r)"

definition package_name_match :: "string \<Rightarrow> bool" where
  "package_name_match s \<longleftrightarrow> (case s of [] \<Rightarrow> False | c # r \<Rightarrow> is_alpha c \<and> list_all is_word_char r)"

text \<open>A user name may end in a dollar sign.\<close>

definition user_match :: "string \<Rightarrow> bool" where
  "user_match s \<longleftrightarrow> (case s of [] \<Rightarrow> False
     | c # r \<Rightarrow> (is_alpha c \<or> c = CHR ''_'')
         \<and> list_all (\<lambda>x. is_word_char x \<or> x = CHR ''.'' \<or> x = CHR ''-'')
             (if r \<noteq> [] \<and> last r = CHR ''$'' then butlast r else r))"

definition platform_match :: "string \<Rightarrow> bool" where
  "platform_match s \<longleftrightarrow> s \<in> set [''linux/amd64'', ''linux/arm64'', ''linux/arm/v7'']"

subsection \<open>Packages\<close>

text \<open>
  \<open>xml.match(/<tag>\s*([^<]+?)\s*<\/tag>/m)?.[1]?.trim() ?? ""\<close>: the first opening tag whose content
  is not empty and is followed by the closing tag.
\<close>

fun xml_tag_content :: "string \<Rightarrow> string \<Rightarrow> string \<Rightarrow> string" where
  "xml_tag_content opening closing [] = []"
| "xml_tag_content opening closing (c # r) =
     (let rest = drop (length opening) (c # r);
          content = takeWhile (\<lambda>x. x \<noteq> CHR ''<'') rest
      in if startsWith (c # r) opening \<and> content \<noteq> [] \<and> startsWith (drop (length content) rest) closing
         then trim content else xml_tag_content opening closing r)"

definition parseXmlTag :: "string \<Rightarrow> string \<Rightarrow> string" where
  "parseXmlTag xml tagName = xml_tag_content (''<'' @ tagName @ ''>'') (''</'' @ tagName @ ''>'') xml"

definition parseRosPackageName :: "string \<Rightarrow> string" where
  "parseRosPackageName xml = parseXmlTag xml ''name''"

definition parseRosPackageDescription :: "string \<Rightarrow> string" where
  "parseRosPackageDescription xml = parseXmlTag xml ''description''"

fun package_entries :: "(string \<times> node) list \<Rightarrow> DeployPackageSummary list result" where
  "package_entries [] = Inr []"
| "package_entries ((n, t) # es) =
     (case t of
        Dir sub \<Rightarrow>
          (case map_of sub ''package.xml'' of
             None \<Rightarrow> package_entries es
           | Some f \<Rightarrow> rbind (readFile f []) (\<lambda>xml.
               rbind (package_entries es) (\<lambda>more.
                 let name = parseRosPackageName xml
                 in Inr (if package_name_match name
                      then \<lparr>dp_description = parseRosPackageDescription xml,
                             dp_moduleRoot = MODULE_SERVICE_ROOT @ ''/'' @ n,
                             dp_name = name, dp_serviceName = n\<rparr> # more
                      else more))))
      | _ \<Rightarrow> package_entries es)"

definition readDeployPackages ::
  "(string \<Rightarrow> string \<Rightarrow> int) \<Rightarrow> node \<Rightarrow> path \<Rightarrow> DeployPackageSummary list result" where
  "readDeployPackages lc fs repoRoot =
     (let serviceRoot = repoRoot @ [''module'', ''service'']
      in if \<not> existsSync fs serviceRoot then Inr []
         else rbind (readdir fs serviceRoot) (\<lambda>es.
                rbind (package_entries es) (\<lambda>packages.
                  Inr (js_sort (\<lambda>l r. lc (dp_name l) (dp_name r)) packages))))"

subsection \<open>The command lines\<close>

definition validateDeployTarget :: "DeployImageInput \<Rightarrow> DeployTarget result" where
  "validateDeployTarget input =
     (let host = trim (di_host input); user = trim (nullish (di_user input) DEFAULT_DEPLOY_USER);
          port = nullish (di_port input) DEFAULT_DEPLOY_PORT
      in if \<not> host_match host then Inl (''Invalid deploy host '' @ quoted (di_host input) @ ''.'')
         else if \<not> user_match user
         then Inl (''Invalid deploy user '' @ quoted (nullish (di_user input) []) @ ''.'')
         else if \<not> (1 \<le> port \<and> port \<le> 65535) then Inl (''Invalid deploy port '' @ quoted (int_str port) @ ''.'')
         else Inr \<lparr>dt_host = host, dt_port = port, dt_user = user\<rparr>)"

definition validatePackageName :: "string \<Rightarrow> string result" where
  "validatePackageName packageName =
     (let name = trim packageName
      in if \<not> package_name_match name
         then Inl (''Invalid ROS package name '' @ quoted packageName @ ''.'') else Inr name)"

definition requested_packages :: "DeployImageInput \<Rightarrow> string list" where
  "requested_packages input =
     (if nullish (di_packageNames input) [] \<noteq> [] then nullish (di_packageNames input) []
      else if nullish (di_packageName input) [] \<noteq> [] then [nullish (di_packageName input) []]
      else [])"

definition normalizeDeployPackageNames :: "DeployImageInput \<Rightarrow> string list result" where
  "normalizeDeployPackageNames input =
     rbind (rmap validatePackageName (requested_packages input)) (\<lambda>names.
       if uniq names = [] then Inl ''Select at least one ROS package.'' else Inr (uniq names))"

definition normalizedPlatform :: "string option \<Rightarrow> string option result" where
  "normalizedPlatform platform =
     (let v = trim (nullish platform [])
      in if v = [] then Inr None
         else if \<not> platform_match v then Inl (''Invalid deploy platform '' @ quoted v @ ''.'')
         else Inr (Some v))"

definition checked_range :: "string \<Rightarrow> int \<Rightarrow> int \<Rightarrow> int result" where
  "checked_range what hi v =
     (if 0 \<le> v \<and> v \<le> hi then Inr v else Inl (''Invalid '' @ what @ '' '' @ quoted (int_str v) @ ''.''))"

definition buildDeployImageArgs :: "DeployImageInput \<Rightarrow> string \<Rightarrow> string list result" where
  "buildDeployImageArgs input package =
     rbind (validateDeployTarget input) (\<lambda>target.
     rbind (validatePackageName package) (\<lambda>packageName.
     rbind (checked_range ''ROS_DOMAIN_ID'' 232 (nullish (di_domainId input) DEFAULT_ROS_DOMAIN_ID)) (\<lambda>domainId.
     rbind (checked_range ''logs tail'' 5000 (nullish (di_logsTail input) DEFAULT_LOGS_TAIL)) (\<lambda>logsTail.
     rbind (normalizedPlatform (di_platform input)) (\<lambda>platform.
       Inr ([''ros2:deploy'', ''--host'', dt_host target, ''--user'', dt_user target, ''--port'', int_str (dt_port target),
             ''--packages-select'', packageName, ''--domain-id'', int_str domainId, ''--logs-tail'', int_str logsTail]
          @ (if nullish (di_password input) [] \<noteq> [] then [''--password'', nullish (di_password input) []] else [])
          @ (case platform of Some p \<Rightarrow> [''--platform'', p] | None \<Rightarrow> [])
          @ (if di_pull input then [''--pull''] else [])
          @ (if di_noCache input then [''--no-cache''] else [])
          @ (if di_noLogs input then [''--no-logs''] else [])
          @ (if di_dryRun input then [''--dry-run''] else [])))))))"

definition buildDeployImageCommands :: "DeployImageInput \<Rightarrow> DeployImageCommand list result" where
  "buildDeployImageCommands input =
     rbind (normalizeDeployPackageNames input) (\<lambda>names.
       rmap (\<lambda>packageName. rbind (buildDeployImageArgs input packageName) (\<lambda>args.
         Inr \<lparr>dc_args = args, dc_packageName = packageName\<rparr>)) names)"

text \<open>The argument after \<open>--password\<close> is not shown.\<close>

fun redacted_from :: "bool \<Rightarrow> string list \<Rightarrow> string list" where
  "redacted_from secret [] = []"
| "redacted_from secret (a # args) =
     (if secret then ''<redacted>'' else a) # redacted_from (a = ''--password'') args"

definition commandForDisplay :: "string \<Rightarrow> string list \<Rightarrow> string" where
  "commandForDisplay command args = join '' '' (command # redacted_from False args)"

subsection \<open>Running\<close>

text \<open>The outcome of a process: its output, or the failure that \<open>execFile\<close> reports.\<close>

record exec_failure =
  ef_message :: string
  ef_stdout :: string
  ef_stderr :: string

type_synonym exec_outcome = "exec_failure + command_streams"

definition runCommand :: "exec_outcome \<Rightarrow> string \<Rightarrow> string list \<Rightarrow> command_streams result" where
  "runCommand outcome command args =
     (case outcome of
        Inr streams \<Rightarrow> Inr streams
      | Inl details \<Rightarrow>
          Inl (or_else (or_else (join nl (filter (\<lambda>x. x \<noteq> []) [ef_stdout details, ef_stderr details]))
            (ef_message details)) (''Command failed: '' @ commandForDisplay command args)))"

definition assertPackagesExist :: "DeployPackageSummary list \<Rightarrow> string list \<Rightarrow> unit result" where
  "assertPackagesExist packages packageNames =
     (case find (\<lambda>name. name \<notin> dp_name ` set packages) packageNames of
        Some name \<Rightarrow> Inl (''Unknown deploy package '' @ quoted name @ ''.'')
      | None \<Rightarrow> Inr ())"

text \<open>The commands of a deployment: \<open>exec\<close> gives the outcome of the n-th process that is started.\<close>

fun run_deployments ::
  "(nat \<Rightarrow> exec_outcome) \<Rightarrow> nat \<Rightarrow> DeployImageCommand list \<Rightarrow> DeployPackageCommandResult list result" where
  "run_deployments exec n [] = Inr []"
| "run_deployments exec n (c # cs) =
     rbind (runCommand (exec n) PR_COMMAND (dc_args c)) (\<lambda>deploy.
     rbind (run_deployments exec (n + 1) cs) (\<lambda>more.
       Inr (\<lparr>dr_command = commandForDisplay PR_COMMAND (dc_args c), dr_packageName = dc_packageName c,
              dr_stderr = out_stderr deploy, dr_stdout = out_stdout deploy\<rparr> # more)))"

text \<open>The commands, once the packages are known to exist.\<close>

definition deploy_commands ::
  "(string \<Rightarrow> string \<Rightarrow> int) \<Rightarrow> node \<Rightarrow> path \<Rightarrow> DeployImageInput \<Rightarrow> DeployImageCommand list result" where
  "deploy_commands lc fs repoRoot input =
     rbind (buildDeployImageCommands input) (\<lambda>commands.
     rbind (readDeployPackages lc fs repoRoot) (\<lambda>packages.
     rbind (assertPackagesExist packages (map dc_packageName commands)) (\<lambda>_. Inr commands)))"

definition joined_output :: "(DeployPackageCommandResult \<Rightarrow> string) \<Rightarrow> DeployPackageCommandResult list \<Rightarrow> string" where
  "joined_output f deployments =
     join (nl @ nl) (filter (\<lambda>x. x \<noteq> []) (map (\<lambda>d. trim (f d)) deployments))"

definition deployPackage ::
  "(string \<Rightarrow> string \<Rightarrow> int) \<Rightarrow> node \<Rightarrow> path \<Rightarrow> (nat \<Rightarrow> exec_outcome) \<Rightarrow> DeployImageInput \<Rightarrow> DeployCommandResult result" where
  "deployPackage lc fs repoRoot exec input =
     rbind (deploy_commands lc fs repoRoot input) (\<lambda>commands.
     rbind (runCommand (exec 0) ''git'' [''pull'', ''origin'', ''main'']) (\<lambda>gitPull.
     rbind (run_deployments exec 1 commands) (\<lambda>deployments.
       Inr \<lparr>dx_command = join nl (map dr_command deployments),
            dx_stderr = joined_output dr_stderr deployments, dx_stdout = joined_output dr_stdout deployments,
            dx_deployments = deployments, dx_gitPull = gitPull\<rparr>)))"

text \<open>
  The streaming deployment: the chunks that the client gets and the processes that are started, in
  order, and the error that ended it, if one did. Of a process the parameter \<open>exec\<close> gives the
  chunks it wrote (\<^const>\<open>True\<close> for standard output), the exit code, which is missing after a
  signal, and the message when it could not be started.
\<close>

record stream_outcome =
  so_chunks :: "(bool \<times> string) list"
  so_code :: "int option"
  so_error :: "string option"

definition stream_text :: "bool \<Rightarrow> stream_outcome \<Rightarrow> string" where
  "stream_text to_stdout outcome =
     concat (map snd (filter (\<lambda>(o', chunk). o' = to_stdout) (so_chunks outcome)))"

definition runCommandStreaming :: "stream_outcome \<Rightarrow> string \<Rightarrow> string list \<Rightarrow> string option" where
  "runCommandStreaming outcome command args =
     (case so_error outcome of
        Some e \<Rightarrow> Some e
      | None \<Rightarrow>
          if so_code outcome = Some 0 then None
          else Some (or_else (join nl (filter (\<lambda>x. x \<noteq> []) [stream_text True outcome, stream_text False outcome]))
            (''Command failed ('' @ (case so_code outcome of Some c \<Rightarrow> int_str c | None \<Rightarrow> ''signal'') @ ''): ''
              @ commandForDisplay command args)))"

datatype stream_event = Chunk string | Run string "string list"

fun stream_runs ::
  "(nat \<Rightarrow> stream_outcome) \<Rightarrow> nat \<Rightarrow> (string \<times> string \<times> string list) list \<Rightarrow> stream_event list \<times> string option" where
  "stream_runs exec n [] = ([], None)"
| "stream_runs exec n ((header, command, args) # rs) =
     (let started = [Chunk header, Run command args] @ map (\<lambda>(o', chunk). Chunk chunk) (so_chunks (exec n))
      in case runCommandStreaming (exec n) command args of
           Some e \<Rightarrow> (started, Some e)
         | None \<Rightarrow> (let (events, failure) = stream_runs exec (n + 1) rs in (started @ events, failure)))"

definition stream_plan :: "DeployImageCommand list \<Rightarrow> (string \<times> string \<times> string list) list" where
  "stream_plan commands =
     (''$ git pull origin main'' @ nl, ''git'', [''pull'', ''origin'', ''main''])
     # map (\<lambda>c. (nl @ ''$ '' @ commandForDisplay PR_COMMAND (dc_args c) @ nl, PR_COMMAND, dc_args c)) commands"

definition streamDeployPackage ::
  "(string \<Rightarrow> string \<Rightarrow> int) \<Rightarrow> node \<Rightarrow> path \<Rightarrow> (nat \<Rightarrow> stream_outcome) \<Rightarrow> DeployImageInput \<Rightarrow>
    stream_event list \<times> string option" where
  "streamDeployPackage lc fs repoRoot exec input =
     (case deploy_commands lc fs repoRoot input of
        Inl e \<Rightarrow> ([], Some e)
      | Inr commands \<Rightarrow> stream_runs exec 0 (stream_plan commands))"

text \<open>The route that serves the stream turns it into events (\<open>app/api/deploy/stream/route.ts\<close>).\<close>

datatype DeployStreamEvent = Event_Chunk string | Event_Error string | Event_Done

definition stream_response :: "stream_event list \<times> string option \<Rightarrow> DeployStreamEvent list" where
  "stream_response = (\<lambda>(events, failure).
     List.map_filter (\<lambda>e. case e of Chunk c \<Rightarrow> Some (Event_Chunk c) | Run _ _ \<Rightarrow> None) events
     @ [case failure of None \<Rightarrow> Event_Done | Some e \<Rightarrow> Event_Error e])"

end
