(* ===== verification/Deploy_Props.thy ===== *)
theory Deploy_Props
  imports Deploy
begin

text \<open>
  What a deployment guarantees: nothing of the input can pass for an option of the command, what
  is shown does not depend on the password, and the processes run in order, up to the first
  failure.
\<close>

lemmas deploy_simps = rbind_def nullish_def or_else_def

lemma rbind_Inr: "rbind r f = Inr y \<Longrightarrow> \<exists>x. r = Inr x \<and> f x = Inr y"
  by (auto simp: rbind_def split: sum.splits)

subsection \<open>Checked values\<close>

definition plain_argument :: "string \<Rightarrow> bool" where
  "plain_argument a \<longleftrightarrow> a \<noteq> [] \<and> hd a \<noteq> CHR ''-'' \<and> list_all (\<lambda>c. \<not> is_ws c) a"

lemma word_char_not_ws: "is_word_char c \<Longrightarrow> \<not> is_ws c"
  by (auto simp: is_word_char_def alpha_not_ws digit_not_ws) (simp add: is_ws_def)

lemma dot_dash_not_ws: "\<not> is_ws (CHR ''.'')" "\<not> is_ws (CHR ''-'')" "\<not> is_ws (CHR ''_'')" "\<not> is_ws (CHR ''$'')"
  by (simp_all add: is_ws_def)

lemma alpha_not_dash: "is_alpha c \<Longrightarrow> c \<noteq> CHR ''-''" and digit_not_dash: "is_digit c \<Longrightarrow> c \<noteq> CHR ''-''"
  by (auto simp: is_alpha_def is_upper_def is_lower_def is_digit_def)

lemma dash_not_alnum [simp]: "\<not> is_alpha (CHR ''-'')" "\<not> is_digit (CHR ''-'')"
  by (simp_all add: is_alpha_def is_upper_def is_lower_def is_digit_def)

lemma plain_host: "host_match s \<Longrightarrow> plain_argument s"
  by (cases s) (auto simp: host_match_def plain_argument_def alpha_not_ws digit_not_ws dot_dash_not_ws
      alpha_not_dash digit_not_dash list_all_iff)

lemma plain_package: "package_name_match s \<Longrightarrow> plain_argument s"
  by (cases s) (auto simp: package_name_match_def plain_argument_def alpha_not_ws word_char_not_ws
      alpha_not_dash list_all_iff)

lemma plain_user: "user_match s \<Longrightarrow> plain_argument s"
proof -
  assume u: "user_match s"
  then obtain c r where s: "s = c # r" "is_alpha c \<or> c = CHR ''_''"
    "list_all (\<lambda>x. is_word_char x \<or> x = CHR ''.'' \<or> x = CHR ''-'') (if r \<noteq> [] \<and> last r = CHR ''$'' then butlast r else r)"
    by (cases s) (auto simp: user_match_def)
  have "\<not> is_ws x" if "x \<in> set r" for x
  proof (cases "r \<noteq> [] \<and> last r = CHR ''$''")
    case True
    then have "x \<in> set (butlast r @ [CHR ''$''])" using that by (metis append_butlast_last_id)
    with s(3) True show ?thesis by (auto simp: list_all_iff word_char_not_ws dot_dash_not_ws)
  next
    case False
    with s(3) that show ?thesis by (auto simp: list_all_iff word_char_not_ws dot_dash_not_ws)
  qed
  with s(1,2) show ?thesis by (auto simp: plain_argument_def list_all_iff alpha_not_ws alpha_not_dash dot_dash_not_ws)
qed

lemma plain_number: "0 \<le> n \<Longrightarrow> plain_argument (int_str n)"
  using nat_str_digits [of "nat n"]
  by (auto simp: int_str_def plain_argument_def list_all_iff digit_not_ws digit_not_dash hd_in_set)

lemma plain_platform: "platform_match s \<Longrightarrow> plain_argument s"
  by (auto simp: platform_match_def plain_argument_def is_ws_def)

subsection \<open>The arguments\<close>

text \<open>The values of a command line, without its options and without the password.\<close>

definition secret_of :: "DeployImageInput \<Rightarrow> string" where
  "secret_of input = nullish (di_password input) []"

definition argument_head :: "DeployTarget \<Rightarrow> string \<Rightarrow> int \<Rightarrow> int \<Rightarrow> string list" where
  "argument_head target packageName domainId logsTail =
     [''ros2:deploy'', ''--host'', dt_host target, ''--user'', dt_user target, ''--port'', int_str (dt_port target),
      ''--packages-select'', packageName, ''--domain-id'', int_str domainId, ''--logs-tail'', int_str logsTail]"

definition argument_tail :: "DeployImageInput \<Rightarrow> string option \<Rightarrow> string list" where
  "argument_tail input platform =
     (case platform of Some p \<Rightarrow> [''--platform'', p] | None \<Rightarrow> [])
     @ (if di_pull input then [''--pull''] else []) @ (if di_noCache input then [''--no-cache''] else [])
     @ (if di_noLogs input then [''--no-logs''] else []) @ (if di_dryRun input then [''--dry-run''] else [])"

definition secret_arguments :: "string \<Rightarrow> string list" where
  "secret_arguments secret = (if secret \<noteq> [] then [''--password'', secret] else [])"

definition demo_input :: DeployImageInput where
  "demo_input = \<lparr>di_host = ''robot'', di_port = None, di_user = None, di_domainId = None, di_dryRun = False, di_logsTail = None,
     di_noCache = False, di_noLogs = False, di_password = None, di_platform = None, di_pull = True,
     di_packageName = Some ''nav'', di_packageNames = None\<rparr>"

definition demo_services :: node where
  "demo_services = Dir [(''module'', Dir [(''service'', Dir [(''nav'', Dir [(''package.xml'', File ''<name>nav</name>'')])])])]"

text \<open>The words a command line is made of.\<close>

definition option_words :: "string list" where
  "option_words = [''--host'', ''--user'', ''--port'', ''--packages-select'', ''--domain-id'', ''--logs-tail'',
     ''--platform'', ''--pull'', ''--no-cache'', ''--no-logs'', ''--dry-run'']"

lemma head_nth:
  "argument_head target packageName domainId logsTail ! 6 = int_str (dt_port target)"
  "argument_head target packageName domainId logsTail ! 10 = int_str domainId"
  "argument_head target packageName domainId logsTail ! 12 = int_str logsTail"
  by (simp_all add: argument_head_def)

lemma args_shape:
  assumes "buildDeployImageArgs input package = Inr args"
  shows "\<exists>target packageName domainId logsTail platform.
    args = argument_head target packageName domainId logsTail @ secret_arguments (secret_of input) @ argument_tail input platform
    \<and> host_match (dt_host target) \<and> user_match (dt_user target) \<and> 1 \<le> dt_port target \<and> dt_port target \<le> 65535
    \<and> package_name_match packageName \<and> 0 \<le> domainId \<and> domainId \<le> 232 \<and> 0 \<le> logsTail \<and> logsTail \<le> 5000
    \<and> (\<forall>p. platform = Some p \<longrightarrow> platform_match p)"
proof -
  from assms obtain target packageName domainId logsTail platform where
    t: "validateDeployTarget input = Inr target" and n: "validatePackageName package = Inr packageName"
    and d: "checked_range ''ROS_DOMAIN_ID'' 232 (nullish (di_domainId input) DEFAULT_ROS_DOMAIN_ID) = Inr domainId"
    and l: "checked_range ''logs tail'' 5000 (nullish (di_logsTail input) DEFAULT_LOGS_TAIL) = Inr logsTail"
    and p: "normalizedPlatform (di_platform input) = Inr platform"
    and args: "args = argument_head target packageName domainId logsTail @ secret_arguments (secret_of input) @ argument_tail input platform"
    unfolding buildDeployImageArgs_def argument_head_def secret_arguments_def secret_of_def argument_tail_def
    by (auto dest!: rbind_Inr)
  have "host_match (dt_host target)" "user_match (dt_user target)" "1 \<le> dt_port target" "dt_port target \<le> 65535"
    using t by (auto simp: validateDeployTarget_def Let_def split: if_splits)
  moreover have "package_name_match packageName" using n by (auto simp: validatePackageName_def Let_def split: if_splits)
  moreover have "0 \<le> domainId" "domainId \<le> 232" "0 \<le> logsTail" "logsTail \<le> 5000"
    using d l by (auto simp: checked_range_def split: if_splits)
  moreover have "\<forall>q. platform = Some q \<longrightarrow> platform_match q"
    using p by (auto simp: normalizedPlatform_def Let_def split: if_splits)
  ultimately show ?thesis using args by blast
qed

text \<open>C16. Nothing that comes from the request can pass for an option of the deploy command or split into
  two arguments: except for the password, every argument is one of the program's own words or a
  value without white space that does not begin with a dash, and port, domain id and tail length
  are within their ranges.\<close>

theorem deploy_arguments_safe:
  assumes "buildDeployImageArgs input package = Inr args"
  shows "\<exists>front back. args = front @ secret_arguments (secret_of input) @ back
    \<and> (\<forall>a \<in> set (front @ back). plain_argument a \<or> a \<in> set option_words)
    \<and> (\<exists>port domainId logsTail. 1 \<le> port \<and> port \<le> 65535 \<and> 0 \<le> domainId \<and> domainId \<le> 232 \<and> 0 \<le> logsTail
        \<and> logsTail \<le> 5000 \<and> front ! 6 = int_str port \<and> front ! 10 = int_str domainId \<and> front ! 12 = int_str logsTail)"
proof -
  from args_shape [OF assms] obtain target packageName domainId logsTail platform where
    args: "args = argument_head target packageName domainId logsTail @ secret_arguments (secret_of input) @ argument_tail input platform"
    and ok: "host_match (dt_host target)" "user_match (dt_user target)" "1 \<le> dt_port target" "dt_port target \<le> 65535"
      "package_name_match packageName" "0 \<le> domainId" "domainId \<le> 232" "0 \<le> logsTail" "logsTail \<le> 5000"
      "\<forall>p. platform = Some p \<longrightarrow> platform_match p"
    by blast
  have "plain_argument ''ros2:deploy''" by (simp add: plain_argument_def is_ws_def)
  with ok have "\<forall>a \<in> set (argument_head target packageName domainId logsTail). plain_argument a \<or> a \<in> set option_words"
    by (simp add: argument_head_def plain_host plain_user plain_package plain_number option_words_def)
  moreover have "\<forall>a \<in> set (argument_tail input platform). plain_argument a \<or> a \<in> set option_words"
    using ok(10) by (auto simp: argument_tail_def plain_platform option_words_def split: option.split)
  ultimately have "\<forall>a \<in> set (argument_head target packageName domainId logsTail @ argument_tail input platform).
      plain_argument a \<or> a \<in> set option_words"
    by auto
  then show ?thesis using args ok(3,4,6-9) head_nth [of target packageName domainId logsTail] by blast
qed

theorem deploy_arguments_safe_witness:
  "\<exists>args. buildDeployImageArgs demo_input ''nav'' = Inr args
    \<and> (\<exists>front back. args = front @ secret_arguments (secret_of demo_input) @ back
      \<and> (\<forall>a \<in> set (front @ back). plain_argument a \<or> a \<in> set option_words))"
proof -
  have "buildDeployImageArgs demo_input ''nav'' = Inr (projr (buildDeployImageArgs demo_input ''nav''))" by code_simp
  from this deploy_arguments_safe [OF this] show ?thesis by blast
qed

subsection \<open>The password\<close>

lemma plain_not_password: "plain_argument a \<Longrightarrow> a \<noteq> ''--password''"
  by (auto simp: plain_argument_def)

lemma redacted_without: "''--password'' \<notin> set xs \<Longrightarrow> redacted_from False (xs @ ys) = xs @ redacted_from False ys"
  by (induction xs) auto

lemma redacted_none: "''--password'' \<notin> set xs \<Longrightarrow> redacted_from False xs = xs"
  using redacted_without [of xs "[]"] by simp

definition same_display :: "string list \<Rightarrow> string list \<Rightarrow> bool" where
  "same_display xs ys \<longleftrightarrow> commandForDisplay PR_COMMAND xs = commandForDisplay PR_COMMAND ys"

lemma same_display_secrets:
  assumes "''--password'' \<notin> set front" "''--password'' \<notin> set back"
    and "p \<notin> {[], ''--password''}" "q \<notin> {[], ''--password''}"
  shows "same_display (front @ secret_arguments p @ back) (front @ secret_arguments q @ back)"
  using assms by (simp add: same_display_def commandForDisplay_def redacted_without redacted_none secret_arguments_def)

lemma password_irrelevant [simp]:
  "validateDeployTarget (input\<lparr>di_password := x\<rparr>) = validateDeployTarget input"
  "normalizeDeployPackageNames (input\<lparr>di_password := x\<rparr>) = normalizeDeployPackageNames input"
  "argument_tail (input\<lparr>di_password := x\<rparr>) = argument_tail input"
  by (simp_all add: validateDeployTarget_def normalizeDeployPackageNames_def requested_packages_def argument_tail_def
      fun_eq_iff Let_def cong: if_cong)

lemma build_args_alt:
  "buildDeployImageArgs input package =
     rbind (validateDeployTarget input) (\<lambda>target.
     rbind (validatePackageName package) (\<lambda>packageName.
     rbind (checked_range ''ROS_DOMAIN_ID'' 232 (nullish (di_domainId input) DEFAULT_ROS_DOMAIN_ID)) (\<lambda>domainId.
     rbind (checked_range ''logs tail'' 5000 (nullish (di_logsTail input) DEFAULT_LOGS_TAIL)) (\<lambda>logsTail.
     rbind (normalizedPlatform (di_platform input)) (\<lambda>platform.
       Inr (argument_head target packageName domainId logsTail @ secret_arguments (secret_of input) @ argument_tail input platform))))))"
  by (simp add: buildDeployImageArgs_def argument_head_def secret_arguments_def secret_of_def argument_tail_def)

lemma rel_rbind:
  "rel_sum (=) R x y \<Longrightarrow> (\<And>a b. x = Inr a \<Longrightarrow> y = Inr b \<Longrightarrow> R a b \<Longrightarrow> rel_sum (=) S (f a) (g b)) \<Longrightarrow>
    rel_sum (=) S (rbind x f) (rbind y g)"
  by (auto elim!: rel_sum.cases)

lemma rel_rbind_eq:
  "(\<And>a. x = Inr a \<Longrightarrow> rel_sum (=) S (f a) (g a)) \<Longrightarrow> rel_sum (=) S (rbind x f) (rbind x g)"
  by (cases x) auto

lemma rel_rmap:
  "(\<And>x. rel_sum (=) R (f x) (g x)) \<Longrightarrow> rel_sum (=) (list_all2 R) (rmap f xs) (rmap g xs)"
  by (induction xs) (auto intro!: rel_rbind [where R = R] rel_rbind [where R = "list_all2 R"])

lemma build_args_secret:
  assumes "p \<notin> {[], ''--password''}" "q \<notin> {[], ''--password''}"
  shows "rel_sum (=) same_display (buildDeployImageArgs (input\<lparr>di_password := Some p\<rparr>) package)
    (buildDeployImageArgs (input\<lparr>di_password := Some q\<rparr>) package)"
proof -
  have "rel_sum (=) same_display
      (Inr (argument_head target name d l @ secret_arguments p @ argument_tail input platform))
      (Inr (argument_head target name d l @ secret_arguments q @ argument_tail input platform))"
    if "validateDeployTarget input = Inr target" "validatePackageName package = Inr name"
      "checked_range w hi v = Inr d" "checked_range w' hi' v' = Inr l" "normalizedPlatform (di_platform input) = Inr platform"
    for target name d l platform w hi v w' hi' v'
  proof -
    have "host_match (dt_host target)" "user_match (dt_user target)" "0 \<le> dt_port target"
      using that(1) by (auto simp: validateDeployTarget_def Let_def split: if_splits)
    moreover have "package_name_match name" using that(2) by (auto simp: validatePackageName_def Let_def split: if_splits)
    moreover have "0 \<le> d" "0 \<le> l" using that(3,4) by (auto simp: checked_range_def split: if_splits)
    ultimately have "''--password'' \<notin> set (argument_head target name d l)"
      by (auto simp: argument_head_def dest!: plain_host plain_user plain_package plain_number plain_not_password)
    moreover have "''--password'' \<notin> set (argument_tail input platform)"
      using that(5) by (auto simp: argument_tail_def normalizedPlatform_def platform_match_def Let_def split: if_splits option.splits)
    ultimately show ?thesis using assms by (simp add: same_display_secrets)
  qed
  then show ?thesis unfolding build_args_alt by (auto intro!: rel_rbind_eq simp: secret_of_def nullish_def)
qed

definition same_command :: "DeployImageCommand \<Rightarrow> DeployImageCommand \<Rightarrow> bool" where
  "same_command c d \<longleftrightarrow> dc_packageName c = dc_packageName d \<and> same_display (dc_args c) (dc_args d)"

lemma same_names: "list_all2 same_command cs ds \<Longrightarrow> map dc_packageName cs = map dc_packageName ds"
  by (induction rule: list_all2_induct) (simp_all add: same_command_def)

lemma deploy_commands_secret:
  assumes "p \<notin> {[], ''--password''}" "q \<notin> {[], ''--password''}"
  shows "rel_sum (=) (list_all2 same_command) (deploy_commands lc fs repoRoot (input\<lparr>di_password := Some p\<rparr>))
    (deploy_commands lc fs repoRoot (input\<lparr>di_password := Some q\<rparr>))"
proof -
  have one: "rel_sum (=) same_command
      (rbind (buildDeployImageArgs (input\<lparr>di_password := Some p\<rparr>) n) (\<lambda>args. Inr \<lparr>dc_args = args, dc_packageName = n\<rparr>))
      (rbind (buildDeployImageArgs (input\<lparr>di_password := Some q\<rparr>) n) (\<lambda>args. Inr \<lparr>dc_args = args, dc_packageName = n\<rparr>))"
    for n by (rule rel_rbind [OF build_args_secret [OF assms]]) (simp add: same_command_def)
  have "rel_sum (=) (list_all2 same_command) (buildDeployImageCommands (input\<lparr>di_password := Some p\<rparr>))
      (buildDeployImageCommands (input\<lparr>di_password := Some q\<rparr>))"
    unfolding buildDeployImageCommands_def password_irrelevant by (rule rel_rbind_eq) (rule rel_rmap [OF one])
  then show ?thesis unfolding deploy_commands_def
    by (rule rel_rbind) (auto simp: same_names intro!: rel_rbind_eq)
qed

definition same_process :: "string \<times> string \<times> string list \<Rightarrow> string \<times> string \<times> string list \<Rightarrow> bool" where
  "same_process r s \<longleftrightarrow> fst r = fst s \<and> commandForDisplay (fst (snd r)) (snd (snd r)) = commandForDisplay (fst (snd s)) (snd (snd s))"

lemma stream_plan_secret:
  "list_all2 same_command cs ds \<Longrightarrow> list_all2 same_process (stream_plan cs) (stream_plan ds)"
  by (auto simp: stream_plan_def same_process_def same_command_def same_display_def list.rel_map elim!: list.rel_mono_strong)

lemma stream_response_Cons:
  "stream_response (Chunk c # es, e) = Event_Chunk c # stream_response (es, e)"
  "stream_response (Run a b # es, e) = stream_response (es, e)"
  by (simp_all add: stream_response_def List.map_filter_def)

lemma stream_response_chunks:
  "stream_response (map (\<lambda>(o', chunk). Chunk chunk) cs @ es, e) = map (\<lambda>(o', chunk). Event_Chunk chunk) cs @ stream_response (es, e)"
  by (induction cs) (auto simp: stream_response_Cons)

lemma stream_runs_secret:
  "list_all2 same_process rs ss \<Longrightarrow> stream_response (stream_runs exec n rs) = stream_response (stream_runs exec n ss)"
proof (induction arbitrary: n rule: list_all2_induct)
  case (Cons r rs s ss)
  obtain h c a where r: "r = (h, c, a)" by (cases r)
  obtain h' c' a' where s: "s = (h', c', a')" by (cases s)
  have "runCommandStreaming (exec n) c a = runCommandStreaming (exec n) c' a'" "h = h'"
    using Cons.hyps(1) by (simp_all add: r s same_process_def runCommandStreaming_def split: option.split)
  then show ?case using Cons.IH [of "n + 1"]
    by (auto simp: r s Let_def stream_response_Cons stream_response_chunks
        stream_response_chunks [where es = "[]", simplified] split: option.split prod.split)
qed simp

text \<open>C15. The streaming deployment never shows the password: with the processes behaving the same way, the
  events that the client gets, headers, output and error message alike, are the same for any two
  passwords that are not empty and not the option word itself, which would also hide the argument after it. (The deploy
  mutation, which does not stream, can show it: see \<open>mutation_shows_password\<close>.)\<close>

theorem password_not_shown:
  assumes "p \<notin> {[], ''--password''}" "q \<notin> {[], ''--password''}"
  shows "stream_response (streamDeployPackage lc fs repoRoot exec (input\<lparr>di_password := Some p\<rparr>))
    = stream_response (streamDeployPackage lc fs repoRoot exec (input\<lparr>di_password := Some q\<rparr>))"
  using deploy_commands_secret [OF assms, of lc fs repoRoot input]
  by cases (simp_all add: streamDeployPackage_def stream_runs_secret stream_plan_secret)

theorem password_not_shown_witness:
  "stream_response (streamDeployPackage (\<lambda>a b. 0) demo_services [] (\<lambda>n. \<lparr>so_chunks = [], so_code = Some 1, so_error = None\<rparr>)
      (demo_input\<lparr>di_password := Some ''secret''\<rparr>))
    = stream_response (streamDeployPackage (\<lambda>a b. 0) demo_services [] (\<lambda>n. \<lparr>so_chunks = [], so_code = Some 1, so_error = None\<rparr>)
      (demo_input\<lparr>di_password := Some ''hunter2''\<rparr>))"
  by (rule password_not_shown) simp_all

text \<open>The deploy mutation passes on the message of \<open>execFile\<close> when a failed process has printed nothing, and that
  message holds the command line.\<close>

definition leaking_exec :: "string list \<Rightarrow> nat \<Rightarrow> exec_outcome" where
  "leaking_exec args n =
     (if n = 0 then Inr \<lparr>out_stderr = [], out_stdout = []\<rparr>
      else Inl \<lparr>ef_message = ''Command failed: '' @ join '' '' (PR_COMMAND # args), ef_stdout = [], ef_stderr = []\<rparr>)"

theorem mutation_shows_password:
  "case deploy_commands (\<lambda>a b. 0) demo_services [] (demo_input\<lparr>di_password := Some ''hunter2''\<rparr>) of
     Inr [c] \<Rightarrow> (case deployPackage (\<lambda>a b. 0) demo_services [] (leaking_exec (dc_args c)) (demo_input\<lparr>di_password := Some ''hunter2''\<rparr>) of
        Inl message \<Rightarrow> has_sub message ''hunter2'' | Inr r \<Rightarrow> False)
   | _ \<Rightarrow> False"
  by code_simp

subsection \<open>The order of the processes\<close>

definition started_processes :: "stream_event list \<Rightarrow> (string \<times> string list) list" where
  "started_processes = List.map_filter (\<lambda>e. case e of Run c args \<Rightarrow> Some (c, args) | Chunk _ \<Rightarrow> None)"

definition process_succeeds :: "stream_outcome \<Rightarrow> bool" where
  "process_succeeds outcome \<longleftrightarrow> so_error outcome = None \<and> so_code outcome = Some 0"

lemma started_simps [simp]:
  "started_processes [] = []"
  "started_processes (Run c a # es) = (c, a) # started_processes es"
  "started_processes (Chunk x # es) = started_processes es"
  "started_processes (map (\<lambda>(o', chunk). Chunk chunk) cs @ es) = started_processes es"
  "started_processes (map (\<lambda>(o', chunk). Chunk chunk) cs) = []"
  by (simp_all add: started_processes_def List.map_filter_def comp_def split_def)

lemma runCommandStreaming_None: "runCommandStreaming outcome c args = None \<longleftrightarrow> process_succeeds outcome"
  by (auto simp: runCommandStreaming_def process_succeeds_def split: option.split)

lemma stream_runs_order:
  "started_processes (fst (stream_runs exec n rs))
     = map snd (take (Suc (length (takeWhile (\<lambda>i. process_succeeds (exec i)) [n..<n + length rs]))) rs)
   \<and> (snd (stream_runs exec n rs) = None \<longleftrightarrow> (\<forall>i \<in> {n..<n + length rs}. process_succeeds (exec i)))"
proof (induction rs arbitrary: n)
  case (Cons r rs)
  obtain h c a where r: "r = (h, c, a)" by (cases r)
  have range: "[n..<n + length (r # rs)] = n # [Suc n..<Suc n + length rs]"
    "{n..<n + length (r # rs)} = insert n {Suc n..<Suc n + length rs}" by (auto simp: upt_rec)
  show ?case
  proof (cases "process_succeeds (exec n)")
    case True
    then have "runCommandStreaming (exec n) c a = None" by (simp add: runCommandStreaming_None)
    with True Cons.IH [of "Suc n"] show ?thesis unfolding range
      by (auto simp: r Let_def split: prod.split)
  next
    case False
    then obtain e where "runCommandStreaming (exec n) c a = Some e" using runCommandStreaming_None by blast
    with False show ?thesis unfolding range by (simp add: r Let_def)
  qed
qed simp

lemma rmap_results: "rmap f xs = Inr ys \<Longrightarrow> list_all2 (\<lambda>x y. f x = Inr y) xs ys"
  by (induction xs arbitrary: ys) (auto dest!: rbind_Inr)

lemma commands_of_names:
  assumes "buildDeployImageCommands input = Inr commands"
  shows "normalizeDeployPackageNames input = Inr (map dc_packageName commands)"
proof -
  from assms obtain names where n: "normalizeDeployPackageNames input = Inr names"
    and r: "rmap (\<lambda>packageName. rbind (buildDeployImageArgs input packageName) (\<lambda>args.
         Inr \<lparr>dc_args = args, dc_packageName = packageName\<rparr>)) names = Inr commands"
    unfolding buildDeployImageCommands_def by (auto dest!: rbind_Inr)
  from rmap_results [OF r] have "map dc_packageName commands = names"
    by (induction rule: list_all2_induct) (auto dest!: rbind_Inr)
  with n show ?thesis by simp
qed

lemma deploy_commands_Inr:
  assumes "deploy_commands lc fs repoRoot input = Inr commands"
  shows "commands \<noteq> []" "distinct (map dc_packageName commands)"
    "\<exists>packages. readDeployPackages lc fs repoRoot = Inr packages \<and> dc_packageName ` set commands \<subseteq> dp_name ` set packages"
proof -
  from assms have b: "buildDeployImageCommands input = Inr commands"
    and "\<exists>packages. readDeployPackages lc fs repoRoot = Inr packages
      \<and> assertPackagesExist packages (map dc_packageName commands) = Inr ()"
    unfolding deploy_commands_def by (auto dest!: rbind_Inr)
  then show "\<exists>packages. readDeployPackages lc fs repoRoot = Inr packages \<and> dc_packageName ` set commands \<subseteq> dp_name ` set packages"
    by (auto simp: assertPackagesExist_def find_None_iff split: option.splits)
  from commands_of_names [OF b] have "\<exists>xs. uniq xs = map dc_packageName commands \<and> uniq xs \<noteq> []"
    unfolding normalizeDeployPackageNames_def by (fastforce dest!: rbind_Inr split: if_splits)
  then obtain xs where u: "uniq xs = map dc_packageName commands" "uniq xs \<noteq> []" by blast
  from u show "commands \<noteq> []" by (metis list.map_disc_iff)
  from u(1) show "distinct (map dc_packageName commands)" by (metis distinct_uniq)
qed

lemma validated_package: "validatePackageName n = Inr m \<Longrightarrow> m = trim n"
  by (auto simp: validatePackageName_def Let_def split: if_splits)

lemma validated_packages: "rmap validatePackageName ns = Inr ms \<Longrightarrow> ms = map trim ns"
  by (induction ns arbitrary: ms) (auto dest!: rbind_Inr validated_package)

text \<open>The packages that a request names: the list, or the single name when there is no list.\<close>

abbreviation named_packages :: "DeployImageInput \<Rightarrow> string list" where
  "named_packages input \<equiv>
     (case di_packageNames input of
        Some (n # ns) \<Rightarrow> n # ns
      | _ \<Rightarrow> (case di_packageName input of Some n \<Rightarrow> [n] | None \<Rightarrow> []))"

lemma commands_requested:
  assumes "buildDeployImageCommands input = Inr commands"
  shows "map dc_packageName commands = uniq (map trim (named_packages input))"
proof -
  from commands_of_names [OF assms] obtain names where names: "rmap validatePackageName (requested_packages input) = Inr names"
    and commands: "uniq names = map dc_packageName commands" "names \<noteq> []"
    unfolding normalizeDeployPackageNames_def by (auto dest!: rbind_Inr split: if_splits)
  from validated_packages [OF names] have "names = map trim (requested_packages input)" .
  moreover from this commands(2) have "requested_packages input = named_packages input"
    by (auto simp: requested_packages_def nullish_def split: option.split list.split if_splits)
  ultimately show ?thesis using commands(1) by simp
qed

lemma args_select:
  assumes "buildDeployImageArgs input name = Inr args"
  shows "\<exists>user port rest. args = [''ros2:deploy'', ''--host'', trim (di_host input), ''--user'', user, ''--port'', port,
    ''--packages-select'', trim name] @ rest"
proof -
  from assms obtain target n where target: "validateDeployTarget input = Inr target" and n: "validatePackageName name = Inr n"
    and args: "\<exists>rest. args = [''ros2:deploy'', ''--host'', dt_host target, ''--user'', dt_user target, ''--port'', int_str (dt_port target),
      ''--packages-select'', n] @ rest"
    unfolding buildDeployImageArgs_def by (auto dest!: rbind_Inr)
  have "dt_host target = trim (di_host input)"
    using target by (auto simp: validateDeployTarget_def Let_def split: if_splits)
  with args validated_package [OF n] show ?thesis by auto
qed

lemma command_selects:
  assumes "buildDeployImageCommands input = Inr commands" "c \<in> set commands"
  shows "\<exists>user port rest. dc_args c = [''ros2:deploy'', ''--host'', trim (di_host input), ''--user'', user, ''--port'', port,
    ''--packages-select'', dc_packageName c] @ rest"
proof -
  from assms(1) obtain names where names: "normalizeDeployPackageNames input = Inr names"
    and r: "rmap (\<lambda>packageName. rbind (buildDeployImageArgs input packageName) (\<lambda>args.
         Inr \<lparr>dc_args = args, dc_packageName = packageName\<rparr>)) names = Inr commands"
    unfolding buildDeployImageCommands_def by (auto dest!: rbind_Inr)
  from rmap_results [OF r] assms(2) obtain n where n: "n \<in> set names" "buildDeployImageArgs input n = Inr (dc_args c)" "dc_packageName c = n"
    by (induction rule: list_all2_induct) (auto dest!: rbind_Inr)
  have "dc_packageName c \<in> set (map trim (named_packages input))"
    using commands_requested [OF assms(1)] assms(2) by (metis image_eqI list.set_map set_uniq)
  then have "trim n = n" using n(3) by (auto simp: trim_idem)
  with args_select [OF n(2)] n(3) show ?thesis by simp
qed

text \<open>C14. The streaming deployment pulls the repository and then deploys every requested package once, to the requested
  host and in the order of the request, and stops at the first process that fails: the processes that were started are the
  planned ones up to and including the first failure, and the stream ends without an error exactly
  when all of them succeeded. Only packages of the repository are deployed. The requested packages are those of the list,
  or the single one when there is no list, without white space around them and without repetitions.\<close>

theorem deployment_order:
  assumes "deploy_commands lc fs repoRoot input = Inr commands"
  shows "map dc_packageName commands = uniq (map trim (named_packages input))
    \<and> (\<forall>c \<in> set commands. \<exists>user port rest. dc_args c = [''ros2:deploy'', ''--host'', trim (di_host input), ''--user'', user,
        ''--port'', port, ''--packages-select'', dc_packageName c] @ rest)
    \<and> started_processes (fst (streamDeployPackage lc fs repoRoot exec input))
       = take (Suc (length (takeWhile (\<lambda>i. process_succeeds (exec i)) [0..<Suc (length commands)])))
           ((''git'', [''pull'', ''origin'', ''main'']) # map (\<lambda>c. (PR_COMMAND, dc_args c)) commands)
    \<and> (snd (streamDeployPackage lc fs repoRoot exec input) = None \<longleftrightarrow> (\<forall>i \<in> {0..<Suc (length commands)}. process_succeeds (exec i)))
    \<and> commands \<noteq> [] \<and> distinct (map dc_packageName commands)
    \<and> (\<exists>packages. readDeployPackages lc fs repoRoot = Inr packages
        \<and> dc_packageName ` set commands \<subseteq> dp_name ` set packages)"
proof -
  have plan: "map snd (stream_plan commands) = (''git'', [''pull'', ''origin'', ''main'']) # map (\<lambda>c. (PR_COMMAND, dc_args c)) commands"
    "length (stream_plan commands) = Suc (length commands)"
    by (simp_all add: stream_plan_def)
  have built: "buildDeployImageCommands input = Inr commands"
    using assms unfolding deploy_commands_def by (auto dest!: rbind_Inr)
  have selects: "\<forall>c \<in> set commands. \<exists>user port rest. dc_args c = [''ros2:deploy'', ''--host'', trim (di_host input), ''--user'', user,
        ''--port'', port, ''--packages-select'', dc_packageName c] @ rest"
    using command_selects [OF built] by blast
  show ?thesis
    using commands_requested [OF built] selects stream_runs_order [of exec 0 "stream_plan commands"] deploy_commands_Inr [OF assms]
    unfolding take_map [symmetric] plan streamDeployPackage_def assms sum.case add_0 by blast
qed

theorem deployment_order_witness:
  "\<exists>commands. deploy_commands (\<lambda>a b. 0) demo_services [] demo_input = Inr commands
    \<and> started_processes (fst (streamDeployPackage (\<lambda>a b. 0) demo_services [] (\<lambda>n. \<lparr>so_chunks = [], so_code = Some 1, so_error = None\<rparr>) demo_input))
       = [(''git'', [''pull'', ''origin'', ''main''])]"
proof -
  have "deploy_commands (\<lambda>a b. 0) demo_services [] demo_input = Inr (projr (deploy_commands (\<lambda>a b. 0) demo_services [] demo_input))"
    by code_simp
  from deployment_order [OF this, of "\<lambda>n. \<lparr>so_chunks = [], so_code = Some 1, so_error = None\<rparr>"] this show ?thesis
    by (simp add: process_succeeds_def upt_rec [of 0] exI del: upt_Suc)
qed

end
