(* ===== verification/Collector_Text.thy ===== *)
theory Collector_Text
  imports Monitor_Model
begin

text \<open>
  How the collectors of the monitor read what they are told, as text
  (\<open>monitor/pr-monitor/src/collectors.ts\<close>): the process table, lists of routes, rates and sizes,
  time stamps, domain ids and environments, and how they quote arguments for a shell.

  Numbers are exact: \<open>parseInt\<close> and \<open>parseFloat\<close> round to doubles, which this does not model.
\<close>

subsection \<open>Runs of characters\<close>

text \<open>\<open>s.replace(/[...]+/g, d)\<close> for one character \<open>d\<close>.\<close>

function (sequential) replace_runs :: "(char \<Rightarrow> bool) \<Rightarrow> char \<Rightarrow> string \<Rightarrow> string" where
  "replace_runs p d [] = []"
| "replace_runs p d (c # r) = (if p c then d # replace_runs p d (dropWhile p r) else c # replace_runs p d r)"
  by pat_completeness auto
termination
  by (relation "measure (\<lambda>(p, d, s). length s)") (auto simp: le_imp_less_Suc length_dropWhile_le)

text \<open>\<open>s.replace(/^d+|d+$/g, "")\<close>.\<close>

definition strip_char :: "char \<Rightarrow> string \<Rightarrow> string" where
  "strip_char d s = rev (dropWhile (\<lambda>c. c = d) (rev (dropWhile (\<lambda>c. c = d) s)))"

definition squeezed :: "string \<Rightarrow> string" where
  "squeezed s = trim (replace_runs is_ws SP s)"

definition compact :: "string \<Rightarrow> string" where
  "compact s = take 180 (squeezed s)"

definition errorMessage :: "string \<Rightarrow> string" where
  "errorMessage message = squeezed message"

text \<open>\<open>command.split(/[\\/]/).at(-1) || command\<close>.\<close>

definition basename_of :: "string \<Rightarrow> string" where
  "basename_of command =
     or_else (rev (takeWhile (\<lambda>c. c \<noteq> CHR 0x5C \<and> c \<noteq> CHR ''/'') (rev command))) command"

subsection \<open>Numbers\<close>

text \<open>The digits and the value of \<open>parseFloat\<close> on digits and dots.\<close>

definition is_num_char :: "char \<Rightarrow> bool" where
  "is_num_char c \<longleftrightarrow> is_digit c \<or> c = CHR ''.''"

definition decimal_value :: "string \<Rightarrow> string \<Rightarrow> rat" where
  "decimal_value whole fraction = rat_of_int (int (digits_val (whole @ fraction))) / 10 ^ length fraction"

definition parse_decimal :: "string \<Rightarrow> rat option" where
  "parse_decimal s =
     (let whole = takeWhile is_digit s; r = drop (length whole) s;
          fraction = (case r of [] \<Rightarrow> [] | c # r' \<Rightarrow> if c = CHR ''.'' then takeWhile is_digit r' else [])
      in if whole = [] \<and> fraction = [] then None else Some (decimal_value whole fraction))"

text \<open>\<open>parseFloat\<close>: white space, a sign, a decimal number and an exponent; \<^const>\<open>None\<close> when the
  result is not a finite number.\<close>

definition sign_of :: "string \<Rightarrow> int \<times> string" where
  "sign_of s = (case s of c # r \<Rightarrow> if c = CHR ''-'' then (-1, r) else if c = CHR ''+'' then (1, r) else (1, s) | [] \<Rightarrow> (1, s))"

definition exponent_of :: "string \<Rightarrow> int" where
  "exponent_of s =
     (case s of c # r \<Rightarrow>
        if c = CHR ''e'' \<or> c = CHR ''E''
        then (let (sgn', r') = sign_of r in sgn' * int (digits_val (takeWhile is_digit r')))
        else 0
      | [] \<Rightarrow> 0)"

definition parseFloat :: "string \<Rightarrow> rat option" where
  "parseFloat s =
     (let (sgn', r) = sign_of (trimStart s);
          whole = takeWhile is_digit r; r1 = drop (length whole) r;
          r2 = (case r1 of c # q \<Rightarrow> if c = CHR ''.'' then dropWhile is_digit q else r1 | [] \<Rightarrow> r1);
          e = exponent_of r2
      in map_option (\<lambda>v. of_int sgn' * v * (if 0 \<le> e then 10 ^ nat e else 1 / 10 ^ nat (- e))) (parse_decimal r))"

subsection \<open>Processes\<close>

record ParsedProcess =
  pp_pid :: nat
  pp_cpu :: "rat option"
  pp_command :: string
  pp_args :: string

text \<open>\<open>/^(\d+)\s+([0-9.]+)\s+(\S+)\s*(.*)$/\<close>.\<close>

definition process_line :: "string \<Rightarrow> ParsedProcess option" where
  "process_line line =
     (let pid = takeWhile is_digit line; r1 = drop (length pid) line;
          cpu = takeWhile is_num_char (trimStart r1); r2 = drop (length cpu) (trimStart r1);
          command = takeWhile (\<lambda>c. \<not> is_ws c) (trimStart r2);
          args = trimStart (drop (length command) (trimStart r2))
      in if pid \<noteq> [] \<and> r1 \<noteq> [] \<and> is_ws (hd r1) \<and> cpu \<noteq> [] \<and> r2 \<noteq> [] \<and> is_ws (hd r2) \<and> command \<noteq> []
           \<and> list_all (\<lambda>c. \<not> is_term c) args
         then Some \<lparr>pp_pid = digits_val pid, pp_cpu = parse_decimal cpu, pp_command = command, pp_args = args\<rparr>
         else None)"

definition parseProcessTable :: "string \<Rightarrow> ParsedProcess list" where
  "parseProcessTable stdout = List.map_filter (\<lambda>line. process_line (trim line)) (split_lines stdout)"

text \<open>\<open>source.match(/mark([^/]+)/)?.[1]\<close>.\<close>

fun after_mark :: "string \<Rightarrow> string \<Rightarrow> string option" where
  "after_mark mark [] = None"
| "after_mark mark (c # r) =
     (let name = takeWhile (\<lambda>x. x \<noteq> CHR ''/'') (drop (length mark) (c # r))
      in if prefix mark (c # r) \<and> name \<noteq> [] then Some name else after_mark mark r)"

definition source_service :: "string \<Rightarrow> string option" where
  "source_service source = after_mark ''module/service/'' source"

definition is_path_separator :: "char \<Rightarrow> bool" where
  "is_path_separator c \<longleftrightarrow> c \<in> {CHR ''/'', CHR ''.'', CHR '':'', CHR ''-''}"

definition processMatchTokens :: "EndpointInfo \<Rightarrow> string list" where
  "processMatchTokens ep =
     (let services = map toLowerCase (List.map_filter source_service (ep_sources ep));
          names = concat (map (\<lambda>name. if length name \<ge> 4
            then [replace_char (CHR ''_'') (CHR ''-'') (toLowerCase name), toLowerCase name] else []) (ep_routeNames ep));
          parts = filter (\<lambda>part. length part \<ge> 5) (split_runs is_path_separator (strip_scheme False (ep_url ep)))
      in filter (\<lambda>v. v \<notin> set [''service'', ''topic'', ''robot'']) (uniq (services @ names @ map toLowerCase parts)))"

definition process_info :: "string \<Rightarrow> EndpointInfo \<Rightarrow> ParsedProcess \<Rightarrow> ProcessInfo" where
  "process_info hostname ep process = \<lparr>pi_type = ep_type ep, pi_host = hostname, pi_ip = ''127.0.0.1'',
     pi_name = basename_of (pp_command process), pi_pid = pp_pid process, pi_profiler = pp_cpu process\<rparr>"

definition matchProcesses :: "string \<Rightarrow> EndpointInfo \<Rightarrow> ParsedProcess list \<Rightarrow> ProcessInfo list" where
  "matchProcesses hostname ep processes =
     (let tokens = processMatchTokens ep
      in map (process_info hostname ep) (take 8 (filter (\<lambda>p.
           list_ex (has_sub (toLowerCase (pp_command p @ '' '' @ pp_args p))) tokens) processes)))"

subsection \<open>Routes\<close>

definition ros2RouteUrl :: "string \<Rightarrow> string" where
  "ros2RouteUrl route = ''ros2://'' @ strip_slashes_front route"

definition routeFromUrl :: "string \<Rightarrow> string" where
  "routeFromUrl url = ''/'' @ strip_slashes_front (strip_scheme False url)"

definition endpointRuntimeUrl :: "EndpointInfo \<Rightarrow> string" where
  "endpointRuntimeUrl ep = or_else (nullish (ep_runtimeUrl ep) []) (ep_url ep)"

text \<open>\<open>/^(\S+)(?:\s+\[(.+)\])?$/\<close>: the route, empty when the line does not match, and the type.\<close>

definition ros2_line :: "string \<Rightarrow> string \<times> string" where
  "ros2_line line =
     (let route = takeWhile (\<lambda>c. \<not> is_ws c) line; r = trimStart (drop (length route) line); mid = butlast (tl r)
      in if r = [] then (route, [])
         else if hd r = CHR ''['' \<and> last r = CHR '']'' \<and> mid \<noteq> [] \<and> tl r \<noteq> [] \<and> list_all (\<lambda>c. \<not> is_term c) mid
         then (route, mid) else ([], []))"

text \<open>The routes that a list names, and the types that it adds to those known.\<close>

definition parseRos2List :: "string \<Rightarrow> (string \<rightharpoonup> string) \<Rightarrow> string list \<times> (string \<rightharpoonup> string)" where
  "parseRos2List stdout types =
     (let parsed = map ros2_line (filter (\<lambda>l. l \<noteq> []) (map trim (split_lines stdout)))
      in (filter (\<lambda>r. r \<noteq> []) (map fst parsed),
          fold (\<lambda>(r, t) m. if r \<noteq> [] \<and> t \<noteq> [] then m(r \<mapsto> t) else m) parsed types))"

definition normalizeRoutePath :: "string \<Rightarrow> string" where
  "normalizeRoutePath v = toLowerCase (rev (strip_slashes_front (rev (strip_slashes_front (strip_scheme True v)))))"

definition normalizeRouteLabel :: "string \<Rightarrow> string" where
  "normalizeRouteLabel v =
     strip_char (CHR ''_'') (replace_runs (\<lambda>c. c = CHR ''-'' \<or> is_ws c \<or> c = CHR ''/'') (CHR ''_'') (toLowerCase (trim v)))"

end
