(* ===== verification/Collector_Metrics.thy ===== *)
theory Collector_Metrics
  imports Collector_Text Names
begin

text \<open>
  The metrics of the collectors (\<open>monitor/pr-monitor/src/collectors.ts\<close>): which Prometheus series
  belongs to an endpoint, and the bandwidth and latency in the output of \<open>ros2 topic\<close>. The labels
  of a series are in the order of its JSON object; a label name is not a number.
\<close>

subsection \<open>Prometheus series\<close>

record PrometheusSeries =
  ps_metric :: "(string \<times> string) list"
  ps_value :: rat

definition label_of :: "(string \<times> string) list \<Rightarrow> string \<Rightarrow> string" where
  "label_of metric name = nullish (map_of metric name) []"

definition with_suffixes :: "string \<Rightarrow> string list" where
  "with_suffixes v =
     (let normalized = normalizeRouteLabel v
      in if normalized = [] then []
         else normalized # map (\<lambda>kind. normalized @ ''_'' @ kind) [''ros2'', ''cyclonedds'', ''dds'', ''nats''])"

definition endpoint_route :: "EndpointInfo \<Rightarrow> string" where
  "endpoint_route ep = normalizeRoutePath (routeFromUrl (endpointRuntimeUrl ep))"

definition routeLabelCandidates :: "EndpointInfo \<Rightarrow> string list" where
  "routeLabelCandidates ep =
     (let parts = filter (\<lambda>p. p \<noteq> []) (split_on (CHR ''/'') (endpoint_route ep));
          leaf = (if parts = [] then [] else last parts)
      in uniq (concat (map with_suffixes (ep_routeNames ep)) @ with_suffixes leaf))"

definition route_labels :: "(string \<times> string) list \<Rightarrow> string list" where
  "route_labels metric =
     filter (\<lambda>v. v \<noteq> []) (map (label_of metric) [''url'', ''topic'', ''service'', ''ros_topic'', ''ros_service''])"

definition scoreSpecificSeries :: "EndpointInfo \<Rightarrow> (string \<times> string) list \<Rightarrow> int option" where
  "scoreSpecificSeries ep metric =
     (if route_labels metric \<noteq> []
      then Some (if list_ex (\<lambda>v. normalizeRoutePath v = endpoint_route ep) (route_labels metric) then 40 else 0)
      else if label_of metric ''route'' \<noteq> []
      then Some (if normalizeRouteLabel (label_of metric ''route'') \<in> set (routeLabelCandidates ep) then 30 else 0)
      else None)"

definition count_matches :: "('a \<Rightarrow> bool) \<Rightarrow> 'a list \<Rightarrow> int" where
  "count_matches p xs = int (length (filter p xs))"

definition scoreSeries :: "EndpointInfo \<Rightarrow> (string \<times> string) list \<Rightarrow> int" where
  "scoreSeries ep metric =
     (case scoreSpecificSeries ep metric of
        Some score \<Rightarrow> score
      | None \<Rightarrow>
          let labels = toLowerCase (join '' '' (map snd metric)); runtimeUrl = endpointRuntimeUrl ep
          in (if has_sub labels (toLowerCase (ep_url ep)) then 10 else 0)
             + (if has_sub labels (toLowerCase runtimeUrl) then 10 else 0)
             + (if has_sub labels (toLowerCase (routeFromUrl runtimeUrl)) then 8 else 0)
             + 3 * count_matches (\<lambda>name. name \<noteq> [] \<and> has_sub labels (toLowerCase name)) (ep_routeNames ep)
             + 2 * count_matches (\<lambda>source. case source_service source of
                 Some service \<Rightarrow> has_sub labels (toLowerCase service) | None \<Rightarrow> False) (ep_sources ep))"

definition better_series ::
  "EndpointInfo \<Rightarrow> PrometheusSeries \<Rightarrow> PrometheusSeries option \<times> int \<Rightarrow> PrometheusSeries option \<times> int" where
  "better_series ep item best =
     (let score = scoreSeries ep (ps_metric item) in if score > snd best then (Some item, score) else best)"

definition bestSeriesForEndpoint :: "EndpointInfo \<Rightarrow> PrometheusSeries list \<Rightarrow> PrometheusSeries option" where
  "bestSeriesForEndpoint ep series =
     (let best = fold (better_series ep) series (None, 0) in if snd best > 0 then fst best else None)"

subsection \<open>Bandwidth\<close>

definition parseBytes :: "string \<Rightarrow> string \<Rightarrow> rat" where
  "parseBytes v unit =
     (case parse_decimal v of
        None \<Rightarrow> 0
      | Some x \<Rightarrow>
          let normalized = toLowerCase unit
          in if normalized = ''tb'' then x * 1024 * 1024 * 1024 * 1024
             else if normalized = ''gb'' then x * 1024 * 1024 * 1024
             else if normalized = ''mb'' then x * 1024 * 1024
             else if normalized = ''kb'' then x * 1024
             else x)"

text \<open>\<open>[KMGT]?B\<close> without regard to case, and what follows it.\<close>

definition unit_at :: "string \<Rightarrow> (string \<times> string) option" where
  "unit_at s =
     (let l = toLowerCase (take 2 s)
      in if prefix ''b'' l then Some (take 1 s, drop 1 s)
         else if l \<in> set [''kb'', ''mb'', ''gb'', ''tb''] then Some (take 2 s, drop 2 s)
         else None)"

definition word_ends :: "string \<Rightarrow> bool" where
  "word_ends s = (case s of [] \<Rightarrow> True | c # _ \<Rightarrow> \<not> is_word_char c)"

text \<open>\<open>([0-9.]+)\s*([KMGT]?B)\<close> at the front, followed by the given text and the end of a word.\<close>

definition amount_at :: "string \<Rightarrow> string \<Rightarrow> (string \<times> string) option" where
  "amount_at tail s =
     (let ds = takeWhile is_num_char s
      in if ds = [] then None
         else case unit_at (trimStart (drop (length ds) s)) of
           None \<Rightarrow> None
         | Some (unit, r) \<Rightarrow> if prefix tail (toLowerCase r) \<and> word_ends (drop (length tail) r) then Some (ds, unit) else None)"

text \<open>The last match of \<open>/([0-9.]+)\s*([KMGT]?B)\/s\b/gi\<close>. A match cannot start inside the digits of
  another: the digits of one are followed by what the other's digits are.\<close>

fun last_rate :: "bool \<Rightarrow> string \<Rightarrow> (string \<times> string) option" where
  "last_rate inside [] = None"
| "last_rate inside (c # r) =
     (case last_rate (is_num_char c) r of
        Some found \<Rightarrow> Some found
      | None \<Rightarrow> if inside then None else amount_at ''/s'' (c # r))"

fun last_size :: "string \<Rightarrow> (string \<times> string) option" where
  "last_size [] = None"
| "last_size (c # r) =
     (case last_size r of
        Some found \<Rightarrow> Some found
      | None \<Rightarrow> if prefix ''message size mean:'' (toLowerCase (c # r))
          then amount_at [] (trimStart (drop 18 (c # r))) else None)"

definition parseTopicBandwidth :: "string \<Rightarrow> (rat \<times> rat) option" where
  "parseTopicBandwidth output =
     (case last_rate False output of
        None \<Rightarrow> None
      | Some (v, unit) \<Rightarrow> Some (parseBytes v unit,
          case last_size output of Some (w, unit') \<Rightarrow> parseBytes w unit' | None \<Rightarrow> 0))"

text \<open>\<open>output.match(/average rate:\s*([0-9.]+)/)\<close>.\<close>

fun average_rate :: "string \<Rightarrow> string option" where
  "average_rate [] = None"
| "average_rate (c # r) =
     (let ds = takeWhile is_num_char (trimStart (drop 13 (c # r)))
      in if prefix ''average rate:'' (c # r) \<and> ds \<noteq> [] then Some ds else average_rate r)"

subsection \<open>Latency\<close>

text \<open>\<open>/received_timestamp['":\s]+(\d{10,})/\<close>.\<close>

definition is_stamp_separator :: "char \<Rightarrow> bool" where
  "is_stamp_separator c \<longleftrightarrow> c = SQ \<or> c = DQ \<or> c = CHR '':'' \<or> is_ws c"

fun received_stamp :: "string \<Rightarrow> string option" where
  "received_stamp [] = None"
| "received_stamp (c # r) =
     (let rest = drop 18 (c # r); ds = takeWhile is_digit (dropWhile is_stamp_separator rest)
      in if prefix ''received_timestamp'' (c # r) \<and> rest \<noteq> [] \<and> is_stamp_separator (hd rest) \<and> length ds \<ge> 10
         then Some ds else received_stamp r)"

text \<open>\<open>/(?:^|\n)\s*(\d{10,})\s*(?:\n|$)/\<close>. The flag says whether there is only white space since the
  last line feed or the start.\<close>

definition line_ends :: "string \<Rightarrow> bool" where
  "line_ends s \<longleftrightarrow> LF \<in> set (takeWhile is_ws s) \<or> trimStart s = []"

function (sequential) created_stamp :: "bool \<Rightarrow> string \<Rightarrow> string option" where
  "created_stamp blank [] = None"
| "created_stamp blank (c # r) =
     (if blank \<and> is_digit c
      then (let ds = takeWhile is_digit (c # r); rest = dropWhile is_digit r
            in if length ds \<ge> 10 \<and> line_ends rest then Some ds else created_stamp False rest)
      else created_stamp (c = LF \<or> (blank \<and> is_ws c)) r)"
  by pat_completeness auto
termination
  by (relation "measure (\<lambda>(b, s). length s)") (auto simp: le_imp_less_Suc length_dropWhile_le)

definition parseEnvelopeLatency :: "string \<Rightarrow> rat option" where
  "parseEnvelopeLatency output =
     (case created_stamp True output of
        None \<Rightarrow> None
      | Some created \<Rightarrow>
          let n = digits_val created; createdAt = (if n < 10000000000 then n * 1000 else n)
          in if n = 0 then None
             else case received_stamp output of
               None \<Rightarrow> None
             | Some received \<Rightarrow>
                 let receivedAtNs = digits_val received
                 in if receivedAtNs = 0 then None
                    else Some (max 0 (rat_of_int (int receivedAtNs) / 1000000 - rat_of_int (int createdAt))))"

end
