(* ===== verification/Collector_Runtime.thy ===== *)
theory Collector_Runtime
  imports Collector_Metrics Formats
begin

text \<open>
  Where the collectors look for ROS (\<open>monitor/pr-monitor/src/collectors.ts\<close>): the domain ids and
  distributions that the environment, the containers and the running processes name, cached for
  half a minute, and the command lines that are run inside a container.

  The outcome of every command and system call is a parameter.
\<close>

subsection \<open>Domain ids and names\<close>

definition normalizeDomainId :: "string \<Rightarrow> string" where
  "normalizeDomainId v =
     (let trimmed = trim v
      in if trimmed = [] \<or> \<not> list_all is_digit trimmed \<or> digits_val trimmed > 232 then []
         else nat_str (digits_val trimmed))"

text \<open>\<open>/^(\d+)-(\d+)$/\<close>.\<close>

definition domain_range :: "string \<Rightarrow> (nat \<times> nat) option" where
  "domain_range part =
     (let a = takeWhile is_digit part; r = drop (length a) part; b = tl r
      in if a \<noteq> [] \<and> r \<noteq> [] \<and> hd r = CHR ''-'' \<and> b \<noteq> [] \<and> list_all is_digit b
         then Some (digits_val a, digits_val b) else None)"

definition domain_ids :: "string \<Rightarrow> string list" where
  "domain_ids part =
     (case domain_range part of
        Some (first, last') \<Rightarrow>
          if first \<le> last' \<and> last' - first \<le> 64 then map nat_str [first..<last' + 1] else []
      | None \<Rightarrow> let normalized = normalizeDomainId part in if normalized \<noteq> [] then [normalized] else [])"

definition parseDomainIds :: "string \<Rightarrow> string list" where
  "parseDomainIds v = uniq (concat (map domain_ids (splitFilter v)))"

definition is_container_char :: "char \<Rightarrow> bool" where
  "is_container_char c \<longleftrightarrow> is_alpha c \<or> is_digit c \<or> c = CHR ''_'' \<or> c = CHR ''.'' \<or> c = CHR ''-''"

definition sanitizeContainerNamePart :: "string \<Rightarrow> string" where
  "sanitizeContainerNamePart v =
     or_else (strip_char (CHR ''-'') (replace_runs (\<lambda>c. \<not> is_container_char c) (CHR ''-'') v)) ''default''"

definition normalizeRosDistro :: "string \<Rightarrow> string" where
  "normalizeRosDistro v = sanitizeContainerNamePart (or_else (trim v) ''humble'')"

definition nativeCycloneDdsMonitorContainerName :: "string \<Rightarrow> string" where
  "nativeCycloneDdsMonitorContainerName rosDistro =
     ''pacific-rim-ros2-monitor-'' @ sanitizeContainerNamePart (or_else rosDistro ''humble'')"

subsection \<open>Contexts\<close>

record RosRuntimeContext =
  rc_domainId :: string
  rc_rosDistro :: string
  rc_source :: string

type_synonym environment = "string \<rightharpoonup> string"

definition env_text :: "environment \<Rightarrow> string \<Rightarrow> string" where
  "env_text env name = nullish (env name) []"

text \<open>What the collectors are told of the machine: its environment, the containers that run, the
  environment of a container as \<open>JSON.parse\<close> reads it, and of each process its id, environment and
  command line.\<close>

record ros_machine =
  rm_env :: environment
  rm_docker_ps :: "string result"
  rm_inspect :: "string \<Rightarrow> string result"
  rm_json_strings :: "string \<Rightarrow> string list"
  rm_proc :: "(string \<times> string result \<times> string result) list"

definition explicitRosRuntimeContexts :: "environment \<Rightarrow> RosRuntimeContext list" where
  "explicitRosRuntimeContexts env =
     (let domainIds = parseDomainIds (or_else (env_text env ''PR_MONITOR_ROS_DOMAIN_IDS'') (env_text env ''ROS_DOMAIN_IDS''));
          rosDistro = normalizeRosDistro (or_else (env_text env ''PR_MONITOR_ROS_DISTRO'') (env_text env ''ROS_DISTRO''));
          domainId = normalizeDomainId (or_else (env_text env ''PR_MONITOR_ROS_DOMAIN_ID'') (env_text env ''ROS_DOMAIN_ID''))
      in if domainIds \<noteq> []
         then map (\<lambda>d. \<lparr>rc_domainId = d, rc_rosDistro = rosDistro, rc_source = ''env:PR_MONITOR_ROS_DOMAIN_IDS''\<rparr>) domainIds
         else if domainId = [] then []
         else [\<lparr>rc_domainId = domainId, rc_rosDistro = rosDistro, rc_source = ''env:ROS_DOMAIN_ID''\<rparr>])"

definition contextFromEnv :: "environment \<Rightarrow> environment \<Rightarrow> string \<Rightarrow> RosRuntimeContext option" where
  "contextFromEnv machine_env env source =
     (let domainId = normalizeDomainId (env_text env ''ROS_DOMAIN_ID'')
      in if domainId = [] then None
         else Some \<lparr>rc_domainId = domainId,
           rc_rosDistro = normalizeRosDistro (or_else (env_text env ''ROS_DISTRO'') (env_text machine_env ''ROS_DISTRO'')),
           rc_source = source\<rparr>)"

text \<open>\<open>/(?:^|[-_])([a-z]+)(?:[-_])d(\d+)(?:$|[-_])/i\<close>. The flag says whether a match may start here.\<close>

definition is_name_separator :: "char \<Rightarrow> bool" where
  "is_name_separator c \<longleftrightarrow> c = CHR ''-'' \<or> c = CHR ''_''"

definition distro_at :: "string \<Rightarrow> (string \<times> string) option" where
  "distro_at s =
     (let distro = takeWhile is_alpha s; r = drop (length distro) s; ds = takeWhile is_digit (drop 2 r); r' = drop (2 + length ds) r
      in if distro \<noteq> [] \<and> length r \<ge> 2 \<and> is_name_separator (hd r) \<and> r ! 1 \<in> {CHR ''d'', CHR ''D''} \<and> ds \<noteq> []
           \<and> (r' = [] \<or> is_name_separator (hd r'))
         then Some (distro, ds) else None)"

fun named_distro :: "bool \<Rightarrow> string \<Rightarrow> (string \<times> string) option" where
  "named_distro starts [] = None"
| "named_distro starts (c # r) =
     (case (if starts then distro_at (c # r) else None) of
        Some found \<Rightarrow> Some found
      | None \<Rightarrow> named_distro (is_name_separator c) r)"

definition contextFromContainerName :: "string \<Rightarrow> RosRuntimeContext option" where
  "contextFromContainerName name =
     map_option (\<lambda>(distro, ds). \<lparr>rc_domainId = ds, rc_rosDistro = normalizeRosDistro distro,
       rc_source = ''docker-name:'' @ name\<rparr>) (named_distro True name)"

definition env_entry :: "string \<Rightarrow> environment \<Rightarrow> environment" where
  "env_entry item env =
     (let name = takeWhile (\<lambda>c. c \<noteq> CHR ''='') item
      in if name = [] \<or> length name = length item then env else env(name \<mapsto> drop (length name + 1) item))"

definition envObjectFromEntries :: "string list \<Rightarrow> environment" where
  "envObjectFromEntries values = fold env_entry values Map.empty"

definition envObjectFromNullSeparated :: "string \<Rightarrow> environment" where
  "envObjectFromNullSeparated v = envObjectFromEntries (split_on (CHR 0x00) v)"

text \<open>The lines of \<open>docker ps\<close>: an id and a name.\<close>

definition container_line :: "string \<Rightarrow> string \<times> string" where
  "container_line line =
     (case split_runs is_ws (trim line) of
        [] \<Rightarrow> ([], []) | [i] \<Rightarrow> (i, []) | i # name # _ \<Rightarrow> (i, name))"

definition containers_of :: "string \<Rightarrow> (string \<times> string) list" where
  "containers_of stdout = map container_line (split_lines stdout)"

definition names_ros :: "string list \<Rightarrow> string \<Rightarrow> bool" where
  "names_ros words s = list_ex (has_sub (toLowerCase s)) words"

definition container_context :: "ros_machine \<Rightarrow> string \<times> string \<Rightarrow> RosRuntimeContext option result" where
  "container_context h = (\<lambda>(i, name).
     rbind (rm_inspect h i) (\<lambda>stdout.
       let env = envObjectFromEntries (rm_json_strings h (trim stdout))
       in Inr (case contextFromEnv (rm_env h) env (''docker:'' @ name) of
            Some c \<Rightarrow> Some c | None \<Rightarrow> contextFromContainerName name)))"

text \<open>Any failure gives no context at all.\<close>

definition dockerRosRuntimeContexts :: "ros_machine \<Rightarrow> RosRuntimeContext list" where
  "dockerRosRuntimeContexts h =
     (case rbind (rm_docker_ps h) (\<lambda>stdout.
        rmap (container_context h) (take 32 (filter (\<lambda>(i, name). i \<noteq> [] \<and>
          names_ros [''pacific-rim'', ''ros2'', ''cyclonedds''] name) (containers_of stdout)))) of
        Inr found \<Rightarrow> List.map_filter id found
      | Inl e \<Rightarrow> [])"

definition process_context :: "ros_machine \<Rightarrow> string \<times> string result \<times> string result \<Rightarrow> RosRuntimeContext option" where
  "process_context h = (\<lambda>(pid, environ, cmdline).
     case (environ, cmdline) of
       (Inr e, Inr c) \<Rightarrow>
         if (has_sub e ''ROS_DOMAIN_ID='' \<or> has_sub e ''ROS_DISTRO='')
           \<and> names_ros [''pacific-rim'', ''pacific_rim'', ''pacific rim'', ''ros2'', ''_node'', ''cyclonedds'']
               (replace_char (CHR 0x00) SP c)
         then contextFromEnv (rm_env h) (envObjectFromNullSeparated e) (''proc:'' @ pid) else None
     | _ \<Rightarrow> None)"

definition procRosRuntimeContexts :: "ros_machine \<Rightarrow> RosRuntimeContext list" where
  "procRosRuntimeContexts h =
     List.map_filter (process_context h)
       (take 512 (filter (\<lambda>(pid, _). pid \<noteq> [] \<and> list_all is_digit pid) (rm_proc h)))"

definition context_key :: "RosRuntimeContext \<Rightarrow> string" where
  "context_key c = rc_domainId c @ '':'' @ rc_rosDistro c"

definition normalized_context :: "RosRuntimeContext \<Rightarrow> RosRuntimeContext" where
  "normalized_context c = c\<lparr>rc_domainId := normalizeDomainId (rc_domainId c), rc_rosDistro := normalizeRosDistro (rc_rosDistro c)\<rparr>"

text \<open>The first context of each key is kept, sixteen in all.\<close>

definition dedupeRosRuntimeContexts :: "RosRuntimeContext list \<Rightarrow> RosRuntimeContext list" where
  "dedupeRosRuntimeContexts contexts =
     take 16 (fold (upsert context_key context_key id (\<lambda>x e. e))
       (filter (\<lambda>c. rc_domainId c \<noteq> []) (map normalized_context contexts)) [])"

definition defaultRosRuntimeContext :: "environment \<Rightarrow> RosRuntimeContext" where
  "defaultRosRuntimeContext env = \<lparr>rc_domainId = ''0'',
     rc_rosDistro = normalizeRosDistro (or_else (env_text env ''PR_MONITOR_ROS_DISTRO'') (env_text env ''ROS_DISTRO'')),
     rc_source = ''default''\<rparr>"

definition ros2GraphCacheMs :: int where "ros2GraphCacheMs = 30000"

type_synonym context_cache = "(RosRuntimeContext list \<times> int) option"

definition discoverRosRuntimeContexts ::
  "ros_machine \<Rightarrow> int \<Rightarrow> context_cache \<Rightarrow> RosRuntimeContext list \<times> context_cache" where
  "discoverRosRuntimeContexts h now cache =
     (let contexts = dedupeRosRuntimeContexts (explicitRosRuntimeContexts (rm_env h)
            @ dockerRosRuntimeContexts h @ procRosRuntimeContexts h);
          found = (if contexts \<noteq> [] then contexts else [defaultRosRuntimeContext (rm_env h)])
      in case cache of
           Some (cached, timestamp) \<Rightarrow>
             if now - timestamp < ros2GraphCacheMs then (cached, cache) else (found, Some (found, now))
         | None \<Rightarrow> (found, Some (found, now)))"

definition rosRuntimeContextKey :: "RosRuntimeContext list \<Rightarrow> string" where
  "rosRuntimeContextKey contexts = join ''|'' (js_sort unit_compare (map context_key contexts))"

subsection \<open>Commands\<close>

definition shellSingleQuote :: "string \<Rightarrow> string" where
  "shellSingleQuote v = SQ # concat (map (\<lambda>c. if c = SQ then [SQ, CHR 0x5C, SQ, SQ] else [c]) v) @ [SQ]"

definition shellQuote :: "string list \<Rightarrow> string" where
  "shellQuote args = join '' '' (map shellSingleQuote args)"

definition splitCompilerArgs :: "string \<Rightarrow> string list" where
  "splitCompilerArgs v = filter (\<lambda>x. x \<noteq> []) (map trim (split_runs is_ws v))"

definition nativeCycloneDdsSampleArgs :: "string \<Rightarrow> int \<Rightarrow> string \<Rightarrow> string list" where
  "nativeCycloneDdsSampleArgs route seconds domainId =
     [''--topic'', route, ''--domain-id'', domainId, ''--milliseconds'', int_str (max 100 (seconds * 1000))]"

definition nativeCycloneDdsDockerEnvArgs :: "environment \<Rightarrow> RosRuntimeContext \<Rightarrow> string list" where
  "nativeCycloneDdsDockerEnvArgs env c =
     [''--env'', ''ROS_DOMAIN_ID='' @ rc_domainId c, ''--env'', ''ROS_DISTRO='' @ rc_rosDistro c]
     @ (if env_text env ''CYCLONEDDS_URI'' \<noteq> [] then [''--env'', ''CYCLONEDDS_URI='' @ env_text env ''CYCLONEDDS_URI''] else [])"

definition dockerRos2Args :: "environment \<Rightarrow> string \<Rightarrow> string list \<Rightarrow> int \<Rightarrow> string list" where
  "dockerRos2Args env containerId args timeoutMs =
     (let legacy = shellSingleQuote ''install/setup.bash'' in
      [''exec'', ''--env'', ''RMW_IMPLEMENTATION='' @ or_else (env_text env ''RMW_IMPLEMENTATION'') ''rmw_cyclonedds_cpp'',
       containerId, ''timeout'', ''--kill-after=1s'', int_str (max 1 (- ((- timeoutMs) div 1000))) @ ''s'', ''bash'', ''-lc'',
       join ''; ''
         [''ros_distro=''  @ quoted ''${ROS_DISTRO:-humble}'', ''source '' @ quoted ''/opt/ros/$ros_distro/setup.bash'',
          ''install_setup='' @ quoted ''install/$ros_distro/setup.bash'',
          ''if [[ ! -f '' @ quoted ''$install_setup'' @ '' && -f '' @ legacy @ '' ]]; then install_setup='' @ legacy @ ''; fi'',
          ''if [[ -f '' @ quoted ''$install_setup'' @ '' ]]; then source '' @ quoted ''$install_setup'' @ ''; fi'',
          shellQuote (''ros2'' # args)]])"

definition is_hex_char :: "char \<Rightarrow> bool" where
  "is_hex_char c \<longleftrightarrow> is_digit c \<or> lower_char c \<in> set ''abcdef''"

text \<open>The last line that looks like a container id, and the last that looks like a JSON object.\<close>

definition findContainerId :: "string \<Rightarrow> string" where
  "findContainerId output =
     nullish (find (\<lambda>l. 12 \<le> length l \<and> length l \<le> 64 \<and> list_all is_hex_char l)
       (rev (filter (\<lambda>l. l \<noteq> []) (map trim (split_lines output))))) []"

definition lastJsonLine :: "string \<Rightarrow> string" where
  "lastJsonLine output =
     nullish (find (\<lambda>l. startsWith l ''{'' \<and> endsWith l ''}'') (rev (map trim (split_lines output)))) []"

text \<open>The container of the ROS runtime, empty when there is none.\<close>

definition findRos2Container :: "ros_machine \<Rightarrow> string" where
  "findRos2Container h =
     (case rm_docker_ps h of
        Inl e \<Rightarrow> []
      | Inr stdout \<Rightarrow>
          let containers = filter (\<lambda>(i, name). i \<noteq> [] \<and> name \<noteq> []) (containers_of stdout);
              named = (\<lambda>w. map_option fst (find (\<lambda>(i, name). has_sub name w) containers))
          in nullish (named ''pacific-rim-ros2-monitor'') (nullish (named ''pacific-rim-ros2-run'')
               (nullish (named ''ros2-ros2-run'') [])))"

end
