(* ===== verification/Collectors.thy ===== *)
theory Collectors
  imports Collector_Runtime Monitor_Format
begin

text \<open>
  The four collectors of the monitor (\<open>monitor/pr-monitor/src/collectors.ts\<close>): the process table,
  Prometheus, native CycloneDDS and ROS 2. Each keeps its own state between two collections; a
  collection takes the state and what the outside answers, and gives the new state and a snapshot.

  The clock, commands, fetches and native samplers are parameters. The seconds to sample are a
  number. A rate of \<open>ros2 topic hz\<close> without a digit, which it does not print, counts as none.
\<close>

definition snapshot_of :: "string \<Rightarrow> bool \<Rightarrow> string \<Rightarrow> int \<Rightarrow> CollectorSample list \<Rightarrow> CollectorSnapshot" where
  "snapshot_of name ok message updatedAt samples =
     \<lparr>sp_samples = samples, sp_status = \<lparr>co_name = name, co_ok = ok, co_message = message, co_updatedAt = updatedAt\<rparr>\<rparr>"

definition empty_sample :: "string \<Rightarrow> string \<Rightarrow> int \<Rightarrow> CollectorSample" where
  "empty_sample url source timestamp = \<lparr>cs_url = url, cs_source = source, cs_timestamp = timestamp, cs_freq = None,
     cs_rate = None, cs_loss = None, cs_latency = None, cs_countDelta = None, cs_size = None, cs_active = None,
     cs_status = None, cs_preview = None, cs_processList = None\<rparr>"

definition rat_compare :: "rat \<Rightarrow> rat \<Rightarrow> int" where
  "rat_compare x y = (if x < y then -1 else if y < x then 1 else 0)"

subsection \<open>Processes\<close>

definition process_sample :: "string \<Rightarrow> int \<Rightarrow> ParsedProcess list \<Rightarrow> EndpointInfo \<Rightarrow> CollectorSample option" where
  "process_sample hostname startedAt processes ep =
     (let matched = matchProcesses hostname ep processes in
      if matched = [] then None
      else Some ((empty_sample (ep_url ep) ''process'' startedAt)\<lparr>
        cs_status := Some (nat_str (length matched) @ '' matching local process'' @ (if length matched = 1 then [] else ''es'')),
        cs_processList := Some matched\<rparr>))"

definition collect_processes :: "string \<Rightarrow> int \<Rightarrow> string result \<Rightarrow> EndpointInfo list \<Rightarrow> CollectorSnapshot" where
  "collect_processes hostname startedAt ps endpoints =
     (case ps of
        Inl e \<Rightarrow> snapshot_of ''process'' False (''ps unavailable: '' @ errorMessage e) startedAt []
      | Inr stdout \<Rightarrow>
          let samples = List.map_filter (process_sample hostname startedAt (parseProcessTable stdout)) endpoints
          in snapshot_of ''process'' True (nat_str (length samples) @ '' routes matched local process table'') startedAt samples)"

subsection \<open>Prometheus\<close>

text \<open>The answer to a query: the labels of each series and its value, when that is a string.\<close>

record PrometheusResponse =
  pr_status :: string
  pr_error :: string
  pr_result :: "((string \<times> string) list \<times> string option) list"

definition series_of :: "(string \<times> string) list \<times> string option \<Rightarrow> PrometheusSeries option" where
  "series_of = (\<lambda>(metric, raw).
     case raw of None \<Rightarrow> None
     | Some text \<Rightarrow> map_option (\<lambda>v. \<lparr>ps_metric = metric, ps_value = v\<rparr>) (parseFloat text))"

definition querySeries :: "PrometheusResponse result \<Rightarrow> PrometheusSeries list result" where
  "querySeries response =
     rbind response (\<lambda>body.
       if pr_status body \<noteq> ''success'' then Inl (or_else (pr_error body) ''query failed'')
       else Inr (List.map_filter series_of (pr_result body)))"

type_synonym counts = "string \<rightharpoonup> rat \<times> int"

text \<open>A counter: what it grew by since the last collection, never negative, and the rate of that.\<close>

definition count_sample :: "int \<Rightarrow> (rat \<times> int) option \<Rightarrow> rat \<Rightarrow> CollectorSample \<Rightarrow> CollectorSample" where
  "count_sample startedAt previous v sample =
     (case previous of
        None \<Rightarrow> sample\<lparr>cs_countDelta := Some 0\<rparr>
      | Some (before, timestamp) \<Rightarrow>
          let elapsedSec = max (1 / 1000) (of_int (startedAt - timestamp) / 1000); delta = max 0 (v - before)
          in sample\<lparr>cs_countDelta := Some delta, cs_freq := Some (delta / elapsedSec)\<rparr>)"

definition prometheus_endpoint ::
  "int \<Rightarrow> PrometheusSeries list \<Rightarrow> PrometheusSeries list \<Rightarrow> EndpointInfo \<Rightarrow>
    counts \<times> CollectorSample list \<Rightarrow> counts \<times> CollectorSample list" where
  "prometheus_endpoint startedAt countSeries latencySeries ep = (\<lambda>(counts, samples).
     let count = bestSeriesForEndpoint ep countSeries; latency = bestSeriesForEndpoint ep latencySeries
     in if count = None \<and> latency = None then (counts, samples)
        else
          let sample = (empty_sample (ep_url ep) ''prometheus'' startedAt)\<lparr>cs_active := Some True,
                cs_status := Some ''observed in Prometheus'', cs_preview := Some ''Prometheus runtime metric sample''\<rparr>;
              counted = (case count of None \<Rightarrow> sample
                | Some c \<Rightarrow> count_sample startedAt (counts (ep_url ep)) (ps_value c) sample);
              timed = (case latency of None \<Rightarrow> counted | Some l \<Rightarrow> counted\<lparr>cs_latency := Some (ps_value l)\<rparr>)
          in (case count of None \<Rightarrow> counts | Some c \<Rightarrow> counts(ep_url ep \<mapsto> (ps_value c, startedAt)), samples @ [timed]))"

definition prometheus_url :: "string \<Rightarrow> string" where
  "prometheus_url endpoint = rev (dropWhile (\<lambda>c. c = CHR ''/'') (rev endpoint))"

definition collect_prometheus ::
  "string \<Rightarrow> int \<Rightarrow> PrometheusResponse result \<Rightarrow> PrometheusResponse result \<Rightarrow> EndpointInfo list \<Rightarrow> counts \<Rightarrow>
    counts \<times> CollectorSnapshot" where
  "collect_prometheus endpoint startedAt countResponse latencyResponse endpoints counts =
     (let url = prometheus_url endpoint in
      if url = [] then (counts, snapshot_of ''prometheus'' False ''disabled: no Prometheus URL'' startedAt [])
      else case rbind (querySeries countResponse) (\<lambda>c. rbind (querySeries latencyResponse) (\<lambda>l. Inr (c, l))) of
        Inl e \<Rightarrow> (counts, snapshot_of ''prometheus'' False (url @ '' unavailable: '' @ errorMessage e) startedAt [])
      | Inr (countSeries, latencySeries) \<Rightarrow>
          let (counts', samples) = fold (prometheus_endpoint startedAt countSeries latencySeries) endpoints (counts, [])
          in (counts', snapshot_of ''prometheus'' True (nat_str (length countSeries + length latencySeries)
                @ '' metric series, '' @ nat_str (length samples) @ '' route matches'') startedAt samples))"

subsection \<open>CycloneDDS\<close>

record NativeCycloneDdsSample =
  nc_topic :: string
  nc_domain_id :: int
  nc_count :: int
  nc_bytes :: int
  nc_elapsed_sec :: rat
  nc_freq :: rat
  nc_rate :: rat
  nc_latency_ms :: "rat option"

definition formatRate :: "rat \<Rightarrow> string" where
  "formatRate v =
     (if v \<le> 0 then ''0.00B/s''
      else if v \<ge> 1024 * 1024 * 1024 then toFixed (v / 1024 / 1024 / 1024) 2 @ ''GB/s''
      else if v \<ge> 1024 * 1024 then toFixed (v / 1024 / 1024) 2 @ ''MB/s''
      else if v \<ge> 1024 then toFixed (v / 1024) 2 @ ''KB/s''
      else toFixed v 2 @ ''B/s'')"

definition sample_compare :: "NativeCycloneDdsSample \<Rightarrow> NativeCycloneDdsSample \<Rightarrow> int" where
  "sample_compare left right =
     (if nc_count left \<noteq> nc_count right then nc_count right - nc_count left
      else rat_compare (nc_rate right) (nc_rate left))"

text \<open>Of the samples of all contexts the one with the most messages; when none succeeded, the first errors.\<close>

definition multi_sample :: "NativeCycloneDdsSample result list \<Rightarrow> NativeCycloneDdsSample result" where
  "multi_sample settled =
     (case js_sort sample_compare (List.map_filter (\<lambda>r. case r of Inr s \<Rightarrow> Some s | Inl _ \<Rightarrow> None) settled) of
        best # _ \<Rightarrow> Inr best
      | [] \<Rightarrow> Inl (or_else (join ''; '' (take 3 (List.map_filter (\<lambda>r. case r of Inl e \<Rightarrow> Some (errorMessage e) | Inr _ \<Rightarrow> None) settled)))
          ''no native CycloneDDS sampler succeeded''))"

text \<open>The next elements in turn: those from the cursor on, and the first ones when there are too few.\<close>

definition sample_budget :: "nat \<Rightarrow> nat \<Rightarrow> 'a list \<Rightarrow> 'a list" where
  "sample_budget limit cursor xs =
     (let chosen = take limit (drop cursor xs) in chosen @ take (limit - length chosen) xs)"

definition maxSamplesPerTick :: nat where "maxSamplesPerTick = 1"

definition dds_sample :: "int \<Rightarrow> string \<Rightarrow> EndpointInfo \<Rightarrow> NativeCycloneDdsSample \<Rightarrow> CollectorSample" where
  "dds_sample sampledAt label ep result =
     (let active = (nc_count result > 0) in
      (empty_sample (ep_url ep) ''cyclonedds'' sampledAt)\<lparr>cs_active := Some active, cs_freq := Some (nc_freq result),
        cs_rate := Some (nc_rate result), cs_latency := nc_latency_ms result, cs_countDelta := Some (of_int (nc_count result)),
        cs_size := Some (if nc_count result > 0 then of_int (nc_bytes result) / of_int (nc_count result) else 0),
        cs_status := Some (if active then ''native CycloneDDS sample via '' @ label
          else ''native CycloneDDS sampled via '' @ label @ ''; no messages''),
        cs_preview := Some (routeFromUrl (ep_url ep) @ '' domain='' @ int_str (nc_domain_id result) @ '' count=''
          @ int_str (nc_count result) @ '' freq='' @ toFixed (nc_freq result) 2 @ ''Hz rate='' @ formatRate (nc_rate result)
          @ (case nc_latency_ms result of Some l \<Rightarrow> '' latency='' @ toFixed l 2 @ ''ms'' | None \<Rightarrow> []))\<rparr>)"

text \<open>The samples that were taken before a failure are kept.\<close>

fun dds_samples ::
  "(string \<Rightarrow> NativeCycloneDdsSample result) \<Rightarrow> int \<Rightarrow> string \<Rightarrow> EndpointInfo list \<Rightarrow> CollectorSample list \<times> string option" where
  "dds_samples sampler sampledAt label [] = ([], None)"
| "dds_samples sampler sampledAt label (ep # eps) =
     (case sampler (routeFromUrl (ep_url ep)) of
        Inl e \<Rightarrow> ([], Some e)
      | Inr result \<Rightarrow> (let (samples, failure) = dds_samples sampler sampledAt label eps
          in (dds_sample sampledAt label ep result # samples, failure)))"

definition collect_cyclonedds ::
  "(string \<times> (string \<Rightarrow> NativeCycloneDdsSample result)) result \<Rightarrow> int \<Rightarrow> int \<Rightarrow> EndpointInfo list \<Rightarrow> nat \<Rightarrow>
    nat \<times> CollectorSnapshot" where
  "collect_cyclonedds sampler startedAt sampledAt endpoints cursor =
     (let ddsRoutes = filter (\<lambda>ep. startsWith (ep_url ep) ''cyclonedds://'') endpoints in
      if ddsRoutes = [] then (cursor, snapshot_of ''cyclonedds'' True ''no native CycloneDDS routes discovered'' startedAt [])
      else
        let budget = sample_budget maxSamplesPerTick cursor ddsRoutes;
            cursor' = (cursor + maxSamplesPerTick) mod length ddsRoutes;
            failed = (\<lambda>samples e. snapshot_of ''cyclonedds'' False (''native sampler unavailable: '' @ errorMessage e) startedAt samples)
        in (cursor', case sampler of
             Inl e \<Rightarrow> failed [] e
           | Inr (label, sample) \<Rightarrow>
               (case dds_samples sample sampledAt label budget of
                  (samples, Some e) \<Rightarrow> failed samples e
                | (samples, None) \<Rightarrow> snapshot_of ''cyclonedds'' True
                    (nat_str (length budget) @ '' native route sample'' @ (if length budget = 1 then [] else ''s'')
                     @ '' via '' @ label @ '', '' @ nat_str (length (filter (\<lambda>s. cs_active s = Some True) samples)) @ '' active'')
                    startedAt samples)))"

subsection \<open>ROS 2\<close>

datatype Ros2Runtime = Host_Runtime | Docker_Runtime string

text \<open>A command ends with its output, or fails with a message and what it had written.\<close>

record command_failure =
  cf_message :: string
  cf_output :: string

type_synonym ros2_outcome = "command_failure + string \<times> string"

record ros2_world =
  rw_container :: string
  rw_has_ros2 :: bool
  rw_run :: "Ros2Runtime \<Rightarrow> string list \<Rightarrow> ros2_outcome"

record ros2_graph =
  gr_topics :: "string list"
  gr_services :: "string list"
  gr_timestamp :: int

record Ros2Collector =
  ro_types :: "string \<rightharpoonup> string"
  ro_runtime :: "Ros2Runtime option"
  ro_graph :: "ros2_graph option"
  ro_cursor :: nat

definition resolveRuntime :: "ros2_world \<Rightarrow> Ros2Collector \<Rightarrow> Ros2Runtime result" where
  "resolveRuntime w s =
     (case ro_runtime s of
        Some r \<Rightarrow> Inr r
      | None \<Rightarrow>
          if rw_container w \<noteq> [] then Inr (Docker_Runtime (rw_container w))
          else if rw_has_ros2 w then Inr Host_Runtime
          else Inl ''ros2 CLI unavailable and no running ros2 container was found'')"

definition getGraph :: "ros2_world \<Rightarrow> int \<Rightarrow> int \<Rightarrow> Ros2Collector \<Rightarrow> Ros2Collector \<times> ros2_graph result" where
  "getGraph w now done' s =
     (let fresh = (case ro_graph s of Some g \<Rightarrow> if now - gr_timestamp g < ros2GraphCacheMs then Some g else None | None \<Rightarrow> None)
      in case fresh of
        Some g \<Rightarrow> (s, Inr g)
      | None \<Rightarrow>
          (case resolveRuntime w s of
             Inl e \<Rightarrow> (s, Inl e)
           | Inr runtime \<Rightarrow>
               let s1 = s\<lparr>ro_runtime := Some runtime\<rparr> in
               (case (rw_run w runtime [''topic'', ''list''], rw_run w runtime [''service'', ''list'']) of
                  (Inr (topicList, _), Inr (serviceList, _)) \<Rightarrow>
                    let (topics, types1) = parseRos2List topicList (ro_types s);
                        (services, types2) = parseRos2List serviceList types1;
                        g = \<lparr>gr_topics = topics, gr_services = services, gr_timestamp = done'\<rparr>
                    in (s1\<lparr>ro_types := types2, ro_graph := Some g\<rparr>, Inr g)
                | (Inl e, _) \<Rightarrow> (s1, Inl (cf_message e))
                | (_, Inl e) \<Rightarrow> (s1, Inl (cf_message e)))))"

definition sampleTopicHz :: "ros2_outcome \<Rightarrow> (rat option \<times> string) result" where
  "sampleTopicHz outcome =
     (let output = (case outcome of Inr (stdout, stderr) \<Rightarrow> stdout @ stderr | Inl e \<Rightarrow> cf_output e)
      in case average_rate output of
           Some ds \<Rightarrow> Inr (parse_decimal ds, compact output)
         | None \<Rightarrow> Inl (case outcome of Inr _ \<Rightarrow> ''no average rate'' | Inl e \<Rightarrow> errorMessage (cf_message e)))"

definition sampleTopicBandwidth :: "ros2_outcome \<Rightarrow> (rat \<times> rat \<times> string) result" where
  "sampleTopicBandwidth outcome =
     (let output = (case outcome of Inr (stdout, stderr) \<Rightarrow> stdout @ stderr | Inl e \<Rightarrow> cf_output e)
      in case parseTopicBandwidth output of
           Some (rate, size') \<Rightarrow> Inr (rate, size', compact output)
         | None \<Rightarrow> Inl (case outcome of Inr _ \<Rightarrow> ''no bandwidth sample'' | Inl e \<Rightarrow> errorMessage (cf_message e)))"

definition sampleTopicEnvelopeLatency :: "ros2_outcome \<Rightarrow> (rat \<times> string) result" where
  "sampleTopicEnvelopeLatency outcome =
     (let output = (case outcome of Inr (stdout, stderr) \<Rightarrow> stdout @ stderr | Inl e \<Rightarrow> cf_output e)
      in case parseEnvelopeLatency output of
           Some latency \<Rightarrow> Inr (latency, ''latency '' @ toFixed latency 2 @ ''ms'')
         | None \<Rightarrow> Inl (case outcome of Inr _ \<Rightarrow> ''no envelope timestamp'' | Inl e \<Rightarrow> errorMessage (cf_message e)))"

text \<open>What the three commands add to the sample of a topic.\<close>

definition add_hz :: "string \<Rightarrow> int \<Rightarrow> (rat option \<times> string) result \<Rightarrow> CollectorSample \<Rightarrow> CollectorSample" where
  "add_hz label sampledAt hz sample =
     (case hz of
        Inr (freq, preview) \<Rightarrow> sample\<lparr>cs_freq := freq, cs_timestamp := sampledAt, cs_status := Some (label @ '' topic hz''),
          cs_preview := Some preview\<rparr>
      | Inl e \<Rightarrow> sample\<lparr>cs_status := Some (label @ '' topic discovered; hz unavailable: '' @ e)\<rparr>)"

definition add_bandwidth ::
  "string \<Rightarrow> int \<Rightarrow> (rat option \<times> string) result \<Rightarrow> (rat \<times> rat \<times> string) result \<Rightarrow> CollectorSample \<Rightarrow> CollectorSample" where
  "add_bandwidth label sampledAt hz bandwidth sample =
     (case bandwidth of
        Inl e \<Rightarrow> sample
      | Inr (rate, size', preview) \<Rightarrow> sample\<lparr>cs_rate := Some rate, cs_size := Some size', cs_timestamp := sampledAt,
          cs_status := Some (case hz of Inr _ \<Rightarrow> label @ '' topic hz/bw'' | Inl _ \<Rightarrow> label @ '' topic bw''),
          cs_preview := Some (case hz of Inr (_, shown) \<Rightarrow> shown @ '' | '' @ preview | Inl _ \<Rightarrow> preview)\<rparr>)"

definition add_latency ::
  "string \<Rightarrow> int \<Rightarrow> (rat \<times> rat \<times> string) result \<Rightarrow> (rat \<times> string) result \<Rightarrow> CollectorSample \<Rightarrow> CollectorSample" where
  "add_latency label sampledAt bandwidth latency sample =
     (case latency of
        Inl e \<Rightarrow> sample
      | Inr (l, preview) \<Rightarrow> sample\<lparr>cs_latency := Some l, cs_timestamp := sampledAt,
          cs_status := Some (case bandwidth of Inr _ \<Rightarrow> nullish (cs_status sample) [] @ ''/latency'' | Inl _ \<Rightarrow> label @ '' topic latency''),
          cs_preview := Some (nullish (cs_preview sample) [] @ '' | '' @ preview)\<rparr>)"

definition is_topic :: "ros2_graph \<Rightarrow> EndpointInfo \<Rightarrow> bool" where
  "is_topic g ep \<longleftrightarrow> routeFromUrl (endpointRuntimeUrl ep) \<in> set (gr_topics g)"

definition ros2_sample ::
  "ros2_world \<Rightarrow> int \<Rightarrow> int \<Rightarrow> ros2_graph \<Rightarrow> string list \<Rightarrow> string list \<Rightarrow> Ros2Collector \<Rightarrow> EndpointInfo \<Rightarrow> CollectorSample result" where
  "ros2_sample w observedAt sampledAt g hzUrls echoArgs s ep =
     (let route = routeFromUrl (endpointRuntimeUrl ep);
          label = (if startsWith (ep_url ep) ''cyclonedds://'' \<and> nullish (ep_runtimeUrl ep) [] \<noteq> [] then ''CycloneDDS RMW'' else ''ROS2'');
          kind = nullish (ro_types s route) [];
          sample = (empty_sample (ep_url ep) ''ros2'' observedAt)\<lparr>cs_active := Some True,
            cs_status := Some (label @ (if is_topic g ep then '' topic discovered'' else '' service discovered'')),
            cs_preview := Some (if kind \<noteq> [] then route @ '' ['' @ kind @ '']'' else route)\<rparr>
      in if is_topic g ep \<and> ep_url ep \<in> set hzUrls
         then rbind (resolveRuntime w s) (\<lambda>runtime.
           let hz = sampleTopicHz (rw_run w runtime [''topic'', ''hz'', route]);
               bandwidth = sampleTopicBandwidth (rw_run w runtime [''topic'', ''bw'', route]);
               latency = sampleTopicEnvelopeLatency (rw_run w runtime ([''topic'', ''echo''] @ echoArgs @ [route]))
           in Inr (add_latency label sampledAt bandwidth latency
                (add_bandwidth label sampledAt hz bandwidth (add_hz label sampledAt hz sample))))
         else Inr sample)"

text \<open>The options of \<open>ros2 topic echo\<close> for a number of seconds.\<close>

definition echo_args :: "int \<Rightarrow> string list" where
  "echo_args seconds = [''--once'', ''--timeout'', int_str (max 4 (seconds + 3)), ''--include-message-info'', ''--field'', ''created_at_unix_ms'']"

definition live_endpoints :: "ros2_graph \<Rightarrow> EndpointInfo list \<Rightarrow> EndpointInfo list" where
  "live_endpoints g endpoints =
     filter (\<lambda>ep. endpointRuntimeUrl ep \<in> ros2RouteUrl ` set (gr_topics g @ gr_services g))
       (filter (\<lambda>ep. startsWith (endpointRuntimeUrl ep) ''ros2://'') endpoints)"

definition collect_ros2 ::
  "ros2_world \<Rightarrow> int \<Rightarrow> int \<Rightarrow> int \<Rightarrow> int \<Rightarrow> EndpointInfo list \<Rightarrow> Ros2Collector \<Rightarrow> Ros2Collector \<times> CollectorSnapshot result" where
  "collect_ros2 w sampleSeconds startedAt observedAt sampledAt endpoints s =
     (if filter (\<lambda>ep. startsWith (endpointRuntimeUrl ep) ''ros2://'') endpoints = []
      then (s, Inr (snapshot_of ''ros2'' True ''no ROS2 routes discovered'' startedAt []))
      else case getGraph w startedAt observedAt s of
        (s1, Inl e) \<Rightarrow> (s1, Inr (snapshot_of ''ros2'' False
            (''ros2 CLI unavailable or daemon not running: '' @ errorMessage e) startedAt []))
      | (s1, Inr g) \<Rightarrow>
          let live = live_endpoints g endpoints;
              hzBudget = sample_budget maxSamplesPerTick (ro_cursor s1) (filter (is_topic g) live);
              s2 = s1\<lparr>ro_cursor := (if live = [] then 0 else (ro_cursor s1 + maxSamplesPerTick) mod length live)\<rparr>
          in (s2, rbind (rmap (ros2_sample w observedAt sampledAt g (map ep_url hzBudget) (echo_args (max 1 sampleSeconds)) s2) live)
               (\<lambda>samples. Inr (snapshot_of ''ros2'' True (nat_str (length (gr_topics g)) @ '' topics, ''
                  @ nat_str (length (gr_services g)) @ '' services, '' @ nat_str (length samples) @ '' route matches'')
                  startedAt samples))))"

end
