(* ===== verification/Collectors_Props.thy ===== *)
theory Collectors_Props
  imports Collectors
begin

text \<open>
  What the collectors guarantee: arguments that a shell reads back as they were, domain ids in range,
  turns that reach every route, the series that fits best, and rates of counters.
\<close>

subsection \<open>Quoting\<close>

text \<open>
  How a POSIX shell splits a line of literal words: white space separates words, single quotes keep
  everything up to the next single quote, a backslash keeps the next character. A line with any
  other character that means something to the shell has no value here.
\<close>

definition shell_special :: "char \<Rightarrow> bool" where
  "shell_special c \<longleftrightarrow> \<not> (is_alpha c \<or> is_digit c \<or> c \<in> set ''_-./:=@%+,'')"

definition word_char :: "char \<Rightarrow> string option \<Rightarrow> string option" where
  "word_char c w = Some (nullish w [] @ [c])"

fun shell_words :: "bool \<Rightarrow> string option \<Rightarrow> string \<Rightarrow> string list option" where
  "shell_words quoted' w [] = (if quoted' then None else Some (case w of None \<Rightarrow> [] | Some x \<Rightarrow> [x]))"
| "shell_words True w (c # r) =
     (if c = SQ then shell_words False w r else shell_words True (word_char c w) r)"
| "shell_words False w (c # r) =
     (if c = SP then (case w of None \<Rightarrow> shell_words False None r
        | Some x \<Rightarrow> map_option (\<lambda>ws. x # ws) (shell_words False None r))
      else if c = SQ then shell_words True (Some (nullish w [])) r
      else if c = CHR 0x5C then (case r of [] \<Rightarrow> None | d # r' \<Rightarrow> shell_words False (word_char d w) r')
      else if shell_special c then None
      else shell_words False (word_char c w) r)"

lemma shell_words_quoted:
  "shell_words True (Some w) (concat (map (\<lambda>c. if c = SQ then [SQ, CHR 0x5C, SQ, SQ] else [c]) v) @ SQ # r)
    = shell_words False (Some (w @ v)) r"
  by (induction v arbitrary: w) (simp_all add: word_char_def nullish_def)

lemma shell_words_single: "shell_words False None (shellSingleQuote v @ r) = shell_words False (Some v) r"
  using shell_words_quoted [of "[]" v r] by (simp add: shellSingleQuote_def nullish_def)

text \<open>C32. Quoting for the shell is exact: whatever the arguments hold, quotes, white space, dollar signs or
  nothing at all, a shell splits the quoted line into exactly these arguments.\<close>

theorem shell_quote_exact: "shell_words False None (shellQuote args) = Some args"
proof (induction args)
  case (Cons a args)
  show ?case
  proof (cases "args = []")
    case True
    then show ?thesis using shell_words_single [of a "[]"] by (simp add: shellQuote_def)
  next
    case False
    then show ?thesis using Cons.IH
      by (simp add: shellQuote_def join_Cons shell_words_single)
  qed
qed (simp add: shellQuote_def)

subsection \<open>Domain ids and distributions\<close>

definition domain_id_ok :: "string \<Rightarrow> bool" where
  "domain_id_ok s \<longleftrightarrow> (\<exists>n \<le> 232. s = nat_str n)"

definition distro_ok :: "string \<Rightarrow> bool" where
  "distro_ok s \<longleftrightarrow> s \<noteq> [] \<and> list_all is_container_char s \<and> hd s \<noteq> CHR ''-'' \<and> last s \<noteq> CHR ''-''"

lemma normalize_domain_ok: "normalizeDomainId v \<noteq> [] \<Longrightarrow> domain_id_ok (normalizeDomainId v)"
  by (auto simp: normalizeDomainId_def domain_id_ok_def Let_def not_less split: if_splits)

lemma replace_runs_all:
  assumes "\<And>c. \<not> p c \<Longrightarrow> q c" "q d"
  shows "list_all q (replace_runs p d s)"
  using assms by (induction p d s rule: replace_runs.induct) auto

lemma strip_char_all: "list_all q s \<Longrightarrow> list_all q (strip_char d s)"
  unfolding strip_char_def list_all_iff by (metis set_dropWhileD set_rev)

lemma strip_char_ends:
  assumes "strip_char d s \<noteq> []"
  shows "hd (strip_char d s) \<noteq> d \<and> last (strip_char d s) \<noteq> d"
proof
  define t where "t = dropWhile (\<lambda>c. c = d) s"
  have s: "strip_char d s = rev (dropWhile (\<lambda>c. c = d) (rev t))" by (simp add: strip_char_def t_def)
  have ne: "dropWhile (\<lambda>c. c = d) (rev t) \<noteq> []" using assms s by auto
  then show "last (strip_char d s) \<noteq> d" unfolding s last_rev by (metis (full_types) hd_dropWhile dropWhile_eq_Nil_conv)
  have "t \<noteq> []" using ne by auto
  then have "hd t \<noteq> d" unfolding t_def by (metis (full_types) hd_dropWhile)
  moreover have "\<exists>z. t = strip_char d s @ z"
    unfolding s by (metis rev_append rev_rev_ident takeWhile_dropWhile_id)
  ultimately show "hd (strip_char d s) \<noteq> d" using assms by fastforce
qed

lemma distro_normal: "distro_ok (normalizeRosDistro v)"
proof -
  have "distro_ok (sanitizeContainerNamePart s)" for s
  proof (cases "strip_char (CHR ''-'') (replace_runs (\<lambda>c. \<not> is_container_char c) (CHR ''-'') s) = []")
    case True
    then show ?thesis by (simp add: sanitizeContainerNamePart_def or_else_def) code_simp
  next
    case False
    have "list_all is_container_char (replace_runs (\<lambda>c. \<not> is_container_char c) (CHR ''-'') s)"
      by (rule replace_runs_all) (simp_all add: is_container_char_def)
    from strip_char_all [OF this] strip_char_ends [OF False] False show ?thesis
      by (simp add: sanitizeContainerNamePart_def or_else_def distro_ok_def)
  qed
  then show ?thesis by (simp add: normalizeRosDistro_def)
qed

interpretation contexts: keyed_merge context_key context_key id "\<lambda>x e. e"
  by unfold_locales simp_all

definition contexts_ok :: "RosRuntimeContext list \<Rightarrow> bool" where
  "contexts_ok cs \<longleftrightarrow> cs \<noteq> [] \<and> length cs \<le> 16 \<and> distinct (map context_key cs)
     \<and> (\<forall>c \<in> set cs. domain_id_ok (rc_domainId c) \<and> distro_ok (rc_rosDistro c))"

lemma dedupe_ok:
  assumes "dedupeRosRuntimeContexts cs \<noteq> []"
  shows "contexts_ok (dedupeRosRuntimeContexts cs)"
proof -
  define xs where "xs = filter (\<lambda>c. rc_domainId c \<noteq> []) (map normalized_context cs)"
  have "domain_id_ok (rc_domainId x) \<and> distro_ok (rc_rosDistro x)" if "x \<in> set xs" for x
    using that normalize_domain_ok distro_normal by (auto simp: xs_def normalized_context_def)
  then have "domain_id_ok (rc_domainId c) \<and> distro_ok (rc_rosDistro c)"
    if "c \<in> set (dedupeRosRuntimeContexts cs)" for c
    using contexts.merged_all [of c xs "\<lambda>c. domain_id_ok (rc_domainId c) \<and> distro_ok (rc_rosDistro c)"] that
    by (auto simp: dedupeRosRuntimeContexts_def xs_def [symmetric] dest: in_set_takeD)
  moreover have "distinct (map context_key (dedupeRosRuntimeContexts cs))"
    unfolding dedupeRosRuntimeContexts_def take_map [symmetric]
    by (rule distinct_take) (rule contexts.distinct_merged)
  ultimately show ?thesis using assms by (simp add: contexts_ok_def) (simp add: dedupeRosRuntimeContexts_def)
qed

text \<open>C33. The collectors always have somewhere to look: the contexts they use, found now or cached, are
  never none and never more than sixteen, no two have the same domain and distribution, every
  domain id is a number from 0 to 232 and every distribution can stand in the name of a container,
  whatever the environment, the containers and the processes of the machine say.\<close>

theorem ros_contexts_ok:
  assumes "\<And>cached t. cache = Some (cached, t) \<Longrightarrow> contexts_ok cached"
  shows "contexts_ok (fst (discoverRosRuntimeContexts h now cache))
    \<and> (\<forall>cached t. snd (discoverRosRuntimeContexts h now cache) = Some (cached, t) \<longrightarrow> contexts_ok cached)"
proof -
  have "domain_id_ok ''0''" unfolding domain_id_ok_def by (intro exI [of _ 0]) code_simp
  then have "contexts_ok [defaultRosRuntimeContext env]" for env
    using distro_normal by (simp add: contexts_ok_def defaultRosRuntimeContext_def)
  with dedupe_ok assms show ?thesis
    by (auto simp: discoverRosRuntimeContexts_def Let_def split: option.split)
qed

definition demo_machine :: ros_machine where
  "demo_machine = \<lparr>rm_env = [''ROS_DOMAIN_IDS'' \<mapsto> ''7, 3-4 900''], rm_docker_ps = Inl ''no docker'', rm_inspect = (\<lambda>i. Inl []),
     rm_json_strings = (\<lambda>s. []), rm_proc = []\<rparr>"

definition demo_context :: RosRuntimeContext where
  "demo_context = \<lparr>rc_domainId = ''0'', rc_rosDistro = ''humble'', rc_source = ''default''\<rparr>"

lemma demo_context_ok: "contexts_ok [demo_context]"
proof -
  have "domain_id_ok ''0''" unfolding domain_id_ok_def by (intro exI [of _ 0]) code_simp
  moreover have "distro_ok ''humble''" by code_simp
  ultimately show ?thesis by (simp add: contexts_ok_def demo_context_def)
qed

theorem ros_contexts_ok_witness:
  "contexts_ok (fst (discoverRosRuntimeContexts demo_machine 90000 (Some ([demo_context], 1000))))
   \<and> map rc_domainId (fst (discoverRosRuntimeContexts demo_machine 90000 None)) = [''7'', ''3'', ''4'']"
proof -
  have "contexts_ok cached" if "Some ([demo_context], 1000) = Some (cached, t)" for cached t
    using that demo_context_ok by simp
  from ros_contexts_ok [OF this, THEN conjunct1]
  have "contexts_ok (fst (discoverRosRuntimeContexts demo_machine 90000 (Some ([demo_context], 1000))))" .
  moreover have "map rc_domainId (fst (discoverRosRuntimeContexts demo_machine 90000 None)) = [''7'', ''3'', ''4'']" by code_simp
  ultimately show ?thesis ..
qed

subsection \<open>Taking turns\<close>

lemma sample_budget_one: "cs \<noteq> [] \<Longrightarrow> sample_budget maxSamplesPerTick c cs = [if c < length cs then cs ! c else hd cs]"
  by (auto simp: sample_budget_def maxSamplesPerTick_def Let_def take_Suc hd_drop_conv_nth hd_conv_nth)

lemma turn_reached: "c < n \<Longrightarrow> i < n \<Longrightarrow> \<exists>k<n. (c + k) mod n = i" for c n i :: nat
proof (cases "c \<le> i")
  case False
  assume "c < n" "i < n"
  with False show ?thesis by (intro exI [of _ "i + n - c"]) auto
qed (auto intro!: exI [of _ "i - c"])

text \<open>A number of collections, one after the other: what each is given and the snapshots it makes.\<close>

type_synonym dds_input = "(string \<times> (string \<Rightarrow> NativeCycloneDdsSample result)) result \<times> int \<times> int"

fun dds_collections :: "(nat \<Rightarrow> dds_input) \<Rightarrow> EndpointInfo list \<Rightarrow> nat \<Rightarrow> nat \<Rightarrow> nat \<times> CollectorSnapshot list" where
  "dds_collections inputs endpoints c 0 = (c, [])"
| "dds_collections inputs endpoints c (Suc k) =
     (let (c', snapshots) = dds_collections inputs endpoints c k; (sampler, startedAt, sampledAt) = inputs k;
          (c'', snapshot) = collect_cyclonedds sampler startedAt sampledAt endpoints c'
      in (c'', snapshots @ [snapshot]))"

definition dds_routes :: "EndpointInfo list \<Rightarrow> EndpointInfo list" where
  "dds_routes endpoints = filter (\<lambda>ep. startsWith (ep_url ep) ''cyclonedds://'') endpoints"

lemma dds_collection_turn:
  assumes "dds_routes endpoints \<noteq> []" "c < length (dds_routes endpoints)"
  shows "fst (collect_cyclonedds sampler t0 t1 endpoints c) = (c + 1) mod length (dds_routes endpoints)"
    and "sampler = Inr (label, f) \<Longrightarrow> f (routeFromUrl (ep_url (dds_routes endpoints ! c))) = Inr r \<Longrightarrow>
      sp_samples (snd (collect_cyclonedds sampler t0 t1 endpoints c)) = [dds_sample t1 label (dds_routes endpoints ! c) r]"
  using assms by (simp_all add: collect_cyclonedds_def dds_routes_def [symmetric] Let_def sample_budget_one)
    (simp_all add: maxSamplesPerTick_def snapshot_of_def)

lemma dds_collections_cursor:
  assumes "dds_routes endpoints \<noteq> []" "c < length (dds_routes endpoints)"
  shows "fst (dds_collections inputs endpoints c k) = (c + k) mod length (dds_routes endpoints)"
proof (induction k)
  case (Suc k)
  have "(c + k) mod length (dds_routes endpoints) < length (dds_routes endpoints)" using assms(1) by simp
  from dds_collection_turn(1) [OF assms(1) this] Suc show ?case
    by (auto simp: Let_def mod_Suc_eq split: prod.split) (metis fst_conv)
qed (use assms in simp)

lemma dds_collections_later:
  "k < n \<Longrightarrow> snd (collect_cyclonedds (fst (inputs k)) (fst (snd (inputs k))) (snd (snd (inputs k))) endpoints
      (fst (dds_collections inputs endpoints c k))) \<in> set (snd (dds_collections inputs endpoints c n))"
proof (induction n)
  case (Suc n)
  then show ?case by (cases "k = n") (auto simp: Let_def split: prod.split)
qed simp

text \<open>C34. Every native route gets its turn: within as many collections as there are CycloneDDS routes, each
  of them is sampled, wherever the cursor stood (as long as the sampler answers).\<close>

theorem dds_routes_take_turns:
  assumes "ep \<in> set (dds_routes endpoints)" "c < length (dds_routes endpoints)"
    and "\<And>k. k < length (dds_routes endpoints) \<Longrightarrow> \<exists>label f. fst (inputs k) = Inr (label, f) \<and> (\<forall>route. \<exists>r. f route = Inr r)"
  shows "\<exists>snapshot \<in> set (snd (dds_collections inputs endpoints c (length (dds_routes endpoints)))).
    \<exists>sample \<in> set (sp_samples snapshot). cs_url sample = ep_url ep"
proof -
  define n where "n = length (dds_routes endpoints)"
  obtain i where i: "i < n" "dds_routes endpoints ! i = ep" using assms(1) unfolding n_def by (metis in_set_conv_nth)
  then obtain k where k: "k < n" "(c + k) mod n = i" using turn_reached assms(2) n_def by blast
  have ne: "dds_routes endpoints \<noteq> []" using assms(1) by auto
  have cursor: "fst (dds_collections inputs endpoints c k) = i"
    using dds_collections_cursor [OF ne assms(2)] k(2) n_def by simp
  obtain label f where f: "fst (inputs k) = Inr (label, f)" "\<forall>route. \<exists>r. f route = Inr r"
    using assms(3) k(1) n_def by blast
  obtain r where r: "f (routeFromUrl (ep_url (dds_routes endpoints ! i))) = Inr r" using f(2) by blast
  define snapshot where "snapshot = snd (collect_cyclonedds (fst (inputs k)) (fst (snd (inputs k))) (snd (snd (inputs k))) endpoints i)"
  from dds_collection_turn(2) [OF ne i(1) [unfolded n_def] f(1) r, of "fst (snd (inputs k))" "snd (snd (inputs k))"]
  have "sp_samples snapshot = [dds_sample (snd (snd (inputs k))) label ep r]" unfolding snapshot_def i(2) .
  moreover have "snapshot \<in> set (snd (dds_collections inputs endpoints c n))"
    using dds_collections_later [OF k(1), of inputs endpoints c] unfolding cursor snapshot_def .
  moreover have "cs_url (dds_sample t label ep r) = ep_url ep" for t
    by (simp add: dds_sample_def Let_def empty_sample_def)
  ultimately show ?thesis unfolding n_def [symmetric] by (metis list.set_intros(1))
qed

definition demo_dds :: "string \<Rightarrow> EndpointInfo" where
  "demo_dds url = \<lparr>ep_type = publisher_bit, ep_url = url, ep_runtimeUrl = None, ep_serType = ''Pose'',
     ep_schemaType = Schema_Proto, ep_processList = [], ep_sources = [], ep_routeNames = []\<rparr>"

definition demo_dds_sample :: NativeCycloneDdsSample where
  "demo_dds_sample = \<lparr>nc_topic = ''a'', nc_domain_id = 0, nc_count = 2, nc_bytes = 64, nc_elapsed_sec = 1, nc_freq = 2,
     nc_rate = 64, nc_latency_ms = None\<rparr>"

theorem dds_routes_take_turns_witness:
  "\<exists>snapshot \<in> set (snd (dds_collections (\<lambda>k. (Inr (''host'', \<lambda>route. Inr demo_dds_sample), 0, 0))
      [demo_dds ''cyclonedds://a'', demo_dds ''ros2://b'', demo_dds ''cyclonedds://c''] 1 2)).
    \<exists>sample \<in> set (sp_samples snapshot). cs_url sample = ''cyclonedds://a''"
proof -
  have routes: "dds_routes [demo_dds ''cyclonedds://a'', demo_dds ''ros2://b'', demo_dds ''cyclonedds://c'']
      = [demo_dds ''cyclonedds://a'', demo_dds ''cyclonedds://c'']" by (simp add: dds_routes_def demo_dds_def)
  have "ep_url (demo_dds ''cyclonedds://a'') = ''cyclonedds://a''" by (simp add: demo_dds_def)
  with dds_routes_take_turns [of "demo_dds ''cyclonedds://a''" "[demo_dds ''cyclonedds://a'', demo_dds ''ros2://b'', demo_dds ''cyclonedds://c'']"
      1 "\<lambda>k. (Inr (''host'', \<lambda>route. Inr demo_dds_sample), 0, 0)"]
  show ?thesis unfolding routes by (simp add: numeral_2_eq_2 del: dds_collections.simps)
qed

text \<open>The ROS 2 collector turns its cursor over all live routes but picks among the topics only: with services
  alive, the first topic is sampled in every surplus turn as well.\<close>

lemma first_topic_turns:
  assumes "distinct cs" "cs \<noteq> []" "length cs \<le> n"
  shows "card {k. k < n \<and> sample_budget maxSamplesPerTick k cs = [hd cs]} = n - length cs + 1"
proof -
  have "{k. k < n \<and> sample_budget maxSamplesPerTick k cs = [hd cs]} = insert 0 {length cs..<n}"
    using assms by (auto simp: sample_budget_one hd_conv_nth nth_eq_iff_index_eq split: if_splits)
  then show ?thesis using assms by simp
qed

subsection \<open>The best series\<close>

lemma better_series_fold:
  fixes ep series
  defines "score \<equiv> \<lambda>s. scoreSeries ep (ps_metric s)"
  defines "best \<equiv> fold (better_series ep) series (None, 0)"
  shows "(\<forall>s \<in> set series. score s \<le> snd best)
    \<and> (best = (None, 0) \<or> (\<exists>before s after. series = before @ s # after \<and> best = (Some s, score s) \<and> 0 < score s
        \<and> (\<forall>t \<in> set before. score t < score s)))"
  unfolding best_def
proof (induction series rule: rev_induct)
  case (snoc x xs)
  show ?case
  proof (cases "score x > snd (fold (better_series ep) xs (None, 0))")
    case True
    then have "fold (better_series ep) (xs @ [x]) (None, 0) = (Some x, score x)"
      by (simp add: better_series_def score_def)
    moreover have "\<forall>t \<in> set xs. score t < score x" using True snoc.IH by (meson le_less_trans)
    moreover have "0 < score x" using True snoc.IH by auto
    ultimately show ?thesis by (intro conjI disjI2 exI [of _ xs] exI [of _ x] exI [of _ "[]"]) auto
  next
    case False
    then have same: "fold (better_series ep) (xs @ [x]) (None, 0) = fold (better_series ep) xs (None, 0)"
      by (simp add: better_series_def score_def Let_def)
    have upper: "\<forall>s \<in> set (xs @ [x]). score s \<le> snd (fold (better_series ep) xs (None, 0))"
      using False snoc.IH by simp
    from snoc.IH [THEN conjunct2] show ?thesis
    proof
      assume "fold (better_series ep) xs (None, 0) = (None, 0)"
      with upper same show ?thesis by simp
    next
      assume "\<exists>before s after. xs = before @ s # after \<and> fold (better_series ep) xs (None, 0) = (Some s, score s)
        \<and> 0 < score s \<and> (\<forall>t \<in> set before. score t < score s)"
      then obtain before s after where s: "xs = before @ s # after" "fold (better_series ep) xs (None, 0) = (Some s, score s)"
        "0 < score s" "\<forall>t \<in> set before. score t < score s" by blast
      have "xs @ [x] = before @ s # (after @ [x])" using s(1) by simp
      with s(2-4) upper show ?thesis unfolding same by blast
    qed
  qed
qed simp

lemma specific_score: "route_labels metric \<noteq> [] \<Longrightarrow> 0 < scoreSeries ep metric \<Longrightarrow>
    \<exists>v \<in> set (route_labels metric). normalizeRoutePath v = endpoint_route ep"
  by (auto simp: scoreSeries_def scoreSpecificSeries_def list_ex_iff split: if_splits)

text \<open>C36. The series of an endpoint is the first of those with the highest score, and there is none exactly
  when no series scores at all. A series that names a route is never taken for another: one of the
  routes it names is the endpoint's.\<close>

theorem best_series:
  "(bestSeriesForEndpoint ep series = None \<longleftrightarrow> (\<forall>s \<in> set series. scoreSeries ep (ps_metric s) \<le> 0))
    \<and> (\<forall>s. bestSeriesForEndpoint ep series = Some s \<longrightarrow>
        (\<exists>before after. series = before @ s # after
          \<and> (\<forall>t \<in> set before. scoreSeries ep (ps_metric t) < scoreSeries ep (ps_metric s))
          \<and> (\<forall>t \<in> set after. scoreSeries ep (ps_metric t) \<le> scoreSeries ep (ps_metric s)))
        \<and> (route_labels (ps_metric s) \<noteq> [] \<longrightarrow>
            (\<exists>v \<in> set (route_labels (ps_metric s)). normalizeRoutePath v = endpoint_route ep)))"
proof -
  note inv = better_series_fold [of series ep]
  show ?thesis
  proof (cases "fold (better_series ep) series (None, 0) = (None, 0)")
    case True
    then show ?thesis using inv by (simp add: bestSeriesForEndpoint_def)
  next
    case False
    with inv obtain before s after where s: "series = before @ s # after"
      "fold (better_series ep) series (None, 0) = (Some s, scoreSeries ep (ps_metric s))"
      "0 < scoreSeries ep (ps_metric s)" "\<forall>t \<in> set before. scoreSeries ep (ps_metric t) < scoreSeries ep (ps_metric s)"
      by auto
    then have best: "bestSeriesForEndpoint ep series = Some s" by (simp add: bestSeriesForEndpoint_def)
    have upper: "\<forall>t \<in> set series. scoreSeries ep (ps_metric t) \<le> scoreSeries ep (ps_metric s)"
      using inv s(2) by simp
    have "\<exists>t \<in> set series. \<not> scoreSeries ep (ps_metric t) \<le> 0" using s(1,3) by force
    then show ?thesis using best s(1,4) upper specific_score [OF _ s(3)] by auto
  qed
qed

theorem best_series_witness:
  "\<exists>before after. [\<lparr>ps_metric = [(''topic'', ''/b'')], ps_value = 9\<rparr>, \<lparr>ps_metric = [(''topic'', ''/a'')], ps_value = 5\<rparr>]
      = before @ \<lparr>ps_metric = [(''topic'', ''/a'')], ps_value = 5\<rparr> # after"
proof -
  have "bestSeriesForEndpoint (demo_dds ''ros2://a'')
      [\<lparr>ps_metric = [(''topic'', ''/b'')], ps_value = 9\<rparr>, \<lparr>ps_metric = [(''topic'', ''/a'')], ps_value = 5\<rparr>]
    = Some \<lparr>ps_metric = [(''topic'', ''/a'')], ps_value = 5\<rparr>" by code_simp
  with best_series [THEN conjunct2, THEN spec, THEN mp, OF this] show ?thesis by blast
qed

subsection \<open>Counters\<close>

lemma prometheus_endpoint_counts:
  "fst (prometheus_endpoint t cs ls ep (counts, samples)) u
    = (if u = ep_url ep \<and> bestSeriesForEndpoint ep cs \<noteq> None
       then Some (ps_value (the (bestSeriesForEndpoint ep cs)), t) else counts u)"
  by (auto simp: prometheus_endpoint_def Let_def split: option.split)

lemma prometheus_counts:
  "distinct (map ep_url eps) \<Longrightarrow> ep \<in> set eps \<Longrightarrow> bestSeriesForEndpoint ep cs = Some s \<Longrightarrow>
    fst (fold (prometheus_endpoint t cs ls) eps (counts, samples)) (ep_url ep) = Some (ps_value s, t)"
proof (induction eps arbitrary: counts samples)
  case (Cons e eps)
  obtain counts1 samples1 where step: "prometheus_endpoint t cs ls e (counts, samples) = (counts1, samples1)" by fastforce
  have others: "u \<notin> ep_url ` set xs \<Longrightarrow> fst (fold (prometheus_endpoint t cs ls) xs (c, ss)) u = c u" for u xs c ss
  proof (induction xs arbitrary: c ss)
    case (Cons x xs)
    obtain c1 ss1 where "prometheus_endpoint t cs ls x (c, ss) = (c1, ss1)" by fastforce
    with Cons prometheus_endpoint_counts [of t cs ls x c ss u] show ?case by simp
  qed simp
  show ?case
  proof (cases "ep = e")
    case True
    with Cons.prems have "ep_url ep \<notin> ep_url ` set eps" by simp
    with True step Cons.prems(3) prometheus_endpoint_counts [of t cs ls e counts samples "ep_url ep"] others show ?thesis by simp
  next
    case False
    with Cons step show ?thesis by simp
  qed
qed simp

lemma prometheus_sample:
  assumes "distinct (map ep_url eps)" "ep \<in> set eps" "bestSeriesForEndpoint ep cs = Some s"
    and "counts (ep_url ep) = Some (before, t0)"
  shows "\<exists>x \<in> set (snd (fold (prometheus_endpoint t cs ls) eps (counts, samples))). cs_url x = ep_url ep
    \<and> cs_countDelta x = Some (max 0 (ps_value s - before))
    \<and> cs_freq x = Some (max 0 (ps_value s - before) / max (1 / 1000) (of_int (t - t0) / 1000))"
  using assms
proof (induction eps arbitrary: counts samples)
  case (Cons e eps)
  obtain counts1 samples1 where step: "prometheus_endpoint t cs ls e (counts, samples) = (counts1, samples1)" by fastforce
  have keep: "x \<in> set ss \<Longrightarrow> x \<in> set (snd (fold (prometheus_endpoint t cs ls) xs (c, ss)))" for x xs c ss
  proof (induction xs arbitrary: c ss)
    case (Cons y ys)
    have "set ss \<subseteq> set (snd (prometheus_endpoint t cs ls y (c, ss)))" by (auto simp: prometheus_endpoint_def Let_def)
    with Cons show ?case by (cases "prometheus_endpoint t cs ls y (c, ss)") auto
  qed simp
  show ?case
  proof (cases "ep = e")
    case True
    have "\<exists>x \<in> set samples1. cs_url x = ep_url ep \<and> cs_countDelta x = Some (max 0 (ps_value s - before))
        \<and> cs_freq x = Some (max 0 (ps_value s - before) / max (1 / 1000) (of_int (t - t0) / 1000))"
      using step Cons.prems(3,4) True
      by (auto simp: prometheus_endpoint_def Let_def count_sample_def empty_sample_def split: option.splits)
    with keep step show ?thesis by fastforce
  next
    case False
    with Cons.prems(1,2) have "ep_url ep \<noteq> ep_url e" by (auto simp: image_iff)
    then have "counts1 (ep_url ep) = Some (before, t0)"
      using prometheus_endpoint_counts [of t cs ls e counts samples "ep_url ep"] step Cons.prems(4) by simp
    with Cons False step show ?thesis by simp
  qed
qed simp

text \<open>C35. The rate that Prometheus gives an endpoint is the growth of its counter between two collections
  over the time between them, in messages per second, and nothing when the counter went back (the
  process was restarted).\<close>

theorem prometheus_rate:
  assumes "distinct (map ep_url endpoints)" "ep \<in> set endpoints" "prometheus_url endpoint \<noteq> []"
    and "querySeries c1 = Inr series1" "querySeries l1 = Inr latency1" "bestSeriesForEndpoint ep series1 = Some s1"
    and "querySeries c2 = Inr series2" "querySeries l2 = Inr latency2" "bestSeriesForEndpoint ep series2 = Some s2"
    and "(counts1, snapshot1) = collect_prometheus endpoint t1 c1 l1 endpoints counts"
    and "(counts2, snapshot2) = collect_prometheus endpoint t2 c2 l2 endpoints counts1"
    and "t1 < t2"
  shows "\<exists>x \<in> set (sp_samples snapshot2). cs_url x = ep_url ep
    \<and> cs_countDelta x = Some (max 0 (ps_value s2 - ps_value s1))
    \<and> cs_freq x = Some (max 0 (ps_value s2 - ps_value s1) * 1000 / of_int (t2 - t1))"
proof -
  have "fst (collect_prometheus endpoint t1 c1 l1 endpoints counts) (ep_url ep) = Some (ps_value s1, t1)"
    using prometheus_counts [OF assms(1,2,6), of t1 latency1 counts "[]"]
    by (cases "fold (prometheus_endpoint t1 series1 latency1) endpoints (counts, [])")
      (simp add: collect_prometheus_def Let_def assms(3-5))
  then have "counts1 (ep_url ep) = Some (ps_value s1, t1)" using assms(10) by (metis fst_conv)
  from prometheus_sample [where counts = counts1, OF assms(1,2,9) this, of t2 latency2 "[]"] obtain x where
    x: "x \<in> set (snd (fold (prometheus_endpoint t2 series2 latency2) endpoints (counts1, [])))" "cs_url x = ep_url ep"
      "cs_countDelta x = Some (max 0 (ps_value s2 - ps_value s1))"
      "cs_freq x = Some (max 0 (ps_value s2 - ps_value s1) / max (1 / 1000) (of_int (t2 - t1) / 1000))" by blast
  have "max (1 / 1000) (of_int (t2 - t1) / 1000) = (of_int (t2 - t1) / 1000 :: rat)"
    using assms(12) by (intro max_absorb2) (simp add: divide_right_mono del: of_int_diff)
  moreover have "sp_samples snapshot2 = snd (fold (prometheus_endpoint t2 series2 latency2) endpoints (counts1, []))"
    using assms(3,7,8,11) by (auto simp: collect_prometheus_def Let_def snapshot_of_def split: prod.splits)
  ultimately show ?thesis using x by (metis divide_divide_eq_right)
qed

definition demo_response :: "string \<Rightarrow> PrometheusResponse" where
  "demo_response v = \<lparr>pr_status = ''success'', pr_error = [], pr_result = [([(''topic'', ''/a'')], Some v), ([(''topic'', ''/b'')], Some ''9'')]\<rparr>"

theorem prometheus_rate_witness:
  "\<exists>x \<in> set (sp_samples (snd (collect_prometheus ''http://p/'' 5000 (Inr (demo_response ''15'')) (Inr (demo_response ''15'')) [demo_dds ''ros2://a'']
      (fst (collect_prometheus ''http://p/'' 3000 (Inr (demo_response ''10'')) (Inr (demo_response ''10'')) [demo_dds ''ros2://a''] Map.empty))))).
    cs_freq x = Some (5 * 1000 / 2000)"
proof -
  let ?s = "\<lambda>v. \<lparr>ps_metric = [(''topic'', ''/a'')], ps_value = v\<rparr>" and ?e = "demo_dds ''ros2://a''"
  have "prometheus_url ''http://p/'' \<noteq> []"
    "querySeries (Inr (demo_response ''10'')) = Inr [?s 10, \<lparr>ps_metric = [(''topic'', ''/b'')], ps_value = 9\<rparr>]"
    "querySeries (Inr (demo_response ''15'')) = Inr [?s 15, \<lparr>ps_metric = [(''topic'', ''/b'')], ps_value = 9\<rparr>]"
    "bestSeriesForEndpoint ?e [?s 10, \<lparr>ps_metric = [(''topic'', ''/b'')], ps_value = 9\<rparr>] = Some (?s 10)"
    "bestSeriesForEndpoint ?e [?s 15, \<lparr>ps_metric = [(''topic'', ''/b'')], ps_value = 9\<rparr>] = Some (?s 15)"
    by code_simp+
  note ok = this
  have "distinct (map ep_url [?e])" "?e \<in> set [?e]" by simp_all
  note ends = this
  obtain counts1 snapshot1 where one: "(counts1, snapshot1) = collect_prometheus ''http://p/'' 3000 (Inr (demo_response ''10''))
      (Inr (demo_response ''10'')) [?e] Map.empty" by (metis surj_pair)
  obtain counts2 snapshot2 where two: "(counts2, snapshot2) = collect_prometheus ''http://p/'' 5000 (Inr (demo_response ''15''))
      (Inr (demo_response ''15'')) [?e] counts1" by (metis surj_pair)
  from prometheus_rate [OF ends ok(1) ok(2) ok(2) ok(4) ok(3) ok(3) ok(5) one two] obtain x where
    "x \<in> set (sp_samples snapshot2)" "cs_freq x = Some (5 * 1000 / 2000)" by auto
  then show ?thesis unfolding one [symmetric] fst_conv two [symmetric] snd_conv by blast
qed

subsection \<open>Samples and endpoints\<close>

lemma subseq_map_filter:
  "(\<And>x y. f x = Some y \<Longrightarrow> g y = h x) \<Longrightarrow> subseq (map g (List.map_filter f xs)) (map h xs)"
  by (induction xs) (auto simp: List.map_filter_def split: option.split)

lemma prometheus_urls:
  "\<exists>new. snd (fold (prometheus_endpoint t cs ls) eps (counts, samples)) = samples @ new \<and> subseq (map cs_url new) (map ep_url eps)"
proof (induction eps arbitrary: counts samples)
  case (Cons e eps)
  obtain counts1 samples1 where step: "prometheus_endpoint t cs ls e (counts, samples) = (counts1, samples1)" by fastforce
  then have "samples1 = samples \<or> (\<exists>x. samples1 = samples @ [x] \<and> cs_url x = ep_url e)"
    by (auto simp: prometheus_endpoint_def Let_def count_sample_def empty_sample_def split: option.splits if_splits)
  with Cons.IH [of counts1 samples1] step show ?case by auto
qed simp

lemma rmap_urls:
  "rmap f xs = Inr ys \<Longrightarrow> (\<And>x y. f x = Inr y \<Longrightarrow> g y = h x) \<Longrightarrow> map g ys = map h xs"
  by (induction xs arbitrary: ys) (auto simp: rbind_def split: sum.splits)

lemma ros2_sample_url: "ros2_sample w t1 t2 g urls echo s ep = Inr x \<Longrightarrow> cs_url x = ep_url ep"
  by (auto simp: ros2_sample_def Let_def rbind_def add_latency_def add_bandwidth_def add_hz_def empty_sample_def
      split: if_splits sum.splits prod.splits)

lemma dds_samples_urls:
  "subseq (map cs_url (fst (dds_samples sampler t label eps))) (map ep_url eps)"
  by (induction eps) (auto simp: dds_sample_def Let_def empty_sample_def split: sum.split prod.split)

lemma sample_budget_set: "set (sample_budget n c xs) \<subseteq> set xs"
  by (auto simp: sample_budget_def Let_def dest: in_set_takeD in_set_dropD)

lemma process_urls: "subseq (map cs_url (sp_samples (collect_processes hostname t ps endpoints))) (map ep_url endpoints)"
proof -
  have "cs_url y = ep_url ep" if "process_sample hostname t table ep = Some y" for y table ep
    using that by (auto simp: process_sample_def Let_def empty_sample_def split: if_splits)
  then show ?thesis
    by (cases ps) (simp_all add: collect_processes_def snapshot_of_def Let_def subseq_map_filter)
qed

lemma prometheus_snapshot_urls:
  "subseq (map cs_url (sp_samples (snd (collect_prometheus url t c l endpoints counts)))) (map ep_url endpoints)"
proof (cases "rbind (querySeries c) (\<lambda>c. rbind (querySeries l) (\<lambda>l. Inr (c, l)))")
  case (Inr b)
  obtain cs ls where b: "b = (cs, ls)" by fastforce
  obtain counts' new where "fold (prometheus_endpoint t cs ls) endpoints (counts, []) = (counts', new)" "subseq (map cs_url new) (map ep_url endpoints)"
    using prometheus_urls [of t cs ls endpoints counts "[]"] by (metis append_Nil surjective_pairing)
  with Inr b show ?thesis by (simp add: collect_prometheus_def Let_def snapshot_of_def)
qed (simp add: collect_prometheus_def Let_def snapshot_of_def)

lemma live_urls: "subseq (map ep_url (live_endpoints g endpoints)) (map ep_url endpoints)"
  unfolding live_endpoints_def filter_filter by (intro subseq_map subseq_filter_left)

definition sampled_urls :: "CollectorSnapshot result \<Rightarrow> string list" where
  "sampled_urls snapshot = (case snapshot of Inr x \<Rightarrow> map cs_url (sp_samples x) | Inl _ \<Rightarrow> [])"

lemma sampled_urls_simps [simp]:
  "sampled_urls (Inl e) = []" "sampled_urls (Inr (snapshot_of name ok message t samples)) = map cs_url samples"
  by (simp_all add: sampled_urls_def snapshot_of_def)

lemma ros2_urls: "subseq (sampled_urls (snd (collect_ros2 w seconds t t1 t2 endpoints s))) (map ep_url endpoints)"
proof (cases "getGraph w t t1 s")
  case (Pair s1 r)
  then show ?thesis
  proof (cases r)
    case (Inr g)
    have "subseq (sampled_urls (rbind (rmap (ros2_sample w t1 t2 g urls echo s2) (live_endpoints g endpoints))
        (\<lambda>samples. Inr (snapshot_of name ok (message samples) t samples)))) (map ep_url endpoints)" for urls echo s2 name ok message
      using live_urls by (cases "rmap (ros2_sample w t1 t2 g urls echo s2) (live_endpoints g endpoints)")
        (auto dest: rmap_urls [where g = cs_url and h = ep_url] simp: ros2_sample_url)
    with Pair Inr show ?thesis by (simp add: collect_ros2_def Let_def)
  qed (simp add: collect_ros2_def)
qed

lemma cyclonedds_urls:
  "cs_url ` set (sp_samples (snd (collect_cyclonedds sampler t t1 endpoints cursor))) \<subseteq> ep_url ` set (dds_routes endpoints)"
proof -
  have taken: "cs_url ` set (fst (dds_samples f t1 label (sample_budget n cursor rs))) \<subseteq> ep_url ` set rs" for f label n rs
  proof
    fix u
    assume "u \<in> cs_url ` set (fst (dds_samples f t1 label (sample_budget n cursor rs)))"
    then have "u \<in> set (map cs_url (fst (dds_samples f t1 label (sample_budget n cursor rs))))" by simp
    from list_emb_set [OF dds_samples_urls this] have "u \<in> set (map ep_url (sample_budget n cursor rs))" by blast
    then show "u \<in> ep_url ` set rs" using sample_budget_set [of n cursor rs] by auto
  qed
  show ?thesis
  proof (cases sampler)
    case (Inr p)
    obtain label f where p: "p = (label, f)" by fastforce
    obtain samples failure where d: "dds_samples f t1 label (sample_budget maxSamplesPerTick cursor (dds_routes endpoints)) = (samples, failure)"
      by fastforce
    from taken [of f label maxSamplesPerTick "dds_routes endpoints"] have "cs_url ` set samples \<subseteq> ep_url ` set (dds_routes endpoints)"
      unfolding d by simp
    then show ?thesis unfolding collect_cyclonedds_def dds_routes_def [symmetric] Let_def Inr p
      by (simp add: d snapshot_of_def split: option.split)
  qed (simp add: collect_cyclonedds_def Let_def snapshot_of_def)
qed

text \<open>What the collectors report is about the endpoints they were given: processes, Prometheus and ROS 2 give
  at most one sample for each, in the order of the endpoints, and the native sampler samples native
  routes among them.\<close>

theorem samples_of_endpoints:
  "subseq (map cs_url (sp_samples (collect_processes hostname t ps endpoints))) (map ep_url endpoints)
   \<and> subseq (map cs_url (sp_samples (snd (collect_prometheus url t c l endpoints counts)))) (map ep_url endpoints)
   \<and> subseq (sampled_urls (snd (collect_ros2 w seconds t t1 t2 endpoints s))) (map ep_url endpoints)
   \<and> cs_url ` set (sp_samples (snd (collect_cyclonedds sampler t t1 endpoints cursor))) \<subseteq> ep_url ` set (dds_routes endpoints)"
  by (intro conjI process_urls prometheus_snapshot_urls ros2_urls cyclonedds_urls)

end
