(* ===== verification/Monitor_Cli.thy ===== *)
theory Monitor_Cli
  imports Monitor_Invariant Collector_Runtime
begin

text \<open>
  The command line of the monitor (\<open>parseArgs\<close>, \<open>main\<close> and the listings in
  \<open>monitor/pr-monitor/src/index.ts\<close>): reading the options, the checks before a model is made,
  and the texts of \<open>--list-processes\<close>, \<open>--list-routes\<close> and \<open>--plain\<close>.

  The environment, the working directory and the text of \<open>deploy/local/platform.yaml\<close>, when there
  is one, are parameters.
\<close>

subsection \<open>Values\<close>

text \<open>\<open>Number.parseInt(value, 10)\<close>: \<^const>\<open>None\<close> is \<open>NaN\<close>.\<close>

definition parse_int :: "string \<Rightarrow> int option" where
  "parse_int v =
     (let (sgn', r) = sign_of (trimStart v); ds = takeWhile is_digit r
      in if ds = [] then None else Some (sgn' * int (digits_val ds)))"

definition parseNumber :: "string \<Rightarrow> string \<Rightarrow> int result" where
  "parseNumber v label =
     (case parse_int v of None \<Rightarrow> Inl (''Invalid '' @ label @ '': '' @ v) | Some n \<Rightarrow> Inr n)"

text \<open>\<open>\s*["']?([^"'#\n]+)\<close> after the key: the white space is as long as it can be, and is given back
  from the end as long as nothing matches.\<close>

definition value_at_quote :: "string \<Rightarrow> string option" where
  "value_at_quote s =
     (let r = (case s of c # r' \<Rightarrow> if c = DQ \<or> c = SQ then r' else s | [] \<Rightarrow> s);
          body = takeWhile (\<lambda>c. c \<noteq> DQ \<and> c \<noteq> SQ \<and> c \<noteq> CHR ''#'' \<and> c \<noteq> LF) r
      in if body \<noteq> [] then Some body else None)"

fun value_after :: "nat \<Rightarrow> string \<Rightarrow> string option" where
  "value_after 0 s = value_at_quote s"
| "value_after (Suc k) s = (case value_at_quote (drop (Suc k) s) of Some b \<Rightarrow> Some b | None \<Rightarrow> value_after k s)"

text \<open>\<open>^\s*key:...\<close> on any line. The flag says whether there is only white space since the line began.\<close>

fun platform_search :: "string \<Rightarrow> bool \<Rightarrow> string \<Rightarrow> string option" where
  "platform_search key blank [] = None"
| "platform_search key blank (c # r) =
     (let s = drop (length key + 1) (c # r) in
      case (if blank \<and> prefix (key @ '':'') (c # r) then value_after (length (takeWhile is_ws s)) s else None) of
        Some body \<Rightarrow> Some body
      | None \<Rightarrow> platform_search key (is_term c \<or> (blank \<and> is_ws c)) r)"

definition platformValue :: "string option \<Rightarrow> string \<Rightarrow> string \<Rightarrow> string" where
  "platformValue platform key fallback =
     (case platform of
        None \<Rightarrow> fallback
      | Some text \<Rightarrow> or_else (trim (nullish (platform_search key True text) [])) fallback)"

subsection \<open>Options\<close>

definition default_options :: "environment \<Rightarrow> string \<Rightarrow> string option \<Rightarrow> MonitorOptions" where
  "default_options env cwd platform =
     \<lparr>op_urls = [], op_filter = [], op_blackMode = False, op_nativeMode = False, op_countMode = False,
      op_detailMode = False, op_observeAllMode = False, op_profilerMode = False, op_serMode = False,
      op_activeMode = False, op_pubsubMode = False, op_processMode = False, op_chartMode = False,
      op_presetMode = False, op_plainMode = False, op_dotMode = False, op_blobMode = False, op_rows = 0,
      op_columns = 0, op_chartWidth = 30, op_processWidth = 40, op_protoArgs = [],
      op_protoDir = nullish (env ''PACIFIC_RIM_PROTO_DIR'') (nullish (env ''VLINK_PROTO_DIR'') []),
      op_fbsDir = nullish (env ''PACIFIC_RIM_FBS_DIR'') (nullish (env ''VLINK_FBS_DIR'') []),
      op_locMode = False, op_projectRoot = cwd,
      op_prometheusUrl = nullish (env ''PR_MONITOR_PROMETHEUS_URL'') (nullish (env ''PROMETHEUS_URL'')
        (platformValue platform ''prometheus_url'' ''http://localhost:18180'')),
      op_ros2SampleSeconds = parse_int (nullish (env ''PR_MONITOR_ROS2_SAMPLE_SECONDS'') ''1''),
      op_listRoutes = False, op_listProcesses = False\<rparr>"

definition applyShortFlag :: "char \<Rightarrow> MonitorOptions \<Rightarrow> MonitorOptions result" where
  "applyShortFlag c opts =
     (if c = CHR ''b'' then Inr (opts\<lparr>op_blobMode := True\<rparr>)
      else if c = CHR ''k'' then Inr (opts\<lparr>op_blackMode := True\<rparr>)
      else if c = CHR ''n'' then Inr (opts\<lparr>op_nativeMode := True\<rparr>)
      else if c = CHR ''t'' then Inr (opts\<lparr>op_countMode := True\<rparr>)
      else if c = CHR ''l'' then Inr (opts\<lparr>op_detailMode := True\<rparr>)
      else if c = CHR ''o'' then Inr (opts\<lparr>op_observeAllMode := True\<rparr>)
      else if c = CHR ''e'' then Inr (opts\<lparr>op_profilerMode := True\<rparr>)
      else if c = CHR ''s'' then Inr (opts\<lparr>op_serMode := True\<rparr>)
      else if c = CHR ''a'' then Inr (opts\<lparr>op_activeMode := True\<rparr>)
      else if c = CHR ''y'' then Inr (opts\<lparr>op_pubsubMode := True\<rparr>)
      else if c = CHR ''p'' then Inr (opts\<lparr>op_processMode := True\<rparr>)
      else if c = CHR ''c'' then Inr (opts\<lparr>op_chartMode := True\<rparr>)
      else if c = CHR ''x'' then Inr (opts\<lparr>op_presetMode := True\<rparr>)
      else Inl (''Unknown flag -'' @ [c]))"

fun apply_flags :: "string \<Rightarrow> MonitorOptions \<Rightarrow> MonitorOptions result" where
  "apply_flags [] opts = Inr opts"
| "apply_flags (c # cs) opts = rbind (applyShortFlag c opts) (apply_flags cs)"

text \<open>The options that take a value; \<open>set_value\<close> is \<^const>\<open>None\<close> for a word that is none of them.\<close>

definition text_option :: "string \<Rightarrow> (string \<Rightarrow> MonitorOptions \<Rightarrow> MonitorOptions) option" where
  "text_option arg =
     (if arg \<in> set [''-i'', ''--filter''] then Some (\<lambda>v opts. opts\<lparr>op_filter := v\<rparr>)
      else if arg \<in> set [''-g'', ''--proto_args''] then Some (\<lambda>v opts. opts\<lparr>op_protoArgs := v\<rparr>)
      else if arg \<in> set [''-d'', ''--proto_dir''] then Some (\<lambda>v opts. opts\<lparr>op_protoDir := v\<rparr>)
      else if arg \<in> set [''-f'', ''--fbs_dir''] then Some (\<lambda>v opts. opts\<lparr>op_fbsDir := v\<rparr>)
      else if arg = ''--project-root'' then Some (\<lambda>v opts. opts\<lparr>op_projectRoot := v\<rparr>)
      else if arg = ''--prometheus-url'' then Some (\<lambda>v opts. opts\<lparr>op_prometheusUrl := v\<rparr>)
      else None)"

definition number_option :: "string \<Rightarrow> (int \<Rightarrow> MonitorOptions \<Rightarrow> MonitorOptions) option" where
  "number_option arg =
     (if arg = ''--rows'' then Some (\<lambda>n opts. opts\<lparr>op_rows := n\<rparr>)
      else if arg = ''--columns'' then Some (\<lambda>n opts. opts\<lparr>op_columns := n\<rparr>)
      else if arg = ''--chart_width'' then Some (\<lambda>n opts. opts\<lparr>op_chartWidth := n\<rparr>)
      else if arg = ''--process_width'' then Some (\<lambda>n opts. opts\<lparr>op_processWidth := n\<rparr>)
      else if arg = ''--ros2-sample-seconds'' then Some (\<lambda>n opts. opts\<lparr>op_ros2SampleSeconds := Some n\<rparr>)
      else None)"

definition set_value :: "string \<Rightarrow> (string \<Rightarrow> MonitorOptions \<Rightarrow> MonitorOptions result) option" where
  "set_value arg =
     (case text_option arg of
        Some f \<Rightarrow> Some (\<lambda>v opts. Inr (f v opts))
      | None \<Rightarrow> map_option (\<lambda>f v opts. rbind (parseNumber v arg) (\<lambda>n. Inr (f n opts))) (number_option arg))"

text \<open>The options without a value.\<close>

definition set_switch :: "string \<Rightarrow> (MonitorOptions \<Rightarrow> MonitorOptions result) option" where
  "set_switch arg =
     (if arg = ''--list-routes'' then Some (\<lambda>opts. Inr (opts\<lparr>op_listRoutes := True\<rparr>))
      else if arg \<in> set [''--list-processes'', ''--topology''] then Some (\<lambda>opts. Inr (opts\<lparr>op_listProcesses := True\<rparr>))
      else if arg = ''--plain'' then Some (\<lambda>opts. Inr (opts\<lparr>op_plainMode := True\<rparr>))
      else if arg = ''--dot'' then Some (\<lambda>opts. Inr (opts\<lparr>op_dotMode := True\<rparr>))
      else if arg \<in> set [''--loc'', ''-loc''] then Some (\<lambda>opts. Inr (opts\<lparr>op_locMode := True, op_nativeMode := True\<rparr>))
      else if startsWith arg ''-'' \<and> \<not> startsWith arg ''--'' then Some (apply_flags (tl arg))
      else None)"

text \<open>The program runs with options, ends after its help or its version, or fails.\<close>

datatype cli_outcome = Options MonitorOptions | Shown_Help | Shown_Version | Failed string

fun cli_bind :: "MonitorOptions result \<Rightarrow> (MonitorOptions \<Rightarrow> cli_outcome) \<Rightarrow> cli_outcome" where
  "cli_bind (Inl e) f = Failed e"
| "cli_bind (Inr opts) f = f opts"

definition is_url_word :: "string \<Rightarrow> bool" where
  "is_url_word a \<longleftrightarrow> a \<noteq> [] \<and> \<not> startsWith a ''-''"

function (sequential) parse_args :: "string list \<Rightarrow> MonitorOptions \<Rightarrow> cli_outcome" where
  "parse_args [] opts = Options opts"
| "parse_args (arg # rest) opts =
     (if arg = ''-u'' \<or> arg = ''--urls''
      then parse_args (dropWhile is_url_word rest) (opts\<lparr>op_urls := op_urls opts @ takeWhile is_url_word rest\<rparr>)
      else case set_value arg of
        Some f \<Rightarrow>
          (case rest of
             v # rest' \<Rightarrow> if v = [] then Failed (''Missing value for '' @ arg) else cli_bind (f v opts) (parse_args rest')
           | [] \<Rightarrow> Failed (''Missing value for '' @ arg))
      | None \<Rightarrow>
          if arg = ''--help'' \<or> arg = ''-h'' then Shown_Help
          else if arg = ''--version'' \<or> arg = ''-v'' then Shown_Version
          else case set_switch arg of
            Some f \<Rightarrow> cli_bind (f opts) (parse_args rest)
          | None \<Rightarrow> parse_args rest opts)"
  by pat_completeness auto
termination
  by (relation "measure (\<lambda>(args, opts). length args)") (auto simp: le_imp_less_Suc length_dropWhile_le)

definition parseArgs :: "environment \<Rightarrow> string \<Rightarrow> string option \<Rightarrow> string list \<Rightarrow> cli_outcome" where
  "parseArgs env cwd platform args = parse_args args (default_options env cwd platform)"

subsection \<open>Checks\<close>

definition apply_preset :: "MonitorOptions \<Rightarrow> MonitorOptions" where
  "apply_preset opts =
     (if op_presetMode opts
      then opts\<lparr>op_detailMode := True, op_observeAllMode := True, op_processMode := True, op_chartMode := True\<rparr>
      else opts)"

definition checked_options :: "MonitorOptions \<Rightarrow> cli_outcome" where
  "checked_options opts' =
     (let opts = apply_preset opts' in
      if \<not> op_detailMode opts \<and> op_observeAllMode opts
      then Failed ''Observe all mode[-o] only use for Detail mode[-l].''
      else if \<not> op_detailMode opts \<and> op_activeMode opts
      then Failed ''Active mode[-a] only use for Detail mode[-l].''
      else if op_chartWidth opts < 10 \<or> op_chartWidth opts > 100
      then Failed ''Invalid [chart_width], range 10 - 100.''
      else if op_processWidth opts < 20 \<or> op_processWidth opts > 100
      then Failed ''Invalid [process_width], range 20 - 100.''
      else if (case op_ros2SampleSeconds opts of None \<Rightarrow> False | Some n \<Rightarrow> n < 1 \<or> n > 10)
      then Failed ''Invalid [ros2-sample-seconds], range 1 - 10.''
      else Options opts)"

text \<open>The part of \<open>main\<close> before the model is made.\<close>

definition main_options :: "environment \<Rightarrow> string \<Rightarrow> string option \<Rightarrow> string list \<Rightarrow> cli_outcome" where
  "main_options env cwd platform args =
     (case parseArgs env cwd platform args of
        Options opts \<Rightarrow> checked_options opts
      | outcome \<Rightarrow> outcome)"

subsection \<open>Listings\<close>

record process_group =
  pg_key :: string
  pg_name :: string
  pg_pid :: "nat option"
  pg_host :: string
  pg_ip :: string
  pg_endpoints :: "EndpointInfo list"

definition projectName :: "EndpointInfo \<Rightarrow> string" where
  "projectName ep =
     (case List.map_filter (\<lambda>source. case source_service source of
          Some service \<Rightarrow> Some service
        | None \<Rightarrow> map_option (\<lambda>pkg. pkg @ ''_idl'') (after_mark ''pkg/idl/'' source)) (ep_sources ep) of
        name # _ \<Rightarrow> name
      | [] \<Rightarrow> (case filter (\<lambda>p. p \<noteq> []) (split_runs is_path_separator (strip_scheme False (ep_url ep))) of
          part # _ \<Rightarrow> part | [] \<Rightarrow> ''project''))"

definition fallbackProcess :: "string \<Rightarrow> EndpointInfo \<Rightarrow> ProcessInfo" where
  "fallbackProcess hostname ep = \<lparr>pi_type = ep_type ep, pi_host = hostname, pi_ip = ''127.0.0.1'',
     pi_name = projectName ep, pi_pid = 0, pi_profiler = None\<rparr>"

definition group_key :: "ProcessInfo \<Rightarrow> string" where
  "group_key p = pi_name p @ '':'' @ (if pi_pid p = 0 then ''project'' else nat_str (pi_pid p)) @ '':'' @ pi_host p @ '':'' @ pi_ip p"

definition endpoint_processes :: "string \<Rightarrow> EndpointInfo \<Rightarrow> (EndpointInfo \<times> ProcessInfo) list" where
  "endpoint_processes hostname ep =
     map (\<lambda>p. (ep, p)) (if ep_processList ep \<noteq> [] then ep_processList ep else [fallbackProcess hostname ep])"

definition new_group :: "string \<Rightarrow> EndpointInfo \<times> ProcessInfo \<Rightarrow> process_group" where
  "new_group hostname = (\<lambda>(ep, p). \<lparr>pg_key = group_key p, pg_name = pi_name p,
     pg_pid = (if pi_pid p > 0 then Some (pi_pid p) else None), pg_host = or_else (pi_host p) hostname,
     pg_ip = or_else (pi_ip p) ''127.0.0.1'', pg_endpoints = [ep]\<rparr>)"

definition add_to_group :: "EndpointInfo \<times> ProcessInfo \<Rightarrow> process_group \<Rightarrow> process_group" where
  "add_to_group x g = g\<lparr>pg_endpoints := pg_endpoints g @ [fst x]\<rparr>"

definition process_groups :: "string \<Rightarrow> EndpointInfo list \<Rightarrow> process_group list" where
  "process_groups hostname endpoints =
     fold (upsert (\<lambda>x. group_key (snd x)) pg_key (new_group hostname) add_to_group)
       (concat (map (endpoint_processes hostname) endpoints)) []"

text \<open>The first endpoint of each URL, sorted by URL.\<close>

definition uniqueEndpoints :: "(string \<Rightarrow> string \<Rightarrow> int) \<Rightarrow> EndpointInfo list \<Rightarrow> EndpointInfo list" where
  "uniqueEndpoints lc endpoints =
     js_sort (\<lambda>l r. lc (ep_url l) (ep_url r)) (fold (upsert ep_url ep_url id (\<lambda>x e. e)) endpoints [])"

definition role_sections :: "(string \<times> EndpointType) list" where
  "role_sections = [(''Publisher'', publisher_bit), (''Subscriber'', subscriber_bit), (''Server'', server_bit),
     (''Client'', client_bit), (''Setter'', setter_bit), (''Getter'', getter_bit)]"

definition section_lines :: "(string \<Rightarrow> string \<Rightarrow> int) \<Rightarrow> EndpointInfo list \<Rightarrow> string \<times> EndpointType \<Rightarrow> string list" where
  "section_lines lc endpoints = (\<lambda>(label, bit').
     let items = uniqueEndpoints lc (filter (\<lambda>ep. has_bits (ep_type ep) bit') endpoints)
     in if items = [] then []
        else (''  '' @ label @ '':'') # map (\<lambda>ep. ''    '' @ ep_url ep @ ''    '' @ ep_serType ep) items)"

definition group_lines :: "(string \<Rightarrow> string \<Rightarrow> int) \<Rightarrow> process_group \<Rightarrow> string list" where
  "group_lines lc g =
     (pg_name g @ '' ('' @ (case pg_pid g of None \<Rightarrow> ''pid: ---'' | Some pid \<Rightarrow> ''pid: '' @ nat_str pid)
        @ '', host: '' @ pg_host g @ '', ip: '' @ pg_ip g @ '')'')
     # concat (map (section_lines lc (pg_endpoints g)) role_sections) @ [[]]"

definition printProcessList :: "(string \<Rightarrow> string \<Rightarrow> int) \<Rightarrow> string \<Rightarrow> EndpointInfo list \<Rightarrow> string list" where
  "printProcessList lc hostname endpoints =
     concat (map (group_lines lc) (js_sort (\<lambda>l r. lc (pg_name l) (pg_name r)) (process_groups hostname endpoints)))"

definition route_line :: "EndpointInfo \<Rightarrow> string" where
  "route_line ep = typeLabel (ep_type ep) False [] @ '' '' @ ep_url ep @ '' '' @ ep_serType ep @ '' '' @ join '','' (ep_sources ep)"

definition printPlainSample :: "(string \<Rightarrow> string \<Rightarrow> int) \<Rightarrow> MonitorModel \<Rightarrow> string list" where
  "printPlainSample lc s =
     map (\<lambda>c. ''collector '' @ co_name c @ '': '' @ (if co_ok c then ''ok'' else ''err'') @ '' '' @ co_message c)
       (mo_collectorStatuses s)
     @ map (\<lambda>ep. let st = nullish (map_of (mo_stats s) (ep_url ep)) zeroStats in
         join '' '' [typeLabel (ep_type ep) False [], ep_url ep,
           ''freq='' @ formatOptionalHz (map_option Fin (st_freq st)),
           ''rate='' @ formatOptionalBytes (map_option Fin (st_rate st)) @ ''/s'',
           ''loss='' @ formatOptionalFixed (map_option Fin (st_loss st)) 2 ''%'',
           ''latency='' @ formatOptionalFixed (map_option Fin (st_latency st)) 2 ''ms'',
           ''active='' @ (if st_active st then ''yes'' else ''no''),
           ''source='' @ or_else (st_source st) ''-'',
           ''status='' @ st_status st]) (visibleEndpoints lc s)"

end
