(* ===== verification/Monitor_Cli_Props.thy ===== *)
theory Monitor_Cli_Props
  imports Monitor_Cli
begin

text \<open>
  What the command line guarantees: the options that \<open>main\<close> accepts, and the groups of processes
  that \<open>--list-processes\<close> prints.
\<close>

subsection \<open>Accepted options\<close>

lemma checked_options_ok:
  assumes "checked_options opts' = Options opts"
  shows "modes_ok opts \<and> 10 \<le> op_chartWidth opts \<and> op_chartWidth opts \<le> 100 \<and> 20 \<le> op_processWidth opts
    \<and> op_processWidth opts \<le> 100 \<and> (case op_ros2SampleSeconds opts of None \<Rightarrow> True | Some n \<Rightarrow> 1 \<le> n \<and> n \<le> 10)"
  using assms unfolding checked_options_def Let_def modes_ok_def
  by (auto split: if_splits option.splits)

text \<open>A sampling time that is not a number can only come from the environment: every option sets a number.\<close>

abbreviation sampling :: "MonitorOptions \<Rightarrow> int option" where
  "sampling \<equiv> op_ros2SampleSeconds"

lemma either_branch: "P x \<Longrightarrow> P y \<Longrightarrow> P (if b then x else y)"
  by simp

lemma rbind_result: "rbind r f = Inr y \<Longrightarrow> \<exists>x. r = Inr x \<and> f x = Inr y"
  by (cases r) simp_all

lemma flag_sampling: "applyShortFlag c opts = Inr opts' \<Longrightarrow> sampling opts' = sampling opts"
proof -
  let ?P = "\<lambda>r. \<forall>opts'. r = Inr opts' \<longrightarrow> sampling opts' = sampling opts"
  have "?P (applyShortFlag c opts)" unfolding applyShortFlag_def by (intro either_branch [where P = ?P]) simp_all
  then show "applyShortFlag c opts = Inr opts' \<Longrightarrow> sampling opts' = sampling opts" by blast
qed

lemma flags_sampling: "apply_flags cs opts = Inr opts' \<Longrightarrow> sampling opts' = sampling opts"
  by (induction cs arbitrary: opts) (auto dest!: rbind_result flag_sampling)

lemma switch_sampling: "set_switch arg = Some f \<Longrightarrow> f opts = Inr opts' \<Longrightarrow> sampling opts' = sampling opts"
proof -
  let ?P = "\<lambda>r. \<forall>f. r = Some f \<longrightarrow> (\<forall>opts opts'. f opts = Inr opts' \<longrightarrow> sampling opts' = sampling opts)"
  have "?P (Some (apply_flags cs))" for cs using flags_sampling by blast
  then have "?P (set_switch arg)" unfolding set_switch_def by (intro either_branch [where P = ?P]) simp_all
  then show "set_switch arg = Some f \<Longrightarrow> f opts = Inr opts' \<Longrightarrow> sampling opts' = sampling opts" by blast
qed

lemma text_sampling: "text_option arg = Some f \<Longrightarrow> sampling (f v opts) = sampling opts"
proof -
  let ?P = "\<lambda>r. \<forall>f. r = Some f \<longrightarrow> (\<forall>v opts. sampling (f v opts) = sampling opts)"
  have "?P (text_option arg)" unfolding text_option_def by (intro either_branch [where P = ?P]) simp_all
  then show "text_option arg = Some f \<Longrightarrow> sampling (f v opts) = sampling opts" by blast
qed

lemma number_sampling: "number_option arg = Some f \<Longrightarrow> sampling (f n opts) = None \<Longrightarrow> sampling opts = None"
proof -
  let ?P = "\<lambda>r. \<forall>f. r = Some f \<longrightarrow> (\<forall>n opts. sampling (f n opts) = None \<longrightarrow> sampling opts = None)"
  have "?P (number_option arg)" unfolding number_option_def by (intro either_branch [where P = ?P]) simp_all
  then show "number_option arg = Some f \<Longrightarrow> sampling (f n opts) = None \<Longrightarrow> sampling opts = None" by blast
qed

lemma value_sampling:
  assumes "set_value arg = Some f" "f v opts = Inr opts'" "sampling opts' = None"
  shows "sampling opts = None"
proof (cases "text_option arg")
  case None
  then obtain g where g: "number_option arg = Some g" "f = (\<lambda>v opts. rbind (parseNumber v arg) (\<lambda>n. Inr (g n opts)))"
    using assms(1) by (auto simp: set_value_def)
  then obtain n where "opts' = g n opts" using assms(2) by (auto dest!: rbind_result)
  with number_sampling [OF g(1)] assms(3) show ?thesis by blast
next
  case (Some g)
  then have "opts' = g v opts" using assms(1,2) by (auto simp: set_value_def)
  with text_sampling [OF Some] assms(3) show ?thesis by metis
qed

lemma parse_sampling: "parse_args args opts = Options opts' \<Longrightarrow> sampling opts' = None \<Longrightarrow> sampling opts = None"
proof (induction "length args" arbitrary: args opts rule: less_induct)
  case less
  show ?case
  proof (cases args)
    case (Cons arg rest)
    have shorter: "length (dropWhile is_url_word rest) < length args" using Cons by (simp add: le_imp_less_Suc length_dropWhile_le)
    consider "arg = ''-u'' \<or> arg = ''--urls''" | f where "\<not> (arg = ''-u'' \<or> arg = ''--urls'')" "set_value arg = Some f"
      | f where "\<not> (arg = ''-u'' \<or> arg = ''--urls'')" "set_value arg = None" "set_switch arg = Some f"
      | "\<not> (arg = ''-u'' \<or> arg = ''--urls'')" "set_value arg = None" "set_switch arg = None"
      by (cases "set_value arg"; cases "set_switch arg") blast+
    then show ?thesis
    proof cases
      case 1
      then have "parse_args (dropWhile is_url_word rest) (opts\<lparr>op_urls := op_urls opts @ takeWhile is_url_word rest\<rparr>) = Options opts'"
        using less.prems(1) by (simp only: Cons parse_args.simps if_True)
      from less.hyps [OF shorter this less.prems(2)] show ?thesis by simp
    next
      case (2 f)
      obtain v rest' where rest: "rest = v # rest'"
        using less.prems(1) 2 by (cases rest) (simp_all only: Cons parse_args.simps if_False option.case list.case cli_outcome.distinct)
      have run: "(if v = [] then Failed (''Missing value for '' @ arg) else cli_bind (f v opts) (parse_args rest')) = Options opts'"
        using less.prems(1) 2 by (simp only: Cons rest parse_args.simps if_False option.case list.case)
      then have "cli_bind (f v opts) (parse_args rest') = Options opts'" by (cases "v = []") simp_all
      then obtain opts2 where "f v opts = Inr opts2" "parse_args rest' opts2 = Options opts'" by (cases "f v opts") simp_all
      with less.hyps [of rest' opts2] less.prems(2) value_sampling [OF 2(2)] show ?thesis by (simp add: Cons rest)
    next
      case (3 f)
      have "cli_bind (f opts) (parse_args rest) = Options opts'"
        using less.prems(1) 3 by (simp only: Cons parse_args.simps if_False option.case split: if_splits) simp_all
      then obtain opts2 where "f opts = Inr opts2" "parse_args rest opts2 = Options opts'" by (cases "f opts") simp_all
      with less.hyps [of rest opts2] less.prems(2) switch_sampling [OF 3(3)] show ?thesis by (simp add: Cons)
    next
      case 4
      have "parse_args rest opts = Options opts'"
        using less.prems(1) 4 by (simp only: Cons parse_args.simps if_False option.case split: if_splits) simp_all
      from less.hyps [OF _ this less.prems(2)] show ?thesis by (simp add: Cons)
    qed
  qed (use less.prems in simp)
qed

lemma preset_sampling: "checked_options opts' = Options opts \<Longrightarrow> sampling opts = sampling opts'"
  unfolding checked_options_def Let_def apply_preset_def by (auto split: if_splits)

text \<open>C38. The command line and the monitor together: when \<open>main\<close> accepts its arguments, the widths and the
  sampling time are in the ranges that the messages name, the modes fit together, and so every state
  that the monitor then reaches, by any collections, keys and frames, keeps its invariant. There is one exception: the
  sampling time may be no number at all, and then it is the one of the environment variable, which the range check lets
  through.\<close>

theorem accepted_options:
  assumes "main_options env cwd platform args = Options opts" "monitor_reachable h opts s"
  shows "10 \<le> op_chartWidth opts \<and> op_chartWidth opts \<le> 100 \<and> 20 \<le> op_processWidth opts
    \<and> op_processWidth opts \<le> 100 \<and> modes_ok opts
    \<and> (case op_ros2SampleSeconds opts of
         None \<Rightarrow> \<exists>v. env ''PR_MONITOR_ROS2_SAMPLE_SECONDS'' = Some v \<and> parse_int v = None
       | Some n \<Rightarrow> 1 \<le> n \<and> n \<le> 10)
    \<and> monitor_ok s"
proof -
  from assms(1) obtain opts' where parsed: "parse_args args (default_options env cwd platform) = Options opts'"
    and checked: "checked_options opts' = Options opts"
    by (auto simp: main_options_def parseArgs_def split: cli_outcome.splits)
  have one: "parse_int ''1'' = Some 1" by code_simp
  have "\<exists>v. env ''PR_MONITOR_ROS2_SAMPLE_SECONDS'' = Some v \<and> parse_int v = None" if "op_ros2SampleSeconds opts = None"
  proof -
    have "sampling opts' = None" using that preset_sampling [OF checked] by simp
    from parse_sampling [OF parsed this]
    have given: "parse_int (nullish (env ''PR_MONITOR_ROS2_SAMPLE_SECONDS'') ''1'') = None" by (simp add: default_options_def)
    then show ?thesis using one by (cases "env ''PR_MONITOR_ROS2_SAMPLE_SECONDS''") (simp_all add: nullish_def)
  qed
  with checked_options_ok [OF checked] monitor_ok_reachable [OF assms(2)] show ?thesis by (auto split: option.splits)
qed

definition demo_options :: MonitorOptions where
  "demo_options = (default_options (\<lambda>_. None) ''/repo'' None)\<lparr>op_detailMode := True, op_activeMode := True, op_chartWidth := 50\<rparr>"

lemma demo_accepted: "main_options (\<lambda>_. None) ''/repo'' None [''-la'', ''--chart_width'', ''50''] = Options demo_options"
  unfolding main_options_def parseArgs_def demo_options_def by code_simp

definition demo_monitor_host :: monitor_host where
  "demo_monitor_host = \<lparr>mh_localeCompare = unit_compare, mh_timeOfDay = int_str\<rparr>"

theorem accepted_options_witness:
  "10 \<le> op_chartWidth demo_options \<and> op_chartWidth demo_options \<le> 100 \<and> 20 \<le> op_processWidth demo_options
    \<and> op_processWidth demo_options \<le> 100 \<and> op_ros2SampleSeconds demo_options = Some 1
    \<and> monitor_ok (initialize 0 [] [] [] (new_model demo_options))"
proof -
  have "monitor_reachable demo_monitor_host demo_options (initialize 0 [] [] [] (new_model demo_options))"
    by (rule monitor_reachable.start) simp_all
  moreover have "op_ros2SampleSeconds demo_options = Some 1" by code_simp
  ultimately show ?thesis using accepted_options [OF demo_accepted] by blast
qed

subsection \<open>Process groups\<close>

interpretation groups: keyed_merge "\<lambda>x. group_key (snd x)" pg_key "new_group hostname" add_to_group
  by unfold_locales (simp_all add: new_group_def add_to_group_def case_prod_unfold)

lemma grown_endpoints: "pg_endpoints (fold add_to_group xs g) = pg_endpoints g @ map fst xs"
  by (induction xs arbitrary: g) (simp_all add: add_to_group_def)

lemma group_endpoints:
  "k \<in> set (uniq (map (\<lambda>x. group_key (snd x)) xs)) \<Longrightarrow>
    pg_endpoints (groups.entry_of hostname xs k) = map fst (filter (\<lambda>x. group_key (snd x) = k) xs)"
proof (cases "filter (\<lambda>x. group_key (snd x) = k) xs")
  case Nil
  moreover assume "k \<in> set (uniq (map (\<lambda>x. group_key (snd x)) xs))"
  ultimately show ?thesis by (auto simp: filter_empty_conv)
next
  case (Cons y r)
  have "pg_endpoints (new_group hostname y) = [fst y]" by (simp add: new_group_def case_prod_unfold)
  with Cons show ?thesis by (simp add: groups.entry_of_def grown_endpoints)
qed

abbreviation all_processes :: "string \<Rightarrow> EndpointInfo list \<Rightarrow> (EndpointInfo \<times> ProcessInfo) list" where
  "all_processes hostname endpoints \<equiv> concat (map (endpoint_processes hostname) endpoints)"

text \<open>Before they are sorted for printing, the groups of processes are in the order of the first endpoint of each
  key, and a group lists the endpoints of the processes with its key, in their order.\<close>

theorem process_groups_complete:
  "map pg_key (process_groups hostname endpoints) = uniq (map (\<lambda>x. group_key (snd x)) (all_processes hostname endpoints))
    \<and> map pg_endpoints (process_groups hostname endpoints) =
      map (\<lambda>k. map fst (filter (\<lambda>x. group_key (snd x) = k) (all_processes hostname endpoints)))
        (uniq (map (\<lambda>x. group_key (snd x)) (all_processes hostname endpoints)))"
proof
  let ?xs = "all_processes hostname endpoints" and ?key = "\<lambda>x. group_key (snd x)"
  show "map pg_key (process_groups hostname endpoints) = uniq (map ?key ?xs)"
    unfolding process_groups_def by (rule groups.keys_merged)
  have "map pg_endpoints (process_groups hostname endpoints) =
      map (\<lambda>k. pg_endpoints (groups.entry_of hostname ?xs k)) (uniq (map ?key ?xs))"
    unfolding process_groups_def groups.merged by simp
  also have "\<dots> = map (\<lambda>k. map fst (filter (\<lambda>x. ?key x = k) ?xs)) (uniq (map ?key ?xs))"
    by (rule map_cong [OF refl]) (rule group_endpoints)
  finally show "map pg_endpoints (process_groups hostname endpoints) =
      map (\<lambda>k. map fst (filter (\<lambda>x. ?key x = k) ?xs)) (uniq (map ?key ?xs))" .
qed

subsection \<open>The platform file\<close>

text \<open>The white space after the colon may be a line break, so an empty value takes the text of the next line.\<close>

theorem empty_platform_value_takes_next_line:
  "platformValue (Some (''prometheus_url:'' @ [LF] @ ''loki_url: http://loki'' @ [LF])) ''prometheus_url'' ''http://localhost:18180''
    = ''loki_url: http://loki''"
  by code_simp

end
