(* ===== verification/Monitor_Charts.thy ===== *)
theory Monitor_Charts
  imports Monitor_Cli
begin

text \<open>
  The texts that the monitor draws (\<open>monitor/pr-monitor/src/index.ts\<close>): charts, the process panel
  and the marks of a highlighted route. A text of the screen is a list of code points, since
  charts and boxes are drawn with characters outside Latin-1.
\<close>

type_synonym glyphs = "nat list"

definition codes :: "string \<Rightarrow> glyphs" where
  "codes s = map of_char s"

definition blanks :: "nat \<Rightarrow> glyphs" where
  "blanks n = replicate n 32"

abbreviation bar_line :: nat where "bar_line \<equiv> 0x2502"
abbreviation dash_line :: nat where "dash_line \<equiv> 0x2500"

definition HISTORY_SECONDS :: nat where "HISTORY_SECONDS = 26"
definition DETAIL_LINES :: nat where "DETAIL_LINES = 12"

subsection \<open>Charts\<close>

text \<open>\<open>data.slice(-width)\<close>.\<close>

definition last_part :: "nat \<Rightarrow> 'a list \<Rightarrow> 'a list" where
  "last_part n xs = (if n = 0 then xs else drop (length xs - n) xs)"

definition chart_chars :: "bool \<Rightarrow> glyphs" where
  "chart_chars dotMode =
     (if dotMode then [32, 0x2840, 0x2844, 0x2846, 0x2847] else [32, 0x2581, 0x2583, 0x2584, 0x2586, 0x2588])"

definition chart_range :: "rat \<Rightarrow> rat \<Rightarrow> rat" where
  "chart_range lo hi =
     max (1 / 10 ^ 9) (if hi - lo \<noteq> 0 then hi - lo else if hi / 10 \<noteq> 0 then hi / 10 else 1)"

definition chart_level :: "nat \<Rightarrow> rat \<Rightarrow> rat \<Rightarrow> rat \<Rightarrow> nat" where
  "chart_level chars v threshold spread =
     min (chars - 1) (nat (max 1 \<lceil>(v - threshold) / spread * of_nat (chars - 1)\<rceil>))"

definition chart_cell :: "glyphs \<Rightarrow> rat \<Rightarrow> rat \<Rightarrow> nat \<Rightarrow> rat \<Rightarrow> nat" where
  "chart_cell chars threshold spread row v =
     (if v \<le> 0 \<and> row > 0 then 32
      else if v \<ge> threshold
      then (let level = chart_level (length chars) v threshold spread
            in if level < length chars then chars ! level else 0x2588)
      else 32)"

definition chart_row ::
  "rat \<Rightarrow> glyphs \<Rightarrow> nat \<Rightarrow> rat \<Rightarrow> rat \<Rightarrow> rat list \<Rightarrow> nat \<Rightarrow> glyphs" where
  "chart_row unitValue chars width lo hi values row =
     (let spread = chart_range lo hi; threshold = lo + spread * of_nat row / 4;
          label = (if row = 3 then formatNumber (Fin hi) unitValue
                   else if row = 0 then formatNumber (Fin lo) unitValue else [])
      in codes (padLeft label 7) @ [bar_line]
         @ map (chart_cell chars threshold spread row) (replicate (width - length values) 0 @ values))"

definition renderMiniChart :: "string \<Rightarrow> rat list \<Rightarrow> string \<Rightarrow> nat \<Rightarrow> rat \<Rightarrow> bool \<Rightarrow> glyphs list" where
  "renderMiniChart title data unit width unitValue dotMode =
     (let values = last_part width data;
          hi = (if values \<noteq> [] then Max (set values) else 1);
          lo = (if values \<noteq> [] then Min (set values) else 0);
          current = (if values \<noteq> [] then last values else 0)
      in codes (padRight (title @ '': '' @ formatNumber (Fin current) unitValue @ unit @ ''   (0 - ''
            @ nat_str (max width HISTORY_SECONDS) @ ''s)'') (width + 8))
         # map (chart_row unitValue (chart_chars dotMode) width lo hi values) [3, 2, 1, 0]
         @ [blanks 8 @ replicate width dash_line])"

definition renderChartPanel :: "EndpointHistory \<Rightarrow> nat \<Rightarrow> nat \<Rightarrow> bool \<Rightarrow> glyphs list" where
  "renderChartPanel history height width dotMode =
     (let charts = [renderMiniChart ''Freq'' (hi_freq history) ''Hz'' width 100000 dotMode,
            renderMiniChart ''Rate'' (hi_rate history) ''B/s'' width 1024 dotMode,
            renderMiniChart ''Loss'' (hi_loss history) ''%'' width 100000 dotMode,
            renderMiniChart ''Latency'' (hi_latency history) ''ms'' width 100000 dotMode];
          chartHeight = max 1 ((int height - 4) div 4 - 2)
      in take height (concat (map (\<lambda>chart. take (nat (chartHeight + 3)) chart @ [[]]) charts)))"

subsection \<open>Processes\<close>

text \<open>The loop stops when the panel is full; the lines past its height are cut anyway.\<close>

definition process_lines :: "nat \<Rightarrow> ProcessInfo \<Rightarrow> glyphs list" where
  "process_lines width p =
     [codes (center (''[ '' @ processTypeLabel (pi_type p) @ '' ]'') width),
      codes (padRight ('' '' @ pi_host p @ ''@'' @ pi_ip p) width),
      codes (padRight ('' '' @ pi_name p @ ''#'' @ nat_str (pi_pid p)) width),
      replicate width dash_line]"

definition renderProcessPanel :: "ProcessInfo list \<Rightarrow> nat \<Rightarrow> nat \<Rightarrow> glyphs list" where
  "renderProcessPanel processList height width = take height (concat (map (process_lines width) processList))"

subsection \<open>Highlighting\<close>

text \<open>\<open>lower.indexOf(needle, start)\<close>: a start beyond the end counts as the end, so the empty text is
  found everywhere.\<close>

fun first_at :: "string \<Rightarrow> string \<Rightarrow> nat option" where
  "first_at needle [] = (if needle = [] then Some 0 else None)"
| "first_at needle (c # r) = (if prefix needle (c # r) then Some 0 else map_option Suc (first_at needle r))"

definition index_of :: "string \<Rightarrow> string \<Rightarrow> nat \<Rightarrow> nat option" where
  "index_of s needle start =
     (let from' = min start (length s) in map_option (\<lambda>k. from' + k) (first_at needle (drop from' s)))"

definition marked_at :: "nat \<Rightarrow> nat \<Rightarrow> bool list \<Rightarrow> bool list" where
  "marked_at i n marks = take i marks @ replicate n True @ drop (i + n) marks"

text \<open>The loop over the occurrences of one term, as the code has it: it may run for ever.\<close>

partial_function (option) mark_loop :: "string \<Rightarrow> string \<Rightarrow> nat \<Rightarrow> bool list \<Rightarrow> bool list option" where
  "mark_loop lower needle start marks =
     (case index_of lower needle start of
        None \<Rightarrow> Some marks
      | Some i \<Rightarrow> mark_loop lower needle (i + 1) (marked_at i (length needle) marks))"

lemma first_at_Some: "first_at needle s = Some k \<Longrightarrow>
    prefix needle (drop k s) \<and> k + length needle \<le> length s \<and> (\<forall>j<k. \<not> prefix needle (drop j s))"
proof (induction s arbitrary: k)
  case (Cons c r)
  show ?case
  proof (cases "prefix needle (c # r)")
    case True
    with Cons.prems show ?thesis by (auto dest: prefix_length_le)
  next
    case False
    with Cons.prems obtain k' where k': "first_at needle r = Some k'" "k = Suc k'" by auto
    have "\<not> prefix needle (drop j (c # r))" if "j < k" for j
      using that False Cons.IH [OF k'(1)] k'(2) by (cases j) auto
    then show ?thesis using Cons.IH [OF k'(1)] k'(2) by auto
  qed
qed (auto split: if_splits)

lemma first_at_None: "first_at needle s = None \<Longrightarrow> \<not> prefix needle (drop j s)"
  by (induction s arbitrary: j) (auto simp: drop_Cons split: if_splits nat.split)

lemma index_of_bounds: "needle \<noteq> [] \<Longrightarrow> index_of s needle start = Some i \<Longrightarrow>
    start \<le> i \<and> i + length needle \<le> length s"
  by (cases "start < length s") (auto simp: index_of_def Let_def dest!: first_at_Some)

text \<open>The same loop for a term that is not empty, which ends: the occurrences go up.\<close>

function mark_term :: "string \<Rightarrow> string \<Rightarrow> nat \<Rightarrow> bool list \<Rightarrow> bool list" where
  "mark_term lower needle start marks =
     (case (if needle = [] then None else index_of lower needle start) of
        None \<Rightarrow> marks
      | Some i \<Rightarrow> mark_term lower needle (i + 1) (marked_at i (length needle) marks))"
  by pat_completeness auto
termination
  by (relation "measure (\<lambda>(lower, needle, start, marks). length lower + 1 - start)")
    (auto dest: index_of_bounds split: if_splits)

declare mark_term.simps [simp del]

definition route_marks :: "string \<Rightarrow> string list \<Rightarrow> bool list" where
  "route_marks route terms =
     fold (\<lambda>term. mark_term (toLowerCase route) (toLowerCase term) 0) terms (replicate (length route) False)"

text \<open>The pieces that are drawn: the longest runs of equal marks.\<close>

fun mark_runs :: "(char \<times> bool) list \<Rightarrow> (string \<times> bool) list" where
  "mark_runs [] = []"
| "mark_runs ((c, b) # r) =
     (case mark_runs r of
        (s, b') # rest \<Rightarrow> if b' = b then (c # s, b) # rest else ([c], b) # (s, b') # rest
      | [] \<Rightarrow> [([c], b)])"

end
