(* ===== verification/Monitor_Draw.thy ===== *)
theory Monitor_Draw
  imports Monitor_Charts Monitor_Keys
begin

text \<open>
  The frames of the monitor (\<open>MonitorRenderable\<close> in \<open>monitor/pr-monitor/src/index.ts\<close>): a frame is the
  list of the calls on the terminal's buffer, in their order. A drawing operation returns its calls,
  with the column after them where the code goes on from there. Columns and rows count from the
  corner of the monitor; \<open>placed\<close> adds \<open>this.x\<close> and \<open>this.y\<close>.
\<close>

datatype color = Bg | Panel_Bg | Header_Bg | Header_Fg | Fg | Dim | Green | Yellow | Red | Cyan | Blue
  | Magenta | White | Black | Selection_Bg | Selection_Fg | Divider_Bg | Box_Bg | Box_Border | Transparent

text \<open>The combinations of \<open>TextAttributes\<close> that occur: none, bold, bold and underlined.\<close>

datatype attributes = Plain | Bold | Bold_Underline

datatype draw_call =
    Fill int int int int color
  | Put glyphs int int color color attributes

record pen =
  pen_fg :: "color option"
  pen_bg :: "color option"
  pen_attrs :: attributes
  pen_width :: "int option"

abbreviation no_pen :: pen where
  "no_pen \<equiv> \<lparr>pen_fg = None, pen_bg = None, pen_attrs = Plain, pen_width = None\<rparr>"

definition ink :: "color \<Rightarrow> pen" where
  "ink c = no_pen\<lparr>pen_fg := Some c\<rparr>"

definition ink_on :: "color \<Rightarrow> color \<Rightarrow> pen" where
  "ink_on c b = no_pen\<lparr>pen_fg := Some c, pen_bg := Some b\<rparr>"

definition cut_at :: "int \<Rightarrow> pen \<Rightarrow> pen" where
  "cut_at w p = p\<lparr>pen_width := Some w\<rparr>"

definition in_style :: "attributes \<Rightarrow> pen \<Rightarrow> pen" where
  "in_style a p = p\<lparr>pen_attrs := a\<rparr>"

definition drawText :: "int \<Rightarrow> int \<Rightarrow> glyphs \<Rightarrow> pen \<Rightarrow> draw_call list \<times> int" where
  "drawText x y t p =
     (let width = nullish (pen_width p) (int (length t))
      in if width \<le> 0 then ([], x)
         else ((case pen_bg p of Some b \<Rightarrow> [Fill x y width 1 b] | None \<Rightarrow> [])
               @ [Put (take (nat width) t) x y (nullish (pen_fg p) Fg) (nullish (pen_bg p) Transparent) (pen_attrs p)],
               x + min (int (length t)) width))"

text \<open>Texts one after the other: each begins at the column that the last one returned.\<close>

fun draw_all :: "int \<Rightarrow> int \<Rightarrow> (glyphs \<times> pen) list \<Rightarrow> draw_call list \<times> int" where
  "draw_all x y [] = ([], x)"
| "draw_all x y ((t, p) # r) =
     (let (calls, x') = drawText x y t p; (calls', x'') = draw_all x' y r in (calls @ calls', x''))"

definition drawDivider :: "int \<Rightarrow> int \<Rightarrow> draw_call list" where
  "drawDivider x y = [Fill x y 1 1 Divider_Bg]"

fun placed :: "int \<Rightarrow> int \<Rightarrow> draw_call \<Rightarrow> draw_call" where
  "placed ox oy (Fill x y w h c) = Fill (ox + x) (oy + y) w h c"
| "placed ox oy (Put t x y f b a) = Put t (ox + x) (oy + y) f b a"

subsection \<open>Rows\<close>

definition computeMainWidth :: "MonitorOptions \<Rightarrow> nat \<Rightarrow> nat \<Rightarrow> nat" where
  "computeMainWidth opts maxUrlSize maxSerSize =
     8 + maxUrlSize + 3 + (if op_serMode opts then maxSerSize + 3 else 0)
     + (if op_detailMode opts then 12 + 12 + 9 + 12 else 0) + (if op_profilerMode opts then 14 else 0)"

definition header_text :: "MonitorOptions \<Rightarrow> nat \<Rightarrow> nat \<Rightarrow> string" where
  "header_text opts maxUrlSize maxSerSize =
     padRight ''[TYPE]'' 8 @ padRight ''[ROUTE]'' (maxUrlSize + 3)
     @ (if op_serMode opts then padRight ''[SCHEMA]'' (maxSerSize + 3) else [])
     @ (if op_detailMode opts
        then padRight ''[FREQ]'' 12 @ padRight ''[RATE]'' 12 @ padRight ''[LOSS]'' 9 @ padRight ''[LATENCY]'' 12 else [])
     @ (if op_profilerMode opts then padRight ''[PROFILER]'' 14 else [])"

definition drawHeader :: "MonitorOptions \<Rightarrow> int \<Rightarrow> int \<Rightarrow> nat \<Rightarrow> nat \<Rightarrow> int \<Rightarrow> draw_call list" where
  "drawHeader opts x y maxUrlSize maxSerSize width =
     fst (drawText x y (codes (header_text opts maxUrlSize maxSerSize))
       (cut_at width (in_style Bold (ink_on Header_Fg Header_Bg))))"

text \<open>The texts of a highlighted route: the whole route, or its runs of marked and other characters.\<close>

definition highlight_cells :: "string \<Rightarrow> string list \<Rightarrow> color \<Rightarrow> color \<Rightarrow> bool \<Rightarrow> (glyphs \<times> pen) list" where
  "highlight_cells route terms fg bg selected =
     (if terms = [] \<or> selected then [(codes route, ink_on fg bg)]
      else map (\<lambda>(s, m). (codes s, in_style (if m then Bold_Underline else Plain) (ink_on fg bg)))
        (mark_runs (zip route (route_marks route terms))))"

definition drawHighlightedRoute ::
  "int \<Rightarrow> int \<Rightarrow> string \<Rightarrow> string list \<Rightarrow> color \<Rightarrow> color \<Rightarrow> bool \<Rightarrow> draw_call list \<times> int" where
  "drawHighlightedRoute x y route terms fg bg selected = draw_all x y (highlight_cells route terms fg bg selected)"

definition endpoint_stats :: "MonitorModel \<Rightarrow> EndpointInfo \<Rightarrow> EndpointStats" where
  "endpoint_stats s ep = nullish (map_of (mo_stats s) (ep_url ep)) zeroStats"

definition row_color :: "MonitorModel \<Rightarrow> EndpointInfo \<Rightarrow> color" where
  "row_color s ep =
     (if op_detailMode (mo_options s)
      then (if st_active (endpoint_stats s ep) then (if st_stable (endpoint_stats s ep) then Green else Yellow) else Red)
      else Fg)"

definition rate_text :: "EndpointStats \<Rightarrow> string" where
  "rate_text st = (case st_rate st of None \<Rightarrow> ''---'' | Some r \<Rightarrow> formatBytes (Fin r) @ ''/s'')"

definition detail_cells :: "EndpointStats \<Rightarrow> color \<Rightarrow> color \<Rightarrow> bool \<Rightarrow> color \<Rightarrow> (glyphs \<times> pen) list" where
  "detail_cells st fg bg selected selectedFg =
     (if st_active st
      then [(codes (padRight (formatOptionalHz (map_option Fin (st_freq st))) 12), ink_on selectedFg bg),
            (codes (padRight (rate_text st) 12), ink_on selectedFg bg),
            (codes (padRight (formatOptionalFixed (map_option Fin (st_loss st)) 2 ''%'') 9),
             ink_on (if selected then selectedFg
                     else if (case st_loss st of None \<Rightarrow> False | Some l \<Rightarrow> l > 0) then Yellow else fg) bg),
            (codes (padRight (formatOptionalFixed (map_option Fin (st_latency st)) 2 ''ms'') 12), ink_on selectedFg bg)]
      else [(codes (padRight ''---'' 12 @ padRight ''---'' 12 @ padRight ''---'' 9 @ padRight ''---'' 12),
             ink_on selectedFg bg)])"

text \<open>The texts of a row, from left to right.\<close>

definition endpoint_cells :: "MonitorModel \<Rightarrow> EndpointInfo \<Rightarrow> nat \<Rightarrow> nat \<Rightarrow> bool \<Rightarrow> (glyphs \<times> pen) list" where
  "endpoint_cells s ep maxUrlSize maxSerSize selected =
     (let opts = mo_options s; fg = row_color s ep; bg = (if selected then Selection_Bg else Bg);
          selectedFg = (if selected then Selection_Fg else fg)
      in [(codes (padRight (typeLabel (ep_type ep) (op_countMode opts) (ep_processList ep)) 8),
           in_style (if selected then Bold else Plain) (ink_on selectedFg bg))]
         @ highlight_cells (ep_url ep) (splitFilter (mo_filterText s)) selectedFg bg selected
         @ [(blanks (max 3 (maxUrlSize + 3 - length (ep_url ep))), ink_on selectedFg bg)]
         @ (if op_serMode opts
            then [(codes (ep_serType ep), ink_on (if selected then selectedFg else Cyan) bg),
                  (blanks (max 3 (maxSerSize + 3 - length (ep_serType ep))), ink_on selectedFg bg)] else [])
         @ (if op_detailMode opts then detail_cells (endpoint_stats s ep) fg bg selected selectedFg else [])
         @ (if op_profilerMode opts
            then [(codes (padRight (formatProfiler (ep_processList ep)) 14),
                   ink_on (if selected then selectedFg else Magenta) bg)] else []))"

definition drawEndpoint ::
  "MonitorModel \<Rightarrow> EndpointInfo \<Rightarrow> int \<Rightarrow> int \<Rightarrow> nat \<Rightarrow> nat \<Rightarrow> int \<Rightarrow> bool \<Rightarrow> draw_call list" where
  "drawEndpoint s ep x y maxUrlSize maxSerSize width selected =
     Fill x y width 1 (if selected then Selection_Bg else Bg)
     # fst (draw_all x y (endpoint_cells s ep maxUrlSize maxSerSize selected))"


subsection \<open>The status line and the filter box\<close>

definition statusFlag :: "string \<Rightarrow> bool \<Rightarrow> string" where
  "statusFlag label enabled = (if enabled then ''_'' @ label @ ''_'' else label)"

definition shortSourceName :: "string \<Rightarrow> string" where
  "shortSourceName name =
     (if name = ''discovery'' then ''disc'' else if name = ''process'' then ''ps''
      else if name = ''prometheus'' then ''prom'' else if name = ''cyclonedds'' then ''dds'' else name)"

definition status_flags :: "MonitorModel \<Rightarrow> string" where
  "status_flags s =
     (let opts = mo_options s in
      join '' '' [statusFlag ''T'' (op_countMode opts), statusFlag ''L'' (op_detailMode opts),
        statusFlag ''O'' (op_observeAllMode opts), statusFlag ''E'' (op_profilerMode opts),
        statusFlag ''S'' (op_serMode opts), statusFlag ''A'' (op_activeMode opts),
        statusFlag ''Y'' (op_pubsubMode opts), statusFlag ''P'' (op_processMode opts),
        statusFlag ''C'' (op_chartMode opts), statusFlag ''I'' (splitFilter (mo_filterText s) \<noteq> [])])"

definition drawStatusLine :: "MonitorModel \<Rightarrow> int \<Rightarrow> int \<Rightarrow> int \<Rightarrow> nat \<Rightarrow> draw_call list" where
  "drawStatusLine s width y totalPages totalRows =
     (let pageText = ''<'' @ int_str (if totalPages = 0 then 0 else mo_currentPage s + 1) @ ''/'' @ int_str totalPages @ ''>'';
          status = join '' '' (map (\<lambda>c. shortSourceName (co_name c) @ '':'' @ (if co_ok c then ''ok'' else ''err''))
            (mo_collectorStatuses s));
          line = ''[ '' @ status_flags s @ '' ] | Total:'' @ nat_str totalRows @ '' Active:'' @ nat_str (mo_activeCount s)
            @ '' Rate:'' @ formatBytes (Fin (mo_totalRate s)) @ ''/s src '' @ status
      in fst (drawText 0 y (codes pageText) (cut_at (int (length pageText)) (in_style Bold (ink_on Header_Fg Header_Bg))))
         @ fst (drawText (int (length pageText) + 1) y (codes line)
             (cut_at (max 0 (width - int (length pageText) - 1)) (ink_on Fg Bg))))"

text \<open>\<open>tail\<close>: the last characters.\<close>

definition tail :: "string \<Rightarrow> nat \<Rightarrow> string" where
  "tail v width = drop (length v - width) v"

definition filter_title :: string where "filter_title = ''[ Filter Routes ]''"

definition filter_rows :: "string \<Rightarrow> nat \<Rightarrow> glyphs list" where
  "filter_rows text' inner =
     (let inputText = tail text' (inner - 5) in
      [[0x250C, dash_line, dash_line] @ codes filter_title
         @ replicate (inner - length filter_title - 2) dash_line @ [0x2510],
       [bar_line] @ codes ('' > '' @ inputText) @ blanks (inner - 4 - length inputText) @ [bar_line],
       [0x251C] @ replicate inner dash_line @ [0x2524],
       [bar_line, 32] @ codes (padRight (take (inner - 1) ''Space: multi-term   Enter/Esc: close'') (inner - 1)) @ [bar_line],
       [0x2514] @ replicate inner dash_line @ [0x2518]])"

definition filter_pen :: "nat \<Rightarrow> int \<Rightarrow> pen" where
  "filter_pen i boxWidth =
     cut_at boxWidth (in_style (if i = 0 then Bold else Plain)
       (ink_on (if i = 1 then Yellow else if i = 3 then Dim else Box_Border) Box_Bg))"

text \<open>Rows below each other, cut at the bottom.\<close>

fun rows_from :: "int \<Rightarrow> int \<Rightarrow> 'a list \<Rightarrow> (int \<times> 'a) list" where
  "rows_from y bottom [] = []"
| "rows_from y bottom (l # ls) = (if y \<ge> bottom then [] else (y, l) # rows_from (y + 1) bottom ls)"

definition filter_box_width :: "int \<Rightarrow> int" where
  "filter_box_width width = clamp (min 60 (width - 4)) 24 (max 24 (width - 2))"

definition drawFilterBox :: "MonitorModel \<Rightarrow> int \<Rightarrow> int \<Rightarrow> int \<Rightarrow> draw_call list" where
  "drawFilterBox s width height contentRows =
     (let boxWidth = filter_box_width width; x = max 1 ((width - boxWidth) div 2);
          y = max 3 ((contentRows - 5) div 2 + 2); rows = filter_rows (mo_filterText s) (nat (boxWidth - 2))
      in concat (map (\<lambda>(y', i, row). fst (drawText x y' row (filter_pen i boxWidth)))
           (rows_from y height (enumerate 0 rows))))"

subsection \<open>The detail view\<close>

text \<open>The charts below each other, with an empty row after each; then the row after them.\<close>

fun chart_rows :: "int \<Rightarrow> int \<Rightarrow> glyphs list list \<Rightarrow> (int \<times> glyphs) list \<times> int" where
  "chart_rows y bottom [] = ([], y)"
| "chart_rows y bottom (chart # charts) =
     (let here = rows_from y bottom chart; (there, y') = chart_rows (y + int (length here) + 1) bottom charts
      in (here @ there, y'))"

definition detail_line :: "DetailSample \<Rightarrow> string" where
  "detail_line d =
     padRight (ds_time d) 12 @ '' '' @ padLeft (nat_str (ds_seq d)) 9 @ '' ''
     @ padLeft (formatOptionalBytes (map_option Fin (ds_size d))) 9 @ '' ''
     @ padLeft (formatOptionalFixed (map_option Fin (ds_latency d)) 2 ''ms'') 10 @ ''  '' @ ds_preview d"

definition detail_head :: "MonitorModel \<Rightarrow> int \<Rightarrow> EndpointInfo \<Rightarrow> draw_call list" where
  "detail_head s width ep =
     (let st = endpoint_stats s ep; w = width - 4
      in fst (drawText 2 0 (codes (''Route detail: '' @ ep_url ep)) (cut_at w (in_style Bold (ink Green))))
         @ fst (drawText 2 1 (codes (''Enter/Esc returns. source='' @ or_else (st_source st) ''none'' @ '' status='' @ st_status st))
             (cut_at w (ink Dim)))
         @ fst (drawText 0 3 (codes (replicate (nat (min width 120)) (CHR ''=''))) (cut_at width (ink Blue)))
         @ fst (drawText 2 4 (codes (join ''  '' [''type='' @ typeLabel (ep_type ep) False [], ''schema='' @ ep_serType ep,
               ''freq='' @ formatOptionalHz (map_option Fin (st_freq st)), ''rate='' @ rate_text st,
               ''loss='' @ formatOptionalFixed (map_option Fin (st_loss st)) 2 ''%'',
               ''latency='' @ formatOptionalFixed (map_option Fin (st_latency st)) 2 ''ms'']))
             (cut_at w (ink (if st_active st then Green else Red))))
         @ fst (drawText 2 5 (codes (buildInspectCommand ep (mo_options s))) (cut_at w (ink Blue)))
         @ fst (drawText 2 6 (codes (''routes='' @ or_else (join '', '' (ep_routeNames ep)) ''-''
               @ ''  files='' @ or_else (join '', '' (ep_sources ep)) ''-'')) (cut_at w (ink Dim)))
         @ fst (drawText 2 7 (codes (''collectors='' @ join '' | '' (map (\<lambda>c. co_name c @ '':''
               @ (if co_ok c then ''ok'' else co_message c)) (mo_collectorStatuses s)))) (cut_at w (ink Dim))))"

definition detail_charts :: "MonitorModel \<Rightarrow> int \<Rightarrow> EndpointInfo \<Rightarrow> glyphs list list" where
  "detail_charts s width ep =
     (let history = nullish (map_of (mo_histories s) (ep_url ep)) emptyHistory;
          chartWidth = nat (min (op_chartWidth (mo_options s)) (max 10 (width - 18)))
      in [renderMiniChart ''Freq'' (hi_freq history) ''Hz'' chartWidth 100000 False,
          renderMiniChart ''Rate'' (hi_rate history) ''B/s'' chartWidth 1024 False,
          renderMiniChart ''Loss'' (hi_loss history) ''%'' chartWidth 100000 False,
          renderMiniChart ''Latency'' (hi_latency history) ''ms'' chartWidth 100000 False])"

definition renderDetail :: "MonitorModel \<Rightarrow> int \<Rightarrow> int \<Rightarrow> EndpointInfo \<Rightarrow> draw_call list" where
  "renderDetail s width height ep =
     (let details = nullish (map_of (mo_details s) (ep_url ep)) [];
          (chartRows, y) = chart_rows 9 (height - 1) (detail_charts s width ep); w = width - 4
      in detail_head s width ep
         @ concat (map (\<lambda>(y', line). fst (drawText 2 y' line (cut_at w (ink Fg)))) chartRows)
         @ (if y < height - 3
            then fst (drawText 2 y (codes ''Recent payloads'') (cut_at (min w 110) (in_style Bold (ink_on Header_Fg Header_Bg))))
                 @ fst (drawText 2 (y + 1) (codes ''TIME         SEQ        SIZE       LATENCY    PREVIEW'') (cut_at w (ink Cyan)))
                 @ concat (map (\<lambda>(y', d). fst (drawText 2 y' (codes (detail_line d)) (cut_at w (ink Fg))))
                     (rows_from (y + 2) (height - 1) (rev (last_part DETAIL_LINES details))))
            else []))"


subsection \<open>The frame\<close>

text \<open>The widths of a frame: the columns of routes and schemas, the row, and the two panels. A panel has
  width 0 when its mode is off or the terminal is too narrow for it.\<close>

record frame_layout =
  fl_url :: nat
  fl_ser :: nat
  fl_chart :: int
  fl_process :: int
  fl_main :: int

definition longest :: "('a \<Rightarrow> string) \<Rightarrow> 'a list \<Rightarrow> nat" where
  "longest f xs = fold (\<lambda>x. max (length (f x))) xs 16"

definition view_width :: "MonitorOptions \<Rightarrow> int \<Rightarrow> int" where
  "view_width opts width = (if op_columns opts > 0 then min width (op_columns opts) else width)"

definition view_height :: "MonitorOptions \<Rightarrow> int \<Rightarrow> int" where
  "view_height opts height = (if op_rows opts > 0 then min height (op_rows opts) else height)"

definition frame_layout_of :: "MonitorOptions \<Rightarrow> EndpointInfo list \<Rightarrow> int \<Rightarrow> frame_layout" where
  "frame_layout_of opts es viewWidth =
     (let maxUrl = longest ep_url es; maxSer = longest ep_serType es;
          mainWidth = int (computeMainWidth opts maxUrl maxSer);
          chart = (if op_chartMode opts \<and> op_detailMode opts \<and> viewWidth \<ge> mainWidth + op_chartWidth opts + 10
                   then op_chartWidth opts + 8 else 0);
          process = (if op_processMode opts \<and> viewWidth \<ge> mainWidth + op_processWidth opts + 4
                     then op_processWidth opts else 0)
      in \<lparr>fl_url = maxUrl, fl_ser = maxSer, fl_chart = chart, fl_process = process,
          fl_main = max 20 (viewWidth - chart - process - (if chart \<noteq> 0 then 1 else 0) - (if process \<noteq> 0 then 1 else 0))\<rparr>)"

text \<open>A panel beside the rows: its divider, its text, and the column after it.\<close>

definition draw_panel :: "int \<Rightarrow> int \<Rightarrow> int \<Rightarrow> glyphs \<Rightarrow> pen \<Rightarrow> draw_call list \<times> int" where
  "draw_panel x y width t p =
     (if width > 0 then (drawDivider x y @ fst (drawText (x + 1) y t (cut_at width p)), x + 1 + width) else ([], x))"

definition draw_panels :: "frame_layout \<Rightarrow> int \<Rightarrow> glyphs \<Rightarrow> glyphs \<Rightarrow> pen \<Rightarrow> draw_call list" where
  "draw_panels fl y process chart p =
     (let (calls, x) = draw_panel (fl_main fl) y (fl_process fl) process p
      in calls @ fst (draw_panel x y (fl_chart fl) chart p))"

definition selected_endpoint :: "MonitorModel \<Rightarrow> EndpointInfo list \<Rightarrow> EndpointInfo option" where
  "selected_endpoint s es =
     (if 0 \<le> mo_selectedLine s \<and> mo_selectedLine s < int (length es) then Some (es ! nat (mo_selectedLine s)) else None)"

definition process_panel :: "MonitorModel \<Rightarrow> EndpointInfo list \<Rightarrow> nat \<Rightarrow> frame_layout \<Rightarrow> glyphs list" where
  "process_panel s es contentRows fl =
     (case selected_endpoint s es of
        Some ep \<Rightarrow> if fl_process fl > 0 then renderProcessPanel (ep_processList ep) contentRows (nat (fl_process fl)) else []
      | None \<Rightarrow> [])"

definition chart_panel :: "MonitorModel \<Rightarrow> EndpointInfo list \<Rightarrow> nat \<Rightarrow> frame_layout \<Rightarrow> glyphs list" where
  "chart_panel s es contentRows fl =
     (case selected_endpoint s es of
        Some ep \<Rightarrow>
          if fl_chart fl > 0
          then renderChartPanel (nullish (map_of (mo_histories s) (ep_url ep)) emptyHistory) contentRows
                 (nat (op_chartWidth (mo_options s))) (op_dotMode (mo_options s))
          else []
      | None \<Rightarrow> [])"

definition row_or_empty :: "glyphs list \<Rightarrow> nat \<Rightarrow> glyphs" where
  "row_or_empty ls i = (if i < length ls then ls ! i else [])"

definition draw_row :: "MonitorModel \<Rightarrow> EndpointInfo list \<Rightarrow> nat \<Rightarrow> frame_layout \<Rightarrow> nat \<Rightarrow> draw_call list" where
  "draw_row s es contentRows fl row =
     (let lineIndex = nat (mo_currentPage s) * contentRows + row; y = int row + 2
      in (if lineIndex < length es
          then drawEndpoint s (es ! lineIndex) 0 y (fl_url fl) (fl_ser fl) (fl_main fl) (int lineIndex = mo_selectedLine s)
          else [Fill 0 y (fl_main fl) 1 Bg])
         @ draw_panels fl y (row_or_empty (process_panel s es contentRows fl) row)
             (row_or_empty (chart_panel s es contentRows fl) row) (ink_on Fg Panel_Bg))"

definition draw_title :: "MonitorModel \<Rightarrow> int \<Rightarrow> draw_call list" where
  "draw_title s viewWidth =
     fst (drawText 2 0 (codes (''Information Collected by pr-monitor'' @ (if mo_paused s then '' (Paused)'' else []) @ '':''))
       (cut_at (viewWidth - 2) (in_style (if mo_paused s then Bold else Plain) (ink (if mo_paused s then Yellow else Fg)))))"

text \<open>The header of the panels is cut at the width of its panel, as the rows are.\<close>

definition draw_headers :: "MonitorModel \<Rightarrow> frame_layout \<Rightarrow> draw_call list" where
  "draw_headers s fl =
     drawHeader (mo_options s) 0 1 (fl_url fl) (fl_ser fl) (fl_main fl)
     @ draw_panels fl 1 (codes ''[PROCESS]'') (codes ''[CHART]'') (in_style Bold (ink_on Header_Fg Header_Bg))"

definition draw_list :: "(string \<Rightarrow> string \<Rightarrow> int) \<Rightarrow> int \<Rightarrow> int \<Rightarrow> MonitorModel \<Rightarrow> draw_call list" where
  "draw_list lc width height s =
     (let opts = mo_options s; viewWidth = view_width opts width; es = visibleEndpoints lc s;
          contentRows = nat (content_rows height s); fl = frame_layout_of opts es viewWidth
      in draw_title s viewWidth @ draw_headers s fl
         @ concat (map (draw_row s es contentRows fl) [0..<contentRows])
         @ drawStatusLine s viewWidth (view_height opts height - 1) (total_pages lc height s) (length es)
         @ (if mo_filterInputMode s then drawFilterBox s viewWidth (view_height opts height) (int contentRows) else []))"

text \<open>\<open>renderSelf\<close>: the state is settled before the list is drawn. The endpoint of the detail view is
  one of the endpoints, which have distinct URLs.\<close>

definition renderSelf :: "(string \<Rightarrow> string \<Rightarrow> int) \<Rightarrow> int \<Rightarrow> int \<Rightarrow> int \<Rightarrow> int \<Rightarrow> MonitorModel \<Rightarrow> draw_call list \<times> MonitorModel" where
  "renderSelf lc ox oy width height s =
     (let s' = settle_frame lc height s;
          calls = (case mo_detailView s of
              Some url \<Rightarrow> (case find (\<lambda>ep. ep_url ep = url) (mo_endpoints s) of
                  Some ep \<Rightarrow> renderDetail s width height ep | None \<Rightarrow> [])
            | None \<Rightarrow> draw_list lc width height s')
      in (map (placed ox oy) (Fill 0 0 width height Bg # calls), s'))"

end
