(* ===== verification/Monitor_Draw_Props.thy ===== *)
theory Monitor_Draw_Props
  imports Monitor_Draw
begin

text \<open>
  What the frames guarantee: the loop that marks the filter's terms ends and marks exactly their
  occurrences, charts are rectangles, rows have the width of the header, and one panel beside the
  rows fills the terminal exactly.
\<close>

subsection \<open>Highlighting\<close>

lemma length_marked_at [simp]: "i + n \<le> length marks \<Longrightarrow> length (marked_at i n marks) = length marks"
  by (simp add: marked_at_def)

lemma nth_marked_at:
  "i + n \<le> length marks \<Longrightarrow> j < length marks \<Longrightarrow> marked_at i n marks ! j = (marks ! j \<or> i \<le> j \<and> j < i + n)"
  by (auto simp: marked_at_def nth_append)

lemma toLowerCase_Nil [simp]: "toLowerCase s = [] \<longleftrightarrow> s = []"
  by (simp add: toLowerCase_def)

lemma length_toLowerCase [simp]: "length (toLowerCase s) = length s"
  by (simp add: toLowerCase_def)

lemma mark_loop_ends: "needle \<noteq> [] \<Longrightarrow> mark_loop lower needle start marks = Some (mark_term lower needle start marks)"
proof (induction lower needle start marks rule: mark_term.induct)
  case (1 lower needle start marks)
  then show ?case
    by (subst mark_loop.simps, subst mark_term.simps) (auto split: option.split)
qed

lemma mark_term_length: "length marks = length lower \<Longrightarrow> length (mark_term lower needle start marks) = length lower"
proof (induction lower needle start marks rule: mark_term.induct)
  case (1 lower needle start marks)
  show ?case
  proof (cases "if needle = [] then None else index_of lower needle start")
    case None
    with "1.prems" show ?thesis by (subst mark_term.simps) simp
  next
    case (Some i)
    then have "i + length needle \<le> length lower" by (auto dest: index_of_bounds split: if_splits)
    with "1.prems" have "length (marked_at i (length needle) marks) = length lower" by simp
    from "1.IH" [OF Some this] Some show ?thesis by (subst mark_term.simps) simp
  qed
qed

definition occurs_at :: "string \<Rightarrow> string \<Rightarrow> nat \<Rightarrow> bool" where
  "occurs_at needle s i \<longleftrightarrow> i \<le> length s \<and> prefix needle (drop i s)"

definition covered :: "string \<Rightarrow> string \<Rightarrow> nat \<Rightarrow> nat \<Rightarrow> bool" where
  "covered needle s start j \<longleftrightarrow> (\<exists>i. start \<le> i \<and> i \<le> j \<and> j < i + length needle \<and> occurs_at needle s i)"

lemma index_of_Some:
  assumes "needle \<noteq> []" "index_of s needle start = Some i"
  shows "occurs_at needle s i \<and> (\<forall>k. start \<le> k \<and> k < i \<longrightarrow> \<not> occurs_at needle s k)"
proof -
  have b: "start \<le> i" "i + length needle \<le> length s" using index_of_bounds [OF assms] by auto
  then have "start \<le> length s" by simp
  with assms(2) obtain k where k: "first_at needle (drop start s) = Some k" "i = start + k"
    by (auto simp: index_of_def Let_def)
  note f = first_at_Some [OF k(1)]
  have "\<not> occurs_at needle s k'" if "start \<le> k'" "k' < i" for k'
  proof -
    have "k' - start < k" using that k(2) by linarith
    with f have "\<not> prefix needle (drop (k' - start) (drop start s))" by blast
    with that(1) show ?thesis by (simp add: occurs_at_def)
  qed
  with f k(2) b show ?thesis by (auto simp: occurs_at_def add.commute)
qed

lemma index_of_None:
  assumes "needle \<noteq> []" "index_of s needle start = None" "start \<le> k"
  shows "\<not> occurs_at needle s k"
proof (cases "k \<le> length s")
  case True
  with assms have "first_at needle (drop start s) = None" by (simp add: index_of_def Let_def)
  from first_at_None [OF this, of "k - start"] assms(3) show ?thesis by (simp add: occurs_at_def)
qed (simp add: occurs_at_def)

lemma mark_term_marks:
  assumes "needle \<noteq> []" "length marks = length lower" "j < length lower"
  shows "mark_term lower needle start marks ! j = (marks ! j \<or> covered needle lower start j)"
  using assms
proof (induction lower needle start marks rule: mark_term.induct)
  case (1 lower needle start marks)
  show ?case
  proof (cases "index_of lower needle start")
    case None
    then have "\<not> covered needle lower start j"
      using index_of_None [OF "1.prems"(1) None] by (auto simp: covered_def)
    with None show ?thesis by (subst mark_term.simps) simp
  next
    case (Some i)
    note i = index_of_bounds [OF "1.prems"(1) Some] index_of_Some [OF "1.prems"(1) Some]
    have step: "covered needle lower start j \<longleftrightarrow> i \<le> j \<and> j < i + length needle \<or> covered needle lower (i + 1) j"
      unfolding covered_def using i by (auto simp: Suc_le_eq)
    have "mark_term lower needle start marks = mark_term lower needle (i + 1) (marked_at i (length needle) marks)"
      using Some "1.prems"(1) by (subst mark_term.simps) simp
    moreover have "mark_term lower needle (i + 1) (marked_at i (length needle) marks) ! j =
        (marked_at i (length needle) marks ! j \<or> covered needle lower (i + 1) j)"
      by (rule "1.IH") (use Some "1.prems" i in simp_all)
    moreover have "marked_at i (length needle) marks ! j = (marks ! j \<or> i \<le> j \<and> j < i + length needle)"
      by (rule nth_marked_at) (use i "1.prems" in simp_all)
    ultimately show ?thesis using step by auto
  qed
qed

text \<open>All terms, with the loop as the code has it.\<close>

definition mark_all :: "string \<Rightarrow> string list \<Rightarrow> bool list option" where
  "mark_all route terms =
     fold (\<lambda>term m. Option.bind m (mark_loop (toLowerCase route) (toLowerCase term) 0)) terms
       (Some (replicate (length route) False))"

lemma splitFilter_not_empty: "[] \<notin> set (splitFilter f)"
  by (simp add: splitFilter_def)

lemma fold_marks_Some: "[] \<notin> set terms \<Longrightarrow>
    fold (\<lambda>term m. Option.bind m (mark_loop lower (toLowerCase term) 0)) terms (Some marks) =
    Some (fold (\<lambda>term. mark_term lower (toLowerCase term) 0) terms marks)"
  by (induction terms arbitrary: marks) (auto simp: mark_loop_ends)

lemma first_at_Nil: "first_at [] s = Some 0"
  by (cases s) simp_all

lemma mark_loop_Some: "mark_loop lower needle start marks = Some r \<Longrightarrow> needle \<noteq> []"
proof (rule mark_loop.raw_induct [where P = "\<lambda>lower needle start marks r. needle \<noteq> []"], goal_cases)
  case (1 loop lower needle start marks r)
  from "1"(3) show ?case
    by (cases needle) (auto simp: index_of_def first_at_Nil Let_def dest: "1"(2))
qed

text \<open>C39. The loop that highlights a route's filter terms ends, whatever the user types: the filter has no
  empty term, and the loop of every other term goes from one occurrence to a later one. For an empty term
  the same loop would never end, on any route: it is found again at the end of the route.\<close>

theorem highlight_ends:
  "mark_all route (splitFilter f) = Some (route_marks route (splitFilter f)) \<and> mark_loop lower [] start marks = None"
proof
  show "mark_all route (splitFilter f) = Some (route_marks route (splitFilter f))"
    by (simp add: mark_all_def route_marks_def fold_marks_Some splitFilter_not_empty)
  show "mark_loop lower [] start marks = None"
    using mark_loop_Some [of lower "[]" start marks] by (cases "mark_loop lower [] start marks") simp_all
qed

lemma fold_mark_length: "length marks = length lower \<Longrightarrow>
    length (fold (\<lambda>term. mark_term lower (toLowerCase term) 0) terms marks) = length lower"
  by (induction terms arbitrary: marks) (simp_all add: mark_term_length)

lemma fold_mark_marks:
  assumes "[] \<notin> set terms" "length marks = length lower" "j < length lower"
  shows "fold (\<lambda>term. mark_term lower (toLowerCase term) 0) terms marks ! j =
    (marks ! j \<or> (\<exists>term \<in> set terms. covered (toLowerCase term) lower 0 j))"
  using assms by (induction terms arbitrary: marks) (auto simp: mark_term_marks mark_term_length)

lemma route_marks_length [simp]: "length (route_marks route terms) = length route"
  by (simp add: route_marks_def fold_mark_length)

lemma mark_runs_text: "concat (map fst (mark_runs cs)) = map fst cs"
  by (induction cs rule: mark_runs.induct) (auto split: list.splits prod.splits)

text \<open>The characters that pieces draw, each with whether it is drawn in the style of a mark.\<close>

abbreviation drawn_chars :: "(glyphs \<times> pen) list \<Rightarrow> (nat \<times> bool) list" where
  "drawn_chars cells \<equiv> concat (map (\<lambda>(piece, p). map (\<lambda>g. (g, pen_attrs p = Bold_Underline)) piece) cells)"

lemma mark_runs_flags: "concat (map (\<lambda>(piece, m). map (\<lambda>c. (c, m)) piece) (mark_runs cs)) = cs"
  by (induction cs rule: mark_runs.induct) (auto split: list.splits prod.splits)

lemma drawn_runs:
  "drawn_chars (map (\<lambda>(s, m). (codes s, in_style (if m then Bold_Underline else Plain) (ink_on fg bg))) runs) =
    map (\<lambda>(c, m). (of_char c, m)) (concat (map (\<lambda>(piece, m). map (\<lambda>c. (c, m)) piece) runs))"
  by (induction runs) (auto simp: codes_def in_style_def)

lemma marked_char:
  assumes "j < length route"
  shows "route_marks route (splitFilter f) ! j \<longleftrightarrow>
      (\<exists>term \<in> set (splitFilter f). \<exists>i \<le> j. j < i + length term \<and>
        prefix (toLowerCase term) (drop i (toLowerCase route)))"
proof -
  have "route_marks route (splitFilter f) ! j = (\<exists>term \<in> set (splitFilter f). covered (toLowerCase term) (toLowerCase route) 0 j)"
    unfolding route_marks_def using assms by (subst fold_mark_marks) (simp_all add: splitFilter_not_empty)
  then show ?thesis using assms unfolding covered_def occurs_at_def by fastforce
qed

text \<open>C40. What is highlighted: the pieces that are drawn for a route are its characters, in order, and a character is
  drawn in the style of a mark exactly when the row is not the selected one and the character lies inside an occurrence of
  one of the terms of the filter, letter case aside; occurrences may overlap.\<close>

theorem highlight_covers:
  "drawn_chars (highlight_cells route (splitFilter f) fg bg selected) =
    map (\<lambda>j. (of_char (route ! j), \<not> selected \<and>
        (\<exists>term \<in> set (splitFilter f). \<exists>i \<le> j. j < i + length term \<and>
          prefix (toLowerCase term) (drop i (toLowerCase route))))) [0..<length route]"
proof (cases "splitFilter f = [] \<or> selected")
  case True
  then have "highlight_cells route (splitFilter f) fg bg selected = [(codes route, ink_on fg bg)]"
    unfolding highlight_cells_def by (rule if_P)
  then have "drawn_chars (highlight_cells route (splitFilter f) fg bg selected) = map (\<lambda>c. (of_char c, False)) route"
    by (simp add: codes_def ink_on_def)
  also have "\<dots> = map (\<lambda>j. (of_char (route ! j), False)) [0..<length route]" by (rule nth_equalityI) simp_all
  finally show ?thesis using True by auto
next
  case False
  have "drawn_chars (highlight_cells route (splitFilter f) fg bg selected) =
      map (\<lambda>(c, m). (of_char c, m)) (zip route (route_marks route (splitFilter f)))"
    using False unfolding highlight_cells_def by (simp only: de_Morgan_disj if_False simp_thms drawn_runs mark_runs_flags)
  also have "\<dots> = map (\<lambda>j. (of_char (route ! j), route_marks route (splitFilter f) ! j)) [0..<length route]"
    by (rule nth_equalityI) simp_all
  also have "\<dots> = map (\<lambda>j. (of_char (route ! j), \<not> selected \<and>
        (\<exists>term \<in> set (splitFilter f). \<exists>i \<le> j. j < i + length term \<and>
          prefix (toLowerCase term) (drop i (toLowerCase route))))) [0..<length route]"
    using False by (intro map_cong refl) (simp add: marked_char)
  finally show ?thesis .
qed

theorem highlight_covers_witness:
  "drawn_chars (highlight_cells ''ros://Pose'' (splitFilter ''po os'') Fg Black False) =
    map (\<lambda>j. (of_char (''ros://Pose'' ! j), \<not> False \<and>
        (\<exists>term \<in> set (splitFilter ''po os''). \<exists>i \<le> j. j < i + length term \<and>
          prefix (toLowerCase term) (drop i (toLowerCase ''ros://Pose''))))) [0..<length ''ros://Pose'']"
  by (rule highlight_covers)

subsection \<open>Charts\<close>

lemma length_codes [simp]: "length (codes s) = length s"
  by (simp add: codes_def)

lemma length_blanks [simp]: "length (blanks n) = n"
  by (simp add: blanks_def)

lemma length_last_part: "0 < n \<Longrightarrow> length (last_part n xs) \<le> n"
  by (simp add: last_part_def)

lemma chart_row_width: "length values \<le> width \<Longrightarrow> length (chart_row unitValue chars width lo hi values row) = width + 8"
  by (simp add: chart_row_def Let_def)

text \<open>A chart is a rectangle: whatever the data, it has six lines of the chart's width and eight
  columns for the scale.\<close>

theorem mini_chart_rectangle:
  assumes "0 < width"
  shows "map length (renderMiniChart title data unit' width unitValue dotMode) = replicate 6 (width + 8)"
proof -
  have "map length (renderMiniChart title data unit' width unitValue dotMode) =
      [width + 8, width + 8, width + 8, width + 8, width + 8, width + 8]"
    by (simp add: renderMiniChart_def Let_def chart_row_width length_last_part [OF assms])
  also have "\<dots> = replicate 6 (width + 8)" by (simp add: numeral_eq_Suc)
  finally show ?thesis .
qed

theorem mini_chart_rectangle_witness:
  "map length (renderMiniChart ''Freq'' [1, 5 / 2, 40] ''Hz'' 12 1000 True) = replicate 6 (12 + 8)"
  by (rule mini_chart_rectangle) simp

subsection \<open>Rows\<close>

lemma fold_longest_ge: "m \<le> fold (\<lambda>x. max (length (f x))) xs m"
proof (induction xs arbitrary: m)
  case (Cons a xs)
  from Cons [of "max (length (f a)) m"] show ?case by simp
qed simp

lemma fold_longest: "x \<in> set xs \<Longrightarrow> length (f x) \<le> fold (\<lambda>x. max (length (f x))) xs m"
proof (induction xs arbitrary: m)
  case (Cons a xs)
  then show ?case using fold_longest_ge [of "max (length (f a)) m" f xs] by auto
qed simp

lemma longest_ge: "x \<in> set xs \<Longrightarrow> length (f x) \<le> longest f xs"
  by (simp add: longest_def fold_longest)

definition cells_width :: "(glyphs \<times> pen) list \<Rightarrow> nat" where
  "cells_width cells = sum_list (map (length \<circ> fst) cells)"

lemma cells_width_simps [simp]:
  "cells_width [] = 0" "cells_width ((t, p) # r) = length t + cells_width r"
  "cells_width (r @ r') = cells_width r + cells_width r'"
  by (simp_all add: cells_width_def)

lemma sum_length_concat: "sum_list (map length xss) = length (concat xss)"
  by (simp add: length_concat)

lemma highlight_width [simp]: "cells_width (highlight_cells route terms fg bg selected) = length route"
proof (cases "terms = [] \<or> selected")
  case False
  let ?runs = "mark_runs (zip route (route_marks route terms))"
  have "cells_width (highlight_cells route terms fg bg selected) = sum_list (map length (map fst ?runs))"
    using False by (simp add: highlight_cells_def cells_width_def comp_def case_prod_unfold)
  also have "\<dots> = length (concat (map fst ?runs))" by (rule sum_length_concat)
  also have "\<dots> = length route" by (simp only: mark_runs_text) simp
  finally show ?thesis .
qed (auto simp: highlight_cells_def)

lemma detail_cells_width [simp]: "cells_width (detail_cells st fg bg selected selectedFg) = 45"
  by (simp add: detail_cells_def)

text \<open>Texts whose pen has no width take their own length, one after the other.\<close>

lemma draw_all_column:
  "\<forall>(t, p) \<in> set cells. pen_width p = None \<Longrightarrow> snd (draw_all x y cells) = x + int (cells_width cells)"
proof (induction cells arbitrary: x)
  case (Cons c cells)
  obtain t p where c: "c = (t, p)" by (cases c)
  have "snd (drawText x y t p) = x + int (length t)" using Cons.prems by (auto simp: c drawText_def Let_def nullish_def)
  with Cons c show ?case by (auto simp: case_prod_unfold)
qed simp

lemma endpoint_pens: "\<forall>(t, p) \<in> set (endpoint_cells s ep u v selected). pen_width p = None"
  by (auto simp: endpoint_cells_def highlight_cells_def detail_cells_def ink_on_def in_style_def Let_def
      split: if_splits)

text \<open>For every endpoint that is shown, in every mode and selected or not, the texts of its row are together as wide as
  the header, and the next column is the one that \<open>computeMainWidth\<close> says.\<close>

theorem rows_fill_the_header:
  assumes "ep \<in> set es"
  shows "snd (draw_all x y (endpoint_cells s ep (longest ep_url es) (longest ep_serType es) selected)) =
      x + int (computeMainWidth (mo_options s) (longest ep_url es) (longest ep_serType es))
    \<and> length (header_text (mo_options s) (longest ep_url es) (longest ep_serType es)) =
      computeMainWidth (mo_options s) (longest ep_url es) (longest ep_serType es)"
proof
  let ?u = "longest ep_url es" and ?v = "longest ep_serType es"
  have u: "length (ep_url ep) + max 3 (?u + 3 - length (ep_url ep)) = ?u + 3"
    using longest_ge [OF assms, of ep_url] by linarith
  have v: "length (ep_serType ep) + max 3 (?v + 3 - length (ep_serType ep)) = ?v + 3"
    using longest_ge [OF assms, of ep_serType] by linarith
  have "cells_width (endpoint_cells s ep ?u ?v selected) = computeMainWidth (mo_options s) ?u ?v"
    using u v by (simp add: endpoint_cells_def computeMainWidth_def Let_def)
  then show "snd (draw_all x y (endpoint_cells s ep ?u ?v selected)) = x + int (computeMainWidth (mo_options s) ?u ?v)"
    by (simp only: draw_all_column [OF endpoint_pens])
  show "length (header_text (mo_options s) ?u ?v) = computeMainWidth (mo_options s) ?u ?v"
    by (simp add: header_text_def computeMainWidth_def)
qed


theorem rows_fill_the_header_witness:
  "let ep = \<lparr>ep_type = publisher_bit, ep_url = ''ros2://robot/pose'', ep_runtimeUrl = None, ep_serType = ''geometry_msgs/Pose'',
       ep_schemaType = Schema_Proto, ep_processList = [], ep_sources = [], ep_routeNames = [''pose'']\<rparr>;
       s = new_model (default_options (\<lambda>_. None) [] None)
   in snd (draw_all 0 2 (endpoint_cells s ep (longest ep_url [ep]) (longest ep_serType [ep]) True)) =
      0 + int (computeMainWidth (mo_options s) (longest ep_url [ep]) (longest ep_serType [ep]))
    \<and> length (header_text (mo_options s) (longest ep_url [ep]) (longest ep_serType [ep])) =
      computeMainWidth (mo_options s) (longest ep_url [ep]) (longest ep_serType [ep])"
  unfolding Let_def by (rule rows_fill_the_header) simp

subsection \<open>Panels\<close>

definition layout_width :: "frame_layout \<Rightarrow> int" where
  "layout_width fl = fl_main fl + fl_chart fl + fl_process fl + (if fl_chart fl \<noteq> 0 then 1 else 0) + (if fl_process fl \<noteq> 0 then 1 else 0)"

lemma main_width_large: "28 \<le> 1 + computeMainWidth opts (longest f es) v"
  using fold_longest_ge [of 16 f es] by (simp add: computeMainWidth_def longest_def)

text \<open>One panel beside the rows leaves them their full width, and the frame fills the terminal.\<close>

theorem one_panel_fits:
  assumes "20 \<le> viewWidth" "fl = frame_layout_of opts es viewWidth" "fl_chart fl = 0 \<or> fl_process fl = 0"
    "10 \<le> op_chartWidth opts" "20 \<le> op_processWidth opts"
  shows "layout_width fl = viewWidth \<and>
    (fl_chart fl \<noteq> 0 \<or> fl_process fl \<noteq> 0 \<longrightarrow> int (computeMainWidth opts (fl_url fl) (fl_ser fl)) < fl_main fl)"
proof -
  let ?w = "int (computeMainWidth opts (longest ep_url es) (longest ep_serType es))"
  define c where "c = (op_chartMode opts \<and> op_detailMode opts \<and> viewWidth \<ge> ?w + op_chartWidth opts + 10)"
  define p where "p = (op_processMode opts \<and> viewWidth \<ge> ?w + op_processWidth opts + 4)"
  have fl: "fl_url fl = longest ep_url es" "fl_ser fl = longest ep_serType es"
    "fl_chart fl = (if c then op_chartWidth opts + 8 else 0)" "fl_process fl = (if p then op_processWidth opts else 0)"
    "fl_main fl = max 20 (viewWidth - fl_chart fl - fl_process fl - (if fl_chart fl \<noteq> 0 then 1 else 0) - (if fl_process fl \<noteq> 0 then 1 else 0))"
    unfolding assms(2) c_def p_def by (simp_all add: frame_layout_of_def Let_def)
  have "27 \<le> ?w" using main_width_large [of opts ep_url es "longest ep_serType es"] by linarith
  moreover have "c \<Longrightarrow> ?w + op_chartWidth opts + 10 \<le> viewWidth" "p \<Longrightarrow> ?w + op_processWidth opts + 4 \<le> viewWidth"
    by (simp_all add: c_def p_def)
  ultimately show ?thesis
    using assms(1,3-5) unfolding layout_width_def fl by (cases c; cases p) simp_all
qed

text \<open>Each panel is checked as if it were alone: with both, the frame can be wider than the terminal, and the
  rows narrower than their columns.\<close>

theorem two_panels_overflow:
  "let opts = (default_options (\<lambda>_. None) [] None)\<lparr>op_detailMode := True, op_processMode := True, op_chartMode := True,
       op_chartWidth := 60, op_processWidth := 60\<rparr>; fl = frame_layout_of opts [] 145
   in layout_width fl = 150 \<and> fl_main fl = 20 \<and> computeMainWidth opts (fl_url fl) (fl_ser fl) = 72"
  by code_simp

end
