(* ===== verification/Js_Values.thy ===== *)
theory Js_Values
  imports Monitor_Yaml Collector_Text Formats
begin

text \<open>
  Values of JavaScript as the interface scaffold handles them (\<open>bin/interface-scaffold\<close>): what the YAML
  reader returns, with \<^const>\<open>None\<close> for \<open>undefined\<close>. A property that is set to \<open>undefined\<close> is a
  property that is absent: the code only ever tests for \<open>undefined\<close>.
\<close>

type_synonym js_value = "YamlValue option"

text \<open>\<open>String(v)\<close>. The items of an array that are null print as nothing.\<close>

fun js_string :: "YamlValue \<Rightarrow> string" where
  "js_string (YString s) = s"
| "js_string (YNumber m d) = number_string m d"
| "js_string (YBool b) = (if b then ''true'' else ''false'')"
| "js_string YNull = ''null''"
| "js_string (YObject es) = ''[object Object]''"
| "js_string (YArray xs) = join '','' (map (\<lambda>v. if v = YNull then [] else js_string v) xs)"

fun truthy :: "js_value \<Rightarrow> bool" where
  "truthy None = False"
| "truthy (Some YNull) = False"
| "truthy (Some (YString s)) \<longleftrightarrow> s \<noteq> []"
| "truthy (Some (YNumber m d)) \<longleftrightarrow> m \<noteq> 0"
| "truthy (Some (YBool b)) \<longleftrightarrow> b"
| "truthy (Some v) = True"

definition is_nullish :: "js_value \<Rightarrow> bool" where
  "is_nullish v \<longleftrightarrow> v = None \<or> v = Some YNull"

text \<open>The first of \<open>a ?? b ?? c\<close>, and of \<open>a || b || c\<close>; \<^const>\<open>None\<close> when there is none.\<close>

definition first_set :: "js_value list \<Rightarrow> js_value" where
  "first_set vs = (case filter (\<lambda>v. \<not> is_nullish v) vs of v # _ \<Rightarrow> v | [] \<Rightarrow> None)"

definition first_true :: "js_value list \<Rightarrow> js_value" where
  "first_true vs = (case filter truthy vs of v # _ \<Rightarrow> v | [] \<Rightarrow> None)"

text \<open>\<open>String(v || "")\<close> and \<open>String(v ?? "")\<close>.\<close>

definition text_or_empty :: "js_value \<Rightarrow> string" where
  "text_or_empty v = (if truthy v then js_string (the v) else [])"

definition text_of :: "js_value \<Rightarrow> string" where
  "text_of v = (if is_nullish v then [] else js_string (the v))"

text \<open>\<open>v?.k\<close>: the values that are not objects have none of the properties that the code reads.\<close>

fun field :: "js_value \<Rightarrow> string \<Rightarrow> js_value" where
  "field (Some (YObject es)) k = yaml_get es k"
| "field _ k = None"

definition put :: "string \<Rightarrow> YamlValue \<Rightarrow> YamlObject \<Rightarrow> YamlObject" where
  "put k v es = AList.update k v es"

abbreviation put_text :: "string \<Rightarrow> string \<Rightarrow> YamlObject \<Rightarrow> YamlObject" where
  "put_text k s \<equiv> put k (YString s)"

definition put_all :: "YamlObject \<Rightarrow> YamlObject \<Rightarrow> YamlObject" where
  "put_all new es = fold (\<lambda>(k, v). put k v) new es"

text \<open>\<open>es[k] ??= v\<close>.\<close>

definition put_if_unset :: "string \<Rightarrow> YamlValue \<Rightarrow> YamlObject \<Rightarrow> YamlObject" where
  "put_if_unset k v es = (if is_nullish (yaml_get es k) then put k v es else es)"

text \<open>The keys of a list that are defined in \<open>src\<close> are copied.\<close>

definition copy_keys :: "string list \<Rightarrow> YamlObject \<Rightarrow> YamlObject \<Rightarrow> YamlObject" where
  "copy_keys ks src es = fold (\<lambda>k es. case yaml_get src k of Some v \<Rightarrow> put k v es | None \<Rightarrow> es) ks es"

text \<open>\<open>Object.entries(v)\<close> and \<open>{...v}\<close>: arrays and strings have their positions as keys.\<close>

fun entries_of :: "js_value \<Rightarrow> (string \<times> YamlValue) list" where
  "entries_of (Some (YObject es)) = object_entries es"
| "entries_of (Some (YArray xs)) = zip (map nat_str [0..<length xs]) xs"
| "entries_of (Some (YString s)) = zip (map nat_str [0..<length s]) (map (\<lambda>c. YString [c]) s)"
| "entries_of _ = []"

fun spread_of :: "js_value \<Rightarrow> YamlObject" where
  "spread_of (Some (YObject es)) = es"
| "spread_of v = entries_of v"

fun items_of :: "js_value \<Rightarrow> YamlValue list" where
  "items_of (Some (YArray xs)) = xs"
| "items_of _ = []"

definition is_array :: "js_value \<Rightarrow> bool" where
  "is_array v \<longleftrightarrow> (case v of Some (YArray xs) \<Rightarrow> True | _ \<Rightarrow> False)"

definition is_text :: "js_value \<Rightarrow> string \<Rightarrow> bool" where
  "is_text v s \<longleftrightarrow> v = Some (YString s)"

subsection \<open>Laws\<close>

lemma get_put [simp]: "yaml_get (put k v es) k' = (if k' = k then Some v else yaml_get es k')"
  by (simp add: yaml_get_def put_def update_conv')

lemma get_delete [simp]: "yaml_get (AList.delete k es) k' = (if k' = k then None else yaml_get es k')"
  by (simp add: yaml_get_def delete_conv')

lemma get_put_if_unset [simp]:
  "yaml_get (put_if_unset k v es) k' = (if k' = k \<and> is_nullish (yaml_get es k) then Some v else yaml_get es k')"
  by (simp add: put_if_unset_def)

lemma get_copy_keys:
  "yaml_get (copy_keys ks src es) k = (if k \<in> set ks \<and> yaml_get src k \<noteq> None then yaml_get src k else yaml_get es k)"
  unfolding copy_keys_def by (induction ks arbitrary: es) (auto split: option.splits)

lemma get_put_all:
  "distinct (map fst new) \<Longrightarrow>
    yaml_get (put_all new es) k = (case yaml_get new k of None \<Rightarrow> yaml_get es k | Some v \<Rightarrow> Some v)"
  unfolding put_all_def
proof (induction new arbitrary: es)
  case (Cons e new)
  obtain k0 v0 where e: "e = (k0, v0)" by (cases e)
  with Cons.prems have new: "map_of new k0 = None" by (auto simp: map_of_eq_None_iff)
  have "distinct (map fst new)" using Cons.prems by simp
  from Cons.IH [OF this, of "put k0 v0 es"] show ?case
    using new by (auto simp: e yaml_get_def put_def update_conv' split: option.splits)
qed (simp add: yaml_get_def)

lemma field_Some_Object [simp]: "field (Some (YObject es)) = yaml_get es"
  by (rule ext) simp

lemma truthy_text [simp]: "truthy (Some (YString s)) \<longleftrightarrow> s \<noteq> []"
  by simp

lemma nullish_Some_text [simp]: "is_nullish (Some (YString s)) \<longleftrightarrow> False" "is_nullish None"
  by (simp_all add: is_nullish_def)

lemma text_of_text [simp]: "text_of (Some (YString s)) = s" "text_or_empty (Some (YString s)) = s"
  "text_of None = []" "text_or_empty None = []"
  by (simp_all add: text_of_def text_or_empty_def)

end
