(* ===== verification/Scaffold_Routes.thy ===== *)
theory Scaffold_Routes
  imports Js_Values
begin

text \<open>
  The routes of a module for the interface scaffold (\<open>bin/interface-scaffold/manifest.mjs\<close>): formats and
  transports, the execution plan of a middleware, the addresses of a binding, and the normal form of
  a route that names its middlewares. A thrown error, and a method called on a value that has not
  got it, is \<^const>\<open>Inl\<close>.
\<close>

datatype route_kind = Service_Route | Topic_Route

subsection \<open>Words\<close>

definition normalized_word :: "string \<Rightarrow> string" where
  "normalized_word s = replace_char (CHR ''-'') (CHR ''_'') (toLowerCase (trim s))"

definition normalizeTransport :: "js_value \<Rightarrow> string" where
  "normalizeTransport v = normalized_word (text_or_empty v)"

definition normalizeTransportProtocol :: "js_value \<Rightarrow> string" where
  "normalizeTransportProtocol v =
     (let normalized = normalizeTransport v in
      if normalized \<in> set [''nats'', ''nats_topic'', ''nats_rpc''] then ''nats''
      else if normalized \<in> set [''cyclonedds'', ''cyclone_dds''] then ''cyclonedds''
      else if normalized \<in> set [''fastdds'', ''fast_dds'', ''fastrtps'', ''fast_rtps''] then ''fastdds''
      else if normalized \<in> set [''ros2'', ''ros2_topic'', ''ros2_service''] then ''ros2''
      else [])"

definition transportFamilyFromTransportName :: "js_value \<Rightarrow> string" where
  "transportFamilyFromTransportName v =
     (let normalized = normalizeTransport v in
      if normalized = ''ros2_topic'' \<or> normalized = ''ros2_service'' then ''ros2''
      else if normalized = ''cyclonedds_topic'' \<or> normalized = ''cyclonedds_rpc'' then ''cyclonedds''
      else if normalized = ''fastdds_topic'' \<or> normalized = ''fastdds_rpc'' then ''fastdds''
      else if normalized = ''nats_topic'' \<or> normalized = ''nats_rpc'' then ''nats''
      else [])"

subsection \<open>Formats\<close>

definition topicPayloadFormat :: "js_value \<Rightarrow> string" where
  "topicPayloadFormat v =
     (let normalized = normalizeTransport v in
      if normalized \<in> set [''proto'', ''protobuf'', ''protobuf_message''] then ''protobuf''
      else if normalized \<in> set [''msg'', ''ros2_msg'', ''rosidl_msg''] then ''ros2_msg''
      else if normalized \<in> set [''dds_idl'', ''omg_idl'', ''omg_dds_idl'', ''ddsidl'', ''omgidl''] then ''dds_idl''
      else if normalized \<in> set [''bytes'', ''raw'', ''cdr'', ''cdr_bytes''] then ''bytes''
      else or_else normalized ''bytes'')"

definition inferTopicPayloadFormat :: "string \<Rightarrow> string" where
  "inferTopicPayloadFormat v =
     (if has_sub v ''/msg/'' then ''ros2_msg'' else if has_sub v ''::'' then ''dds_idl''
      else if v \<noteq> [] then ''protobuf'' else [])"

definition topicPayloadFormatFor :: "js_value \<Rightarrow> string \<Rightarrow> string" where
  "topicPayloadFormatFor data type' =
     (if normalizeTransport data \<noteq> [] then topicPayloadFormat data
      else or_else (inferTopicPayloadFormat type') (topicPayloadFormat data))"

definition serviceContractFormat :: "js_value \<Rightarrow> string" where
  "serviceContractFormat v =
     (let normalized = normalizeTransport v in
      if normalized \<in> set [''proto'', ''protobuf'', ''protobuf_rpc'', ''request_reply'', ''request_response'']
      then ''protobuf_rpc''
      else if normalized \<in> set [''srv'', ''ros2_srv'', ''rosidl_srv''] then ''ros2_srv''
      else if normalized \<in> set [''dds_idl'', ''omg_idl'', ''omg_dds_idl'', ''ddsidl'', ''omgidl'', ''dds_idl_rpc'',
        ''omg_idl_rpc'', ''omg_dds_rpc_idl''] then ''dds_idl_rpc''
      else if normalized = ''json'' then ''json_rpc''
      else if normalized \<in> set [''bytes'', ''raw'', ''cdr'', ''cdr_bytes''] then ''bytes_rpc''
      else or_else normalized ''bytes_rpc'')"

definition inferServiceContractFormat :: "string \<Rightarrow> string" where
  "inferServiceContractFormat v =
     (if has_sub v ''/srv/'' then ''ros2_srv'' else if has_sub v ''::'' then ''dds_idl_rpc''
      else if v \<noteq> [] then ''protobuf_rpc'' else [])"

definition serviceContractFormatFor :: "js_value \<Rightarrow> string \<Rightarrow> string" where
  "serviceContractFormatFor data type' =
     (if normalizeTransport data \<noteq> [] then serviceContractFormat data
      else or_else (inferServiceContractFormat type') (serviceContractFormat data))"

definition format_for :: "route_kind \<Rightarrow> js_value \<Rightarrow> string" where
  "format_for kind v = (case kind of Service_Route \<Rightarrow> serviceContractFormat v | Topic_Route \<Rightarrow> topicPayloadFormat v)"

definition isNativeDdsFormat :: "string \<Rightarrow> route_kind \<Rightarrow> bool" where
  "isNativeDdsFormat format kind =
     (let normalized = normalizeTransport (Some (YString format)) in
      case kind of
        Service_Route \<Rightarrow> normalized \<in> set [''protobuf_rpc'', ''dds_idl_rpc'']
      | Topic_Route \<Rightarrow> normalized \<in> set [''protobuf'', ''dds_idl''])"

subsection \<open>Execution plans\<close>

text \<open>A plan without a runtime name has \<open>pl_runtime\<close> empty.\<close>

record execution_plan =
  pl_transport :: string
  pl_middleware :: string
  pl_runtime :: string
  pl_family :: string
  pl_implementation :: string

definition by_kind :: "route_kind \<Rightarrow> 'a \<Rightarrow> 'a \<Rightarrow> 'a" where
  "by_kind kind s t = (case kind of Service_Route \<Rightarrow> s | Topic_Route \<Rightarrow> t)"

definition executionPlan :: "string \<Rightarrow> js_value \<Rightarrow> route_kind \<Rightarrow> execution_plan result" where
  "executionPlan protocol data kind =
     (let normalizedProtocol = normalizeTransportProtocol (Some (YString protocol));
          native = isNativeDdsFormat (format_for kind data) kind;
          ros2 = by_kind kind ''ros2_service'' ''ros2_topic''
      in if normalizedProtocol = [] then
           Inl (if trim protocol \<noteq> []
             then ''Unsupported high-level route middleware '' @ quoted (trim protocol) @ ''; use nats, cyclonedds, fastdds, or ros2''
             else ''High-level route middleware is required; use nats, cyclonedds, fastdds, or ros2'')
         else if normalizedProtocol = ''cyclonedds'' then
           Inr (if native
             then \<lparr>pl_transport = by_kind kind ''cyclonedds_rpc'' ''cyclonedds_topic'', pl_middleware = ''cyclonedds'',
                   pl_runtime = [], pl_family = ''cyclonedds'', pl_implementation = ''native_cyclonedds''\<rparr>
             else \<lparr>pl_transport = ros2, pl_middleware = ''cyclonedds'', pl_runtime = ''cyclonedds__rmw'',
                   pl_family = ''cyclonedds'', pl_implementation = ''rmw_cyclonedds''\<rparr>)
         else if normalizedProtocol = ''fastdds'' then
           Inr (if native
             then \<lparr>pl_transport = by_kind kind ''fastdds_rpc'' ''fastdds_topic'', pl_middleware = ''fastdds'',
                   pl_runtime = [], pl_family = ''fastdds'', pl_implementation = ''native_fastdds''\<rparr>
             else \<lparr>pl_transport = ros2, pl_middleware = ''fastdds'', pl_runtime = ''fastdds__rmw'',
                   pl_family = ''fastdds'', pl_implementation = ''rmw_fastrtps''\<rparr>)
         else if normalizedProtocol = ''ros2'' then
           Inr \<lparr>pl_transport = ros2, pl_middleware = ''ros2'', pl_runtime = [], pl_family = ''ros2'', pl_implementation = []\<rparr>
         else Inr \<lparr>pl_transport = by_kind kind ''nats_rpc'' ''nats_topic'', pl_middleware = ''nats'',
                   pl_runtime = [], pl_family = ''nats'', pl_implementation = []\<rparr>)"

definition applyExecutionMetadata :: "YamlObject \<Rightarrow> YamlObject \<Rightarrow> execution_plan \<Rightarrow> YamlObject" where
  "applyExecutionMetadata binding route plan =
     (let m0 = put_all (spread_of (yaml_get binding ''metadata'')) (put_all (spread_of (yaml_get route ''metadata'')) []);
          m1 = (if pl_family plan \<noteq> [] then put_text ''middleware.family'' (pl_family plan) m0 else m0);
          runtimeName = trim (or_else (pl_runtime plan) (pl_middleware plan));
          m2 = (if runtimeName \<noteq> [] then put_text ''middleware.runtime'' runtimeName m1 else m1);
          m3 = (if pl_implementation plan \<noteq> []
                then put_text ''implementation'' (pl_implementation plan)
                       (put_text ''middleware.implementation'' (pl_implementation plan) m2) else m2);
          m4 = (if pl_implementation plan = ''rmw_cyclonedds'' then put_text ''rmw_implementation'' ''rmw_cyclonedds_cpp'' m3
                else if pl_implementation plan = ''rmw_fastrtps'' then put_text ''rmw_implementation'' ''rmw_fastrtps_cpp'' m3
                else m3)
      in if m4 \<noteq> [] then put ''metadata'' (YObject m4) binding else binding)"

definition applyDdsTypedExecutionMetadata :: "YamlObject \<Rightarrow> js_value \<Rightarrow> js_value \<Rightarrow> YamlObject" where
  "applyDdsTypedExecutionMetadata binding format type' =
     (let normalized = normalizeTransport format in
      if normalized \<noteq> ''dds_idl'' \<and> normalized \<noteq> ''dds_idl_rpc'' then binding
      else
        let unset = (\<lambda>k s. put_if_unset k (YString s));
            m1 = unset ''dds.envelope.type'' ''PacificRimMessageEnvelope''
                  (unset ''dds.codegen'' ''required_for_typed'' (unset ''dds.runtime'' ''typed_native''
                  (unset ''dds.fallback'' ''byte_envelope'' (unset ''dds.mode'' ''typed_preferred''
                  (put_all (spread_of (yaml_get binding ''metadata'')) [])))));
            m2 = (if truthy type' then put_if_unset ''dds.type'' (the type') m1 else m1)
        in put ''metadata'' (YObject m2) binding)"


subsection \<open>Addresses\<close>

definition ros2Address :: "js_value \<Rightarrow> string" where
  "ros2Address v =
     (let t = trim (text_of v) in
      if t = [] \<or> startsWith t ''/'' \<or> startsWith t ''~'' \<or> CHR ''.'' \<notin> set t then t
      else ''/'' @ replace_char (CHR ''.'') (CHR ''/'') t)"

definition normalizeRos2BindingAddress :: "YamlObject \<Rightarrow> route_kind \<Rightarrow> YamlObject" where
  "normalizeRos2BindingAddress binding kind =
     (let transport = normalizeTransport (yaml_get binding ''transport'');
          settle = (\<lambda>k. if yaml_get binding k \<noteq> None then put_text k (ros2Address (yaml_get binding k)) binding else binding)
      in case kind of
           Topic_Route \<Rightarrow> if transport = ''ros2_topic'' then settle ''topic'' else binding
         | Service_Route \<Rightarrow> if transport = ''ros2_service'' then settle ''service'' else binding)"

definition routeAddressFor :: "js_value \<Rightarrow> js_value \<Rightarrow> js_value \<Rightarrow> string" where
  "routeAddressFor addresses middleware transportName =
     (case addresses of
        Some (YObject es) \<Rightarrow>
          (let normalized = normalizeTransport middleware; family = transportFamilyFromTransportName transportName;
               keys = (if truthy middleware then [js_string (the middleware)] else [])
                 @ (if normalized \<noteq> [] then [normalized] else []) @ (if family \<noteq> [] then [family] else []);
               keys' = (if normalized = ''fastdds'' \<and> ''fastdds'' \<notin> set keys then keys @ [''fastdds''] else keys)
           in case filter (\<lambda>k. truthy (yaml_get es k)) keys' of
                k # _ \<Rightarrow> trim (js_string (the (yaml_get es k)))
              | [] \<Rightarrow> [])
      | _ \<Rightarrow> [])"

definition type_error :: string where "type_error = ''TypeError''"

text \<open>The name of a route in its default address, which has to be a text for \<open>startsWith\<close> and
  \<open>replaceAll\<close>.\<close>

definition as_text :: "YamlValue \<Rightarrow> string result" where
  "as_text v = (case v of YString s \<Rightarrow> Inr s | _ \<Rightarrow> Inl type_error)"

definition slashed :: "string \<Rightarrow> string" where
  "slashed name = (if startsWith name ''/'' then name else ''/'' @ replace_char (CHR ''.'') (CHR ''/'') name)"

definition dotted :: "string \<Rightarrow> string" where
  "dotted name = dropWhile (\<lambda>c. c = CHR ''.'') (replace_char (CHR ''/'') (CHR ''.'') name)"

definition has_any :: "string list \<Rightarrow> YamlObject \<Rightarrow> bool" where
  "has_any ks es \<longleftrightarrow> list_ex (\<lambda>k. truthy (yaml_get es k)) ks"

definition route_name :: "string \<Rightarrow> string \<Rightarrow> YamlObject \<Rightarrow> YamlValue" where
  "route_name ref fallback route =
     nullish (first_true (map (yaml_get route) [''logical_route'', ''name'', ref, ''type''])) (YString fallback)"

definition applyDefaultTopicAddress :: "YamlObject \<Rightarrow> YamlObject \<Rightarrow> YamlObject result" where
  "applyDefaultTopicAddress binding route =
     (if has_any [''topic'', ''subject'', ''nats_subject'', ''dds_topic'', ''address''] binding then Inr binding
      else
        let routeName = route_name ''topic_ref'' ''topic'' route; transport = yaml_get binding ''transport''
        in if is_text transport ''nats_topic''
           then Inr (put_text ''subject'' (''robot.topic.'' @ js_string routeName) binding)
           else if is_text transport ''ros2_topic''
           then rbind (as_text routeName) (\<lambda>name. Inr (put_text ''topic'' (slashed name) binding))
           else if is_text transport ''cyclonedds_topic'' \<or> is_text transport ''fastdds_topic''
           then rbind (as_text routeName) (\<lambda>name. Inr (put_text ''topic'' (dotted name) binding))
           else Inr binding)"

definition applyDefaultServiceAddress :: "YamlObject \<Rightarrow> YamlObject \<Rightarrow> YamlObject result" where
  "applyDefaultServiceAddress binding route =
     (if has_any [''service'', ''subject'', ''nats_subject'', ''request'', ''request_channel'', ''address''] binding
      then Inr binding
      else
        let routeName = route_name ''service_ref'' ''service'' route; transport = yaml_get binding ''transport''
        in if is_text transport ''nats_rpc''
           then Inr (put_text ''subject'' (''robot.rpc.'' @ js_string routeName) binding)
           else if is_text transport ''ros2_service''
           then rbind (as_text routeName) (\<lambda>name. Inr (put_text ''service'' (slashed name) binding))
           else if is_text transport ''cyclonedds_rpc'' \<or> is_text transport ''fastdds_rpc''
           then rbind (as_text routeName) (\<lambda>name.
             Inr (put_text ''response'' (dotted name @ ''.response'') (put_text ''request'' (dotted name @ ''.request'') binding)))
           else Inr binding)"

definition put_address :: "route_kind \<Rightarrow> string \<Rightarrow> YamlObject \<Rightarrow> YamlObject" where
  "put_address kind address binding =
     (if is_text (yaml_get binding ''transport'') ''nats_topic'' \<or> is_text (yaml_get binding ''transport'') ''nats_rpc''
      then put_text ''subject'' address binding
      else put_text (by_kind kind ''service'' ''topic'') address binding)"

definition address_keys :: "route_kind \<Rightarrow> string list" where
  "address_keys kind = by_kind kind
     [''subject'', ''nats_subject'', ''service'', ''request'', ''response'', ''request_channel'', ''response_channel'',
      ''standard'', ''address'']
     [''subject'', ''nats_subject'', ''topic'', ''dds_topic'', ''address'']"

definition copyAddressFields :: "YamlObject \<Rightarrow> YamlObject \<Rightarrow> route_kind \<Rightarrow> execution_plan \<Rightarrow> YamlObject result" where
  "copyAddressFields binding route kind plan =
     (let configured = routeAddressFor (yaml_get route ''addresses'') (yaml_get binding ''middleware'')
            (Some (YString (pl_transport plan)));
          b1 = (if configured \<noteq> [] then put_address kind configured binding else binding);
          b2 = copy_keys (address_keys kind) route b1
      in rbind (case kind of Service_Route \<Rightarrow> applyDefaultServiceAddress b2 route
                           | Topic_Route \<Rightarrow> applyDefaultTopicAddress b2 route)
           (\<lambda>b3. Inr (normalizeRos2BindingAddress b3 kind)))"

subsection \<open>Routes that name their middlewares\<close>

definition defaultRos2ByteAdapter :: "route_kind \<Rightarrow> js_value \<Rightarrow> js_value \<Rightarrow> string" where
  "defaultRos2ByteAdapter kind transport format =
     (let t = normalizeTransport transport; f = normalizeTransport format
      in case kind of
           Topic_Route \<Rightarrow>
             if t \<noteq> ''ros2_topic'' then []
             else if f = ''protobuf'' then ''ros2_proto_envelope''
             else if f = ''ros2_msg'' \<or> f = ''rosidl_msg'' then ''ros2_typed_mapper'' else []
         | Service_Route \<Rightarrow>
             if t \<noteq> ''ros2_service'' then []
             else if f = ''protobuf_rpc'' then ''ros2_proto_envelope''
             else if f = ''ros2_srv'' \<or> f = ''rosidl_srv'' then ''ros2_typed_mapper'' else [])"

definition adapterFromRoute :: "YamlObject \<Rightarrow> string" where
  "adapterFromRoute route =
     normalizeTransport (first_set [yaml_get route ''adapter'', field (yaml_get route ''metadata'') ''adapter'',
       field (yaml_get route ''metadata'') ''ros2.adapter''])"

definition isMultiMiddlewareRoute :: "YamlObject \<Rightarrow> bool" where
  "isMultiMiddlewareRoute route \<longleftrightarrow> items_of (yaml_get route ''middlewares'') \<noteq> []
     \<and> yaml_get route ''transport'' = None \<and> \<not> is_array (yaml_get route ''bindings'') \<and> \<not> is_array (yaml_get route ''routes'')"

definition isHighLevelRoute :: "YamlObject \<Rightarrow> bool" where
  "isHighLevelRoute route \<longleftrightarrow>
     list_ex (\<lambda>k. yaml_get route k \<noteq> None) [''data'', ''data_format'', ''type'', ''middleware'']
     \<and> yaml_get route ''transport'' = None \<and> \<not> is_array (yaml_get route ''bindings'') \<and> \<not> is_array (yaml_get route ''routes'')"

text \<open>The key of the schema, the format and the type that a route names, and the route with its schema
  filled in.\<close>

definition schema_key :: "route_kind \<Rightarrow> string" where
  "schema_key kind = by_kind kind ''contract'' ''payload''"

definition schema_format :: "route_kind \<Rightarrow> js_value \<Rightarrow> string \<Rightarrow> string" where
  "schema_format kind data type' =
     (case kind of Service_Route \<Rightarrow> serviceContractFormatFor data type' | Topic_Route \<Rightarrow> topicPayloadFormatFor data type')"

definition schema_type :: "route_kind \<Rightarrow> YamlObject \<Rightarrow> string" where
  "schema_type kind route =
     trim (text_of (first_set (field (yaml_get route (schema_key kind)) ''type''
       # map (yaml_get route) (by_kind kind
           [''type'', ''service_type'', ''message_type'', ''ros_service_type'']
           [''type'', ''message_type'', ''msg_type'', ''ros_message_type'']))))"

definition with_schema :: "route_kind \<Rightarrow> string \<Rightarrow> string \<Rightarrow> YamlObject \<Rightarrow> YamlObject" where
  "with_schema kind dataKind schemaType route =
     (let k = schema_key kind; typed = by_kind kind ''service_type'' ''message_type'';
          schema = put_if_unset ''type'' (YString schemaType)
            (put_if_unset ''format'' (YString dataKind) (spread_of (yaml_get route k)));
          route' = put k (YObject schema) route
      in if is_text (yaml_get schema ''format'') (by_kind kind ''ros2_srv'' ''ros2_msg'') \<and> yaml_get route' typed = None
         then put typed (the (yaml_get schema ''type'')) route' else route')"


definition binding_keys :: "string list" where
  "binding_keys = [''direction'', ''role'', ''queue_group'', ''queue_size'', ''qos'', ''metadata'', ''enabled'']"

text \<open>What is added to a binding that has its address: options of the route, metadata and the adapter.\<close>

definition finish_binding ::
  "route_kind \<Rightarrow> YamlObject \<Rightarrow> YamlObject \<Rightarrow> execution_plan \<Rightarrow> YamlObject \<Rightarrow> YamlObject" where
  "finish_binding kind route normalized plan b =
     (let schema = yaml_get normalized (schema_key kind);
          b1 = applyDdsTypedExecutionMetadata (applyExecutionMetadata (copy_keys binding_keys route b) normalized plan)
                 (field schema ''format'') (field schema ''type'');
          adapter = defaultRos2ByteAdapter kind (yaml_get b1 ''transport'') (field schema ''format'')
      in if adapter \<noteq> [] \<and> adapterFromRoute normalized = [] then put_text ''adapter'' adapter b1 else b1)"

text \<open>A route with one middleware, or with data, a format or a type.\<close>

definition normalizeSingleRoute :: "route_kind \<Rightarrow> YamlObject \<Rightarrow> YamlObject result" where
  "normalizeSingleRoute kind route =
     (if \<not> isHighLevelRoute route then Inr route
      else
        let data = trim (text_of (first_set [yaml_get route ''data'', yaml_get route ''data_format'',
              field (yaml_get route ''payload'') ''format'', field (yaml_get route ''contract'') ''format'']));
            schemaType = schema_type kind route;
            dataKind = schema_format kind (Some (YString data)) schemaType
        in rbind (executionPlan (trim (text_of (yaml_get route ''middleware''))) (Some (YString dataKind)) kind) (\<lambda>plan.
           let b0 = put_text ''transport'' (pl_transport plan) [];
               b1 = (if pl_middleware plan \<noteq> [] then put_text ''middleware'' (pl_middleware plan) b0 else b0)
           in rbind (copyAddressFields b1 route kind plan) (\<lambda>b2.
              let normalized = with_schema kind dataKind schemaType route
              in Inr (put ''bindings'' (YArray [YObject (finish_binding kind route normalized plan b2)]) normalized))))"

text \<open>A route with a list of middlewares is the bindings of the routes that have one of them each. These
  routes have no list, so the recursion of the code is one level deep.\<close>

definition with_middleware :: "YamlObject \<Rightarrow> YamlValue \<Rightarrow> YamlObject" where
  "with_middleware route protocol = AList.delete ''middlewares'' (put ''middleware'' protocol route)"

definition first_binding :: "YamlObject \<Rightarrow> YamlObject" where
  "first_binding single = (case items_of (yaml_get single ''bindings'') of b # _ \<Rightarrow> spread_of (Some b) | [] \<Rightarrow> [])"

definition normalizeMultiMiddlewareRoute :: "route_kind \<Rightarrow> YamlObject \<Rightarrow> YamlObject result" where
  "normalizeMultiMiddlewareRoute kind route =
     rbind (rmap (\<lambda>protocol. rbind (normalizeSingleRoute kind (with_middleware route protocol))
         (\<lambda>single. Inr (YObject (first_binding single)))) (items_of (yaml_get route ''middlewares'')))
       (\<lambda>bindings.
          let data = trim (text_of (first_set [yaml_get route ''data'', yaml_get route ''data_format'',
                field (yaml_get route (schema_key kind)) ''format'']));
              schemaType = schema_type kind route
          in Inr (with_schema kind (schema_format kind (Some (YString data)) schemaType) schemaType
               (put ''bindings'' (YArray bindings) (AList.delete ''middlewares'' route))))"

definition normalizeHighLevelRoute :: "route_kind \<Rightarrow> YamlObject \<Rightarrow> YamlObject result" where
  "normalizeHighLevelRoute kind route =
     (if isMultiMiddlewareRoute route then normalizeMultiMiddlewareRoute kind route else normalizeSingleRoute kind route)"

subsection \<open>Names\<close>

definition is_alnum :: "char \<Rightarrow> bool" where
  "is_alnum c \<longleftrightarrow> is_alpha c \<or> is_digit c"

definition canonicalRouteName :: "js_value \<Rightarrow> string" where
  "canonicalRouteName v = strip_char (CHR ''_'') (replace_runs (\<lambda>c. \<not> is_alnum c) (CHR ''_'') (text_of v))"

definition bindingName :: "YamlObject \<Rightarrow> nat \<Rightarrow> string" where
  "bindingName binding index =
     (let values = filter (\<lambda>v. v \<noteq> []) (map (\<lambda>k. trim (text_or_empty (yaml_get binding k)))
            [''name'', ''middleware'', ''transport'', ''standard'', ''service'', ''request'', ''request_channel'', ''response'',
             ''response_channel'', ''topic'', ''dds_topic'', ''subject'', ''nats_subject'', ''address''])
      in if values \<noteq> [] then join ''_'' values else ''binding_'' @ nat_str index)"

text \<open>\<open>bindings\<close> is \<^const>\<open>None\<close> for null.\<close>

definition routeNamesFor :: "string \<Rightarrow> YamlObject \<Rightarrow> YamlObject list option \<Rightarrow> string list" where
  "routeNamesFor name route bindings =
     (if items_of (yaml_get route ''middlewares'') \<noteq> []
      then map (\<lambda>m. name @ ''_'' @ canonicalRouteName (Some m)) (items_of (yaml_get route ''middlewares''))
      else if yaml_get route ''middleware'' \<noteq> None then [name]
      else case bindings of
        None \<Rightarrow> []
      | Some bs \<Rightarrow>
          if bs = [] then [name]
          else map (\<lambda>(i, b). name @ ''_'' @ canonicalRouteName (Some (YString (bindingName b i)))) (enumerate 0 bs))"

end
