(* ===== verification/Scaffold_Bindings.thy ===== *)
theory Scaffold_Bindings
  imports Scaffold_Routes
begin

text \<open>
  The bindings of an interface (\<open>bin/interface-scaffold/manifest.mjs\<close>): those of the module's route,
  those that the service publishes, and their merge.
\<close>

definition normalizeBindings :: "js_value \<Rightarrow> YamlObject list" where
  "normalizeBindings bindings = map (\<lambda>b. spread_of (Some b)) (items_of bindings)"

definition normalizeAddress :: "YamlObject \<Rightarrow> string" where
  "normalizeAddress binding =
     trim (text_of (first_true (map (yaml_get binding) [''topic'', ''subject'', ''service'', ''address''])))"

definition sameTransport :: "YamlObject \<Rightarrow> YamlObject \<Rightarrow> bool" where
  "sameTransport left right \<longleftrightarrow>
     (let l = normalizeTransport (yaml_get left ''transport''); r = normalizeTransport (yaml_get right ''transport'');
          address = normalizeAddress left
      in l \<noteq> [] \<and> r \<noteq> [] \<and> l = r \<or> address \<noteq> [] \<and> address = normalizeAddress right)"

definition bindingHasAddress :: "YamlObject \<Rightarrow> route_kind \<Rightarrow> bool" where
  "bindingHasAddress binding kind = has_any (by_kind kind
     [''service'', ''subject'', ''nats_subject'', ''request'', ''request_channel'', ''response'', ''response_channel'', ''address'']
     [''topic'', ''dds_topic'', ''subject'', ''nats_subject'', ''address'']) binding"

text \<open>The keys that are copied when the route has them and the binding has not.\<close>

definition inherit_keys :: "string list \<Rightarrow> YamlObject \<Rightarrow> YamlObject \<Rightarrow> YamlObject" where
  "inherit_keys ks src es =
     fold (\<lambda>k es. if yaml_get src k \<noteq> None \<and> yaml_get es k = None then put k (the (yaml_get src k)) es else es) ks es"

definition override_direction :: "YamlObject \<Rightarrow> YamlObject \<Rightarrow> YamlObject" where
  "override_direction route b =
     (case yaml_get route ''direction'' of
        Some d \<Rightarrow> put ''direction'' d b
      | None \<Rightarrow> (case yaml_get route ''role'' of
          Some r \<Rightarrow> if yaml_get b ''direction'' = None then put ''direction'' r b else b
        | None \<Rightarrow> b))"

definition override_adapter :: "route_kind \<Rightarrow> YamlObject \<Rightarrow> YamlObject \<Rightarrow> YamlObject" where
  "override_adapter kind route b =
     (let b1 = inherit_keys [''adapter''] route b;
          adapter = defaultRos2ByteAdapter kind (yaml_get b1 ''transport'')
            (field (yaml_get route (schema_key kind)) ''format'')
      in if adapter \<noteq> [] \<and> yaml_get b1 ''adapter'' = None \<and> adapterFromRoute route = []
         then put_text ''adapter'' adapter b1 else b1)"

definition applyRouteBindingOverrides :: "YamlObject \<Rightarrow> YamlObject \<Rightarrow> route_kind \<Rightarrow> YamlObject" where
  "applyRouteBindingOverrides binding route kind =
     (let configured = routeAddressFor (yaml_get route ''addresses'') (yaml_get binding ''middleware'')
            (yaml_get binding ''transport'');
          b1 = (if configured \<noteq> [] \<and> \<not> bindingHasAddress binding kind then put_address kind configured binding else binding)
      in inherit_keys [''queue_group'', ''queue_size'', ''enabled'', ''qos'', ''metadata''] route
           (override_adapter kind route (override_direction route b1)))"

definition annotateDdsTypedBindings :: "YamlObject list \<Rightarrow> YamlObject \<Rightarrow> route_kind \<Rightarrow> YamlObject list" where
  "annotateDdsTypedBindings bindings route kind =
     (let schema = yaml_get route (schema_key kind)
      in map (\<lambda>b. applyDdsTypedExecutionMetadata b (field schema ''format'') (field schema ''type'')) bindings)"

text \<open>\<open>serviceBindings\<close> and \<open>topicBindings\<close>, which differ in the kind only.\<close>

definition merged_binding :: "YamlObject list \<Rightarrow> YamlObject \<Rightarrow> YamlObject" where
  "merged_binding publicBindings binding =
     put_all binding (case find (\<lambda>candidate. sameTransport candidate binding) publicBindings of Some b \<Rightarrow> b | None \<Rightarrow> [])"

definition kept_route_bindings :: "route_kind \<Rightarrow> YamlObject \<Rightarrow> js_value \<Rightarrow> YamlObject list" where
  "kept_route_bindings kind route publicBindings' =
     (let routeBindings = normalizeBindings (yaml_get route ''bindings'');
          publicBindings = normalizeBindings publicBindings';
          merged = (if routeBindings = [] then publicBindings
                    else if publicBindings = [] then routeBindings
                    else map (merged_binding publicBindings) routeBindings)
      in annotateDdsTypedBindings (map (\<lambda>b. applyRouteBindingOverrides b route kind) merged) route kind)"

subsection \<open>Roles\<close>

definition serviceRole :: "YamlObject \<Rightarrow> string" where
  "serviceRole route =
     (let direction = toLowerCase (trim (js_string (nullish
            (first_true [yaml_get route ''direction'', yaml_get route ''role'']) (YString ''server''))))
      in if direction = ''client'' \<or> direction = ''consumer'' then ''client'' else ''server'')"

definition not_ros2_topic :: "YamlObject \<Rightarrow> bool" where
  "not_ros2_topic b \<longleftrightarrow> normalizeTransport (yaml_get b ''transport'') \<noteq> ''ros2_topic''"

definition role_candidate :: "YamlObject list \<Rightarrow> YamlObject list \<Rightarrow> YamlObject option" where
  "role_candidate routeBindings bindings =
     (case filter not_ros2_topic routeBindings @ filter not_ros2_topic bindings @ routeBindings @ bindings of
        b # _ \<Rightarrow> Some b | [] \<Rightarrow> None)"

text \<open>The bindings of the route are looked at as they are written: a null among them is an error.\<close>

definition null_reached :: "js_value \<Rightarrow> bool" where
  "null_reached bindings \<longleftrightarrow>
     (case filter (\<lambda>v. v = YNull \<or> not_ros2_topic (spread_of (Some v))) (items_of bindings) of
        v # _ \<Rightarrow> v = YNull | [] \<Rightarrow> False)"

definition topicRole :: "YamlObject \<Rightarrow> YamlObject list \<Rightarrow> js_value \<Rightarrow> string result" where
  "topicRole route bindings publicBindings =
     (if yaml_get route ''publish'' = Some (YBool True) then Inr ''publisher''
      else if yaml_get route ''subscribe'' = Some (YBool True) then Inr ''subscriber''
      else if null_reached (yaml_get route ''bindings'') then Inl type_error
      else
        let routeBindings = normalizeBindings (yaml_get route ''bindings'');
            candidate = nullish (role_candidate routeBindings bindings) [];
            published = (case find (\<lambda>b. sameTransport b candidate) (normalizeBindings publicBindings) of
                Some b \<Rightarrow> yaml_get b ''direction'' | None \<Rightarrow> None);
            direction = toLowerCase (trim (js_string (nullish
              (first_set [yaml_get candidate ''direction'', yaml_get route ''direction'', published]) (YString ''publish''))))
        in Inr (if direction = ''subscribe'' \<or> direction = ''in'' then ''subscriber'' else ''publisher''))"

end
