(* ===== verification/Scaffold_Types.thy ===== *)
theory Scaffold_Types
  imports Scaffold_Bindings Repo_Files Keyed_Merge
begin

text \<open>
  The data of the interface scaffold: the protocols and public routes of its catalog
  (\<open>bin/interface-scaffold/protocols.mjs\<close> and the parsers beside it), typed DDS plans, artifacts and
  interfaces (\<open>manifest.mjs\<close>). A text that is undefined in the code is empty here: the code treats
  the two alike. Types of schemas are texts.
\<close>

record scaffold_field =
  sf_name :: string
  sf_type :: string
  sf_tag :: "nat option"
  sf_repeated :: bool
  sf_optional :: bool

text \<open>\<open>bounded\<close>, \<open>loanFriendly\<close> and \<open>sharedMemoryFriendly\<close> are null for a protocol without hints.\<close>

record memory_hints =
  me_bounded :: "bool option"
  me_loanFriendly :: "bool option"
  me_sharedMemoryFriendly :: "bool option"
  me_unboundedFields :: "string list"

record protocol =
  pc_format :: string
  pc_type :: string
  pc_name :: string
  pc_fullName :: string
  pc_aliasOf :: string
  pc_service :: string
  pc_rpc :: string
  pc_package :: string
  pc_request :: string
  pc_response :: string
  pc_module :: string
  pc_file :: string
  pc_idlService :: string
  pc_aliases :: "string list"
  pc_fields :: "scaffold_field list"
  pc_requestFields :: "scaffold_field list"
  pc_responseFields :: "scaffold_field list"
  pc_memory :: "memory_hints option"
  pc_external :: bool

text \<open>The public routes; \<open>pu_schema\<close> is the contract of a service and the payload of a topic.\<close>

record public_route =
  pu_name :: string
  pu_idlService :: string
  pu_ref :: string
  pu_manifest :: path
  pu_schema :: YamlObject
  pu_addresses :: YamlObject
  pu_bindings :: "YamlObject list"
  pu_options :: YamlObject

record codegen_target =
  ct_middleware :: string
  ct_language :: string
  ct_generator :: string
  ct_input :: string
  ct_outputDir :: string
  ct_type :: string

record generated_artifact =
  ga_artifactKind :: string
  ga_language :: string
  ga_kind :: string
  ga_type :: string
  ga_generatedType :: string
  ga_file :: string
  ga_includeOnly :: bool
  ga_pathInferred :: bool

datatype artifact = Generated generated_artifact | Codegen codegen_target

record catalog =
  ca_protoFiles :: "string list"
  ca_protoMessages :: "(string \<times> protocol) list"
  ca_protoRpcs :: "(string \<times> protocol) list"
  ca_ddsFiles :: "string list"
  ca_ddsMessages :: "(string \<times> protocol) list"
  ca_ddsRpcs :: "(string \<times> protocol) list"
  ca_topics :: "(string \<times> public_route) list"
  ca_services :: "(string \<times> public_route) list"
  ca_ros2Messages :: "(string \<times> protocol) list"
  ca_ros2Services :: "(string \<times> protocol) list"
  ca_messageArtifacts :: "(string \<times> generated_artifact list) list"
  ca_serviceArtifacts :: "(string \<times> generated_artifact list) list"

record typed_rpc =
  tr_service :: string
  tr_operation :: string
  tr_requestType :: string
  tr_responseType :: string
  tr_requestFields :: "scaffold_field list"
  tr_responseFields :: "scaffold_field list"

record typed_plan =
  tp_mode :: string
  tp_preference :: string
  tp_fallback :: string
  tp_schemaFormat :: string
  tp_type :: string
  tp_idlService :: string
  tp_source :: string
  tp_codegen :: "codegen_target list"
  tp_memory :: memory_hints
  tp_rpc :: "typed_rpc option"
  tp_fields :: "scaffold_field list"

record scaffold_interface =
  if_name :: string
  if_kind :: route_kind
  if_role :: string
  if_idlService :: string
  if_ref :: string
  if_public :: "public_route option"
  if_routeType :: string
  if_schema :: js_value
  if_bindings :: "YamlObject list"
  if_routeNames :: "string list"
  if_protocols :: "protocol list"
  if_artifacts :: "artifact list"
  if_ddsTyped :: "typed_plan option"
  if_generated :: "(string \<times> string) list"

text \<open>The codegen targets of all interfaces, one for each output.\<close>

record codegen_group =
  cg_target :: codegen_target
  cg_types :: "string list"
  cg_routeNames :: "string list"

text \<open>The paths that the run depends on: \<open>path.relative\<close> starts relative paths at the working directory.\<close>

record scaffold_env =
  se_rootDir :: path
  se_cwd :: path

definition relative_to_root :: "scaffold_env \<Rightarrow> string \<Rightarrow> string" where
  "relative_to_root env file =
     path_relative (se_rootDir env) (path_join (if isAbsolute file then [] else se_cwd env) file)"

end
