(* ===== verification/Scaffold_Manifest.thy ===== *)
theory Scaffold_Manifest
  imports Scaffold_Types
begin

text \<open>
  The manifest of a module's interfaces (\<open>bin/interface-scaffold/manifest.mjs\<close>): references to public
  routes, protocols and typed DDS plans, the interfaces of services and topics, and the whole
  manifest. Sorting by \<open>localeCompare\<close> is a parameter.
\<close>

subsection \<open>Names\<close>

definition underscored :: "string \<Rightarrow> string" where
  "underscored s = strip_char (CHR ''_'') (replace_runs (\<lambda>c. \<not> is_alnum c) (CHR ''_'') s)"

definition normalizeServiceScope :: "js_value \<Rightarrow> string" where
  "normalizeServiceScope v = or_else (toLowerCase (underscored (trim (text_of v)))) ''module''"

definition generatedRouteFileName :: "string \<Rightarrow> string" where
  "generatedRouteFileName name = or_else (toLowerCase (underscored name)) ''route''"

definition typeLeaf :: "string \<Rightarrow> string" where
  "typeLeaf v =
     (case rev (filter (\<lambda>p. p \<noteq> []) (split_runs (\<lambda>c. c = CHR ''/'' \<or> c = CHR ''.'') v)) of p # _ \<Rightarrow> p | [] \<Rightarrow> [])"

definition upper_char :: "char \<Rightarrow> char" where
  "upper_char c = (if is_lower c then char_of (of_char c - 32 :: nat) else c)"

definition capitalized :: "string \<Rightarrow> string" where
  "capitalized s = (case s of c # r \<Rightarrow> upper_char c # r | [] \<Rightarrow> [])"

definition toPascalCase :: "string \<Rightarrow> string" where
  "toPascalCase v = concat (map capitalized (filter (\<lambda>p. p \<noteq> []) (split_runs (\<lambda>c. \<not> is_alnum c) v)))"

definition normalizeName :: "string \<Rightarrow> string" where
  "normalizeName v = toLowerCase (filter is_alnum v)"

definition candidateNames :: "string \<Rightarrow> string \<Rightarrow> string list" where
  "candidateNames routeName typeName =
     (let leaf = typeLeaf typeName
      in [normalizeName routeName, normalizeName (toPascalCase routeName)]
         @ (if leaf \<noteq> [] then [normalizeName leaf, normalizeName (toPascalCase leaf)] else []))"

definition inferDefaultIdlService :: "YamlObject \<Rightarrow> string \<Rightarrow> string" where
  "inferDefaultIdlService config moduleName =
     (let service = yaml_get config ''service''
      in normalizeServiceScope (first_set [field service ''idl_service'', field service ''idl_scope'', field service ''name'',
           field (yaml_get config ''trace'') ''service_name'', Some (YString moduleName)]))"

subsection \<open>Public routes\<close>

definition resolveRef :: "js_value \<Rightarrow> (string \<times> public_route) list \<Rightarrow> string \<Rightarrow> public_route option" where
  "resolveRef ref routes defaultIdlService =
     (if \<not> truthy ref then None
      else case map_of routes (js_string (the ref)) of
        Some r \<Rightarrow> Some r
      | None \<Rightarrow> map_of routes (defaultIdlService @ ''.'' @ js_string (the ref)))"

definition publicDataFromFormat :: "route_kind \<Rightarrow> js_value \<Rightarrow> string" where
  "publicDataFromFormat kind format =
     (let normalized = normalizeTransport format in
      if normalized = by_kind kind ''ros2_srv'' ''ros2_msg'' then by_kind kind ''srv'' ''msg''
      else if normalized = by_kind kind ''protobuf_rpc'' ''protobuf'' then ''proto''
      else if normalized = by_kind kind ''dds_idl_rpc'' ''dds_idl'' then ''dds_idl''
      else normalized)"

definition mergePublicRouteFields :: "YamlObject \<Rightarrow> public_route option \<Rightarrow> route_kind \<Rightarrow> YamlObject" where
  "mergePublicRouteFields route publicRoute kind =
     (case publicRoute of
        None \<Rightarrow> route
      | Some p \<Rightarrow>
          let format = yaml_get (pu_schema p) ''format''; type' = yaml_get (pu_schema p) ''type'';
              unset = (\<lambda>k cond v r. if yaml_get r k = None \<and> cond then put k v r else r)
          in unset ''addresses'' (pu_addresses p \<noteq> []) (YObject (pu_addresses p))
               (unset (schema_key kind) True (YObject (pu_schema p))
               (unset ''type'' (truthy type') (the type')
               (unset ''data'' (truthy format) (YString (publicDataFromFormat kind format)) route))))"

subsection \<open>Protocols\<close>

definition externalProtocol :: "string \<Rightarrow> string \<Rightarrow> protocol" where
  "externalProtocol format type' =
     \<lparr>pc_format = format, pc_type = type', pc_name = typeLeaf type', pc_fullName = [], pc_aliasOf = [], pc_service = [],
      pc_rpc = [], pc_package = [], pc_request = [], pc_response = [], pc_module = [], pc_file = [], pc_idlService = [], pc_aliases = [], pc_fields = [], pc_requestFields = [],
      pc_responseFields = [], pc_memory = None, pc_external = True\<rparr>"

definition protocolKey :: "protocol \<Rightarrow> string" where
  "protocolKey p = join ''|''
     [pc_format p, pc_type p, pc_fullName p, pc_service p, pc_rpc p, pc_file p, pc_name p]"

definition addProtocol :: "protocol \<Rightarrow> protocol list \<Rightarrow> protocol list" where
  "addProtocol p protocols =
     (if list_ex (\<lambda>e. protocolKey e = protocolKey p) protocols then protocols else protocols @ [p])"

definition findProtoRpc :: "string \<Rightarrow> string \<Rightarrow> catalog \<Rightarrow> string \<Rightarrow> protocol option" where
  "findProtoRpc name serviceType cat idlService =
     find (\<lambda>rpc. pc_idlService rpc = idlService \<and> normalizeName (pc_rpc rpc) \<in> set (candidateNames name serviceType))
       (map snd (ca_protoRpcs cat))"

definition findProtoMessage :: "string \<Rightarrow> string \<Rightarrow> catalog \<Rightarrow> string \<Rightarrow> protocol option" where
  "findProtoMessage name messageType cat idlService =
     find (\<lambda>m. pc_idlService m = idlService \<and> normalizeName (pc_name m) \<in> set (candidateNames name messageType))
       (map snd (ca_protoMessages cat))"

definition findProtoMessageByType :: "string \<Rightarrow> catalog \<Rightarrow> protocol option" where
  "findProtoMessageByType type' cat =
     find (\<lambda>m. pc_fullName m = type' \<or> pc_idlService m @ ''.'' @ pc_name m = type') (map snd (ca_protoMessages cat))"

definition findDdsIdlMessageByType :: "string \<Rightarrow> catalog \<Rightarrow> protocol option" where
  "findDdsIdlMessageByType type' cat =
     find (\<lambda>m. pc_fullName m = type' \<or> pc_type m = type' \<or> pc_idlService m @ ''::'' @ pc_name m = type')
       (map snd (ca_ddsMessages cat))"

definition findDdsIdlRpcByType :: "string \<Rightarrow> catalog \<Rightarrow> protocol option" where
  "findDdsIdlRpcByType type' cat =
     find (\<lambda>rpc. pc_fullName rpc = type' \<or> pc_type rpc = type') (map snd (ca_ddsRpcs cat))"

subsection \<open>Typed DDS plans\<close>

definition ddsTypedCodegenTargets :: "string \<Rightarrow> string \<Rightarrow> string \<Rightarrow> string \<Rightarrow> codegen_target list" where
  "ddsTypedCodegenTargets idlService source type' outputService =
     (let service = or_else (or_else outputService idlService) ''unknown_service'';
          target = (\<lambda>middleware language generator. \<lparr>ct_middleware = middleware, ct_language = language,
            ct_generator = generator, ct_input = source,
            ct_outputDir = ''pkg/idl/'' @ service @ ''/generated/dds/'' @ middleware @ ''/'' @ language, ct_type = type'\<rparr>)
      in [target ''fastdds'' ''cpp'' ''fastddsgen'', target ''cyclonedds'' ''cpp'' ''idlc'', target ''cyclonedds'' ''python'' ''idlc''])"

definition ddsRpcGeneratedType :: "string \<Rightarrow> string \<Rightarrow> string \<Rightarrow> string \<Rightarrow> string" where
  "ddsRpcGeneratedType moduleName service operation suffix' =
     (let prefix' = join ''_'' (filter (\<lambda>p. p \<noteq> []) [service, operation, suffix'])
      in if moduleName \<noteq> [] then moduleName @ ''::'' @ prefix' else prefix')"

text \<open>\<open>split("::").pop()\<close>: what stands after the last \<open>::\<close>.\<close>

function after_colons :: "string \<Rightarrow> string" where
  "after_colons s = (if startsWith s ''::'' then after_colons (drop 2 s)
     else case s of [] \<Rightarrow> [] | c # r \<Rightarrow> (if has_sub s ''::'' then after_colons r else s))"
  by pat_completeness auto
termination
  by (relation "measure length") (auto simp: prefix_def)

declare after_colons.simps [simp del]

definition no_hints :: memory_hints where
  "no_hints = \<lparr>me_bounded = None, me_loanFriendly = None, me_sharedMemoryFriendly = None, me_unboundedFields = []\<rparr>"

definition typed_rpc_of :: "protocol \<Rightarrow> string \<Rightarrow> typed_rpc" where
  "typed_rpc_of p type' =
     (let parts = split_on (CHR ''/'') type';
          service = or_else (pc_service p) (after_colons (hd parts));
          operation = or_else (or_else (pc_rpc p) (if length parts > 1 then parts ! 1 else [])) (pc_name p)
      in \<lparr>tr_service = service, tr_operation = operation,
          tr_requestType = ddsRpcGeneratedType (pc_module p) service operation ''Request'',
          tr_responseType = ddsRpcGeneratedType (pc_module p) service operation ''Response'',
          tr_requestFields = pc_requestFields p, tr_responseFields = pc_responseFields p\<rparr>)"

definition ddsTypedPlan :: "scaffold_env \<Rightarrow> protocol \<Rightarrow> route_kind \<Rightarrow> string \<Rightarrow> string \<Rightarrow> typed_plan option" where
  "ddsTypedPlan env p kind configuredType generatedService =
     (let type' = or_else (or_else (or_else (pc_fullName p) (pc_aliasOf p)) (pc_type p)) configuredType;
          idlService = pc_idlService p; outputService = or_else generatedService idlService;
          source = (if pc_file p \<noteq> [] then relative_to_root env (pc_file p) else [])
      in if type' = [] then None
         else Some \<lparr>tp_mode = ''typed_native_dds'', tp_preference = ''typed_preferred'', tp_fallback = ''byte_envelope'',
           tp_schemaFormat = by_kind kind ''dds_idl_rpc'' ''dds_idl'', tp_type = type', tp_idlService = idlService,
           tp_source = source, tp_codegen = (if source \<noteq> [] then ddsTypedCodegenTargets idlService source type' outputService else []),
           tp_memory = nullish (pc_memory p) no_hints,
           tp_rpc = (case kind of Service_Route \<Rightarrow> Some (typed_rpc_of p type') | Topic_Route \<Rightarrow> None),
           tp_fields = (case kind of Service_Route \<Rightarrow> [] | Topic_Route \<Rightarrow> pc_fields p)\<rparr>)"

definition ddsTypedCodegenArtifacts :: "typed_plan option \<Rightarrow> artifact list" where
  "ddsTypedCodegenArtifacts plan = (case plan of None \<Rightarrow> [] | Some p \<Rightarrow> map Codegen (tp_codegen p))"


subsection \<open>Interfaces\<close>

definition generated_paths :: "route_kind \<Rightarrow> string \<Rightarrow> string \<Rightarrow> (string \<times> string) list" where
  "generated_paths kind name role =
     (let fileName = generatedRouteFileName name in
      case kind of
        Service_Route \<Rightarrow>
          if role \<noteq> ''server'' then []
          else [(''apiHandler'', ''api/handler/include/'' @ fileName @ ''_api_handler.hpp''),
                (''service'', ''service/generated/include/'' @ fileName @ ''_service.hpp'')]
      | Topic_Route \<Rightarrow>
          if role \<noteq> ''publisher'' then []
          else [(''apiPublisher'', ''api/publisher/include/'' @ fileName @ ''_api_publisher.hpp''),
                (''publisherService'', ''service/generated/include/'' @ fileName @ ''_publisher_service.hpp'')])"

text \<open>The type that a route names, and the protocols and artifacts that belong to it and to its schema.\<close>

definition route_type :: "route_kind \<Rightarrow> YamlObject \<Rightarrow> js_value \<Rightarrow> string" where
  "route_type kind route schema =
     text_of (first_set [yaml_get route (by_kind kind ''service_type'' ''message_type''),
       (if is_text (field schema ''format'') (by_kind kind ''ros2_srv'' ''ros2_msg'') then field schema ''type'' else None)])"

definition ros2_protocols :: "route_kind \<Rightarrow> string \<Rightarrow> catalog \<Rightarrow> protocol list" where
  "ros2_protocols kind type' cat =
     (if type' = [] then []
      else [nullish (map_of (by_kind kind (ca_ros2Services cat) (ca_ros2Messages cat)) type')
              (externalProtocol (by_kind kind ''ros2_srv'' ''ros2_msg'') type')])"

definition ros2_artifacts :: "route_kind \<Rightarrow> string \<Rightarrow> catalog \<Rightarrow> artifact list" where
  "ros2_artifacts kind type' cat =
     (if type' = [] then []
      else map Generated (nullish (map_of (by_kind kind (ca_serviceArtifacts cat) (ca_messageArtifacts cat)) type') []))"

definition proto_protocols :: "route_kind \<Rightarrow> string \<Rightarrow> string \<Rightarrow> string \<Rightarrow> catalog \<Rightarrow> protocol list" where
  "proto_protocols kind name type' idlService cat =
     (case (case kind of Service_Route \<Rightarrow> findProtoRpc name type' cat idlService
                       | Topic_Route \<Rightarrow> findProtoMessage name type' cat idlService) of
        Some p \<Rightarrow> [p] | None \<Rightarrow> [])"

definition schema_protobuf :: "route_kind \<Rightarrow> js_value \<Rightarrow> catalog \<Rightarrow> protocol list" where
  "schema_protobuf kind schema cat =
     (if kind = Topic_Route \<and> is_text (field schema ''format'') ''protobuf'' \<and> truthy (field schema ''type'')
      then [nullish (findProtoMessageByType (text_of (field schema ''type'')) cat)
              (externalProtocol ''protobuf_message'' (text_of (field schema ''type'')))]
      else [])"

definition dds_format :: "route_kind \<Rightarrow> string" where
  "dds_format kind = by_kind kind ''dds_idl_rpc'' ''dds_idl''"

definition schema_dds :: "route_kind \<Rightarrow> js_value \<Rightarrow> catalog \<Rightarrow> protocol list" where
  "schema_dds kind schema cat =
     (let type' = text_of (field schema ''type'')
      in if is_text (field schema ''format'') (dds_format kind) \<and> truthy (field schema ''type'')
         then [nullish (case kind of Service_Route \<Rightarrow> findDdsIdlRpcByType type' cat
                                   | Topic_Route \<Rightarrow> findDdsIdlMessageByType type' cat)
                 (externalProtocol (dds_format kind) type')]
         else [])"

text \<open>The typed plan: for the protocol of the list that has the schema's type, or an external one.\<close>

definition interface_plan ::
  "scaffold_env \<Rightarrow> route_kind \<Rightarrow> js_value \<Rightarrow> protocol list \<Rightarrow> string \<Rightarrow> typed_plan option" where
  "interface_plan env kind schema protocols defaultIdlService =
     (let type' = text_of (field schema ''type'')
      in if is_text (field schema ''format'') (dds_format kind)
         then ddsTypedPlan env
           (nullish (find (\<lambda>p. pc_format p = dds_format kind \<and> (pc_fullName p = type' \<or> pc_type p = type')) protocols)
             (externalProtocol (dds_format kind) type')) kind type' defaultIdlService
         else None)"

definition add_all :: "protocol list \<Rightarrow> protocol list" where
  "add_all ps = fold addProtocol ps []"

text \<open>\<open>serviceInterface\<close> and \<open>topicInterface\<close>, which differ in the words of their kind.\<close>

definition route_interface ::
  "scaffold_env \<Rightarrow> route_kind \<Rightarrow> string \<Rightarrow> YamlObject \<Rightarrow> catalog \<Rightarrow> string \<Rightarrow> scaffold_interface result" where
  "route_interface env kind name given cat defaultIdlService =
     (let refKey = by_kind kind ''service_ref'' ''topic_ref'';
          public = resolveRef (yaml_get given refKey) (by_kind kind (ca_services cat) (ca_topics cat)) defaultIdlService;
          merged = mergePublicRouteFields given public kind;
          routeNames = routeNamesFor name merged None
      in rbind (normalizeHighLevelRoute kind merged) (\<lambda>route.
         let schema = first_set [yaml_get route (schema_key kind), map_option (\<lambda>p. YObject (pu_schema p)) public];
             publicBindings = map_option (\<lambda>p. YArray (map YObject (pu_bindings p))) public;
             type' = route_type kind route schema;
             bindings = kept_route_bindings kind route publicBindings
         in rbind (case kind of Service_Route \<Rightarrow> Inr (serviceRole route) | Topic_Route \<Rightarrow> topicRole route bindings publicBindings)
            (\<lambda>role.
            let idlService = (if truthy (yaml_get route ''idl_service'') then normalizeServiceScope (yaml_get route ''idl_service'')
                  else case public of Some p \<Rightarrow> pu_idlService p | None \<Rightarrow> defaultIdlService);
                dds = schema_dds kind schema cat;
                protocols = add_all (ros2_protocols kind type' cat @ proto_protocols kind name type' idlService cat
                  @ schema_protobuf kind schema cat @ dds);
                artifacts = ros2_artifacts kind type' cat @ concat (map (\<lambda>p. ddsTypedCodegenArtifacts
                  (ddsTypedPlan env p kind (text_of (field schema ''type'')) defaultIdlService)) dds)
            in Inr \<lparr>if_name = name, if_kind = kind, if_role = role, if_idlService = idlService,
                 if_ref = (case public of Some p \<Rightarrow> pu_ref p | None \<Rightarrow> text_of (yaml_get route refKey)),
                 if_public = public, if_routeType = type', if_schema = schema, if_bindings = bindings,
                 if_routeNames = (if routeNames \<noteq> [] then routeNames else routeNamesFor name route (Some bindings)),
                 if_protocols = protocols, if_artifacts = artifacts,
                 if_ddsTyped = interface_plan env kind schema protocols defaultIdlService,
                 if_generated = generated_paths kind name role\<rparr>)))"

subsection \<open>The interfaces that the service provides\<close>

definition provider_role :: "route_kind \<Rightarrow> string" where
  "provider_role kind = by_kind kind ''server'' ''publish''"

definition publicProviderBindingFromAddress ::
  "route_kind \<Rightarrow> public_route \<Rightarrow> string \<times> YamlValue \<Rightarrow> YamlObject option result" where
  "publicProviderBindingFromAddress kind p entry =
     (let family = normalizeTransportProtocol (Some (YString (fst entry))); schema = pu_schema p;
          format = yaml_get schema ''format''
      in if family = [] then Inr None
         else rbind (executionPlan family format kind) (\<lambda>plan.
           let b0 = put_text ''transport'' (pl_transport plan)
                 (put_text ''middleware'' (pl_middleware plan) (put_text ''direction'' (provider_role kind) []))
           in rbind (copyAddressFields b0 [(''addresses'', YObject [(family, snd entry)])] kind plan) (\<lambda>b1.
              let b2 = applyDdsTypedExecutionMetadata (applyExecutionMetadata b1 [] plan) format (yaml_get schema ''type'');
                  adapter = defaultRos2ByteAdapter kind (yaml_get b2 ''transport'') format
              in Inr (Some (if adapter \<noteq> [] then put_text ''adapter'' adapter b2 else b2)))))"

definition publicProviderBindings :: "route_kind \<Rightarrow> public_route \<Rightarrow> YamlObject list result" where
  "publicProviderBindings kind p =
     (if pu_bindings p \<noteq> []
      then Inr (map (\<lambda>b. put_if_unset ''middleware'' (YString (transportFamilyFromTransportName (yaml_get b ''transport'')))
             (put_if_unset ''direction'' (YString (provider_role kind)) b)) (pu_bindings p))
      else rbind (rmap (publicProviderBindingFromAddress kind p) (object_entries (pu_addresses p)))
             (\<lambda>bs. Inr (List.map_filter id bs)))"

definition providerBindingMiddlewares :: "YamlObject list \<Rightarrow> string list" where
  "providerBindingMiddlewares bindings =
     uniq (filter (\<lambda>v. v \<noteq> []) (map (\<lambda>b. trim (text_of (first_true [yaml_get b ''middleware'',
       Some (YString (transportFamilyFromTransportName (yaml_get b ''transport'')))]))) bindings))"

definition providerRouteFromPublic :: "route_kind \<Rightarrow> public_route \<Rightarrow> YamlObject result" where
  "providerRouteFromPublic kind p =
     rbind (publicProviderBindings kind p) (\<lambda>bindings.
       Inr (copy_keys [''qos'', ''metadata'', ''queue_group'', ''queue_size'', ''enabled''] (pu_options p)
         [(by_kind kind ''service_ref'' ''topic_ref'', YString (pu_ref p)), (''direction'', YString (provider_role kind)),
          (''logical_route'', YString (pu_name p)), (''middlewares'', YArray (map YString (providerBindingMiddlewares bindings))),
          (''bindings'', YArray (map YObject bindings))]))"

definition uniquePublicRoutes ::
  "(string \<Rightarrow> string \<Rightarrow> int) \<Rightarrow> (string \<times> public_route) list \<Rightarrow> string \<Rightarrow> public_route list" where
  "uniquePublicRoutes lc routes defaultIdlService =
     js_sort (\<lambda>l r. lc (pu_name l) (pu_name r))
       (fold (upsert pu_ref pu_ref id (\<lambda>x e. x))
         (filter (\<lambda>r. pu_idlService r = defaultIdlService \<and> pu_ref r \<noteq> []) (map snd routes)) [])"

definition provider_interfaces ::
  "scaffold_env \<Rightarrow> (string \<Rightarrow> string \<Rightarrow> int) \<Rightarrow> route_kind \<Rightarrow> catalog \<Rightarrow> string \<Rightarrow> scaffold_interface list result" where
  "provider_interfaces env lc kind cat defaultIdlService =
     rmap (\<lambda>p. rbind (providerRouteFromPublic kind p) (\<lambda>route. route_interface env kind (pu_name p) route cat defaultIdlService))
       (uniquePublicRoutes lc (by_kind kind (ca_services cat) (ca_topics cat)) defaultIdlService)"

end
