(* ===== verification/Scaffold_Compat.thy ===== *)
theory Scaffold_Compat
  imports Scaffold_Manifest
begin

text \<open>
  Whether the bindings of an interface can carry its schema
  (\<open>bin/interface-scaffold/compatibility.mjs\<close>), and the whole manifest with its checks
  (\<open>buildInterfaceManifest\<close> in \<open>manifest.mjs\<close>).
\<close>

subsection \<open>Descriptors\<close>

record schema_descriptor =
  sd_language :: string
  sd_kind :: string
  sd_type :: string

record compat_descriptor =
  cd_schema :: schema_descriptor
  cd_codec :: string
  cd_backend :: string
  cd_pattern :: string
  cd_binding :: string
  cd_standard :: string
  cd_adapter :: string
  cd_warnings :: "string list"

definition schema_language :: "route_kind \<Rightarrow> string \<Rightarrow> string" where
  "schema_language kind format =
     (case kind of
        Topic_Route \<Rightarrow>
          if format = ''protobuf'' then ''protobuf''
          else if format \<in> set [''ros2_msg'', ''rosidl_msg''] then ''rosidl''
          else if format \<in> set [''dds_idl'', ''omg_idl''] then ''omg_idl''
          else if format = ''json'' then ''json_schema'' else or_else format ''unknown''
      | Service_Route \<Rightarrow>
          if format = ''protobuf_rpc'' then ''protobuf''
          else if format \<in> set [''ros2_srv'', ''rosidl_srv''] then ''rosidl''
          else if format \<in> set [''dds_idl_rpc'', ''omg_idl_rpc'', ''dds_idl'', ''omg_idl''] then ''omg_idl''
          else if format = ''json_rpc'' then ''json_schema'' else or_else format ''unknown'')"

text \<open>\<open>schemaFromPayload\<close> and \<open>schemaFromContract\<close>.\<close>

definition schema_descriptor_of :: "route_kind \<Rightarrow> js_value \<Rightarrow> schema_descriptor" where
  "schema_descriptor_of kind schema =
     \<lparr>sd_language = schema_language kind (toLowerCase (text_or_empty (field schema ''format''))),
      sd_kind = by_kind kind ''service'' ''message'', sd_type = text_or_empty (field schema ''type'')\<rparr>"

definition codecFromSchema :: "schema_descriptor \<Rightarrow> js_value \<Rightarrow> string" where
  "codecFromSchema schema explicitCodec =
     (if truthy explicitCodec then js_string (the explicitCodec)
      else if sd_language schema = ''protobuf'' then ''protobuf''
      else if sd_language schema \<in> set [''rosidl'', ''omg_idl''] then ''cdr''
      else if sd_language schema = ''json_schema'' then ''json'' else ''bytes'')"

definition backendFromBinding :: "YamlObject \<Rightarrow> string" where
  "backendFromBinding binding =
     (let metadata = yaml_get binding ''metadata'';
          family = normalizeTransport (first_true [field metadata ''middleware.family'', field metadata ''middleware_family'']);
          transport = normalizeTransport (yaml_get binding ''transport'')
      in if family \<noteq> [] then family
         else if startsWith transport ''nats'' then ''nats''
         else if startsWith transport ''cyclonedds'' \<or> startsWith transport ''dds'' then ''cyclonedds''
         else if startsWith transport ''fastdds'' \<or> startsWith transport ''fastrtps'' then ''fastdds''
         else if startsWith transport ''ros2'' then ''ros2''
         else if startsWith transport ''grpc'' then ''grpc''
         else if startsWith transport ''zenoh'' then ''zenoh''
         else if startsWith transport ''mqtt'' then ''mqtt''
         else or_else transport ''unknown'')"

definition adapterFromBinding :: "YamlObject \<Rightarrow> string" where
  "adapterFromBinding binding =
     normalizeTransport (first_true [yaml_get binding ''adapter'', field (yaml_get binding ''metadata'') ''adapter'',
       field (yaml_get binding ''metadata'') ''ros2.adapter''])"

subsection \<open>Warnings\<close>

definition byte_codecs :: "string list" where
  "byte_codecs = [''protobuf'', ''cdr'', ''json'', ''bytes'']"

definition warn :: "bool \<Rightarrow> string \<Rightarrow> string list" where
  "warn b message = (if b then [message] else [])"

definition ros2_native :: "schema_descriptor \<Rightarrow> string \<Rightarrow> string \<Rightarrow> bool" where
  "ros2_native schema kind adapter \<longleftrightarrow> sd_kind schema = kind \<and>
     (sd_language schema = ''rosidl''
      \<or> sd_language schema = ''protobuf'' \<and> adapter \<in> set [''ros2_proto_envelope'', ''ros2_typed_mapper''])"

definition memory_warning :: "typed_plan option \<Rightarrow> string list" where
  "memory_warning dds =
     (case dds of
        None \<Rightarrow> []
      | Some p \<Rightarrow>
          let fields' = join '', '' (me_unboundedFields (tp_memory p))
          in warn (tp_preference p = ''typed_preferred'' \<and> me_bounded (tp_memory p) = Some False)
               (''typed DDS can run, but loan/shared-memory is limited by unbounded fields''
                @ (if fields' \<noteq> [] then '': '' @ fields' else [])))"

text \<open>\<open>backend\<close> and \<open>pattern\<close> only choose between the two warnings of NATS.\<close>

definition compatibilityWarnings ::
  "schema_descriptor \<Rightarrow> string \<Rightarrow> string \<Rightarrow> string \<Rightarrow> js_value \<Rightarrow> string \<Rightarrow> string \<Rightarrow> typed_plan option \<Rightarrow> string list" where
  "compatibilityWarnings schema codec backend pattern binding standard adapter dds =
     (let b = normalizeTransport binding; odd' = codec \<notin> set byte_codecs in
      warn (sd_language schema = ''unknown'') ''schema language is unknown; configure payload.format or contract.format''
      @ warn (b = ''ros2_topic'' \<and> \<not> ros2_native schema ''message'' adapter)
          ''ros2_topic is native for rosidl message; other schemas require an adapter''
      @ warn (b = ''ros2_service'' \<and> \<not> ros2_native schema ''service'' adapter)
          ''ros2_service is native for rosidl service; other schemas require an adapter''
      @ warn (backend = ''nats'' \<and> pattern = ''pubsub'' \<and> odd') (''nats_topic needs a bytes-compatible codec, got '' @ codec)
      @ warn (backend = ''nats'' \<and> pattern = ''rpc'' \<and> odd') (''nats_rpc needs a bytes-compatible request/reply codec, got '' @ codec)
      @ warn (b = ''cyclonedds_topic'' \<and> odd') (''cyclonedds_topic needs a bytes-compatible codec or typed DDS support, got '' @ codec)
      @ warn (b = ''cyclonedds_rpc'' \<and> standard \<notin> set [''omg_dds_rpc'', ''rmw_cyclonedds'', []])
          ''cyclonedds_rpc standard must be omg_dds_rpc or rmw_cyclonedds''
      @ warn (b = ''cyclonedds_rpc'' \<and> odd')
          (''cyclonedds_rpc needs a bytes-compatible request/reply codec or typed DDS support, got '' @ codec)
      @ warn (b = ''fastdds_topic'' \<and> odd') (''fastdds_topic needs a bytes-compatible codec or typed DDS support, got '' @ codec)
      @ warn (b = ''fastdds_rpc'' \<and> standard \<notin> set [''omg_dds_rpc'', []]) ''fastdds_rpc standard must be omg_dds_rpc''
      @ warn (b = ''fastdds_rpc'' \<and> odd')
          (''fastdds_rpc needs a bytes-compatible request/reply codec or typed DDS support, got '' @ codec)
      @ memory_warning dds
      @ warn (b = ''grpc'' \<and> sd_language schema \<noteq> ''protobuf'') ''grpc is native for protobuf service; other schemas require an adapter'')"

text \<open>A descriptor of a topic has no standard.\<close>

definition binding_descriptor :: "route_kind \<Rightarrow> js_value \<Rightarrow> typed_plan option \<Rightarrow> YamlObject \<Rightarrow> compat_descriptor" where
  "binding_descriptor kind schema' dds binding =
     (let schema = schema_descriptor_of kind schema'; codec = codecFromSchema schema (field schema' ''codec'');
          backend = backendFromBinding binding; pattern = by_kind kind ''rpc'' ''pubsub'';
          standard = by_kind kind (text_or_empty (yaml_get binding ''standard'')) []; adapter = adapterFromBinding binding
      in \<lparr>cd_schema = schema, cd_codec = codec, cd_backend = backend, cd_pattern = pattern,
          cd_binding = text_or_empty (yaml_get binding ''transport''), cd_standard = standard, cd_adapter = adapter,
          cd_warnings = compatibilityWarnings schema codec backend pattern (yaml_get binding ''transport'') standard adapter dds\<rparr>)"

definition interfaceCompatibility :: "scaffold_interface \<Rightarrow> compat_descriptor list \<times> string list" where
  "interfaceCompatibility iface =
     (let descriptors = map (binding_descriptor (if_kind iface) (if_schema iface) (if_ddsTyped iface)) (if_bindings iface)
      in (descriptors, concat (map cd_warnings descriptors)))"

subsection \<open>The manifest\<close>

definition isProviderConfigRoute :: "route_kind \<Rightarrow> YamlValue \<Rightarrow> bool" where
  "isProviderConfigRoute kind route =
     (let direction = toLowerCase (trim (text_of (first_set [field (Some route) ''direction'', field (Some route) ''role''])))
      in direction = [] \<or> direction \<notin> set (by_kind kind [''client'', ''consumer''] [''subscribe'', ''subscriber'', ''in'', ''consumer'']))"

definition public_kind_word :: "route_kind \<Rightarrow> string" where
  "public_kind_word kind = by_kind kind ''service'' ''topic''"

definition providerConfigRoutes :: "route_kind \<Rightarrow> (string \<times> YamlValue) list \<Rightarrow> string list" where
  "providerConfigRoutes kind routes =
     map (\<lambda>(name, route). public_kind_word kind @ '' '' @ quoted name) (filter (\<lambda>(name, route). isProviderConfigRoute kind route) routes)"

definition validateNoConfigProviders :: "(string \<times> YamlValue) list \<Rightarrow> (string \<times> YamlValue) list \<Rightarrow> unit result" where
  "validateNoConfigProviders services topics =
     (let failures = providerConfigRoutes Service_Route services @ providerConfigRoutes Topic_Route topics in
      if failures = [] then Inr ()
      else Inl (join_lines
        ([''Provider routes must be defined only in pkg/idl/<service>/public/interfaces.yaml.'',
          ''module config.yaml may only declare consumer routes with direction client or subscribe.'',
          ''Move these provider entries out of module config.yaml:''] @ map (\<lambda>f. ''- '' @ f) failures)))"

definition codegen_key :: "codegen_target \<Rightarrow> string" where
  "codegen_key t = join ''|'' [ct_middleware t, ct_language t, ct_generator t, ct_input t, ct_outputDir t]"

definition include_text :: "string \<Rightarrow> string list \<Rightarrow> string list" where
  "include_text x xs = (if x \<noteq> [] \<and> x \<notin> set xs then xs @ [x] else xs)"

definition add_target :: "string \<times> codegen_target \<Rightarrow> codegen_group \<Rightarrow> codegen_group" where
  "add_target = (\<lambda>(name, t) g. g\<lparr>cg_types := include_text (ct_type t) (cg_types g),
     cg_routeNames := include_text name (cg_routeNames g)\<rparr>)"

definition new_codegen_group :: "string \<times> codegen_target \<Rightarrow> codegen_group" where
  "new_codegen_group x = add_target x \<lparr>cg_target = snd x, cg_types = [], cg_routeNames = []\<rparr>"

definition codegen_of :: "scaffold_interface \<Rightarrow> (string \<times> codegen_target) list" where
  "codegen_of iface = List.map_filter (\<lambda>a. case a of Codegen t \<Rightarrow> Some (if_name iface, t) | Generated g \<Rightarrow> None) (if_artifacts iface)"

definition target_order :: "codegen_group \<Rightarrow> string" where
  "target_order g = join ''|'' [ct_middleware (cg_target g), ct_language (cg_target g), ct_input (cg_target g)]"

definition collectDdsTypedCodegen :: "(string \<Rightarrow> string \<Rightarrow> int) \<Rightarrow> scaffold_interface list \<Rightarrow> codegen_group list" where
  "collectDdsTypedCodegen lc interfaces =
     js_sort (\<lambda>l r. lc (target_order l) (target_order r))
       (fold (upsert (\<lambda>x. codegen_key (snd x)) (\<lambda>g. codegen_key (cg_target g)) new_codegen_group add_target)
         (concat (map codegen_of interfaces)) [])"

record scaffold_manifest =
  sm_module :: string
  sm_idlService :: string
  sm_ddsTypedCodegen :: "codegen_group list"
  sm_interfaces :: "(scaffold_interface \<times> compat_descriptor list \<times> string list) list"

definition interface_order :: "scaffold_interface \<Rightarrow> string" where
  "interface_order iface = public_kind_word (if_kind iface) @ '':'' @ if_name iface"

definition config_interfaces ::
  "scaffold_env \<Rightarrow> route_kind \<Rightarrow> (string \<times> YamlValue) list \<Rightarrow> catalog \<Rightarrow> string \<Rightarrow> scaffold_interface list result" where
  "config_interfaces env kind routes cat defaultIdlService =
     rmap (\<lambda>(name, route). route_interface env kind name (spread_of (Some route)) cat defaultIdlService) routes"

definition buildInterfaceManifest ::
  "scaffold_env \<Rightarrow> (string \<Rightarrow> string \<Rightarrow> int) \<Rightarrow> string \<Rightarrow> YamlObject \<Rightarrow> catalog \<Rightarrow> scaffold_manifest result" where
  "buildInterfaceManifest env lc moduleName config cat =
     (let communication = yaml_get config ''communication'';
          services = entries_of (field communication ''services''); topics = entries_of (field communication ''topics'');
          idlService = inferDefaultIdlService config moduleName
      in rbind (validateNoConfigProviders services topics) (\<lambda>_.
         rbind (provider_interfaces env lc Service_Route cat idlService) (\<lambda>ps.
         rbind (provider_interfaces env lc Topic_Route cat idlService) (\<lambda>pt.
         rbind (config_interfaces env Service_Route services cat idlService) (\<lambda>cs.
         rbind (config_interfaces env Topic_Route topics cat idlService) (\<lambda>ct.
           let interfaces = js_sort (\<lambda>l r. lc (interface_order l) (interface_order r)) (ps @ pt @ cs @ ct)
           in Inr \<lparr>sm_module = moduleName, sm_idlService = idlService,
                sm_ddsTypedCodegen = collectDdsTypedCodegen lc interfaces,
                sm_interfaces = map (\<lambda>i. (i, interfaceCompatibility i)) interfaces\<rparr>))))))"

end
