(* ===== verification/Scaffold_Props.thy ===== *)
theory Scaffold_Props
  imports Scaffold_Compat
begin

text \<open>
  What the manifest guarantees: routes with several middlewares become one binding for each, planned
  bindings carry the formats they were planned for, services of a module's configuration are only
  ever clients, and the codegen targets are grouped by output.
\<close>

subsection \<open>Keys that stay\<close>

lemma get_with_schema:
  "k \<notin> set [schema_key kind, by_kind kind ''service_type'' ''message_type''] \<Longrightarrow>
    yaml_get (with_schema kind f t route) k = yaml_get route k"
  by (simp add: with_schema_def Let_def)

lemma schema_key_simps [simp]: "schema_key Service_Route = ''contract''" "schema_key Topic_Route = ''payload''"
  "by_kind Service_Route a b = a" "by_kind Topic_Route a b = b"
  by (simp_all add: schema_key_def by_kind_def)

lemma get_mergePublicRouteFields:
  "k \<notin> set [''data'', ''type'', schema_key kind, ''addresses''] \<Longrightarrow>
    yaml_get (mergePublicRouteFields route p kind) k = yaml_get route k"
  by (cases p) (simp_all add: mergePublicRouteFields_def Let_def)

lemma get_applyExecutionMetadata:
  "k \<noteq> ''metadata'' \<Longrightarrow> yaml_get (applyExecutionMetadata b route plan) k = yaml_get b k"
  by (simp add: applyExecutionMetadata_def Let_def)

lemma get_applyDds: "k \<noteq> ''metadata'' \<Longrightarrow> yaml_get (applyDdsTypedExecutionMetadata b f t) k = yaml_get b k"
  by (simp add: applyDdsTypedExecutionMetadata_def Let_def)

lemma get_normalizeRos2: "k \<notin> set [''topic'', ''service''] \<Longrightarrow> yaml_get (normalizeRos2BindingAddress b kind) k = yaml_get b k"
  by (cases kind) (simp_all add: normalizeRos2BindingAddress_def Let_def)

lemma get_default_address:
  assumes "(case kind of Service_Route \<Rightarrow> applyDefaultServiceAddress b route
      | Topic_Route \<Rightarrow> applyDefaultTopicAddress b route) = Inr b'"
    "k \<notin> set [''subject'', ''topic'', ''service'', ''request'', ''response'']"
  shows "yaml_get b' k = yaml_get b k"
proof (cases kind)
  case Service_Route
  then show ?thesis
    using assms by (auto simp: applyDefaultServiceAddress_def Let_def rbind_def split: if_splits sum.splits)
next
  case Topic_Route
  then show ?thesis
    using assms by (auto simp: applyDefaultTopicAddress_def Let_def rbind_def split: if_splits sum.splits)
qed

lemma get_copyAddressFields:
  assumes "copyAddressFields b route kind plan = Inr b'" "k \<in> set [''transport'', ''middleware'', ''adapter'', ''metadata'']"
  shows "yaml_get b' k = yaml_get b k"
proof -
  define c where "c = routeAddressFor (yaml_get route ''addresses'') (yaml_get b ''middleware'') (Some (YString (pl_transport plan)))"
  define b1 where "b1 = (if c \<noteq> [] then put_address kind c b else b)"
  define b2 where "b2 = copy_keys (address_keys kind) route b1"
  obtain b3 where b3: "(case kind of Service_Route \<Rightarrow> applyDefaultServiceAddress b2 route
      | Topic_Route \<Rightarrow> applyDefaultTopicAddress b2 route) = Inr b3" "b' = normalizeRos2BindingAddress b3 kind"
    using assms(1) unfolding copyAddressFields_def Let_def b2_def b1_def c_def by (auto simp: rbind_def split: sum.splits)
  have "yaml_get b' k = yaml_get b3 k" unfolding b3(2) by (rule get_normalizeRos2) (use assms(2) in auto)
  also have "\<dots> = yaml_get b2 k" by (rule get_default_address [OF b3(1)]) (use assms(2) in auto)
  also have "\<dots> = yaml_get b1 k" unfolding b2_def by (cases kind) (use assms(2) in \<open>auto simp: get_copy_keys address_keys_def\<close>)
  also have "\<dots> = yaml_get b k" unfolding b1_def by (cases kind) (use assms(2) in \<open>auto simp: put_address_def\<close>)
  finally show ?thesis .
qed


lemma rbind_Inr_cases: "rbind r f = Inr y \<Longrightarrow> (\<And>x. r = Inr x \<Longrightarrow> f x = Inr y \<Longrightarrow> P) \<Longrightarrow> P"
  by (cases r) (simp_all add: rbind_def)

lemma get_normalizeSingle:
  assumes "normalizeSingleRoute kind route = Inr route'"
    "k \<notin> set [''bindings'', ''payload'', ''contract'', ''service_type'', ''message_type'']"
  shows "yaml_get route' k = yaml_get route k"
proof (cases "isHighLevelRoute route")
  case True
  have "k \<notin> set [schema_key kind, by_kind kind ''service_type'' ''message_type'']" using assms(2) by (cases kind) auto
  then show ?thesis
    using assms True by (auto simp: normalizeSingleRoute_def Let_def get_with_schema elim!: rbind_Inr_cases)
qed (use assms in \<open>simp add: normalizeSingleRoute_def\<close>)

lemma get_normalizeHighLevel:
  assumes "normalizeHighLevelRoute kind route = Inr route'"
    "k \<notin> set [''bindings'', ''payload'', ''contract'', ''service_type'', ''message_type'', ''middlewares'']"
  shows "yaml_get route' k = yaml_get route k"
proof (cases "isMultiMiddlewareRoute route")
  case True
  have "k \<notin> set [schema_key kind, by_kind kind ''service_type'' ''message_type'']" using assms(2) by (cases kind) auto
  then show ?thesis
    using assms True
    by (auto simp: normalizeHighLevelRoute_def normalizeMultiMiddlewareRoute_def Let_def get_with_schema elim!: rbind_Inr_cases)
next
  case False
  then show ?thesis using assms get_normalizeSingle [of kind route route' k] by (simp add: normalizeHighLevelRoute_def)
qed

lemma rmap_member: "rmap f xs = Inr ys \<Longrightarrow> y \<in> set ys \<Longrightarrow> \<exists>x \<in> set xs. f x = Inr y"
  by (induction xs arbitrary: ys) (auto elim!: rbind_Inr_cases)

subsection \<open>Roles of configured routes\<close>

lemma consumer_direction:
  assumes "\<not> isProviderConfigRoute kind route"
  obtains es d where "route = YObject es" "first_set [yaml_get es ''direction'', yaml_get es ''role''] = Some d"
    "toLowerCase (trim (js_string d)) \<in> set (by_kind kind [''client'', ''consumer''] [''subscribe'', ''subscriber'', ''in'', ''consumer''])"
proof (cases route)
  case (YObject es)
  let ?v = "first_set [yaml_get es ''direction'', yaml_get es ''role'']"
  have t: "toLowerCase (trim (text_of ?v)) \<noteq> []"
    "toLowerCase (trim (text_of ?v)) \<in> set (by_kind kind [''client'', ''consumer''] [''subscribe'', ''subscriber'', ''in'', ''consumer''])"
    using assms YObject by (simp_all add: isProviderConfigRoute_def Let_def)
  obtain d where d: "?v = Some d" "\<not> is_nullish ?v"
    using t(1) by (cases ?v) (auto simp: text_of_def trim_Nil toLowerCase_def split: if_splits)
  then have "text_of ?v = js_string d" by (simp add: text_of_def)
  with t(2) have "toLowerCase (trim (js_string d)) \<in> set (by_kind kind [''client'', ''consumer''] [''subscribe'', ''subscriber'', ''in'', ''consumer''])"
    by simp
  with that [OF YObject d(1)] show ?thesis .
qed (use assms in \<open>simp_all add: isProviderConfigRoute_def first_set_def is_nullish_def text_of_def trim_def trimStart_def trimEnd_def toLowerCase_def\<close>)


lemma falsy_string:
  assumes "\<not> truthy (Some v)" "v \<noteq> YNull"
  shows "js_string v \<in> set [[], ''0'', ''false'']"
  using assms by (cases v) (auto simp: number_string_def)

lemma not_client_words: "s \<in> set [[], ''0'', ''false''] \<Longrightarrow>
    toLowerCase (trim s) \<notin> set [''client'', ''consumer'', ''subscribe'', ''subscriber'', ''in'']"
proof -
  have "list_all (\<lambda>s. toLowerCase (trim s) \<notin> set [''client'', ''consumer'', ''subscribe'', ''subscriber'', ''in'']) [[], ''0'', ''false'']"
    by code_simp
  then show "s \<in> set [[], ''0'', ''false''] \<Longrightarrow>
      toLowerCase (trim s) \<notin> set [''client'', ''consumer'', ''subscribe'', ''subscriber'', ''in'']"
    by (simp only: list_all_iff) blast
qed

lemma first_set_pair: "first_set [a, b] = (if \<not> is_nullish a then a else if \<not> is_nullish b then b else None)"
  by (simp add: first_set_def)

lemma first_true_pair: "first_true [a, b] = (if truthy a then a else if truthy b then b else None)"
  by (simp add: first_true_def)

lemma nullish_not_truthy: "is_nullish a \<Longrightarrow> \<not> truthy a"
  by (auto simp: is_nullish_def)

lemma serviceRole_client:
  assumes "first_set [yaml_get r ''direction'', yaml_get r ''role''] = Some d"
    "toLowerCase (trim (js_string d)) \<in> set [''client'', ''consumer'']"
  shows "serviceRole r = ''client''"
proof -
  have d: "d \<noteq> YNull" using assms(1) by (auto simp: first_set_pair is_nullish_def split: if_splits)
  have "truthy (Some d)"
  proof (rule ccontr)
    assume "\<not> truthy (Some d)"
    from not_client_words [OF falsy_string [OF this d]] assms(2) show False by auto
  qed
  then have "first_true [yaml_get r ''direction'', yaml_get r ''role''] = Some d"
    using assms(1) by (auto simp: first_set_pair first_true_pair nullish_not_truthy split: if_splits)
  then show ?thesis using assms(2) by (auto simp: serviceRole_def nullish_def)
qed

lemma route_interface_service:
  assumes "route_interface env Service_Route name given cat idl = Inr iface"
  obtains route where "normalizeHighLevelRoute Service_Route
      (mergePublicRouteFields given (resolveRef (yaml_get given ''service_ref'') (ca_services cat) idl) Service_Route) = Inr route"
    "if_role iface = serviceRole route" "if_generated iface = generated_paths Service_Route name (serviceRole route)"
    "if_kind iface = Service_Route"
  using assms unfolding route_interface_def Let_def
  by (auto elim!: rbind_Inr_cases)

text \<open>C22. Services of a module's configuration are consumed only: when the check of the configuration
  passes and the interfaces are built, each of them has the role of a client and none gets the files
  of a server, whatever its public contract, its bindings and its middlewares are.\<close>

theorem config_services_are_clients:
  assumes "validateNoConfigProviders services topics = Inr ()"
    "config_interfaces env Service_Route services cat idl = Inr ifaces"
    "iface \<in> set ifaces"
  shows "if_role iface = ''client'' \<and> if_generated iface = []"
proof -
  from rmap_member [OF assms(2) [unfolded config_interfaces_def] assms(3)]
  obtain name route where r: "(name, route) \<in> set services"
    "route_interface env Service_Route name (spread_of (Some route)) cat idl = Inr iface"
    by (auto simp del: spread_of.simps)
  have ok: "\<not> isProviderConfigRoute Service_Route route"
    using assms(1) r(1) by (auto simp: validateNoConfigProviders_def providerConfigRoutes_def Let_def filter_empty_conv split: if_splits)
  from consumer_direction [OF ok] obtain es d where d: "route = YObject es"
    "first_set [yaml_get es ''direction'', yaml_get es ''role''] = Some d"
    "toLowerCase (trim (js_string d)) \<in> set [''client'', ''consumer'']" by auto
  from route_interface_service [OF r(2)] obtain route' where r': "normalizeHighLevelRoute Service_Route
      (mergePublicRouteFields es (resolveRef (yaml_get es ''service_ref'') (ca_services cat) idl) Service_Route) = Inr route'"
    "if_role iface = serviceRole route'" "if_generated iface = generated_paths Service_Route name (serviceRole route')"
    by (simp only: d(1) spread_of.simps) blast
  have "yaml_get route' k = yaml_get es k" if "k \<in> {''direction'', ''role''}" for k
    using get_normalizeHighLevel [OF r'(1), of k] get_mergePublicRouteFields [of k Service_Route] that by auto
  then have "serviceRole route' = ''client''" by (intro serviceRole_client [where d = d]) (use d in auto)
  with r' show ?thesis by (simp add: generated_paths_def Let_def)
qed


subsection \<open>Plans and their bindings\<close>

lemma protocol_words: "normalizeTransportProtocol v \<in> set [[], ''nats'', ''cyclonedds'', ''fastdds'', ''ros2'']"
  by (simp add: normalizeTransportProtocol_def Let_def)

definition plan_transports :: "route_kind \<Rightarrow> string \<Rightarrow> string list" where
  "plan_transports kind family =
     (if family = ''nats'' then [by_kind kind ''nats_rpc'' ''nats_topic'']
      else if family = ''ros2'' then [by_kind kind ''ros2_service'' ''ros2_topic'']
      else [by_kind kind ''ros2_service'' ''ros2_topic'',
            if family = ''cyclonedds'' then by_kind kind ''cyclonedds_rpc'' ''cyclonedds_topic''
            else by_kind kind ''fastdds_rpc'' ''fastdds_topic''])"

lemma executionPlan_family:
  assumes "executionPlan p d kind = Inr plan"
  shows "normalizeTransportProtocol (Some (YString p)) \<noteq> []"
    and "pl_middleware plan = normalizeTransportProtocol (Some (YString p))"
    and "pl_family plan = pl_middleware plan"
    and "pl_transport plan \<in> set (plan_transports kind (pl_middleware plan))"
proof -
  let ?n = "normalizeTransportProtocol (Some (YString p))"
  consider "?n = []" | "?n = ''nats''" | "?n = ''cyclonedds''" | "?n = ''fastdds''" | "?n = ''ros2''"
    using protocol_words [of "Some (YString p)"] by auto
  then have "?n \<noteq> [] \<and> pl_middleware plan = ?n \<and> pl_family plan = pl_middleware plan
      \<and> pl_transport plan \<in> set (plan_transports kind (pl_middleware plan))"
    using assms by cases (auto simp: executionPlan_def Let_def plan_transports_def split: if_splits)
  then show "?n \<noteq> []" "pl_middleware plan = ?n" "pl_family plan = pl_middleware plan"
    "pl_transport plan \<in> set (plan_transports kind (pl_middleware plan))" by blast+
qed

definition all_address_keys :: "string list" where
  "all_address_keys = [''topic'', ''dds_topic'', ''subject'', ''nats_subject'', ''service'', ''request'', ''request_channel'', ''address'']"

definition addressed :: "YamlObject \<Rightarrow> bool" where
  "addressed b \<longleftrightarrow> (\<exists>k \<in> set all_address_keys. yaml_get b k \<noteq> None)"

lemma has_any_addressed: "has_any ks b \<Longrightarrow> set ks \<subseteq> set all_address_keys \<Longrightarrow> addressed b"
  unfolding has_any_def list_ex_iff addressed_def by (metis subsetD truthy.simps(1))

lemma addressed_keep: "addressed b \<Longrightarrow> (\<And>k. k \<in> set all_address_keys \<Longrightarrow> yaml_get b k \<noteq> None \<Longrightarrow> yaml_get b' k \<noteq> None)
    \<Longrightarrow> addressed b'"
  unfolding addressed_def by blast

lemma one_of_four:
  assumes "x \<in> set [a, b, c, d]"
  obtains "x = a" | "x = b" | "x = c" | "x = d"
  using assms by auto

lemma default_topic_addressed:
  assumes "applyDefaultTopicAddress b route = Inr b'"
    "yaml_get b ''transport'' = Some (YString t)" "t \<in> set [''nats_topic'', ''ros2_topic'', ''cyclonedds_topic'', ''fastdds_topic'']"
  shows "addressed b'"
proof (cases "has_any [''topic'', ''subject'', ''nats_subject'', ''dds_topic'', ''address''] b")
  case True
  then show ?thesis
    using assms(1) has_any_addressed [OF True] by (simp add: applyDefaultTopicAddress_def all_address_keys_def)
next
  case False
  consider "t = ''nats_topic''" | "t = ''ros2_topic''" | "t = ''cyclonedds_topic''" | "t = ''fastdds_topic''"
    by (rule one_of_four [OF assms(3)])
  then have "yaml_get b' ''subject'' \<noteq> None \<or> yaml_get b' ''topic'' \<noteq> None"
    by cases (use False assms(1,2) in \<open>auto simp: applyDefaultTopicAddress_def Let_def is_text_def elim!: rbind_Inr_cases\<close>)
  then show ?thesis by (auto simp: addressed_def all_address_keys_def)
qed

lemma default_service_addressed:
  assumes "applyDefaultServiceAddress b route = Inr b'"
    "yaml_get b ''transport'' = Some (YString t)" "t \<in> set [''nats_rpc'', ''ros2_service'', ''cyclonedds_rpc'', ''fastdds_rpc'']"
  shows "addressed b'"
proof (cases "has_any [''service'', ''subject'', ''nats_subject'', ''request'', ''request_channel'', ''address''] b")
  case True
  then show ?thesis
    using assms(1) has_any_addressed [OF True] by (simp add: applyDefaultServiceAddress_def all_address_keys_def)
next
  case False
  consider "t = ''nats_rpc''" | "t = ''ros2_service''" | "t = ''cyclonedds_rpc''" | "t = ''fastdds_rpc''"
    by (rule one_of_four [OF assms(3)])
  then have "yaml_get b' ''subject'' \<noteq> None \<or> yaml_get b' ''service'' \<noteq> None \<or> yaml_get b' ''request'' \<noteq> None"
    by cases (use False assms(1,2) in \<open>auto simp: applyDefaultServiceAddress_def Let_def is_text_def elim!: rbind_Inr_cases\<close>)
  then show ?thesis by (auto simp: addressed_def all_address_keys_def)
qed

lemma plan_transport_words:
  assumes "executionPlan p d kind = Inr plan"
  shows "pl_transport plan \<in> set (by_kind kind [''nats_rpc'', ''ros2_service'', ''cyclonedds_rpc'', ''fastdds_rpc'']
    [''nats_topic'', ''ros2_topic'', ''cyclonedds_topic'', ''fastdds_topic''])"
  using executionPlan_family(4) [OF assms] by (cases kind) (auto simp: plan_transports_def split: if_splits)


lemma copyAddress_addressed:
  assumes "copyAddressFields b route kind plan = Inr b'" "executionPlan p d kind = Inr plan"
    "yaml_get b ''transport'' = Some (YString (pl_transport plan))"
  shows "addressed b'"
proof -
  define c where "c = routeAddressFor (yaml_get route ''addresses'') (yaml_get b ''middleware'') (Some (YString (pl_transport plan)))"
  define b1 where "b1 = (if c \<noteq> [] then put_address kind c b else b)"
  define b2 where "b2 = copy_keys (address_keys kind) route b1"
  obtain b3 where b3: "(case kind of Service_Route \<Rightarrow> applyDefaultServiceAddress b2 route
      | Topic_Route \<Rightarrow> applyDefaultTopicAddress b2 route) = Inr b3" "b' = normalizeRos2BindingAddress b3 kind"
    using assms(1) unfolding copyAddressFields_def Let_def b2_def b1_def c_def by (auto simp: rbind_def split: sum.splits)
  have t: "yaml_get b2 ''transport'' = Some (YString (pl_transport plan))"
    unfolding b2_def b1_def using assms(3)
    by (cases kind) (simp_all add: get_copy_keys address_keys_def put_address_def)
  have "addressed b3"
    using b3(1) default_service_addressed [OF _ t] default_topic_addressed [OF _ t] plan_transport_words [OF assms(2)]
    by (cases kind) simp_all
  then show ?thesis
    by (rule addressed_keep) (cases kind, simp_all add: b3(2) normalizeRos2BindingAddress_def Let_def)
qed

text \<open>What is known of the binding of a planned route.\<close>

definition planned_binding :: "route_kind \<Rightarrow> execution_plan \<Rightarrow> YamlObject \<Rightarrow> bool" where
  "planned_binding kind plan b \<longleftrightarrow>
     yaml_get b ''transport'' = Some (YString (pl_transport plan))
     \<and> yaml_get b ''middleware'' = Some (YString (pl_middleware plan)) \<and> addressed b"

definition route_data :: "YamlObject \<Rightarrow> string" where
  "route_data route = trim (text_of (first_set [yaml_get route ''data'', yaml_get route ''data_format'',
     field (yaml_get route ''payload'') ''format'', field (yaml_get route ''contract'') ''format'']))"

definition route_schema_format :: "route_kind \<Rightarrow> YamlObject \<Rightarrow> string" where
  "route_schema_format kind route = schema_format kind (Some (YString (route_data route))) (schema_type kind route)"

lemma finish_binding_keys:
  assumes "k \<notin> set binding_keys" "k \<noteq> ''adapter''"
  shows "yaml_get (finish_binding kind route r plan b) k = yaml_get b k"
proof -
  have "k \<noteq> ''metadata''" using assms(1) by (auto simp: binding_keys_def)
  with assms show ?thesis
    by (simp add: finish_binding_def Let_def get_applyDds get_applyExecutionMetadata get_copy_keys)
qed

definition plan_start :: "execution_plan \<Rightarrow> YamlObject" where
  "plan_start plan = put_text ''middleware'' (pl_middleware plan) (put_text ''transport'' (pl_transport plan) [])"

lemma normalizeSingle_form:
  assumes "normalizeSingleRoute kind route = Inr route'" "isHighLevelRoute route"
  obtains plan b where
    "executionPlan (trim (text_of (yaml_get route ''middleware''))) (Some (YString (route_schema_format kind route))) kind = Inr plan"
    "copyAddressFields (plan_start plan) route kind plan = Inr b"
    "let r = with_schema kind (route_schema_format kind route) (schema_type kind route) route
     in route' = put ''bindings'' (YArray [YObject (finish_binding kind route r plan b)]) r"
proof -
  let ?f = "route_schema_format kind route" and ?t = "schema_type kind route"
  from assms obtain plan b where plan: "executionPlan (trim (text_of (yaml_get route ''middleware''))) (Some (YString ?f)) kind = Inr plan"
    and b: "copyAddressFields (if pl_middleware plan \<noteq> [] then put_text ''middleware'' (pl_middleware plan)
        (put_text ''transport'' (pl_transport plan) []) else put_text ''transport'' (pl_transport plan) []) route kind plan = Inr b"
    and r': "route' = put ''bindings'' (YArray [YObject (finish_binding kind route (with_schema kind ?f ?t route) plan b)])
      (with_schema kind ?f ?t route)"
    unfolding normalizeSingleRoute_def route_schema_format_def route_data_def Let_def by (auto elim!: rbind_Inr_cases)
  have "copyAddressFields (plan_start plan) route kind plan = Inr b"
    using b executionPlan_family(1,2) [OF plan] by (simp add: plan_start_def)
  with that [OF plan] r' show ?thesis by (simp add: Let_def)
qed

lemma normalizeSingle_planned:
  assumes "normalizeSingleRoute kind route = Inr route'" "isHighLevelRoute route"
  obtains plan b where
    "executionPlan (trim (text_of (yaml_get route ''middleware''))) (Some (YString (route_schema_format kind route))) kind = Inr plan"
    "yaml_get route' ''bindings'' = Some (YArray [YObject b])" "planned_binding kind plan b"
proof -
  from normalizeSingle_form [OF assms] obtain plan b where
    plan: "executionPlan (trim (text_of (yaml_get route ''middleware''))) (Some (YString (route_schema_format kind route))) kind = Inr plan"
    and b: "copyAddressFields (plan_start plan) route kind plan = Inr b"
    and r': "let r = with_schema kind (route_schema_format kind route) (schema_type kind route) route
     in route' = put ''bindings'' (YArray [YObject (finish_binding kind route r plan b)]) r" .
  let ?b = "finish_binding kind route (with_schema kind (route_schema_format kind route) (schema_type kind route) route) plan b"
  have "addressed b" by (rule copyAddress_addressed [OF b plan]) (simp add: plan_start_def)
  moreover have same: "yaml_get ?b k = yaml_get b k" if "k \<in> set (''transport'' # ''middleware'' # all_address_keys)" for k
    using that by (intro finish_binding_keys) (auto simp: binding_keys_def all_address_keys_def)
  moreover have "yaml_get b ''transport'' = Some (YString (pl_transport plan))" "yaml_get b ''middleware'' = Some (YString (pl_middleware plan))"
    using get_copyAddressFields [OF b, of "''transport''"] get_copyAddressFields [OF b, of "''middleware''"]
    by (simp_all add: plan_start_def)
  ultimately have "planned_binding kind plan ?b"
    unfolding planned_binding_def by (auto intro: addressed_keep)
  moreover have "yaml_get route' ''bindings'' = Some (YArray [YObject ?b])" using r' by (simp add: Let_def)
  ultimately show ?thesis using that [OF plan] by blast
qed

lemma get_with_middleware: "yaml_get (with_middleware route m) k =
    (if k = ''middlewares'' then None else if k = ''middleware'' then Some m else yaml_get route k)"
  by (simp add: with_middleware_def)

lemma with_middleware_high_level:
  "isMultiMiddlewareRoute route \<Longrightarrow> isHighLevelRoute (with_middleware route m)"
  by (simp add: isMultiMiddlewareRoute_def isHighLevelRoute_def get_with_middleware)

text \<open>The recursion of the code, from the list to a route with one middleware, goes one level down.\<close>

lemma with_middleware_single:
  "normalizeHighLevelRoute kind (with_middleware route m) = normalizeSingleRoute kind (with_middleware route m)"
  by (simp add: normalizeHighLevelRoute_def isMultiMiddlewareRoute_def get_with_middleware)

lemma with_middleware_format: "route_schema_format kind (with_middleware route m) = route_schema_format kind route"
  by (cases kind) (simp_all add: route_schema_format_def route_data_def schema_type_def get_with_middleware)

text \<open>C23. A route with several middlewares becomes a route with one binding for each of them, in their order:
  every middleware has an execution plan (any other middleware is an error), and its binding has the
  plan's transport and middleware and an address, given or made up. Normalising the result again changes
  nothing.\<close>

theorem multi_route_bindings:
  assumes "isMultiMiddlewareRoute route" "normalizeHighLevelRoute kind route = Inr route'"
  shows "(\<exists>bs. yaml_get route' ''bindings'' = Some (YArray (map YObject bs))
      \<and> list_all2 (\<lambda>m b. \<exists>plan. executionPlan (trim (text_of (Some m))) (Some (YString (route_schema_format kind route))) kind = Inr plan
          \<and> planned_binding kind plan b) (items_of (yaml_get route ''middlewares'')) bs)
    \<and> normalizeHighLevelRoute kind route' = Inr route'"
proof -
  let ?single = "\<lambda>m. rbind (normalizeSingleRoute kind (with_middleware route m)) (\<lambda>single. Inr (YObject (first_binding single)))"
  let ?P = "\<lambda>m b. \<exists>plan. executionPlan (trim (text_of (Some m))) (Some (YString (route_schema_format kind route))) kind = Inr plan
          \<and> planned_binding kind plan b"
  from assms obtain vs f t where vs: "rmap ?single (items_of (yaml_get route ''middlewares'')) = Inr vs"
    and r': "route' = with_schema kind f t (put ''bindings'' (YArray vs) (AList.delete ''middlewares'' route))"
    by (auto simp: normalizeHighLevelRoute_def normalizeMultiMiddlewareRoute_def Let_def elim!: rbind_Inr_cases)
  have single: "\<exists>b. v = YObject b \<and> ?P m b" if v: "?single m = Inr v" for m v
  proof -
    from v obtain r where r: "normalizeSingleRoute kind (with_middleware route m) = Inr r" "v = YObject (first_binding r)"
      by (auto elim!: rbind_Inr_cases)
    from normalizeSingle_planned [OF r(1) with_middleware_high_level [OF assms(1)]] obtain plan b where
      "executionPlan (trim (text_of (Some m))) (Some (YString (route_schema_format kind route))) kind = Inr plan"
      "yaml_get r ''bindings'' = Some (YArray [YObject b])" "planned_binding kind plan b"
      by (auto simp: get_with_middleware with_middleware_format)
    then show ?thesis using r(2) by (auto simp: first_binding_def)
  qed
  have "\<exists>bs. vs = map YObject bs \<and> list_all2 ?P ms bs" if "rmap ?single ms = Inr vs" for ms vs
    using that
  proof (induction ms arbitrary: vs)
    case (Cons m ms)
    then obtain v ws where v: "?single m = Inr v" "rmap ?single ms = Inr ws" "vs = v # ws"
      by (auto elim!: rbind_Inr_cases)
    from single [OF v(1)] obtain b where b: "v = YObject b" "?P m b" by blast
    from Cons.IH [OF v(2)] obtain bs where bs: "ws = map YObject bs" "list_all2 ?P ms bs" by blast
    have "vs = map YObject (b # bs)" "list_all2 ?P (m # ms) (b # bs)"
      using v(3) b bs by (simp_all only: list.map list_all2_Cons simp_thms)
    then show ?case by blast
  qed simp
  from this [OF vs] obtain bs where bs: "vs = map YObject bs" "list_all2 ?P (items_of (yaml_get route ''middlewares'')) bs" by blast
  have b: "yaml_get route' ''bindings'' = Some (YArray (map YObject bs))"
    unfolding r' bs(1) by (cases kind) (simp_all add: get_with_schema)
  then have "normalizeHighLevelRoute kind route' = Inr route'"
    by (simp add: normalizeHighLevelRoute_def isMultiMiddlewareRoute_def normalizeSingleRoute_def isHighLevelRoute_def is_array_def)
  with b bs(2) show ?thesis by blast
qed


subsection \<open>Planned bindings carry their formats\<close>

lemma get_inherit_keys:
  "yaml_get (inherit_keys ks src b) k = (if k \<in> set ks \<and> yaml_get b k = None then yaml_get src k else yaml_get b k)"
  unfolding inherit_keys_def by (induction ks arbitrary: b) auto

lemma get_override_direction: "k \<noteq> ''direction'' \<Longrightarrow> yaml_get (override_direction route b) k = yaml_get b k"
  by (simp add: override_direction_def split: option.splits)

lemma get_override_adapter: "k \<noteq> ''adapter'' \<Longrightarrow> yaml_get (override_adapter kind route b) k = yaml_get b k"
  by (simp add: override_adapter_def Let_def get_inherit_keys)

lemma get_put_address: "k \<notin> set [''subject'', ''service'', ''topic''] \<Longrightarrow> yaml_get (put_address kind c b) k = yaml_get b k"
  by (cases kind) (simp_all add: put_address_def)

lemma get_overrides:
  assumes "k \<notin> set [''queue_group'', ''queue_size'', ''enabled'', ''qos'', ''metadata'']" "k \<noteq> ''adapter''" "k \<noteq> ''direction''"
    "k \<notin> set [''subject'', ''service'', ''topic'']"
  shows "yaml_get (applyRouteBindingOverrides b route kind) k = yaml_get b k"
  using assms(1) get_override_adapter [OF assms(2)] get_override_direction [OF assms(3)] get_put_address [OF assms(4)]
  unfolding applyRouteBindingOverrides_def Let_def get_inherit_keys by simp

lemma adapter_overrides:
  assumes "yaml_get b ''adapter'' = None \<or> yaml_get b ''adapter'' = Some (YString a)"
    "a = defaultRos2ByteAdapter kind (yaml_get b ''transport'') (field (yaml_get route (schema_key kind)) ''format'')"
    "a \<noteq> []" "yaml_get route ''adapter'' = None" "adapterFromRoute route = []"
  shows "yaml_get (applyRouteBindingOverrides b route kind) ''adapter'' = Some (YString a)"
proof -
  have "yaml_get (override_direction route b') ''adapter'' = yaml_get b ''adapter'' \<and>
      yaml_get (override_direction route b') ''transport'' = yaml_get b ''transport''"
    if "b' = (if c then put_address kind x b else b)" for b' c x
    using that by (simp add: get_override_direction get_put_address)
  then have "yaml_get (override_adapter kind route (override_direction route b')) ''adapter'' = Some (YString a)"
    if "b' = (if c then put_address kind x b else b)" for b' c x
    using that assms by (auto simp: override_adapter_def Let_def get_inherit_keys)
  then show ?thesis by (simp add: applyRouteBindingOverrides_def Let_def get_inherit_keys)
qed

lemma get_copyAddress_standard:
  assumes "copyAddressFields b route kind plan = Inr b'" "yaml_get route ''standard'' = None" "yaml_get b ''standard'' = None"
  shows "yaml_get b' ''standard'' = None"
proof -
  define c where "c = routeAddressFor (yaml_get route ''addresses'') (yaml_get b ''middleware'') (Some (YString (pl_transport plan)))"
  define b2 where "b2 = copy_keys (address_keys kind) route (if c \<noteq> [] then put_address kind c b else b)"
  obtain b3 where b3: "(case kind of Service_Route \<Rightarrow> applyDefaultServiceAddress b2 route
      | Topic_Route \<Rightarrow> applyDefaultTopicAddress b2 route) = Inr b3" "b' = normalizeRos2BindingAddress b3 kind"
    using assms(1) unfolding copyAddressFields_def Let_def b2_def c_def by (auto simp: rbind_def split: sum.splits)
  have "yaml_get b2 ''standard'' = None"
    unfolding b2_def using assms(2,3) by (cases kind) (simp_all add: get_copy_keys put_address_def)
  then show ?thesis using get_default_address [OF b3(1), of "''standard''"] get_normalizeRos2 [of "''standard''"] by (simp add: b3(2))
qed


lemma finish_binding_adapter:
  assumes "yaml_get b ''adapter'' = None" "yaml_get b ''transport'' = Some (YString t)"
    "a = defaultRos2ByteAdapter kind (Some (YString t)) (field (yaml_get r (schema_key kind)) ''format'')"
    "adapterFromRoute r = []"
  shows "yaml_get (finish_binding kind route r plan b) ''adapter'' = (if a = [] then None else Some (YString a))"
  using assms
  by (simp add: finish_binding_def Let_def get_applyDds get_applyExecutionMetadata get_copy_keys binding_keys_def)

lemma no_adapter: "yaml_get r ''adapter'' = None \<Longrightarrow> yaml_get r ''metadata'' = None \<Longrightarrow> adapterFromRoute r = []"
  by (simp add: adapterFromRoute_def first_set_def normalizeTransport_def normalized_word_def trim_def trimStart_def
      trimEnd_def toLowerCase_def replace_char_def)

definition schema_formats :: "route_kind \<Rightarrow> string list" where
  "schema_formats kind = by_kind kind [''protobuf_rpc'', ''ros2_srv'', ''dds_idl_rpc''] [''protobuf'', ''ros2_msg'', ''dds_idl'']"

definition transport_words :: "route_kind \<Rightarrow> string list" where
  "transport_words kind = by_kind kind [''nats_rpc'', ''ros2_service'', ''cyclonedds_rpc'', ''fastdds_rpc'']
    [''nats_topic'', ''ros2_topic'', ''cyclonedds_topic'', ''fastdds_topic'']"

definition ros2_transport :: "route_kind \<Rightarrow> string" where
  "ros2_transport kind = by_kind kind ''ros2_service'' ''ros2_topic''"

text \<open>The words of the table: which adapter a format gets on a transport, and which warnings follow.\<close>

lemma adapter_table:
  "list_all (\<lambda>kind. list_all (\<lambda>f. list_all (\<lambda>t.
     (defaultRos2ByteAdapter kind (Some (YString t)) (Some (YString f)) \<noteq> []) = (t = ros2_transport kind \<and> f \<noteq> dds_format kind))
     (transport_words kind)) (schema_formats kind)) [Service_Route, Topic_Route]"
  by code_simp

lemma warn_Nil [simp]: "warn b m = [] \<longleftrightarrow> \<not> b"
  by (simp add: warn_def)

lemma no_warnings:
  assumes "codec \<in> set byte_codecs"
  shows "compatibilityWarnings schema codec backend pattern binding [] adapter None = [] \<longleftrightarrow>
    sd_language schema \<noteq> ''unknown''
    \<and> (normalizeTransport binding = ''ros2_topic'' \<longrightarrow> ros2_native schema ''message'' adapter)
    \<and> (normalizeTransport binding = ''ros2_service'' \<longrightarrow> ros2_native schema ''service'' adapter)
    \<and> (normalizeTransport binding = ''grpc'' \<longrightarrow> sd_language schema = ''protobuf'')"
  using assms unfolding compatibilityWarnings_def Let_def by (simp add: memory_warning_def)

definition carried :: "route_kind \<Rightarrow> string \<Rightarrow> string \<Rightarrow> string \<Rightarrow> bool" where
  "carried kind f t adapter =
     (let lang = schema_language kind (toLowerCase f); w = normalizeTransport (Some (YString t));
          native = lang = ''rosidl'' \<or> lang = ''protobuf'' \<and> adapter \<in> set [''ros2_proto_envelope'', ''ros2_typed_mapper'']
      in lang \<noteq> ''unknown'' \<and> (w = ''ros2_topic'' \<longrightarrow> kind = Topic_Route \<and> native)
         \<and> (w = ''ros2_service'' \<longrightarrow> kind = Service_Route \<and> native) \<and> (w = ''grpc'' \<longrightarrow> lang = ''protobuf''))"

definition codec_of :: "route_kind \<Rightarrow> string \<Rightarrow> string" where
  "codec_of kind f = codecFromSchema \<lparr>sd_language = schema_language kind (toLowerCase f), sd_kind = [], sd_type = []\<rparr> None"

text \<open>For a format and a transport: with the adapter they get, or with any adapter when they get none.\<close>

definition fits :: "route_kind \<Rightarrow> string \<Rightarrow> string \<Rightarrow> bool" where
  "fits kind f t =
     (let a = defaultRos2ByteAdapter kind (Some (YString t)) (Some (YString f));
          expected = (t \<noteq> ros2_transport kind \<or> f \<noteq> dds_format kind)
      in codec_of kind f \<in> set byte_codecs
         \<and> (if a \<noteq> [] then carried kind f t (normalizeTransport (Some (YString a))) = expected
            else list_all (\<lambda>adapter. carried kind f t adapter = expected) [''ros2_proto_envelope'', []]))"

lemma fits_table: "list_all (\<lambda>kind. list_all (\<lambda>f. list_all (fits kind f) (transport_words kind)) (schema_formats kind))
    [Service_Route, Topic_Route]"
  by code_simp

lemma fits_all: "f \<in> set (schema_formats kind) \<Longrightarrow> t \<in> set (transport_words kind) \<Longrightarrow> fits kind f t"
proof -
  have "kind \<in> set [Service_Route, Topic_Route]" by (cases kind) simp_all
  then show "f \<in> set (schema_formats kind) \<Longrightarrow> t \<in> set (transport_words kind) \<Longrightarrow> fits kind f t"
    using fits_table unfolding list_all_iff by blast
qed

lemma carried_adapter:
  "carried kind f t adapter = carried kind f t ''ros2_proto_envelope'' \<or> carried kind f t adapter = carried kind f t []"
  by (cases "adapter = ''ros2_proto_envelope'' \<or> adapter = ''ros2_typed_mapper''") (simp_all add: carried_def Let_def)

lemma binding_warnings:
  assumes "field schema ''format'' = Some (YString f)" "\<not> truthy (field schema ''codec'')" "codec_of kind f \<in> set byte_codecs"
    "yaml_get b ''transport'' = Some (YString t)" "yaml_get b ''standard'' = None"
  shows "cd_warnings (binding_descriptor kind schema None b) = [] \<longleftrightarrow> carried kind f t (adapterFromBinding b)"
proof -
  have codec: "codecFromSchema (schema_descriptor_of kind schema) (field schema ''codec'') = codec_of kind f"
    using assms(1,2) by (simp add: codecFromSchema_def codec_of_def schema_descriptor_of_def)
  have standard: "by_kind kind (text_or_empty (yaml_get b ''standard'')) [] = []"
    using assms(5) by (cases kind) simp_all
  have w: "cd_warnings (binding_descriptor kind schema None b) = compatibilityWarnings (schema_descriptor_of kind schema)
      (codec_of kind f) (backendFromBinding b) (by_kind kind ''rpc'' ''pubsub'') (Some (YString t)) [] (adapterFromBinding b) None"
    by (simp add: binding_descriptor_def Let_def codec standard assms(4))
  show ?thesis
    unfolding w no_warnings [OF assms(3)] using assms(1)
    by (cases kind) (simp_all add: carried_def Let_def schema_descriptor_of_def ros2_native_def)
qed


lemma final_binding:
  assumes "b' = applyDdsTypedExecutionMetadata (applyRouteBindingOverrides b route kind) x y"
    "yaml_get b ''transport'' = Some (YString t)" "yaml_get b ''standard'' = None"
    "yaml_get b ''adapter'' = (if a = [] then None else Some (YString a))"
    "a = defaultRos2ByteAdapter kind (Some (YString t)) (Some (YString f))"
    "field (yaml_get route (schema_key kind)) ''format'' = Some (YString f)"
    "yaml_get route ''adapter'' = None" "adapterFromRoute route = []"
    "f \<in> set (schema_formats kind)" "t \<in> set (transport_words kind)"
  shows "yaml_get b' ''transport'' = Some (YString t)" "yaml_get b' ''standard'' = None"
    "carried kind f t (adapterFromBinding b') \<longleftrightarrow> t \<noteq> ros2_transport kind \<or> f \<noteq> dds_format kind"
proof -
  show "yaml_get b' ''transport'' = Some (YString t)" "yaml_get b' ''standard'' = None"
    using assms(2,3) unfolding assms(1) by (simp_all add: get_applyDds get_overrides)
  have fit: "fits kind f t" by (rule fits_all) (use assms(9,10) in simp_all)
  show "carried kind f t (adapterFromBinding b') \<longleftrightarrow> t \<noteq> ros2_transport kind \<or> f \<noteq> dds_format kind"
  proof (cases "a = []")
    case True
    with fit carried_adapter [of kind f t "adapterFromBinding b'"] show ?thesis
      unfolding fits_def Let_def assms(5) [symmetric] by (auto simp only: list.pred_inject if_True if_False simp_thms)
  next
    case False
    have "yaml_get (applyRouteBindingOverrides b route kind) ''adapter'' = Some (YString a)"
      by (rule adapter_overrides) (use assms False in simp_all)
    then have "yaml_get b' ''adapter'' = Some (YString a)" unfolding assms(1) by (simp add: get_applyDds)
    then have "adapterFromBinding b' = normalizeTransport (Some (YString a))"
      using False by (simp add: adapterFromBinding_def first_true_def)
    with fit False show ?thesis unfolding fits_def Let_def assms(5) [symmetric] by simp
  qed
qed

text \<open>Planning and checking agree, as far as the types of DDS and the public routes are not asked: when the scaffold
  itself chooses the transport and the adapter of a route (it names a middleware, and neither a standard, an adapter, a
  codec nor metadata of its own) and the format is one of protobuf, ROS 2 and DDS IDL, the compatibility check has
  nothing to say about the binding, except in the one case that it cannot carry: DDS IDL on the ROS 2 transport.\<close>

theorem planned_bindings_fit:
  assumes "isHighLevelRoute route" "normalizeSingleRoute kind route = Inr route'"
    "yaml_get route ''standard'' = None" "yaml_get route ''adapter'' = None" "yaml_get route ''metadata'' = None"
    "field (yaml_get route' (schema_key kind)) ''format'' = Some (YString f)" "f \<in> set (schema_formats kind)"
    "\<not> truthy (field (yaml_get route' (schema_key kind)) ''codec'')"
  shows "\<exists>b t. kept_route_bindings kind route' None = [b] \<and> yaml_get b ''transport'' = Some (YString t)
    \<and> (cd_warnings (binding_descriptor kind (yaml_get route' (schema_key kind)) None b) = [] \<longleftrightarrow>
        t \<noteq> ros2_transport kind \<or> f \<noteq> dds_format kind)"
proof -
  from normalizeSingle_form [OF assms(2,1)] obtain plan b where
    plan: "executionPlan (trim (text_of (yaml_get route ''middleware''))) (Some (YString (route_schema_format kind route))) kind = Inr plan"
    and b: "copyAddressFields (plan_start plan) route kind plan = Inr b"
    and r': "let r = with_schema kind (route_schema_format kind route) (schema_type kind route) route
      in route' = put ''bindings'' (YArray [YObject (finish_binding kind route r plan b)]) r" .
  define r where "r = with_schema kind (route_schema_format kind route) (schema_type kind route) route"
  define b0 where "b0 = finish_binding kind route r plan b"
  define t where "t = pl_transport plan"
  have r': "route' = put ''bindings'' (YArray [YObject b0]) r" using r' by (simp add: Let_def r_def b0_def)
  have schema: "yaml_get r (schema_key kind) = yaml_get route' (schema_key kind)" unfolding r' by (cases kind) simp_all
  have none: "yaml_get r k = None" "yaml_get route' k = None" if "k \<in> set [''adapter'', ''metadata'']" for k
    using that assms(4,5) unfolding r' r_def by (cases kind; auto simp: get_with_schema)+
  have adapters: "adapterFromRoute r = []" "adapterFromRoute route' = []" by (rule no_adapter; use none in simp)+
  have at: "yaml_get b ''transport'' = Some (YString t)" "yaml_get b ''adapter'' = None" "yaml_get b ''standard'' = None"
    using get_copyAddressFields [OF b, of "''transport''"] get_copyAddressFields [OF b, of "''adapter''"]
      get_copyAddress_standard [OF b assms(3)]
    by (simp_all add: plan_start_def t_def yaml_get_def put_def)
  have at0: "yaml_get b0 ''transport'' = Some (YString t)" "yaml_get b0 ''standard'' = None"
    using at unfolding b0_def by (simp_all add: finish_binding_keys binding_keys_def)
  define a where "a = defaultRos2ByteAdapter kind (Some (YString t)) (Some (YString f))"
  have a0: "yaml_get b0 ''adapter'' = (if a = [] then None else Some (YString a))"
    unfolding b0_def by (rule finish_binding_adapter [OF at(2,1) _ adapters(1)]) (simp add: a_def schema assms(6))
  define b' where "b' = applyDdsTypedExecutionMetadata (applyRouteBindingOverrides b0 route' kind)
    (field (yaml_get route' (schema_key kind)) ''format'') (field (yaml_get route' (schema_key kind)) ''type'')"
  have t: "t \<in> set (transport_words kind)" using plan_transport_words [OF plan] by (simp add: t_def transport_words_def)
  have final: "yaml_get b' ''transport'' = Some (YString t)" "yaml_get b' ''standard'' = None"
    "carried kind f t (adapterFromBinding b') \<longleftrightarrow> t \<noteq> ros2_transport kind \<or> f \<noteq> dds_format kind"
    by (rule final_binding [OF b'_def at0 a0 a_def assms(6) none(2) adapters(2) assms(7) t]; simp)+
  have "codec_of kind f \<in> set byte_codecs" using fits_all [OF assms(7) t] by (simp add: fits_def Let_def)
  from binding_warnings [OF assms(6,8) this final(1,2)] final(3)
  have "cd_warnings (binding_descriptor kind (yaml_get route' (schema_key kind)) None b') = [] \<longleftrightarrow>
      t \<noteq> ros2_transport kind \<or> f \<noteq> dds_format kind" by simp
  moreover have "kept_route_bindings kind route' None = [b']"
    by (simp add: kept_route_bindings_def normalizeBindings_def annotateDdsTypedBindings_def Let_def b'_def r')
  ultimately show ?thesis using final(1) by blast
qed


subsection \<open>Codegen targets\<close>

interpretation targets: keyed_merge "\<lambda>x. codegen_key (snd x)" "\<lambda>g. codegen_key (cg_target g)" new_codegen_group add_target
  by unfold_locales (simp_all add: new_codegen_group_def add_target_def case_prod_unfold)

lemma include_texts: "fold include_text xs [] = uniq (filter (\<lambda>x. x \<noteq> []) xs)"
proof (induction xs rule: rev_induct)
  case (snoc x xs)
  then show ?case by (auto simp: include_text_def uniq_snoc)
qed (simp add: uniq_def)

lemma grown_target:
  "cg_types (fold add_target xs g) = fold include_text (map (ct_type \<circ> snd) xs) (cg_types g)"
  "cg_routeNames (fold add_target xs g) = fold include_text (map fst xs) (cg_routeNames g)"
  by (induction xs arbitrary: g) (simp_all add: add_target_def case_prod_unfold)

definition target_summary :: "string \<Rightarrow> (string \<times> codegen_target) list \<Rightarrow> string \<times> string list \<times> string list" where
  "target_summary k xs =
     (let mine = filter (\<lambda>x. codegen_key (snd x) = k) xs
      in (k, uniq (filter (\<lambda>t. t \<noteq> []) (map (ct_type \<circ> snd) mine)), uniq (filter (\<lambda>n. n \<noteq> []) (map fst mine))))"

lemma target_entry:
  assumes "k \<in> set (uniq (map (\<lambda>x. codegen_key (snd x)) xs))"
  shows "(codegen_key (cg_target (targets.entry_of xs k)), cg_types (targets.entry_of xs k), cg_routeNames (targets.entry_of xs k))
    = target_summary k xs"
proof (cases "filter (\<lambda>x. codegen_key (snd x) = k) xs")
  case Nil
  with assms show ?thesis by (auto simp: filter_empty_conv)
next
  case (Cons y r)
  let ?e = "add_target y \<lparr>cg_target = snd y, cg_types = [], cg_routeNames = []\<rparr>"
  have "targets.entry_of xs k = fold add_target (y # r) \<lparr>cg_target = snd y, cg_types = [], cg_routeNames = []\<rparr>"
    by (simp add: targets.entry_of_def Cons new_codegen_group_def)
  moreover have "codegen_key (cg_target (targets.entry_of xs k)) = k" by (rule targets.key_entry_of) (use assms in simp)
  ultimately show ?thesis
    by (simp add: target_summary_def Cons Let_def include_texts [symmetric] grown_target [of "y # r", simplified])
qed

text \<open>The targets that the interfaces ask for are grouped by their keys, and a group has the types and the routes of
  exactly the targets with its key, each once and in the order of the interfaces.\<close>

theorem codegen_groups:
  "mset (map (\<lambda>g. (codegen_key (cg_target g), cg_types g, cg_routeNames g)) (collectDdsTypedCodegen lc ifaces)) =
    mset (map (\<lambda>k. target_summary k (concat (map codegen_of ifaces)))
      (uniq (map (\<lambda>x. codegen_key (snd x)) (concat (map codegen_of ifaces)))))"
proof -
  let ?xs = "concat (map codegen_of ifaces)" and ?s = "\<lambda>g. (codegen_key (cg_target g), cg_types g, cg_routeNames g)"
  have rows: "map ?s (map (targets.entry_of ?xs) (uniq (map (\<lambda>x. codegen_key (snd x)) ?xs))) =
      map (\<lambda>k. target_summary k ?xs) (uniq (map (\<lambda>x. codegen_key (snd x)) ?xs))"
    unfolding list.map_comp comp_def by (rule map_cong [OF refl]) (rule target_entry)
  have sorted: "mset (map ?s (js_sort cmp ys)) = mset (map ?s ys)" for cmp ys by simp
  have "mset (map ?s (collectDdsTypedCodegen lc ifaces)) =
      mset (map ?s (map (targets.entry_of ?xs) (uniq (map (\<lambda>x. codegen_key (snd x)) ?xs))))"
    unfolding collectDdsTypedCodegen_def targets.merged by (rule sorted)
  also have "\<dots> = mset (map (\<lambda>k. target_summary k ?xs) (uniq (map (\<lambda>x. codegen_key (snd x)) ?xs)))"
    by (rule arg_cong [OF rows])
  finally show ?thesis .
qed

subsection \<open>Topics of a configuration\<close>

definition empty_catalog :: catalog where
  "empty_catalog = \<lparr>ca_protoFiles = [], ca_protoMessages = [], ca_protoRpcs = [], ca_ddsFiles = [], ca_ddsMessages = [], ca_ddsRpcs = [], ca_topics = [],
     ca_services = [], ca_ros2Messages = [], ca_ros2Services = [], ca_messageArtifacts = [], ca_serviceArtifacts = []\<rparr>"

definition scaffold_world :: scaffold_env where
  "scaffold_world = \<lparr>se_rootDir = [''repo''], se_cwd = [''repo'']\<rparr>"

lemma finish_binding_direction:
  "yaml_get (finish_binding kind route r plan b) ''direction'' =
    (if yaml_get route ''direction'' \<noteq> None then yaml_get route ''direction'' else yaml_get b ''direction'')"
  by (simp add: finish_binding_def Let_def get_applyDds get_applyExecutionMetadata get_copy_keys binding_keys_def)

text \<open>The role of a topic that names its middleware is its direction's. The check of a configuration lets four
  words for a consumer pass, but only two of them make a subscriber: with \<open>subscriber\<close> and \<open>consumer\<close> the
  module becomes a publisher of the topic.\<close>

theorem topic_role_of_direction:
  assumes "isHighLevelRoute route" "normalizeSingleRoute Topic_Route route = Inr route'"
    "yaml_get route ''direction'' = Some (YString d)" "yaml_get route ''publish'' = None" "yaml_get route ''subscribe'' = None"
  shows "topicRole route' (kept_route_bindings Topic_Route route' None) None =
    Inr (if toLowerCase (trim d) \<in> set [''subscribe'', ''in''] then ''subscriber'' else ''publisher'')"
proof -
  from normalizeSingle_form [OF assms(2,1)] obtain plan b where
    r': "let r = with_schema Topic_Route (route_schema_format Topic_Route route) (schema_type Topic_Route route) route
      in route' = put ''bindings'' (YArray [YObject (finish_binding Topic_Route route r plan b)]) r" .
  then obtain r where r: "route' = put ''bindings'' (YArray [YObject (finish_binding Topic_Route route r plan b)]) r"
    by (simp add: Let_def)
  let ?b = "finish_binding Topic_Route route r plan b"
  have keys: "yaml_get route' k = yaml_get route k" if "k \<in> set [''direction'', ''publish'', ''subscribe'']" for k
    by (rule get_normalizeSingle [OF assms(2)]) (use that in auto)
  have items: "normalizeBindings (yaml_get route' ''bindings'') = [?b]" "\<not> null_reached (yaml_get route' ''bindings'')"
    by (simp_all add: r normalizeBindings_def null_reached_def)
  have dir: "yaml_get ?b ''direction'' = Some (YString d)" by (simp add: finish_binding_direction assms(3))
  define b' where "b' = applyDdsTypedExecutionMetadata (applyRouteBindingOverrides ?b route' Topic_Route)
    (field (yaml_get route' ''payload'') ''format'') (field (yaml_get route' ''payload'') ''type'')"
  have bindings: "kept_route_bindings Topic_Route route' None = [b']"
    by (simp add: kept_route_bindings_def items(1) annotateDdsTypedBindings_def normalizeBindings_def [of None] Let_def b'_def)
  have "yaml_get b' ''transport'' = yaml_get ?b ''transport''" by (simp add: b'_def get_applyDds get_overrides)
  then have "not_ros2_topic b' = not_ros2_topic ?b" by (simp add: not_ros2_topic_def)
  then have candidate: "nullish (role_candidate [?b] [b']) [] = ?b" by (simp add: role_candidate_def nullish_def)
  have first: "first_set [yaml_get ?b ''direction'', x, y] = Some (YString d)" for x y by (simp add: first_set_def dir)
  have some: "nullish (Some v) w = v" for v w :: YamlValue by (simp add: nullish_def)
  show ?thesis
    using keys [of "''publish''"] keys [of "''subscribe''"] assms(4,5) items(2)
    unfolding topicRole_def Let_def items(1) bindings candidate first some by simp
qed


subsection \<open>Witnesses\<close>

lemma normalizeSingle_exists:
  assumes "isHighLevelRoute route"
    "executionPlan (trim (text_of (yaml_get route ''middleware''))) (Some (YString (route_schema_format kind route))) kind = Inr plan"
    "copyAddressFields (plan_start plan) route kind plan = Inr b"
  shows "\<exists>route'. normalizeSingleRoute kind route = Inr route'"
proof -
  have "copyAddressFields (if pl_middleware plan \<noteq> [] then put_text ''middleware'' (pl_middleware plan)
      (put_text ''transport'' (pl_transport plan) []) else put_text ''transport'' (pl_transport plan) []) route kind plan = Inr b"
    using assms(3) executionPlan_family(1,2) [OF assms(2)] by (simp add: plan_start_def)
  with assms(1,2) show ?thesis
    by (simp add: normalizeSingleRoute_def Let_def route_schema_format_def route_data_def)
qed

text \<open>The two steps that can fail, for evaluation.\<close>

definition plan_ok :: "route_kind \<Rightarrow> YamlObject \<Rightarrow> bool" where
  "plan_ok kind route \<longleftrightarrow> isHighLevelRoute route \<and>
     (case executionPlan (trim (text_of (yaml_get route ''middleware''))) (Some (YString (route_schema_format kind route))) kind of
        Inl e \<Rightarrow> False | Inr plan \<Rightarrow> \<not> isl (copyAddressFields (plan_start plan) route kind plan))"

lemma plan_ok_exists: "plan_ok kind route \<Longrightarrow> \<exists>route'. normalizeSingleRoute kind route = Inr route'"
proof -
  assume ok: "plan_ok kind route"
  then obtain plan where plan: "executionPlan (trim (text_of (yaml_get route ''middleware''))) (Some (YString (route_schema_format kind route))) kind = Inr plan"
    by (auto simp: plan_ok_def split: sum.splits)
  with ok obtain b where "copyAddressFields (plan_start plan) route kind plan = Inr b"
    by (cases "copyAddressFields (plan_start plan) route kind plan") (auto simp: plan_ok_def)
  from normalizeSingle_exists [OF _ plan this] ok show ?thesis by (simp add: plan_ok_def)
qed

lemma rmap_exists: "list_all (\<lambda>x. \<exists>y. f x = Inr y) xs \<Longrightarrow> \<exists>ys. rmap f xs = Inr ys"
  by (induction xs) auto

lemma multi_ok_exists:
  assumes "isMultiMiddlewareRoute route"
    "list_all (\<lambda>m. plan_ok kind (with_middleware route m)) (items_of (yaml_get route ''middlewares''))"
  shows "\<exists>route'. normalizeHighLevelRoute kind route = Inr route'"
proof -
  let ?f = "\<lambda>m. rbind (normalizeSingleRoute kind (with_middleware route m)) (\<lambda>single. Inr (YObject (first_binding single)))"
  have "plan_ok kind (with_middleware route m) \<Longrightarrow> \<exists>y. ?f m = Inr y" for m using plan_ok_exists by fastforce
  then have "list_all (\<lambda>m. \<exists>y. ?f m = Inr y) (items_of (yaml_get route ''middlewares''))"
    using assms(2) by (simp only: list_all_iff) blast
  from rmap_exists [OF this] obtain vs where "rmap ?f (items_of (yaml_get route ''middlewares'')) = Inr vs" by blast
  with assms(1) show ?thesis by (simp add: normalizeHighLevelRoute_def normalizeMultiMiddlewareRoute_def Let_def)
qed

definition demo_service :: YamlObject where
  "demo_service = [(''direction'', YString ''client''), (''middleware'', YString ''nats''), (''type'', YString ''auth.Login'')]"

lemma demo_service_normal: obtains route where "normalizeSingleRoute Service_Route demo_service = Inr route"
proof -
  have "plan_ok Service_Route demo_service" by code_simp
  from plan_ok_exists [OF this] that show ?thesis by blast
qed

lemma service_interface_exists:
  assumes "normalizeHighLevelRoute Service_Route given = Inr route" "yaml_get given ''service_ref'' = None"
  shows "\<exists>iface. route_interface env Service_Route name given cat idl = Inr iface"
  by (simp add: route_interface_def Let_def resolveRef_def mergePublicRouteFields_def assms)

theorem config_services_are_clients_witness:
  "\<exists>iface. config_interfaces scaffold_world Service_Route [(''login'', YObject demo_service)] empty_catalog ''demo'' = Inr [iface]
    \<and> if_role iface = ''client'' \<and> if_generated iface = []"
proof -
  have v: "validateNoConfigProviders [(''login'', YObject demo_service)] [] = Inr ()" by code_simp
  obtain route where "normalizeSingleRoute Service_Route demo_service = Inr route" by (rule demo_service_normal)
  moreover have "\<not> isMultiMiddlewareRoute demo_service" "yaml_get demo_service ''service_ref'' = None" by code_simp+
  ultimately have "normalizeHighLevelRoute Service_Route demo_service = Inr route" by (simp add: normalizeHighLevelRoute_def)
  from service_interface_exists [OF this] \<open>yaml_get demo_service ''service_ref'' = None\<close>
  obtain iface where i: "route_interface scaffold_world Service_Route ''login'' demo_service empty_catalog ''demo'' = Inr iface" by blast
  then have c: "config_interfaces scaffold_world Service_Route [(''login'', YObject demo_service)] empty_catalog ''demo'' = Inr [iface]"
    by (simp add: config_interfaces_def)
  have "iface \<in> set [iface]" by simp
  from config_services_are_clients [OF v c this] c show ?thesis by blast
qed

definition demo_topic :: YamlObject where
  "demo_topic = [(''direction'', YString ''subscribe''), (''type'', YString ''demo::Pose''),
     (''middlewares'', YArray [YString ''fastdds'', YString ''ros2''])]"

theorem multi_route_bindings_witness:
  "\<exists>route'. normalizeHighLevelRoute Topic_Route demo_topic = Inr route' \<and>
    (\<exists>bs. yaml_get route' ''bindings'' = Some (YArray (map YObject bs))
      \<and> list_all2 (\<lambda>m b. \<exists>plan. executionPlan (trim (text_of (Some m))) (Some (YString (route_schema_format Topic_Route demo_topic)))
            Topic_Route = Inr plan \<and> planned_binding Topic_Route plan b) (items_of (yaml_get demo_topic ''middlewares'')) bs)
    \<and> normalizeHighLevelRoute Topic_Route route' = Inr route'"
proof -
  have multi: "isMultiMiddlewareRoute demo_topic" by code_simp
  moreover have "list_all (\<lambda>m. plan_ok Topic_Route (with_middleware demo_topic m)) (items_of (yaml_get demo_topic ''middlewares''))"
    by code_simp
  ultimately obtain route' where r: "normalizeHighLevelRoute Topic_Route demo_topic = Inr route'"
    using multi_ok_exists by blast
  from multi_route_bindings [OF multi r] r show ?thesis by blast
qed

text \<open>The format and the codec that the normal form of a route without a schema has.\<close>

lemma normalizeSingle_schema:
  assumes "normalizeSingleRoute kind route = Inr route'" "isHighLevelRoute route" "yaml_get route (schema_key kind) = None"
  shows "field (yaml_get route' (schema_key kind)) ''format'' = Some (YString (route_schema_format kind route))
    \<and> field (yaml_get route' (schema_key kind)) ''codec'' = None"
proof -
  from normalizeSingle_form [OF assms(1,2)] obtain bs where
    r': "route' = put ''bindings'' bs (with_schema kind (route_schema_format kind route) (schema_type kind route) route)"
    by (auto simp: Let_def)
  show ?thesis using assms(3) by (cases kind) (auto simp: r' with_schema_def Let_def yaml_get_def [of "[]"])
qed

theorem planned_bindings_fit_witness:
  "\<exists>route' b t. normalizeSingleRoute Service_Route demo_service = Inr route'
    \<and> kept_route_bindings Service_Route route' None = [b] \<and> yaml_get b ''transport'' = Some (YString t)
    \<and> (cd_warnings (binding_descriptor Service_Route (yaml_get route' (schema_key Service_Route)) None b) = [] \<longleftrightarrow>
        t \<noteq> ros2_transport Service_Route \<or> ''protobuf_rpc'' \<noteq> dds_format Service_Route)"
proof -
  have h: "isHighLevelRoute demo_service" "yaml_get demo_service (schema_key Service_Route) = None" by code_simp+
  obtain route' where r: "normalizeSingleRoute Service_Route demo_service = Inr route'" by (rule demo_service_normal)
  have n: "yaml_get demo_service ''standard'' = None" "yaml_get demo_service ''adapter'' = None" "yaml_get demo_service ''metadata'' = None"
    by code_simp+
  have "route_schema_format Service_Route demo_service = ''protobuf_rpc''" by code_simp
  then have f: "field (yaml_get route' (schema_key Service_Route)) ''format'' = Some (YString ''protobuf_rpc'')"
    "\<not> truthy (field (yaml_get route' (schema_key Service_Route)) ''codec'')"
    using normalizeSingle_schema [OF r h] by simp_all
  have "''protobuf_rpc'' \<in> set (schema_formats Service_Route)" by code_simp
  from planned_bindings_fit [OF h(1) r n f(1) this f(2)] r show ?thesis by blast
qed

end
