(* ===== verification/Scaffold_Files.thy ===== *)
theory Scaffold_Files
  imports Scaffold_Types
begin

text \<open>
  Writing the generated files (\<open>bin/generate-interface-scaffold.mjs\<close>): where a file goes, which files may
  be replaced, and the removal of files that an older generator left. The state is the file system;
  the renderers, whose output is the list of files, are not modelled.
\<close>

definition GENERATED_MARK :: string where
  "GENERATED_MARK = ''Code generated by bin/generate-interface-scaffold.mjs; DO NOT EDIT.''"

subsection \<open>Paths\<close>

definition isInsideRoot :: "path \<Rightarrow> path \<Rightarrow> bool" where
  "isInsideRoot rootDir p =
     (let normalized = path_relative rootDir p
      in normalized = [] \<or> \<not> startsWith normalized ''..'' \<and> \<not> startsWith normalized ''/'')"

definition scaffoldOutputPath :: "path \<Rightarrow> path \<Rightarrow> bool \<Rightarrow> string \<Rightarrow> path" where
  "scaffoldOutputPath rootDir outDir explicitOut relativePath =
     (if startsWith relativePath ''pkg/idl/'' \<and> \<not> explicitOut \<and> isInsideRoot rootDir outDir
      then path_join rootDir relativePath else path_join outDir relativePath)"

text \<open>\<open>[A-Za-z0-9_]+\<close> at the front of a text: what stands after it.\<close>

definition after_word :: "string \<Rightarrow> string option" where
  "after_word s = (if s \<noteq> [] \<and> is_word_char (hd s) then Some (dropWhile is_word_char s) else None)"

definition after_prefix :: "string \<Rightarrow> string \<Rightarrow> string option" where
  "after_prefix p s = (if startsWith s p then Some (drop (length p) s) else None)"

text \<open>\<open>.+_(service|publisher_service|...)\.ext\<close>: every alternative ends with \<open>_service\<close>, with something before.\<close>

definition service_file :: "string \<Rightarrow> string \<Rightarrow> bool" where
  "service_file ext s \<longleftrightarrow> endsWith s (''_service'' @ ext) \<and> length s > length (''_service'' @ ext)
     \<and> list_all (\<lambda>c. \<not> is_term c) s"

definition on_rest :: "string option \<Rightarrow> (string \<Rightarrow> bool) \<Rightarrow> bool" where
  "on_rest r f \<longleftrightarrow> (case r of Some s \<Rightarrow> f s | None \<Rightarrow> False)"

definition editable_service_scaffold :: "string \<Rightarrow> bool" where
  "editable_service_scaffold p \<longleftrightarrow>
     on_rest (after_prefix ''internal/service/generated/'' p) (service_file ''.go'')
     \<or> on_rest (after_prefix ''service/generated/include/'' p) (service_file ''.hpp'')
     \<or> on_rest (Option.bind (after_word p) (after_prefix ''/service/generated/'')) (service_file ''.py'')"

definition idl_generated :: "string \<Rightarrow> bool" where
  "idl_generated p \<longleftrightarrow> on_rest (Option.bind (after_prefix ''pkg/idl/'' p) after_word) (\<lambda>r. startsWith r ''/generated/'')"

definition always_replaced :: "string \<Rightarrow> bool" where
  "always_replaced p \<longleftrightarrow> p = ''interface_scaffold_README.md''
     \<or> Option.bind (after_prefix ''pkg/idl/'' p) after_word = Some ''/protocol_manifest.json'' \<or> idl_generated p"

definition generated_path :: "string \<Rightarrow> bool" where
  "generated_path p \<longleftrightarrow> p = ''internal/service/generated/service.go''
     \<or> Option.bind (after_word p) (after_prefix ''/service/generated/'') \<in> set [Some ''__init__.py'', Some ''defaults.py'']
     \<or> list_ex (startsWith p) [''api/generated/'', ''internal/api/generated/'', ''api/client/include/'', ''api/publisher/include/'']
     \<or> on_rest (after_word p) (\<lambda>r. startsWith r ''/api/generated/'')"

definition generated_registry :: "string \<Rightarrow> bool" where
  "generated_registry content \<longleftrightarrow>
     has_sub content ''Generated registration scaffold from config.yaml and protocols'' \<or> has_sub content GENERATED_MARK
     \<or> has_sub content ''struct GeneratedInterfaceHandles {};''
       \<and> has_sub content ''inline GeneratedInterfaceHandles register_generated_interfaces(rclcpp::Node&)''
       \<and> has_sub content ''return {};''"

text \<open>The content is only read for the registry.\<close>

definition canReplaceGeneratedFile :: "node \<Rightarrow> string \<Rightarrow> path \<Rightarrow> bool result" where
  "canReplaceGeneratedFile fs relativePath p =
     (if always_replaced relativePath then Inr True
      else if editable_service_scaffold relativePath then Inr False
      else if generated_path relativePath then Inr True
      else if relativePath = ''runtime/ros2/generated_interface_registry.hpp''
      then rbind (readFile fs p) (\<lambda>content. Inr (generated_registry content))
      else Inr False)"

subsection \<open>Removing\<close>

definition obsolete_file :: "string \<Rightarrow> string option" where
  "obsolete_file relativePath =
     (case Option.bind (after_prefix ''pkg/idl/'' relativePath) after_word of
        None \<Rightarrow> None
      | Some rest \<Rightarrow>
          let base = take (length relativePath - length rest) relativePath @ ''/generated/'' in
          if startsWith rest ''/generated/go/'' then Some (base @ ''go/protocol.go'')
          else if startsWith rest ''/generated/python/'' then Some (base @ ''python/protocol.py'')
          else if startsWith rest ''/generated/cpp/'' then Some (base @ ''cpp/protocol.hpp'')
          else None)"

text \<open>A file of the list with an empty content counts as absent: \<open>if (files[relativePath])\<close>.\<close>

definition remove_one ::
  "(string \<Rightarrow> path) \<Rightarrow> (string \<times> string) list \<Rightarrow> string \<Rightarrow> node \<times> string list \<Rightarrow> (node \<times> string list) result" where
  "remove_one locate files relativePath = (\<lambda>(fs, removed).
     if or_else (nullish (map_of files relativePath) []) [] \<noteq> [] then Inr (fs, removed)
     else if \<not> existsSync fs (locate relativePath) then Inr (fs, removed)
     else rbind (readFile fs (locate relativePath)) (\<lambda>content.
       if \<not> has_sub content GENERATED_MARK then Inr (fs, removed)
       else rbind (rm_file False fs (locate relativePath)) (\<lambda>fs'. Inr (fs', removed @ [relativePath]))))"

fun in_turn :: "('a \<Rightarrow> 's \<Rightarrow> 's result) \<Rightarrow> 'a list \<Rightarrow> 's \<Rightarrow> 's result" where
  "in_turn f [] s = Inr s"
| "in_turn f (x # xs) s = rbind (f x s) (in_turn f xs)"

definition removeObsoleteGeneratedFiles ::
  "(string \<Rightarrow> path) \<Rightarrow> (string \<times> string) list \<Rightarrow> node \<Rightarrow> (node \<times> string list) result" where
  "removeObsoleteGeneratedFiles locate files fs =
     rbind (in_turn (remove_one locate files) (uniq (List.map_filter obsolete_file (map fst files))) (fs, []))
       (\<lambda>(fs', removed). Inr (fs', js_sort unit_compare removed))"

subsection \<open>Writing\<close>

record write_result =
  wr_written :: "string list"
  wr_skipped :: "string list"
  wr_removed :: "string list"

definition write_one ::
  "(string \<Rightarrow> path) \<Rightarrow> bool \<Rightarrow> string \<times> string \<Rightarrow> node \<times> write_result \<Rightarrow> (node \<times> write_result) result" where
  "write_one locate force = (\<lambda>(relativePath, content) (fs, r).
     let p = locate relativePath in
     rbind (if \<not> force \<and> existsSync fs p then rbind (canReplaceGeneratedFile fs relativePath p) (\<lambda>b. Inr (\<not> b)) else Inr False) (\<lambda>skip.
       if skip then Inr (fs, r\<lparr>wr_skipped := wr_skipped r @ [relativePath]\<rparr>)
       else rbind (mkdir_rec fs (butlast p)) (\<lambda>fs1. rbind (writeFile fs1 p content) (\<lambda>fs2.
         Inr (fs2, r\<lparr>wr_written := wr_written r @ [relativePath]\<rparr>)))))"

definition writeFiles ::
  "path \<Rightarrow> path \<Rightarrow> (string \<times> string) list \<Rightarrow> bool \<Rightarrow> bool \<Rightarrow> node \<Rightarrow> (node \<times> write_result) result" where
  "writeFiles rootDir outDir files force explicitOut fs =
     (let locate = scaffoldOutputPath rootDir outDir explicitOut
      in rbind (removeObsoleteGeneratedFiles locate files fs) (\<lambda>(fs1, removed).
           in_turn (write_one locate force) (js_sort (\<lambda>l r. unit_compare (fst l) (fst r)) files)
             (fs1, \<lparr>wr_written = [], wr_skipped = [], wr_removed = removed\<rparr>)))"

end
