(* ===== verification/Scaffold_Files_Props.thy ===== *)
theory Scaffold_Files_Props
  imports Scaffold_Files Repo_Files_Props
begin

text \<open>
  What the generator does to files that exist: it changes or removes only what a generator wrote.
  The interface of the file system that this rests on extends the one of the dashboard's handlers
  by directories and removal.
\<close>

locale file_tree = file_store load store
  for load :: "'fs \<Rightarrow> path \<Rightarrow> string result" and store :: "'fs \<Rightarrow> path \<Rightarrow> string \<Rightarrow> 'fs result" +
  fixes make_dir :: "'fs \<Rightarrow> path \<Rightarrow> 'fs result" and remove :: "'fs \<Rightarrow> path \<Rightarrow> 'fs result"
  assumes load_make_dir: "make_dir fs q = Inr fs' \<Longrightarrow> load fs p = Inr c \<Longrightarrow> load fs' p = Inr c"
    and load_remove: "remove fs q = Inr fs' \<Longrightarrow> load fs p = Inr c \<Longrightarrow> p \<noteq> q \<Longrightarrow> load fs' p = Inr c"
begin

lemma load_written:
  assumes "make_dir fs d = Inr fs1" "store fs1 q w = Inr fs2" "load fs p = Inr c" "p \<noteq> q"
  shows "load fs2 p = Inr c"
  using read_other [OF assms(2,4)] load_make_dir [OF assms(1,3)] by simp

end

lemma mkdir_keeps: "mkdir_rec t q = Inr t' \<Longrightarrow> node_at t p = Some (File c) \<Longrightarrow> node_at t' p = Some (File c)"
proof (induction t q arbitrary: t' p rule: mkdir_rec.induct)
  case (3 es n q)
  define u where "u = (case map_of es n of None \<Rightarrow> Dir [] | Some t \<Rightarrow> t)"
  obtain u' where u': "mkdir_rec u q = Inr u'" "t' = Dir (put_entry es n u')"
    using "3.prems"(1) by (auto simp: u_def split: sum.splits)
  obtain m r where p: "p = m # r" using "3.prems"(2) by (cases p) auto
  show ?case
  proof (cases "m = n")
    case True
    then have "node_at u r = Some (File c)" using "3.prems"(2) p by (auto simp: u_def split: option.splits)
    from "3.IH" [folded u_def, OF u'(1) this] True show ?thesis by (simp add: p u'(2))
  next
    case False
    with "3.prems"(2) show ?thesis by (simp add: p u'(2))
  qed
qed auto

lemma rm_keeps: "rm_file force t q = Inr t' \<Longrightarrow> node_at t p = Some (File c) \<Longrightarrow> p \<noteq> q \<Longrightarrow> node_at t' p = Some (File c)"
proof (induction force t q arbitrary: t' p rule: rm_file.induct)
  case (2 force es n)
  obtain m r where p: "p = m # r" using "2.prems"(2) by (cases p) auto
  show ?case
  proof (cases "m = n")
    case True
    with "2.prems"(2,3) p have "r \<noteq> []" by auto
    with "2.prems" True p show ?thesis by (auto split: option.splits node.splits if_splits simp: node_at_leaf)
  next
    case False
    with "2.prems" p show ?thesis by (auto split: option.splits node.splits if_splits simp: map_of_del)
  qed
next
  case (3 force es n m q)
  obtain k r where p: "p = k # r" using "3.prems"(2) by (cases p) auto
  show ?case
  proof (cases "map_of es n")
    case None
    with "3.prems" show ?thesis by (auto split: if_splits)
  next
    case (Some u)
    with "3.prems"(1) obtain u' where u': "rm_file force u (m # q) = Inr u'" "t' = Dir (put_entry es n u')"
      by (auto split: sum.splits)
    show ?thesis
    proof (cases "k = n")
      case True
      with "3.prems"(2,3) Some p have "node_at u r = Some (File c)" "r \<noteq> m # q" by auto
      from "3.IH" [OF Some u'(1) this] True show ?thesis by (simp add: p u'(2))
    next
      case False
      with "3.prems"(2) show ?thesis by (simp add: p u'(2))
    qed
  qed
qed auto

lemma readFile_Inr: "readFile fs p = Inr c \<longleftrightarrow> node_at fs p = Some (File c)"
  by (auto simp: readFile_def split: option.splits node.splits)

interpretation disk: file_tree readFile writeFile mkdir_rec "rm_file False"
  by unfold_locales (auto simp: readFile_Inr intro: mkdir_keeps rm_keeps)

subsection \<open>Files in turn\<close>

lemma in_turn_keeps:
  assumes "in_turn f xs s = Inr s'" "P s" "\<And>x s s'. x \<in> set xs \<Longrightarrow> P s \<Longrightarrow> f x s = Inr s' \<Longrightarrow> P s'"
  shows "P s'"
  using assms
proof (induction xs arbitrary: s)
  case (Cons x xs)
  from Cons.prems(1) obtain s1 where "f x s = Inr s1" "in_turn f xs s1 = Inr s'" by (cases "f x s") (auto simp: rbind_def)
  with Cons show ?case by (metis list.set_intros)
qed simp

lemma remove_one_keeps:
  assumes "remove_one locate files rel s = Inr s'" "readFile (fst s) p = Inr c" "\<not> (locate rel = p \<and> has_sub c GENERATED_MARK)"
  shows "readFile (fst s') p = Inr c"
  using assms disk.load_remove [of "fst s" "locate rel" "fst s'" p c]
  by (cases s; cases "p = locate rel") (auto simp: remove_one_def rbind_def split: if_splits sum.splits)

lemma can_replace_same: "readFile fs p = Inr c \<Longrightarrow> readFile fs' p = Inr c \<Longrightarrow>
    canReplaceGeneratedFile fs rel p = canReplaceGeneratedFile fs' rel p"
  by (simp add: canReplaceGeneratedFile_def)

lemma write_one_keeps:
  assumes "write_one locate False (rel, w) s = Inr s'" "readFile (fst s) p = Inr c"
    "\<not> (locate rel = p \<and> canReplaceGeneratedFile (fst s) rel p = Inr True)"
  shows "readFile (fst s') p = Inr c"
proof (cases "locate rel = p")
  case True
  have "existsSync (fst s) p" using assms(2) by (simp add: existsSync_def readFile_Inr)
  with assms True show ?thesis
    by (cases s) (auto simp: write_one_def Let_def rbind_def split: if_splits sum.splits)
next
  case False
  then show ?thesis
    using assms(1,2) disk.load_written [of "fst s" "butlast (locate rel)" _ "locate rel" w "fst s'" p c]
    by (cases s) (auto simp: write_one_def Let_def rbind_def split: if_splits sum.splits)
qed

text \<open>C21. Without \<open>--force\<close> the generator never touches a file that somebody wrote: a file that reads
  differently after the run, or is gone, either is the place of a generated file that may be replaced (never a
  service scaffold meant for editing), or carries the mark of the generator and was left by an older one.\<close>

theorem only_generated_files_change:
  assumes "writeFiles rootDir outDir files False explicitOut fs = Inr (fs', r)"
    "readFile fs p = Inr c" "readFile fs' p \<noteq> Inr c"
  shows "(\<exists>rel \<in> fst ` set files. scaffoldOutputPath rootDir outDir explicitOut rel = p
        \<and> canReplaceGeneratedFile fs rel p = Inr True \<and> (always_replaced rel \<or> \<not> editable_service_scaffold rel))
    \<or> has_sub c GENERATED_MARK
      \<and> p \<in> scaffoldOutputPath rootDir outDir explicitOut ` set (List.map_filter obsolete_file (map fst files))"
proof (rule ccontr)
  let ?locate = "scaffoldOutputPath rootDir outDir explicitOut"
  assume no: "\<not> ?thesis"
  from assms(1) obtain fs1 removed s where
    rm: "in_turn (remove_one ?locate files) (uniq (List.map_filter obsolete_file (map fst files))) (fs, []) = Inr (fs1, removed)"
    and wr: "in_turn (write_one ?locate False) (js_sort (\<lambda>l r. unit_compare (fst l) (fst r)) files) (fs1, s) = Inr (fs', r)"
    by (auto simp: writeFiles_def removeObsoleteGeneratedFiles_def Let_def rbind_def split: sum.splits prod.splits)
  have 1: "readFile (fst (fs1, removed)) p = Inr c"
    by (rule in_turn_keeps [OF rm, where P = "\<lambda>s. readFile (fst s) p = Inr c"])
      (use assms(2) no in \<open>auto elim!: remove_one_keeps\<close>)
  have "readFile (fst (fs', r)) p = Inr c"
  proof (rule in_turn_keeps [OF wr, where P = "\<lambda>s. readFile (fst s) p = Inr c"])
    show "readFile (fst (fs1, s)) p = Inr c" using 1 by simp
    fix x t t'
    assume x: "x \<in> set (js_sort (\<lambda>l r. unit_compare (fst l) (fst r)) files)"
      and t: "readFile (fst t) p = Inr c" "write_one ?locate False x t = Inr t'"
    obtain rel w where rel: "x = (rel, w)" by (cases x)
    then have "rel \<in> fst ` set files" using x by force
    moreover have "canReplaceGeneratedFile fs rel p = Inr True \<Longrightarrow> always_replaced rel \<or> \<not> editable_service_scaffold rel"
      by (auto simp: canReplaceGeneratedFile_def split: if_splits)
    ultimately have "\<not> (?locate rel = p \<and> canReplaceGeneratedFile fs rel p = Inr True)" using no by blast
    then have "\<not> (?locate rel = p \<and> canReplaceGeneratedFile (fst t) rel p = Inr True)"
      using can_replace_same [OF assms(2) t(1)] by simp
    from write_one_keeps [OF t(2) [unfolded rel] t(1) this] show "readFile (fst t') p = Inr c" .
  qed
  with assms(3) show False by simp
qed


subsection \<open>Witness\<close>

definition generated_tree :: node where
  "generated_tree = Dir [(''repo'', Dir [(''src'', Dir [(''interface_scaffold_README.md'', File ''old''),
     (''service'', Dir [(''generated'', Dir [(''include'', Dir [(''pose_service.hpp'', File ''mine'')])])])])])]"

definition demo_files :: "(string \<times> string) list" where
  "demo_files = [(''service/generated/include/pose_service.hpp'', ''new''), (''interface_scaffold_README.md'', ''new'')]"

theorem only_generated_files_change_witness:
  "let p = [''repo'', ''src'', ''interface_scaffold_README.md''] in
   (\<exists>rel \<in> fst ` set demo_files. scaffoldOutputPath [''repo''] [''repo'', ''src''] False rel = p
        \<and> canReplaceGeneratedFile generated_tree rel p = Inr True \<and> (always_replaced rel \<or> \<not> editable_service_scaffold rel))
    \<or> has_sub ''old'' GENERATED_MARK
      \<and> p \<in> scaffoldOutputPath [''repo''] [''repo'', ''src''] False ` set (List.map_filter obsolete_file (map fst demo_files))"
proof -
  let ?p = "[''repo'', ''src'', ''interface_scaffold_README.md'']"
  let ?run = "writeFiles [''repo''] [''repo'', ''src''] demo_files False False generated_tree"
  have "\<not> isl ?run" "readFile (fst (projr ?run)) ?p = Inr ''new''" "readFile generated_tree ?p = Inr ''old''"
    "readFile (fst (projr ?run)) [''repo'', ''src'', ''service'', ''generated'', ''include'', ''pose_service.hpp''] = Inr ''mine''"
    by code_simp+
  then obtain fs' r where run: "?run = Inr (fs', r)" "readFile fs' ?p \<noteq> Inr ''old''" "readFile generated_tree ?p = Inr ''old''"
    by (cases ?run) auto
  show ?thesis unfolding Let_def by (rule only_generated_files_change [OF run(1,3,2)])
qed

end
