(* ===== verification/Scaffold_Parsers.thy ===== *)
theory Scaffold_Parsers
  imports Scaffold_Types Scaffold_Manifest
begin

text \<open>
  The pieces of the regular expressions that the parsers of the interface scaffold search for. A
  pattern takes the character before it and the text, and returns what it captures with the rest
  of the text. Every piece takes all it can, and no piece could start with what the one before it
  would give back; where a pattern has alternatives or a lazy part, that is written out.
\<close>

type_synonym 'a pattern = "char option \<Rightarrow> string \<Rightarrow> ('a \<times> string) option"

subsection \<open>Searching\<close>

text \<open>The character before the rest of a text, when the text had \<open>prev\<close> before it.\<close>

definition char_before :: "string \<Rightarrow> string \<Rightarrow> char option" where
  "char_before s rest = Some (s ! (length s - length rest - 1))"

text \<open>\<open>text.matchAll(pattern)\<close>. No pattern matches an empty text, so the first guard never decides.\<close>

function match_all :: "'a pattern \<Rightarrow> char option \<Rightarrow> string \<Rightarrow> 'a list" where
  "match_all m prev [] = []"
| "match_all m prev (c # cs) =
     (case m prev (c # cs) of
        Some (x, rest) \<Rightarrow>
          if length rest \<le> length cs then x # match_all m (char_before (c # cs) rest) rest
          else match_all m (Some c) cs
      | None \<Rightarrow> match_all m (Some c) cs)"
  by pat_completeness auto
termination
  by (relation "measure (\<lambda>(m, prev, s). length s)") auto

text \<open>\<open>text.split(pattern)\<close>.\<close>

function split_at_matches :: "'a pattern \<Rightarrow> char option \<Rightarrow> string \<Rightarrow> string list" where
  "split_at_matches m prev [] = [[]]"
| "split_at_matches m prev (c # cs) =
     (case m prev (c # cs) of
        Some (x, rest) \<Rightarrow>
          if length rest \<le> length cs then [] # split_at_matches m (char_before (c # cs) rest) rest
          else (c # cs) # []
      | None \<Rightarrow> (case split_at_matches m (Some c) cs of
          part # parts \<Rightarrow> (c # part) # parts
        | [] \<Rightarrow> [c # cs]))"
  by pat_completeness auto
termination
  by (relation "measure (\<lambda>(m, prev, s). length s)") auto

text \<open>A word boundary before a letter, and the start of a line.\<close>

definition word_start :: "char option \<Rightarrow> bool" where
  "word_start prev \<longleftrightarrow> (case prev of None \<Rightarrow> True | Some c \<Rightarrow> \<not> is_word_char c)"

definition line_start :: "char option \<Rightarrow> bool" where
  "line_start prev \<longleftrightarrow> (case prev of None \<Rightarrow> True | Some c \<Rightarrow> is_term c)"

subsection \<open>Pieces\<close>

definition eat_text :: "string \<Rightarrow> string \<Rightarrow> string option" where
  "eat_text w s = (if startsWith s w then Some (drop (length w) s) else None)"

definition eat_run :: "(char \<Rightarrow> bool) \<Rightarrow> string \<Rightarrow> (string \<times> string) option" where
  "eat_run p s = (if s \<noteq> [] \<and> p (hd s) then Some (takeWhile p s, dropWhile p s) else None)"

text \<open>\<open>\s*w\<close>.\<close>

definition eat_spaced :: "string \<Rightarrow> string \<Rightarrow> string option" where
  "eat_spaced w s = eat_text w (dropWhile is_ws s)"

text \<open>\<open>[\s\S]*?\<close> before an end.\<close>

fun lazy_until :: "(string \<Rightarrow> string option) \<Rightarrow> string \<Rightarrow> (string \<times> string) option" where
  "lazy_until e [] = map_option (\<lambda>rest. ([], rest)) (e [])"
| "lazy_until e (c # cs) =
     (case e (c # cs) of
        Some rest \<Rightarrow> Some ([], rest)
      | None \<Rightarrow> map_option (\<lambda>(body, rest). (c # body, rest)) (lazy_until e cs))"

text \<open>\<open>keyword\s+(name)\s*\{([\s\S]*?)end\<close>.\<close>

definition named_block :: "string \<Rightarrow> (string \<Rightarrow> string option) \<Rightarrow> string \<Rightarrow> ((string \<times> string) \<times> string) option" where
  "named_block keyword e s =
     Option.bind (eat_word keyword s) (\<lambda>s.
     Option.bind (eat_ident is_word_char s) (\<lambda>(name, s).
     Option.bind (eat_char (CHR ''{'') s) (\<lambda>s.
     Option.bind (lazy_until e s) (\<lambda>(body, s). Some ((name, body), s)))))"

subsection \<open>Paths\<close>

text \<open>\<open>relative(a, b)\<close> with its backslashes replaced, the segments that are not empty, and a path as a text.\<close>

definition slash_path :: "path \<Rightarrow> path \<Rightarrow> string" where
  "slash_path base p = replace_char (CHR 0x5C) (CHR ''/'') (path_relative base p)"

definition segments :: "string \<Rightarrow> string list" where
  "segments s = filter (\<lambda>p. p \<noteq> []) (split_on (CHR ''/'') s)"

definition file_string :: "path \<Rightarrow> string" where
  "file_string p = ''/'' @ path_string p"

definition dir_name :: "path \<Rightarrow> string" where
  "dir_name p = (case rev p of _ # d # _ \<Rightarrow> d | _ \<Rightarrow> [])"

text \<open>\<open>path.extname\<close> of a file name, and the name without it.\<close>

definition extname :: "string \<Rightarrow> string" where
  "extname name =
     (let parts = split_on (CHR ''.'') name in
      if join ''.'' (butlast parts) = [] then [] else CHR ''.'' # last parts)"

definition stem :: "string \<Rightarrow> string" where
  "stem name = drop_ext (extname name) name"

definition file_name :: "path \<Rightarrow> string" where
  "file_name p = (if p = [] then [] else last p)"

text \<open>
  The parsers of the interface scaffold: \<open>proto-parser.mjs\<close>, \<open>dds-idl-parser.mjs\<close>,
  \<open>ros2-source-parser.mjs\<close> and \<open>generated-artifacts.mjs\<close> under \<open>bin/interface-scaffold\<close>. They search
  the text with regular expressions, without a grammar. A map of protocols is an association
  list.
\<close>

definition blank_protocol :: protocol where
  "blank_protocol = (externalProtocol [] [])\<lparr>pc_external := False\<rparr>"

definition plain_field :: "string \<Rightarrow> string \<Rightarrow> nat option \<Rightarrow> scaffold_field" where
  "plain_field name type' tag = \<lparr>sf_name = name, sf_type = type', sf_tag = tag, sf_repeated = False, sf_optional = False\<rparr>"

subsection \<open>Proto\<close>

definition proto_package :: "string pattern" where
  "proto_package prev s =
     (if \<not> line_start prev then None
      else Option.bind (eat_word ''package'' (dropWhile is_ws s)) (\<lambda>s.
           Option.bind (eat_run is_proto_package_char s) (\<lambda>(name, s).
           Option.bind (eat_char (CHR '';'') s) (\<lambda>s. Some (name, s)))))"

text \<open>\<open>text.match(pattern)?.[1] ?? ""\<close>.\<close>

definition first_match :: "string pattern \<Rightarrow> string \<Rightarrow> string" where
  "first_match m s = (case match_all m None s of name # _ \<Rightarrow> name | [] \<Rightarrow> [])"

definition proto_end_mark :: "string \<Rightarrow> string option" where
  "proto_end_mark s = eat_text (LF # ''}'') s"

definition proto_block :: "string \<Rightarrow> (string \<times> string) pattern" where
  "proto_block keyword prev s = named_block keyword proto_end_mark s"

text \<open>The type of a field: a dotted name, or a map, whose white space is dropped.\<close>

definition dotted_name :: "string \<Rightarrow> (string \<times> string) option" where
  "dotted_name s = eat_ident is_proto_package_char s"

definition map_type :: "string \<Rightarrow> (string \<times> string) option" where
  "map_type s =
     Option.bind (eat_text ''map'' s) (\<lambda>s.
     Option.bind (eat_char (CHR ''<'') s) (\<lambda>s.
     Option.bind (dotted_name (dropWhile is_ws s)) (\<lambda>(k, s).
     Option.bind (eat_char (CHR '','') s) (\<lambda>s.
     Option.bind (dotted_name (dropWhile is_ws s)) (\<lambda>(v, s).
     Option.bind (eat_char (CHR ''>'') s) (\<lambda>s. Some (''map<'' @ k @ '','' @ v @ ''>'', s)))))))"

definition field_after_type :: "string \<times> string \<Rightarrow> ((string \<times> string \<times> nat) \<times> string) option" where
  "field_after_type = (\<lambda>(type', s).
     Option.bind (eat_word [] s) (\<lambda>s.
     Option.bind (eat_ident is_word_char s) (\<lambda>(name, s).
     Option.bind (eat_char (CHR ''='') s) (\<lambda>s.
     Option.bind (eat_run is_digit (dropWhile is_ws s)) (\<lambda>(digits, s).
       Some ((type', name, digits_val digits), s))))))"

definition typed_field :: "string \<Rightarrow> ((string \<times> string \<times> nat) \<times> string) option" where
  "typed_field s =
     (case Option.bind (dotted_name s) field_after_type of
        Some m \<Rightarrow> Some m
      | None \<Rightarrow> Option.bind (map_type s) field_after_type)"

text \<open>The label is optional, and a type of its own when nothing else fits.\<close>

definition labelled_field :: "string \<Rightarrow> ((string \<times> string \<times> string \<times> nat) \<times> string) option" where
  "labelled_field s =
     (let with_label = (\<lambda>label. map_option (\<lambda>((t, n, d), rest). ((label, t, n, d), rest)) \<circ> typed_field) in
      case Option.bind (eat_word ''optional'' s) (with_label ''optional'') of
        Some m \<Rightarrow> Some m
      | None \<Rightarrow> (case Option.bind (eat_word ''repeated'' s) (with_label ''repeated'') of
          Some m \<Rightarrow> Some m
        | None \<Rightarrow> with_label [] s))"

definition scaffold_proto_field :: "scaffold_field pattern" where
  "scaffold_proto_field prev s =
     (if \<not> line_start prev then None
      else map_option (\<lambda>((label, t, n, d), rest).
        (\<lparr>sf_name = n, sf_type = t, sf_tag = Some d, sf_repeated = (label = ''repeated''), sf_optional = (label = ''optional'')\<rparr>, rest))
        (labelled_field (dropWhile is_ws s)))"

definition parseProtoFields :: "string \<Rightarrow> scaffold_field list" where
  "parseProtoFields body = match_all scaffold_proto_field None body"

definition in_parens :: "string \<Rightarrow> (string \<times> string) option" where
  "in_parens s =
     Option.bind (eat_char (CHR ''('') s) (\<lambda>s.
     Option.bind (dotted_name (dropWhile is_ws s)) (\<lambda>(name, s).
     Option.bind (eat_char (CHR '')'') s) (\<lambda>s. Some (name, s))))"

definition rpc_pattern :: "(string \<times> string \<times> string) pattern" where
  "rpc_pattern prev s =
     Option.bind (eat_word ''rpc'' s) (\<lambda>s.
     Option.bind (eat_ident is_word_char s) (\<lambda>(name, s).
     Option.bind (in_parens s) (\<lambda>(request, s).
     Option.bind (eat_word [] s) (\<lambda>s.
     Option.bind (eat_text ''returns'' s) (\<lambda>s.
     Option.bind (in_parens s) (\<lambda>(response, s). Some ((name, request, response), s)))))))"

definition proto_message_of :: "string \<Rightarrow> string \<Rightarrow> string \<Rightarrow> string \<times> string \<Rightarrow> protocol" where
  "proto_message_of packageName idlService sourceFile = (\<lambda>(name, body).
     blank_protocol\<lparr>pc_format := ''protobuf_message'', pc_name := name, pc_package := packageName, pc_file := sourceFile,
       pc_idlService := idlService, pc_fullName := (if packageName \<noteq> [] then packageName @ ''.'' @ name else name),
       pc_fields := parseProtoFields body\<rparr>)"

definition proto_rpc_of ::
  "string \<Rightarrow> string \<Rightarrow> string \<Rightarrow> (string \<times> protocol) list \<Rightarrow> string \<Rightarrow> string \<times> string \<times> string \<Rightarrow> protocol" where
  "proto_rpc_of packageName idlService sourceFile localMessages service = (\<lambda>(name, request, response).
     let fields_of = (\<lambda>t. case map_of localMessages t of Some m \<Rightarrow> pc_fields m | None \<Rightarrow> [])
     in blank_protocol\<lparr>pc_format := ''protobuf_rpc'', pc_service := service, pc_rpc := name, pc_package := packageName,
       pc_file := sourceFile, pc_idlService := idlService, pc_request := request, pc_response := response,
       pc_requestFields := fields_of request, pc_responseFields := fields_of response\<rparr>)"

text \<open>Objects filled by assignment: \<open>o[k] = v\<close> for each pair.\<close>

definition assign_all :: "(string \<times> 'v) list \<Rightarrow> (string \<times> 'v) list \<Rightarrow> (string \<times> 'v) list" where
  "assign_all new m = fold (\<lambda>(k, v). AList.update k v) new m"

record protocol_maps =
  pm_messages :: "(string \<times> protocol) list"
  pm_rpcs :: "(string \<times> protocol) list"

definition parse_proto_text :: "string \<Rightarrow> string \<Rightarrow> string \<Rightarrow> protocol_maps" where
  "parse_proto_text idlService sourceFile text =
     (let packageName = first_match proto_package text;
          found = map (proto_message_of packageName idlService sourceFile) (match_all (proto_block ''message'') None text);
          localMessages = assign_all (map (\<lambda>m. (pc_name m, m)) found) [];
          rpcs = concat (map (\<lambda>(service, body).
            map (proto_rpc_of packageName idlService sourceFile localMessages service) (match_all rpc_pattern None body))
            (match_all (proto_block ''service'') None text))
      in \<lparr>pm_messages = assign_all (map (\<lambda>m. (idlService @ ''.'' @ pc_name m, m)) found) [],
          pm_rpcs = assign_all (map (\<lambda>r. (idlService @ ''.'' @ pc_service r @ ''.'' @ pc_rpc r, r)) rpcs) []\<rparr>)"

text \<open>The service is the directory above \<open>pb\<close>, or above the directory of the file.\<close>

definition proto_service_name :: "path \<Rightarrow> path \<Rightarrow> string" where
  "proto_service_name protocolsDir f =
     (let parts = segments (path_relative protocolsDir f) in
      case find_index (\<lambda>p. p = ''pb'') parts of
        Some (Suc i) \<Rightarrow> parts ! i
      | _ \<Rightarrow> dir_name (butlast f))"

subsection \<open>DDS IDL\<close>

definition idl_module :: "string pattern" where
  "idl_module prev s =
     (if \<not> word_start prev then None
      else Option.bind (eat_word ''module'' s) (\<lambda>s.
           Option.bind (eat_ident is_word_char s) (\<lambda>(name, s).
           Option.bind (eat_char (CHR ''{'') s) (\<lambda>s. Some (name, s)))))"

definition idl_end_mark :: "string \<Rightarrow> string option" where
  "idl_end_mark s = Option.bind (eat_text ''}'' s) (eat_char (CHR '';''))"

definition idl_block :: "string \<Rightarrow> (string \<times> string) pattern" where
  "idl_block keyword prev s = (if word_start prev then named_block keyword idl_end_mark s else None)"

text \<open>An operation: the result takes as much as leaves a name before the parenthesis.\<close>

definition is_result_char :: "char \<Rightarrow> bool" where
  "is_result_char c \<longleftrightarrow> is_word_char c \<or> c \<in> set '':<>, '' \<or> c = CHR 0x09 \<or> c = CR \<or> c = LF"

definition operation_after :: "string \<Rightarrow> ((string \<times> string) \<times> string) option" where
  "operation_after s =
     Option.bind (eat_word [] s) (\<lambda>s.
     Option.bind (eat_ident is_word_char s) (\<lambda>(name, s).
     Option.bind (eat_char (CHR ''('') s) (\<lambda>s.
       let parameters = takeWhile (\<lambda>c. c \<noteq> CHR '')'') s
       in Option.bind (eat_text '')'' (drop (length parameters) s)) (\<lambda>s.
          Option.bind (eat_char (CHR '';'') s) (\<lambda>s. Some ((name, parameters), s))))))"

definition idl_operation :: "(string \<times> string \<times> string) pattern" where
  "idl_operation prev s =
     (case eat_ident is_result_char s of
        None \<Rightarrow> None
      | Some (longest, _) \<Rightarrow>
          (case List.map_filter (\<lambda>n. map_option (\<lambda>((name, parameters), rest). ((take n s, name, parameters), rest))
                 (operation_after (drop n s))) (rev [1..<Suc (length longest)]) of
             m # _ \<Rightarrow> Some m
           | [] \<Rightarrow> None))"

definition isUnboundedType :: "string \<Rightarrow> bool" where
  "isUnboundedType type' =
     (let v = toLowerCase (trim (replace_runs is_ws SP type')) in
      if v = ''string'' \<or> v = ''wstring'' then True
      else case Option.bind (eat_text ''sequence'' v) (eat_char (CHR ''<'')) of
        None \<Rightarrow> False
      | Some inner \<Rightarrow>
          1 < length inner \<and> last inner = CHR ''>'' \<and> list_all (\<lambda>c. \<not> is_term c) inner
          \<and> length (filter (\<lambda>p. p \<noteq> []) (map trim (split_on (CHR '','') (butlast inner)))) < 2)"

definition memoryHints :: "scaffold_field list \<Rightarrow> memory_hints" where
  "memoryHints flds =
     (let unbounded = map sf_name (filter (\<lambda>f. isUnboundedType (sf_type f)) flds);
          bounded = Some (unbounded = [])
      in \<lparr>me_bounded = bounded, me_loanFriendly = bounded, me_sharedMemoryFriendly = bounded, me_unboundedFields = unbounded\<rparr>)"

text \<open>The last word of a line is the name, what stands before it the type.\<close>

definition named_last :: "nat \<Rightarrow> string \<Rightarrow> scaffold_field" where
  "named_last index line =
     (let parts = split_runs is_ws line in plain_field (last parts) (join '' '' (butlast parts)) (Some (index + 1)))"

definition parseIdlFields :: "string \<Rightarrow> scaffold_field list" where
  "parseIdlFields body =
     (let ls = filter (\<lambda>line. line \<noteq> []) (map (\<lambda>line. trim (strip_slashes line)) (split_lines body));
          ls = map (\<lambda>line. if endsWith line '';'' then butlast line else line) ls
      in filter (\<lambda>f. sf_name f \<noteq> [] \<and> sf_type f \<noteq> []) (map (\<lambda>(i, l). named_last i l) (enumerate 0 ls)))"

definition without_direction :: "string \<Rightarrow> string" where
  "without_direction param =
     (case List.map_filter (\<lambda>w. eat_word w param) [''in'', ''out'', ''inout''] of r # _ \<Rightarrow> r | [] \<Rightarrow> param)"

definition parseParameters :: "string \<Rightarrow> scaffold_field list" where
  "parseParameters v =
     (let ps = filter (\<lambda>p. p \<noteq> []) (map trim (split_on (CHR '','') v))
      in filter (\<lambda>f. sf_type f \<noteq> []) (map (\<lambda>(i, p). named_last i (without_direction p)) (enumerate 0 ps)))"

definition idl_struct_of :: "string \<Rightarrow> string \<Rightarrow> string \<Rightarrow> string \<times> string \<Rightarrow> protocol" where
  "idl_struct_of idlService moduleName sourceFile = (\<lambda>(name, body).
     let type' = moduleName @ ''::'' @ name; flds = parseIdlFields body
     in blank_protocol\<lparr>pc_format := ''dds_idl'', pc_idlService := idlService, pc_module := moduleName, pc_name := name,
          pc_type := type', pc_fullName := type', pc_file := sourceFile, pc_fields := flds, pc_memory := Some (memoryHints flds),
          pc_aliases := [name, moduleName @ ''.'' @ name, type']\<rparr>)"

definition idl_rpc_of :: "string \<Rightarrow> string \<Rightarrow> string \<Rightarrow> string \<Rightarrow> string \<times> string \<times> string \<Rightarrow> protocol" where
  "idl_rpc_of idlService moduleName sourceFile service = (\<lambda>(returned, rpc, parameters).
     let type' = moduleName @ ''::'' @ service @ ''/'' @ rpc; request = parseParameters parameters;
         response = plain_field ''return'' (trim returned) None
     in blank_protocol\<lparr>pc_format := ''dds_idl_rpc'', pc_idlService := idlService, pc_module := moduleName, pc_service := service,
          pc_rpc := rpc, pc_name := rpc, pc_type := type', pc_fullName := type', pc_file := sourceFile,
          pc_requestFields := request, pc_responseFields := [response], pc_memory := Some (memoryHints (request @ [response])),
          pc_aliases := [rpc, service @ ''.'' @ rpc, moduleName @ ''::'' @ service @ ''::'' @ rpc, type']\<rparr>)"

text \<open>An item is stored under its type, and under each alias that is free.\<close>

definition assign_free :: "string \<Rightarrow> 'v \<Rightarrow> (string \<times> 'v) list \<Rightarrow> (string \<times> 'v) list" where
  "assign_free k v m = (if map_of m k = None then AList.update k v m else m)"

definition with_aliases :: "protocol \<Rightarrow> (string \<times> protocol) list \<Rightarrow> (string \<times> protocol) list" where
  "with_aliases item m =
     fold (\<lambda>alias'. assign_free alias' (item\<lparr>pc_type := alias', pc_aliasOf := pc_type item\<rparr>)) (pc_aliases item)
       (AList.update (pc_type item) item m)"

definition parse_idl_text :: "string \<Rightarrow> string \<Rightarrow> string \<Rightarrow> protocol_maps" where
  "parse_idl_text idlService sourceFile text =
     (let moduleName = or_else (first_match idl_module text) idlService;
          structs = map (idl_struct_of idlService moduleName sourceFile) (match_all (idl_block ''struct'') None text);
          rpcs = concat (map (\<lambda>(service, body).
            map (idl_rpc_of idlService moduleName sourceFile service) (match_all idl_operation None body))
            (match_all (idl_block ''interface'') None text))
      in \<lparr>pm_messages = fold with_aliases structs [], pm_rpcs = fold with_aliases rpcs []\<rparr>)"

definition idlServiceName :: "path \<Rightarrow> path \<Rightarrow> string" where
  "idlServiceName protocolsDir f =
     (case segments (slash_path protocolsDir f) of p # _ \<Rightarrow> p | [] \<Rightarrow> ''unknown_service'')"

end
