(* ===== verification/Scaffold_Sources.thy ===== *)
theory Scaffold_Sources
  imports Scaffold_Parsers
begin

text \<open>
  ROS 2 sources and generated code (\<open>ros2-source-parser.mjs\<close> and \<open>generated-artifacts.mjs\<close> under
  \<open>bin/interface-scaffold\<close>): the type of a file comes from its path, its fields from its lines.
\<close>

subsection \<open>ROS 2 definitions\<close>

definition ros2_source_field :: "string \<Rightarrow> scaffold_field option" where
  "ros2_source_field raw =
     (let line = trim (takeWhile (\<lambda>c. c \<noteq> CHR ''#'') raw) in
      if line = [] \<or> line = ''---'' \<or> CHR ''='' \<in> set line then None
      else case split_runs is_ws line of
        t # n # _ \<Rightarrow> if t \<noteq> [] \<and> n \<noteq> [] then Some (plain_field n t None) else None
      | _ \<Rightarrow> None)"

definition parseRos2Fields :: "string \<Rightarrow> scaffold_field list" where
  "parseRos2Fields text = List.map_filter ros2_source_field (split_lines text)"

text \<open>\<open>/^---\s*$/m\<close>: the white space ends before a line terminator or at the end of the text.\<close>

definition service_mark :: "unit pattern" where
  "service_mark prev s =
     (if \<not> line_start prev then None
      else Option.bind (eat_text ''---'' s) (\<lambda>s.
        let at_end = (\<lambda>n. case drop n s of [] \<Rightarrow> True | c # _ \<Rightarrow> is_term c)
        in case filter at_end (rev [0..<Suc (length (takeWhile is_ws s))]) of
             n # _ \<Rightarrow> Some ((), drop n s)
           | [] \<Rightarrow> None))"

text \<open>The type of a file and its other names: \<open>ros2TypeName\<close>.\<close>

definition without_service :: "string \<Rightarrow> string" where
  "without_service s = (if endsWith s ''_service'' then take (length s - length ''_service'') s else s)"

definition ros2TypeName :: "path \<Rightarrow> path \<Rightarrow> string \<times> string list" where
  "ros2TypeName protocolsDir f =
     (let relativeParts = split_on (CHR ''/'') (path_relative protocolsDir f);
          scope = hd relativeParts;
          parts = (case find_index (\<lambda>p. p = ''ros2'') relativeParts of
              Some i \<Rightarrow> drop (i + 1) relativeParts | None \<Rightarrow> relativeParts)
      in case parts of
           kind # name # rest \<Rightarrow>
             if kind = ''msg'' \<or> kind = ''srv'' then
               let packageName = or_else (or_else (without_service scope) scope) (dir_name (butlast f))
               in (packageName @ ''/'' @ kind @ ''/'' @ stem name,
                   if scope \<noteq> [] \<and> scope \<noteq> packageName then [scope @ ''/'' @ kind @ ''/'' @ stem name] else [])
             else (case rest of
                 third # _ \<Rightarrow> (kind @ ''/'' @ name @ ''/'' @ stem third, [])
               | [] \<Rightarrow> (dir_name (butlast f) @ ''/'' @ dir_name f @ ''/'' @ stem (file_name f), []))
         | _ \<Rightarrow> (dir_name (butlast f) @ ''/'' @ dir_name f @ ''/'' @ stem (file_name f), []))"

definition ros2_source :: "path \<Rightarrow> path \<Rightarrow> path \<Rightarrow> string \<Rightarrow> protocol" where
  "ros2_source rootDir protocolsDir f format =
     (let (type', aliases) = ros2TypeName protocolsDir f
      in blank_protocol\<lparr>pc_format := format, pc_type := type', pc_aliases := aliases, pc_package := hd (split_on (CHR ''/'') type'),
           pc_name := stem (file_name f), pc_file := slash_path rootDir f\<rparr>)"

definition ros2_message_of :: "path \<Rightarrow> path \<Rightarrow> path \<Rightarrow> string \<Rightarrow> protocol" where
  "ros2_message_of rootDir protocolsDir f text =
     (ros2_source rootDir protocolsDir f ''ros2_msg'')\<lparr>pc_fields := parseRos2Fields text\<rparr>"

definition ros2_service_of :: "path \<Rightarrow> path \<Rightarrow> path \<Rightarrow> string \<Rightarrow> protocol" where
  "ros2_service_of rootDir protocolsDir f text =
     (let parts = split_at_matches service_mark None text
      in (ros2_source rootDir protocolsDir f ''ros2_srv'')\<lparr>pc_requestFields := parseRos2Fields (hd parts),
           pc_responseFields := parseRos2Fields (if 1 < length parts then parts ! 1 else [])\<rparr>)"

subsection \<open>Generated code\<close>

definition artifact_languages :: "(string \<times> string) list" where
  "artifact_languages = [(''.cc'', ''cpp''), (''.cpp'', ''cpp''), (''.cxx'', ''cpp''), (''.go'', ''go''), (''.java'', ''java''),
     (''.js'', ''javascript''), (''.kt'', ''kotlin''), (''.py'', ''python''), (''.rs'', ''rust''), (''.ts'', ''typescript'')]"

definition artifactLanguage :: "path \<Rightarrow> string" where
  "artifactLanguage f = nullish (map_of artifact_languages (extname (file_name f))) ''unknown''"

definition isGeneratedArtifactCandidate :: "path \<Rightarrow> bool" where
  "isGeneratedArtifactCandidate f \<longleftrightarrow> extname (file_name f) \<in>
     set [''.cc'', ''.cpp'', ''.cxx'', ''.py'', ''.go'', ''.rs'', ''.java'', ''.kt'', ''.ts'', ''.js'']"

text \<open>An artifact of a message or a service, by the word \<open>msg\<close> or \<open>srv\<close>. The capitals are those of ASCII.\<close>

definition languageArtifact ::
  "string \<Rightarrow> path \<Rightarrow> string \<Rightarrow> bool \<Rightarrow> string \<Rightarrow> string \<Rightarrow> bool \<Rightarrow> string \<Rightarrow> generated_artifact" where
  "languageArtifact artifactKind f generatedType includeOnly kind language pathInferred type' =
     \<lparr>ga_artifactKind = artifactKind, ga_language = language, ga_kind = (if kind = ''srv'' then ''service'' else ''message''),
      ga_type = type', ga_generatedType = generatedType, ga_file = file_string f, ga_includeOnly = includeOnly,
      ga_pathInferred = pathInferred\<rparr>"

definition nameToTypeLeaf :: "string \<Rightarrow> string" where
  "nameToTypeLeaf v =
     (let normalized = (if startsWith v ''_'' then tl v else v) in
      if CHR ''_'' \<notin> set normalized then capitalized normalized
      else concat (map capitalized (filter (\<lambda>p. p \<noteq> []) (split_on (CHR ''_'') normalized))))"

definition is_kind_word :: "string \<Rightarrow> bool" where
  "is_kind_word p \<longleftrightarrow> p = ''msg'' \<or> p = ''srv''"

definition cppRos2TypeToRouteType :: "string list \<Rightarrow> string option" where
  "cppRos2TypeToRouteType parts =
     (case find_index is_kind_word parts of
        Some (Suc i) \<Rightarrow> if i + 2 < length parts
          then Some (parts ! i @ ''/'' @ parts ! (i + 1) @ ''/'' @ parts ! (i + 2)) else None
      | _ \<Rightarrow> None)"

text \<open>\<open>(?:::name)+\<close> after a name.\<close>

function more_names :: "string \<Rightarrow> string list \<times> string" where
  "more_names s =
     (case Option.bind (eat_text ''::'' s) (eat_ident is_word_char) of
        Some (n, rest) \<Rightarrow> if length rest < length s then (let (ns, rest') = more_names rest in (n # ns, rest')) else ([], s)
      | None \<Rightarrow> ([], s))"
  by pat_completeness auto
termination
  by (relation "measure length") auto

declare more_names.simps [simp del]

definition kind_of_support :: "string \<Rightarrow> (string \<times> string) option" where
  "kind_of_support s =
     (case eat_text ''Message'' s of
        Some r \<Rightarrow> Some (''msg'', r)
      | None \<Rightarrow> map_option (\<lambda>r. (''srv'', r)) (eat_text ''Service'' s))"

definition type_support :: "(string \<times> string list) pattern" where
  "type_support prev s =
     Option.bind (eat_text ''GetRos2'' s) (\<lambda>s.
     Option.bind (kind_of_support s) (\<lambda>(kind, s).
     Option.bind (eat_text ''TypeSupport'' s) (\<lambda>s.
     Option.bind (eat_char (CHR ''<'') s) (\<lambda>s.
     Option.bind (eat_ident is_word_char (dropWhile is_ws s)) (\<lambda>(n, s).
     case more_names s of
       ([], _) \<Rightarrow> None
     | (ns, s) \<Rightarrow>
         Option.bind (eat_char (CHR ''>'') s) (\<lambda>s.
         Option.bind (eat_char (CHR ''('') s) (\<lambda>s. Some ((kind, n # ns), s))))))))"

definition parseCppRos2TypeSupport :: "path \<Rightarrow> string \<Rightarrow> generated_artifact list" where
  "parseCppRos2TypeSupport f text =
     List.map_filter (\<lambda>(kind, names). map_option
       (languageArtifact ''type_support'' f (join ''::'' names) False kind ''cpp'' False) (cppRos2TypeToRouteType names))
       (match_all type_support None text)"

definition eat_kind :: "string \<Rightarrow> (string \<times> string) option" where
  "eat_kind s =
     (case eat_text ''msg'' s of Some r \<Rightarrow> Some (''msg'', r) | None \<Rightarrow> map_option (\<lambda>r. (''srv'', r)) (eat_text ''srv'' s))"

definition cpp_include :: "(string \<times> string \<times> string) pattern" where
  "cpp_include prev s =
     Option.bind (eat_text ''#'' s) (\<lambda>s.
     Option.bind (eat_text ''include'' (dropWhile is_ws s)) (\<lambda>s.
     Option.bind (eat_word [] s) (\<lambda>s.
     Option.bind (eat_text [DQ] s) (\<lambda>s.
     Option.bind (eat_run is_word_char s) (\<lambda>(package, s).
     Option.bind (eat_text ''/'' s) (\<lambda>s.
     Option.bind (eat_kind s) (\<lambda>(kind, s).
     Option.bind (eat_text ''/'' s) (\<lambda>s.
     Option.bind (eat_run is_word_char s) (\<lambda>(name, s).
     Option.bind (eat_text (''.hpp'' @ [DQ]) s) (\<lambda>s. Some ((package, kind, name), s)))))))))))"

definition parseCppGeneratedIncludes :: "path \<Rightarrow> string \<Rightarrow> generated_artifact list" where
  "parseCppGeneratedIncludes f text =
     map (\<lambda>(package, kind, name). languageArtifact ''type_support'' f
       (package @ ''::'' @ kind @ ''::'' @ nameToTypeLeaf name) True kind ''cpp'' False
       (package @ ''/'' @ kind @ ''/'' @ nameToTypeLeaf name)) (match_all cpp_include None text)"

text \<open>The name of the imported module is not used: the imported type is never empty.\<close>

definition python_import :: "(string \<times> string \<times> string) pattern" where
  "python_import prev s =
     Option.bind (eat_word ''from'' s) (\<lambda>s.
     Option.bind (eat_ident is_word_char s) (\<lambda>(package, s).
     Option.bind (eat_text ''.'' s) (\<lambda>s.
     Option.bind (eat_kind s) (\<lambda>(kind, s).
     Option.bind (eat_text ''.'' s) (\<lambda>s.
     Option.bind (eat_run is_word_char s) (\<lambda>(name, s).
     Option.bind (eat_word [] s) (\<lambda>s.
     Option.bind (eat_word ''import'' s) (\<lambda>s.
     Option.bind (eat_ident is_word_char s) (\<lambda>(imported, s). Some ((package, kind, imported), s))))))))))"

definition parsePythonGeneratedImports :: "path \<Rightarrow> string \<Rightarrow> generated_artifact list" where
  "parsePythonGeneratedImports f text =
     map (\<lambda>(package, kind, imported). languageArtifact ''binding'' f imported False kind ''python'' False
       (package @ ''/'' @ kind @ ''/'' @ imported)) (match_all python_import None text)"

definition parseRos2GeneratedImports :: "path \<Rightarrow> string \<Rightarrow> string \<Rightarrow> generated_artifact list" where
  "parseRos2GeneratedImports f text language =
     (if language = ''cpp'' then parseCppGeneratedIncludes f text
      else if language = ''python'' then parsePythonGeneratedImports f text else [])"

definition inferGeneratedArtifactFromPath :: "path \<Rightarrow> path \<Rightarrow> string \<Rightarrow> generated_artifact option" where
  "inferGeneratedArtifactFromPath protocolsDir f language =
     (let parts = split_on (CHR ''/'') (path_relative protocolsDir f) in
      case find_index is_kind_word parts of
        Some (Suc i) \<Rightarrow>
          if i + 2 < length parts then
            let name = nameToTypeLeaf (stem (parts ! (i + 2)))
            in Some (languageArtifact (if language = ''cpp'' then ''type_support'' else ''binding'') f name False
                 (parts ! (i + 1)) language True (parts ! i @ ''/'' @ parts ! (i + 1) @ ''/'' @ name))
          else None
      | _ \<Rightarrow> None)"

text \<open>Artifacts of a type are kept once for each file and language.\<close>

definition same_artifact :: "generated_artifact \<Rightarrow> generated_artifact \<Rightarrow> bool" where
  "same_artifact a b \<longleftrightarrow> ga_file a = ga_file b \<and> ga_language a = ga_language b"

definition addArtifact ::
  "string \<Rightarrow> generated_artifact \<Rightarrow> (string \<times> generated_artifact list) list \<Rightarrow> (string \<times> generated_artifact list) list" where
  "addArtifact type' a target =
     (let old = nullish (map_of target type') []
      in AList.update type' (if list_ex (\<lambda>b. same_artifact b a) old then old else old @ [a]) target)"

record artifact_maps =
  am_messages :: "(string \<times> generated_artifact list) list"
  am_services :: "(string \<times> generated_artifact list) list"

definition add_by_kind :: "generated_artifact \<Rightarrow> artifact_maps \<Rightarrow> artifact_maps" where
  "add_by_kind a m =
     (if ga_kind a = ''service'' then m\<lparr>am_services := addArtifact (ga_type a) a (am_services m)\<rparr>
      else m\<lparr>am_messages := addArtifact (ga_type a) a (am_messages m)\<rparr>)"

definition generated_artifacts_of :: "path \<Rightarrow> path \<Rightarrow> string \<Rightarrow> artifact_maps" where
  "generated_artifacts_of protocolsDir f text =
     (let language = artifactLanguage f;
          found = (if language = ''cpp'' then parseCppRos2TypeSupport f text else [])
            @ parseRos2GeneratedImports f text language
            @ (case inferGeneratedArtifactFromPath protocolsDir f language of Some a \<Rightarrow> [a] | None \<Rightarrow> [])
      in fold add_by_kind found \<lparr>am_messages = [], am_services = []\<rparr>)"

end
