(* ===== verification/Format_Text.thy ===== *)
theory Format_Text
  imports Scaffold_Sources
begin

text \<open>
  The command \<open>./pr data-format\<close>, first part (\<open>bin/create-data-format.mjs\<close>): the text of a
  definition is checked line by line and becomes the content of a file. An error ends the
  command, so every check is a \<open>result\<close>.
\<close>

subsection \<open>Text\<close>

definition fail_if :: "bool \<Rightarrow> string \<Rightarrow> unit result" where
  "fail_if b message = (if b then Inl message else Inr ())"

fun unix_newlines :: "string \<Rightarrow> string" where
  "unix_newlines [] = []"
| "unix_newlines (c # cs) =
     (if c = CR then LF # (case cs of [] \<Rightarrow> [] | d # ds \<Rightarrow> if d = LF then unix_newlines ds else unix_newlines cs)
      else c # unix_newlines cs)"

definition normalizeText :: "string \<Rightarrow> string" where
  "normalizeText v = trim (unix_newlines v)"

text \<open>\<open>line.slice(0, line.indexOf(comment))\<close>.\<close>

fun cut_comment :: "string \<Rightarrow> string \<Rightarrow> string" where
  "cut_comment comment [] = []"
| "cut_comment comment (c # cs) = (if startsWith (c # cs) comment then [] else c # cut_comment comment cs)"

text \<open>The lines that are not empty, with their numbers.\<close>

definition definitionLines :: "string \<Rightarrow> string \<Rightarrow> (nat \<times> string) list" where
  "definitionLines comment text =
     filter (\<lambda>(number, line). line \<noteq> [])
       (enumerate 1 (map (\<lambda>raw. trim (cut_comment comment raw)) (split_on LF (normalizeText text))))"

fun brace_depth :: "int \<Rightarrow> string \<Rightarrow> int option" where
  "brace_depth depth [] = Some depth"
| "brace_depth depth (c # cs) =
     (if c = CHR ''{'' then brace_depth (depth + 1) cs
      else if c = CHR ''}'' then (if depth < 1 then None else brace_depth (depth - 1) cs)
      else brace_depth depth cs)"

definition validateBalancedBraces :: "string \<Rightarrow> string \<Rightarrow> unit result" where
  "validateBalancedBraces text label =
     (case brace_depth 0 text of
        None \<Rightarrow> Inl (label @ '' has an unexpected closing brace.'')
      | Some depth \<Rightarrow> fail_if (depth \<noteq> 0) (label @ '' has unbalanced braces.''))"

text \<open>The text up to the brace that closes the first one, and what follows it.\<close>

fun matching_brace :: "int \<Rightarrow> string \<Rightarrow> (string \<times> string) option" where
  "matching_brace depth [] = None"
| "matching_brace depth (c # cs) =
     (if c = CHR ''}'' \<and> depth = 1 then Some ([c], cs)
      else map_option (\<lambda>(block, rest). (c # block, rest))
        (matching_brace (if c = CHR ''{'' then depth + 1 else if c = CHR ''}'' then depth - 1 else depth) cs))"

subsection \<open>Named blocks\<close>

text \<open>\<open>\bkeyword\s+(name)\s*\{\<close> captures the name; with a given name it is where a block starts.\<close>

definition declared_name :: "string \<Rightarrow> string pattern" where
  "declared_name keyword prev s =
     (if \<not> word_start prev then None
      else Option.bind (eat_word keyword s) (\<lambda>s.
           Option.bind (eat_ident is_word_char s) (\<lambda>(name, s).
           Option.bind (eat_char (CHR ''{'') s) (\<lambda>s. Some (name, s)))))"

definition block_starts :: "string \<Rightarrow> string \<Rightarrow> char option \<Rightarrow> string \<Rightarrow> bool" where
  "block_starts keyword name prev s \<longleftrightarrow>
     word_start prev \<and> Option.bind (eat_word keyword s) (\<lambda>s. Option.bind (eat_text name s) (eat_char (CHR ''{''))) \<noteq> None"

text \<open>\<open>regex.exec(text)\<close>: the text before the first place that matches, and the text from there.\<close>

fun find_place :: "(char option \<Rightarrow> string \<Rightarrow> bool) \<Rightarrow> char option \<Rightarrow> string \<Rightarrow> (string \<times> string) option" where
  "find_place m prev [] = None"
| "find_place m prev (c # cs) =
     (if m prev (c # cs) then Some ([], c # cs)
      else map_option (\<lambda>(before, rest). (c # before, rest)) (find_place m (Some c) cs))"

text \<open>The block of a name: what stands before it, the block, and what stands after it.\<close>

datatype block_search = No_Block | Open_Block | Block string string string

definition find_block :: "string \<Rightarrow> string \<Rightarrow> string \<Rightarrow> block_search" where
  "find_block keyword name text =
     (case find_place (block_starts keyword name) None text of
        None \<Rightarrow> No_Block
      | Some (before, s) \<Rightarrow>
          let head = takeWhile (\<lambda>c. c \<noteq> CHR ''{'') s
          in case matching_brace 0 (drop (length head) s) of
               None \<Rightarrow> Open_Block
             | Some (body, after) \<Rightarrow> Block before (head @ body) after)"

definition extractNamedBlock :: "string \<Rightarrow> string \<Rightarrow> string \<Rightarrow> string result" where
  "extractNamedBlock text keyword name =
     (case find_block keyword name text of
        No_Block \<Rightarrow> Inr []
      | Open_Block \<Rightarrow> Inl (''Unbalanced braces in '' @ keyword @ '' '' @ quoted name @ ''.'')
      | Block before block after \<Rightarrow> Inr (trim block))"

definition replaceNamedBlock :: "string \<Rightarrow> string \<Rightarrow> string \<Rightarrow> string \<Rightarrow> string result" where
  "replaceNamedBlock text keyword name replacement =
     (case find_block keyword name text of
        No_Block \<Rightarrow> Inl (''Unable to locate '' @ keyword @ '' '' @ quoted name @ ''.'')
      | Open_Block \<Rightarrow> Inl (''Unbalanced braces in existing '' @ keyword @ '' '' @ quoted name @ ''.'')
      | Block before block after \<Rightarrow> Inr (trimEnd (before @ trimEnd replacement @ after) @ nl))"

subsection \<open>Names\<close>

text \<open>A text that is not given counts as empty.\<close>

definition validateName :: "string \<Rightarrow> string result" where
  "validateName v =
     (let raw = trim v in
      if identifier_match raw then Inr raw
      else Inl (''Invalid name '' @ quoted v @ ''. Use letters, numbers, and underscores, and start with a letter or underscore.''))"

definition inferSingleName :: "string list \<Rightarrow> string \<Rightarrow> string result" where
  "inferSingleName names label =
     (case uniq names of
        [name] \<Rightarrow> Inr name
      | [] \<Rightarrow> Inl (''Missing --name. No '' @ label @ '' name could be inferred from the definition.'')
      | found \<Rightarrow> Inl (''Missing --name. Definition contains multiple '' @ label @ ''s: '' @ join '', '' found @ ''.''))"

definition given_or_inferred :: "string \<Rightarrow> string list \<Rightarrow> string \<Rightarrow> string result" where
  "given_or_inferred name names label = rbind (if name \<noteq> [] then Inr name else inferSingleName names label) validateName"

subsection \<open>Fields\<close>

text \<open>\<open>PROTO_FIELD_REGEX\<close>, of which only the number is used.\<close>

definition numbered_name :: "string \<times> string \<Rightarrow> string option" where
  "numbered_name = (\<lambda>(type', s).
     Option.bind (eat_word [] s) (\<lambda>s.
     Option.bind (eat_ident is_word_char s) (\<lambda>(name, s).
     Option.bind (eat_char (CHR ''='') s) (\<lambda>s.
     Option.bind (eat_run is_digit (dropWhile is_ws s)) (\<lambda>(digits, s).
     Option.bind (eat_char (CHR '';'') s) (\<lambda>s. if s = [] then Some digits else None))))))"

definition unlabelled_number :: "string \<Rightarrow> string option" where
  "unlabelled_number s =
     (case Option.bind (map_type s) numbered_name of
        Some tag \<Rightarrow> Some tag
      | None \<Rightarrow> Option.bind (eat_ident is_proto_type_char s) numbered_name)"

definition proto_field_number :: "string \<Rightarrow> string option" where
  "proto_field_number line =
     (case List.map_filter (\<lambda>label. Option.bind (eat_word label line) unlabelled_number)
         [''optional'', ''required'', ''repeated''] of
        tag # _ \<Rightarrow> Some tag
      | [] \<Rightarrow> unlabelled_number line)"

text \<open>\<open>ROS_FIELD_REGEX\<close>: a bound takes back the \<open><\<close> that the type has taken.\<close>

definition is_ros_type_char :: "char \<Rightarrow> bool" where
  "is_ros_type_char c \<longleftrightarrow> is_word_char c \<or> c \<in> set ''/.<>''"

definition name_and_value :: "string \<Rightarrow> bool" where
  "name_and_value s \<longleftrightarrow>
     (case Option.bind (eat_word [] s) (eat_ident is_word_char) of
        None \<Rightarrow> False
      | Some (name, rest) \<Rightarrow> rest = [] \<or> startsWith (dropWhile is_ws rest) ''='')"

definition after_array :: "string \<Rightarrow> string" where
  "after_array s =
     (if startsWith s ''['' \<and> CHR '']'' \<in> set s then tl (dropWhile (\<lambda>c. c \<noteq> CHR '']'') s) else s)"

definition ros_field_line :: "string \<Rightarrow> bool" where
  "ros_field_line line \<longleftrightarrow>
     (let run = takeWhile is_ros_type_char line; rest = drop (length run) line
      in line \<noteq> [] \<and> is_alpha (hd line)
         \<and> (name_and_value (after_array rest)
            \<or> endsWith run ''<'' \<and> startsWith rest ''='' \<and> takeWhile is_digit (tl rest) \<noteq> []
              \<and> name_and_value (after_array (dropWhile is_digit (tl rest)))))"

text \<open>A field of a DDS structure: the last word is the name, and the type before it has at least one
  character.\<close>

definition dds_type_char :: "char \<Rightarrow> bool" where
  "dds_type_char c \<longleftrightarrow> is_word_char c \<or> c \<in> set '':<>, '' \<or> c = CHR 0x09"

definition dds_field_ok :: "string \<Rightarrow> bool" where
  "dds_field_ok fld \<longleftrightarrow>
     (let name = rev (takeWhile (\<lambda>c. \<not> is_ws c) (rev fld));
          type' = trim (take (length fld - length name) fld)
      in identifier_match name \<and> type' \<noteq> [] \<and> (is_alpha (hd type') \<or> hd type' = CHR ''_'') \<and> list_all dds_type_char type')"

subsection \<open>Checks of whole definitions\<close>

definition proto_field_error :: "nat \<Rightarrow> string \<Rightarrow> string" where
  "proto_field_error number line =
     ''Invalid proto field on line '' @ nat_str number @ '': '' @ quoted line @ ''. Expected: <type> <name> = <number>;''"

fun proto_fragment_lines :: "string list \<Rightarrow> (nat \<times> string) list \<Rightarrow> string list result" where
  "proto_fragment_lines tags [] = Inr []"
| "proto_fragment_lines tags ((number, line) # items) =
     (case proto_field_number line of
        None \<Rightarrow> Inl (proto_field_error number line)
      | Some tag \<Rightarrow>
          if tag \<in> set tags
          then Inl (''Duplicate proto field number '' @ tag @ '' on line '' @ nat_str number @ ''.'')
          else rbind (proto_fragment_lines (tag # tags) items) (\<lambda>ls. Inr (line # ls)))"

definition validateProtoFieldFragment :: "string \<Rightarrow> string list result" where
  "validateProtoFieldFragment text =
     rbind (proto_fragment_lines [] (definitionLines ''//'' text)) (\<lambda>ls.
       if ls = [] then Inl ''Proto field fragment has no fields.'' else Inr ls)"

definition starts_with_word :: "string \<Rightarrow> string \<Rightarrow> bool" where
  "starts_with_word line w \<longleftrightarrow>
     startsWith line w \<and> (case drop (length w) line of [] \<Rightarrow> True | c # _ \<Rightarrow> \<not> is_word_char c)"

definition block_line_ok :: "string \<Rightarrow> bool" where
  "block_line_ok line \<longleftrightarrow>
     list_ex (starts_with_word line) [''option'', ''reserved'', ''extensions'', ''oneof'']
     \<or> line = ''{'' \<or> line = ''}'' \<or> endsWith line ''{'' \<or> proto_field_number line \<noteq> None"

definition block_body :: "string \<Rightarrow> string" where
  "block_body block =
     (let open' = length (takeWhile (\<lambda>c. c \<noteq> CHR ''{'') block) + 1;
          after_close = length (takeWhile (\<lambda>c. c \<noteq> CHR ''}'') (rev block)) + 1
      in drop open' (take (length block - after_close) block))"

definition validateProtoMessageBlock :: "string \<Rightarrow> string \<Rightarrow> unit result" where
  "validateProtoMessageBlock block name =
     rbind (validateBalancedBraces block (''proto message '' @ name)) (\<lambda>_.
       case find (\<lambda>(number, line). \<not> block_line_ok line) (definitionLines ''//'' (block_body block)) of
         None \<Rightarrow> Inr ()
       | Some (number, line) \<Rightarrow> Inl (''Invalid proto field inside message '' @ quoted name @ '' near line ''
           @ nat_str number @ '': '' @ quoted line @ ''.''))"

definition validateRosFields :: "string \<Rightarrow> string \<Rightarrow> bool \<Rightarrow> unit result" where
  "validateRosFields text kind requireField =
     (let items = definitionLines ''#'' text in
      case find (\<lambda>(number, line). line = ''---'' \<or> \<not> ros_field_line line) items of
        Some (number, line) \<Rightarrow>
          Inl (if line = ''---'' then kind @ '' field list must not contain a service separator.''
               else ''Invalid ROS2 '' @ kind @ '' field on line '' @ nat_str number @ '': '' @ quoted line
                 @ ''. Expected: <type> <name>.'')
      | None \<Rightarrow> fail_if (requireField \<and> list_all (\<lambda>(number, line). CHR ''='' \<in> set line) items)
          (''ROS2 '' @ kind @ '' definition must contain at least one field.''))"

definition dds_fragment_line :: "nat \<times> string \<Rightarrow> string result" where
  "dds_fragment_line = (\<lambda>(number, line).
     let message = (\<lambda>hint. ''Invalid DDS IDL field on line '' @ nat_str number @ '': '' @ quoted line @ ''. '' @ hint);
         fld = trim (butlast line)
     in if \<not> endsWith line '';'' then Inl (message (''Fields must end with '' @ quoted '';'' @ ''.''))
        else if \<not> dds_field_ok fld then Inl (message ''Expected: <type> <name>;'') else Inr (fld @ '';''))"

definition validateDdsIdlFieldFragment :: "string \<Rightarrow> string list result" where
  "validateDdsIdlFieldFragment text =
     rbind (rmap dds_fragment_line (definitionLines ''//'' text)) (\<lambda>ls.
       if ls = [] then Inl ''DDS IDL field fragment has no fields.'' else Inr ls)"

subsection \<open>Building a definition\<close>

record built_format =
  bf_name :: string
  bf_append :: string
  bf_content :: string

definition protoHeader :: "string \<Rightarrow> string" where
  "protoHeader serviceName =
     join_lines [''syntax = '' @ quoted ''proto3'' @ '';'', [], ''package pacific_rim.'' @ serviceName @ ''.protocols.pb;'']"

definition block_of_lines :: "string \<Rightarrow> string \<Rightarrow> string list \<Rightarrow> string \<Rightarrow> string" where
  "block_of_lines keyword name ls end' =
     join_lines ((keyword @ '' '' @ name @ '' {'') # map (\<lambda>line. ''  '' @ line) ls @ [end'])"

text \<open>\<open>/^\s*(syntax|package|import|option)\s*[=;]/m\<close>.\<close>

definition header_starts :: "char option \<Rightarrow> string \<Rightarrow> bool" where
  "header_starts prev s \<longleftrightarrow>
     line_start prev
     \<and> list_ex (\<lambda>w. case eat_text w (dropWhile is_ws s) of
           None \<Rightarrow> False
         | Some r \<Rightarrow> eat_char (CHR ''='') r \<noteq> None \<or> eat_char (CHR '';'') r \<noteq> None)
         [''syntax'', ''package'', ''import'', ''option'']"

definition with_header :: "string \<Rightarrow> string \<Rightarrow> string" where
  "with_header serviceName block = protoHeader serviceName @ nl @ nl @ block"

definition buildProtoDefinition :: "string \<Rightarrow> string \<Rightarrow> string \<Rightarrow> built_format result" where
  "buildProtoDefinition name rawDefinition serviceName =
     (let source = normalizeText rawDefinition; messageNames = match_all (declared_name ''message'') None source in
      if trim source = [] then Inl ''Proto definition is empty.''
      else rbind (given_or_inferred name messageNames ''proto message'') (\<lambda>resolvedName.
        if messageNames \<noteq> [] then
          rbind (extractNamedBlock source ''message'' resolvedName) (\<lambda>block.
          if block = [] then Inl (''Proto definition does not contain message '' @ quoted resolvedName @ ''.'')
          else rbind (validateProtoMessageBlock block resolvedName) (\<lambda>_.
            Inr \<lparr>bf_name = resolvedName, bf_append = block,
              bf_content = (if find_place header_starts None source \<noteq> None then source else with_header serviceName block)\<rparr>))
        else
          rbind (validateProtoFieldFragment source) (\<lambda>flds.
            let block = block_of_lines ''message'' resolvedName flds ''}''
            in Inr \<lparr>bf_name = resolvedName, bf_append = block, bf_content = with_header serviceName block\<rparr>)))"

definition buildRosMessageDefinition :: "string \<Rightarrow> string \<Rightarrow> built_format result" where
  "buildRosMessageDefinition name rawDefinition =
     rbind (validateName name) (\<lambda>resolvedName.
       let source = trim (normalizeText rawDefinition) in
       if source = [] then Inl ''ROS2 msg definition is empty.''
       else rbind (validateRosFields source ''msg'' True) (\<lambda>_.
         Inr \<lparr>bf_name = resolvedName, bf_append = [], bf_content = source\<rparr>))"

definition buildRosServiceDefinition :: "string \<Rightarrow> string \<Rightarrow> built_format result" where
  "buildRosServiceDefinition name rawDefinition =
     rbind (validateName name) (\<lambda>resolvedName.
       let source = trim (normalizeText rawDefinition); sections = split_at_matches service_mark None source in
       if source = [] then Inl ''ROS2 srv definition is empty.''
       else case sections of
         [request, response] \<Rightarrow>
           rbind (validateRosFields request ''srv request'' False) (\<lambda>_.
           rbind (validateRosFields response ''srv response'' True) (\<lambda>_.
             Inr \<lparr>bf_name = resolvedName, bf_append = [],
               bf_content = trimEnd request @ nl @ ''---'' @ nl @ trim response\<rparr>))
       | _ \<Rightarrow> Inl (''ROS2 srv definition must contain exactly one '' @ quoted ''---'' @ '' separator.''))"

definition buildDdsIdlDefinition :: "string \<Rightarrow> string \<Rightarrow> built_format result" where
  "buildDdsIdlDefinition name rawDefinition =
     (let source = normalizeText rawDefinition;
          declaredNames = match_all (declared_name ''struct'') None source @ match_all (declared_name ''interface'') None source in
      if trim source = [] then Inl ''DDS IDL definition is empty.''
      else if declaredNames \<noteq> [] then
        rbind (given_or_inferred name declaredNames ''DDS IDL type'') (\<lambda>resolvedName.
          if resolvedName \<notin> set declaredNames
          then Inl (''DDS IDL definition does not contain struct/interface '' @ quoted resolvedName @ ''.'')
          else rbind (validateBalancedBraces source ''DDS IDL'') (\<lambda>_.
            Inr \<lparr>bf_name = resolvedName, bf_append = [], bf_content = trimEnd source\<rparr>))
      else
        rbind (validateName name) (\<lambda>resolvedName.
        rbind (validateDdsIdlFieldFragment source) (\<lambda>flds.
          Inr \<lparr>bf_name = resolvedName, bf_append = [], bf_content = block_of_lines ''struct'' resolvedName flds ''};''\<rparr>)))"

definition buildDefinition :: "DataFormatKind \<Rightarrow> string \<Rightarrow> string \<Rightarrow> string \<Rightarrow> built_format result" where
  "buildDefinition kind name rawDefinition serviceName =
     (case kind of
        Proto \<Rightarrow> buildProtoDefinition name rawDefinition serviceName
      | Msg \<Rightarrow> buildRosMessageDefinition name rawDefinition
      | Srv \<Rightarrow> buildRosServiceDefinition name rawDefinition
      | Dds_Idl \<Rightarrow> buildDdsIdlDefinition name rawDefinition)"

end
