(* ===== verification/Format_Command.thy ===== *)
theory Format_Command
  imports Format_Text Handlers
begin

text \<open>
  The command \<open>./pr data-format\<close>, second part (\<open>bin/create-data-format.mjs\<close>): arguments, the
  service a definition belongs to, and the files that are written. A run works on the file system
  and returns the lines it prints, or the message of its error; what was written before an error
  stays.
\<close>

subsection \<open>Runs\<close>

type_synonym 'a run = "node \<Rightarrow> 'a result \<times> node"

definition run_then :: "'a run \<Rightarrow> ('a \<Rightarrow> 'b run) \<Rightarrow> 'b run" where
  "run_then m f fs = (case m fs of (Inl e, fs') \<Rightarrow> (Inl e, fs') | (Inr x, fs') \<Rightarrow> f x fs')"

definition run_read :: "(node \<Rightarrow> 'a result) \<Rightarrow> 'a run" where
  "run_read f fs = (f fs, fs)"

definition run_value :: "'a result \<Rightarrow> 'a run" where
  "run_value r = run_read (\<lambda>_. r)"

definition run_change :: "(node \<Rightarrow> node result) \<Rightarrow> unit run" where
  "run_change f fs = (case f fs of Inl e \<Rightarrow> (Inl e, fs) | Inr fs' \<Rightarrow> (Inr (), fs'))"

definition run_write :: "path \<Rightarrow> string \<Rightarrow> unit run" where
  "run_write p text = run_change (\<lambda>fs. writeFile fs p text)"

record format_env =
  fe_cwd :: path
  fe_script :: path
  fe_stdin :: string
  fe_localeCompare :: "string \<Rightarrow> string \<Rightarrow> int"

text \<open>\<open>findUpPackageJson\<close> and \<open>resolveRootDir\<close>; \<open>fe_script\<close> is the directory above that of the script.\<close>

function findUpPackageJson :: "node \<Rightarrow> path \<Rightarrow> path option" where
  "findUpPackageJson fs dir =
     (if existsSync fs (dir @ [''package.json'']) then Some dir
      else if dir = [] then None else findUpPackageJson fs (butlast dir))"
  by pat_completeness auto
termination
  by (relation "measure (\<lambda>(fs, dir). length dir)") auto

declare findUpPackageJson.simps [simp del]

definition resolveRootDir :: "format_env \<Rightarrow> node \<Rightarrow> path" where
  "resolveRootDir env fs =
     (case List.map_filter (findUpPackageJson fs) [fe_cwd env, fe_script env] of
        dir # _ \<Rightarrow> dir
      | [] \<Rightarrow> fe_cwd env)"

subsection \<open>Arguments\<close>

record format_options =
  fo_help :: bool
  fo_listServices :: bool
  fo_service :: "string option"
  fo_kind :: "string option"
  fo_name :: "string option"
  fo_file :: "string option"
  fo_data :: "string option"
  fo_stdin :: bool
  fo_force :: bool
  fo_dryRun :: bool

datatype option_key = Service_Key | Kind_Key | Name_Key | File_Key | Data_Key

definition no_format_options :: format_options where
  "no_format_options = \<lparr>fo_help = False, fo_listServices = False, fo_service = None, fo_kind = None, fo_name = None,
     fo_file = None, fo_data = None, fo_stdin = False, fo_force = False, fo_dryRun = False\<rparr>"

fun set_option :: "option_key \<Rightarrow> string \<Rightarrow> format_options \<Rightarrow> format_options" where
  "set_option Service_Key v opts = opts\<lparr>fo_service := Some v\<rparr>"
| "set_option Kind_Key v opts = opts\<lparr>fo_kind := Some v\<rparr>"
| "set_option Name_Key v opts = opts\<lparr>fo_name := Some v\<rparr>"
| "set_option File_Key v opts = opts\<lparr>fo_file := Some v\<rparr>"
| "set_option Data_Key v opts = opts\<lparr>fo_data := Some v\<rparr>"

definition spaced_flags :: "(string \<times> option_key) list" where
  "spaced_flags = [(''--service'', Service_Key), (''-s'', Service_Key), (''--kind'', Kind_Key), (''--format'', Kind_Key),
     (''--data-format'', Kind_Key), (''-k'', Kind_Key), (''--name'', Name_Key), (''-n'', Name_Key), (''--file'', File_Key),
     (''--definition-file'', File_Key), (''-f'', File_Key), (''--data'', Data_Key), (''--definition'', Data_Key), (''-d'', Data_Key)]"

definition joined_flags :: "(string \<times> option_key) list" where
  "joined_flags = [(''--service='', Service_Key), (''--kind='', Kind_Key), (''--format='', Kind_Key), (''--data-format='', Kind_Key),
     (''--name='', Name_Key), (''--file='', File_Key), (''--definition-file='', File_Key), (''--data='', Data_Key),
     (''--definition='', Data_Key)]"

definition joined_value :: "string \<Rightarrow> (option_key \<times> string) option" where
  "joined_value arg =
     (case filter (\<lambda>(flag, key). startsWith arg flag) joined_flags of
        (flag, key) # _ \<Rightarrow> Some (key, drop (length flag) arg)
      | [] \<Rightarrow> None)"

definition plain_flag :: "string \<Rightarrow> (format_options \<Rightarrow> format_options) option" where
  "plain_flag arg =
     (if arg \<in> set [''--help'', ''-h'', ''help''] then Some (fo_help_update (\<lambda>_. True))
      else if arg \<in> set [''--list-services'', ''list''] then Some (fo_listServices_update (\<lambda>_. True))
      else if arg = ''--stdin'' then Some (fo_stdin_update (\<lambda>_. True))
      else if arg = ''--force'' then Some (fo_force_update (\<lambda>_. True))
      else if arg = ''--dry-run'' then Some (fo_dryRun_update (\<lambda>_. True)) else None)"

text \<open>\<open>readOptionValue\<close>, for the arguments after the flag.\<close>

definition readOptionValue :: "option_key \<Rightarrow> string \<Rightarrow> string list \<Rightarrow> string result" where
  "readOptionValue key flag rest =
     (case rest of
        v # _ \<Rightarrow> if v = [] \<or> key \<noteq> Data_Key \<and> startsWith v ''-'' then Inl (''Missing value for '' @ flag @ ''.'') else Inr v
      | [] \<Rightarrow> Inl (''Missing value for '' @ flag @ ''.''))"

function format_args :: "string list \<Rightarrow> format_options \<Rightarrow> string list \<Rightarrow> (format_options \<times> string list) result" where
  "format_args [] opts positionals = Inr (opts, positionals)"
| "format_args (arg # rest) opts positionals =
     (case plain_flag arg of
        Some set' \<Rightarrow> format_args rest (set' opts) positionals
      | None \<Rightarrow> (case map_of spaced_flags arg of
          Some key \<Rightarrow> (case readOptionValue key arg rest of
              Inl e \<Rightarrow> Inl e
            | Inr v \<Rightarrow> format_args (tl rest) (set_option key v opts) positionals)
        | None \<Rightarrow> (case joined_value arg of
            Some (key, v) \<Rightarrow> format_args rest (set_option key v opts) positionals
          | None \<Rightarrow> if startsWith arg ''-'' then Inl (''Unknown option: '' @ arg)
              else format_args rest opts (positionals @ [arg]))))"
  by pat_completeness auto
termination
  by (relation "measure (\<lambda>(args, opts, positionals). length args)") auto

text \<open>\<open>options.k ??= positionals.shift()\<close>.\<close>

definition or_shift :: "string option \<times> string list \<Rightarrow> string option \<times> string list" where
  "or_shift = (\<lambda>(given, positionals). case given of
       Some v \<Rightarrow> (Some v, positionals)
     | None \<Rightarrow> (case positionals of p # ps \<Rightarrow> (Some p, ps) | [] \<Rightarrow> (None, [])))"

definition parseFormatArgs :: "string list \<Rightarrow> format_options result" where
  "parseFormatArgs argv =
     rbind (format_args argv no_format_options []) (\<lambda>(opts, positionals).
       let (service, ps) = or_shift (fo_service opts, positionals);
           (kind, ps) = or_shift (fo_kind opts, ps);
           (name, ps) = or_shift (fo_name opts, ps)
       in case ps of
            [] \<Rightarrow> Inr (opts\<lparr>fo_service := service, fo_kind := kind, fo_name := name\<rparr>)
          | p # _ \<Rightarrow> Inl (''Unexpected positional argument: '' @ p))"

definition normalizeKind :: "string \<Rightarrow> DataFormatKind result" where
  "normalizeKind v =
     (let normalized = toLowerCase (trim v) in
      if normalized \<in> set [''omg_idl'', ''omg-dds-idl'', ''ddsidl'', ''omgidl''] then Inr Dds_Idl
      else case find (\<lambda>kind. format_word kind = normalized) [Proto, Msg, Srv, Dds_Idl] of
        Some kind \<Rightarrow> Inr kind
      | None \<Rightarrow> Inl ''Invalid --kind. Use one of: proto, msg, srv, dds_idl.'')"

definition resolve_path :: "path \<Rightarrow> string \<Rightarrow> path" where
  "resolve_path base file = path_join (if isAbsolute file then [] else base) file"

definition readDefinition :: "format_env \<Rightarrow> path \<Rightarrow> format_options \<Rightarrow> node \<Rightarrow> string result" where
  "readDefinition env rootDir opts fs =
     (let file = nullish (fo_file opts) [];
          sources = length (filter id [file \<noteq> [], fo_data opts \<noteq> None, fo_stdin opts])
      in if sources \<noteq> 1
         then Inl ''Provide exactly one definition source: --file <path>, --data <text>, or --stdin.''
         else case fo_data opts of
           Some data \<Rightarrow> Inr data
         | None \<Rightarrow> if fo_stdin opts \<or> file = ''-'' then Inr (fe_stdin env) else readFile fs (resolve_path rootDir file))"

subsection \<open>Services\<close>

definition isDirectory :: "node \<Rightarrow> path \<Rightarrow> bool" where
  "isDirectory fs p = (case node_at fs p of Some (Dir es) \<Rightarrow> True | _ \<Rightarrow> False)"

definition strip_ends :: "char \<Rightarrow> string \<Rightarrow> string" where
  "strip_ends d s = rev (dropWhile (\<lambda>c. c = d) (rev (dropWhile (\<lambda>c. c = d) s)))"

definition normalizeServiceInput :: "string \<Rightarrow> string" where
  "normalizeServiceInput v = strip_ends (CHR ''/'') (replace_char (CHR 0x5C) (CHR ''/'') (trim v))"

definition candidateServiceNames :: "string \<Rightarrow> string list" where
  "candidateServiceNames v =
     (let leaf = basename (normalizeServiceInput v);
          withoutProjectPrefix = (if startsWith leaf ''module-'' then drop (length ''module-'') leaf else leaf);
          base = replace_char (CHR ''-'') (CHR ''_'') withoutProjectPrefix
      in filter (\<lambda>n. n \<noteq> []) (uniq ([leaf, withoutProjectPrefix, base]
           @ (if base \<noteq> [] \<and> \<not> endsWith base ''_service'' then [base @ ''_service''] else []))))"

definition resolveServiceModuleRoot :: "path \<Rightarrow> string \<Rightarrow> node \<Rightarrow> path result" where
  "resolveServiceModuleRoot rootDir service fs =
     (let normalized = normalizeServiceInput service; direct = path_join rootDir normalized in
      if normalized = [] then Inl ''Missing service name.''
      else if isDirectory fs direct then Inr direct
      else case find (isDirectory fs) (map (path_join (rootDir @ [''module'', ''service''])) (candidateServiceNames normalized)) of
        Some candidate \<Rightarrow> Inr candidate
      | None \<Rightarrow> Inl (''Service module not found: '' @ service @ ''. Expected module/service/<service_name>.''))"

definition listServices :: "format_env \<Rightarrow> path \<Rightarrow> node \<Rightarrow> string list result" where
  "listServices env rootDir fs =
     rbind (readdir fs (rootDir @ [''module'', ''service''])) (\<lambda>es.
       Inr (js_sort (fe_localeCompare env) (List.map_filter (\<lambda>(n, t). case t of Dir sub \<Rightarrow> Some n | _ \<Rightarrow> None) es)))"

definition dataFormatTargetPath :: "path \<Rightarrow> string \<Rightarrow> DataFormatKind \<Rightarrow> string \<Rightarrow> path" where
  "dataFormatTargetPath rootDir serviceName kind name =
     (let idlRoot = path_join rootDir (''pkg/idl/'' @ serviceName) in
      case kind of
        Proto \<Rightarrow> path_join idlRoot (''pb/'' @ serviceName @ ''.proto'')
      | Dds_Idl \<Rightarrow> path_join idlRoot (''dds/'' @ serviceName @ ''/'' @ name @ ''.idl'')
      | _ \<Rightarrow> path_join idlRoot (''ros2/'' @ serviceName @ ''/'' @ format_word kind @ ''/'' @ name @ ''.'' @ format_word kind))"

subsection \<open>The ROS 2 package\<close>

definition definition_dependency :: "string \<Rightarrow> nat \<times> string \<Rightarrow> string option" where
  "definition_dependency serviceName = (\<lambda>(number, line).
     let type' = strip_brackets (strip_bounds (hd (split_runs is_ws line))); pkg = hd (split_on (CHR ''/'') type')
     in if line = ''---'' \<or> CHR ''/'' \<notin> set type' \<or> pkg = [] \<or> pkg = serviceName then None else Some pkg)"

definition definition_dependencies :: "string \<Rightarrow> string \<Rightarrow> string list" where
  "definition_dependencies content serviceName =
     uniq (List.map_filter (definition_dependency serviceName) (definitionLines ''#'' content))"

definition interface_dependencies :: "path \<Rightarrow> string list \<Rightarrow> string \<Rightarrow> node \<Rightarrow> string list result" where
  "interface_dependencies packageDir interfaceFiles serviceName fs =
     rbind (rmap (\<lambda>f. readFile fs (path_join packageDir f)) interfaceFiles) (\<lambda>texts.
       Inr (js_sort unit_compare (uniq (concat (map (\<lambda>text. definition_dependencies text serviceName) texts)))))"

definition package_cmake :: "string \<Rightarrow> string list \<Rightarrow> string list \<Rightarrow> string" where
  "package_cmake serviceName interfaceFiles dependencies =
     join_lines (
       [''cmake_minimum_required(VERSION 3.8)'', ''project('' @ serviceName @ '')'', [],
        ''find_package(ament_cmake REQUIRED)'', ''find_package(rosidl_default_generators REQUIRED)'']
       @ map (\<lambda>dep. ''find_package('' @ dep @ '' REQUIRED)'') dependencies
       @ [[], ''rosidl_generate_interfaces(${PROJECT_NAME}'']
       @ map (\<lambda>f. ''  '' @ quoted f) interfaceFiles
       @ (if dependencies \<noteq> [] then [''  DEPENDENCIES '' @ join '' '' dependencies] else [])
       @ ['')'', [], ''ament_export_dependencies(rosidl_default_runtime)'', ''ament_package()'', []])"

definition package_xml :: "string \<Rightarrow> string list \<Rightarrow> string" where
  "package_xml serviceName dependencies =
     join_lines (
       [''<?xml version='' @ quoted ''1.0'' @ ''?>'', ''<package format='' @ quoted ''3'' @ ''>'',
        ''  <name>'' @ serviceName @ ''</name>'', ''  <version>0.1.0</version>'',
        ''  <description>ROS2 interfaces for the '' @ serviceName @ '' public contract.</description>'',
        ''  <maintainer email='' @ quoted ''dev@example.com'' @ ''>Pacific-Rim Developers</maintainer>'',
        ''  <license>TODO</license>'', [],
        ''  <buildtool_depend>ament_cmake</buildtool_depend>'',
        ''  <build_depend>rosidl_default_generators</build_depend>'']
       @ map (\<lambda>dep. ''  <depend>'' @ dep @ ''</depend>'') dependencies
       @ [[], ''  <exec_depend>rosidl_default_runtime</exec_depend>'', [],
          ''  <member_of_group>rosidl_interface_packages</member_of_group>'', [], ''  <export>'',
          ''    <build_type>ament_cmake</build_type>'', ''  </export>'', ''</package>'', []])"

definition ros2_package :: "path \<Rightarrow> string \<Rightarrow> path" where
  "ros2_package rootDir serviceName = path_join rootDir (''pkg/idl/'' @ serviceName @ ''/ros2/'' @ serviceName)"

definition interface_files :: "path \<Rightarrow> node \<Rightarrow> string list" where
  "interface_files packageDir fs =
     js_sort unit_compare
       (map (\<lambda>n. ''msg/'' @ n) (listFilesWithExtension unit_compare fs (packageDir @ [''msg'']) ''.msg'')
        @ map (\<lambda>n. ''srv/'' @ n) (listFilesWithExtension unit_compare fs (packageDir @ [''srv'']) ''.srv''))"

definition write_package_metadata :: "path \<Rightarrow> string \<Rightarrow> unit run" where
  "write_package_metadata rootDir serviceName =
     (let packageDir = ros2_package rootDir serviceName in
      run_then (run_read (\<lambda>fs. Inr (interface_files packageDir fs))) (\<lambda>interfaceFiles.
        if interfaceFiles = [] then run_value (Inr ())
        else
          run_then (run_read (interface_dependencies packageDir interfaceFiles serviceName)) (\<lambda>dependencies.
          run_then (run_write (packageDir @ [''CMakeLists.txt'']) (package_cmake serviceName interfaceFiles dependencies)) (\<lambda>_.
          run_write (packageDir @ [''package.xml'']) (package_xml serviceName dependencies)))))"

subsection \<open>Writing\<close>

definition writeProtoDefinition :: "path \<Rightarrow> path \<Rightarrow> built_format \<Rightarrow> bool \<Rightarrow> unit run" where
  "writeProtoDefinition rootDir targetPath built force =
     run_then (run_read (\<lambda>fs. Inr (existsSync fs targetPath))) (\<lambda>present.
       if \<not> present then run_write targetPath (trimEnd (bf_content built) @ nl)
       else run_then (run_read (\<lambda>fs. readFile fs targetPath)) (\<lambda>current.
         if has_sub current (''message '' @ bf_name built) then
           if \<not> force then run_value (Inl (''Proto message '' @ quoted (bf_name built) @ '' already exists in ''
             @ path_relative rootDir targetPath @ ''. Pass --force to replace it.''))
           else run_then (run_value (replaceNamedBlock current ''message'' (bf_name built) (bf_append built))) (run_write targetPath)
         else run_write targetPath (trimEnd current @ nl @ nl @ trimEnd (bf_append built) @ nl)))"

definition write_format :: "path \<Rightarrow> string \<Rightarrow> path \<Rightarrow> DataFormatKind \<Rightarrow> built_format \<Rightarrow> bool \<Rightarrow> unit run" where
  "write_format rootDir serviceName targetPath kind built force =
     run_then (run_change (\<lambda>fs. mkdir_rec fs (butlast targetPath))) (\<lambda>_.
       if kind = Proto then writeProtoDefinition rootDir targetPath built force
       else run_then (run_read (\<lambda>fs. fail_if (existsSync fs targetPath \<and> \<not> force)
           (path_relative rootDir targetPath @ '' already exists. Pass --force to overwrite it.''))) (\<lambda>_.
         run_then (run_write targetPath (trimEnd (bf_content built) @ nl)) (\<lambda>_.
           if kind = Msg \<or> kind = Srv then write_package_metadata rootDir serviceName else run_value (Inr ()))))"

definition format_help :: "string list" where
  "format_help = [''Create a data format under pkg/idl/<service>.'', [], ''Usage:'',
     ''  ./pr data-format --service <service> --kind <proto|msg|srv|dds_idl> --name <Type> --file <path>'',
     ''  ./pr data-format --service <service> --kind <proto|msg|srv|dds_idl> --name <Type> --data <definition>'',
     ''  ./pr data-format --service <service> --kind <proto|msg|srv|dds_idl> --name <Type> --stdin'',
     ''  ./pr data-format --list-services'', [], ''Examples:'',
     ''  ./pr data-format -s smoke_001_service -k msg -n RobotState --data '' @ quoted ''string robot_id'',
     ''  ./pr data-format -s smoke_001_service -k proto -n RobotState --file ./RobotState.proto'',
     ''  cat Plan.idl | ./pr data-format -s planner_service -k dds_idl -n Plan --stdin'', [], ''Notes:'',
     ''  proto can be a full .proto file, a message block, or field lines with tags.'',
     ''  msg is ROS2 .msg field content.'',
     ''  srv must contain exactly one '' @ quoted ''---'' @ '' separator and at least one response field.'',
     ''  dds_idl can be a struct/interface definition or struct field lines.'', []]"

definition service_name :: "path \<Rightarrow> string" where
  "service_name moduleRoot = replace_char (CHR ''-'') (CHR ''_'') (if moduleRoot = [] then [] else last moduleRoot)"

definition create_format :: "format_env \<Rightarrow> path \<Rightarrow> format_options \<Rightarrow> string list run" where
  "create_format env rootDir opts =
     (let service = nullish (fo_service opts) []; kindText = nullish (fo_kind opts) [] in
      if service = [] then run_value (Inl ''Missing --service.'')
      else if kindText = [] then run_value (Inl ''Missing --kind.'')
      else
        run_then (run_value (normalizeKind kindText)) (\<lambda>kind.
        run_then (run_read (resolveServiceModuleRoot rootDir service)) (\<lambda>moduleRoot.
        run_then (run_read (readDefinition env rootDir opts)) (\<lambda>rawDefinition.
        let serviceName = service_name moduleRoot in
        run_then (run_value (buildDefinition kind (nullish (fo_name opts) []) rawDefinition serviceName)) (\<lambda>built.
        let targetPath = dataFormatTargetPath rootDir serviceName kind (bf_name built) in
          if fo_dryRun opts
          then run_value (Inr [''Would create '' @ path_relative rootDir targetPath, [], trimEnd (bf_content built)])
          else run_then (write_format rootDir serviceName targetPath kind built (fo_force opts)) (\<lambda>_.
            run_value (Inr [''Created '' @ path_relative rootDir targetPath, ''Next: ./pr gen:interfaces --service '' @ serviceName])))))))"

definition data_format_main :: "format_env \<Rightarrow> string list \<Rightarrow> string list run" where
  "data_format_main env argv =
     run_then (run_read (\<lambda>fs. Inr (resolveRootDir env fs))) (\<lambda>rootDir.
     run_then (run_value (parseFormatArgs argv)) (\<lambda>opts.
       if fo_help opts then run_value (Inr format_help)
       else if fo_listServices opts then run_read (listServices env rootDir)
       else create_format env rootDir opts))"

end
