(* ===== verification/Scaffold_Yaml.thy ===== *)
theory Scaffold_Yaml
  imports Monitor_Yaml
begin

text \<open>
  The YAML reader of the interface scaffold (\<open>bin/interface-scaffold/yaml.mjs\<close>). It is the reader of
  the monitor (theory \<open>Monitor_Yaml\<close>) except for its scalars, which know no null; what does not depend
  on scalars is taken from there.
\<close>

definition scaffoldScalar :: "string \<Rightarrow> YamlValue" where
  "scaffoldScalar v =
     (let unquoted = unquote v in
      if unquoted = ''{}'' then YObject []
      else if unquoted = ''[]'' then YArray []
      else if unquoted = ''true'' then YBool True
      else if unquoted = ''false'' then YBool False
      else case number_literal unquoted of Some n \<Rightarrow> n | None \<Rightarrow> YString unquoted)"

definition scaffoldListItem :: "string \<Rightarrow> YamlValue" where
  "scaffoldListItem t =
     (if t = [] then YObject []
      else case yamlKeyValue t of
        Inl _ \<Rightarrow> scaffoldScalar t
      | Inr (key, v) \<Rightarrow> YObject [(key, scaffoldScalar v)])"

definition scaffold_list_line :: "int \<Rightarrow> string \<Rightarrow> step list \<Rightarrow> yaml_state \<Rightarrow> yaml_state result" where
  "scaffold_list_line indent stripped p st =
     (case value_at p (ys_root st) of
        Some (YArray xs) \<Rightarrow>
          let child = scaffoldListItem (trim (drop 2 stripped))
          in Inr \<lparr>ys_root = change_at p (pushed child) (ys_root st),
                 ys_stack = (if isContainer child then [(indent, p @ [Item (length xs)])] else []) @ ys_stack st\<rparr>
      | _ \<Rightarrow> Inl ''YAML subset parser found a list item outside a list'')"

definition scaffold_key_line :: "string list \<Rightarrow> int \<Rightarrow> string \<Rightarrow> step list \<Rightarrow> yaml_state \<Rightarrow> yaml_state result" where
  "scaffold_key_line rest indent stripped p st =
     (case yamlKeyValue stripped of
        Inl e \<Rightarrow> Inl e
      | Inr (key, v) \<Rightarrow>
          (case value_at p (ys_root st) of
             Some (YObject es) \<Rightarrow>
               if v = [] then
                 Inr \<lparr>ys_root = change_at p (assigned key
                        (if nextChildIsList rest indent then YArray [] else YObject [])) (ys_root st),
                      ys_stack = (indent, p @ [Key key]) # ys_stack st\<rparr>
               else Inr (st\<lparr>ys_root := change_at p (assigned key (scaffoldScalar v)) (ys_root st)\<rparr>)
           | _ \<Rightarrow> Inl ''YAML subset parser can only assign keys inside mappings''))"

definition scaffold_yaml_line :: "string list \<Rightarrow> string \<Rightarrow> yaml_state \<Rightarrow> yaml_state result" where
  "scaffold_yaml_line rest raw st =
     (let stripped = yaml_text raw; indent = yaml_indent raw in
      if stripped = [] then Inr st
      else
        let st' = st\<lparr>ys_stack := popped indent (ys_stack st)\<rparr>;
            p = (case ys_stack st' of [] \<Rightarrow> [] | (i, q) # _ \<Rightarrow> q)
        in if startsWith stripped ''- '' then scaffold_list_line indent stripped p st'
           else scaffold_key_line rest indent stripped p st')"

fun scaffold_yaml_lines :: "string list \<Rightarrow> yaml_state \<Rightarrow> yaml_state result" where
  "scaffold_yaml_lines [] st = Inr st"
| "scaffold_yaml_lines (raw # rest) st =
     (case scaffold_yaml_line rest raw st of Inl e \<Rightarrow> Inl e | Inr st' \<Rightarrow> scaffold_yaml_lines rest st')"

definition parseScaffoldYaml :: "string \<Rightarrow> YamlObject result" where
  "parseScaffoldYaml t =
     (case scaffold_yaml_lines (split_lines t) initial_yaml of
        Inl e \<Rightarrow> Inl e
      | Inr st \<Rightarrow> Inr (case ys_root st of YObject es \<Rightarrow> es | _ \<Rightarrow> []))"

text \<open>Where the two readers part: the scalars that only the monitor reads as null.\<close>

definition null_word :: "string \<Rightarrow> bool" where
  "null_word v \<longleftrightarrow> unquote v = ''null'' \<or> unquote v = ''~''"

text \<open>The scalar of a line, as either reader takes it.\<close>

definition line_scalar :: "string \<Rightarrow> string" where
  "line_scalar raw =
     (let stripped = yaml_text raw; t = (if startsWith stripped ''- '' then trim (drop 2 stripped) else stripped)
      in case yamlKeyValue t of Inl _ \<Rightarrow> t | Inr (key, v) \<Rightarrow> v)"

lemma same_scalar: "\<not> null_word v \<Longrightarrow> scaffoldScalar v = parseScalar v"
  by (simp add: null_word_def scaffoldScalar_def parseScalar_def Let_def)

lemma same_yaml_line:
  assumes "\<not> null_word (line_scalar raw)"
  shows "scaffold_yaml_line rest raw st = yaml_line rest raw st"
proof -
  let ?t = "yaml_text raw"
  have item: "scaffoldListItem (trim (drop 2 ?t)) = parseListItem (trim (drop 2 ?t))" if "startsWith ?t ''- ''"
    using assms that by (auto simp: line_scalar_def scaffoldListItem_def parseListItem_def same_scalar Let_def split: sum.splits)
  have scalar: "scaffoldScalar v = parseScalar v" if "\<not> startsWith ?t ''- ''" "yamlKeyValue ?t = Inr (key, v)" for key v
    using assms that by (intro same_scalar) (simp add: line_scalar_def Let_def)
  show ?thesis
    unfolding scaffold_yaml_line_def yaml_line_def Let_def
    by (cases "startsWith ?t ''- ''") (auto simp: scaffold_list_line_def list_line_def scaffold_key_line_def key_line_def item
        dest: scalar split: sum.splits option.splits YamlValue.splits)
qed

lemma same_yaml_lines:
  "\<forall>raw \<in> set ls. \<not> null_word (line_scalar raw) \<Longrightarrow> scaffold_yaml_lines ls st = yaml_lines ls st"
  by (induction ls arbitrary: st) (auto simp: same_yaml_line split: sum.splits)

text \<open>The two YAML readers of the repository agree: on every text without a null scalar, the scaffold's reader and
  the monitor's return the same object, or fail with the same error.\<close>

theorem readers_agree:
  assumes "\<forall>raw \<in> set (split_lines t). \<not> null_word (line_scalar raw)"
  shows "parseScaffoldYaml t = parseYamlSubset t"
  by (simp add: parseScaffoldYaml_def parseYamlSubset_def same_yaml_lines [OF assms])

definition reader_text :: string where
  "reader_text = ''name: arm'' @ nl @ ''topics:'' @ nl @ ''  - pose: 1'' @ nl"

lemma readers_agree_witness:
  "parseScaffoldYaml reader_text = parseYamlSubset reader_text
   \<and> parseScaffoldYaml reader_text = Inr [(''name'', YString ''arm''), (''topics'', YArray [YObject [(''pose'', YNumber 1 0)]])]"
proof -
  have "\<forall>raw \<in> set (split_lines reader_text). \<not> null_word (line_scalar raw)" by code_simp
  moreover have "parseScaffoldYaml reader_text = Inr [(''name'', YString ''arm''), (''topics'', YArray [YObject [(''pose'', YNumber 1 0)]])]"
    by code_simp
  ultimately show ?thesis using readers_agree by blast
qed

end
