(* ===== verification/Scaffold_Catalog.thy ===== *)
theory Scaffold_Catalog
  imports Scaffold_Sources Scaffold_Yaml
begin

text \<open>
  The catalog of the interface scaffold (\<open>bin/interface-scaffold/protocols.mjs\<close> and \<open>file-walk.mjs\<close>):
  every file below the protocol directories is read by the parser for its kind, and the results are
  merged in the order of the files. A key of an object is found among its own keys only.
\<close>

subsection \<open>Files\<close>

fun tree_files :: "path \<Rightarrow> (string \<times> node) list \<Rightarrow> path list" where
  "tree_files dir [] = []"
| "tree_files dir ((n, t) # es) =
     (case t of File text \<Rightarrow> [dir @ [n]] | Dir sub \<Rightarrow> tree_files (dir @ [n]) sub | Other \<Rightarrow> []) @ tree_files dir es"

definition collectFiles :: "node \<Rightarrow> path \<Rightarrow> path list result" where
  "collectFiles fs dir =
     (if \<not> existsSync fs dir then Inr []
      else rbind (readdir fs dir) (\<lambda>es.
        Inr (js_sort (\<lambda>l r. unit_compare (file_string l) (file_string r)) (tree_files dir es))))"

subsection \<open>Merging\<close>

definition emptyCatalog :: catalog where
  "emptyCatalog = \<lparr>ca_protoFiles = [], ca_protoMessages = [], ca_protoRpcs = [], ca_ddsFiles = [], ca_ddsMessages = [],
     ca_ddsRpcs = [], ca_topics = [], ca_services = [], ca_ros2Messages = [], ca_ros2Services = [], ca_messageArtifacts = [],
     ca_serviceArtifacts = []\<rparr>"

definition mergeProtoCatalog :: "string \<Rightarrow> protocol_maps \<Rightarrow> catalog \<Rightarrow> catalog" where
  "mergeProtoCatalog f source cat = cat\<lparr>ca_protoFiles := ca_protoFiles cat @ [f],
     ca_protoMessages := assign_all (pm_messages source) (ca_protoMessages cat),
     ca_protoRpcs := assign_all (pm_rpcs source) (ca_protoRpcs cat)\<rparr>"

definition mergeDdsIdlCatalog :: "string \<Rightarrow> protocol_maps \<Rightarrow> catalog \<Rightarrow> catalog" where
  "mergeDdsIdlCatalog f source cat = cat\<lparr>ca_ddsFiles := ca_ddsFiles cat @ [f],
     ca_ddsMessages := assign_all (pm_messages source) (ca_ddsMessages cat),
     ca_ddsRpcs := assign_all (pm_rpcs source) (ca_ddsRpcs cat)\<rparr>"

text \<open>A ROS 2 source under its type, and under its other names where they are free.\<close>

definition addRos2SourceProtocol :: "protocol \<Rightarrow> (string \<times> protocol) list \<Rightarrow> (string \<times> protocol) list" where
  "addRos2SourceProtocol item target = with_aliases item target"

definition mergeArtifacts ::
  "(string \<times> generated_artifact list) list \<Rightarrow> (string \<times> generated_artifact list) list \<Rightarrow> (string \<times> generated_artifact list) list" where
  "mergeArtifacts source target =
     fold (\<lambda>(type', artifacts) m.
       let m' = (if map_of m type' = None then AList.update type' [] m else m)
       in fold (addArtifact type') artifacts m') source target"

definition mergeGeneratedArtifactCatalog :: "artifact_maps \<Rightarrow> catalog \<Rightarrow> catalog" where
  "mergeGeneratedArtifactCatalog source cat = cat\<lparr>
     ca_messageArtifacts := mergeArtifacts (am_messages source) (ca_messageArtifacts cat),
     ca_serviceArtifacts := mergeArtifacts (am_services source) (ca_serviceArtifacts cat)\<rparr>"

subsection \<open>Public routes\<close>

definition isPublicInterfaceManifest :: "path \<Rightarrow> path \<Rightarrow> bool" where
  "isPublicInterfaceManifest protocolsDir f \<longleftrightarrow>
     (let parts = split_on (CHR ''/'') (slash_path protocolsDir f)
      in (''public'' \<in> set parts \<or> ''topics'' \<in> set parts)
         \<and> (endsWith (file_string f) ''.yml'' \<or> endsWith (file_string f) ''.yaml''))"

definition public_format :: "route_kind \<Rightarrow> js_value \<Rightarrow> string" where
  "public_format kind data =
     (let normalized = normalizeTransport data in
      case kind of
        Topic_Route \<Rightarrow>
          if normalized \<in> set [''msg'', ''ros2_msg'', ''rosidl_msg''] then ''ros2_msg''
          else if normalized \<in> set [''proto'', ''protobuf'', ''protobuf_message''] then ''protobuf''
          else if normalized \<in> set [''dds_idl'', ''omg_idl'', ''omg_dds_idl'', ''ddsidl'', ''omgidl''] then ''dds_idl''
          else if normalized \<in> set [''bytes'', ''raw'', ''cdr'', ''cdr_bytes''] then ''bytes''
          else normalized
      | Service_Route \<Rightarrow>
          if normalized \<in> set [''srv'', ''ros2_srv'', ''rosidl_srv''] then ''ros2_srv''
          else if normalized \<in> set [''proto'', ''protobuf'', ''protobuf_rpc'', ''request_reply'', ''request_response''] then ''protobuf_rpc''
          else if normalized \<in> set [''dds_idl'', ''omg_idl'', ''omg_dds_idl'', ''ddsidl'', ''omgidl'', ''dds_idl_rpc'',
            ''omg_idl_rpc'', ''omg_dds_rpc_idl''] then ''dds_idl_rpc''
          else if normalized \<in> set [''bytes'', ''raw'', ''cdr'', ''cdr_bytes''] then ''bytes_rpc''
          else normalized)"

definition infer_format :: "route_kind \<Rightarrow> js_value \<Rightarrow> string" where
  "infer_format kind type' =
     (case kind of Topic_Route \<Rightarrow> inferTopicPayloadFormat (text_or_empty type')
                 | Service_Route \<Rightarrow> inferServiceContractFormat (text_or_empty type'))"

definition or_text :: "js_value list \<Rightarrow> YamlValue" where
  "or_text vs = nullish (first_true vs) (YString [])"

text \<open>\<open>normalizePayload\<close> and \<open>normalizeContract\<close>: the schema in the short form, as an object, or by
  the type of its ROS 2 definition. A contract also names the type of its response.\<close>

definition public_schema :: "route_kind \<Rightarrow> js_value \<Rightarrow> YamlObject" where
  "public_schema kind route =
     (let get = field route; typed = by_kind kind ''service_type'' ''message_type''; nested = get (schema_key kind);
          schema = (\<lambda>format type' response. [(''format'', format), (''type'', type')]
            @ (case kind of Service_Route \<Rightarrow> [(''responseType'', response)] | Topic_Route \<Rightarrow> []))
      in if truthy (get ''data'') \<or> truthy (get ''type'') then
           let type' = or_text [get ''type'', get typed]
           in schema (YString (if truthy (get ''data'') then public_format kind (get ''data'') else infer_format kind (Some type')))
                type' (or_text [get ''response_type'', get ''responseType''])
         else case nested of
           Some (YObject es) \<Rightarrow>
             schema (or_text [yaml_get es ''format'', Some (YString (infer_format kind (yaml_get es ''type'')))])
               (or_text [yaml_get es ''type'']) (or_text [yaml_get es ''response_type'', yaml_get es ''responseType''])
         | _ \<Rightarrow>
             let type' = or_text [get typed]
             in schema (YString (if truthy (Some type') then by_kind kind ''ros2_srv'' ''ros2_msg'' else [])) type' (YString []))"

definition normalizeAddresses :: "js_value \<Rightarrow> YamlObject" where
  "normalizeAddresses addresses = (case addresses of Some (YObject es) \<Rightarrow> es | _ \<Rightarrow> [])"

definition option_keys :: "string list" where
  "option_keys = [''qos'', ''metadata'', ''queue_group'', ''queue_size'', ''enabled'']"

definition publicRouteOptions :: "YamlValue \<Rightarrow> YamlObject" where
  "publicRouteOptions route = copy_keys option_keys (case route of YObject es \<Rightarrow> es | _ \<Rightarrow> []) []"

definition public_route_of :: "route_kind \<Rightarrow> string \<Rightarrow> path \<Rightarrow> string \<times> YamlValue \<Rightarrow> public_route" where
  "public_route_of kind idlService f = (\<lambda>(name, route).
     \<lparr>pu_name = name, pu_idlService = idlService, pu_ref = idlService @ ''.'' @ name, pu_manifest = f,
      pu_schema = public_schema kind (Some route), pu_addresses = normalizeAddresses (field (Some route) ''addresses''),
      pu_bindings = normalizeBindings (field (Some route) ''bindings''), pu_options = publicRouteOptions route\<rparr>)"

text \<open>The other names of a route: its addresses, and those of its bindings. The code also looks for
  an address in the route itself, where the normal form has none.\<close>

definition publicBindingRefs :: "route_kind \<Rightarrow> public_route \<Rightarrow> string list" where
  "publicBindingRefs kind r =
     uniq (filter (\<lambda>ref. ref \<noteq> []) (map (\<lambda>v. trim (text_or_empty v))
       (map (\<lambda>(k, v). Some v) (object_entries (pu_addresses r))
        @ concat (map (\<lambda>b. map (yaml_get b) (by_kind kind [''service'', ''ros_service'', ''address''] [''topic'', ''ros_topic'', ''address'']))
            (pu_bindings r)))))"

definition add_public_route :: "route_kind \<Rightarrow> public_route \<Rightarrow> (string \<times> public_route) list \<Rightarrow> (string \<times> public_route) list" where
  "add_public_route kind r routes =
     fold (\<lambda>ref. assign_free ref r) (publicBindingRefs kind r) (AList.update (pu_ref r) r routes)"

text \<open>A manifest without sections is one topic, named by the file unless it has a name.\<close>

definition without_extension :: "string \<Rightarrow> string" where
  "without_extension name =
     (let parts = split_on (CHR ''.'') name
      in if 1 < length parts \<and> last parts \<noteq> [] then join ''.'' (butlast parts) else name)"

definition topicEntries :: "YamlObject \<Rightarrow> path \<Rightarrow> (string \<times> YamlValue) list" where
  "topicEntries manifest f =
     (case yaml_get manifest ''topics'' of
        Some (YObject es) \<Rightarrow> object_entries es
      | _ \<Rightarrow> (case yaml_get manifest ''services'' of
          Some (YObject es) \<Rightarrow> []
        | Some (YArray xs) \<Rightarrow> []
        | _ \<Rightarrow> [(js_string (or_text [yaml_get manifest ''name'', Some (YString (without_extension (file_name f)))]), YObject manifest)]))"

definition serviceEntries :: "YamlObject \<Rightarrow> (string \<times> YamlValue) list" where
  "serviceEntries manifest = (case yaml_get manifest ''services'' of Some (YObject es) \<Rightarrow> object_entries es | _ \<Rightarrow> [])"

definition public_routes :: "route_kind \<Rightarrow> string \<Rightarrow> path \<Rightarrow> (string \<times> YamlValue) list \<Rightarrow> (string \<times> public_route) list" where
  "public_routes kind idlService f entries =
     fold (\<lambda>e. add_public_route kind (public_route_of kind idlService f e)) entries []"

definition mergePublicInterfaceCatalog :: "path \<Rightarrow> path \<Rightarrow> YamlObject \<Rightarrow> catalog \<Rightarrow> catalog" where
  "mergePublicInterfaceCatalog protocolsDir f manifest cat =
     (let idlService = idlServiceName protocolsDir f
      in cat\<lparr>ca_topics := assign_all (public_routes Topic_Route idlService f (topicEntries manifest f)) (ca_topics cat),
           ca_services := assign_all (public_routes Service_Route idlService f (serviceEntries manifest)) (ca_services cat)\<rparr>)"

subsection \<open>The catalog\<close>

definition load_text :: "path \<Rightarrow> path \<Rightarrow> path \<Rightarrow> string \<Rightarrow> catalog \<Rightarrow> catalog result" where
  "load_text rootDir source f text cat =
     (let name = file_string f; sourceFile = slash_path rootDir f in
      if endsWith name ''.proto''
      then Inr (mergeProtoCatalog sourceFile (parse_proto_text (proto_service_name source f) sourceFile text) cat)
      else if endsWith name ''.idl''
      then Inr (mergeDdsIdlCatalog sourceFile (parse_idl_text (idlServiceName source f) sourceFile text) cat)
      else if endsWith name ''.msg''
      then Inr (cat\<lparr>ca_ros2Messages := addRos2SourceProtocol (ros2_message_of rootDir source f text) (ca_ros2Messages cat)\<rparr>)
      else if endsWith name ''.srv''
      then Inr (cat\<lparr>ca_ros2Services := addRos2SourceProtocol (ros2_service_of rootDir source f text) (ca_ros2Services cat)\<rparr>)
      else if isPublicInterfaceManifest source f
      then rbind (parseScaffoldYaml text) (\<lambda>manifest. Inr (mergePublicInterfaceCatalog source f manifest cat))
      else Inr (mergeGeneratedArtifactCatalog (generated_artifacts_of source f text) cat))"

text \<open>The files that are read at all.\<close>

definition is_protocol_file :: "path \<Rightarrow> path \<Rightarrow> bool" where
  "is_protocol_file source f \<longleftrightarrow>
     list_ex (endsWith (file_string f)) [''.proto'', ''.idl'', ''.msg'', ''.srv'']
     \<or> isPublicInterfaceManifest source f \<or> isGeneratedArtifactCandidate f"

fun load_files :: "node \<Rightarrow> path \<Rightarrow> path \<Rightarrow> path list \<Rightarrow> catalog \<Rightarrow> catalog result" where
  "load_files fs rootDir source [] cat = Inr cat"
| "load_files fs rootDir source (f # files) cat =
     rbind (if is_protocol_file source f
            then rbind (readFile fs f) (\<lambda>text. load_text rootDir source f text cat) else Inr cat)
       (load_files fs rootDir source files)"

fun load_sources :: "node \<Rightarrow> path \<Rightarrow> path list \<Rightarrow> catalog \<Rightarrow> catalog result" where
  "load_sources fs rootDir [] cat = Inr cat"
| "load_sources fs rootDir (source # sources) cat =
     rbind (collectFiles fs source) (\<lambda>files.
     rbind (load_files fs rootDir source files cat) (load_sources fs rootDir sources))"

definition loadProtocolCatalog :: "node \<Rightarrow> path \<Rightarrow> path list \<Rightarrow> catalog result" where
  "loadProtocolCatalog fs rootDir sources = load_sources fs rootDir sources emptyCatalog"

subsection \<open>Entries of an object\<close>

text \<open>A predicate on keys and values that all assignments keep.\<close>

definition all_entries :: "(string \<Rightarrow> 'v \<Rightarrow> bool) \<Rightarrow> (string \<times> 'v) list \<Rightarrow> bool" where
  "all_entries P m \<longleftrightarrow> (\<forall>(k, v) \<in> set m. P k v)"

lemma all_entries_simps [simp]:
  "all_entries P []" "all_entries P ((k, v) # m) \<longleftrightarrow> P k v \<and> all_entries P m"
  by (auto simp: all_entries_def)

lemma all_entries_update: "all_entries P m \<Longrightarrow> P k v \<Longrightarrow> all_entries P (AList.update k v m)"
  by (induction m) auto

lemma all_entries_fold:
  "all_entries P m \<Longrightarrow> (\<And>x n. x \<in> set xs \<Longrightarrow> all_entries P n \<Longrightarrow> all_entries P (f x n)) \<Longrightarrow> all_entries P (fold f xs m)"
  by (induction xs arbitrary: m) auto

lemma all_entries_assign: "all_entries P new \<Longrightarrow> all_entries P m \<Longrightarrow> all_entries P (assign_all new m)"
  unfolding assign_all_def
  by (rule all_entries_fold) (auto simp: all_entries_def [of P new] intro: all_entries_update)

lemma all_entries_free: "all_entries P m \<Longrightarrow> P k v \<Longrightarrow> all_entries P (assign_free k v m)"
  by (simp add: assign_free_def all_entries_update)

lemma all_entries_aliases:
  assumes "all_entries P m" "P (pc_type item) item"
    "\<And>a. a \<in> set (pc_aliases item) \<Longrightarrow> P a (item\<lparr>pc_type := a, pc_aliasOf := pc_type item\<rparr>)"
  shows "all_entries P (with_aliases item m)"
  unfolding with_aliases_def
  by (rule all_entries_fold) (use assms in \<open>auto intro: all_entries_update all_entries_free\<close>)

lemma update_not_Nil [simp]: "AList.update k v m \<noteq> []"
  by (cases m) auto

lemma fold_not_Nil: "m \<noteq> [] \<Longrightarrow> (\<And>x n. n \<noteq> [] \<Longrightarrow> f x n \<noteq> []) \<Longrightarrow> fold f xs m \<noteq> []"
  by (induction xs arbitrary: m) auto

lemma with_aliases_not_Nil: "with_aliases item m \<noteq> []"
  unfolding with_aliases_def by (rule fold_not_Nil) (auto simp: assign_free_def)

lemma assign_all_not_Nil: "new \<noteq> [] \<Longrightarrow> assign_all new m \<noteq> []"
proof (cases new)
  case (Cons e es)
  then show ?thesis unfolding assign_all_def
    using fold_not_Nil [of "(\<lambda>(k, v). AList.update k v) e m" "\<lambda>(k, v). AList.update k v" es] by (simp add: split_beta)
qed simp

end
