(* ===== verification/Scaffold_Catalog_Props.thy ===== *)
theory Scaffold_Catalog_Props
  imports Scaffold_Catalog Formats_Props Handlers
begin

text \<open>
  What the dashboard writes, the scaffold reads: the definition of a data format that the dashboard
  creates is found in the scaffold's catalog under the type that the dashboard publishes for it.
\<close>

subsection \<open>Searching\<close>

lemma match_all_hit:
  "m prev s = Some (x, rest) \<Longrightarrow> length rest < length s \<Longrightarrow>
    match_all m prev s = x # match_all m (char_before s rest) rest"
  by (cases s) (auto simp: less_Suc_eq_le)

lemma match_all_miss: "m prev (c # cs) = None \<Longrightarrow> match_all m prev (c # cs) = match_all m (Some c) cs"
  by simp

declare match_all.simps(2) [simp del]

lemma eat_word_token:
  assumes "eat_word w s = Some r" "\<forall>c \<in> set w. \<not> is_ws c" shows "takeWhile (\<lambda>c. \<not> is_ws c) s = w"
proof -
  from assms(1) obtain c t where "s = w @ c # t" "is_ws c"
    by (auto simp: eat_word_def prefix_def split: if_splits list.splits)
  then show ?thesis using takeWhile_stop [OF assms(2), of c t] by simp
qed

text \<open>A token that does not end with the keyword is skipped, with the white space after it.\<close>

lemma skip_token:
  assumes m: "\<And>prev s. m prev s \<noteq> None \<Longrightarrow> \<exists>r. eat_word w s = Some r"
    and w: "\<forall>c \<in> set w. \<not> is_ws c" "w \<noteq> []"
    and tok: "\<forall>c \<in> set tok. \<not> is_ws c" "\<not> endsWith tok w" and c: "is_ws c"
  shows "match_all m prev (tok @ c # r) = match_all m (Some c) r"
  using tok
proof (induction tok arbitrary: prev)
  case Nil
  have "m prev (c # r) = None"
    using m [of prev "c # r"] eat_word_token [OF _ w(1), of "c # r"] w(2) c by fastforce
  then show ?case by (simp add: match_all_miss)
next
  case (Cons x tok)
  have "takeWhile (\<lambda>c. \<not> is_ws c) ((x # tok) @ c # r) = x # tok"
    using Cons.prems(1) c takeWhile_stop [of "x # tok" "\<lambda>c. \<not> is_ws c" c r] by simp
  moreover have "x # tok \<noteq> w" using Cons.prems(2) by auto
  ultimately have "m prev ((x # tok) @ c # r) = None"
    using m [of prev "(x # tok) @ c # r"] eat_word_token [OF _ w(1), of "(x # tok) @ c # r"] by fastforce
  moreover have "\<not> endsWith tok w" using Cons.prems(2) by (auto simp: suffix_Cons)
  ultimately show ?case using Cons.IH Cons.prems(1) by (simp add: match_all_miss)
qed

lemma lazy_until_lines:
  assumes "\<And>c s. e (c # s) \<noteq> None \<Longrightarrow> c = LF \<and> (\<exists>t. s = CHR ''}'' # t)" "e (LF # CHR ''}'' # r) = Some rest"
    and "\<forall>l \<in> set ls. LF \<notin> set l \<and> l \<noteq> [] \<and> hd l \<noteq> CHR ''}''"
  shows "lazy_until e (concat (map (\<lambda>l. LF # l) ls) @ LF # CHR ''}'' # r)
    = Some (concat (map (\<lambda>l. LF # l) ls), rest)"
proof -
  have skip: "lazy_until e (l @ s) = map_option (\<lambda>(body, rest). (l @ body, rest)) (lazy_until e s)"
    if "LF \<notin> set l" for l s using that
  proof (induction l)
    case Nil
    then show ?case by (cases "lazy_until e s") auto
  next
    case (Cons c l)
    then have "e (c # l @ s) = None" using assms(1) [of c "l @ s"] by (cases "e (c # l @ s)") auto
    with Cons show ?case by (simp add: option.map_comp comp_def split_beta)
  qed
  show ?thesis using assms(3)
  proof (induction ls)
    case Nil
    then show ?case using assms(2) by simp
  next
    case (Cons l ls)
    then obtain c l' where l: "l = c # l'" "c \<noteq> CHR ''}''" "LF \<notin> set l" by (cases l) auto
    have "e (LF # l @ concat (map (\<lambda>l. LF # l) ls) @ LF # CHR ''}'' # r) = None"
      using assms(1) [of LF "l @ concat (map (\<lambda>l. LF # l) ls) @ LF # CHR ''}'' # r"] l
      by (cases "e (LF # l @ concat (map (\<lambda>l. LF # l) ls) @ LF # CHR ''}'' # r)") auto
    then show ?case using Cons skip [OF l(3)] by simp
  qed
qed

subsection \<open>Proto messages\<close>

text \<open>A type that the scaffold's expression takes: a dotted name that is no label.\<close>

definition dotted_type :: "string \<Rightarrow> bool" where
  "dotted_type ty \<longleftrightarrow> ty \<noteq> [] \<and> (is_alpha (hd ty) \<or> hd ty = CHR ''_'') \<and> (\<forall>c \<in> set ty. is_proto_package_char c)
     \<and> ty \<noteq> ''optional'' \<and> ty \<noteq> ''repeated''"

lemma package_not_ws: "is_proto_package_char c \<Longrightarrow> \<not> is_ws c"
  using word_not_ws by (auto simp: is_proto_package_char_def is_ws_def)

lemma dotted_type_ok: "dotted_type ty \<Longrightarrow> proto_type ty"
  by (auto simp: dotted_type_def proto_type_def is_proto_package_char_def is_proto_type_char_def)

lemma typed_field_line:
  assumes ty: "dotted_type ty" and n: "identifier_match n"
  shows "typed_field (ty @ SP # n @ '' = '' @ nat_str k @ '';'' @ r) = Some ((ty, n, k), '';'' @ r)"
proof -
  note f = identifier_facts [OF n]
  have ns: "\<not> is_proto_package_char SP" "\<not> is_word_char SP" using package_not_ws [of SP] word_not_ws [of SP] by auto
  let ?t = "n @ '' = '' @ nat_str k @ '';'' @ r"
  have 1: "dotted_name (ty @ SP # ?t) = Some (ty, SP # ?t)"
    unfolding dotted_name_def by (intro eat_ident_append) (use ty ns in \<open>auto simp: dotted_type_def\<close>)
  have 2: "eat_word [] (SP # ?t) = Some ?t" using f(1,4) by (intro eat_gap) auto
  have 3: "eat_ident is_word_char ?t = Some (n, '' = '' @ nat_str k @ '';'' @ r)"
    using eat_ident_append [OF f(1,2,3) ns(2)] by simp
  have 4: "eat_char (CHR ''='') ('' = '' @ nat_str k @ '';'' @ r) = Some (SP # nat_str k @ '';'' @ r)"
    by (simp add: eat_char_def is_ws_def)
  have "dropWhile is_ws (SP # nat_str k @ '';'' @ r) = nat_str k @ '';'' @ r"
    using nat_str_digits [of k] nat_str_word [of k "[]"] dropWhile_ws_word [of "nat_str k"] by simp
  moreover have "\<not> is_digit (CHR '';'')" by (simp add: is_digit_def)
  then have "eat_run is_digit (nat_str k @ '';'' @ r) = Some (nat_str k, '';'' @ r)"
    using nat_str_digits [of k] takeWhile_stop [of "nat_str k" is_digit "CHR '';''" r]
      dropWhile_stop [of "nat_str k" is_digit "CHR '';''" r]
    by (cases "nat_str k") (auto simp: eat_run_def)
  ultimately show ?thesis
    unfolding typed_field_def 1 Option.bind.simps field_after_type_def prod.case 2 3 4 by simp
qed

lemma labelled_field_line:
  assumes ty: "dotted_type ty" and n: "identifier_match n"
  shows "labelled_field (ty @ SP # n @ '' = '' @ nat_str k @ '';'' @ r) = Some (([], ty, n, k), '';'' @ r)"
proof -
  let ?s = "ty @ SP # n @ '' = '' @ nat_str k @ '';'' @ r"
  have "takeWhile (\<lambda>c. \<not> is_ws c) ?s = ty"
    by (rule takeWhile_stop) (use ty package_not_ws in \<open>auto simp: dotted_type_def\<close>)
  then have "eat_word w ?s = None" if "w \<in> {''optional'', ''repeated''}" for w
    using that eat_word_token [of w ?s] ty by (cases "eat_word w ?s") (auto simp: dotted_type_def is_ws_def)
  then have "eat_word ''optional'' ?s = None" "eat_word ''repeated'' ?s = None" by auto
  then show ?thesis
    unfolding labelled_field_def Let_def using typed_field_line [OF assms, of k r] by simp
qed

definition field_of_input :: "nat \<times> dataFormatFieldInput \<Rightarrow> scaffold_field" where
  "field_of_input = (\<lambda>(i, f). plain_field (trim (n_name f)) (trim (n_type f)) (Some (i + 1)))"

lemma parse_field_lines:
  assumes "\<forall>f \<in> set flds. input_ok dotted_type f"
  shows "match_all scaffold_proto_field prev (concat (map (\<lambda>(i, f). LF # proto_line_text i f) (enumerate_from k flds)))
    = map field_of_input (enumerate_from k flds)"
  using assms
proof (induction flds arbitrary: k prev)
  case Nil
  then show ?case by simp
next
  case (Cons f flds)
  define r where "r = concat (map (\<lambda>(i, f). LF # proto_line_text i f) (enumerate_from (Suc k) flds))"
  define ty n where "ty = trim (n_type f)" and "n = trim (n_name f)"
  have ok: "dotted_type ty" "identifier_match n" using Cons.prems by (simp_all add: input_ok_def ty_def n_def)
  define s where "s = ty @ SP # n @ '' = '' @ nat_str (k + 1) @ '';'' @ r"
  have hd: "\<not> is_ws (hd s)" "s \<noteq> []" using ok(1) package_not_ws by (auto simp: s_def dotted_type_def hd_append)
  have written: "concat (map (\<lambda>(i, f). LF # proto_line_text i f) (enumerate_from k (f # flds))) = LF # SP # SP # s"
    by (simp add: proto_line_text_def proto_field_text_def s_def ty_def n_def r_def)
  have core: "scaffold_proto_field p (w @ s) = Some (field_of_input (k, f), '';'' @ r)"
    if "line_start p" "\<forall>c \<in> set w. is_ws c" for p w
  proof -
    have "dropWhile is_ws (w @ s) = s" using that(2) hd by (induction w) (cases s, auto)+
    then show ?thesis using labelled_field_line [OF ok, of "k + 1" r] that(1)
      by (simp add: scaffold_proto_field_def s_def field_of_input_def plain_field_def ty_def n_def)
  qed
  have rest: "match_all scaffold_proto_field p ('';'' @ r) = map field_of_input (enumerate_from (Suc k) flds)" for p
  proof -
    have "labelled_field (CHR '';'' # r) = None"
      by (simp add: labelled_field_def typed_field_def dotted_name_def map_type_def eat_ident_def eat_text_def eat_word_def
          is_alpha_def is_upper_def is_lower_def Let_def)
    then have "scaffold_proto_field p (CHR '';'' # r) = None" by (simp add: scaffold_proto_field_def is_ws_def)
    then show ?thesis using Cons.IH [of "Some (CHR '';'')" "Suc k"] Cons.prems by (simp add: match_all_miss r_def)
  qed
  have "length r < length s" by (simp add: s_def)
  have hit: "match_all scaffold_proto_field p (w @ s) = field_of_input (k, f) # map field_of_input (enumerate_from (Suc k) flds)"
    if "line_start p" "\<forall>c \<in> set w. is_ws c" for p w
    using match_all_hit [of scaffold_proto_field p "w @ s", OF core [OF that]] rest \<open>length r < length s\<close> ok(1) by (simp add: s_def dotted_type_def)
  show ?case
  proof (cases "line_start prev")
    case True
    then show ?thesis unfolding written using hit [of prev "[LF, SP, SP]"] by simp
  next
    case False
    then have "scaffold_proto_field prev (LF # SP # SP # s) = None" by (simp add: scaffold_proto_field_def)
    moreover have "line_start (Some LF)" by (simp add: line_start_def is_term_def)
    ultimately show ?thesis unfolding written using hit [of "Some LF" "[SP, SP]"] by (simp add: match_all_miss)
  qed
qed

lemma joined_lines: "ls \<noteq> [] \<Longrightarrow> join_lines ls = hd ls @ concat (map (\<lambda>l. LF # l) (tl ls))"
proof (induction ls)
  case (Cons l ls)
  then show ?case by (cases ls) (simp_all add: nl_def)
qed simp

text \<open>The text of a rendered message: its head, the lines of its fields, and the brace.\<close>

definition message_body :: "dataFormatFieldInput list \<Rightarrow> string" where
  "message_body flds = concat (map (\<lambda>(i, f). LF # proto_line_text i f) (enumerate_from 0 flds))"

lemma rendered_message:
  assumes "\<forall>f \<in> set flds. input_ok dotted_type f" and "renderProtoMessage name flds = Inr d"
  shows "d = message_head name @ message_body flds @ LF # ''}''"
proof -
  have "\<forall>f \<in> set flds. input_ok proto_type f" using assms(1) dotted_type_ok by (auto simp: input_ok_def)
  from renderProtoMessage_text [OF this, of name] assms(2) show ?thesis
    by (simp add: joined_lines message_body_def comp_def case_prod_unfold)
qed

lemma named_block_head:
  assumes "identifier_match name" "\<forall>c \<in> set w. \<not> is_ws c" "lazy_until e s = Some (body, rest)"
  shows "named_block w e (w @ SP # name @ '' {'' @ s) = Some ((name, body), rest)"
proof -
  note f = identifier_facts [OF assms(1)]
  have "\<not> is_word_char SP" using word_not_ws [of SP] by auto
  then have 1: "eat_ident is_word_char (name @ '' {'' @ s) = Some (name, '' {'' @ s)"
    using eat_ident_append [OF f(1,2,3), of SP] by simp
  have 2: "eat_word w (w @ SP # name @ '' {'' @ s) = Some (name @ '' {'' @ s)"
    using f(1,4) dropWhile_ws_word [of name] by (simp add: eat_word_def)
  have 3: "eat_char (CHR ''{'') ('' {'' @ s) = Some s" by (simp add: eat_char_def is_ws_def)
  show ?thesis unfolding named_block_def 2 Option.bind.simps 1 prod.case 3 assms(3) ..
qed

lemma proto_block_hit:
  assumes "identifier_match name" "\<forall>f \<in> set flds. input_ok dotted_type f" "renderProtoMessage name flds = Inr d"
  shows "match_all (proto_block ''message'') prev (d @ nl) = [(name, message_body flds)]"
proof -
  define ls where "ls = map (\<lambda>(i, f). proto_line_text i f) (enumerate_from 0 flds)"
  have body: "message_body flds = concat (map (\<lambda>l. LF # l) ls)"
    by (simp add: message_body_def ls_def comp_def case_prod_unfold)
  have ok: "\<forall>l \<in> set ls. LF \<notin> set l \<and> l \<noteq> [] \<and> hd l \<noteq> CHR ''}''"
  proof
    fix l assume "l \<in> set ls"
    then obtain i f where l: "l = proto_line_text i f" "f \<in> set flds" by (auto simp: ls_def dest: set_enumerate_from)
    then have "input_ok proto_type f" using assms(2) dotted_type_ok by (auto simp: input_ok_def)
    from proto_field_text_facts(5) [OF this, of i] show "LF \<notin> set l \<and> l \<noteq> [] \<and> hd l \<noteq> CHR ''}''"
      by (simp add: l(1) proto_line_text_def clean_line_def)
  qed
  have "lazy_until proto_end_mark (concat (map (\<lambda>l. LF # l) ls) @ LF # CHR ''}'' # nl) = Some (message_body flds, nl)"
    unfolding body by (rule lazy_until_lines [OF _ _ ok]) (auto simp: proto_end_mark_def eat_text_def prefix_def split: if_splits)
  from named_block_head [OF assms(1) _ this, of "''message''"]
  have hit: "proto_block ''message'' prev (d @ nl) = Some ((name, message_body flds), nl)"
    unfolding rendered_message [OF assms(2,3)] proto_block_def message_head_def body by (simp add: is_ws_def)
  have "proto_block ''message'' p nl = None" for p
    by (simp add: proto_block_def named_block_def eat_word_def nl_def)
  then have "match_all (proto_block ''message'') p nl = []" for p by (simp add: nl_def match_all_miss)
  moreover have "length nl < length (d @ nl)" using rendered_message [OF assms(2,3)] by (simp add: message_head_def)
  ultimately show ?thesis using match_all_hit [of "proto_block ''message''" prev "d @ nl", OF hit] by simp
qed

subsection \<open>The file of a new message\<close>

definition package_of :: "string \<Rightarrow> string" where
  "package_of svc = ''pacific_rim.'' @ svc @ ''.protocols.pb''"

definition header_tokens :: "string \<Rightarrow> string \<Rightarrow> string" where
  "header_tokens svc r = ''syntax'' @ SP # ''='' @ SP # (quoted ''proto3'' @ '';'') @ LF # LF # ''package'' @ SP # (package_of svc @ '';'') @ LF # r"

lemma new_proto_file:
  assumes "\<not> has_sub (new_proto_text svc) (''message '' @ name)" "d = trimEnd d"
  shows "appendProtoMessageBlock (new_proto_text svc) name d = Inr (header_tokens svc (LF # d @ nl))"
proof -
  have "trimEnd (new_proto_text svc) = ''syntax = '' @ quoted ''proto3'' @ '';'' @ nl @ nl @ ''package '' @ package_of svc @ '';''"
    (is "_ = ?t")
  proof -
    have "new_proto_text svc = ?t @ [LF]" by (simp add: new_proto_text_def nl_def package_of_def)
    then have "trimEnd (new_proto_text svc) = trimEnd ?t" by (simp only: trimEnd_snoc is_ws_simps if_True)
    moreover have "trimEnd ?t = ?t" by (rule trimEnd_ident) (simp add: is_ws_def)
    ultimately show ?thesis by (rule trans)
  qed
  then show ?thesis using assms by (simp add: appendProtoMessageBlock_def header_tokens_def nl_def)
qed

lemma header_package:
  assumes svc: "\<forall>c \<in> set svc. is_word_char c"
  shows "first_match proto_package (header_tokens svc r) = package_of svc"
proof -
  have chars: "\<forall>c \<in> set (package_of svc). is_proto_package_char c"
    using svc by (auto simp: package_of_def is_proto_package_char_def is_word_char_def is_alpha_def is_lower_def)
  have "\<not> is_proto_package_char (CHR '';'')" by (simp add: is_proto_package_char_def is_word_char_def is_alpha_def is_upper_def is_lower_def is_digit_def)
  then have run: "eat_run is_proto_package_char (package_of svc @ '';'' @ LF # r) = Some (package_of svc, '';'' @ LF # r)"
    using chars takeWhile_stop [of "package_of svc" is_proto_package_char "CHR '';''" "LF # r"]
      dropWhile_stop [of "package_of svc" is_proto_package_char "CHR '';''" "LF # r"]
    by (auto simp: eat_run_def package_of_def)
  let ?s = "''package'' @ SP # (package_of svc @ '';'') @ LF # r"
  have "eat_word ''package'' ?s = Some (package_of svc @ '';'' @ LF # r)"
    by (simp add: eat_word_def package_of_def is_ws_def)
  then have hit: "proto_package (Some LF) (LF # ?s) = Some (package_of svc, LF # r)"
    using run by (simp add: proto_package_def line_start_def is_term_def is_ws_def eat_char_def)
  have off: "proto_package (Some c) s = None" if "\<not> is_term c" for c s
    using that by (simp add: proto_package_def line_start_def)
  have "proto_package None (header_tokens svc r) = None"
    by (simp add: proto_package_def header_tokens_def line_start_def eat_word_def is_ws_def)
  then have "match_all proto_package None (header_tokens svc r) = match_all proto_package (Some LF) (LF # ?s)"
    by (simp add: header_tokens_def match_all_miss off is_term_def quoted_def)
  also have "\<dots> = package_of svc # match_all proto_package (char_before (LF # ?s) (LF # r)) (LF # r)"
    by (rule match_all_hit [of proto_package "Some LF" "LF # ?s", OF hit]) (simp add: package_of_def)
  finally show ?thesis by (simp add: first_match_def)
qed

lemma block_keyword: "proto_block w prev s \<noteq> None \<Longrightarrow> \<exists>r. eat_word w s = Some r"
  by (cases "eat_word w s") (auto simp: proto_block_def named_block_def)

lemma header_skipped:
  assumes svc: "\<forall>c \<in> set svc. is_word_char c"
  shows "match_all (proto_block ''message'') None (header_tokens svc r) = match_all (proto_block ''message'') (Some LF) r"
proof -
  have ws: "\<forall>c \<in> set ''message''. \<not> is_ws c" by (simp add: is_ws_def)
  have svc': "\<forall>c \<in> set (package_of svc @ '';''). \<not> is_ws c"
    using svc word_not_ws by (auto simp: package_of_def is_ws_def)
  have skip: "match_all (proto_block ''message'') p (tok @ c # s) = match_all (proto_block ''message'') (Some c) s"
    if "is_ws c" "\<forall>c \<in> set tok. \<not> is_ws c" "\<not> endsWith tok ''message''" for p tok c s
    using skip_token [of "proto_block ''message''" "''message''" tok c p s] block_keyword ws that by simp
  have end': "\<not> endsWith (t @ '';'') ''message''" for t by (auto simp: suffix_def)
  note skips = skip [of _ "''syntax''"] skip [of _ "''=''"] skip [of _ "quoted ''proto3'' @ '';''"] skip [of _ "[]"]
    skip [of _ "''package''"] skip [of _ "package_of svc @ '';''"]
  show ?thesis
    unfolding header_tokens_def
    apply (subst skips(1), simp, code_simp, code_simp)
    apply (subst skips(2), simp, code_simp, code_simp)
    apply (subst skips(3), simp, code_simp, rule end')
    apply (subst skips(4) [simplified], simp)
    apply (subst skips(5), simp, code_simp, code_simp)
    apply (subst skips(6), simp, rule svc', rule end')
    apply (rule refl)
    done
qed

lemma created_proto_parsed:
  assumes "identifier_match name" "\<forall>f \<in> set flds. input_ok dotted_type f" "renderProtoMessage name flds = Inr d"
    "\<forall>c \<in> set svc. is_word_char c"
  shows "pm_messages (parse_proto_text svc file' (header_tokens svc (LF # d @ nl)))
    = [(svc @ ''.'' @ name, proto_message_of (package_of svc) svc file' (name, message_body flds))]"
proof -
  have "match_all (proto_block ''message'') (Some LF) (LF # d @ nl) = [(name, message_body flds)]"
    using proto_block_hit [OF assms(1-3)] by (simp add: match_all_miss proto_block_def named_block_def eat_word_def)
  then show ?thesis
    by (simp add: parse_proto_text_def header_package [OF assms(4)] header_skipped [OF assms(4)] assign_all_def Let_def proto_message_of_def)
qed

lemma proto_fields_read:
  assumes "\<forall>f \<in> set flds. input_ok dotted_type f"
  shows "parseProtoFields (message_body flds) = map field_of_input (enumerate_from 0 flds)"
  unfolding parseProtoFields_def message_body_def by (rule parse_field_lines [OF assms])

subsection \<open>DDS structs\<close>

definition idl_type :: "string \<Rightarrow> bool" where
  "idl_type ty \<longleftrightarrow> dds_type ty \<and> CHR ''{'' \<notin> set ty \<and> CHR ''}'' \<notin> set ty"

definition struct_body :: "dataFormatFieldInput list \<Rightarrow> string" where
  "struct_body flds = concat (map (\<lambda>f. LF # ''  '' @ dds_line f) flds) @ [LF]"

lemma rendered_struct:
  assumes "\<forall>f \<in> set flds. input_ok idl_type f" and "renderDdsIdlStruct name flds = Inr d"
  shows "d = struct_head name @ struct_body flds @ ''};''" "trimEnd d = d"
proof -
  have "\<forall>f \<in> set flds. input_ok dds_type f" using assms(1) by (auto simp: input_ok_def idl_type_def)
  from renderDdsIdlStruct_text [OF this, of name] assms(2)
  show d: "d = struct_head name @ struct_body flds @ ''};''"
    by (simp add: joined_lines struct_body_def comp_def)
  show "trimEnd d = d" by (rule trimEnd_ident) (simp add: d is_ws_def)
qed

lemma no_brace_word: "is_word_char c \<Longrightarrow> c \<noteq> CHR ''{'' \<and> c \<noteq> CHR ''}''"
  by (auto simp: is_word_char_def is_alpha_def is_upper_def is_lower_def is_digit_def)

lemma struct_body_braces:
  assumes "\<forall>f \<in> set flds. input_ok idl_type f"
  shows "CHR ''{'' \<notin> set (struct_body flds)" "CHR ''}'' \<notin> set (struct_body flds)"
proof -
  have "CHR ''{'' \<notin> set (dds_line f) \<and> CHR ''}'' \<notin> set (dds_line f)" if "f \<in> set flds" for f
  proof -
    have "idl_type (trim (n_type f))" "identifier_match (trim (n_name f))" using assms that by (simp_all add: input_ok_def)
    then show ?thesis
      using identifier_facts(3) [of "trim (n_name f)"] no_brace_word by (auto simp: dds_line_def spaced_def idl_type_def)
  qed
  then show "CHR ''{'' \<notin> set (struct_body flds)" "CHR ''}'' \<notin> set (struct_body flds)"
    by (auto simp: struct_body_def)
qed

lemma lazy_until_brace:
  "CHR ''}'' \<notin> set s \<Longrightarrow> lazy_until idl_end_mark (s @ ''};'' @ r) = Some (s, r)"
proof (induction s)
  case Nil
  then show ?case by (simp add: idl_end_mark_def eat_text_def eat_char_def is_ws_def)
next
  case (Cons c s)
  then show ?case by (auto simp: idl_end_mark_def eat_text_def)
qed

lemma eat_sets:
  "eat_word w s = Some r \<Longrightarrow> set r \<subseteq> set s"
  "eat_ident q s = Some (n, r) \<Longrightarrow> set r \<subseteq> set s"
  "eat_char d s = Some r \<Longrightarrow> d \<in> set s"
proof -
  assume "eat_word w s = Some r"
  then have "r = dropWhile is_ws (drop (length w) s)" by (auto simp: eat_word_def split: if_splits)
  then show "set r \<subseteq> set s" using set_dropWhileD [of _ is_ws "drop (length w) s"] in_set_dropD by fastforce
next
  assume "eat_ident q s = Some (n, r)"
  then show "set r \<subseteq> set s" using set_dropWhileD [of _ q s] by (auto simp: eat_ident_def split: list.splits if_splits)
next
  assume "eat_char d s = Some r"
  then have "d # r = dropWhile is_ws s" by (auto simp: eat_char_def split: list.splits if_splits)
  then have "d \<in> set (dropWhile is_ws s)" by (metis list.set_intros(1))
  then show "d \<in> set s" by (rule set_dropWhileD)
qed

lemma module_has_brace: "idl_module p s = Some m \<Longrightarrow> CHR ''{'' \<in> set s"
  using eat_sets by (fastforce simp: idl_module_def bind_eq_Some_conv split: if_splits)

lemma no_module_text: "CHR ''{'' \<notin> set s \<Longrightarrow> match_all idl_module p s = []"
proof (induction s arbitrary: p)
  case (Cons c s)
  then have "idl_module p (c # s) = None" using module_has_brace [of p "c # s"] by (cases "idl_module p (c # s)") auto
  with Cons show ?case by (simp add: match_all_miss)
qed simp

text \<open>A struct's head does not look like a module, whatever the struct is called.\<close>

lemma no_module_name:
  assumes "\<forall>c \<in> set name. is_word_char c" "CHR ''{'' \<notin> set b"
  shows "match_all idl_module p (name @ '' {'' @ b) = []"
  using assms(1)
proof (induction name arbitrary: p)
  case Nil
  have "idl_module q (SP # t) = None" "idl_module q (CHR ''{'' # t) = None" for q t
    by (simp_all add: idl_module_def eat_word_def)
  then show ?case using no_module_text [OF assms(2)] by (simp add: match_all_miss)
next
  case (Cons c name)
  have "idl_module p ((c # name) @ '' {'' @ b) = None"
  proof (cases "eat_word ''module'' ((c # name) @ '' {'' @ b)")
    case (Some r)
    have "takeWhile (\<lambda>c. \<not> is_ws c) ((c # name) @ SP # ''{'' @ b) = c # name"
      by (rule takeWhile_stop) (use Cons.prems word_not_ws in auto)
    moreover have "\<forall>c \<in> set ''module''. \<not> is_ws c" by (simp add: is_ws_def)
    ultimately have "c # name = ''module''" using eat_word_token [OF Some] by simp
    then have "r = ''{'' @ b" using Some by (simp add: eat_word_def is_ws_def split: if_splits)
    then show ?thesis using Some
      by (simp add: idl_module_def eat_ident_def is_alpha_def is_upper_def is_lower_def)
  qed (simp add: idl_module_def)
  with Cons show ?case by (simp add: match_all_miss)
qed

lemma struct_parsed:
  assumes name: "identifier_match name" and flds: "\<forall>f \<in> set flds. input_ok idl_type f"
    and d: "renderDdsIdlStruct name flds = Inr d"
  shows "first_match idl_module (d @ nl) = []" "match_all (idl_block ''struct'') None (d @ nl) = [(name, struct_body flds)]"
proof -
  define b where "b = struct_body flds @ ''};'' @ nl"
  have text': "d @ nl = ''struct'' @ SP # name @ '' {'' @ b"
    by (simp add: rendered_struct [OF flds d] struct_head_def b_def)
  have b: "CHR ''{'' \<notin> set b" using struct_body_braces [OF flds] by (simp add: b_def nl_def)
  have "\<exists>r. eat_word ''module'' s = Some r" if "idl_module p s \<noteq> None" for p s
    using that by (cases "eat_word ''module'' s") (auto simp: idl_module_def split: if_splits)
  from skip_token [of idl_module "''module''" "''struct''" SP None "name @ '' {'' @ b", OF this]
  have "match_all idl_module None (d @ nl) = match_all idl_module (Some SP) (name @ '' {'' @ b)"
    unfolding text' by (simp add: is_ws_def) (simp add: suffix_def)
  then show "first_match idl_module (d @ nl) = []"
    using no_module_name [OF identifier_facts(3) [OF name] b] by (simp add: first_match_def)
  have "lazy_until idl_end_mark b = Some (struct_body flds, nl)"
    unfolding b_def by (rule lazy_until_brace) (rule struct_body_braces(2) [OF flds])
  from named_block_head [OF name _ this, of "''struct''"]
  have hit: "idl_block ''struct'' None (d @ nl) = Some ((name, struct_body flds), nl)"
    unfolding text' by (simp add: idl_block_def word_start_def is_ws_def)
  have "idl_block ''struct'' p nl = None" for p
    by (simp add: idl_block_def named_block_def eat_word_def nl_def)
  then have "match_all (idl_block ''struct'') p nl = []" for p by (simp add: nl_def match_all_miss)
  moreover have "length nl < length (d @ nl)" unfolding text' by (simp add: nl_def)
  ultimately show "match_all (idl_block ''struct'') None (d @ nl) = [(name, struct_body flds)]"
    using match_all_hit [of "idl_block ''struct''" None "d @ nl", OF hit] by simp
qed

lemma enumerate_eq: "enumerate k xs = enumerate_from k xs"
  by (induction xs arbitrary: k) simp_all

lemma idl_fields_read:
  assumes "\<forall>f \<in> set flds. input_ok idl_type f"
  shows "parseIdlFields (struct_body flds) = map field_of_input (enumerate_from 0 flds)"
proof -
  have ok: "input_ok dds_type f" if "f \<in> set flds" for f using assms that by (auto simp: input_ok_def idl_type_def)
  have lines: "split_lines (struct_body flds) = [] # map (\<lambda>f. ''  '' @ dds_line f) flds @ [[]]"
  proof -
    have "struct_body flds = join_lines ([] # map (\<lambda>f. ''  '' @ dds_line f) flds @ [[]])"
      by (simp add: joined_lines struct_body_def comp_def)
    moreover have "clean_lines ([] # map (\<lambda>f. ''  '' @ dds_line f) flds @ [[]])"
      using dds_line_facts(9) [OF ok] by (auto simp: clean_lines_def)
    ultimately show ?thesis using split_join_lines by simp
  qed
  have strip: "map (\<lambda>line. trim (strip_slashes line)) (map (\<lambda>f. ''  '' @ dds_line f) flds) = map dds_line flds"
    using dds_line_facts(1) [OF ok] by simp
  have named: "named_last i (spaced f) = field_of_input (i, f)" if "f \<in> set flds" for i f
  proof -
    have "plain_token (trim (n_type f))" "identifier_match (trim (n_name f))"
      using ok [OF that] by (simp_all add: input_ok_def dds_type_def)
    from spaced_facts(4) [OF this] show ?thesis by (simp add: named_last_def field_of_input_def)
  qed
  have kept: "filter (\<lambda>l. l \<noteq> []) (map (\<lambda>line. trim (strip_slashes line)) (split_lines (struct_body flds))) = map dds_line flds"
    unfolding lines using strip dds_line_facts(2) [OF ok] by (simp add: filter_id_conv)
  have cut: "map (\<lambda>line. if endsWith line '';'' then butlast line else line) (map dds_line flds) = map spaced flds"
    using dds_line_facts(7,8) [OF ok] by simp
  have numbered: "map (\<lambda>(i, l). named_last i l) (enumerate 0 (map spaced flds)) = map field_of_input (enumerate_from 0 flds)"
    unfolding enumerate_eq enumerate_map using named by (auto dest: set_enumerate_from)
  have full: "sf_name (field_of_input (i, f)) \<noteq> [] \<and> sf_type (field_of_input (i, f)) \<noteq> []" if "f \<in> set flds" for i f
    using ok [OF that] identifier_facts(1) [of "trim (n_name f)"]
    by (simp add: field_of_input_def plain_field_def input_ok_def dds_type_def plain_token_def)
  then have all: "\<forall>x \<in> set (map field_of_input (enumerate_from 0 flds)). sf_name x \<noteq> [] \<and> sf_type x \<noteq> []"
    by (auto dest!: set_enumerate_from)
  show ?thesis unfolding parseIdlFields_def Let_def kept cut numbered using all by (simp only: filter_id_conv)
qed

end
