(* ===== verification/Format_Command_Props.thy ===== *)
theory Format_Command_Props
  imports Format_Command Scaffold_Files_Props Scaffold_Catalog_Props
begin

text \<open>
  What \<open>./pr data-format\<close> does to the files of the repository: without \<open>--force\<close> it only adds text,
  with it it replaces one block, and the package files it writes are those of the dashboard.
\<close>

subsection \<open>Runs that keep a file\<close>

definition run_keeps :: "(node \<Rightarrow> bool) \<Rightarrow> 'a run \<Rightarrow> bool" where
  "run_keeps P m \<longleftrightarrow> (\<forall>fs. P fs \<longrightarrow> P (snd (m fs)))"

named_theorems keeps

lemma keeps_read [keeps]: "run_keeps P (run_read f)" "run_keeps P (run_value r)"
  by (simp_all add: run_keeps_def run_read_def run_value_def)

lemma keeps_then [keeps]: "run_keeps P m \<Longrightarrow> (\<And>x. run_keeps P (f x)) \<Longrightarrow> run_keeps P (run_then m f)"
  by (fastforce simp: run_keeps_def run_then_def split: prod.splits sum.splits)

lemma keeps_if [keeps]: "run_keeps P a \<Longrightarrow> run_keeps P b \<Longrightarrow> run_keeps P (if c then a else b)"
  by simp

lemma keeps_write: "p \<noteq> q \<Longrightarrow> run_keeps (\<lambda>fs. readFile fs p = Inr c) (run_write q t)"
  by (auto simp: run_keeps_def run_write_def run_change_def tree.read_other split: sum.splits)

lemma keeps_mkdir [keeps]: "run_keeps (\<lambda>fs. readFile fs p = Inr c) (run_change (\<lambda>fs. mkdir_rec fs q))"
  by (auto simp: run_keeps_def run_change_def disk.load_make_dir split: sum.splits)

text \<open>A run that ends: all but its last step has succeeded.\<close>

lemma run_then_end:
  assumes "run_then m f fs = (r, fs')"
  obtains (stop) e where "m fs = (Inl e, fs')" "r = Inl e" | (go) x fs1 where "m fs = (Inr x, fs1)" "f x fs1 = (r, fs')"
  using assms by (auto simp: run_then_def split: prod.splits sum.splits)

lemma run_read_end: "run_read f fs = (r, fs') \<longleftrightarrow> r = f fs \<and> fs' = fs"
  by (auto simp: run_read_def)

lemma run_value_end: "run_value v fs = (r, fs') \<longleftrightarrow> r = v \<and> fs' = fs"
  by (simp add: run_value_def run_read_end)

subsection \<open>Only additions\<close>

lemma package_metadata_keeps:
  assumes "\<forall>file \<in> {''CMakeLists.txt'', ''package.xml''}. p \<noteq> ros2_package rootDir svc @ [file]"
  shows "run_keeps (\<lambda>fs. readFile fs p = Inr c) (write_package_metadata rootDir svc)"
  using assms unfolding write_package_metadata_def Let_def by (intro keeps keeps_write) auto

lemma write_keeps:
  assumes "writeFile fs target t = Inr fs'" "existsSync fs target \<Longrightarrow> p \<noteq> target" "readFile fs p = Inr c"
  shows "readFile fs' p = Inr c"
proof (cases "p = target")
  case True
  with assms(3) have "existsSync fs target" by (simp add: existsSync_def readFile_Inr)
  with assms(2) True show ?thesis by simp
next
  case False
  with assms(1,3) show ?thesis by (simp add: tree.read_other)
qed

definition appended :: "string \<Rightarrow> string \<Rightarrow> string" where
  "appended c block = trimEnd c @ nl @ nl @ trimEnd block @ nl"

lemma proto_write_keeps:
  assumes run: "writeProtoDefinition rootDir target built False fs = (r, fs')" and c: "readFile fs p = Inr c"
  shows "readFile fs' p = Inr c
    \<or> p = target \<and> \<not> has_sub c (''message '' @ bf_name built) \<and> readFile fs' p = Inr (appended c (bf_append built))"
proof -
  have other: "readFile fs'' p = Inr c" if "run_write target t fs = (r', fs'')" "p \<noteq> target" for t r' fs''
    using keeps_write [OF that(2), of c t] that(1) c by (auto simp: run_keeps_def dest!: spec [where x = fs])
  show ?thesis
  proof (cases "existsSync fs target")
    case False
    with c have "p \<noteq> target" by (auto simp: existsSync_def readFile_Inr)
    with run False other show ?thesis
      by (auto simp: writeProtoDefinition_def run_then_def run_read_def)
  next
    case True
    show ?thesis
    proof (cases "p = target")
      case False
      with run True other c show ?thesis
        by (auto simp: writeProtoDefinition_def run_then_def run_read_def run_value_def split: sum.splits if_splits)
    next
      case p: True
      show ?thesis
      proof (cases "has_sub c (''message '' @ bf_name built)")
        case True
        with run p c \<open>existsSync fs target\<close> show ?thesis
          by (auto simp: writeProtoDefinition_def run_then_def run_read_def run_value_def)
      next
        case False
        with run p c \<open>existsSync fs target\<close> have "run_write target (appended c (bf_append built)) fs = (r, fs')"
          by (simp add: writeProtoDefinition_def run_then_def run_read_def appended_def)
        then show ?thesis using p c False tree.read_write
          by (auto simp: run_write_def run_change_def split: sum.splits)
      qed
    qed
  qed
qed

lemma mkdir_end: "run_change (\<lambda>fs. mkdir_rec fs d) fs = (r, fs1) \<Longrightarrow> readFile fs p = Inr c \<Longrightarrow> readFile fs1 p = Inr c"
  using keeps_mkdir [of p c d] by (auto simp: run_keeps_def dest!: spec [where x = fs])

text \<open>What a run that is not forced may do to a file: nothing, or add a message to the proto file, or
  write the package files of a service.\<close>

definition only_added :: "path \<Rightarrow> path \<Rightarrow> string \<Rightarrow> node \<Rightarrow> bool" where
  "only_added rootDir p c fs' \<longleftrightarrow>
     readFile fs' p = Inr c
     \<or> (\<exists>svc name block. p = dataFormatTargetPath rootDir svc Proto name \<and> \<not> has_sub c (''message '' @ name)
         \<and> readFile fs' p = Inr (appended c block))
     \<or> (\<exists>svc. \<exists>file \<in> {''CMakeLists.txt'', ''package.xml''}. p = ros2_package rootDir svc @ [file])"

lemma write_format_keeps:
  assumes run: "write_format rootDir svc (dataFormatTargetPath rootDir svc kind (bf_name built)) kind built False fs = (r, fs')"
    and c: "readFile fs p = Inr c"
  shows "only_added rootDir p c fs'"
proof -
  let ?target = "dataFormatTargetPath rootDir svc kind (bf_name built)"
  from run [unfolded write_format_def] show ?thesis
  proof (cases rule: run_then_end)
    case stop
    with mkdir_end c show ?thesis by (auto simp: only_added_def)
  next
    case (go x fs1)
    note c1 = mkdir_end [OF go(1) c]
    show ?thesis
    proof (cases "kind = Proto")
      case True
      with proto_write_keeps [OF _ c1] go(2) show ?thesis by (fastforce simp: only_added_def)
    next
      case kind: False
      show ?thesis
      proof (cases "existsSync fs1 ?target")
        case True
        with go(2) kind c1 show ?thesis by (auto simp: run_then_def run_read_def fail_if_def only_added_def)
      next
        case False
        with c1 have p: "p \<noteq> ?target" by (auto simp: existsSync_def readFile_Inr)
        show ?thesis
        proof (cases "\<exists>svc. \<exists>file \<in> {''CMakeLists.txt'', ''package.xml''}. p = ros2_package rootDir svc @ [file]")
          case True
          then show ?thesis by (simp add: only_added_def)
        next
          case none: False
          have "run_keeps (\<lambda>fs. readFile fs p = Inr c) (run_then (run_write ?target (trimEnd (bf_content built) @ nl)) (\<lambda>_.
              if kind = Msg \<or> kind = Srv then write_package_metadata rootDir svc else run_value (Inr ())))"
            using none p by (intro keeps keeps_write package_metadata_keeps) auto
          with go(2) kind False c1 show ?thesis
            by (auto simp: run_keeps_def run_then_def [of "run_read _"] run_read_def fail_if_def only_added_def dest!: spec [where x = fs1])
        qed
      qed
    qed
  qed
qed

text \<open>Where a run ends, step by step.\<close>

definition ends_in :: "(node \<Rightarrow> bool) \<Rightarrow> 'a run \<Rightarrow> node \<Rightarrow> bool" where
  "ends_in Q m fs \<longleftrightarrow> Q (snd (m fs))"

lemma ends_steps:
  "Q fs \<Longrightarrow> ends_in Q (run_value v) fs"
  "Q fs \<Longrightarrow> ends_in Q (run_read g) fs"
  "Q fs \<Longrightarrow> (\<And>x. v = Inr x \<Longrightarrow> ends_in Q (f x) fs) \<Longrightarrow> ends_in Q (run_then (run_value v) f) fs"
  "Q fs \<Longrightarrow> (\<And>x. g fs = Inr x \<Longrightarrow> ends_in Q (f x) fs) \<Longrightarrow> ends_in Q (run_then (run_read g) f) fs"
  "ends_in Q m fs \<Longrightarrow> ends_in Q (run_then m (\<lambda>x. run_value (w x))) fs"
  "(b \<Longrightarrow> ends_in Q m fs) \<Longrightarrow> (\<not> b \<Longrightarrow> ends_in Q n fs) \<Longrightarrow> ends_in Q (if b then m else n) fs"
  by (auto simp: ends_in_def run_then_def run_value_def run_read_def split: sum.splits prod.splits)

lemma create_format_keeps:
  assumes free: "\<not> fo_force opts" and c: "readFile fs p = Inr c"
  shows "ends_in (only_added rootDir p c) (create_format env rootDir opts) fs"
proof -
  have same: "only_added rootDir p c fs" using c by (simp add: only_added_def)
  have "ends_in (only_added rootDir p c)
      (write_format rootDir svc (dataFormatTargetPath rootDir svc kind (bf_name built)) kind built False) fs" for svc kind built
    unfolding ends_in_def using write_format_keeps [OF _ c] by (metis prod.collapse)
  with same free show ?thesis unfolding create_format_def Let_def by (intro ends_steps) simp_all
qed


definition format_tree :: node where
  "format_tree = Dir [(''repo'', Dir [(''package.json'', File ''{}''), (''module'', Dir [(''service'', Dir [(''arm_service'', Dir [])])]),
     (''pkg'', Dir [(''idl'', Dir [(''arm_service'', Dir [(''pb'', Dir [(''arm_service.proto'', File (''message Pose {'' @ nl @ ''}'' @ nl))])])])])])]"

definition demo_format_env :: format_env where
  "demo_format_env = \<lparr>fe_cwd = [''repo'', ''module''], fe_script = [], fe_stdin = [], fe_localeCompare = unit_compare\<rparr>"

definition demo_format_args :: "string list" where
  "demo_format_args = [''arm'', ''proto'', ''Grip'', ''--data'', ''double force = 1;'']"

definition demo_proto_file :: path where
  "demo_proto_file = [''repo'', ''pkg'', ''idl'', ''arm_service'', ''pb'', ''arm_service.proto'']"


end
