(* ===== verification/Scaffold_Read_Ros.thy ===== *)
theory Scaffold_Read_Ros
  imports Scaffold_Catalog Formats_Props
begin

text \<open>
  ROS 2 definitions that the dashboard renders, read by the scaffold (\<open>ros2-source-parser.mjs\<close>).
\<close>

subsection \<open>ROS 2 definitions\<close>

text \<open>A type without \<open>=\<close>: the reader skips every line that has one.\<close>

definition source_type :: "string \<Rightarrow> bool" where
  "source_type ty \<longleftrightarrow> ros_type ty \<and> CHR ''='' \<notin> set ty"

definition source_field_of :: "dataFormatFieldInput \<Rightarrow> scaffold_field" where
  "source_field_of f = plain_field (trim (n_name f)) (trim (n_type f)) None"

lemma source_line:
  assumes "input_ok source_type f"
  shows "ros2_source_field (spaced f) = Some (source_field_of f)" "clean_line (spaced f)" "spaced f \<noteq> []"
    "\<not> startsWith (spaced f) ''---''" "\<not> is_ws (hd (spaced f))" "\<not> is_ws (last (spaced f))"
proof -
  have ty: "ros_type (trim (n_type f))" "CHR ''='' \<notin> set (trim (n_type f))" and n: "identifier_match (trim (n_name f))"
    using assms by (simp_all add: input_ok_def source_type_def)
  have pl: "plain_token (trim (n_type f))" using ty(1) by (simp add: ros_type_def)
  note sp = spaced_facts [OF pl n]
  have "CHR ''#'' \<notin> set (trim (n_type f))" using ty(1) by (simp add: ros_type_def)
  moreover have "\<not> is_word_char (CHR ''#'')" "\<not> is_word_char (CHR ''='')" by code_simp+
  then have "CHR ''#'' \<notin> set (trim (n_name f))" "CHR ''='' \<notin> set (trim (n_name f))"
    using identifier_facts(3) [OF n] by blast+
  ultimately have sym: "CHR ''#'' \<notin> set (spaced f)" "CHR ''='' \<notin> set (spaced f)"
    using ty(2) by (simp_all add: spaced_def)
  have cut: "takeWhile (\<lambda>c. c \<noteq> CHR ''#'') (spaced f) = spaced f"
    unfolding takeWhile_eq_all_conv using sym(1) by blast
  have dash: "spaced f \<noteq> ''---''"
  proof
    assume "spaced f = ''---''"
    then have "split_runs is_ws ''---'' = [trim (n_type f), trim (n_name f)]" using sp(4) by simp
    moreover have "split_runs is_ws ''---'' = [''---'']" by code_simp
    ultimately show False by simp
  qed
  show "ros2_source_field (spaced f) = Some (source_field_of f)"
    using sym(2) pl dash identifier_facts(1) [OF n]
    unfolding ros2_source_field_def cut sp(1) Let_def by (simp add: sp(2,4) source_field_of_def plain_token_def)
  show "clean_line (spaced f)" "spaced f \<noteq> []" by (fact sp)+
  have "takeWhile (\<lambda>c. \<not> is_ws c) (spaced f) = trim (n_type f)"
    unfolding spaced_def by (rule takeWhile_stop) (use pl in \<open>auto simp: plain_token_def\<close>)
  moreover have "startsWith (takeWhile (\<lambda>c. \<not> is_ws c) (spaced f)) ''---''" if "startsWith (spaced f) ''---''"
    using that by (auto simp: prefix_def is_ws_def)
  ultimately show "\<not> startsWith (spaced f) ''---''" using ty(1) by (auto simp: ros_type_def)
  show "\<not> is_ws (hd (spaced f))" using pl by (cases "trim (n_type f)") (simp_all add: spaced_def plain_token_def)
  show "\<not> is_ws (last (spaced f))" using identifier_facts(1,4) [OF n] by (simp add: spaced_def)
qed

text \<open>The text of several fields, and what stands around it: line breaks, that have no field.\<close>

definition fields_text :: "dataFormatFieldInput list \<Rightarrow> string" where
  "fields_text flds = join_lines (map spaced flds)"

lemma rendered_fields:
  assumes "\<forall>f \<in> set flds. input_ok source_type f" "renderRosFields flds = Inr d"
  shows "d = fields_text flds"
proof -
  have "\<forall>f \<in> set flds. input_ok ros_type f" using assms(1) by (auto simp: input_ok_def source_type_def)
  from renderRosFields_text [OF this] assms(2) show ?thesis by (simp add: fields_text_def)
qed

lemma blank_field: "ros2_source_field [] = None"
  by (simp add: ros2_source_field_def)

lemma read_lines:
  assumes "\<forall>f \<in> set flds. input_ok source_type f"
    and that: "set a \<subseteq> {[]}" "set b \<subseteq> {[]}" "a @ map spaced flds @ b \<noteq> []"
  shows "parseRos2Fields (join_lines (a @ map spaced flds @ b)) = map source_field_of flds"
proof -
  have "clean_line l" if "l \<in> set (a @ map spaced flds @ b)" for l
  proof (cases "l = []")
    case False
    with that \<open>set a \<subseteq> {[]}\<close> \<open>set b \<subseteq> {[]}\<close> obtain f where "f \<in> set flds" "l = spaced f" by auto
    then show ?thesis using assms(1) source_line(2) by blast
  qed simp
  then have "clean_lines (a @ map spaced flds @ b)" unfolding clean_lines_def by blast
  then have "split_lines (join_lines (a @ map spaced flds @ b)) = a @ map spaced flds @ b"
    by (rule split_join_lines [OF that(3)])
  moreover have "List.map_filter ros2_source_field c = []" if "set c \<subseteq> {[]}" for c
    using that by (induction c) (auto simp: map_filter_simps blank_field)
  moreover have "List.map_filter ros2_source_field (map spaced flds) = map source_field_of flds"
    using assms(1) source_line(1) by (induction flds) (simp_all add: map_filter_simps)
  moreover have "List.map_filter ros2_source_field (x @ y @ z) = List.map_filter ros2_source_field x
      @ List.map_filter ros2_source_field y @ List.map_filter ros2_source_field z" for x y z
    by (simp add: map_filter_def)
  ultimately show ?thesis using that(1,2) by (simp only: parseRos2Fields_def append_Nil append_Nil2)
qed

lemma read_fields:
  assumes "\<forall>f \<in> set flds. input_ok source_type f"
  shows "parseRos2Fields (fields_text flds) = map source_field_of flds"
    "parseRos2Fields (fields_text flds @ nl) = map source_field_of flds"
    "parseRos2Fields (nl @ fields_text flds @ nl) = map source_field_of flds"
proof -
  note r = read_lines [OF assms]
  show "parseRos2Fields (fields_text flds @ nl) = map source_field_of flds"
    using r [of "[]" "[[]]"] r [of "[[]]" "[[]]"] by (cases "flds = []") (simp_all add: fields_text_def join_append)
  show "parseRos2Fields (fields_text flds) = map source_field_of flds"
    using r [of "[]" "[]"] by (cases "flds = []") (simp_all add: fields_text_def parseRos2Fields_def blank_field map_filter_simps)
  show "parseRos2Fields (nl @ fields_text flds @ nl) = map source_field_of flds"
    using r [of "[[]]" "[[]]"] r [of "[[], []]" "[[]]"] by (cases "flds = []") (simp_all add: fields_text_def join_append join_Cons)
qed

text \<open>A service: the mark between request and response is found, and no field looks like it.\<close>

definition service_text :: "dataFormatFieldInput list \<Rightarrow> dataFormatFieldInput list \<Rightarrow> string" where
  "service_text request response =
     fields_text request @ (if request \<noteq> [] then nl else []) @ ''---'' @ (if response \<noteq> [] then nl @ fields_text response else [])"

definition lines_text :: "string list \<Rightarrow> string" where
  "lines_text ls = concat (map (\<lambda>l. l @ [LF]) ls)"

lemma lines_text_join: "lines_text ls = join_lines (ls @ [[]])"
  by (induction ls) (simp_all add: lines_text_def join_Cons nl_def)

lemma fields_lines: "flds \<noteq> [] \<Longrightarrow> fields_text flds @ nl = lines_text (map spaced flds)"
  by (simp add: lines_text_join fields_text_def join_append)

lemma service_lines:
  "service_text request response @ nl = lines_text (map spaced request) @ ''---'' @ nl @ lines_text (map spaced response)"
  using fields_lines [of request] fields_lines [of response]
  by (cases "request = []"; cases "response = []") (simp_all add: service_text_def fields_text_def lines_text_def)

lemma split_not_Nil: "split_at_matches m p s \<noteq> []"
  by (cases s) (auto split: option.splits list.splits)

lemma split_miss:
  "m prev (c # cs) = None \<Longrightarrow> split_at_matches m (Some c) cs = part # parts \<Longrightarrow>
    split_at_matches m prev (c # cs) = (c # part) # parts"
  by simp

lemma skip_line:
  assumes "clean_line l" "\<not> startsWith l ''---''" "split_at_matches service_mark (Some LF) r = part # parts"
  shows "split_at_matches service_mark prev (l @ LF # r) = (l @ LF # part) # parts"
proof -
  have inside: "split_at_matches service_mark p (k @ LF # r) = (k @ LF # part) # parts"
    if "clean_line k" "\<not> line_start p" for p k
    using that
  proof (induction k arbitrary: p)
    case Nil
    then have "service_mark p (LF # r) = None" by (simp add: service_mark_def)
    with assms(3) show ?case by (simp add: split_miss)
  next
    case (Cons c k)
    have "service_mark p (c # k @ LF # r) = None" using Cons.prems(2) by (simp add: service_mark_def)
    moreover have "\<not> line_start (Some c)" "clean_line k" using Cons.prems(1) by (auto simp: line_start_def is_term_def clean_line_def)
    ultimately show ?case using Cons.IH by (simp add: split_miss)
  qed
  show ?thesis
  proof (cases l)
    case Nil
    have "service_mark prev (LF # r) = None" by (simp add: service_mark_def eat_text_def)
    then show ?thesis using assms(3) by (simp add: Nil split_miss)
  next
    case (Cons c k)
    have "\<not> startsWith (l @ LF # r) ''---''"
    proof
      assume "startsWith (l @ LF # r) ''---''"
      then have "prefix ''---'' l \<or> (\<exists>us. ''---'' = l @ us \<and> prefix us (LF # r))" by (simp add: prefix_append)
      then obtain us where us: "''---'' = l @ us" "prefix us (LF # r)" using assms(2) by blast
      then show False using assms(2) Cons by (cases us) (auto simp: Cons_eq_append_conv)
    qed
    then have "eat_text ''---'' (l @ LF # r) = None" by (simp only: eat_text_def if_False)
    then have "service_mark prev (l @ LF # r) = None" by (simp add: service_mark_def)
    then have "service_mark prev (c # k @ LF # r) = None" by (simp add: Cons)
    moreover have "\<not> line_start (Some c)" "clean_line k" using assms(1) by (auto simp: Cons line_start_def is_term_def clean_line_def)
    ultimately show ?thesis using inside by (simp add: Cons split_miss)
  qed
qed

lemma skip_lines:
  assumes "\<forall>l \<in> set ls. clean_line l \<and> \<not> startsWith l ''---''" "split_at_matches service_mark p r = part # parts"
    "ls \<noteq> [] \<Longrightarrow> p = Some LF" "ls = [] \<Longrightarrow> p = prev"
  shows "split_at_matches service_mark prev (lines_text ls @ r) = (lines_text ls @ part) # parts"
  using assms
proof (induction ls arbitrary: prev)
  case (Cons l ls)
  have "split_at_matches service_mark (Some LF) (lines_text ls @ r) = (lines_text ls @ part) # parts"
    using Cons.IH [of "Some LF"] Cons.prems by auto
  then show ?case using skip_line Cons.prems(1) by (simp add: lines_text_def)
qed (simp add: lines_text_def)

lemma spaced_lines:
  "\<forall>f \<in> set flds. input_ok source_type f \<Longrightarrow> \<forall>l \<in> set (map spaced flds). clean_line l \<and> \<not> startsWith l ''---''"
  using source_line(2,4) by auto

lemma service_split:
  assumes "\<forall>f \<in> set request. input_ok source_type f" "\<forall>f \<in> set response. input_ok source_type f"
  shows "split_at_matches service_mark None (service_text request response @ nl) = [lines_text (map spaced request),
    if response = [] then [] else lines_text ([] # map spaced response)]"
proof -
  define b where "b = lines_text (map spaced response)"
  define q where "q = (if request = [] then None else Some LF)"
  have q: "line_start q" by (simp add: q_def line_start_def is_term_def)
  define rest where "rest = (if response = [] then [] else LF # b)"
  have b: "b = [] \<longleftrightarrow> response = []" by (simp add: b_def lines_text_def)
  have hd: "\<not> is_ws (hd b)" if "response \<noteq> []"
    using that source_line(3,5) assms(2) by (cases response) (auto simp: b_def lines_text_def hd_append)
  have run: "takeWhile is_ws (LF # b) = [LF]" using b hd by (cases b) auto
  have mark: "service_mark q (''---'' @ LF # b) = Some ((), rest)"
  proof (cases "b = []")
    case True
    then show ?thesis using q b by (simp add: service_mark_def eat_text_def rest_def Let_def)
  next
    case False
    then obtain c b' where "b = c # b'" "\<not> is_term c" using hd b is_term_ws by (cases b) auto
    then show ?thesis using q b run False by (simp add: service_mark_def eat_text_def rest_def Let_def is_term_def)
  qed
  have "split_at_matches service_mark p rest = [rest]" for p
  proof (cases "response = []")
    case False
    have "split_at_matches service_mark p (lines_text ([] # map spaced response) @ []) = [lines_text ([] # map spaced response) @ []]"
      by (rule skip_lines [where p = "Some LF"]) (use spaced_lines [OF assms(2)] in \<open>auto simp: clean_line_def\<close>)
    then show ?thesis using False by (simp add: rest_def b_def lines_text_def)
  qed (simp add: rest_def)
  then have "split_at_matches service_mark q (''---'' @ LF # b) = [[], rest]"
    using mark by (simp add: rest_def)
  then have "split_at_matches service_mark None (lines_text (map spaced request) @ ''---'' @ LF # b) = [lines_text (map spaced request) @ [], rest]"
    by (intro skip_lines [where p = q]) (use spaced_lines [OF assms(1)] in \<open>auto simp: q_def\<close>)
  then show ?thesis unfolding service_lines b_def [symmetric] by (simp add: rest_def nl_def b_def lines_text_def)
qed

lemma service_read:
  assumes "\<forall>f \<in> set request. input_ok source_type f" "\<forall>f \<in> set response. input_ok source_type f"
  defines "parts \<equiv> split_at_matches service_mark None (service_text request response @ nl)"
  shows "parseRos2Fields (hd parts) = map source_field_of request" "parseRos2Fields (parts ! 1) = map source_field_of response"
    "length parts = 2"
proof -
  note parts = service_split [OF assms(1,2), folded parts_def]
  show "length parts = 2" by (simp add: parts)
  have "parseRos2Fields (lines_text (map spaced request)) = map source_field_of request"
    using read_lines [OF assms(1), of "[]" "[[]]"] by (simp add: lines_text_join)
  then show "parseRos2Fields (hd parts) = map source_field_of request" by (simp add: parts)
  have "parseRos2Fields (lines_text ([] # map spaced response)) = map source_field_of response"
    using read_lines [OF assms(2), of "[[]]" "[[]]"] by (simp add: lines_text_join)
  then show "parseRos2Fields (parts ! 1) = map source_field_of response"
    by (simp add: parts parseRos2Fields_def blank_field map_filter_simps)
qed

lemma fields_text_not_Nil:
  assumes "\<forall>f \<in> set flds. input_ok source_type f" "flds \<noteq> []" shows "fields_text flds \<noteq> []"
proof (cases flds)
  case (Cons f fs)
  then have "spaced f \<noteq> []" using assms(1) source_line(3) [of f] by simp
  with Cons show ?thesis by (cases fs) (simp_all add: fields_text_def)
qed (use assms(2) in simp)

text \<open>What the dashboard stores, with its trimming.\<close>

lemma fields_stored:
  assumes "\<forall>f \<in> set flds. input_ok source_type f" "flds \<noteq> []" shows "trimEnd (fields_text flds) = fields_text flds"
proof (rule trimEnd_ident)
  obtain fs f where flds: "flds = fs @ [f]" using assms(2) by (cases flds rule: rev_cases) auto
  then have "last (fields_text flds) = last (spaced f)" and "input_ok source_type f"
    using assms(1) source_line(3) [of f] by (cases "fs = []"; simp add: fields_text_def join_append)+
  then show "fields_text flds = [] \<or> \<not> is_ws (last (fields_text flds))" using source_line(6) by simp
qed

lemma service_stored:
  assumes "\<forall>f \<in> set response. input_ok source_type f"
  shows "trimEnd (service_text request response) = service_text request response"
proof (cases "response = []")
  case True
  then show ?thesis by (intro trimEnd_ident) (simp add: service_text_def is_ws_def)
next
  case False
  note ne = fields_text_not_Nil [OF assms False]
  have "\<not> is_ws (last (fields_text response))"
    using last_trimEnd [of "fields_text response"] ne unfolding fields_stored [OF assms False] by blast
  with ne show ?thesis using False by (intro trimEnd_ident) (simp add: service_text_def)
qed

end
