(* ===== verification/Scaffold_Published.thy ===== *)
theory Scaffold_Published
  imports Scaffold_Catalog_Props Scaffold_Read_Ros
begin

text \<open>
  From the dashboard to the scaffold: the type under which the dashboard publishes a data format is
  the one under which the scaffold's catalog has it, with the fields of the form.
\<close>

subsection \<open>Paths\<close>

definition plain_segment :: "string \<Rightarrow> bool" where
  "plain_segment s \<longleftrightarrow> s \<noteq> [] \<and> s \<noteq> ''.'' \<and> s \<noteq> ''..'' \<and> CHR ''/'' \<notin> set s \<and> CHR 0x5C \<notin> set s"

lemma split_join_segments:
  "ss \<noteq> [] \<Longrightarrow> \<forall>s \<in> set ss. CHR ''/'' \<notin> set s \<Longrightarrow> split_on (CHR ''/'') (join ''/'' ss) = ss"
proof (induction ss)
  case (Cons s ss)
  then show ?case by (cases ss) (simp_all add: split_on_none split_on_append)
qed simp

lemma join_segments:
  assumes "ss \<noteq> []" "\<forall>s \<in> set ss. plain_segment s"
  shows "path_join base (join ''/'' ss) = base @ ss"
proof -
  have "foldl push_segment base ss = base @ ss" using assms(2)
  proof (induction ss arbitrary: base)
    case (Cons s ss)
    then show ?case by (simp add: push_segment_def plain_segment_def)
  qed simp
  moreover have "split_on (CHR ''/'') (join ''/'' ss) = ss"
    using assms by (intro split_join_segments) (auto simp: plain_segment_def)
  ultimately show ?thesis by (simp add: path_join_def)
qed

lemma strip_common_prefix: "strip_common base (base @ ss) = ([], ss)"
  by (induction base) (cases ss; simp)+

lemma relative_below: "path_relative base (base @ ss) = join ''/'' ss"
  by (simp add: path_relative_def strip_common_prefix path_string_def)

lemma join_chars: "c \<in> set (join sep ss) \<Longrightarrow> c \<in> set sep \<or> (\<exists>s \<in> set ss. c \<in> set s)"
  by (induction sep ss rule: join.induct) auto

lemma slash_below:
  assumes "\<forall>s \<in> set ss. plain_segment s" shows "slash_path base (base @ ss) = join ''/'' ss"
proof -
  have "c \<noteq> CHR 0x5C" if "c \<in> set (join ''/'' ss)" for c
    using join_chars [OF that] assms unfolding plain_segment_def by auto
  then show ?thesis unfolding slash_path_def relative_below replace_char_def by (intro map_idI) simp
qed

lemma segments_below:
  assumes "ss \<noteq> []" "\<forall>s \<in> set ss. plain_segment s" shows "segments (join ''/'' ss) = ss"
proof -
  have "\<forall>s \<in> set ss. CHR ''/'' \<notin> set s" "\<forall>s \<in> set ss. s \<noteq> []" using assms(2) unfolding plain_segment_def by blast+
  with split_join_segments [OF assms(1)] show ?thesis by (simp add: segments_def filter_id_conv)
qed

lemma word_segment: "s \<noteq> [] \<Longrightarrow> \<forall>c \<in> set s. is_word_char c \<Longrightarrow> plain_segment s"
  and word_file: "s \<noteq> [] \<Longrightarrow> \<forall>c \<in> set s. is_word_char c \<Longrightarrow> ext \<in> {''.proto'', ''.idl'', ''.msg'', ''.srv''} \<Longrightarrow> plain_segment (s @ ext)"
proof -
  have c: "\<not> is_word_char (CHR ''/'')" "\<not> is_word_char (CHR 0x5C)" "\<not> is_word_char (CHR ''.'')" by code_simp+
  assume s: "s \<noteq> []" "\<forall>c \<in> set s. is_word_char c"
  from s c show "plain_segment s" by (auto simp: plain_segment_def)
  assume ext: "ext \<in> {''.proto'', ''.idl'', ''.msg'', ''.srv''}"
  have "3 < length (s @ ext)" using s(1) ext by (cases s) auto
  then have "s @ ext \<noteq> ''.''" "s @ ext \<noteq> ''..''" by (auto dest: arg_cong [where f = length])
  moreover have "CHR ''/'' \<notin> set (s @ ext)" "CHR 0x5C \<notin> set (s @ ext)" using s c ext by auto
  ultimately show "plain_segment (s @ ext)" using s(1) by (simp add: plain_segment_def)
qed

lemma ext_end: "endsWith (s @ ext) t \<longleftrightarrow> t = ext"
  if "ext \<in> {''.proto'', ''.idl'', ''.msg'', ''.srv''}" "t \<in> {''.proto'', ''.idl'', ''.msg'', ''.srv''}"
  using that by (auto simp: suffix_def append_eq_append_conv2 Cons_eq_append_conv)

lemma stem_word:
  assumes "s \<noteq> []" "\<forall>c \<in> set s. is_word_char c" "ext \<in> {''idl'', ''msg'', ''srv''}"
  shows "stem (s @ CHR ''.'' # ext) = s"
proof -
  have dot: "CHR ''.'' \<notin> set s" using assms(2) by (auto simp: is_word_char_def is_alpha_def is_upper_def is_lower_def is_digit_def)
  have "CHR ''.'' \<notin> set ext" using assms(3) by auto
  then have "split_on (CHR ''.'') (s @ CHR ''.'' # ext) = [s, ext]" using dot by (simp add: split_on_append split_on_none)
  then have "extname (s @ CHR ''.'' # ext) = CHR ''.'' # ext" using assms(1) by (simp add: extname_def)
  then show ?thesis using assms(1) by (simp add: stem_def drop_ext_def suffix_def)
qed

subsection \<open>The catalog of one file\<close>

text \<open>The files of a service, below the directory of the interface definitions.\<close>

definition idl_root :: "path \<Rightarrow> path" where
  "idl_root base = base @ [''pkg'', ''idl'']"

definition format_segments :: "DataFormatKind \<Rightarrow> string \<Rightarrow> string \<Rightarrow> string list" where
  "format_segments kind name svc =
     (case kind of
        Proto \<Rightarrow> [svc, ''pb'', svc @ ''.proto'']
      | Dds_Idl \<Rightarrow> [svc, ''dds'', svc, name @ ''.idl'']
      | Msg \<Rightarrow> [svc, ''ros2'', svc, ''msg'', name @ ''.msg'']
      | Srv \<Rightarrow> [svc, ''ros2'', svc, ''srv'', name @ ''.srv''])"

definition service_word :: "string \<Rightarrow> bool" where
  "service_word svc \<longleftrightarrow> svc \<noteq> [] \<and> (\<forall>c \<in> set svc. is_word_char c) \<and> svc \<noteq> ''ros2'' \<and> svc \<noteq> ''msg'' \<and> svc \<noteq> ''srv''"

lemma format_segments_plain:
  assumes "service_word svc" "identifier_match name"
  shows "format_segments kind name svc \<noteq> []" "\<forall>s \<in> set (format_segments kind name svc). plain_segment s"
proof -
  have "plain_segment svc" "plain_segment (svc @ ''.proto'')" "plain_segment (name @ ''.idl'')" "plain_segment (name @ ''.msg'')"
    "plain_segment (name @ ''.srv'')"
    using assms(1) word_segment word_file identifier_facts(1,3) [OF assms(2)] by (simp_all add: service_word_def)
  moreover have "plain_segment ''pb''" "plain_segment ''dds''" "plain_segment ''ros2''" "plain_segment ''msg''" "plain_segment ''srv''"
    by code_simp+
  ultimately show "\<forall>s \<in> set (format_segments kind name svc). plain_segment s" "format_segments kind name svc \<noteq> []"
    by (cases kind; simp add: format_segments_def)+
qed

lemma format_path:
  assumes "service_word svc" "identifier_match name"
  shows "dataFormatFilePath kind name base svc = idl_root base @ format_segments kind name svc"
proof -
  have "\<forall>s \<in> set (''pkg'' # ''idl'' # format_segments kind name svc). plain_segment s"
    using format_segments_plain(2) [OF assms] by (simp add: plain_segment_def)
  from join_segments [OF _ this, of base] show ?thesis
    by (cases kind; simp add: dataFormatFilePath_def format_segments_def idl_root_def IDL_ROOT_def)
qed

lemma format_end:
  assumes "service_word svc" "identifier_match name" "t \<in> {''.proto'', ''.idl'', ''.msg'', ''.srv''}"
  shows "endsWith (file_string (idl_root base @ format_segments kind name svc)) t \<longleftrightarrow>
    t = (case kind of Proto \<Rightarrow> ''.proto'' | Dds_Idl \<Rightarrow> ''.idl'' | Msg \<Rightarrow> ''.msg'' | Srv \<Rightarrow> ''.srv'')"
proof -
  obtain front w ext where segs: "format_segments kind name svc = front @ [w @ ext]"
    and ext: "ext = (case kind of Proto \<Rightarrow> ''.proto'' | Dds_Idl \<Rightarrow> ''.idl'' | Msg \<Rightarrow> ''.msg'' | Srv \<Rightarrow> ''.srv'')"
    and w: "2 \<le> length (w @ ext)"
    by (cases kind) (auto simp: format_segments_def)
  have e: "ext \<in> {''.proto'', ''.idl'', ''.msg'', ''.srv''}" by (cases kind; simp add: ext)
  have "endsWith (file_string ((idl_root base @ front) @ [w @ ext])) t \<longleftrightarrow> endsWith (w @ ext) t"
  proof -
    obtain u where "file_string ((idl_root base @ front) @ [w @ ext]) = u @ ''/'' @ w @ ext"
    proof
      show "file_string ((idl_root base @ front) @ [w @ ext]) = (''/'' @ join ''/'' (idl_root base @ front)) @ ''/'' @ w @ ext"
        unfolding file_string_def path_string_def by (subst join_append) (simp_all add: idl_root_def)
    qed
    moreover have "endsWith (u @ ''/'' @ w @ ext) t \<longleftrightarrow> t = ext" using ext_end [OF e assms(3), of "u @ ''/'' @ w"] by simp
    moreover have "endsWith (w @ ext) t \<longleftrightarrow> t = ext" using ext_end [OF e assms(3)] by simp
    ultimately show ?thesis by simp
  qed
  then show ?thesis using ext_end [OF e assms(3), of w] segs ext by simp
qed

subsection \<open>Finding the format\<close>

text \<open>How the interface of a route looks for the protocol of its type.\<close>

definition published_protocol :: "DataFormatKind \<Rightarrow> string \<Rightarrow> catalog \<Rightarrow> protocol option" where
  "published_protocol kind type' cat =
     (case kind of
        Proto \<Rightarrow> findProtoMessageByType type' cat
      | Dds_Idl \<Rightarrow> findDdsIdlMessageByType type' cat
      | Msg \<Rightarrow> map_of (ca_ros2Messages cat) type'
      | Srv \<Rightarrow> map_of (ca_ros2Services cat) type')"

definition signature :: "scaffold_field list \<Rightarrow> (string \<times> string) list" where
  "signature flds = map (\<lambda>f. (sf_name f, sf_type f)) flds"

definition form_signature :: "dataFormatFieldInput list \<Rightarrow> (string \<times> string) list" where
  "form_signature flds = map (\<lambda>f. (trim (n_name f), trim (n_type f))) flds"

text \<open>The types that both sides read alike, and the file that the dashboard leaves (\<open>store_definition\<close>
  for a file that is new).\<close>

definition readable_type :: "DataFormatKind \<Rightarrow> string \<Rightarrow> bool" where
  "readable_type kind = (case kind of Proto \<Rightarrow> dotted_type | Dds_Idl \<Rightarrow> idl_type | _ \<Rightarrow> source_type)"

definition stored_text :: "DataFormatKind \<Rightarrow> string \<Rightarrow> string \<Rightarrow> string \<Rightarrow> string result" where
  "stored_text kind svc name d =
     (if kind = Proto then appendProtoMessageBlock (new_proto_text svc) name d else Inr (trimEnd d @ nl))"

lemma signature_of_inputs:
  "signature (map field_of_input (enumerate_from k flds)) = form_signature flds"
  "signature (map source_field_of flds) = form_signature flds"
  by (induction flds arbitrary: k)
    (simp_all add: signature_def form_signature_def field_of_input_def source_field_of_def plain_field_def)

text \<open>A search that every entry satisfies.\<close>

lemma find_entry:
  assumes "all_entries (\<lambda>k v. q v \<and> P v) m" "m \<noteq> []"
  shows "\<exists>v. find q (map snd m) = Some v \<and> P v"
  using assms by (cases m) auto

lemma no_package:
  assumes "clean_line l" "l = [] \<or> hd l \<noteq> CHR ''p''"
  shows "find_package True (l @ LF # r) = find_package True r"
proof -
  have skip: "find_package False (k @ LF # r) = find_package True r" if "clean_line k" for k
    using that by (induction k) (auto simp: is_term_def clean_line_def)
  have none: "package_at (c # s) = None" if "c \<noteq> CHR ''p''" for c s
    using that by (auto simp: package_at_def eat_word_def)
  show ?thesis
  proof (cases l)
    case Nil
    then show ?thesis using none [of LF r] by (simp add: is_term_def)
  next
    case (Cons c k)
    then show ?thesis using none [of c "k @ LF # r"] skip [of k] assms by (auto simp: is_term_def clean_line_def)
  qed
qed

lemma no_package_lines:
  assumes "\<forall>l \<in> set ls. clean_line l \<and> (l = [] \<or> hd l \<noteq> CHR ''p'')" "ls \<noteq> []"
  shows "find_package True (join_lines ls) = find_package True (last ls)"
  using assms
proof (induction ls)
  case (Cons l ls)
  then show ?case using no_package [of l "join_lines ls"] by (cases "ls = []") (auto simp: join_Cons nl_def)
qed simp

lemma rendered_package:
  assumes name: "identifier_match name" and flds: "\<forall>f \<in> set flds. input_ok dotted_type f"
    and d: "renderProtoMessage name flds = Inr d"
  shows "protoPackageFromDefinition d svc = package_of svc"
proof -
  have ok: "input_ok proto_type f" if "f \<in> set flds" for f using flds that dotted_type_ok by (auto simp: input_ok_def)
  define ls where "ls = message_head name # map (\<lambda>(i, f). proto_line_text i f) (enumerate_from 0 flds) @ [''}'']"
  have "d = join_lines ls" using renderProtoMessage_text [of flds name] ok d by (simp add: ls_def)
  moreover have "clean_line l \<and> (l = [] \<or> hd l \<noteq> CHR ''p'')" if l: "l \<in> set ls" for l
  proof -
    consider "l = message_head name" | "l = ''}''" | i f where "l = proto_line_text i f" "f \<in> set flds"
      using l unfolding ls_def by (auto dest!: set_enumerate_from)
    then show ?thesis
    proof cases
      case 1
      then show ?thesis using identifier_facts(5) [OF name] by (simp add: message_head_def)
    next
      case 3
      then show ?thesis using proto_field_text_facts(5) [OF ok, of f i] by (simp add: proto_line_text_def)
    qed simp
  qed
  ultimately have "find_package True d = find_package True ''}''"
    using no_package_lines [of ls] by (simp add: ls_def)
  then show ?thesis by (simp add: protoPackageFromDefinition_def package_at_def eat_word_def package_of_def nullish_def)
qed

lemma proto_published:
  assumes svc: "service_word svc" and name: "identifier_match name" and flds: "\<forall>f \<in> set flds. input_ok dotted_type f"
    and d: "renderProtoMessage name flds = Inr d" and stored: "stored_text Proto svc name d = Inr t"
  shows "\<exists>cat p. load_text base (idl_root base) (idl_root base @ format_segments Proto name svc) t emptyCatalog = Inr cat
    \<and> findProtoMessageByType (package_of svc @ ''.'' @ name) cat = Some p \<and> signature (pc_fields p) = form_signature flds"
proof -
  define f where "f = idl_root base @ format_segments Proto name svc"
  have word: "\<forall>c \<in> set svc. is_word_char c" using svc by (simp add: service_word_def)
  have "d = trimEnd d" using rendered_message [OF flds d] by (intro trimEnd_ident [symmetric]) (simp add: is_ws_def)
  then have t: "t = header_tokens svc (LF # d @ nl)"
    using stored new_proto_file [of name svc d] by (auto simp: stored_text_def appendProtoMessageBlock_def split: if_splits)
  have "path_relative (idl_root base) f = join ''/'' [svc, ''pb'', svc @ ''.proto'']"
    by (simp add: f_def relative_below format_segments_def)
  then have "segments (path_relative (idl_root base) f) = [svc, ''pb'', svc @ ''.proto'']"
    using segments_below [of "[svc, ''pb'', svc @ ''.proto'']"] format_segments_plain [OF svc name, of Proto]
    by (simp add: format_segments_def)
  then have service: "proto_service_name (idl_root base) f = svc"
    by (simp add: proto_service_name_def dir_name_def f_def format_segments_def butlast_append)
  have e: "endsWith (file_string f) ''.proto''" using format_end [OF svc name, of "''.proto''" base Proto] by (simp add: f_def)
  define maps where "maps = parse_proto_text svc (slash_path base f) t"
  have "pm_messages maps = [(svc @ ''.'' @ name, proto_message_of (package_of svc) svc (slash_path base f) (name, message_body flds))]"
    unfolding maps_def t by (rule created_proto_parsed [OF name flds d word])
  moreover have "signature (parseProtoFields (message_body flds)) = form_signature flds"
    by (simp add: proto_fields_read [OF flds] signature_of_inputs)
  moreover have "load_text base (idl_root base) f t emptyCatalog = Inr (mergeProtoCatalog (slash_path base f) maps emptyCatalog)"
    using e by (simp add: load_text_def Let_def service maps_def)
  ultimately show ?thesis unfolding f_def [symmetric]
    by (simp add: mergeProtoCatalog_def emptyCatalog_def assign_all_def findProtoMessageByType_def proto_message_of_def package_of_def)
qed

lemma idl_published:
  assumes svc: "service_word svc" and name: "identifier_match name" and flds: "\<forall>f \<in> set flds. input_ok idl_type f"
    and d: "renderDdsIdlStruct name flds = Inr d"
  shows "\<exists>cat p. load_text base (idl_root base) (idl_root base @ format_segments Dds_Idl name svc) (trimEnd d @ nl) emptyCatalog = Inr cat
    \<and> findDdsIdlMessageByType (svc @ ''::'' @ name) cat = Some p \<and> signature (pc_fields p) = form_signature flds"
proof -
  define f where "f = idl_root base @ format_segments Dds_Idl name svc"
  have "slash_path (idl_root base) f = join ''/'' (format_segments Dds_Idl name svc)"
    using format_segments_plain(2) [OF svc name] by (simp add: f_def slash_below)
  then have "segments (slash_path (idl_root base) f) = format_segments Dds_Idl name svc"
    using segments_below format_segments_plain [OF svc name] by simp
  then have service: "idlServiceName (idl_root base) f = svc" by (simp add: idlServiceName_def format_segments_def)
  have e: "endsWith (file_string f) ''.idl''" "\<not> endsWith (file_string f) ''.proto''"
    using format_end [OF svc name, of _ base Dds_Idl] by (simp_all add: f_def)
  define maps where "maps = parse_idl_text svc (slash_path base f) (d @ nl)"
  define item where "item = idl_struct_of svc svc (slash_path base f) (name, struct_body flds)"
  have "or_else [] svc = svc" by (simp add: or_else_def)
  then have maps: "pm_messages maps = with_aliases item []"
    using struct_parsed [OF name flds d] by (simp add: maps_def parse_idl_text_def item_def Let_def)
  have item: "pc_fullName item = svc @ ''::'' @ name" "signature (pc_fields item) = form_signature flds"
    by (simp_all add: item_def idl_struct_of_def Let_def idl_fields_read [OF flds] signature_of_inputs)
  have "all_entries (\<lambda>k p. pc_fullName p = svc @ ''::'' @ name \<and> signature (pc_fields p) = form_signature flds) (pm_messages maps)"
    unfolding maps by (rule all_entries_aliases) (simp_all add: item)
  then have "all_entries (\<lambda>k p. (pc_fullName p = svc @ ''::'' @ name \<or> pc_type p = svc @ ''::'' @ name
      \<or> pc_idlService p @ ''::'' @ pc_name p = svc @ ''::'' @ name) \<and> signature (pc_fields p) = form_signature flds)
      (assign_all (pm_messages maps) [])"
    by (intro all_entries_assign) (auto simp: all_entries_def)
  from find_entry [OF this] have "\<exists>p. findDdsIdlMessageByType (svc @ ''::'' @ name) (mergeDdsIdlCatalog (slash_path base f) maps emptyCatalog) = Some p
      \<and> signature (pc_fields p) = form_signature flds"
    using assign_all_not_Nil [of "pm_messages maps" "[]"] with_aliases_not_Nil [of item "[]"]
    by (simp add: findDdsIdlMessageByType_def mergeDdsIdlCatalog_def emptyCatalog_def maps)
  moreover have "load_text base (idl_root base) f (trimEnd d @ nl) emptyCatalog = Inr (mergeDdsIdlCatalog (slash_path base f) maps emptyCatalog)"
    using e by (simp add: load_text_def Let_def service maps_def rendered_struct(2) [OF flds d])
  ultimately show ?thesis unfolding f_def [symmetric] by blast
qed

lemma ros_type_name:
  assumes svc: "service_word svc" and name: "identifier_match name" and kind: "kind = Msg \<and> w = ''msg'' \<or> kind = Srv \<and> w = ''srv''"
  shows "ros2TypeName (idl_root base) (idl_root base @ format_segments kind name svc) = (svc @ ''/'' @ w @ ''/'' @ name, [])"
proof -
  define file' where "file' = name @ CHR ''.'' # w"
  have segs: "format_segments kind name svc = [svc, ''ros2'', svc, w, file']"
    using kind by (auto simp: format_segments_def file'_def)
  have "\<forall>s \<in> set (format_segments kind name svc). CHR ''/'' \<notin> set s"
    using format_segments_plain(2) [OF svc name] unfolding plain_segment_def by blast
  then have "split_on (CHR ''/'') (path_relative (idl_root base) (idl_root base @ format_segments kind name svc)) = format_segments kind name svc"
    unfolding relative_below by (intro split_join_segments) (simp_all add: segs)
  then have "split_on (CHR ''/'') (path_relative (idl_root base) (idl_root base @ format_segments kind name svc)) = [svc, ''ros2'', svc, w, file']"
    by (simp add: segs)
  moreover have "stem file' = name"
    unfolding file'_def using identifier_facts(1,3) [OF name] kind by (intro stem_word) auto
  ultimately show ?thesis using svc by (simp add: ros2TypeName_def service_word_def)
qed

lemma ros_single: "pc_aliases item = [] \<Longrightarrow> with_aliases item [] = [(pc_type item, item)]"
  by (simp add: with_aliases_def)

lemma message_published:
  assumes svc: "service_word svc" and name: "identifier_match name" and flds: "\<forall>f \<in> set flds. input_ok source_type f"
    and d: "renderRosFields flds = Inr d"
  shows "\<exists>cat p. load_text base (idl_root base) (idl_root base @ format_segments Msg name svc) (trimEnd d @ nl) emptyCatalog = Inr cat
    \<and> map_of (ca_ros2Messages cat) (svc @ ''/msg/'' @ name) = Some p \<and> signature (pc_fields p) = form_signature flds"
proof -
  define f where "f = idl_root base @ format_segments Msg name svc"
  note type' = ros_type_name [OF svc name, of Msg "''msg''" base, folded f_def]
  have e: "endsWith (file_string f) t \<longleftrightarrow> t = ''.msg''" if "t \<in> {''.proto'', ''.idl'', ''.msg'', ''.srv''}" for t
    using format_end [OF svc name that, of base Msg] by (simp add: f_def)
  have "trimEnd d = d"
    using rendered_fields [OF flds d] fields_stored [OF flds] by (cases "flds = []") (simp_all add: fields_text_def)
  then have read: "parseRos2Fields (trimEnd d @ nl) = map source_field_of flds"
    using read_fields(2) [OF flds] rendered_fields [OF flds d] by simp
  define item where "item = ros2_message_of base (idl_root base) f (trimEnd d @ nl)"
  have item: "pc_type item = svc @ ''/msg/'' @ name" "pc_aliases item = []" "signature (pc_fields item) = form_signature flds"
    using type' by (simp_all add: item_def ros2_message_of_def ros2_source_def read signature_of_inputs)
  have "load_text base (idl_root base) f (trimEnd d @ nl) emptyCatalog
      = Inr (emptyCatalog\<lparr>ca_ros2Messages := addRos2SourceProtocol item (ca_ros2Messages emptyCatalog)\<rparr>)"
    by (simp add: load_text_def Let_def e item_def)
  then show ?thesis unfolding f_def [symmetric]
    using item by (simp add: addRos2SourceProtocol_def ros_single emptyCatalog_def)
qed

lemma service_published:
  assumes svc: "service_word svc" and name: "identifier_match name" and request: "\<forall>f \<in> set request. input_ok source_type f"
    and response: "\<forall>f \<in> set response. input_ok source_type f"
  shows "\<exists>cat p. load_text base (idl_root base) (idl_root base @ format_segments Srv name svc)
      (trimEnd (service_text request response) @ nl) emptyCatalog = Inr cat
    \<and> map_of (ca_ros2Services cat) (svc @ ''/srv/'' @ name) = Some p
    \<and> signature (pc_requestFields p) = form_signature request \<and> signature (pc_responseFields p) = form_signature response"
proof -
  define f where "f = idl_root base @ format_segments Srv name svc"
  note type' = ros_type_name [OF svc name, of Srv "''srv''" base, folded f_def]
  have e: "endsWith (file_string f) t \<longleftrightarrow> t = ''.srv''" if "t \<in> {''.proto'', ''.idl'', ''.msg'', ''.srv''}" for t
    using format_end [OF svc name that, of base Srv] by (simp add: f_def)
  note read = service_read [OF request response] service_stored [OF response, of request]
  define item where "item = ros2_service_of base (idl_root base) f (service_text request response @ nl)"
  have item: "pc_type item = svc @ ''/srv/'' @ name" "pc_aliases item = []"
    "signature (pc_requestFields item) = form_signature request" "signature (pc_responseFields item) = form_signature response"
    using type' read by (simp_all add: item_def ros2_service_of_def ros2_source_def signature_of_inputs Let_def del: One_nat_def)
  have "load_text base (idl_root base) f (service_text request response @ nl) emptyCatalog
      = Inr (emptyCatalog\<lparr>ca_ros2Services := addRos2SourceProtocol item (ca_ros2Services emptyCatalog)\<rparr>)"
    by (simp add: load_text_def Let_def e item_def)
  then show ?thesis unfolding f_def [symmetric] read(4)
    using item by (simp add: addRos2SourceProtocol_def ros_single emptyCatalog_def)
qed

text \<open>C24. What the dashboard publishes, the scaffold finds: when the dashboard has rendered a data format and stored it
  as a new file of the service, the scaffold's catalog of that file has a protocol under the very type that the
  dashboard writes into the public interfaces, with the fields of the form in order (of request and
  response, for a service). The service is one word (none of \<open>ros2\<close>, \<open>msg\<close> and \<open>srv\<close>), the name an identifier, and the types of the fields are such that
  both patterns read them: one word, without a label.\<close>

theorem published_format_found:
  assumes "service_word svc" "identifier_match name"
    and "\<forall>f \<in> set flds. input_ok (readable_type kind) f" "\<forall>f \<in> set response. input_ok (readable_type kind) f"
    and "renderDataFormatDefinition \<lparr>c_moduleName = m, c_fields = flds, c_kind = kind, c_name = name, c_responseFields = Some response\<rparr> = Inr d"
    and "stored_text kind svc name d = Inr t" "m_kind format = kind" "m_name format = name" "m_definition format = d"
  shows "\<exists>cat p. load_text base (idl_root base) (dataFormatFilePath kind name base svc) t emptyCatalog = Inr cat
    \<and> published_protocol kind (publicTypeFromDataFormat format svc) cat = Some p
    \<and> (if kind = Srv then signature (pc_requestFields p) = form_signature flds \<and> signature (pc_responseFields p) = form_signature response
       else signature (pc_fields p) = form_signature flds)"
proof -
  note svc = assms(1) and name = assms(2) and stored = assms(6)
  have "trim name = name"
    using identifier_facts(1,4) [OF name] by (intro trim_ident) simp
  then have "validateDataFormatName name = Inr name" using name by (simp add: validateDataFormatName_def)
  then have d: "renderDataFormatDefinition \<lparr>c_moduleName = m, c_fields = flds, c_kind = kind, c_name = name, c_responseFields = Some response\<rparr>
      = (case kind of Proto \<Rightarrow> renderProtoMessage name flds | Dds_Idl \<Rightarrow> renderDdsIdlStruct name flds | Msg \<Rightarrow> renderRosFields flds
         | Srv \<Rightarrow> rbind (renderRosFields flds) (\<lambda>request. rbind (renderRosFields response) (\<lambda>response.
             Inr (request @ (if request \<noteq> [] then nl else []) @ ''---'' @ (if response \<noteq> [] then nl @ response else [])))))"
    by (cases kind) (simp_all add: renderDataFormatDefinition_def nullish_def)
  note path = format_path [OF svc name, of kind base]
  show ?thesis
  proof (cases kind)
    case Proto
    then have "\<forall>f \<in> set flds. input_ok dotted_type f" "renderProtoMessage name flds = Inr d" "stored_text Proto svc name d = Inr t"
      using assms(3,5) stored d by (simp_all add: readable_type_def)
    moreover from this have "publicTypeFromDataFormat format svc = package_of svc @ ''.'' @ name"
      using rendered_package [OF name, of flds d svc] assms(7-9) Proto by (simp add: publicTypeFromDataFormat_def)
    ultimately show ?thesis
      using proto_published [OF svc name, of flds d t base] path Proto by (simp add: published_protocol_def)
  next
    case Dds_Idl
    then have "\<forall>f \<in> set flds. input_ok idl_type f" "renderDdsIdlStruct name flds = Inr d" "t = trimEnd d @ nl"
      using assms(3,5) stored d by (simp_all add: readable_type_def stored_text_def)
    moreover have "publicTypeFromDataFormat format svc = svc @ ''::'' @ name"
      using assms(7-9) Dds_Idl by (simp add: publicTypeFromDataFormat_def)
    ultimately show ?thesis
      using idl_published [OF svc name, of flds d base] path Dds_Idl by (simp add: published_protocol_def)
  next
    case Msg
    then have "\<forall>f \<in> set flds. input_ok source_type f" "renderRosFields flds = Inr d" "t = trimEnd d @ nl"
      using assms(3,5) stored d by (simp_all add: readable_type_def stored_text_def)
    moreover have "publicTypeFromDataFormat format svc = svc @ ''/msg/'' @ name"
      using assms(7-9) Msg by (simp add: publicTypeFromDataFormat_def)
    ultimately show ?thesis
      using message_published [OF svc name, of flds d base] path Msg by (simp add: published_protocol_def)
  next
    case Srv
    then have ok: "\<forall>f \<in> set flds. input_ok source_type f" "\<forall>f \<in> set response. input_ok source_type f"
      using assms(3,4) by (simp_all add: readable_type_def)
    have nil: "fields_text fs = [] \<longleftrightarrow> fs = []" if "\<forall>f \<in> set fs. input_ok source_type f" for fs
      using fields_text_not_Nil [OF that] by (auto simp: fields_text_def)
    obtain q r where qr: "renderRosFields flds = Inr q" "renderRosFields response = Inr r"
      using d assms(5) Srv by (auto simp: rbind_def split: sum.splits)
    have "d = service_text flds response" "t = trimEnd d @ nl"
      using d assms(5) stored Srv qr rendered_fields [OF ok(1) qr(1)] rendered_fields [OF ok(2) qr(2)] nil ok
      by (simp_all add: service_text_def stored_text_def)
    moreover have "publicTypeFromDataFormat format svc = svc @ ''/srv/'' @ name"
      using assms(7-9) Srv by (simp add: publicTypeFromDataFormat_def)
    ultimately show ?thesis
      using service_published [OF svc name ok, of base] path Srv by (simp add: published_protocol_def)
  qed
qed


definition plan_request :: "dataFormatFieldInput list" where
  "plan_request = [\<lparr>n_name = ''target'', n_type = ''float64''\<rparr>]"

definition plan_response :: "dataFormatFieldInput list" where
  "plan_response = [\<lparr>n_name = ''done'', n_type = ''bool''\<rparr>]"

definition plan_definition :: string where
  "plan_definition = ''float64 target'' @ nl @ ''---'' @ nl @ ''bool done''"

definition plan_format :: ModuleDataFormatItem where
  "plan_format = \<lparr>m_definition = plan_definition, m_fields = [], m_id = [], m_kind = Srv, m_name = ''Plan'', m_path = [],
     m_source = []\<rparr>"

lemma published_format_found_witness:
  "\<exists>cat p. load_text [''repo''] (idl_root [''repo'']) (dataFormatFilePath Srv ''Plan'' [''repo''] ''arm'') (plan_definition @ nl)
      emptyCatalog = Inr cat
    \<and> published_protocol Srv (publicTypeFromDataFormat plan_format ''arm'') cat = Some p
    \<and> signature (pc_requestFields p) = form_signature plan_request \<and> signature (pc_responseFields p) = form_signature plan_response"
proof -
  have names: "service_word ''arm''" "identifier_match ''Plan''"
    "\<forall>f \<in> set plan_request. input_ok (readable_type Srv) f" "\<forall>f \<in> set plan_response. input_ok (readable_type Srv) f"
    by code_simp+
  have texts: "renderDataFormatDefinition \<lparr>c_moduleName = ''arm'', c_fields = plan_request, c_kind = Srv, c_name = ''Plan'',
      c_responseFields = Some plan_response\<rparr> = Inr plan_definition"
    "stored_text Srv ''arm'' ''Plan'' plan_definition = Inr (plan_definition @ nl)"
    by code_simp+
  have "m_kind plan_format = Srv" "m_name plan_format = ''Plan''" "m_definition plan_format = plan_definition"
    by (simp_all add: plan_format_def)
  from published_format_found [OF names texts this, of "[''repo'']"] show ?thesis by simp
qed

end
