(* ===== verification/Format_Agree.thy ===== *)
theory Format_Agree
  imports Format_Command_Props Scaffold_Published
begin

text \<open>
  The command and the dashboard agree: from the lines of the fields \<open>./pr data-format\<close> makes the
  definition that the dashboard's form makes, and leaves the same file.
\<close>

subsection \<open>The lines of a definition\<close>

definition plain_line :: "char \<Rightarrow> string \<Rightarrow> bool" where
  "plain_line c l \<longleftrightarrow> l \<noteq> [] \<and> \<not> is_ws (hd l) \<and> \<not> is_ws (last l) \<and> (\<forall>x \<in> set l. x \<noteq> LF \<and> x \<noteq> CR \<and> x \<noteq> c)"

lemma unix_newlines_same: "CR \<notin> set s \<Longrightarrow> unix_newlines s = s"
  by (induction s) auto

lemma cut_comment_same: "hd comment \<notin> set l \<Longrightarrow> comment \<noteq> [] \<Longrightarrow> cut_comment comment l = l"
  by (induction l) (cases comment; auto simp: prefix_def)+

lemma join_hd_last:
  assumes "ls \<noteq> []" "\<forall>l \<in> set ls. l \<noteq> []"
  shows "join_lines ls \<noteq> []" "hd (join_lines ls) = hd (hd ls)" "last (join_lines ls) = last (last ls)"
  proof -
  have "join_lines ls \<noteq> [] \<and> hd (join_lines ls) = hd (hd ls) \<and> last (join_lines ls) = last (last ls)" using assms
  proof (induction ls)
    case (Cons l ls)
    then show ?case by (cases ls) simp_all
  qed simp
  then show "join_lines ls \<noteq> []" "hd (join_lines ls) = hd (hd ls)" "last (join_lines ls) = last (last ls)" by simp_all
qed

lemma plain_lines_normal:
  assumes "ls \<noteq> []" "\<forall>l \<in> set ls. plain_line c l"
  shows "normalizeText (join_lines ls) = join_lines ls"
proof -
  have ne: "\<forall>l \<in> set ls. l \<noteq> []" using assms(2) by (auto simp: plain_line_def)
  have "CR \<notin> set (join_lines ls)" using assms(2) join_chars [of CR nl ls] by (auto simp: plain_line_def nl_def)
  moreover have "trim (join_lines ls) = join_lines ls"
    using join_hd_last [OF assms(1) ne] assms by (intro trim_ident) (auto simp: plain_line_def)
  ultimately show ?thesis by (simp add: normalizeText_def unix_newlines_same)
qed

lemma split_joined_lines: "ls \<noteq> [] \<Longrightarrow> \<forall>l \<in> set ls. LF \<notin> set l \<Longrightarrow> split_on LF (join_lines ls) = ls"
proof (induction ls)
  case (Cons l ls)
  then show ?case by (cases ls) (simp_all add: split_on_none split_on_append nl_def)
qed simp

lemma plain_lines_read:
  assumes "ls \<noteq> []" "\<forall>l \<in> set ls. plain_line (hd comment) l" "comment \<noteq> []"
  shows "definitionLines comment (join_lines ls) = enumerate 1 ls"
proof -
  have "split_on LF (join_lines ls) = ls" using assms(1,2) by (intro split_joined_lines) (auto simp: plain_line_def)
  moreover have "map (\<lambda>raw. trim (cut_comment comment raw)) ls = ls"
  proof (rule map_idI)
    fix l assume "l \<in> set ls"
    then have l: "plain_line (hd comment) l" using assms(2) by blast
    then have "hd comment \<notin> set l" unfolding plain_line_def by blast
    then have "cut_comment comment l = l" by (rule cut_comment_same [OF _ assms(3)])
    moreover have "trim l = l" using l unfolding plain_line_def by (intro trim_ident) blast
    ultimately show "trim (cut_comment comment l) = l" by simp
  qed
  moreover have "filter (\<lambda>(number, line). line \<noteq> []) (enumerate k ls) = enumerate k ls" for k
    using assms(2) by (induction ls arbitrary: k) (simp_all add: plain_line_def)
  ultimately show ?thesis
    by (simp add: definitionLines_def plain_lines_normal [OF assms(1,2)])
qed

subsection \<open>Proto\<close>

definition shared_proto :: "string \<Rightarrow> bool" where
  "shared_proto ty \<longleftrightarrow> dotted_type ty \<and> ty \<noteq> ''required''"

lemma numbered_name_line:
  assumes n: "identifier_match n"
  shows "numbered_name (ty, SP # n @ '' = '' @ nat_str k @ '';'') = Some (nat_str k)"
proof -
  note f = identifier_facts [OF n]
  have ns: "\<not> is_word_char SP" using word_not_ws [of SP] by auto
  let ?t = "n @ '' = '' @ nat_str k @ '';''"
  have 2: "eat_word [] (SP # ?t) = Some ?t" using f(1,4) by (intro eat_gap) auto
  have 3: "eat_ident is_word_char ?t = Some (n, '' = '' @ nat_str k @ '';'')"
    using eat_ident_append [OF f(1,2,3) ns] by simp
  have 4: "eat_char (CHR ''='') ('' = '' @ nat_str k @ '';'') = Some (SP # nat_str k @ '';'')"
    by (simp add: eat_char_def is_ws_def)
  have 5: "dropWhile is_ws (SP # nat_str k @ '';'') = nat_str k @ '';''"
    using nat_str_digits [of k] nat_str_word [of k "[]"] dropWhile_ws_word [of "nat_str k"] by simp
  have "\<not> is_digit (CHR '';'')" by (simp add: is_digit_def)
  then have 6: "eat_run is_digit (nat_str k @ '';'') = Some (nat_str k, '';'')"
    using nat_str_digits [of k] takeWhile_stop [of "nat_str k" is_digit "CHR '';''" "[]"]
      dropWhile_stop [of "nat_str k" is_digit "CHR '';''" "[]"]
    by (cases "nat_str k") (auto simp: eat_run_def)
  show ?thesis unfolding numbered_name_def prod.case 2 Option.bind.simps 3 4 5 6 by (simp add: eat_char_def is_ws_def)
qed

lemma proto_number_line:
  assumes ty: "shared_proto ty" and n: "identifier_match n"
  shows "proto_field_number (ty @ SP # n @ '' = '' @ nat_str k @ '';'') = Some (nat_str k)"
proof -
  let ?s = "ty @ SP # n @ '' = '' @ nat_str k @ '';''"
  have d: "dotted_type ty" using ty by (simp add: shared_proto_def)
  have "takeWhile (\<lambda>c. \<not> is_ws c) ?s = ty"
    by (rule takeWhile_stop) (use d package_not_ws in \<open>auto simp: dotted_type_def\<close>)
  then have label: "eat_word w ?s = None" if "w \<in> {''optional'', ''required'', ''repeated''}" for w
    using that eat_word_token [of w ?s] ty by (cases "eat_word w ?s") (auto simp: dotted_type_def shared_proto_def is_ws_def)
  have chars: "CHR ''<'' \<notin> set ?s"
    using d identifier_facts(3) [OF n] nat_str_digits [of k]
    by (auto simp: dotted_type_def is_proto_package_char_def is_word_char_def is_alpha_def is_upper_def is_lower_def is_digit_def)
  have "map_type ?s = None"
  proof (cases "eat_text ''map'' ?s")
    case (Some r)
    then have "CHR ''<'' \<notin> set r" using chars in_set_dropD by (fastforce simp: eat_text_def split: if_splits)
    then have "eat_char (CHR ''<'') r = None" using eat_sets(3) [of "CHR ''<''" r] by (cases "eat_char (CHR ''<'') r") auto
    with Some show ?thesis by (simp add: map_type_def)
  qed (simp add: map_type_def)
  moreover have "eat_ident is_proto_type_char ?s = Some (ty, SP # n @ '' = '' @ nat_str k @ '';'')"
    using dotted_type_ok [OF d] proto_type_not_ws [of SP] by (intro eat_ident_append) (auto simp: proto_type_def)
  ultimately have "unlabelled_number ?s = Some (nat_str k)"
    using numbered_name_line [OF n, of ty k] by (simp add: unlabelled_number_def)
  with label show ?thesis by (simp add: proto_field_number_def)
qed

text \<open>The text that the command is given: the field lines without their indentation.\<close>

definition proto_lines :: "dataFormatFieldInput list \<Rightarrow> string list" where
  "proto_lines flds = map (\<lambda>(i, f). proto_field_text i f) (enumerate_from 0 flds)"

lemma proto_fragment:
  assumes "\<forall>f \<in> set flds. input_ok shared_proto f" "set tags \<subseteq> nat_str ` {..k}"
  shows "proto_fragment_lines tags (enumerate m (map (\<lambda>(i, f). proto_field_text i f) (enumerate_from k flds)))
    = Inr (map (\<lambda>(i, f). proto_field_text i f) (enumerate_from k flds))"
  using assms
proof (induction flds arbitrary: k m tags)
  case (Cons f flds)
  have number: "proto_field_number (proto_field_text k f) = Some (nat_str (k + 1))"
    using Cons.prems(1) proto_number_line by (simp add: proto_field_text_def input_ok_def)
  have fresh: "nat_str (k + 1) \<notin> set tags"
  proof
    assume "nat_str (k + 1) \<in> set tags"
    with Cons.prems(2) obtain j where "j \<le> k" "nat_str (k + 1) = nat_str j" by auto
    then show False using nat_str_inj [of "k + 1" j] by simp
  qed
  have "set (nat_str (k + 1) # tags) \<subseteq> nat_str ` {..Suc k}" using Cons.prems(2) by auto
  from Cons.IH [OF _ this] Cons.prems(1) number fresh show ?case by simp
qed simp

lemma proto_line_plain:
  assumes "input_ok shared_proto f" shows "plain_line (CHR ''/'') (proto_field_text i f)" "CHR ''{'' \<notin> set (proto_field_text i f)"
proof -
  define ty n where "ty = trim (n_type f)" and "n = trim (n_name f)"
  have ty: "dotted_type ty" and n: "identifier_match n" using assms by (simp_all add: input_ok_def shared_proto_def ty_def n_def)
  have t: "proto_field_text i f = ty @ SP # n @ '' = '' @ nat_str (i + 1) @ '';''"
    by (simp add: proto_field_text_def ty_def n_def)
  have bad: "\<not> is_proto_package_char x" if "x \<in> {LF, CR, CHR ''/'', CHR ''{''}" for x using that by (elim insertE emptyE; simp only:) code_simp+
  have "is_proto_package_char x \<or> x \<in> set '' =;''" if "x \<in> set (proto_field_text i f)" for x
    using that ty identifier_facts(3) [OF n] nat_str_digits [of "i + 1"]
    by (auto simp: t dotted_type_def is_proto_package_char_def is_word_char_def)
  then have x: "x \<notin> {LF, CR, CHR ''/'', CHR ''{''}" if "x \<in> set (proto_field_text i f)" for x
    using bad [of x] that by fastforce
  have "hd (proto_field_text i f) = hd ty" "is_proto_package_char (hd ty)" using ty by (auto simp: t dotted_type_def hd_append)
  then have "\<not> is_ws (hd (proto_field_text i f))" using package_not_ws by simp
  moreover have "proto_field_text i f \<noteq> []" "\<not> is_ws (last (proto_field_text i f))" by (simp_all add: t is_ws_def)
  moreover have "\<forall>c \<in> set (proto_field_text i f). c \<noteq> LF \<and> c \<noteq> CR \<and> c \<noteq> CHR ''/''" using x by blast
  ultimately show "plain_line (CHR ''/'') (proto_field_text i f)" unfolding plain_line_def by blast
  show "CHR ''{'' \<notin> set (proto_field_text i f)" using x by blast
qed

lemma no_declared_name: "CHR ''{'' \<notin> set s \<Longrightarrow> match_all (declared_name w) p s = []"
proof (induction s arbitrary: p)
  case (Cons c s)
  have "CHR ''{'' \<in> set s'" if "declared_name w p s' = Some m" for s' m
    using that eat_sets by (fastforce simp: declared_name_def bind_eq_Some_conv split: if_splits)
  from this [of "c # s"] Cons.prems have "declared_name w p (c # s) = None" by (cases "declared_name w p (c # s)") auto
  with Cons show ?case by (simp add: match_all_miss)
qed simp

lemma validateName_same: "identifier_match name \<Longrightarrow> validateName name = Inr name"
  using identifier_facts(1,4) [of name] trim_ident [of name] by (simp add: validateName_def)

lemma no_brace_lines: "\<forall>l \<in> set ls. CHR ''{'' \<notin> set l \<Longrightarrow> CHR ''{'' \<notin> set (join_lines ls)"
  using join_chars [of "CHR ''{''" nl ls] by (auto simp: nl_def)

lemma plain_lines_not_blank:
  assumes "ls \<noteq> []" "\<forall>l \<in> set ls. plain_line c l" shows "trim (join_lines ls) \<noteq> []"
proof -
  have ne: "\<forall>l \<in> set ls. l \<noteq> []" "\<not> is_ws (hd (hd ls))" using assms by (auto simp: plain_line_def)
  show ?thesis
    using join_hd_last(1,2) [OF assms(1) ne(1)] ne(2) hd_in_set [of "join_lines ls"] unfolding trim_eq_Nil_iff by metis
qed

lemma proto_agrees:
  assumes name: "identifier_match name" and flds: "flds \<noteq> []" "\<forall>f \<in> set flds. input_ok shared_proto f"
    and d: "renderProtoMessage name flds = Inr d"
  shows "buildProtoDefinition name (join_lines (proto_lines flds)) svc
    = Inr \<lparr>bf_name = name, bf_append = d, bf_content = with_header svc d\<rparr>"
proof -
  let ?ls = "proto_lines flds"
  have ls: "?ls \<noteq> []" using flds(1) by (cases flds) (simp_all add: proto_lines_def)
  have plain: "\<forall>l \<in> set ?ls. plain_line (CHR ''/'') l" "\<forall>l \<in> set ?ls. CHR ''{'' \<notin> set l"
    using flds(2) proto_line_plain by (auto simp: proto_lines_def dest: set_enumerate_from)
  note normal = plain_lines_normal [OF ls plain(1)]
  have "definitionLines ''//'' (join_lines ?ls) = enumerate 1 ?ls" using ls plain(1) by (intro plain_lines_read) simp_all
  then have fragment: "validateProtoFieldFragment (join_lines ?ls) = Inr ?ls"
    using proto_fragment [OF flds(2), of "[]" 0 1] ls by (simp add: validateProtoFieldFragment_def proto_lines_def)
  have ok: "\<forall>f \<in> set flds. input_ok proto_type f" using flds(2) dotted_type_ok by (auto simp: input_ok_def shared_proto_def)
  have block: "block_of_lines ''message'' name ?ls ''}'' = d"
    using renderProtoMessage_text [OF ok, of name] d
    by (simp add: block_of_lines_def message_head_def proto_lines_def proto_line_text_def comp_def case_prod_unfold)
  show ?thesis
    unfolding buildProtoDefinition_def Let_def normal no_declared_name [OF no_brace_lines [OF plain(2)]]
    using plain_lines_not_blank [OF ls plain(1)] identifier_facts(1) [OF name]
    by (simp add: given_or_inferred_def validateName_same [OF name] fragment block)
qed

subsection \<open>DDS\<close>

definition shared_dds :: "string \<Rightarrow> bool" where
  "shared_dds ty \<longleftrightarrow> ty \<noteq> [] \<and> (is_alpha (hd ty) \<or> hd ty = CHR ''_'') \<and> (\<forall>c \<in> set ty. is_word_char c \<or> c \<in> set '':<>,'')
     \<and> ty \<notin> {''struct'', ''interface'', ''module''}"

lemma dds_input_facts:
  assumes "input_ok shared_dds f"
  shows "plain_line (CHR ''/'') (dds_line f)" "CHR ''{'' \<notin> set (dds_line f)" "dds_fragment_line (k, dds_line f) = Inr (dds_line f)"
    "dds_type (trim (n_type f))"
proof -
  define ty n where "ty = trim (n_type f)" and "n = trim (n_name f)"
  have ty: "shared_dds ty" and n: "identifier_match n" using assms by (simp_all add: input_ok_def ty_def n_def)
  note nf = identifier_facts [OF n]
  have t: "spaced f = ty @ SP # n" "dds_line f = ty @ SP # n @ '';''" by (simp_all add: dds_line_def spaced_def ty_def n_def)
  have bad: "\<not> is_word_char x" "x \<notin> set '':<>, ;''" if "x \<in> {LF, CR, CHR ''/'', CHR ''{''}" for x
    using that by (elim insertE emptyE; simp only:; code_simp)+
  have chars: "is_word_char x \<or> x \<in> set '':<>, ;''" if "x \<in> set (dds_line f)" for x
    using that ty nf(3) by (auto simp: t shared_dds_def)
  then have x: "x \<notin> {LF, CR, CHR ''/'', CHR ''{''}" if "x \<in> set (dds_line f)" for x using bad [of x] that by blast
  have colon: "\<not> is_ws c" if "c \<in> set '':<>,''" for c using that by (auto simp: is_ws_def)
  have ws: "\<forall>c \<in> set ty. \<not> is_ws c" using ty word_not_ws colon unfolding shared_dds_def by blast
  have hd': "\<not> is_ws (hd ty)" "ty \<noteq> []" using ws ty by (auto simp: shared_dds_def)
  have "dds_line f \<noteq> []" "\<not> is_ws (last (dds_line f))" "\<not> is_ws (hd (dds_line f))" using hd' by (simp_all add: t is_ws_def)
  moreover have "\<forall>c \<in> set (dds_line f). c \<noteq> LF \<and> c \<noteq> CR \<and> c \<noteq> CHR ''/''" using x by blast
  ultimately show "plain_line (CHR ''/'') (dds_line f)" unfolding plain_line_def by blast
  show "CHR ''{'' \<notin> set (dds_line f)" using x by blast
  have "CHR ''/'' \<notin> set (dds_line f)" using x by blast
  then have slash: "CHR ''/'' \<notin> set ty" by (simp add: t)
  show "dds_type (trim (n_type f))"
    using ty ws slash unfolding ty_def [symmetric] by (simp add: dds_type_def plain_token_def shared_dds_def)
  have same: "trim (butlast (dds_line f)) = spaced f"
    using hd' nf(1,4) by (simp add: t butlast_append) (rule trim_ident, simp add: hd_append)
  have name': "rev (takeWhile (\<lambda>c. \<not> is_ws c) (rev (spaced f))) = n"
    using takeWhile_stop [of "rev n" "\<lambda>c. \<not> is_ws c" SP "rev ty"] nf(4) by (simp add: t is_ws_def)
  have "trim (ty @ [SP]) = ty"
  proof -
    have "trim (ty @ [SP]) = trim ty" 
      using dropWhile_ws_word [of ty "[SP]"] dropWhile_ws_word [of ty "[]"] hd' by (simp add: trim_def trimStart_def trimEnd_snoc is_ws_def)
    moreover have "trim ty = ty" using ws hd' by (intro trim_ident) auto
    ultimately show ?thesis by simp
  qed
  then have type': "trim (take (length (spaced f) - length n) (spaced f)) = ty" by (simp add: t)
  have "list_all dds_type_char ty" using ty by (auto simp: shared_dds_def dds_type_char_def list_all_iff)
  then have "dds_field_ok (spaced f)"
    unfolding dds_field_ok_def Let_def name' type' using n ty by (simp add: shared_dds_def)
  then show "dds_fragment_line (k, dds_line f) = Inr (dds_line f)"
    using same by (simp add: dds_fragment_line_def Let_def t suffix_def)
qed

lemma dds_agrees:
  assumes name: "identifier_match name" and flds: "flds \<noteq> []" "\<forall>f \<in> set flds. input_ok shared_dds f"
    and d: "renderDdsIdlStruct name flds = Inr d"
  shows "buildDdsIdlDefinition name (join_lines (map dds_line flds)) = Inr \<lparr>bf_name = name, bf_append = [], bf_content = d\<rparr>"
proof -
  let ?ls = "map dds_line flds"
  have ls: "?ls \<noteq> []" using flds(1) by simp
  have plain: "\<forall>l \<in> set ?ls. plain_line (CHR ''/'') l" "\<forall>l \<in> set ?ls. CHR ''{'' \<notin> set l"
    using flds(2) dds_input_facts(1,2) by auto
  have "definitionLines ''//'' (join_lines ?ls) = enumerate 1 ?ls" using ls plain(1) by (intro plain_lines_read) simp_all
  moreover have "rmap dds_fragment_line (enumerate k ?ls) = Inr ?ls" for k
    using flds(2) dds_input_facts(3) by (induction flds arbitrary: k) simp_all
  ultimately have fragment: "validateDdsIdlFieldFragment (join_lines ?ls) = Inr ?ls"
    using ls by (simp add: validateDdsIdlFieldFragment_def)
  have ok: "\<forall>f \<in> set flds. input_ok dds_type f" using flds(2) dds_input_facts(4) by (auto simp: input_ok_def)
  have block: "block_of_lines ''struct'' name ?ls ''};'' = d"
    using renderDdsIdlStruct_text [OF ok, of name] d by (simp add: block_of_lines_def struct_head_def comp_def)
  show ?thesis
    unfolding buildDdsIdlDefinition_def Let_def plain_lines_normal [OF ls plain(1)] no_declared_name [OF no_brace_lines [OF plain(2)]]
    using plain_lines_not_blank [OF ls plain(1)] by (simp add: validateName_same [OF name] fragment block)
qed

subsection \<open>ROS 2 messages\<close>

definition shared_ros :: "string \<Rightarrow> bool" where
  "shared_ros ty \<longleftrightarrow> ty \<noteq> [] \<and> is_alpha (hd ty) \<and> (\<forall>c \<in> set ty. is_word_char c \<or> c = CHR ''/'') \<and> \<not> isRos2ServiceTypeReference ty"

lemma ros_line_facts:
  assumes "input_ok shared_ros f"
  shows "plain_line (CHR ''#'') (spaced f)" "CHR ''='' \<notin> set (spaced f)" "ros_field_line (spaced f)" "spaced f \<noteq> ''---''"
    "ros_type (trim (n_type f))"
proof -
  define ty n where "ty = trim (n_type f)" and "n = trim (n_name f)"
  have ty: "shared_ros ty" and n: "identifier_match n" using assms by (simp_all add: input_ok_def ty_def n_def)
  note nf = identifier_facts [OF n]
  have t: "spaced f = ty @ SP # n" by (simp add: spaced_def ty_def n_def)
  have bad: "\<not> is_word_char x" "x \<notin> set ''/ ''" if "x \<in> {LF, CR, CHR ''#'', CHR ''=''}" for x
    using that by (elim insertE emptyE; simp only:; code_simp)+
  have "is_word_char x \<or> x \<in> set ''/ ''" if "x \<in> set (spaced f)" for x
    using that ty nf(3) by (auto simp: t shared_ros_def)
  then have x: "x \<notin> {LF, CR, CHR ''#'', CHR ''=''}" if "x \<in> set (spaced f)" for x using bad [of x] that by blast
  have slash: "\<not> is_ws (CHR ''/'')" by (simp add: is_ws_def)
  have ws: "\<forall>c \<in> set ty. \<not> is_ws c" using ty word_not_ws slash unfolding shared_ros_def by blast
  have hd': "\<not> is_ws (hd ty)" "ty \<noteq> []" using ws ty by (auto simp: shared_ros_def)
  have "spaced f \<noteq> []" "\<not> is_ws (last (spaced f))" "\<not> is_ws (hd (spaced f))" using hd' nf(1,4) by (simp_all add: t)
  moreover have "\<forall>c \<in> set (spaced f). c \<noteq> LF \<and> c \<noteq> CR \<and> c \<noteq> CHR ''#''" using x by blast
  ultimately show "plain_line (CHR ''#'') (spaced f)" unfolding plain_line_def by blast
  show "CHR ''='' \<notin> set (spaced f)" using x by blast
  have dash: "\<not> is_alpha (CHR ''-'')" by code_simp
  then have "hd ty \<noteq> CHR ''-''" using ty by (auto simp: shared_ros_def)
  then show "spaced f \<noteq> ''---''" using hd' by (cases ty) (auto simp: t)
  have "CHR ''#'' \<notin> set (spaced f)" using x by blast
  moreover have "\<not> startsWith ty ''---''" using \<open>hd ty \<noteq> CHR ''-''\<close> hd' by (cases ty) (auto simp: prefix_def)
  ultimately show "ros_type (trim (n_type f))"
    using ty ws unfolding ty_def [symmetric] by (simp add: ros_type_def plain_token_def shared_ros_def t)
  have "\<not> is_ros_type_char SP" by code_simp
  moreover have "\<forall>c \<in> set ty. is_ros_type_char c" using ty by (auto simp: shared_ros_def is_ros_type_char_def)
  ultimately have run: "takeWhile is_ros_type_char (spaced f) = ty" using takeWhile_stop by (simp add: t)
  have "takeWhile is_word_char n = n" "dropWhile is_word_char n = []" using nf(3) by (simp_all add: takeWhile_eq_all_conv dropWhile_eq_Nil_conv)
  then have "eat_ident is_word_char n = Some (n, [])" using nf(1,2) by (cases n) (auto simp: eat_ident_def)
  moreover have "eat_word [] (SP # n) = Some n" using eat_gap [of n "[]"] nf(1,4) by simp
  ultimately have "name_and_value (SP # n)" by (simp add: name_and_value_def)
  then show "ros_field_line (spaced f)"
    unfolding ros_field_line_def Let_def run using ty hd' by (simp add: t after_array_def shared_ros_def hd_append)
qed

lemma message_agrees:
  assumes name: "identifier_match name" and flds: "flds \<noteq> []" "\<forall>f \<in> set flds. input_ok shared_ros f"
    and d: "renderRosFields flds = Inr d"
  shows "buildRosMessageDefinition name (join_lines (map spaced flds)) = Inr \<lparr>bf_name = name, bf_append = [], bf_content = d\<rparr>"
proof -
  let ?ls = "map spaced flds"
  have ls: "?ls \<noteq> []" using flds(1) by simp
  have plain: "\<forall>l \<in> set ?ls. plain_line (CHR ''#'') l" using flds(2) ros_line_facts(1) by auto
  have lines': "definitionLines ''#'' (join_lines ?ls) = enumerate 1 ?ls" using ls plain by (intro plain_lines_read) simp_all
  have none: "find (\<lambda>(number, line). line = ''---'' \<or> \<not> ros_field_line line) (enumerate k ?ls) = None" for k
    using flds(2) ros_line_facts(3,4) by (induction flds arbitrary: k) auto
  obtain f fs where f: "flds = f # fs" using flds(1) by (cases flds) auto
  then have "\<not> list_all (\<lambda>(number, line). CHR ''='' \<in> set line) (enumerate 1 ?ls)" using flds(2) ros_line_facts(2) [of f] by simp
  with none have fields': "validateRosFields (join_lines ?ls) ''msg'' True = Inr ()"
    by (simp add: validateRosFields_def lines' fail_if_def)
  have "\<forall>f \<in> set flds. input_ok ros_type f" using flds(2) ros_line_facts(5) by (auto simp: input_ok_def)
  then have text': "join_lines ?ls = d" using renderRosFields_text [of flds] d by simp
  have "\<forall>l \<in> set ?ls. l \<noteq> []" "\<not> is_ws (hd (hd ?ls))" "\<not> is_ws (last (last ?ls))"
    using plain hd_in_set [OF ls] last_in_set [OF ls] unfolding plain_line_def by blast+
  then have "trim (join_lines ?ls) = join_lines ?ls" using join_hd_last(2,3) [OF ls] by (intro trim_ident) simp
  with plain_lines_not_blank [OF ls plain] fields' text' plain_lines_normal [OF ls plain] show ?thesis
    by (simp add: buildRosMessageDefinition_def Let_def validateName_same [OF name])
qed

subsection \<open>The same file\<close>

definition shared_type :: "DataFormatKind \<Rightarrow> string \<Rightarrow> bool" where
  "shared_type kind = (case kind of Proto \<Rightarrow> shared_proto | Dds_Idl \<Rightarrow> shared_dds | _ \<Rightarrow> shared_ros)"

definition form_lines :: "DataFormatKind \<Rightarrow> dataFormatFieldInput list \<Rightarrow> string list" where
  "form_lines kind flds = (case kind of Proto \<Rightarrow> proto_lines flds | Dds_Idl \<Rightarrow> map dds_line flds | _ \<Rightarrow> map spaced flds)"

lemma proto_file_agrees:
  assumes "stored_text Proto svc name d = Inr t" "trimEnd d = d" "d \<noteq> []" "\<not> is_ws (last d)"
  shows "trimEnd (with_header svc d) @ nl = t"
proof -
  have "t = header_tokens svc (LF # d @ nl)"
    using assms(1,2) new_proto_file [of name svc d] by (auto simp: stored_text_def appendProtoMessageBlock_def split: if_splits)
  moreover have "trimEnd (with_header svc d) = with_header svc d"
    by (rule trimEnd_ident) (use assms(3,4) in \<open>simp add: with_header_def\<close>)
  ultimately show ?thesis
    by (simp add: with_header_def protoHeader_def header_tokens_def package_of_def nl_def quoted_def)
qed

text \<open>The command and the dashboard agree: for a proto message, a ROS 2 message or a DDS structure whose
  field types both sides take, \<open>./pr data-format\<close> with the field lines builds a definition of the same name, and
  writes the very file that the dashboard's form leaves.\<close>

theorem command_agrees_with_form:
  assumes "identifier_match name" "flds \<noteq> []" "kind \<noteq> Srv" "\<forall>f \<in> set flds. input_ok (shared_type kind) f"
    and "renderDataFormatDefinition \<lparr>c_moduleName = m, c_fields = flds, c_kind = kind, c_name = name, c_responseFields = None\<rparr> = Inr d"
    and "stored_text kind svc name d = Inr t"
  shows "\<exists>built. buildDefinition kind name (join_lines (form_lines kind flds)) svc = Inr built
    \<and> bf_name built = name \<and> trimEnd (bf_content built) @ nl = t"
proof -
  note name = assms(1) and flds = assms(2,4)
  have "trim name = name" using identifier_facts(1,4) [OF name] by (intro trim_ident) simp
  then have valid: "validateDataFormatName name = Inr name" using name by (simp add: validateDataFormatName_def)
  show ?thesis
  proof (cases kind)
    case Proto
    then have ok: "\<forall>f \<in> set flds. input_ok shared_proto f" and d: "renderProtoMessage name flds = Inr d"
      using assms(4,5) valid by (simp_all add: shared_type_def renderDataFormatDefinition_def)
    have "\<forall>f \<in> set flds. input_ok dotted_type f" using ok by (auto simp: input_ok_def shared_proto_def)
    from rendered_message [OF this d] have last': "d \<noteq> []" "\<not> is_ws (last d)" by (simp_all add: is_ws_def)
    then have "trimEnd d = d" by (intro trimEnd_ident) simp
    from proto_file_agrees [OF _ this last'] proto_agrees [OF name flds(1) ok d, of svc] assms(6) Proto show ?thesis
      by (simp add: buildDefinition_def form_lines_def)
  next
    case Dds_Idl
    then have "\<forall>f \<in> set flds. input_ok shared_dds f" "renderDdsIdlStruct name flds = Inr d" "t = trimEnd d @ nl"
      using assms(4,5,6) valid by (simp_all add: shared_type_def renderDataFormatDefinition_def stored_text_def)
    with dds_agrees [OF name flds(1)] Dds_Idl show ?thesis by (simp add: buildDefinition_def form_lines_def)
  next
    case Msg
    then have "\<forall>f \<in> set flds. input_ok shared_ros f" "renderRosFields flds = Inr d" "t = trimEnd d @ nl"
      using assms(4,5,6) valid by (simp_all add: shared_type_def renderDataFormatDefinition_def stored_text_def)
    with message_agrees [OF name flds(1)] Msg show ?thesis by (simp add: buildDefinition_def form_lines_def)
  next
    case Srv
    with assms(3) show ?thesis by simp
  qed
qed

definition grip_fields :: "dataFormatFieldInput list" where
  "grip_fields = [\<lparr>n_name = ''force'', n_type = ''double''\<rparr>, \<lparr>n_name = ''stamp'', n_type = ''common.Time''\<rparr>]"

definition grip_definition :: string where
  "grip_definition = ''message Grip {'' @ nl @ ''  double force = 1;'' @ nl @ ''  common.Time stamp = 2;'' @ nl @ ''}''"

lemma command_agrees_with_form_witness:
  "\<exists>built. buildDefinition Proto ''Grip'' (''double force = 1;'' @ nl @ ''common.Time stamp = 2;'') ''arm'' = Inr built
    \<and> bf_name built = ''Grip'' \<and> trimEnd (bf_content built) @ nl = header_tokens ''arm'' (LF # grip_definition @ nl)"
proof -
  have ok: "identifier_match ''Grip''" "grip_fields \<noteq> []" "Proto \<noteq> Srv" "\<forall>f \<in> set grip_fields. input_ok (shared_type Proto) f"
    by code_simp+
  have d: "renderDataFormatDefinition \<lparr>c_moduleName = [], c_fields = grip_fields, c_kind = Proto, c_name = ''Grip'',
      c_responseFields = None\<rparr> = Inr grip_definition" by code_simp
  have t: "stored_text Proto ''arm'' ''Grip'' grip_definition = Inr (header_tokens ''arm'' (LF # grip_definition @ nl))" by code_simp
  have ls: "join_lines (form_lines Proto grip_fields) = ''double force = 1;'' @ nl @ ''common.Time stamp = 2;''" by code_simp
  from command_agrees_with_form [OF ok d t] show ?thesis unfolding ls .
qed

end
