(* ===== verification/Scaffold_Catalog_Keys.thy ===== *)
theory Scaffold_Catalog_Keys
  imports Scaffold_Published
begin

text \<open>
  The catalog as a keyed store: every object of it holds its entries under names of theirs, whatever
  files the protocol directories have, and the lists of artifacts have each file and language once.
\<close>

subsection \<open>The entries\<close>

definition typed_entry :: "string \<Rightarrow> string \<Rightarrow> protocol \<Rightarrow> bool" where
  "typed_entry format k p \<longleftrightarrow> pc_type p = k \<and> pc_format p = format"

definition message_entry :: "string \<Rightarrow> protocol \<Rightarrow> bool" where
  "message_entry k p \<longleftrightarrow> k = pc_idlService p @ ''.'' @ pc_name p \<and> pc_format p = ''protobuf_message''"

definition rpc_entry :: "string \<Rightarrow> protocol \<Rightarrow> bool" where
  "rpc_entry k p \<longleftrightarrow> k = pc_idlService p @ ''.'' @ pc_service p @ ''.'' @ pc_rpc p \<and> pc_format p = ''protobuf_rpc''"

definition route_entry :: "route_kind \<Rightarrow> string \<Rightarrow> public_route \<Rightarrow> bool" where
  "route_entry kind k r \<longleftrightarrow> pu_ref r = pu_idlService r @ ''.'' @ pu_name r \<and> (k = pu_ref r \<or> k \<in> set (publicBindingRefs kind r))"

definition artifact_entry :: "bool \<Rightarrow> string \<Rightarrow> generated_artifact list \<Rightarrow> bool" where
  "artifact_entry service k as \<longleftrightarrow>
     list_all (\<lambda>a. ga_type a = k \<and> (ga_kind a = ''service'') = service) as \<and> distinct (map (\<lambda>a. (ga_file a, ga_language a)) as)"

definition catalog_keyed :: "catalog \<Rightarrow> bool" where
  "catalog_keyed cat \<longleftrightarrow>
     all_entries message_entry (ca_protoMessages cat) \<and> all_entries rpc_entry (ca_protoRpcs cat)
     \<and> all_entries (typed_entry ''dds_idl'') (ca_ddsMessages cat) \<and> all_entries (typed_entry ''dds_idl_rpc'') (ca_ddsRpcs cat)
     \<and> all_entries (typed_entry ''ros2_msg'') (ca_ros2Messages cat) \<and> all_entries (typed_entry ''ros2_srv'') (ca_ros2Services cat)
     \<and> all_entries (route_entry Topic_Route) (ca_topics cat) \<and> all_entries (route_entry Service_Route) (ca_services cat)
     \<and> all_entries (artifact_entry False) (ca_messageArtifacts cat) \<and> all_entries (artifact_entry True) (ca_serviceArtifacts cat)"

lemma all_entries_map: "(\<And>x. x \<in> set xs \<Longrightarrow> P (f x) (g x)) \<Longrightarrow> all_entries P (map (\<lambda>x. (f x, g x)) xs)"
  by (induction xs) auto

lemma all_entries_lookup: "all_entries P m \<Longrightarrow> map_of m k = Some v \<Longrightarrow> P k v"
  by (auto simp: all_entries_def dest: map_of_SomeD)

subsection \<open>The parsers\<close>

lemma proto_text_keyed:
  "all_entries message_entry (pm_messages (parse_proto_text svc f t))" "all_entries rpc_entry (pm_rpcs (parse_proto_text svc f t))"
proof -
  have "message_entry (svc @ ''.'' @ pc_name (proto_message_of p svc f m)) (proto_message_of p svc f m)" for p m
    by (simp add: message_entry_def proto_message_of_def split_beta)
  then show "all_entries message_entry (pm_messages (parse_proto_text svc f t))"
    unfolding parse_proto_text_def Let_def by (auto simp del: map_map intro!: all_entries_assign all_entries_map)
  show "all_entries rpc_entry (pm_rpcs (parse_proto_text svc f t))"
    unfolding parse_proto_text_def Let_def
    by (auto simp: rpc_entry_def proto_rpc_of_def Let_def intro!: all_entries_assign all_entries_map)
qed

lemma aliases_keyed:
  assumes "all_entries (typed_entry fmt) m" "pc_format item = fmt"
  shows "all_entries (typed_entry fmt) (with_aliases item m)"
  by (rule all_entries_aliases) (use assms in \<open>simp_all add: typed_entry_def\<close>)

lemma idl_text_keyed:
  "all_entries (typed_entry ''dds_idl'') (pm_messages (parse_idl_text svc f t))"
  "all_entries (typed_entry ''dds_idl_rpc'') (pm_rpcs (parse_idl_text svc f t))"
  unfolding parse_idl_text_def Let_def
  by (auto simp: idl_struct_of_def idl_rpc_of_def Let_def intro!: all_entries_fold aliases_keyed)

lemma public_routes_keyed: "all_entries (route_entry kind) (public_routes kind svc f es)"
proof -
  have "all_entries (route_entry kind) (add_public_route kind r m)"
    if "all_entries (route_entry kind) m" "pu_ref r = pu_idlService r @ ''.'' @ pu_name r" for r m
    unfolding add_public_route_def
    by (rule all_entries_fold) (use that in \<open>auto simp: route_entry_def intro: all_entries_update all_entries_free\<close>)
  moreover have "pu_ref (public_route_of kind svc f e) = pu_idlService (public_route_of kind svc f e) @ ''.'' @ pu_name (public_route_of kind svc f e)" for e
    by (simp add: public_route_of_def split_beta)
  ultimately show ?thesis unfolding public_routes_def by (intro all_entries_fold) auto
qed

subsection \<open>Artifacts\<close>

lemma add_artifact_keyed:
  assumes "all_entries (artifact_entry s) m" "ga_type a = k" "(ga_kind a = ''service'') = s"
  shows "all_entries (artifact_entry s) (addArtifact k a m)"
proof -
  define old where "old = nullish (map_of m k) []"
  have "artifact_entry s k old"
    using all_entries_lookup [OF assms(1), of k] by (cases "map_of m k") (auto simp: old_def nullish_def artifact_entry_def)
  then have "artifact_entry s k (if list_ex (\<lambda>b. same_artifact b a) old then old else old @ [a])"
    using assms(2,3) by (auto simp: artifact_entry_def same_artifact_def list_ex_iff)
  with assms(1) show ?thesis unfolding addArtifact_def Let_def old_def [symmetric] by (rule all_entries_update)
qed

lemma generated_keyed:
  "all_entries (artifact_entry False) (am_messages (generated_artifacts_of src f t))
   \<and> all_entries (artifact_entry True) (am_services (generated_artifacts_of src f t))"
proof -
  have "all_entries (artifact_entry False) (am_messages (fold add_by_kind xs m)) \<and> all_entries (artifact_entry True) (am_services (fold add_by_kind xs m))"
    if "all_entries (artifact_entry False) (am_messages m)" "all_entries (artifact_entry True) (am_services m)" for xs m
    using that by (induction xs arbitrary: m) (simp_all add: add_by_kind_def add_artifact_keyed)
  from this [of "\<lparr>am_messages = [], am_services = []\<rparr>"] show ?thesis unfolding generated_artifacts_of_def Let_def by (simp del: fold_append)
qed

lemma merge_artifacts_keyed:
  assumes "all_entries (artifact_entry s) source" "all_entries (artifact_entry s) target"
  shows "all_entries (artifact_entry s) (mergeArtifacts source target)"
  unfolding mergeArtifacts_def
proof (rule all_entries_fold [OF assms(2)])
  fix e n assume e: "e \<in> set source" and n: "all_entries (artifact_entry s) n"
  obtain k as where [simp]: "e = (k, as)" by (cases e)
  have as: "ga_type a = k \<and> (ga_kind a = ''service'') = s" if "a \<in> set as" for a
    using assms(1) e that by (auto simp: all_entries_def artifact_entry_def list_all_iff)
  have "all_entries (artifact_entry s) (if map_of n k = None then AList.update k [] n else n)"
    using n by (auto simp: artifact_entry_def intro: all_entries_update)
  then show "all_entries (artifact_entry s) ((\<lambda>(type', artifacts) m.
      let m' = (if map_of m type' = None then AList.update type' [] m else m) in fold (addArtifact type') artifacts m') e n)"
    using as by (auto intro!: all_entries_fold add_artifact_keyed)
qed

subsection \<open>The whole catalog\<close>

lemma ros_source_format: "pc_format (ros2_source rootDir src f fmt) = fmt"
  by (simp add: ros2_source_def split_beta)

lemma load_text_keyed:
  assumes "catalog_keyed cat" "load_text rootDir src f t cat = Inr cat'"
  shows "catalog_keyed cat'"
proof -
  note parts = proto_text_keyed idl_text_keyed public_routes_keyed generated_keyed
  have ros: "pc_format (ros2_message_of rootDir src f t) = ''ros2_msg''" "pc_format (ros2_service_of rootDir src f t) = ''ros2_srv''"
    by (simp_all add: ros2_message_of_def ros2_service_of_def ros_source_format Let_def)
  from assms show ?thesis
    by (auto simp: load_text_def catalog_keyed_def mergeProtoCatalog_def mergeDdsIdlCatalog_def addRos2SourceProtocol_def
        mergeGeneratedArtifactCatalog_def mergePublicInterfaceCatalog_def rbind_def ros parts Let_def
        intro!: all_entries_assign aliases_keyed merge_artifacts_keyed split: if_splits sum.splits)
qed

lemma load_files_keyed:
  "catalog_keyed cat \<Longrightarrow> load_files fs rootDir src files cat = Inr cat' \<Longrightarrow> catalog_keyed cat'"
proof (induction files arbitrary: cat)
  case (Cons f files)
  then show ?case by (auto simp: rbind_def dest: load_text_keyed split: if_splits sum.splits)
qed simp

lemma load_sources_keyed:
  "catalog_keyed cat \<Longrightarrow> load_sources fs rootDir sources cat = Inr cat' \<Longrightarrow> catalog_keyed cat'"
proof (induction sources arbitrary: cat)
  case (Cons s sources)
  then show ?case by (auto simp: rbind_def dest: load_files_keyed split: if_splits sum.splits)
qed simp

text \<open>Whatever files the protocol directories hold, the catalog that the scaffold loads is keyed by what it
  stores: a message of a proto file stands under its service and name, an rpc under its service, interface and name,
  a DDS or ROS 2 protocol under its type (an alias is a copy with the alias as its type), a public route
  under its reference or an address of its own, and an artifact under its type, in the object of its kind, once for each
  file and language.\<close>

theorem catalog_is_keyed:
  assumes "loadProtocolCatalog fs rootDir sources = Inr cat"
  shows "catalog_keyed cat"
  using load_sources_keyed [of emptyCatalog] assms
  by (simp add: loadProtocolCatalog_def catalog_keyed_def emptyCatalog_def)

definition sample_tree :: node where
  "sample_tree = Dir [(''idl'', Dir [(''arm'', Dir [
     (''ros2'', Dir [(''arm'', Dir [(''msg'', Dir [(''Pose.msg'', File ''float64 x'')])])]),
     (''dds'', Dir [(''a.idl'', File (''module arm { struct P {'' @ nl @ ''long x;'' @ nl @ ''}; };''))])])])]"

lemma catalog_is_keyed_witness:
  "case loadProtocolCatalog sample_tree [] [[''idl'']] of Inr cat \<Rightarrow> catalog_keyed cat \<and> length (ca_ddsMessages cat) = 3 | Inl _ \<Rightarrow> False"
proof -
  have "case loadProtocolCatalog sample_tree [] [[''idl'']] of Inr cat \<Rightarrow> length (ca_ddsMessages cat) = 3 | Inl _ \<Rightarrow> False"
    by code_simp
  then show ?thesis
    using catalog_is_keyed [of sample_tree "[]" "[[''idl'']]"] by (auto split: sum.splits)
qed

text \<open>
  Inputs at which the readers of the scaffold part from the formats they read, each on a text of a
  few lines.
\<close>

text \<open>A bound is written with \<open><=\<close>, and a line with an equals sign is taken for a constant.\<close>

theorem bounded_types_skipped:
  "map sf_name (parseRos2Fields (''string<=10 name'' @ nl @ ''int32 count'')) = [''count'']"
  by code_simp

text \<open>A message on one line reaches to the closing brace of the next one.\<close>

theorem one_line_message_swallows:
  "map fst (pm_messages (parse_proto_text ''arm'' ''arm.proto''
     (''message Ping {}'' @ nl @ ''message Pose {'' @ nl @ ''  double x = 1;'' @ nl @ ''}'' @ nl))) = [''arm.Ping'']"
  by code_simp

text \<open>A bound in the short form counts, and so does a comma of the element type.\<close>

theorem bounds_by_commas:
  "isUnboundedType ''sequence<string>''" "\<not> isUnboundedType ''sequence<string, 4>''" "\<not> isUnboundedType ''string<4>''"
  "isUnboundedType ''sequence<sequence<long> >''" "\<not> isUnboundedType ''sequence<map<long, string>>''"
  by code_simp+

text \<open>The commas of a bounded sequence separate parameters.\<close>

theorem parameters_split_in_types:
  "map (\<lambda>f. (sf_name f, sf_type f)) (parseParameters ''in sequence<long, 3> xs'') = [(''xs'', ''3>'')]"
  by code_simp

text \<open>The contract of a published service with JSON data keeps the word \<open>json\<close>, which no reader of contracts knows.\<close>

theorem published_json_service:
  "public_format Service_Route (Some (YString ''json'')) = ''json''"
  "serviceContractFormat (Some (YString ''json'')) = ''json_rpc''"
  by code_simp+

text \<open>The dashboard looks for the package in the text of the message alone, so a message of a file with a package of its
  own is published under a type that the scaffold does not have.\<close>

definition packaged_proto :: string where
  "packaged_proto = ''package robot.arm;'' @ nl @ ''message Pose {'' @ nl @ ''  double x = 1;'' @ nl @ ''}'' @ nl"

theorem own_package_not_found:
  "map (\<lambda>f. publicTypeFromDataFormat f ''arm'') (parseProtoFormats packaged_proto ''arm.proto'') = [package_of ''arm'' @ ''.Pose'']"
  "findProtoMessageByType (package_of ''arm'' @ ''.Pose'')
     (mergeProtoCatalog ''arm.proto'' (parse_proto_text ''arm'' ''arm.proto'' packaged_proto) emptyCatalog) = None"
  by code_simp+

end
