(* ===== verification/Format_Limits.thy ===== *)
theory Format_Limits
  imports Format_Agree Scaffold_Catalog_Keys
begin

text \<open>
  What \<open>./pr data-format --force\<close> replaces, the package files that the command writes beside those of
  the dashboard, and the definitions that the command takes but the scaffold does not read.
\<close>

subsection \<open>Blocks\<close>

lemma find_place_split:
  "find_place m prev s = Some (before, r) \<Longrightarrow> s = before @ r \<and> m (if before = [] then prev else Some (last before)) r"
  by (induction m prev s arbitrary: before rule: find_place.induct) (auto split: if_splits)

lemma matching_brace_split:
  "matching_brace depth s = Some (body, rest) \<Longrightarrow> 1 \<le> depth \<or> depth = 0 \<and> startsWith s ''{'' \<Longrightarrow>
    s = body @ rest \<and> brace_depth depth body = Some 0 \<and> body \<noteq> [] \<and> last body = CHR ''}''"
proof (induction depth s arbitrary: body rule: matching_brace.induct)
  case (2 depth c cs)
  let ?next = "if c = CHR ''{'' then depth + 1 else if c = CHR ''}'' then depth - 1 else depth"
  show ?case
  proof (cases "c = CHR ''}'' \<and> depth = 1")
    case True
    with "2.prems"(1) show ?thesis by auto
  next
    case False
    with "2.prems"(1) obtain b where b: "matching_brace ?next cs = Some (b, rest)" "body = c # b" by auto
    have "1 \<le> ?next" using "2.prems"(2) False by (cases "c = CHR ''}''") auto
    with "2.IH" [OF False b(1)] have "cs = b @ rest" "brace_depth ?next b = Some 0" "b \<noteq> []" "last b = CHR ''}''" by blast+
    then show ?thesis using "2.prems"(2) False by (auto simp: b(2))
  qed
qed simp

lemma brace_depth_skip:
  "CHR ''{'' \<notin> set a \<Longrightarrow> CHR ''}'' \<notin> set a \<Longrightarrow> brace_depth depth (a @ b) = brace_depth depth b"
  by (induction a) auto

lemma ws_no_brace: "is_ws c \<Longrightarrow> c \<noteq> CHR ''{'' \<and> c \<noteq> CHR ''}''"
  by (auto simp: is_ws_def)

lemma block_head:
  assumes "block_starts ''message'' name prev s" "identifier_match name"
  shows "CHR ''}'' \<notin> set (takeWhile (\<lambda>c. c \<noteq> CHR ''{'') s)" "startsWith (dropWhile (\<lambda>c. c \<noteq> CHR ''{'') s) ''{''"
proof -
  from assms(1) obtain r r2 r3 where r: "eat_word ''message'' s = Some r" "eat_text name r = Some r2" "eat_char (CHR ''{'') r2 = Some r3"
    unfolding block_starts_def by (auto simp: bind_eq_Some_conv)
  define w where "w = takeWhile is_ws (drop 7 s)"
  define w' where "w' = takeWhile is_ws r2"
  have "s = ''message'' @ drop 7 s" "r = dropWhile is_ws (drop 7 s)"
    using r(1) by (auto simp: eat_word_def prefix_def split: if_splits)
  then have s: "s = ''message'' @ w @ r" by (simp add: w_def)
  have "r = name @ r2" using r(2) by (auto simp: eat_text_def prefix_def split: if_splits)
  moreover have "r2 = w' @ CHR ''{'' # r3"
  proof -
    have "dropWhile is_ws r2 = CHR ''{'' # r3" using r(3) by (auto simp: eat_char_def split: list.splits if_splits)
    with takeWhile_dropWhile_id [of is_ws r2] show ?thesis by (simp add: w'_def)
  qed
  ultimately have s': "s = (''message'' @ w @ name @ w') @ CHR ''{'' # r3" using s by simp
  have ws: "\<forall>c \<in> set w \<union> set w'. is_ws c" by (auto simp: w_def w'_def dest: set_takeWhileD)
  have none: "c \<noteq> CHR ''{'' \<and> c \<noteq> CHR ''}''" if "c \<in> set (''message'' @ w @ name @ w')" for c
  proof -
    have "c \<in> set ''message'' \<or> is_ws c \<or> is_word_char c" using that ws identifier_facts(3) [OF assms(2)] by auto
    then show ?thesis using ws_no_brace no_brace_word by auto
  qed
  then have "takeWhile (\<lambda>c. c \<noteq> CHR ''{'') s = ''message'' @ w @ name @ w'"
    unfolding s' by (intro takeWhile_stop) blast+
  with none show "CHR ''}'' \<notin> set (takeWhile (\<lambda>c. c \<noteq> CHR ''{'') s)" by (metis (no_types))
  have "dropWhile (\<lambda>c. c \<noteq> CHR ''{'') s = CHR ''{'' # r3"
    unfolding s' by (intro dropWhile_stop) (use none in blast)+
  then show "startsWith (dropWhile (\<lambda>c. c \<noteq> CHR ''{'') s) ''{''" by simp
qed

text \<open>A forced replacement changes one message and nothing else: the text splits around the first block of that
  name, from the keyword to the brace that closes it, the new text has the replacement in its place (but for white space
  at the end of the file), and that block is the one that \<open>extractNamedBlock\<close> finds.\<close>

theorem forced_block_replaced:
  assumes "replaceNamedBlock current ''message'' name replacement = Inr t" "identifier_match name"
  shows "\<exists>before block after. current = before @ block @ after
    \<and> t = trimEnd (before @ trimEnd replacement @ after) @ nl
    \<and> block_starts ''message'' name (if before = [] then None else Some (last before)) (block @ after)
    \<and> brace_depth 0 block = Some 0 \<and> last block = CHR ''}''
    \<and> extractNamedBlock current ''message'' name = Inr (trim block)"
proof -
  from assms(1) obtain before block after where found: "find_block ''message'' name current = Block before block after"
    and t: "t = trimEnd (before @ trimEnd replacement @ after) @ nl"
    by (auto simp: replaceNamedBlock_def split: block_search.splits)
  from found obtain s where place: "find_place (block_starts ''message'' name) None current = Some (before, s)"
    by (auto simp: find_block_def Let_def split: option.splits)
  note split' = find_place_split [OF place]
  let ?head = "takeWhile (\<lambda>c. c \<noteq> CHR ''{'') s"
  have rest: "drop (length ?head) s = dropWhile (\<lambda>c. c \<noteq> CHR ''{'') s" by (simp add: dropWhile_eq_drop)
  from found place rest obtain body where body: "matching_brace 0 (dropWhile (\<lambda>c. c \<noteq> CHR ''{'') s) = Some (body, after)" "block = ?head @ body"
    by (auto simp: find_block_def Let_def split: option.splits)
  note head' = block_head [OF conjunct2 [OF split'] assms(2)]
  have m: "dropWhile (\<lambda>c. c \<noteq> CHR ''{'') s = body @ after" "brace_depth 0 body = Some 0" "body \<noteq> []" "last body = CHR ''}''"
    using matching_brace_split [OF body(1)] head'(2) by auto
  have "s = block @ after" using m(1) takeWhile_dropWhile_id [of "\<lambda>c. c \<noteq> CHR ''{''" s] by (simp add: body(2))
  moreover have "CHR ''{'' \<notin> set ?head" by (auto dest: set_takeWhileD)
  then have "brace_depth 0 block = Some 0" using brace_depth_skip [OF _ head'(1)] m(2) by (simp add: body(2))
  ultimately show ?thesis
    using split' t m(3,4) found by (intro exI [of _ before] exI [of _ block] exI [of _ after]) (auto simp: body(2) extractNamedBlock_def)
qed

lemma forced_block_replaced_witness:
  "\<exists>before block after. ''message A {'' @ nl @ ''}'' @ nl @ ''message B {}'' = before @ block @ after
    \<and> ''message A {'' @ nl @ ''}'' @ nl @ ''message B {int32 x = 1;}'' @ nl = trimEnd (before @ trimEnd ''message B {int32 x = 1;}'' @ after) @ nl
    \<and> block_starts ''message'' ''B'' (if before = [] then None else Some (last before)) (block @ after)
    \<and> brace_depth 0 block = Some 0 \<and> last block = CHR ''}''
    \<and> extractNamedBlock (''message A {'' @ nl @ ''}'' @ nl @ ''message B {}'') ''message'' ''B'' = Inr (trim block)"
proof (rule forced_block_replaced)
  show "replaceNamedBlock (''message A {'' @ nl @ ''}'' @ nl @ ''message B {}'') ''message'' ''B'' ''message B {int32 x = 1;}''
      = Inr (''message A {'' @ nl @ ''}'' @ nl @ ''message B {int32 x = 1;}'' @ nl)"
    by code_simp
  show "identifier_match ''B''" by code_simp
qed

subsection \<open>Package files\<close>

text \<open>The package files are those of the dashboard; without dependencies the dashboard's \<open>CMakeLists.txt\<close> has one
  more blank line.\<close>

lemma squeeze_none: "\<forall>l \<in> set ls. l \<noteq> [] \<Longrightarrow> squeeze_blank before (ls @ rest) = ls @ squeeze_blank (if ls = [] then before else Some (last ls)) rest"
  by (induction ls arbitrary: before) auto

theorem package_files_agree:
  "package_xml svc deps = renderRos2PackageXml svc deps"
  "deps \<noteq> [] \<Longrightarrow> package_cmake svc files deps = renderRos2PackageCMake svc files deps"
proof -
  show "package_xml svc deps = renderRos2PackageXml svc deps" by (simp add: package_xml_def renderRos2PackageXml_def)
  assume deps: "deps \<noteq> []"
  have "\<forall>l \<in> set (map (\<lambda>d. ''find_package('' @ d @ '' REQUIRED)'') deps). l \<noteq> []" "\<forall>l \<in> set (map (\<lambda>f. ''  '' @ quoted f) files). l \<noteq> []"
    by auto
  from squeeze_none [OF this(1)] squeeze_none [OF this(2)] show "package_cmake svc files deps = renderRos2PackageCMake svc files deps"
    using deps by (simp add: package_cmake_def renderRos2PackageCMake_def last_map)
qed

subsection \<open>Limits\<close>

text \<open>A required field is valid for the command, and skipped by the scaffold.\<close>

theorem required_field_not_read:
  "validateProtoFieldFragment ''required int32 x = 1;'' = Inr [''required int32 x = 1;'']"
  "parseProtoFields (LF # ''  required int32 x = 1;'') = []"
  by code_simp+

text \<open>A message on one line is stored as it is, and the scaffold does not find it.\<close>

theorem one_line_block_not_read:
  "map_sum id bf_append (buildProtoDefinition [] ''message Ping { int32 x = 1; }'' ''arm'') = Inr ''message Ping { int32 x = 1; }''"
  "pm_messages (parse_proto_text ''arm'' ''arm.proto'' (''message Ping { int32 x = 1; }'' @ nl)) = []"
  by code_simp+

text \<open>A header counts only with an equals sign or a semicolon right after its keyword: imports alone are dropped.\<close>

theorem imports_dropped:
  "map_sum id (\<lambda>b. has_sub (bf_content b) ''import'')
     (buildProtoDefinition [] (''import '' @ quoted ''common.proto'' @ '';'' @ nl @ ''message Ping {'' @ nl @ ''  int32 x = 1;'' @ nl @ ''}'') ''arm'') = Inr False"
  by code_simp

text \<open>A message whose name is the beginning of another one can neither be added nor forced.\<close>

definition prefix_tree :: node where
  "prefix_tree = Dir [(''a.proto'', File (''message PoseArray {'' @ nl @ ''}'' @ nl))]"

theorem prefix_name_refused:
  "fst (writeProtoDefinition [] [''a.proto''] \<lparr>bf_name = ''Pose'', bf_append = ''message Pose {}'', bf_content = []\<rparr> True prefix_tree)
   = Inl (''Unable to locate message '' @ quoted ''Pose'' @ ''.'')"
  by code_simp

text \<open>Any directory below the root is a service.\<close>

theorem any_directory_is_service:
  "resolveServiceModuleRoot [] ''bin/templates'' (Dir [(''bin'', Dir [(''templates'', Dir [])])]) = Inr [''bin'', ''templates'']"
  by code_simp

end
