(* ===== verification/Robot_Cli.thy ===== *)
theory Robot_Cli
  imports Robot_Profiles Scaffold_Sources
begin

text \<open>
  The robot commands \<open>./pr robot:profiles\<close>, \<open>robot:show\<close>, \<open>robot:check\<close> and \<open>robot:deploy\<close>
  (\<open>bin/robot-profiles.mjs\<close>). The JSON files may have any shape: an access that throws is an error of
  the run, whatever the run had printed. A number is the decimal that the JSON text writes.
  Objects and arrays of two files are never identical.
\<close>

subsection \<open>JSON values\<close>

definition decimal_text :: "rat \<Rightarrow> string" where
  "decimal_text q =
     (case find (\<lambda>d. snd (quotient_of (q * 10 ^ d)) = 1) [0..<17] of
        Some d \<Rightarrow> number_string (fst (quotient_of (q * 10 ^ d))) d
      | None \<Rightarrow> number_string \<lfloor>q * 10 ^ 16\<rfloor> 16)"

text \<open>\<open>String(v)\<close>.\<close>

fun json_text :: "json \<Rightarrow> string" where
  "json_text JUndefined = ''undefined''"
| "json_text JNull = ''null''"
| "json_text (JBool b) = (if b then ''true'' else ''false'')"
| "json_text (JNumber n) = (case n of Some q \<Rightarrow> decimal_text q | None \<Rightarrow> ''Infinity'')"
| "json_text (JString s) = s"
| "json_text (JArray xs) = join '','' (map (\<lambda>v. if v = JNull \<or> v = JUndefined then [] else json_text v) xs)"
| "json_text (JObject es) = ''[object Object]''"

fun json_truthy :: "json \<Rightarrow> bool" where
  "json_truthy (JBool b) = b"
| "json_truthy (JNumber n) \<longleftrightarrow> n \<noteq> Some 0"
| "json_truthy (JString s) \<longleftrightarrow> s \<noteq> []"
| "json_truthy (JArray xs) = True"
| "json_truthy (JObject es) = True"
| "json_truthy v = False"

definition json_nullish :: "json \<Rightarrow> bool" where
  "json_nullish v \<longleftrightarrow> v = JNull \<or> v = JUndefined"

definition type_error_text :: string where
  "type_error_text = ''TypeError''"

text \<open>\<open>v.k\<close>: null and undefined have no properties, and the other values have none of those that are read.\<close>

definition json_prop :: "json \<Rightarrow> string \<Rightarrow> json result" where
  "json_prop v k = (if json_nullish v then Inl type_error_text else Inr (json_get (asRecord v) k))"

text \<open>\<open>a ?? b\<close>, and the equality of keys in a \<open>Set\<close> or \<open>Map\<close>.\<close>

definition json_or :: "json \<Rightarrow> json \<Rightarrow> json" where
  "json_or a b = (if json_nullish a then b else a)"

fun same_key :: "json \<Rightarrow> json \<Rightarrow> bool" where
  "same_key (JArray xs) v = False"
| "same_key (JObject es) v = False"
| "same_key v w \<longleftrightarrow> v = w"

definition json_join :: "string \<Rightarrow> json list \<Rightarrow> string" where
  "json_join sep vs = join sep (map (\<lambda>v. if json_nullish v then [] else json_text v) vs)"

definition non_empty_text :: "json \<Rightarrow> bool" where
  "non_empty_text v \<longleftrightarrow> (case v of JString s \<Rightarrow> s \<noteq> [] | _ \<Rightarrow> False)"

text \<open>\<open>join(base, v)\<close> throws when the value is no text.\<close>

definition join_value :: "path \<Rightarrow> json \<Rightarrow> path result" where
  "join_value base v = (case v of JString s \<Rightarrow> Inr (path_join base s) | _ \<Rightarrow> Inl type_error_text)"

subsection \<open>Reading\<close>

record robot_env =
  re_root :: path
  re_jsonParse :: "string \<Rightarrow> json result"
  re_localeCompare :: "string \<Rightarrow> string \<Rightarrow> int"
  re_spawn :: "string list \<Rightarrow> nat option result"

record robot_catalog =
  rb_capabilities :: "json list"
  rb_ids :: "json list"

definition catalogPath :: "robot_env \<Rightarrow> path" where
  "catalogPath env = re_root env @ [''pkg'', ''robot'', ''capabilities.json'']"

definition profilesDir :: "robot_env \<Rightarrow> path" where
  "profilesDir env = re_root env @ [''deploy'', ''robot-profiles'']"

definition readJson :: "robot_env \<Rightarrow> node \<Rightarrow> path \<Rightarrow> json result" where
  "readJson env fs p = rbind (readFile fs p) (re_jsonParse env)"

definition relativePath :: "robot_env \<Rightarrow> path \<Rightarrow> string" where
  "relativePath env p = slash_path (re_root env) p"

definition readCatalog :: "robot_env \<Rightarrow> node \<Rightarrow> robot_catalog result" where
  "readCatalog env fs =
     rbind (readJson env fs (catalogPath env)) (\<lambda>raw.
     rbind (json_prop raw ''capabilities'') (\<lambda>v.
     rbind (rmap (\<lambda>capability. json_prop capability ''id'') (asUnknownArray v)) (\<lambda>ids.
       Inr \<lparr>rb_capabilities = asUnknownArray v, rb_ids = ids\<rparr>)))"

definition isFile :: "node \<Rightarrow> path \<Rightarrow> bool" where
  "isFile fs p = (case node_at fs p of Some (File t) \<Rightarrow> True | _ \<Rightarrow> False)"

definition profileFiles :: "robot_env \<Rightarrow> node \<Rightarrow> path list result" where
  "profileFiles env fs =
     (if \<not> existsSync fs (profilesDir env) then Inr []
      else rbind (readdir fs (profilesDir env)) (\<lambda>es.
        Inr (filter (isFile fs) (map (\<lambda>name. profilesDir env @ [name])
          (js_sort (re_localeCompare env) (filter (\<lambda>name. endsWith name ''.json'' \<and> name \<noteq> ''project.json'') (map fst es)))))))"

definition readProfiles :: "robot_env \<Rightarrow> node \<Rightarrow> (path \<times> json) list result" where
  "readProfiles env fs =
     rbind (profileFiles env fs) (rmap (\<lambda>file'. rbind (readJson env fs file') (\<lambda>profile. Inr (file', profile))))"

text \<open>\<open>/<name>\s*([^<\s]+)\s*<\/name>/\<close>.\<close>

definition name_tag :: "string pattern" where
  "name_tag prev s =
     Option.bind (eat_text ''<name>'' s) (\<lambda>s.
     Option.bind (eat_run (\<lambda>c. c \<noteq> CHR ''<'' \<and> \<not> is_ws c) (dropWhile is_ws s)) (\<lambda>(name, s).
     Option.bind (eat_text ''</name>'' (dropWhile is_ws s)) (\<lambda>s. Some (name, s))))"

definition packageXmlName :: "node \<Rightarrow> path \<Rightarrow> string result" where
  "packageXmlName fs serviceRoot =
     (let packageXmlPath = serviceRoot @ [''package.xml''] in
      if \<not> existsSync fs packageXmlPath then Inr []
      else rbind (readFile fs packageXmlPath) (\<lambda>text. Inr (first_match name_tag text)))"

definition serviceRoot :: "robot_env \<Rightarrow> json \<Rightarrow> path result" where
  "serviceRoot env serviceName = join_value (re_root env @ [''module'', ''service'']) serviceName"

text \<open>The project of a service, null when it has none.\<close>

definition readServiceProject :: "robot_env \<Rightarrow> node \<Rightarrow> json \<Rightarrow> json result" where
  "readServiceProject env fs serviceName =
     rbind (serviceRoot env serviceName) (\<lambda>dir.
       let projectPath = dir @ [''project.json''] in
       if existsSync fs projectPath then readJson env fs projectPath else Inr JNull)"

definition packageFromService :: "robot_env \<Rightarrow> node \<Rightarrow> json \<Rightarrow> json result" where
  "packageFromService env fs entry =
     rbind (json_prop entry ''package'') (\<lambda>package.
     if json_truthy package then Inr package
     else
       let serviceName = json_get (asRecord entry) ''service'' in
       rbind (readServiceProject env fs serviceName) (\<lambda>project.
       let declared = trim (asString (json_get (asRecord (json_get (asRecord project) ''ros2'')) ''package'')) in
       if declared \<noteq> [] then Inr (JString declared)
       else rbind (serviceRoot env serviceName) (\<lambda>dir. rbind (packageXmlName fs dir) (\<lambda>name. Inr (JString name)))))"

subsection \<open>Validation\<close>

definition id_match :: "string \<Rightarrow> bool" where
  "id_match s \<longleftrightarrow>
     s \<noteq> [] \<and> is_lower (hd s)
     \<and> list_all (\<lambda>w. w \<noteq> [] \<and> list_all is_kebab_char w)
         (split_on (CHR ''.'') (map (\<lambda>c. if c = CHR ''_'' \<or> c = CHR ''-'' then CHR ''.'' else c) s))"

definition report :: "bool \<Rightarrow> string \<Rightarrow> string list" where
  "report b failure = (if b then [failure] else [])"

definition contract_failures :: "robot_env \<Rightarrow> node \<Rightarrow> string \<Rightarrow> json \<Rightarrow> string list result" where
  "contract_failures env fs capabilityId contract =
     rbind (json_prop contract ''status'') (\<lambda>status.
       let p = json_get (asRecord contract) ''path'' in
       if status = JString ''available'' \<and> json_truthy p
       then rbind (join_value (re_root env) p) (\<lambda>contractPath.
         Inr (report (\<not> existsSync fs contractPath) (capabilityId @ '' references missing contract: '' @ json_text p)))
       else Inr [])"

definition capability_failures :: "robot_env \<Rightarrow> node \<Rightarrow> bool \<Rightarrow> json \<Rightarrow> string list result" where
  "capability_failures env fs seen capability =
     (let get = json_get (asRecord capability); contracts = asUnknownArray (get ''contracts'') in
      case get ''id'' of
        JString i \<Rightarrow>
          if i = [] then Inr [''Capability is missing string id.'']
          else rbind (rmap (contract_failures env fs i) contracts) (\<lambda>missing.
            Inr (report (\<not> id_match i) (''Capability has invalid id: '' @ i)
              @ report seen (''Duplicate capability id: '' @ i)
              @ report (\<not> non_empty_text (get ''family'')) (i @ '' must declare family.'')
              @ report (\<not> non_empty_text (get ''summary'')) (i @ '' must declare summary.'')
              @ report (get ''contractStatus'' = JString ''available'' \<and> contracts = []) (i @ '' is available but has no contract reference.'')
              @ concat missing))
      | _ \<Rightarrow> Inr [''Capability is missing string id.''])"

fun catalog_failures :: "robot_env \<Rightarrow> node \<Rightarrow> json list \<Rightarrow> json list \<Rightarrow> string list result" where
  "catalog_failures env fs seen [] = Inr []"
| "catalog_failures env fs seen (capability # rest) =
     (let i = json_get (asRecord capability) ''id'' in
      rbind (capability_failures env fs (i \<in> set seen) capability) (\<lambda>failures.
      rbind (catalog_failures env fs (if non_empty_text i then i # seen else seen) rest) (\<lambda>more. Inr (failures @ more))))"

definition validateCapabilityCatalog :: "robot_env \<Rightarrow> node \<Rightarrow> robot_catalog \<Rightarrow> string list result" where
  "validateCapabilityCatalog env fs catalog = catalog_failures env fs [] (rb_capabilities catalog)"

definition known :: "robot_catalog \<Rightarrow> json \<Rightarrow> bool" where
  "known catalog capabilityId \<longleftrightarrow> list_ex (same_key capabilityId) (rb_ids catalog)"

definition validateServiceEntry ::
  "robot_env \<Rightarrow> node \<Rightarrow> json \<Rightarrow> json \<Rightarrow> robot_catalog \<Rightarrow> path \<Rightarrow> bool \<Rightarrow> string list result" where
  "validateServiceEntry env fs profile entry catalog file' mustExist =
     (let prefix' = relativePath env file' @ '':'' @ json_text (json_get (asRecord profile) ''id'') in
      rbind (json_prop entry ''service'') (\<lambda>service.
      if \<not> non_empty_text service then Inr [prefix' @ '' has service entry without string service name.'']
      else
        let name = json_text service; get = json_get (asRecord entry);
            unknown = map (\<lambda>c. prefix' @ '' service '' @ name @ '' references unknown capability '' @ json_text c @ ''.'')
              (filter (\<lambda>c. \<not> known catalog c) (asUnknownArray (get ''capabilities'')))
        in rbind (readServiceProject env fs service) (\<lambda>project.
          if \<not> json_truthy project
          then Inr (unknown @ report mustExist (prefix' @ '' requires missing service module: '' @ name))
          else rbind (packageFromService env fs entry) (\<lambda>actual.
            Inr (unknown @ report (json_truthy (get ''package'') \<and> json_truthy actual \<and> get ''package'' \<noteq> actual)
              (prefix' @ '' service '' @ name @ '' package '' @ json_text (get ''package'') @ '' does not match '' @ json_text actual @ ''.''))))))"

definition required_entry :: "json \<Rightarrow> bool" where
  "required_entry entry \<longleftrightarrow> json_get (asRecord entry) ''required'' \<noteq> JBool False"

text \<open>The packages of the required services, as they are found.\<close>

definition required_packages :: "robot_env \<Rightarrow> node \<Rightarrow> json \<Rightarrow> json list result" where
  "required_packages env fs profile =
     (let services = asUnknownArray (json_get (asRecord profile) ''services'') in
      rbind (rmap (\<lambda>entry. json_prop entry ''required'') services) (\<lambda>_.
      rbind (rmap (packageFromService env fs) (filter required_entry services)) (\<lambda>packages.
        Inr (filter json_truthy packages))))"

definition validateProfile :: "robot_env \<Rightarrow> node \<Rightarrow> path \<Rightarrow> json \<Rightarrow> robot_catalog \<Rightarrow> string list result" where
  "validateProfile env fs file' profile catalog =
     rbind (json_prop profile ''id'') (\<lambda>i.
     let get = json_get (asRecord profile);
         prefix' = relativePath env file' @ '':'' @ json_text (json_or i (JString ''<missing-id>''));
         active = (get ''status'' = JString ''active'')
     in if \<not> non_empty_text i then Inr [relativePath env file' @ '' is missing string id.'']
        else
          rbind (rmap (\<lambda>entry. validateServiceEntry env fs profile entry catalog file' (active \<and> required_entry entry))
            (asUnknownArray (get ''services''))) (\<lambda>entries.
          rbind (rmap (\<lambda>entry. validateServiceEntry env fs profile entry catalog file' False)
            (asUnknownArray (get ''plannedServices''))) (\<lambda>planned.
          rbind (if active then rbind (required_packages env fs profile) (\<lambda>packages.
              Inr (report (packages = []) (prefix' @ '' active profile must resolve at least one ROS2 package.''))) else Inr []) (\<lambda>packages.
            Inr (report (\<not> id_match (json_text i)) (prefix' @ '' has invalid id.'')
              @ report (get ''status'' \<notin> set [JString ''active'', JString ''template'']) (prefix' @ '' has invalid status: '' @ json_text (get ''status''))
              @ map (\<lambda>c. prefix' @ '' references unknown capability '' @ json_text c @ ''.'')
                  (filter (\<lambda>c. \<not> known catalog c) (asUnknownArray (get ''capabilities'')))
              @ concat entries @ concat planned @ packages)))))"

fun profiles_failures :: "robot_env \<Rightarrow> node \<Rightarrow> robot_catalog \<Rightarrow> json list \<Rightarrow> (path \<times> json) list \<Rightarrow> string list result" where
  "profiles_failures env fs catalog seen [] = Inr []"
| "profiles_failures env fs catalog seen ((file', profile) # rest) =
     rbind (json_prop profile ''id'') (\<lambda>i.
     rbind (validateProfile env fs file' profile catalog) (\<lambda>failures.
     rbind (profiles_failures env fs catalog (if json_truthy i then i # seen else seen) rest) (\<lambda>more.
       Inr (report (json_truthy i \<and> list_ex (same_key i) seen) (''Duplicate profile id: '' @ json_text i) @ failures @ more))))"

record validation =
  va_catalog :: robot_catalog
  va_failures :: "string list"
  va_profiles :: "(path \<times> json) list"

definition validateProfiles :: "robot_env \<Rightarrow> node \<Rightarrow> validation result" where
  "validateProfiles env fs =
     rbind (readCatalog env fs) (\<lambda>catalog.
     rbind (validateCapabilityCatalog env fs catalog) (\<lambda>failures.
     rbind (readProfiles env fs) (\<lambda>profiles.
     rbind (profiles_failures env fs catalog [] profiles) (\<lambda>more.
       Inr \<lparr>va_catalog = catalog,
         va_failures = failures @ more @ report (profiles = []) (''No robot profiles found in '' @ relativePath env (profilesDir env) @ ''.''),
         va_profiles = profiles\<rparr>))))"

text \<open>The first profile of an id; every profile before it is asked for its own.\<close>

fun find_profile :: "string \<Rightarrow> (path \<times> json) list \<Rightarrow> (path \<times> json) option result" where
  "find_profile profileId [] = Inr None"
| "find_profile profileId ((file', profile) # rest) =
     rbind (json_prop profile ''id'') (\<lambda>i. if i = JString profileId then Inr (Some (file', profile)) else find_profile profileId rest)"

definition findProfile :: "robot_env \<Rightarrow> node \<Rightarrow> string \<Rightarrow> (path \<times> json) option result" where
  "findProfile env fs profileId = rbind (readProfiles env fs) (find_profile profileId)"

subsection \<open>Commands\<close>

text \<open>What a command prints, how it ends, and the process that it has started. The text of
  \<open>JSON.stringify\<close> is left as its value.\<close>

datatype shown = Shown string | Shown_Json json

record command_end =
  ce_out :: "shown list"
  ce_err :: "string list"
  ce_code :: nat
  ce_started :: "string list option"

definition done_with :: "shown list \<Rightarrow> command_end" where
  "done_with out = \<lparr>ce_out = out, ce_err = [], ce_code = 0, ce_started = None\<rparr>"

definition failed_with :: "shown list \<Rightarrow> string list \<Rightarrow> command_end" where
  "failed_with out err = \<lparr>ce_out = out, ce_err = err, ce_code = 1, ce_started = None\<rparr>"

definition count_number :: "'a list \<Rightarrow> json" where
  "count_number xs = JNumber (Some (of_nat (length xs)))"

definition profile_list :: "json \<Rightarrow> string \<Rightarrow> json list" where
  "profile_list profile k = asUnknownArray (json_get (asRecord profile) k)"

definition displayProfile :: "json \<Rightarrow> (string \<times> json) list" where
  "displayProfile profile =
     (let get = json_get (asRecord profile)
      in [(''id'', get ''id''), (''displayName'', json_or (get ''displayName'') (get ''id'')), (''status'', get ''status''),
          (''robotClass'', json_or (get ''robotClass'') (JString ''unknown'')),
          (''serviceCount'', count_number (profile_list profile ''services'')),
          (''plannedServiceCount'', count_number (profile_list profile ''plannedServices'')),
          (''capabilityCount'', count_number (profile_list profile ''capabilities''))])"

text \<open>\<open>v.padEnd(n)\<close> throws when \<open>v\<close> is no text.\<close>

definition padEnd :: "nat \<Rightarrow> json \<Rightarrow> string result" where
  "padEnd n v = (case v of JString s \<Rightarrow> Inr (s @ replicate (n - length s) SP) | _ \<Rightarrow> Inl type_error_text)"

definition profile_line :: "json \<Rightarrow> string result" where
  "profile_line profile =
     (let get = json_get (displayProfile profile); shown_count = (\<lambda>k. json_text (get k)) in
      rbind (padEnd 24 (get ''id'')) (\<lambda>i.
      rbind (padEnd 8 (get ''status'')) (\<lambda>status.
      rbind (padEnd 12 (get ''robotClass'')) (\<lambda>robotClass.
        Inr (i @ '' '' @ status @ '' '' @ robotClass @ '' services='' @ shown_count ''serviceCount''
          @ '' planned='' @ shown_count ''plannedServiceCount'' @ '' capabilities='' @ shown_count ''capabilityCount'')))))"

definition printList :: "robot_env \<Rightarrow> node \<Rightarrow> string list \<Rightarrow> command_end result" where
  "printList env fs args =
     rbind (validateProfiles env fs) (\<lambda>v.
       if ''--json'' \<in> set args
       then Inr ((done_with [Shown_Json (JArray (map (\<lambda>(f, p). JObject (displayProfile p)) (va_profiles v)))])
         \<lparr>ce_code := (if va_failures v = [] then 0 else 1)\<rparr>)
       else rbind (rmap (\<lambda>(f, p). profile_line p) (va_profiles v)) (\<lambda>ls.
         Inr (if va_failures v \<noteq> [] then failed_with (map Shown ls) ([] # va_failures v) else done_with (map Shown ls))))"

definition plain_arg :: "string list \<Rightarrow> string" where
  "plain_arg args = (case find (\<lambda>a. \<not> startsWith a ''-'') args of Some a \<Rightarrow> a | None \<Rightarrow> [])"

definition service_line :: "robot_env \<Rightarrow> node \<Rightarrow> json \<Rightarrow> string result" where
  "service_line env fs entry =
     rbind (json_prop entry ''required'') (\<lambda>required.
     rbind (packageFromService env fs entry) (\<lambda>package.
       Inr (''- '' @ json_text (json_get (asRecord entry) ''service'') @ '' (''
         @ (if json_truthy package then json_text package else ''no-package'') @ '', ''
         @ (if required = JBool False then ''optional'' else ''required'') @ '') -> ''
         @ json_join '', '' (profile_list entry ''capabilities''))))"

definition planned_line :: "json \<Rightarrow> string result" where
  "planned_line entry =
     rbind (json_prop entry ''service'') (\<lambda>service.
       Inr (''- '' @ json_text service @ '' -> '' @ json_join '', '' (profile_list entry ''capabilities'')))"

definition profile_lines :: "robot_env \<Rightarrow> node \<Rightarrow> json \<Rightarrow> string list result" where
  "profile_lines env fs profile =
     (let get = json_get (asRecord profile); planned = profile_list profile ''plannedServices'';
          capabilities = json_join '', '' (profile_list profile ''capabilities'') in
      rbind (rmap (service_line env fs) (profile_list profile ''services'')) (\<lambda>services.
      rbind (rmap planned_line planned) (\<lambda>later.
        Inr ([json_text (json_or (get ''displayName'') (get ''id'')) @ '' ('' @ json_text (get ''id'') @ '')'',
              ''status: '' @ json_text (get ''status''),
              ''robotClass: '' @ json_text (json_or (get ''robotClass'') (JString ''unknown'')),
              ''summary: '' @ json_text (json_or (get ''summary'') (JString [])),
              ''capabilities: '' @ (if capabilities \<noteq> [] then capabilities else ''none''), [], ''services:'']
          @ services @ (if planned \<noteq> [] then [[], ''plannedServices:''] @ later else [])))))"

definition printShow :: "robot_env \<Rightarrow> node \<Rightarrow> string list \<Rightarrow> command_end result" where
  "printShow env fs args =
     (let profileId = plain_arg args in
      if profileId = [] then Inr (failed_with [] [''Usage: ./pr robot:show <profile-id> [--json]''])
      else rbind (findProfile env fs profileId) (\<lambda>match.
        case match of
          None \<Rightarrow> Inr (failed_with [] [''Robot profile not found: '' @ profileId])
        | Some (f, profile) \<Rightarrow>
            if ''--json'' \<in> set args then Inr (done_with [Shown_Json profile])
            else rbind (profile_lines env fs profile) (\<lambda>ls. Inr (done_with (map Shown ls)))))"

definition status_count :: "string \<Rightarrow> (path \<times> json) list \<Rightarrow> string" where
  "status_count status profiles =
     nat_str (length (filter (\<lambda>(f, p). json_get (asRecord p) ''status'' = JString status) profiles))"

definition printCheck :: "robot_env \<Rightarrow> node \<Rightarrow> command_end result" where
  "printCheck env fs =
     rbind (validateProfiles env fs) (\<lambda>v.
       Inr (if va_failures v \<noteq> [] then failed_with [] (va_failures v)
         else done_with [Shown (''Robot profiles passed: '' @ nat_str (length (va_profiles v)) @ '' profiles, ''
           @ nat_str (length (rb_capabilities (va_catalog v))) @ '' capabilities, '' @ status_count ''active'' (va_profiles v)
           @ '' active, '' @ status_count ''template'' (va_profiles v) @ '' templates.'')]))"

subsection \<open>Deploying a profile\<close>

record deploy_args =
  da_dryRun :: bool
  da_forwarded :: "string list"
  da_profileId :: string

definition deploy_arg :: "deploy_args \<Rightarrow> string \<Rightarrow> deploy_args" where
  "deploy_arg a arg =
     (if arg = ''--dry-run'' then a\<lparr>da_dryRun := True\<rparr>
      else if da_profileId a = [] \<and> \<not> startsWith arg ''-'' then a\<lparr>da_profileId := arg\<rparr>
      else a\<lparr>da_forwarded := da_forwarded a @ [arg]\<rparr>)"

definition parseDeployArgs :: "string list \<Rightarrow> deploy_args" where
  "parseDeployArgs args = foldl deploy_arg \<lparr>da_dryRun = False, da_forwarded = [], da_profileId = []\<rparr> args"

text \<open>\<open>unique\<close>: the first of equal values.\<close>

fun unique_values :: "json list \<Rightarrow> json list \<Rightarrow> json list" where
  "unique_values seen [] = []"
| "unique_values seen (v # vs) =
     (if list_ex (same_key v) seen then unique_values seen vs else v # unique_values (v # seen) vs)"

text \<open>\<open>hasFlag\<close> throws at an argument that is no text, unless the flag itself is among the arguments.\<close>

fun joined_flag :: "json list \<Rightarrow> string \<Rightarrow> bool result" where
  "joined_flag [] flag = Inr False"
| "joined_flag (JString s # args) flag = (if startsWith s (flag @ ''='') then Inr True else joined_flag args flag)"
| "joined_flag (v # args) flag = Inl type_error_text"

definition hasFlag :: "json list \<Rightarrow> string \<Rightarrow> bool result" where
  "hasFlag args flag = (if JString flag \<in> set args then Inr True else joined_flag args flag)"

definition deploy_command :: "json list \<Rightarrow> string list \<Rightarrow> json \<Rightarrow> json list result" where
  "deploy_command packages forwarded profile =
     (let ros2Args = [JString ''ros2:deploy'', JString ''--packages-select''] @ packages @ map JString forwarded;
          domainId = json_get (asRecord (json_get (asRecord profile) ''deploy'')) ''defaultDomainId''
      in rbind (hasFlag ros2Args ''--domain-id'') (\<lambda>given.
        Inr (ros2Args @ (if \<not> given \<and> domainId \<noteq> JUndefined then [JString ''--domain-id'', JString (json_text domainId)] else []))))"

text \<open>\<open>spawnSync\<close> throws when an argument is no text.\<close>

definition start_deploy :: "robot_env \<Rightarrow> json list \<Rightarrow> command_end result" where
  "start_deploy env ros2Args =
     rbind (rmap (\<lambda>v. case v of JString s \<Rightarrow> Inr s | _ \<Rightarrow> Inl type_error_text) ros2Args) (\<lambda>args.
       Inr (case re_spawn env (''bin/pr.mjs'' # args) of
           Inl e \<Rightarrow> (failed_with [] [''Failed to run ./pr: '' @ e])\<lparr>ce_started := Some args\<rparr>
         | Inr code \<Rightarrow> (done_with [])\<lparr>ce_code := (case code of Some c \<Rightarrow> c | None \<Rightarrow> 1), ce_started := Some args\<rparr>))"

definition deployProfile :: "robot_env \<Rightarrow> node \<Rightarrow> string list \<Rightarrow> command_end result" where
  "deployProfile env fs args =
     (let a = parseDeployArgs args in
      if da_profileId a = [] then Inr (failed_with [] [''Usage: ./pr robot:deploy <profile-id> [--dry-run] [ros2 deploy args...]''])
      else rbind (findProfile env fs (da_profileId a)) (\<lambda>match.
        case match of
          None \<Rightarrow> Inr (failed_with [] [''Robot profile not found: '' @ da_profileId a])
        | Some (f, profile) \<Rightarrow>
            rbind (validateProfiles env fs) (\<lambda>v.
            let status = json_get (asRecord profile) ''status''; name = json_text (json_get (asRecord profile) ''id'') in
            if va_failures v \<noteq> [] then Inr (failed_with [] (va_failures v))
            else if status \<noteq> JString ''active''
            then Inr (failed_with [] [''Robot profile '' @ name @ '' is '' @ json_text status @ ''; only active profiles can deploy.''])
            else rbind (required_packages env fs profile) (\<lambda>found.
              let packages = unique_values [] found in
              if packages = [] then Inr (failed_with [] [''Robot profile '' @ name @ '' does not resolve any deployable ROS2 packages.''])
              else rbind (deploy_command packages (da_forwarded a) profile) (\<lambda>ros2Args.
                if da_dryRun a then Inr (done_with [Shown (''./pr '' @ json_join '' '' ros2Args)])
                else start_deploy env ros2Args)))))"

definition robot_help :: "string list" where
  "robot_help = [''Pacific-Rim robot profile commands'', [], ''Usage:'', ''  ./pr robot:profiles [--json]'',
     ''  ./pr robot:show <profile-id> [--json]'', ''  ./pr robot:check'',
     ''  ./pr robot:deploy <profile-id> [--dry-run] [ros2 deploy args...]'', [], ''Examples:'', ''  ./pr robot:profiles'',
     ''  ./pr robot:show pure-driver-sample'', ''  ./pr robot:deploy pure-driver-sample --dry-run --host 192.0.2.20'']"

definition robot_main :: "robot_env \<Rightarrow> node \<Rightarrow> string list \<Rightarrow> command_end result" where
  "robot_main env fs argv =
     (let command = (case argv of c # _ \<Rightarrow> c | [] \<Rightarrow> ''help''); args = drop 1 argv; help = map Shown robot_help in
      if command \<in> set [''help'', ''--help'', ''-h''] then Inr (done_with help)
      else if command \<in> set [''list'', ''profiles''] then printList env fs args
      else if command = ''show'' then printShow env fs args
      else if command = ''check'' then printCheck env fs
      else if command = ''deploy'' then deployProfile env fs args
      else Inr (failed_with help [''Unknown robot profile command: '' @ command]))"

end
