(* ===== verification/Robot_Cli_Props.thy ===== *)
theory Robot_Cli_Props
  imports Robot_Cli
begin

text \<open>
  What \<open>./pr robot:deploy\<close> starts, and how it rests on \<open>./pr robot:check\<close>.
\<close>

subsection \<open>Results\<close>

lemma rbind_end: "rbind r f = Inr y \<longleftrightarrow> (\<exists>x. r = Inr x \<and> f x = Inr y)"
  by (cases r) auto

lemma rmap_from: "rmap f xs = Inr ys \<Longrightarrow> y \<in> set ys \<Longrightarrow> \<exists>x \<in> set xs. f x = Inr y"
  by (induction xs arbitrary: ys) (fastforce simp: rbind_end)+

lemma unique_values_set: "set (unique_values seen vs) \<subseteq> set vs"
  by (induction vs arbitrary: seen) auto

lemma unique_values_Nil: "unique_values [] vs = [] \<longleftrightarrow> vs = []"
  by (cases vs) auto

lemma unique_values_seen: "JString s \<in> set seen \<Longrightarrow> JString s \<notin> set (unique_values seen vs)"
proof (induction vs arbitrary: seen)
  case (Cons v vs)
  show ?case
  proof (cases "v = JString s")
    case True
    then have "list_ex (same_key v) seen" using Cons.prems by (auto simp: list_ex_iff intro!: bexI [of _ "JString s"])
    then show ?thesis using Cons by simp
  next
    case False
    then show ?thesis using Cons by simp
  qed
qed simp

lemma unique_values_all: "JString s \<in> set vs \<Longrightarrow> JString s \<notin> set seen \<Longrightarrow> JString s \<in> set (unique_values seen vs)"
proof (induction vs arbitrary: seen)
  case (Cons v vs)
  show ?case
  proof (cases "v = JString s")
    case True
    then show ?thesis using Cons.prems(2) by (auto simp: list_ex_iff)
  next
    case False
    then have "JString s \<notin> set (v # seen)" using Cons.prems by simp
    with False show ?thesis using Cons.IH Cons.prems by simp
  qed
qed simp

lemma unique_values_distinct: "distinct (filter (\<lambda>v. \<exists>s. v = JString s) (unique_values seen vs))"
  by (induction vs arbitrary: seen) (auto simp: unique_values_seen)

lemma unique_strings:
  assumes "unique_values [] vs = map JString ps" shows "distinct ps"
proof -
  have "filter (\<lambda>v. \<exists>s. v = JString s) (map JString ps) = map JString ps" by (rule filter_True) auto
  then have "distinct (map JString ps)" using unique_values_distinct [of "[]" vs] unfolding assms by simp
  then show ?thesis by (simp add: distinct_map)
qed

subsection \<open>Deployment\<close>

lemma strings_of:
  "rmap (\<lambda>v. case v of JString s \<Rightarrow> Inr s | _ \<Rightarrow> Inl type_error_text) vs = Inr ss \<Longrightarrow> vs = map JString ss"
  by (induction vs arbitrary: ss) (auto simp: rbind_end split: json.splits)

lemma started_args:
  assumes "start_deploy env vs = Inr e" "ce_started e = Some started" shows "vs = map JString started"
proof -
  from assms(1) obtain args where args: "rmap (\<lambda>v. case v of JString s \<Rightarrow> Inr s | _ \<Rightarrow> Inl type_error_text) vs = Inr args"
    and e: "e = (case re_spawn env (''bin/pr.mjs'' # args) of
           Inl e \<Rightarrow> (failed_with [] [''Failed to run ./pr: '' @ e])\<lparr>ce_started := Some args\<rparr>
         | Inr code \<Rightarrow> (done_with [])\<lparr>ce_code := (case code of Some c \<Rightarrow> c | None \<Rightarrow> 1), ce_started := Some args\<rparr>)"
    unfolding start_deploy_def rbind_end by blast
  have "ce_started e = Some args" unfolding e by (cases "re_spawn env (''bin/pr.mjs'' # args)") simp_all
  with assms(2) strings_of [OF args] show ?thesis by simp
qed

lemma required_packages_from:
  assumes "required_packages env fs profile = Inr found" "v \<in> set found"
  shows "\<exists>entry \<in> set (profile_list profile ''services''). required_entry entry \<and> packageFromService env fs entry = Inr v"
proof -
  from assms obtain vs where "rmap (packageFromService env fs) (filter required_entry (profile_list profile ''services'')) = Inr vs" "v \<in> set vs"
    by (auto simp: required_packages_def Let_def rbind_end profile_list_def)
  from rmap_from [OF this] show ?thesis by auto
qed

lemma rmap_to: "rmap f xs = Inr ys \<Longrightarrow> x \<in> set xs \<Longrightarrow> f x = Inr y \<Longrightarrow> y \<in> set ys"
  by (induction xs arbitrary: ys) (fastforce simp: rbind_end)+

lemma required_packages_all:
  assumes "required_packages env fs profile = Inr found" "entry \<in> set (profile_list profile ''services'')" "required_entry entry"
    "packageFromService env fs entry = Inr (JString p)" "p \<noteq> []"
  shows "JString p \<in> set found"
  using assms by (fastforce simp: required_packages_def Let_def rbind_end profile_list_def json_truthy.simps dest!: rmap_to)

lemma find_profile_in: "find_profile i ps = Inr (Some (f, p)) \<Longrightarrow> (f, p) \<in> set ps \<and> json_get (asRecord p) ''id'' = JString i"
  by (induction i ps rule: find_profile.induct) (auto simp: rbind_end json_prop_def split: if_splits)

lemma deploy_command_form:
  assumes "deploy_command packages forwarded profile = Inr ros2Args"
  shows "\<exists>domain. ros2Args = [JString ''ros2:deploy'', JString ''--packages-select''] @ packages @ map JString forwarded @ map JString domain
    \<and> (domain = [] \<or> ''--domain-id'' \<notin> set forwarded \<and> (\<exists>v. domain = [''--domain-id'', v]))"
proof -
  define ros2Args0 where "ros2Args0 = [JString ''ros2:deploy'', JString ''--packages-select''] @ packages @ map JString forwarded"
  from assms obtain given where given: "hasFlag ros2Args0 ''--domain-id'' = Inr given"
    and args: "ros2Args = ros2Args0 @ (if \<not> given \<and> json_get (asRecord (json_get (asRecord profile) ''deploy'')) ''defaultDomainId'' \<noteq> JUndefined
      then [JString ''--domain-id'', JString (json_text (json_get (asRecord (json_get (asRecord profile) ''deploy'')) ''defaultDomainId''))] else [])"
    by (auto simp: deploy_command_def Let_def rbind_end ros2Args0_def)
  have "''--domain-id'' \<notin> set forwarded" if "\<not> given"
    using given that by (auto simp: hasFlag_def ros2Args0_def split: if_splits)
  then show ?thesis
    by (cases given; cases "json_get (asRecord (json_get (asRecord profile) ''deploy'')) ''defaultDomainId'' = JUndefined")
      (auto simp: args ros2Args0_def intro: exI [of _ "[]"] exI [of _ "[''--domain-id'', _]"])
qed

definition deploys_profile :: "robot_env \<Rightarrow> node \<Rightarrow> deploy_args \<Rightarrow> json \<Rightarrow> string list \<Rightarrow> bool" where
  "deploys_profile env fs a profile started \<longleftrightarrow>
     (\<exists>packages domain. started = [''ros2:deploy'', ''--packages-select''] @ packages @ da_forwarded a @ domain
       \<and> packages \<noteq> [] \<and> distinct packages
       \<and> (\<forall>p \<in> set packages. \<exists>entry \<in> set (profile_list profile ''services''). required_entry entry
           \<and> packageFromService env fs entry = Inr (JString p))
       \<and> (\<forall>entry \<in> set (profile_list profile ''services''). required_entry entry
           \<longrightarrow> (\<forall>p. packageFromService env fs entry = Inr (JString p) \<longrightarrow> p = [] \<or> p \<in> set packages))
       \<and> (domain = [] \<or> ''--domain-id'' \<notin> set (da_forwarded a) \<and> (\<exists>v. domain = [''--domain-id'', v])))"

subsection \<open>What a check is worth\<close>

lemma profiles_failures_none:
  assumes "profiles_failures env fs catalog seen ps = Inr []" "(f, profile) \<in> set ps"
  shows "validateProfile env fs f profile catalog = Inr []"
  using assms by (induction env fs catalog seen ps rule: profiles_failures.induct) (auto simp: rbind_end)

lemma validated_profile:
  assumes "validateProfiles env fs = Inr v" "va_failures v = []" "(f, profile) \<in> set (va_profiles v)"
  shows "validateProfile env fs f profile (va_catalog v) = Inr []"
  using assms profiles_failures_none by (fastforce simp: validateProfiles_def rbind_end)

text \<open>A profile that can be deployed: its id is well formed, the catalog has its capabilities, and each of its required
  services has a name and a project below \<open>module/service\<close>, and capabilities that the catalog has.\<close>

definition listed_capabilities :: "robot_catalog \<Rightarrow> json \<Rightarrow> bool" where
  "listed_capabilities catalog v \<longleftrightarrow>
     (\<forall>s. JString s \<in> set (asUnknownArray (json_get (asRecord v) ''capabilities''))
       \<longrightarrow> (\<exists>capability \<in> set (rb_capabilities catalog). json_get (asRecord capability) ''id'' = JString s))"

definition ready_profile :: "robot_env \<Rightarrow> node \<Rightarrow> robot_catalog \<Rightarrow> string \<Rightarrow> json \<Rightarrow> bool" where
  "ready_profile env fs catalog i profile \<longleftrightarrow>
     json_get (asRecord profile) ''id'' = JString i \<and> id_match i
     \<and> json_get (asRecord profile) ''status'' = JString ''active''
     \<and> listed_capabilities catalog profile
     \<and> (\<forall>entry \<in> set (profile_list profile ''services''). required_entry entry
         \<longrightarrow> listed_capabilities catalog entry
           \<and> (\<exists>name. json_get (asRecord entry) ''service'' = JString name \<and> name \<noteq> []
               \<and> existsSync fs (path_join (re_root env @ [''module'', ''service'']) name @ [''project.json''])))"

lemma known_listed:
  assumes "readCatalog env fs = Inr catalog" "known catalog (JString s)"
  shows "\<exists>capability \<in> set (rb_capabilities catalog). json_get (asRecord capability) ''id'' = JString s"
proof -
  from assms(1) obtain ids where "rmap (\<lambda>capability. json_prop capability ''id'') (rb_capabilities catalog) = Inr ids" "rb_ids catalog = ids"
    by (auto simp: readCatalog_def rbind_end)
  with assms(2) have "JString s \<in> set ids" by (auto simp: known_def list_ex_iff)
  from rmap_from [OF \<open>rmap _ _ = _\<close> this] show ?thesis by (auto simp: json_prop_def split: if_splits)
qed

lemma checked_capabilities:
  assumes "readCatalog env fs = Inr catalog"
    "filter (\<lambda>c. \<not> known catalog c) (asUnknownArray (json_get (asRecord v) ''capabilities'')) = []"
  shows "listed_capabilities catalog v"
  using assms(2) known_listed [OF assms(1)] by (auto simp: listed_capabilities_def filter_empty_conv)

lemma checked_entry:
  assumes "readCatalog env fs = Inr catalog" "validateServiceEntry env fs profile entry catalog file' True = Inr []"
  shows "listed_capabilities catalog entry
    \<and> (\<exists>name. json_get (asRecord entry) ''service'' = JString name \<and> name \<noteq> []
        \<and> existsSync fs (path_join (re_root env @ [''module'', ''service'']) name @ [''project.json'']))"
proof -
  let ?service = "json_get (asRecord entry) ''service''"
  have service: "non_empty_text ?service" using assms(2)
    by (auto simp: validateServiceEntry_def Let_def rbind_end json_prop_def split: if_splits)
  then obtain name where name: "?service = JString name" "name \<noteq> []" by (auto simp: non_empty_text_def split: json.splits)
  obtain project where project: "readServiceProject env fs ?service = Inr project" "json_truthy project"
    and unknown: "filter (\<lambda>c. \<not> known catalog c) (asUnknownArray (json_get (asRecord entry) ''capabilities'')) = []"
    using assms(2) service by (auto simp: validateServiceEntry_def Let_def rbind_end json_prop_def report_def split: if_splits)
  have "existsSync fs (path_join (re_root env @ [''module'', ''service'']) name @ [''project.json''])"
    using project by (auto simp: readServiceProject_def serviceRoot_def join_value_def name Let_def rbind_end split: if_splits)
  with name checked_capabilities [OF assms(1) unknown] show ?thesis by blast
qed

lemma rmap_concat_Nil: "rmap f xs = Inr yss \<Longrightarrow> concat yss = [] \<Longrightarrow> x \<in> set xs \<Longrightarrow> f x = Inr []"
  by (induction xs arbitrary: yss) (auto simp: rbind_end)

lemma checked_profile_ready:
  assumes "readCatalog env fs = Inr catalog" "validateProfile env fs f profile catalog = Inr []"
    "json_get (asRecord profile) ''status'' = JString ''active''" "json_get (asRecord profile) ''id'' = JString i"
  shows "ready_profile env fs catalog i profile"
proof -
  obtain entries where entries: "rmap (\<lambda>entry. validateServiceEntry env fs profile entry catalog f (required_entry entry))
      (profile_list profile ''services'') = Inr entries" "concat entries = []"
    and id: "id_match i"
    and unknown: "filter (\<lambda>c. \<not> known catalog c) (asUnknownArray (json_get (asRecord profile) ''capabilities'')) = []"
    using assms(2-4) by (auto simp: validateProfile_def Let_def rbind_end json_prop_def report_def profile_list_def split: if_splits)
  from rmap_concat_Nil [OF entries] have "validateServiceEntry env fs profile entry catalog f True = Inr []"
    if "entry \<in> set (profile_list profile ''services'')" "required_entry entry" for entry using that by fastforce
  from checked_entry [OF assms(1) this] show ?thesis
    using id assms(3,4) checked_capabilities [OF assms(1) unknown] by (simp add: ready_profile_def)
qed


lemma active_packages:
  assumes "validateProfile env fs f profile catalog = Inr []" "json_get (asRecord profile) ''status'' = JString ''active''"
  shows "\<exists>found. required_packages env fs profile = Inr found \<and> found \<noteq> []"
  using assms by (auto simp: validateProfile_def Let_def rbind_end report_def split: if_splits)

lemma unique_texts: "\<forall>v \<in> set found. \<exists>s. v = JString s \<Longrightarrow> \<exists>ps. unique_values [] found = map JString ps"
  using unique_values_set [of "[]" found] by (metis ex_map_conv subsetD)

lemma text_flags: "\<exists>b. hasFlag (map JString ss) flag = Inr b"
proof -
  have "\<exists>b. joined_flag (map JString ss) flag = Inr b" by (induction ss) auto
  then show ?thesis by (auto simp: hasFlag_def)
qed

text \<open>A passed check is enough to deploy: when \<open>robot:check\<close> ends without a failure, a dry run of \<open>robot:deploy\<close> for
  an active profile whose packages are named by texts shows the command that would run; in particular there is a
  package to deploy.\<close>

theorem checked_profile_deploys:
  assumes "printCheck env fs = Inr c" "ce_code c = 0"
    and "findProfile env fs i = Inr (Some (f, profile))" "json_get (asRecord profile) ''status'' = JString ''active''"
    and "\<And>found v. required_packages env fs profile = Inr found \<Longrightarrow> v \<in> set found \<Longrightarrow> \<exists>s. v = JString s"
    and "i \<noteq> []" "\<not> startsWith i ''-''"
  shows "\<exists>packages domain. packages \<noteq> [] \<and> deployProfile env fs [i, ''--dry-run'']
    = Inr (done_with [Shown (''./pr '' @ join '' '' ([''ros2:deploy'', ''--packages-select''] @ packages @ domain))])"
proof -
  obtain v where v: "validateProfiles env fs = Inr v" "va_failures v = []"
    using assms(1,2) by (auto simp: printCheck_def rbind_end failed_with_def split: if_splits)
  have "(f, profile) \<in> set (va_profiles v)"
    using assms(3) v(1) by (auto simp: findProfile_def validateProfiles_def rbind_end dest: find_profile_in)
  from active_packages [OF validated_profile [OF v this] assms(4)] obtain found
    where found: "required_packages env fs profile = Inr found" "found \<noteq> []" by blast
  obtain packages where packages: "unique_values [] found = map JString packages" using unique_texts assms(5) [OF found(1)] by blast
  have some': "packages \<noteq> []" using found(2) packages unique_values_Nil [of found] by auto
  have args: "parseDeployArgs [i, ''--dry-run''] = \<lparr>da_dryRun = True, da_forwarded = [], da_profileId = i\<rparr>"
    using assms(6,7) by (auto simp: parseDeployArgs_def deploy_arg_def)
  obtain ros2Args where command: "deploy_command (map JString packages) [] profile = Inr ros2Args"
    using text_flags [of "[''ros2:deploy'', ''--packages-select''] @ packages" "''--domain-id''"] by (auto simp: deploy_command_def Let_def)
  from deploy_command_form [OF command] obtain domain where
    "ros2Args = map JString ([''ros2:deploy'', ''--packages-select''] @ packages @ domain)" by auto
  then have "json_join '' '' ros2Args = join '' '' ([''ros2:deploy'', ''--packages-select''] @ packages @ domain)"
    by (simp add: json_join_def json_nullish_def comp_def)
  then have "deployProfile env fs [i, ''--dry-run'']
      = Inr (done_with [Shown (''./pr '' @ join '' '' ([''ros2:deploy'', ''--packages-select''] @ packages @ domain))])"
    using assms(3,4,6) v found(1) packages some' command by (simp add: deployProfile_def Let_def args)
  with some' show ?thesis by blast
qed

subsection \<open>Limits\<close>

text \<open>The package of an entry is compared with itself: a wrong one is never reported.\<close>

theorem package_never_mismatched:
  "packageFromService env fs entry = Inr actual \<Longrightarrow> json_truthy (json_get (asRecord entry) ''package'') \<Longrightarrow>
    json_get (asRecord entry) ''package'' = actual"
  by (auto simp: packageFromService_def rbind_end json_prop_def split: if_splits)

subsection \<open>Witnesses\<close>

definition demo_json :: "string \<Rightarrow> json result" where
  "demo_json t =
     (if t = ''catalog'' then Inr (JObject [(''capabilities'', JArray [JObject [(''id'', JString ''arm.move''), (''family'', JString ''arm''),
         (''summary'', JString ''moves'')]])])
      else if t = ''profile'' then Inr (JObject [(''id'', JString ''demo''), (''status'', JString ''active''),
         (''capabilities'', JArray [JString ''arm.move'']), (''deploy'', JObject [(''defaultDomainId'', JNumber (Some 42))]),
         (''services'', JArray [JObject [(''service'', JString ''arm_service'')],
           JObject [(''service'', JString ''log_service''), (''required'', JBool False)]])])
      else if t = ''project'' then Inr (JObject [(''ros2'', JObject [(''package'', JString ''arm_pkg'')])])
      else Inl ''SyntaxError'')"

definition demo_robot_env :: robot_env where
  "demo_robot_env = \<lparr>re_root = [], re_jsonParse = demo_json, re_localeCompare = unit_compare, re_spawn = (\<lambda>_. Inr (Some 0))\<rparr>"

definition demo_robot_tree :: node where
  "demo_robot_tree = Dir [(''pkg'', Dir [(''robot'', Dir [(''capabilities.json'', File ''catalog'')])]),
     (''deploy'', Dir [(''robot-profiles'', Dir [(''demo.json'', File ''profile''), (''project.json'', File [])])]),
     (''module'', Dir [(''service'', Dir [(''arm_service'', Dir [(''project.json'', File ''project'')])])])]"

definition demo_started :: "string list" where
  "demo_started = [''ros2:deploy'', ''--packages-select'', ''arm_pkg'', ''--host'', ''h'', ''--domain-id'', ''42'']"


definition demo_profile :: json where
  "demo_profile = (case demo_json ''profile'' of Inr p \<Rightarrow> p | Inl e \<Rightarrow> JNull)"

lemma checked_profile_deploys_witness:
  "\<exists>packages domain. packages \<noteq> [] \<and> deployProfile demo_robot_env demo_robot_tree [''demo'', ''--dry-run'']
    = Inr (done_with [Shown (''./pr '' @ join '' '' ([''ros2:deploy'', ''--packages-select''] @ packages @ domain))])"
proof (rule checked_profile_deploys)
  let ?c = "done_with [Shown ''Robot profiles passed: 1 profiles, 1 capabilities, 1 active, 0 templates.'']"
  show "printCheck demo_robot_env demo_robot_tree = Inr ?c" by code_simp
  show "ce_code ?c = 0" by (simp add: done_with_def)
  show "findProfile demo_robot_env demo_robot_tree ''demo'' = Inr (Some ([''deploy'', ''robot-profiles'', ''demo.json''], demo_profile))"
    by code_simp
  show "json_get (asRecord demo_profile) ''status'' = JString ''active''" by code_simp
  have "required_packages demo_robot_env demo_robot_tree demo_profile = Inr [JString ''arm_pkg'']" by code_simp
  then show "\<exists>s. v = JString s" if "required_packages demo_robot_env demo_robot_tree demo_profile = Inr found" "v \<in> set found" for found v
    using that by auto
qed simp_all

text \<open>A profile without a status fails the check, and makes the list throw before it shows why.\<close>

theorem list_throws_without_status:
  "profile_line (JObject [(''id'', JString ''demo'')]) = Inl type_error_text"
  by code_simp

end
