(* ===== verification/Workspace.thy ===== *)
theory Workspace
  imports Robot_Cli Format_Command
begin

text \<open>
  The projects of the workspace (\<open>bin/workspace.mjs\<close>, and the same functions of \<open>bin/pr.mjs\<close>): the
  walk for the files \<open>project.json\<close>, the projects that they hold, and what the commands read of them.
  A project may have any shape: what throws in the code is an error here.
\<close>

subsection \<open>Values\<close>

text \<open>\<open>for (const x of v ?? [])\<close>: a text is read character by character, the other values throw.\<close>

fun json_items :: "json \<Rightarrow> json list result" where
  "json_items (JArray xs) = Inr xs"
| "json_items (JString s) = Inr (map (\<lambda>c. JString [c]) s)"
| "json_items JNull = Inr []"
| "json_items JUndefined = Inr []"
| "json_items v = Inl type_error_text"

text \<open>\<open>Object.entries(v)\<close>: keys that are positions come first, in the order of the numbers.\<close>

fun json_entries :: "json \<Rightarrow> (string \<times> json) list" where
  "json_entries (JObject es) =
     sort_key (\<lambda>(k, v). digits_val k) (filter (\<lambda>(k, v). index_key k) es) @ filter (\<lambda>(k, v). \<not> index_key k) es"
| "json_entries (JArray xs) = zip (map nat_str [0..<length xs]) xs"
| "json_entries (JString s) = zip (map nat_str [0..<length s]) (map (\<lambda>c. JString [c]) s)"
| "json_entries v = []"

fun is_object :: "json \<Rightarrow> bool" where
  "is_object (JObject es) = True"
| "is_object v = False"

text \<open>\<open>v?.includes(tag)\<close>, for a list and for a text.\<close>

fun includes_tag :: "json \<Rightarrow> string \<Rightarrow> bool result" where
  "includes_tag (JArray xs) tag = Inr (JString tag \<in> set xs)"
| "includes_tag (JString s) tag = Inr (has_sub s tag)"
| "includes_tag JNull tag = Inr False"
| "includes_tag JUndefined tag = Inr False"
| "includes_tag v tag = Inl type_error_text"

text \<open>\<open>v?.find((tag) => tag.startsWith(start))\<close>.\<close>

fun first_tag :: "string \<Rightarrow> json list \<Rightarrow> string option result" where
  "first_tag start [] = Inr None"
| "first_tag start (JString s # vs) = (if startsWith s start then Inr (Some s) else first_tag start vs)"
| "first_tag start (v # vs) = Inl type_error_text"

fun find_tag :: "string \<Rightarrow> json \<Rightarrow> string option result" where
  "find_tag start (JArray xs) = first_tag start xs"
| "find_tag start JNull = Inr None"
| "find_tag start JUndefined = Inr None"
| "find_tag start v = Inl type_error_text"

definition json_words :: "string list \<Rightarrow> json list" where
  "json_words ws = map JString ws"

subsection \<open>Projects\<close>

record workspace_env =
  ws_root :: path
  ws_jsonParse :: "string \<Rightarrow> json result"
  ws_localeCompare :: "string \<Rightarrow> string \<Rightarrow> int"

record project =
  pj_json :: "(string \<times> json) list"
  pj_file :: path
  pj_fileRoot :: string

definition ignoredDirs :: "string list" where
  "ignoredDirs = [''.cache'', ''.git'', ''.idea'', ''.nx'', ''build'', ''coverage'', ''dist'', ''node_modules'', ''target'']"

definition sort_paths :: "path list \<Rightarrow> path list" where
  "sort_paths ps = js_sort (\<lambda>l r. unit_compare (file_string l) (file_string r)) ps"

text \<open>\<open>findProjectFiles\<close>: the path \<open>rel\<close> of a directory is the one below the root.\<close>

fun project_files :: "path \<Rightarrow> (string \<times> node) list \<Rightarrow> path list" where
  "project_files rel [] = []"
| "project_files rel ((n, t) # es) =
     (case t of
        File text \<Rightarrow> if n = ''project.json'' then [rel @ [n]] else []
      | Dir sub \<Rightarrow>
          if n \<in> set ignoredDirs \<or> take 2 (rel @ [n]) = [''bin'', ''templates''] then []
          else sort_paths (project_files (rel @ [n]) sub)
      | Other \<Rightarrow> [])
     @ project_files rel es"

definition findProjectFiles :: "workspace_env \<Rightarrow> node \<Rightarrow> path list result" where
  "findProjectFiles env fs =
     rbind (readdir fs (ws_root env)) (\<lambda>es. Inr (map (\<lambda>rel. ws_root env @ rel) (sort_paths (project_files [] es))))"

definition read_project :: "workspace_env \<Rightarrow> node \<Rightarrow> path \<Rightarrow> project result" where
  "read_project env fs p =
     rbind (readFile fs p) (\<lambda>content.
     rbind (ws_jsonParse env content) (\<lambda>v.
       Inr \<lparr>pj_json = asRecord v, pj_file = p, pj_fileRoot = path_relative (ws_root env) (butlast p)\<rparr>))"

definition pj_get :: "project \<Rightarrow> string \<Rightarrow> json" where
  "pj_get project k = json_get (pj_json project) k"

definition pj_name :: "project \<Rightarrow> string" where
  "pj_name project = json_text (pj_get project ''name'')"

definition pj_root :: "project \<Rightarrow> string" where
  "pj_root project = json_text (pj_get project ''root'')"

definition is_json_text :: "json \<Rightarrow> bool" where
  "is_json_text v \<longleftrightarrow> (case v of JString s \<Rightarrow> True | _ \<Rightarrow> False)"

text \<open>Sorting asks the names for their order. Which of two names is asked is up to the engine: a
  name that is no text counts as asked when there are two projects or more.\<close>

definition loadProjects :: "workspace_env \<Rightarrow> node \<Rightarrow> project list result" where
  "loadProjects env fs =
     rbind (findProjectFiles env fs) (\<lambda>files.
     rbind (rmap (read_project env fs) files) (\<lambda>projects.
       if 2 \<le> length projects \<and> list_ex (\<lambda>p. \<not> is_json_text (pj_get p ''name'')) projects then Inl type_error_text
       else Inr (js_sort (\<lambda>l r. ws_localeCompare env (pj_name l) (pj_name r)) projects)))"

definition project_dir :: "workspace_env \<Rightarrow> project \<Rightarrow> path result" where
  "project_dir env project = join_value (ws_root env) (pj_get project ''root'')"

definition hasNonEmptyReadme :: "workspace_env \<Rightarrow> node \<Rightarrow> project \<Rightarrow> bool result" where
  "hasNonEmptyReadme env fs project =
     rbind (project_dir env project) (\<lambda>dir.
       if \<not> existsSync fs (dir @ [''README.md'']) then Inr False
       else rbind (readFile fs (dir @ [''README.md''])) (\<lambda>text. Inr (trim text \<noteq> [])))"

definition projectCacheDir :: "workspace_env \<Rightarrow> json \<Rightarrow> string \<Rightarrow> path result" where
  "projectCacheDir env projectName targetName =
     rbind (join_value (ws_root env @ [''.cache'', ''pacific-rim'']) projectName) (\<lambda>dir. Inr (path_join dir targetName))"

subsection \<open>ROS 2 settings\<close>

definition supportedRos2Distros :: "string list" where
  "supportedRos2Distros = [''humble'', ''jazzy'', ''kilted'', ''lyrical'', ''rolling'']"

definition tag_distro :: "string option \<Rightarrow> string" where
  "tag_distro tag = (case tag of Some t \<Rightarrow> drop 5 t | None \<Rightarrow> [])"

definition pj_ros2 :: "project \<Rightarrow> string \<Rightarrow> json" where
  "pj_ros2 project k = json_get (asRecord (pj_get project ''ros2'')) k"

definition ros2DistroFromProject :: "project \<Rightarrow> string result" where
  "ros2DistroFromProject project =
     (if pj_ros2 project ''distro'' \<in> set (json_words supportedRos2Distros) then Inr (json_text (pj_ros2 project ''distro''))
      else rbind (find_tag ''ros2:'' (pj_get project ''tags'')) (\<lambda>tag.
        Inr (if tag_distro tag \<in> set supportedRos2Distros then tag_distro tag else [])))"

definition ros2PackageFromProject :: "workspace_env \<Rightarrow> node \<Rightarrow> project \<Rightarrow> string result" where
  "ros2PackageFromProject env fs project =
     (let declared = trim (asString (pj_ros2 project ''package'')) in
      if declared \<noteq> [] then Inr declared else rbind (project_dir env project) (packageXmlName fs))"

definition set_env :: "string \<Rightarrow> string \<Rightarrow> (string \<times> string) list \<Rightarrow> (string \<times> string) list" where
  "set_env k v env = AList.update k v env"

definition env_entry_given :: "json \<Rightarrow> bool" where
  "env_entry_given v \<longleftrightarrow> \<not> json_nullish v \<and> json_text v \<noteq> []"

definition ros2EnvFromProject :: "project \<Rightarrow> (string \<times> string) list result" where
  "ros2EnvFromProject project =
     rbind (ros2DistroFromProject project) (\<lambda>distro.
       let env = (if distro \<noteq> [] then [(''ROS_DISTRO'', distro)] else []); given = pj_ros2 project ''env''
       in Inr (if is_object given
         then fold (\<lambda>(k, v) env. if env_entry_given v then set_env k (json_text v) env else env) (json_entries given) env
         else env))"

text \<open>\<open>ros2EnvSignature\<close>: the assignments in the order of their keys.\<close>

definition env_lines :: "(string \<times> string) list \<Rightarrow> string list" where
  "env_lines env = map (\<lambda>(k, v). k @ ''='' @ v) (js_sort (\<lambda>l r. unit_compare (fst l) (fst r)) env)"

definition ros2EnvSignature :: "(string \<times> string) list \<Rightarrow> string" where
  "ros2EnvSignature env = join_lines (env_lines env)"

fun find_package_project :: "workspace_env \<Rightarrow> node \<Rightarrow> string \<Rightarrow> project list \<Rightarrow> project option result" where
  "find_package_project env fs packageName [] = Inr None"
| "find_package_project env fs packageName (project # rest) =
     rbind (includes_tag (pj_get project ''tags'') ''framework:ros2'') (\<lambda>ros2.
       if \<not> ros2 then find_package_project env fs packageName rest
       else
         rbind (ros2PackageFromProject env fs project) (\<lambda>declared.
         if declared = packageName then Inr (Some project)
         else rbind (project_dir env project) (\<lambda>dir. rbind (packageXmlName fs dir) (\<lambda>name.
           if name = packageName then Inr (Some project) else find_package_project env fs packageName rest))))"

definition findRos2ProjectByPackage :: "workspace_env \<Rightarrow> node \<Rightarrow> string \<Rightarrow> project option result" where
  "findRos2ProjectByPackage env fs packageName =
     (if packageName = [] then Inr None
      else rbind (loadProjects env fs) (find_package_project env fs packageName))"

end
