(* ===== verification/Project_Check.thy ===== *)
theory Project_Check
  imports Workspace
begin

text \<open>
  The checks of the workspace: \<open>./pr check\<close> (\<open>runCheck\<close> of \<open>bin/pr.mjs\<close>), and \<open>npm run check\<close>
  (\<open>bin/check.mjs\<close>) with the check of a single project (\<open>bin/check-project.mjs\<close>). The functions that the
  scripts have twice are one definition here; where the two differ, both are defined.
\<close>

subsection \<open>Names, roots and tags\<close>

definition allowedProjectRoots :: "string list" where
  "allowedProjectRoots = [''arch'', ''bin'', ''dashboard'', ''deploy'', ''doc'', ''example'', ''module'', ''infra'', ''pkg'', ''monitor'']"

definition allowedProjectTypes :: "string list" where
  "allowedProjectTypes = [''application'', ''deployment'', ''documentation'', ''library'', ''tool'']"

definition allowedScopes :: "string list" where
  "allowedScopes = [''scope:app'', ''scope:deploy'', ''scope:doc'', ''scope:module'', ''scope:infra'', ''scope:pkg'', ''scope:tools'']"

definition root_allowed :: "json \<Rightarrow> bool result" where
  "root_allowed root' =
     (case root' of
        JString r \<Rightarrow> Inr (list_ex (\<lambda>allowed. r = allowed \<or> startsWith r (allowed @ ''/'')) allowedProjectRoots)
      | _ \<Rightarrow> Inl type_error_text)"

definition tag_failures :: "bool \<Rightarrow> project \<Rightarrow> string list" where
  "tag_failures stop project =
     (let name = pj_name project; tags = pj_get project ''tags'';
          target = report (\<not> json_truthy (json_get (asRecord (pj_get project ''targets'')) ''check'')) (name @ '' must define a check target.'')
      in if asUnknownArray tags = [] then (name @ '' must declare tags.'') # (if stop then [] else target)
         else report (set (asUnknownArray tags) \<inter> set (json_words allowedScopes) = {}) (name @ '' must declare one scope:* tag.'') @ target)"

text \<open>What is wrong with a project that has a name and a root. \<open>check.mjs\<close> leaves a project without tags
  there (\<open>stop\<close>), \<open>pr.mjs\<close> goes on to its targets.\<close>

definition project_failures :: "bool \<Rightarrow> json list \<Rightarrow> project \<Rightarrow> string list result" where
  "project_failures stop seenRoots project =
     (let name = pj_name project; root' = pj_get project ''root'' in
      rbind (root_allowed root') (\<lambda>allowed.
        Inr (report (list_ex (same_key root') seenRoots) (''Duplicate project root: '' @ pj_root project)
          @ report (root' \<noteq> JString (pj_fileRoot project)) (name @ '' project.json root must match its directory.'')
          @ report (\<not> allowed) (name @ '' root is outside allowed monorepo roots: '' @ pj_root project)
          @ report (pj_get project ''projectType'' \<notin> set (json_words allowedProjectTypes))
              (name @ '' has unsupported projectType: '' @ json_text (pj_get project ''projectType''))
          @ tag_failures stop project)))"

fun checkProjects :: "bool \<Rightarrow> json list \<Rightarrow> json list \<Rightarrow> project list \<Rightarrow> string list result" where
  "checkProjects stop seenNames seenRoots [] = Inr []"
| "checkProjects stop seenNames seenRoots (project # rest) =
     (let name = pj_get project ''name''; root' = pj_get project ''root'';
          again = report (list_ex (same_key name) seenNames) (''Duplicate project name: '' @ pj_name project) in
      if \<not> json_truthy name then
        rbind (checkProjects stop seenNames seenRoots rest) (\<lambda>more.
          Inr ((''Missing project name in '' @ pj_fileRoot project @ ''/project.json'') # more))
      else if \<not> json_truthy root' then
        rbind (checkProjects stop (name # seenNames) seenRoots rest) (\<lambda>more.
          Inr (again @ (''Missing root for project '' @ pj_name project) # more))
      else
        rbind (project_failures stop seenRoots project) (\<lambda>failures.
        rbind (checkProjects stop (name # seenNames) (root' # seenRoots) rest) (\<lambda>more.
          Inr (again @ failures @ more))))"

subsection \<open>Dependencies\<close>

definition hasTag :: "project \<Rightarrow> string \<Rightarrow> bool" where
  "hasTag project tag \<longleftrightarrow> JString tag \<in> set (asUnknownArray (pj_get project ''tags''))"

definition isConfiguredMiddlewareModuleDependency :: "project \<Rightarrow> bool result" where
  "isConfiguredMiddlewareModuleDependency project =
     rbind (json_items (pj_get project ''implicitDependencies'')) (\<lambda>dependencies.
       if JString ''pkg-idl'' \<notin> set dependencies then Inr False
       else if JString ''infra-communication'' \<in> set dependencies then Inr True
       else includes_tag (pj_get project ''tags'') ''framework:ros2'')"

text \<open>The rules between layers; \<open>modules\<close> says whether a module may depend on another one.\<close>

definition boundary_failures :: "bool \<Rightarrow> (string \<Rightarrow> bool) \<Rightarrow> (string \<Rightarrow> bool) \<Rightarrow> string \<Rightarrow> string list" where
  "boundary_failures modules has dep_has name =
     report (has ''scope:infra'' \<and> \<not> dep_has ''scope:infra'' \<and> \<not> dep_has ''scope:pkg'')
       (name @ '' is shared infra code and may only depend on scope:infra or scope:pkg projects.'')
     @ report (has ''scope:pkg'' \<and> \<not> dep_has ''scope:pkg'')
       (name @ '' is pure shared package code and may only depend on scope:pkg projects.'')
     @ report (has ''scope:module'' \<and> dep_has ''scope:module'' \<and> \<not> modules)
       (name @ '' must not depend directly on another scope:module project.'')
     @ report (has ''scope:tools'' \<and> \<not> dep_has ''scope:tools'')
       (name @ '' tooling must stay independent of runtime projects.'')"

text \<open>\<open>byName.get(name)\<close>: the last project of a name.\<close>

definition project_by_name :: "project list \<Rightarrow> json \<Rightarrow> project option" where
  "project_by_name projects name = find (\<lambda>p. same_key (pj_get p ''name'') name) (rev projects)"

definition pr_boundary :: "project \<Rightarrow> project \<Rightarrow> string list result" where
  "pr_boundary project dependency =
     rbind (if hasTag project ''scope:module'' \<and> hasTag dependency ''scope:module''
       then isConfiguredMiddlewareModuleDependency project else Inr False) (\<lambda>modules.
       Inr (boundary_failures modules (hasTag project) (hasTag dependency) (pj_name project)))"

text \<open>\<open>checkBoundary\<close> of \<open>check.mjs\<close>, whose \<open>hasTag\<close> takes a part of a text as well.\<close>

definition all_tags :: "project \<Rightarrow> (string \<Rightarrow> bool) result" where
  "all_tags project =
     (let tags = pj_get project ''tags'' in
      rbind (includes_tag tags []) (\<lambda>_. Inr (\<lambda>tag. includes_tag tags tag = Inr True)))"

definition checkBoundary :: "project \<Rightarrow> project \<Rightarrow> string list result" where
  "checkBoundary project dependency =
     rbind (all_tags project) (\<lambda>has.
       if list_ex has [''scope:infra'', ''scope:pkg'', ''scope:module'', ''scope:tools'']
       then rbind (all_tags dependency) (\<lambda>dep_has. Inr (boundary_failures False has dep_has (pj_name project)))
       else Inr [])"

definition dependency_failures ::
  "(project \<Rightarrow> project \<Rightarrow> string list result) \<Rightarrow> project list \<Rightarrow> project \<Rightarrow> string list result" where
  "dependency_failures boundary projects project =
     rbind (json_items (pj_get project ''implicitDependencies'')) (\<lambda>names.
     rbind (rmap (\<lambda>name. case project_by_name projects name of
         None \<Rightarrow> Inr [pj_name project @ '' depends on unknown project '' @ json_text name @ ''.'']
       | Some dependency \<Rightarrow> boundary project dependency) names) (\<lambda>failures.
       Inr (concat failures)))"

definition checkDependencies ::
  "(project \<Rightarrow> project \<Rightarrow> string list result) \<Rightarrow> project list \<Rightarrow> string list result" where
  "checkDependencies boundary projects = rbind (rmap (dependency_failures boundary projects) projects) (\<lambda>fss. Inr (concat fss))"

subsection \<open>ROS 2 projects\<close>

definition env_entry_failures :: "string \<Rightarrow> string \<times> json \<Rightarrow> string list" where
  "env_entry_failures name = (\<lambda>(k, v).
     report (\<not> identifier_match k) (name @ '' ros2.env has invalid key '' @ quoted k @ ''.'')
     @ report (\<not> env_entry_given v) (name @ '' ros2.env.'' @ k @ '' must be a non-empty value.'')
     @ report (list_ex is_ws (json_text v)) (name @ '' ros2.env.'' @ k @ '' must not contain whitespace.''))"

definition env_failures :: "project \<Rightarrow> string list" where
  "env_failures project =
     (let env = pj_ros2 project ''env'' in
      if env = JUndefined then []
      else if \<not> is_object env then [pj_name project @ '' ros2.env must be an object when set.'']
      else concat (map (env_entry_failures (pj_name project)) (json_entries env)))"

definition build_command :: "project \<Rightarrow> json" where
  "build_command project = json_get (asRecord (json_get (asRecord (pj_get project ''targets'')) ''build'')) ''command''"

definition command_failures :: "project \<Rightarrow> string \<Rightarrow> string \<Rightarrow> string list" where
  "command_failures project packageName tagDistro =
     (let name = pj_name project in
      case build_command project of
        JString command \<Rightarrow>
          report (\<not> has_sub command (''--packages-select '' @ packageName) \<and> \<not> has_sub command (''--packages-select='' @ packageName))
            (name @ '' targets.build.command must select ros2.package '' @ quoted packageName @ ''.'')
          @ report (tagDistro \<noteq> [] \<and> \<not> has_sub command (''ROS_DISTRO='' @ tagDistro))
            (name @ '' targets.build.command must include ROS_DISTRO='' @ tagDistro @ ''.'')
          @ concat (map (\<lambda>(k, v). report (\<not> has_sub command (k @ ''='' @ json_text v))
              (name @ '' targets.build.command must include '' @ k @ ''='' @ json_text v @ ''.''))
            (json_entries (pj_ros2 project ''env'')))
      | _ \<Rightarrow> [])"

definition checkRos2Config :: "node \<Rightarrow> project \<Rightarrow> path \<Rightarrow> string option \<Rightarrow> string list result" where
  "checkRos2Config fs project projectRoot distroTag =
     rbind (packageXmlName fs projectRoot) (\<lambda>packageName.
       let name = pj_name project; tagDistro = tag_distro distroTag; includeInAll = pj_ros2 project ''includeInAll'' in
       Inr (if \<not> is_object (pj_get project ''ros2'') then [name @ '' must declare a ros2 config object in project.json.'']
         else
           report (pj_ros2 project ''package'' \<noteq> JString packageName)
             (name @ '' ros2.package must match package.xml name '' @ quoted packageName @ ''.'')
           @ report (pj_ros2 project ''distro'' \<noteq> JString tagDistro)
             (name @ '' ros2.distro must match '' @ (case distroTag of Some t \<Rightarrow> t | None \<Rightarrow> ''undefined'') @ ''.'')
           @ report (includeInAll \<noteq> JUndefined \<and> includeInAll \<notin> {JBool True, JBool False})
             (name @ '' ros2.includeInAll must be a boolean when set.'')
           @ env_failures project
           @ command_failures project packageName tagDistro))"

text \<open>\<open>/add_executable\s*\(([\s\S]*?)\)/\<close>.\<close>

definition executable_block :: "string pattern" where
  "executable_block prev s =
     Option.bind (eat_text ''add_executable'' s) (\<lambda>s. Option.bind (eat_spaced ''('' s) (lazy_until (eat_text '')'')))"

text \<open>\<open>s.replace(/^q|q$/g, "")\<close> for one of the marks \<open>q\<close>.\<close>

definition strip_marks :: "(char \<Rightarrow> bool) \<Rightarrow> string \<Rightarrow> string" where
  "strip_marks mark s =
     (let s = (case s of c # cs \<Rightarrow> if mark c then cs else s | [] \<Rightarrow> [])
      in if s \<noteq> [] \<and> mark (last s) then butlast s else s)"

definition cpp_source :: "string \<Rightarrow> bool" where
  "cpp_source token \<longleftrightarrow> list_ex (endsWith (toLowerCase token)) [''.cc'', ''.cpp'', ''.cxx''] \<and> CHR ''$'' \<notin> set token"

definition block_sources :: "string \<Rightarrow> string list" where
  "block_sources block =
     filter cpp_source (drop 1 (filter (\<lambda>t. t \<noteq> []) (map (\<lambda>t. strip_marks (\<lambda>c. c = DQ) (trim t)) (split_runs is_ws block))))"

definition checkCmakeExecutables :: "node \<Rightarrow> project \<Rightarrow> path \<Rightarrow> string list result" where
  "checkCmakeExecutables fs project projectRoot =
     rbind (readFile fs (projectRoot @ [''CMakeLists.txt''])) (\<lambda>cmake.
       let blocks = match_all executable_block None cmake in
       Inr (if blocks = [] then [''Missing ROS2 C++ executable in '' @ pj_root project @ ''/CMakeLists.txt'']
         else concat (map (\<lambda>block. concat (map (\<lambda>token.
             report (\<not> existsSync fs (path_join projectRoot token))
               (''Missing ROS2 C++ executable source: '' @ pj_root project @ ''/'' @ token)) (block_sources block))) blocks)))"

definition ros2_failures :: "node \<Rightarrow> project \<Rightarrow> path \<Rightarrow> string list result" where
  "ros2_failures fs project projectRoot =
     (let tags = pj_get project ''tags''; name = pj_name project; has = existsSync fs in
      rbind (find_tag ''ros2:'' tags) (\<lambda>distroTag.
      rbind (if has (projectRoot @ [''package.xml'']) then checkRos2Config fs project projectRoot distroTag
        else Inr [''Missing ROS2 package manifest: '' @ pj_root project @ ''/package.xml'']) (\<lambda>config.
      rbind (includes_tag tags ''language:python'') (\<lambda>python.
      rbind (includes_tag tags ''language:cpp'') (\<lambda>cpp.
      rbind (if \<not> cpp then Inr []
        else if has (projectRoot @ [''CMakeLists.txt'']) then checkCmakeExecutables fs project projectRoot
        else Inr [''Missing ROS2 C++ build file: '' @ pj_root project @ ''/CMakeLists.txt'']) (\<lambda>cmake.
        Inr ((case distroTag of
            None \<Rightarrow> [name @ '' must declare a ros2:<distro> tag.'']
          | Some t \<Rightarrow> report (tag_distro distroTag \<notin> set supportedRos2Distros) (name @ '' has unsupported ROS2 distro tag: '' @ t))
          @ config
          @ report (python \<and> \<not> has (projectRoot @ [''setup.py''])) (''Missing ROS2 Python setup file: '' @ pj_root project @ ''/setup.py'')
          @ cmake)))))))"

subsection \<open>One project\<close>

definition base_failures :: "workspace_env \<Rightarrow> node \<Rightarrow> project \<Rightarrow> project list \<Rightarrow> string list result" where
  "base_failures env fs project projects =
     rbind (project_dir env project) (\<lambda>dir.
     rbind (hasNonEmptyReadme env fs project) (\<lambda>readme.
     rbind (json_items (pj_get project ''implicitDependencies'')) (\<lambda>names.
       Inr (report (\<not> existsSync fs dir) (''Missing project root: '' @ pj_root project)
         @ report (\<not> readme) (''Missing or empty README: '' @ pj_root project @ ''/README.md'')
         @ concat (map (\<lambda>name. report (\<not> list_ex (\<lambda>p. same_key (pj_get p ''name'') name) projects)
             (''Unknown dependency '' @ quoted (json_text name) @ '' in '' @ pj_name project)) names)))))"

definition checkProject :: "workspace_env \<Rightarrow> node \<Rightarrow> project \<Rightarrow> project list \<Rightarrow> string list result" where
  "checkProject env fs project projects =
     rbind (base_failures env fs project projects) (\<lambda>failures.
     rbind (includes_tag (pj_get project ''tags'') ''framework:ros2'') (\<lambda>ros2.
     rbind (if ros2 then rbind (project_dir env project) (ros2_failures fs project) else Inr []) (\<lambda>more.
       Inr (failures @ more))))"

subsection \<open>The whole workspace\<close>

definition root_file_failures :: "workspace_env \<Rightarrow> node \<Rightarrow> json \<Rightarrow> string list result" where
  "root_file_failures env fs packageJson =
     (let gitignore = ws_root env @ [''.gitignore''] in
      rbind (if existsSync fs gitignore then readFile fs gitignore else Inr []) (\<lambda>text.
        Inr (concat (map (\<lambda>f. report (\<not> existsSync fs (ws_root env @ [f])) (''Missing required root file: '' @ f))
            [''package.json'', ''nx.json'', ''.gitignore''])
          @ report (json_get (asRecord packageJson) ''private'' \<noteq> JBool True) ''package.json must set private=true for this workspace.''
          @ (if existsSync fs gitignore
             then concat (map (\<lambda>p. report (\<not> has_sub text p) (''.gitignore must include '' @ p)) [''.cache/'', ''.nx/cache/'', ''.nx/workspace-data/''])
             else []))))"

text \<open>The failures of \<open>runCheck\<close>; \<open>packageJson\<close> is what the start of the command has read.\<close>

definition pr_check_failures :: "workspace_env \<Rightarrow> node \<Rightarrow> json \<Rightarrow> project list \<Rightarrow> string list result" where
  "pr_check_failures env fs packageJson projects =
     rbind (root_file_failures env fs packageJson) (\<lambda>files.
     rbind (checkProjects False [] [] projects) (\<lambda>names.
     rbind (checkDependencies pr_boundary projects) (\<lambda>dependencies.
     rbind (rmap (\<lambda>p. checkProject env fs p projects) projects) (\<lambda>each.
       Inr (files @ names @ dependencies @ report (projects = []) ''No project.json files found.'' @ concat each)))))"

text \<open>The edges of the graph: \<open>length\<close> and \<open>join\<close> of a list; a text has no \<open>join\<close>.\<close>

definition edge_list :: "project \<Rightarrow> string result" where
  "edge_list project =
     (case pj_get project ''implicitDependencies'' of
        JArray xs \<Rightarrow> Inr (if xs = [] then ''none'' else json_join '', '' xs)
      | JString s \<Rightarrow> if s = [] then Inr ''none'' else Inl type_error_text
      | _ \<Rightarrow> Inr ''none'')"

definition printProjectGraph :: "project list \<Rightarrow> string list result" where
  "printProjectGraph projects =
     rbind (rmap (\<lambda>p. rbind (edge_list p) (\<lambda>edges. Inr (''- '' @ pj_name p @ '' -> '' @ edges))) projects) (\<lambda>ls.
       Inr (''Project graph:'' # ls))"

text \<open>\<open>runCheck\<close>: the failures it reports, or the lines of a check that has passed.\<close>

definition runCheck :: "workspace_env \<Rightarrow> node \<Rightarrow> json \<Rightarrow> (string list + string list) result" where
  "runCheck env fs packageJson =
     rbind (loadProjects env fs) (\<lambda>projects.
     rbind (pr_check_failures env fs packageJson projects) (\<lambda>failures.
       if failures \<noteq> [] then Inr (Inl failures)
       else rbind (printProjectGraph projects) (\<lambda>graph. Inr (Inr (graph @ [''Monorepo check passed.''])))))"

end
