(* ===== verification/Project_Check_Npm.thy ===== *)
theory Project_Check_Npm
  imports Project_Check Yaml_Edit
begin

text \<open>
  \<open>npm run check\<close>: \<open>bin/check.mjs\<close> checks the graph and starts \<open>bin/check-project.mjs\<close> for every
  project, which also reads the routes of the configuration and leaves its result in the cache.
  A run ends with the failures that it prints, with the lines of a check that has passed, or with an
  error of which the message is printed.
\<close>

subsection \<open>\<open>JSON.stringify(v, null, 2)\<close>\<close>

definition hex_digit :: "nat \<Rightarrow> char" where
  "hex_digit n = ''0123456789abcdef'' ! n"

definition json_escape :: "char \<Rightarrow> string" where
  "json_escape c =
     (case map_of [(DQ, DQ), (CHR 0x5C, CHR 0x5C), (CHR 0x08, CHR ''b''), (CHR 0x0C, CHR ''f''), (LF, CHR ''n''), (CR, CHR ''r''), (CHR 0x09, CHR ''t'')] c of
        Some e \<Rightarrow> [CHR 0x5C, e]
      | None \<Rightarrow>
          let n = of_char c :: nat
          in if n < 32 then CHR 0x5C # ''u00'' @ [hex_digit (n div 16), hex_digit (n mod 16)] else [c])"

definition json_quote :: "string \<Rightarrow> string" where
  "json_quote s = DQ # concat (map json_escape s) @ [DQ]"

definition in_brackets :: "char \<Rightarrow> char \<Rightarrow> string \<Rightarrow> string list \<Rightarrow> string" where
  "in_brackets open' close pad items =
     (if items = [] then [open', close]
      else open' # nl @ join ('','' @ nl) (map (\<lambda>item. pad @ ''  '' @ item) items) @ nl @ pad @ [close])"

definition index_first :: "(string \<times> 'a) list \<Rightarrow> (string \<times> 'a) list" where
  "index_first es = sort_key (\<lambda>(k, v). digits_val k) (filter (\<lambda>(k, v). index_key k) es) @ filter (\<lambda>(k, v). \<not> index_key k) es"

fun json_pretty :: "string \<Rightarrow> json \<Rightarrow> string"
  and pretty_items :: "string \<Rightarrow> json list \<Rightarrow> string list"
  and pretty_fields :: "string \<Rightarrow> (string \<times> json) list \<Rightarrow> (string \<times> string) list" where
  "json_pretty pad (JString s) = json_quote s"
| "json_pretty pad (JArray xs) = in_brackets (CHR ''['') (CHR '']'') pad (pretty_items (pad @ ''  '') xs)"
| "json_pretty pad (JObject es) =
     in_brackets (CHR ''{'') (CHR ''}'') pad (map (\<lambda>(k, v). json_quote k @ '': '' @ v) (index_first (pretty_fields (pad @ ''  '') es)))"
| "json_pretty pad (JNumber None) = ''null''"
| "json_pretty pad v = json_text v"
| "pretty_items pad [] = []"
| "pretty_items pad (v # vs) = (if v = JUndefined then ''null'' else json_pretty pad v) # pretty_items pad vs"
| "pretty_fields pad [] = []"
| "pretty_fields pad ((k, v) # es) =
     (if v = JUndefined then pretty_fields pad es else (k, json_pretty pad v) # pretty_fields pad es)"

definition json_stringify :: "json \<Rightarrow> string" where
  "json_stringify v = json_pretty [] v"

subsection \<open>The routes of a configuration\<close>

record config_route =
  cr_direction :: string
  cr_name :: string
  cr_section :: string

record config_scan =
  cs_inCommunication :: bool
  cs_section :: "string option"
  cs_current :: "config_route option"
  cs_routes :: "config_route list"

definition finish_route :: "config_scan \<Rightarrow> config_scan" where
  "finish_route s =
     s\<lparr>cs_routes := cs_routes s @ (case cs_current s of Some r \<Rightarrow> [r] | None \<Rightarrow> []), cs_current := None\<rparr>"

definition route_key_name :: "string \<Rightarrow> string option" where
  "route_key_name t =
     (if endsWith t '':'' \<and> butlast t \<noteq> [] \<and> list_all is_route_name_char (butlast t) then Some (butlast t) else None)"

definition direction_value :: "string \<Rightarrow> string option" where
  "direction_value t =
     (if startsWith t ''direction:''
      then let v = dropWhile is_ws (drop 10 t)
           in if list_ex is_term v then None else Some (strip_marks (\<lambda>c. c = DQ \<or> c = SQ) (trim v))
      else None)"

text \<open>The two places where a line ends what is open, and what the line then stands for.\<close>

definition close_scopes :: "line_info \<Rightarrow> config_scan \<Rightarrow> config_scan" where
  "close_scopes line s =
     (if cs_inCommunication s \<and> indent line = 0 \<and> trimmed line \<noteq> []
      then (finish_route s)\<lparr>cs_inCommunication := False, cs_section := None\<rparr> else s)"

definition close_section :: "line_info \<Rightarrow> config_scan \<Rightarrow> config_scan" where
  "close_section line s =
     (if cs_section s \<noteq> None \<and> trimmed line \<noteq> [] \<and> indent line \<le> 2 then (finish_route s)\<lparr>cs_section := None\<rparr> else s)"

definition route_or_direction :: "line_info \<Rightarrow> config_scan \<Rightarrow> config_scan" where
  "route_or_direction line s =
     (case (if indent line = 4 then cs_section s else None, route_key_name (trimmed line)) of
        (Some section', Some name) \<Rightarrow>
          (finish_route s)\<lparr>cs_current := Some \<lparr>cr_direction = [], cr_name = name, cr_section = section'\<rparr>\<rparr>
      | _ \<Rightarrow> (case (if indent line = 6 then cs_current s else None, direction_value (trimmed line)) of
          (Some r, Some d) \<Rightarrow> s\<lparr>cs_current := Some (r\<lparr>cr_direction := d\<rparr>)\<rparr>
        | _ \<Rightarrow> s))"

definition scan_line :: "string \<Rightarrow> config_scan \<Rightarrow> config_scan" where
  "scan_line raw s =
     (let line = lineInfo raw in
      if indent line = 0 \<and> trimmed line = ''communication:''
      then (finish_route s)\<lparr>cs_inCommunication := True, cs_section := None\<rparr>
      else
        let s = close_scopes line s in
        if cs_inCommunication s \<and> indent line = 2 \<and> trimmed line \<in> set [''services:'', ''topics:'']
        then (finish_route s)\<lparr>cs_section := Some (butlast (trimmed line))\<rparr>
        else route_or_direction line (close_section line s))"

definition communicationConfigRoutes :: "string \<Rightarrow> config_route list" where
  "communicationConfigRoutes text =
     cs_routes (finish_route (fold scan_line (split_lines text)
       \<lparr>cs_inCommunication = False, cs_section = None, cs_current = None, cs_routes = []\<rparr>))"

definition consumer_directions :: "string \<Rightarrow> string list" where
  "consumer_directions section' =
     (if section' = ''services'' then [''client'', ''consumer''] else [''subscribe'', ''subscriber'', ''in'', ''consumer''])"

definition route_failures :: "project \<Rightarrow> config_route \<Rightarrow> string list" where
  "route_failures project route =
     (let direction = toLowerCase (cr_direction route); config = pj_root project @ ''/config.yaml '';
          word = (if cr_section route = ''services'' then ''service '' else ''topic '') in
      if direction = []
      then [config @ ''route '' @ cr_section route @ ''.'' @ cr_name route @ '' must declare direction client or subscribe; provider routes belong in pkg/idl/<service>/public/interfaces.yaml.'']
      else report (direction \<notin> set (consumer_directions (cr_section route)))
        (config @ word @ quoted (cr_name route) @ '' uses provider direction '' @ quoted (cr_direction route)
          @ ''. Define it under pkg/idl/<service>/public/interfaces.yaml instead.''))"

definition firstExisting :: "node \<Rightarrow> path list \<Rightarrow> path option" where
  "firstExisting fs candidates = find (existsSync fs) candidates"

definition module_configs :: "path \<Rightarrow> path list" where
  "module_configs dir = [dir @ [''src'', ''config'', ''config.yaml''], dir @ [''config'', ''config.yaml''], dir @ [''config.yaml'']]"

definition checkConsumerOnlyCommunicationConfig :: "node \<Rightarrow> project \<Rightarrow> path \<Rightarrow> string list result" where
  "checkConsumerOnlyCommunicationConfig fs project dir =
     (case firstExisting fs (module_configs dir) of
        None \<Rightarrow> Inr []
      | Some configPath \<Rightarrow> rbind (readFile fs configPath) (\<lambda>text.
          Inr (concat (map (route_failures project) (communicationConfigRoutes text)))))"

subsection \<open>\<open>check-project.mjs\<close>\<close>

definition checkRos2Project :: "workspace_env \<Rightarrow> node \<Rightarrow> project \<Rightarrow> string list result" where
  "checkRos2Project env fs project =
     rbind (includes_tag (pj_get project ''tags'') ''framework:ros2'') (\<lambda>ros2.
       if \<not> ros2 then Inr []
       else rbind (project_dir env project) (\<lambda>dir.
         rbind (ros2_failures fs project dir) (\<lambda>failures.
         rbind (checkConsumerOnlyCommunicationConfig fs project dir) (\<lambda>routes. Inr (failures @ routes)))))"

definition single_failures :: "workspace_env \<Rightarrow> node \<Rightarrow> project \<Rightarrow> project list \<Rightarrow> string list result" where
  "single_failures env fs project projects =
     rbind (base_failures env fs project projects) (\<lambda>failures.
     rbind (checkRos2Project env fs project) (\<lambda>more. Inr (failures @ more)))"

definition check_result :: "workspace_env \<Rightarrow> path \<Rightarrow> project \<Rightarrow> string list \<Rightarrow> json" where
  "check_result env cacheDir project failures =
     JObject [(''code'', JNumber (Some (if failures = [] then 0 else 1))), (''failures'', JArray (map JString failures)),
       (''project'', pj_get project ''name''), (''root'', pj_get project ''root''),
       (''relativeCacheDir'', JString (path_relative (ws_root env) cacheDir))]"

definition writeResult :: "workspace_env \<Rightarrow> path \<Rightarrow> project \<Rightarrow> string list \<Rightarrow> unit run" where
  "writeResult env cacheDir project failures =
     run_write (cacheDir @ [''result.json'']) (json_stringify (check_result env cacheDir project failures) @ nl)"

text \<open>A check that passes prints lines (\<^const>\<open>Inr\<close>), one that fails the failures (\<^const>\<open>Inl\<close>).\<close>

definition check_project_main :: "workspace_env \<Rightarrow> string \<Rightarrow> (string list + string list) run" where
  "check_project_main env arg =
     (if arg = [] then run_value (Inr (Inl [''Usage: node bin/check-project.mjs <project-name-or-root>'']))
      else
        run_then (run_read (loadProjects env)) (\<lambda>projects.
        case find (\<lambda>p. pj_get p ''name'' = JString arg \<or> pj_get p ''root'' = JString arg) projects of
          None \<Rightarrow> run_value (Inl (''Unknown project: '' @ arg))
        | Some project \<Rightarrow>
            run_then (run_read (\<lambda>fs. single_failures env fs project projects)) (\<lambda>failures.
            run_then (run_value (projectCacheDir env (pj_get project ''name'') ''check'')) (\<lambda>cacheDir.
            run_then (run_change (\<lambda>fs. mkdir_rec fs cacheDir)) (\<lambda>_.
            run_then (writeResult env cacheDir project failures) (\<lambda>_.
              run_value (Inr (if failures \<noteq> [] then Inl failures else Inr [pj_name project @ '': check passed'']))))))))"

subsection \<open>\<open>check.mjs\<close>\<close>

definition checkRootFiles :: "workspace_env \<Rightarrow> node \<Rightarrow> string list result" where
  "checkRootFiles env fs =
     (let package = ws_root env @ [''package.json''] in
      rbind (if existsSync fs package
        then rbind (readFile fs package) (\<lambda>content. rbind (ws_jsonParse env content) (\<lambda>v. rbind (json_prop v ''private'') (\<lambda>_. Inr v)))
        else Inr (JObject [(''private'', JBool True)])) (root_file_failures env fs))"

definition graph_failures :: "workspace_env \<Rightarrow> node \<Rightarrow> project list \<Rightarrow> string list result" where
  "graph_failures env fs projects =
     rbind (checkRootFiles env fs) (\<lambda>files.
     rbind (checkProjects True [] [] projects) (\<lambda>names.
     rbind (checkDependencies checkBoundary projects) (\<lambda>dependencies.
       Inr (files @ names @ dependencies @ report (projects = []) ''No project.json files found.''))))"

text \<open>\<open>execFile\<close> of \<open>check-project.mjs\<close>; its argument must be a text.\<close>

definition run_single :: "workspace_env \<Rightarrow> project \<Rightarrow> unit run" where
  "run_single env project =
     (case pj_get project ''name'' of
        JString name \<Rightarrow> (\<lambda>fs.
          let failed = (\<lambda>err. Inl (''Command failed: node bin/check-project.mjs '' @ name @ nl @ concat (map (\<lambda>l. l @ nl) err)))
          in case check_project_main env name fs of
               (Inr (Inr lines), fs') \<Rightarrow> (Inr (), fs')
             | (Inr (Inl failures), fs') \<Rightarrow> (failed failures, fs')
             | (Inl e, fs') \<Rightarrow> (failed [e], fs'))
      | _ \<Rightarrow> run_value (Inl type_error_text))"

fun runProjectChecks :: "workspace_env \<Rightarrow> project list \<Rightarrow> unit run" where
  "runProjectChecks env [] = run_value (Inr ())"
| "runProjectChecks env (project # rest) = run_then (run_single env project) (\<lambda>_. runProjectChecks env rest)"

definition npm_check :: "workspace_env \<Rightarrow> (string list + string list) run" where
  "npm_check env =
     run_then (run_read (checkRootFiles env)) (\<lambda>_.
     run_then (run_read (loadProjects env)) (\<lambda>projects.
     run_then (run_read (\<lambda>fs. graph_failures env fs projects)) (\<lambda>failures.
       if failures \<noteq> [] then run_value (Inr (Inl failures))
       else run_then (runProjectChecks env projects) (\<lambda>_.
         run_then (run_value (printProjectGraph projects)) (\<lambda>graph.
           run_value (Inr (Inr (graph @ [''Monorepo check passed.'']))))))))"

end
