(* ===== verification/Project_Check_Props.thy ===== *)
theory Project_Check_Props
  imports Project_Check_Npm Robot_Cli_Props
begin

text \<open>
  What a workspace that passes the check looks like, and that \<open>npm run check\<close> asks for at least as much as
  \<open>./pr check\<close>.
\<close>

subsection \<open>No failures\<close>

lemma report_none [simp]: "report b f = [] \<longleftrightarrow> \<not> b"
  by (simp add: report_def)

lemma rmap_none:
  assumes "rmap f xs = Inr ys"
  shows "concat ys = [] \<longleftrightarrow> (\<forall>x \<in> set xs. f x = Inr [])"
  using assms by (induction xs arbitrary: ys) (auto simp: rbind_end)

lemma rmap_all: "\<forall>x \<in> set xs. f x = Inr (g x) \<Longrightarrow> rmap f xs = Inr (map g xs)"
  by (induction xs) auto

lemma checkProjects_none:
  "checkProjects stop seenNames seenRoots projects = Inr [] \<longleftrightarrow>
     (\<forall>p \<in> set projects. json_truthy (pj_get p ''name'') \<and> json_truthy (pj_get p ''root''))
     \<and> (\<forall>i < length projects. \<not> list_ex (same_key (pj_get (projects ! i) ''name'')) (rev (map (\<lambda>p. pj_get p ''name'') (take i projects)) @ seenNames)
        \<and> project_failures stop (rev (map (\<lambda>p. pj_get p ''root'') (take i projects)) @ seenRoots) (projects ! i) = Inr [])"
proof (induction projects arbitrary: seenNames seenRoots)
  case (Cons p ps)
  let ?name = "pj_get p ''name''" and ?root = "pj_get p ''root''"
  have all: "(\<forall>i < length (p # ps). P i) \<longleftrightarrow> P 0 \<and> (\<forall>i < length ps. P (Suc i))" for P :: "nat \<Rightarrow> bool"
    by (auto simp: less_Suc_eq_0_disj)
  show ?case unfolding all by (auto simp: Let_def rbind_end Cons.IH)
qed simp

lemma tag_failures_none:
  "tag_failures stop p = [] \<longleftrightarrow>
     asUnknownArray (pj_get p ''tags'') \<noteq> [] \<and> set (asUnknownArray (pj_get p ''tags'')) \<inter> set (json_words allowedScopes) \<noteq> {}
     \<and> json_truthy (json_get (asRecord (pj_get p ''targets'')) ''check'')"
  by (auto simp: tag_failures_def Let_def)

lemma project_failures_none:
  "project_failures stop seen p = Inr [] \<longleftrightarrow>
     root_allowed (pj_get p ''root'') = Inr True \<and> \<not> list_ex (same_key (pj_get p ''root'')) seen
     \<and> pj_get p ''root'' = JString (pj_fileRoot p) \<and> pj_get p ''projectType'' \<in> set (json_words allowedProjectTypes)
     \<and> tag_failures stop p = []"
  by (auto simp: project_failures_def Let_def rbind_end simp del: root_allowed_def)

lemma checkDependencies_none:
  "checkDependencies boundary projects = Inr [] \<longleftrightarrow> (\<forall>p \<in> set projects. dependency_failures boundary projects p = Inr [])"
proof
  assume "checkDependencies boundary projects = Inr []"
  then show "\<forall>p \<in> set projects. dependency_failures boundary projects p = Inr []"
    using rmap_none [of "dependency_failures boundary projects" projects] by (auto simp: checkDependencies_def rbind_end)
next
  assume "\<forall>p \<in> set projects. dependency_failures boundary projects p = Inr []"
  from rmap_all [OF this] show "checkDependencies boundary projects = Inr []" by (simp add: checkDependencies_def)
qed

definition dependency_names :: "project \<Rightarrow> json list" where
  "dependency_names p = (case json_items (pj_get p ''implicitDependencies'') of Inr names \<Rightarrow> names | Inl e \<Rightarrow> [])"

lemma dependency_failures_none:
  "dependency_failures boundary projects p = Inr [] \<longleftrightarrow>
     json_items (pj_get p ''implicitDependencies'') = Inr (dependency_names p)
     \<and> (\<forall>name \<in> set (dependency_names p). \<exists>q. project_by_name projects name = Some q \<and> boundary p q = Inr [])"
proof (cases "json_items (pj_get p ''implicitDependencies'')")
  case (Inr names)
  let ?f = "\<lambda>name. case project_by_name projects name of
      None \<Rightarrow> Inr [pj_name p @ '' depends on unknown project '' @ json_text name @ ''.''] | Some q \<Rightarrow> boundary p q"
  have f: "?f name = Inr [] \<longleftrightarrow> (\<exists>q. project_by_name projects name = Some q \<and> boundary p q = Inr [])" for name
    by (simp split: option.split)
  have "dependency_failures boundary projects p = Inr [] \<longleftrightarrow> (\<exists>fss. rmap ?f names = Inr fss \<and> concat fss = [])"
    by (simp only: dependency_failures_def Inr rbind_simps rbind_end sum.inject)
  also have "\<dots> \<longleftrightarrow> (\<forall>name \<in> set names. ?f name = Inr [])"
  proof
    assume "\<forall>name \<in> set names. ?f name = Inr []"
    from rmap_all [OF this] show "\<exists>fss. rmap ?f names = Inr fss \<and> concat fss = []" by (simp add: concat_eq_Nil_conv)
  qed (use rmap_none in blast)
  finally show ?thesis by (simp only: f dependency_names_def Inr sum.case simp_thms)
qed (simp add: dependency_failures_def)

subsection \<open>Layers\<close>

lemma find_member: "find P xs = Some x \<Longrightarrow> P x \<and> x \<in> set xs"
  by (induction xs) (auto split: if_splits)

definition depends :: "project list \<Rightarrow> project \<Rightarrow> project \<Rightarrow> bool" where
  "depends projects p q \<longleftrightarrow> p \<in> set projects \<and> (\<exists>name \<in> set (dependency_names p). project_by_name projects name = Some q)"

lemma project_by_name_in: "project_by_name projects name = Some q \<Longrightarrow> q \<in> set projects \<and> same_key (pj_get q ''name'') name"
  unfolding project_by_name_def by (drule find_member) simp

lemma pr_boundary_rules:
  assumes "pr_boundary p q = Inr []"
  shows "hasTag p ''scope:pkg'' \<Longrightarrow> hasTag q ''scope:pkg''"
    and "hasTag p ''scope:infra'' \<Longrightarrow> hasTag q ''scope:infra'' \<or> hasTag q ''scope:pkg''"
    and "hasTag p ''scope:tools'' \<Longrightarrow> hasTag q ''scope:tools''"
    and "hasTag p ''scope:module'' \<Longrightarrow> hasTag q ''scope:module'' \<Longrightarrow> isConfiguredMiddlewareModuleDependency p = Inr True"
  using assms by (auto simp: pr_boundary_def rbind_end boundary_failures_def split: if_splits)

text \<open>What holds along a single dependency holds along a chain of them.\<close>

lemma chain_closed:
  assumes "(depends projects)\<^sup>*\<^sup>* p q" "P p" "\<And>p q. depends projects p q \<Longrightarrow> P p \<Longrightarrow> P q"
  shows "P q"
  using assms(1,2) by (induction rule: rtranclp_induct) (auto intro: assms(3))

definition layered :: "project list \<Rightarrow> bool" where
  "layered projects \<longleftrightarrow>
     (\<forall>p q. (depends projects)\<^sup>*\<^sup>* p q \<longrightarrow>
        (hasTag p ''scope:pkg'' \<longrightarrow> hasTag q ''scope:pkg'')
        \<and> (hasTag p ''scope:infra'' \<longrightarrow> hasTag q ''scope:infra'' \<or> hasTag q ''scope:pkg'')
        \<and> (hasTag p ''scope:tools'' \<longrightarrow> hasTag q ''scope:tools''))"

definition resolved :: "project list \<Rightarrow> bool" where
  "resolved projects \<longleftrightarrow> (\<forall>p \<in> set projects. \<forall>name \<in> set (dependency_names p). \<exists>!q. q \<in> set projects \<and> pj_get q ''name'' = name)"

lemma layered_check:
  assumes "checkDependencies pr_boundary projects = Inr []"
  shows "layered projects"
proof -
  have step: "pr_boundary p q = Inr []" if "depends projects p q" for p q
    using that assms unfolding depends_def checkDependencies_none dependency_failures_none by fastforce
  have pkg: "hasTag p ''scope:pkg'' \<Longrightarrow> hasTag q ''scope:pkg''" if "(depends projects)\<^sup>*\<^sup>* p q" for p q
    using chain_closed [OF that, of "\<lambda>p. hasTag p ''scope:pkg''"] pr_boundary_rules(1) [OF step] by blast
  moreover have "hasTag p ''scope:infra'' \<Longrightarrow> hasTag q ''scope:infra'' \<or> hasTag q ''scope:pkg''" if "(depends projects)\<^sup>*\<^sup>* p q" for p q
    using chain_closed [OF that, of "\<lambda>p. hasTag p ''scope:infra'' \<or> hasTag p ''scope:pkg''"] pr_boundary_rules(1,2) [OF step] by blast
  moreover have "hasTag p ''scope:tools'' \<Longrightarrow> hasTag q ''scope:tools''" if "(depends projects)\<^sup>*\<^sup>* p q" for p q
    using chain_closed [OF that, of "\<lambda>p. hasTag p ''scope:tools''"] pr_boundary_rules(3) [OF step] by blast
  ultimately show ?thesis unfolding layered_def by blast
qed

text \<open>Names that are texts have one project each.\<close>

lemma same_key_text [simp]: "same_key (JString s) v \<longleftrightarrow> v = JString s" "same_key v (JString s) \<longleftrightarrow> v = JString s"
  by (cases v; auto)+

lemma checked_names:
  assumes "checkProjects stop [] [] projects = Inr []" "\<forall>p \<in> set projects. is_json_text (pj_get p ''name'')"
  shows "distinct (map (\<lambda>p. pj_get p ''name'') projects)"
proof -
  have "pj_get (projects ! i) ''name'' \<noteq> pj_get (projects ! j) ''name''" if "i < j" "j < length projects" for i j
  proof
    assume same: "pj_get (projects ! i) ''name'' = pj_get (projects ! j) ''name''"
    have nth: "projects ! j \<in> set projects" using that by simp
    obtain s where s: "pj_get (projects ! j) ''name'' = JString s"
      using bspec [OF assms(2) nth] by (auto simp: is_json_text_def split: json.splits)
    have "projects ! i \<in> set (take j projects)" using that by (auto simp: in_set_conv_nth)
    then have "pj_get (projects ! i) ''name'' \<in> (\<lambda>p. pj_get p ''name'') ` set (take j projects)" by (rule imageI)
    moreover have "\<not> list_ex (same_key (JString s)) (rev (map (\<lambda>p. pj_get p ''name'') (take j projects)) @ [])"
      using assms(1) that s unfolding checkProjects_none by metis
    ultimately show False using same s by (auto simp: list_ex_iff)
  qed
  then show ?thesis unfolding distinct_conv_nth length_map
    by (metis (no_types, lifting) linorder_neqE_nat nth_map order_less_trans)
qed

lemma checked_roots:
  assumes "checkProjects stop [] [] projects = Inr []"
  shows "\<forall>p \<in> set projects. pj_get p ''root'' = JString (pj_fileRoot p)" "distinct (map pj_fileRoot projects)"
proof -
  have own: "pj_get (projects ! i) ''root'' = JString (pj_fileRoot (projects ! i))"
    and new: "\<not> list_ex (same_key (pj_get (projects ! i) ''root'')) (rev (map (\<lambda>p. pj_get p ''root'') (take i projects)) @ [])"
    if "i < length projects" for i
    using assms that unfolding checkProjects_none project_failures_none by blast+
  show "\<forall>p \<in> set projects. pj_get p ''root'' = JString (pj_fileRoot p)" using own by (metis in_set_conv_nth)
  have "pj_fileRoot (projects ! i) \<noteq> pj_fileRoot (projects ! j)" if "i < j" "j < length projects" for i j
  proof
    assume same: "pj_fileRoot (projects ! i) = pj_fileRoot (projects ! j)"
    have "projects ! i \<in> set (take j projects)" using that by (auto simp: in_set_conv_nth)
    then have "pj_get (projects ! i) ''root'' \<in> (\<lambda>p. pj_get p ''root'') ` set (take j projects)" by (rule imageI)
    then show False using new [OF that(2)] own [of i] own [OF that(2)] that same by (auto simp: list_ex_iff)
  qed
  then show "distinct (map pj_fileRoot projects)" unfolding distinct_conv_nth length_map
    by (metis (no_types, lifting) linorder_neqE_nat nth_map order_less_trans)
qed

lemma loaded_names:
  assumes "loadProjects env fs = Inr projects" "2 \<le> length projects" "p \<in> set projects"
  shows "is_json_text (pj_get p ''name'')"
  using assms by (auto simp: loadProjects_def rbind_end split: if_splits) (auto simp: list_ex_iff)

lemma same_key_eq: "same_key v w \<Longrightarrow> v = w"
  by (cases v) auto

lemma rmap_concat_none: "(\<exists>ys. rmap f xs = Inr ys \<and> concat ys = []) \<longleftrightarrow> (\<forall>x \<in> set xs. f x = Inr [])"
  using rmap_none rmap_all by fastforce

lemma pr_check_none:
  "pr_check_failures env fs packageJson projects = Inr [] \<longleftrightarrow>
     root_file_failures env fs packageJson = Inr [] \<and> checkProjects False [] [] projects = Inr []
     \<and> checkDependencies pr_boundary projects = Inr [] \<and> projects \<noteq> []
     \<and> (\<forall>p \<in> set projects. checkProject env fs p projects = Inr [])"
  unfolding rmap_concat_none [symmetric] by (auto simp: pr_check_failures_def rbind_end)

lemma base_failures_none:
  "base_failures env fs p projects = Inr [] \<longleftrightarrow>
     (\<exists>dir. project_dir env p = Inr dir \<and> existsSync fs dir) \<and> hasNonEmptyReadme env fs p = Inr True
     \<and> json_items (pj_get p ''implicitDependencies'') = Inr (dependency_names p)
     \<and> (\<forall>name \<in> set (dependency_names p). \<exists>q \<in> set projects. same_key (pj_get q ''name'') name)"
  by (cases "json_items (pj_get p ''implicitDependencies'')") (auto simp: base_failures_def rbind_end dependency_names_def list_ex_iff)

text \<open>C28. A workspace that passes \<open>./pr check\<close> is in order: no two projects have the same name or root, the root of
  each is the directory of its \<open>project.json\<close>, which has a README, every dependency names exactly one project, and the
  layers hold along every chain of dependencies: whatever a \<open>scope:pkg\<close> project reaches is \<open>scope:pkg\<close>, an infra
  project reaches infra and pkg only, and tools reach tools only.\<close>

theorem check_passed_layers:
  assumes "runCheck env fs packageJson = Inr (Inr lines)"
  shows "\<exists>projects. loadProjects env fs = Inr projects \<and> projects \<noteq> [] \<and> distinct (map (\<lambda>p. pj_get p ''name'') projects)
    \<and> distinct (map pj_fileRoot projects)
    \<and> (\<forall>p \<in> set projects. pj_get p ''root'' = JString (pj_fileRoot p) \<and> hasNonEmptyReadme env fs p = Inr True)
    \<and> resolved projects \<and> layered projects"
proof -
  from assms obtain projects where load: "loadProjects env fs = Inr projects"
    and "pr_check_failures env fs packageJson projects = Inr []"
    by (auto simp: runCheck_def rbind_end split: if_splits)
  then have ok: "checkProjects False [] [] projects = Inr []" "checkDependencies pr_boundary projects = Inr []" "projects \<noteq> []"
    and each: "\<forall>p \<in> set projects. checkProject env fs p projects = Inr []"
    unfolding pr_check_none by blast+
  have names: "distinct (map (\<lambda>p. pj_get p ''name'') projects)"
  proof (cases "2 \<le> length projects")
    case True
    with loaded_names [OF load] show ?thesis by (intro checked_names [OF ok(1)]) blast
  next
    case False
    with ok(3) obtain p where "projects = [p]" by (cases projects rule: remdups_adj.cases) auto
    then show ?thesis by simp
  qed
  have base: "base_failures env fs p projects = Inr []" if "p \<in> set projects" for p
    using bspec [OF each that] by (auto simp: checkProject_def rbind_end)
  have "resolved projects" unfolding resolved_def
  proof (intro ballI ex_ex1I)
    fix p name assume "p \<in> set projects" "name \<in> set (dependency_names p)"
    with base [of p] show "\<exists>q. q \<in> set projects \<and> pj_get q ''name'' = name"
      unfolding base_failures_none using same_key_eq by blast
  next
    fix name q q' assume "q \<in> set projects \<and> pj_get q ''name'' = name" "q' \<in> set projects \<and> pj_get q' ''name'' = name"
    with names show "q = q'" by (auto simp: distinct_map inj_on_def)
  qed
  moreover have "\<forall>p \<in> set projects. hasNonEmptyReadme env fs p = Inr True"
    using base unfolding base_failures_none by blast
  ultimately show ?thesis using load ok(3) names checked_roots [OF ok(1)] layered_check [OF ok(2)] by blast
qed

subsection \<open>The two checks\<close>

lemma includes_array: "includes_tag v tag = Inr (JString tag \<in> set (asUnknownArray v))" if "asUnknownArray v \<noteq> []"
  using that by (cases v) auto

text \<open>On projects that have tags the two readings of a tag are one.\<close>

lemma checkBoundary_pr:
  assumes "asUnknownArray (pj_get p ''tags'') \<noteq> []" "asUnknownArray (pj_get q ''tags'') \<noteq> []" "checkBoundary p q = Inr []"
    and deps: "json_items (pj_get p ''implicitDependencies'') = Inr names"
  shows "pr_boundary p q = Inr []"
proof -
  have has: "all_tags r = Inr (hasTag r)" if "asUnknownArray (pj_get r ''tags'') \<noteq> []" for r
    using includes_array [OF that] by (auto simp: all_tags_def hasTag_def fun_eq_iff)
  have conf: "\<exists>b. isConfiguredMiddlewareModuleDependency p = Inr b"
    using includes_array [OF assms(1)] by (simp add: isConfiguredMiddlewareModuleDependency_def deps) (metis (full_types))
  have rules: "boundary_failures False (hasTag p) (hasTag q) (pj_name p) = []"
    using assms(3) has [OF assms(1)] has [OF assms(2)]
    by (auto simp: checkBoundary_def boundary_failures_def split: if_splits)
  then have "boundary_failures b (hasTag p) (hasTag q) (pj_name p) = []" for b by (auto simp: boundary_failures_def)
  with conf show ?thesis by (auto simp: pr_boundary_def)
qed

lemma graph_none:
  "graph_failures env fs projects = Inr [] \<longleftrightarrow>
     checkRootFiles env fs = Inr [] \<and> checkProjects True [] [] projects = Inr []
     \<and> checkDependencies checkBoundary projects = Inr [] \<and> projects \<noteq> []"
  by (auto simp: graph_failures_def rbind_end)

lemma single_none:
  assumes "single_failures env fs p projects = Inr []"
  shows "checkProject env fs p projects = Inr []"
proof -
  from assms have base: "base_failures env fs p projects = Inr []" and ros2: "checkRos2Project env fs p = Inr []"
    unfolding single_failures_def rbind_end by blast+
  obtain r where r: "includes_tag (pj_get p ''tags'') ''framework:ros2'' = Inr r"
    using ros2 by (cases "includes_tag (pj_get p ''tags'') ''framework:ros2''") (simp_all only: checkRos2Project_def rbind_simps sum.distinct)
  have more: "rbind (project_dir env p) (\<lambda>dir. rbind (ros2_failures fs p dir) (\<lambda>failures.
      rbind (checkConsumerOnlyCommunicationConfig fs p dir) (\<lambda>routes. Inr (failures @ routes)))) = Inr []" if r
    using ros2 that by (simp only: checkRos2Project_def r rbind_simps simp_thms if_False)
  have "rbind (project_dir env p) (ros2_failures fs p) = Inr []" if r using more [OF that] by (auto simp: rbind_end)
  with base r show ?thesis by (cases r) (simp_all only: checkProject_def rbind_simps if_True if_False append_Nil)
qed

lemma root_files_pr:
  assumes "checkRootFiles env fs = Inr []"
  shows "\<exists>content v. readFile fs (ws_root env @ [''package.json'']) = Inr content \<and> ws_jsonParse env content = Inr v
    \<and> root_file_failures env fs v = Inr []"
proof (cases "existsSync fs (ws_root env @ [''package.json''])")
  case True
  with assms show ?thesis by (auto simp: checkRootFiles_def rbind_end)
next
  case False
  have "root_file_failures env fs v \<noteq> Inr []" for v using False by (auto simp: root_file_failures_def Let_def rbind_end)
  with assms False show ?thesis by (auto simp: checkRootFiles_def)
qed

text \<open>Whatever passes \<open>npm run check\<close> passes \<open>./pr check\<close>: when the checks of \<open>check.mjs\<close> and, for every project,
  those of \<open>check-project.mjs\<close> find no failure, then \<open>package.json\<close> can be read and the checks of \<open>runCheck\<close> find none.\<close>

theorem npm_check_stronger:
  assumes "graph_failures env fs projects = Inr []" "\<forall>p \<in> set projects. single_failures env fs p projects = Inr []"
  shows "\<exists>content packageJson. readFile fs (ws_root env @ [''package.json'']) = Inr content
    \<and> ws_jsonParse env content = Inr packageJson \<and> pr_check_failures env fs packageJson projects = Inr []"
proof -
  note graph = assms(1) [unfolded graph_none]
  have tags: "asUnknownArray (pj_get p ''tags'') \<noteq> []" if "p \<in> set projects" for p
  proof -
    from that obtain i where "i < length projects" "p = projects ! i" by (auto simp: in_set_conv_nth)
    with graph show ?thesis unfolding checkProjects_none project_failures_none tag_failures_none by blast
  qed
  have "checkProjects False [] [] projects = Inr []"
    using graph unfolding checkProjects_none project_failures_none tag_failures_none by blast
  moreover have "checkDependencies pr_boundary projects = Inr []"
    unfolding checkDependencies_none dependency_failures_none
  proof (intro ballI conjI)
    fix p assume p: "p \<in> set projects"
    with graph have deps: "json_items (pj_get p ''implicitDependencies'') = Inr (dependency_names p)"
      and each: "\<forall>name \<in> set (dependency_names p). \<exists>q. project_by_name projects name = Some q \<and> checkBoundary p q = Inr []"
      unfolding checkDependencies_none dependency_failures_none by blast+
    show "json_items (pj_get p ''implicitDependencies'') = Inr (dependency_names p)" by (rule deps)
    fix name assume "name \<in> set (dependency_names p)"
    with each obtain q where q: "project_by_name projects name = Some q" "checkBoundary p q = Inr []" by blast
    with checkBoundary_pr [OF tags [OF p] tags _ deps] project_by_name_in [OF q(1)]
    show "\<exists>q. project_by_name projects name = Some q \<and> pr_boundary p q = Inr []" by blast
  qed
  moreover have "\<forall>p \<in> set projects. checkProject env fs p projects = Inr []" using assms(2) single_none by blast
  ultimately show ?thesis using root_files_pr [of env fs] graph unfolding pr_check_none by blast
qed

subsection \<open>An example\<close>

definition demo_project :: "string \<Rightarrow> string \<Rightarrow> string \<Rightarrow> string list \<Rightarrow> json" where
  "demo_project name place scope deps =
     JObject [(''name'', JString name), (''root'', JString place), (''projectType'', JString ''library''),
       (''tags'', JArray [JString scope]), (''targets'', JObject [(''check'', JObject [])]),
       (''implicitDependencies'', JArray (json_words deps))]"

definition demo_package :: json where
  "demo_package = JObject [(''private'', JBool True)]"

definition demo_ws_json :: "string \<Rightarrow> json result" where
  "demo_ws_json text =
     (if text = ''package'' then Inr demo_package
      else if text = ''idl'' then Inr (demo_project ''pkg-idl'' ''pkg/idl'' ''scope:pkg'' [])
      else if text = ''log'' then Inr (demo_project ''infra-log'' ''infra/log'' ''scope:infra'' [''pkg-idl''])
      else Inl ''SyntaxError'')"

definition demo_ws :: workspace_env where
  "demo_ws = \<lparr>ws_root = [], ws_jsonParse = demo_ws_json, ws_localeCompare = unit_compare\<rparr>"

definition demo_ws_tree :: node where
  "demo_ws_tree = Dir [(''package.json'', File ''package''), (''nx.json'', File []),
     (''.gitignore'', File (join_lines [''.cache/'', ''.nx/cache/'', ''.nx/workspace-data/''])),
     (''pkg'', Dir [(''idl'', Dir [(''project.json'', File ''idl''), (''README.md'', File ''IDL'')])]),
     (''infra'', Dir [(''log'', Dir [(''project.json'', File ''log''), (''README.md'', File ''Log'')])])]"

definition demo_ws_projects :: "project list" where
  "demo_ws_projects = (case loadProjects demo_ws demo_ws_tree of Inr projects \<Rightarrow> projects | Inl e \<Rightarrow> [])"

lemma check_passed_layers_witness:
  "\<exists>projects. loadProjects demo_ws demo_ws_tree = Inr projects \<and> projects \<noteq> [] \<and> distinct (map (\<lambda>p. pj_get p ''name'') projects)
    \<and> distinct (map pj_fileRoot projects)
    \<and> list_all (\<lambda>p. pj_get p ''root'' = JString (pj_fileRoot p) \<and> hasNonEmptyReadme demo_ws demo_ws_tree p = Inr True) projects
    \<and> resolved projects \<and> layered projects"
proof -
  have "runCheck demo_ws demo_ws_tree demo_package
    = Inr (Inr [''Project graph:'', ''- infra-log -> pkg-idl'', ''- pkg-idl -> none'', ''Monorepo check passed.''])"
    by code_simp
  from check_passed_layers [OF this] show ?thesis by (simp only: list_all_iff)
qed

lemma npm_check_stronger_witness:
  "\<exists>content packageJson. readFile demo_ws_tree [''package.json''] = Inr content
    \<and> ws_jsonParse demo_ws content = Inr packageJson \<and> pr_check_failures demo_ws demo_ws_tree packageJson demo_ws_projects = Inr []"
proof -
  have graph: "graph_failures demo_ws demo_ws_tree demo_ws_projects = Inr []" by code_simp
  have "list_all (\<lambda>p. single_failures demo_ws demo_ws_tree p demo_ws_projects = Inr []) demo_ws_projects" by code_simp
  then have each: "\<forall>p \<in> set demo_ws_projects. single_failures demo_ws demo_ws_tree p demo_ws_projects = Inr []"
    by (simp only: list_all_iff)
  have "ws_root demo_ws @ [''package.json''] = [''package.json'']" by (simp add: demo_ws_def)
  with npm_check_stronger [OF graph each] show ?thesis by simp
qed

text \<open>The other direction fails: a module that reaches another one over configured middleware passes \<open>./pr check\<close> and is
  refused by \<open>npm run check\<close>.\<close>

definition demo_module :: "string \<Rightarrow> string list \<Rightarrow> project" where
  "demo_module name deps =
     \<lparr>pj_json = asRecord (demo_project name (''module/'' @ name) ''scope:module'' deps), pj_file = [], pj_fileRoot = ''module/'' @ name\<rparr>"

theorem checks_disagree:
  "pr_boundary (demo_module ''a'' [''b'', ''pkg-idl'', ''infra-communication'']) (demo_module ''b'' []) = Inr []"
  "checkBoundary (demo_module ''a'' [''b'', ''pkg-idl'', ''infra-communication'']) (demo_module ''b'' [])
    = Inr [''a must not depend directly on another scope:module project.'']"
  by code_simp+

text \<open>A configuration of which the routes provide is refused by the check of the project, and \<open>./pr check\<close> does not look.\<close>

theorem config_providers_not_checked:
  "map (route_failures (demo_module ''a'' [])) (communicationConfigRoutes (join_lines
      [''communication:'', ''  topics:'', ''    pose:'', ''      direction: publish'', ''    odom:'', ''      direction: subscribe'']))
   = [[''module/a/config.yaml topic '' @ quoted ''pose'' @ '' uses provider direction '' @ quoted ''publish''
       @ ''. Define it under pkg/idl/<service>/public/interfaces.yaml instead.''], []]"
  by code_simp

end
