(* ===== verification/Create_Module.thy ===== *)
theory Create_Module
  imports Project_Check_Npm Scaffold_Manifest
begin

text \<open>
  \<open>npm run create\<close> (\<open>bin/create.mjs\<close>), which copies a template and fills in its variables, and
  \<open>npm run remove\<close> (\<open>bin/remove.mjs\<close>). A run returns the lines it prints. File modes are left out; the
  values of the variables have no dollar sign, so a replacement is the plain text.
\<close>

subsection \<open>Names\<close>

definition toUpperCase :: "string \<Rightarrow> string" where
  "toUpperCase s = map upper_char s"

text \<open>\<open>normalizeName\<close>: runs of other characters become one dash.\<close>

definition normalizeSlug :: "string \<Rightarrow> string result" where
  "normalizeSlug v =
     (let slug = strip_char (CHR ''-'') (replace_runs (\<lambda>c. \<not> is_kebab_char c) (CHR ''-'') (toLowerCase (trim v))) in
      if slug = [] then Inl (''Invalid name '' @ quoted v @ ''. Use letters, numbers, spaces, '' @ quoted ''_'' @ '' or '' @ quoted ''-'' @ ''.'')
      else Inr slug)"

definition normalizeModuleName :: "string \<Rightarrow> string result" where
  "normalizeModuleName v =
     (let raw = trim v; invalid = (\<lambda>hint. Inl (''Invalid module name '' @ quoted v @ ''. '' @ hint)) in
      if raw = [] then Inl ''Invalid module name. Use lowercase kebab-case, for example: action-planner.''
      else if list_ex is_upper raw then invalid ''Uppercase letters are not allowed.''
      else if \<not> module_name_match raw
      then invalid ''Use lowercase kebab-case, start with a letter, and avoid underscores, spaces, duplicate separators, or pure numbers.''
      else if pure_numeric_match raw then invalid ''Pure numeric names are not allowed.''
      else Inr raw)"

definition normalizeRos2Language :: "string \<Rightarrow> string option result" where
  "normalizeRos2Language v =
     (let normalized = toLowerCase v in
      if v = [] then Inr None
      else if normalized \<in> set [''py'', ''python'', ''python3''] then Inr (Some ''python'')
      else if normalized \<in> set [''c++'', ''cpp'', ''cxx''] then Inr (Some ''cpp'')
      else if normalized \<in> set [''go'', ''golang''] then Inr (Some ''go'')
      else Inl (''Unsupported ROS2 language '' @ quoted v @ ''. Use '' @ quoted ''python'' @ '', '' @ quoted ''cpp'' @ '' or '' @ quoted ''go'' @ ''.''))"

definition normalizeRos2Distro :: "string option \<Rightarrow> string result" where
  "normalizeRos2Distro v =
     (let distro = toLowerCase (nullish v ''humble'') in
      if distro \<in> set supportedRos2Distros then Inr distro
      else Inl (''Unsupported ROS2 version '' @ quoted (nullish v ''undefined'') @ ''. Use one of: '' @ join '', '' supportedRos2Distros @ ''.''))"

definition slug_words :: "string \<Rightarrow> string list" where
  "slug_words v = map capitalized (filter (\<lambda>w. w \<noteq> []) (split_on (CHR ''-'') v))"

definition toClassName :: "string \<Rightarrow> string" where
  "toClassName v = concat (slug_words v)"

definition toTitle :: "string \<Rightarrow> string" where
  "toTitle v = join '' '' (slug_words v)"

definition toEnvPrefix :: "string \<Rightarrow> string" where
  "toEnvPrefix v = strip_char (CHR ''_'') (replace_runs (\<lambda>c. \<not> (is_upper c \<or> is_digit c)) (CHR ''_'') (toUpperCase v))"

subsection \<open>Options\<close>

record module_options =
  mo_ros2 :: "string option"
  mo_ros2Version :: "string option"

definition ros2_word :: "string \<Rightarrow> string option" where
  "ros2_word arg =
     (if arg = ''--python'' then Some ''python''
      else if arg = ''--cpp'' \<or> arg = ''--c++'' then Some ''cpp''
      else if arg = ''--go'' \<or> arg = ''--golang'' then Some ''go'' else None)"

definition version_flags :: "string list" where
  "version_flags = [''--ros2-version'', ''--ros-distro'', ''--distro'']"

definition joined_version :: "string \<Rightarrow> string option" where
  "joined_version arg =
     (case filter (\<lambda>flag. startsWith arg (flag @ ''='')) version_flags of
        flag # _ \<Rightarrow> Some (drop (length flag + 1) arg) | [] \<Rightarrow> None)"

function parseOptions :: "string list \<Rightarrow> module_options \<Rightarrow> module_options result" where
  "parseOptions [] opts = Inr opts"
| "parseOptions (arg # rest) opts =
     (if arg = ''--ros2'' then
        (case rest of
           v # rest' \<Rightarrow> if v \<noteq> [] \<and> \<not> startsWith v ''--'' then parseOptions rest' (opts\<lparr>mo_ros2 := Some v\<rparr>)
             else parseOptions rest (opts\<lparr>mo_ros2 := Some ''python''\<rparr>)
         | [] \<Rightarrow> Inr (opts\<lparr>mo_ros2 := Some ''python''\<rparr>))
      else if startsWith arg ''--ros2='' then parseOptions rest (opts\<lparr>mo_ros2 := Some (drop 7 arg)\<rparr>)
      else if arg \<in> set version_flags then
        (case rest of
           v # rest' \<Rightarrow> if v = [] then Inl (''Missing value for '' @ arg @ ''.'') else parseOptions rest' (opts\<lparr>mo_ros2Version := Some v\<rparr>)
         | [] \<Rightarrow> Inl (''Missing value for '' @ arg @ ''.''))
      else case joined_version arg of
        Some v \<Rightarrow> parseOptions rest (opts\<lparr>mo_ros2Version := Some v\<rparr>)
      | None \<Rightarrow> (case ros2_word arg of
          Some w \<Rightarrow> parseOptions rest (opts\<lparr>mo_ros2 := Some w\<rparr>)
        | None \<Rightarrow> Inl (''Unknown option '' @ quoted arg @ ''. Run '' @ quoted ''npm run create -- help'' @ ''.'')))"
  by pat_completeness auto
termination
  by (relation "measure (\<lambda>(args, opts). length args)") auto

definition no_module_options :: module_options where
  "no_module_options = \<lparr>mo_ros2 = None, mo_ros2Version = None\<rparr>"

subsection \<open>Templates\<close>

text \<open>\<open>s.replaceAll(key, value)\<close>.\<close>

function replace_text :: "string \<Rightarrow> string \<Rightarrow> string \<Rightarrow> string" where
  "replace_text key v [] = []"
| "replace_text key v (c # cs) =
     (if key \<noteq> [] \<and> startsWith (c # cs) key then v @ replace_text key v (drop (length key - 1) cs)
      else c # replace_text key v cs)"
  by pat_completeness auto
termination
  by (relation "measure (\<lambda>(key, v, s). length s)") auto

definition render_text :: "string \<Rightarrow> (string \<times> string) list \<Rightarrow> string" where
  "render_text content vars = foldl (\<lambda>s (key, v). replace_text (''{{'' @ key @ ''}}'') v s) content vars"

definition rendered_name :: "string \<Rightarrow> (string \<times> string) list \<Rightarrow> string" where
  "rendered_name name vars =
     (let name' = render_text name vars in if endsWith name' ''.template'' then take (length name' - 9) name' else name')"

text \<open>\<open>writeFile\<close> with the flag \<open>wx\<close>.\<close>

definition run_write_new :: "path \<Rightarrow> string \<Rightarrow> unit run" where
  "run_write_new p text = run_change (\<lambda>fs. if existsSync fs p then Inl ''EEXIST'' else writeFile fs p text)"

definition write_template :: "path \<Rightarrow> path \<Rightarrow> (string \<times> string) list \<Rightarrow> unit run" where
  "write_template source target vars =
     run_then (run_read (\<lambda>fs. readFile fs source)) (\<lambda>content. run_write_new target (render_text content vars))"

text \<open>The entries of a template are those it has when the copy starts: nothing is copied into a template.\<close>

fun copy_entries :: "bool \<Rightarrow> (string \<times> string) list \<Rightarrow> path \<Rightarrow> path \<Rightarrow> (string \<times> node) list \<Rightarrow> unit run" where
  "copy_entries skipSkill vars source target [] = run_value (Inr ())"
| "copy_entries skipSkill vars source target ((n, t) # es) =
     run_then
       (case t of
          Dir sub \<Rightarrow>
            let target' = path_join target (rendered_name n vars)
            in run_then (run_change (\<lambda>fs. mkdir_rec fs target')) (\<lambda>_. copy_entries skipSkill vars (source @ [n]) target' sub)
        | File text \<Rightarrow>
            if skipSkill \<and> n = ''SKILL.md'' then run_value (Inr ())
            else write_template (source @ [n]) (path_join target (rendered_name n vars)) vars
        | Other \<Rightarrow> write_template (source @ [n]) (path_join target (rendered_name n vars)) vars)
       (\<lambda>_. copy_entries skipSkill vars source target es)"

definition copyDirectory :: "bool \<Rightarrow> (string \<times> string) list \<Rightarrow> path \<Rightarrow> path \<Rightarrow> unit run" where
  "copyDirectory skipSkill vars source target =
     run_then (run_change (\<lambda>fs. mkdir_rec fs target)) (\<lambda>_.
     run_then (run_read (\<lambda>fs. readdir fs source)) (copy_entries skipSkill vars source target))"

definition template_dir :: "path \<Rightarrow> string \<Rightarrow> path" where
  "template_dir root' templateName = root' @ [''bin'', ''templates'', templateName]"

definition copyTemplate :: "path \<Rightarrow> string \<Rightarrow> path \<Rightarrow> (string \<times> string) list \<Rightarrow> bool \<Rightarrow> string list run" where
  "copyTemplate root' templateName target vars skipSkill =
     run_then (run_read (\<lambda>fs.
       if \<not> existsSync fs (template_dir root' templateName) then Inl (''Template does not exist: '' @ file_string (template_dir root' templateName))
       else fail_if (existsSync fs target) (''Target already exists: '' @ path_relative root' target))) (\<lambda>_.
     run_then (copyDirectory skipSkill vars (template_dir root' templateName) target) (\<lambda>_.
       run_value (Inr [''Created '' @ path_relative root' target])))"

subsection \<open>Modules\<close>

definition service_dir :: "path \<Rightarrow> string \<Rightarrow> path" where
  "service_dir root' serviceName = root' @ [''module'', ''service'', serviceName]"

definition skill_dir :: "path \<Rightarrow> string \<Rightarrow> path" where
  "skill_dir root' serviceName = root' @ [''.skill'', serviceName]"

definition writeModuleSkill :: "path \<Rightarrow> string \<Rightarrow> string \<Rightarrow> (string \<times> string) list \<Rightarrow> path option run" where
  "writeModuleSkill root' templateName serviceName vars =
     (let source = template_dir root' templateName @ [''SKILL.md'']; target = skill_dir root' serviceName in
      run_then (run_read (\<lambda>fs. Inr (existsSync fs source))) (\<lambda>present.
        if \<not> present then run_value (Inr None)
        else run_then (run_change (\<lambda>fs. mkdir_rec fs target)) (\<lambda>_.
          run_then (write_template source (target @ [''SKILL.md'']) vars) (\<lambda>_. run_value (Inr (Some (target @ [''SKILL.md''])))))))"

definition agents_text :: "string \<Rightarrow> string \<Rightarrow> string \<Rightarrow> string" where
  "agents_text serviceName skillPath servicePath =
     (let mark = (\<lambda>s. ''`'' @ s @ ''`'') in
      join_lines [''# '' @ serviceName @ '' Agent Entry'', [],
        ''Before changing this service, read repository-root path '' @ mark skillPath @ ''.'', [],
        ''Service-local entry points:'',
        ''- Service root: '' @ mark servicePath,
        ''- Config: '' @ mark (servicePath @ ''/config/config.yaml'') @ '', '' @ mark (servicePath @ ''/src/config/config.yaml'')
          @ '', or '' @ mark (servicePath @ ''/config.yaml''),
        ''- IDL contracts: '' @ mark (''pkg/idl/'' @ serviceName),
        ''- Generated protocol code: '' @ mark (''pkg/idl/'' @ serviceName @ ''/generated''), [],
        ''Keep business logic inside this service and communicate with other services only through configured protocols.'', []])"

definition writeModuleAgents :: "path \<Rightarrow> path \<Rightarrow> string \<Rightarrow> path \<Rightarrow> unit run" where
  "writeModuleAgents root' target serviceName skillPath =
     run_write_new (target @ [''AGENTS.md'']) (agents_text serviceName (slash_path root' skillPath) (slash_path root' target))"

definition module_vars :: "string \<Rightarrow> string option \<Rightarrow> string \<Rightarrow> (string \<times> string) list" where
  "module_vars slug language distro =
     (let packageName = toPackageName slug; serviceName = toServiceName slug
      in [(''className'', toClassName slug), (''executableName'', packageName @ ''_node''), (''language'', nullish language ''generic''),
          (''name'', serviceName), (''packageName'', packageName), (''projectName'', ''module-'' @ serviceName),
          (''rosDistro'', distro), (''securityEnvPrefix'', toEnvPrefix packageName), (''title'', toTitle slug)])"

definition created :: "path \<Rightarrow> path \<Rightarrow> string list" where
  "created root' p = [''Created '' @ path_relative root' p]"

definition module_free :: "path \<Rightarrow> string \<Rightarrow> unit run" where
  "module_free root' serviceName =
     run_read (\<lambda>fs.
       if existsSync fs (service_dir root' serviceName)
       then Inl (''Target already exists: '' @ path_relative root' (service_dir root' serviceName))
       else fail_if (existsSync fs (skill_dir root' serviceName))
         (''Skill already exists: '' @ path_relative root' (skill_dir root' serviceName)))"

text \<open>The entries for agents, written after the copy.\<close>

definition add_entries :: "path \<Rightarrow> string \<Rightarrow> string \<Rightarrow> (string \<times> string) list \<Rightarrow> string list \<Rightarrow> string list run" where
  "add_entries root' templateName serviceName vars first =
     (let target = service_dir root' serviceName in
      run_then (writeModuleSkill root' templateName serviceName vars) (\<lambda>skill.
        case skill of
          None \<Rightarrow> run_value (Inr first)
        | Some skillPath \<Rightarrow> run_then (writeModuleAgents root' target serviceName skillPath) (\<lambda>_.
            run_value (Inr (first @ created root' skillPath @ created root' (target @ [''AGENTS.md'']))))))"

definition make_module :: "path \<Rightarrow> string \<Rightarrow> string option \<Rightarrow> string \<Rightarrow> string list run" where
  "make_module root' slug language distro =
     (let serviceName = toServiceName slug; vars = module_vars slug language distro;
          templateName = (case language of Some l \<Rightarrow> ''module-ros2-'' @ l | None \<Rightarrow> ''module'')
      in run_then (module_free root' serviceName) (\<lambda>_.
         run_then (copyTemplate root' templateName (service_dir root' serviceName) vars True)
           (add_entries root' templateName serviceName vars)))"

definition ros2_option :: "module_options \<Rightarrow> string" where
  "ros2_option opts = nullish (mo_ros2 opts) (if nullish (mo_ros2Version opts) [] \<noteq> [] then ''python'' else [])"

definition createModule :: "path \<Rightarrow> string \<Rightarrow> module_options \<Rightarrow> string list run" where
  "createModule root' name opts =
     run_then (run_value (normalizeModuleName name)) (\<lambda>slug.
     run_then (run_value (normalizeRos2Language (ros2_option opts))) (\<lambda>language.
     run_then (run_value (normalizeRos2Distro (mo_ros2Version opts))) (make_module root' slug language)))"

definition createShared :: "path \<Rightarrow> string \<Rightarrow> string \<Rightarrow> string list run" where
  "createShared root' kind name =
     run_then (run_value (normalizeSlug name)) (\<lambda>slug.
       copyTemplate root' kind (root' @ [kind, slug]) [(''name'', slug), (''projectName'', kind @ ''-'' @ slug), (''title'', toTitle slug)] False)"

definition listTemplates :: "path \<Rightarrow> node \<Rightarrow> string list result" where
  "listTemplates root' fs =
     rbind (readdir fs (root' @ [''bin'', ''templates''])) (\<lambda>es.
       Inr (map fst (filter (\<lambda>(n, t). case t of Dir sub \<Rightarrow> True | _ \<Rightarrow> False) es)))"

definition create_help :: "string list" where
  "create_help = [''Pacific-Rim scaffold'', [], ''Usage:'', ''  npm run create -- list'',
     ''  npm run create -- module <lowercase-kebab-name>'',
     ''  npm run create -- module <lowercase-kebab-name> --ros2 python --ros2-version humble'',
     ''  npm run create -- module <lowercase-kebab-name> --ros2 cpp --ros2-version humble'',
     ''  npm run create -- module <lowercase-kebab-name> --ros2 go --ros2-version humble'',
     ''  npm run create -- pkg <name>'', ''  npm run create -- infra <name>'', [], ''Examples:'',
     ''  npm run create -- module navigation'', ''  npm run create -- module lidar-driver --ros2 python --ros2-version humble'',
     ''  npm run create -- module drive-control --ros2 cpp --distro humble'',
     ''  npm run create -- module brain-sidecar --ros2 go --distro humble'',
     ''  npm run create -- pkg communication'', ''  npm run create -- infra telemetry'', [], ''ROS2 versions:'',
     ''  humble, jazzy, kilted, lyrical, rolling'', [], ''Module naming:'',
     ''  Use lowercase kebab-case, start with a letter, and avoid uppercase,'',
     ''  underscores, spaces, duplicate separators, and pure numeric names.'',
     ''  The module directory is generated as module/service/<name>_service. Its'',
     ''  Codex/Claude service entry is module/service/<name>_service/AGENTS.md, which'',
     ''  points to the generated .skill/<name>_service/SKILL.md.'', []]"

definition create_main :: "path \<Rightarrow> string list \<Rightarrow> string list run" where
  "create_main root' argv =
     (let command = (case argv of c # _ \<Rightarrow> c | [] \<Rightarrow> []); name = (case drop 1 argv of n # _ \<Rightarrow> n | [] \<Rightarrow> []) in
      if command \<in> set [[], ''help'', ''--help'', ''-h''] then run_value (Inr create_help)
      else if command = ''list'' then run_read (listTemplates root')
      else if command \<notin> set [''module'', ''infra'', ''pkg'']
      then run_value (Inl (''Unknown command '' @ quoted command @ ''. Run '' @ quoted ''npm run create -- help'' @ ''.''))
      else if name = [] then run_value (Inl (''Missing name. Usage: npm run create -- '' @ command @ '' <name>''))
      else run_then (run_value (parseOptions (drop 2 argv) no_module_options)) (\<lambda>opts.
        if command = ''module'' then createModule root' name opts else createShared root' command name))"

subsection \<open>Removing a module\<close>

definition drop_prefix :: "string \<Rightarrow> string \<Rightarrow> string" where
  "drop_prefix p s = (if startsWith s p then drop (length p) s else s)"

definition normalizeModuleDirName :: "string \<Rightarrow> string result" where
  "normalizeModuleDirName v =
     (let normalized = toLowerCase (replace_char (CHR ''_'') (CHR ''-'') (drop_prefix ''module-'' (drop_prefix ''module/'' (trim v)))) in
      if normalized \<noteq> [] \<and> is_kebab_char (hd normalized) \<and> list_all (\<lambda>c. is_kebab_char c \<or> c = CHR ''-'') normalized
      then Inr normalized else Inl (''Invalid module name '' @ quoted v @ ''.''))"

text \<open>\<open>rm(p, \<lbrace>recursive: true, force: true\<rbrace>)\<close> below the root.\<close>

fun rm_tree :: "node \<Rightarrow> path \<Rightarrow> node" where
  "rm_tree (Dir es) [n] = Dir (del_entry es n)"
| "rm_tree (Dir es) (n # m # p) = (case map_of es n of None \<Rightarrow> Dir es | Some t \<Rightarrow> Dir (put_entry es n (rm_tree t (m # p))))"
| "rm_tree t p = t"

definition run_rm_tree :: "path \<Rightarrow> unit run" where
  "run_rm_tree p = run_change (\<lambda>fs. Inr (rm_tree fs p))"

definition without_dependency :: "json \<Rightarrow> project \<Rightarrow> (string \<times> json) list option" where
  "without_dependency projectName project =
     (case pj_get project ''implicitDependencies'' of
        JArray xs \<Rightarrow>
          let dependencies = filter (\<lambda>d. \<not> same_key d projectName) xs
          in if length dependencies = length xs then None
             else Some (filter (\<lambda>(k, v). k \<notin> set [''file'', ''fileRoot'']) (AList.update ''implicitDependencies'' (JArray dependencies) (pj_json project)))
      | _ \<Rightarrow> None)"

fun update_projects :: "json \<Rightarrow> project list \<Rightarrow> path list run" where
  "update_projects projectName [] = run_value (Inr [])"
| "update_projects projectName (project # rest) =
     (case without_dependency projectName project of
        None \<Rightarrow> update_projects projectName rest
      | Some nextProject \<Rightarrow>
          run_then (run_write (pj_file project) (json_stringify (JObject nextProject) @ nl)) (\<lambda>_.
          run_then (update_projects projectName rest) (\<lambda>files. run_value (Inr (pj_file project # files)))))"

definition removeImplicitDependency :: "workspace_env \<Rightarrow> json \<Rightarrow> path list run" where
  "removeImplicitDependency env projectName = run_then (run_read (loadProjects env)) (update_projects projectName)"

definition removed_lines :: "workspace_env \<Rightarrow> string \<Rightarrow> json \<Rightarrow> path list \<Rightarrow> string list" where
  "removed_lines env moduleDirName name files =
     (let shown = path_relative (ws_root env) in
      [''Removed '' @ shown (ws_root env @ [''module'', moduleDirName]) @ '' ('' @ json_text name @ '').'']
      @ (if files \<noteq> [] then ''Updated project dependencies:'' # map (\<lambda>f. ''- '' @ shown f) files else [])
      @ [''Run: rg '' @ quoted (json_text name @ ''|'' @ moduleDirName @ ''|'' @ replace_char (CHR ''-'') (CHR ''_'') moduleDirName),
         ''Then run: npm run check''])"

definition removeModule :: "workspace_env \<Rightarrow> string \<Rightarrow> string list run" where
  "removeModule env name =
     run_then (run_value (normalizeModuleDirName name)) (\<lambda>moduleDirName.
     let moduleRoot = ws_root env @ [''module'', moduleDirName]; projectPath = moduleRoot @ [''project.json'']; shown = path_relative (ws_root env)
     in run_then (run_read (\<lambda>fs.
          if \<not> existsSync fs projectPath then Inl (''Module project not found: '' @ shown moduleRoot)
          else rbind (readFile fs projectPath) (\<lambda>content. rbind (ws_jsonParse env content) (\<lambda>project.
            rbind (json_prop project ''root'') (\<lambda>r.
              if r \<noteq> JString (''module/'' @ moduleDirName) then Inl (shown projectPath @ '' root does not match module/'' @ moduleDirName @ ''.'')
              else Inr (json_get (asRecord project) ''name'')))))) (\<lambda>projectName.
        run_then (run_rm_tree moduleRoot) (\<lambda>_.
        run_then (removeImplicitDependency env projectName) (\<lambda>files.
          run_value (Inr (removed_lines env moduleDirName projectName files))))))"

definition remove_help :: "string list" where
  "remove_help = [''Remove a workspace project.'', [], ''Usage:'', ''  npm run remove -- module <name>'', [], ''Examples:'',
     ''  npm run remove -- module smoke-module'', ''  npm run remove -- module smoke_module'', ''  npm run remove -- module module-smoke-module'', []]"

definition remove_main :: "workspace_env \<Rightarrow> string list \<Rightarrow> string list run" where
  "remove_main env argv =
     (let kind = (case argv of k # _ \<Rightarrow> k | [] \<Rightarrow> []); name = (case drop 1 argv of n # _ \<Rightarrow> n | [] \<Rightarrow> []) in
      if kind \<in> set [[], ''help'', ''--help'', ''-h''] then run_value (Inr remove_help)
      else if kind \<noteq> ''module'' then run_value (Inl (''Unsupported remove target '' @ quoted kind @ ''. Use '' @ quoted ''module'' @ ''.''))
      else if name = [] then run_value (Inl ''Missing module name. Usage: npm run remove -- module <name>'')
      else removeModule env name)"

end
