(* ===== verification/Create_Module_Props.thy ===== *)
theory Create_Module_Props
  imports Create_Module Format_Command_Props Robot_Cli_Props
begin

text \<open>
  Creating a module changes no file that is there, and puts the module where the dashboard says it is;
  removing one leaves all other files but project files alone.
\<close>

subsection \<open>Paths that stay\<close>

lemma mkdir_exists: "mkdir_rec t p = Inr t' \<Longrightarrow> node_at t q \<noteq> None \<or> q = p \<Longrightarrow> node_at t' q \<noteq> None"
proof (induction t p arbitrary: t' q rule: mkdir_rec.induct)
  case (3 es n p)
  define u where "u = (case map_of es n of None \<Rightarrow> Dir [] | Some t \<Rightarrow> t)"
  obtain u' where u': "mkdir_rec u p = Inr u'" "t' = Dir (put_entry es n u')"
    using "3.prems"(1) by (auto simp: u_def split: sum.splits)
  show ?case
  proof (cases q)
    case (Cons m r)
    show ?thesis
    proof (cases "m = n")
      case True
      have "node_at u r \<noteq> None \<or> r = p" using "3.prems"(2) Cons True by (cases "map_of es n") (auto simp: u_def)
      with "3.IH" [OF u'(1) [unfolded u_def]] True Cons u'(2) show ?thesis by (auto simp: u_def)
    qed (use "3.prems"(2) Cons u'(2) in auto)
  qed simp
qed auto

lemma leaf_exists: "node_at (File c) q = Some t \<Longrightarrow> q = []" "node_at Other q = Some t \<Longrightarrow> q = []"
  by (cases q; simp)+

lemma write_exists: "writeFile t p w = Inr t' \<Longrightarrow> node_at t q \<noteq> None \<Longrightarrow> node_at t' q \<noteq> None"
proof (induction t p w arbitrary: t' q rule: writeFile.induct)
  case (3 es n p w)
  show ?case
  proof (cases q)
    case (Cons m r)
    show ?thesis
    proof (cases "map_of es n")
      case None
      with "3.prems" Cons show ?thesis by (auto split: if_splits)
    next
      case (Some t)
      with "3.prems"(1) obtain u where u: "writeFile t p w = Inr u" "t' = Dir (put_entry es n u)" by (auto split: sum.splits)
      with "3.IH" [OF Some u(1)] "3.prems"(2) Cons Some show ?thesis by auto
    qed
  qed simp
qed (auto dest: leaf_exists)

definition path_stays :: "path \<Rightarrow> node \<Rightarrow> bool" where
  "path_stays p fs \<longleftrightarrow> existsSync fs p"

definition file_stays :: "path \<Rightarrow> string \<Rightarrow> node \<Rightarrow> bool" where
  "file_stays p c fs \<longleftrightarrow> readFile fs p = Inr c"

lemma stays_mkdir [keeps]:
  "run_keeps (path_stays p) (run_change (\<lambda>fs. mkdir_rec fs q))" "run_keeps (file_stays p c) (run_change (\<lambda>fs. mkdir_rec fs q))"
proof -
  show "run_keeps (path_stays p) (run_change (\<lambda>fs. mkdir_rec fs q))"
    using mkdir_exists by (fastforce simp: run_keeps_def run_change_def path_stays_def existsSync_def split: sum.splits)
  show "run_keeps (file_stays p c) (run_change (\<lambda>fs. mkdir_rec fs q))"
    using keeps_mkdir [of p c q] by (simp add: file_stays_def [abs_def])
qed

lemma stays_write_new [keeps]: "run_keeps (path_stays p) (run_write_new q t)" "run_keeps (file_stays p c) (run_write_new q t)"
proof -
  show "run_keeps (path_stays p) (run_write_new q t)"
    using write_exists by (fastforce simp: run_keeps_def run_write_new_def run_change_def path_stays_def existsSync_def split: sum.splits)
  show "run_keeps (file_stays p c) (run_write_new q t)"
    using write_keeps by (fastforce simp: run_keeps_def run_write_new_def run_change_def file_stays_def split: sum.splits)
qed

lemma keeps_option [keeps]:
  "run_keeps P a \<Longrightarrow> (\<And>y. run_keeps P (f y)) \<Longrightarrow> run_keeps P (case x of None \<Rightarrow> a | Some y \<Rightarrow> f y)"
  by (cases x) simp_all

text \<open>What every step of a copy keeps, the copy keeps.\<close>

definition grows :: "(node \<Rightarrow> bool) \<Rightarrow> bool" where
  "grows P \<longleftrightarrow> (\<forall>q t. run_keeps P (run_change (\<lambda>fs. mkdir_rec fs q)) \<and> run_keeps P (run_write_new q t))"

lemma grows_stays: "grows (path_stays p)" "grows (file_stays p c)"
  by (auto simp: grows_def intro: keeps)

lemma grows_steps:
  assumes "grows P"
  shows "run_keeps P (run_change (\<lambda>fs. mkdir_rec fs q))" "run_keeps P (run_write_new q t)" "run_keeps P (write_template source target vars)"
  using assms by (auto simp: grows_def write_template_def intro!: keeps)

lemma grows_copy: "grows P \<Longrightarrow> run_keeps P (copy_entries skipSkill vars source target es)"
proof (induction skipSkill vars source target es rule: copy_entries.induct)
  case (2 skipSkill vars source target n t es)
  note steps = grows_steps [OF "2.prems"]
  show ?case
  proof (cases t)
    case (Dir sub)
    with 2 steps show ?thesis by (simp add: Let_def) (intro keeps steps; blast)
  qed (use 2 steps in \<open>auto intro!: keeps\<close>)
qed (simp add: keeps)

lemma grows_template: "grows P \<Longrightarrow> run_keeps P (copyTemplate root' templateName target vars skipSkill)"
  unfolding copyTemplate_def copyDirectory_def by (intro keeps grows_steps grows_copy)

lemma grows_entries: "grows P \<Longrightarrow> run_keeps P (add_entries root' templateName serviceName vars first)"
  unfolding add_entries_def writeModuleSkill_def writeModuleAgents_def Let_def by (intro keeps grows_steps)

lemma grows_create: "grows P \<Longrightarrow> run_keeps P (createModule root' name opts)"
  unfolding createModule_def make_module_def module_free_def Let_def
  by (intro keeps grows_template grows_entries)

lemma grows_main: "grows P \<Longrightarrow> run_keeps P (create_main root' argv)"
  unfolding create_main_def createShared_def Let_def
  by (intro keeps grows_create grows_template)

subsection \<open>Creating\<close>

text \<open>\<open>npm run create\<close> changes no file: whatever its arguments and however it ends, every file that was there has the
  same content afterwards.\<close>

theorem create_changes_no_file:
  assumes "create_main root' argv fs = (r, fs')" "readFile fs p = Inr c"
  shows "readFile fs' p = Inr c"
  using grows_main [OF grows_stays(2), of p c root' argv] assms by (auto simp: run_keeps_def file_stays_def dest: spec [where x = fs])

lemma mkdir_made: "mkdir_rec t p = Inr t' \<Longrightarrow> node_at t' p \<noteq> None"
  using mkdir_exists by blast

lemma run_then_Inr:
  "run_then m f fs = (Inr y, fs') \<longleftrightarrow> (\<exists>x fs1. m fs = (Inr x, fs1) \<and> f x fs1 = (Inr y, fs'))"
  by (auto simp: run_then_def split: prod.splits sum.splits)

lemma keepsD: "run_keeps P m \<Longrightarrow> m fs = (r, fs') \<Longrightarrow> P fs \<Longrightarrow> P fs'"
  by (auto simp: run_keeps_def dest: spec [where x = fs])

lemma copy_makes:
  assumes "copyTemplate root' templateName target vars skipSkill fs = (Inr lines, fs')"
  shows "existsSync fs' target"
proof -
  define src where "src = template_dir root' templateName"
  from assms obtain fs1 u where copied: "copyDirectory skipSkill vars src target fs1 = (Inr u, fs')"
    unfolding copyTemplate_def src_def run_then_Inr run_value_end by blast
  then obtain fs2 v where made: "run_change (\<lambda>fs. mkdir_rec fs target) fs1 = (Inr v, fs2)"
    and rest: "run_then (run_read (\<lambda>fs. readdir fs src)) (copy_entries skipSkill vars src target) fs2 = (Inr u, fs')"
    unfolding copyDirectory_def run_then_Inr [of "run_change _"] by blast
  from made have "path_stays target fs2"
    using mkdir_made by (auto simp: run_change_def path_stays_def existsSync_def split: sum.splits)
  moreover have "run_keeps (path_stays target) (run_then (run_read (\<lambda>fs. readdir fs src)) (copy_entries skipSkill vars src target))"
    by (intro keeps grows_copy grows_stays)
  ultimately show ?thesis using keepsD rest by (fastforce simp: path_stays_def)
qed

text \<open>The names that the command takes are those of the dashboard.\<close>

lemma module_names_agree: "normalizeModuleName v = Inr slug \<longleftrightarrow> validateModuleName v = Inr slug"
  by (auto simp: normalizeModuleName_def validateModuleName_def Let_def)

lemma slug_chars: "validateModuleName v = Inr slug \<Longrightarrow> c \<in> set slug \<Longrightarrow> is_kebab_char c \<or> c = CHR ''-''"
proof -
  assume "validateModuleName v = Inr slug" and c: "c \<in> set slug"
  then have m: "module_name_match slug" by (auto simp: validateModuleName_def Let_def split: if_splits)
  have "join ''-'' (split_on (CHR ''-'') slug) = slug" by (rule join_split_on)
  then have "c = CHR ''-'' \<or> (\<exists>w \<in> set (split_on (CHR ''-'') slug). c \<in> set w)"
    using c set_join [of "''-''" "split_on (CHR ''-'') slug"] by auto
  with m show ?thesis by (auto simp: module_name_match_def)
qed

lemma created_dir:
  assumes "createModule root' name opts fs = (Inr lines, fs')"
  shows "\<exists>slug. normalizeModuleName name = Inr slug \<and> \<not> existsSync fs (service_dir root' (toServiceName slug))
    \<and> existsSync fs' (service_dir root' (toServiceName slug))"
proof -
  from assms obtain slug language distro where slug: "normalizeModuleName name = Inr slug"
    and made: "make_module root' slug language distro fs = (Inr lines, fs')"
    unfolding createModule_def run_then_Inr [of "run_value _"] run_value_end by metis
  define svc where "svc = toServiceName slug"
  from made obtain t vars first fs1 fs2 u where free: "module_free root' svc fs = (Inr u, fs1)"
    and copied: "copyTemplate root' t (service_dir root' svc) vars True fs1 = (Inr first, fs2)"
    and added: "add_entries root' t svc vars first fs2 = (Inr lines, fs')"
    unfolding make_module_def Let_def run_then_Inr [of "module_free _ _"] run_then_Inr [of "copyTemplate _ _ _ _ _"] svc_def by blast
  have "\<not> existsSync fs (service_dir root' svc)" using free by (auto simp: module_free_def run_read_def)
  moreover have "path_stays (service_dir root' svc) fs2" using copy_makes [OF copied] by (simp add: path_stays_def)
  then have "path_stays (service_dir root' svc) fs'" by (rule keepsD [OF grows_entries [OF grows_stays(1)] added])
  ultimately show ?thesis using slug by (auto simp: path_stays_def svc_def)
qed

lemma service_path:
  assumes "CHR ''/'' \<notin> set svc" "svc \<notin> {[], ''.'', ''..''}"
  shows "path_join root' (normalizePath (join_relative [MODULE_SERVICE_ROOT, svc])) = service_dir root' svc"
proof -
  have parts: "split_on (CHR ''/'') MODULE_SERVICE_ROOT = [''module'', ''service'']" by code_simp
  have svc: "split_on (CHR ''/'') svc = [svc]" using assms(1) by (rule split_on_none)
  have "join_relative [MODULE_SERVICE_ROOT, svc] = ''module/service/'' @ svc"
    using assms(2) by (simp add: join_relative_def parts svc push_relative_def path_string_def Let_def)
  moreover have "split_on (CHR ''/'') (''module/service/'' @ svc) = [''module'', ''service'', svc]"
    by (simp add: svc)
  ultimately show ?thesis using assms(2)
    by (simp add: normalizePath_def path_join_def push_segment_def service_dir_def)
qed

text \<open>A module that \<open>npm run create\<close> has made stands where the dashboard, which starts the command, says it does
  (\<open>co_moduleRoot\<close> of \<open>createModuleFromInput\<close>): the command takes exactly the names that the dashboard takes, there was
  nothing at that path before, and the directory is there afterwards.\<close>

theorem created_where_listed:
  assumes "create_main root' (''module'' # name # opts) fs = (Inr lines, fs')"
  shows "\<exists>slug. validateModuleName name = Inr slug
    \<and> (let listed = path_join root' (normalizePath (join_relative [MODULE_SERVICE_ROOT, toServiceName slug]))
       in \<not> existsSync fs listed \<and> existsSync fs' listed)"
proof -
  have given: "name \<noteq> []" using assms by (auto simp: create_main_def run_value_end)
  from assms given obtain o' where "createModule root' name o' fs = (Inr lines, fs')"
    unfolding create_main_def by (auto simp: run_then_Inr run_value_end)
  from created_dir [OF this] obtain slug where slug: "validateModuleName name = Inr slug"
    and dir: "\<not> existsSync fs (service_dir root' (toServiceName slug))" "existsSync fs' (service_dir root' (toServiceName slug))"
    unfolding module_names_agree by blast
  have chars: "is_kebab_char c \<or> c = CHR ''-''" if "c \<in> set slug" for c using slug_chars [OF slug that] .
  have "CHR ''/'' \<notin> set (toServiceName slug)"
    using chars [of "CHR ''/''"] by (auto simp: toServiceName_def toPackageName_def replace_char_def Let_def is_kebab_char_def is_lower_def is_digit_def)
  moreover have "suffix ''_service'' (toServiceName slug)" unfolding toServiceName_def Let_def by (cases "endsWith (toPackageName slug) ''_service''") (simp_all only: if_True if_False suffixI)
  then have "toServiceName slug \<notin> {[], ''.'', ''..''}" by (auto simp: suffix_def)
  ultimately show ?thesis using slug dir service_path by (auto simp: Let_def)
qed

definition demo_root_tree :: node where
  "demo_root_tree = Dir [(''bin'', Dir [(''templates'', Dir [(''module'', Dir
       [(''SKILL.md'', File ''Skill of {{name}}''), (''README.md.template'', File ''# {{title}}''),
        (''src'', Dir [(''{{packageName}}.txt'', File ''{{className}}'')])])])]),
     (''module'', Dir [(''service'', Dir [])]), (''notes.txt'', File ''kept'')]"

definition demo_created_tree :: node where
  "demo_created_tree = snd (create_main [] [''module'', ''arm-driver''] demo_root_tree)"

text \<open>What the template of the example becomes.\<close>

lemma demo_created:
  "fst (create_main [] [''module'', ''arm-driver''] demo_root_tree)
    = Inr [''Created module/service/arm_driver_service'', ''Created .skill/arm_driver_service/SKILL.md'',
        ''Created module/service/arm_driver_service/AGENTS.md'']"
  "readFile demo_created_tree [''module'', ''service'', ''arm_driver_service'', ''README.md''] = Inr ''# Arm Driver''"
  "readFile demo_created_tree [''module'', ''service'', ''arm_driver_service'', ''src'', ''arm_driver.txt''] = Inr ''ArmDriver''"
  "readFile demo_created_tree [''.skill'', ''arm_driver_service'', ''SKILL.md''] = Inr ''Skill of arm_driver_service''"
  by code_simp+

lemma demo_create_run:
  "create_main [] [''module'', ''arm-driver''] demo_root_tree
    = (Inr [''Created module/service/arm_driver_service'', ''Created .skill/arm_driver_service/SKILL.md'',
        ''Created module/service/arm_driver_service/AGENTS.md''], demo_created_tree)"
  using demo_created(1) by (simp add: demo_created_tree_def prod_eq_iff)

lemma create_changes_no_file_witness: "readFile demo_created_tree [''notes.txt''] = Inr ''kept''"
proof (rule create_changes_no_file [OF demo_create_run])
  show "readFile demo_root_tree [''notes.txt''] = Inr ''kept''" by code_simp
qed

lemma created_where_listed_witness:
  "\<exists>slug. validateModuleName ''arm-driver'' = Inr slug
    \<and> (let listed = path_join [] (normalizePath (join_relative [MODULE_SERVICE_ROOT, toServiceName slug]))
       in \<not> existsSync demo_root_tree listed \<and> existsSync demo_created_tree listed)"
  using created_where_listed [of "[]" "''arm-driver''" "[]" demo_root_tree] demo_create_run by blast

subsection \<open>Removing\<close>

lemma rm_tree_other: "\<not> prefix q p \<Longrightarrow> readFile (rm_tree t q) p = Inr c \<longleftrightarrow> readFile t p = Inr c"
  unfolding readFile_Inr
proof (induction t q arbitrary: p rule: rm_tree.induct)
  case (1 es n)
  then show ?case by (cases p) (auto simp: map_of_del)
next
  case (2 es n m q)
  then show ?case by (cases p) (auto split: option.splits)
qed auto

lemma run_then_value: "run_then (run_value (Inr x)) f = f x"
  by (simp add: fun_eq_iff run_then_def run_value_def run_read_def)

lemma updates_keep:
  assumes "\<forall>q \<in> set projects. pj_file q \<noteq> p"
  shows "run_keeps (\<lambda>fs. readFile fs p = Inr c) (update_projects projectName projects)"
  using assms
proof (induction projects)
  case (Cons project rest)
  then have "run_keeps (\<lambda>fs. readFile fs p = Inr c) (run_write (pj_file project) t)" for t
    by (intro keeps_write) auto
  with Cons show ?case by (auto split: option.split intro!: keeps)
qed (simp add: keeps)

lemma project_file_names: "q \<in> set (project_files rel es) \<Longrightarrow> \<exists>d. q = d @ [''project.json'']"
proof (induction rel es rule: project_files.induct)
  case (2 rel n t es)
  then show ?case by (cases t) (auto split: if_splits simp: sort_paths_def)
qed simp

lemma loaded_files:
  assumes "loadProjects env fs = Inr projects" "project \<in> set projects"
  shows "\<exists>d. pj_file project = d @ [''project.json'']"
proof -
  from assms(1) obtain files loaded where files: "findProjectFiles env fs = Inr files"
    and loaded: "rmap (read_project env fs) files = Inr loaded" and "set projects = set loaded"
    by (auto simp: loadProjects_def rbind_end split: if_splits)
  with rmap_from [OF loaded] assms(2) obtain f where f: "f \<in> set files" "read_project env fs f = Inr project" by blast
  then have "pj_file project = f" by (auto simp: read_project_def rbind_end)
  moreover from f(1) files obtain es rel where "f = ws_root env @ rel" "rel \<in> set (project_files [] es)"
    by (auto simp: findProjectFiles_def rbind_end sort_paths_def)
  ultimately show ?thesis using project_file_names [of rel "[]" es] by auto
qed

lemma dependency_update_keeps:
  assumes "\<not> suffix [''project.json''] p"
  shows "run_keeps (\<lambda>fs. readFile fs p = Inr c) (removeImplicitDependency env projectName)"
  unfolding run_keeps_def
proof (intro allI impI)
  fix fs assume here: "readFile fs p = Inr c"
  show "readFile (snd (removeImplicitDependency env projectName fs)) p = Inr c"
  proof (cases "loadProjects env fs")
    case (Inr projects)
    have "\<forall>q \<in> set projects. pj_file q \<noteq> p" using loaded_files [OF Inr] assms by (auto simp: suffix_def)
    from updates_keep [OF this] here show ?thesis
      by (simp add: removeImplicitDependency_def run_then_def run_read_def Inr run_keeps_def)
  qed (simp add: removeImplicitDependency_def run_then_def run_read_def here)
qed

text \<open>\<open>npm run remove\<close> touches nothing but one directory and project files: however it ends, there is one directory
  \<open>module/<name>\<close>, of a single kebab-case name, such that every file outside of it that is no \<open>project.json\<close> is unchanged.\<close>

theorem remove_is_confined:
  assumes "remove_main env argv fs = (r, fs')"
  shows "\<exists>name. (CHR ''/'' \<notin> set name \<and> CHR ''.'' \<notin> set name)
    \<and> (\<forall>p c. \<not> prefix (ws_root env @ [''module'', name]) p \<longrightarrow> \<not> suffix [''project.json''] p
        \<longrightarrow> readFile fs p = Inr c \<longrightarrow> readFile fs' p = Inr c)"
proof (cases "fs' = fs")
  case True
  then show ?thesis by (intro exI [of _ "[]"]) simp
next
  case changed: False
  have "\<exists>name. removeModule env name fs = (r, fs')"
    using assms changed by (auto simp: remove_main_def Let_def run_value_end split: if_splits)
  then obtain name where run: "removeModule env name fs = (r, fs')" by blast
  obtain dir where dir: "normalizeModuleDirName name = Inr dir"
    using run changed by (cases "normalizeModuleDirName name") (auto simp: removeModule_def run_then_def run_value_def run_read_def)
  have chars: "CHR ''/'' \<notin> set dir" "CHR ''.'' \<notin> set dir"
    using dir by (auto simp: normalizeModuleDirName_def Let_def list_all_iff is_kebab_char_def is_lower_def is_digit_def split: if_splits)
  have "readFile fs' p = Inr c"
    if p: "\<not> prefix (ws_root env @ [''module'', dir]) p" "\<not> suffix [''project.json''] p" and here: "readFile fs p = Inr c" for p c
  proof -
    let ?P = "\<lambda>fs. readFile fs p = Inr c"
    have removed: "run_keeps ?P (run_rm_tree (ws_root env @ [''module'', dir]))"
      using rm_tree_other [OF p(1)] by (simp add: run_keeps_def run_rm_tree_def run_change_def)
    have "run_keeps ?P (removeModule env name)"
      by (simp only: removeModule_def dir run_then_value Let_def) (intro keeps removed dependency_update_keeps [OF p(2)])
    from keepsD [where P = ?P, OF this run here] show ?thesis .
  qed
  with chars show ?thesis by blast
qed

definition demo_remove_tree :: node where
  "demo_remove_tree = Dir [(''notes.txt'', File ''kept''), (''module'', Dir [(''arm-driver'', Dir [(''project.json'', File ''project''), (''a.txt'', File [])])])]"

definition demo_remove_env :: workspace_env where
  "demo_remove_env = \<lparr>ws_root = [],
     ws_jsonParse = (\<lambda>_. Inr (JObject [(''name'', JString ''module-arm-driver''), (''root'', JString ''module/arm-driver'')])),
     ws_localeCompare = unit_compare\<rparr>"

lemma demo_removed:
  "fst (remove_main demo_remove_env [''module'', ''arm_driver''] demo_remove_tree)
    = Inr [''Removed module/arm-driver (module-arm-driver).'', ''Run: rg '' @ quoted ''module-arm-driver|arm-driver|arm_driver'', ''Then run: npm run check'']"
  "snd (remove_main demo_remove_env [''module'', ''arm_driver''] demo_remove_tree) = Dir [(''notes.txt'', File ''kept''), (''module'', Dir [])]"
  by code_simp+

lemma remove_is_confined_witness:
  "\<exists>name. (CHR ''/'' \<notin> set name \<and> CHR ''.'' \<notin> set name)
    \<and> (prefix [''module'', name] [''notes.txt''] \<or> readFile (snd (remove_main demo_remove_env [''module'', ''arm_driver''] demo_remove_tree)) [''notes.txt''] = Inr ''kept'')"
proof -
  have here: "readFile demo_remove_tree [''notes.txt''] = Inr ''kept''" by code_simp
  have other: "\<not> suffix [''project.json''] [''notes.txt'']" by (simp add: suffix_def Cons_eq_append_conv)
  have "ws_root demo_remove_env @ [''module'', name] = [''module'', name]" for name by (simp add: demo_remove_env_def)
  with remove_is_confined [OF surjective_pairing [of "remove_main demo_remove_env [''module'', ''arm_driver''] demo_remove_tree"]] here other
  show ?thesis by metis
qed

text \<open>The two commands do not fit: what \<open>npm run create\<close> has made, \<open>npm run remove\<close> does not find.\<close>

theorem remove_misses_created:
  "fst (remove_main demo_remove_env [''module'', name] demo_created_tree) \<noteq> Inr lines"
  if "name \<in> set [''arm-driver'', ''arm_driver'', ''arm-driver-service'', ''arm_driver_service'', ''module/service/arm_driver_service'']"
proof -
  have "list_all (\<lambda>name. isl (fst (remove_main demo_remove_env [''module'', name] demo_created_tree)))
      [''arm-driver'', ''arm_driver'', ''arm-driver-service'', ''arm_driver_service'', ''module/service/arm_driver_service'']"
    by code_simp
  with that show ?thesis by (auto simp: list_all_iff)
qed

end
