(* ===== verification/Pr_World.thy ===== *)
theory Pr_World
  imports Project_Check
begin

text \<open>
  The command wrapper \<open>./pr\<close> (\<open>bin/pr.mjs\<close>), first part: its start, the processes it starts and its last
  line. A run works on the file system and on the list of what has happened: lines and texts of the two outputs,
  processes, and the signals that it sends to itself. A run that calls \<open>process.exit\<close> ends there, as one does in
  which something throws. What a process does to the files and how it ends is a parameter; it may depend on
  how many were started before. After a signal to itself the code goes on to \<open>process.exit\<close>; whether the
  system stops it earlier is left open.
\<close>

subsection \<open>Runs\<close>

record pr_process =
  pp_command :: string
  pp_args :: "string list"
  pp_cwd :: path
  pp_env :: "(string \<times> string) list"

record pr_outcome =
  po_error :: "string option"
  po_signal :: "string option"
  po_status :: "nat option"
  po_stdout :: string
  po_stderr :: string

datatype pr_event = Out string | Err string | Wrote string | Wrote_Err string | Started pr_process | Raised string

record pr_state =
  ps_fs :: node
  ps_events :: "pr_event list"

datatype pr_end = Exited nat | Threw string

type_synonym 'a pr = "pr_state \<Rightarrow> (pr_end + 'a) \<times> pr_state"

record pr_env =
  pe_candidates :: "path list"
  pe_cwd :: path
  pe_args :: "string list"
  pe_environ :: "string \<Rightarrow> string option"
  pe_windows :: bool
  pe_colors :: bool
  pe_jsonParse :: "string \<Rightarrow> json result"
  pe_localeCompare :: "string \<Rightarrow> string \<Rightarrow> int"
  pe_spawn :: "pr_event list \<Rightarrow> node \<Rightarrow> pr_process \<Rightarrow> pr_outcome \<times> node"

definition pr_value :: "'a \<Rightarrow> 'a pr" where
  "pr_value x s = (Inr x, s)"

definition pr_then :: "'a pr \<Rightarrow> ('a \<Rightarrow> 'b pr) \<Rightarrow> 'b pr" where
  "pr_then m f s = (case m s of (Inl e, s') \<Rightarrow> (Inl e, s') | (Inr x, s') \<Rightarrow> f x s')"

definition pr_exit :: "nat \<Rightarrow> 'a pr" where
  "pr_exit code s = (Inl (Exited code), s)"

definition pr_read :: "(node \<Rightarrow> 'a result) \<Rightarrow> 'a pr" where
  "pr_read f s = (case f (ps_fs s) of Inl e \<Rightarrow> (Inl (Threw e), s) | Inr x \<Rightarrow> (Inr x, s))"

definition pr_change :: "(node \<Rightarrow> node result) \<Rightarrow> unit pr" where
  "pr_change f s = (case f (ps_fs s) of Inl e \<Rightarrow> (Inl (Threw e), s) | Inr fs \<Rightarrow> (Inr (), s\<lparr>ps_fs := fs\<rparr>))"

definition pr_emit :: "pr_event \<Rightarrow> unit pr" where
  "pr_emit e s = (Inr (), s\<lparr>ps_events := ps_events s @ [e]\<rparr>)"

fun pr_all :: "unit pr list \<Rightarrow> unit pr" where
  "pr_all [] = pr_value ()"
| "pr_all (m # ms) = pr_then m (\<lambda>_. pr_all ms)"

definition print_lines :: "string list \<Rightarrow> unit pr" where
  "print_lines ls = pr_all (map (\<lambda>l. pr_emit (Out l)) ls)"

definition error_lines :: "string list \<Rightarrow> unit pr" where
  "error_lines ls = pr_all (map (\<lambda>l. pr_emit (Err l)) ls)"

definition pr_fail :: "string list \<Rightarrow> 'a pr" where
  "pr_fail ls = pr_then (error_lines ls) (\<lambda>_. pr_exit 1)"

subsection \<open>The last line\<close>

definition secretFlags :: "string list" where
  "secretFlags = [''--password'', ''--token'', ''--secret'', ''--api-key'', ''--apikey'', ''--key'']"

text \<open>\<open>/^--(password|token|secret|api-key|apikey|key)=/i\<close>.\<close>

definition joined_secret :: "string \<Rightarrow> bool" where
  "joined_secret arg \<longleftrightarrow> list_ex (\<lambda>flag. startsWith (toLowerCase arg) (flag @ ''='')) secretFlags"

fun redactCommandArgs :: "string list \<Rightarrow> string list" where
  "redactCommandArgs [] = []"
| "redactCommandArgs (arg # rest) =
     (if toLowerCase arg \<in> set secretFlags
      then arg # (case rest of [] \<Rightarrow> [] | v # rest' \<Rightarrow> ''<redacted>'' # redactCommandArgs rest')
      else if joined_secret arg then (takeWhile (\<lambda>c. c \<noteq> CHR ''='') arg @ ''=<redacted>'') # redactCommandArgs rest
      else arg # redactCommandArgs rest)"

definition prCommandLine :: "string list \<Rightarrow> string" where
  "prCommandLine args = ''./pr'' @ (if args \<noteq> [] then '' '' @ join '' '' (redactCommandArgs args) else [])"

definition finalStatusMessage :: "string list \<Rightarrow> nat \<Rightarrow> string \<Rightarrow> string" where
  "finalStatusMessage args code reason =
     (let ok = (code = 0); detail = (if reason \<noteq> [] then reason else if ok then ''completed'' else ''exit code '' @ nat_str code)
      in ''[PR '' @ (if ok then ''SUCCESS'' else ''FAILED'') @ ''] '' @ prCommandLine args @ '' '' @ detail)"

definition status_event :: "string list \<Rightarrow> nat \<Rightarrow> string \<Rightarrow> pr_event" where
  "status_event args code reason =
     (if code = 0 then Out (finalStatusMessage args code reason) else Err (finalStatusMessage args code reason))"

definition exitCodeForSignal :: "string \<Rightarrow> nat" where
  "exitCodeForSignal signal = nullish (map_of [(''SIGHUP'', 129), (''SIGINT'', 130), (''SIGTERM'', 143)] signal) 1"

text \<open>The handler of a signal: \<open>printFinalStatus\<close> prints at most one line, so that of the exit prints none.\<close>

definition signal_end :: "string list \<Rightarrow> string \<Rightarrow> pr_event list \<times> nat" where
  "signal_end args signal =
     (let code = exitCodeForSignal signal in ([status_event args code (''terminated by '' @ signal)], code))"

text \<open>The end of a run: what was thrown is printed, and the last line follows.\<close>

definition pr_finish :: "string list \<Rightarrow> (pr_end + unit) \<times> pr_state \<Rightarrow> nat \<times> pr_state" where
  "pr_finish args = (\<lambda>(r, s).
     let (code, thrown) = (case r of Inl (Exited c) \<Rightarrow> (c, []) | Inl (Threw e) \<Rightarrow> (1, [Err e]) | Inr u \<Rightarrow> (0, []))
     in (code, s\<lparr>ps_events := ps_events s @ thrown @ [status_event args code []]\<rparr>))"

subsection \<open>The start\<close>

definition resolveRoot :: "pr_env \<Rightarrow> node \<Rightarrow> path" where
  "resolveRoot env fs =
     (case List.map_filter (findUpPackageJson fs) (pe_candidates env) of dir # _ \<Rightarrow> dir | [] \<Rightarrow> pe_cwd env)"

record pr_setup =
  su_root :: path
  su_package :: json
  su_scripts :: json

definition readPackageJson :: "pr_env \<Rightarrow> path \<Rightarrow> json pr" where
  "readPackageJson env root' =
     pr_then (pr_read (\<lambda>fs. Inr (existsSync fs (root' @ [''package.json''])))) (\<lambda>present.
       if \<not> present then pr_fail [''package.json not found in '' @ file_string root']
       else pr_read (\<lambda>fs. rbind (readFile fs (root' @ [''package.json''])) (pe_jsonParse env)))"

definition pr_start :: "pr_env \<Rightarrow> pr_setup pr" where
  "pr_start env =
     pr_then (pr_read (\<lambda>fs. Inr (resolveRoot env fs))) (\<lambda>root'.
     pr_then (readPackageJson env root') (\<lambda>packageJson.
     pr_then (pr_read (\<lambda>_. json_prop packageJson ''scripts'')) (\<lambda>scripts.
       pr_value \<lparr>su_root = root', su_package = packageJson, su_scripts = json_or scripts (JObject [])\<rparr>)))"

definition ws_env :: "pr_env \<Rightarrow> pr_setup \<Rightarrow> workspace_env" where
  "ws_env env su = \<lparr>ws_root = su_root su, ws_jsonParse = pe_jsonParse env, ws_localeCompare = pe_localeCompare env\<rparr>"

text \<open>\<open>hasOwnProperty\<close>, and the names in order.\<close>

definition has_script :: "json \<Rightarrow> string \<Rightarrow> bool" where
  "has_script scripts name \<longleftrightarrow>
     name \<in> set (map fst (json_entries scripts))
     \<or> name = ''length'' \<and> (case scripts of JArray xs \<Rightarrow> True | JString t \<Rightarrow> True | _ \<Rightarrow> False)"

definition script_lines :: "pr_setup \<Rightarrow> string list" where
  "script_lines su = map (\<lambda>n. ''  '' @ n) (js_sort unit_compare (map fst (json_entries (su_scripts su))))"

definition package_text :: "pr_setup \<Rightarrow> string \<Rightarrow> string \<Rightarrow> string" where
  "package_text su k other = json_text (json_or (json_get (asRecord (su_package su)) k) (JString other))"

subsection \<open>Processes\<close>

definition executable :: "pr_env \<Rightarrow> string \<Rightarrow> string" where
  "executable env name = (if pe_windows env then name @ ''.cmd'' else name)"

definition commandEnv :: "pr_env \<Rightarrow> pr_setup \<Rightarrow> string \<Rightarrow> (string \<times> string) list" where
  "commandEnv env su command =
     (if command \<noteq> ''go'' \<or> nullish (pe_environ env ''GOCACHE'') [] \<noteq> [] then []
      else [(''GOCACHE'', file_string (su_root su @ [''.cache'', ''go-build'']))])"

definition spawn :: "pr_env \<Rightarrow> pr_process \<Rightarrow> pr_outcome pr" where
  "spawn env p s =
     (case pe_spawn env (ps_events s) (ps_fs s) p of
        (outcome, fs) \<Rightarrow> (Inr outcome, s\<lparr>ps_fs := fs, ps_events := ps_events s @ [Started p]\<rparr>))"

definition spawn_in ::
  "pr_env \<Rightarrow> string \<Rightarrow> string list \<Rightarrow> path \<Rightarrow> (string \<times> string) list \<Rightarrow> pr_outcome pr" where
  "spawn_in env command args cwd extra =
     spawn env \<lparr>pp_command = executable env command, pp_args = args, pp_cwd = cwd, pp_env = extra\<rparr>"

definition hasCommand :: "pr_env \<Rightarrow> pr_setup \<Rightarrow> string \<Rightarrow> bool pr" where
  "hasCommand env su command =
     pr_then (spawn_in env command [''--version''] (su_root su) []) (\<lambda>r. pr_value (po_error r = None))"

definition requireCommand :: "pr_env \<Rightarrow> pr_setup \<Rightarrow> string \<Rightarrow> string \<Rightarrow> unit pr" where
  "requireCommand env su command purpose =
     pr_then (hasCommand env su command) (\<lambda>found.
       if found then pr_value ()
       else pr_then (error_lines [command @ '' is required'' @ (if purpose \<noteq> [] then '' to '' @ purpose else [])
           @ '', but it was not found on PATH.'']) (\<lambda>_. pr_exit 127))"

text \<open>What follows a process: a failure to start ends the run, and a signal is passed on.\<close>

definition after_process :: "string \<Rightarrow> pr_outcome \<Rightarrow> nat pr" where
  "after_process command r =
     (case po_error r of
        Some e \<Rightarrow> pr_fail [''Failed to run '' @ command @ '': '' @ e]
      | None \<Rightarrow> pr_then (case po_signal r of Some signal \<Rightarrow> pr_emit (Raised signal) | None \<Rightarrow> pr_value ())
          (\<lambda>_. pr_value (nullish (po_status r) 1)))"

definition runShell :: "pr_env \<Rightarrow> pr_setup \<Rightarrow> string \<Rightarrow> string list \<Rightarrow> path \<Rightarrow> (string \<times> string) list \<Rightarrow> nat pr" where
  "runShell env su command args cwd extra =
     pr_then (spawn_in env command args cwd (commandEnv env su command @ extra)) (after_process command)"

definition run_exit :: "pr_env \<Rightarrow> pr_setup \<Rightarrow> string \<Rightarrow> string list \<Rightarrow> 'a pr" where
  "run_exit env su command args = pr_then (runShell env su command args (su_root su) []) pr_exit"

definition runShellCaptured :: "pr_env \<Rightarrow> pr_setup \<Rightarrow> string \<Rightarrow> string list \<Rightarrow> path \<Rightarrow> (pr_outcome \<times> string) pr" where
  "runShellCaptured env su command args cwd =
     pr_then (spawn_in env command args cwd (commandEnv env su command)) (\<lambda>r. pr_value (r, po_stdout r @ po_stderr r))"

definition exit_unless_zero :: "nat \<Rightarrow> unit pr" where
  "exit_unless_zero code = (if code \<noteq> 0 then pr_exit code else pr_value ())"

definition script_args :: "string \<Rightarrow> string list \<Rightarrow> string list" where
  "script_args name args = [''run'', name] @ (if args \<noteq> [] then ''--'' # args else [])"

definition runScript :: "pr_env \<Rightarrow> pr_setup \<Rightarrow> string \<Rightarrow> string list \<Rightarrow> 'a pr" where
  "runScript env su scriptName scriptArgs =
     pr_then (requireCommand env su ''npm'' (''run npm script '' @ quoted scriptName)) (\<lambda>_.
       run_exit env su ''npm'' (script_args scriptName scriptArgs))"

definition firstLine :: "string \<Rightarrow> string" where
  "firstLine v = hd (split_lines (trim v))"

definition commandOutput :: "pr_env \<Rightarrow> pr_setup \<Rightarrow> string \<Rightarrow> string list \<Rightarrow> string pr" where
  "commandOutput env su command args =
     pr_then (spawn_in env command args (su_root su) []) (\<lambda>r.
       pr_value (if po_error r \<noteq> None \<or> po_status r \<noteq> Some 0 then []
         else firstLine (if po_stdout r \<noteq> [] then po_stdout r else po_stderr r)))"

text \<open>\<open>commandResult\<close>: the outcome, with a message in case it is a failure.\<close>

record command_result =
  cr_ok :: bool
  cr_stdout :: string
  cr_stderr :: string
  cr_errorMessage :: string

definition commandResult :: "pr_env \<Rightarrow> pr_setup \<Rightarrow> string \<Rightarrow> string list \<Rightarrow> command_result pr" where
  "commandResult env su command args =
     pr_then (spawn_in env command args (su_root su) []) (\<lambda>r.
       let first = firstLine (po_stderr r);
           other = (if first \<noteq> [] then first else ''exit '' @ (case po_status r of Some c \<Rightarrow> nat_str c | None \<Rightarrow> ''unknown''))
       in pr_value \<lparr>cr_ok = (po_error r = None \<and> po_status r = Some 0), cr_stdout = po_stdout r, cr_stderr = po_stderr r,
            cr_errorMessage = (case po_error r of Some e \<Rightarrow> if e \<noteq> [] then e else other | None \<Rightarrow> other)\<rparr>)"

definition status_line :: "string \<Rightarrow> string \<Rightarrow> string" where
  "status_line level message = ''['' @ level @ ''] '' @ message"

definition status :: "string \<Rightarrow> string \<Rightarrow> unit pr" where
  "status level message = pr_emit (Out (status_line level message))"

end
