(* ===== verification/Pr_Clean.thy ===== *)
theory Pr_Clean
  imports Pr_World Create_Module Monitor_Format Collector_Text
begin

text \<open>
  \<open>./pr doctor\<close> and \<open>./pr clean\<close> (\<open>bin/pr.mjs\<close>). Sizes are numbers of bytes; the size of a file or a
  directory as \<open>lstat\<close> reports it is a parameter.
\<close>

subsection \<open>Doctor\<close>

definition node_major :: "string \<Rightarrow> string" where
  "node_major version = takeWhile (\<lambda>c. c \<noteq> CHR ''.'') (drop_prefix ''v'' version)"

definition node_line :: "string \<Rightarrow> string" where
  "node_line version =
     (if version = [] then status_line ''WARN'' ''Node.js: not found. Commands backed by npm/node will not run.''
      else if node_major version = ''22'' then status_line ''OK'' (''Node.js: '' @ version)
      else status_line ''WARN'' (''Node.js: '' @ version @ '' (expected v22)''))"

definition tool_line :: "string \<Rightarrow> string \<Rightarrow> string \<Rightarrow> string" where
  "tool_line label version missing =
     (if version \<noteq> [] then status_line ''OK'' (label @ version) else status_line ''WARN'' missing)"

definition doctor :: "pr_env \<Rightarrow> pr_setup \<Rightarrow> unit pr" where
  "doctor env su =
     pr_then (status ''OK'' (''Workspace: '' @ file_string (su_root su))) (\<lambda>_.
     pr_then (status ''OK'' ''pr runtime: Bun-compiled executable'') (\<lambda>_.
     pr_then (commandOutput env su ''node'' [''--version'']) (\<lambda>node.
     pr_then (print_lines [node_line node]) (\<lambda>_.
     pr_then (commandOutput env su ''npm'' [''--version'']) (\<lambda>npm.
     pr_then (print_lines [tool_line ''npm: '' npm ''npm: not found. npm script commands will not run.'']) (\<lambda>_.
     pr_then (commandOutput env su ''go'' [''version'']) (\<lambda>go.
     pr_then (print_lines [tool_line [] go ''Go: not found. ./pr test:go will not run.'']) (\<lambda>_.
     pr_then (commandOutput env su ''docker'' [''--version'']) (\<lambda>docker.
       if docker = [] then status ''WARN'' ''Docker: not found. ROS2 and observability commands need Docker.''
       else
         pr_then (status ''OK'' docker) (\<lambda>_.
         pr_then (spawn_in env ''docker'' [''info''] (su_root su) []) (\<lambda>info.
         pr_then (print_lines [if po_status info = Some 0 then status_line ''OK'' ''Docker daemon: running''
             else status_line ''WARN'' ''Docker daemon: not reachable'']) (\<lambda>_.
         pr_then (commandOutput env su ''docker'' [''compose'', ''version'']) (\<lambda>compose.
           print_lines [tool_line [] compose ''Docker Compose v2: not found''])))))))))))))"

subsection \<open>What may be removed\<close>

definition clean_candidates :: "string list" where
  "clean_candidates = [''.cache'', ''.nx/cache'', ''.nx/workspace-data'', ''build'', ''install'', ''log'', ''coverage'', ''dist'', ''out'',
     ''target'', ''test-results'', ''dashboard/.turbo'', ''dashboard/apps/web/.next'', ''dashboard/apps/web/.turbo'',
     ''dashboard/apps/tui/.turbo'', ''dashboard/packages/api/dist'', ''dashboard/packages/db/dist'', ''dashboard/packages/ui/.turbo'',
     ''dashboard/packages/ui/dist'', ''infra/log/dist'', ''infra/metric/dist'', ''infra/otel/dist'', ''infra/trace/dist'', ''monitor/pr-monitor/dist'']"

definition resolveCleanPath :: "path \<Rightarrow> string \<Rightarrow> path pr" where
  "resolveCleanPath root' cleanPath =
     (let p = resolve_path root' cleanPath; rel = path_relative root' p in
      if rel = [] \<or> startsWith rel ''..'' \<or> has_sub rel ''../''
      then pr_fail [''Refusing to clean path outside workspace: '' @ cleanPath] else pr_value p)"

fun resolve_all :: "path \<Rightarrow> string list \<Rightarrow> path list pr" where
  "resolve_all root' [] = pr_value []"
| "resolve_all root' (c # cs) =
     pr_then (resolveCleanPath root' c) (\<lambda>p. pr_then (resolve_all root' cs) (\<lambda>ps. pr_value (p # ps)))"

definition cleanWorkspacePaths :: "path \<Rightarrow> path list pr" where
  "cleanWorkspacePaths root' =
     pr_then (resolve_all root' (uniq clean_candidates)) (\<lambda>ps.
       pr_read (\<lambda>fs. Inr (filter (existsSync fs) ps)))"

text \<open>\<open>pathSize\<close>.\<close>

fun tree_size :: "(node \<Rightarrow> nat) \<Rightarrow> node \<Rightarrow> nat"
  and entries_size :: "(node \<Rightarrow> nat) \<Rightarrow> (string \<times> node) list \<Rightarrow> nat" where
  "tree_size lstat (Dir es) = lstat (Dir es) + entries_size lstat es"
| "tree_size lstat t = lstat t"
| "entries_size lstat [] = 0"
| "entries_size lstat ((n, t) # es) = tree_size lstat t + entries_size lstat es"

definition pathSize :: "(node \<Rightarrow> nat) \<Rightarrow> node \<Rightarrow> path \<Rightarrow> nat" where
  "pathSize lstat fs p = (case node_at fs p of Some t \<Rightarrow> tree_size lstat t | None \<Rightarrow> 0)"

fun scaled :: "rat \<Rightarrow> nat \<Rightarrow> nat \<Rightarrow> rat \<times> nat" where
  "scaled v unit' 0 = (v, unit')"
| "scaled v unit' (Suc n) = (if v \<ge> 1024 then scaled (v / 1024) (unit' + 1) n else (v, unit'))"

definition formatBytesLocal :: "nat \<Rightarrow> string" where
  "formatBytesLocal bytes =
     (let (v, unit') = scaled (of_nat bytes) 0 4
      in toFixed v (if unit' = 0 then 0 else 1) @ '' '' @ [''B'', ''KiB'', ''MiB'', ''GiB'', ''TiB''] ! unit')"

definition removeCleanPath :: "(node \<Rightarrow> nat) \<Rightarrow> path \<Rightarrow> bool \<Rightarrow> path \<Rightarrow> nat option pr" where
  "removeCleanPath lstat root' dryRun p =
     pr_then (pr_read (\<lambda>fs. Inr (existsSync fs p, pathSize lstat fs p))) (\<lambda>(present, bytes).
       if \<not> present then pr_value None
       else
         let rel = path_relative root' p; label = (if rel \<noteq> [] then rel else ''.'') in
         pr_then (print_lines [(if dryRun then ''Would remove'' else ''Removing'') @ '' '' @ label
           @ (if bytes > 0 then '' ('' @ formatBytesLocal bytes @ '')'' else [])]) (\<lambda>_.
         pr_then (if dryRun then pr_value () else pr_change (\<lambda>fs. Inr (rm_tree fs p))) (\<lambda>_.
           pr_value (Some bytes))))"

fun remove_paths :: "(node \<Rightarrow> nat) \<Rightarrow> path \<Rightarrow> bool \<Rightarrow> path list \<Rightarrow> (nat \<times> nat) pr" where
  "remove_paths lstat root' dryRun [] = pr_value (0, 0)"
| "remove_paths lstat root' dryRun (p # ps) =
     pr_then (removeCleanPath lstat root' dryRun p) (\<lambda>removed.
     pr_then (remove_paths lstat root' dryRun ps) (\<lambda>(removed_count, bytes).
       pr_value (case removed of Some b \<Rightarrow> (removed_count + 1, bytes + b) | None \<Rightarrow> (removed_count, bytes))))"

subsection \<open>Docker\<close>

text \<open>\<open>/^pacific-rim-ros2(?:-.+)?:[^:<>\s]+$/\<close>: the last colon separates the tag.\<close>

definition project_image :: "string \<Rightarrow> bool" where
  "project_image line \<longleftrightarrow>
     (case eat_text ''pacific-rim-ros2'' line of
        None \<Rightarrow> False
      | Some r \<Rightarrow>
          let tag = rev (takeWhile (\<lambda>c. c \<noteq> CHR '':'') (rev r)); before = butlast (take (length r - length tag) r)
          in CHR '':'' \<in> set r \<and> tag \<noteq> [] \<and> list_all (\<lambda>c. c \<notin> set ''<>'' \<and> \<not> is_ws c) tag
             \<and> (before = [] \<or> startsWith before ''-'' \<and> 2 \<le> length before \<and> list_all (\<lambda>c. \<not> is_term c) before))"

definition image_refs :: "string \<Rightarrow> string list" where
  "image_refs out = uniq (filter (\<lambda>l. \<not> endsWith l '':<none>'') (filter project_image (map trim (split_lines out))))"

definition with_docker :: "pr_env \<Rightarrow> pr_setup \<Rightarrow> string \<Rightarrow> unit pr \<Rightarrow> unit pr" where
  "with_docker env su what action =
     pr_then (hasCommand env su ''docker'') (\<lambda>found.
       if \<not> found then status ''INFO'' (''Docker: not found; skipping '' @ what @ '' cleanup.'')
       else pr_then (commandResult env su ''docker'' [''info'']) (\<lambda>info.
         if \<not> cr_ok info
         then status ''WARN'' (''Docker daemon: not reachable; skipping '' @ what @ '' cleanup ('' @ cr_errorMessage info @ '').'')
         else action))"

definition cleanProjectDockerImages :: "pr_env \<Rightarrow> pr_setup \<Rightarrow> bool \<Rightarrow> unit pr" where
  "cleanProjectDockerImages env su dryRun =
     with_docker env su ''project image''
       (pr_then (commandResult env su ''docker'' [''image'', ''ls'', ''--format'', ''{{.Repository}}:{{.Tag}}'']) (\<lambda>images.
          if \<not> cr_ok images then status ''WARN'' (''Docker images: unable to list project images ('' @ cr_errorMessage images @ '').'')
          else
            let refs = image_refs (cr_stdout images) in
            if refs = [] then print_lines [''Docker project images: nothing to clean.'']
            else
              pr_then (print_lines [(if dryRun then ''Would remove'' else ''Removing'') @ '' Docker project image''
                @ (if length refs = 1 then [] else ''s'') @ '': '' @ join '', '' refs]) (\<lambda>_.
                if dryRun then pr_value ()
                else pr_then (runShell env su ''docker'' ([''image'', ''rm'', ''-f''] @ refs) (su_root su) []) exit_unless_zero)))"

definition cleanDockerBuilderCache :: "pr_env \<Rightarrow> pr_setup \<Rightarrow> bool \<Rightarrow> unit pr" where
  "cleanDockerBuilderCache env su dryRun =
     with_docker env su ''builder cache''
       (pr_then (print_lines [(if dryRun then ''Would run'' else ''Running'') @ '' docker builder prune -f'']) (\<lambda>_.
          if dryRun then pr_value ()
          else pr_then (runShell env su ''docker'' [''builder'', ''prune'', ''-f''] (su_root su) []) exit_unless_zero))"

subsection \<open>The command\<close>

definition clean_help :: "string list" where
  "clean_help = [''Usage:'', ''  ./pr clean [--dry-run] [--no-docker] [--docker-builder]'', [],
     ''Cleans generated workspace caches and Pacific-Rim Docker images.'', [], ''Options:'',
     ''  --dry-run          Print what would be removed without deleting anything.'',
     ''  --no-docker        Skip Docker image cleanup.'',
     ''  --docker-builder   Also run docker builder prune -f. This affects the Docker daemon, not only this repo.'']"

record clean_options =
  co_dryRun :: bool
  co_docker :: bool
  co_builder :: bool

datatype clean_request = Clean clean_options | Clean_Help | Clean_Unknown string

fun clean_args :: "clean_options \<Rightarrow> string list \<Rightarrow> clean_request" where
  "clean_args opts [] = Clean opts"
| "clean_args opts (arg # rest) =
     (if arg = ''--dry-run'' \<or> arg = ''-n'' then clean_args (opts\<lparr>co_dryRun := True\<rparr>) rest
      else if arg = ''--no-docker'' then clean_args (opts\<lparr>co_docker := False\<rparr>) rest
      else if arg = ''--docker-builder'' then clean_args (opts\<lparr>co_builder := True\<rparr>) rest
      else if arg = ''--help'' \<or> arg = ''-h'' then Clean_Help
      else Clean_Unknown arg)"

definition clean_summary :: "bool \<Rightarrow> nat \<Rightarrow> nat \<Rightarrow> string" where
  "clean_summary dryRun removed_count bytes =
     (if removed_count = 0 then ''Workspace cache: nothing to clean.''
      else (if dryRun then ''Would remove'' else ''Removed'') @ '' '' @ nat_str removed_count @ '' workspace cache path''
        @ (if removed_count = 1 then [] else ''s'') @ '' ('' @ formatBytesLocal bytes @ '').'')"

definition clean_with :: "(node \<Rightarrow> nat) \<Rightarrow> pr_env \<Rightarrow> pr_setup \<Rightarrow> clean_options \<Rightarrow> unit pr" where
  "clean_with lstat env su opts =
     pr_then (cleanWorkspacePaths (su_root su)) (\<lambda>ps.
     pr_then (remove_paths lstat (su_root su) (co_dryRun opts) ps) (\<lambda>(removed_count, bytes).
     pr_then (print_lines [clean_summary (co_dryRun opts) removed_count bytes]) (\<lambda>_.
     pr_then (if co_docker opts then cleanProjectDockerImages env su (co_dryRun opts) else pr_value ()) (\<lambda>_.
       if co_builder opts then cleanDockerBuilderCache env su (co_dryRun opts) else pr_value ()))))"

definition runClean :: "(node \<Rightarrow> nat) \<Rightarrow> pr_env \<Rightarrow> pr_setup \<Rightarrow> string list \<Rightarrow> unit pr" where
  "runClean lstat env su args =
     (case clean_args \<lparr>co_dryRun = False, co_docker = True, co_builder = False\<rparr> args of
        Clean_Help \<Rightarrow> print_lines clean_help
      | Clean_Unknown arg \<Rightarrow>
          pr_then (error_lines [''Unknown clean option: '' @ arg]) (\<lambda>_. pr_then (print_lines clean_help) (\<lambda>_. pr_exit 1))
      | Clean opts \<Rightarrow> clean_with lstat env su opts)"

text \<open>
  \<open>./pr check env\<close> and \<open>./pr check diag\<close> (\<open>bin/pr.mjs\<close>). What \<open>node:os\<close> reports of the host is a parameter;
  loads and sizes are exact numbers.
\<close>

subsection \<open>The environment\<close>

record checked_variable =
  ee_name :: string
  ee_aliases :: "string list"
  ee_description :: string

definition env_entries :: "checked_variable list" where
  "env_entries = map (\<lambda>(n, as, d). \<lparr>ee_name = n, ee_aliases = as, ee_description = d\<rparr>) [
     (''VLINK_PROTO_DIR'', [''PACIFIC_RIM_PROTO_DIR''], ''Specifies the directory path where protocol buffer (.proto) files are stored.''),
     (''VLINK_FBS_DIR'', [''PACIFIC_RIM_FBS_DIR''], ''Specifies the directory path where flatbuffers (.fbs) files are stored.''),
     (''VLINK_SCHEMA_PLUGIN'', [], ''Specifies the schema plugin used for protobuf/flatbuffers schema loading.''),
     (''VLINK_TMP_DIR'', [], ''Specifies the temporary directory folder.''),
     (''VLINK_LOCK_DIR'', [], ''Specifies the lock directory folder.''),
     (''VLINK_LOG_LEVEL'', [], ''Sets log level (TRACE(0), DEBUG(1), INFO(2), WARN(3), ERROR(4), FATAL(5)).''),
     (''VLINK_LOG_CONSOLE_LEVEL'', [], ''Defines the log level for console output.''),
     (''VLINK_LOG_FILE_LEVEL'', [], ''Specifies the log level for file output.''),
     (''VLINK_LOG_CONSOLE_UNORDER'', [], ''Enable non-synchronized console output for better performance.''),
     (''VLINK_LOG_CONSOLE_FMT'', [], ''Set the console to output in a specific format.''),
     (''VLINK_LOG_FILE_FMT'', [], ''Set the file to output in a specific format.''),
     (''ROS_DOMAIN_ID'', [], ''Sets the ROS2 domain id used by local discovery.''),
     (''ROS_DISTRO'', [], ''Selects the ROS2 distribution for local or container workflows.''),
     (''PR_MONITOR_PROMETHEUS_URL'', [''PROMETHEUS_URL''], ''Sets the Prometheus endpoint used by pr-monitor metrics collection.'')]"

definition ansi_code :: "string \<Rightarrow> string" where
  "ansi_code name = CHR 0x1B # (if name = ''bold'' then ''[1m'' else if name = ''green'' then ''[32m'' else ''[31m'')"

text \<open>\<open>paint\<close>, for the colours that are used.\<close>

definition paint :: "pr_env \<Rightarrow> string \<Rightarrow> string \<Rightarrow> string" where
  "paint env v name = (if pe_colors env then ansi_code name @ v @ CHR 0x1B # ''[0m'' else v)"

text \<open>\<open>resolveEnvEntry\<close>: the name that has a value, and the value.\<close>

definition resolveEnvEntry :: "pr_env \<Rightarrow> checked_variable \<Rightarrow> string \<times> string" where
  "resolveEnvEntry env entry =
     (case filter (\<lambda>n. nullish (pe_environ env n) [] \<noteq> []) (ee_name entry # ee_aliases entry) of
        n # _ \<Rightarrow> (n, nullish (pe_environ env n) [])
      | [] \<Rightarrow> (ee_name entry, []))"

definition env_entry_lines :: "pr_env \<Rightarrow> checked_variable \<Rightarrow> string list" where
  "env_entry_lines env entry =
     (case resolveEnvEntry env entry of (source, v) \<Rightarrow>
        [paint env (''['' @ ee_name entry @ '']'' @ (if v = [] then []
             else '': '' @ v @ (if source \<noteq> ee_name entry then '' ('' @ source @ '')'' else [])))
           (if v \<noteq> [] then ''green'' else ''red''),
         ee_description entry, []])"

definition printEnvironmentCheck :: "pr_env \<Rightarrow> unit pr" where
  "printEnvironmentCheck env =
     print_lines ([paint env ''$ ./pr check env'' ''bold'', []] @ concat (map (env_entry_lines env) env_entries))"

subsection \<open>Host and network\<close>

record ip_address =
  ip_internal :: bool
  ip_family :: string
  ip_address_text :: string

record pr_host =
  ph_hostname :: string
  ph_osType :: string
  ph_release :: string
  ph_interfaces :: "(string \<times> ip_address list) list"
  ph_cpus :: nat
  ph_load :: "rat \<times> rat \<times> rat"
  ph_totalmem :: nat
  ph_freemem :: nat

definition printHostDiagnostics :: "pr_host \<Rightarrow> unit pr" where
  "printHostDiagnostics host =
     print_lines [status_line ''OK'' (''Host: '' @ ph_hostname host), status_line ''OK'' (''OS: '' @ ph_osType host @ '' '' @ ph_release host)]"

definition localIpAddresses :: "pr_host \<Rightarrow> (string \<times> string) list" where
  "localIpAddresses host =
     concat (map (\<lambda>(name, vs). map (\<lambda>v. (name, ip_address_text v)) (filter (\<lambda>v. \<not> ip_internal v \<and> ip_family v = ''IPv4'') vs))
       (ph_interfaces host))"

text \<open>\<open>multicastMemberships\<close>: whether an attempt worked, all that was printed, and the first message.\<close>

fun memberships :: "pr_env \<Rightarrow> pr_setup \<Rightarrow> string \<Rightarrow> string \<Rightarrow> string list list \<Rightarrow> (bool \<times> string \<times> string) pr" where
  "memberships env su out message [] = pr_value (False, out, message)"
| "memberships env su out message (args # others) =
     pr_then (commandResult env su ''netstat'' args) (\<lambda>r.
     let out' = out @ (if cr_stdout r \<noteq> [] then cr_stdout r @ [CHR 0x0A] else []) in
       if cr_ok r then pr_value (True, out', [])
       else memberships env su out' (if message \<noteq> [] then message else cr_errorMessage r) others)"

definition multicastMemberships :: "pr_env \<Rightarrow> pr_setup \<Rightarrow> (bool \<times> string \<times> string) pr" where
  "multicastMemberships env su = memberships env su [] [] [[''-g'', ''-f'', ''inet''], [''-g'', ''-f'', ''inet6''], [''-g'']]"

definition multicastGroups :: "(string \<times> string) list" where
  "multicastGroups = [(''DDS discovery'', ''239.255.0.1''), (''mDNS discovery'', ''224.0.0.251''), (''IPv6 link-local'', ''ff02::'')]"

definition ip_line :: "pr_host \<Rightarrow> string" where
  "ip_line host =
     (let ips = localIpAddresses host in
      if ips \<noteq> [] then status_line ''OK'' (''IP: '' @ join '', '' (map (\<lambda>(name, a). a @ '' ('' @ name @ '')'') ips))
      else status_line ''WARN'' ''IP: no non-internal IPv4 address found'')"

definition group_line :: "string \<Rightarrow> string \<times> string \<Rightarrow> string" where
  "group_line groupText = (\<lambda>(name, a).
     let matched = has_sub groupText (toLowerCase a) in
     status_line (if matched then ''OK'' else ''INFO'') (name @ '': '' @ a @ (if matched then '' joined'' else '' expected group'')))"

definition printNetworkDiagnostics :: "pr_host \<Rightarrow> pr_env \<Rightarrow> pr_setup \<Rightarrow> unit pr" where
  "printNetworkDiagnostics host env su =
     pr_then (print_lines [ip_line host]) (\<lambda>_.
     pr_then (multicastMemberships env su) (\<lambda>(ok, out, message).
       if \<not> ok \<and> out = [] then
         print_lines (status_line ''WARN'' (''Multicast: unable to inspect group membership ('' @ message @ '')'')
           # map (\<lambda>(name, a). status_line ''INFO'' (name @ '': '' @ a)) multicastGroups)
       else print_lines (map (group_line (toLowerCase out)) multicastGroups)))"

subsection \<open>Resources\<close>

record disk_usage =
  du_availableBytes :: int
  du_capacity :: string
  du_mount :: string

text \<open>\<open>Number.parseInt(v, 10)\<close>.\<close>

definition number_parseInt :: "string \<Rightarrow> int option" where
  "number_parseInt v =
     (case sign_of (trimStart v) of (s, r) \<Rightarrow>
        let ds = takeWhile is_digit r in if ds = [] then None else Some (s * int (digits_val ds)))"

definition column :: "string list \<Rightarrow> nat \<Rightarrow> string" where
  "column cs i = (if i < length cs then cs ! i else [])"

text \<open>\<open>line.trim().split(/\s+/)\<close> of a line that is not blank.\<close>

definition line_columns :: "string \<Rightarrow> string list" where
  "line_columns line = (if trim line = [] then [[]] else filter (\<lambda>w. w \<noteq> []) (split_runs is_ws (trim line)))"

definition parse_disk_usage :: "string \<Rightarrow> disk_usage option" where
  "parse_disk_usage out =
     (let ls = split_lines (trim out); line = column ls 1; cs = line_columns line in
      if line = [] then None
      else map_option (\<lambda>kib. \<lparr>du_availableBytes = kib * 1024, du_capacity = column cs 4, du_mount = last cs\<rparr>) (number_parseInt (column cs 3)))"

definition diskUsage :: "pr_env \<Rightarrow> pr_setup \<Rightarrow> disk_usage option pr" where
  "diskUsage env su =
     pr_then (commandResult env su ''df'' [''-k'', file_string (su_root su)]) (\<lambda>r.
       pr_value (if \<not> cr_ok r \<or> cr_stdout r = [] then None else parse_disk_usage (cr_stdout r)))"

definition byte_text :: "int \<Rightarrow> string" where
  "byte_text v = (if v < 0 then toFixed (of_int v) 0 @ '' B'' else formatBytesLocal (nat v))"

definition disk_line :: "pr_setup \<Rightarrow> disk_usage option \<Rightarrow> string" where
  "disk_line su disk =
     (case disk of
        None \<Rightarrow> status_line ''WARN'' (''Disk: unable to inspect '' @ file_string (su_root su))
      | Some d \<Rightarrow> status_line (if du_availableBytes d \<ge> 10 * 1024 ^ 3 then ''OK'' else ''WARN'')
          (''Disk: '' @ byte_text (du_availableBytes d) @ '' free at '' @ (if du_mount d \<noteq> [] then du_mount d else file_string (su_root su))
            @ '' ('' @ (if du_capacity d \<noteq> [] then du_capacity d else ''unknown'') @ '' used)''))"

definition load_line :: "pr_host \<Rightarrow> string" where
  "load_line host =
     (case ph_load host of (one, five, fifteen) \<Rightarrow>
        status_line (if one \<le> of_nat (max 1 (ph_cpus host)) then ''OK'' else ''WARN'')
          (''CPU: '' @ nat_str (ph_cpus host) @ '' cores, load '' @ toFixed one 2 @ '' / '' @ toFixed five 2 @ '' / '' @ toFixed fifteen 2))"

definition memory_line :: "pr_host \<Rightarrow> string" where
  "memory_line host =
     status_line (if (of_nat (ph_freemem host) :: rat) / of_nat (max 1 (ph_totalmem host)) \<ge> 1 / 10 then ''OK'' else ''WARN'')
       (''Memory: '' @ formatBytesLocal (ph_freemem host) @ '' free / '' @ formatBytesLocal (ph_totalmem host) @ '' total'')"

definition printResourceDiagnostics :: "pr_host \<Rightarrow> pr_env \<Rightarrow> pr_setup \<Rightarrow> unit pr" where
  "printResourceDiagnostics host env su =
     pr_then (diskUsage env su) (\<lambda>disk. print_lines [disk_line su disk, load_line host, memory_line host])"

subsection \<open>Tools\<close>

definition version_args :: "string \<Rightarrow> string list list" where
  "version_args commandName = nullish (map_of [(''go'', [[''version'']]), (''ros2'', [[''--help'']]), (''nats-server'', [[''--version''], [''-v'']])]
     commandName) [[''--version'']]"

fun first_version :: "pr_env \<Rightarrow> pr_setup \<Rightarrow> string \<Rightarrow> string list list \<Rightarrow> string pr" where
  "first_version env su commandName [] = pr_value []"
| "first_version env su commandName (args # others) =
     pr_then (commandResult env su commandName args) (\<lambda>r.
       if cr_ok r
       then let line = firstLine (if cr_stdout r \<noteq> [] then cr_stdout r else cr_stderr r)
         in pr_value (if line \<noteq> [] then line else ''available'')
       else first_version env su commandName others)"

definition versionLine :: "pr_env \<Rightarrow> pr_setup \<Rightarrow> string \<Rightarrow> string pr" where
  "versionLine env su commandName = first_version env su commandName (version_args commandName)"

fun print_tools :: "pr_env \<Rightarrow> pr_setup \<Rightarrow> string list \<Rightarrow> unit pr" where
  "print_tools env su [] = pr_value ()"
| "print_tools env su (commandName # others) =
     pr_then (versionLine env su commandName) (\<lambda>v.
     pr_then (print_lines [if v \<noteq> [] then status_line ''OK'' (commandName @ '': '' @ v) else status_line ''WARN'' (commandName @ '': not found on PATH'')])
       (\<lambda>_. print_tools env su others))"

definition docker_line :: "command_result \<Rightarrow> string" where
  "docker_line info =
     (if cr_ok info then status_line ''OK'' ''Docker daemon: running''
      else status_line ''WARN'' (''Docker daemon: not reachable ('' @ cr_errorMessage info @ '')''))"

definition nats_line :: "command_result \<Rightarrow> string" where
  "nats_line r =
     (if cr_ok r \<and> 1 < length (split_lines (trim (cr_stdout r))) then status_line ''OK'' ''NATS: listener found on tcp/4222''
      else status_line ''INFO'' ''NATS: no local listener found on tcp/4222'')"

definition printToolDiagnostics :: "pr_env \<Rightarrow> pr_setup \<Rightarrow> unit pr" where
  "printToolDiagnostics env su =
     pr_then (print_tools env su [''bun'', ''node'', ''npm'', ''go'', ''docker'', ''ros2'', ''nats-server'']) (\<lambda>_.
     pr_then (commandResult env su ''docker'' [''info'']) (\<lambda>info.
     pr_then (versionLine env su ''docker'') (\<lambda>docker.
     pr_then (if docker \<noteq> [] then print_lines [docker_line info] else pr_value ()) (\<lambda>_.
     pr_then (commandResult env su ''lsof'' [''-nP'', ''-iTCP:4222'', ''-sTCP:LISTEN'']) (\<lambda>r. print_lines [nats_line r])))))"

subsection \<open>Processes\<close>

text \<open>\<open>project.root?.startsWith(...)\<close> and the rest of the chain; what throws gives no tokens. A name that is no
  text throws in \<open>toLowerCase\<close>, unless it is dropped before.\<close>

definition name_token :: "json \<Rightarrow> string option result" where
  "name_token v =
     (case v of JString s \<Rightarrow> Inr (if s \<noteq> [] then Some (toLowerCase s) else None)
      | _ \<Rightarrow> if json_truthy v then Inl type_error_text else Inr None)"

definition project_tokens :: "project \<Rightarrow> string list result" where
  "project_tokens project =
     (case pj_get project ''root'' of
        JString r \<Rightarrow>
          if \<not> startsWith r ''module/'' then Inr []
          else rbind (name_token (pj_get project ''name'')) (\<lambda>name.
            rbind (name_token (JString (last (split_on (CHR ''/'') r)))) (\<lambda>leaf.
              Inr (List.map_filter id [name, leaf])))
      | JNull \<Rightarrow> Inr []
      | JUndefined \<Rightarrow> Inr []
      | _ \<Rightarrow> Inl type_error_text)"

definition runtimeProjectTokens :: "pr_env \<Rightarrow> pr_setup \<Rightarrow> node \<Rightarrow> string list" where
  "runtimeProjectTokens env su fs =
     (case rbind (loadProjects (ws_env env su) fs) (rmap project_tokens) of Inl e \<Rightarrow> [] | Inr ts \<Rightarrow> concat ts)"

record process_row =
  pw_pid :: nat
  pw_cpu :: rat
  pw_mem :: rat
  pw_command :: string
  pw_args :: string

text \<open>\<open>/^\s*(\d+)\s+([\d.]+)\s+([\d.]+)\s+(\S+)\s*(.*)$/\<close>.\<close>

definition cell :: "(char \<Rightarrow> bool) \<Rightarrow> string \<Rightarrow> (string \<times> string) option" where
  "cell p s =
     (let v = takeWhile p s; r = drop (length v) s in
      if v = [] \<or> r = [] \<or> \<not> is_ws (hd r) then None else Some (v, dropWhile is_ws r))"

definition process_row_of :: "string \<Rightarrow> process_row option" where
  "process_row_of line =
     Option.bind (cell is_digit (dropWhile is_ws line)) (\<lambda>(pid, r).
     Option.bind (cell is_num_char r) (\<lambda>(cpu, r).
     Option.bind (cell is_num_char r) (\<lambda>(mem, r).
       let command = takeWhile (\<lambda>c. \<not> is_ws c) r; args = dropWhile is_ws (drop (length command) r) in
       if command = [] \<or> list_ex is_term args then None
       else Option.bind (parseFloat cpu) (\<lambda>cpu. Option.bind (parseFloat mem) (\<lambda>mem.
         Some \<lparr>pw_pid = digits_val pid, pw_cpu = cpu, pw_mem = mem, pw_command = command, pw_args = (if args \<noteq> [] then args else command)\<rparr>)))))"

definition parseProcessDiagnostics :: "string \<Rightarrow> process_row list" where
  "parseProcessDiagnostics out = List.map_filter process_row_of (split_lines out)"

definition isRelevantRuntimeProcess :: "pr_setup \<Rightarrow> string list \<Rightarrow> process_row \<Rightarrow> bool" where
  "isRelevantRuntimeProcess su tokens row \<longleftrightarrow>
     (let haystack = toLowerCase (pw_command row @ '' '' @ pw_args row) in
      has_sub haystack (toLowerCase (file_string (su_root su)))
      \<or> list_ex (has_sub haystack) [''vlink'', ''pacific-rim'', ''pacific_rim'', ''pacific rim'', ''pr-monitor'', ''ros2'', ''nats'',
          ''smoke_001'', ''middleware_'']
      \<or> list_ex (\<lambda>token. 4 \<le> length token \<and> has_sub haystack token) tokens)"

definition shortenProcess :: "string \<Rightarrow> string" where
  "shortenProcess v = (let c = squeezed v in if length c > 140 then take 137 c @ ''...'' else c)"

definition pad_start :: "nat \<Rightarrow> string \<Rightarrow> string" where
  "pad_start width s = replicate (width - length s) SP @ s"

definition row_text :: "process_row \<Rightarrow> string" where
  "row_text row =
     ''  '' @ pad_start 6 (nat_str (pw_pid row)) @ ''  cpu='' @ toFixed (pw_cpu row) 1 @ ''% mem='' @ toFixed (pw_mem row) 1 @ ''%  ''
     @ shortenProcess (pw_args row)"

definition relevant_rows :: "pr_setup \<Rightarrow> string list \<Rightarrow> string \<Rightarrow> process_row list" where
  "relevant_rows su tokens out =
     take 12 (js_sort (\<lambda>l r. (if pw_cpu r < pw_cpu l then -1 else if pw_cpu l < pw_cpu r then 1 else 0))
       (filter (isRelevantRuntimeProcess su tokens) (parseProcessDiagnostics out)))"

definition process_report :: "process_row list \<Rightarrow> string list" where
  "process_report rows =
     (if rows = [] then [status_line ''WARN'' ''Processes: no matching VLink/Pacific-Rim runtime process found'']
      else status_line ''OK'' (''Processes: '' @ nat_str (length rows) @ '' matching runtime process'' @ (if length rows = 1 then [] else ''es''))
        # map row_text rows)"

definition printRuntimeProcessDiagnostics :: "pr_env \<Rightarrow> pr_setup \<Rightarrow> unit pr" where
  "printRuntimeProcessDiagnostics env su =
     pr_then (commandResult env su ''ps'' [''-axo'', ''pid=,pcpu=,pmem=,comm=,args='']) (\<lambda>r.
       if \<not> cr_ok r \<and> cr_stdout r = [] then
         status ''WARN'' (''Processes: unable to inspect process table ('' @ cr_errorMessage r @ '')'')
       else
         pr_then (pr_read (\<lambda>fs. Inr (runtimeProjectTokens env su fs))) (\<lambda>tokens.
           print_lines (process_report (relevant_rows su tokens (cr_stdout r)))))"

definition printDiagnostics :: "pr_host \<Rightarrow> pr_env \<Rightarrow> pr_setup \<Rightarrow> unit pr" where
  "printDiagnostics host env su =
     pr_then (print_lines [paint env ''$ ./pr check diag'' ''bold'', []]) (\<lambda>_.
     pr_then (printHostDiagnostics host) (\<lambda>_.
     pr_then (printNetworkDiagnostics host env su) (\<lambda>_.
     pr_then (printResourceDiagnostics host env su) (\<lambda>_.
     pr_then (printToolDiagnostics env su) (\<lambda>_. printRuntimeProcessDiagnostics env su)))))"

end
