(* ===== verification/Pr_Main.thy ===== *)
theory Pr_Main
  imports Pr_World Collector_Text Pr_Clean
begin

text \<open>
  \<open>./pr gen:interfaces\<close> and the ROS 2 commands (\<open>bin/pr.mjs\<close>): the packages that a command selects, the
  service and the files that the generator is given, and the environment of the ROS 2 container.
\<close>

subsection \<open>The packages of a command\<close>

definition selects_many :: "string \<Rightarrow> bool" where
  "selects_many arg \<longleftrightarrow> arg = ''--packages-select'' \<or> arg = ''--packages-up-to''"

definition package_value :: "string \<Rightarrow> bool" where
  "package_value v \<longleftrightarrow> v \<noteq> [] \<and> \<not> startsWith v ''-''"

function ros2PackagesFromArgs :: "string list \<Rightarrow> string list" where
  "ros2PackagesFromArgs [] = []"
| "ros2PackagesFromArgs (arg # rest) =
     (if arg = ''--package'' then
        (case rest of [] \<Rightarrow> [] | v # rest' \<Rightarrow> (if v \<noteq> [] then [v] else []) @ ros2PackagesFromArgs rest')
      else if selects_many arg then takeWhile package_value rest @ ros2PackagesFromArgs (dropWhile package_value rest)
      else if startsWith arg ''--packages-select='' then drop (length ''--packages-select='') arg # ros2PackagesFromArgs rest
      else if startsWith arg ''--packages-up-to='' then drop (length ''--packages-up-to='') arg # ros2PackagesFromArgs rest
      else if startsWith arg ''--package='' then drop (length ''--package='') arg # ros2PackagesFromArgs rest
      else ros2PackagesFromArgs rest)"
  by pat_completeness auto
termination by (relation "measure length") (auto simp: length_dropWhile_le le_imp_less_Suc)

subsection \<open>Options of the generator\<close>

record interface_options =
  io_service :: string
  io_config :: string
  io_protocols :: string
  io_generatorArgs :: "string list"

definition alias_lines :: "string list" where
  "alias_lines = [''Interface generation has one command form:'', ''  ./pr gen:interfaces --service <service_name>'']"

definition failInterfaceGenerationAlias :: "'a pr" where
  "failInterfaceGenerationAlias = pr_fail alias_lines"

definition old_service_option :: "string \<Rightarrow> bool" where
  "old_service_option v \<longleftrightarrow> v = ''--service_name'' \<or> v = ''--service-name''
     \<or> startsWith v ''--service_name='' \<or> startsWith v ''--service-name=''"

text \<open>The value of an option that needs one; a value must not look like an option.\<close>

definition option_given :: "string list \<Rightarrow> bool" where
  "option_given rest \<longleftrightarrow> (case rest of [] \<Rightarrow> False | v # _ \<Rightarrow> v \<noteq> [] \<and> \<not> startsWith v ''--'')"

text \<open>What is printed before the command gives up, or the options.\<close>

fun parseInterfaceGenerateArgs :: "interface_options \<Rightarrow> string list \<Rightarrow> string list + interface_options" where
  "parseInterfaceGenerateArgs opts [] = Inr opts"
| "parseInterfaceGenerateArgs opts (v # rest) =
     (if v = ''--service'' then
        if option_given rest then parseInterfaceGenerateArgs (opts\<lparr>io_service := hd rest\<rparr>) (tl rest)
        else Inl [''Missing value for --service.'']
      else if old_service_option v then Inl (''Use --service.'' # alias_lines)
      else if startsWith v ''--service='' then parseInterfaceGenerateArgs (opts\<lparr>io_service := drop (length ''--service='') v\<rparr>) rest
      else if v = ''--config'' then
        if option_given rest then parseInterfaceGenerateArgs (opts\<lparr>io_config := hd rest\<rparr>) (tl rest)
        else Inl [''Missing value for --config.'']
      else if startsWith v ''--config='' then parseInterfaceGenerateArgs (opts\<lparr>io_config := drop (length ''--config='') v\<rparr>) rest
      else if v = ''--protocols'' then
        if option_given rest then parseInterfaceGenerateArgs (opts\<lparr>io_protocols := hd rest\<rparr>) (tl rest)
        else Inl [''Missing value for --protocols.'']
      else if startsWith v ''--protocols='' then parseInterfaceGenerateArgs (opts\<lparr>io_protocols := drop (length ''--protocols='') v\<rparr>) rest
      else if \<not> startsWith v ''--'' \<and> io_service opts = [] then parseInterfaceGenerateArgs (opts\<lparr>io_service := v\<rparr>) rest
      else parseInterfaceGenerateArgs (opts\<lparr>io_generatorArgs := io_generatorArgs opts @ [v]\<rparr>) rest)"

definition no_interface_options :: interface_options where
  "no_interface_options = \<lparr>io_service = [], io_config = [], io_protocols = [], io_generatorArgs = []\<rparr>"

subsection \<open>The service and its files\<close>

text \<open>The names under which \<open>pr.mjs\<close> looks for a service; the command for data formats has others.\<close>

definition prServiceNames :: "string \<Rightarrow> string list" where
  "prServiceNames v =
     (let normalized = normalizeServiceInput v; leaf = basename normalized; base = replace_char (CHR ''-'') (CHR ''_'') leaf
      in filter (\<lambda>n. n \<noteq> []) (uniq ([normalized, leaf, base]
           @ (if base \<noteq> [] \<and> \<not> endsWith base ''_service'' then [base @ ''_service''] else []))))"

definition prServiceModuleRoot :: "pr_setup \<Rightarrow> string \<Rightarrow> path pr" where
  "prServiceModuleRoot su service =
     (let normalized = normalizeServiceInput service in
      if normalized = [] then pr_fail [''Missing service name. Usage: ./pr gen:interfaces --service <service_name>'']
      else pr_then (pr_read (\<lambda>fs. Inr (find (isDirectory fs)
          (resolve_path (su_root su) normalized
           # map (path_join (su_root su @ [''module'', ''service''])) (prServiceNames normalized))))) (\<lambda>found.
        case found of
          Some dir \<Rightarrow> pr_value dir
        | None \<Rightarrow> pr_fail [''Service module not found: '' @ service, ''Expected module/service/<service_name> or a direct module path.'']))"

definition findServiceConfigPath :: "pr_setup \<Rightarrow> path \<Rightarrow> string \<Rightarrow> path option pr" where
  "findServiceConfigPath su moduleRoot override =
     pr_read (\<lambda>fs. Inr (find (existsSync fs)
       (if override \<noteq> [] then [resolve_path (su_root su) override]
        else [moduleRoot @ [''config'', ''config.yaml''], moduleRoot @ [''src'', ''config'', ''config.yaml''], moduleRoot @ [''config.yaml'']])))"

definition resolveServiceConfigPath :: "pr_setup \<Rightarrow> path \<Rightarrow> string \<Rightarrow> path pr" where
  "resolveServiceConfigPath su moduleRoot override =
     pr_then (findServiceConfigPath su moduleRoot override) (\<lambda>found.
       case found of
         Some p \<Rightarrow> pr_value p
       | None \<Rightarrow> pr_fail [''config.yaml not found for '' @ path_relative (su_root su) moduleRoot,
           ''Expected config/config.yaml, src/config/config.yaml, or config.yaml.''])"

text \<open>\<open>/^\s*key:\s*(words)\s*$/m\<close>: the white space before and after may reach over lines.\<close>

definition line_starts_in :: "string \<Rightarrow> bool" where
  "line_starts_in before = (let w = takeWhile is_ws (rev before) in length w = length before \<or> list_ex is_term w)"

definition line_ends_in :: "string \<Rightarrow> bool" where
  "line_ends_in after = (let w = takeWhile is_ws after in length w = length after \<or> list_ex is_term w)"

definition declared_here :: "string \<Rightarrow> string list \<Rightarrow> string \<Rightarrow> string \<Rightarrow> bool" where
  "declared_here key ws before here =
     (case eat_text key here of
        None \<Rightarrow> False
      | Some r \<Rightarrow> line_starts_in before
          \<and> list_ex (\<lambda>w. case eat_text w (dropWhile is_ws r) of Some r' \<Rightarrow> line_ends_in r' | None \<Rightarrow> False) ws)"

fun declared_in :: "string \<Rightarrow> string list \<Rightarrow> string \<Rightarrow> string \<Rightarrow> bool" where
  "declared_in key ws before [] = declared_here key ws before []"
| "declared_in key ws before (c # cs) = (declared_here key ws before (c # cs) \<or> declared_in key ws (before @ [c]) cs)"

definition configDeclaresProviderRoutes :: "string \<Rightarrow> bool" where
  "configDeclaresProviderRoutes content \<longleftrightarrow>
     declared_in ''direction:'' [''server'', ''publish''] [] content \<or> declared_in ''role:'' [''server'', ''publisher''] [] content"

definition serviceIdlName :: "path \<Rightarrow> string" where
  "serviceIdlName moduleRoot = replace_char (CHR ''-'') (CHR ''_'') (if moduleRoot = [] then [] else last moduleRoot)"

definition warn_unpublished :: "pr_setup \<Rightarrow> path \<Rightarrow> path \<Rightarrow> unit pr" where
  "warn_unpublished su public configPath =
     pr_then (pr_read (\<lambda>fs. if existsSync fs public then Inr False
         else rbind (readFile fs configPath) (\<lambda>content. Inr (configDeclaresProviderRoutes content)))) (\<lambda>missing.
       if missing then
         error_lines [''Public interfaces.yaml not found for this service: '' @ path_relative (su_root su) public,
           ''Provider routes should be published under pkg/idl/<service_name>/public/interfaces.yaml.'']
       else pr_value ())"

definition resolveProtocolsPath :: "pr_setup \<Rightarrow> path \<Rightarrow> path \<Rightarrow> string \<Rightarrow> path pr" where
  "resolveProtocolsPath su moduleRoot configPath override =
     (if override \<noteq> [] then
        let protocols = resolve_path (su_root su) override in
        pr_then (pr_read (\<lambda>fs. Inr (isDirectory fs protocols))) (\<lambda>dir.
          if dir then pr_value protocols
          else pr_fail [''Protocol source directory not found: '' @ path_relative (su_root su) protocols])
      else
        let idlRoot = su_root su @ [''pkg'', ''idl''] in
        pr_then (warn_unpublished su (idlRoot @ [serviceIdlName moduleRoot, ''public'', ''interfaces.yaml'']) configPath)
          (\<lambda>_. pr_value idlRoot))"

subsection \<open>The generator\<close>

definition run_generator :: "pr_env \<Rightarrow> pr_setup \<Rightarrow> interface_options \<Rightarrow> path \<Rightarrow> path \<Rightarrow> nat pr" where
  "run_generator env su opts moduleRoot configPath =
     pr_then (resolveProtocolsPath su moduleRoot configPath (io_protocols opts)) (\<lambda>protocols.
     let rel = path_relative (su_root su) in
     pr_then (print_lines [''Generating interfaces for '' @ rel moduleRoot, ''  config: '' @ rel configPath, ''  idl: '' @ rel protocols]) (\<lambda>_.
       runShell env su ''node'' ([file_string (su_root su @ [''bin'', ''generate-interface-scaffold.mjs'']), rel moduleRoot,
         ''--config'', rel configPath, ''--protocols'', rel protocols] @ io_generatorArgs opts) (su_root su) []))"

definition runInterfaceScaffoldForModule ::
  "pr_env \<Rightarrow> pr_setup \<Rightarrow> bool \<Rightarrow> interface_options \<Rightarrow> path \<Rightarrow> nat pr" where
  "runInterfaceScaffoldForModule env su skipMissingConfig opts moduleRoot =
     pr_then (if skipMissingConfig then findServiceConfigPath su moduleRoot (io_config opts)
              else pr_then (resolveServiceConfigPath su moduleRoot (io_config opts)) (\<lambda>p. pr_value (Some p))) (\<lambda>found.
       case found of
         None \<Rightarrow>
           pr_then (print_lines [''Skipping interface generation for '' @ path_relative (su_root su) moduleRoot @ '': config.yaml not found.''])
             (\<lambda>_. pr_value 0)
       | Some configPath \<Rightarrow> run_generator env su opts moduleRoot configPath)"

definition runInterfaceScaffold :: "pr_env \<Rightarrow> pr_setup \<Rightarrow> string list \<Rightarrow> unit pr" where
  "runInterfaceScaffold env su commandArgs =
     pr_then (requireCommand env su ''node'' ''run interface scaffold generation'') (\<lambda>_.
     case parseInterfaceGenerateArgs no_interface_options commandArgs of
       Inl ls \<Rightarrow> pr_fail ls
     | Inr opts \<Rightarrow>
         pr_then (prServiceModuleRoot su (io_service opts)) (\<lambda>moduleRoot.
         pr_then (runInterfaceScaffoldForModule env su False opts moduleRoot) pr_exit))"

subsection \<open>ROS 2\<close>

definition found_projects :: "pr_env \<Rightarrow> pr_setup \<Rightarrow> node \<Rightarrow> string list \<Rightarrow> project list result" where
  "found_projects env su fs packages =
     rbind (rmap (findRos2ProjectByPackage (ws_env env su) fs) packages) (\<lambda>found. Inr (List.map_filter id found))"

fun ros2_projects :: "project list \<Rightarrow> project list result" where
  "ros2_projects [] = Inr []"
| "ros2_projects (p # ps) =
     rbind (includes_tag (pj_get p ''tags'') ''framework:ros2'') (\<lambda>ros2.
     rbind (ros2_projects ps) (\<lambda>rest. Inr (if ros2 then p # rest else rest)))"

definition ros2InterfaceProjectsFromArgs :: "pr_env \<Rightarrow> pr_setup \<Rightarrow> string list \<Rightarrow> node \<Rightarrow> project list result" where
  "ros2InterfaceProjectsFromArgs env su commandArgs fs =
     (let packages = ros2PackagesFromArgs commandArgs in
      rbind (if packages \<noteq> [] then found_projects env su fs packages
             else rbind (loadProjects (ws_env env su) fs) ros2_projects) (\<lambda>projects.
        Inr (map snd (fold (\<lambda>p. AList.update (pj_get p ''root'') p) projects []))))"

fun generate_each :: "pr_env \<Rightarrow> pr_setup \<Rightarrow> project list \<Rightarrow> unit pr" where
  "generate_each env su [] = pr_value ()"
| "generate_each env su (p # ps) =
     pr_then (pr_read (\<lambda>_. project_dir (ws_env env su) p)) (\<lambda>dir.
     pr_then (runInterfaceScaffoldForModule env su True no_interface_options dir) (\<lambda>code.
     pr_then (exit_unless_zero code) (\<lambda>_. generate_each env su ps)))"

definition generateInterfacesBeforeRos2Command :: "pr_env \<Rightarrow> pr_setup \<Rightarrow> string list \<Rightarrow> string \<Rightarrow> unit pr" where
  "generateInterfacesBeforeRos2Command env su commandArgs label =
     pr_then (requireCommand env su ''node'' (''generate interfaces before ROS2 '' @ label)) (\<lambda>_.
     pr_then (pr_read (ros2InterfaceProjectsFromArgs env su commandArgs)) (\<lambda>projects.
       if projects = [] then pr_value ()
       else pr_then (print_lines [''Generating interfaces before ROS2 '' @ label @ ''.'']) (\<lambda>_. generate_each env su projects)))"

text \<open>The environments that the selected packages ask for.\<close>

definition package_env :: "pr_env \<Rightarrow> pr_setup \<Rightarrow> node \<Rightarrow> string \<Rightarrow> (string \<times> string) list result" where
  "package_env env su fs packageName =
     rbind (findRos2ProjectByPackage (ws_env env su) fs packageName) (\<lambda>found.
       case found of Some project \<Rightarrow> ros2EnvFromProject project | None \<Rightarrow> Inr [])"

fun package_envs ::
  "pr_env \<Rightarrow> pr_setup \<Rightarrow> node \<Rightarrow> string list \<Rightarrow> (string \<times> (string \<times> string) list) list
     \<Rightarrow> (string \<times> (string \<times> string) list) list result" where
  "package_envs env su fs [] envs = Inr envs"
| "package_envs env su fs (p # ps) envs =
     rbind (package_env env su fs p) (\<lambda>e. package_envs env su fs ps (if e \<noteq> [] then AList.update p e envs else envs))"

definition env_summary :: "(string \<times> (string \<times> string) list) list \<Rightarrow> string" where
  "env_summary envs = join '', '' (map (\<lambda>(p, e). p @ '':{''
     @ concat (map (\<lambda>c. if c = CHR 0x0A then '', '' else [c]) (ros2EnvSignature e)) @ ''}'') envs)"

definition ros2_conflict :: "(string \<times> (string \<times> string) list) list \<Rightarrow> bool" where
  "ros2_conflict envs \<longleftrightarrow> 1 < length (uniq (map (\<lambda>(p, e). ros2EnvSignature e) envs))"

definition chosen_env :: "(string \<times> (string \<times> string) list) list \<Rightarrow> (string \<times> string) list" where
  "chosen_env envs = (case envs of [] \<Rightarrow> [] | (p, e) # rest \<Rightarrow> e)"

definition env_note :: "string list \<Rightarrow> (string \<times> string) list \<Rightarrow> unit pr" where
  "env_note packages e =
     (if e = [] then pr_value ()
      else print_lines [''ROS2 project env: '' @ join '' '' (env_lines e) @ '' ('' @ join '', '' packages @ '')''])"

definition runRos2Docker :: "pr_env \<Rightarrow> pr_setup \<Rightarrow> string list \<Rightarrow> unit pr" where
  "runRos2Docker env su commandArgs =
     pr_then (requireCommand env su ''docker'' ''run ROS2 Docker commands'') (\<lambda>_.
     let packages = ros2PackagesFromArgs commandArgs in
     pr_then (pr_read (\<lambda>fs. package_envs env su fs packages [])) (\<lambda>envs.
       if ros2_conflict envs then
         pr_fail [''Selected ROS2 packages use different ROS2 project environments ('' @ env_summary envs
           @ ''). Build or deploy them separately.'']
       else
         pr_then (env_note packages (chosen_env envs)) (\<lambda>_.
         pr_then (runShell env su ''scripts/ros2-docker.sh'' commandArgs (su_root su) (chosen_env envs)) pr_exit)))"

definition runRos2Build :: "pr_env \<Rightarrow> pr_setup \<Rightarrow> string list \<Rightarrow> unit pr" where
  "runRos2Build env su commandArgs =
     pr_then (generateInterfacesBeforeRos2Command env su commandArgs ''build'') (\<lambda>_. runRos2Docker env su (''build'' # commandArgs))"

definition runRos2Deploy :: "pr_env \<Rightarrow> pr_setup \<Rightarrow> string list \<Rightarrow> unit pr" where
  "runRos2Deploy env su commandArgs =
     pr_then (generateInterfacesBeforeRos2Command env su commandArgs ''deploy'') (\<lambda>_. runRos2Docker env su (''deploy-image'' # commandArgs))"

definition runRos2Run :: "pr_env \<Rightarrow> pr_setup \<Rightarrow> string list \<Rightarrow> unit pr" where
  "runRos2Run env su commandArgs =
     pr_then (requireCommand env su ''node'' ''run ROS2 module commands'') (\<lambda>_.
     pr_then (runShell env su ''node'' (''bin/ros2-run.mjs'' # commandArgs) (su_root su)
       [(''PR_COMMAND_LINE'', prCommandLine (pe_args env))]) pr_exit)"

text \<open>
  The commands of \<open>bin/pr.mjs\<close> for the dashboard and its data base, for the tests, and for the other programs
  of the repository.
\<close>

subsection \<open>The image of the data base\<close>

definition dashboardDir :: "pr_setup \<Rightarrow> path" where
  "dashboardDir su = su_root su @ [''dashboard'']"

definition dashboardPostgresImage :: string where
  "dashboardPostgresImage = ''postgres:17-alpine''"

definition dashboardPostgresImageArchive :: "pr_setup \<Rightarrow> path" where
  "dashboardPostgresImageArchive su = su_root su @ [''image'', ''postgres-17-alpine.tar'']"

definition archive_label :: "pr_setup \<Rightarrow> string" where
  "archive_label su = path_relative (su_root su) (dashboardPostgresImageArchive su)"

definition requireDashboardPackage :: "pr_setup \<Rightarrow> path pr" where
  "requireDashboardPackage su =
     (let p = dashboardDir su @ [''package.json''] in
      pr_then (pr_read (\<lambda>fs. Inr (existsSync fs p))) (\<lambda>present.
        if present then pr_value p else pr_fail [''Dashboard package was not found: '' @ path_relative (su_root su) p]))"

definition dockerImageInspect :: "pr_env \<Rightarrow> pr_setup \<Rightarrow> string \<Rightarrow> (pr_outcome \<times> string) pr" where
  "dockerImageInspect env su ref = runShellCaptured env su ''docker'' [''image'', ''inspect'', ref] (su_root su)"

definition captured_status :: "pr_outcome \<Rightarrow> nat" where
  "captured_status r = nullish (po_status r) 1"

definition dockerImageMissing :: "string \<Rightarrow> bool" where
  "dockerImageMissing output \<longleftrightarrow> list_ex (has_sub (toLowerCase output)) [''no such image'', ''not found'']"

definition shouldLoadDashboardPostgresImage :: "string \<Rightarrow> bool" where
  "shouldLoadDashboardPostgresImage output \<longleftrightarrow> list_ex (has_sub (toLowerCase output))
     [''failed to resolve reference'', ''pull access denied'', ''tls: failed to verify certificate'', ''x509: certificate'',
      ''certificate is valid for'', ''network is unreachable'', ''connection refused'', ''i/o timeout'', ''no such host'',
      ''temporary failure in name resolution'']"

definition archive_hint :: "pr_setup \<Rightarrow> string list" where
  "archive_hint su = [''No local image archive was found at '' @ archive_label su @ ''.'',
     ''On a machine that can pull Docker images, run:'', ''  ./pr dashboard:db:save-image'',
     ''Then copy '' @ archive_label su @ '' into this workspace and retry:'', ''  ./pr dashboard:db:start'']"

definition loadDashboardPostgresImageFromArchive :: "pr_env \<Rightarrow> pr_setup \<Rightarrow> bool pr" where
  "loadDashboardPostgresImageFromArchive env su =
     pr_then (requireCommand env su ''docker'' ''load the dashboard Postgres image archive'') (\<lambda>_.
     pr_then (pr_read (\<lambda>fs. Inr (existsSync fs (dashboardPostgresImageArchive su)))) (\<lambda>present.
       if \<not> present then pr_then (error_lines (archive_hint su)) (\<lambda>_. pr_value False)
       else
         pr_then (error_lines [''Loading '' @ dashboardPostgresImage @ '' from '' @ archive_label su @ ''.'']) (\<lambda>_.
         pr_then (runShell env su ''docker'' [''load'', ''-i'', file_string (dashboardPostgresImageArchive su)] (su_root su) []) (\<lambda>code.
           if code \<noteq> 0 then pr_value False
           else pr_then (dockerImageInspect env su dashboardPostgresImage) (\<lambda>(r, output).
             if captured_status r = 0 then pr_value True
             else pr_then (error_lines [''Loaded archive did not provide '' @ dashboardPostgresImage @ ''.'']) (\<lambda>_. pr_value False))))))"

subsection \<open>The commands of the data base\<close>

text \<open>\<open>dashboardDbNpmArgs\<close> is \<^const>\<open>script_args\<close>. One attempt to start: its output is shown, and a failure to run
  or a signal is handled as after any process.\<close>

definition db_start_attempt :: "pr_env \<Rightarrow> pr_setup \<Rightarrow> string list \<Rightarrow> (nat \<times> string) pr" where
  "db_start_attempt env su commandArgs =
     pr_then (runShellCaptured env su ''npm'' (script_args ''db:start'' commandArgs) (dashboardDir su)) (\<lambda>(r, output).
     pr_then (pr_emit (Wrote output)) (\<lambda>_.
     pr_then (after_process ''npm'' r) (\<lambda>code. pr_value (code, output))))"

definition runDashboardDbStart :: "pr_env \<Rightarrow> pr_setup \<Rightarrow> string list \<Rightarrow> unit pr" where
  "runDashboardDbStart env su commandArgs =
     pr_then (requireCommand env su ''npm'' ''start the dashboard database'') (\<lambda>_.
     pr_then (requireCommand env su ''docker'' ''start the dashboard database'') (\<lambda>_.
     pr_then (requireDashboardPackage su) (\<lambda>_.
     pr_then (db_start_attempt env su commandArgs) (\<lambda>(code, output).
       if code = 0 then pr_exit 0
       else if \<not> shouldLoadDashboardPostgresImage output then pr_exit code
       else
         pr_then (error_lines [dashboardPostgresImage @ '' could not be pulled. Trying local archive fallback.'']) (\<lambda>_.
         pr_then (loadDashboardPostgresImageFromArchive env su) (\<lambda>loaded.
           if \<not> loaded then pr_exit code
           else pr_then (db_start_attempt env su commandArgs) (\<lambda>(again, output'). pr_exit again)))))))"

definition save_image :: "pr_env \<Rightarrow> pr_setup \<Rightarrow> unit pr" where
  "save_image env su =
     pr_then (pr_change (\<lambda>fs. mkdir_rec fs (butlast (dashboardPostgresImageArchive su)))) (\<lambda>_.
     pr_then (print_lines [''Saving '' @ dashboardPostgresImage @ '' to '' @ archive_label su @ ''.'']) (\<lambda>_.
     pr_then (runShell env su ''docker''
       [''save'', ''-o'', file_string (dashboardPostgresImageArchive su), dashboardPostgresImage] (su_root su) []) pr_exit))"

definition runDashboardDbSaveImage :: "pr_env \<Rightarrow> pr_setup \<Rightarrow> string list \<Rightarrow> unit pr" where
  "runDashboardDbSaveImage env su commandArgs =
     (if commandArgs \<noteq> [] then pr_fail [''Usage: ./pr dashboard:db:save-image'']
      else
        pr_then (requireCommand env su ''docker'' ''save the dashboard Postgres image archive'') (\<lambda>_.
        pr_then (dockerImageInspect env su dashboardPostgresImage) (\<lambda>(r, output).
          if captured_status r = 0 then save_image env su
          else if \<not> dockerImageMissing output then
            pr_then (pr_emit (Wrote_Err output)) (\<lambda>_.
            pr_then (error_lines [''Could not inspect '' @ dashboardPostgresImage @ ''. Fix Docker access, then retry.'']) (\<lambda>_.
              pr_exit (captured_status r)))
          else
            pr_then (print_lines [''Pulling '' @ dashboardPostgresImage @ ''.'']) (\<lambda>_.
            pr_then (runShell env su ''docker'' [''pull'', dashboardPostgresImage] (su_root su) []) (\<lambda>code.
              if code \<noteq> 0 then pr_exit code else save_image env su)))))"

definition run_dashboard_script :: "pr_env \<Rightarrow> pr_setup \<Rightarrow> string \<Rightarrow> string list \<Rightarrow> unit pr" where
  "run_dashboard_script env su command commandArgs =
     pr_then (requireDashboardPackage su) (\<lambda>p.
     pr_then (pr_read (\<lambda>fs. rbind (readFile fs p) (pe_jsonParse env))) (\<lambda>package.
     pr_then (pr_read (\<lambda>_. json_prop package ''scripts'')) (\<lambda>scripts.
       if \<not> has_script (json_or scripts (JObject [])) command then pr_fail [''Dashboard script not found: '' @ command]
       else pr_then (runShell env su ''npm'' (script_args command commandArgs) (dashboardDir su) []) pr_exit)))"

definition runDashboardDbScript :: "pr_env \<Rightarrow> pr_setup \<Rightarrow> string \<Rightarrow> string list \<Rightarrow> unit pr" where
  "runDashboardDbScript env su command commandArgs =
     (if command = ''db:save-image'' then runDashboardDbSaveImage env su commandArgs
      else pr_then (requireCommand env su ''npm'' (''run dashboard '' @ command)) (\<lambda>_.
        if command = ''db:start'' then runDashboardDbStart env su commandArgs
        else run_dashboard_script env su command commandArgs))"

definition runDashboard :: "pr_env \<Rightarrow> pr_setup \<Rightarrow> string list \<Rightarrow> unit pr" where
  "runDashboard env su commandArgs =
     pr_then (requireCommand env su ''npm'' ''start the dashboard web application'') (\<lambda>_.
     pr_then (requireDashboardPackage su) (\<lambda>_.
     pr_then (runShell env su ''./restart-dashboard.sh'' commandArgs (su_root su) []) pr_exit))"

subsection \<open>The monitor and the robot profiles\<close>

definition monitor_args :: "string list \<Rightarrow> string list" where
  "monitor_args commandArgs = (case commandArgs of c # rest \<Rightarrow> if c = ''list'' then ''--list-processes'' # rest else commandArgs | [] \<Rightarrow> [])"

definition runMonitor :: "pr_env \<Rightarrow> pr_setup \<Rightarrow> string list \<Rightarrow> unit pr" where
  "runMonitor env su commandArgs =
     (let monitorRoot = su_root su @ [''monitor'', ''pr-monitor'']; monitorEntry = monitorRoot @ [''src'', ''index.ts''] in
      pr_then (requireCommand env su ''bun'' ''run pr-monitor'') (\<lambda>_.
      pr_then (pr_read (\<lambda>fs. Inr (existsSync fs monitorEntry,
          existsSync fs (monitorRoot @ [''node_modules'', ''@opentui'', ''core'', ''package.json''])))) (\<lambda>(entry, dependencies).
        if \<not> entry then pr_fail [''pr-monitor entry was not found: '' @ path_relative (su_root su) monitorEntry]
        else if \<not> dependencies then
          pr_fail [''pr-monitor dependencies are missing: @opentui/core was not found.'',
            ''Run ./setup.sh --no-install-system --skip-dashboard --skip-db, then retry ./pr monitor.'']
        else run_exit env su ''bun'' ([''run'', file_string monitorEntry] @ monitor_args commandArgs))))"

definition runRobotProfileCommand :: "pr_env \<Rightarrow> pr_setup \<Rightarrow> string \<Rightarrow> string list \<Rightarrow> unit pr" where
  "runRobotProfileCommand env su subcommand commandArgs =
     pr_then (requireCommand env su ''node'' ''run robot profile commands'') (\<lambda>_.
       run_exit env su ''node'' ([''bin/robot-profiles.mjs'', subcommand] @ commandArgs))"

subsection \<open>Tests\<close>

type_synonym pr_step = "string \<times> string list \<times> path"

definition serviceGoTestCommands :: "pr_setup \<Rightarrow> node \<Rightarrow> pr_step list result" where
  "serviceGoTestCommands su fs =
     (let serviceRoot = su_root su @ [''module'', ''service''] in
      if \<not> existsSync fs serviceRoot then Inr []
      else rbind (readdir fs serviceRoot) (\<lambda>es.
        Inr (map (\<lambda>dir. (''go'', [''test'', ''./...''], dir)) (filter (\<lambda>dir. existsSync fs (dir @ [''go.mod'']))
          (List.map_filter (\<lambda>(n, t). case t of Dir sub \<Rightarrow> Some (serviceRoot @ [n]) | _ \<Rightarrow> None) es)))))"

fun run_steps :: "pr_env \<Rightarrow> pr_setup \<Rightarrow> pr_step list \<Rightarrow> unit pr" where
  "run_steps env su [] = pr_value ()"
| "run_steps env su ((command, commandArgs, cwd) # steps) =
     pr_then (runShell env su command commandArgs cwd []) (\<lambda>code.
     pr_then (exit_unless_zero code) (\<lambda>_. run_steps env su steps))"

definition runGoTests :: "pr_env \<Rightarrow> pr_setup \<Rightarrow> unit pr" where
  "runGoTests env su =
     pr_then (requireCommand env su ''go'' ''run Go tests'') (\<lambda>_.
     pr_then (pr_read (serviceGoTestCommands su)) (\<lambda>services.
       run_steps env su ((''go'', [''test'', ''./communication/go/...'', ''./protocol/go/...'', ''./otel/go'', ''./trace/go'',
         ''./metric/go'', ''./log/go''], su_root su @ [''infra'']) # services)))"

definition runCommunicationChecks :: "pr_env \<Rightarrow> pr_setup \<Rightarrow> unit pr" where
  "runCommunicationChecks env su =
     pr_then (requireCommand env su ''node'' ''run communication architecture checks'') (\<lambda>_.
     pr_then (requireCommand env su ''go'' ''run communication Go tests'') (\<lambda>_.
     pr_then (pr_read (serviceGoTestCommands su)) (\<lambda>services.
       run_steps env su
         (map (\<lambda>script. (''node'', [script], su_root su))
            [''bin/test-interface-scaffold.mjs'', ''bin/test-create-scaffold.mjs'', ''bin/test-create-data-format.mjs'']
          @ [(''go'', [''test'', ''./communication/go/...'', ''./protocol/go/...''], su_root su @ [''infra''])]
          @ services))))"

text \<open>
  The commands of \<open>./pr\<close> (\<open>bin/pr.mjs\<close>) and the run as a whole. Every branch of the dispatch ends in
  \<open>process.exit\<close>, so that the tests of the command exclude each other as in a chain of \<open>else\<close>.
\<close>

subsection \<open>Help\<close>

definition usage_lines :: "string list" where
  "usage_lines = [
     [],
     ''Usage:'',
     ''  ./pr <npm-script> [args...]'',
     ''  ./pr run <npm-script> [args...]'',
     ''  ./pr scripts'',
     ''  ./pr doctor'',
     ''  ./pr clean [--dry-run] [--no-docker] [--docker-builder]'',
     ''  ./pr check [env|diag]'',
     ''  ./pr check:comm'',
     ''  ./pr dashboard [--daemon] [--no-open] [-- extra Next.js args]'',
     ''  ./pr dashboard:db:<start|push|stop|down|watch|studio|generate|migrate|save-image> [args...]'',
     ''  ./pr gen:interfaces --service <service_name> [--dry-run]'',
     ''  ./pr data-format --service <service_name> --kind <proto|msg|srv|dds_idl> --name <Type> (--file <path>|--data <text>|--stdin)'',
     ''  ./pr robot:profiles [--json]'',
     ''  ./pr robot:show <profile-id> [--json]'',
     ''  ./pr robot:check'',
     ''  ./pr robot:deploy <profile-id> [--dry-run] [ros2 deploy args...]'',
     ''  ./pr projects'',
     ''  ./pr monitor [args...]'',
     ''  ./pr test:go'',
     ''  ./pr npm <args...>'',
     ''  ./pr nx <args...>'',
     ''  ./pr docker <args...>'',
     [],
     ''Examples:'',
     ''  ./pr check'',
     ''  ./pr check env'',
     ''  ./pr check diag'',
     ''  ./pr clean --dry-run'',
     ''  ./pr check:comm'',
     ''  ./pr dashboard'',
     ''  ./pr dashboard --daemon'',
     ''  ./pr dashboard:db:start'',
     ''  ./pr dashboard:db:push'',
     ''  ./pr dashboard:db:save-image'',
     ''  ./pr gen:interfaces --service smoke_001_service'',
     ''  ./pr data-format --service smoke_001_service --kind msg --name RobotState --data '' @ quoted ''string robot_id'',
     ''  ./pr robot:profiles'',
     ''  ./pr robot:show pure-driver-sample'',
     ''  ./pr robot:deploy pure-driver-sample --dry-run --host 192.0.2.20 --domain-id 42'',
     ''  ./pr check:all'',
     ''  ./pr test:go'',
     ''  ./pr monitor -i upperbody'',
     ''  ./pr monitor list -i upperbody'',
     ''  ./pr ros2:build --packages-select smoke_test1'',
     ''  ./pr ros2:deploy-base-image'',
     ''  ./pr ros2:exec --network host ros2 topic list'',
     ''  ./pr ros2:deploy --host 192.0.2.20 --packages-select smoke_test1 --domain-id 42'',
     ''  ./pr create module navigation'',
     []]"

definition help_lines :: "pr_setup \<Rightarrow> string list" where
  "help_lines su = (package_text su ''name'' ''project'' @ '' command wrapper'') # usage_lines
     @ [''Available npm scripts:''] @ script_lines su"

definition failUnknown :: "string \<Rightarrow> unit pr" where
  "failUnknown command =
     pr_fail [''Unknown command or npm script: '' @ command, ''Run '' @ [CHR 0x27] @ ''./pr scripts'' @ [CHR 0x27] @ '' to list available npm scripts.'']"

subsection \<open>Checks of the workspace\<close>

fun print_edges :: "project list \<Rightarrow> unit pr" where
  "print_edges [] = pr_value ()"
| "print_edges (p # ps) =
     pr_then (pr_read (\<lambda>_. edge_list p)) (\<lambda>edges.
     pr_then (print_lines [''- '' @ pj_name p @ '' -> '' @ edges]) (\<lambda>_. print_edges ps))"

definition run_check :: "pr_env \<Rightarrow> pr_setup \<Rightarrow> unit pr" where
  "run_check env su =
     pr_then (pr_read (loadProjects (ws_env env su))) (\<lambda>projects.
     pr_then (pr_read (\<lambda>fs. pr_check_failures (ws_env env su) fs (su_package su) projects)) (\<lambda>failures.
       if failures \<noteq> [] then pr_fail failures
       else
         pr_then (print_lines [''Project graph:'']) (\<lambda>_.
         pr_then (print_edges projects) (\<lambda>_. print_lines [''Monorepo check passed.'']))))"

definition runCheckCommand :: "pr_host \<Rightarrow> pr_env \<Rightarrow> pr_setup \<Rightarrow> string list \<Rightarrow> unit pr" where
  "runCheckCommand host env su commandArgs =
     (case commandArgs of
        [] \<Rightarrow> run_check env su
      | subcommand # rest \<Rightarrow>
          if subcommand = [] then run_check env su
          else if subcommand \<in> set [''env'', ''environment''] then
            if rest \<noteq> [] then pr_fail [''Usage: ./pr check env''] else printEnvironmentCheck env
          else if subcommand \<in> set [''diag'', ''diagnose'', ''diagnostics'', ''doctor''] then
            if rest \<noteq> [] then pr_fail [''Usage: ./pr check diag''] else printDiagnostics host env su
          else pr_fail [''Unknown check subcommand: '' @ subcommand, ''Usage: ./pr check [env|diag]''])"

definition printProjectNames :: "pr_env \<Rightarrow> pr_setup \<Rightarrow> unit pr" where
  "printProjectNames env su =
     pr_then (pr_read (loadProjects (ws_env env su))) (\<lambda>projects. print_lines (map pj_name projects))"

subsection \<open>Dispatch\<close>

definition then_exit :: "unit pr \<Rightarrow> unit pr" where
  "then_exit m = pr_then m (\<lambda>_. pr_exit 0)"

definition tool_command :: "pr_env \<Rightarrow> pr_setup \<Rightarrow> string \<Rightarrow> string \<Rightarrow> string list \<Rightarrow> unit pr" where
  "tool_command env su tool purpose args = pr_then (requireCommand env su tool purpose) (\<lambda>_. run_exit env su tool args)"

definition npm_command :: "pr_env \<Rightarrow> pr_setup \<Rightarrow> string \<Rightarrow> string list \<Rightarrow> unit pr" where
  "npm_command env su command rest =
     (if command = ''run'' then
        (case rest of
           [] \<Rightarrow> pr_fail [''Missing npm script name.'']
         | scriptName # scriptArgs \<Rightarrow>
             if scriptName = [] then pr_fail [''Missing npm script name.'']
             else if \<not> has_script (su_scripts su) scriptName then failUnknown scriptName
             else runScript env su scriptName scriptArgs)
      else if command = ''npm'' then tool_command env su ''npm'' ''run npm'' rest
      else if command = ''npx'' then tool_command env su ''npx'' ''run npx'' rest
      else if command = ''nx'' then tool_command env su ''npx'' ''run nx'' (''nx'' # rest)
      else if command = ''docker'' then tool_command env su ''docker'' ''run docker'' rest
      else if has_script (su_scripts su) command then runScript env su command rest
      else failUnknown command)"

definition ros2_command :: "pr_env \<Rightarrow> pr_setup \<Rightarrow> string \<Rightarrow> string list \<Rightarrow> unit pr" where
  "ros2_command env su command rest =
     (if command = ''ros2:build'' then runRos2Build env su rest
      else if command = ''ros2:run'' then runRos2Run env su rest
      else if command = ''ros2:exec'' then runRos2Docker env su (''run'' # rest)
      else if command = ''ros2:deploy'' then runRos2Deploy env su rest
      else if command = ''ros2:build-image'' then runRos2Docker env su (''build-image'' # rest)
      else if command = ''ros2:deploy-base-image'' then runRos2Docker env su (''deploy-base-image'' # rest)
      else if command = ''ros2:shell'' then runRos2Docker env su (''shell'' # rest)
      else if command = ''observability:up'' then runRos2Docker env su (''up-observability'' # rest)
      else if command = ''observability:logs'' then runRos2Docker env su (''logs-observability'' # rest)
      else if command = ''observability:down'' then runRos2Docker env su (''down'' # rest)
      else npm_command env su command rest)"

definition generator_alias :: "string \<Rightarrow> string list \<Rightarrow> bool" where
  "generator_alias command rest \<longleftrightarrow>
     command = ''generate:interfaces'' \<or> command = ''interfaces:generate''
     \<or> command = ''create'' \<and> rest \<noteq> [] \<and> hd rest \<in> set [''proto'', ''/proto'', ''interfaces'', ''interface'']"

definition repo_command :: "pr_env \<Rightarrow> pr_setup \<Rightarrow> string \<Rightarrow> string list \<Rightarrow> unit pr" where
  "repo_command env su command rest =
     (if command = ''dashboard'' then runDashboard env su rest
      else if startsWith command ''dashboard:db:'' then runDashboardDbScript env su (drop (length ''dashboard:'') command) rest
      else if command = ''gen:interfaces'' then then_exit (runInterfaceScaffold env su rest)
      else if command \<in> set [''data-format'', ''data:format'', ''create:data-format''] then
        tool_command env su ''node'' ''create data formats'' (''bin/create-data-format.mjs'' # rest)
      else if command \<in> set [''robot:profiles'', ''robot:list''] then runRobotProfileCommand env su ''list'' rest
      else if command = ''robot:show'' then runRobotProfileCommand env su ''show'' rest
      else if command = ''robot:check'' then runRobotProfileCommand env su ''check'' rest
      else if command = ''robot:deploy'' then runRobotProfileCommand env su ''deploy'' rest
      else if generator_alias command rest then failInterfaceGenerationAlias
      else if command = ''projects'' then then_exit (printProjectNames env su)
      else if command = ''monitor'' then runMonitor env su rest
      else if command = ''test:go'' then then_exit (runGoTests env su)
      else ros2_command env su command rest)"

definition pr_command :: "(node \<Rightarrow> nat) \<Rightarrow> pr_host \<Rightarrow> pr_env \<Rightarrow> pr_setup \<Rightarrow> string \<Rightarrow> string list \<Rightarrow> unit pr" where
  "pr_command lstat host env su command rest =
     (if command \<in> set [''version'', ''--version'', ''-v''] then
        then_exit (print_lines [package_text su ''name'' ''project'' @ '' '' @ package_text su ''version'' ''0.0.0''])
      else if command \<in> set [''scripts'', ''list'', ''ls''] then then_exit (print_lines (script_lines su))
      else if command = ''doctor'' then then_exit (doctor env su)
      else if command = ''clean'' then then_exit (runClean lstat env su rest)
      else if command = ''check'' then then_exit (runCheckCommand host env su rest)
      else if command = ''check:comm'' then then_exit (runCommunicationChecks env su)
      else repo_command env su command rest)"

definition pr_main :: "(node \<Rightarrow> nat) \<Rightarrow> pr_host \<Rightarrow> pr_env \<Rightarrow> unit pr" where
  "pr_main lstat host env =
     pr_then (pr_start env) (\<lambda>su.
       case pe_args env of
         [] \<Rightarrow> then_exit (print_lines (help_lines su))
       | command # rest \<Rightarrow>
           if command \<in> set [''help'', ''--help'', ''-h''] then then_exit (print_lines (help_lines su))
           else pr_command lstat host env su command rest)"

text \<open>The run with its last line: the exit code and what has happened.\<close>

definition run_pr :: "(node \<Rightarrow> nat) \<Rightarrow> pr_host \<Rightarrow> pr_env \<Rightarrow> node \<Rightarrow> nat \<times> pr_state" where
  "run_pr lstat host env fs = pr_finish (pe_args env) (pr_main lstat host env \<lparr>ps_fs = fs, ps_events = []\<rparr>)"

end
