(* ===== verification/Pr_Props.thy ===== *)
theory Pr_Props
  imports Pr_Main Create_Module_Props Format_Agree
begin

text \<open>
  What the commands of \<open>./pr\<close> keep: secrets stay out of the last line, \<open>./pr clean\<close> removes nothing but the
  caches it lists, and the ROS 2 container runs in the environment of every package that was selected.
\<close>

subsection \<open>The last line\<close>

lemma redact_before:
  assumes "before = [] \<or> toLowerCase (last before) \<notin> set secretFlags"
  shows "redactCommandArgs (before @ after) = redactCommandArgs before @ redactCommandArgs after"
  using assms
proof (induction before rule: redactCommandArgs.induct)
  case (2 arg rest)
  show ?case
  proof (cases "toLowerCase arg \<in> set secretFlags")
    case secret: True
    then obtain v tail where rest: "rest = v # tail" using 2(4) by (cases rest) auto
    have "redactCommandArgs (tail @ after) = redactCommandArgs tail @ redactCommandArgs after"
      using 2(1) [OF secret rest] 2(4) rest secret by (cases "tail = []") auto
    then show ?thesis using secret rest by simp
  next
    case False
    then have "redactCommandArgs (rest @ after) = redactCommandArgs rest @ redactCommandArgs after"
      using 2 by (cases "rest = []"; cases "joined_secret arg") simp_all
    then show ?thesis using False by simp
  qed
qed simp

lemma toLowerCase_append: "toLowerCase (s @ t) = toLowerCase s @ toLowerCase t"
  by (simp add: toLowerCase_def)

lemma last_line: "last (ps_events (snd (run_pr lstat host env fs)))
    = status_event (pe_args env) (fst (run_pr lstat host env fs)) []"
  by (simp add: run_pr_def pr_finish_def split: prod.splits sum.splits pr_end.splits)

lemma flags_without_equals: "flag \<in> set secretFlags \<Longrightarrow> CHR ''='' \<notin> set flag"
  unfolding secretFlags_def by auto

lemma lower_equals: "lower_char c = CHR ''='' \<longleftrightarrow> c = CHR ''=''"
proof
  assume lower: "lower_char c = CHR ''=''"
  show "c = CHR ''=''"
  proof (cases "65 \<le> (of_char c :: nat) \<and> (of_char c :: nat) \<le> 222 \<and> lower_char c \<noteq> c")
    case True
    then have "lower_char c = char_of (of_char c + 32 :: nat)" by (auto simp: lower_char_def Let_def split: if_splits)
    then have "(of_char (CHR ''='') :: nat) = of_char (char_of (of_char c + 32 :: nat) :: char)" using lower by simp
    then have "(61 :: nat) = (of_char c + 32) mod 256" by simp
    then show ?thesis using True by simp
  next
    case False
    then show ?thesis using lower by (auto simp: lower_char_def Let_def split: if_splits)
  qed
qed (simp add: lower_char_def)

lemma joined_hidden:
  assumes "toLowerCase flag \<in> set secretFlags"
  shows "redactCommandArgs ((flag @ ''='' @ secret) # after) = (flag @ ''=<redacted>'') # redactCommandArgs after"
proof -
  have no: "CHR ''='' \<notin> set flag"
  proof
    assume "CHR ''='' \<in> set flag"
    then have "lower_char (CHR ''='') \<in> set (toLowerCase flag)" unfolding toLowerCase_def set_map by (rule imageI)
    then have "CHR ''='' \<in> set (toLowerCase flag)" by (simp only: lower_equals [THEN iffD2, OF refl])
    then show False using flags_without_equals [OF assms] by simp
  qed
  have eq: "lower_char (CHR ''='') = CHR ''=''" by (simp only: lower_equals)
  then have lower: "toLowerCase (flag @ ''='' @ secret) = toLowerCase flag @ ''='' @ toLowerCase secret"
    by (simp add: toLowerCase_def)
  have "toLowerCase (flag @ ''='' @ secret) \<notin> set secretFlags"
    using flags_without_equals [of "toLowerCase (flag @ ''='' @ secret)"] lower by force
  moreover have "joined_secret (flag @ ''='' @ secret)"
    using assms unfolding joined_secret_def list_ex_iff lower by (intro bexI [of _ "toLowerCase flag"]) simp_all
  moreover have "takeWhile (\<lambda>c. c \<noteq> CHR ''='') (flag @ ''='' @ secret) = flag"
    using no by (subst takeWhile_append2) auto
  ultimately show ?thesis by simp
qed

text \<open>A secret that is given to \<open>./pr\<close>, as the argument after a flag such as \<open>--password\<close> or joined to it,
  does not influence the last line of the run: two runs that differ only in the secret and end with the same exit code
  have the same last line.\<close>

theorem secret_not_in_last_line:
  assumes flag: "toLowerCase flag \<in> set secretFlags" and before: "before = [] \<or> toLowerCase (last before) \<notin> set secretFlags"
    and form: "given = (\<lambda>v. [flag, v]) \<or> given = (\<lambda>v. [flag @ ''='' @ v])"
    and one: "pe_args env = before @ given secret @ after" and other: "pe_args env' = before @ given secret' @ after"
    and code: "fst (run_pr lstat host env fs) = fst (run_pr lstat' host' env' fs')"
  shows "last (ps_events (snd (run_pr lstat host env fs))) = last (ps_events (snd (run_pr lstat' host' env' fs')))"
proof -
  have hidden: "redactCommandArgs (given v @ after) = redactCommandArgs (given v' @ after)" for v v'
    using form joined_hidden [OF flag] flag by auto
  have ne: "pe_args env \<noteq> []" "pe_args env' \<noteq> []" using one other form by auto
  have "prCommandLine (pe_args env) = prCommandLine (pe_args env')"
    using ne unfolding prCommandLine_def one other redact_before [OF before] hidden [of secret secret'] by simp
  then show ?thesis unfolding last_line status_event_def finalStatusMessage_def code by simp
qed

definition demo_pr_env :: "string list \<Rightarrow> pr_env" where
  "demo_pr_env args = \<lparr>pe_candidates = [[]], pe_cwd = [], pe_args = args, pe_environ = (\<lambda>n. None), pe_windows = False, pe_colors = False,
     pe_jsonParse = (\<lambda>content. Inr (JObject [])), pe_localeCompare = unit_compare,
     pe_spawn = (\<lambda>es fs p. (\<lparr>po_error = None, po_signal = None, po_status = Some 0, po_stdout = [], po_stderr = []\<rparr>, fs))\<rparr>"

definition demo_pr_host :: pr_host where
  "demo_pr_host = \<lparr>ph_hostname = [], ph_osType = [], ph_release = [], ph_interfaces = [], ph_cpus = 1, ph_load = (0, 0, 0), ph_totalmem = 1, ph_freemem = 1\<rparr>"

definition demo_workspace :: node where
  "demo_workspace = Dir [(''package.json'', File ''{}''), (''build'', Dir [(''a.o'', File ''x'')]), (''README.md'', File ''kept'')]"

definition demo_secret_run :: "string \<Rightarrow> nat \<times> pr_state" where
  "demo_secret_run secret =
     run_pr (\<lambda>t. 0) demo_pr_host (demo_pr_env ([''scripts''] @ [''--token'', secret] @ [])) demo_workspace"

lemma demo_secret_code: "fst (demo_secret_run ''abc'') = 0" "fst (demo_secret_run ''def'') = 0"
  by code_simp+

lemma secret_not_in_last_line_witness:
  "last (ps_events (snd (demo_secret_run ''abc''))) = last (ps_events (snd (demo_secret_run ''def'')))"
proof -
  have flag: "toLowerCase ''--token'' \<in> set secretFlags" by code_simp
  have before: "[''scripts''] = [] \<or> toLowerCase (last [''scripts'']) \<notin> set secretFlags" by code_simp
  have args: "pe_args (demo_pr_env as) = as" for as by (simp add: demo_pr_env_def)
  show ?thesis unfolding demo_secret_run_def
    by (rule secret_not_in_last_line [OF flag before disjI1 [OF refl] args args])
      (simp add: demo_secret_code [unfolded demo_secret_run_def, simplified])
qed

subsection \<open>What a run keeps of the files\<close>

text \<open>A property of the file system that a run does not lose.\<close>

definition pr_keeps :: "(node \<Rightarrow> bool) \<Rightarrow> 'a pr \<Rightarrow> bool" where
  "pr_keeps Q m \<longleftrightarrow> (\<forall>s. Q (ps_fs s) \<longrightarrow> Q (ps_fs (snd (m s))))"

named_theorems pr_keep

lemma pr_keeps_value [pr_keep]: "pr_keeps Q (pr_value x)"
  by (simp add: pr_keeps_def pr_value_def)

lemma pr_keeps_exit [pr_keep]: "pr_keeps Q (pr_exit c)"
  by (simp add: pr_keeps_def pr_exit_def)

lemma pr_keeps_read [pr_keep]: "pr_keeps Q (pr_read f)"
  by (simp add: pr_keeps_def pr_read_def split: sum.split)

lemma pr_keeps_event [pr_keep]: "pr_keeps Q (pr_emit e)"
  by (simp add: pr_keeps_def pr_emit_def)

lemma pr_keeps_then [pr_keep]: "\<lbrakk>pr_keeps Q m; \<And>x. pr_keeps Q (f x)\<rbrakk> \<Longrightarrow> pr_keeps Q (pr_then m f)"
  by (fastforce simp: pr_keeps_def pr_then_def split: prod.split sum.split)

lemma pr_keeps_if [pr_keep]: "\<lbrakk>pr_keeps Q m; pr_keeps Q m'\<rbrakk> \<Longrightarrow> pr_keeps Q (if b then m else m')"
  by simp

lemma pr_keeps_all [pr_keep]: "(\<And>m. m \<in> set ms \<Longrightarrow> pr_keeps Q m) \<Longrightarrow> pr_keeps Q (pr_all ms)"
  by (induction ms) (auto intro!: pr_keep)

lemma pr_keeps_print [pr_keep]: "pr_keeps Q (print_lines ls)" "pr_keeps Q (error_lines ls)" "pr_keeps Q (pr_fail ls)" "pr_keeps Q (status l m)"
  unfolding print_lines_def error_lines_def pr_fail_def status_def by (auto intro!: pr_keep)

text \<open>Processes that leave the files alone.\<close>

definition harmless :: "pr_env \<Rightarrow> bool" where
  "harmless env \<longleftrightarrow> (\<forall>es fs p. snd (pe_spawn env es fs p) = fs)"

lemma pr_keeps_spawn [pr_keep]: "harmless env \<Longrightarrow> pr_keeps Q (spawn env p)"
  by (simp add: pr_keeps_def harmless_def spawn_def case_prod_beta)

lemma pr_keeps_commands [pr_keep]:
  assumes "harmless env"
  shows "pr_keeps Q (hasCommand env su c)" "pr_keeps Q (commandResult env su c as)" "pr_keeps Q (runShell env su c as cwd extra)"
    "pr_keeps Q (exit_unless_zero n)"
  using assms unfolding hasCommand_def commandResult_def runShell_def after_process_def exit_unless_zero_def spawn_in_def Let_def
  by (auto intro!: pr_keep split: option.split)

lemma pr_keeps_docker:
  assumes "harmless env"
  shows "pr_keeps Q (cleanProjectDockerImages env su dry)" "pr_keeps Q (cleanDockerBuilderCache env su dry)"
  unfolding cleanProjectDockerImages_def cleanDockerBuilderCache_def with_docker_def Let_def
  by (auto intro!: pr_keep assms)

text \<open>As the rule for a sequence, for a second part that relies on the value of the first.\<close>

lemma pr_keeps_after:
  assumes "pr_keeps Q m" "\<And>s x s'. m s = (Inr x, s') \<Longrightarrow> pr_keeps Q (f x)"
  shows "pr_keeps Q (pr_then m f)"
  unfolding pr_keeps_def
proof (intro allI impI)
  fix s :: pr_state assume "Q (ps_fs s)"
  obtain r s' where m: "m s = (r, s')" by (cases "m s")
  then have "Q (ps_fs s')" using assms(1) \<open>Q (ps_fs s)\<close> by (auto simp: pr_keeps_def)
  then show "Q (ps_fs (snd (pr_then m f s)))"
    using assms(2) [of s _ s'] m by (cases r) (auto simp: pr_then_def pr_keeps_def)
qed

subsection \<open>Cleaning\<close>

lemma resolved_path: "resolveCleanPath root' c s = (Inr p, s') \<Longrightarrow> p = resolve_path root' c"
  by (auto simp: resolveCleanPath_def Let_def pr_fail_def pr_then_def error_lines_def pr_exit_def pr_value_def split: if_splits prod.splits sum.splits)

lemma resolved_paths: "resolve_all root' cs s = (Inr ps, s') \<Longrightarrow> ps = map (resolve_path root') cs"
proof (induction cs arbitrary: s ps s')
  case (Cons c cs)
  then show ?case using resolved_path by (fastforce simp: pr_then_def pr_value_def split: prod.splits sum.splits)
qed (simp add: pr_value_def)

lemma clean_paths:
  assumes "cleanWorkspacePaths root' s = (Inr ps, s')" "p \<in> set ps"
  shows "\<exists>c \<in> set clean_candidates. p = resolve_path root' c"
proof -
  obtain qs s1 where "resolve_all root' (uniq clean_candidates) s = (Inr qs, s1)" "set ps \<subseteq> set qs"
    using assms(1) by (auto simp: cleanWorkspacePaths_def pr_then_def pr_read_def split: prod.splits sum.splits)
  with resolved_paths [OF this(1)] assms(2) show ?thesis by auto
qed

lemma resolve_keeps [pr_keep]: "pr_keeps Q (resolve_all root' cs)"
  by (induction cs) (auto simp: resolveCleanPath_def Let_def intro!: pr_keep)

lemma clean_paths_keep [pr_keep]: "pr_keeps Q (cleanWorkspacePaths root')"
  unfolding cleanWorkspacePaths_def by (intro pr_keep)

lemma remove_keeps:
  assumes "\<not> prefix p q"
  shows "pr_keeps (\<lambda>fs. readFile fs q = Inr c) (removeCleanPath lstat root' dry p)"
proof -
  have "pr_keeps (\<lambda>fs. readFile fs q = Inr c) (pr_change (\<lambda>fs. Inr (rm_tree fs p)))"
    using rm_tree_other [OF assms] by (simp add: pr_keeps_def pr_change_def)
  then show ?thesis unfolding removeCleanPath_def Let_def by (auto intro!: pr_keep)
qed

lemma removes_keep:
  assumes "\<forall>p \<in> set ps. \<not> prefix p q"
  shows "pr_keeps (\<lambda>fs. readFile fs q = Inr c) (remove_paths lstat root' dry ps)"
  using assms by (induction ps) (auto intro!: pr_keep remove_keeps split: prod.splits option.splits)

lemma dry_removes_keep: "pr_keeps Q (remove_paths lstat root' True ps)"
  by (induction ps) (auto simp: removeCleanPath_def Let_def intro!: pr_keep split: prod.splits option.splits)

lemma clean_with_keeps:
  assumes "harmless env" "\<And>s ps s'. cleanWorkspacePaths (su_root su) s = (Inr ps, s') \<Longrightarrow> pr_keeps Q (remove_paths lstat (su_root su) (co_dryRun opts) ps)"
  shows "pr_keeps Q (clean_with lstat env su opts)"
  unfolding clean_with_def
proof (rule pr_keeps_after [OF clean_paths_keep])
  fix s ps s'
  assume "cleanWorkspacePaths (su_root su) s = (Inr ps, s')"
  from assms(2) [OF this] show "pr_keeps Q (pr_then (remove_paths lstat (su_root su) (co_dryRun opts) ps) (\<lambda>(removed_count, bytes).
     pr_then (print_lines [clean_summary (co_dryRun opts) removed_count bytes]) (\<lambda>_.
     pr_then (if co_docker opts then cleanProjectDockerImages env su (co_dryRun opts) else pr_value ()) (\<lambda>_.
       if co_builder opts then cleanDockerBuilderCache env su (co_dryRun opts) else pr_value ()))))"
    by (auto intro!: pr_keep pr_keeps_docker assms(1) split: prod.split)
qed

lemma dry_run_option: "clean_args opts args = Clean opts' \<Longrightarrow> co_dryRun opts \<or> ''--dry-run'' \<in> set args \<or> ''-n'' \<in> set args \<Longrightarrow> co_dryRun opts'"
  by (induction opts args rule: clean_args.induct) (auto split: if_splits)

text \<open>The caches of the repository, each as the names on the way to it.\<close>

definition cache_directories :: "path list" where
  "cache_directories =
     [[''.cache''], [''.nx'', ''cache''], [''.nx'', ''workspace-data''], [''build''], [''install''], [''log''], [''coverage''], [''dist''],
      [''out''], [''target''], [''test-results''], [''dashboard'', ''.turbo''], [''dashboard'', ''apps'', ''web'', ''.next''],
      [''dashboard'', ''apps'', ''web'', ''.turbo''], [''dashboard'', ''apps'', ''tui'', ''.turbo''],
      [''dashboard'', ''packages'', ''api'', ''dist''], [''dashboard'', ''packages'', ''db'', ''dist''],
      [''dashboard'', ''packages'', ''ui'', ''.turbo''], [''dashboard'', ''packages'', ''ui'', ''dist''],
      [''infra'', ''log'', ''dist''], [''infra'', ''metric'', ''dist''], [''infra'', ''otel'', ''dist''], [''infra'', ''trace'', ''dist''],
      [''monitor'', ''pr-monitor'', ''dist'']]"

definition plain_names :: "string \<Rightarrow> bool" where
  "plain_names c \<longleftrightarrow> \<not> isAbsolute c \<and> list_all (\<lambda>s. s \<notin> {[], ''.'', ''..''}) (split_on (CHR ''/'') c)"

lemma push_plain: "list_all (\<lambda>s. s \<notin> {[], ''.'', ''..''}) ss \<Longrightarrow> foldl push_segment p ss = p @ ss"
  by (induction ss arbitrary: p) (auto simp: push_segment_def)

lemma clean_candidates_plain:
  "list_all plain_names clean_candidates" "map (split_on (CHR ''/'')) clean_candidates = cache_directories"
  by code_simp+

lemma candidate_path:
  assumes "c \<in> set clean_candidates" shows "\<exists>d \<in> set cache_directories. resolve_path root' c = root' @ d"
  using clean_candidates_plain(1) assms unfolding clean_candidates_plain(2) [symmetric]
  by (auto simp: list_all_iff plain_names_def resolve_path_def path_join_def push_plain intro!: push_plain)

text \<open>C31. However \<open>./pr clean\<close> ends, it removes nothing but the caches of the repository: when the processes that it starts
  leave the files alone, every file that is not below one of the caches (\<open>cache_directories\<close>, below the root) is unchanged, and with
  \<open>--dry-run\<close> or \<open>-n\<close> among its arguments nothing is changed at all.\<close>

theorem clean_is_confined:
  assumes processes: "\<And>es fs p. snd (pe_spawn env es fs p) = fs"
    and run: "runClean lstat env su args s = (r, s')"
  shows "(\<forall>q c. (\<forall>d \<in> set cache_directories. \<not> prefix (su_root su @ d) q)
        \<longrightarrow> readFile (ps_fs s) q = Inr c \<longrightarrow> readFile (ps_fs s') q = Inr c)
    \<and> (''--dry-run'' \<in> set args \<or> ''-n'' \<in> set args \<longrightarrow> ps_fs s' = ps_fs s)"
proof (intro conjI allI impI)
  have harmless: "harmless env" using processes by (simp add: harmless_def)
  let ?opts = "\<lparr>co_dryRun = False, co_docker = True, co_builder = False\<rparr>"
  have keeps: "pr_keeps Q (runClean lstat env su args)"
    if "\<And>opts. clean_args ?opts args = Clean opts \<Longrightarrow> pr_keeps Q (clean_with lstat env su opts)" for Q
    using that unfolding runClean_def by (auto intro!: pr_keep split: clean_request.split)
  {
    fix q c
    assume outside: "\<forall>d \<in> set cache_directories. \<not> prefix (su_root su @ d) q" and here: "readFile (ps_fs s) q = Inr c"
    have "pr_keeps (\<lambda>fs. readFile fs q = Inr c) (runClean lstat env su args)"
      using clean_paths candidate_path outside by (intro keeps clean_with_keeps [OF harmless] removes_keep) metis
    then show "readFile (ps_fs s') q = Inr c" using here run by (auto simp: pr_keeps_def)
  next
    assume "''--dry-run'' \<in> set args \<or> ''-n'' \<in> set args"
    then have "co_dryRun opts" if "clean_args ?opts args = Clean opts" for opts using dry_run_option [OF that] by blast
    then have "pr_keeps (\<lambda>fs. fs = ps_fs s) (runClean lstat env su args)"
      by (intro keeps clean_with_keeps [OF harmless]) (simp add: dry_removes_keep)
    then show "ps_fs s' = ps_fs s" using run by (auto simp: pr_keeps_def)
  }
qed

definition demo_setup :: pr_setup where
  "demo_setup = \<lparr>su_root = [], su_package = JObject [], su_scripts = JObject []\<rparr>"

definition demo_clean :: "(pr_end + unit) \<times> pr_state" where
  "demo_clean = runClean (\<lambda>t. 1) (demo_pr_env []) demo_setup [''--no-docker''] \<lparr>ps_fs = demo_workspace, ps_events = []\<rparr>"

lemma demo_clean_runs:
  "readFile (ps_fs (snd demo_clean)) [''build'', ''a.o''] = Inl ''ENOENT'' \<and> readFile demo_workspace [''README.md''] = Inr ''kept''
    \<and> list_all (\<lambda>d. \<not> prefix (su_root demo_setup @ d) [''README.md'']) cache_directories"
  by code_simp

lemma clean_is_confined_witness:
  "readFile (ps_fs (snd demo_clean)) [''README.md''] = Inr ''kept'' \<and> readFile (ps_fs (snd demo_clean)) [''build'', ''a.o''] = Inl ''ENOENT''"
proof -
  have "snd (pe_spawn (demo_pr_env []) es fs p) = fs" for es fs p by (simp add: demo_pr_env_def)
  from clean_is_confined [of "demo_pr_env []", OF this, of "\<lambda>t. 1" demo_setup "[''--no-docker'']" "\<lparr>ps_fs = demo_workspace, ps_events = []\<rparr>" "fst demo_clean" "snd demo_clean"]
  show ?thesis using demo_clean_runs by (simp add: demo_clean_def list_all_iff)
qed

subsection \<open>The environment of the container\<close>

lemma print_lines_run: "print_lines ls s = (Inr (), s\<lparr>ps_events := ps_events s @ map Out ls\<rparr>)"
  unfolding print_lines_def by (induction ls arbitrary: s) (simp_all add: pr_then_def pr_emit_def pr_value_def)

lemma error_lines_run: "error_lines ls s = (Inr (), s\<lparr>ps_events := ps_events s @ map Err ls\<rparr>)"
  unfolding error_lines_def by (induction ls arbitrary: s) (simp_all add: pr_then_def pr_emit_def pr_value_def)

lemma pr_fail_run: "pr_fail ls s = (Inl (Exited 1), s\<lparr>ps_events := ps_events s @ map Err ls\<rparr>)"
  by (simp add: pr_fail_def pr_then_def error_lines_run pr_exit_def)

lemmas pr_runs = print_lines_run error_lines_run pr_fail_run pr_then_def pr_emit_def pr_value_def pr_exit_def pr_read_def

lemma spawn_run:
  "spawn env q s = (Inr (fst (pe_spawn env (ps_events s) (ps_fs s) q)),
     s\<lparr>ps_fs := snd (pe_spawn env (ps_events s) (ps_fs s) q), ps_events := ps_events s @ [Started q]\<rparr>)"
  by (simp add: spawn_def case_prod_beta)

lemma require_started:
  assumes "requireCommand env su c purpose s = (r, s')" "\<And>es fs p. pp_args p = [''--version''] \<Longrightarrow> snd (pe_spawn env es fs p) = fs"
  shows "ps_fs s' = ps_fs s" "Started p \<in> set (ps_events s') \<Longrightarrow> Started p \<in> set (ps_events s) \<or> pp_command p = executable env c"
  using assms(1) by (auto simp: requireCommand_def hasCommand_def spawn_in_def spawn_run pr_runs assms(2) split: if_splits)

lemma shell_started:
  assumes "runShell env su c as cwd extra s = (r, s')" "Started p \<in> set (ps_events s')"
  shows "Started p \<in> set (ps_events s)
    \<or> p = \<lparr>pp_command = executable env c, pp_args = as, pp_cwd = cwd, pp_env = commandEnv env su c @ extra\<rparr>"
  using assms by (auto simp: runShell_def after_process_def spawn_in_def spawn_run pr_runs split: option.splits)

lemma package_envs_kept:
  assumes "package_envs env su fs ps envs = Inr envs'" "package_env env su fs name = Inr e" "e \<noteq> []"
    "name \<in> set ps \<or> map_of envs name = Some e"
  shows "map_of envs' name = Some e"
  using assms
proof (induction ps arbitrary: envs)
  case (Cons p ps)
  obtain e' where e': "package_env env su fs p = Inr e'" using Cons.prems(1) by (cases "package_env env su fs p") simp_all
  let ?next = "if e' \<noteq> [] then AList.update p e' envs else envs"
  have "name \<in> set ps \<or> map_of ?next name = Some e"
    using Cons.prems(2,3,4) e' by (auto simp: update_conv' fun_upd_def)
  then show ?case using Cons.IH [of ?next] Cons.prems(1,2,3) e' by simp
qed simp

lemma env_note_run: "\<exists>ls. env_note packages e s = (Inr (), s\<lparr>ps_events := ps_events s @ map Out ls\<rparr>)"
proof (cases "e = []")
  case True
  then show ?thesis by (intro exI [of _ "[]"]) (simp add: env_note_def pr_value_def)
next
  case False
  then show ?thesis unfolding env_note_def print_lines_run if_not_P [OF False] by blast
qed

lemma only_one: "\<lbrakk>length xs \<le> 1; x \<in> set xs; y \<in> set xs\<rbrakk> \<Longrightarrow> x = y"
  by (cases xs) auto

lemma chosen_agrees:
  assumes "\<not> ros2_conflict envs" "map_of envs name = Some e"
  shows "ros2EnvSignature (chosen_env envs) = ros2EnvSignature e"
proof -
  let ?sigs = "map (\<lambda>(p, e). ros2EnvSignature e) envs"
  have "length (uniq ?sigs) \<le> 1" using assms(1) by (simp add: ros2_conflict_def)
  then have same: "x = y" if "x \<in> set ?sigs" "y \<in> set ?sigs" for x y
    using only_one [of "uniq ?sigs" x y] that by (simp only: set_uniq)
  have "ros2EnvSignature (chosen_env envs) \<in> set ?sigs"
    using assms(2) by (cases envs) (auto simp: chosen_env_def)
  moreover have "ros2EnvSignature e \<in> set ?sigs" using map_of_SomeD [OF assms(2)] by force
  ultimately show ?thesis by (rule same)
qed

text \<open>Assignments that their text determines: no name has an equals sign, and nothing a line break.\<close>

definition plain_assignments :: "(string \<times> string) list \<Rightarrow> bool" where
  "plain_assignments e \<longleftrightarrow> (\<forall>(k, v) \<in> set e. CHR ''='' \<notin> set k \<and> LF \<notin> set k \<and> LF \<notin> set v)"

lemma env_lines_plain: "plain_assignments e \<Longrightarrow> \<forall>l \<in> set (env_lines e). LF \<notin> set l"
  by (auto simp: plain_assignments_def env_lines_def)

lemma env_lines_Nil: "env_lines e = [] \<longleftrightarrow> e = []"
proof -
  have "length (env_lines e) = length e" by (simp add: env_lines_def)
  then show ?thesis by (metis length_0_conv)
qed

lemma assignment_text: "CHR ''='' \<notin> set k \<Longrightarrow> CHR ''='' \<notin> set k' \<Longrightarrow> k @ ''='' @ v = k' @ ''='' @ v' \<Longrightarrow> k = k' \<and> v = v'"
  by (induction k arbitrary: k') (case_tac k'; auto)+

lemma same_lines:
  assumes "plain_assignments e" "plain_assignments e'" "set (env_lines e) = set (env_lines e')"
  shows "set e \<subseteq> set e'"
proof clarify
  fix k v assume kv: "(k, v) \<in> set e"
  then have "k @ ''='' @ v \<in> set (env_lines e')" unfolding assms(3) [symmetric] by (force simp: env_lines_def)
  then obtain k' v' where "(k', v') \<in> set e'" "k @ ''='' @ v = k' @ ''='' @ v'" by (auto simp: env_lines_def)
  with kv assms(1,2) assignment_text [of k k' v v'] show "(k, v) \<in> set e'" by (fastforce simp: plain_assignments_def)
qed

lemma join_lines_empty: "join_lines ls = [] \<Longrightarrow> [] \<notin> set ls \<Longrightarrow> ls = []"
  by (cases ls rule: remdups_adj.cases) auto

lemma env_lines_nonempty: "[] \<notin> set (env_lines e)"
  by (auto simp: env_lines_def)

lemma same_signature:
  assumes "ros2EnvSignature e = ros2EnvSignature e'" "plain_assignments e" "plain_assignments e'" "e' \<noteq> []"
  shows "set e = set e'"
proof -
  have "e \<noteq> []"
    using assms(1,4) join_lines_empty [OF _ env_lines_nonempty, of e'] env_lines_Nil [of e'] env_lines_Nil [of e]
    by (auto simp: ros2EnvSignature_def)
  then have "env_lines e = env_lines e'"
    using assms split_joined_lines [OF _ env_lines_plain] unfolding ros2EnvSignature_def by (metis env_lines_Nil)
  then show ?thesis using same_lines assms(2,3) by (metis subset_antisym)
qed

text \<open>C30. When a ROS 2 command reaches the container script, it passes its arguments on unchanged and runs in the
  environment that every selected package asks for: packages whose projects ask for different assignments are never built
  or deployed together. The environments are compared by their text, which determines them when no name has an equals
  sign and nothing has a line break. Asking a command for its version is taken
  to leave the files alone.\<close>

theorem ros2_environment_agrees:
  assumes versions: "\<And>es fs p. pp_args p = [''--version''] \<Longrightarrow> snd (pe_spawn env es fs p) = fs"
    and run: "runRos2Docker env su args s = (r, s')"
    and started: "Started p \<in> set (ps_events s')" "Started p \<notin> set (ps_events s)"
      "pp_command p = executable env ''scripts/ros2-docker.sh''"
  shows "pp_args p = args
    \<and> (\<forall>name e. name \<in> set (ros2PackagesFromArgs args) \<longrightarrow> package_env env su (ps_fs s) name = Inr e \<longrightarrow> e \<noteq> []
        \<longrightarrow> ros2EnvSignature (pp_env p) = ros2EnvSignature e
          \<and> (plain_assignments e \<longrightarrow> plain_assignments (pp_env p) \<longrightarrow> set (pp_env p) = set e))"
proof -
  let ?names = "ros2PackagesFromArgs args"
  obtain r1 s1 where req: "requireCommand env su ''docker'' ''run ROS2 Docker commands'' s = (r1, s1)" by fastforce
  have fs: "ps_fs s1 = ps_fs s" by (rule require_started(1) [OF req versions])
  have "executable env ''scripts/ros2-docker.sh'' \<noteq> executable env ''docker''" by (simp add: executable_def)
  then have not1: "Started p \<notin> set (ps_events s1)"
    using require_started(2) [OF req versions, of p] started(2,3) by metis
  obtain u where r1: "r1 = Inr u" using run req not1 started(1) by (cases r1) (simp_all add: runRos2Docker_def Let_def pr_then_def)
  obtain envs where envs: "package_envs env su (ps_fs s) ?names [] = Inr envs"
    using run req r1 fs not1 started(1) by (cases "package_envs env su (ps_fs s) ?names []") (simp_all add: runRos2Docker_def Let_def pr_then_def pr_read_def)
  have agree: "\<not> ros2_conflict envs"
  proof
    assume "ros2_conflict envs"
    then have "s' = s1\<lparr>ps_events := ps_events s1 @ map Err [''Selected ROS2 packages use different ROS2 project environments ('' @ env_summary envs
           @ ''). Build or deploy them separately.'']\<rparr>"
      using run req r1 fs envs by (simp add: runRos2Docker_def Let_def pr_then_def pr_read_def pr_fail_run)
    then show False using started(1) not1 by simp
  qed
  obtain ls where noted: "env_note ?names (chosen_env envs) s1 = (Inr (), s1\<lparr>ps_events := ps_events s1 @ map Out ls\<rparr>)"
    using env_note_run by blast
  define s2 where "s2 = s1\<lparr>ps_events := ps_events s1 @ map Out ls\<rparr>"
  obtain r3 s3 where shell: "runShell env su ''scripts/ros2-docker.sh'' args (su_root su) (chosen_env envs) s2 = (r3, s3)" by fastforce
  have "s' = s3" using run req r1 fs envs agree noted shell
    by (cases r3) (simp_all add: runRos2Docker_def Let_def pr_then_def pr_read_def pr_exit_def s2_def)
  moreover have "Started p \<notin> set (ps_events s2)" using not1 by (auto simp: s2_def)
  ultimately have p: "p = \<lparr>pp_command = executable env ''scripts/ros2-docker.sh'', pp_args = args, pp_cwd = su_root su,
      pp_env = commandEnv env su ''scripts/ros2-docker.sh'' @ chosen_env envs\<rparr>"
    using shell_started [OF shell] started(1) by blast
  have "ros2EnvSignature (pp_env p) = ros2EnvSignature e"
    if "name \<in> set ?names" "package_env env su (ps_fs s) name = Inr e" "e \<noteq> []" for name e
    using chosen_agrees [OF agree package_envs_kept [OF envs that(2,3)]] that(1) p by (simp add: commandEnv_def)
  note signature = this
  have "set (pp_env p) = set e"
    if "name \<in> set ?names" "package_env env su (ps_fs s) name = Inr e" "e \<noteq> []" "plain_assignments e" "plain_assignments (pp_env p)" for name e
    using same_signature [OF signature [OF that(1-3)] that(5,4,3)] .
  moreover have "pp_args p = args" using p by simp
  ultimately show ?thesis using signature by blast
qed

definition demo_ros2_env :: pr_env where
  "demo_ros2_env = (demo_pr_env [])\<lparr>pe_jsonParse := (\<lambda>content. Inr (JObject [
     (''name'', JString content), (''root'', JString (''module/'' @ content)), (''tags'', JArray [JString ''framework:ros2'', JString ''ros2:humble'']),
     (''ros2'', JObject [(''package'', JString content)])]))\<rparr>"

definition demo_ros2_state :: pr_state where
  "demo_ros2_state = \<lparr>ps_fs = Dir [(''module'', Dir [(''arm'', Dir [(''project.json'', File ''arm'')])])], ps_events = []\<rparr>"

definition demo_ros2_args :: "string list" where
  "demo_ros2_args = [''build'', ''--packages-select'', ''arm'']"

definition demo_ros2 :: "(pr_end + unit) \<times> pr_state" where
  "demo_ros2 = runRos2Docker demo_ros2_env demo_setup demo_ros2_args demo_ros2_state"

definition demo_script :: pr_process where
  "demo_script = \<lparr>pp_command = ''scripts/ros2-docker.sh'', pp_args = demo_ros2_args, pp_cwd = [], pp_env = [(''ROS_DISTRO'', ''humble'')]\<rparr>"

lemma demo_ros2_runs: "Started demo_script \<in> set (ps_events (snd demo_ros2))" "Started demo_script \<notin> set (ps_events demo_ros2_state)"
  "pp_command demo_script = executable demo_ros2_env ''scripts/ros2-docker.sh''"
  "package_env demo_ros2_env demo_setup (ps_fs demo_ros2_state) ''arm'' = Inr [(''ROS_DISTRO'', ''humble'')]"
  "ros2PackagesFromArgs demo_ros2_args = [''arm'']" "plain_assignments [(''ROS_DISTRO'', ''humble'')]" "plain_assignments (pp_env demo_script)"
  by code_simp+

lemma ros2_environment_agrees_witness:
  "pp_args demo_script = [''build'', ''--packages-select'', ''arm'']
    \<and> ros2EnvSignature (pp_env demo_script) = ros2EnvSignature [(''ROS_DISTRO'', ''humble'')]
    \<and> set (pp_env demo_script) = {(''ROS_DISTRO'', ''humble'')}"
proof -
  have "snd (pe_spawn demo_ros2_env es fs p) = fs" for es fs p by (simp add: demo_ros2_env_def demo_pr_env_def)
  from ros2_environment_agrees [of demo_ros2_env, OF this, of demo_setup demo_ros2_args demo_ros2_state "fst demo_ros2" "snd demo_ros2" demo_script]
  show ?thesis using demo_ros2_runs by (simp add: demo_ros2_def demo_ros2_args_def)
qed

end
