(* ===== verification/Spec2Isabelle.thy ===== *)
theory Spec2Isabelle
  imports Js_Sort Discovery_Props Yaml_Props Route_Parse_Props Formats_Props Snapshot_Props Handlers_Props
    Monitor_Keys_Props Deploy_Props Collectors_Props Monitor_Cli_Props Monitor_Draw_Props
    Scaffold_Props Scaffold_Files_Props Format_Limits Robot_Cli_Props
    Project_Check_Props Create_Module_Props Pr_Props
begin

text \<open>
  A verification library for Pacific-Rim: the dashboard's router and its deployment router, the terminal monitor
  \<open>pr-monitor\<close>, the scaffold that generates interfaces, and the commands of the repository.

  \<^bold>\<open>The program.\<close> A robotics repository keeps one service per directory of \<open>module/service\<close>. The
  routes of a service stand in its \<open>config.yaml\<close> (what it consumes and provides) and in
  \<open>public/interfaces.yaml\<close> (what others may use); its data formats stand under \<open>pkg/idl\<close>. The
  dashboard (\<open>dashboard/packages/api/src/routers/dashboard.ts\<close>) reads these files into summaries,
  and edits them line by line, without a YAML parser, so that comments and layout survive. The
  deployment router (\<open>deploy.ts\<close>) starts \<open>./pr ros2:deploy\<close> for the packages the user chose. The
  monitor (\<open>monitor/pr-monitor/src\<close>) discovers the routes of the whole project with a small YAML
  parser of its own, collects samples of the running system and shows them in a table. The scaffold
  (\<open>bin/generate-interface-scaffold.mjs\<close>, \<open>bin/interface-scaffold\<close>) reads the same files to generate the code of a
  module. The other scripts of \<open>bin\<close> check the workspace, create and remove modules, write data formats and deploy robot
  profiles; \<open>./pr\<close> (\<open>bin/pr.mjs\<close>) starts all of them.

  \<^bold>\<open>Theories and code, dashboard.\<close>
  \<^item> \<open>Js_Base\<close>, \<open>Js_Sort\<close>, \<open>Js_Values\<close>: the strings, the stable sort and the values of JavaScript, as far as the code
    uses them.
  \<^item> \<open>Yaml_Edit\<close>, \<open>Yaml_Blocks\<close>, \<open>Yaml_Store\<close>, \<open>Yaml_Props\<close>: finding, appending, replacing and
    deleting the block of a route (\<open>yamlChildBlockRange\<close>, \<open>replaceYamlRouteBlock\<close>,
    \<open>appendYamlRouteBlock\<close>, \<open>appendTopLevelYamlRouteBlock\<close>, \<open>replaceTopLevelYamlBlock\<close>). The locale \<open>route_store\<close> is the
    interface of a map from names to blocks; it is interpreted on both files. An edit with a well-formed block changes
    the block it is about and nothing else, and deleting undoes adding.
  \<^item> \<open>Route_Parse\<close>, \<open>Route_Parse_Props\<close>: the line state machine of \<open>parseCommunicationRoutes\<close>; what it
    lists is well formed, and every route that an edit can reach is listed.
  \<^item> \<open>Detail_Parse\<close>: the second state machine, for the page of a module
    (\<open>parseDetailCommunicationItems\<close>, \<open>mergeModuleCommunicationItems\<close>).
  \<^item> \<open>Names\<close>, \<open>Repo_Files\<close>, \<open>Repo_Files_Props\<close>: validation of names, JSON readers, paths, walks, and the
    check of paths in \<open>absoluteRepoPath\<close>.
  \<^item> \<open>Formats\<close>, \<open>Formats_Props\<close>: proto, ROS 2 and DDS definitions, rendered, edited and parsed back.
  \<^item> \<open>Repo_Read\<close>, \<open>Snapshot\<close>, \<open>Snapshot_Props\<close>, \<open>Robot_Profiles\<close>: what is read from the repository, the
    transport summary, and the snapshot that is cached for a second.
  \<^item> \<open>Handlers\<close>, \<open>Handlers_Props\<close>: the mutations of the router as functions on the file system and the
    cache, each with its whole effect.
  \<^item> \<open>Deploy\<close>, \<open>Deploy_Props\<close>: \<open>deploy.ts\<close> and the streaming route
    (\<open>app/api/deploy/stream/route.ts\<close>): arguments that cannot pass for options, requested packages deployed once and in
    their order up to the first failure, and a stream that does not show the password (the mutation that does not stream
    can show it).

  \<^bold>\<open>Theories and code, monitor.\<close>
  \<^item> \<open>Monitor_Types\<close>: \<open>types.ts\<close>, endpoint types as sets of bits in 32-bit words.
  \<^item> \<open>Monitor_Yaml\<close>, \<open>Monitor_Yaml_Props\<close>, \<open>Monitor_Yaml_Render\<close>: \<open>yaml.ts\<close>. The parser mutates nested
    objects through a stack of references; here the stack holds paths into the document, and an
    invariant says that they form a chain. Rendered documents are parsed back.
  \<^item> \<open>Discovery\<close>, \<open>Keyed_Merge\<close>, \<open>Discovery_Props\<close>: \<open>discovery.ts\<close>. The locale \<open>keyed_merge\<close> is the
    interface of "group by key in order of first occurrence"; it is interpreted on the merge of
    endpoint drafts, of process lists and of the targets of the scaffold.
  \<^item> \<open>Monitor_Model\<close>, \<open>Monitor_Model_Props\<close>, \<open>Monitor_Invariant\<close>: \<open>model.ts\<close>. A step relation of
    starting, the two halves of a collection, keys and frames, with an invariant over every
    reachable state.
  \<^item> \<open>Collector_Text\<close>, \<open>Collector_Metrics\<close>, \<open>Collector_Runtime\<close>, \<open>Collectors\<close>, \<open>Collectors_Props\<close>: \<open>collectors.ts\<close>, the
    process table, Prometheus, ROS 2 and native CycloneDDS, with the state that each collector keeps.
  \<^item> \<open>Monitor_Format\<close>, \<open>Monitor_Keys\<close>, \<open>Monitor_Keys_Props\<close>: \<open>format.ts\<close> and the keyboard and paging of
    \<open>index.ts\<close>.
  \<^item> \<open>Monitor_Cli\<close>, \<open>Monitor_Cli_Props\<close>, \<open>Monitor_Charts\<close>, \<open>Monitor_Draw\<close>, \<open>Monitor_Draw_Props\<close>: the options and listings of
    \<open>index.ts\<close>, and the calls on the terminal buffer that make a frame.

  \<^bold>\<open>Theories and code, scaffold.\<close>
  \<^item> \<open>Scaffold_Routes\<close>, \<open>Scaffold_Bindings\<close>, \<open>Scaffold_Types\<close>, \<open>Scaffold_Manifest\<close>, \<open>Scaffold_Compat\<close>, \<open>Scaffold_Props\<close>:
    \<open>manifest.mjs\<close> and \<open>compatibility.mjs\<close>, from the routes of a module to its interfaces, bindings and warnings.
  \<^item> The other \<open>Scaffold_\<close> theories: the parsers of definitions and of YAML, the catalog of protocols (\<open>protocols.mjs\<close>,
    \<open>file-walk.mjs\<close>, the parser files, \<open>yaml.mjs\<close>, \<open>generated-artifacts.mjs\<close>), and the files that are written and
    removed (\<open>generate-interface-scaffold.mjs\<close>). A format that the dashboard publishes is found in the catalog.

  \<^bold>\<open>Theories and code, commands.\<close>
  \<^item> \<open>Format_Text\<close>, \<open>Format_Command\<close>, \<open>Format_Command_Props\<close>, \<open>Format_Agree\<close>, \<open>Format_Limits\<close>: \<open>create-data-format.mjs\<close>;
    without \<open>--force\<close> it only adds, and it writes what the form of the dashboard writes.
  \<^item> \<open>Robot_Cli\<close>, \<open>Robot_Cli_Props\<close>: \<open>robot-profiles.mjs\<close>; only a checked profile is deployed.
  \<^item> \<open>Workspace\<close>, \<open>Project_Check\<close>, \<open>Project_Check_Npm\<close>, \<open>Project_Check_Props\<close>: \<open>workspace.mjs\<close>, \<open>check.mjs\<close>,
    \<open>check-project.mjs\<close> and the checks of \<open>pr.mjs\<close>; the layers of a workspace that passes hold along every chain of
    dependencies.
  \<^item> \<open>Create_Module\<close>, \<open>Create_Module_Props\<close>: \<open>create.mjs\<close> and \<open>remove.mjs\<close>; creating changes no file, removing is confined.
  \<^item> \<open>Pr_World\<close>, \<open>Pr_Clean\<close>, \<open>Pr_Main\<close>, \<open>Pr_Props\<close>: \<open>pr.mjs\<close> as a run that
    reads and changes files, starts processes and prints; cleaning removes the listed caches only, packages with different
    environments are not built together, and secrets stay out of the last line.

  \<^bold>\<open>Conventions.\<close> Strings are lists of characters (Latin-1); the white space of JavaScript is that of
  this range, letter case is that of this range too, and what is drawn on the screen is a list of code points. A regular
  expression is a function that matches it piece by piece. A \<open>throw\<close> is \<^const>\<open>Inl\<close> of its message, a missing value
  \<^const>\<open>None\<close>, a \<open>Map\<close> an association list in order of insertion. Numbers of the monitor are exact rationals: rounding
  of binary floating point is not modelled, \<open>toFixed\<close> is exact below $10^{21}$, and number literals of
  YAML have at most 15 significant digits. The key \<open>__proto__\<close> is taken as an ordinary key. The file
  system is a tree whose directories keep the order of their entries; failed system calls are their
  codes. Functions that stand in several scripts with the same text are one definition. Every recursion is structural or
  has a measure, but for the loop of the highlighting, which is partial and shown to end: there is no fuel.

  \<^bold>\<open>Parameters.\<close> What the code takes from outside is an argument: the collation of
  \<open>localeCompare\<close>, the results of \<open>JSON.parse\<close> and \<open>fetch\<close>, clock and time format, what processes print, how they end
  and what they change, the working directory, the environment and the host.

  \<^bold>\<open>Not modelled.\<close> React components and pages of the dashboard (rendering), its web server, data base
  and authentication glue, the native and terminal apps, the templates of generated code
  (\<open>bin/interface-scaffold/render*.mjs\<close>, \<open>naming.mjs\<close>), \<open>ros2-run.mjs\<close> and \<open>ros2-projects.mjs\<close>, test programs,
  infrastructure configuration and libraries, and the code in other languages.
\<close>

end
